(* ===== verification/Prelude.thy ===== *)
theory Prelude
  imports Main "HOL-Library.AList" "HOL-Library.Char_ord" "HOL-Library.List_Lexorder"
    "HOL-Library.Sublist"
begin

text \<open>
  Shared vocabulary of the development: Go's error values, sets and maps held in lists, the
  string helpers of Go's \<open>strings\<close> package that the code calls, and opaque JSON columns.

  \<^item> \<open>err\<close> is Go's \<open>error\<close>: the sentinel errors of the repository as constructors, an
    error made by \<open>fmt.Errorf\<close> as \<open>Err\<close> with its words, and an error wrapped with
    \<open>%w\<close> as \<open>Wrap\<close>. \<open>err_str\<close> is \<open>Error()\<close>. The fixed words of each format
    are kept; the quoting of \<open>%q\<close> is not reproduced.
  \<^item> A Go \<open>map[string]struct{}\<close> is a list without repetition; a \<open>map[string]V\<close> is an
    association list, read with \<open>adj_get\<close> or \<open>map_of\<close>.
  \<^item> A JSON column (\<open>[]byte\<close> in the Go struct) is a \<open>'a blob\<close>: empty, the encoding of a
    value, or bytes that do not decode. \<open>len(b) > 0\<close> is \<open>has_blob\<close>, \<open>json.Unmarshal\<close>
    is \<open>unblob\<close>, \<open>json.Marshal\<close> of a plain struct is \<open>Blob\<close>.
\<close>

named_theorems adj_simps \<open>reading and updating list-held maps\<close>
named_theorems go_simps \<open>unfolding of Go's small string and error helpers\<close>

section \<open>Errors\<close>

datatype err =
    Err string
  | Wrap string err
  | ErrTargetBusy
  | ErrNotFound
  | ErrFrozen string
  | ErrRateLimited
  | ErrForbidden string
  | ErrUnverifiedArtifact string string
  | ErrUnsupported
  | ErrNotLeader

text \<open>\<open>Error()\<close>: the rendered text of an error value.\<close>

fun err_str :: "err \<Rightarrow> string" where
  "err_str (Err s) = s"
| "err_str (Wrap p e) = p @ '': '' @ err_str e"
| "err_str ErrTargetBusy = ''engine: target busy: a rollout is already in progress''"
| "err_str ErrNotFound = ''store: not found''"
| "err_str (ErrFrozen why) =
     ''security: rollouts are frozen (emergency kill-switch active)'' @ (if why = [] then [] else '': '' @ why)"
| "err_str ErrRateLimited = ''security: agent rate limit exceeded''"
| "err_str (ErrForbidden s) = ''security: forbidden: '' @ s"
| "err_str (ErrUnverifiedArtifact ref detail) =
     ''security: artifact '' @ ref @ '' failed verification: '' @ detail"
| "err_str ErrUnsupported = ''engine: target does not support this operation''"
| "err_str ErrNotLeader = ''watch: not reconcile leader''"

type_synonym 'a res = "err + 'a"

definition is_err :: "'a res \<Rightarrow> bool" where
  "is_err r = (case r of Inl _ \<Rightarrow> True | Inr _ \<Rightarrow> False)"

lemma is_err_simps [simp]: "is_err (Inl e)" "\<not> is_err (Inr x)"
  by (simp_all add: is_err_def)

lemma is_err_iff: "is_err r \<longleftrightarrow> (\<exists>e. r = Inl e)"
  by (cases r) auto

section \<open>Opaque JSON columns\<close>

datatype 'a blob = NoBlob | Blob 'a | BadBlob

definition has_blob :: "'a blob \<Rightarrow> bool" where
  "has_blob b = (case b of NoBlob \<Rightarrow> False | _ \<Rightarrow> True)"

definition unblob :: "'a blob \<Rightarrow> 'a res" where
  "unblob b = (case b of Blob x \<Rightarrow> Inr x | _ \<Rightarrow> Inl (Err ''unexpected end of JSON input''))"

lemma has_blob_simps [simp]: "\<not> has_blob NoBlob" "has_blob (Blob x)" "has_blob BadBlob"
  by (simp_all add: has_blob_def)

lemma unblob_simps [simp]:
  "unblob (Blob x) = Inr x"
  "unblob NoBlob = Inl (Err ''unexpected end of JSON input'')"
  "unblob BadBlob = Inl (Err ''unexpected end of JSON input'')"
  by (simp_all add: unblob_def)

section \<open>Sets and maps held in lists\<close>

text \<open>Adding a key to a \<open>map[string]struct{}\<close>.\<close>

definition set_add :: "'a \<Rightarrow> 'a list \<Rightarrow> 'a list" where
  "set_add x xs = (if x \<in> set xs then xs else xs @ [x])"

lemma set_set_add [simp, adj_simps]: "set (set_add x xs) = insert x (set xs)"
  by (auto simp: set_add_def)

lemma distinct_set_add [simp, adj_simps]: "distinct (set_add x xs) = distinct xs"
  by (auto simp: set_add_def)

type_synonym adj = "(string \<times> string list) list"

text \<open>Reading a \<open>map[string]map[string]struct{}\<close>: a missing key gives the nil map.\<close>

definition adj_get :: "adj \<Rightarrow> string \<Rightarrow> string list" where
  "adj_get m k = (case map_of m k of None \<Rightarrow> [] | Some xs \<Rightarrow> xs)"

lemma adj_get_update [simp, adj_simps]:
  "adj_get (AList.update k v m) j = (if j = k then v else adj_get m j)"
  by (simp add: adj_get_def update_conv')

lemma adj_get_Nil [simp, adj_simps]: "adj_get [] k = []"
  by (simp add: adj_get_def)

text \<open>Every value an adjacency map can give, a finite set.\<close>

definition adj_univ :: "adj \<Rightarrow> string set" where
  "adj_univ m = (\<Union>p \<in> set m. set (snd p))"

lemma finite_adj_univ [simp]: "finite (adj_univ m)"
  by (simp add: adj_univ_def)

lemma adj_get_univ: "set (adj_get m k) \<subseteq> adj_univ m"
proof (cases "map_of m k")
  case None
  then show ?thesis by (simp add: adj_get_def)
next
  case (Some xs)
  then have "(k, xs) \<in> set m" by (rule map_of_SomeD)
  with Some show ?thesis by (force simp: adj_get_def adj_univ_def)
qed

section \<open>Strings\<close>

definition strings_HasPrefix :: "string \<Rightarrow> string \<Rightarrow> bool" where
  [go_simps]: "strings_HasPrefix s p = (take (length p) s = p)"

definition strings_HasSuffix :: "string \<Rightarrow> string \<Rightarrow> bool" where
  [go_simps]: "strings_HasSuffix s p = (length p \<le> length s \<and> drop (length s - length p) s = p)"

fun strings_Contains :: "string \<Rightarrow> string \<Rightarrow> bool" where
  "strings_Contains [] p = (p = [])"
| "strings_Contains (c # s) p = (strings_HasPrefix (c # s) p \<or> strings_Contains s p)"

definition is_space :: "char \<Rightarrow> bool" where
  "is_space c = (c \<in> {CHR '' '', CHR 0x09, CHR 0x0A, CHR 0x0B, CHR 0x0C, CHR 0x0D})"

text \<open>\<open>strings.Trim(s, cutset)\<close> and \<open>strings.TrimSpace\<close> on ASCII text.\<close>

definition trim_by :: "(char \<Rightarrow> bool) \<Rightarrow> string \<Rightarrow> string" where
  "trim_by f s = rev (dropWhile f (rev (dropWhile f s)))"

definition strings_TrimSpace :: "string \<Rightarrow> string" where
  "strings_TrimSpace s = trim_by is_space s"

lemma strings_HasPrefix_iff: "strings_HasPrefix s p \<longleftrightarrow> prefix p s"
  unfolding strings_HasPrefix_def prefix_def
  by (metis append_take_drop_id append_eq_conv_conj)

lemma strings_Contains_iff: "strings_Contains s p \<longleftrightarrow> sublist p s"
proof (induction s)
  case Nil
  then show ?case by simp
next
  case (Cons c s)
  then show ?case by (simp add: strings_HasPrefix_iff sublist_Cons_right)
qed

text \<open>\<open>strings.Split(s, sep)\<close> for a one-byte separator: always at least one piece.\<close>

fun split_on :: "char \<Rightarrow> string \<Rightarrow> string list" where
  "split_on c [] = [[]]"
| "split_on c (x # xs) =
     (if x = c then [] # split_on c xs
      else (case split_on c xs of [] \<Rightarrow> [[x]] | y # ys \<Rightarrow> (x # y) # ys))"

lemma split_on_ne [simp]: "split_on c s \<noteq> []"
  by (induction s) (auto split: list.splits)

fun strings_Join :: "string list \<Rightarrow> string \<Rightarrow> string" where
  "strings_Join [] sep = []"
| "strings_Join [x] sep = x"
| "strings_Join (x # xs) sep = x @ sep @ strings_Join xs sep"

lemma split_on_append: "split_on c (a @ c # b) = split_on c a @ split_on c b"
  by (induction a) (auto split: list.splits)

lemma split_on_whole: "c \<notin> set s \<Longrightarrow> split_on c s = [s]"
  by (induction s) auto

lemma split_on_pieces: "x \<in> set (split_on c s) \<Longrightarrow> c \<notin> set x"
  by (induction s arbitrary: x) (auto split: list.splits if_splits)

lemma split_on_Join: "ps \<noteq> [] \<Longrightarrow> (\<And>q. q \<in> set ps \<Longrightarrow> c \<notin> set q) \<Longrightarrow> split_on c (strings_Join ps [c]) = ps"
  by (induction ps "[c]" rule: strings_Join.induct) (auto simp: split_on_whole split_on_append)

text \<open>\<open>strings.IndexByte\<close> as the text before the first occurrence, and \<open>strings.TrimSuffix\<close>.\<close>

definition before_byte :: "string \<Rightarrow> char \<Rightarrow> string option" where
  "before_byte s c = (if c \<in> set s then Some (takeWhile (\<lambda>x. x \<noteq> c) s) else None)"

text \<open>\<open>strings.LastIndexByte\<close>, and the text before and after a byte position.\<close>

definition last_index :: "string \<Rightarrow> char \<Rightarrow> int" where
  "last_index s c = int (length s) - 1 - int (length (takeWhile (\<lambda>x. x \<noteq> c) (rev s)))"

definition strings_Cut :: "string \<Rightarrow> char \<Rightarrow> string \<times> string \<times> bool" where
  "strings_Cut s c =
     (if c \<in> set s then (takeWhile (\<lambda>x. x \<noteq> c) s, tl (dropWhile (\<lambda>x. x \<noteq> c) s), True) else (s, [], False))"

definition strings_TrimSuffix :: "string \<Rightarrow> string \<Rightarrow> string" where
  "strings_TrimSuffix s p = (if strings_HasSuffix s p then take (length s - length p) s else s)"

text \<open>\<open>%d\<close> of a non-negative and of any integer.\<close>

fun utoa :: "nat \<Rightarrow> string" where
  "utoa n = (if n < 10 then [char_of (48 + n)] else utoa (n div 10) @ [char_of (48 + n mod 10)])"

declare utoa.simps [simp del]

definition itoa :: "int \<Rightarrow> string" where
  "itoa i = (if i < 0 then ''-'' @ utoa (nat (- i)) else utoa (nat i))"

section \<open>Searching a list from its head\<close>

text \<open>The Go idiom "loop, return at the first match".\<close>

lemma find_None_iff': "find P xs = None \<longleftrightarrow> (\<forall>x \<in> set xs. \<not> P x)"
  by (induction xs) auto

lemma in_concat_nth: "x \<in> set (concat ls) \<longleftrightarrow> (\<exists>i < length ls. x \<in> set (ls ! i))"
proof
  assume "x \<in> set (concat ls)"
  then obtain l where "l \<in> set ls" "x \<in> set l" by auto
  then show "\<exists>i < length ls. x \<in> set (ls ! i)" by (metis in_set_conv_nth)
qed auto

text \<open>
  The Go idiom "skip what was seen": one element per key, the first in the list.
\<close>

fun first_per :: "('a \<Rightarrow> 'k) \<Rightarrow> 'k list \<Rightarrow> 'a list \<Rightarrow> 'a list" where
  "first_per key seen [] = []"
| "first_per key seen (x # xs) =
     (if key x \<in> set seen then first_per key seen xs else x # first_per key (key x # seen) xs)"

lemma first_per_mem:
  "x \<in> set (first_per key seen xs) \<longleftrightarrow> key x \<notin> set seen \<and> find (\<lambda>y. key y = key x) xs = Some x"
  by (induction key seen xs rule: first_per.induct) auto

lemma first_per_distinct: "distinct (map key (first_per key seen xs))"
  by (induction key seen xs rule: first_per.induct) (auto simp: first_per_mem)

lemma first_per_keys: "set (map key (first_per key seen xs)) = key ` set xs - set seen"
  by (induction key seen xs rule: first_per.induct) auto

lemma find_SomeD: "find P xs = Some x \<Longrightarrow> x \<in> set xs \<and> P x"
  by (induction xs) (auto split: if_splits)

section \<open>Replacing text\<close>

text \<open>\<open>strings.ReplaceAll\<close>: leftmost, non-overlapping; \<open>k\<close> bytes of a match are still to be skipped.\<close>

fun replace_go :: "string \<Rightarrow> string \<Rightarrow> nat \<Rightarrow> string \<Rightarrow> string" where
  "replace_go old new k [] = []"
| "replace_go old new k (c # cs) =
     (if k > 0 then replace_go old new (k - 1) cs
      else if prefix old (c # cs) then new @ replace_go old new (length old - 1) cs
      else c # replace_go old new 0 cs)"

definition strings_ReplaceAll :: "string \<Rightarrow> string \<Rightarrow> string \<Rightarrow> string" where
  "strings_ReplaceAll s old new =
     (if old = [] then new @ concat (map (\<lambda>c. c # new) s) else replace_go old new 0 s)"

end
