(* ===== verification/GoTime.thy ===== *)
theory GoTime
  imports Prelude
begin

text \<open>
  The parts of Go's \<^verbatim>\<open>time\<close> package the program relies on.

  \<^item> \<open>time.Time\<close> is an \<open>int\<close>, nanoseconds of UTC time; \<open>time.Duration\<close> an \<open>int\<close> of
    nanoseconds.
  \<^item> \<open>ParseDuration\<close> follows the loop of the library function (fractions are computed exactly
    where Go uses a \<open>float64\<close>).
  \<^item> \<open>Format(time.RFC3339Nano)\<close> is \<open>fmt_time\<close>. The store keeps its times as this text and
    compares the text. The first 19 characters have a fixed width, so they are kept as the number
    of seconds; the rest (the fraction with its trailing zeros removed, and the \<open>Z\<close>) is kept as
    text and ordered as text. The class instance \<open>stamp :: linorder\<close> is SQLite's order of the
    column.
\<close>

type_synonym time = int
type_synonym duration = int

abbreviation second :: int where "second \<equiv> 1000000000"
abbreviation minute :: int where "minute \<equiv> 60 * second"

section \<open>Durations\<close>

definition is_digit :: "char \<Rightarrow> bool" where
  "is_digit c = (CHR ''0'' \<le> c \<and> c \<le> CHR ''9'')"

definition digit_val :: "char \<Rightarrow> int" where
  "digit_val c = of_char c - 48"

fun digits_val :: "int \<Rightarrow> string \<Rightarrow> int" where
  "digits_val acc [] = acc"
| "digits_val acc (c # cs) = digits_val (10 * acc + digit_val c) cs"

definition unit_of :: "string \<Rightarrow> int option" where
  "unit_of u = map_of [(''ns'', 1), (''us'', 1000), (''ms'', 1000000), (''s'', 1000000000),
     (''m'', 60000000000), (''h'', 3600000000000)] u"

definition dur_break :: "char \<Rightarrow> bool" where
  "dur_break c = (c = CHR ''.'' \<or> is_digit c)"

text \<open>
  One round of the loop: number, optional fraction, unit. \<open>None\<close> is an invalid duration. Each
  round takes at least a unit off the text, which the length guard records for termination.
\<close>

definition dur_chunk :: "string \<Rightarrow> (int \<times> string) option" where
  "dur_chunk s =
     (let pre = takeWhile is_digit s; s1 = dropWhile is_digit s;
          dot = (s1 \<noteq> [] \<and> hd s1 = CHR ''.'');
          post = (if dot then takeWhile is_digit (tl s1) else []);
          s2 = (if dot then dropWhile is_digit (tl s1) else s1);
          u = takeWhile (\<lambda>c. \<not> dur_break c) s2; s3 = dropWhile (\<lambda>c. \<not> dur_break c) s2
      in if s = [] \<or> \<not> dur_break (hd s) then None
         else if pre = [] \<and> post = [] then None
         else if u = [] then None
         else (case unit_of u of
             None \<Rightarrow> None
           | Some unit \<Rightarrow>
               if digits_val 0 pre > 2 ^ 63 div unit then None
               else Some (digits_val 0 pre * unit + digits_val 0 post * unit div 10 ^ length post, s3)))"

lemma dropWhile_length: "length (dropWhile P xs) \<le> length xs"
  by (induction xs) auto

lemma dropWhile_takeWhile_length:
  "takeWhile P xs \<noteq> [] \<Longrightarrow> length (dropWhile P xs) < length xs"
  by (metis append_Nil length_append length_greater_0_conv less_add_same_cancel2 takeWhile_dropWhile_id)

lemma dur_chunk_shorter: "dur_chunk s = Some (v, s') \<Longrightarrow> length s' < length s"
proof -
  assume a: "dur_chunk s = Some (v, s')"
  define s1 where "s1 = dropWhile is_digit s"
  define s2 where "s2 = (if s1 \<noteq> [] \<and> hd s1 = CHR ''.'' then dropWhile is_digit (tl s1) else s1)"
  have u: "takeWhile (\<lambda>c. \<not> dur_break c) s2 \<noteq> []" "s' = dropWhile (\<lambda>c. \<not> dur_break c) s2"
    using a by (auto simp: dur_chunk_def Let_def s1_def s2_def split: if_splits option.splits)
  have "length s2 \<le> length s1"
    using dropWhile_length [of is_digit "tl s1"] by (auto simp: s2_def)
  moreover have "length s1 \<le> length s" by (simp add: s1_def dropWhile_length)
  ultimately show ?thesis using dropWhile_takeWhile_length [OF u(1)] u(2) by simp
qed

function dur_loop :: "int \<Rightarrow> string \<Rightarrow> int option" where
  "dur_loop d s =
     (if s = [] then Some d
      else (case dur_chunk s of
          None \<Rightarrow> None
        | Some (v, s') \<Rightarrow> if v > 2 ^ 63 \<or> d + v > 2 ^ 63 then None else dur_loop (d + v) s'))"
  by pat_completeness auto
termination
  by (relation "measure (\<lambda>(d, s). length s)") (auto dest: dur_chunk_shorter)

declare dur_loop.simps [simp del]

definition ParseDuration :: "string \<Rightarrow> duration res" where
  "ParseDuration s =
     (let neg = (s \<noteq> [] \<and> hd s = CHR ''-'');
          s' = (if s \<noteq> [] \<and> hd s \<in> {CHR ''-'', CHR ''+''} then tl s else s);
          bad = Inl (Err (''time: invalid duration '' @ s))
      in if s' = ''0'' then Inr 0
         else if s' = [] then bad
         else (case dur_loop 0 s' of
             None \<Rightarrow> bad
           | Some d \<Rightarrow> if neg then Inr (- d)
                       else if d > 2 ^ 63 - 1 then bad else Inr d))"

section \<open>The text of a time\<close>

definition nano_digits :: "int \<Rightarrow> string" where
  "nano_digits n = map (\<lambda>i. char_of (48 + nat (n div 10 ^ (8 - i) mod 10))) [0..<9]"

definition trim_zeros :: "string \<Rightarrow> string" where
  "trim_zeros s = rev (dropWhile (\<lambda>c. c = CHR ''0'') (rev s))"

definition frac_text :: "int \<Rightarrow> string" where
  "frac_text n = (if n = 0 then [] else CHR ''.'' # trim_zeros (nano_digits n))"

datatype stamp = Stamp (stamp_sec: int) (stamp_rest: string)

definition fmt_time :: "time \<Rightarrow> stamp" where
  "fmt_time t = Stamp (t div second) (frac_text (t mod second) @ ''Z'')"

instantiation stamp :: linorder
begin

definition less_eq_stamp :: "stamp \<Rightarrow> stamp \<Rightarrow> bool" where
  "less_eq_stamp a b \<longleftrightarrow> stamp_sec a < stamp_sec b \<or> (stamp_sec a = stamp_sec b \<and> stamp_rest a \<le> stamp_rest b)"

definition less_stamp :: "stamp \<Rightarrow> stamp \<Rightarrow> bool" where
  "less_stamp a b \<longleftrightarrow> stamp_sec a < stamp_sec b \<or> (stamp_sec a = stamp_sec b \<and> stamp_rest a < stamp_rest b)"

instance
  by standard (auto simp: less_eq_stamp_def less_stamp_def stamp.expand)

end

text \<open>\<open>time.Parse(time.RFC3339Nano, text)\<close>: pads the fraction back to nine digits.\<close>

definition parse_time :: "stamp \<Rightarrow> time option" where
  "parse_time st =
     (let s = stamp_rest st in
      if s \<noteq> [] \<and> last s = CHR ''Z'' then
        (let f = butlast s in
         if f = [] then Some (stamp_sec st * second)
         else if hd f = CHR ''.'' \<and> list_all is_digit (tl f) \<and> tl f \<noteq> [] \<and> length (tl f) \<le> 9 then
           Some (stamp_sec st * second + digits_val 0 (tl f @ replicate (9 - length (tl f)) CHR ''0''))
         else None)
      else None)"

lemma fmt_time_sec [simp]: "stamp_sec (fmt_time t) = t div second"
  by (simp add: fmt_time_def)

text \<open>Across seconds the text orders as time does.\<close>

lemma fmt_time_less_sec: "s div second < t div second \<Longrightarrow> fmt_time s < fmt_time t"
  by (simp add: less_stamp_def)

lemma fmt_time_le_imp: "fmt_time s \<le> fmt_time t \<Longrightarrow> s div second \<le> t div second"
  by (auto simp: less_eq_stamp_def)

section \<open>Reading a formatted time back\<close>

lemma digits_val_snoc: "digits_val acc (xs @ [c]) = 10 * digits_val acc xs + digit_val c"
  by (induction xs arbitrary: acc) auto

definition pad_digits :: "nat \<Rightarrow> int \<Rightarrow> string" where
  "pad_digits k n = map (\<lambda>i. char_of (48 + nat (n div 10 ^ (k - 1 - i) mod 10))) [0..<k]"

lemma nano_digits_pad: "nano_digits n = pad_digits 9 n"
  by (simp add: nano_digits_def pad_digits_def)

lemma of_char_int: "(of_char (char_of (n::nat)) :: int) = int (n mod 256)"
  by (metis of_char_of of_nat_of_char)

lemma digit_char:
  assumes "0 \<le> (x::int)" "x < 10"
  shows "digit_val (char_of (48 + nat x)) = x" "is_digit (char_of (48 + nat x))"
proof -
  have *: "(48 + nat x) mod 256 = 48 + nat x" using assms by simp
  then show "digit_val (char_of (48 + nat x)) = x" using assms by (simp add: digit_val_def of_char_int)
  have "x = 0 \<or> x = 1 \<or> x = 2 \<or> x = 3 \<or> x = 4 \<or> x = 5 \<or> x = 6 \<or> x = 7 \<or> x = 8 \<or> x = 9"
    using assms by presburger
  then show "is_digit (char_of (48 + nat x))"
    by (auto simp: is_digit_def less_eq_char_def)
qed

lemma pad_digits_Suc: "pad_digits (Suc k) n = pad_digits k (n div 10) @ [char_of (48 + nat (n mod 10))]"
proof -
  have "n div 10 ^ (k - i) = n div 10 div 10 ^ (k - 1 - i)" if "i < k" for i
  proof -
    obtain j where j: "k - i = Suc j" using \<open>i < k\<close> by (metis Suc_diff_Suc)
    then have "k - 1 - i = j" by simp
    with j show ?thesis by (simp add: zdiv_zmult2_eq)
  qed
  then show ?thesis by (simp add: pad_digits_def)
qed

lemma pad_digits_val: "0 \<le> n \<Longrightarrow> digits_val acc (pad_digits k n) = acc * 10 ^ k + n mod 10 ^ k"
proof (induction k arbitrary: n)
  case 0
  then show ?case by (simp add: pad_digits_def)
next
  case (Suc k)
  have "n mod (10 * 10 ^ k) = 10 * (n div 10 mod 10 ^ k) + n mod 10"
    by (simp add: zmod_zmult2_eq)
  with Suc show ?case
    by (simp add: pad_digits_Suc digits_val_snoc digit_char pos_imp_zdiv_nonneg_iff)
qed

lemma pad_digits_digits: "0 \<le> n \<Longrightarrow> list_all is_digit (pad_digits k n)"
  by (simp add: pad_digits_def list_all_iff digit_char)

lemma takeWhile_eq_replicate:
  "takeWhile (\<lambda>c. c = z) xs = replicate (length (takeWhile (\<lambda>c. c = z) xs)) z"
  by (induction xs) auto

lemma trim_zeros_pad: "trim_zeros s @ replicate (length s - length (trim_zeros s)) CHR ''0'' = s"
proof -
  let ?t = "takeWhile (\<lambda>c. c = CHR ''0'') (rev s)" and ?d = "dropWhile (\<lambda>c. c = CHR ''0'') (rev s)"
  have "rev s = ?t @ ?d" by simp
  then have s: "s = rev ?d @ rev ?t" by (metis rev_append rev_rev_ident)
  then have "length s - length (trim_zeros s) = length ?t"
    by (metis add_diff_cancel_left' length_append length_rev trim_zeros_def)
  then show ?thesis
    using s takeWhile_eq_replicate [of "CHR ''0''" "rev s"] by (metis rev_replicate trim_zeros_def)
qed

lemma trim_zeros_set: "set (trim_zeros s) \<subseteq> set s"
  by (auto simp: trim_zeros_def dest: set_dropWhileD)

lemma trim_zeros_length: "length (trim_zeros s) \<le> length s"
  using dropWhile_length [of "\<lambda>c. c = CHR ''0''" "rev s"] by (simp add: trim_zeros_def)

text \<open>Formatting a time and parsing the text gives the time back.\<close>

lemma parse_fmt_time: "parse_time (fmt_time t) = Some t"
proof (cases "t mod second = 0")
  case True
  then have "t div second * second = t" by (simp add: mod_eq_0_iff_dvd)
  with True show ?thesis
    by (simp add: parse_time_def fmt_time_def frac_text_def)
next
  case False
  let ?n = "t mod second" and ?ds = "pad_digits 9 (t mod second)"
  have n: "0 \<le> ?n" "?n < second" by auto
  have len: "length ?ds = 9" by (simp add: pad_digits_def)
  have val: "digits_val 0 ?ds = ?n"
    using pad_digits_val [of ?n 0 9] n by simp
  have pad: "trim_zeros ?ds @ replicate (9 - length (trim_zeros ?ds)) CHR ''0'' = ?ds"
    using trim_zeros_pad [of ?ds] len by simp
  have ne: "trim_zeros ?ds \<noteq> []"
  proof
    assume "trim_zeros ?ds = []"
    then have "?ds = replicate 9 CHR ''0''" using pad by simp
    then have "digits_val 0 ?ds = 0" by (simp add: numeral_eq_Suc digit_val_def)
    with val False show False by simp
  qed
  have dig: "list_all is_digit (trim_zeros ?ds)"
    using pad_digits_digits [OF n(1), of 9] trim_zeros_set [of ?ds] by (auto simp: list_all_iff)
  have "length (trim_zeros ?ds) \<le> 9" using trim_zeros_length [of ?ds] len by simp
  then show ?thesis
    using False ne dig pad val
    by (simp add: parse_time_def fmt_time_def frac_text_def nano_digits_pad)
qed

lemma fmt_time_inj: "fmt_time s = fmt_time t \<Longrightarrow> s = t"
  by (metis option.inject parse_fmt_time)

text \<open>\<open>strconv.Atoi\<close>: a sign, then decimal digits, in the range of an \<open>int\<close>.\<close>

definition strconv_Atoi :: "string \<Rightarrow> int option" where
  "strconv_Atoi s =
     (let neg = (s \<noteq> [] \<and> hd s = CHR ''-''); ds = (if s \<noteq> [] \<and> hd s \<in> {CHR ''-'', CHR ''+''} then tl s else s) in
      if ds = [] \<or> \<not> list_all is_digit ds then None
      else (let v = (if neg then - digits_val 0 ds else digits_val 0 ds) in
            if - (2 ^ 63) \<le> v \<and> v < 2 ^ 63 then Some v else None))"

text \<open>A printed number reads back.\<close>

lemma utoa_digits: "list_all is_digit (utoa n) \<and> utoa n \<noteq> [] \<and> digits_val 0 (utoa n) = int n"
proof (induction n rule: utoa.induct)
  case (1 n)
  have d: "digit_val (char_of (48 + k)) = int k" "is_digit (char_of (48 + k))" if "k < 10" for k :: nat
    using digit_char [of "int k"] that by auto
  show ?case
  proof (cases "n < 10")
    case True
    then show ?thesis using d by (simp add: utoa.simps [of n])
  next
    case False
    have "10 * int (n div 10) + int (n mod 10) = int n" by presburger
    with False 1 d [of "n mod 10"] show ?thesis
      by (simp add: utoa.simps [of n] digits_val_snoc)
  qed
qed

lemma digit_not_sign: "is_digit c \<Longrightarrow> c \<noteq> CHR ''-'' \<and> c \<noteq> CHR ''+''"
  by (auto simp: is_digit_def less_eq_char_def)

lemma Atoi_itoa:
  assumes "- (2 ^ 63) \<le> i" "i < 2 ^ 63"
  shows "strconv_Atoi (itoa i) = Some i"
proof -
  define n where "n = (if i < 0 then nat (- i) else nat i)"
  have u: "list_all is_digit (utoa n)" "utoa n \<noteq> []" "digits_val 0 (utoa n) = int n"
    using utoa_digits by auto
  then have "is_digit (hd (utoa n))" by (cases "utoa n") auto
  then have h: "hd (utoa n) \<noteq> CHR ''-''" "hd (utoa n) \<noteq> CHR ''+''" using digit_not_sign by blast+
  show ?thesis
  proof (cases "i < 0")
    case True
    then show ?thesis using u assms by (simp add: strconv_Atoi_def itoa_def n_def)
  next
    case False
    then have "itoa i = utoa n" by (simp add: itoa_def n_def)
    moreover have "int n = i" using False by (simp add: n_def)
    ultimately show ?thesis using u h assms by (simp add: strconv_Atoi_def)
  qed
qed

end
