(* ===== verification/Statekit.thy ===== *)
theory Statekit
  imports GoTime
begin

text \<open>
  The interface of \<open>go.klarlabs.de/statekit\<close>, the statechart library the code builds its two
  machines with (the rollout lifecycle and the canary stepper). The library is not part of the
  repository: what the code hands to it, a machine description, is data here, and the
  interpreter is a parameter, the record \<open>statekit\<close>. The locale \<open>statekit_api\<close> states the
  documented behaviour the code relies on:

  \<^item> a closed description builds, and starting an interpreter enters its initial state;
  \<^item> entering a state runs its entry action and then an enabled eventless transition;
  \<^item> sending an event takes some enabled transition for it, and does nothing when none is enabled;
  \<^item> advancing the fake clock by the delay of the current state takes its delayed transition, and
    the eventless transition of the state entered that way may or may not fire (the code has to
    cope with both); whatever the delay, advancing acts on the world through entry actions only;
  \<^item> restoring a snapshot resumes in its state with its context, running no entry action, and
    fails for a state the machine does not have.

  \<open>ref_statekit\<close> is one interpreter with these laws; it shows that they can hold together and
  evaluates the examples of later theories.
\<close>

section \<open>Machine descriptions\<close>

datatype trigger = On string | Always | After duration

record 's transition =
  tr_From :: 's
  tr_Trigger :: trigger
  tr_Target :: 's
  tr_Guard :: "string option"

text \<open>
  \<open>'s\<close> is the type of state ids, \<open>'c\<close> the machine context and \<open>'w\<close> what entry actions
  act on besides the context (the world, for an action that probes a target).
\<close>

record ('s, 'c, 'w) machine =
  mc_Id :: string
  mc_Initial :: 's
  mc_Guards :: "(string \<times> ('c \<Rightarrow> bool)) list"
  mc_States :: "'s list"
  mc_Entry :: "('s \<times> ('c \<times> 'w \<Rightarrow> 'c \<times> 'w)) list"
  mc_Transitions :: "'s transition list"
  mc_Final :: "'s list"

definition guard_holds :: "('s, 'c, 'w) machine \<Rightarrow> 'c \<Rightarrow> string option \<Rightarrow> bool" where
  "guard_holds m c g =
     (case g of None \<Rightarrow> True
      | Some n \<Rightarrow> (case map_of (mc_Guards m) n of Some f \<Rightarrow> f c | None \<Rightarrow> False))"

definition enabled :: "('s, 'c, 'w) machine \<Rightarrow> 's \<Rightarrow> trigger \<Rightarrow> 'c \<Rightarrow> 's transition list" where
  "enabled m s tg c =
     filter (\<lambda>t. tr_From t = s \<and> tr_Trigger t = tg \<and> guard_holds m c (tr_Guard t)) (mc_Transitions m)"

definition run_entry :: "('s, 'c, 'w) machine \<Rightarrow> 's \<Rightarrow> 'c \<times> 'w \<Rightarrow> 'c \<times> 'w" where
  "run_entry m s cw =
     (case map_of (mc_Entry m) s of None \<Rightarrow> cw | Some f \<Rightarrow> f cw)"

definition enter :: "('s, 'c, 'w) machine \<Rightarrow> 's \<Rightarrow> 'c \<times> 'w \<Rightarrow> 's \<times> 'c \<times> 'w" where
  "enter m s cw =
     (let cw1 = run_entry m s cw in
      case enabled m s Always (fst cw1) of [] \<Rightarrow> (s, cw1)
      | t # _ \<Rightarrow> (tr_Target t, run_entry m (tr_Target t) cw1))"

text \<open>Entering a state changes the world by entry actions only.\<close>

lemma enter_effects:
  assumes "reflp R" "transp R" "\<And>s c w. R w (snd (run_entry m s (c, w)))"
  shows "R w (snd (snd (enter m s (c, w))))"
proof -
  obtain c1 w1 where e: "run_entry m s (c, w) = (c1, w1)" by fastforce
  have "R w w1" using assms(3) [of w s c] e by simp
  moreover have "R w1 (snd (run_entry m s' (c1, w1)))" for s' by (rule assms(3))
  ultimately show ?thesis using transpD [OF assms(2)] by (auto simp: enter_def e Let_def split: list.splits)
qed

text \<open>
  A description the library accepts: it names its states and guards, and no
  eventless transition leads to a state with another one.
\<close>

definition closed_machine :: "('s, 'c, 'w) machine \<Rightarrow> bool" where
  "closed_machine m \<longleftrightarrow>
     mc_Initial m \<in> set (mc_States m) \<and> distinct (mc_States m) \<and>
     list_all (\<lambda>t. tr_From t \<in> set (mc_States m) \<and> tr_Target t \<in> set (mc_States m) \<and>
       (case tr_Guard t of None \<Rightarrow> True | Some n \<Rightarrow> n \<in> fst ` set (mc_Guards m))) (mc_Transitions m) \<and>
     list_all (\<lambda>s. s \<in> set (mc_States m) \<and> list_all (\<lambda>t. tr_From t \<noteq> s) (mc_Transitions m)) (mc_Final m) \<and>
     list_all (\<lambda>t. tr_Trigger t = Always \<longrightarrow>
       list_all (\<lambda>u. tr_From u = tr_Target t \<longrightarrow> tr_Trigger u \<noteq> Always) (mc_Transitions m)) (mc_Transitions m)"

section \<open>The interpreter interface\<close>

record ('s, 'c, 'w) statekit =
  sk_Build :: "('s, 'c, 'w) machine \<Rightarrow> err option"
  sk_Start :: "('s, 'c, 'w) machine \<Rightarrow> 'c \<times> 'w \<Rightarrow> 's \<times> 'c \<times> 'w"
  sk_Send :: "('s, 'c, 'w) machine \<Rightarrow> string \<Rightarrow> 's \<times> 'c \<times> 'w \<Rightarrow> 's \<times> 'c \<times> 'w"
  sk_Advance :: "('s, 'c, 'w) machine \<Rightarrow> duration \<Rightarrow> 's \<times> 'c \<times> 'w \<Rightarrow> 's \<times> 'c \<times> 'w"
  sk_Restore :: "('s, 'c, 'w) machine \<Rightarrow> 's \<times> 'c \<Rightarrow> ('s \<times> 'c) res"

locale statekit_api =
  fixes sk :: "('s, 'c, 'w) statekit"
  assumes Build: "closed_machine m \<Longrightarrow> sk_Build sk m = None"
    and Start: "closed_machine m \<Longrightarrow> sk_Start sk m cw = enter m (mc_Initial m) cw"
    and Send_enabled: "closed_machine m \<Longrightarrow> enabled m s (On ev) c \<noteq> [] \<Longrightarrow>
      \<exists>t \<in> set (enabled m s (On ev) c). sk_Send sk m ev (s, c, w) = enter m (tr_Target t) (c, w)"
    and Send_disabled: "closed_machine m \<Longrightarrow> enabled m s (On ev) c = [] \<Longrightarrow>
      sk_Send sk m ev (s, c, w) = (s, c, w)"
    and Advance_enabled: "closed_machine m \<Longrightarrow> 0 < d \<Longrightarrow> enabled m s (After d) c \<noteq> [] \<Longrightarrow>
      \<exists>t \<in> set (enabled m s (After d) c).
        sk_Advance sk m d (s, c, w) = enter m (tr_Target t) (c, w) \<or>
        sk_Advance sk m d (s, c, w) = (tr_Target t, run_entry m (tr_Target t) (c, w))"
    and Advance_disabled: "closed_machine m \<Longrightarrow> enabled m s (After d) c = [] \<Longrightarrow>
      sk_Advance sk m d (s, c, w) = (s, c, w)"
    and Advance_actions: "closed_machine m \<Longrightarrow> reflp R \<Longrightarrow> transp R \<Longrightarrow>
      (\<And>s c w. R w (snd (run_entry m s (c, w)))) \<Longrightarrow> R w (snd (snd (sk_Advance sk m d (s, c, w))))"
    and Restore: "closed_machine m \<Longrightarrow> s \<in> set (mc_States m) \<Longrightarrow> sk_Restore sk m (s, c) = Inr (s, c)"
    and Restore_unknown: "closed_machine m \<Longrightarrow> s \<notin> set (mc_States m) \<Longrightarrow> is_err (sk_Restore sk m (s, c))"
begin

text \<open>When all enabled transitions agree on the target, an event determines the next state.\<close>

lemma Send_unique:
  assumes "closed_machine m" "enabled m s (On ev) c \<noteq> []"
    and "\<And>t. t \<in> set (enabled m s (On ev) c) \<Longrightarrow> tr_Target t = s'"
  shows "sk_Send sk m ev (s, c, w) = enter m s' (c, w)"
  using Send_enabled [OF assms(1,2)] assms(3) by metis

lemma Advance_unique:
  assumes "closed_machine m" "0 < d" "enabled m s (After d) c \<noteq> []"
    and "\<And>t. t \<in> set (enabled m s (After d) c) \<Longrightarrow> tr_Target t = s'"
  shows "sk_Advance sk m d (s, c, w) \<in> {enter m s' (c, w), (s', run_entry m s' (c, w))}"
  using Advance_enabled [OF assms(1,2,3)] assms(4) by blast

text \<open>What every entry action keeps of the world, every move of the interpreter keeps.\<close>

lemma moves_keep:
  assumes "closed_machine m"
    and "reflp R" "transp R" "\<And>s c w. R w (snd (run_entry m s (c, w)))"
  shows "R w (snd (snd (sk_Start sk m (c, w))))" "R w (snd (snd (sk_Send sk m ev (s, c, w))))"
    "R w (snd (snd (sk_Advance sk m d (s, c, w))))"
proof -
  note e = enter_effects [of R m, OF assms(2-4)]
  show "R w (snd (snd (sk_Start sk m (c, w))))" by (simp add: Start [OF assms(1)] e)
  show "R w (snd (snd (sk_Send sk m ev (s, c, w))))"
    using Send_enabled [OF assms(1), of s ev c w] Send_disabled [OF assms(1), of s ev c w] e reflpD [OF assms(2)]
    by (metis snd_conv)
  show "R w (snd (snd (sk_Advance sk m d (s, c, w))))" by (rule Advance_actions [of m R, OF assms])
qed

end

section \<open>An interpreter with these laws\<close>

definition ref_fire :: "('s, 'c, 'w) machine \<Rightarrow> trigger \<Rightarrow> 's \<times> 'c \<times> 'w \<Rightarrow> 's \<times> 'c \<times> 'w" where
  "ref_fire m tg st =
     (case st of (s, c, w) \<Rightarrow>
       (case enabled m s tg c of [] \<Rightarrow> (s, c, w) | t # _ \<Rightarrow> enter m (tr_Target t) (c, w)))"

definition ref_statekit :: "('s, 'c, 'w) statekit" where
  "ref_statekit = \<lparr>
     sk_Build = (\<lambda>m. if mc_Initial m \<in> set (mc_States m) then None else Some (Err ''invalid machine'')),
     sk_Start = (\<lambda>m. enter m (mc_Initial m)),
     sk_Send = (\<lambda>m ev. ref_fire m (On ev)),
     sk_Advance = (\<lambda>m d. ref_fire m (After d)),
     sk_Restore = (\<lambda>m snap. if fst snap \<in> set (mc_States m) then Inr snap
                             else Inl (Err ''unknown state''))\<rparr>"

lemma ref_fire_enabled:
  assumes "enabled m s tg c \<noteq> []"
  shows "\<exists>t \<in> set (enabled m s tg c). ref_fire m tg (s, c, w) = enter m (tr_Target t) (c, w)"
  using assms by (cases "enabled m s tg c") (simp_all add: ref_fire_def)

lemma ref_fire_disabled: "enabled m s tg c = [] \<Longrightarrow> ref_fire m tg (s, c, w) = (s, c, w)"
  by (simp add: ref_fire_def)

interpretation ref_sk: statekit_api ref_statekit
proof unfold_locales
  fix m :: "('a, 'b, 'c) machine" and s :: 'a and ev and c :: 'b and w :: 'c
  assume "enabled m s (On ev) c \<noteq> []"
  then show "\<exists>t \<in> set (enabled m s (On ev) c).
      sk_Send ref_statekit m ev (s, c, w) = enter m (tr_Target t) (c, w)"
    using ref_fire_enabled [of m s "On ev" c w] by (simp add: ref_statekit_def)
next
  fix m :: "('a, 'b, 'c) machine" and s :: 'a and d and c :: 'b and w :: 'c
  assume "enabled m s (After d) c \<noteq> []"
  then show "\<exists>t \<in> set (enabled m s (After d) c).
      sk_Advance ref_statekit m d (s, c, w) = enter m (tr_Target t) (c, w) \<or>
      sk_Advance ref_statekit m d (s, c, w) = (tr_Target t, run_entry m (tr_Target t) (c, w))"
    using ref_fire_enabled [of m s "After d" c w] by (auto simp: ref_statekit_def)
next
  fix m :: "('a, 'b, 'c) machine" and R :: "'c \<Rightarrow> 'c \<Rightarrow> bool" and w :: 'c and d and s :: 'a and c :: 'b
  assume R: "reflp R" "transp R" "\<And>s c w. R w (snd (run_entry m s (c, w)))"
  show "R w (snd (snd (sk_Advance ref_statekit m d (s, c, w))))"
    using enter_effects [of R m, OF R] reflpD [OF R(1)]
    by (simp add: ref_statekit_def ref_fire_def split: list.splits)
qed (simp_all add: ref_statekit_def ref_fire_disabled closed_machine_def)

lemma ref_statekit_api: "statekit_api (ref_statekit :: ('s, 'c, 'w) statekit)"
  by (rule ref_sk.statekit_api_axioms)

end
