(* ===== verification/Lifecycle.thy ===== *)
theory Lifecycle
  imports Statekit
begin

text \<open>
  \<^verbatim>\<open>internal/rollout/lifecycle.go\<close> and the phases of \<^verbatim>\<open>internal/rollout/model.go\<close>: the
  statechart every phase change of a rollout goes through.

  \<open>lifecycle_machine\<close> is the machine description of \<open>buildMachine\<close>, state by state;
  \<open>resumeLifecycle\<close>, \<open>NewLifecycle\<close>, \<open>ResumeLifecycle\<close> and \<open>lc_Send\<close> are the Go functions
  over a statekit interpreter. \<open>lifecycle_step\<close> is the abstract transition table; the lemmas
  show that \<open>Send\<close> implements it for every interpreter with the laws of \<open>statekit_api\<close>, and
  the trace relation \<open>lc_steps\<close> carries the guarantees about whole rollouts.
\<close>

section \<open>Phases\<close>

datatype phase =
    PhasePending
  | PhaseValidating
  | PhaseAwaitingApproval
  | PhaseDeploying
  | PhasePaused
  | PhaseVerifying
  | PhasePromoted
  | PhaseRolledBack

fun phase_str :: "phase \<Rightarrow> string" where
  "phase_str PhasePending = ''pending''"
| "phase_str PhaseValidating = ''validating''"
| "phase_str PhaseAwaitingApproval = ''awaiting-approval''"
| "phase_str PhaseDeploying = ''deploying''"
| "phase_str PhasePaused = ''paused''"
| "phase_str PhaseVerifying = ''verifying''"
| "phase_str PhasePromoted = ''promoted''"
| "phase_str PhaseRolledBack = ''rolled-back''"

lemma phase_str_inj: "phase_str p = phase_str q \<Longrightarrow> p = q"
  by (cases p; cases q; simp)

definition Settled :: "phase \<Rightarrow> bool" where
  "Settled p = (p = PhasePromoted \<or> p = PhaseRolledBack)"

definition Active :: "phase \<Rightarrow> bool" where
  "Active p = (case p of
      PhasePending \<Rightarrow> True | PhaseValidating \<Rightarrow> True | PhaseDeploying \<Rightarrow> True
    | PhasePaused \<Rightarrow> True | PhaseVerifying \<Rightarrow> True | _ \<Rightarrow> False)"

definition Degraded :: "phase \<Rightarrow> bool" where
  "Degraded p = (p = PhaseRolledBack)"

section \<open>The statechart\<close>

record life_context =
  lx_PlanProduced :: bool
  lx_NeedsApproval :: bool

abbreviation EventValidate :: string where "EventValidate \<equiv> ''VALIDATE''"
abbreviation EventGate :: string where "EventGate \<equiv> ''GATE''"
abbreviation EventApprove :: string where "EventApprove \<equiv> ''APPROVE''"
abbreviation EventReject :: string where "EventReject \<equiv> ''REJECT''"
abbreviation EventDeployed :: string where "EventDeployed \<equiv> ''DEPLOYED''"
abbreviation EventVerifyOK :: string where "EventVerifyOK \<equiv> ''VERIFY_OK''"
abbreviation EventRollback :: string where "EventRollback \<equiv> ''ROLLBACK''"
abbreviation EventError :: string where "EventError \<equiv> ''ERROR''"
abbreviation EventPause :: string where "EventPause \<equiv> ''PAUSE''"
abbreviation EventResume :: string where "EventResume \<equiv> ''RESUME''"
abbreviation EventPromote :: string where "EventPromote \<equiv> ''PROMOTE''"

abbreviation guardReadyToDeploy :: string where "guardReadyToDeploy \<equiv> ''readyToDeploy''"
abbreviation guardNeedsApproval :: string where "guardNeedsApproval \<equiv> ''needsApproval''"
abbreviation guardCanDeploy :: string where "guardCanDeploy \<equiv> ''canDeploy''"

type_synonym life_machine = "(phase, life_context, unit) machine"
type_synonym life_kit = "(phase, life_context, unit) statekit"

definition on :: "'s \<Rightarrow> string \<Rightarrow> 's \<Rightarrow> 's transition" where
  "on s ev t = \<lparr>tr_From = s, tr_Trigger = On ev, tr_Target = t, tr_Guard = None\<rparr>"

definition on_if :: "'s \<Rightarrow> string \<Rightarrow> 's \<Rightarrow> string \<Rightarrow> 's transition" where
  "on_if s ev t g = \<lparr>tr_From = s, tr_Trigger = On ev, tr_Target = t, tr_Guard = Some g\<rparr>"

definition lifecycle_machine :: "phase \<Rightarrow> life_machine" where
  "lifecycle_machine initial = \<lparr>
     mc_Id = ''rollout'',
     mc_Initial = initial,
     mc_Guards =
       [(guardReadyToDeploy, \<lambda>c. \<not> lx_NeedsApproval c \<and> lx_PlanProduced c),
        (guardNeedsApproval, \<lambda>c. lx_NeedsApproval c),
        (guardCanDeploy, \<lambda>c. lx_PlanProduced c)],
     mc_States = [PhasePending, PhaseValidating, PhaseAwaitingApproval, PhaseDeploying, PhasePaused,
                  PhaseVerifying, PhasePromoted, PhaseRolledBack],
     mc_Entry = [],
     mc_Transitions =
       [on PhasePending EventValidate PhaseValidating,
        on_if PhaseValidating EventGate PhaseDeploying guardReadyToDeploy,
        on_if PhaseValidating EventGate PhaseAwaitingApproval guardNeedsApproval,
        on PhaseValidating EventError PhaseRolledBack,
        on_if PhaseAwaitingApproval EventApprove PhaseDeploying guardCanDeploy,
        on PhaseAwaitingApproval EventReject PhaseRolledBack,
        on PhaseAwaitingApproval EventRollback PhaseRolledBack,
        on PhaseDeploying EventDeployed PhaseVerifying,
        on PhaseDeploying EventPause PhasePaused,
        on PhaseDeploying EventPromote PhaseVerifying,
        on PhaseDeploying EventError PhaseRolledBack,
        on PhaseDeploying EventRollback PhaseRolledBack,
        on PhasePaused EventResume PhaseDeploying,
        on PhasePaused EventPromote PhaseVerifying,
        on PhasePaused EventRollback PhaseRolledBack,
        on PhaseVerifying EventVerifyOK PhasePromoted,
        on PhaseVerifying EventRollback PhaseRolledBack,
        on PhasePromoted EventRollback PhaseRolledBack],
     mc_Final = [PhaseRolledBack]\<rparr>"

definition buildMachine :: "life_kit \<Rightarrow> phase \<Rightarrow> life_machine res" where
  "buildMachine sk initial =
     (case sk_Build sk (lifecycle_machine initial) of
        Some e \<Rightarrow> Inl (Wrap ''rollout: build statechart'' e)
      | None \<Rightarrow> Inr (lifecycle_machine initial))"

record lifecycle =
  lc_Machine :: life_machine
  lc_Phase :: phase
  lc_Ctx :: life_context

definition resumeLifecycle :: "life_kit \<Rightarrow> phase \<Rightarrow> life_context \<Rightarrow> lifecycle res" where
  "resumeLifecycle sk at ctx =
     (case buildMachine sk at of
        Inl e \<Rightarrow> Inl e
      | Inr m \<Rightarrow> (case sk_Start sk m (ctx, ()) of
          (s, c, _) \<Rightarrow> Inr \<lparr>lc_Machine = m, lc_Phase = s, lc_Ctx = c\<rparr>))"

definition NewLifecycle :: "life_kit \<Rightarrow> life_context \<Rightarrow> lifecycle res" where
  "NewLifecycle sk ctx = resumeLifecycle sk PhasePending ctx"

definition ResumeLifecycle :: "life_kit \<Rightarrow> phase \<Rightarrow> life_context \<Rightarrow> lifecycle res" where
  "ResumeLifecycle sk at ctx = resumeLifecycle sk at ctx"

text \<open>\<open>Send\<close>: the error it returns and the lifecycle after the call.\<close>

definition lc_Send :: "life_kit \<Rightarrow> lifecycle \<Rightarrow> string \<Rightarrow> err option \<times> lifecycle" where
  "lc_Send sk lc ev =
     (let before = lc_Phase lc in
      case sk_Send sk (lc_Machine lc) ev (before, lc_Ctx lc, ()) of
        (after, c, _) \<Rightarrow>
          (if before = after
           then Some (Err (''rollout: illegal transition: event '' @ ev @ '' rejected in phase '' @ phase_str before))
           else None,
           lc\<lparr>lc_Phase := after, lc_Ctx := c\<rparr>))"

section \<open>The abstract transition table\<close>

fun lifecycle_table :: "life_context \<Rightarrow> phase \<Rightarrow> (string \<times> phase) list" where
  "lifecycle_table c PhasePending = [(EventValidate, PhaseValidating)]"
| "lifecycle_table c PhaseValidating =
     (if lx_NeedsApproval c then [(EventGate, PhaseAwaitingApproval)]
      else if lx_PlanProduced c then [(EventGate, PhaseDeploying)] else []) @
     [(EventError, PhaseRolledBack)]"
| "lifecycle_table c PhaseAwaitingApproval =
     (if lx_PlanProduced c then [(EventApprove, PhaseDeploying)] else []) @
     [(EventReject, PhaseRolledBack), (EventRollback, PhaseRolledBack)]"
| "lifecycle_table c PhaseDeploying =
     [(EventDeployed, PhaseVerifying), (EventPause, PhasePaused), (EventPromote, PhaseVerifying),
      (EventError, PhaseRolledBack), (EventRollback, PhaseRolledBack)]"
| "lifecycle_table c PhasePaused =
     [(EventResume, PhaseDeploying), (EventPromote, PhaseVerifying), (EventRollback, PhaseRolledBack)]"
| "lifecycle_table c PhaseVerifying = [(EventVerifyOK, PhasePromoted), (EventRollback, PhaseRolledBack)]"
| "lifecycle_table c PhasePromoted = [(EventRollback, PhaseRolledBack)]"
| "lifecycle_table c PhaseRolledBack = []"

definition lifecycle_step :: "life_context \<Rightarrow> phase \<Rightarrow> string \<Rightarrow> phase option" where
  "lifecycle_step c p ev = map_of (lifecycle_table c p) ev"

lemma lifecycle_step_neq: "lifecycle_step c p ev = Some q \<Longrightarrow> p \<noteq> q"
  by (cases p) (auto simp: lifecycle_step_def split: if_splits)

section \<open>Send implements the table\<close>

lemma closed_lifecycle_machine [simp]: "closed_machine (lifecycle_machine p)"
  by (cases p) (simp_all add: closed_machine_def lifecycle_machine_def on_def on_if_def)

lemma lifecycle_enter [simp]: "enter (lifecycle_machine i) p cw = (p, cw)"
  by (simp add: enter_def run_entry_def enabled_def lifecycle_machine_def on_def on_if_def)

lemma lifecycle_enabled_targets:
  assumes "t \<in> set (enabled (lifecycle_machine i) p (On ev) c)"
  shows "lifecycle_step c p ev = Some (tr_Target t)"
proof -
  from assms show ?thesis
    by (cases p) (auto simp: enabled_def lifecycle_machine_def on_def on_if_def lifecycle_step_def
      guard_holds_def split: if_splits)
qed

lemma lifecycle_step_enabled:
  assumes "lifecycle_step c p ev = Some q"
  shows "enabled (lifecycle_machine i) p (On ev) c \<noteq> []"
  using assms
  by (cases p) (auto simp: enabled_def lifecycle_machine_def on_def on_if_def lifecycle_step_def
      guard_holds_def split: if_splits)

definition wf_lifecycle :: "lifecycle \<Rightarrow> bool" where
  "wf_lifecycle lc \<longleftrightarrow> lc_Machine lc = lifecycle_machine (mc_Initial (lc_Machine lc))"

context statekit_api
begin

lemma Send_machine:
  assumes "closed_machine m" "s' = (case f of None \<Rightarrow> s | Some q \<Rightarrow> q)"
    and "\<And>t. t \<in> set (enabled m s (On ev) c) \<Longrightarrow> f = Some (tr_Target t)"
    and "f \<noteq> None \<Longrightarrow> enabled m s (On ev) c \<noteq> []"
    and "\<And>q. enter m q (c, w) = (q, c, w)"
  shows "sk_Send sk m ev (s, c, w) = (s', c, w)"
proof (cases f)
  case None
  with assms(3) have "enabled m s (On ev) c = []" by (metis list.set_sel(1) option.distinct(1))
  with Send_disabled [OF assms(1)] None assms(2) show ?thesis by simp
next
  case (Some q)
  with assms(3) have "\<And>t. t \<in> set (enabled m s (On ev) c) \<Longrightarrow> tr_Target t = q" by simp
  with Send_unique [OF assms(1)] assms(4) Some have "sk_Send sk m ev (s, c, w) = enter m q (c, w)"
    by simp
  with Some assms(2,5) show ?thesis by simp
qed

end

lemma lifecycle_Send_state:
  assumes "statekit_api sk"
  shows "sk_Send sk (lifecycle_machine i) ev (p, c, w) =
     ((case lifecycle_step c p ev of None \<Rightarrow> p | Some q \<Rightarrow> q), c, w)"
  by (rule statekit_api.Send_machine [OF assms, where f = "lifecycle_step c p ev"])
     (auto intro: lifecycle_enabled_targets lifecycle_step_enabled dest: lifecycle_step_enabled)

lemma resumeLifecycle_ok:
  assumes "statekit_api sk"
  shows "resumeLifecycle sk at ctx =
    Inr \<lparr>lc_Machine = lifecycle_machine at, lc_Phase = at, lc_Ctx = ctx\<rparr>"
proof -
  have "sk_Build sk (lifecycle_machine at) = None"
    by (simp add: statekit_api.Build [OF assms])
  moreover have "sk_Start sk (lifecycle_machine at) (ctx, ()) = (at, ctx, ())"
    by (simp add: statekit_api.Start [OF assms] lifecycle_machine_def [of at, THEN arg_cong, of mc_Initial])
  ultimately show ?thesis by (simp add: resumeLifecycle_def buildMachine_def)
qed

lemma resumeLifecycle_wf:
  assumes "statekit_api sk" "resumeLifecycle sk at ctx = Inr lc"
  shows "wf_lifecycle lc" "lc_Phase lc = at" "lc_Ctx lc = ctx"
  using assms(2)
  by (auto simp: resumeLifecycle_ok [OF assms(1)] wf_lifecycle_def lifecycle_machine_def)

lemma lc_Send_step:
  assumes "statekit_api sk" "wf_lifecycle lc" "lifecycle_step (lc_Ctx lc) (lc_Phase lc) ev = Some q"
  shows "lc_Send sk lc ev = (None, lc\<lparr>lc_Phase := q\<rparr>)"
proof -
  obtain i where i: "lc_Machine lc = lifecycle_machine i" using assms(2) wf_lifecycle_def by blast
  show ?thesis
    using assms(3) lifecycle_step_neq [OF assms(3)]
    by (simp add: lc_Send_def i lifecycle_Send_state [OF assms(1)] Let_def)
qed

lemma lc_Send_reject:
  assumes "statekit_api sk" "wf_lifecycle lc" "lifecycle_step (lc_Ctx lc) (lc_Phase lc) ev = None"
  shows "lc_Send sk lc ev =
    (Some (Err (''rollout: illegal transition: event '' @ ev @ '' rejected in phase '' @ phase_str (lc_Phase lc))), lc)"
proof -
  obtain i where i: "lc_Machine lc = lifecycle_machine i" using assms(2) wf_lifecycle_def by blast
  show ?thesis
    using assms(3) by (simp add: lc_Send_def i lifecycle_Send_state [OF assms(1)] Let_def)
qed

lemma lc_Send_ctx:
  assumes "statekit_api sk" "wf_lifecycle lc" "lc_Send sk lc ev = (e, lc')"
  shows "lc_Ctx lc' = lc_Ctx lc" "wf_lifecycle lc'"
    "lc_Phase lc' = (case lifecycle_step (lc_Ctx lc) (lc_Phase lc) ev of None \<Rightarrow> lc_Phase lc | Some q \<Rightarrow> q)"
  using lc_Send_step [OF assms(1,2), of ev] lc_Send_reject [OF assms(1,2), of ev] assms(2,3)
  by (cases "lifecycle_step (lc_Ctx lc) (lc_Phase lc) ev"; auto simp: wf_lifecycle_def)+

text \<open>
  C1: Send follows the transition table, whatever interpreter with the laws of statekit runs the
  machine: it succeeds exactly on the events the table allows in the current phase under the
  guards, moving to the phase the table gives, and otherwise returns an error and leaves the
  lifecycle as it was.
\<close>

theorem Send_refines_table:
  assumes "statekit_api sk" "resumeLifecycle sk at ctx = Inr lc"
  shows "case lifecycle_step ctx at ev of
      Some q \<Rightarrow> fst (lc_Send sk lc ev) = None \<and> lc_Phase (snd (lc_Send sk lc ev)) = q
    | None \<Rightarrow> fst (lc_Send sk lc ev) \<noteq> None \<and> snd (lc_Send sk lc ev) = lc"
  using lc_Send_step [OF assms(1), of lc ev] lc_Send_reject [OF assms(1), of lc ev]
    resumeLifecycle_wf [OF assms]
  by (auto split: option.splits)

theorem Send_refines_table_witness:
  "\<exists>lc. resumeLifecycle ref_statekit PhaseVerifying \<lparr>lx_PlanProduced = True, lx_NeedsApproval = False\<rparr> = Inr lc \<and>
     fst (lc_Send ref_statekit lc EventVerifyOK) = None \<and>
     lc_Phase (snd (lc_Send ref_statekit lc EventVerifyOK)) = PhasePromoted"
proof -
  let ?c = "\<lparr>lx_PlanProduced = True, lx_NeedsApproval = False\<rparr>"
  obtain lc where lc: "resumeLifecycle ref_statekit PhaseVerifying ?c = Inr lc"
    using resumeLifecycle_ok [OF ref_statekit_api] by blast
  show ?thesis
    using Send_refines_table [OF ref_statekit_api lc, of EventVerifyOK] lc
    by (auto simp: lifecycle_step_def)
qed

section \<open>Traces\<close>

text \<open>A client that sends events one after the other, whatever each returns.\<close>

inductive lc_steps :: "life_kit \<Rightarrow> lifecycle \<Rightarrow> string list \<Rightarrow> lifecycle \<Rightarrow> bool" for sk where
  lc_nil: "lc_steps sk lc [] lc"
| lc_snoc: "lc_steps sk lc evs lc' \<Longrightarrow> lc_Send sk lc' ev = (e, lc'') \<Longrightarrow> lc_steps sk lc (evs @ [ev]) lc''"

inductive_cases lc_steps_nilE: "lc_steps sk lc [] lc'"

lemma lc_steps_wf:
  assumes "statekit_api sk" "lc_steps sk lc evs lc'" "wf_lifecycle lc"
  shows "wf_lifecycle lc' \<and> lc_Ctx lc' = lc_Ctx lc"
  using assms(2,3)
proof (induction rule: lc_steps.induct)
  case (lc_snoc lc evs lc' ev e lc'')
  then show ?case using lc_Send_ctx [OF assms(1) _ lc_snoc.hyps(2)] by simp
qed simp

text \<open>An invariant of the table is an invariant of every trace of events.\<close>

lemma lc_steps_invariant:
  assumes "statekit_api sk" "lc_steps sk lc evs lc'" "wf_lifecycle lc" "I [] (lc_Phase lc)"
    and step: "\<And>es p ev. I es p \<Longrightarrow>
      I (es @ [ev]) (case lifecycle_step (lc_Ctx lc) p ev of None \<Rightarrow> p | Some q \<Rightarrow> q)"
  shows "I evs (lc_Phase lc')"
  using assms(2,3,4) step
proof (induction rule: lc_steps.induct)
  case (lc_snoc lc evs lc' ev e lc'')
  have wf: "wf_lifecycle lc' \<and> lc_Ctx lc' = lc_Ctx lc"
    by (rule lc_steps_wf [OF assms(1) lc_snoc.hyps(1) lc_snoc.prems(1)])
  have "I evs (lc_Phase lc')" by (rule lc_snoc.IH [OF lc_snoc.prems]) 
  then show ?case
    using lc_snoc.prems(3) [of evs "lc_Phase lc'" ev] lc_Send_ctx(3) [OF assms(1) _ lc_snoc.hyps(2)] wf
    by simp
qed simp

definition deployed_phases :: "phase set" where
  "deployed_phases = {PhaseDeploying, PhasePaused, PhaseVerifying, PhasePromoted}"

text \<open>
  C2: a fresh rollout whose gate demands approval is never deploying, paused, verifying or
  promoted before an APPROVE event was sent, whatever events are sent in whatever order.
\<close>

theorem approval_before_deploy:
  assumes "statekit_api sk" "NewLifecycle sk ctx = Inr lc" "lc_steps sk lc evs lc'"
    and "lx_NeedsApproval ctx" "lc_Phase lc' \<in> deployed_phases"
  shows "EventApprove \<in> set evs"
proof -
  let ?I = "\<lambda>evs p. p \<in> deployed_phases \<longrightarrow> EventApprove \<in> set evs"
  have wf: "wf_lifecycle lc" "lc_Phase lc = PhasePending" "lc_Ctx lc = ctx"
    using resumeLifecycle_wf [OF assms(1)] assms(2) by (auto simp: NewLifecycle_def)
  have "?I evs (lc_Phase lc')"
  proof (rule lc_steps_invariant [OF assms(1,3) wf(1)])
    fix es p ev
    assume "?I es p"
    then show "?I (es @ [ev]) (case lifecycle_step (lc_Ctx lc) p ev of None \<Rightarrow> p | Some q \<Rightarrow> q)"
      using assms(4) wf(3)
      by (cases p) (auto simp: lifecycle_step_def deployed_phases_def split: if_splits)
  qed (simp add: wf deployed_phases_def)
  with assms(5) show ?thesis by simp
qed

theorem approval_before_deploy_witness:
  "\<exists>lc lc'. NewLifecycle ref_statekit \<lparr>lx_PlanProduced = True, lx_NeedsApproval = True\<rparr> = Inr lc \<and>
     lc_steps ref_statekit lc [EventValidate, EventGate, EventApprove] lc' \<and>
     lc_Phase lc' = PhaseDeploying \<and> EventApprove \<in> set [EventValidate, EventGate, EventApprove]"
proof -
  let ?c = "\<lparr>lx_PlanProduced = True, lx_NeedsApproval = True\<rparr>"
  let ?l = "\<lambda>p. \<lparr>lc_Machine = lifecycle_machine PhasePending, lc_Phase = p, lc_Ctx = ?c\<rparr>"
  have new: "NewLifecycle ref_statekit ?c = Inr (?l PhasePending)"
    by (simp add: NewLifecycle_def resumeLifecycle_ok [OF ref_statekit_api])
  have send: "lc_Send ref_statekit (?l p) ev = (None, ?l q)"
    if "lifecycle_step ?c p ev = Some q" for p ev q
    using lc_Send_step [OF ref_statekit_api, of "?l p" ev q] that
    by (simp add: wf_lifecycle_def lifecycle_machine_def)
  have s: "lc_Send ref_statekit (?l PhasePending) EventValidate = (None, ?l PhaseValidating)"
    "lc_Send ref_statekit (?l PhaseValidating) EventGate = (None, ?l PhaseAwaitingApproval)"
    "lc_Send ref_statekit (?l PhaseAwaitingApproval) EventApprove = (None, ?l PhaseDeploying)"
    by (rule send, simp add: lifecycle_step_def)+
  note lc_steps.lc_snoc [OF lc_steps.lc_snoc [OF lc_steps.lc_snoc [OF lc_steps.lc_nil s(1)] s(2)] s(3)]
  then have tr: "lc_steps ref_statekit (?l PhasePending) [EventValidate, EventGate, EventApprove] (?l PhaseDeploying)"
    by simp
  from approval_before_deploy [OF ref_statekit_api new this] show ?thesis
    using new tr by (auto simp: deployed_phases_def)
qed

text \<open>
  A rollout for which no plan was produced never deploys, not even with an approval: no
  sequence of events brings it to deploying, paused, verifying or promoted.
\<close>

theorem no_plan_no_deploy:
  assumes "statekit_api sk" "NewLifecycle sk ctx = Inr lc" "lc_steps sk lc evs lc'"
    and "\<not> lx_PlanProduced ctx"
  shows "lc_Phase lc' \<notin> deployed_phases"
proof -
  have wf: "wf_lifecycle lc" "lc_Phase lc = PhasePending" "lc_Ctx lc = ctx"
    using resumeLifecycle_wf [OF assms(1)] assms(2) by (auto simp: NewLifecycle_def)
  show ?thesis
  proof (rule lc_steps_invariant [OF assms(1,3) wf(1), where I = "\<lambda>_ p. p \<notin> deployed_phases"])
    fix es p ev
    assume "p \<notin> deployed_phases"
    then show "(case lifecycle_step (lc_Ctx lc) p ev of None \<Rightarrow> p | Some q \<Rightarrow> q) \<notin> deployed_phases"
      using assms(4) wf(3)
      by (cases p) (auto simp: lifecycle_step_def deployed_phases_def split: if_splits)
  qed (simp add: wf deployed_phases_def)
qed

theorem no_plan_no_deploy_witness:
  "\<exists>lc. NewLifecycle ref_statekit \<lparr>lx_PlanProduced = False, lx_NeedsApproval = True\<rparr> = Inr lc \<and>
     lc_Phase lc \<notin> deployed_phases"
  using no_plan_no_deploy [OF ref_statekit_api _ lc_steps.lc_nil,
      of "\<lparr>lx_PlanProduced = False, lx_NeedsApproval = True\<rparr>"]
    resumeLifecycle_ok [OF ref_statekit_api, of PhasePending "\<lparr>lx_PlanProduced = False, lx_NeedsApproval = True\<rparr>"]
  by (auto simp: NewLifecycle_def)

text \<open>
  Rolled-back is final and every phase that holds a live or pending change can be rolled
  back: from a rolled-back rollout no event leads anywhere else, and from awaiting-approval,
  deploying, paused, verifying and promoted the ROLLBACK event succeeds and ends rolled-back.
\<close>

theorem rollback_reachable_and_final:
  assumes "statekit_api sk" "ResumeLifecycle sk at ctx = Inr lc"
  shows "(at = PhaseRolledBack \<longrightarrow> (\<forall>evs lc'. lc_steps sk lc evs lc' \<longrightarrow> lc_Phase lc' = PhaseRolledBack)) \<and>
    (at \<in> deployed_phases \<union> {PhaseAwaitingApproval} \<longrightarrow>
       fst (lc_Send sk lc EventRollback) = None \<and> lc_Phase (snd (lc_Send sk lc EventRollback)) = PhaseRolledBack)"
proof -
  have wf: "wf_lifecycle lc" "lc_Phase lc = at" "lc_Ctx lc = ctx"
    using resumeLifecycle_wf [OF assms(1)] assms(2) by (auto simp: ResumeLifecycle_def)
  have "lc_Phase lc' = PhaseRolledBack" if "at = PhaseRolledBack" "lc_steps sk lc evs lc'" for evs lc'
    by (rule lc_steps_invariant [OF assms(1) that(2) wf(1), where I = "\<lambda>_ p. p = PhaseRolledBack"])
       (simp_all add: wf that(1) lifecycle_step_def)
  moreover have "lc_Send sk lc EventRollback = (None, lc\<lparr>lc_Phase := PhaseRolledBack\<rparr>)"
    if "at \<in> deployed_phases \<union> {PhaseAwaitingApproval}"
    using that by (intro lc_Send_step [OF assms(1) wf(1)])
      (auto simp: wf lifecycle_step_def deployed_phases_def)
  ultimately show ?thesis by auto
qed

theorem rollback_reachable_and_final_witness:
  "\<exists>lc. ResumeLifecycle ref_statekit PhasePromoted \<lparr>lx_PlanProduced = True, lx_NeedsApproval = False\<rparr> = Inr lc \<and>
     lc_Phase (snd (lc_Send ref_statekit lc EventRollback)) = PhaseRolledBack"
  using rollback_reachable_and_final [OF ref_statekit_api, of PhasePromoted "\<lparr>lx_PlanProduced = True, lx_NeedsApproval = False\<rparr>"]
    resumeLifecycle_ok [OF ref_statekit_api, of PhasePromoted "\<lparr>lx_PlanProduced = True, lx_NeedsApproval = False\<rparr>"]
  by (auto simp: ResumeLifecycle_def deployed_phases_def)

end
