(* ===== verification/Target.thy ===== *)
theory Target
  imports Prelude
begin

text \<open>
  \<^verbatim>\<open>pkg/target/target.go\<close>: the data of the target contract. A target itself (SSH, FTP,
  Kubernetes, a plugin) is reached through the engine's environment; see theory
  \<open>Engine_Base\<close>.

  A target spec (\<open>map[string]any\<close>, decoded YAML) is an association list of \<open>any\<close> values;
  \<open>ABad\<close> stands for the YAML values JSON cannot encode (a map with non-string keys, a NaN).
\<close>

datatype any =
    AStr string
  | ABool bool
  | AInt int
  | AMap "(string \<times> any) list"
  | AList "any list"
  | ANull
  | ABad

type_synonym tspec = "(string \<times> any) list"

fun encodable :: "any \<Rightarrow> bool" where
  "encodable (AMap kvs) = list_all (\<lambda>p. encodable (snd p)) kvs"
| "encodable (AList xs) = list_all encodable xs"
| "encodable ABad = False"
| "encodable _ = True"

text \<open>The comma-ok conversions \<open>s, _ := v.(string)\<close> and \<open>b, _ := v.(bool)\<close> of a map read.\<close>

definition spec_str :: "tspec \<Rightarrow> string \<Rightarrow> string" where
  "spec_str sp k = (case map_of sp k of Some (AStr s) \<Rightarrow> s | _ \<Rightarrow> [])"

definition spec_bool :: "tspec \<Rightarrow> string \<Rightarrow> bool" where
  "spec_bool sp k = (case map_of sp k of Some (ABool b) \<Rightarrow> b | _ \<Rightarrow> False)"

record manifest =
  m_Kind :: string
  m_Spec :: "tspec blob"
  m_Labels :: "(string \<times> string) list"
  m_Checksum :: string
  m_Root :: string
  m_Rendered :: string

definition zero_manifest :: manifest where
  "zero_manifest = \<lparr>m_Kind = [], m_Spec = NoBlob, m_Labels = [], m_Checksum = [], m_Root = [],
     m_Rendered = []\<rparr>"

text \<open>\<open>Root\<close> carries \<open>json:"-"\<close>: it is lost when a manifest is persisted.\<close>

definition json_manifest :: "manifest \<Rightarrow> manifest" where
  "json_manifest m = m\<lparr>m_Root := []\<rparr>"

record fingerprint =
  fp_Value :: string
  fp_Meta :: "(string \<times> string) list"

datatype health_state = HealthUnknown | HealthHealthy | HealthDegraded | HealthUnhealthy

record resource =
  re_Kind :: string
  re_Name :: string
  re_Namespace :: string
  re_Status :: string
  re_Parent :: string

record health_status =
  hs_State :: health_state
  hs_Reason :: string

lemma json_manifest_simps [simp]:
  "m_Checksum (json_manifest m) = m_Checksum m" "m_Root (json_manifest m) = []"
  "m_Kind (json_manifest m) = m_Kind m" "m_Spec (json_manifest m) = m_Spec m"
  "json_manifest (json_manifest m) = json_manifest m"
  by (simp_all add: json_manifest_def)

end
