(* ===== verification/Config.thy ===== *)
theory Config
  imports Complex_Main Target GoTime
begin

text \<open>
  \<^verbatim>\<open>internal/config/config.go\<close> (and \<open>NamedConfig\<close> of \<open>repo.go\<close>): the declarative configuration as records, one per Go struct,
  with the accessors the engine calls. A pointer field is an option.
\<close>

record strategy_step =
  ss_Weight :: int
  ss_Pause :: string

record cfg_strategy =
  st_Type :: string
  st_Steps :: "strategy_step list"

record environment =
  env_Name :: string
  env_Promote :: bool
  env_Strategy :: "cfg_strategy option"

record risk_history =
  rh_Lookback :: int
  rh_Weight :: real
  rh_MaxFailures :: int

record cfg_risk =
  rk_Threshold :: real
  rk_Sensitive :: string
  rk_History :: risk_history

record health_check =
  hc_HTTP :: string
  hc_TCP :: string
  hc_Command :: "string list"
  hc_Timeout :: string

record smoke_test =
  smk_Command :: "string list"
  smk_ExpectExit :: int

record database_rollback =
  db_Command :: "string list"
  db_Timeout :: string
  db_When :: string

record database =
  dbs_Migrate :: "database_rollback option"
  dbs_Rollback :: "database_rollback option"
  dbs_BackwardCompatible :: bool

record cfg_rollback =
  rb_Auto :: bool
  rb_HealthCheck :: "health_check option"
  rb_SmokeTest :: "smoke_test option"
  rb_Database :: "database_rollback option"
  rb_Trigger :: string

record analysis_metric =
  am_Name :: string
  am_Query :: string
  am_Aggregation :: string

record cfg_analysis =
  an_Provider :: string
  an_Address :: string
  an_Plugin :: string
  an_SHA256 :: string
  an_Metrics :: "analysis_metric list"
  an_Condition :: string
  an_Interval :: string
  an_Count :: int
  an_FailureLimit :: int

record feature_flags =
  ff_Plugin :: string
  ff_SHA256 :: string
  ff_Flag :: string
  ff_Environment :: string
  ff_When :: string

record traffic_routing =
  tr_Provider :: string
  tr_Plugin :: string
  tr_SHA256 :: string
  tr_Route :: string
  tr_Namespace :: string
  tr_StableService :: string
  tr_CanaryService :: string
  tr_Kubeconfig :: string
  tr_Context :: string

record image_policy =
  ip_Mode :: string
  ip_Pattern :: string
  ip_AllowMutableTags :: bool
  ip_AllowedRegistries :: "string list"
  ip_Writeback :: string

record cfg_target =
  t_Kind :: string
  t_Ref :: string
  t_Criticality :: string
  t_Env :: string
  t_Spec :: tspec

record metadata =
  md_Name :: string
  md_Labels :: "(string \<times> string) list"

record spec =
  s_Target :: cfg_target
  s_Environments :: "environment list"
  s_Strategy :: cfg_strategy
  s_Risk :: cfg_risk
  s_Rollback :: cfg_rollback
  s_Analysis :: "cfg_analysis option"
  s_FeatureFlags :: "feature_flags option"
  s_TrafficRouting :: "traffic_routing option"
  s_ImagePolicy :: "image_policy option"
  s_Database :: "database option"
  s_DependsOn :: "string list"
  s_Schedule :: string
  s_Verification :: string

record config =
  c_APIVersion :: string
  c_Kind :: string
  c_Metadata :: metadata
  c_Spec :: spec

record named_config =
  nc_Path :: string
  nc_Config :: config

abbreviation c_Target :: "config \<Rightarrow> cfg_target" where "c_Target c \<equiv> s_Target (c_Spec c)"
abbreviation c_Ref :: "config \<Rightarrow> string" where "c_Ref c \<equiv> t_Ref (s_Target (c_Spec c))"

section \<open>Accessors\<close>

definition WritebackMode :: "image_policy option \<Rightarrow> string" where
  "WritebackMode p =
     (case p of Some ip \<Rightarrow> if ip_Writeback ip = ''pull-request'' then ''pull-request'' else ''push''
      | None \<Rightarrow> ''push'')"

definition HonestStrategy :: "config \<Rightarrow> string" where
  "HonestStrategy c =
     (if st_Type (s_Strategy (c_Spec c)) = ''canary'' then
        (if s_TrafficRouting (c_Spec c) = None \<and> s_FeatureFlags (c_Spec c) = None
         then ''canary -- health-gated bake, not a traffic split'' else [])
      else if st_Type (s_Strategy (c_Spec c)) = ''blue-green'' then
        (if s_TrafficRouting (c_Spec c) = None
         then ''blue-green -- full cutover, not two-stack blue-green'' else [])
      else [])"

abbreviation MigratePreDeploy :: string where "MigratePreDeploy \<equiv> ''pre-deploy''"
abbreviation MigratePostPromote :: string where "MigratePostPromote \<equiv> ''post-promote''"

definition DatabaseMigrate :: "spec \<Rightarrow> database_rollback option" where
  "DatabaseMigrate s = (case s_Database s of Some d \<Rightarrow> dbs_Migrate d | None \<Rightarrow> None)"

definition DatabaseMigrateWhen :: "spec \<Rightarrow> string" where
  "DatabaseMigrateWhen s =
     (case DatabaseMigrate s of
        Some mig \<Rightarrow> if db_When mig \<noteq> [] then db_When mig else MigratePreDeploy
      | None \<Rightarrow> MigratePreDeploy)"

definition DatabaseRollbackHook :: "spec \<Rightarrow> database_rollback option" where
  "DatabaseRollbackHook s =
     (case s_Database s of
        Some d \<Rightarrow> (case dbs_Rollback d of Some r \<Rightarrow> Some r | None \<Rightarrow> rb_Database (s_Rollback s))
      | None \<Rightarrow> rb_Database (s_Rollback s))"

definition DatabaseBackwardCompatible :: "spec \<Rightarrow> bool" where
  "DatabaseBackwardCompatible s =
     (case s_Database s of Some d \<Rightarrow> dbs_BackwardCompatible d | None \<Rightarrow> False)"

section \<open>Empty values\<close>

text \<open>Go's zero values, from which examples are built by record update.\<close>

definition zero_spec :: spec where
  "zero_spec = \<lparr>
     s_Target = \<lparr>t_Kind = [], t_Ref = [], t_Criticality = [], t_Env = [], t_Spec = []\<rparr>,
     s_Environments = [], s_Strategy = \<lparr>st_Type = [], st_Steps = []\<rparr>,
     s_Risk = \<lparr>rk_Threshold = 0, rk_Sensitive = [],
               rk_History = \<lparr>rh_Lookback = 0, rh_Weight = 0, rh_MaxFailures = 0\<rparr>\<rparr>,
     s_Rollback = \<lparr>rb_Auto = False, rb_HealthCheck = None, rb_SmokeTest = None, rb_Database = None,
                   rb_Trigger = []\<rparr>,
     s_Analysis = None, s_FeatureFlags = None, s_TrafficRouting = None, s_ImagePolicy = None,
     s_Database = None, s_DependsOn = [], s_Schedule = [], s_Verification = []\<rparr>"

definition zero_config :: config where
  "zero_config = \<lparr>c_APIVersion = ''rollops.klarlabs.de/v1'', c_Kind = ''RolloutConfig'',
     c_Metadata = \<lparr>md_Name = [], md_Labels = []\<rparr>, c_Spec = zero_spec\<rparr>"

end
