(* ===== verification/Effects.thy ===== *)
theory Effects
  imports Prelude "HOL-Library.State_Monad"
begin

text \<open>
  A small program logic for stateful code written in the state monad of the library: weakest
  preconditions (\<open>wp\<close>) for statements about one call, and frames (locale \<open>frame\<close>) for what every
  call leaves alone. A frame is a reflexive and transitive relation between the state before and
  after; programs composed from framed parts are framed, and the rules in \<open>keeps_rules\<close> prove it
  by following the shape of the program.
\<close>

named_theorems wp_simps \<open>weakest preconditions of the program constructs\<close>
named_theorems keeps_rules \<open>frames of programs, by their shape\<close>

lemma run_state_bind: "run_state (State_Monad.bind m f) w = (case run_state m w of (x, w') \<Rightarrow> run_state (f x) w')"
  by (cases m) (simp add: State_Monad.bind_def)

lemma run_state_return: "run_state (State_Monad.return x) w = (x, w)"
  by (simp add: State_Monad.return_def)

lemma run_state_get: "run_state State_Monad.get w = (w, w)"
  by (simp add: State_Monad.get_def)

lemma run_state_set: "run_state (State_Monad.set v) w = ((), v)"
  by (simp add: State_Monad.set_def)

lemmas run_state_simps = run_state_bind run_state_return run_state_get run_state_set

section \<open>Weakest preconditions\<close>

definition wp :: "('s, 'a) state \<Rightarrow> ('a \<Rightarrow> 's \<Rightarrow> bool) \<Rightarrow> 's \<Rightarrow> bool" where
  "wp m Q w = (case run_state m w of (x, w') \<Rightarrow> Q x w')"

lemma wp_return [wp_simps]: "wp (State_Monad.return x) Q = Q x"
  by (rule ext) (simp add: wp_def run_state_return)

lemma wp_bind [wp_simps]: "wp (State_Monad.bind m f) Q = wp m (\<lambda>x. wp (f x) Q)"
  by (rule ext) (simp add: wp_def run_state_bind split: prod.splits)

lemma wp_get [wp_simps]: "wp State_Monad.get Q = (\<lambda>w. Q w w)"
  by (rule ext) (simp add: wp_def run_state_get)

lemma wp_set [wp_simps]: "wp (State_Monad.set v) Q = (\<lambda>_. Q () v)"
  by (rule ext) (simp add: wp_def run_state_set)

lemma wp_if [wp_simps]: "wp (if b then m else n) Q = (if b then wp m Q else wp n Q)"
  by simp

lemma wp_option [wp_simps]:
  "wp (case x of None \<Rightarrow> m | Some y \<Rightarrow> f y) Q = (case x of None \<Rightarrow> wp m Q | Some y \<Rightarrow> wp (f y) Q)"
  by (cases x) auto

lemma wp_sum [wp_simps]:
  "wp (case x of Inl e \<Rightarrow> f e | Inr y \<Rightarrow> g y) Q = (case x of Inl e \<Rightarrow> wp (f e) Q | Inr y \<Rightarrow> wp (g y) Q)"
  by (cases x) auto

lemma wp_prod [wp_simps]:
  "wp (case x of (a, b) \<Rightarrow> f a b) Q = (case x of (a, b) \<Rightarrow> wp (f a b) Q)"
  by (cases x) auto

lemma wp_conseq: "wp m Q' w \<Longrightarrow> (\<And>x w'. Q' x w' \<Longrightarrow> Q x w') \<Longrightarrow> wp m Q w"
  by (auto simp: wp_def)

lemma wp_conj: "wp m P w \<Longrightarrow> wp m Q w \<Longrightarrow> wp m (\<lambda>x w'. P x w' \<and> Q x w') w"
  by (auto simp: wp_def)

lemma wp_True: "(\<And>x w'. Q x w') \<Longrightarrow> wp m Q w"
  by (auto simp: wp_def split: prod.splits)

lemma wpI: "(\<And>x w'. run_state m w = (x, w') \<Longrightarrow> Q x w') \<Longrightarrow> wp m Q w"
  by (auto simp: wp_def split: prod.splits)

lemma wpD: "wp m Q w \<Longrightarrow> run_state m w = (x, w') \<Longrightarrow> Q x w'"
  by (simp add: wp_def)

section \<open>Frames\<close>

definition keeps :: "('s \<Rightarrow> 's \<Rightarrow> bool) \<Rightarrow> ('s, 'a) state \<Rightarrow> bool" where
  "keeps R m \<longleftrightarrow> (\<forall>w. R w (snd (run_state m w)))"

lemma keepsD: "keeps R m \<Longrightarrow> run_state m w = (x, w') \<Longrightarrow> R w w'"
  by (metis keeps_def snd_conv)

lemma keeps_wp: "keeps R m \<Longrightarrow> wp m (\<lambda>_ w'. R w w') w"
  by (simp add: keeps_def wp_def split: prod.splits) (metis snd_conv)

locale frame =
  fixes R :: "'s \<Rightarrow> 's \<Rightarrow> bool"
  assumes frame_refl: "R w w"
    and frame_trans: "R u v \<Longrightarrow> R v w \<Longrightarrow> R u w"
begin

lemma keeps_return: "keeps R (State_Monad.return x)"
  by (simp add: keeps_def run_state_return frame_refl)

lemma keeps_get: "keeps R State_Monad.get"
  by (simp add: keeps_def run_state_get frame_refl)

lemma keeps_bind:
  assumes "keeps R m" "\<And>x. keeps R (f x)"
  shows "keeps R (State_Monad.bind m f)"
proof (unfold keeps_def, rule allI)
  fix w
  obtain x w' where m: "run_state m w = (x, w')" by fastforce
  have "R w w'" by (rule keepsD [OF assms(1) m])
  moreover have "R w' (snd (run_state (f x) w'))" using assms(2) by (simp add: keeps_def)
  ultimately show "R w (snd (run_state (State_Monad.bind m f) w))"
    using frame_trans by (simp add: run_state_bind m)
qed

text \<open>What is known of a result may be used in the rest.\<close>

lemma keeps_bind_result:
  assumes "keeps R m" "\<And>x w w'. run_state m w = (x, w') \<Longrightarrow> keeps R (f x)"
  shows "keeps R (State_Monad.bind m f)"
proof (unfold keeps_def, rule allI)
  fix w
  obtain x w' where m: "run_state m w = (x, w')" by fastforce
  have "R w w'" by (rule keepsD [OF assms(1) m])
  moreover have "R w' (snd (run_state (f x) w'))" using assms(2) [OF m] by (simp add: keeps_def)
  ultimately show "R w (snd (run_state (State_Monad.bind m f) w))"
    using frame_trans by (simp add: run_state_bind m)
qed

text \<open>Read the state, write it back changed, go on.\<close>

lemma keeps_modify:
  assumes "\<And>s a b. g s = (a, b) \<Longrightarrow> R s (h s a b)" "\<And>s a b. keeps R (m s a b)"
  shows "keeps R (State_Monad.bind State_Monad.get
    (\<lambda>s. case g s of (a, b) \<Rightarrow> State_Monad.bind (State_Monad.set (h s a b)) (\<lambda>_. m s a b)))"
proof (unfold keeps_def, rule allI)
  fix s
  obtain a b where g: "g s = (a, b)" by fastforce
  have "R s (snd (run_state (m s a b) (h s a b)))"
    using frame_trans [OF assms(1) [OF g]] assms(2) by (simp add: keeps_def)
  then show "R s (snd (run_state (State_Monad.bind State_Monad.get
    (\<lambda>s. case g s of (a, b) \<Rightarrow> State_Monad.bind (State_Monad.set (h s a b)) (\<lambda>_. m s a b))) s))"
    by (simp add: run_state_simps g)
qed

end

lemma keeps_if [keeps_rules]: "(b \<Longrightarrow> keeps R m) \<Longrightarrow> (\<not> b \<Longrightarrow> keeps R n) \<Longrightarrow> keeps R (if b then m else n)"
  by simp

lemma keeps_option [keeps_rules]:
  "(x = None \<Longrightarrow> keeps R m) \<Longrightarrow> (\<And>y. x = Some y \<Longrightarrow> keeps R (f y)) \<Longrightarrow>
   keeps R (case x of None \<Rightarrow> m | Some y \<Rightarrow> f y)"
  by (cases x) auto

lemma keeps_sum [keeps_rules]:
  "(\<And>e. x = Inl e \<Longrightarrow> keeps R (f e)) \<Longrightarrow> (\<And>y. x = Inr y \<Longrightarrow> keeps R (g y)) \<Longrightarrow>
   keeps R (case x of Inl e \<Rightarrow> f e | Inr y \<Rightarrow> g y)"
  by (cases x) auto

lemma keeps_prod [keeps_rules]:
  "(\<And>a b. x = (a, b) \<Longrightarrow> keeps R (f a b)) \<Longrightarrow> keeps R (case x of (a, b) \<Rightarrow> f a b)"
  by (cases x) auto

lemma keeps_let [keeps_rules]: "keeps R (f x) \<Longrightarrow> keeps R (let y = x in f y)"
  by simp

lemma keeps_bool_case [keeps_rules]:
  "(b \<Longrightarrow> keeps R m) \<Longrightarrow> (\<not> b \<Longrightarrow> keeps R n) \<Longrightarrow> keeps R (case b of True \<Rightarrow> m | False \<Rightarrow> n)"
  by (cases b) auto

section \<open>Calls to the outside\<close>

text \<open>
  A program that talks to something outside the code runs over the list of the calls it has made; what
  a call answers may depend on everything before it.
\<close>

definition host_call :: "('c list \<Rightarrow> 'c \<Rightarrow> 'a) \<Rightarrow> 'c \<Rightarrow> ('c list, 'a) state" where
  "host_call H c = do {
     h \<leftarrow> State_Monad.get;
     _ \<leftarrow> State_Monad.set (h @ [c]);
     State_Monad.return (H h c)
   }"

text \<open>The calls a program adds all satisfy a predicate.\<close>

definition calls_in :: "('c \<Rightarrow> bool) \<Rightarrow> 'c list \<Rightarrow> 'c list \<Rightarrow> bool" where
  "calls_in P h h' \<longleftrightarrow> (\<exists>cs. h' = h @ cs \<and> list_all P cs)"

interpretation calls: frame "calls_in P" for P
  by unfold_locales (auto simp: calls_in_def)

lemma run_host_call: "run_state (host_call H c) h = (H h c, h @ [c])"
  by (simp add: host_call_def run_state_simps)

lemma keeps_host_call: "P c \<Longrightarrow> keeps (calls_in P) (host_call H c)"
  by (simp add: keeps_def run_host_call calls_in_def)

end
