(* ===== verification/Progressive.thy ===== *)
theory Progressive
  imports Config Statekit Effects
begin

text \<open>
  \<^verbatim>\<open>internal/progressive/progressive.go\<close> and \<^verbatim>\<open>internal/progressive/machine.go\<close>: resolving a
  strategy into weight steps, the blocking executor, and the canary step machine.

  The step machine is a statekit description (\<open>step_machine\<close>) whose entry action of step
  \<open>i\<close> sets the cursor and runs the health gate; the gate acts on a world \<open>'w\<close>. The lemmas
  about \<open>sk_Send\<close> and \<open>sk_Advance\<close> on it give the three outcomes of leaving a step: the next
  step, completion, or an abort with \<open>Failed\<close> set.
\<close>

section \<open>Plans\<close>

record pstep =
  sp_Weight :: int
  sp_Pause :: duration

record pplan =
  pl_Strategy :: string
  pl_Steps :: "pstep list"

definition fromConfig :: "strategy_step list \<Rightarrow> pstep list" where
  "fromConfig ss =
     map (\<lambda>s. \<lparr>sp_Weight = ss_Weight s,
               sp_Pause = (case ParseDuration (ss_Pause s) of Inr d \<Rightarrow> d | Inl _ \<Rightarrow> 0)\<rparr>) ss"

abbreviation weight_step :: "int \<Rightarrow> pstep" where
  "weight_step n \<equiv> \<lparr>sp_Weight = n, sp_Pause = 0\<rparr>"

definition ensureFull :: "pstep list \<Rightarrow> pstep list" where
  "ensureFull steps =
     (if steps = [] \<or> sp_Weight (last steps) < 100 then steps @ [weight_step 100] else steps)"

definition PlanFor :: "cfg_strategy \<Rightarrow> pplan" where
  "PlanFor s =
     (if st_Type s = ''canary'' then
        (let steps = fromConfig (st_Steps s);
             steps = (if steps = [] then [weight_step 10, weight_step 50, weight_step 100] else steps)
         in \<lparr>pl_Strategy = ''canary'', pl_Steps = ensureFull steps\<rparr>)
      else if st_Type s = ''blue-green'' then
        \<lparr>pl_Strategy = ''blue-green'', pl_Steps = [weight_step 100]\<rparr>
      else
        \<lparr>pl_Strategy = ''rolling'',
         pl_Steps = [weight_step 25, weight_step 50, weight_step 75, weight_step 100]\<rparr>)"

lemma ensureFull_full: "ensureFull steps \<noteq> [] \<and> 100 \<le> sp_Weight (last (ensureFull steps))"
  by (auto simp: ensureFull_def)

text \<open>
  Every strategy resolves to a plan that completes: it has a step, its last step carries at
  least the full traffic, and the steps an operator configured for a canary come first, in their
  order and with their weights.
\<close>

theorem PlanFor_complete:
  "pl_Steps (PlanFor s) \<noteq> [] \<and> 100 \<le> sp_Weight (last (pl_Steps (PlanFor s))) \<and>
   (st_Type s = ''canary'' \<and> st_Steps s \<noteq> [] \<longrightarrow>
      (\<exists>rest. map sp_Weight (pl_Steps (PlanFor s)) = map ss_Weight (st_Steps s) @ rest \<and> rest \<in> {[], [100]}))"
  by (auto simp: PlanFor_def ensureFull_full Let_def fromConfig_def ensureFull_def comp_def)

theorem PlanFor_complete_witness:
  "map sp_Weight (pl_Steps (PlanFor \<lparr>st_Type = ''canary'', st_Steps = [\<lparr>ss_Weight = 20, ss_Pause = ''30s''\<rparr>]\<rparr>)) = [20, 100]"
  using PlanFor_complete [of "\<lparr>st_Type = ''canary'', st_Steps = [\<lparr>ss_Weight = 20, ss_Pause = ''30s''\<rparr>]\<rparr>"]
  by (auto simp: PlanFor_def Let_def fromConfig_def ensureFull_def)

section \<open>The blocking executor\<close>

text \<open>
  \<open>Executor.Run\<close> over callbacks that act on a state \<open>'s\<close>; a callback answers with an optional
  error. A nil \<open>Health\<close> or \<open>OnStep\<close> is \<open>None\<close>.
\<close>

record 's executor =
  ex_Deploy :: "int \<Rightarrow> ('s, err option) state"
  ex_Health :: "('s, err option) state option"
  ex_Sleep :: "duration \<Rightarrow> ('s, unit) state"
  ex_OnStep :: "(nat \<Rightarrow> nat \<Rightarrow> pstep \<Rightarrow> ('s, err option) state) option"

definition opt_call :: "('s, err option) state option \<Rightarrow> ('s, err option) state" where
  "opt_call f = (case f of None \<Rightarrow> State_Monad.return None | Some c \<Rightarrow> c)"

text \<open>\<open>progressive: <strategy> step i/n (w%)\<close>, the prefix of every error of \<open>Run\<close>.\<close>

definition step_label :: "pplan \<Rightarrow> nat \<Rightarrow> pstep \<Rightarrow> string" where
  "step_label p i st =
     ''progressive: '' @ pl_Strategy p @ '' step '' @ utoa (Suc i) @ ''/'' @ utoa (length (pl_Steps p)) @
     '' ('' @ itoa (sp_Weight st) @ ''%)''"

fun Executor_Run_from :: "'s executor \<Rightarrow> pplan \<Rightarrow> nat \<Rightarrow> pstep list \<Rightarrow> ('s, err option) state" where
  "Executor_Run_from ex p i [] = State_Monad.return None"
| "Executor_Run_from ex p i (st # rest) = do {
     de \<leftarrow> ex_Deploy ex (sp_Weight st);
     (case de of
        Some e \<Rightarrow> State_Monad.return (Some (Wrap (step_label p i st @ '': deploy'') e))
      | None \<Rightarrow> do {
          (if 0 < sp_Pause st then ex_Sleep ex (sp_Pause st) else State_Monad.return ());
          he \<leftarrow> opt_call (ex_Health ex);
          (case he of
             Some e \<Rightarrow> State_Monad.return (Some (Wrap (step_label p i st @ '': health gate failed'') e))
           | None \<Rightarrow> do {
               oe \<leftarrow> opt_call (map_option (\<lambda>f. f (Suc i) (length (pl_Steps p)) st) (ex_OnStep ex));
               (case oe of
                  Some e \<Rightarrow> State_Monad.return (Some (Wrap (step_label p i st) e))
                | None \<Rightarrow> Executor_Run_from ex p (Suc i) rest)
             })
        })
   }"

definition Executor_Run :: "'s executor \<Rightarrow> pplan \<Rightarrow> ('s, err option) state" where
  "Executor_Run ex p = Executor_Run_from ex p 0 (pl_Steps p)"

section \<open>The canary step machine\<close>

datatype step_state = StepSt nat | PausedSt nat | StateComplete | StateAborted

record step_context =
  sc_Index :: int
  sc_Weight :: int
  sc_Failed :: bool

abbreviation EvPause :: string where "EvPause \<equiv> ''PAUSE''"
abbreviation EvResume :: string where "EvResume \<equiv> ''RESUME''"
abbreviation EvPromote :: string where "EvPromote \<equiv> ''PROMOTE''"
abbreviation EvAbort :: string where "EvAbort \<equiv> ''ABORT''"
abbreviation EvNext :: string where "EvNext \<equiv> ''NEXT''"

type_synonym 'w step_health = "nat \<Rightarrow> int \<Rightarrow> 'w \<Rightarrow> bool \<times> 'w"
type_synonym 'w step_mach = "(step_state, step_context, 'w) machine"
type_synonym 'w step_kit = "(step_state, step_context, 'w) statekit"

definition mk_tr :: "'s \<Rightarrow> trigger \<Rightarrow> 's \<Rightarrow> string option \<Rightarrow> 's transition" where
  "mk_tr s tg t g = \<lparr>tr_From = s, tr_Trigger = tg, tr_Target = t, tr_Guard = g\<rparr>"

definition enter_step :: "'w step_health \<Rightarrow> nat \<Rightarrow> int \<Rightarrow> step_context \<times> 'w \<Rightarrow> step_context \<times> 'w" where
  "enter_step health i weight cw =
     (case health i weight (snd cw) of
        (ok, w') \<Rightarrow> (\<lparr>sc_Index = int i, sc_Weight = weight, sc_Failed = \<not> ok\<rparr>, w'))"

definition next_state :: "nat \<Rightarrow> nat \<Rightarrow> step_state" where
  "next_state n i = (if Suc i < n then StepSt (Suc i) else StateComplete)"

definition step_transitions :: "pplan \<Rightarrow> nat \<Rightarrow> step_state transition list" where
  "step_transitions plan i =
     (let nxt = next_state (length (pl_Steps plan)) i in
      [mk_tr (StepSt i) Always StateAborted (Some ''failed''),
       mk_tr (StepSt i) (After (sp_Pause (pl_Steps plan ! i))) nxt (Some ''ok''),
       mk_tr (StepSt i) (On EvNext) nxt (Some ''ok''),
       mk_tr (StepSt i) (On EvPause) (PausedSt i) None,
       mk_tr (StepSt i) (On EvPromote) StateComplete None,
       mk_tr (StepSt i) (On EvAbort) StateAborted None,
       mk_tr (PausedSt i) (On EvResume) (StepSt i) None,
       mk_tr (PausedSt i) (On EvPromote) StateComplete None,
       mk_tr (PausedSt i) (On EvAbort) StateAborted None])"

definition step_machine :: "pplan \<Rightarrow> 'w step_health \<Rightarrow> 'w step_mach" where
  "step_machine plan health = \<lparr>
     mc_Id = ''canary'',
     mc_Initial = StepSt 0,
     mc_Guards = [(''failed'', sc_Failed), (''ok'', \<lambda>c. \<not> sc_Failed c)],
     mc_States = map StepSt [0..<length (pl_Steps plan)] @ map PausedSt [0..<length (pl_Steps plan)] @
                 [StateComplete, StateAborted],
     mc_Entry = map (\<lambda>i. (StepSt i, enter_step health i (sp_Weight (pl_Steps plan ! i))))
                    [0..<length (pl_Steps plan)],
     mc_Transitions = concat (map (step_transitions plan) [0..<length (pl_Steps plan)]),
     mc_Final = [StateComplete, StateAborted]\<rparr>"

definition BuildStepMachine :: "'w step_kit \<Rightarrow> pplan \<Rightarrow> 'w step_health option \<Rightarrow> 'w step_mach res" where
  "BuildStepMachine sk plan health =
     (let h = (case health of Some f \<Rightarrow> f | None \<Rightarrow> (\<lambda>_ _ w. (True, w))) in
      if pl_Steps plan = [] then Inl (Err ''progressive: empty plan'')
      else (case sk_Build sk (step_machine plan h) of
              Some e \<Rightarrow> Inl (Wrap ''progressive: build step machine'' e)
            | None \<Rightarrow> Inr (step_machine plan h)))"

section \<open>The stepper\<close>

type_synonym stepper = "step_state \<times> step_context"

definition NewStepper :: "'w step_kit \<Rightarrow> 'w step_mach \<Rightarrow> 'w \<Rightarrow> stepper \<times> 'w" where
  "NewStepper sk m w =
     (case sk_Start sk m (\<lparr>sc_Index = 0, sc_Weight = 0, sc_Failed = False\<rparr>, w) of
        (s, c, w') \<Rightarrow> ((s, c), w'))"

definition RestoreStepper :: "'w step_kit \<Rightarrow> 'w step_mach \<Rightarrow> stepper \<Rightarrow> stepper res" where
  "RestoreStepper sk m snap = sk_Restore sk m snap"

definition step_send :: "'w step_kit \<Rightarrow> 'w step_mach \<Rightarrow> string \<Rightarrow> stepper \<Rightarrow> 'w \<Rightarrow> stepper \<times> 'w" where
  "step_send sk m ev st w =
     (case sk_Send sk m ev (fst st, snd st, w) of (s, c, w') \<Rightarrow> ((s, c), w'))"

definition step_advance :: "'w step_kit \<Rightarrow> 'w step_mach \<Rightarrow> duration \<Rightarrow> stepper \<Rightarrow> 'w \<Rightarrow> stepper \<times> 'w" where
  "step_advance sk m d st w =
     (case sk_Advance sk m d (fst st, snd st, w) of (s, c, w') \<Rightarrow> ((s, c), w'))"

definition Complete :: "stepper \<Rightarrow> bool" where
  "Complete st = (fst st = StateComplete)"

definition Aborted :: "stepper \<Rightarrow> bool" where
  "Aborted st = (fst st = StateAborted)"

definition Paused :: "stepper \<Rightarrow> bool" where
  "Paused st = (case fst st of PausedSt _ \<Rightarrow> True | _ \<Rightarrow> False)"

section \<open>How the step machine moves\<close>

lemma filter_concat_upt:
  assumes "\<And>j t. j < n \<Longrightarrow> t \<in> set (f j) \<Longrightarrow> P t \<Longrightarrow> j = i"
  shows "filter P (concat (map f [0..<n])) = (if i < n then filter P (f i) else [])"
  using assms
proof (induction n)
  case (Suc n)
  have IH: "filter P (concat (map f [0..<n])) = (if i < n then filter P (f i) else [])"
    by (rule Suc.IH) (use Suc.prems in auto)
  have no: "filter P (f n) = []" if "i \<noteq> n"
    using Suc.prems [of n] that by (auto simp: filter_empty_conv)
  show ?case using IH no by (auto simp: less_Suc_eq)
qed simp

lemma step_transitions_from:
  "t \<in> set (step_transitions plan i) \<Longrightarrow> tr_From t = StepSt i \<or> tr_From t = PausedSt i"
  by (auto simp: step_transitions_def mk_tr_def Let_def)

lemma step_machine_trans:
  "mc_Transitions (step_machine plan h) = concat (map (step_transitions plan) [0..<length (pl_Steps plan)])"
  by (simp add: step_machine_def)

lemma step_enabled:
  assumes "s = StepSt i \<or> s = PausedSt i"
  shows "enabled (step_machine plan h) s tg c =
    (if i < length (pl_Steps plan)
     then filter (\<lambda>t. tr_From t = s \<and> tr_Trigger t = tg \<and> guard_holds (step_machine plan h) c (tr_Guard t))
            (step_transitions plan i) else [])"
  unfolding enabled_def step_machine_trans
  by (rule filter_concat_upt) (use assms in \<open>auto dest!: step_transitions_from\<close>)

lemma step_guards [simp]:
  "guard_holds (step_machine plan h) c (Some ''failed'') = sc_Failed c"
  "guard_holds (step_machine plan h) c (Some ''ok'') = (\<not> sc_Failed c)"
  "guard_holds (step_machine plan h) c None"
  by (simp_all add: guard_holds_def step_machine_def)

lemma step_enabled_final [simp]:
  "enabled (step_machine plan h) StateComplete tg c = []"
  "enabled (step_machine plan h) StateAborted tg c = []"
  by (auto simp: enabled_def step_machine_def filter_empty_conv step_transitions_def mk_tr_def Let_def)

lemma map_of_StepSt:
  "map_of (map (\<lambda>i. (StepSt i, f i)) [0..<n]) (StepSt i) = (if i < n then Some (f i) else None)"
  by (induction n) (auto simp: map_add_def less_Suc_eq)

lemma map_of_StepSt_other:
  "\<forall>i. s \<noteq> StepSt i \<Longrightarrow> map_of (map (\<lambda>i. (StepSt i, f i)) [0..<n]) s = None"
  by (auto simp: map_of_eq_None_iff)

lemma step_entry [simp]:
  "run_entry (step_machine plan h) (StepSt i) cw =
     (if i < length (pl_Steps plan) then enter_step h i (sp_Weight (pl_Steps plan ! i)) cw else cw)"
  "run_entry (step_machine plan h) StateComplete cw = cw"
  "run_entry (step_machine plan h) StateAborted cw = cw"
  "run_entry (step_machine plan h) (PausedSt i) cw = cw"
  by (simp_all add: run_entry_def step_machine_def map_of_StepSt map_of_StepSt_other)

text \<open>What entering step \<open>i\<close> gives: the step when its gate passes, an abort when it fails.\<close>

definition gated_entry :: "pplan \<Rightarrow> 'w step_health \<Rightarrow> nat \<Rightarrow> 'w \<Rightarrow> stepper \<times> 'w" where
  "gated_entry plan h i w =
     (let weight = sp_Weight (pl_Steps plan ! i); (ok, w') = h i weight w in
      ((if ok then StepSt i else StateAborted,
        \<lparr>sc_Index = int i, sc_Weight = weight, sc_Failed = \<not> ok\<rparr>), w'))"

definition raw_entry :: "pplan \<Rightarrow> 'w step_health \<Rightarrow> nat \<Rightarrow> 'w \<Rightarrow> stepper \<times> 'w" where
  "raw_entry plan h i w =
     (let weight = sp_Weight (pl_Steps plan ! i); (ok, w') = h i weight w in
      ((StepSt i, \<lparr>sc_Index = int i, sc_Weight = weight, sc_Failed = \<not> ok\<rparr>), w'))"

lemma enter_StepSt:
  assumes "i < length (pl_Steps plan)"
  shows "enter (step_machine plan h) (StepSt i) (c, w) =
    (case gated_entry plan h i w of ((s, c'), w') \<Rightarrow> (s, c', w'))"
proof -
  obtain ok w' where h: "h i (sp_Weight (pl_Steps plan ! i)) w = (ok, w')" by fastforce
  show ?thesis
    using assms h
    by (cases ok) (simp_all add: enter_def step_enabled [of _ i] enter_step_def gated_entry_def
      step_transitions_def mk_tr_def Let_def)
qed

lemma enter_final [simp]:
  "enter (step_machine plan h) StateComplete cw = (StateComplete, cw)"
  "enter (step_machine plan h) StateAborted cw = (StateAborted, cw)"
  by (simp_all add: enter_def)

lemma enter_PausedSt: "enter (step_machine plan h) (PausedSt i) cw = (PausedSt i, cw)"
  by (simp add: enter_def step_enabled [of _ i] step_transitions_def mk_tr_def Let_def)

lemma closed_step_machine:
  assumes "pl_Steps plan \<noteq> []"
  shows "closed_machine (step_machine plan h)"
proof -
  have "inj_on StepSt A" "inj_on PausedSt A" for A by (auto simp: inj_on_def)
  then have d: "distinct (mc_States (step_machine plan h))"
    by (auto simp: step_machine_def distinct_map)
  have m: "t \<in> set (mc_Transitions (step_machine plan h)) \<longleftrightarrow>
      (\<exists>i < length (pl_Steps plan). t \<in> set (step_transitions plan i))" for t
    by (auto simp: step_machine_def)
  show ?thesis
    unfolding closed_machine_def list_all_iff m
    using assms d
    by (auto simp: step_machine_def step_transitions_def mk_tr_def Let_def next_state_def)
qed

lemma step_send_next:
  assumes "statekit_api sk" "i < length (pl_Steps plan)" "\<not> sc_Failed c"
  shows "step_send sk (step_machine plan h) EvNext (StepSt i, c) w =
    (if Suc i < length (pl_Steps plan) then gated_entry plan h (Suc i) w else ((StateComplete, c), w))"
proof -
  have cl: "closed_machine (step_machine plan h)" using assms(2) by (intro closed_step_machine) auto
  have en: "enabled (step_machine plan h) (StepSt i) (On EvNext) c =
      [mk_tr (StepSt i) (On EvNext) (next_state (length (pl_Steps plan)) i) (Some ''ok'')]"
    using assms(2,3) by (simp add: step_enabled [of _ i] step_transitions_def mk_tr_def Let_def)
  have "sk_Send sk (step_machine plan h) EvNext (StepSt i, c, w) =
      enter (step_machine plan h) (next_state (length (pl_Steps plan)) i) (c, w)"
    by (rule statekit_api.Send_unique [OF assms(1) cl]) (simp_all add: en, simp add: mk_tr_def)
  then show ?thesis
    by (auto simp: step_send_def next_state_def enter_StepSt split: prod.splits)
qed

lemma step_send_next_failed:
  assumes "statekit_api sk" "i < length (pl_Steps plan)" "sc_Failed c"
  shows "step_send sk (step_machine plan h) EvNext (StepSt i, c) w = ((StepSt i, c), w)"
proof -
  have cl: "closed_machine (step_machine plan h)" using assms(2) by (intro closed_step_machine) auto
  have "enabled (step_machine plan h) (StepSt i) (On EvNext) c = []"
    using assms(2,3) by (simp add: step_enabled [of _ i] step_transitions_def mk_tr_def Let_def)
  then show ?thesis by (simp add: step_send_def statekit_api.Send_disabled [OF assms(1) cl])
qed

lemma step_advance_pause:
  assumes "statekit_api sk" "i < length (pl_Steps plan)" "\<not> sc_Failed c"
    and "d = sp_Pause (pl_Steps plan ! i)" "0 < d"
  shows "step_advance sk (step_machine plan h) d (StepSt i, c) w \<in>
    (if Suc i < length (pl_Steps plan) then {gated_entry plan h (Suc i) w, raw_entry plan h (Suc i) w}
     else {((StateComplete, c), w)})"
proof -
  let ?n = "next_state (length (pl_Steps plan)) i" and ?m = "step_machine plan h"
  have cl: "closed_machine ?m" using assms(2) by (intro closed_step_machine) auto
  have en: "enabled ?m (StepSt i) (After d) c = [mk_tr (StepSt i) (After d) ?n (Some ''ok'')]"
    using assms(2-4) by (simp add: step_enabled [of _ i] step_transitions_def mk_tr_def Let_def)
  have "sk_Advance sk ?m d (StepSt i, c, w) \<in> {enter ?m ?n (c, w), (?n, run_entry ?m ?n (c, w))}"
    by (rule statekit_api.Advance_unique [OF assms(1) cl assms(5)]) (simp_all add: en, simp add: mk_tr_def)
  then show ?thesis
    by (auto simp: step_advance_def next_state_def enter_StepSt raw_entry_def enter_step_def Let_def
      split: prod.splits)
qed

lemma step_advance_failed:
  assumes "statekit_api sk" "i < length (pl_Steps plan)" "sc_Failed c"
  shows "step_advance sk (step_machine plan h) d (StepSt i, c) w = ((StepSt i, c), w)"
proof -
  have cl: "closed_machine (step_machine plan h)" using assms(2) by (intro closed_step_machine) auto
  have "enabled (step_machine plan h) (StepSt i) (After d) c = []"
    using assms(2,3) by (simp add: step_enabled [of _ i] step_transitions_def mk_tr_def Let_def)
  then show ?thesis by (simp add: step_advance_def statekit_api.Advance_disabled [OF assms(1) cl])
qed

lemma NewStepper_gated:
  assumes "statekit_api sk" "pl_Steps plan \<noteq> []"
  shows "NewStepper sk (step_machine plan h) w = gated_entry plan h 0 w"
proof -
  have "mc_Initial (step_machine plan h) = StepSt 0" by (simp add: step_machine_def)
  then show ?thesis
    using assms(2)
    by (auto simp: NewStepper_def statekit_api.Start [OF assms(1) closed_step_machine] enter_StepSt
      split: prod.splits)
qed

lemma BuildStepMachine_ok:
  assumes "statekit_api sk" "pl_Steps plan \<noteq> []"
  shows "BuildStepMachine sk plan (Some h) = Inr (step_machine plan h)"
  using assms by (simp add: BuildStepMachine_def statekit_api.Build [OF assms(1) closed_step_machine])

end
