(* ===== verification/Rollout.thy ===== *)
theory Rollout
  imports Lifecycle Progressive
begin

text \<open>
  \<^verbatim>\<open>internal/rollout/model.go\<close> and the \<open>stepperPersist\<close> struct of
  \<^verbatim>\<open>internal/engine/stepper.go\<close>: the runtime entities, one record per Go struct. The opaque
  JSON columns (delivery descriptors, analysis, smoke test, stepper snapshot) are typed blobs.
\<close>

datatype strategy = StrategyRolling | StrategyCanary | StrategyBlueGreen

record identity =
  id_Kind :: string
  id_Name :: string
  id_Groups :: "string list"

record stepper_persist =
  pe_Plan :: pplan
  pe_Snap :: stepper
  pe_EnteredAt :: time

record rollout =
  r_ID :: string
  r_TargetRef :: string
  r_Phase :: phase
  r_Strategy :: strategy
  r_Desired :: manifest
  r_RiskScore :: real
  r_Initiator :: identity
  r_Note :: string
  r_StepIndex :: int
  r_StepTotal :: int
  r_StepWeight :: int
  r_DBRollbackCmd :: "string list"
  r_DBRollbackTimeout :: string
  r_DBMigrateCmd :: "string list"
  r_DBMigrateTimeout :: string
  r_DBMigrateWhen :: string
  r_DBBackwardCompatible :: bool
  r_DeliveryTraffic :: "traffic_routing blob"
  r_DeliveryFlag :: "feature_flags blob"
  r_Analysis :: "cfg_analysis blob"
  r_RollbackBlocked :: string
  r_SmokeTest :: "smoke_test blob"
  r_StepperSnap :: "stepper_persist blob"
  r_CreatedAt :: time
  r_UpdatedAt :: time

record target_state =
  ts_TargetRef :: string
  ts_Observed :: fingerprint
  ts_ObservedAt :: time

record scheduled_rollout =
  sd_ID :: string
  sd_TargetRef :: string
  sd_DueAt :: time
  sd_Desired :: manifest
  sd_Initiator :: identity

record rollout_record =
  rr_RolloutID :: string
  rr_TargetRef :: string
  rr_Phase :: phase
  rr_Note :: string
  rr_Initiator :: identity
  rr_At :: time

definition zero_identity :: identity where
  "zero_identity = \<lparr>id_Kind = [], id_Name = [], id_Groups = []\<rparr>"

definition zero_rollout :: rollout where
  "zero_rollout = \<lparr>
     r_ID = [], r_TargetRef = [], r_Phase = PhasePending, r_Strategy = StrategyRolling,
     r_Desired = zero_manifest, r_RiskScore = 0, r_Initiator = zero_identity, r_Note = [],
     r_StepIndex = 0, r_StepTotal = 0, r_StepWeight = 0,
     r_DBRollbackCmd = [], r_DBRollbackTimeout = [], r_DBMigrateCmd = [], r_DBMigrateTimeout = [],
     r_DBMigrateWhen = [], r_DBBackwardCompatible = False,
     r_DeliveryTraffic = NoBlob, r_DeliveryFlag = NoBlob, r_Analysis = NoBlob, r_RollbackBlocked = [],
     r_SmokeTest = NoBlob, r_StepperSnap = NoBlob, r_CreatedAt = 0, r_UpdatedAt = 0\<rparr>"

end
