(* ===== verification/Store.thy ===== *)
theory Store
  imports Rollout
begin

text \<open>
  \<^verbatim>\<open>internal/store/store.go\<close> and \<^verbatim>\<open>internal/store/sqlite/sqlite.go\<close>: the runtime store.

  A \<open>db\<close> is the content of the SQLite tables; each Go method is a function on it, with the SQL
  statement it runs written out (upserts, the columns an upsert leaves alone, \<open>ORDER BY\<close>,
  \<open>WHERE\<close>). Times are stored as RFC3339Nano text and compared as text, as the SQL does. Rows
  that tie in an \<open>ORDER BY\<close> come in insertion order. A failing database (I/O, lock timeout) is
  added by the engine, see theory \<open>Engine_Base\<close>; here a statement succeeds.

  The locale \<open>rollout_store\<close> is the \<open>Store\<close> interface as far as the rollout rows go, with the
  laws its callers rely on; it is interpreted by the SQLite functions.
\<close>

section \<open>Tables\<close>

text \<open>
  The columns of \<open>rollouts\<close>, in the order of the statements. A JSON column holds the value its text
  decodes to; \<open>NoBlob\<close> is the empty text and \<open>BadBlob\<close> a text that does not decode.
\<close>

record rollout_row =
  rw_id :: string
  rw_target_ref :: string
  rw_phase :: phase
  rw_strategy :: strategy
  rw_manifest :: "manifest blob"
  rw_risk_score :: real
  rw_initiator_kind :: string
  rw_initiator_name :: string
  rw_step_index :: int
  rw_step_total :: int
  rw_step_weight :: int
  rw_db_rollback_cmd :: "string list blob"
  rw_db_rollback_timeout :: string
  rw_db_migrate_cmd :: "string list blob"
  rw_db_backward_compatible :: bool
  rw_db_migrate_timeout :: string
  rw_db_migrate_when :: string
  rw_delivery_traffic :: "traffic_routing blob"
  rw_delivery_flag :: "feature_flags blob"
  rw_analysis :: "cfg_analysis blob"
  rw_smoke_test :: "smoke_test blob"
  rw_stepper_snap :: "stepper_persist blob"
  rw_rollback_blocked :: string
  rw_note :: string
  rw_created :: stamp
  rw_updated :: stamp

record history_row =
  hr_record :: rollout_record
  hr_at :: stamp

record schedule_row =
  sr_sched :: scheduled_rollout
  sr_due :: stamp

record state_row =
  sw_fingerprint :: string
  sw_meta :: "(string \<times> string) list"
  sw_observed :: stamp

record freeze_state =
  fs_Active :: bool
  fs_Reason :: string
  fs_By :: identity
  fs_At :: "time option"

record lease_row =
  lr_owner :: string
  lr_expires :: stamp

record db =
  db_rollouts :: "rollout_row list"
  db_target_state :: "(string \<times> state_row) list"
  db_schedules :: "schedule_row list"
  db_history :: "history_row list"
  db_leases :: "(string \<times> lease_row) list"
  db_freeze :: "freeze_state option"

definition empty_db :: db where
  "empty_db = \<lparr>db_rollouts = [], db_target_state = [], db_schedules = [], db_history = [],
     db_leases = [], db_freeze = None\<rparr>"

section \<open>Rollouts and history\<close>

definition row_id :: "rollout_row \<Rightarrow> string" where
  "row_id x = rw_id x"

text \<open>The columns that hold an identity: kind and name, not the groups.\<close>

definition col_identity :: "identity \<Rightarrow> identity" where
  "col_identity i = \<lparr>id_Kind = id_Kind i, id_Name = id_Name i, id_Groups = []\<rparr>"

text \<open>\<open>encodeDBCmd\<close> and \<open>decodeDBCmd\<close>: no command is the empty text, not \<open>[]\<close> or \<open>null\<close>.\<close>

definition encodeDBCmd :: "string list \<Rightarrow> string list blob" where
  "encodeDBCmd cmd = (if cmd = [] then NoBlob else Blob cmd)"

definition decodeDBCmd :: "string list blob \<Rightarrow> string list res" where
  "decodeDBCmd col = (if col = NoBlob then Inr [] else unblob col)"

text \<open>\<open>blobBytes\<close>: the empty text is the nil slice, any other text its bytes.\<close>

definition blobBytes :: "'a blob \<Rightarrow> 'a blob" where
  "blobBytes col = (if col = NoBlob then NoBlob else col)"

text \<open>The values of the \<open>INSERT\<close>.\<close>

definition row_of :: "rollout \<Rightarrow> rollout_row" where
  "row_of r =
     \<lparr>rw_id = r_ID r, rw_target_ref = r_TargetRef r, rw_phase = r_Phase r,
      rw_strategy = r_Strategy r, rw_manifest = Blob (json_manifest (r_Desired r)),
      rw_risk_score = r_RiskScore r, rw_initiator_kind = id_Kind (r_Initiator r),
      rw_initiator_name = id_Name (r_Initiator r), rw_step_index = r_StepIndex r,
      rw_step_total = r_StepTotal r, rw_step_weight = r_StepWeight r,
      rw_db_rollback_cmd = encodeDBCmd (r_DBRollbackCmd r),
      rw_db_rollback_timeout = r_DBRollbackTimeout r,
      rw_db_migrate_cmd = encodeDBCmd (r_DBMigrateCmd r),
      rw_db_backward_compatible = r_DBBackwardCompatible r,
      rw_db_migrate_timeout = r_DBMigrateTimeout r, rw_db_migrate_when = r_DBMigrateWhen r,
      rw_delivery_traffic = r_DeliveryTraffic r, rw_delivery_flag = r_DeliveryFlag r,
      rw_analysis = r_Analysis r, rw_smoke_test = r_SmokeTest r,
      rw_stepper_snap = r_StepperSnap r, rw_rollback_blocked = r_RollbackBlocked r,
      rw_note = r_Note r, rw_created = fmt_time (r_CreatedAt r),
      rw_updated = fmt_time (r_UpdatedAt r)\<rparr>"

text \<open>\<open>ON CONFLICT(id) DO UPDATE\<close>: target_ref, the initiator and created_at are not in its list.\<close>

definition update_row :: "rollout_row \<Rightarrow> rollout \<Rightarrow> rollout_row" where
  "update_row old r = (let excluded = row_of r in old
     \<lparr>rw_phase := rw_phase excluded, rw_strategy := rw_strategy excluded,
      rw_manifest := rw_manifest excluded, rw_risk_score := rw_risk_score excluded,
      rw_step_index := rw_step_index excluded, rw_step_total := rw_step_total excluded,
      rw_step_weight := rw_step_weight excluded,
      rw_db_rollback_cmd := rw_db_rollback_cmd excluded,
      rw_db_rollback_timeout := rw_db_rollback_timeout excluded,
      rw_db_migrate_cmd := rw_db_migrate_cmd excluded,
      rw_db_backward_compatible := rw_db_backward_compatible excluded,
      rw_db_migrate_timeout := rw_db_migrate_timeout excluded,
      rw_db_migrate_when := rw_db_migrate_when excluded,
      rw_delivery_traffic := rw_delivery_traffic excluded,
      rw_delivery_flag := rw_delivery_flag excluded, rw_analysis := rw_analysis excluded,
      rw_smoke_test := rw_smoke_test excluded, rw_stepper_snap := rw_stepper_snap excluded,
      rw_rollback_blocked := rw_rollback_blocked excluded, rw_note := rw_note excluded,
      rw_updated := rw_updated excluded\<rparr>)"

fun upsert_rollout :: "rollout \<Rightarrow> rollout_row list \<Rightarrow> rollout_row list" where
  "upsert_rollout r [] = [row_of r]"
| "upsert_rollout r (x # xs) =
     (if row_id x = r_ID r then update_row x r # xs else x # upsert_rollout r xs)"

definition history_of :: "rollout \<Rightarrow> history_row" where
  "history_of r = \<lparr>hr_record = \<lparr>rr_RolloutID = r_ID r, rr_TargetRef = r_TargetRef r, rr_Phase = r_Phase r,
       rr_Note = r_Note r, rr_Initiator = col_identity (r_Initiator r), rr_At = 0\<rparr>,
     hr_at = fmt_time (r_UpdatedAt r)\<rparr>"

definition db_SaveRollout :: "rollout \<Rightarrow> db \<Rightarrow> db" where
  "db_SaveRollout r d = d\<lparr>db_rollouts := upsert_rollout r (db_rollouts d),
                          db_history := db_history d @ [history_of r]\<rparr>"

text \<open>\<open>Scan\<close> and the decoding of the scanned columns, with its errors in the order of the code.\<close>

definition scanned :: "rollout_row \<Rightarrow> string list \<Rightarrow> string list \<Rightarrow> manifest \<Rightarrow> time \<Rightarrow> time \<Rightarrow> rollout" where
  "scanned x rc mc m c u =
     \<lparr>r_ID = rw_id x, r_TargetRef = rw_target_ref x, r_Phase = rw_phase x,
      r_Strategy = rw_strategy x, r_Desired = m, r_RiskScore = rw_risk_score x,
      r_Initiator = \<lparr>id_Kind = rw_initiator_kind x, id_Name = rw_initiator_name x, id_Groups = []\<rparr>,
      r_Note = rw_note x, r_StepIndex = rw_step_index x, r_StepTotal = rw_step_total x,
      r_StepWeight = rw_step_weight x, r_DBRollbackCmd = rc,
      r_DBRollbackTimeout = rw_db_rollback_timeout x, r_DBMigrateCmd = mc,
      r_DBMigrateTimeout = rw_db_migrate_timeout x, r_DBMigrateWhen = rw_db_migrate_when x,
      r_DBBackwardCompatible = rw_db_backward_compatible x,
      r_DeliveryTraffic = blobBytes (rw_delivery_traffic x),
      r_DeliveryFlag = blobBytes (rw_delivery_flag x),
      r_Analysis = blobBytes (rw_analysis x), r_RollbackBlocked = rw_rollback_blocked x,
      r_SmokeTest = blobBytes (rw_smoke_test x),
      r_StepperSnap = blobBytes (rw_stepper_snap x), r_CreatedAt = c, r_UpdatedAt = u\<rparr>"

definition decode_row :: "rollout_row \<Rightarrow> rollout res" where
  "decode_row x =
     (case decodeDBCmd (rw_db_rollback_cmd x) of
        Inl e \<Rightarrow> Inl (Wrap ''unmarshal db rollback cmd'' e)
      | Inr rc \<Rightarrow> (case decodeDBCmd (rw_db_migrate_cmd x) of
          Inl e \<Rightarrow> Inl (Wrap ''unmarshal db migrate cmd'' e)
        | Inr mc \<Rightarrow> (case unblob (rw_manifest x) of
            Inl e \<Rightarrow> Inl (Wrap ''unmarshal manifest'' e)
          | Inr m \<Rightarrow> (case parse_time (rw_created x) of
              None \<Rightarrow> Inl (Err ''parse created_at'')
            | Some c \<Rightarrow> (case parse_time (rw_updated x) of
                None \<Rightarrow> Inl (Err ''parse updated_at'')
              | Some u \<Rightarrow> Inr (scanned x rc mc m c u))))))"

definition db_LoadRollout :: "string \<Rightarrow> db \<Rightarrow> rollout res" where
  "db_LoadRollout i d =
     (case find (\<lambda>x. row_id x = i) (db_rollouts d) of
        None \<Rightarrow> Inl ErrNotFound
      | Some x \<Rightarrow> (case decode_row x of Inl e \<Rightarrow> Inl (Wrap ''sqlite'' e) | Inr r \<Rightarrow> Inr r))"

fun decode_rows :: "rollout_row list \<Rightarrow> rollout list res" where
  "decode_rows [] = Inr []"
| "decode_rows (x # xs) =
     (case decode_row x of Inl e \<Rightarrow> Inl (Wrap (''sqlite: rollout '' @ row_id x) e)
      | Inr r \<Rightarrow> (case decode_rows xs of Inl e \<Rightarrow> Inl e | Inr rs \<Rightarrow> Inr (r # rs)))"

text \<open>\<open>ORDER BY updated_at DESC [LIMIT n]\<close>.\<close>

definition newest_first :: "rollout_row list \<Rightarrow> rollout_row list" where
  "newest_first xs = rev (sort_key rw_updated (rev xs))"

definition db_ListRollouts :: "int \<Rightarrow> db \<Rightarrow> rollout list res" where
  "db_ListRollouts limit d =
     (let xs = newest_first (db_rollouts d)
      in decode_rows (if 0 < limit then take (nat limit) xs else xs))"

definition decode_history :: "history_row \<Rightarrow> rollout_record res" where
  "decode_history h =
     (case parse_time (hr_at h) of None \<Rightarrow> Inl (Err ''sqlite: parse history at'')
      | Some t \<Rightarrow> Inr ((hr_record h)\<lparr>rr_At := t\<rparr>))"

fun collect_res :: "('a \<Rightarrow> 'b res) \<Rightarrow> 'a list \<Rightarrow> 'b list res" where
  "collect_res f [] = Inr []"
| "collect_res f (x # xs) =
     (case f x of Inl e \<Rightarrow> Inl e
      | Inr y \<Rightarrow> (case collect_res f xs of Inl e \<Rightarrow> Inl e | Inr ys \<Rightarrow> Inr (y # ys)))"

text \<open>\<open>WHERE target_ref = ? ORDER BY seq DESC\<close>.\<close>

definition db_History :: "string \<Rightarrow> db \<Rightarrow> rollout_record list res" where
  "db_History ref d =
     collect_res decode_history (rev (filter (\<lambda>h. rr_TargetRef (hr_record h) = ref) (db_history d)))"

section \<open>Observed state\<close>

definition db_SaveObservedState :: "target_state \<Rightarrow> db \<Rightarrow> db" where
  "db_SaveObservedState ts d =
     d\<lparr>db_target_state := AList.update (ts_TargetRef ts)
         \<lparr>sw_fingerprint = fp_Value (ts_Observed ts), sw_meta = fp_Meta (ts_Observed ts),
          sw_observed = fmt_time (ts_ObservedAt ts)\<rparr> (db_target_state d)\<rparr>"

definition db_ObservedState :: "string \<Rightarrow> db \<Rightarrow> fingerprint res" where
  "db_ObservedState ref d =
     (case map_of (db_target_state d) ref of
        None \<Rightarrow> Inl ErrNotFound
      | Some w \<Rightarrow> Inr \<lparr>fp_Value = sw_fingerprint w, fp_Meta = sw_meta w\<rparr>)"

definition db_ObservedFingerprints :: "db \<Rightarrow> (string \<times> string) list" where
  "db_ObservedFingerprints d = map (\<lambda>(k, w). (k, sw_fingerprint w)) (db_target_state d)"

section \<open>Schedules\<close>

definition col_sched :: "scheduled_rollout \<Rightarrow> schedule_row" where
  "col_sched sc = \<lparr>sr_sched = sc\<lparr>sd_Desired := json_manifest (sd_Desired sc),
       sd_Initiator := col_identity (sd_Initiator sc), sd_DueAt := 0\<rparr>,
     sr_due = fmt_time (sd_DueAt sc)\<rparr>"

fun upsert_sched :: "schedule_row \<Rightarrow> schedule_row list \<Rightarrow> schedule_row list" where
  "upsert_sched s [] = [s]"
| "upsert_sched s (x # xs) =
     (if sd_ID (sr_sched x) = sd_ID (sr_sched s) then s # xs else x # upsert_sched s xs)"

definition db_Schedule :: "scheduled_rollout \<Rightarrow> db \<Rightarrow> db" where
  "db_Schedule sc d = d\<lparr>db_schedules := upsert_sched (col_sched sc) (db_schedules d)\<rparr>"

definition db_DeleteSchedule :: "string \<Rightarrow> db \<Rightarrow> db" where
  "db_DeleteSchedule i d = d\<lparr>db_schedules := filter (\<lambda>x. sd_ID (sr_sched x) \<noteq> i) (db_schedules d)\<rparr>"

definition decode_sched :: "schedule_row \<Rightarrow> scheduled_rollout res" where
  "decode_sched x =
     (case parse_time (sr_due x) of None \<Rightarrow> Inl (Err ''sqlite: parse due_at'')
      | Some t \<Rightarrow> Inr ((sr_sched x)\<lparr>sd_DueAt := t\<rparr>))"

text \<open>\<open>WHERE due_at <= ? ORDER BY due_at ASC\<close>, both on text.\<close>

definition db_DueSchedules :: "time \<Rightarrow> db \<Rightarrow> scheduled_rollout list res" where
  "db_DueSchedules now d =
     collect_res decode_sched (sort_key sr_due (filter (\<lambda>x. sr_due x \<le> fmt_time now) (db_schedules d)))"

section \<open>Freeze\<close>

definition db_SaveFreeze :: "freeze_state \<Rightarrow> db \<Rightarrow> db" where
  "db_SaveFreeze f d = d\<lparr>db_freeze := Some (f\<lparr>fs_By := col_identity (fs_By f)\<rparr>)\<rparr>"

definition db_LoadFreeze :: "db \<Rightarrow> freeze_state" where
  "db_LoadFreeze d =
     (case db_freeze d of Some f \<Rightarrow> f
      | None \<Rightarrow> \<lparr>fs_Active = False, fs_Reason = [], fs_By = zero_identity, fs_At = None\<rparr>)"

section \<open>Leases\<close>

definition db_AcquireLease :: "string \<Rightarrow> string \<Rightarrow> duration \<Rightarrow> time \<Rightarrow> db \<Rightarrow> bool res \<times> db" where
  "db_AcquireLease key owner ttl now d =
     (if ttl \<le> 0 then (Inl (Err ''sqlite: acquire lease: ttl must be positive''), d)
      else
        (let row = \<lparr>lr_owner = owner, lr_expires = fmt_time (now + ttl)\<rparr>;
             ls = (case map_of (db_leases d) key of
                     Some l \<Rightarrow> if lr_expires l \<le> fmt_time now then AList.delete key (db_leases d) else db_leases d
                   | None \<Rightarrow> db_leases d)
         in (case map_of ls key of
               None \<Rightarrow> (Inr True, d\<lparr>db_leases := AList.update key row ls\<rparr>)
             | Some l \<Rightarrow>
                 if lr_owner l = owner then (Inr True, d\<lparr>db_leases := AList.update key row ls\<rparr>)
                 else (Inr False, d\<lparr>db_leases := ls\<rparr>))))"

definition db_ReleaseLease :: "string \<Rightarrow> string \<Rightarrow> db \<Rightarrow> db" where
  "db_ReleaseLease key owner d =
     (case map_of (db_leases d) key of
        Some l \<Rightarrow> if lr_owner l = owner then d\<lparr>db_leases := AList.delete key (db_leases d)\<rparr> else d
      | None \<Rightarrow> d)"

section \<open>Invariant\<close>

definition stamped :: "stamp \<Rightarrow> bool" where
  "stamped st \<longleftrightarrow> (\<exists>t. st = fmt_time t)"

lemma stamped_fmt [simp]: "stamped (fmt_time t)"
  by (auto simp: stamped_def)

text \<open>A row that decodes: \<open>SaveRollout\<close> writes no other.\<close>

definition row_ok :: "rollout_row \<Rightarrow> bool" where
  "row_ok x \<longleftrightarrow> stamped (rw_created x) \<and> stamped (rw_updated x) \<and> rw_db_rollback_cmd x \<noteq> BadBlob \<and>
     rw_db_migrate_cmd x \<noteq> BadBlob \<and> (\<exists>m. rw_manifest x = Blob m)"

definition wf_db :: "db \<Rightarrow> bool" where
  "wf_db d \<longleftrightarrow> distinct (map row_id (db_rollouts d)) \<and>
     (\<forall>x \<in> set (db_rollouts d). row_ok x) \<and>
     (\<forall>h \<in> set (db_history d). stamped (hr_at h)) \<and>
     (\<forall>x \<in> set (db_schedules d). stamped (sr_due x))"

lemma wf_empty_db: "wf_db empty_db"
  by (simp add: wf_db_def empty_db_def)

lemma encodeDBCmd_good [simp]: "encodeDBCmd cmd \<noteq> BadBlob"
  by (simp add: encodeDBCmd_def)

lemma decode_encodeDBCmd [simp]: "decodeDBCmd (encodeDBCmd cmd) = Inr cmd"
  by (simp add: encodeDBCmd_def decodeDBCmd_def)

lemma decodeDBCmd_good: "col \<noteq> BadBlob \<Longrightarrow> \<exists>cmd. decodeDBCmd col = Inr cmd"
  by (cases col) (simp_all add: decodeDBCmd_def)

lemma blobBytes_same [simp]: "blobBytes col = col"
  by (simp add: blobBytes_def)

lemma row_ok_row_of [simp]: "row_ok (row_of r)"
  by (simp add: row_ok_def row_of_def)

lemma row_ok_update [simp]: "row_ok x \<Longrightarrow> row_ok (update_row x r)"
  by (simp add: row_ok_def row_of_def update_row_def Let_def)

lemma row_of_simps [simp]:
  "row_id (row_of r) = r_ID r" "rw_updated (row_of r) = fmt_time (r_UpdatedAt r)"
  "rw_created (row_of r) = fmt_time (r_CreatedAt r)"
  by (simp_all add: row_of_def row_id_def)

lemma update_row_simps [simp]:
  "row_id (update_row x r) = row_id x" "rw_updated (update_row x r) = fmt_time (r_UpdatedAt r)"
  "rw_created (update_row x r) = rw_created x"
  by (simp_all add: update_row_def row_of_def row_id_def Let_def)

lemma upsert_ids:
  "map row_id (upsert_rollout r xs) = map row_id xs @ (if r_ID r \<in> row_id ` set xs then [] else [r_ID r])"
  by (induction xs) auto

lemma upsert_row_ok:
  "\<forall>x \<in> set xs. row_ok x \<Longrightarrow> x \<in> set (upsert_rollout r xs) \<Longrightarrow> row_ok x"
  by (induction xs) (auto split: if_splits)

lemma wf_SaveRollout: "wf_db d \<Longrightarrow> wf_db (db_SaveRollout r d)"
  by (auto simp: wf_db_def db_SaveRollout_def upsert_ids history_of_def dest: upsert_row_ok)

text \<open>
  What a later load is to return for a rollout saved into \<open>d\<close>: the rollout itself, but for the
  directory of its manifest and, where the row is not new, its target, initiator and creation time.
\<close>

definition persisted :: "db \<Rightarrow> rollout \<Rightarrow> rollout" where
  "persisted d r =
     (case db_LoadRollout (r_ID r) d of
        Inr old \<Rightarrow> r\<lparr>r_TargetRef := r_TargetRef old, r_Initiator := r_Initiator old,
                     r_CreatedAt := r_CreatedAt old, r_Desired := json_manifest (r_Desired r)\<rparr>
      | Inl _ \<Rightarrow> r\<lparr>r_Initiator := col_identity (r_Initiator r), r_Desired := json_manifest (r_Desired r)\<rparr>)"

lemma find_upsert:
  "find (\<lambda>x. row_id x = i) (upsert_rollout r xs) =
     (if i = r_ID r
      then Some (case find (\<lambda>x. row_id x = i) xs of None \<Rightarrow> row_of r | Some x \<Rightarrow> update_row x r)
      else find (\<lambda>x. row_id x = i) xs)"
  by (induction xs) auto

lemma LoadRollout_find:
  "db_LoadRollout i d = (case find (\<lambda>x. row_id x = i) (db_rollouts d) of
     None \<Rightarrow> Inl ErrNotFound
   | Some x \<Rightarrow> (case decode_row x of Inl e \<Rightarrow> Inl (Wrap ''sqlite'' e) | Inr r \<Rightarrow> Inr r))"
  by (simp add: db_LoadRollout_def)

lemma decode_row_of: "decode_row (row_of r) =
    Inr (r\<lparr>r_Initiator := col_identity (r_Initiator r), r_Desired := json_manifest (r_Desired r)\<rparr>)"
  by (simp add: decode_row_def row_of_def parse_fmt_time scanned_def col_identity_def)

lemma decode_stamped:
  assumes "row_ok x"
  obtains r where "decode_row x = Inr r" "r_ID r = row_id x"
    "rw_updated x = fmt_time (r_UpdatedAt r)"
    "r_ID r' = row_id x \<longrightarrow> decode_row (update_row x r') =
       Inr (r'\<lparr>r_TargetRef := r_TargetRef r, r_Initiator := r_Initiator r,
              r_CreatedAt := r_CreatedAt r, r_Desired := json_manifest (r_Desired r')\<rparr>)"
proof -
  obtain c u m where cu: "rw_created x = fmt_time c" "rw_updated x = fmt_time u" "rw_manifest x = Blob m"
    using assms by (auto simp: row_ok_def stamped_def)
  obtain rc mc where cm: "decodeDBCmd (rw_db_rollback_cmd x) = Inr rc" "decodeDBCmd (rw_db_migrate_cmd x) = Inr mc"
    using assms by (auto simp: row_ok_def dest!: decodeDBCmd_good)
  show thesis
    by (rule that [of "scanned x rc mc m c u"])
       (simp_all add: decode_row_def cu cm parse_fmt_time row_id_def scanned_def update_row_def row_of_def Let_def)
qed

lemma find_row_SomeD: "find (\<lambda>x. row_id x = i) xs = Some x \<Longrightarrow> x \<in> set xs \<and> row_id x = i"
  by (drule find_SomeD) simp

lemma load_save:
  assumes "wf_db d"
  shows "db_LoadRollout i (db_SaveRollout r d) = (if i = r_ID r then Inr (persisted d r) else db_LoadRollout i d)"
proof (cases "i = r_ID r")
  case False
  then show ?thesis by (simp add: LoadRollout_find db_SaveRollout_def find_upsert)
next
  case True
  show ?thesis
  proof (cases "find (\<lambda>x. row_id x = r_ID r) (db_rollouts d)")
    case None
    then show ?thesis using True
      by (simp add: LoadRollout_find db_SaveRollout_def find_upsert persisted_def decode_row_of)
  next
    case (Some x)
    then have x: "row_ok x" "row_id x = r_ID r"
      using assms find_row_SomeD [OF Some] by (auto simp: wf_db_def)
    from x(1) obtain old where "decode_row x = Inr old"
      "r_ID r = row_id x \<longrightarrow> decode_row (update_row x r) = Inr (r\<lparr>r_TargetRef := r_TargetRef old,
         r_Initiator := r_Initiator old, r_CreatedAt := r_CreatedAt old, r_Desired := json_manifest (r_Desired r)\<rparr>)"
      by (rule decode_stamped [where r' = r])
    with x(2) show ?thesis using True Some
      by (simp add: LoadRollout_find db_SaveRollout_def find_upsert persisted_def)
  qed
qed

lemma persisted_simps [simp]:
  "r_ID (persisted d r) = r_ID r" "r_Phase (persisted d r) = r_Phase r"
  "r_UpdatedAt (persisted d r) = r_UpdatedAt r" "r_RollbackBlocked (persisted d r) = r_RollbackBlocked r"
  "r_StepperSnap (persisted d r) = r_StepperSnap r" "r_Note (persisted d r) = r_Note r"
  "r_Desired (persisted d r) = json_manifest (r_Desired r)"
  by (auto simp: persisted_def split: sum.splits)

section \<open>The list of rollouts\<close>

lemma decode_rows_ok:
  assumes "\<forall>x \<in> set xs. row_ok x"
  shows "\<exists>rs. decode_rows xs = Inr rs \<and> list_all2 (\<lambda>x r. decode_row x = Inr r \<and> r_ID r = row_id x \<and>
      rw_updated x = fmt_time (r_UpdatedAt r)) xs rs"
  using assms
proof (induction xs)
  case (Cons x xs)
  then obtain rs where rs: "decode_rows xs = Inr rs" "list_all2 (\<lambda>x r. decode_row x = Inr r \<and> r_ID r = row_id x \<and>
      rw_updated x = fmt_time (r_UpdatedAt r)) xs rs" by auto
  from Cons.prems have "row_ok x" by auto
  then obtain r where "decode_row x = Inr r" "r_ID r = row_id x" "rw_updated x = fmt_time (r_UpdatedAt r)"
    by (rule decode_stamped)
  with rs show ?case by auto
qed simp

lemma list_all2_set2D: "list_all2 P xs ys \<Longrightarrow> y \<in> set ys \<Longrightarrow> \<exists>x \<in> set xs. P x y"
  by (induction rule: list_all2_induct) auto

lemma list_all2_set1D: "list_all2 P xs ys \<Longrightarrow> x \<in> set xs \<Longrightarrow> \<exists>y \<in> set ys. P x y"
  by (induction rule: list_all2_induct) auto

lemma set_newest_first [simp]: "set (newest_first xs) = set xs"
  by (simp add: newest_first_def)

lemma sorted_newest_first: "sorted_wrt (\<lambda>a b. rw_updated b \<le> rw_updated a) (newest_first xs)"
proof -
  have "sorted_wrt (\<lambda>x y. rw_updated x \<le> rw_updated y) (sort_key rw_updated (rev xs))"
    using sorted_sort_key [of rw_updated "rev xs"] by (simp add: sorted_map)
  then show ?thesis by (simp add: newest_first_def sorted_wrt_rev)
qed

lemma ListRollouts_ok:
  assumes "wf_db d"
  shows "\<exists>rs. db_ListRollouts 0 d = Inr rs \<and>
    list_all2 (\<lambda>x r. decode_row x = Inr r \<and> r_ID r = row_id x \<and> rw_updated x = fmt_time (r_UpdatedAt r))
      (newest_first (db_rollouts d)) rs"
  using decode_rows_ok [of "newest_first (db_rollouts d)"] assms
  by (simp add: db_ListRollouts_def wf_db_def)

lemma find_row_id:
  assumes "distinct (map row_id xs)" "x \<in> set xs"
  shows "find (\<lambda>y. row_id y = row_id x) xs = Some x"
  using assms by (induction xs) (auto simp: image_iff)

lemma list_loads:
  assumes "wf_db d"
  shows "\<exists>rs. db_ListRollouts 0 d = Inr rs \<and> (\<forall>r. r \<in> set rs \<longleftrightarrow> db_LoadRollout (r_ID r) d = Inr r)"
proof -
  obtain rs where rs: "db_ListRollouts 0 d = Inr rs"
    "list_all2 (\<lambda>x r. decode_row x = Inr r \<and> r_ID r = row_id x \<and> rw_updated x = fmt_time (r_UpdatedAt r))
      (newest_first (db_rollouts d)) rs"
    using ListRollouts_ok [OF assms] by blast
  have ds: "distinct (map row_id (db_rollouts d))" using assms by (simp add: wf_db_def)
  have "r \<in> set rs \<longleftrightarrow> db_LoadRollout (r_ID r) d = Inr r" for r
  proof
    assume "r \<in> set rs"
    then obtain x where "x \<in> set (newest_first (db_rollouts d))" "decode_row x = Inr r" "r_ID r = row_id x"
      using list_all2_set2D [OF rs(2)] by blast
    then show "db_LoadRollout (r_ID r) d = Inr r"
      using find_row_id [OF ds, of x] by (simp add: LoadRollout_find)
  next
    assume "db_LoadRollout (r_ID r) d = Inr r"
    then obtain x where f: "find (\<lambda>x. row_id x = r_ID r) (db_rollouts d) = Some x" and x: "decode_row x = Inr r"
      by (auto simp: LoadRollout_find split: option.splits sum.splits)
    have "x \<in> set (newest_first (db_rollouts d))" using find_row_SomeD [OF f] by simp
    then show "r \<in> set rs"
      using list_all2_set1D [OF rs(2)] x by fastforce
  qed
  with rs(1) show ?thesis by blast
qed

section \<open>The store interface\<close>

locale rollout_store =
  fixes save :: "rollout \<Rightarrow> 's \<Rightarrow> 's"
    and load :: "string \<Rightarrow> 's \<Rightarrow> rollout res"
    and list_all_rollouts :: "'s \<Rightarrow> rollout list res"
    and view :: "'s \<Rightarrow> rollout \<Rightarrow> rollout"
    and ok :: "'s \<Rightarrow> bool"
  assumes save_ok: "ok s \<Longrightarrow> ok (save r s)"
    and load_saved: "ok s \<Longrightarrow> load i (save r s) = (if i = r_ID r then Inr (view s r) else load i s)"
    and list_is_loads: "ok s \<Longrightarrow>
      \<exists>rs. list_all_rollouts s = Inr rs \<and> (\<forall>r. r \<in> set rs \<longleftrightarrow> load (r_ID r) s = Inr r)"
    and view_id: "r_ID (view s r) = r_ID r"
    and view_phase: "r_Phase (view s r) = r_Phase r"
begin

text \<open>A search through the list finds something as soon as a stored rollout matches.\<close>

lemma list_find_some:
  assumes "ok s" "load i s = Inr r" "r_ID r = i" "P r"
  shows "\<exists>rs x. list_all_rollouts s = Inr rs \<and> find P rs = Some x \<and> P x"
proof -
  obtain rs where rs: "list_all_rollouts s = Inr rs" "\<forall>r. r \<in> set rs \<longleftrightarrow> load (r_ID r) s = Inr r"
    using list_is_loads [OF assms(1)] by blast
  with assms have "r \<in> set rs" by simp
  then have "find P rs \<noteq> None" using assms(4) by (auto simp: find_None_iff')
  then obtain x where "find P rs = Some x" by blast
  with rs(1) find_SomeD [of P rs x] show ?thesis by auto
qed

lemma list_find_none:
  assumes "ok s" "\<And>r. load (r_ID r) s = Inr r \<Longrightarrow> \<not> P r"
  shows "\<exists>rs. list_all_rollouts s = Inr rs \<and> find P rs = None"
  using list_is_loads [OF assms(1)] assms(2) by (auto simp: find_None_iff')

text \<open>A saved rollout is found by every search its saved form matches.\<close>

lemma saved_is_found:
  assumes "ok s" "P (view s r)"
  shows "\<exists>rs x. list_all_rollouts (save r s) = Inr rs \<and> find P rs = Some x \<and> P x"
  using list_find_some [of "save r s" "r_ID r" "view s r" P] assms
  by (simp add: save_ok load_saved view_id)

end

interpretation sqlite: rollout_store db_SaveRollout db_LoadRollout "db_ListRollouts 0" persisted wf_db
  by unfold_locales (simp_all add: wf_SaveRollout load_save list_loads)

section \<open>Guarantees of the store\<close>

lemma persisted_new:
  "db_LoadRollout (r_ID r) d = Inl e \<Longrightarrow> persisted d r =
     r\<lparr>r_Initiator := col_identity (r_Initiator r), r_Desired := json_manifest (r_Desired r)\<rparr>"
  by (simp add: persisted_def)

lemma persisted_old:
  "db_LoadRollout (r_ID r) d = Inr old \<Longrightarrow> persisted d r =
     r\<lparr>r_TargetRef := r_TargetRef old, r_Initiator := r_Initiator old, r_CreatedAt := r_CreatedAt old,
       r_Desired := json_manifest (r_Desired r)\<rparr>"
  by (simp add: persisted_def)

lemma History_SaveRollout:
  assumes "db_History ref d = Inr rs"
  shows "db_History ref (db_SaveRollout r d) = Inr ((if r_TargetRef r = ref
      then [\<lparr>rr_RolloutID = r_ID r, rr_TargetRef = ref, rr_Phase = r_Phase r, rr_Note = r_Note r,
             rr_Initiator = col_identity (r_Initiator r), rr_At = r_UpdatedAt r\<rparr>] else []) @ rs)"
  using assms by (auto simp: db_History_def db_SaveRollout_def history_of_def decode_history_def parse_fmt_time)

text \<open>
  C34: saving a rollout and loading it by id gives back the rollout itself, every field of it, with
  two exceptions: the manifest has no root directory and, for a new row, the initiator no groups;
  for an existing row the target, the initiator and the creation time are those of the row,
  whatever the saved value says. Every other rollout still loads as before, the history of the
  saved target has one new record at its head, with the saved phase, note and time, no other
  history changes, and the tables stay well formed.
\<close>

theorem save_then_load:
  assumes "wf_db d"
  shows "(\<forall>e. db_LoadRollout (r_ID r) d = Inl e \<longrightarrow> db_LoadRollout (r_ID r) (db_SaveRollout r d) =
      Inr (r\<lparr>r_Desired := (r_Desired r)\<lparr>m_Root := []\<rparr>, r_Initiator := (r_Initiator r)\<lparr>id_Groups := []\<rparr>\<rparr>)) \<and>
    (\<forall>old. db_LoadRollout (r_ID r) d = Inr old \<longrightarrow> db_LoadRollout (r_ID r) (db_SaveRollout r d) =
      Inr (r\<lparr>r_Desired := (r_Desired r)\<lparr>m_Root := []\<rparr>, r_TargetRef := r_TargetRef old,
             r_Initiator := r_Initiator old, r_CreatedAt := r_CreatedAt old\<rparr>)) \<and>
    (\<forall>i. i = r_ID r \<or> db_LoadRollout i (db_SaveRollout r d) = db_LoadRollout i d) \<and>
    (\<forall>ref rs. db_History ref d = Inr rs \<longrightarrow> db_History ref (db_SaveRollout r d) = Inr ((if r_TargetRef r = ref
       then [\<lparr>rr_RolloutID = r_ID r, rr_TargetRef = ref, rr_Phase = r_Phase r, rr_Note = r_Note r,
              rr_Initiator = (r_Initiator r)\<lparr>id_Groups := []\<rparr>, rr_At = r_UpdatedAt r\<rparr>] else []) @ rs)) \<and>
    wf_db (db_SaveRollout r d)"
proof -
  have i: "col_identity (r_Initiator r) = (r_Initiator r)\<lparr>id_Groups := []\<rparr>" by (simp add: col_identity_def)
  note l = sqlite.load_saved [OF assms]
  show ?thesis
    by (intro conjI allI impI)
       (simp_all add: l persisted_new persisted_old wf_SaveRollout [OF assms] History_SaveRollout i json_manifest_def)
qed

definition demo_saved :: rollout where
  "demo_saved = zero_rollout\<lparr>r_ID := ''ro-1'', r_TargetRef := ''k8s/web'', r_Phase := PhaseDeploying,
     r_DBRollbackCmd := [''./undo'', ''--all''], r_Note := ''step 1'', r_CreatedAt := 5, r_UpdatedAt := 7,
     r_Initiator := \<lparr>id_Kind = ''human'', id_Name = ''ann'', id_Groups = [''ops'']\<rparr>\<rparr>"

theorem save_then_load_witness:
  "db_LoadRollout ''ro-1'' (db_SaveRollout demo_saved empty_db) =
     Inr (demo_saved\<lparr>r_Initiator := \<lparr>id_Kind = ''human'', id_Name = ''ann'', id_Groups = []\<rparr>\<rparr>) \<and>
   db_LoadRollout ''ro-1'' (db_SaveRollout (demo_saved\<lparr>r_TargetRef := ''k8s/api'', r_Phase := PhasePromoted\<rparr>)
       (db_SaveRollout demo_saved empty_db)) =
     Inr (demo_saved\<lparr>r_Phase := PhasePromoted,
            r_Initiator := \<lparr>id_Kind = ''human'', id_Name = ''ann'', id_Groups = []\<rparr>\<rparr>)"
proof -
  have i: "r_ID demo_saved = ''ro-1''" by (simp add: demo_saved_def)
  have m: "(r_Desired demo_saved)\<lparr>m_Root := []\<rparr> = r_Desired demo_saved"
    by (simp add: demo_saved_def zero_rollout_def zero_manifest_def)
  have n: "(r_Initiator demo_saved)\<lparr>id_Groups := []\<rparr> = \<lparr>id_Kind = ''human'', id_Name = ''ann'', id_Groups = []\<rparr>"
    by (simp add: demo_saved_def)
  have e: "db_LoadRollout ''ro-1'' empty_db = Inl ErrNotFound" by (simp add: LoadRollout_find empty_db_def)
  have a: "db_LoadRollout ''ro-1'' (db_SaveRollout demo_saved empty_db) =
     Inr (demo_saved\<lparr>r_Initiator := \<lparr>id_Kind = ''human'', id_Name = ''ann'', id_Groups = []\<rparr>\<rparr>)"
    using save_then_load [OF wf_empty_db, of demo_saved] e m n by (simp add: i)
  show ?thesis
    using a save_then_load [OF wf_SaveRollout [OF wf_empty_db, of demo_saved],
      of "demo_saved\<lparr>r_TargetRef := ''k8s/api'', r_Phase := PhasePromoted\<rparr>"] m
    by (simp add: i demo_saved_def)
qed

lemma rollouts_by_second:
  assumes "wf_db d" "db_ListRollouts 0 d = Inr rs"
  shows "sorted_wrt (\<lambda>a b. r_UpdatedAt b div second \<le> r_UpdatedAt a div second) rs"
proof -
  have l2: "list_all2 (\<lambda>x r. rw_updated x = fmt_time (r_UpdatedAt r)) (newest_first (db_rollouts d)) rs"
    using ListRollouts_ok [OF assms(1)] assms(2) by (auto elim: list_all2_mono)
  have tr: "sorted_wrt Q rs" if "list_all2 P xs rs" "sorted_wrt R xs"
    "\<And>x y r r'. P x r \<Longrightarrow> P y r' \<Longrightarrow> R x y \<Longrightarrow> Q r r'" for P xs R Q
    using that
  proof (induction rule: list_all2_induct)
    case (Cons x xs y ys)
    then show ?case by (auto dest!: list_all2_set2D)
  qed simp
  show ?thesis
    by (rule tr [OF l2 sorted_newest_first]) (auto dest: fmt_time_le_imp)
qed

text \<open>
  ListRollouts returns every stored rollout exactly as it loads, newest first to the second:
  a rollout never precedes one that was updated in a later second.
\<close>

theorem ListRollouts_newest_first_by_second:
  assumes "wf_db d"
  shows "\<exists>rs. db_ListRollouts 0 d = Inr rs \<and>
    (\<forall>r. r \<in> set rs \<longleftrightarrow> db_LoadRollout (r_ID r) d = Inr r) \<and>
    sorted_wrt (\<lambda>a b. r_UpdatedAt b div second \<le> r_UpdatedAt a div second) rs"
  using list_loads [OF assms] rollouts_by_second [OF assms] by blast

definition half_second_apart :: db where
  "half_second_apart =
     db_SaveRollout (zero_rollout\<lparr>r_ID := ''newer'', r_UpdatedAt := 1500000000\<rparr>)
       (db_SaveRollout (zero_rollout\<lparr>r_ID := ''older'', r_UpdatedAt := 1000000000\<rparr>) empty_db)"

theorem ListRollouts_newest_first_by_second_witness:
  "\<exists>rs. db_ListRollouts 0 half_second_apart = Inr rs \<and>
     sorted_wrt (\<lambda>a b. r_UpdatedAt b div second \<le> r_UpdatedAt a div second) rs"
  using ListRollouts_newest_first_by_second [of half_second_apart]
  by (simp add: half_second_apart_def wf_SaveRollout wf_empty_db) blast

text \<open>
  Within one second ListRollouts is not newest first: a rollout saved half a second after
  another one is listed after it.
\<close>

theorem ListRollouts_inverts_within_a_second:
  "(case db_ListRollouts 0 half_second_apart of Inr rs \<Rightarrow> map r_ID rs | Inl _ \<Rightarrow> []) = [''older'', ''newer'']"
  by code_simp

section \<open>Leases exclude each other\<close>

datatype lease_op = AcqOp string duration time | RelOp string

fun op_owner :: "lease_op \<Rightarrow> string" where
  "op_owner (AcqOp w _ _) = w"
| "op_owner (RelOp w) = w"

text \<open>A sequence of lease calls on one key: what the acquisitions answered, and the tables after.\<close>

fun lease_run :: "string \<Rightarrow> lease_op list \<Rightarrow> db \<Rightarrow> bool res list \<times> db" where
  "lease_run key [] d = ([], d)"
| "lease_run key (AcqOp w ttl now # ops) d =
     (case db_AcquireLease key w ttl now d of (b, d') \<Rightarrow>
       (case lease_run key ops d' of (bs, d'') \<Rightarrow> (b # bs, d'')))"
| "lease_run key (RelOp w # ops) d = lease_run key ops (db_ReleaseLease key w d)"

definition within_lease :: "string \<Rightarrow> time \<Rightarrow> lease_op \<Rightarrow> bool" where
  "within_lease owner expiry lop =
     (op_owner lop \<noteq> owner \<and>
      (case lop of AcqOp _ _ now \<Rightarrow> now div second < expiry div second | RelOp _ \<Rightarrow> True))"

lemma acquired_row:
  assumes "db_AcquireLease key w ttl t d = (Inr True, d')"
  shows "map_of (db_leases d') key = Some \<lparr>lr_owner = w, lr_expires = fmt_time (t + ttl)\<rparr>" "0 < ttl"
  using assms by (auto simp: db_AcquireLease_def Let_def update_conv' split: if_splits option.splits)

lemma acquire_refused:
  assumes "map_of (db_leases d) key = Some l" "lr_owner l \<noteq> w" "\<not> lr_expires l \<le> fmt_time now"
  shows "fst (db_AcquireLease key w ttl now d) \<noteq> Inr True \<and>
    map_of (db_leases (snd (db_AcquireLease key w ttl now d))) key = Some l"
  using assms by (auto simp: db_AcquireLease_def Let_def)

lemma release_refused:
  assumes "map_of (db_leases d) key = Some l" "lr_owner l \<noteq> w"
  shows "db_ReleaseLease key w d = d"
  using assms by (simp add: db_ReleaseLease_def)

lemma lease_run_held:
  assumes "map_of (db_leases d) key = Some \<lparr>lr_owner = w, lr_expires = fmt_time e\<rparr>"
    and "\<forall>lop \<in> set ops. within_lease w e lop"
  shows "Inr True \<notin> set (fst (lease_run key ops d)) \<and>
    map_of (db_leases (snd (lease_run key ops d))) key = Some \<lparr>lr_owner = w, lr_expires = fmt_time e\<rparr>"
  using assms
proof (induction ops arbitrary: d)
  case (Cons lop ops)
  show ?case
  proof (cases lop)
    case (AcqOp v ttl now)
    obtain b d' where a: "db_AcquireLease key v ttl now d = (b, d')" by fastforce
    have "fmt_time now < fmt_time e" "v \<noteq> w"
      using Cons.prems(2) AcqOp by (auto simp: within_lease_def intro: fmt_time_less_sec)
    then have "b \<noteq> Inr True \<and> map_of (db_leases d') key = Some \<lparr>lr_owner = w, lr_expires = fmt_time e\<rparr>"
      using acquire_refused [OF Cons.prems(1), of v now ttl] a by simp
    with Cons.IH [of d'] Cons.prems(2) AcqOp a show ?thesis by (auto split: prod.splits)
  next
    case (RelOp v)
    with release_refused [OF Cons.prems(1), of v] Cons show ?thesis by (auto simp: within_lease_def)
  qed
qed simp

text \<open>
  A lease excludes every other owner until it expires: once an owner acquired a key, no
  sequence of acquisitions and releases by other owners made in a second before the second of its
  expiry gets the key or takes it away; the owner's row is still there afterwards.
\<close>

theorem lease_excludes_others:
  assumes "db_AcquireLease key w ttl t d = (Inr True, d')"
    and "\<forall>lop \<in> set ops. within_lease w (t + ttl) lop"
  shows "Inr True \<notin> set (fst (lease_run key ops d')) \<and>
    map_of (db_leases (snd (lease_run key ops d'))) key =
      Some \<lparr>lr_owner = w, lr_expires = fmt_time (t + ttl)\<rparr>"
  by (rule lease_run_held [OF acquired_row(1) [OF assms(1)] assms(2)])

theorem lease_excludes_others_witness:
  "\<exists>d'. db_AcquireLease ''k'' ''a'' (120 * second) 0 empty_db = (Inr True, d') \<and>
     Inr True \<notin> set (fst (lease_run ''k'' [AcqOp ''b'' second (100 * second), RelOp ''b''] d'))"
proof -
  obtain d' where a: "db_AcquireLease ''k'' ''a'' (120 * second) 0 empty_db = (Inr True, d')"
    by (simp add: db_AcquireLease_def empty_db_def)
  show ?thesis
    using lease_excludes_others [OF a, of "[AcqOp ''b'' second (100 * second), RelOp ''b'']"] a
    by (simp add: within_lease_def)
qed

end
