(* ===== verification/Guardrails.thy ===== *)
theory Guardrails
  imports Rollout Effects
begin

text \<open>
  \<^verbatim>\<open>internal/security/guardrails.go\<close> and \<^verbatim>\<open>internal/governance/governance.go\<close>: the hard limits
  under the risk gate, and the external governor.

  The in-memory freeze, the authoritative freeze source, the fortify rate limiter and the
  governance provider act on a state \<open>'s\<close>; a nil collaborator is \<open>None\<close>.
\<close>

section \<open>Freeze, floor and limiter\<close>

record freeze =
  fz_active :: bool
  fz_reason :: string
  fz_by :: identity

definition NewFreeze :: freeze where
  "NewFreeze = \<lparr>fz_active = False, fz_reason = [], fz_by = zero_identity\<rparr>"

definition Engage :: "identity \<Rightarrow> string \<Rightarrow> freeze \<Rightarrow> freeze" where
  "Engage who reason f = f\<lparr>fz_active := True, fz_by := who, fz_reason := reason\<rparr>"

definition Lift :: "identity \<Rightarrow> freeze \<Rightarrow> freeze" where
  "Lift who f = f\<lparr>fz_active := False, fz_by := who, fz_reason := []\<rparr>"

record floor_input =
  fi_TargetRef :: string
  fi_Environment :: string
  fi_ChangeType :: string
  fi_Criticality :: string

record policy_floor =
  pf_CriticalTargets :: "string list"
  pf_RequireApprovalProdSchema :: bool

definition DefaultPolicyFloor :: policy_floor where
  "DefaultPolicyFloor = \<lparr>pf_CriticalTargets = [], pf_RequireApprovalProdSchema = True\<rparr>"

definition MustApprove :: "policy_floor \<Rightarrow> floor_input \<Rightarrow> bool" where
  "MustApprove f inp =
     (fi_Criticality inp = ''critical'' \<or>
      fi_TargetRef inp \<in> set (pf_CriticalTargets f) \<or>
      (pf_RequireApprovalProdSchema f \<and> fi_Environment inp = ''prod'' \<and>
       (fi_ChangeType inp = ''schema'' \<or> fi_ChangeType inp = ''migration'')))"

record 's guardrails =
  gr_Floor :: policy_floor
  gr_Freeze :: "('s \<Rightarrow> freeze) option"
  gr_AgentLimit :: "(string \<Rightarrow> ('s, bool) state) option"
  gr_FreezeSource :: "('s, (bool \<times> string) res) state option"

definition freeze_check :: "'s guardrails \<Rightarrow> ('s, err option) state" where
  "freeze_check g =
     (case gr_FreezeSource g of
        Some src \<Rightarrow> do {
          r \<leftarrow> src;
          State_Monad.return (case r of
              Inl e \<Rightarrow> Some (ErrFrozen (''freeze state unreadable: '' @ err_str e))
            | Inr (active, reason) \<Rightarrow> if active then Some (ErrFrozen reason) else None)
        }
      | None \<Rightarrow> (case gr_Freeze g of
          Some fz \<Rightarrow> do {
            s \<leftarrow> State_Monad.get;
            State_Monad.return (if fz_active (fz s) then Some (ErrFrozen []) else None)
          }
        | None \<Rightarrow> State_Monad.return None))"

definition CheckApply :: "'s guardrails \<Rightarrow> identity \<Rightarrow> floor_input \<Rightarrow> ('s, bool res) state" where
  "CheckApply g who inp = do {
     fe \<leftarrow> freeze_check g;
     (case fe of
        Some e \<Rightarrow> State_Monad.return (Inl e)
      | None \<Rightarrow> do {
          ok \<leftarrow> (case gr_AgentLimit g of
                  Some allow \<Rightarrow> if id_Kind who = ''agent'' then allow (id_Name who) else State_Monad.return True
                | None \<Rightarrow> State_Monad.return True);
          State_Monad.return (if ok then Inr (MustApprove (gr_Floor g) inp) else Inl ErrRateLimited)
        })
   }"

section \<open>Governance\<close>

record gov_request =
  gq_Action :: string
  gq_TargetRef :: string
  gq_Actor :: identity
  gq_Environment :: string
  gq_Version :: string

record gov_decision =
  gd_Allowed :: bool
  gd_Reason :: string

type_synonym 's governor = "gov_request \<Rightarrow> ('s, gov_decision res) state"

definition Hook_Evaluate :: "'s governor option \<Rightarrow> gov_request \<Rightarrow> ('s, gov_decision res) state" where
  "Hook_Evaluate h req =
     (case h of
        None \<Rightarrow> State_Monad.return (Inr \<lparr>gd_Allowed = True, gd_Reason = []\<rparr>)
      | Some p \<Rightarrow>
          if gq_Action req = [] \<or> gq_TargetRef req = []
          then State_Monad.return (Inl (Err ''governance: action and target are required''))
          else do {
            d \<leftarrow> p req;
            State_Monad.return (case d of
                Inl e \<Rightarrow> Inl e
              | Inr dec \<Rightarrow> Inr (if \<not> gd_Allowed dec \<and> gd_Reason dec = []
                              then dec\<lparr>gd_Reason := ''denied by governance hook''\<rparr> else dec))
          })"

lemma MustApprove_iff:
  "MustApprove f inp \<longleftrightarrow> fi_Criticality inp = ''critical'' \<or> fi_TargetRef inp \<in> set (pf_CriticalTargets f) \<or>
     (pf_RequireApprovalProdSchema f \<and> fi_Environment inp = ''prod'' \<and>
      fi_ChangeType inp \<in> {''schema'', ''migration''})"
  by (auto simp: MustApprove_def)

end
