(* ===== verification/Risk.thy ===== *)
theory Risk
  imports Complex_Main Prelude
begin

text \<open>
  \<^verbatim>\<open>internal/risk/risk.go\<close> and \<^verbatim>\<open>internal/condition/condition.go\<close>: the blast-radius score and
  the gate decision. CEL (\<open>github.com/google/cel-go\<close>) is a parameter, the record \<open>cel\<close>:
  compiling, the output type of an expression, building a program and evaluating it.

  Floating point: every arithmetic operation of \<open>Score\<close> goes through a rounding \<open>fl\<close>, of which
  the theorems use that it is monotone and keeps 0. The constants (0.66, \<open>\<dots>\<close>) are the written
  decimals. The numbers printed with \<open>%.2f\<close> in \<open>Reason\<close> are left out of its text.
\<close>

section \<open>Conditions\<close>

record cond_input =
  ci_Criticality :: string
  ci_Environment :: string
  ci_ChangeType :: string
  ci_BlastRadius :: int
  ci_Strategy :: string
  ci_Score :: real
  ci_RecentFailures :: int
  ci_HistoryRisk :: real

datatype cel_value = CelBool bool | CelOther string

record cel =
  cel_Check :: "string \<Rightarrow> err option"
  cel_Bool :: "string \<Rightarrow> bool"
  cel_Program :: "string \<Rightarrow> err option"
  cel_Eval :: "string \<Rightarrow> cond_input \<Rightarrow> cel_value res"

definition cond_err :: "string \<Rightarrow> string" where
  "cond_err expr = ''condition '' @ expr"

definition cond_Compile :: "cel \<Rightarrow> string \<Rightarrow> string res" where
  "cond_Compile cl expr =
     (case cel_Check cl expr of
        Some e \<Rightarrow> Inl (Wrap (cond_err expr) e)
      | None \<Rightarrow>
          if \<not> cel_Bool cl expr then Inl (Err (cond_err expr @ '': must evaluate to bool''))
          else (case cel_Program cl expr of
                  Some e \<Rightarrow> Inl (Wrap (cond_err expr @ '': build program'') e)
                | None \<Rightarrow> Inr expr))"

definition cond_EvalBool :: "cel \<Rightarrow> string \<Rightarrow> cond_input \<Rightarrow> bool res" where
  "cond_EvalBool cl prg inp =
     (case cel_Eval cl prg inp of
        Inl e \<Rightarrow> Inl (Wrap (cond_err prg @ '': eval'') e)
      | Inr (CelBool b) \<Rightarrow> Inr b
      | Inr (CelOther v) \<Rightarrow> Inl (Err (cond_err prg @ '': non-bool result '' @ v)))"

definition cond_Eval :: "cel \<Rightarrow> string \<Rightarrow> cond_input \<Rightarrow> bool res" where
  "cond_Eval cl expr inp =
     (case cond_Compile cl expr of Inl e \<Rightarrow> Inl e | Inr p \<Rightarrow> cond_EvalBool cl p inp)"

definition cond_Check :: "cel \<Rightarrow> string \<Rightarrow> err option" where
  "cond_Check cl expr = (case cond_Compile cl expr of Inl e \<Rightarrow> Some e | Inr _ \<Rightarrow> None)"

section \<open>The score\<close>

record signals =
  sg_Criticality :: string
  sg_Environment :: string
  sg_ChangeType :: string
  sg_BlastRadius :: int
  sg_Strategy :: string
  sg_RecentFailures :: int

record weights =
  wt_Criticality :: real
  wt_Environment :: real
  wt_ChangeType :: real
  wt_BlastRadius :: real
  wt_Strategy :: real
  wt_History :: real
  wt_MaxBlastRadius :: int
  wt_MaxRecentFailures :: int

definition zero_weights :: weights where
  "zero_weights = \<lparr>wt_Criticality = 0, wt_Environment = 0, wt_ChangeType = 0, wt_BlastRadius = 0,
     wt_Strategy = 0, wt_History = 0, wt_MaxBlastRadius = 0, wt_MaxRecentFailures = 0\<rparr>"

definition DefaultWeights :: weights where
  "DefaultWeights = \<lparr>wt_Criticality = 25/100, wt_Environment = 20/100, wt_ChangeType = 20/100,
     wt_BlastRadius = 20/100, wt_Strategy = 15/100, wt_History = 0, wt_MaxBlastRadius = 10,
     wt_MaxRecentFailures = 3\<rparr>"

definition criticalityScore :: "string \<Rightarrow> real" where
  "criticalityScore s =
     (if s = ''critical'' then 1 else if s = ''high'' then 66/100
      else if s = ''medium'' then 33/100 else 0)"

definition environmentScore :: "string \<Rightarrow> real" where
  "environmentScore s =
     (if s = ''prod'' \<or> s = ''production'' then 1 else if s = ''staging'' then 1/2 else 0)"

definition changeTypeScore :: "string \<Rightarrow> real" where
  "changeTypeScore s =
     (if s = ''schema'' \<or> s = ''migration'' then 1 else if s = ''code'' then 1/2 else 0)"

definition strategyScore :: "string \<Rightarrow> real" where
  "strategyScore s = (if s = ''blue-green'' then 1 else if s = ''rolling'' then 1/2 else 0)"

definition clamp01 :: "real \<Rightarrow> real" where
  "clamp01 v = (if v < 0 then 0 else if 1 < v then 1 else v)"

definition HistoryScore :: "(real \<Rightarrow> real) \<Rightarrow> int \<Rightarrow> int \<Rightarrow> real" where
  "HistoryScore fl recentFailures maxRecentFailures =
     (let mx = (if maxRecentFailures \<le> 0 then 3 else maxRecentFailures) in
      clamp01 (fl (of_int recentFailures / of_int mx)))"

definition Score :: "(real \<Rightarrow> real) \<Rightarrow> signals \<Rightarrow> weights \<Rightarrow> real" where
  "Score fl s w =
     (let maxBlast = (if wt_MaxBlastRadius w \<le> 0 then 10 else wt_MaxBlastRadius w);
          blast = clamp01 (fl (of_int (sg_BlastRadius s) / of_int maxBlast));
          history = HistoryScore fl (sg_RecentFailures s) (wt_MaxRecentFailures w);
          total = fl (fl (fl (fl (fl (wt_Criticality w + wt_Environment w) + wt_ChangeType w)
                    + wt_BlastRadius w) + wt_Strategy w) + wt_History w)
      in if total = 0 then 0
         else
           (let weighted =
              fl (fl (fl (fl (fl (fl (wt_Criticality w * criticalityScore (sg_Criticality s))
                + fl (wt_Environment w * environmentScore (sg_Environment s)))
                + fl (wt_ChangeType w * changeTypeScore (sg_ChangeType s)))
                + fl (wt_BlastRadius w * blast))
                + fl (wt_Strategy w * strategyScore (sg_Strategy s)))
                + fl (wt_History w * history))
            in clamp01 (fl (weighted / total))))"

section \<open>The gate\<close>

record risk_decision =
  rd_Score :: real
  rd_Threshold :: real
  rd_NeedsApproval :: bool
  rd_Sensitive :: bool
  rd_RecentFailures :: int
  rd_Reason :: string

record gate =
  gt_Threshold :: real
  gt_Weights :: weights
  gt_SensitiveExpr :: string

definition decide :: "gate \<Rightarrow> signals \<Rightarrow> real \<Rightarrow> bool \<Rightarrow> risk_decision" where
  "decide g s score sensitive =
     (let need = (sensitive \<or> gt_Threshold g \<le> score) in
      \<lparr>rd_Score = score, rd_Threshold = gt_Threshold g, rd_NeedsApproval = need,
       rd_Sensitive = sensitive, rd_RecentFailures = sg_RecentFailures s,
       rd_Reason = (if sensitive then ''sensitive: flagged by policy''
                    else if need then ''score >= threshold''
                    else ''score < threshold: auto-proceed'')\<rparr>)"

text \<open>What the sensitive expression sees.\<close>

definition gate_input :: "(real \<Rightarrow> real) \<Rightarrow> weights \<Rightarrow> signals \<Rightarrow> cond_input" where
  "gate_input fl w s =
     \<lparr>ci_Criticality = sg_Criticality s, ci_Environment = sg_Environment s,
      ci_ChangeType = sg_ChangeType s, ci_BlastRadius = sg_BlastRadius s,
      ci_Strategy = sg_Strategy s, ci_Score = Score fl s w,
      ci_RecentFailures = sg_RecentFailures s,
      ci_HistoryRisk = HistoryScore fl (sg_RecentFailures s) (wt_MaxRecentFailures w)\<rparr>"

definition gate_weights :: "gate \<Rightarrow> weights" where
  "gate_weights g = (if gt_Weights g = zero_weights then DefaultWeights else gt_Weights g)"

definition Evaluate :: "(real \<Rightarrow> real) \<Rightarrow> cel \<Rightarrow> gate \<Rightarrow> signals \<Rightarrow> risk_decision res" where
  "Evaluate fl cl g s =
     (let w = gate_weights g; score = Score fl s w
      in if gt_SensitiveExpr g \<noteq> [] then
           (case cond_Eval cl (gt_SensitiveExpr g) (gate_input fl w s) of
              Inl e \<Rightarrow> Inl (Wrap ''risk: sensitive expression'' e)
            | Inr b \<Rightarrow> Inr (decide g s score b))
         else Inr (decide g s score False))"

section \<open>Properties\<close>

definition rounding :: "(real \<Rightarrow> real) \<Rightarrow> bool" where
  "rounding fl \<longleftrightarrow> mono fl \<and> fl 0 = 0"

lemma roundingD: "rounding fl \<Longrightarrow> a \<le> b \<Longrightarrow> fl a \<le> fl b"
  by (auto simp: rounding_def mono_def)

lemma rounding_nonneg: "rounding fl \<Longrightarrow> 0 \<le> a \<Longrightarrow> 0 \<le> fl a"
  using roundingD [of fl 0 a] by (simp add: rounding_def)

lemma clamp01_bounds: "0 \<le> clamp01 v" "clamp01 v \<le> 1"
  by (auto simp: clamp01_def)

lemma clamp01_mono: "a \<le> b \<Longrightarrow> clamp01 a \<le> clamp01 b"
  by (auto simp: clamp01_def)

lemma Score_bounds: "0 \<le> Score fl s w" "Score fl s w \<le> 1"
  by (auto simp: Score_def Let_def clamp01_bounds)

definition riskier :: "signals \<Rightarrow> signals \<Rightarrow> bool" where
  "riskier s s' \<longleftrightarrow>
     criticalityScore (sg_Criticality s) \<le> criticalityScore (sg_Criticality s') \<and>
     environmentScore (sg_Environment s) \<le> environmentScore (sg_Environment s') \<and>
     changeTypeScore (sg_ChangeType s) \<le> changeTypeScore (sg_ChangeType s') \<and>
     sg_BlastRadius s \<le> sg_BlastRadius s' \<and>
     strategyScore (sg_Strategy s) \<le> strategyScore (sg_Strategy s') \<and>
     sg_RecentFailures s \<le> sg_RecentFailures s'"

definition nonneg_weights :: "weights \<Rightarrow> bool" where
  "nonneg_weights w \<longleftrightarrow> 0 \<le> wt_Criticality w \<and> 0 \<le> wt_Environment w \<and> 0 \<le> wt_ChangeType w \<and>
     0 \<le> wt_BlastRadius w \<and> 0 \<le> wt_Strategy w \<and> 0 \<le> wt_History w"

lemma ratio_mono: "rounding fl \<Longrightarrow> 0 \<le> (m::real) \<Longrightarrow> a \<le> b \<Longrightarrow> clamp01 (fl (a / m)) \<le> clamp01 (fl (b / m))"
  by (rule clamp01_mono, rule roundingD, assumption, rule divide_right_mono)

lemma HistoryScore_mono:
  "rounding fl \<Longrightarrow> a \<le> b \<Longrightarrow> HistoryScore fl a m \<le> HistoryScore fl b m"
  unfolding HistoryScore_def Let_def by (rule ratio_mono) auto

lemma weighted_mono: "rounding fl \<Longrightarrow> 0 \<le> w \<Longrightarrow> (a::real) \<le> b \<Longrightarrow> fl (w * a) \<le> fl (w * b)"
  by (rule roundingD, assumption, rule mult_left_mono)

lemma sum_mono_fl: "rounding fl \<Longrightarrow> (a::real) \<le> a' \<Longrightarrow> b \<le> b' \<Longrightarrow> fl (a + b) \<le> fl (a' + b')"
  by (rule roundingD, assumption, rule add_mono)

lemma sum_nonneg_fl: "rounding fl \<Longrightarrow> 0 \<le> a \<Longrightarrow> 0 \<le> b \<Longrightarrow> 0 \<le> fl (a + b)"
  by (rule rounding_nonneg) auto

text \<open>
  The risk score is always between 0 and 1 and never falls when a signal gets riskier: for
  non-negative weights, a change that is at least as critical, as production-bound, as invasive,
  with at least as many dependents and recent failures scores at least as high, whatever the
  rounding of the float operations, as long as it is monotone and keeps zero.
\<close>

theorem Score_bounded_monotone:
  assumes "rounding fl" "nonneg_weights w" "riskier s s'"
  shows "0 \<le> Score fl s w \<and> Score fl s w \<le> Score fl s' w \<and> Score fl s' w \<le> 1"
proof -
  define total where "total = fl (fl (fl (fl (fl (wt_Criticality w + wt_Environment w) + wt_ChangeType w)
                    + wt_BlastRadius w) + wt_Strategy w) + wt_History w)"
  note pos = assms(2) [unfolded nonneg_weights_def] and rk = assms(3) [unfolded riskier_def]
  have total: "0 \<le> total"
    unfolding total_def using pos by (simp add: sum_nonneg_fl [OF assms(1)])
  let ?mb = "if wt_MaxBlastRadius w \<le> 0 then 10 else wt_MaxBlastRadius w"
  have blast: "clamp01 (fl (of_int (sg_BlastRadius s) / of_int ?mb)) \<le> clamp01 (fl (of_int (sg_BlastRadius s') / of_int ?mb))"
    by (rule ratio_mono [OF assms(1)]) (use rk in auto)
  have hist: "HistoryScore fl (sg_RecentFailures s) m \<le> HistoryScore fl (sg_RecentFailures s') m" for m
    by (rule HistoryScore_mono [OF assms(1)]) (use rk in simp)
  note sm = sum_mono_fl [OF assms(1)] and wm = weighted_mono [OF assms(1)]
  let ?W = "\<lambda>s. fl (fl (fl (fl (fl (fl (wt_Criticality w * criticalityScore (sg_Criticality s))
                + fl (wt_Environment w * environmentScore (sg_Environment s)))
                + fl (wt_ChangeType w * changeTypeScore (sg_ChangeType s)))
                + fl (wt_BlastRadius w * clamp01 (fl (of_int (sg_BlastRadius s) / of_int ?mb))))
                + fl (wt_Strategy w * strategyScore (sg_Strategy s)))
                + fl (wt_History w * HistoryScore fl (sg_RecentFailures s) (wt_MaxRecentFailures w)))"
  have "?W s \<le> ?W s'"
    by (rule sm sm [OF sm] wm hist blast | use pos rk in simp)+
  then have "clamp01 (fl (?W s / total)) \<le> clamp01 (fl (?W s' / total))"
    by (rule ratio_mono [OF assms(1) total])
  then have "Score fl s w \<le> Score fl s' w"
    unfolding Score_def Let_def total_def [symmetric] by simp
  then show ?thesis by (simp add: Score_bounds)
qed

theorem Score_bounded_monotone_witness:
  "0 \<le> Score (\<lambda>x. x) \<lparr>sg_Criticality = ''low'', sg_Environment = ''dev'', sg_ChangeType = ''config'',
        sg_BlastRadius = 0, sg_Strategy = ''canary'', sg_RecentFailures = 0\<rparr> DefaultWeights \<and>
   Score (\<lambda>x. x) \<lparr>sg_Criticality = ''low'', sg_Environment = ''dev'', sg_ChangeType = ''config'',
        sg_BlastRadius = 0, sg_Strategy = ''canary'', sg_RecentFailures = 0\<rparr> DefaultWeights \<le>
   Score (\<lambda>x. x) \<lparr>sg_Criticality = ''critical'', sg_Environment = ''prod'', sg_ChangeType = ''schema'',
        sg_BlastRadius = 4, sg_Strategy = ''rolling'', sg_RecentFailures = 1\<rparr> DefaultWeights"
  using Score_bounded_monotone [of "\<lambda>x. x" DefaultWeights
    "\<lparr>sg_Criticality = ''low'', sg_Environment = ''dev'', sg_ChangeType = ''config'',
        sg_BlastRadius = 0, sg_Strategy = ''canary'', sg_RecentFailures = 0\<rparr>"
    "\<lparr>sg_Criticality = ''critical'', sg_Environment = ''prod'', sg_ChangeType = ''schema'',
        sg_BlastRadius = 4, sg_Strategy = ''rolling'', sg_RecentFailures = 1\<rparr>"]
  by (simp add: rounding_def mono_def nonneg_weights_def DefaultWeights_def riskier_def
    criticalityScore_def environmentScore_def changeTypeScore_def strategyScore_def)

text \<open>
  The gate asks for approval exactly when the sensitive expression evaluates to true or the
  score reaches the threshold. An expression that does not compile, is not boolean, cannot be
  built, fails to evaluate or yields a non-boolean makes the evaluation fail; it is never read as
  "not sensitive".
\<close>

theorem Evaluate_decides:
  "case Evaluate fl cl g s of
     Inr d \<Rightarrow>
       rd_Score d = Score fl s (gate_weights g) \<and>
       (rd_NeedsApproval d \<longleftrightarrow>
          gt_SensitiveExpr g \<noteq> [] \<and>
            cel_Eval cl (gt_SensitiveExpr g) (gate_input fl (gate_weights g) s) = Inr (CelBool True) \<or>
          gt_Threshold g \<le> rd_Score d)
   | Inl _ \<Rightarrow> gt_SensitiveExpr g \<noteq> [] \<and>
       (cel_Check cl (gt_SensitiveExpr g) \<noteq> None \<or> \<not> cel_Bool cl (gt_SensitiveExpr g) \<or>
        cel_Program cl (gt_SensitiveExpr g) \<noteq> None \<or>
        (\<forall>b. cel_Eval cl (gt_SensitiveExpr g) (gate_input fl (gate_weights g) s) \<noteq> Inr (CelBool b)))"
  unfolding Evaluate_def cond_Eval_def cond_Compile_def cond_EvalBool_def decide_def Let_def
  by (auto split: sum.split option.split cel_value.split)

definition demo_cel :: cel where
  "demo_cel = \<lparr>cel_Check = (\<lambda>_. None), cel_Bool = (\<lambda>_. True), cel_Program = (\<lambda>_. None),
     cel_Eval = (\<lambda>_ inp. Inr (CelBool (ci_Environment inp = ''prod'')))\<rparr>"

theorem Evaluate_decides_witness:
  "\<exists>d. Evaluate (\<lambda>x. x) demo_cel
     \<lparr>gt_Threshold = 2, gt_Weights = zero_weights, gt_SensitiveExpr = ''environment == prod''\<rparr>
     \<lparr>sg_Criticality = ''low'', sg_Environment = ''prod'', sg_ChangeType = ''config'',
      sg_BlastRadius = 0, sg_Strategy = ''canary'', sg_RecentFailures = 0\<rparr> = Inr d \<and> rd_NeedsApproval d"
  using Evaluate_decides [where fl = "\<lambda>x. x" and cl = demo_cel and
     g = "\<lparr>gt_Threshold = 2, gt_Weights = zero_weights, gt_SensitiveExpr = ''environment == prod''\<rparr>" and
     s = "\<lparr>sg_Criticality = ''low'', sg_Environment = ''prod'', sg_ChangeType = ''config'',
      sg_BlastRadius = 0, sg_Strategy = ''canary'', sg_RecentFailures = 0\<rparr>"]
  by (auto simp: demo_cel_def gate_input_def split: sum.splits)

end
