(* ===== verification/Analysis.thy ===== *)
theory Analysis
  imports Complex_Main GoTime Effects
begin

text \<open>
  \<^verbatim>\<open>internal/analysis/analysis.go\<close>: metric-based analysis. A metrics provider answers queries
  while acting on a state \<open>'s\<close> (the outside world); a provider that cannot list series has
  \<open>mp_QuerySeries = None\<close>. CEL is a parameter again, over the metric names. Values are reals;
  the additions of \<open>sum\<close> are rounded by \<open>fl\<close>, NaN and infinities are not modelled.
\<close>

record series_sample =
  sm_Labels :: "(string \<times> string) list"
  sm_Value :: real

record 's metrics_provider =
  mp_Query :: "string \<Rightarrow> ('s, real res) state"
  mp_QuerySeries :: "(string \<Rightarrow> ('s, series_sample list res) state) option"

definition ValidAggregation :: "string \<Rightarrow> bool" where
  "ValidAggregation a = (a \<in> {''max'', ''min'', ''sum'', ''any''})"

definition Aggregate :: "(real \<Rightarrow> real) \<Rightarrow> series_sample list \<Rightarrow> string \<Rightarrow> real res" where
  "Aggregate fl samples agg =
     (case map sm_Value samples of
        [] \<Rightarrow> Inl (Err (''analysis: aggregation '' @ agg @ '' over empty result''))
      | v # vs \<Rightarrow>
          if agg = ''any'' then Inr v
          else if agg = ''max'' then Inr (fold (\<lambda>x m. if x > m then x else m) vs v)
          else if agg = ''min'' then Inr (fold (\<lambda>x m. if x < m then x else m) vs v)
          else if agg = ''sum'' then Inr (fold (\<lambda>x acc. fl (acc + x)) (v # vs) 0)
          else Inl (Err (''analysis: unknown aggregation '' @ agg @ '' (want max|min|sum|any)'')))"

record metric =
  mt_Name :: string
  mt_Query :: string
  mt_Aggregation :: string

record template =
  tp_Metrics :: "metric list"
  tp_Condition :: string
  tp_Interval :: duration
  tp_Count :: int
  tp_FailureLimit :: int

record measurement =
  ms_Values :: "(string \<times> real) list"
  ms_Passed :: bool
  ms_Err :: "err option"

record analysis_result =
  ar_Passed :: bool
  ar_Measurements :: "measurement list"
  ar_Reason :: string

record metric_cel =
  mcl_Env :: "string list \<Rightarrow> err option"
  mcl_Compile :: "string list \<Rightarrow> string \<Rightarrow> err option"
  mcl_Bool :: "string list \<Rightarrow> string \<Rightarrow> bool"
  mcl_Program :: "string list \<Rightarrow> string \<Rightarrow> err option"
  mcl_Eval :: "string \<Rightarrow> (string \<times> real) list \<Rightarrow> bool option res"

record 's analyzer =
  az_Provider :: "'s metrics_provider"
  az_Template :: template
  az_Cel :: metric_cel
  az_Sleep :: "duration \<Rightarrow> ('s, unit) state"
  az_Round :: "real \<Rightarrow> real"

definition eff_count :: "template \<Rightarrow> int" where
  "eff_count t = (if tp_Count t \<le> 0 then 1 else tp_Count t)"

definition analysis_New ::
  "metric_cel \<Rightarrow> (duration \<Rightarrow> ('s, unit) state) \<Rightarrow> (real \<Rightarrow> real) \<Rightarrow> 's metrics_provider \<Rightarrow> template \<Rightarrow> 's analyzer res" where
  "analysis_New cl sleep fl provider t =
     (if tp_Condition t = [] then Inl (Err ''analysis: condition is required'')
      else if tp_Metrics t = [] then Inl (Err ''analysis: at least one metric is required'')
      else if eff_count t \<le> tp_FailureLimit t then
        Inl (Err (''analysis: failureLimit ('' @ itoa (tp_FailureLimit t) @ '') must be less than count ('' @
                  itoa (eff_count t) @ ''); otherwise the analysis can never fail''))
      else (case find (\<lambda>m. mt_Aggregation m \<noteq> [] \<and> \<not> ValidAggregation (mt_Aggregation m)) (tp_Metrics t) of
          Some m \<Rightarrow> Inl (Err (''analysis: metric '' @ mt_Name m @ '': unknown aggregation '' @ mt_Aggregation m @
                              '' (want max|min|sum|any)''))
        | None \<Rightarrow>
          (let names = map mt_Name (tp_Metrics t) in
           case mcl_Env cl names of
             Some e \<Rightarrow> Inl (Wrap ''analysis: build env'' e)
           | None \<Rightarrow> (case mcl_Compile cl names (tp_Condition t) of
               Some e \<Rightarrow> Inl (Wrap (''analysis: condition '' @ tp_Condition t) e)
             | None \<Rightarrow>
                 if \<not> mcl_Bool cl names (tp_Condition t)
                 then Inl (Err (''analysis: condition '' @ tp_Condition t @ '' must evaluate to bool''))
                 else (case mcl_Program cl names (tp_Condition t) of
                     Some e \<Rightarrow> Inl (Wrap ''analysis: program'' e)
                   | None \<Rightarrow> Inr \<lparr>az_Provider = provider, az_Template = t, az_Cel = cl, az_Sleep = sleep,
                                   az_Round = fl\<rparr>)))))"

definition queryMetric :: "'s analyzer \<Rightarrow> metric \<Rightarrow> ('s, real res) state" where
  "queryMetric a m =
     (if mt_Aggregation m = [] then mp_Query (az_Provider a) (mt_Query m)
      else (case mp_QuerySeries (az_Provider a) of
          None \<Rightarrow> State_Monad.return (Inl (Err (''aggregation '' @ mt_Aggregation m @
                    '' requires a series-capable metrics provider'')))
        | Some qs \<Rightarrow> do {
            samples \<leftarrow> qs (mt_Query m);
            State_Monad.return (case samples of Inl e \<Rightarrow> Inl e
              | Inr xs \<Rightarrow> Aggregate (az_Round a) xs (mt_Aggregation m))
          }))"

fun sample_metrics ::
  "'s analyzer \<Rightarrow> metric list \<Rightarrow> (string \<times> real) list \<Rightarrow> ('s, err option \<times> (string \<times> real) list) state" where
  "sample_metrics a [] vals = State_Monad.return (None, vals)"
| "sample_metrics a (m # ms) vals = do {
     v \<leftarrow> queryMetric a m;
     (case v of
        Inl e \<Rightarrow> State_Monad.return (Some (Wrap (''metric '' @ mt_Name m) e), vals)
      | Inr x \<Rightarrow> sample_metrics a ms (AList.update (mt_Name m) x vals))
   }"

definition measure_once :: "'s analyzer \<Rightarrow> ('s, measurement) state" where
  "measure_once a = do {
     r \<leftarrow> sample_metrics a (tp_Metrics (az_Template a)) [];
     State_Monad.return (case r of
        (Some e, vals) \<Rightarrow> \<lparr>ms_Values = vals, ms_Passed = False, ms_Err = Some e\<rparr>
      | (None, vals) \<Rightarrow>
          (case mcl_Eval (az_Cel a) (tp_Condition (az_Template a)) vals of
             Inl e \<Rightarrow> \<lparr>ms_Values = vals, ms_Passed = False, ms_Err = Some e\<rparr>
           | Inr b \<Rightarrow> \<lparr>ms_Values = vals, ms_Passed = (b = Some True), ms_Err = None\<rparr>))
   }"

definition failing :: "measurement \<Rightarrow> bool" where
  "failing m = (ms_Err m \<noteq> None \<or> \<not> ms_Passed m)"

definition finish_run :: "measurement list \<Rightarrow> analysis_result" where
  "finish_run ms =
     (case ms_Err (last ms) of
        Some e \<Rightarrow> \<lparr>ar_Passed = False, ar_Measurements = ms,
                    ar_Reason = ''the last measurement could not be taken: '' @ err_str e\<rparr>
      | None \<Rightarrow> \<lparr>ar_Passed = True, ar_Measurements = ms, ar_Reason = []\<rparr>)"

definition fail_run :: "'s analyzer \<Rightarrow> measurement \<Rightarrow> int \<Rightarrow> measurement list \<Rightarrow> analysis_result" where
  "fail_run a mm cf ms =
     \<lparr>ar_Passed = False, ar_Measurements = ms,
      ar_Reason = (case ms_Err mm of Some e \<Rightarrow> err_str e
        | None \<Rightarrow> ''condition '' @ tp_Condition (az_Template a) @ '' failed '' @ itoa cf @ '' consecutive times'')\<rparr>"

text \<open>The loop of \<open>Run\<close>: \<open>n\<close> measurements to go, \<open>cf\<close> consecutive failures, \<open>ms\<close> taken so far.\<close>

fun run_loop :: "'s analyzer \<Rightarrow> nat \<Rightarrow> int \<Rightarrow> measurement list \<Rightarrow> ('s, analysis_result) state" where
  "run_loop a 0 cf ms = State_Monad.return (finish_run ms)"
| "run_loop a (Suc n) cf ms = do {
     (if ms \<noteq> [] \<and> 0 < tp_Interval (az_Template a) then az_Sleep a (tp_Interval (az_Template a))
      else State_Monad.return ());
     mm \<leftarrow> measure_once a;
     (if failing mm then
        (if cf + 1 > tp_FailureLimit (az_Template a)
         then State_Monad.return (fail_run a mm (cf + 1) (ms @ [mm]))
         else run_loop a n (cf + 1) (ms @ [mm]))
      else run_loop a n 0 (ms @ [mm]))
   }"

definition analysis_Run :: "'s analyzer \<Rightarrow> ('s, analysis_result) state" where
  "analysis_Run a = run_loop a (nat (eff_count (az_Template a))) 0 []"

section \<open>What a passing run shows\<close>

text \<open>The failures at the end of a list of measurements.\<close>

definition tail_streak :: "measurement list \<Rightarrow> nat" where
  "tail_streak ms = length (takeWhile failing (rev ms))"

lemma tail_streak_snoc: "tail_streak (ms @ [m]) = (if failing m then Suc (tail_streak ms) else 0)"
  by (simp add: tail_streak_def)

lemma tail_streak_Nil [simp]: "tail_streak [] = 0"
  by (simp add: tail_streak_def)

definition streaks_within :: "int \<Rightarrow> measurement list \<Rightarrow> bool" where
  "streaks_within lmt ms \<longleftrightarrow> (\<forall>k. 0 < tail_streak (take k ms) \<longrightarrow> int (tail_streak (take k ms)) \<le> lmt)"

lemma streaks_within_snoc:
  "streaks_within lmt (ms @ [m]) \<longleftrightarrow>
     streaks_within lmt ms \<and> (failing m \<longrightarrow> int (tail_streak ms) + 1 \<le> lmt)"
proof -
  have "(\<forall>k. P (take k (ms @ [m]))) \<longleftrightarrow> (\<forall>k. P (take k ms)) \<and> P (ms @ [m])" for P
  proof
    assume a: "\<forall>k. P (take k (ms @ [m]))"
    have "P (take k ms)" for k
      using a [rule_format, of k] a [rule_format, of "length ms"] by (cases "k \<le> length ms") simp_all
    moreover have "P (ms @ [m])" using a [rule_format, of "Suc (length ms)"] by simp
    ultimately show "(\<forall>k. P (take k ms)) \<and> P (ms @ [m])" by blast
  next
    assume a: "(\<forall>k. P (take k ms)) \<and> P (ms @ [m])"
    show "\<forall>k. P (take k (ms @ [m]))"
    proof
      fix k
      show "P (take k (ms @ [m]))"
        using a by (cases "k \<le> length ms") (auto simp: take_Cons')
    qed
  qed
  from this [of "\<lambda>xs. 0 < tail_streak xs \<longrightarrow> int (tail_streak xs) \<le> lmt"] show ?thesis
    unfolding streaks_within_def by (auto simp: tail_streak_snoc)
qed

lemma run_loop_passed:
  assumes "fst (run_state (run_loop a n cf ms) w) = res" "ar_Passed res"
    and "cf = int (tail_streak ms)" "streaks_within (tp_FailureLimit (az_Template a)) ms"
  shows "length (ar_Measurements res) = length ms + n \<and> ms_Err (last (ar_Measurements res)) = None \<and>
    streaks_within (tp_FailureLimit (az_Template a)) (ar_Measurements res)"
  using assms
proof (induction n arbitrary: cf ms w)
  case 0
  then show ?case by (auto simp: run_state_simps finish_run_def split: option.splits)
next
  case (Suc n)
  define nap where "nap = (if ms \<noteq> [] \<and> 0 < tp_Interval (az_Template a)
      then az_Sleep a (tp_Interval (az_Template a)) else State_Monad.return ())"
  obtain u w1 where nap: "run_state nap w = (u, w1)" by (cases "run_state nap w") auto
  obtain mm w2 where mm: "run_state (measure_once a) w1 = (mm, w2)" by fastforce
  have step: "fst (run_state (run_loop a (Suc n) cf ms) w) =
      fst (run_state (if failing mm then
        (if cf + 1 > tp_FailureLimit (az_Template a)
         then State_Monad.return (fail_run a mm (cf + 1) (ms @ [mm]))
         else run_loop a n (cf + 1) (ms @ [mm]))
      else run_loop a n 0 (ms @ [mm])) w2)"
    by (simp only: run_loop.simps(2) nap_def [symmetric] run_state_bind nap mm prod.case)
  let ?cf = "if failing mm then cf + 1 else 0"
  have nf: "\<not> (failing mm \<and> cf + 1 > tp_FailureLimit (az_Template a))"
    using Suc.prems(1,2) step by (auto simp: run_state_simps fail_run_def)
  then have "fst (run_state (run_loop a n ?cf (ms @ [mm])) w2) = res"
    using Suc.prems(1) step by (auto split: if_splits)
  from Suc.IH [OF this Suc.prems(2)] nf Suc.prems(3,4) show ?case
    by (auto simp: tail_streak_snoc streaks_within_snoc split: if_splits)
qed

lemma tail_streak_all: "\<forall>m \<in> set ms. failing m \<Longrightarrow> tail_streak ms = length ms"
  by (simp add: tail_streak_def takeWhile_eq_all_conv [THEN iffD2])

text \<open>
  C35: an analysis that New accepted and that passes has evidence: it took every configured
  measurement, the last one was taken without an error, nowhere did more than FailureLimit
  consecutive measurements fail, and at least one measurement satisfied the condition. In
  particular a canary whose every sample fails, or whose metrics backend is down, never passes.
\<close>

theorem analysis_pass_has_evidence:
  assumes "analysis_New cl sleep fl provider t = Inr a"
    and "res = fst (run_state (analysis_Run a) w)" "ar_Passed res"
  shows "int (length (ar_Measurements res)) = eff_count t \<and>
    ms_Err (last (ar_Measurements res)) = None \<and>
    streaks_within (tp_FailureLimit t) (ar_Measurements res) \<and>
    (\<exists>m \<in> set (ar_Measurements res). \<not> failing m)"
proof -
  have t: "az_Template a = t" and lmt: "tp_FailureLimit t < eff_count t"
    using assms(1) by (auto simp: analysis_New_def Let_def split: if_splits option.splits)
  have pos: "0 < eff_count t" by (simp add: eff_count_def)
  have *: "length (ar_Measurements res) = nat (eff_count t) \<and> ms_Err (last (ar_Measurements res)) = None \<and>
      streaks_within (tp_FailureLimit t) (ar_Measurements res)"
    using run_loop_passed [OF assms(2)[symmetric, unfolded analysis_Run_def] assms(3)]
    by (simp add: t streaks_within_def)
  have "\<exists>m \<in> set (ar_Measurements res). \<not> failing m"
  proof (rule ccontr)
    assume "\<not> ?thesis"
    then have "tail_streak (ar_Measurements res) = length (ar_Measurements res)"
      by (intro tail_streak_all) blast
    with * have "tail_streak (take (length (ar_Measurements res)) (ar_Measurements res)) = nat (eff_count t)"
      by simp
    moreover from * have "\<forall>k. 0 < tail_streak (take k (ar_Measurements res)) \<longrightarrow>
        int (tail_streak (take k (ar_Measurements res))) \<le> tp_FailureLimit t"
      by (simp add: streaks_within_def)
    ultimately show False using pos lmt by (metis int_nat_eq nat_0_iff not_less order_less_le neq0_conv)
  qed
  with * pos show ?thesis by simp
qed

definition demo_metric_cel :: metric_cel where
  "demo_metric_cel = \<lparr>mcl_Env = (\<lambda>_. None), mcl_Compile = (\<lambda>_ _. None), mcl_Bool = (\<lambda>_ _. True),
     mcl_Program = (\<lambda>_ _. None), mcl_Eval = (\<lambda>_ vals. Inr (Some (map_of vals ''e'' = Some 0)))\<rparr>"

definition demo_template :: template where
  "demo_template = \<lparr>tp_Metrics = [\<lparr>mt_Name = ''e'', mt_Query = ''rate'', mt_Aggregation = []\<rparr>],
     tp_Condition = ''e < 1'', tp_Interval = 0, tp_Count = 2, tp_FailureLimit = 1\<rparr>"

definition demo_provider :: "unit metrics_provider" where
  "demo_provider = \<lparr>mp_Query = (\<lambda>_. State_Monad.return (Inr 0)), mp_QuerySeries = None\<rparr>"

theorem analysis_pass_has_evidence_witness:
  "\<exists>a. analysis_New demo_metric_cel (\<lambda>_. State_Monad.return ()) (\<lambda>x. x) demo_provider demo_template = Inr a \<and>
     ar_Passed (fst (run_state (analysis_Run a) ())) \<and>
     (\<exists>m \<in> set (ar_Measurements (fst (run_state (analysis_Run a) ()))). \<not> failing m)"
proof -
  obtain a where a: "analysis_New demo_metric_cel (\<lambda>_. State_Monad.return ()) (\<lambda>x. x) demo_provider demo_template = Inr a"
    by (simp add: analysis_New_def demo_template_def demo_metric_cel_def eff_count_def)
  then have az: "a = \<lparr>az_Provider = demo_provider, az_Template = demo_template, az_Cel = demo_metric_cel,
      az_Sleep = (\<lambda>_. State_Monad.return ()), az_Round = (\<lambda>x. x)\<rparr>"
    by (auto simp: analysis_New_def demo_template_def demo_metric_cel_def eff_count_def)
  have "ar_Passed (fst (run_state (analysis_Run a) ()))"
    by (simp add: az analysis_Run_def eff_count_def demo_template_def numeral_2_eq_2 run_state_simps
      measure_once_def queryMetric_def demo_provider_def demo_metric_cel_def failing_def finish_run_def)
  with analysis_pass_has_evidence [OF a refl this] a show ?thesis by blast
qed

end
