(* ===== verification/Depgraph.thy ===== *)
theory Depgraph
  imports Prelude
begin

text \<open>
  \<^verbatim>\<open>internal/depgraph/depgraph.go\<close>: the dependency DAG over target refs. \<open>New\<close> builds the
  graph, \<open>Layers\<close> is the layered topological sort, \<open>BlastRadius\<close> the depth-first count of
  transitive dependents. Go's maps are lists here, walked in insertion order; Go walks them in
  any order, and the theorems show results that do not depend on it (\<open>Layers\<close> sorts each layer,
  \<open>BlastRadius\<close> is a cardinality).
\<close>

section \<open>The graph\<close>

record dependency =
  dep_From :: string
  dep_To :: string

record graph =
  g_nodes :: "string list"
  g_dependents :: adj
  g_prereqs :: adj

definition empty_graph :: graph where
  "empty_graph = \<lparr>g_nodes = [], g_dependents = [], g_prereqs = []\<rparr>"

definition addNode :: "graph \<Rightarrow> string \<Rightarrow> graph" where
  "addNode g n =
     (if n \<in> set (g_nodes g) then g
      else g\<lparr>g_nodes := g_nodes g @ [n],
             g_dependents := AList.update n [] (g_dependents g),
             g_prereqs := AList.update n [] (g_prereqs g)\<rparr>)"

text \<open>The body of the second loop of \<open>New\<close>.\<close>

definition addDep :: "graph \<Rightarrow> dependency \<Rightarrow> graph" where
  "addDep g d =
     (let g = addNode g (dep_From d);
          g = addNode g (dep_To d);
          g = g\<lparr>g_dependents := AList.update (dep_From d)
                  (set_add (dep_To d) (adj_get (g_dependents g) (dep_From d))) (g_dependents g)\<rparr>
      in g\<lparr>g_prereqs := AList.update (dep_To d)
                  (set_add (dep_From d) (adj_get (g_prereqs g) (dep_To d))) (g_prereqs g)\<rparr>)"

definition New :: "string list \<Rightarrow> dependency list \<Rightarrow> graph" where
  "New nodes deps = foldl addDep (foldl addNode empty_graph nodes) deps"

text \<open>Body of the inner loop of \<open>Layers\<close>: mark consumed, then decrement every dependent.\<close>

definition consume :: "graph \<Rightarrow> (string \<Rightarrow> int) \<Rightarrow> string \<Rightarrow> (string \<Rightarrow> int)" where
  "consume g indeg n =
     foldl (\<lambda>i d. i(d := i d - 1)) (indeg(n := -1)) (adj_get (g_dependents g) n)"

function layers_loop ::
  "graph \<Rightarrow> (string \<Rightarrow> int) \<Rightarrow> int \<Rightarrow> string list list \<Rightarrow> string list list res" where
  "layers_loop g indeg remaining layers =
     (if remaining > 0 then
        (let layer = sort (filter (\<lambda>n. indeg n = 0) (g_nodes g)) in
         if layer = [] then Inl (Err ''depgraph: cycle detected among unresolved nodes'')
         else layers_loop g (foldl (consume g) indeg layer)
                (remaining - int (length layer)) (layers @ [layer]))
      else Inr layers)"
  by pat_completeness auto
termination
proof (relation "measure (\<lambda>(g, indeg, remaining, layers). nat remaining)", goal_cases)
  case 1
  show ?case by simp
next
  case (2 g indeg remaining layers layer)
  have "0 < length layer" using 2 by (cases layer) auto
  with 2 show ?case by simp
qed

declare layers_loop.simps [simp del]

definition Layers :: "graph \<Rightarrow> string list list res" where
  "Layers g =
     layers_loop g (\<lambda>n. int (length (adj_get (g_prereqs g) n))) (int (length (g_nodes g))) []"

definition HasCycle :: "graph \<Rightarrow> bool" where
  "HasCycle g = is_err (Layers g)"

text \<open>
  The closure \<open>walk\<close> of \<open>BlastRadius\<close>. The pending iterations of the enclosing \<open>for\<close>
  loops are the work list: visiting \<open>dep\<close> walks its dependents before the rest of the list.
\<close>

function walk :: "graph \<Rightarrow> string list \<Rightarrow> string list \<Rightarrow> string list" where
  "walk g [] seen = seen"
| "walk g (dep # ds) seen =
     (if dep \<in> set seen then walk g ds seen
      else walk g (adj_get (g_dependents g) dep @ ds) (seen @ [dep]))"
  by pat_completeness auto
termination
proof (relation "measures [\<lambda>(g, ds, seen). card (adj_univ (g_dependents g) \<union> set ds - set seen),
                           \<lambda>(g, ds, seen). length ds]", goal_cases)
  case 1
  show ?case by simp
next
  case (2 g dep ds seen)
  then have "adj_univ (g_dependents g) \<union> set (dep # ds) - set seen =
             adj_univ (g_dependents g) \<union> set ds - set seen"
    by auto
  then show ?case by simp
next
  case (3 g dep ds seen)
  let ?D = "adj_get (g_dependents g) dep"
  have "adj_univ (g_dependents g) \<union> set (?D @ ds) - set (seen @ [dep])
      \<subset> adj_univ (g_dependents g) \<union> set (dep # ds) - set seen"
    using 3 adj_get_univ [of "g_dependents g" dep] by auto
  then have "card (adj_univ (g_dependents g) \<union> set (?D @ ds) - set (seen @ [dep]))
      < card (adj_univ (g_dependents g) \<union> set (dep # ds) - set seen)"
    by (intro psubset_card_mono) auto
  then show ?case by simp
qed

definition BlastRadius :: "graph \<Rightarrow> string \<Rightarrow> nat" where
  "BlastRadius g ref = length (walk g (adj_get (g_dependents g) ref) [])"

section \<open>Well-formed graphs\<close>

text \<open>
  What \<open>New\<close> establishes: nodes and adjacency lists without repetition, the two maps
  converse to each other, and every endpoint a node.
\<close>

definition edges :: "graph \<Rightarrow> (string \<times> string) set" where
  "edges g = {(a, b). b \<in> set (adj_get (g_dependents g) a)}"

definition wf_graph :: "graph \<Rightarrow> bool" where
  "wf_graph g \<longleftrightarrow>
     distinct (g_nodes g) \<and>
     (\<forall>n. distinct (adj_get (g_dependents g) n) \<and> distinct (adj_get (g_prereqs g) n)) \<and>
     (\<forall>a b. b \<in> set (adj_get (g_dependents g) a) \<longleftrightarrow> a \<in> set (adj_get (g_prereqs g) b)) \<and>
     (\<forall>a b. b \<in> set (adj_get (g_dependents g) a) \<longrightarrow> a \<in> set (g_nodes g) \<and> b \<in> set (g_nodes g))"

lemma edges_iff: "(a, b) \<in> edges g \<longleftrightarrow> b \<in> set (adj_get (g_dependents g) a)"
  by (simp add: edges_def)

lemma wf_graph_prereqs: "wf_graph g \<Longrightarrow> (a, b) \<in> edges g \<longleftrightarrow> a \<in> set (adj_get (g_prereqs g) b)"
  by (auto simp: wf_graph_def edges_iff)

lemma wf_graph_nodes:
  "wf_graph g \<Longrightarrow> b \<in> set (adj_get (g_dependents g) a) \<Longrightarrow> a \<in> set (g_nodes g) \<and> b \<in> set (g_nodes g)"
  unfolding wf_graph_def by blast

lemma wf_graph_conv:
  "wf_graph g \<Longrightarrow> a \<in> set (adj_get (g_prereqs g) b) \<longleftrightarrow> b \<in> set (adj_get (g_dependents g) a)"
  by (simp add: wf_graph_def)

lemma wf_graph_distinct:
  "wf_graph g \<Longrightarrow> distinct (g_nodes g)"
  "wf_graph g \<Longrightarrow> distinct (adj_get (g_dependents g) n)"
  "wf_graph g \<Longrightarrow> distinct (adj_get (g_prereqs g) n)"
  by (simp_all add: wf_graph_def)

lemma wf_empty_graph: "wf_graph empty_graph"
  by (simp add: wf_graph_def empty_graph_def edges_def)

lemma addNode_nodes [simp]: "set (g_nodes (addNode g n)) = insert n (set (g_nodes g))"
  by (auto simp: addNode_def)

lemma addNode_wf:
  assumes "wf_graph g" shows "wf_graph (addNode g n)" "edges (addNode g n) = edges g"
proof -
  have D: "adj_get (g_dependents g) n = []" "adj_get (g_prereqs g) n = []" if "n \<notin> set (g_nodes g)"
  proof -
    have "b \<notin> set (adj_get (g_dependents g) n)" "b \<notin> set (adj_get (g_prereqs g) n)" for b
      using that wf_graph_nodes [OF assms, of b n] wf_graph_nodes [OF assms, of n b]
        wf_graph_conv [OF assms, of b n] by blast+
    then show "adj_get (g_dependents g) n = []" "adj_get (g_prereqs g) n = []"
      by (metis list.set_intros(1) neq_Nil_conv)+
  qed
  have same: "adj_get (g_dependents (addNode g n)) = adj_get (g_dependents g)"
    "adj_get (g_prereqs (addNode g n)) = adj_get (g_prereqs g)"
    using D by (auto simp: addNode_def fun_eq_iff)
  show "edges (addNode g n) = edges g"
    by (simp add: edges_def same)
  have "distinct (g_nodes (addNode g n))"
    using assms by (simp add: addNode_def wf_graph_def)
  then show "wf_graph (addNode g n)"
    using assms unfolding wf_graph_def same addNode_nodes by blast
qed

lemma addDep_wf:
  assumes "wf_graph g"
  shows "wf_graph (addDep g d)"
    and "edges (addDep g d) = insert (dep_From d, dep_To d) (edges g)"
    and "set (g_nodes (addDep g d)) = {dep_From d, dep_To d} \<union> set (g_nodes g)"
proof -
  define h where "h = addNode (addNode g (dep_From d)) (dep_To d)"
  have h: "wf_graph h" "edges h = edges g" "set (g_nodes h) = {dep_From d, dep_To d} \<union> set (g_nodes g)"
    using assms by (auto simp: h_def addNode_wf)
  have d: "addDep g d = h\<lparr>g_dependents := AList.update (dep_From d)
                  (set_add (dep_To d) (adj_get (g_dependents h) (dep_From d))) (g_dependents h),
           g_prereqs := AList.update (dep_To d)
                  (set_add (dep_From d) (adj_get (g_prereqs h) (dep_To d))) (g_prereqs h)\<rparr>"
    by (simp add: addDep_def h_def Let_def)
  show N: "set (g_nodes (addDep g d)) = {dep_From d, dep_To d} \<union> set (g_nodes g)"
    using h by (simp add: d)
  show E: "edges (addDep g d) = insert (dep_From d, dep_To d) (edges g)"
    using h(2) by (auto simp: d edges_def set_eq_iff split: if_splits)
  show "wf_graph (addDep g d)"
    unfolding wf_graph_def N
  proof (intro conjI allI impI)
    fix a b
    assume "b \<in> set (adj_get (g_dependents (addDep g d)) a)"
    then have "(a, b) \<in> edges (addDep g d)" by (simp add: edges_iff)
    then have "(a, b) = (dep_From d, dep_To d) \<or> (a, b) \<in> edges h"
      using E h(2) by auto
    then show "a \<in> {dep_From d, dep_To d} \<union> set (g_nodes g)" "b \<in> {dep_From d, dep_To d} \<union> set (g_nodes g)"
      using wf_graph_nodes [OF h(1), of b a] h(3) by (auto simp: edges_iff)
  qed (use h(1) in \<open>auto simp: d wf_graph_def\<close>)
qed

lemma foldl_addNode_wf:
  "wf_graph g \<Longrightarrow> wf_graph (foldl addNode g ns) \<and> edges (foldl addNode g ns) = edges g \<and>
     set (g_nodes (foldl addNode g ns)) = set ns \<union> set (g_nodes g)"
  by (induction ns arbitrary: g) (auto simp: addNode_wf)

lemma foldl_addDep_wf:
  "wf_graph g \<Longrightarrow> wf_graph (foldl addDep g ds) \<and>
     edges (foldl addDep g ds) = (\<lambda>d. (dep_From d, dep_To d)) ` set ds \<union> edges g \<and>
     set (g_nodes (foldl addDep g ds)) = dep_From ` set ds \<union> dep_To ` set ds \<union> set (g_nodes g)"
  by (induction ds arbitrary: g) (auto simp: addDep_wf)

lemma New_wf: "wf_graph (New ns ds)"
  by (simp add: New_def foldl_addDep_wf foldl_addNode_wf wf_empty_graph)

lemma New_edges: "edges (New ns ds) = (\<lambda>d. (dep_From d, dep_To d)) ` set ds"
proof -
  have "edges empty_graph = {}" by (simp add: edges_def empty_graph_def)
  then show ?thesis by (simp add: New_def foldl_addDep_wf foldl_addNode_wf wf_empty_graph)
qed

lemma New_nodes: "set (g_nodes (New ns ds)) = set ns \<union> dep_From ` set ds \<union> dep_To ` set ds"
  using foldl_addNode_wf [OF wf_empty_graph, of ns]
    foldl_addDep_wf [of "foldl addNode empty_graph ns" ds]
  by (auto simp: New_def empty_graph_def)

section \<open>Topological layers\<close>

lemma foldl_dec:
  "distinct ds \<Longrightarrow>
   foldl (\<lambda>i d. i(d := i d - 1)) f ds x = f x - (if x \<in> set ds then 1 else (0::int))"
  by (induction ds arbitrary: f) auto

lemma consume_eq:
  "wf_graph g \<Longrightarrow> consume g indeg n x =
     (if x = n then -1 else indeg x) - (if (n, x) \<in> edges g then 1 else 0)"
  by (simp add: consume_def foldl_dec wf_graph_distinct edges_iff)

lemma finite_prereqs: "wf_graph g \<Longrightarrow> finite {a. (a, n) \<in> edges g \<and> P a}"
  by (rule finite_subset [of _ "set (adj_get (g_prereqs g) n)"]) (auto simp: wf_graph_prereqs)

lemma foldl_consume:
  assumes "wf_graph g" "distinct L" "\<forall>a\<in>set L. \<forall>b\<in>set L. (a, b) \<notin> edges g"
  shows "foldl (consume g) indeg L x =
     (if x \<in> set L then -1 else indeg x - int (card {a. (a, x) \<in> edges g \<and> a \<in> set L}))"
  using assms(2,3)
proof (induction L arbitrary: indeg)
  case Nil
  then show ?case by simp
next
  case (Cons a L)
  let ?X = "{b. (b, x) \<in> edges g \<and> b \<in> set L}"
  have IH: "foldl (consume g) indeg (a # L) x =
      (if x \<in> set L then -1 else (if x = a then -1 else indeg x) -
         (if (a, x) \<in> edges g then 1 else 0) - int (card ?X))"
    using Cons consume_eq [OF assms(1), of indeg a x] by simp
  have fin: "finite ?X" by (rule finite_subset [of _ "set L"]) auto
  show ?case
  proof (cases "x \<in> set (a # L)")
    case True
    show ?thesis
    proof (cases "x = a")
      case [simp]: True
      have "x \<notin> set L" "?X = {}" "(a, a) \<notin> edges g" using Cons.prems by auto
      with IH show ?thesis by simp
    qed (use True IH in simp)
  next
    case False
    have "{b. (b, x) \<in> edges g \<and> b \<in> set (a # L)} = (if (a, x) \<in> edges g then insert a ?X else ?X)"
      by auto
    then have "card {b. (b, x) \<in> edges g \<and> b \<in> set (a # L)} =
        card ?X + (if (a, x) \<in> edges g then 1 else 0)"
      using Cons.prems(1) fin by simp
    with False IH show ?thesis by simp
  qed
qed

text \<open>The loop invariant: what is consumed, and the in-degrees left for the rest.\<close>

definition placed_after_prereqs :: "graph \<Rightarrow> string list list \<Rightarrow> bool" where
  "placed_after_prereqs g layers \<longleftrightarrow>
     (\<forall>j < length layers. \<forall>b \<in> set (layers ! j). \<forall>a. (a, b) \<in> edges g \<longrightarrow>
        (\<exists>i < j. a \<in> set (layers ! i)))"

definition layers_inv :: "graph \<Rightarrow> (string \<Rightarrow> int) \<Rightarrow> int \<Rightarrow> string list list \<Rightarrow> bool" where
  "layers_inv g indeg remaining layers \<longleftrightarrow>
     distinct (concat layers) \<and> set (concat layers) \<subseteq> set (g_nodes g) \<and>
     remaining = int (length (g_nodes g)) - int (length (concat layers)) \<and>
     (\<forall>n \<in> set (g_nodes g). indeg n =
        (if n \<in> set (concat layers) then -1
         else int (card {a. (a, n) \<in> edges g \<and> a \<notin> set (concat layers)}))) \<and>
     placed_after_prereqs g layers"

lemma layers_inv_init:
  assumes "wf_graph g"
  shows "layers_inv g (\<lambda>n. int (length (adj_get (g_prereqs g) n))) (int (length (g_nodes g))) []"
proof -
  have "card {a. (a, n) \<in> edges g} = length (adj_get (g_prereqs g) n)" for n
    using assms by (simp add: wf_graph_prereqs distinct_card wf_graph_distinct)
  then show ?thesis
    by (simp add: layers_inv_def placed_after_prereqs_def)
qed

lemma placed_after_prereqs_snoc:
  assumes "placed_after_prereqs g layers"
    and "\<forall>b\<in>set layer. \<forall>a. (a, b) \<in> edges g \<longrightarrow> a \<in> set (concat layers)"
  shows "placed_after_prereqs g (layers @ [layer])"
  unfolding placed_after_prereqs_def
proof (intro allI impI ballI)
  fix j b a
  assume j: "j < length (layers @ [layer])" and b: "b \<in> set ((layers @ [layer]) ! j)"
    and ab: "(a, b) \<in> edges g"
  show "\<exists>i<j. a \<in> set ((layers @ [layer]) ! i)"
  proof (cases "j < length layers")
    case True
    then have "b \<in> set (layers ! j)" using b by (simp add: nth_append)
    with True ab assms(1) obtain i where "i < j" "a \<in> set (layers ! i)"
      unfolding placed_after_prereqs_def by meson
    with True show ?thesis by (auto simp: nth_append intro!: exI [of _ i])
  next
    case False
    with j b have jl: "j = length layers" "b \<in> set layer" by (auto simp: nth_append)
    then have "a \<in> set (concat layers)" using assms(2) ab by blast
    then obtain i where "i < length layers" "a \<in> set (layers ! i)"
      unfolding in_concat_nth by blast
    with jl show ?thesis by (auto simp: nth_append intro!: exI [of _ i])
  qed
qed

lemma layers_inv_layer:
  assumes "wf_graph g" "layers_inv g indeg remaining layers"
  defines "layer \<equiv> sort (filter (\<lambda>n. indeg n = 0) (g_nodes g))"
  shows "set layer = {n \<in> set (g_nodes g). n \<notin> set (concat layers) \<and>
           (\<forall>a. (a, n) \<in> edges g \<longrightarrow> a \<in> set (concat layers))}" "distinct layer"
proof -
  have "indeg n = 0 \<longleftrightarrow> n \<notin> set (concat layers) \<and> (\<forall>a. (a, n) \<in> edges g \<longrightarrow> a \<in> set (concat layers))"
    if "n \<in> set (g_nodes g)" for n
    using assms(2) that finite_prereqs [OF assms(1), of n "\<lambda>a. a \<notin> set (concat layers)"]
    by (auto simp: layers_inv_def)
  then show "set layer = {n \<in> set (g_nodes g). n \<notin> set (concat layers) \<and>
           (\<forall>a. (a, n) \<in> edges g \<longrightarrow> a \<in> set (concat layers))}"
    by (auto simp: layer_def)
  show "distinct layer" using assms(1) by (simp add: layer_def wf_graph_distinct)
qed

lemma layers_inv_step:
  assumes g: "wf_graph g" and I: "layers_inv g indeg remaining layers"
  defines "layer \<equiv> sort (filter (\<lambda>n. indeg n = 0) (g_nodes g))"
  shows "layers_inv g (foldl (consume g) indeg layer) (remaining - int (length layer)) (layers @ [layer])"
proof -
  let ?C = "set (concat layers)"
  note L = layers_inv_layer [OF g I, folded layer_def]
  have noedge: "\<forall>a\<in>set layer. \<forall>b\<in>set layer. (a, b) \<notin> edges g"
    using L(1) by auto
  have deg: "foldl (consume g) indeg layer n =
      (if n \<in> ?C \<union> set layer then -1 else int (card {a. (a, n) \<in> edges g \<and> a \<notin> ?C \<union> set layer}))"
    if "n \<in> set (g_nodes g)" for n
  proof -
    have *: "indeg n = (if n \<in> ?C then -1 else int (card {a. (a, n) \<in> edges g \<and> a \<notin> ?C}))"
      using I that by (simp add: layers_inv_def)
    have "{a. (a, n) \<in> edges g \<and> a \<notin> ?C} =
        {a. (a, n) \<in> edges g \<and> a \<notin> ?C \<union> set layer} \<union> {a. (a, n) \<in> edges g \<and> a \<in> set layer}"
      using L(1) by auto
    moreover have "finite {a. (a, n) \<in> edges g \<and> a \<notin> ?C \<union> set layer}" "finite {a. (a, n) \<in> edges g \<and> a \<in> set layer}"
      by (auto intro: finite_prereqs [OF g])
    ultimately have card: "card {a. (a, n) \<in> edges g \<and> a \<notin> ?C} =
        card {a. (a, n) \<in> edges g \<and> a \<notin> ?C \<union> set layer} + card {a. (a, n) \<in> edges g \<and> a \<in> set layer}"
      by (simp add: card_Un_disjoint disjoint_iff)
    have "n \<in> ?C \<Longrightarrow> {a. (a, n) \<in> edges g \<and> a \<in> set layer} = {}"
    proof -
      assume "n \<in> ?C"
      then obtain j where j: "j < length layers" "n \<in> set (layers ! j)"
        unfolding in_concat_nth by blast
      then have "a \<in> ?C" if "(a, n) \<in> edges g" for a
        using I that unfolding layers_inv_def placed_after_prereqs_def in_concat_nth
        by (meson less_trans)
      then show ?thesis using L(1) by auto
    qed
    then show ?thesis
      using * card by (auto simp: foldl_consume [OF g L(2) noedge])
  qed
  have "placed_after_prereqs g (layers @ [layer])"
    using I L(1) by (intro placed_after_prereqs_snoc) (auto simp: layers_inv_def)
  moreover have "distinct (concat (layers @ [layer]))" "set (concat (layers @ [layer])) \<subseteq> set (g_nodes g)"
    using I L by (auto simp: layers_inv_def)
  ultimately show ?thesis
    using I deg by (simp add: layers_inv_def)
qed

lemma layers_inv_cycle:
  assumes g: "wf_graph g" and I: "layers_inv g indeg remaining layers" and r: "remaining > 0"
    and e: "sort (filter (\<lambda>n. indeg n = 0) (g_nodes g)) = []"
  shows "\<not> acyclic (edges g)"
proof
  assume ac: "acyclic (edges g)"
  let ?U = "set (g_nodes g) - set (concat layers)"
  have fin: "finite (edges g)"
    by (rule finite_subset [of _ "set (g_nodes g) \<times> set (g_nodes g)"])
      (use wf_graph_nodes [OF g] in \<open>auto simp: edges_def\<close>)
  have "card (set (concat layers)) < card (set (g_nodes g))"
    using I r distinct_card [OF wf_graph_distinct(1) [OF g]] distinct_card [of "concat layers"]
    by (simp add: layers_inv_def del: set_concat)
  then obtain n where n: "n \<in> ?U"
    by (metis Diff_iff I card_mono finite_set layers_inv_def leD subsetI)
  have "wf (edges g)" using fin ac by (rule finite_acyclic_wf)
  then obtain z where z: "z \<in> ?U" "\<And>y. (y, z) \<in> edges g \<Longrightarrow> y \<notin> ?U"
    using n by (rule wfE_min) blast
  have "y \<in> set (concat layers)" if "(y, z) \<in> edges g" for y
    using z(2) [OF that] wf_graph_nodes [OF g, of z y] that by (auto simp: edges_iff)
  with z(1) have "z \<in> set (sort (filter (\<lambda>n. indeg n = 0) (g_nodes g)))"
    unfolding layers_inv_layer(1) [OF g I] by blast
  with e show False by simp
qed

lemma layers_inv_acyclic:
  assumes "layers_inv g indeg remaining layers" "\<not> remaining > 0" "wf_graph g"
  shows "set (concat layers) = set (g_nodes g)" "acyclic (edges g)"
proof -
  have "length (g_nodes g) \<le> length (concat layers)" using assms by (simp add: layers_inv_def)
  then have "card (set (g_nodes g)) \<le> card (set (concat layers))"
    using assms(1) distinct_card [OF wf_graph_distinct(1) [OF assms(3)]] distinct_card [of "concat layers"]
    by (simp add: layers_inv_def del: set_concat)
  then show C: "set (concat layers) = set (g_nodes g)"
    using assms(1) by (intro card_seteq) (auto simp: layers_inv_def)
  define rank where "rank n = (LEAST i. n \<in> set (layers ! i))" for n
  have dist: "distinct (concat layers)" and P: "placed_after_prereqs g layers"
    using assms(1) by (simp_all add: layers_inv_def)
  have "rank a < rank b" if ab: "(a, b) \<in> edges g" for a b
  proof -
    have "b \<in> set (concat layers)"
      using C wf_graph_nodes [OF assms(3), of b a] ab by (auto simp: edges_iff)
    then obtain j0 where j0: "j0 < length layers" "b \<in> set (layers ! j0)"
      unfolding in_concat_nth by blast
    have j: "b \<in> set (layers ! rank b)" "rank b \<le> j0"
      unfolding rank_def using j0(2) by (auto intro: LeastI Least_le)
    then obtain i where i: "i < rank b" "a \<in> set (layers ! i)"
      using P ab j0(1) unfolding placed_after_prereqs_def by (metis le_less_trans)
    have "rank a \<le> i" unfolding rank_def by (rule Least_le) (rule i(2))
    with i(1) show ?thesis by simp
  qed
  then have "edges g \<subseteq> measure rank" by auto
  then have "wf (edges g)" using wf_measure wf_subset by blast
  then show "acyclic (edges g)" by (rule wf_acyclic)
qed

lemma layers_loop_correct:
  assumes g: "wf_graph g" and I: "layers_inv g indeg remaining layers"
  shows "case layers_loop g indeg remaining layers of
           Inl _ \<Rightarrow> \<not> acyclic (edges g)
         | Inr ls \<Rightarrow> acyclic (edges g) \<and> distinct (concat ls) \<and>
                     set (concat ls) = set (g_nodes g) \<and> placed_after_prereqs g ls"
  using g I
proof (induction g indeg remaining layers rule: layers_loop.induct)
  case (1 g indeg remaining layers)
  let ?layer = "sort (filter (\<lambda>n. indeg n = 0) (g_nodes g))"
  show ?case
  proof (cases "remaining > 0 \<and> ?layer \<noteq> []")
    case True
    have "layers_inv g (foldl (consume g) indeg ?layer) (remaining - int (length ?layer)) (layers @ [?layer])"
      by (rule layers_inv_step) (use 1 in auto)
    with True 1 show ?thesis by (subst (1) layers_loop.simps) (auto simp: Let_def)
  next
    case False
    show ?thesis
    proof (cases "remaining > 0")
      case True
      with False "1.prems" have "\<not> acyclic (edges g)" using layers_inv_cycle by blast
      with True False show ?thesis by (subst layers_loop.simps) (simp add: Let_def)
    next
      case False
      with "1.prems" layers_inv_acyclic [OF "1.prems"(2) False "1.prems"(1)] show ?thesis
        by (subst layers_loop.simps) (simp add: layers_inv_def)
    qed
  qed
qed

text \<open>Every caller builds its graph with \<open>New\<close>, so the results hold of every graph asked.\<close>

lemma Layers_cases:
  "wf_graph g \<Longrightarrow>
   (case Layers g of
      Inl _ \<Rightarrow> \<not> acyclic (edges g)
    | Inr ls \<Rightarrow> acyclic (edges g) \<and> distinct (concat ls) \<and>
                set (concat ls) = set (g_nodes g) \<and> placed_after_prereqs g ls)"
  unfolding Layers_def by (rule layers_loop_correct) (auto intro: layers_inv_init)

lemma Layers_Inr:
  assumes "Layers (New ns ds) = Inr ls"
  shows "distinct (concat ls)" "set (concat ls) = set ns \<union> dep_From ` set ds \<union> dep_To ` set ds"
    "placed_after_prereqs (New ns ds) ls" "acyclic (edges (New ns ds))"
  using Layers_cases [OF New_wf, of ns ds] assms by (auto simp: New_nodes)

section \<open>Blast radius\<close>

lemma walk_invariant:
  assumes "distinct seen"
    and "set seen \<subseteq> A" "set ds \<subseteq> A"
    and "\<And>a b. a \<in> A \<Longrightarrow> (a, b) \<in> edges g \<Longrightarrow> b \<in> A"
    and "\<And>a b. a \<in> set seen \<Longrightarrow> (a, b) \<in> edges g \<Longrightarrow> b \<in> set seen \<union> set ds"
  shows "distinct (walk g ds seen) \<and> set seen \<union> set ds \<subseteq> set (walk g ds seen) \<and> set (walk g ds seen) \<subseteq> A \<and>
    (\<forall>a b. a \<in> set (walk g ds seen) \<longrightarrow> (a, b) \<in> edges g \<longrightarrow> b \<in> set (walk g ds seen))"
  using assms
proof (induction g ds seen rule: walk.induct)
  case (1 g seen)
  then show ?case by auto
next
  case (2 g dep ds seen)
  show ?case
  proof (cases "dep \<in> set seen")
    case True
    have *: "\<And>a b. a \<in> set seen \<Longrightarrow> (a, b) \<in> edges g \<Longrightarrow> b \<in> set seen \<union> set ds"
      using "2.prems"(5) True by fastforce
    show ?thesis using "2.IH"(1) [OF True] "2.prems" True * by auto
  next
    case False
    let ?D = "adj_get (g_dependents g) dep"
    have D: "set ?D \<subseteq> A" using "2.prems"(3,4) by (auto simp: edges_iff)
    have *: "\<And>a b. a \<in> set (seen @ [dep]) \<Longrightarrow> (a, b) \<in> edges g \<Longrightarrow> b \<in> set (seen @ [dep]) \<union> set (?D @ ds)"
      using "2.prems"(5) by (fastforce simp: edges_iff)
    have "distinct (walk g (?D @ ds) (seen @ [dep])) \<and>
        set (seen @ [dep]) \<union> set (?D @ ds) \<subseteq> set (walk g (?D @ ds) (seen @ [dep])) \<and>
        set (walk g (?D @ ds) (seen @ [dep])) \<subseteq> A \<and>
        (\<forall>a b. a \<in> set (walk g (?D @ ds) (seen @ [dep])) \<longrightarrow> (a, b) \<in> edges g \<longrightarrow>
           b \<in> set (walk g (?D @ ds) (seen @ [dep])))"
      using False "2.prems" D * by (intro "2.IH"(2)) auto
    with False show ?thesis by auto
  qed
qed

lemma walk_reachable:
  "distinct (walk g (adj_get (g_dependents g) ref) []) \<and>
   set (walk g (adj_get (g_dependents g) ref) []) = {x. (ref, x) \<in> (edges g)\<^sup>+}"
proof -
  let ?A = "{x. (ref, x) \<in> (edges g)\<^sup>+}" and ?W = "walk g (adj_get (g_dependents g) ref) []"
  have *: "distinct ?W \<and> set [] \<union> set (adj_get (g_dependents g) ref) \<subseteq> set ?W \<and> set ?W \<subseteq> ?A \<and>
    (\<forall>a b. a \<in> set ?W \<longrightarrow> (a, b) \<in> edges g \<longrightarrow> b \<in> set ?W)"
    by (rule walk_invariant) (auto simp: edges_iff [symmetric] intro: trancl_into_trancl)
  have "x \<in> set ?W" if "(ref, x) \<in> (edges g)\<^sup>+" for x
    using that by (induction rule: trancl_induct) (use * in \<open>auto simp: edges_iff\<close>)
  with * show ?thesis by auto
qed

section \<open>Properties\<close>

text \<open>
  When \<open>Layers\<close> succeeds, the layers list every node exactly once, and each dependency
  edge goes from a strictly earlier layer to a later one.
\<close>

theorem Layers_topological:
  assumes "Layers (New ns ds) = Inr ls"
  shows "distinct (concat ls) \<and> set (concat ls) = set ns \<union> dep_From ` set ds \<union> dep_To ` set ds \<and>
    (\<forall>d \<in> set ds. \<forall>j < length ls. dep_To d \<in> set (ls ! j) \<longrightarrow>
       (\<exists>i < j. dep_From d \<in> set (ls ! i)))"
  using Layers_Inr [OF assms] unfolding placed_after_prereqs_def
  by (auto simp: New_edges)

definition demo_deps :: "dependency list" where
  "demo_deps = [\<lparr>dep_From = ''db'', dep_To = ''api''\<rparr>, \<lparr>dep_From = ''api'', dep_To = ''web''\<rparr>,
                \<lparr>dep_From = ''db'', dep_To = ''web''\<rparr>]"

lemma demo_layers: "Layers (New [''web'', ''log''] demo_deps) = Inr [[''db'', ''log''], [''api''], [''web'']]"
  by code_simp

theorem Layers_topological_witness:
  "Layers (New [''web'', ''log''] demo_deps) = Inr [[''db'', ''log''], [''api''], [''web'']] \<and>
   distinct (concat [[''db'', ''log''], [''api''], [''web'']])"
  using Layers_topological [OF demo_layers] demo_layers by blast

text \<open>
  \<open>Layers\<close> errors exactly on the graphs that have a dependency cycle, so \<open>HasCycle\<close>
  decides acyclicity.
\<close>

theorem HasCycle_iff_cyclic:
  "HasCycle (New ns ds) \<longleftrightarrow> \<not> acyclic ((\<lambda>d. (dep_From d, dep_To d)) ` set ds)"
  using Layers_cases [OF New_wf, of ns ds]
  by (auto simp: HasCycle_def is_err_def New_edges split: sum.splits)

text \<open>
  \<open>BlastRadius\<close> is the number of targets that transitively depend on \<open>ref\<close>. The walk
  ends also on a cyclic graph.
\<close>

theorem BlastRadius_counts_dependents:
  "BlastRadius (New ns ds) ref =
     card {x. (ref, x) \<in> ((\<lambda>d. (dep_From d, dep_To d)) ` set ds)\<^sup>+}"
  using walk_reachable [of "New ns ds" ref]
  by (simp add: BlastRadius_def New_edges distinct_card [symmetric])

end
