(* ===== verification/Locks.thy ===== *)
theory Locks
  imports Prelude
begin

text \<open>
  Non-blocking keyed locks: \<open>keyedLocks\<close> of \<^verbatim>\<open>internal/engine/locks.go\<close> (one key per target) and
  \<open>repoLocks\<close> of \<^verbatim>\<open>internal/reconcile/watch.go\<close> (one key per repository). The mutex (or the
  one-slot channel) around the map makes each operation atomic, so an operation is a function on
  the set of held keys.

  The locale \<open>keyed_lock\<close> is the contract both give their callers; the bracket lemma is what
  "acquire, work, deferred release" relies on.
\<close>

locale keyed_lock =
  fixes tryk :: "'k \<Rightarrow> 's \<Rightarrow> bool \<times> 's"
    and release :: "'k \<Rightarrow> 's \<Rightarrow> 's"
    and held :: "'s \<Rightarrow> 'k set"
  assumes try_ok: "fst (tryk k s) \<longleftrightarrow> k \<notin> held s"
    and try_held: "held (snd (tryk k s)) = insert k (held s)"
    and release_held: "held (release k s) = held s - {k}"
begin

text \<open>A key that is taken stays taken for everybody else until it is released.\<close>

lemma try_excludes: "fst (tryk k s) \<Longrightarrow> \<not> fst (tryk k (snd (tryk k s)))"
  by (simp add: try_ok try_held)

lemma try_independent: "j \<noteq> k \<Longrightarrow> fst (tryk j (snd (tryk k s))) = fst (tryk j s)"
  by (simp add: try_ok try_held)

text \<open>Acquiring, working without touching the lock set, and releasing restores it.\<close>

lemma bracket:
  assumes "tryk k s = (True, s1)" "held s2 = held s1"
  shows "held (release k s2) = held s"
proof -
  have "k \<notin> held s" "held s1 = insert k (held s)"
    using assms(1) try_ok [of k s] try_held [of k s] by simp_all
  then show ?thesis using assms(2) by (simp add: release_held)
qed

lemma refused: "tryk k s = (False, s1) \<Longrightarrow> k \<in> held s \<and> held s1 = held s"
  using try_ok [of k s] try_held [of k s] by auto

end

section \<open>keyedLocks\<close>

definition TryAcquire :: "string \<Rightarrow> string list \<Rightarrow> bool \<times> string list" where
  "TryAcquire key held = (if key \<in> set held then (False, held) else (True, key # held))"

definition ReleaseKey :: "string \<Rightarrow> string list \<Rightarrow> string list" where
  "ReleaseKey key held = removeAll key held"

interpretation kl: keyed_lock TryAcquire ReleaseKey set
  by unfold_locales (auto simp: TryAcquire_def ReleaseKey_def)

section \<open>repoLocks\<close>

definition repo_tryAcquire :: "string \<Rightarrow> (string \<times> bool) list \<Rightarrow> bool \<times> (string \<times> bool) list" where
  "repo_tryAcquire key held =
     (if map_of held key = Some True then (False, held) else (True, AList.update key True held))"

definition repo_release :: "string \<Rightarrow> (string \<times> bool) list \<Rightarrow> (string \<times> bool) list" where
  "repo_release key held = AList.delete key held"

definition repo_held :: "(string \<times> bool) list \<Rightarrow> string set" where
  "repo_held held = {k. map_of held k = Some True}"

interpretation rl: keyed_lock repo_tryAcquire repo_release repo_held
  by unfold_locales (auto simp: repo_tryAcquire_def repo_release_def repo_held_def update_conv' delete_conv' split: if_splits)

end
