(* ===== verification/Engine_Base.thy ===== *)
theory Engine_Base
  imports Store Guardrails Risk Analysis Depgraph Locks
begin

text \<open>
  The environment of the engine and the helpers every operation shares
  (\<^verbatim>\<open>internal/engine/engine.go\<close>, \<^verbatim>\<open>internal/engine/locks.go\<close>,
  \<^verbatim>\<open>internal/engine/deployment_facts.go\<close>).

  \<^item> \<open>env\<close> is the \<open>Engine\<close> struct and what lies behind it: the clock, targets, plugins, runners,
    the governor, statekit, CEL, hashing. What an outside call answers may depend on when it is
    made, so every such field takes the number of the call (\<open>w_tick\<close>); nothing is assumed of the
    answers. A nil collaborator is \<open>None\<close>, an optional capability of a target a predicate.
  \<^item> \<open>world\<close> is the mutable state: the database, the keyed locks held in this process, the
    in-memory freeze, and the trace of effects on the outside in the order they happen.
  \<^item> A target is identified with the config it was built from. Operations of a target go through
    the fortify wrapper (retries, circuit breaker); \<open>en_Apply\<close> and the others are the wrapped
    calls. Closing targets and plugins has no effect in the model.
  \<^item> Every store call can fail: \<open>en_StoreErr\<close> decides for each call.
\<close>

section \<open>Effects, environment, world\<close>

datatype audit_action = ActionApply | ActionPromote | ActionRollback | ActionDrift | ActionOrphan | ActionFreeze

record audit_entry =
  ae_Action :: audit_action
  ae_RolloutID :: string
  ae_TargetRef :: string
  ae_Phase :: string
  ae_Actor :: identity
  ae_Detail :: string

datatype notify_kind = ApprovalNeeded | Failed | RolledBack | Promoted

record notify_event =
  ne_Kind :: notify_kind
  ne_TargetRef :: string
  ne_RolloutID :: string
  ne_Detail :: string
  ne_Version :: string
  ne_Environment :: string

datatype effect =
    TargetApply cfg_target manifest "err option"
  | TargetObserve cfg_target
  | TargetHealth cfg_target
  | TargetDiff cfg_target manifest
  | TargetPreflight cfg_target manifest "err option"
  | TargetReap cfg_target "int \<times> err option"
  | DatabaseCmd "string list" "err option"
  | SmokeCmd "string list"
  | MetricQuery string
  | TrafficShift traffic_routing int "err option"
  | FlagSet feature_flags int "err option"
  | FlagDisable feature_flags "err option"
  | RolloutSaved rollout
  | AuditRecord audit_entry
  | Notified notify_event
  | GitCommit string string
  | GitPush string "err option"
  | GitPullRequest string "err option"

record world =
  w_db :: db
  w_locks :: "string list"
  w_freeze :: freeze
  w_trace :: "effect list"
  w_tick :: nat

type_synonym 'a prog = "(world, 'a) state"

record env =
  en_Now :: "nat \<Rightarrow> time"
  en_NewID :: "nat \<Rightarrow> string"
  en_Owner :: string
  en_LeaseTTL :: duration
  en_Leases :: bool
  en_StoreErr :: "nat \<Rightarrow> err option"
  en_Root :: string
  en_Done :: "nat \<Rightarrow> bool"
  en_Build :: "nat \<Rightarrow> cfg_target \<Rightarrow> err option"
  en_Apply :: "nat \<Rightarrow> cfg_target \<Rightarrow> manifest \<Rightarrow> err option"
  en_Observe :: "nat \<Rightarrow> cfg_target \<Rightarrow> fingerprint res"
  en_Health :: "nat \<Rightarrow> cfg_target \<Rightarrow> health_status \<times> err option"
  en_Differ :: "cfg_target \<Rightarrow> bool"
  en_Diff :: "nat \<Rightarrow> cfg_target \<Rightarrow> manifest \<Rightarrow> string res"
  en_Renderer :: "cfg_target \<Rightarrow> bool"
  en_Referenced :: "cfg_target \<Rightarrow> manifest \<Rightarrow> bool"
  en_Render :: "nat \<Rightarrow> cfg_target \<Rightarrow> manifest \<Rightarrow> string res"
  en_Preflighter :: "cfg_target \<Rightarrow> bool"
  en_Preflight :: "nat \<Rightarrow> cfg_target \<Rightarrow> manifest \<Rightarrow> err option"
  en_Inspector :: "cfg_target \<Rightarrow> bool"
  en_Resources :: "nat \<Rightarrow> cfg_target \<Rightarrow> resource list res"
  en_Reaper :: "cfg_target \<Rightarrow> bool"
  en_ReapTarget :: "nat \<Rightarrow> cfg_target \<Rightarrow> int \<times> err option"
  en_Dangling :: "nat \<Rightarrow> string list \<Rightarrow> string list"
  en_SpecSum :: "tspec \<Rightarrow> string"
  en_BytesSum :: "string \<Rightarrow> string"
  en_Smoke :: "nat \<Rightarrow> string list \<Rightarrow> int res"
  en_DBRun :: "nat \<Rightarrow> string list \<Rightarrow> duration option \<Rightarrow> err option"
  en_RouterBuild :: "nat \<Rightarrow> traffic_routing \<Rightarrow> err option"
  en_RouterApply :: "nat \<Rightarrow> traffic_routing \<Rightarrow> int \<Rightarrow> err option"
  en_FlagBuild :: "nat \<Rightarrow> feature_flags \<Rightarrow> err option"
  en_FlagApply :: "nat \<Rightarrow> feature_flags \<Rightarrow> int \<Rightarrow> bool \<Rightarrow> err option"
  en_Metrics :: bool
  en_MetricsBuild :: "nat \<Rightarrow> cfg_analysis \<Rightarrow> err option"
  en_Query :: "nat \<Rightarrow> string \<Rightarrow> real res"
  en_QuerySeries :: "(nat \<Rightarrow> string \<Rightarrow> series_sample list res) option"
  en_MetricCel :: metric_cel
  en_Analysis :: bool
  en_Cel :: cel
  en_Round :: "real \<Rightarrow> real"
  en_Governor :: "(nat \<Rightarrow> gov_request \<Rightarrow> gov_decision res) option"
  en_Guardrails :: bool
  en_Floor :: policy_floor
  en_HasFreeze :: bool
  en_FreezeSource :: "(nat \<Rightarrow> db \<Rightarrow> (bool \<times> string) res) option"
  en_AgentLimit :: "(nat \<Rightarrow> string \<Rightarrow> bool) option"
  en_Artifact :: "(nat \<Rightarrow> string \<Rightarrow> err option) option"
  en_Secrets :: "(nat \<Rightarrow> string \<Rightarrow> string res) option"
  en_Audit :: bool
  en_Notifier :: bool
  en_AllowSelfApprove :: bool
  en_Life :: life_kit
  en_Step :: "(world \<times> err option) step_kit"

section \<open>Outside calls\<close>

definition ask :: "(nat \<Rightarrow> 'a) \<Rightarrow> 'a prog" where
  "ask f = do {
     w \<leftarrow> State_Monad.get;
     State_Monad.set (w\<lparr>w_tick := Suc (w_tick w)\<rparr>);
     State_Monad.return (f (w_tick w))
   }"

definition emit :: "effect \<Rightarrow> unit prog" where
  "emit e = do {
     w \<leftarrow> State_Monad.get;
     State_Monad.set (w\<lparr>w_trace := w_trace w @ [e]\<rparr>)
   }"

definition now :: "env \<Rightarrow> time prog" where
  "now E = ask (en_Now E)"

definition record_audit :: "env \<Rightarrow> audit_entry \<Rightarrow> unit prog" where
  "record_audit E en = (if en_Audit E then emit (AuditRecord en) else State_Monad.return ())"

definition notifyEvent :: "env \<Rightarrow> notify_event \<Rightarrow> unit prog" where
  "notifyEvent E ev = (if en_Notifier E then emit (Notified ev) else State_Monad.return ())"

abbreviation LabelEnvironment :: string where "LabelEnvironment \<equiv> ''rollops.env''"
abbreviation LabelVersion :: string where "LabelVersion \<equiv> ''rollops.version''"

definition labelOf :: "manifest \<Rightarrow> string \<Rightarrow> string" where
  "labelOf m key = (case map_of (m_Labels m) key of Some v \<Rightarrow> v | None \<Rightarrow> [])"

definition deploymentFacts :: "rollout \<Rightarrow> string \<times> string" where
  "deploymentFacts r = (labelOf (r_Desired r) LabelVersion, labelOf (r_Desired r) LabelEnvironment)"

definition notifyDeployment :: "env \<Rightarrow> notify_kind \<Rightarrow> rollout \<Rightarrow> string \<Rightarrow> unit prog" where
  "notifyDeployment E kind r detail =
     (case deploymentFacts r of (version, environment) \<Rightarrow>
        notifyEvent E \<lparr>ne_Kind = kind, ne_TargetRef = r_TargetRef r, ne_RolloutID = r_ID r,
          ne_Detail = detail, ne_Version = version, ne_Environment = environment\<rparr>)"

section \<open>The store, as the engine calls it\<close>

definition st_call :: "env \<Rightarrow> 'a prog \<Rightarrow> 'a res prog" where
  "st_call E m = do {
     f \<leftarrow> ask (en_StoreErr E);
     (case f of
        Some e \<Rightarrow> State_Monad.return (Inl e)
      | None \<Rightarrow> do { x \<leftarrow> m; State_Monad.return (Inr x) })
   }"

definition db_read :: "(db \<Rightarrow> 'a) \<Rightarrow> 'a prog" where
  "db_read f = do { w \<leftarrow> State_Monad.get; State_Monad.return (f (w_db w)) }"

definition db_write :: "(db \<Rightarrow> db) \<Rightarrow> unit prog" where
  "db_write f = do { w \<leftarrow> State_Monad.get; State_Monad.set (w\<lparr>w_db := f (w_db w)\<rparr>) }"

definition join_res :: "'a res res \<Rightarrow> 'a res" where
  "join_res r = (case r of Inl e \<Rightarrow> Inl e | Inr x \<Rightarrow> x)"

definition LoadRollout :: "env \<Rightarrow> string \<Rightarrow> rollout res prog" where
  "LoadRollout E i = do { x \<leftarrow> st_call E (db_read (db_LoadRollout i)); State_Monad.return (join_res x) }"

definition ListRollouts :: "env \<Rightarrow> int \<Rightarrow> rollout list res prog" where
  "ListRollouts E limit = do { x \<leftarrow> st_call E (db_read (db_ListRollouts limit)); State_Monad.return (join_res x) }"

definition SaveRollout :: "env \<Rightarrow> rollout \<Rightarrow> err option prog" where
  "SaveRollout E r = do {
     x \<leftarrow> st_call E (do { db_write (db_SaveRollout r); emit (RolloutSaved r) });
     State_Monad.return (case x of Inl e \<Rightarrow> Some e | Inr _ \<Rightarrow> None)
   }"

definition SaveObservedState :: "env \<Rightarrow> target_state \<Rightarrow> err option prog" where
  "SaveObservedState E ts = do {
     x \<leftarrow> st_call E (db_write (db_SaveObservedState ts));
     State_Monad.return (case x of Inl e \<Rightarrow> Some e | Inr _ \<Rightarrow> None)
   }"

section \<open>Target locks\<close>

definition lock_local :: "string \<Rightarrow> bool prog" where
  "lock_local key = do {
     w \<leftarrow> State_Monad.get;
     (case TryAcquire key (w_locks w) of (ok, held) \<Rightarrow> do {
        State_Monad.set (w\<lparr>w_locks := held\<rparr>);
        State_Monad.return ok
      })
   }"

definition unlock_local :: "string \<Rightarrow> unit prog" where
  "unlock_local key = do {
     w \<leftarrow> State_Monad.get;
     State_Monad.set (w\<lparr>w_locks := ReleaseKey key (w_locks w)\<rparr>)
   }"

definition lease_key :: "string \<Rightarrow> string" where
  "lease_key ref = ''target:'' @ ref"

definition acquireTarget :: "env \<Rightarrow> string \<Rightarrow> bool res prog" where
  "acquireTarget E ref = do {
     ok \<leftarrow> lock_local ref;
     (if \<not> ok then State_Monad.return (Inr False)
      else if \<not> en_Leases E then State_Monad.return (Inr True)
      else do {
        t \<leftarrow> now E;
        acq \<leftarrow> st_call E (do {
          w \<leftarrow> State_Monad.get;
          (case db_AcquireLease (lease_key ref) (en_Owner E) (en_LeaseTTL E) t (w_db w) of (b, d) \<Rightarrow> do {
             State_Monad.set (w\<lparr>w_db := d\<rparr>);
             State_Monad.return b
           })
        });
        (case join_res acq of
           Inl e \<Rightarrow> do { unlock_local ref; State_Monad.return (Inl e) }
         | Inr got \<Rightarrow>
             if got then State_Monad.return (Inr True)
             else do { unlock_local ref; State_Monad.return (Inr False) })
      })
   }"

definition releaseTarget :: "env \<Rightarrow> string \<Rightarrow> unit prog" where
  "releaseTarget E ref = do {
     (if en_Leases E then do {
        _ \<leftarrow> st_call E (db_write (db_ReleaseLease (lease_key ref) (en_Owner E)));
        State_Monad.return ()
      } else State_Monad.return ());
     unlock_local ref
   }"

text \<open>
  The shape of every locked operation: acquire, answer \<open>fail e\<close> on an error and \<open>busy\<close> when the
  target is taken, else run the body and release on every way out (\<open>defer release()\<close>).
\<close>

definition with_target :: "env \<Rightarrow> string \<Rightarrow> (err \<Rightarrow> 'a) \<Rightarrow> 'a \<Rightarrow> 'a prog \<Rightarrow> 'a prog" where
  "with_target E ref fail busy body = do {
     a \<leftarrow> acquireTarget E ref;
     (case a of
        Inl e \<Rightarrow> State_Monad.return (fail e)
      | Inr ok \<Rightarrow>
          if ok then do { x \<leftarrow> body; releaseTarget E ref; State_Monad.return x }
          else State_Monad.return busy)
   }"

section \<open>Targets and manifests\<close>

definition build :: "env \<Rightarrow> cfg_target \<Rightarrow> cfg_target res prog" where
  "build E t = do {
     e \<leftarrow> ask (\<lambda>n. en_Build E n t);
     State_Monad.return (case e of Some x \<Rightarrow> Inl x | None \<Rightarrow> Inr t)
   }"

text \<open>\<open>buildTarget\<close> and \<open>rawTarget\<close>: a target from a persisted manifest.\<close>

definition target_of_manifest :: "string \<Rightarrow> manifest \<Rightarrow> cfg_target res" where
  "target_of_manifest ref m =
     (if has_blob (m_Spec m) then
        (case unblob (m_Spec m) of
           Inl e \<Rightarrow> Inl (Wrap ''engine: decode manifest spec'' e)
         | Inr sp \<Rightarrow> Inr \<lparr>t_Kind = m_Kind m, t_Ref = ref, t_Criticality = [], t_Env = [], t_Spec = sp\<rparr>)
      else Inr \<lparr>t_Kind = m_Kind m, t_Ref = ref, t_Criticality = [], t_Env = [], t_Spec = []\<rparr>)"

definition buildTarget :: "env \<Rightarrow> string \<Rightarrow> manifest \<Rightarrow> cfg_target res prog" where
  "buildTarget E ref m =
     (case target_of_manifest ref m of Inl e \<Rightarrow> State_Monad.return (Inl e) | Inr t \<Rightarrow> build E t)"

definition rawTarget :: "env \<Rightarrow> string \<Rightarrow> manifest \<Rightarrow> cfg_target res prog" where
  "rawTarget E ref m =
     (case target_of_manifest ref m of Inl e \<Rightarrow> State_Monad.return (Inl e) | Inr t \<Rightarrow> build E t)"

definition tgt_Apply :: "env \<Rightarrow> cfg_target \<Rightarrow> manifest \<Rightarrow> err option prog" where
  "tgt_Apply E t m = do {
     e \<leftarrow> ask (\<lambda>n. en_Apply E n t m);
     emit (TargetApply t m e);
     State_Monad.return e
   }"

definition tgt_Observe :: "env \<Rightarrow> cfg_target \<Rightarrow> fingerprint res prog" where
  "tgt_Observe E t = do {
     r \<leftarrow> ask (\<lambda>n. en_Observe E n t);
     emit (TargetObserve t);
     State_Monad.return r
   }"

definition tgt_Diff :: "env \<Rightarrow> cfg_target \<Rightarrow> manifest \<Rightarrow> string res prog" where
  "tgt_Diff E t m = do {
     r \<leftarrow> ask (\<lambda>n. en_Diff E n t m);
     emit (TargetDiff t m);
     State_Monad.return r
   }"

definition tgt_Preflight :: "env \<Rightarrow> cfg_target \<Rightarrow> manifest \<Rightarrow> err option prog" where
  "tgt_Preflight E t m = do {
     e \<leftarrow> ask (\<lambda>n. en_Preflight E n t m);
     emit (TargetPreflight t m e);
     State_Monad.return e
   }"

definition tgt_Reap :: "env \<Rightarrow> cfg_target \<Rightarrow> (int \<times> err option) prog" where
  "tgt_Reap E t = do {
     x \<leftarrow> ask (\<lambda>n. en_ReapTarget E n t);
     emit (TargetReap t x);
     State_Monad.return x
   }"

definition manifest_labels :: "config \<Rightarrow> (string \<times> string) list" where
  "manifest_labels c =
     (let labels = md_Labels (c_Metadata c) in
      if t_Env (c_Target c) \<noteq> [] \<and> map_of labels LabelEnvironment = None
      then AList.update LabelEnvironment (t_Env (c_Target c)) labels else labels)"

definition manifestFromConfig :: "env \<Rightarrow> config \<Rightarrow> string \<Rightarrow> manifest res" where
  "manifestFromConfig E c rt =
     (if \<not> encodable (AMap (t_Spec (c_Target c)))
      then Inl (Err ''engine: marshal target spec'')
      else Inr \<lparr>m_Kind = t_Kind (c_Target c), m_Spec = Blob (t_Spec (c_Target c)),
                m_Labels = manifest_labels c, m_Checksum = en_SpecSum E (t_Spec (c_Target c)),
                m_Root = rt, m_Rendered = []\<rparr>)"

definition stampReferencedChecksum :: "env \<Rightarrow> string \<Rightarrow> manifest \<Rightarrow> (string \<times> manifest) res prog" where
  "stampReferencedChecksum E ref m = do {
     raw \<leftarrow> rawTarget E ref m;
     (case raw of
        Inl _ \<Rightarrow> State_Monad.return (Inr ([], m))
      | Inr t \<Rightarrow>
          if \<not> en_Renderer E t \<or> \<not> en_Referenced E t m then State_Monad.return (Inr ([], m))
          else do {
            out \<leftarrow> ask (\<lambda>n. en_Render E n t m);
            State_Monad.return (case out of
                Inl e \<Rightarrow> Inl (Wrap ''engine: render referenced manifest'' e)
              | Inr bytes \<Rightarrow> Inr (bytes, m\<lparr>m_Checksum := en_BytesSum E bytes, m_Rendered := bytes\<rparr>))
          })
   }"

definition strategyFrom :: "config \<Rightarrow> strategy" where
  "strategyFrom c =
     (if st_Type (s_Strategy (c_Spec c)) = ''canary'' then StrategyCanary
      else if st_Type (s_Strategy (c_Spec c)) = ''blue-green'' then StrategyBlueGreen
      else StrategyRolling)"

text \<open>
  \<open>resolveSecrets\<close>: values \<open>secret:<ref>\<close> of the target spec are resolved, in the order the spec
  lists them; the rebuilt target has no environment.
\<close>

fun resolve_values :: "(nat \<Rightarrow> string \<Rightarrow> string res) \<Rightarrow> tspec \<Rightarrow> tspec res prog" where
  "resolve_values f [] = State_Monad.return (Inr [])"
| "resolve_values f ((k, v) # rest) = do {
     x \<leftarrow> (case v of
             AStr s \<Rightarrow> if strings_HasPrefix s ''secret:'' then do {
                           r \<leftarrow> ask (\<lambda>n. f n (drop (length ''secret:'') s));
                           State_Monad.return (case r of
                               Inl e \<Rightarrow> Inl (Wrap (''engine: resolve secret '' @ k) e)
                             | Inr sec \<Rightarrow> Inr (AStr sec))
                         } else State_Monad.return (Inr v)
           | _ \<Rightarrow> State_Monad.return (Inr v));
     (case x of
        Inl e \<Rightarrow> State_Monad.return (Inl e)
      | Inr v' \<Rightarrow> do {
          ys \<leftarrow> resolve_values f rest;
          State_Monad.return (case ys of Inl e \<Rightarrow> Inl e | Inr vs \<Rightarrow> Inr ((k, v') # vs))
        })
   }"

definition resolveSecrets :: "env \<Rightarrow> cfg_target \<Rightarrow> cfg_target res prog" where
  "resolveSecrets E t =
     (case en_Secrets E of
        None \<Rightarrow> State_Monad.return (Inr t)
      | Some f \<Rightarrow>
          if t_Spec t = [] then State_Monad.return (Inr t)
          else do {
            sp \<leftarrow> resolve_values f (t_Spec t);
            State_Monad.return (case sp of Inl e \<Rightarrow> Inl e
              | Inr vs \<Rightarrow> Inr \<lparr>t_Kind = t_Kind t, t_Ref = t_Ref t, t_Criticality = t_Criticality t,
                              t_Env = [], t_Spec = vs\<rparr>)
          })"

section \<open>Health, commands, delivery\<close>

abbreviation healthAttempts :: nat where "healthAttempts \<equiv> 3"

fun health_loop :: "env \<Rightarrow> cfg_target \<Rightarrow> nat \<Rightarrow> health_status \<times> err option \<Rightarrow> (health_status \<times> err option) prog" where
  "health_loop E t 0 prev = State_Monad.return prev"
| "health_loop E t (Suc k) prev = do {
     dn \<leftarrow> (if Suc k < healthAttempts then ask (en_Done E) else State_Monad.return False);
     (if dn then State_Monad.return prev
      else do {
        r \<leftarrow> ask (\<lambda>n. en_Health E n t);
        emit (TargetHealth t);
        (case r of
           (hs, None) \<Rightarrow> State_Monad.return (hs, None)
         | (hs, Some e) \<Rightarrow> health_loop E t k (hs, Some e))
      })
   }"

definition zero_health :: health_status where
  "zero_health = \<lparr>hs_State = HealthUnknown, hs_Reason = []\<rparr>"

definition healthWithRetry :: "env \<Rightarrow> cfg_target \<Rightarrow> (health_status \<times> err option) prog" where
  "healthWithRetry E t = health_loop E t healthAttempts (zero_health, None)"

definition run_db_cmd :: "env \<Rightarrow> string list \<Rightarrow> duration option \<Rightarrow> err option prog" where
  "run_db_cmd E command timeout = do {
     e \<leftarrow> ask (\<lambda>n. en_DBRun E n command timeout);
     emit (DatabaseCmd command e);
     State_Monad.return e
   }"

definition runDatabaseCommand :: "env \<Rightarrow> database_rollback \<Rightarrow> err option prog" where
  "runDatabaseCommand E d =
     (if db_Timeout d \<noteq> [] then
        (case ParseDuration (db_Timeout d) of
           Inl e \<Rightarrow> State_Monad.return (Some e)
         | Inr t \<Rightarrow> run_db_cmd E (db_Command d) (Some t))
      else run_db_cmd E (db_Command d) None)"

definition appendNote :: "string \<Rightarrow> string \<Rightarrow> string" where
  "appendNote a b = (if a = [] then b else if b = [] then a else a @ ''; '' @ b)"

definition audit_detail :: "audit_action \<Rightarrow> string \<Rightarrow> string \<Rightarrow> audit_entry" where
  "audit_detail act ref detail = \<lparr>ae_Action = act, ae_RolloutID = [], ae_TargetRef = ref, ae_Phase = [],
     ae_Actor = zero_identity, ae_Detail = detail\<rparr>"

definition driveTraffic :: "env \<Rightarrow> string \<Rightarrow> traffic_routing option \<Rightarrow> int \<Rightarrow> err option prog" where
  "driveTraffic E ref tro weight =
     (case tro of
        None \<Rightarrow> State_Monad.return None
      | Some tr \<Rightarrow> do {
          be \<leftarrow> ask (\<lambda>n. en_RouterBuild E n tr);
          (case be of
             Some e \<Rightarrow> do {
               record_audit E (audit_detail ActionApply ref (''trafficrouter build failed: '' @ err_str e));
               State_Monad.return (Some (Wrap ''trafficrouter build'' e))
             }
           | None \<Rightarrow> do {
               ae \<leftarrow> ask (\<lambda>n. en_RouterApply E n tr weight);
               emit (TrafficShift tr weight ae);
               (case ae of
                  Some e \<Rightarrow> do {
                    record_audit E (audit_detail ActionApply ref (''trafficrouter apply failed: '' @ err_str e));
                    State_Monad.return (Some (Wrap ''trafficrouter apply'' e))
                  }
                | None \<Rightarrow> do {
                    record_audit E (audit_detail ActionApply ref
                      (''trafficrouter '' @ tr_Route tr @ '' -> canary '' @ itoa weight @ ''%''));
                    State_Monad.return None
                  })
             })
        })"

definition flagsEnabled :: "feature_flags option \<Rightarrow> string \<Rightarrow> bool" where
  "flagsEnabled ffo phase =
     (case ffo of None \<Rightarrow> False
      | Some ff \<Rightarrow> if ff_When ff = [] \<or> ff_When ff = ''both'' then True else ff_When ff = phase)"

definition driveFlag :: "env \<Rightarrow> string \<Rightarrow> feature_flags \<Rightarrow> int \<Rightarrow> unit prog" where
  "driveFlag E ref ff percentage = do {
     be \<leftarrow> ask (\<lambda>n. en_FlagBuild E n ff);
     (case be of
        Some e \<Rightarrow> record_audit E (audit_detail ActionApply ref (''featureflag build failed: '' @ err_str e))
      | None \<Rightarrow> do {
          ae \<leftarrow> ask (\<lambda>n. en_FlagApply E n ff percentage False);
          emit (FlagSet ff percentage ae);
          (case ae of
             Some e \<Rightarrow> record_audit E (audit_detail ActionApply ref (''featureflag apply failed: '' @ err_str e))
           | None \<Rightarrow> record_audit E (audit_detail ActionApply ref
                       (''featureflag '' @ ff_Flag ff @ '' -> '' @ itoa percentage @ ''%'')))
        })
   }"

definition driveFlagDisable :: "env \<Rightarrow> string \<Rightarrow> feature_flags \<Rightarrow> unit prog" where
  "driveFlagDisable E ref ff = do {
     be \<leftarrow> ask (\<lambda>n. en_FlagBuild E n ff);
     (case be of
        Some e \<Rightarrow> record_audit E (audit_detail ActionRollback ref (''featureflag build failed: '' @ err_str e))
      | None \<Rightarrow> do {
          ae \<leftarrow> ask (\<lambda>n. en_FlagApply E n ff 0 True);
          emit (FlagDisable ff ae);
          (case ae of
             Some e \<Rightarrow> record_audit E (audit_detail ActionRollback ref (''featureflag disable failed: '' @ err_str e))
           | None \<Rightarrow> record_audit E (audit_detail ActionRollback ref
                       (''featureflag '' @ ff_Flag ff @ '' disabled (rollback)'')))
        })
   }"

definition resetDelivery :: "env \<Rightarrow> rollout \<Rightarrow> unit prog" where
  "resetDelivery E r = do {
     (if has_blob (r_DeliveryTraffic r) then
        (case unblob (r_DeliveryTraffic r) of
           Inl _ \<Rightarrow> State_Monad.return ()
         | Inr tr \<Rightarrow> do { _ \<leftarrow> driveTraffic E (r_TargetRef r) (Some tr) 0; State_Monad.return () })
      else State_Monad.return ());
     (if has_blob (r_DeliveryFlag r) then
        (case unblob (r_DeliveryFlag r) of
           Inl _ \<Rightarrow> State_Monad.return ()
         | Inr ff \<Rightarrow> driveFlagDisable E (r_TargetRef r) ff)
      else State_Monad.return ())
   }"

section \<open>Guardrails, governance, risk\<close>

definition env_guardrails :: "env \<Rightarrow> world guardrails option" where
  "env_guardrails E =
     (if en_Guardrails E then Some \<lparr>
        gr_Floor = en_Floor E,
        gr_Freeze = (if en_HasFreeze E then Some w_freeze else None),
        gr_AgentLimit = map_option (\<lambda>f name. ask (\<lambda>n. f n name)) (en_AgentLimit E),
        gr_FreezeSource = map_option (\<lambda>f. do { w \<leftarrow> State_Monad.get; ask (\<lambda>n. f n (w_db w)) }) (en_FreezeSource E)\<rparr>
      else None)"

definition check_guardrails :: "env \<Rightarrow> identity \<Rightarrow> floor_input \<Rightarrow> bool res prog" where
  "check_guardrails E who inp =
     (case env_guardrails E of None \<Rightarrow> State_Monad.return (Inr False) | Some g \<Rightarrow> CheckApply g who inp)"

definition govern :: "env \<Rightarrow> gov_request \<Rightarrow> gov_decision res prog" where
  "govern E req = Hook_Evaluate (map_option (\<lambda>f q. ask (\<lambda>n. f n q)) (en_Governor E)) req"

end
