(* ===== verification/Engine_Rollback.thy ===== *)
theory Engine_Rollback
  imports Engine_Base
begin

text \<open>
  Rolling back (\<^verbatim>\<open>internal/engine/engine.go\<close>, \<open>Rollback\<close> to \<open>RollbackLast\<close>): choosing the prior
  manifest, the baseline check made before deploying, the lock-free core \<open>applyRollback\<close> and the
  operations around it. \<open>applyRollback\<close> works through a pointer: its third result is what the
  caller's rollout holds afterwards.
\<close>

definition planned_ctx :: life_context where
  "planned_ctx = \<lparr>lx_PlanProduced = True, lx_NeedsApproval = False\<rparr>"

section \<open>The prior manifest\<close>

definition prior_of :: "string \<Rightarrow> string \<Rightarrow> rollout list \<Rightarrow> manifest option" where
  "prior_of ref exclude rs =
     map_option r_Desired
       (find (\<lambda>r. r_TargetRef r = ref \<and> m_Checksum (r_Desired r) \<noteq> [] \<and> m_Checksum (r_Desired r) \<noteq> exclude) rs)"

definition priorManifestErr :: "env \<Rightarrow> string \<Rightarrow> string \<Rightarrow> manifest option res prog" where
  "priorManifestErr E ref exclude = do {
     rs \<leftarrow> ListRollouts E 0;
     State_Monad.return (case rs of
         Inl e \<Rightarrow> Inl (Wrap ''engine: read prior manifest'' e)
       | Inr l \<Rightarrow> Inr (prior_of ref exclude l))
   }"

definition priorManifest :: "env \<Rightarrow> string \<Rightarrow> string \<Rightarrow> manifest option prog" where
  "priorManifest E ref exclude = do {
     p \<leftarrow> priorManifestErr E ref exclude;
     State_Monad.return (case p of Inl _ \<Rightarrow> None | Inr m \<Rightarrow> m)
   }"

definition reroot :: "env \<Rightarrow> manifest \<Rightarrow> manifest" where
  "reroot E m = (if m_Root m = [] then m\<lparr>m_Root := en_Root E\<rparr> else m)"

definition rollbackBaseline :: "env \<Rightarrow> string \<Rightarrow> manifest \<Rightarrow> string prog" where
  "rollbackBaseline E ref desired = do {
     p \<leftarrow> priorManifestErr E ref (m_Checksum desired);
     (case p of
        Inl e \<Rightarrow> State_Monad.return (''the recorded rollback target could not be read: '' @ err_str e)
      | Inr None \<Rightarrow> State_Monad.return []
      | Inr (Some prior) \<Rightarrow> do {
          raw \<leftarrow> rawTarget E ref desired;
          (case raw of
             Inl e \<Rightarrow> State_Monad.return
               (''the live state could not be compared with the recorded rollback target: '' @ err_str e)
           | Inr t \<Rightarrow>
               if \<not> en_Differ E t then State_Monad.return []
               else do {
                 diff \<leftarrow> tgt_Diff E t (reroot E prior);
                 State_Monad.return (case diff of
                     Inl e \<Rightarrow> ''the live state could not be compared with the recorded rollback target: '' @ err_str e
                   | Inr s \<Rightarrow>
                       if strings_TrimSpace s \<noteq> []
                       then ''the live state is not the last manifest rollops recorded (it was changed outside rollops), so rolling back would restore something that was not running''
                       else [])
               })
        })
   }"

section \<open>The core\<close>

definition rollback_hook :: "rollout \<Rightarrow> database_rollback option \<Rightarrow> database_rollback option" where
  "rollback_hook r d =
     (if d = None \<and> r_DBRollbackCmd r \<noteq> []
      then Some \<lparr>db_Command = r_DBRollbackCmd r, db_Timeout = r_DBRollbackTimeout r, db_When = []\<rparr> else d)"

definition has_hook :: "database_rollback option \<Rightarrow> bool" where
  "has_hook d = (case d of None \<Rightarrow> False | Some h \<Rightarrow> db_Command h \<noteq> [])"

definition rollback_gate :: "rollout \<Rightarrow> database_rollback option \<Rightarrow> bool \<Rightarrow> bool" where
  "rollback_gate r d force =
     (\<not> force \<and> r_DBMigrateCmd r \<noteq> [] \<and> \<not> r_DBBackwardCompatible r \<and> \<not> has_hook d)"

text \<open>The reverse database command and the final save, once the prior manifest is applied.\<close>

definition rollback_finish ::
  "env \<Rightarrow> rollout \<Rightarrow> string \<Rightarrow> database_rollback option \<Rightarrow> (rollout \<times> err option \<times> rollout) prog" where
  "rollback_finish E r note d = do {
     de \<leftarrow> (case d of
              Some h \<Rightarrow> if db_Command h \<noteq> [] then runDatabaseCommand E h else State_Monad.return None
            | None \<Rightarrow> State_Monad.return None);
     (case de of
        Some e \<Rightarrow> do {
          let r = r\<lparr>r_Note := appendNote note (''database rollback: failed: '' @ err_str e)\<rparr>;
          _ \<leftarrow> SaveRollout E r;
          State_Monad.return (r, Some (Wrap ''database rollback'' e), r)
        }
      | None \<Rightarrow> do {
          let r = r\<lparr>r_Note := if has_hook d then appendNote note ''database rollback: succeeded'' else note\<rparr>;
          se \<leftarrow> SaveRollout E r;
          State_Monad.return (case se of
              Some e \<Rightarrow> (zero_rollout, Some e, r)
            | None \<Rightarrow> (r, None, r))
        })
   }"

definition applyRollback ::
  "env \<Rightarrow> rollout \<Rightarrow> manifest \<Rightarrow> string \<Rightarrow> database_rollback option \<Rightarrow> bool \<Rightarrow> (rollout \<times> err option \<times> rollout) prog" where
  "applyRollback E r prior note d force =
     (let d = rollback_hook r d in
      if rollback_gate r d force then
        State_Monad.return (r, Some (Err ''engine: rollback blocked: release ran a database migration not declared backwardCompatible and has no database rollback command; force the rollback to override''), r)
      else (case ResumeLifecycle (en_Life E) (r_Phase r) planned_ctx of
          Inl e \<Rightarrow> State_Monad.return (zero_rollout, Some e, r)
        | Inr lc \<Rightarrow> (case lc_Send (en_Life E) lc EventRollback of
            (Some e, _) \<Rightarrow> State_Monad.return (r, Some e, r)
          | (None, lc) \<Rightarrow> do {
              b \<leftarrow> buildTarget E (r_TargetRef r) prior;
              (case b of
                 Inl e \<Rightarrow> State_Monad.return (r, Some e, r)
               | Inr t \<Rightarrow> do {
                   ae \<leftarrow> tgt_Apply E t prior;
                   (case ae of
                      Some e \<Rightarrow> State_Monad.return (r, Some (Wrap ''engine: rollback: re-apply'' e), r)
                    | None \<Rightarrow> do {
                        ts \<leftarrow> now E;
                        let r = r\<lparr>r_Phase := lc_Phase lc, r_Desired := prior, r_UpdatedAt := ts\<rparr>;
                        resetDelivery E r;
                        rollback_finish E r note d
                      })
                 })
            })))"

section \<open>Operations\<close>

definition rollbackWithDatabase ::
  "env \<Rightarrow> string \<Rightarrow> manifest \<Rightarrow> string \<Rightarrow> database_rollback option \<Rightarrow> bool \<Rightarrow> (rollout \<times> err option) prog" where
  "rollbackWithDatabase E rid prior note d force = do {
     l \<leftarrow> LoadRollout E rid;
     (case l of
        Inl e \<Rightarrow> State_Monad.return (zero_rollout, Some e)
      | Inr r \<Rightarrow>
          with_target E (r_TargetRef r) (\<lambda>e. (r, Some e)) (r, Some ErrTargetBusy)
            (do {
               x \<leftarrow> applyRollback E r prior note d force;
               State_Monad.return (case x of (rb, e, _) \<Rightarrow> (rb, e))
             }))
   }"

definition Rollback :: "env \<Rightarrow> string \<Rightarrow> manifest \<Rightarrow> bool \<Rightarrow> (rollout \<times> err option) prog" where
  "Rollback E rid prior force = rollbackWithDatabase E rid prior [] None force"

definition RollbackLast :: "env \<Rightarrow> string \<Rightarrow> bool \<Rightarrow> (rollout \<times> err option) prog" where
  "RollbackLast E ref force = do {
     rs \<leftarrow> ListRollouts E 0;
     (case rs of
        Inl e \<Rightarrow> State_Monad.return (zero_rollout, Some e)
      | Inr l \<Rightarrow> (case find (\<lambda>r. r_TargetRef r = ref) l of
          None \<Rightarrow> State_Monad.return (zero_rollout, Some (Err (''engine: no rollouts for target '' @ ref)))
        | Some cur \<Rightarrow> do {
            p \<leftarrow> priorManifest E ref (m_Checksum (r_Desired cur));
            (case p of
               None \<Rightarrow> State_Monad.return (zero_rollout, Some (Err (''engine: no prior state to roll back '' @ ref @ '' to'')))
             | Some prior \<Rightarrow>
                 if r_RollbackBlocked cur \<noteq> [] \<and> \<not> force
                 then State_Monad.return (zero_rollout, Some (Err (''engine: rollback: the manifest rollops would restore was not live when '' @
                        r_ID cur @ '' started ('' @ r_RollbackBlocked cur @ ''); force the rollback to apply it anyway'')))
                 else Rollback E (r_ID cur) prior force)
          }))
   }"

end
