(* ===== verification/Engine_Gates.thy ===== *)
theory Engine_Gates
  imports Engine_Rollback
begin

text \<open>
  Post-deploy verification (\<^verbatim>\<open>internal/engine/engine.go\<close>, \<open>VerifyOrRollback\<close> to
  \<open>promoteWithNote\<close>): the health, smoke and analysis gates in their fixed order, the dry run
  \<open>Verify\<close>, \<open>Promote\<close>, and the automatic path \<open>VerifyOrRollback\<close>.
\<close>

section \<open>Gates\<close>

datatype gate_name = GateHealth | GateSmoke | GateAnalysis
datatype gate_status = GatePass | GateFail | GateSkipped | GateNotRun

record gate_result =
  gq_Gate :: gate_name
  gq_Status :: gate_status
  gq_Detail :: string

record gate_set =
  gs_health :: bool
  gs_smoke :: "smoke_test option"
  gs_analysis :: "cfg_analysis option"

definition gatesFromConfig :: "env \<Rightarrow> config \<Rightarrow> gate_set" where
  "gatesFromConfig E c =
     \<lparr>gs_health = (rb_HealthCheck (s_Rollback (c_Spec c)) \<noteq> None \<or> rb_Auto (s_Rollback (c_Spec c))),
      gs_smoke = rb_SmokeTest (s_Rollback (c_Spec c)),
      gs_analysis = (if en_Analysis E then s_Analysis (c_Spec c) else None)\<rparr>"

definition gatesFromRollout :: "env \<Rightarrow> rollout \<Rightarrow> gate_set res" where
  "gatesFromRollout E r =
     (case (if has_blob (r_SmokeTest r) then map_sum id Some (unblob (r_SmokeTest r)) else Inr None) of
        Inl e \<Rightarrow> Inl (Wrap ''smoke test descriptor unreadable'' e)
      | Inr sm \<Rightarrow>
          (case (if en_Analysis E \<and> has_blob (r_Analysis r) then map_sum id Some (unblob (r_Analysis r)) else Inr None) of
             Inl e \<Rightarrow> Inl (Wrap ''analysis descriptor unreadable'' e)
           | Inr an \<Rightarrow> Inr \<lparr>gs_health = True, gs_smoke = sm, gs_analysis = an\<rparr>))"

fun healthStateName :: "health_state \<Rightarrow> string" where
  "healthStateName HealthHealthy = ''healthy''"
| "healthStateName HealthDegraded = ''degraded''"
| "healthStateName HealthUnhealthy = ''unhealthy''"
| "healthStateName HealthUnknown = ''unknown''"

definition gate_res :: "gate_name \<Rightarrow> gate_status \<Rightarrow> string \<Rightarrow> gate_result" where
  "gate_res g s d = \<lparr>gq_Gate = g, gq_Status = s, gq_Detail = d\<rparr>"

definition gateHealth :: "env \<Rightarrow> rollout \<Rightarrow> gate_result prog" where
  "gateHealth E r = do {
     b \<leftarrow> buildTarget E (r_TargetRef r) (r_Desired r);
     (case b of
        Inl e \<Rightarrow> State_Monad.return (gate_res GateHealth GateFail (''health gate unavailable: '' @ err_str e))
      | Inr t \<Rightarrow> do {
          h \<leftarrow> healthWithRetry E t;
          State_Monad.return (case h of
              (hs, Some e) \<Rightarrow> gate_res GateHealth GateFail (''health check failed: '' @ err_str e)
            | (hs, None) \<Rightarrow>
                if hs_State hs = HealthUnhealthy
                then gate_res GateHealth GateFail
                       (if hs_Reason hs \<noteq> [] then ''health check failed: '' @ hs_Reason hs else ''health check failed'')
                else gate_res GateHealth GatePass (healthStateName (hs_State hs)))
        })
   }"

definition gateSmoke :: "env \<Rightarrow> smoke_test \<Rightarrow> gate_result prog" where
  "gateSmoke E st = do {
     c \<leftarrow> ask (\<lambda>n. en_Smoke E n (smk_Command st));
     emit (SmokeCmd (smk_Command st));
     State_Monad.return (case c of
         Inl e \<Rightarrow> gate_res GateSmoke GateFail (''smoke test error: '' @ err_str e)
       | Inr code \<Rightarrow>
           if code \<noteq> smk_ExpectExit st
           then gate_res GateSmoke GateFail (''smoke test exit '' @ itoa code @ '' (expected '' @ itoa (smk_ExpectExit st) @ '')'')
           else gate_res GateSmoke GatePass [])
   }"

definition env_metrics :: "env \<Rightarrow> world metrics_provider" where
  "env_metrics E =
     \<lparr>mp_Query = (\<lambda>q. do { r \<leftarrow> ask (\<lambda>n. en_Query E n q); emit (MetricQuery q); State_Monad.return r }),
      mp_QuerySeries = map_option (\<lambda>f q. do { r \<leftarrow> ask (\<lambda>n. f n q); emit (MetricQuery q); State_Monad.return r })
        (en_QuerySeries E)\<rparr>"

text \<open>Which metrics backend an analysis uses; the error says why there is none.\<close>

definition resolve_provider :: "env \<Rightarrow> cfg_analysis \<Rightarrow> string option prog" where
  "resolve_provider E a =
     (if en_Metrics E then State_Monad.return None
      else if an_Plugin a \<noteq> [] then do {
        e \<leftarrow> ask (\<lambda>n. en_MetricsBuild E n a);
        State_Monad.return (map_option (\<lambda>x. ''analysis: '' @ err_str x) e)
      }
      else if an_Provider a = ''prometheus'' then State_Monad.return None
      else State_Monad.return (Some (''analysis: no metrics provider for '' @ an_Provider a)))"

definition analysis_template :: "cfg_analysis \<Rightarrow> template" where
  "analysis_template a =
     \<lparr>tp_Metrics = map (\<lambda>m. \<lparr>mt_Name = am_Name m, mt_Query = am_Query m, mt_Aggregation = am_Aggregation m\<rparr>) (an_Metrics a),
      tp_Condition = an_Condition a,
      tp_Interval = (case ParseDuration (an_Interval a) of Inr d \<Rightarrow> d | Inl _ \<Rightarrow> 0),
      tp_Count = an_Count a, tp_FailureLimit = an_FailureLimit a\<rparr>"

definition runAnalysis :: "env \<Rightarrow> cfg_analysis \<Rightarrow> (bool \<times> string) prog" where
  "runAnalysis E a = do {
     pe \<leftarrow> resolve_provider E a;
     (case pe of
        Some why \<Rightarrow> State_Monad.return (False, why)
      | None \<Rightarrow> (case analysis_New (en_MetricCel E) (\<lambda>_. State_Monad.return ()) (en_Round E) (env_metrics E) (analysis_template a) of
          Inl e \<Rightarrow> State_Monad.return (False, ''analysis: '' @ err_str e)
        | Inr az \<Rightarrow> do {
            res \<leftarrow> analysis_Run az;
            State_Monad.return (if \<not> ar_Passed res then (False, ''analysis failed: '' @ ar_Reason res)
              else (True, ''analysis passed: '' @ utoa (length (ar_Measurements res)) @ '' measurement(s)''))
          }))
   }"

definition gateAnalysis :: "env \<Rightarrow> cfg_analysis \<Rightarrow> gate_result prog" where
  "gateAnalysis E a = do {
     x \<leftarrow> runAnalysis E a;
     State_Monad.return (case x of (ok, note) \<Rightarrow>
       gate_res GateAnalysis (if ok then GatePass else GateFail) note)
   }"

text \<open>One turn of the \<open>run\<close> closure: not run after a failure, skipped when not configured.\<close>

definition run_gate :: "bool \<Rightarrow> gate_name \<Rightarrow> string \<Rightarrow> gate_result prog option \<Rightarrow> gate_result prog" where
  "run_gate failed name skip g =
     (if failed then State_Monad.return (gate_res name GateNotRun [])
      else (case g of None \<Rightarrow> State_Monad.return (gate_res name GateSkipped skip) | Some m \<Rightarrow> m))"

definition is_fail :: "gate_result \<Rightarrow> bool" where
  "is_fail g = (gq_Status g = GateFail)"

definition smoke_of :: "gate_set \<Rightarrow> smoke_test option" where
  "smoke_of gs = (case gs_smoke gs of Some st \<Rightarrow> if smk_Command st \<noteq> [] then Some st else None | None \<Rightarrow> None)"

definition runGates :: "env \<Rightarrow> rollout \<Rightarrow> gate_set \<Rightarrow> gate_result list prog" where
  "runGates E r gs = do {
     h \<leftarrow> run_gate False GateHealth ''no health check configured''
            (if gs_health gs then Some (gateHealth E r) else None);
     s \<leftarrow> run_gate (is_fail h) GateSmoke ''no smoke test configured'' (map_option (gateSmoke E) (smoke_of gs));
     a \<leftarrow> run_gate (is_fail h \<or> is_fail s) GateAnalysis ''no metric analysis configured''
            (map_option (gateAnalysis E) (gs_analysis gs));
     State_Monad.return [h, s, a]
   }"

definition firstFailure :: "gate_result list \<Rightarrow> string" where
  "firstFailure gates = (case find is_fail gates of Some g \<Rightarrow> gq_Detail g | None \<Rightarrow> [])"

definition runPostDeployChecks :: "env \<Rightarrow> rollout \<Rightarrow> config \<Rightarrow> (bool \<times> string \<times> string) prog" where
  "runPostDeployChecks E r c = do {
     gates \<leftarrow> runGates E r (gatesFromConfig E c);
     State_Monad.return (
       if firstFailure gates \<noteq> [] then (True, firstFailure gates, [])
       else (case find (\<lambda>g. gq_Gate g = GateAnalysis \<and> gq_Status g = GatePass \<and> gq_Detail g \<noteq> []) gates of
               Some g \<Rightarrow> (False, [], gq_Detail g)
             | None \<Rightarrow> (False, [], [])))
   }"

section \<open>Promotion\<close>

definition promote_save :: "env \<Rightarrow> rollout \<Rightarrow> string \<Rightarrow> (rollout \<times> err option) prog" where
  "promote_save E r note = do {
     ts \<leftarrow> now E;
     let r = r\<lparr>r_Note := note, r_UpdatedAt := ts\<rparr>;
     se \<leftarrow> SaveRollout E r;
     State_Monad.return (case se of Some e \<Rightarrow> (zero_rollout, Some e) | None \<Rightarrow> (r, None))
   }"

definition promoteWithNote :: "env \<Rightarrow> string \<Rightarrow> string \<Rightarrow> (rollout \<times> err option) prog" where
  "promoteWithNote E rid note = do {
     l \<leftarrow> LoadRollout E rid;
     (case l of
        Inl e \<Rightarrow> State_Monad.return (zero_rollout, Some e)
      | Inr r \<Rightarrow> (case ResumeLifecycle (en_Life E) (r_Phase r) planned_ctx of
          Inl e \<Rightarrow> State_Monad.return (zero_rollout, Some e)
        | Inr lc \<Rightarrow> (case lc_Send (en_Life E) lc EventVerifyOK of
            (Some e, _) \<Rightarrow> State_Monad.return (r, Some e)
          | (None, lc) \<Rightarrow> do {
              let r = r\<lparr>r_Phase := lc_Phase lc\<rparr>;
              (if r_DBMigrateWhen r = MigratePostPromote \<and> r_DBMigrateCmd r \<noteq> [] then do {
                 de \<leftarrow> runDatabaseCommand E \<lparr>db_Command = r_DBMigrateCmd r, db_Timeout = r_DBMigrateTimeout r, db_When = []\<rparr>;
                 (case de of
                    Some e \<Rightarrow> do {
                      ts \<leftarrow> now E;
                      let r = r\<lparr>r_Note := appendNote note (''database migrate (post-promote): failed: '' @ err_str e), r_UpdatedAt := ts\<rparr>;
                      _ \<leftarrow> SaveRollout E r;
                      State_Monad.return (r, Some (Wrap ''database migrate (post-promote)'' e))
                    }
                  | None \<Rightarrow> promote_save E r (appendNote note ''database migrate (post-promote): succeeded''))
               }
               else promote_save E r note)
            })))
   }"

record verify_report =
  vr_RolloutID :: string
  vr_TargetRef :: string
  vr_Phase :: string
  vr_OK :: bool
  vr_Reason :: string
  vr_Gates :: "gate_result list"

definition Verify :: "env \<Rightarrow> string \<Rightarrow> verify_report res prog" where
  "Verify E rid = do {
     l \<leftarrow> LoadRollout E rid;
     (case l of
        Inl e \<Rightarrow> State_Monad.return (Inl e)
      | Inr r \<Rightarrow> (case gatesFromRollout E r of
          Inl e \<Rightarrow> State_Monad.return (Inl (Wrap ''engine: verify'' e))
        | Inr gs \<Rightarrow> do {
            gates \<leftarrow> runGates E r gs;
            State_Monad.return (Inr \<lparr>vr_RolloutID = r_ID r, vr_TargetRef = r_TargetRef r,
              vr_Phase = phase_str (r_Phase r), vr_OK = (firstFailure gates = []),
              vr_Reason = firstFailure gates, vr_Gates = gates\<rparr>)
          }))
   }"

definition promote_and_record :: "env \<Rightarrow> string \<Rightarrow> identity \<Rightarrow> bool \<Rightarrow> string \<Rightarrow> (rollout \<times> err option) prog" where
  "promote_and_record E rid who force note = do {
     p \<leftarrow> promoteWithNote E rid note;
     (case p of
        (r, Some e) \<Rightarrow> State_Monad.return (r, Some e)
      | (r, None) \<Rightarrow> do {
          record_audit E \<lparr>ae_Action = ActionPromote, ae_RolloutID = r_ID r, ae_TargetRef = r_TargetRef r,
            ae_Phase = phase_str (r_Phase r), ae_Actor = who,
            ae_Detail = if force then ''promoted (post-deploy gates bypassed: forced)'' else ''promoted''\<rparr>;
          State_Monad.return (r, None)
        })
   }"

definition Promote :: "env \<Rightarrow> string \<Rightarrow> identity \<Rightarrow> bool \<Rightarrow> (rollout \<times> err option) prog" where
  "Promote E rid who force = do {
     l \<leftarrow> LoadRollout E rid;
     (case l of
        Inl e \<Rightarrow> State_Monad.return (zero_rollout, Some e)
      | Inr r \<Rightarrow>
          if force then promote_and_record E rid who force ''promote: post-deploy gates bypassed (forced)''
          else (case gatesFromRollout E r of
              Inl e \<Rightarrow> State_Monad.return (r, Some (Wrap ''engine: promote'' e))
            | Inr gs \<Rightarrow> do {
                gates \<leftarrow> runGates E r gs;
                (if firstFailure gates \<noteq> []
                 then State_Monad.return (r, Some (Err (''engine: promote: '' @ firstFailure gates @ ''; force the promote to override'')))
                 else promote_and_record E rid who force [])
              }))
   }"

record verify_outcome =
  vo_Rollout :: rollout
  vo_RolledBack :: bool
  vo_Reason :: string

definition zero_outcome :: verify_outcome where
  "zero_outcome = \<lparr>vo_Rollout = zero_rollout, vo_RolledBack = False, vo_Reason = []\<rparr>"

definition VerifyOrRollback :: "env \<Rightarrow> string \<Rightarrow> manifest \<Rightarrow> config \<Rightarrow> (verify_outcome \<times> err option) prog" where
  "VerifyOrRollback E rid prior c = do {
     l \<leftarrow> LoadRollout E rid;
     (case l of
        Inl e \<Rightarrow> State_Monad.return (zero_outcome, Some e)
      | Inr r \<Rightarrow> do {
          chk \<leftarrow> runPostDeployChecks E r c;
          (case chk of (failed, reason, note) \<Rightarrow>
            (let kept = \<lparr>vo_Rollout = r, vo_RolledBack = False, vo_Reason = reason\<rparr> in
             if failed then
               (if \<not> rb_Auto (s_Rollback (c_Spec c))
                then State_Monad.return (kept, Some (Err (''engine: verify failed (auto-rollback disabled): '' @ reason)))
                else if r_RollbackBlocked r \<noteq> []
                then State_Monad.return (kept, Some (Err (''engine: verify failed and auto-rollback was not attempted ('' @
                       r_RollbackBlocked r @ ''): '' @ reason)))
                else do {
                  x \<leftarrow> rollbackWithDatabase E rid (reroot E prior) reason (DatabaseRollbackHook (c_Spec c)) True;
                  (case x of
                     (rb, Some e) \<Rightarrow> State_Monad.return (kept, Some (Wrap (''engine: auto-rollback after '' @ reason) e))
                   | (rb, None) \<Rightarrow> do {
                       notifyDeployment E RolledBack rb reason;
                       State_Monad.return (\<lparr>vo_Rollout = rb, vo_RolledBack = True, vo_Reason = reason\<rparr>, None)
                     })
                })
             else do {
               p \<leftarrow> promoteWithNote E rid note;
               (case p of
                  (_, Some e) \<Rightarrow> State_Monad.return (zero_outcome, Some e)
                | (pr, None) \<Rightarrow> do {
                    (case s_FeatureFlags (c_Spec c) of
                       Some ff \<Rightarrow> if flagsEnabled (Some ff) ''promote'' then driveFlag E (r_TargetRef pr) ff 100
                                  else State_Monad.return ()
                     | None \<Rightarrow> State_Monad.return ());
                    notifyDeployment E Promoted pr [];
                    State_Monad.return (\<lparr>vo_Rollout = pr, vo_RolledBack = False, vo_Reason = []\<rparr>, None)
                  })
             }))
        })
   }"

end
