(* ===== verification/Engine_Stepper.thy ===== *)
theory Engine_Stepper
  imports Engine_Gates
begin

text \<open>
  \<^verbatim>\<open>internal/engine/stepper.go\<close>: driving an in-flight canary. The stepper's health gate probes the
  target, so the step machine acts on the world together with the error the gate last saw
  (\<open>*healthErr\<close>).

  The loop of \<open>driveStepper\<close> runs with fuel, one more than the number of steps; theorem
  \<open>drive_loop_fuel\<close> shows that it never runs out under the laws of statekit. \<open>LoopFuel\<close> marks
  the case, which ends in \<open>driveStepper\<close> as an internal error.
\<close>

section \<open>Searching for an in-flight rollout\<close>

definition in_flight :: "string \<Rightarrow> rollout \<Rightarrow> bool" where
  "in_flight ref r = (r_TargetRef r = ref \<and> (r_Phase r = PhaseDeploying \<or> r_Phase r = PhasePaused))"

definition InFlight :: "env \<Rightarrow> string \<Rightarrow> rollout option res prog" where
  "InFlight E ref = do {
     rs \<leftarrow> ListRollouts E 0;
     State_Monad.return (case rs of Inl e \<Rightarrow> Inl e | Inr l \<Rightarrow> Inr (find (in_flight ref) l))
   }"

section \<open>Failing a deploy step\<close>

definition audit_of :: "audit_action \<Rightarrow> rollout \<Rightarrow> identity \<Rightarrow> string \<Rightarrow> audit_entry" where
  "audit_of act r who detail = \<lparr>ae_Action = act, ae_RolloutID = r_ID r, ae_TargetRef = r_TargetRef r,
     ae_Phase = phase_str (r_Phase r), ae_Actor = who, ae_Detail = detail\<rparr>"

type_synonym ptr_result = "rollout option \<times> err option"

text \<open>Marking the rollout failed: the tail of \<open>failProgressive\<close>.\<close>

definition mark_failed :: "env \<Rightarrow> lifecycle \<Rightarrow> rollout \<Rightarrow> err \<Rightarrow> identity \<Rightarrow> ptr_result prog" where
  "mark_failed E lc r runErr actor = do {
     let lc = snd (lc_Send (en_Life E) lc EventError);
     ts \<leftarrow> now E;
     let r = r\<lparr>r_Phase := lc_Phase lc, r_UpdatedAt := ts,
               r_Note := appendNote (r_Note r) (''deploy failed: '' @ err_str runErr)\<rparr>;
     _ \<leftarrow> SaveRollout E r;
     record_audit E (audit_of ActionRollback r actor (err_str runErr));
     notifyDeployment E Failed r (err_str runErr);
     State_Monad.return (Some r, Some (Wrap ''engine: apply'' runErr))
   }"

text \<open>How \<open>failProgressive\<close> goes on after its attempt to roll back.\<close>

definition after_auto_rollback ::
  "env \<Rightarrow> lifecycle \<Rightarrow> err \<Rightarrow> identity \<Rightarrow> rollout \<times> err option \<times> rollout \<Rightarrow> ptr_result prog" where
  "after_auto_rollback E lc runErr actor x =
     (case x of
        (rb, None, r') \<Rightarrow> do {
          record_audit E \<lparr>ae_Action = ActionRollback, ae_RolloutID = r_ID rb, ae_TargetRef = r_TargetRef r',
            ae_Phase = phase_str (r_Phase rb), ae_Actor = actor, ae_Detail = ''auto-rollback: '' @ err_str runErr\<rparr>;
          notifyDeployment E RolledBack rb (err_str runErr);
          State_Monad.return (Some rb, Some (Err (''engine: apply: '' @ err_str runErr @ '' (auto-rolled back to prior manifest)'')))
        }
      | (rb, Some e, r') \<Rightarrow> mark_failed E lc r' runErr actor)"

definition failProgressive ::
  "env \<Rightarrow> lifecycle \<Rightarrow> rollout \<Rightarrow> config \<Rightarrow> manifest \<Rightarrow> err \<Rightarrow> identity \<Rightarrow> ptr_result prog" where
  "failProgressive E lc r cfg m runErr actor =
     (if rb_Auto (s_Rollback (c_Spec cfg)) \<and> r_RollbackBlocked r \<noteq> [] then
        mark_failed E lc r (Err (err_str runErr @ ''; auto-rollback was not attempted: '' @ r_RollbackBlocked r)) actor
      else if rb_Auto (s_Rollback (c_Spec cfg)) then do {
        p \<leftarrow> priorManifest E (r_TargetRef r) (m_Checksum m);
        (case p of
           None \<Rightarrow> mark_failed E lc r runErr actor
         | Some prior \<Rightarrow> do {
             x \<leftarrow> applyRollback E r (prior\<lparr>m_Root := m_Root m\<rparr>)
                   (''auto-rollback on deploy failure: '' @ err_str runErr) (DatabaseRollbackHook (c_Spec cfg)) True;
             after_auto_rollback E lc runErr actor x
           })
      }
      else mark_failed E lc r runErr actor)"

section \<open>The health gate of a step\<close>

definition stepHealth :: "env \<Rightarrow> cfg_target \<Rightarrow> (world \<times> err option) step_health" where
  "stepHealth E t i weight wh =
     (case run_state (healthWithRetry E t) (fst wh) of
        ((hs, Some e), w') \<Rightarrow> (False, (w', Some e))
      | ((hs, None), w') \<Rightarrow>
          if hs_State hs = HealthUnhealthy then (False, (w', Some (Err (''unhealthy: '' @ hs_Reason hs))))
          else (True, (w', snd wh)))"

text \<open>Running the stepper inside a program: \<open>he\<close> is the content of \<open>*healthErr\<close>.\<close>

definition with_health :: "(world \<times> err option \<Rightarrow> 'a \<times> world \<times> err option) \<Rightarrow> err option \<Rightarrow> ('a \<times> err option) prog" where
  "with_health f he = do {
     w \<leftarrow> State_Monad.get;
     (case f (w, he) of (x, w', he') \<Rightarrow> do {
        State_Monad.set w';
        State_Monad.return (x, he')
      })
   }"

definition deployOnce :: "env \<Rightarrow> config \<Rightarrow> cfg_target \<Rightarrow> manifest \<Rightarrow> err option prog" where
  "deployOnce E cfg t m = do {
     me \<leftarrow> (case DatabaseMigrate (c_Spec cfg) of
              Some mig \<Rightarrow> if DatabaseMigrateWhen (c_Spec cfg) = MigratePreDeploy
                          then runDatabaseCommand E mig else State_Monad.return None
            | None \<Rightarrow> State_Monad.return None);
     (case me of
        Some e \<Rightarrow> State_Monad.return (Some (Wrap ''database migrate'' e))
      | None \<Rightarrow> tgt_Apply E t m)
   }"

section \<open>Driving the stepper\<close>

definition step_note :: "pplan \<Rightarrow> int \<Rightarrow> int \<Rightarrow> int \<Rightarrow> string" where
  "step_note plan i tot wt =
     pl_Strategy plan @ '' step '' @ itoa i @ ''/'' @ itoa tot @ '' ('' @ itoa wt @ ''%) passed health gate''"

definition recordStep :: "env \<Rightarrow> config \<Rightarrow> pplan \<Rightarrow> stepper \<Rightarrow> rollout \<Rightarrow> (err option \<times> rollout) prog" where
  "recordStep E cfg plan st r =
     (let i = sc_Index (snd st) + 1; tot = int (length (pl_Steps plan)); wt = sc_Weight (snd st) in
      if r_StepIndex r = i \<and> r_StepWeight r = wt then State_Monad.return (None, r)
      else do {
        ts \<leftarrow> now E;
        let r = r\<lparr>r_StepIndex := i, r_StepTotal := tot, r_StepWeight := wt,
                  r_Note := step_note plan i tot wt, r_UpdatedAt := ts\<rparr>;
        _ \<leftarrow> SaveRollout E r;
        let r = r\<lparr>r_Note := []\<rparr>;
        te \<leftarrow> driveTraffic E (r_TargetRef r) (s_TrafficRouting (c_Spec cfg)) wt;
        (case te of
           Some e \<Rightarrow> State_Monad.return (Some e, r)
         | None \<Rightarrow> do {
             (case s_FeatureFlags (c_Spec cfg) of
                Some ff \<Rightarrow> if flagsEnabled (Some ff) ''step'' then driveFlag E (r_TargetRef r) ff wt
                           else State_Monad.return ()
              | None \<Rightarrow> State_Monad.return ());
             State_Monad.return (None, r)
           })
      })"

datatype loop_out = LoopFail err rollout | LoopExit stepper rollout time "err option" | LoopFuel

definition or_err :: "err option \<Rightarrow> string \<Rightarrow> err" where
  "or_err he msg = (case he of Some e \<Rightarrow> e | None \<Rightarrow> Err msg)"

definition gate_failed_msg :: "pplan \<Rightarrow> int \<Rightarrow> string" where
  "gate_failed_msg plan idx =
     ''progressive: '' @ pl_Strategy plan @ '' step '' @ itoa (idx + 1) @ ''/'' @ itoa (int (length (pl_Steps plan))) @
     '' health gate failed''"

type_synonym eng_machine = "(world \<times> err option) step_mach"

fun drive_loop ::
  "env \<Rightarrow> config \<Rightarrow> pplan \<Rightarrow> eng_machine \<Rightarrow> nat \<Rightarrow> stepper \<Rightarrow> rollout \<Rightarrow> time \<Rightarrow> err option \<Rightarrow> loop_out prog" where
  "drive_loop E cfg plan m 0 st r entered he = State_Monad.return LoopFuel"
| "drive_loop E cfg plan m (Suc fuel) st r entered he =
     (let idx = sc_Index (snd st) in
      if Complete st \<or> Aborted st then State_Monad.return (LoopExit st r entered he)
      else if idx < 0 \<or> int (length (pl_Steps plan)) \<le> idx then State_Monad.return (LoopExit st r entered he)
      else do {
        let pause = sp_Pause (pl_Steps plan ! nat idx);
        wait \<leftarrow> (if 0 < pause then do { t \<leftarrow> now E; State_Monad.return (t - entered < pause) }
                  else State_Monad.return False);
        (if wait then State_Monad.return (LoopExit st r entered he)
         else do {
           x \<leftarrow> with_health (if pause = 0 then (\<lambda>wh. step_send (en_Step E) m EvNext st wh)
                              else (\<lambda>wh. step_advance (en_Step E) m pause st wh)) he;
           (case x of (st', he') \<Rightarrow>
             if Aborted st' \<or> sc_Failed (snd st')
             then State_Monad.return (LoopFail (or_err he' (gate_failed_msg plan idx)) r)
             else if Complete st' \<or> sc_Index (snd st') \<noteq> idx then do {
               entered' \<leftarrow> now E;
               (if Complete st' then drive_loop E cfg plan m fuel st' r entered' he'
                else do {
                  y \<leftarrow> recordStep E cfg plan st' r;
                  (case y of
                     (Some e, r') \<Rightarrow> State_Monad.return (LoopFail e r')
                   | (None, r') \<Rightarrow> drive_loop E cfg plan m fuel st' r' entered' he')
                })
             }
             else State_Monad.return (LoopExit st' r entered he'))
         })
      })"

definition aborted_msg :: "pplan \<Rightarrow> string" where
  "aborted_msg plan = ''progressive: '' @ pl_Strategy plan @ '' aborted''"

text \<open>What follows the loop: snapshot, phase, save.\<close>

definition drive_finish ::
  "env \<Rightarrow> lifecycle \<Rightarrow> pplan \<Rightarrow> stepper \<Rightarrow> rollout \<Rightarrow> time \<Rightarrow> identity \<Rightarrow> ptr_result prog" where
  "drive_finish E lc plan st r entered actor = do {
     let r = r\<lparr>r_StepperSnap := Blob \<lparr>pe_Plan = plan, pe_Snap = st, pe_EnteredAt = entered\<rparr>\<rparr>;
     ts \<leftarrow> now E;
     let r = r\<lparr>r_UpdatedAt := ts\<rparr>;
     (if Complete st then
        (case lc_Send (en_Life E) lc EventDeployed of
           (Some e, _) \<Rightarrow> State_Monad.return (None, Some e)
         | (None, lc) \<Rightarrow> do {
             let r = r\<lparr>r_Phase := lc_Phase lc\<rparr>;
             se \<leftarrow> SaveRollout E r;
             (case se of
                Some e \<Rightarrow> State_Monad.return (None, Some e)
              | None \<Rightarrow> do {
                  record_audit E (audit_of ActionApply r actor (''deployed ('' @ pl_Strategy plan @ '')''));
                  State_Monad.return (Some r, None)
                })
           })
      else do {
        let r = r\<lparr>r_Phase := lc_Phase lc\<rparr>;
        se \<leftarrow> SaveRollout E r;
        State_Monad.return (case se of Some e \<Rightarrow> (None, Some e) | None \<Rightarrow> (Some r, None))
      })
   }"

definition driveStepper ::
  "env \<Rightarrow> lifecycle \<Rightarrow> rollout \<Rightarrow> config \<Rightarrow> pplan \<Rightarrow> eng_machine \<Rightarrow> stepper \<Rightarrow> time \<Rightarrow> err option \<Rightarrow> identity \<Rightarrow> ptr_result prog" where
  "driveStepper E lc r cfg plan m st entered he actor =
     (if Aborted st then failProgressive E lc r cfg (r_Desired r) (or_err he (aborted_msg plan)) actor
      else do {
        y \<leftarrow> recordStep E cfg plan st r;
        (case y of
           (Some e, r) \<Rightarrow> failProgressive E lc r cfg (r_Desired r) e actor
         | (None, r) \<Rightarrow> do {
             z \<leftarrow> drive_loop E cfg plan m (Suc (Suc (length (pl_Steps plan)))) st r entered he;
             (case z of
                LoopFail e r \<Rightarrow> failProgressive E lc r cfg (r_Desired r) e actor
              | LoopExit st r entered he \<Rightarrow>
                  if Aborted st then failProgressive E lc r cfg (r_Desired r) (or_err he (aborted_msg plan)) actor
                  else drive_finish E lc plan st r entered actor
              | LoopFuel \<Rightarrow> State_Monad.return (None, Some (Err ''stepper loop: fuel exhausted'')))
           })
      })"

definition startStepper :: "env \<Rightarrow> lifecycle \<Rightarrow> rollout \<Rightarrow> config \<Rightarrow> cfg_target \<Rightarrow> identity \<Rightarrow> ptr_result prog" where
  "startStepper E lc r cfg t actor =
     (let plan = PlanFor (s_Strategy (c_Spec cfg)) in
      case BuildStepMachine (en_Step E) plan (Some (stepHealth E t)) of
        Inl e \<Rightarrow> failProgressive E lc r cfg (r_Desired r) e actor
      | Inr m \<Rightarrow> do {
          _ \<leftarrow> now E;
          x \<leftarrow> with_health (NewStepper (en_Step E) m) None;
          entered \<leftarrow> now E;
          (case x of (st, he) \<Rightarrow> driveStepper E lc r cfg plan m st entered he actor)
        })"

section \<open>Tick\<close>

definition recoverInterrupted :: "env \<Rightarrow> rollout \<Rightarrow> string \<Rightarrow> ptr_result prog" where
  "recoverInterrupted E r why = do {
     ts \<leftarrow> now E;
     let r = r\<lparr>r_Phase := PhaseVerifying,
               r_RollbackBlocked := if r_RollbackBlocked r = []
                 then why @ '': what reached the target is unknown, so the recorded prior state is not a verified baseline''
                 else r_RollbackBlocked r,
               r_UpdatedAt := ts\<rparr>;
     se \<leftarrow> SaveRollout E r;
     (case se of
        Some e \<Rightarrow> State_Monad.return (Some r, Some (Wrap (''engine: tick: recover interrupted rollout '' @ r_ID r) e))
      | None \<Rightarrow> do {
          record_audit E \<lparr>ae_Action = ActionApply, ae_RolloutID = r_ID r, ae_TargetRef = r_TargetRef r, ae_Phase = [],
            ae_Actor = r_Initiator r,
            ae_Detail = ''interrupted rollout ('' @ why @ '') handed to the post-deploy gate; rollback blocked''\<rparr>;
          State_Monad.return (Some r, None)
        })
   }"

text \<open>The restored part of \<open>Tick\<close>: still baking, or due.\<close>

definition tick_restored ::
  "env \<Rightarrow> rollout \<Rightarrow> config \<Rightarrow> cfg_target \<Rightarrow> stepper_persist \<Rightarrow> eng_machine \<Rightarrow> stepper \<Rightarrow> lifecycle \<Rightarrow> ptr_result prog" where
  "tick_restored E r cfg t per m st lc =
     (let idx = sc_Index (snd st); steps = pl_Steps (pe_Plan per);
          baking = \<not> Complete st \<and> \<not> Aborted st \<and> 0 \<le> idx \<and> idx < int (length steps) \<and> 0 < sp_Pause (steps ! nat idx) in
      do {
        wait \<leftarrow> (if baking then do { ts \<leftarrow> now E; State_Monad.return (ts - pe_EnteredAt per < sp_Pause (steps ! nat idx)) }
                  else State_Monad.return False);
        (if wait then do {
           x \<leftarrow> with_health (stepHealth E t (nat idx) (sc_Weight (snd st))) None;
           (case x of (ok, he) \<Rightarrow>
             if \<not> ok then failProgressive E lc r cfg (r_Desired r) (or_err he []) (r_Initiator r)
             else State_Monad.return (Some r, None))
         }
         else driveStepper E lc r cfg (pe_Plan per) m st (pe_EnteredAt per) None (r_Initiator r))
      })"

definition tick_locked :: "env \<Rightarrow> rollout \<Rightarrow> config \<Rightarrow> ptr_result prog" where
  "tick_locked E r cfg =
     (if \<not> has_blob (r_StepperSnap r)
      then recoverInterrupted E r ''the rollout was interrupted before it recorded progress''
      else do {
        tc \<leftarrow> resolveSecrets E (c_Target cfg);
        (case tc of
           Inl e \<Rightarrow> State_Monad.return (Some r, Some e)
         | Inr tcfg \<Rightarrow> do {
             b \<leftarrow> build E tcfg;
             (case b of
                Inl e \<Rightarrow> State_Monad.return (Some r, Some e)
              | Inr t \<Rightarrow> (case unblob (r_StepperSnap r) of
                  Inl e \<Rightarrow> recoverInterrupted E r (''its stepper snapshot could not be decoded ('' @ err_str e @ '')'')
                | Inr per \<Rightarrow> (case BuildStepMachine (en_Step E) (pe_Plan per) (Some (stepHealth E t)) of
                    Inl e \<Rightarrow> recoverInterrupted E r (''its stepper plan could not be rebuilt ('' @ err_str e @ '')'')
                  | Inr m \<Rightarrow> do {
                      _ \<leftarrow> now E;
                      (case RestoreStepper (en_Step E) m (pe_Snap per) of
                         Inl e \<Rightarrow> recoverInterrupted E r (''its stepper snapshot could not be restored ('' @ err_str e @ '')'')
                       | Inr st \<Rightarrow> (case ResumeLifecycle (en_Life E) (r_Phase r) planned_ctx of
                           Inl e \<Rightarrow> State_Monad.return (Some r, Some e)
                         | Inr lc \<Rightarrow> tick_restored E r cfg t per m st lc))
                    })))
           })
      })"

definition Tick :: "env \<Rightarrow> string \<Rightarrow> config \<Rightarrow> ptr_result prog" where
  "Tick E rid cfg = do {
     l \<leftarrow> LoadRollout E rid;
     (case l of
        Inl e \<Rightarrow> State_Monad.return (None, Some e)
      | Inr r \<Rightarrow>
          if r_Phase r \<noteq> PhaseDeploying then State_Monad.return (Some r, None)
          else if c_Ref cfg \<noteq> r_TargetRef r
          then State_Monad.return (Some r, Some (Err (''engine: tick: config target '' @ c_Ref cfg @
                 '' does not match rollout '' @ r_TargetRef r)))
          else with_target E (r_TargetRef r) (\<lambda>e. (Some r, Some e)) (Some r, Some ErrTargetBusy) (tick_locked E r cfg))
   }"

section \<open>Operator control\<close>

definition restoreControlStepper :: "env \<Rightarrow> rollout \<Rightarrow> (eng_machine \<times> stepper \<times> stepper_persist) res prog" where
  "restoreControlStepper E r =
     (if \<not> has_blob (r_StepperSnap r)
      then State_Monad.return (Inl (Err (''engine: rollout '' @ r_ID r @ '' has no stepper snapshot'')))
      else (case unblob (r_StepperSnap r) of
          Inl e \<Rightarrow> State_Monad.return (Inl (Wrap ''engine: stepper snapshot'' e))
        | Inr per \<Rightarrow> (case BuildStepMachine (en_Step E) (pe_Plan per) None of
            Inl e \<Rightarrow> State_Monad.return (Inl e)
          | Inr m \<Rightarrow> do {
              _ \<leftarrow> now E;
              State_Monad.return (case RestoreStepper (en_Step E) m (pe_Snap per) of
                  Inl e \<Rightarrow> Inl (Wrap ''engine: restore stepper'' e)
                | Inr st \<Rightarrow> Inr (m, st, per))
            })))"

definition saveControl ::
  "env \<Rightarrow> rollout \<Rightarrow> lifecycle \<Rightarrow> stepper \<Rightarrow> pplan \<Rightarrow> time \<Rightarrow> identity \<Rightarrow> string \<Rightarrow> (rollout \<times> err option) prog" where
  "saveControl E r lc st plan entered who detail = do {
     ts \<leftarrow> now E;
     let r = r\<lparr>r_StepperSnap := Blob \<lparr>pe_Plan = plan, pe_Snap = st, pe_EnteredAt = entered\<rparr>,
               r_Phase := lc_Phase lc, r_Note := detail, r_UpdatedAt := ts\<rparr>;
     se \<leftarrow> SaveRollout E r;
     (case se of
        Some e \<Rightarrow> State_Monad.return (r, Some e)
      | None \<Rightarrow> do {
          record_audit E (audit_of ActionApply r who detail);
          State_Monad.return (r, None)
        })
   }"

text \<open>\<open>holdTarget\<close>: load the rollout, then run the body under its target's lock.\<close>

definition holdTarget :: "env \<Rightarrow> string \<Rightarrow> (rollout \<Rightarrow> (rollout \<times> err option) prog) \<Rightarrow> (rollout \<times> err option) prog" where
  "holdTarget E rid body = do {
     l \<leftarrow> LoadRollout E rid;
     (case l of
        Inl e \<Rightarrow> State_Monad.return (zero_rollout, Some e)
      | Inr r \<Rightarrow> with_target E (r_TargetRef r) (\<lambda>e. (r, Some e)) (r, Some ErrTargetBusy) (body r))
   }"

definition control_body ::
  "env \<Rightarrow> rollout \<Rightarrow> phase \<Rightarrow> string \<Rightarrow> string \<Rightarrow> string \<Rightarrow> bool \<Rightarrow> identity \<Rightarrow> string \<Rightarrow> (rollout \<times> err option) prog" where
  "control_body E r want op stepev lifeev restart who detail =
     (if r_Phase r \<noteq> want
      then State_Monad.return (r, Some (Err (''engine: '' @ op @ '': rollout '' @ r_ID r @ '' is '' @ phase_str (r_Phase r) @
             '', want '' @ phase_str want)))
      else do {
        c \<leftarrow> restoreControlStepper E r;
        (case c of
           Inl e \<Rightarrow> State_Monad.return (r, Some e)
         | Inr (m, st, per) \<Rightarrow> (case ResumeLifecycle (en_Life E) (r_Phase r) planned_ctx of
             Inl e \<Rightarrow> State_Monad.return (r, Some e)
           | Inr lc \<Rightarrow> do {
               x \<leftarrow> with_health (step_send (en_Step E) m stepev st) None;
               (case lc_Send (en_Life E) lc lifeev of
                  (Some e, _) \<Rightarrow> State_Monad.return (r, Some e)
                | (None, lc) \<Rightarrow> do {
                    entered \<leftarrow> (if restart then now E else State_Monad.return (pe_EnteredAt per));
                    saveControl E r lc (fst x) (pe_Plan per) entered who detail
                  })
             }))
      })"

definition Pause :: "env \<Rightarrow> string \<Rightarrow> identity \<Rightarrow> (rollout \<times> err option) prog" where
  "Pause E rid who =
     holdTarget E rid (\<lambda>r. control_body E r PhaseDeploying ''pause'' EvPause EventPause False who ''paused'')"

definition Resume :: "env \<Rightarrow> string \<Rightarrow> identity \<Rightarrow> (rollout \<times> err option) prog" where
  "Resume E rid who =
     holdTarget E rid (\<lambda>r. control_body E r PhasePaused ''resume'' EvResume EventResume True who ''resumed'')"

text \<open>Ending a canary without re-applying anything.\<close>

definition abort_in_place :: "env \<Rightarrow> rollout \<Rightarrow> string \<Rightarrow> string \<Rightarrow> identity \<Rightarrow> (rollout \<times> err option) prog" where
  "abort_in_place E r note detail who =
     (case ResumeLifecycle (en_Life E) (r_Phase r) planned_ctx of
        Inl e \<Rightarrow> State_Monad.return (r, Some e)
      | Inr lc \<Rightarrow> (case lc_Send (en_Life E) lc EventRollback of
          (Some e, _) \<Rightarrow> State_Monad.return (r, Some e)
        | (None, lc) \<Rightarrow> do {
            resetDelivery E r;
            ts \<leftarrow> now E;
            let r = r\<lparr>r_Phase := lc_Phase lc, r_Note := note, r_UpdatedAt := ts\<rparr>;
            se \<leftarrow> SaveRollout E r;
            (case se of
               Some e \<Rightarrow> State_Monad.return (r, Some e)
             | None \<Rightarrow> do {
                 record_audit E (audit_of ActionRollback r who detail);
                 notifyDeployment E RolledBack r note;
                 State_Monad.return (r, None)
               })
          }))"

definition abort_body :: "env \<Rightarrow> rollout \<Rightarrow> identity \<Rightarrow> (rollout \<times> err option) prog" where
  "abort_body E r who =
     (if r_Phase r \<noteq> PhaseDeploying \<and> r_Phase r \<noteq> PhasePaused
      then State_Monad.return (r, Some (Err (''engine: abort: rollout '' @ r_ID r @ '' is '' @ phase_str (r_Phase r) @
             '', not an in-flight canary'')))
      else do {
        (if has_blob (r_StepperSnap r) then do {
           c \<leftarrow> restoreControlStepper E r;
           (case c of
              Inl _ \<Rightarrow> State_Monad.return ()
            | Inr (m, st, _) \<Rightarrow> do { _ \<leftarrow> with_health (step_send (en_Step E) m EvAbort st) None; State_Monad.return () })
         } else State_Monad.return ());
        let r = r\<lparr>r_StepperSnap := NoBlob\<rparr>;
        (if r_RollbackBlocked r \<noteq> [] then
           (let note = ''aborted by operator; nothing re-applied because '' @ r_RollbackBlocked r in
            abort_in_place E r note note who)
         else do {
           p \<leftarrow> priorManifest E (r_TargetRef r) (m_Checksum (r_Desired r));
           (case p of
              Some prior \<Rightarrow> do {
                x \<leftarrow> applyRollback E r (prior\<lparr>m_Root := m_Root (r_Desired r)\<rparr>) ''aborted by operator'' None True;
                (case x of
                   (rb, Some e, _) \<Rightarrow> State_Monad.return (rb, Some e)
                 | (rb, None, _) \<Rightarrow> do {
                     record_audit E (audit_of ActionRollback rb who ''aborted'');
                     notifyDeployment E RolledBack rb ''aborted by operator'';
                     State_Monad.return (rb, None)
                   })
              }
            | None \<Rightarrow> abort_in_place E r ''aborted by operator'' ''aborted'' who)
         })
      })"

definition Abort :: "env \<Rightarrow> string \<Rightarrow> identity \<Rightarrow> (rollout \<times> err option) prog" where
  "Abort E rid who = holdTarget E rid (\<lambda>r. abort_body E r who)"

end
