(* ===== verification/Engine_Apply.thy ===== *)
theory Engine_Apply
  imports Engine_Stepper
begin

text \<open>
  The operations that start and decide rollouts (\<^verbatim>\<open>internal/engine/engine.go\<close>): the risk
  evaluation, \<open>Apply\<close> with its gates in the order of the code, \<open>Approve\<close> and \<open>Reject\<close>, scheduled
  rollouts, the freeze switch and \<open>Observe\<close>.
\<close>

section \<open>Risk\<close>

record risk_inputs =
  ri_ChangeType :: string
  ri_Environment :: string
  ri_BlastRadius :: int

definition RiskFromConfig :: "config \<Rightarrow> dependency list \<Rightarrow> risk_inputs" where
  "RiskFromConfig c deps =
     \<lparr>ri_ChangeType = (if DatabaseMigrate (c_Spec c) \<noteq> None then ''schema'' else ''config''),
      ri_Environment = t_Env (c_Target c),
      ri_BlastRadius = (if deps \<noteq> [] then int (BlastRadius (New [c_Ref c] deps) (c_Ref c)) else 0)\<rparr>"

definition st_History :: "env \<Rightarrow> string \<Rightarrow> rollout_record list res prog" where
  "st_History E ref = do { x \<leftarrow> st_call E (db_read (db_History ref)); State_Monad.return (join_res x) }"

definition history_defaults :: "risk_history \<Rightarrow> risk_history" where
  "history_defaults h =
     \<lparr>rh_Lookback = (if rh_Lookback h \<le> 0 then 10 else rh_Lookback h),
      rh_Weight = (if rh_Weight h = 0 then 15/100 else rh_Weight h),
      rh_MaxFailures = (if rh_MaxFailures h \<le> 0 then 3 else rh_MaxFailures h)\<rparr>"

definition count_failures :: "int \<Rightarrow> rollout_record list \<Rightarrow> int" where
  "count_failures lookback hist =
     int (length (filter (\<lambda>rec. rr_Phase rec = PhaseRolledBack) (take (nat lookback) hist)))"

definition riskWeights :: "env \<Rightarrow> config \<Rightarrow> (weights \<times> int) res prog" where
  "riskWeights E c =
     (let h = rk_History (s_Risk (c_Spec c)) in
      if rh_Lookback h \<le> 0 \<and> rh_Weight h = 0 \<and> rh_MaxFailures h = 0
      then State_Monad.return (Inr (DefaultWeights, 0))
      else (let h = history_defaults h in do {
          hist \<leftarrow> st_History E (c_Ref c);
          State_Monad.return (case hist of
              Inl e \<Rightarrow> Inl (Wrap ''engine: risk history'' e)
            | Inr l \<Rightarrow> Inr (DefaultWeights\<lparr>wt_History := rh_Weight h, wt_MaxRecentFailures := rh_MaxFailures h\<rparr>,
                            count_failures (rh_Lookback h) l))
        }))"

definition EvaluateRisk :: "env \<Rightarrow> config \<Rightarrow> risk_inputs \<Rightarrow> risk_decision res prog" where
  "EvaluateRisk E c inp = do {
     w \<leftarrow> riskWeights E c;
     State_Monad.return (case w of
         Inl e \<Rightarrow> Inl e
       | Inr (weights, failures) \<Rightarrow>
           Evaluate (en_Round E) (en_Cel E)
             \<lparr>gt_Threshold = rk_Threshold (s_Risk (c_Spec c)), gt_Weights = weights,
              gt_SensitiveExpr = rk_Sensitive (s_Risk (c_Spec c))\<rparr>
             \<lparr>sg_Criticality = t_Criticality (c_Target c), sg_Environment = ri_Environment inp,
              sg_ChangeType = ri_ChangeType inp, sg_BlastRadius = ri_BlastRadius inp,
              sg_Strategy = st_Type (s_Strategy (c_Spec c)), sg_RecentFailures = failures\<rparr>)
   }"

definition risk_configured :: "config \<Rightarrow> bool" where
  "risk_configured c = (0 < rk_Threshold (s_Risk (c_Spec c)) \<or> rk_Sensitive (s_Risk (c_Spec c)) \<noteq> [])"

section \<open>Apply\<close>

record apply_request =
  rq_Config :: config
  rq_Initiator :: identity
  rq_Root :: string
  rq_Planned :: bool
  rq_NeedsApproval :: bool
  rq_Risk :: risk_inputs

definition governanceEnvironment :: "config \<Rightarrow> apply_request \<Rightarrow> string" where
  "governanceEnvironment cfg req =
     (if ri_Environment (rq_Risk req) \<noteq> [] then ri_Environment (rq_Risk req) else t_Env (c_Target cfg))"

definition audit_blocked :: "string \<Rightarrow> identity \<Rightarrow> string \<Rightarrow> audit_entry" where
  "audit_blocked ref who detail = \<lparr>ae_Action = ActionApply, ae_RolloutID = [], ae_TargetRef = ref, ae_Phase = [],
     ae_Actor = who, ae_Detail = detail\<rparr>"

text \<open>Step 3 of \<open>Apply\<close>: external governance, whose answer is binding.\<close>

definition governed :: "env \<Rightarrow> apply_request \<Rightarrow> bool \<times> real \<Rightarrow> (bool \<times> real) res prog" where
  "governed E req pass =
     (let cfg = rq_Config req; ref = c_Ref cfg;
          refuse = (\<lambda>reason. do {
            record_audit E (audit_blocked ref (rq_Initiator req) (''blocked by governance: '' @ reason));
            State_Monad.return (Inl (Err (''engine: apply: blocked by governance: '' @ reason)))
          }) in do {
        v \<leftarrow> govern E \<lparr>gq_Action = ''apply'', gq_TargetRef = ref, gq_Actor = rq_Initiator req,
               gq_Environment = governanceEnvironment cfg req,
               gq_Version = (case map_of (md_Labels (c_Metadata cfg)) LabelVersion of Some x \<Rightarrow> x | None \<Rightarrow> [])\<rparr>;
        (case v of
           Inl e \<Rightarrow> refuse (''governance is unavailable: '' @ err_str e)
         | Inr d \<Rightarrow> if \<not> gd_Allowed d then refuse (gd_Reason d) else State_Monad.return (Inr pass))
      })"

text \<open>Step 2: the risk gate, only when configured.\<close>

definition risk_gate :: "env \<Rightarrow> apply_request \<Rightarrow> (bool \<times> real) res prog" where
  "risk_gate E req =
     (if risk_configured (rq_Config req) then do {
        d \<leftarrow> EvaluateRisk E (rq_Config req) (rq_Risk req);
        State_Monad.return (case d of Inl e \<Rightarrow> Inl e | Inr x \<Rightarrow> Inr (rd_NeedsApproval x, rd_Score x))
      } else State_Monad.return (Inr (False, 0)))"

text \<open>Steps 1 to 3 of \<open>Apply\<close>: guardrails, risk gate, governance. \<open>Inr (need, score)\<close> lets it proceed.\<close>

definition apply_gates :: "env \<Rightarrow> apply_request \<Rightarrow> (bool \<times> real) res prog" where
  "apply_gates E req =
     (let cfg = rq_Config req; ref = c_Ref cfg in do {
        g \<leftarrow> check_guardrails E (rq_Initiator req)
               \<lparr>fi_TargetRef = ref, fi_Environment = ri_Environment (rq_Risk req),
                fi_ChangeType = ri_ChangeType (rq_Risk req), fi_Criticality = t_Criticality (c_Target cfg)\<rparr>;
        (case g of
           Inl e \<Rightarrow> do {
             record_audit E (audit_blocked ref (rq_Initiator req) (''blocked: '' @ err_str e));
             State_Monad.return (Inl e)
           }
         | Inr force \<Rightarrow> do {
             rd \<leftarrow> risk_gate E req;
             (case rd of
                Inl e \<Rightarrow> State_Monad.return (Inl e)
              | Inr (risky, score) \<Rightarrow> governed E req (rq_NeedsApproval req \<or> force \<or> risky, score))
           })
      })"

text \<open>What \<open>Apply\<close> captures on the rollout from the config.\<close>

definition capture :: "config \<Rightarrow> rollout \<Rightarrow> rollout" where
  "capture cfg r =
     r\<lparr>r_DBRollbackCmd := (case DatabaseRollbackHook (c_Spec cfg) of Some d \<Rightarrow> db_Command d | None \<Rightarrow> []),
       r_DBRollbackTimeout := (case DatabaseRollbackHook (c_Spec cfg) of Some d \<Rightarrow> db_Timeout d | None \<Rightarrow> []),
       r_DBMigrateCmd := (case DatabaseMigrate (c_Spec cfg) of Some d \<Rightarrow> db_Command d | None \<Rightarrow> []),
       r_DBMigrateTimeout := (case DatabaseMigrate (c_Spec cfg) of Some d \<Rightarrow> db_Timeout d | None \<Rightarrow> []),
       r_DBMigrateWhen := (case DatabaseMigrate (c_Spec cfg) of Some d \<Rightarrow> DatabaseMigrateWhen (c_Spec cfg) | None \<Rightarrow> []),
       r_DBBackwardCompatible := DatabaseBackwardCompatible (c_Spec cfg),
       r_DeliveryTraffic := (case s_TrafficRouting (c_Spec cfg) of Some x \<Rightarrow> Blob x | None \<Rightarrow> NoBlob),
       r_DeliveryFlag := (case s_FeatureFlags (c_Spec cfg) of Some x \<Rightarrow> Blob x | None \<Rightarrow> NoBlob),
       r_Analysis := (case s_Analysis (c_Spec cfg) of Some x \<Rightarrow> Blob x | None \<Rightarrow> NoBlob),
       r_SmokeTest := (case rb_SmokeTest (s_Rollback (c_Spec cfg)) of
          Some st \<Rightarrow> if smk_Command st \<noteq> [] then Blob st else NoBlob | None \<Rightarrow> NoBlob)\<rparr>"

definition new_rollout :: "config \<Rightarrow> string \<Rightarrow> phase \<Rightarrow> manifest \<Rightarrow> real \<Rightarrow> identity \<Rightarrow> time \<Rightarrow> rollout" where
  "new_rollout cfg rid ph m score who ts =
     capture cfg (zero_rollout\<lparr>r_ID := rid, r_TargetRef := c_Ref cfg, r_Phase := ph,
       r_Strategy := strategyFrom cfg, r_Desired := m, r_RiskScore := score, r_Initiator := who,
       r_CreatedAt := ts, r_UpdatedAt := ts\<rparr>)"

definition check_artifact :: "env \<Rightarrow> cfg_target \<Rightarrow> err option prog" where
  "check_artifact E t =
     (case en_Artifact E of
        None \<Rightarrow> State_Monad.return None
      | Some chk \<Rightarrow>
          (let img = spec_str (t_Spec t) ''image'' in
           if img \<noteq> [] then ask (\<lambda>n. chk n img) else State_Monad.return None))"

text \<open>Lifecycle: \<open>NewLifecycle\<close>, VALIDATE, GATE.\<close>

definition gate_lifecycle :: "env \<Rightarrow> life_context \<Rightarrow> lifecycle res" where
  "gate_lifecycle E ctx =
     (case NewLifecycle (en_Life E) ctx of
        Inl e \<Rightarrow> Inl e
      | Inr lc \<Rightarrow> (case lc_Send (en_Life E) lc EventValidate of
          (Some e, _) \<Rightarrow> Inl e
        | (None, lc) \<Rightarrow> (case lc_Send (en_Life E) lc EventGate of
            (Some e, _) \<Rightarrow> Inl e
          | (None, lc) \<Rightarrow> Inr lc)))"

text \<open>Steps 5 and 6, from the gate on: persist, then halt for approval or deploy.\<close>

definition apply_rollout :: "env \<Rightarrow> apply_request \<Rightarrow> bool \<Rightarrow> real \<Rightarrow> manifest \<Rightarrow> cfg_target \<Rightarrow> ptr_result prog" where
  "apply_rollout E req need score m t =
     (let cfg = rq_Config req; ref = c_Ref cfg; who = rq_Initiator req in
      case gate_lifecycle E \<lparr>lx_PlanProduced = (rq_Planned req \<or> id_Kind who \<noteq> ''agent''), lx_NeedsApproval = need\<rparr> of
        Inl e \<Rightarrow> State_Monad.return (None, Some e)
      | Inr lc \<Rightarrow> do {
          ts \<leftarrow> now E;
          rid \<leftarrow> ask (en_NewID E);
          blocked \<leftarrow> (if rb_Auto (s_Rollback (c_Spec cfg)) then rollbackBaseline E ref m else State_Monad.return []);
          let r = (new_rollout cfg rid (lc_Phase lc) m score who ts)\<lparr>r_RollbackBlocked := blocked\<rparr>;
          se \<leftarrow> SaveRollout E r;
          (case se of
             Some e \<Rightarrow> State_Monad.return (None, Some e)
           | None \<Rightarrow> do {
               record_audit E (audit_of ActionApply r who []);
               (if blocked \<noteq> []
                then record_audit E (audit_of ActionApply r who (''auto-rollback disabled for this rollout: '' @ blocked))
                else State_Monad.return ());
               (if r_Phase r = PhaseAwaitingApproval then do {
                  notifyEvent E \<lparr>ne_Kind = ApprovalNeeded, ne_TargetRef = ref, ne_RolloutID = r_ID r, ne_Detail = [],
                    ne_Version = [], ne_Environment = []\<rparr>;
                  State_Monad.return (Some r, None)
                }
                else do {
                  de \<leftarrow> deployOnce E cfg t m;
                  (case de of
                     Some e \<Rightarrow> failProgressive E lc r cfg m e who
                   | None \<Rightarrow> startStepper E lc r cfg t who)
                })
             })
        })"

text \<open>The part of \<open>Apply\<close> that runs under the target lock.\<close>

definition apply_locked :: "env \<Rightarrow> apply_request \<Rightarrow> bool \<Rightarrow> real \<Rightarrow> ptr_result prog" where
  "apply_locked E req need score =
     (let cfg = rq_Config req; ref = c_Ref cfg in do {
        fl \<leftarrow> InFlight E ref;
        (case fl of
           Inl e \<Rightarrow> State_Monad.return (None, Some e)
         | Inr (Some _) \<Rightarrow> State_Monad.return (None, Some ErrTargetBusy)
         | Inr None \<Rightarrow>
             (case manifestFromConfig E cfg (if rq_Root req = [] then en_Root E else rq_Root req) of
                Inl e \<Rightarrow> State_Monad.return (None, Some e)
              | Inr m0 \<Rightarrow> do {
                  sm \<leftarrow> stampReferencedChecksum E ref m0;
                  (case sm of
                     Inl e \<Rightarrow> State_Monad.return (None, Some e)
                   | Inr (_, m) \<Rightarrow> do {
                       tc \<leftarrow> resolveSecrets E (c_Target cfg);
                       (case tc of
                          Inl e \<Rightarrow> State_Monad.return (None, Some e)
                        | Inr tcfg \<Rightarrow> do {
                            b \<leftarrow> build E tcfg;
                            (case b of
                               Inl e \<Rightarrow> State_Monad.return (None, Some e)
                             | Inr t \<Rightarrow> do {
                                 ae \<leftarrow> check_artifact E tcfg;
                                 (case ae of
                                    Some e \<Rightarrow> do {
                                      record_audit E (audit_blocked ref (rq_Initiator req) (''artifact rejected: '' @ err_str e));
                                      State_Monad.return (None, Some e)
                                    }
                                  | None \<Rightarrow> apply_rollout E req need score m t)
                               })
                          })
                     })
                }))
      })"

definition Apply :: "env \<Rightarrow> apply_request \<Rightarrow> ptr_result prog" where
  "Apply E req =
     (if id_Kind (rq_Initiator req) = ''agent'' \<and> \<not> rq_Planned req
      then State_Monad.return (None, Some (Err ''engine: apply: agent-driven rollout requires a produced plan first''))
      else do {
        g \<leftarrow> apply_gates E req;
        (case g of
           Inl e \<Rightarrow> State_Monad.return (None, Some e)
         | Inr (need, score) \<Rightarrow>
             with_target E (c_Ref (rq_Config req)) (\<lambda>e. (None, Some e)) (None, Some ErrTargetBusy)
               (apply_locked E req need score))
      })"

section \<open>Approve and Reject\<close>

definition realPrincipal :: "identity \<Rightarrow> bool" where
  "realPrincipal i = (id_Kind i \<noteq> [] \<and> id_Name i \<noteq> [] \<and> id_Name i \<noteq> ''system'')"

definition sameIdentity :: "identity \<Rightarrow> identity \<Rightarrow> bool" where
  "sameIdentity a b = (id_Kind a = id_Kind b \<and> id_Name a = id_Name b)"

definition attributed :: "identity \<Rightarrow> rollout \<Rightarrow> rollout" where
  "attributed who r = (if id_Name who \<noteq> [] then r\<lparr>r_Initiator := who\<rparr> else r)"

definition approve_locked :: "env \<Rightarrow> rollout \<Rightarrow> identity \<Rightarrow> (rollout \<times> err option) prog" where
  "approve_locked E r who = do {
     g \<leftarrow> check_guardrails E who \<lparr>fi_TargetRef = r_TargetRef r, fi_Environment = [], fi_ChangeType = [], fi_Criticality = []\<rparr>;
     (case g of
        Inl e \<Rightarrow> do {
          record_audit E \<lparr>ae_Action = ActionApply, ae_RolloutID = r_ID r, ae_TargetRef = r_TargetRef r, ae_Phase = [],
            ae_Actor = who, ae_Detail = ''approve blocked: '' @ err_str e\<rparr>;
          State_Monad.return (r, Some e)
        }
      | Inr _ \<Rightarrow> (case ResumeLifecycle (en_Life E) (r_Phase r) planned_ctx of
          Inl e \<Rightarrow> State_Monad.return (zero_rollout, Some e)
        | Inr lc \<Rightarrow> (case lc_Send (en_Life E) lc EventApprove of
            (Some e, _) \<Rightarrow> State_Monad.return (r, Some e)
          | (None, lc) \<Rightarrow> do {
              b \<leftarrow> buildTarget E (r_TargetRef r) (r_Desired r);
              (case b of
                 Inl e \<Rightarrow> State_Monad.return (r, Some e)
               | Inr t \<Rightarrow> do {
                   ae \<leftarrow> tgt_Apply E t (r_Desired r);
                   (case ae of
                      Some e \<Rightarrow> do {
                        ts \<leftarrow> now E;
                        let r = r\<lparr>r_Phase := lc_Phase (snd (lc_Send (en_Life E) lc EventError)), r_UpdatedAt := ts\<rparr>;
                        _ \<leftarrow> SaveRollout E r;
                        State_Monad.return (r, Some (Wrap ''engine: approve: apply'' e))
                      }
                    | None \<Rightarrow> (case lc_Send (en_Life E) lc EventDeployed of
                        (Some e, _) \<Rightarrow> State_Monad.return (r, Some e)
                      | (None, lc) \<Rightarrow> do {
                          ts \<leftarrow> now E;
                          let r = (attributed who (r\<lparr>r_Phase := lc_Phase lc\<rparr>))\<lparr>r_UpdatedAt := ts\<rparr>;
                          se \<leftarrow> SaveRollout E r;
                          State_Monad.return (case se of Some e \<Rightarrow> (zero_rollout, Some e) | None \<Rightarrow> (r, None))
                        }))
                 })
            })))
   }"

definition Approve :: "env \<Rightarrow> string \<Rightarrow> identity \<Rightarrow> (rollout \<times> err option) prog" where
  "Approve E rid who = do {
     l \<leftarrow> LoadRollout E rid;
     (case l of
        Inl e \<Rightarrow> State_Monad.return (zero_rollout, Some e)
      | Inr r \<Rightarrow>
          if \<not> en_AllowSelfApprove E \<and> realPrincipal (r_Initiator r) \<and> sameIdentity who (r_Initiator r) then do {
            record_audit E \<lparr>ae_Action = ActionApply, ae_RolloutID = r_ID r, ae_TargetRef = r_TargetRef r, ae_Phase = [],
              ae_Actor = who, ae_Detail = ''approve rejected: four-eyes (approver == initiator)''\<rparr>;
            State_Monad.return (r, Some (Err (''engine: four-eyes: approver '' @ id_Name who @ '' must differ from initiator '' @
              id_Name (r_Initiator r) @ '' (set ROLLOPS_ALLOW_SELF_APPROVE=1 to allow)'')))
          }
          else with_target E (r_TargetRef r) (\<lambda>e. (r, Some e)) (r, Some ErrTargetBusy) (approve_locked E r who))
   }"

definition Reject :: "env \<Rightarrow> string \<Rightarrow> identity \<Rightarrow> (rollout \<times> err option) prog" where
  "Reject E rid who = do {
     l \<leftarrow> LoadRollout E rid;
     (case l of
        Inl e \<Rightarrow> State_Monad.return (zero_rollout, Some e)
      | Inr r \<Rightarrow> (case ResumeLifecycle (en_Life E) (r_Phase r) planned_ctx of
          Inl e \<Rightarrow> State_Monad.return (zero_rollout, Some e)
        | Inr lc \<Rightarrow> (case lc_Send (en_Life E) lc EventReject of
            (Some e, _) \<Rightarrow> State_Monad.return (r, Some e)
          | (None, lc) \<Rightarrow> do {
              ts \<leftarrow> now E;
              let r = (attributed who (r\<lparr>r_Phase := lc_Phase lc\<rparr>))\<lparr>r_UpdatedAt := ts\<rparr>;
              se \<leftarrow> SaveRollout E r;
              State_Monad.return (case se of Some e \<Rightarrow> (zero_rollout, Some e) | None \<Rightarrow> (r, None))
            })))
   }"

section \<open>Schedules\<close>

definition sched_locked :: "env \<Rightarrow> scheduled_rollout \<Rightarrow> (rollout \<times> err option) prog" where
  "sched_locked E s = do {
     g \<leftarrow> check_guardrails E (sd_Initiator s)
            \<lparr>fi_TargetRef = sd_TargetRef s, fi_Environment = [], fi_ChangeType = [], fi_Criticality = []\<rparr>;
     (case g of
        Inl e \<Rightarrow> do {
          record_audit E (audit_blocked (sd_TargetRef s) (sd_Initiator s) (''scheduled apply blocked: '' @ err_str e));
          State_Monad.return (zero_rollout, Some e)
        }
      | Inr force \<Rightarrow>
          if force then do {
            record_audit E (audit_blocked (sd_TargetRef s) (sd_Initiator s) ''scheduled apply blocked: policy floor requires approval'');
            State_Monad.return (zero_rollout, Some (Err (''engine: scheduled apply for '' @ sd_TargetRef s @ '' requires approval and cannot self-approve'')))
          }
          else do {
            b \<leftarrow> buildTarget E (sd_TargetRef s) (sd_Desired s);
            (case b of
               Inl e \<Rightarrow> State_Monad.return (zero_rollout, Some e)
             | Inr t \<Rightarrow> do {
                 ts \<leftarrow> now E;
                 rid \<leftarrow> ask (en_NewID E);
                 let r = zero_rollout\<lparr>r_ID := rid, r_TargetRef := sd_TargetRef s, r_Phase := PhaseDeploying,
                           r_Strategy := StrategyRolling, r_Desired := sd_Desired s, r_Initiator := sd_Initiator s,
                           r_CreatedAt := ts, r_UpdatedAt := ts\<rparr>;
                 se \<leftarrow> SaveRollout E r;
                 (case se of
                    Some e \<Rightarrow> State_Monad.return (zero_rollout, Some e)
                  | None \<Rightarrow> do {
                      ae \<leftarrow> tgt_Apply E t (sd_Desired s);
                      (case ae of
                         Some e \<Rightarrow> do {
                           ts \<leftarrow> now E;
                           let r = r\<lparr>r_Phase := PhaseRolledBack, r_UpdatedAt := ts, r_Note := ''scheduled apply failed: '' @ err_str e\<rparr>;
                           _ \<leftarrow> SaveRollout E r;
                           State_Monad.return (r, Some (Wrap ''apply'' e))
                         }
                       | None \<Rightarrow> do {
                           ts \<leftarrow> now E;
                           let r = r\<lparr>r_Phase := PhaseVerifying, r_UpdatedAt := ts\<rparr>;
                           se \<leftarrow> SaveRollout E r;
                           State_Monad.return (case se of Some e \<Rightarrow> (zero_rollout, Some e) | None \<Rightarrow> (r, None))
                         })
                    })
               })
          })
   }"

definition applyScheduled :: "env \<Rightarrow> scheduled_rollout \<Rightarrow> (rollout \<times> err option) prog" where
  "applyScheduled E s =
     with_target E (sd_TargetRef s) (\<lambda>e. (zero_rollout, Some e)) (zero_rollout, Some ErrTargetBusy) (sched_locked E s)"

definition Schedule :: "env \<Rightarrow> scheduled_rollout \<Rightarrow> err option prog" where
  "Schedule E s = do {
     s \<leftarrow> (if sd_ID s = [] then do { i \<leftarrow> ask (en_NewID E); State_Monad.return (s\<lparr>sd_ID := ''sch-'' @ i\<rparr>) }
           else State_Monad.return s);
     x \<leftarrow> st_call E (db_write (db_Schedule s));
     State_Monad.return (case x of Inl e \<Rightarrow> Some e | Inr _ \<Rightarrow> None)
   }"

fun fire_all :: "env \<Rightarrow> scheduled_rollout list \<Rightarrow> (rollout list \<times> err list) prog" where
  "fire_all E [] = State_Monad.return ([], [])"
| "fire_all E (s # rest) = do {
     x \<leftarrow> applyScheduled E s;
     (case x of
        (_, Some e) \<Rightarrow> do {
          y \<leftarrow> fire_all E rest;
          State_Monad.return (fst y, Wrap (''schedule '' @ sd_ID s) e # snd y)
        }
      | (r, None) \<Rightarrow> do {
          d \<leftarrow> st_call E (db_write (db_DeleteSchedule (sd_ID s)));
          y \<leftarrow> fire_all E rest;
          State_Monad.return (r # fst y, (case d of Inl e \<Rightarrow> [e] | Inr _ \<Rightarrow> []) @ snd y)
        })
   }"

definition FireDueSchedules :: "env \<Rightarrow> time \<Rightarrow> (rollout list \<times> err list) prog" where
  "FireDueSchedules E t = do {
     due \<leftarrow> st_call E (db_read (db_DueSchedules t));
     (case join_res due of
        Inl e \<Rightarrow> State_Monad.return ([], [e])
      | Inr l \<Rightarrow> fire_all E l)
   }"

section \<open>Freeze, Observe\<close>

definition Freeze :: "env \<Rightarrow> bool \<Rightarrow> identity \<Rightarrow> string \<Rightarrow> (bool \<times> string) res prog" where
  "Freeze E turn_on who reason =
     (if \<not> en_Guardrails E \<or> \<not> en_HasFreeze E then State_Monad.return (Inl (Err ''engine: freeze is not configured''))
      else do {
        ts \<leftarrow> now E;
        x \<leftarrow> st_call E (db_write (db_SaveFreeze \<lparr>fs_Active = turn_on, fs_Reason = (if turn_on then reason else []), fs_By = who, fs_At = Some ts\<rparr>));
        (case x of
           Inl e \<Rightarrow> State_Monad.return (Inl (Wrap ''engine: persist freeze'' e))
         | Inr _ \<Rightarrow> do {
             w \<leftarrow> State_Monad.get;
             let fz = (if turn_on then Engage who reason (w_freeze w) else Lift who (w_freeze w));
             State_Monad.set (w\<lparr>w_freeze := fz\<rparr>);
             record_audit E \<lparr>ae_Action = ActionFreeze, ae_RolloutID = [], ae_TargetRef = [], ae_Phase = [], ae_Actor = who,
               ae_Detail = (if fz_active fz then ''freeze engaged: '' @ fz_reason fz else ''freeze lifted'')\<rparr>;
             State_Monad.return (Inr (fz_active fz, fz_reason fz))
           })
      })"

definition FreezeStatus :: "env \<Rightarrow> (bool \<times> string) prog" where
  "FreezeStatus E =
     (if \<not> en_Guardrails E \<or> \<not> en_HasFreeze E then State_Monad.return (False, [])
      else do { w \<leftarrow> State_Monad.get; State_Monad.return (fz_active (w_freeze w), fz_reason (w_freeze w)) })"

definition Observe :: "env \<Rightarrow> cfg_target \<Rightarrow> fingerprint res prog" where
  "Observe E t = do {
     b \<leftarrow> build E t;
     (case b of
        Inl e \<Rightarrow> State_Monad.return (Inl e)
      | Inr tgt \<Rightarrow> do {
          fp \<leftarrow> tgt_Observe E tgt;
          (case fp of
             Inl e \<Rightarrow> State_Monad.return (Inl (Wrap ''engine: observe'' e))
           | Inr f \<Rightarrow> do {
               ts \<leftarrow> now E;
               se \<leftarrow> SaveObservedState E \<lparr>ts_TargetRef = t_Ref t, ts_Observed = f, ts_ObservedAt = ts\<rparr>;
               State_Monad.return (case se of Some e \<Rightarrow> Inl e | None \<Rightarrow> Inr f)
             })
        })
   }"

end
