(* ===== verification/Engine_Frames.thy ===== *)
theory Engine_Frames
  imports Engine_Apply
begin

text \<open>
  What each operation of the engine leaves alone. \<open>ext K\<close> relates the world before and after a
  program that appends only effects of the kinds \<open>K\<close> to the trace and leaves the keyed locks and
  the in-memory freeze as they were; \<open>db_same\<close> says the tables are untouched, \<open>db_wf\<close> that they
  stay well formed. All three are frames, so the facts follow the structure of the programs.
\<close>

section \<open>Kinds of effects\<close>

datatype ekind = KApply | KObserve | KHealth | KDiff | KPreflight | KReap | KDB | KSmoke | KMetric | KTraffic | KFlag | KSaved | KAudit | KNotify | KGit

fun kind :: "effect \<Rightarrow> ekind" where
  "kind (TargetApply _ _ _) = KApply"
| "kind (TargetObserve _) = KObserve"
| "kind (TargetHealth _) = KHealth"
| "kind (TargetDiff _ _) = KDiff"
| "kind (TargetPreflight _ _ _) = KPreflight"
| "kind (TargetReap _ _) = KReap"
| "kind (DatabaseCmd _ _) = KDB"
| "kind (SmokeCmd _) = KSmoke"
| "kind (MetricQuery _) = KMetric"
| "kind (TrafficShift _ _ _) = KTraffic"
| "kind (FlagSet _ _ _) = KFlag"
| "kind (FlagDisable _ _) = KFlag"
| "kind (RolloutSaved _) = KSaved"
| "kind (AuditRecord _) = KAudit"
| "kind (Notified _) = KNotify"
| "kind (GitCommit _ _) = KGit"
| "kind (GitPush _ _) = KGit"
| "kind (GitPullRequest _ _) = KGit"

definition grows :: "ekind set \<Rightarrow> effect list \<Rightarrow> effect list \<Rightarrow> bool" where
  "grows K xs ys \<longleftrightarrow> (\<exists>es. ys = xs @ es \<and> kind ` set es \<subseteq> K)"

lemma grows_refl [simp]: "grows K xs xs"
  by (auto simp: grows_def)

lemma grows_snoc: "kind e \<in> K \<Longrightarrow> grows K xs (xs @ [e])"
  by (auto simp: grows_def)

lemma grows_trans: "grows K xs ys \<Longrightarrow> grows K ys zs \<Longrightarrow> grows K xs zs"
  unfolding grows_def by (metis (no_types, lifting) Un_subset_iff append_assoc image_Un set_append)

lemma grows_filter:
  "grows K xs ys \<Longrightarrow> (\<And>e. kind e \<in> K \<Longrightarrow> \<not> P e) \<Longrightarrow> filter P ys = filter P xs"
  by (auto simp: grows_def filter_empty_conv image_subset_iff)

definition ext :: "ekind set \<Rightarrow> world \<Rightarrow> world \<Rightarrow> bool" where
  "ext K w w' \<longleftrightarrow> grows K (w_trace w) (w_trace w') \<and> set (w_locks w') = set (w_locks w) \<and> w_freeze w' = w_freeze w"

definition db_same :: "world \<Rightarrow> world \<Rightarrow> bool" where
  "db_same w w' \<longleftrightarrow> w_db w' = w_db w"

definition db_wf :: "world \<Rightarrow> world \<Rightarrow> bool" where
  "db_wf w w' \<longleftrightarrow> (wf_db (w_db w) \<longrightarrow> wf_db (w_db w'))"

interpretation ext: frame "ext K" for K
  by unfold_locales (auto simp: ext_def intro: grows_trans)

interpretation dbs: frame db_same
  by unfold_locales (auto simp: db_same_def)

interpretation dbw: frame db_wf
  by unfold_locales (auto simp: db_wf_def)

lemmas frame_rules [keeps_rules] =
  ext.keeps_return ext.keeps_get ext.keeps_bind
  dbs.keeps_return dbs.keeps_get dbs.keeps_bind
  dbw.keeps_return dbw.keeps_get dbw.keeps_bind

lemma db_same_wf: "keeps db_same m \<Longrightarrow> keeps db_wf m"
  by (simp add: keeps_def db_same_def db_wf_def)

lemma ext_mono: "keeps (ext K) m \<Longrightarrow> K \<subseteq> L \<Longrightarrow> keeps (ext L) m"
  by (fastforce simp: keeps_def ext_def grows_def)

lemma ext_mono_rel: "ext K w w' \<Longrightarrow> K \<subseteq> L \<Longrightarrow> ext L w w'"
  by (fastforce simp: ext_def grows_def)

section \<open>Primitives\<close>

lemma run_ask [simp]: "run_state (ask f) w = (f (w_tick w), w\<lparr>w_tick := Suc (w_tick w)\<rparr>)"
  by (simp add: ask_def run_state_simps)

lemma run_emit [simp]: "run_state (emit e) w = ((), w\<lparr>w_trace := w_trace w @ [e]\<rparr>)"
  by (simp add: emit_def run_state_simps)

lemma run_db_read [simp]: "run_state (db_read f) w = (f (w_db w), w)"
  by (simp add: db_read_def run_state_simps)

lemma run_db_write [simp]: "run_state (db_write f) w = ((), w\<lparr>w_db := f (w_db w)\<rparr>)"
  by (simp add: db_write_def run_state_simps)

lemma wp_ask [wp_simps]: "wp (ask f) Q = (\<lambda>w. Q (f (w_tick w)) (w\<lparr>w_tick := Suc (w_tick w)\<rparr>))"
  by (rule HOL.ext) (simp add: wp_def)

lemma wp_emit [wp_simps]: "wp (emit e) Q = (\<lambda>w. Q () (w\<lparr>w_trace := w_trace w @ [e]\<rparr>))"
  by (rule HOL.ext) (simp add: wp_def)

lemma wp_now [wp_simps]: "wp (now E) Q = (\<lambda>w. Q (en_Now E (w_tick w)) (w\<lparr>w_tick := Suc (w_tick w)\<rparr>))"
  by (simp add: now_def wp_ask)

lemma keeps_ask [keeps_rules]: "keeps (ext K) (ask f)" "keeps db_same (ask f)" "keeps db_wf (ask f)"
  by (simp_all add: keeps_def ext_def db_same_def db_wf_def)

lemma keeps_now [keeps_rules]: "keeps (ext K) (now E)" "keeps db_same (now E)" "keeps db_wf (now E)"
  by (simp_all add: now_def keeps_ask)

lemma keeps_emit [keeps_rules]:
  "kind e \<in> K \<Longrightarrow> keeps (ext K) (emit e)" "keeps db_same (emit e)" "keeps db_wf (emit e)"
  by (simp_all add: keeps_def ext_def db_same_def db_wf_def grows_snoc)

lemma keeps_db_read [keeps_rules]: "keeps (ext K) (db_read f)" "keeps db_same (db_read f)" "keeps db_wf (db_read f)"
  by (simp_all add: keeps_def ext_def db_same_def db_wf_def)

lemma keeps_db_write [keeps_rules]:
  "keeps (ext K) (db_write f)" "(\<And>d. wf_db d \<Longrightarrow> wf_db (f d)) \<Longrightarrow> keeps db_wf (db_write f)"
  by (simp_all add: keeps_def ext_def db_wf_def)

lemma keeps_st_call [keeps_rules]:
  "keeps (ext K) m \<Longrightarrow> keeps (ext K) (st_call E m)"
  "keeps db_same m \<Longrightarrow> keeps db_same (st_call E m)"
  "keeps db_wf m \<Longrightarrow> keeps db_wf (st_call E m)"
  unfolding st_call_def by (intro keeps_rules; assumption)+

lemma keeps_record [keeps_rules]:
  "KAudit \<in> K \<Longrightarrow> keeps (ext K) (record_audit E en)" "keeps db_same (record_audit E en)" "keeps db_wf (record_audit E en)"
  unfolding record_audit_def by (intro keeps_rules; simp)+

lemma keeps_notifyEvent [keeps_rules]:
  "KNotify \<in> K \<Longrightarrow> keeps (ext K) (notifyEvent E ev)" "keeps db_same (notifyEvent E ev)" "keeps db_wf (notifyEvent E ev)"
  unfolding notifyEvent_def by (intro keeps_rules; simp)+

lemma keeps_notifyDeployment [keeps_rules]:
  "KNotify \<in> K \<Longrightarrow> keeps (ext K) (notifyDeployment E k r d)" "keeps db_same (notifyDeployment E k r d)"
  "keeps db_wf (notifyDeployment E k r d)"
  unfolding notifyDeployment_def by (intro keeps_rules; simp)+

lemma keeps_Load [keeps_rules]:
  "keeps (ext K) (LoadRollout E i)" "keeps db_same (LoadRollout E i)" "keeps db_wf (LoadRollout E i)"
  "keeps (ext K) (ListRollouts E n)" "keeps db_same (ListRollouts E n)" "keeps db_wf (ListRollouts E n)"
  unfolding LoadRollout_def ListRollouts_def by (intro keeps_rules)+

lemma keeps_Save [keeps_rules]:
  "KSaved \<in> K \<Longrightarrow> keeps (ext K) (SaveRollout E r)" "keeps db_wf (SaveRollout E r)"
  unfolding SaveRollout_def by (intro keeps_rules; simp add: wf_SaveRollout)+

lemma wf_SaveObservedState: "wf_db d \<Longrightarrow> wf_db (db_SaveObservedState ts d)"
  by (simp add: wf_db_def db_SaveObservedState_def)

lemma keeps_SaveObserved [keeps_rules]:
  "keeps (ext K) (SaveObservedState E ts)" "keeps db_wf (SaveObservedState E ts)"
  unfolding SaveObservedState_def by (intro keeps_rules; simp add: wf_SaveObservedState)+

lemma keeps_build [keeps_rules]:
  "keeps (ext K) (build E t)" "keeps db_same (build E t)" "keeps db_wf (build E t)"
  unfolding build_def by (intro keeps_rules)+

lemma keeps_buildTarget [keeps_rules]:
  "keeps (ext K) (buildTarget E ref m)" "keeps db_same (buildTarget E ref m)" "keeps db_wf (buildTarget E ref m)"
  "keeps (ext K) (rawTarget E ref m)" "keeps db_same (rawTarget E ref m)" "keeps db_wf (rawTarget E ref m)"
  unfolding buildTarget_def rawTarget_def by (intro keeps_rules)+

lemma keeps_tgt [keeps_rules]:
  "KApply \<in> K \<Longrightarrow> keeps (ext K) (tgt_Apply E t m)" "keeps db_same (tgt_Apply E t m)" "keeps db_wf (tgt_Apply E t m)"
  "KObserve \<in> K \<Longrightarrow> keeps (ext K) (tgt_Observe E t)" "keeps db_same (tgt_Observe E t)" "keeps db_wf (tgt_Observe E t)"
  "KDiff \<in> K \<Longrightarrow> keeps (ext K) (tgt_Diff E t m)" "keeps db_same (tgt_Diff E t m)" "keeps db_wf (tgt_Diff E t m)"
  "KPreflight \<in> K \<Longrightarrow> keeps (ext K) (tgt_Preflight E t m)" "keeps db_same (tgt_Preflight E t m)" "keeps db_wf (tgt_Preflight E t m)"
  "KReap \<in> K \<Longrightarrow> keeps (ext K) (tgt_Reap E t)" "keeps db_same (tgt_Reap E t)" "keeps db_wf (tgt_Reap E t)"
  unfolding tgt_Apply_def tgt_Observe_def tgt_Diff_def tgt_Preflight_def tgt_Reap_def by (intro keeps_rules; simp)+

lemma keeps_stamp [keeps_rules]:
  "keeps (ext K) (stampReferencedChecksum E ref m)" "keeps db_same (stampReferencedChecksum E ref m)"
  "keeps db_wf (stampReferencedChecksum E ref m)"
  unfolding stampReferencedChecksum_def by (intro keeps_rules)+

lemma keeps_resolve_values:
  assumes "frame R" "\<And>g. keeps R (ask (g :: nat \<Rightarrow> string res))"
  shows "keeps R (resolve_values f sp)"
proof (induction sp)
  case Nil
  then show ?case by (simp add: frame.keeps_return [OF assms(1)])
next
  case (Cons kv rest)
  show ?case
    by (cases kv) (auto intro!: keeps_rules frame.keeps_bind [OF assms(1)] frame.keeps_return [OF assms(1)] assms(2) Cons.IH
      split: any.splits)
qed

lemma keeps_secrets [keeps_rules]:
  "keeps (ext K) (resolveSecrets E t)" "keeps db_same (resolveSecrets E t)" "keeps db_wf (resolveSecrets E t)"
  unfolding resolveSecrets_def
  by (intro keeps_rules keeps_resolve_values ext.frame_axioms dbs.frame_axioms dbw.frame_axioms)+

lemma keeps_health_ext [keeps_rules]:
  assumes "KHealth \<in> K"
  shows "keeps (ext K) (health_loop E t k p)"
proof (induction k arbitrary: p)
  case 0
  show ?case unfolding health_loop.simps by (intro keeps_rules)
next
  case (Suc k)
  show ?case unfolding health_loop.simps by (intro keeps_rules Suc.IH; simp add: assms)
qed

lemma keeps_health_db [keeps_rules]: "keeps db_same (health_loop E t k p)"
proof (induction k arbitrary: p)
  case 0
  show ?case unfolding health_loop.simps by (intro keeps_rules)
next
  case (Suc k)
  show ?case unfolding health_loop.simps by (intro keeps_rules Suc.IH)
qed

lemma keeps_healthWithRetry [keeps_rules]:
  "KHealth \<in> K \<Longrightarrow> keeps (ext K) (healthWithRetry E t)" "keeps db_same (healthWithRetry E t)" "keeps db_wf (healthWithRetry E t)"
  unfolding healthWithRetry_def by (intro keeps_rules db_same_wf; assumption)+

lemma keeps_dbcmd [keeps_rules]:
  "KDB \<in> K \<Longrightarrow> keeps (ext K) (runDatabaseCommand E d)" "keeps db_same (runDatabaseCommand E d)" "keeps db_wf (runDatabaseCommand E d)"
  unfolding runDatabaseCommand_def run_db_cmd_def by (intro keeps_rules; simp)+

lemma keeps_traffic [keeps_rules]:
  "KAudit \<in> K \<Longrightarrow> KTraffic \<in> K \<Longrightarrow> keeps (ext K) (driveTraffic E ref tr n)"
  "keeps db_same (driveTraffic E ref tr n)" "keeps db_wf (driveTraffic E ref tr n)"
  unfolding driveTraffic_def by (intro keeps_rules; simp)+

lemma keeps_flag [keeps_rules]:
  "KAudit \<in> K \<Longrightarrow> KFlag \<in> K \<Longrightarrow> keeps (ext K) (driveFlag E ref ff n)"
  "keeps db_same (driveFlag E ref ff n)" "keeps db_wf (driveFlag E ref ff n)"
  "KAudit \<in> K \<Longrightarrow> KFlag \<in> K \<Longrightarrow> keeps (ext K) (driveFlagDisable E ref ff)"
  "keeps db_same (driveFlagDisable E ref ff)" "keeps db_wf (driveFlagDisable E ref ff)"
  unfolding driveFlag_def driveFlagDisable_def by (intro keeps_rules; simp)+

lemma keeps_resetDelivery [keeps_rules]:
  "KAudit \<in> K \<Longrightarrow> KTraffic \<in> K \<Longrightarrow> KFlag \<in> K \<Longrightarrow> keeps (ext K) (resetDelivery E r)"
  "keeps db_same (resetDelivery E r)" "keeps db_wf (resetDelivery E r)"
  unfolding resetDelivery_def by (intro keeps_rules; simp)+

section \<open>Locks\<close>

text \<open>Leases apart, the tables are the same.\<close>

definition same_tables :: "db \<Rightarrow> db \<Rightarrow> bool" where
  "same_tables d d' \<longleftrightarrow> d'\<lparr>db_leases := []\<rparr> = d\<lparr>db_leases := []\<rparr>"

lemma same_tables_simps:
  assumes "same_tables d d'"
  shows "db_rollouts d' = db_rollouts d" "db_history d' = db_history d" "db_schedules d' = db_schedules d"
    "db_target_state d' = db_target_state d" "db_freeze d' = db_freeze d"
  using assms unfolding same_tables_def by (cases d; cases d'; simp)+

lemma same_tables_refl [simp]: "same_tables d d"
  by (simp add: same_tables_def)

lemma same_tables_trans: "same_tables a b \<Longrightarrow> same_tables b c \<Longrightarrow> same_tables a c"
  by (simp add: same_tables_def)

lemma same_tables_wf: "same_tables d d' \<Longrightarrow> wf_db d' = wf_db d"
  by (simp add: wf_db_def same_tables_simps)

lemma same_tables_load: "same_tables d d' \<Longrightarrow> db_LoadRollout i d' = db_LoadRollout i d"
  by (simp add: db_LoadRollout_def same_tables_simps)

lemma same_tables_list: "same_tables d d' \<Longrightarrow> db_ListRollouts n d' = db_ListRollouts n d"
  by (simp add: db_ListRollouts_def same_tables_simps)

lemma AcquireLease_tables: "same_tables d (snd (db_AcquireLease k w ttl t d))"
  by (auto simp: db_AcquireLease_def Let_def same_tables_def split: option.splits)

lemma ReleaseLease_tables: "same_tables d (db_ReleaseLease k w d)"
  by (auto simp: db_ReleaseLease_def same_tables_def split: option.splits)

text \<open>What acquiring a target does: nothing but take the key and touch the lease table.\<close>

definition lock_step :: "world \<Rightarrow> world \<Rightarrow> bool" where
  "lock_step w w' \<longleftrightarrow> w_trace w' = w_trace w \<and> w_freeze w' = w_freeze w \<and> same_tables (w_db w) (w_db w')"

lemma lock_step_refl [simp]: "lock_step w w"
  by (simp add: lock_step_def)

lemma lock_step_trans: "lock_step u v \<Longrightarrow> lock_step v w \<Longrightarrow> lock_step u w"
  by (auto simp: lock_step_def intro: same_tables_trans)

lemma unlock_run: "run_state (unlock_local ref) w = ((), w\<lparr>w_locks := ReleaseKey ref (w_locks w)\<rparr>)"
  by (simp add: unlock_local_def run_state_simps)

lemma acquireTarget_run:
  assumes "run_state (acquireTarget E ref) w = (res, w')"
  shows "lock_step w w' \<and>
    (if res = Inr True then TryAcquire ref (w_locks w) = (True, w_locks w')
     else set (w_locks w') = set (w_locks w))"
proof (cases "TryAcquire ref (w_locks w)")
  case (Pair ok held)
  show ?thesis
  proof (cases ok)
    case False
    then show ?thesis using assms Pair kl.refused [of ref "w_locks w" held]
      by (auto simp: acquireTarget_def lock_local_def run_state_simps lock_step_def)
  next
    case True
    have br: "set (ReleaseKey ref held) = set (w_locks w)"
      using kl.bracket [of ref "w_locks w" held held] Pair True by simp
    show ?thesis
      using assms Pair True br AcquireLease_tables
      by (auto simp: acquireTarget_def lock_local_def run_state_simps lock_step_def now_def st_call_def unlock_run
        join_res_def split: if_splits option.splits sum.splits prod.splits;
        metis snd_conv)
  qed
qed

lemma releaseTarget_run:
  assumes "run_state (releaseTarget E ref) w = (u, w')"
  shows "lock_step w w' \<and> w_locks w' = ReleaseKey ref (w_locks w)"
  using assms ReleaseLease_tables
  by (auto simp: releaseTarget_def run_state_simps lock_step_def st_call_def unlock_run
    split: if_splits option.splits sum.splits prod.splits)

lemma with_target_run:
  assumes "run_state (with_target E ref fail busy body) w = (x, w')"
  shows "(\<exists>w1 w2. lock_step w w1 \<and> TryAcquire ref (w_locks w) = (True, w_locks w1) \<and>
            run_state body w1 = (x, w2) \<and> lock_step w2 w' \<and> w_locks w' = ReleaseKey ref (w_locks w2)) \<or>
         ((x = busy \<or> (\<exists>e. x = fail e)) \<and> lock_step w w' \<and> set (w_locks w') = set (w_locks w))"
proof -
  obtain res w1 where a: "run_state (acquireTarget E ref) w = (res, w1)" by fastforce
  note ar = acquireTarget_run [OF a]
  show ?thesis
  proof (cases "res = Inr True")
    case False
    then show ?thesis using assms a ar
      by (auto simp: with_target_def run_state_simps split: sum.splits if_splits)
  next
    case True
    obtain y w2 where b: "run_state body w1 = (y, w2)" by fastforce
    obtain u w3 where r: "run_state (releaseTarget E ref) w2 = (u, w3)" by (cases "run_state (releaseTarget E ref) w2") auto
    have "x = y \<and> w' = w3" using assms a True b r by (simp add: with_target_def run_state_simps)
    then show ?thesis using ar True b releaseTarget_run [OF r] by auto
  qed
qed

lemma lock_step_ext: "lock_step w w' \<Longrightarrow> set (w_locks w') = set (w_locks w) \<Longrightarrow> ext K w w'"
  by (simp add: lock_step_def ext_def)

lemma keeps_with_target [keeps_rules]:
  "keeps (ext K) body \<Longrightarrow> keeps (ext K) (with_target E ref fail busy body)"
  "keeps db_wf body \<Longrightarrow> keeps db_wf (with_target E ref fail busy body)"
proof -
  assume body: "keeps (ext K) body"
  show "keeps (ext K) (with_target E ref fail busy body)"
  proof (unfold keeps_def, rule allI)
    fix w
    obtain x w' where r: "run_state (with_target E ref fail busy body) w = (x, w')" by fastforce
    from with_target_run [OF r] show "ext K w (snd (run_state (with_target E ref fail busy body) w))"
    proof (elim disjE exE conjE)
      fix w1 w2
      assume h: "lock_step w w1" "TryAcquire ref (w_locks w) = (True, w_locks w1)"
        "run_state body w1 = (x, w2)" "lock_step w2 w'" "w_locks w' = ReleaseKey ref (w_locks w2)"
      have e: "ext K w1 w2" by (rule keepsD [OF body h(3)])
      then have "set (w_locks w2) = set (w_locks w1)" by (simp add: ext_def)
      then have "set (w_locks w') = set (w_locks w)"
        using kl.bracket [OF h(2)] h(5) by simp
      with e h show ?thesis by (simp add: r ext_def lock_step_def)
    qed (simp_all add: r lock_step_ext)
  qed
next
  assume body: "keeps db_wf body"
  show "keeps db_wf (with_target E ref fail busy body)"
  proof (unfold keeps_def, rule allI)
    fix w
    obtain x w' where r: "run_state (with_target E ref fail busy body) w = (x, w')" by fastforce
    have b: "run_state body w1 = (y, w2) \<Longrightarrow> wf_db (w_db w1) \<Longrightarrow> wf_db (w_db w2)" for w1 y w2
      using keepsD [OF body, of w1 y w2] by (simp add: db_wf_def)
    from with_target_run [OF r] show "db_wf w (snd (run_state (with_target E ref fail busy body) w))"
      by (auto simp: r db_wf_def lock_step_def same_tables_wf dest!: b)
  qed
qed

section \<open>Gates\<close>

context frame
begin

text \<open>An analysis run does to the state only what its metrics provider and its sleep do.\<close>

lemma keeps_sample_metrics:
  assumes "\<And>m. keeps R (queryMetric a m)"
  shows "keeps R (sample_metrics a ms vals)"
proof (induction ms arbitrary: vals)
  case Nil
  show ?case by (simp add: keeps_return)
next
  case (Cons m ms)
  show ?case unfolding sample_metrics.simps by (intro keeps_bind keeps_rules keeps_return assms Cons.IH)
qed

lemma keeps_run_loop:
  assumes "\<And>m. keeps R (queryMetric a m)" "\<And>d. keeps R (az_Sleep a d)"
  shows "keeps R (run_loop a n cf ms)"
proof (induction n arbitrary: cf ms)
  case 0
  show ?case by (simp add: keeps_return)
next
  case (Suc n)
  have "keeps R (measure_once a)"
    unfolding measure_once_def by (intro keeps_bind keeps_return keeps_sample_metrics assms)
  then show ?case unfolding run_loop.simps by (intro keeps_bind keeps_rules keeps_return assms Suc.IH)
qed

lemma keeps_queryMetric:
  assumes "\<And>q. keeps R (mp_Query (az_Provider a) q)"
    "\<And>f q. mp_QuerySeries (az_Provider a) = Some f \<Longrightarrow> keeps R (f q)"
  shows "keeps R (queryMetric a m)"
  unfolding queryMetric_def by (intro keeps_rules keeps_bind keeps_return assms)

end

lemma keeps_env_metrics:
  assumes "az_Provider a = env_metrics E"
  shows "KMetric \<in> K \<Longrightarrow> keeps (ext K) (queryMetric a m)" "keeps db_same (queryMetric a m)"
proof -
  show "KMetric \<in> K \<Longrightarrow> keeps (ext K) (queryMetric a m)"
    by (rule ext.keeps_queryMetric) (auto simp: assms env_metrics_def intro!: keeps_rules)
  show "keeps db_same (queryMetric a m)"
    by (rule dbs.keeps_queryMetric) (auto simp: assms env_metrics_def intro!: keeps_rules)
qed

lemma analysis_New_fields:
  "analysis_New cl sl f pv t = Inr a \<Longrightarrow> az_Provider a = pv \<and> az_Sleep a = sl"
  by (auto simp: analysis_New_def Let_def split: if_splits option.splits)

lemma keeps_runAnalysis [keeps_rules]:
  "KMetric \<in> K \<Longrightarrow> keeps (ext K) (runAnalysis E a)" "keeps db_same (runAnalysis E a)"
  unfolding runAnalysis_def resolve_provider_def analysis_Run_def
  by (intro keeps_rules ext.keeps_run_loop dbs.keeps_run_loop keeps_env_metrics;
      (drule analysis_New_fields)?; simp add: keeps_rules)+

lemma keeps_gates [keeps_rules]:
  "KHealth \<in> K \<Longrightarrow> keeps (ext K) (gateHealth E r)" "keeps db_same (gateHealth E r)"
  "KSmoke \<in> K \<Longrightarrow> keeps (ext K) (gateSmoke E st)" "keeps db_same (gateSmoke E st)"
  "KMetric \<in> K \<Longrightarrow> keeps (ext K) (gateAnalysis E a)" "keeps db_same (gateAnalysis E a)"
  unfolding gateHealth_def gateSmoke_def gateAnalysis_def by (intro keeps_rules; simp)+

lemma keeps_run_gate:
  assumes "frame R" "\<And>m. g = Some m \<Longrightarrow> keeps R m"
  shows "keeps R (run_gate failed name skip g)"
  unfolding run_gate_def by (intro keeps_rules frame.keeps_return [OF assms(1)] assms(2))

lemma keeps_runGates [keeps_rules]:
  "{KHealth, KSmoke, KMetric} \<subseteq> K \<Longrightarrow> keeps (ext K) (runGates E r gs)" "keeps db_same (runGates E r gs)"
  unfolding runGates_def
  by (intro keeps_rules keeps_run_gate ext.frame_axioms dbs.frame_axioms;
      auto split: if_splits intro: keeps_gates)+

lemma keeps_checks [keeps_rules]:
  "{KHealth, KSmoke, KMetric} \<subseteq> K \<Longrightarrow> keeps (ext K) (runPostDeployChecks E r c)"
  "keeps db_same (runPostDeployChecks E r c)"
  unfolding runPostDeployChecks_def by (intro keeps_rules; simp)+

lemma keeps_Verify [keeps_rules]:
  "{KHealth, KSmoke, KMetric} \<subseteq> K \<Longrightarrow> keeps (ext K) (Verify E rid)" "keeps db_same (Verify E rid)"
  unfolding Verify_def by (intro keeps_rules; simp)+

section \<open>Guardrails and governance\<close>

lemma keeps_check_guardrails [keeps_rules]:
  "keeps (ext K) (check_guardrails E who inp)" "keeps db_same (check_guardrails E who inp)"
  unfolding check_guardrails_def env_guardrails_def CheckApply_def freeze_check_def
  by (auto intro!: keeps_rules split: option.splits)

lemma keeps_govern [keeps_rules]: "keeps (ext K) (govern E q)" "keeps db_same (govern E q)"
  unfolding govern_def Hook_Evaluate_def by (auto intro!: keeps_rules split: option.splits)

lemma keeps_EvaluateRisk [keeps_rules]:
  "keeps (ext K) (EvaluateRisk E c inp)" "keeps db_same (EvaluateRisk E c inp)"
  unfolding EvaluateRisk_def riskWeights_def st_History_def by (intro keeps_rules)+

lemma keeps_apply_gates [keeps_rules]:
  "KAudit \<in> K \<Longrightarrow> keeps (ext K) (apply_gates E req)" "keeps db_same (apply_gates E req)"
  unfolding apply_gates_def governed_def risk_gate_def Let_def by (intro keeps_rules; simp)+

section \<open>Rollback and promotion\<close>

abbreviation rollback_kinds :: "ekind set" where
  "rollback_kinds \<equiv> {KApply, KDB, KSaved, KAudit, KTraffic, KFlag}"

lemma keeps_prior [keeps_rules]:
  "keeps (ext K) (priorManifestErr E ref x)" "keeps db_same (priorManifestErr E ref x)"
  "keeps (ext K) (priorManifest E ref x)" "keeps db_same (priorManifest E ref x)"
  unfolding priorManifest_def priorManifestErr_def by (intro keeps_rules)+

lemma keeps_baseline [keeps_rules]:
  "KDiff \<in> K \<Longrightarrow> keeps (ext K) (rollbackBaseline E ref m)" "keeps db_same (rollbackBaseline E ref m)"
  unfolding rollbackBaseline_def by (intro keeps_rules; simp)+

lemma keeps_rollback_finish [keeps_rules]:
  "{KDB, KSaved} \<subseteq> K \<Longrightarrow> keeps (ext K) (rollback_finish E r note d)" "keeps db_wf (rollback_finish E r note d)"
  unfolding rollback_finish_def Let_def by (intro keeps_rules; simp)+

lemma keeps_applyRollback [keeps_rules]:
  "rollback_kinds \<subseteq> K \<Longrightarrow> keeps (ext K) (applyRollback E r prior note d force)"
  "keeps db_wf (applyRollback E r prior note d force)"
  unfolding applyRollback_def Let_def by (intro keeps_rules; simp)+

lemma keeps_rollback [keeps_rules]:
  "rollback_kinds \<subseteq> K \<Longrightarrow> keeps (ext K) (rollbackWithDatabase E rid prior note d force)"
  "keeps db_wf (rollbackWithDatabase E rid prior note d force)"
  unfolding rollbackWithDatabase_def by (intro keeps_rules; simp)+

lemma keeps_promote [keeps_rules]:
  "{KDB, KSaved} \<subseteq> K \<Longrightarrow> keeps (ext K) (promoteWithNote E rid note)" "keeps db_wf (promoteWithNote E rid note)"
  unfolding promoteWithNote_def promote_save_def Let_def by (intro keeps_rules; simp)+

section \<open>The stepper\<close>

lemma keeps_db_same_wf [keeps_rules]:
  "keeps db_wf (priorManifest E ref x)" "keeps db_wf (rollbackBaseline E ref m)"
  "keeps db_wf (check_guardrails E who inp)" "keeps db_wf (apply_gates E req)"
  "keeps db_wf (runPostDeployChecks E r c)" "keeps db_wf (runGates E r gs)"
  by (rule db_same_wf, intro keeps_rules)+

lemma keeps_mark_failed [keeps_rules]:
  "{KSaved, KAudit, KNotify} \<subseteq> K \<Longrightarrow> keeps (ext K) (mark_failed E lc r e who)" "keeps db_wf (mark_failed E lc r e who)"
  unfolding mark_failed_def Let_def by (intro keeps_rules; simp)+

lemma keeps_failProgressive [keeps_rules]:
  "insert KNotify rollback_kinds \<subseteq> K \<Longrightarrow> keeps (ext K) (failProgressive E lc r cfg m e who)"
  "keeps db_wf (failProgressive E lc r cfg m e who)"
  unfolding failProgressive_def after_auto_rollback_def Let_def by (intro keeps_rules; simp)+

lemma keeps_recordStep [keeps_rules]:
  "{KSaved, KAudit, KTraffic, KFlag} \<subseteq> K \<Longrightarrow> keeps (ext K) (recordStep E cfg plan st r)"
  "keeps db_wf (recordStep E cfg plan st r)"
  unfolding recordStep_def Let_def by (intro keeps_rules; simp)+

lemma keeps_drive_finish [keeps_rules]:
  "{KSaved, KAudit} \<subseteq> K \<Longrightarrow> keeps (ext K) (drive_finish E lc plan st r entered who)"
  "keeps db_wf (drive_finish E lc plan st r entered who)"
  unfolding drive_finish_def Let_def by (intro keeps_rules; simp)+

lemma keeps_recover [keeps_rules]:
  "{KSaved, KAudit} \<subseteq> K \<Longrightarrow> keeps (ext K) (recoverInterrupted E r why)"
  "keeps db_wf (recoverInterrupted E r why)"
  unfolding recoverInterrupted_def Let_def by (intro keeps_rules; simp)+

lemma keeps_InFlight [keeps_rules]: "keeps (ext K) (InFlight E ref)" "keeps db_same (InFlight E ref)" "keeps db_wf (InFlight E ref)"
  unfolding InFlight_def by (intro keeps_rules)+

lemma keeps_deployOnce [keeps_rules]:
  "{KDB, KApply} \<subseteq> K \<Longrightarrow> keeps (ext K) (deployOnce E cfg t m)" "keeps db_same (deployOnce E cfg t m)" "keeps db_wf (deployOnce E cfg t m)"
  unfolding deployOnce_def by (intro keeps_rules; simp)+

section \<open>Weakest preconditions of the primitives\<close>

abbreviation tick1 :: "world \<Rightarrow> world" where
  "tick1 w \<equiv> w\<lparr>w_tick := Suc (w_tick w)\<rparr>"

lemma wp_st_call [wp_simps]:
  "wp (st_call E m) Q = (\<lambda>w. case en_StoreErr E (w_tick w) of Some e \<Rightarrow> Q (Inl e) (tick1 w)
     | None \<Rightarrow> wp m (\<lambda>x. Q (Inr x)) (tick1 w))"
  by (rule HOL.ext) (simp add: st_call_def wp_simps split: option.split)

lemma wp_db_read [wp_simps]: "wp (db_read f) Q = (\<lambda>w. Q (f (w_db w)) w)"
  by (rule HOL.ext) (simp add: wp_def)

lemma wp_db_write [wp_simps]: "wp (db_write f) Q = (\<lambda>w. Q () (w\<lparr>w_db := f (w_db w)\<rparr>))"
  by (rule HOL.ext) (simp add: wp_def)

lemma wp_LoadRollout [wp_simps]:
  "wp (LoadRollout E i) Q = (\<lambda>w. case en_StoreErr E (w_tick w) of Some e \<Rightarrow> Q (Inl e) (tick1 w)
     | None \<Rightarrow> Q (db_LoadRollout i (w_db w)) (tick1 w))"
  by (rule HOL.ext) (simp add: LoadRollout_def wp_simps join_res_def split: option.split)

lemma wp_ListRollouts [wp_simps]:
  "wp (ListRollouts E n) Q = (\<lambda>w. case en_StoreErr E (w_tick w) of Some e \<Rightarrow> Q (Inl e) (tick1 w)
     | None \<Rightarrow> Q (db_ListRollouts n (w_db w)) (tick1 w))"
  by (rule HOL.ext) (simp add: ListRollouts_def wp_simps join_res_def split: option.split)

text \<open>The world after a successful save.\<close>

definition saved :: "rollout \<Rightarrow> world \<Rightarrow> world" where
  "saved r w = w\<lparr>w_tick := Suc (w_tick w), w_db := db_SaveRollout r (w_db w), w_trace := w_trace w @ [RolloutSaved r]\<rparr>"

lemma saved_simps [simp]:
  "w_db (saved r w) = db_SaveRollout r (w_db w)" "w_trace (saved r w) = w_trace w @ [RolloutSaved r]"
  "w_locks (saved r w) = w_locks w" "w_freeze (saved r w) = w_freeze w"
  by (simp_all add: saved_def)

lemma wp_SaveRollout [wp_simps]:
  "wp (SaveRollout E r) Q = (\<lambda>w. case en_StoreErr E (w_tick w) of Some e \<Rightarrow> Q (Some e) (tick1 w)
     | None \<Rightarrow> Q None (saved r w))"
  by (rule HOL.ext) (simp add: SaveRollout_def wp_simps saved_def split: option.split)

lemma wp_build [wp_simps]:
  "wp (build E t) Q = (\<lambda>w. case en_Build E (w_tick w) t of Some e \<Rightarrow> Q (Inl e) (tick1 w) | None \<Rightarrow> Q (Inr t) (tick1 w))"
  by (rule HOL.ext) (simp add: build_def wp_simps split: option.split)

lemma wp_buildTarget [wp_simps]:
  "wp (buildTarget E ref m) Q = (\<lambda>w. case target_of_manifest ref m of Inl e \<Rightarrow> Q (Inl e) w
     | Inr t \<Rightarrow> (case en_Build E (w_tick w) t of Some e \<Rightarrow> Q (Inl e) (tick1 w) | None \<Rightarrow> Q (Inr t) (tick1 w)))"
  by (rule HOL.ext) (simp add: buildTarget_def wp_simps split: sum.split)

lemma wp_tgt_Apply [wp_simps]:
  "wp (tgt_Apply E t m) Q = (\<lambda>w. Q (en_Apply E (w_tick w) t m)
     (w\<lparr>w_tick := Suc (w_tick w), w_trace := w_trace w @ [TargetApply t m (en_Apply E (w_tick w) t m)]\<rparr>))"
  by (rule HOL.ext) (simp add: tgt_Apply_def wp_simps)

lemma target_of_manifest_ref: "target_of_manifest ref m = Inr t \<Longrightarrow> t_Ref t = ref"
  by (auto simp: target_of_manifest_def split: if_splits sum.splits)

text \<open>Using the frame of a part whose result does not matter.\<close>

lemma wp_frame:
  assumes "keeps (ext K) m" "keeps db_same m" "\<And>x w'. ext K w w' \<Longrightarrow> w_db w' = w_db w \<Longrightarrow> Q x w'"
  shows "wp m Q w"
  using assms by (auto intro!: wpI dest!: keepsD simp: db_same_def)

lemma wp_frame_wf:
  assumes "keeps (ext K) m" "keeps db_wf m" "\<And>x w'. ext K w w' \<Longrightarrow> (wf_db (w_db w) \<Longrightarrow> wf_db (w_db w')) \<Longrightarrow> Q x w'"
  shows "wp m Q w"
  using assms by (auto intro!: wpI dest!: keepsD simp: db_wf_def)

lemma wp_run: "wp m Q w \<longleftrightarrow> Q (fst (run_state m w)) (snd (run_state m w))"
  by (simp add: wp_def case_prod_beta)

section \<open>The lifecycle in the engine\<close>

text \<open>Resuming at a phase with a plan and sending one event, as the operations do.\<close>

lemma resume_send:
  assumes "statekit_api (en_Life E)"
  shows "ResumeLifecycle (en_Life E) p planned_ctx =
      Inr \<lparr>lc_Machine = lifecycle_machine p, lc_Phase = p, lc_Ctx = planned_ctx\<rparr>"
    "lifecycle_step planned_ctx p ev = Some q \<Longrightarrow>
      lc_Send (en_Life E) \<lparr>lc_Machine = lifecycle_machine i, lc_Phase = p, lc_Ctx = planned_ctx\<rparr> ev =
        (None, \<lparr>lc_Machine = lifecycle_machine i, lc_Phase = q, lc_Ctx = planned_ctx\<rparr>)"
    "lifecycle_step planned_ctx p ev = None \<Longrightarrow>
      \<exists>e. lc_Send (en_Life E) \<lparr>lc_Machine = lifecycle_machine i, lc_Phase = p, lc_Ctx = planned_ctx\<rparr> ev =
        (Some e, \<lparr>lc_Machine = lifecycle_machine i, lc_Phase = p, lc_Ctx = planned_ctx\<rparr>)"
proof -
  have wf: "wf_lifecycle \<lparr>lc_Machine = lifecycle_machine i, lc_Phase = p, lc_Ctx = planned_ctx\<rparr>"
    by (simp add: wf_lifecycle_def lifecycle_machine_def)
  show "ResumeLifecycle (en_Life E) p planned_ctx =
      Inr \<lparr>lc_Machine = lifecycle_machine p, lc_Phase = p, lc_Ctx = planned_ctx\<rparr>"
    by (simp add: ResumeLifecycle_def resumeLifecycle_ok [OF assms])
  show "lifecycle_step planned_ctx p ev = Some q \<Longrightarrow>
      lc_Send (en_Life E) \<lparr>lc_Machine = lifecycle_machine i, lc_Phase = p, lc_Ctx = planned_ctx\<rparr> ev =
        (None, \<lparr>lc_Machine = lifecycle_machine i, lc_Phase = q, lc_Ctx = planned_ctx\<rparr>)"
    using lc_Send_step [OF assms wf, of ev q] by simp
  show "lifecycle_step planned_ctx p ev = None \<Longrightarrow>
      \<exists>e. lc_Send (en_Life E) \<lparr>lc_Machine = lifecycle_machine i, lc_Phase = p, lc_Ctx = planned_ctx\<rparr> ev =
        (Some e, \<lparr>lc_Machine = lifecycle_machine i, lc_Phase = p, lc_Ctx = planned_ctx\<rparr>)"
    using lc_Send_reject [OF assms wf, of ev] by simp
qed

text \<open>The phases a rollback, an approval or a promotion can start from.\<close>

lemma step_Rollback: "lifecycle_step planned_ctx p EventRollback =
    (if p \<in> deployed_phases \<union> {PhaseAwaitingApproval} then Some PhaseRolledBack else None)"
  by (cases p) (simp_all add: lifecycle_step_def deployed_phases_def planned_ctx_def)

lemma step_Approve: "lifecycle_step planned_ctx p EventApprove =
    (if p = PhaseAwaitingApproval then Some PhaseDeploying else None)"
  by (cases p) (simp_all add: lifecycle_step_def planned_ctx_def)

lemma step_Reject: "lifecycle_step planned_ctx p EventReject =
    (if p = PhaseAwaitingApproval then Some PhaseRolledBack else None)"
  by (cases p) (simp_all add: lifecycle_step_def planned_ctx_def)

lemma step_VerifyOK: "lifecycle_step planned_ctx p EventVerifyOK =
    (if p = PhaseVerifying then Some PhasePromoted else None)"
  by (cases p) (simp_all add: lifecycle_step_def planned_ctx_def)

lemma step_Error: "lifecycle_step planned_ctx p EventError =
    (if p = PhaseValidating \<or> p = PhaseDeploying then Some PhaseRolledBack else None)"
  by (cases p) (simp_all add: lifecycle_step_def planned_ctx_def)

lemma step_Deployed: "lifecycle_step planned_ctx p EventDeployed =
    (if p = PhaseDeploying then Some PhaseVerifying else None)"
  by (cases p) (simp_all add: lifecycle_step_def planned_ctx_def)

lemmas life_steps = step_Rollback step_Approve step_Reject step_VerifyOK step_Error step_Deployed

end
