(* ===== verification/Engine_Safety.thy ===== *)
theory Engine_Safety
  imports Engine_Frames
begin

text \<open>
  The guarantees of the engine's operations: what verification, promotion, rollback, apply,
  approval and scheduling do on every branch, over an arbitrary environment. \<open>demo_env\<close> is a
  concrete environment in which the examples run.
\<close>

section \<open>An environment for the examples\<close>

definition demo_env :: env where
  "demo_env = \<lparr>
     en_Now = (\<lambda>n. int n * second), en_NewID = (\<lambda>n. ''ro-'' @ utoa n), en_Owner = ''me'', en_LeaseTTL = 120 * second,
     en_Leases = True, en_StoreErr = (\<lambda>_. None), en_Root = ''/repo'', en_Done = (\<lambda>_. False),
     en_Build = (\<lambda>_ _. None), en_Apply = (\<lambda>_ _ _. None),
     en_Observe = (\<lambda>_ _. Inr \<lparr>fp_Value = ''live'', fp_Meta = []\<rparr>),
     en_Health = (\<lambda>_ _. (\<lparr>hs_State = HealthHealthy, hs_Reason = []\<rparr>, None)),
     en_Differ = (\<lambda>_. False), en_Diff = (\<lambda>_ _ _. Inr []),
     en_Renderer = (\<lambda>_. False), en_Referenced = (\<lambda>_ _. False), en_Render = (\<lambda>_ _ _. Inr []),
     en_Preflighter = (\<lambda>_. False), en_Preflight = (\<lambda>_ _ _. None),
     en_Inspector = (\<lambda>_. False), en_Resources = (\<lambda>_ _. Inr []),
     en_Reaper = (\<lambda>_. False), en_ReapTarget = (\<lambda>_ _. (0, None)), en_Dangling = (\<lambda>_ _. []),
     en_SpecSum = (\<lambda>sp. ''sum'' @ utoa (length sp)), en_BytesSum = (\<lambda>b. b),
     en_Smoke = (\<lambda>_ _. Inr 0), en_DBRun = (\<lambda>_ _ _. None),
     en_RouterBuild = (\<lambda>_ _. None), en_RouterApply = (\<lambda>_ _ _. None),
     en_FlagBuild = (\<lambda>_ _. None), en_FlagApply = (\<lambda>_ _ _ _. None),
     en_Metrics = False, en_MetricsBuild = (\<lambda>_ _. None), en_Query = (\<lambda>_ _. Inr 0), en_QuerySeries = None,
     en_MetricCel = demo_metric_cel, en_Analysis = False, en_Cel = demo_cel, en_Round = (\<lambda>x. x),
     en_Governor = None, en_Guardrails = True, en_Floor = DefaultPolicyFloor, en_HasFreeze = True,
     en_FreezeSource = None, en_AgentLimit = None, en_Artifact = None, en_Secrets = None,
     en_Audit = True, en_Notifier = True, en_AllowSelfApprove = False,
     en_Life = ref_statekit, en_Step = ref_statekit\<rparr>"

definition demo_world :: world where
  "demo_world = \<lparr>w_db = empty_db, w_locks = [], w_freeze = NewFreeze, w_trace = [], w_tick = 0\<rparr>"

definition demo_human :: identity where
  "demo_human = \<lparr>id_Kind = ''human'', id_Name = ''ann'', id_Groups = []\<rparr>"

definition demo_config :: config where
  "demo_config = zero_config\<lparr>c_Spec := zero_spec\<lparr>s_Target := \<lparr>t_Kind = ''ssh'', t_Ref = ''web'', t_Criticality = ''low'',
     t_Env = ''dev'', t_Spec = [(''image'', AStr ''nginx'')]\<rparr>\<rparr>\<rparr>"

definition demo_request :: apply_request where
  "demo_request = \<lparr>rq_Config = demo_config, rq_Initiator = demo_human, rq_Root = ''/repo'', rq_Planned = True,
     rq_NeedsApproval = False, rq_Risk = \<lparr>ri_ChangeType = ''config'', ri_Environment = ''dev'', ri_BlastRadius = 0\<rparr>\<rparr>"

lemma demo_env_life: "statekit_api (en_Life demo_env)" "statekit_api (en_Step demo_env)"
  by (simp_all add: demo_env_def ref_statekit_api)

text \<open>A world with one stored rollout.\<close>

definition demo_with :: "rollout \<Rightarrow> world" where
  "demo_with r = demo_world\<lparr>w_db := db_SaveRollout r empty_db\<rparr>"

section \<open>Verification is a dry run\<close>

text \<open>Every failing gate says why, so an empty reason means that no gate failed.\<close>

lemma resolve_provider_why: "wp (resolve_provider E a) (\<lambda>pe _. pe \<noteq> Some []) w"
  unfolding resolve_provider_def by (simp add: wp_simps)

lemma runAnalysis_why: "wp (runAnalysis E a) (\<lambda>x _. \<not> fst x \<longrightarrow> snd x \<noteq> []) w"
  unfolding runAnalysis_def wp_bind
  by (rule wp_conseq [OF resolve_provider_why])
     (simp add: wp_simps split: option.splits sum.splits, auto intro!: wp_True split: if_splits)

lemma gate_details:
  "wp (gateHealth E r) (\<lambda>g _. is_fail g \<longrightarrow> gq_Detail g \<noteq> []) w"
  "wp (gateSmoke E st) (\<lambda>g _. is_fail g \<longrightarrow> gq_Detail g \<noteq> []) w"
  "wp (gateAnalysis E a) (\<lambda>g _. is_fail g \<longrightarrow> gq_Detail g \<noteq> []) w"
proof -
  show "wp (gateHealth E r) (\<lambda>g _. is_fail g \<longrightarrow> gq_Detail g \<noteq> []) w"
    unfolding gateHealth_def wp_simps
    by (simp split: sum.split option.split, intro conjI impI allI wp_True)
       (auto simp: is_fail_def gate_res_def split: prod.split option.split)
  show "wp (gateSmoke E st) (\<lambda>g _. is_fail g \<longrightarrow> gq_Detail g \<noteq> []) w"
    unfolding gateSmoke_def wp_simps
    by (auto simp: is_fail_def gate_res_def split: sum.split)
  show "wp (gateAnalysis E a) (\<lambda>g _. is_fail g \<longrightarrow> gq_Detail g \<noteq> []) w"
    unfolding gateAnalysis_def wp_bind
    by (rule wp_conseq [OF runAnalysis_why]) (auto simp: wp_simps is_fail_def gate_res_def split: prod.splits)
qed

lemma run_gate_details:
  assumes "\<And>m w. g = Some m \<Longrightarrow> wp m (\<lambda>x _. is_fail x \<longrightarrow> gq_Detail x \<noteq> []) w"
  shows "wp (run_gate failed name skip g) (\<lambda>x _. is_fail x \<longrightarrow> gq_Detail x \<noteq> []) w"
  unfolding run_gate_def using assms
  by (auto simp: wp_simps is_fail_def gate_res_def split: option.splits)

lemma runGates_details:
  "wp (runGates E r gs) (\<lambda>gates _. \<forall>g \<in> set gates. is_fail g \<longrightarrow> gq_Detail g \<noteq> []) w"
  unfolding runGates_def wp_bind wp_return
  by (rule wp_conseq [OF run_gate_details], (auto split: if_splits intro: gate_details)[1],
      rule wp_conseq [OF run_gate_details], (auto intro: gate_details)[1],
      rule wp_conseq [OF run_gate_details], auto intro: gate_details)

lemma firstFailure_none:
  "\<forall>g \<in> set gates. is_fail g \<longrightarrow> gq_Detail g \<noteq> [] \<Longrightarrow> firstFailure gates = [] \<longleftrightarrow> (\<forall>g \<in> set gates. \<not> is_fail g)"
  by (auto simp: firstFailure_def find_None_iff' split: option.splits dest: find_SomeD)

text \<open>
  Verify changes nothing: whatever the gates answer, the database, the held locks and the
  freeze are as before, no target is applied to, no database hook runs and nothing is saved; the
  only effects are health probes, the smoke command and metric queries. A report says OK exactly
  when none of its gates failed.
\<close>

theorem Verify_dry_run:
  "w_db (snd (run_state (Verify E rid) w)) = w_db w \<and>
   ext {KHealth, KSmoke, KMetric} w (snd (run_state (Verify E rid) w)) \<and>
   (case fst (run_state (Verify E rid) w) of
      Inr rep \<Rightarrow> vr_OK rep = list_all (\<lambda>g. gq_Status g \<noteq> GateFail) (vr_Gates rep)
    | Inl _ \<Rightarrow> True)"
proof -
  have a: "w_db (snd (run_state (Verify E rid) w)) = w_db w"
    using keeps_Verify(2) [of E rid] by (simp add: keeps_def db_same_def)
  have b: "ext {KHealth, KSmoke, KMetric} w (snd (run_state (Verify E rid) w))"
    using keeps_Verify(1) [of "{KHealth, KSmoke, KMetric}" E rid] by (simp add: keeps_def)
  have "wp (Verify E rid) (\<lambda>res _. case res of
      Inr rep \<Rightarrow> vr_OK rep = list_all (\<lambda>g. gq_Status g \<noteq> GateFail) (vr_Gates rep) | Inl _ \<Rightarrow> True) w"
    unfolding Verify_def wp_bind
    by (rule wp_True)
       (auto simp: wp_simps firstFailure_none list_all_iff is_fail_def split: sum.splits
         intro!: wp_conseq [OF runGates_details])
  then have "case fst (run_state (Verify E rid) w) of
      Inr rep \<Rightarrow> vr_OK rep = list_all (\<lambda>g. gq_Status g \<noteq> GateFail) (vr_Gates rep) | Inl _ \<Rightarrow> True"
    by (simp add: wp_def case_prod_beta)
  with a b show ?thesis by blast
qed

text \<open>
  C18: Verify predicts Promote. From one and the same state, when the dry run reports a failing
  gate the unforced Promote returns an error and leaves the database alone; when it reports OK,
  Promote goes on to the promotion itself. A rollout whose captured gates cannot be read is not
  promoted either.
\<close>

theorem Verify_predicts_Promote:
  "case run_state (Verify E rid) w of
     (Inl _, _) \<Rightarrow> snd (fst (run_state (Promote E rid who False) w)) \<noteq> None \<and>
        w_db (snd (run_state (Promote E rid who False) w)) = w_db w
   | (Inr rep, w1) \<Rightarrow>
        if vr_OK rep then run_state (Promote E rid who False) w = run_state (promote_and_record E rid who False []) w1
        else snd (fst (run_state (Promote E rid who False) w)) \<noteq> None \<and>
             w_db (snd (run_state (Promote E rid who False) w)) = w_db w"
proof -
  obtain l w0 where l: "run_state (LoadRollout E rid) w = (l, w0)" by fastforce
  have d0: "w_db w0 = w_db w" using keepsD [OF keeps_Load(2) l] by (simp add: db_same_def)
  show ?thesis
  proof (cases l)
    case (Inl e)
    then show ?thesis by (simp add: Verify_def Promote_def run_state_simps l d0)
  next
    case (Inr r)
    show ?thesis
    proof (cases "gatesFromRollout E r")
      case (Inl e)
      then show ?thesis using Inr by (simp add: Verify_def Promote_def run_state_simps l d0)
    next
      case gs: (Inr gs)
      obtain gates w1 where g: "run_state (runGates E r gs) w0 = (gates, w1)" by fastforce
      have "w_db w1 = w_db w0" using keepsD [OF keeps_runGates(2) g] by (simp add: db_same_def)
      then show ?thesis using Inr gs g d0 by (simp add: Verify_def Promote_def run_state_simps l)
    qed
  qed
qed

section \<open>Rollback\<close>

text \<open>A store whose operations do not fail.\<close>

definition store_up :: "env \<Rightarrow> bool" where
  "store_up E \<longleftrightarrow> (\<forall>n. en_StoreErr E n = None)"

text \<open>The rollout a rollback works on, after the prior manifest was applied at \<open>ts\<close>.\<close>

definition rolled_back :: "rollout \<Rightarrow> manifest \<Rightarrow> time \<Rightarrow> rollout" where
  "rolled_back r prior ts = r\<lparr>r_Phase := PhaseRolledBack, r_Desired := prior, r_UpdatedAt := ts\<rparr>"

lemma rollback_finish_wp:
  "wp (rollback_finish E r nt d) (\<lambda>(rb, e, r') w'. ext {KDB, KSaved} w w' \<and>
     r_Phase r' = r_Phase r \<and> r_Desired r' = r_Desired r \<and> r_ID r' = r_ID r \<and>
     (w_db w' = db_SaveRollout r' (w_db w) \<or> w_db w' = w_db w \<and> e \<noteq> None \<and> \<not> store_up E) \<and>
     (e = None \<longrightarrow> rb = r')) w"
proof -
  have k: "keeps (ext {KDB, KSaved}) (case d of
      Some h \<Rightarrow> if db_Command h \<noteq> [] then runDatabaseCommand E h else State_Monad.return None
    | None \<Rightarrow> State_Monad.return None)"
    "keeps db_same (case d of
      Some h \<Rightarrow> if db_Command h \<noteq> [] then runDatabaseCommand E h else State_Monad.return None
    | None \<Rightarrow> State_Monad.return None)"
    by (intro keeps_rules; simp)+
  have sv: "ext {KDB, KSaved} w (saved r1 v)" "ext {KDB, KSaved} w (tick1 v)" if "ext {KDB, KSaved} w v" for r1 v
    using that by (auto simp: ext_def intro: grows_trans [OF _ grows_snoc])
  show ?thesis
    unfolding rollback_finish_def Let_def wp_bind
    by (rule wp_frame [OF k]) (auto simp: wp_simps store_up_def split: option.split intro: sv)
qed

text \<open>A program that extends the trace after a given effect.\<close>

definition after_effect :: "effect \<Rightarrow> world \<Rightarrow> world \<Rightarrow> bool" where
  "after_effect e w w' \<longleftrightarrow> (\<exists>es. w_trace w' = w_trace w @ e # es)"

text \<open>No apply succeeded: none was tried, or the one of \<open>prior\<close> to the rollout's target failed.\<close>

definition no_apply_succeeded :: "rollout \<Rightarrow> manifest \<Rightarrow> world \<Rightarrow> world \<Rightarrow> bool" where
  "no_apply_succeeded r prior w w' \<longleftrightarrow> w_trace w' = w_trace w \<or>
     (\<exists>t e. t_Ref t = r_TargetRef r \<and> w_trace w' = w_trace w @ [TargetApply t prior (Some e)])"

lemma after_effectI: "w_trace v = w_trace w @ [e] \<Longrightarrow> ext K v w' \<Longrightarrow> after_effect e w w'"
  by (auto simp: after_effect_def ext_def grows_def)

lemma applyRollback_wp:
  assumes "statekit_api (en_Life E)"
  shows "wp (applyRollback E r prior nt d force) (\<lambda>(rb, e, r') w'.
     if rollback_gate r (rollback_hook r d) force \<or> r_Phase r \<notin> deployed_phases \<union> {PhaseAwaitingApproval}
     then e \<noteq> None \<and> w' = w \<and> r' = r
     else
       ((\<exists>t. t_Ref t = r_TargetRef r \<and> after_effect (TargetApply t prior None) w w') \<and>
          r_Phase r' = PhaseRolledBack \<and> r_Desired r' = prior \<and> r_ID r' = r_ID r \<and>
          (w_db w' = db_SaveRollout r' (w_db w) \<or> w_db w' = w_db w \<and> e \<noteq> None \<and> \<not> store_up E) \<and>
          (e = None \<longrightarrow> rb = r')) \<or>
       (e \<noteq> None \<and> r' = r \<and> w_db w' = w_db w \<and> no_apply_succeeded r prior w w')) w"
proof (cases "rollback_gate r (rollback_hook r d) force \<or> r_Phase r \<notin> deployed_phases \<union> {PhaseAwaitingApproval}")
  case True
  have "\<exists>e. lc_Send (en_Life E) \<lparr>lc_Machine = lifecycle_machine (r_Phase r), lc_Phase = r_Phase r, lc_Ctx = planned_ctx\<rparr>
      EventRollback = (Some e, \<lparr>lc_Machine = lifecycle_machine (r_Phase r), lc_Phase = r_Phase r, lc_Ctx = planned_ctx\<rparr>)"
    if "r_Phase r \<notin> deployed_phases \<union> {PhaseAwaitingApproval}"
    by (rule resume_send(3) [OF assms]) (simp only: step_Rollback that if_False)
  with True show ?thesis
    by (auto simp: applyRollback_def Let_def wp_simps resume_send(1) [OF assms])
next
  case False
  then have gate: "\<not> rollback_gate r (rollback_hook r d) force"
    and ph: "r_Phase r \<in> deployed_phases \<union> {PhaseAwaitingApproval}" by auto
  have send: "lc_Send (en_Life E) \<lparr>lc_Machine = lifecycle_machine (r_Phase r), lc_Phase = r_Phase r, lc_Ctx = planned_ctx\<rparr>
      EventRollback = (None, \<lparr>lc_Machine = lifecycle_machine (r_Phase r), lc_Phase = PhaseRolledBack, lc_Ctx = planned_ctx\<rparr>)"
    by (rule resume_send(2) [OF assms]) (simp only: step_Rollback ph if_True)
  define Q where "Q = (\<lambda>(rb, e :: err option, r') w'. ((\<exists>t. t_Ref t = r_TargetRef r \<and> after_effect (TargetApply t prior None) w w') \<and>
          r_Phase r' = PhaseRolledBack \<and> r_Desired r' = prior \<and> r_ID r' = r_ID r \<and>
          (w_db w' = db_SaveRollout r' (w_db w) \<or> w_db w' = w_db w \<and> e \<noteq> None \<and> \<not> store_up E) \<and>
          (e = None \<longrightarrow> rb = r')) \<or>
       (e \<noteq> None \<and> r' = r \<and> w_db w' = w_db w \<and> no_apply_succeeded r prior w w'))"
  have leaf: "Q (r2, Some e, r) v" if "w_db v = w_db w" "no_apply_succeeded r prior w v" for r2 e v
    using that by (simp add: Q_def)
  have tail: "wp (resetDelivery E r1) (\<lambda>_. wp (rollback_finish E r1 nt dd) Q) v"
    if "w_trace v = w_trace w @ [TargetApply t prior None]" "w_db v = w_db w" "t_Ref t = r_TargetRef r"
      "r_Phase r1 = PhaseRolledBack" "r_Desired r1 = prior" "r_ID r1 = r_ID r" for v t r1 dd
    by (rule wp_frame [where K = "{KDB, KSaved, KAudit, KTraffic, KFlag}", OF keeps_resetDelivery(1,2)], simp_all)
       (rule wp_conseq [OF rollback_finish_wp], use that in
        \<open>auto simp: Q_def intro!: exI [of _ t] after_effectI [where v = v] intro: ext.frame_trans
          dest: ext_mono_rel [where L = "{KDB, KSaved, KAudit, KTraffic, KFlag}"]\<close>)
  have "wp (applyRollback E r prior nt d force) Q w"
    using gate
    by (auto simp: applyRollback_def Let_def wp_simps resume_send(1) [OF assms] send
      split: sum.split option.split intro!: tail leaf)
       (auto simp: no_apply_succeeded_def target_of_manifest_ref)
  then show ?thesis using False by (simp add: Q_def)
qed

text \<open>
  C3: the rollback core does all or says why. When the release ran a migration that is not
  declared backward compatible, has no reverse command and the rollback is not forced, or when the
  phase has no way to rolled-back, it fails and changes nothing. Otherwise one of two things
  happened. Either the prior manifest was applied to the rollout's target, the rollout is now
  rolled-back with the prior manifest as its desired state, and exactly that rollout was saved,
  also when the reverse database command failed and an error is returned; only a store that fails
  can leave the database as it was, and then an error is returned. Or no apply succeeded, and then
  there is an error and the rollout and the database are as before.
\<close>

theorem applyRollback_outcomes:
  assumes "statekit_api (en_Life E)"
  shows "case run_state (applyRollback E r prior nt d force) w of ((rb, e, r'), w') \<Rightarrow>
     if rollback_gate r (rollback_hook r d) force \<or> r_Phase r \<notin> deployed_phases \<union> {PhaseAwaitingApproval}
     then e \<noteq> None \<and> w' = w \<and> r' = r
     else
       ((\<exists>t. t_Ref t = r_TargetRef r \<and> after_effect (TargetApply t prior None) w w') \<and>
          r_Phase r' = PhaseRolledBack \<and> r_Desired r' = prior \<and> r_ID r' = r_ID r \<and>
          (w_db w' = db_SaveRollout r' (w_db w) \<or> w_db w' = w_db w \<and> e \<noteq> None \<and> \<not> store_up E) \<and>
          (e = None \<longrightarrow> rb = r')) \<or>
       (e \<noteq> None \<and> r' = r \<and> w_db w' = w_db w \<and> no_apply_succeeded r prior w w')"
  using applyRollback_wp [OF assms, where r = r and prior = prior and nt = nt and d = d and force = force and w = w]
  by (auto simp: wp_def split: prod.splits if_splits)

text \<open>A promoted rollout that ran a migration; its rollback brings a reverse command.\<close>

definition demo_promoted :: rollout where
  "demo_promoted = zero_rollout\<lparr>r_ID := ''ro-1'', r_TargetRef := ''web'', r_Phase := PhasePromoted, r_DBMigrateCmd := [''up'']\<rparr>"

definition demo_reverse :: database_rollback where
  "demo_reverse = \<lparr>db_Command = [''down''], db_Timeout = [], db_When = []\<rparr>"

lemma demo_rollback_succeeds:
  "wp (applyRollback demo_env demo_promoted zero_manifest [] (Some demo_reverse) False) (\<lambda>(rb, e, r') w'. e = None) demo_world"
proof -
  have send: "lc_Send (en_Life demo_env) \<lparr>lc_Machine = lifecycle_machine PhasePromoted, lc_Phase = PhasePromoted, lc_Ctx = planned_ctx\<rparr>
      EventRollback = (None, \<lparr>lc_Machine = lifecycle_machine PhasePromoted, lc_Phase = PhaseRolledBack, lc_Ctx = planned_ctx\<rparr>)"
    by (rule resume_send(2) [OF demo_env_life(1)]) (simp add: step_Rollback deployed_phases_def)
  have env: "en_Build demo_env n t = None" "en_Apply demo_env n t m = None" "en_DBRun demo_env n c x = None"
    "en_StoreErr demo_env n = None" for n t m c x
    by (simp_all add: demo_env_def)
  show ?thesis
    by (simp add: applyRollback_def Let_def wp_simps resume_send(1) [OF demo_env_life(1)] send demo_promoted_def demo_reverse_def
      rollback_gate_def rollback_hook_def has_hook_def zero_rollout_def zero_manifest_def target_of_manifest_def has_blob_def
      resetDelivery_def rollback_finish_def runDatabaseCommand_def run_db_cmd_def env)
qed

theorem applyRollback_outcomes_witness:
  "case run_state (applyRollback demo_env demo_promoted zero_manifest [] (Some demo_reverse) False) demo_world of ((rb, e, r'), w') \<Rightarrow>
     e = None \<and> r_Phase rb = PhaseRolledBack \<and> w_db w' = db_SaveRollout rb empty_db"
  using applyRollback_outcomes [OF demo_env_life(1), where prior = zero_manifest and nt = "[]" and d = "Some demo_reverse" and
      force = False and w = demo_world and r = demo_promoted] demo_rollback_succeeds
  by (auto simp: wp_def rollback_gate_def rollback_hook_def has_hook_def demo_promoted_def demo_reverse_def zero_rollout_def
    deployed_phases_def demo_world_def split: prod.splits)

section \<open>A failed deploy step\<close>

lemma send_error_deploying:
  assumes "statekit_api (en_Life E)" "wf_lifecycle lc" "lc_Phase lc = PhaseDeploying"
  shows "lc_Send (en_Life E) lc EventError = (None, lc\<lparr>lc_Phase := PhaseRolledBack\<rparr>)"
  by (rule lc_Send_step [OF assms(1,2)]) (simp add: assms(3) lifecycle_step_def)

lemma wp_record_quiet:
  "wp (record_audit E en) Q w \<longleftrightarrow> Q () (if en_Audit E then w\<lparr>w_trace := w_trace w @ [AuditRecord en]\<rparr> else w)"
  by (simp add: record_audit_def wp_simps)

lemma wp_notify_quiet:
  "wp (notifyDeployment E k r d) Q w \<longleftrightarrow>
     Q () (if en_Notifier E then w\<lparr>w_trace := w_trace w @ [Notified \<lparr>ne_Kind = k, ne_TargetRef = r_TargetRef r,
       ne_RolloutID = r_ID r, ne_Detail = d, ne_Version = fst (deploymentFacts r), ne_Environment = snd (deploymentFacts r)\<rparr>]\<rparr> else w)"
  by (simp add: notifyDeployment_def notifyEvent_def wp_simps case_prod_beta)

text \<open>The phase the store holds for a rollout.\<close>

definition stored_phase :: "string \<Rightarrow> world \<Rightarrow> phase option" where
  "stored_phase rid w = (case db_LoadRollout rid (w_db w) of Inr r \<Rightarrow> Some (r_Phase r) | Inl _ \<Rightarrow> None)"

lemma stored_phase_save:
  "wf_db (w_db w) \<Longrightarrow> w_db w' = db_SaveRollout r (w_db w) \<Longrightarrow> stored_phase (r_ID r) w' = Some (r_Phase r)"
  by (simp add: stored_phase_def sqlite.load_saved)

lemma mark_failed_wp:
  assumes "statekit_api (en_Life E)" "wf_lifecycle lc" "lc_Phase lc = PhaseDeploying"
  shows "wp (mark_failed E lc r e who) (\<lambda>(ro, er) w'. er \<noteq> None \<and>
    (\<exists>r2. ro = Some r2 \<and> r_Phase r2 = PhaseRolledBack \<and> r_ID r2 = r_ID r \<and>
       (store_up E \<and> wf_db (w_db w) \<longrightarrow> stored_phase (r_ID r) w' = Some PhaseRolledBack))) w"
  unfolding mark_failed_def Let_def wp_bind
  by (auto simp: wp_simps wp_record_quiet wp_notify_quiet send_error_deploying [OF assms] store_up_def
    stored_phase_def sqlite.load_saved split: option.split)

text \<open>The rollout \<open>rid\<close> was ended: an error, a rolled-back result, and so it is stored.\<close>

definition ended :: "env \<Rightarrow> string \<Rightarrow> ptr_result \<Rightarrow> world \<Rightarrow> bool" where
  "ended E rid res w' \<longleftrightarrow> snd res \<noteq> None \<and>
    (\<exists>r2. fst res = Some r2 \<and> r_Phase r2 = PhaseRolledBack \<and> r_ID r2 = rid \<and>
       (store_up E \<longrightarrow> stored_phase rid w' = Some PhaseRolledBack))"

lemma mark_failed_ended:
  assumes "statekit_api (en_Life E)" "wf_lifecycle lc" "lc_Phase lc = PhaseDeploying" "r_ID r = rid" "wf_db (w_db w)"
  shows "wp (mark_failed E lc r e who) (ended E rid) w"
  by (rule wp_conseq [OF mark_failed_wp [OF assms(1-3)]]) (use assms(4,5) in \<open>auto simp: ended_def\<close>)

lemma after_auto_rollback_ended:
  assumes "statekit_api (en_Life E)" "wf_lifecycle lc" "lc_Phase lc = PhaseDeploying" "r_ID r' = rid" "wf_db (w_db w)"
    and "er = None \<Longrightarrow> rb = r' \<and> r_Phase rb = PhaseRolledBack \<and> (\<exists>d. wf_db d \<and> w_db w = db_SaveRollout rb d)"
  shows "wp (after_auto_rollback E lc e who (rb, er, r')) (ended E rid) w"
proof (cases er)
  case None
  with assms(4,6) show ?thesis
    by (auto simp: after_auto_rollback_def wp_simps wp_record_quiet wp_notify_quiet ended_def stored_phase_def
      sqlite.load_saved)
next
  case (Some x)
  then show ?thesis using mark_failed_ended [OF assms(1-5)] by (simp add: after_auto_rollback_def)
qed

lemma failProgressive_wp:
  assumes "statekit_api (en_Life E)" "wf_lifecycle lc" "lc_Phase lc = PhaseDeploying" "wf_db (w_db w)"
  shows "wp (failProgressive E lc r cfg m e who) (ended E (r_ID r)) w"
proof -
  have rb: "wp (applyRollback E r prior nt d True) (\<lambda>x. wp (after_auto_rollback E lc e who x) (ended E (r_ID r))) v"
    if "wf_db (w_db v)" for prior nt d v
    by (rule wp_conseq [OF wp_conj [OF applyRollback_wp [OF assms(1)] keeps_wp [OF keeps_applyRollback(2)]]])
       (use that in \<open>auto simp: db_wf_def split: if_splits intro!: after_auto_rollback_ended [OF assms(1-3)]\<close>)
  show ?thesis
    unfolding failProgressive_def
    using assms(4)
    by (auto simp: wp_bind split: option.split intro!: mark_failed_ended [OF assms(1-3)]
      wp_frame [OF keeps_prior(3,4), where K = "{}"] rb)
qed

text \<open>
  C4: a deploy step that fails always ends the rollout. Whatever went wrong, with or without an
  automatic rollback, and whether or not that rollback itself succeeds, failProgressive returns an
  error and a rollout in rolled-back; as long as the store answers, that is also the phase the
  store holds afterwards, so the target is not left in flight.
\<close>

theorem failProgressive_ends_rolled_back:
  assumes "statekit_api (en_Life E)" "wf_lifecycle lc" "lc_Phase lc = PhaseDeploying" "wf_db (w_db w)"
  shows "case run_state (failProgressive E lc r cfg m e who) w of ((ro, er), w') \<Rightarrow>
    er \<noteq> None \<and> (\<exists>r2. ro = Some r2 \<and> r_Phase r2 = PhaseRolledBack \<and> r_ID r2 = r_ID r \<and>
       (store_up E \<longrightarrow> stored_phase (r_ID r) w' = Some PhaseRolledBack))"
  using failProgressive_wp [OF assms, of r cfg m e who] by (auto simp: wp_def ended_def split: prod.splits)

theorem failProgressive_ends_rolled_back_witness:
  "case run_state (failProgressive demo_env \<lparr>lc_Machine = lifecycle_machine PhaseDeploying, lc_Phase = PhaseDeploying, lc_Ctx = planned_ctx\<rparr>
      (zero_rollout\<lparr>r_ID := ''ro-1''\<rparr>) demo_config zero_manifest (Err ''boom'') demo_human) demo_world of ((ro, er), w') \<Rightarrow>
    er \<noteq> None \<and> stored_phase ''ro-1'' w' = Some PhaseRolledBack"
  using failProgressive_ends_rolled_back [OF demo_env_life(1),
      of "\<lparr>lc_Machine = lifecycle_machine PhaseDeploying, lc_Phase = PhaseDeploying, lc_Ctx = planned_ctx\<rparr>" demo_world
         "zero_rollout\<lparr>r_ID := ''ro-1''\<rparr>" demo_config zero_manifest "Err ''boom''" demo_human]
  by (auto simp: wf_lifecycle_def lifecycle_machine_def demo_world_def wf_empty_db store_up_def demo_env_def split: prod.splits)

end
