(* ===== verification/Engine_Canary.thy ===== *)
theory Engine_Canary
  imports Engine_Safety
begin

text \<open>
  Frames of the operations that drive the canary stepper, and of \<open>Apply\<close>, \<open>Approve\<close>, \<open>Reject\<close>,
  the schedules and the operator controls on top of it. The interpreter of the step machine is
  any one with the laws of \<open>statekit_api\<close>: it changes the world through the entry actions of the
  machine only, and these probe the target's health.
\<close>

section \<open>Running the stepper keeps what the health gate keeps\<close>

definition gate_keeps :: "(world \<Rightarrow> world \<Rightarrow> bool) \<Rightarrow> (world \<times> err option) step_health \<Rightarrow> bool" where
  "gate_keeps R h \<longleftrightarrow> (\<forall>i wt wh. R (fst wh) (fst (snd (h i wt wh))))"

lemma gate_keeps_stepHealth: "keeps R (healthWithRetry E t) \<Longrightarrow> gate_keeps R (stepHealth E t)"
  by (auto simp: gate_keeps_def stepHealth_def keeps_def split: prod.splits option.splits)
     (metis fst_conv snd_conv)+

lemma keeps_with_health: "(\<And>wh. R (fst wh) (fst (snd (f wh)))) \<Longrightarrow> keeps R (with_health f he)"
proof (unfold keeps_def, rule allI)
  fix w
  assume a: "\<And>wh. R (fst wh) (fst (snd (f wh)))"
  show "R w (snd (run_state (with_health f he) w))"
    using a [of "(w, he)"] by (auto simp: with_health_def run_state_simps split: prod.splits)
qed

lemma entry_keeps:
  assumes "frame R" "gate_keeps R h"
  shows "R (fst wh) (fst (snd (run_entry (step_machine plan h) s (c, wh))))"
proof (cases s)
  case (StepSt i)
  have "R (fst wh) (fst (snd (h i wt wh)))" for wt
    using assms(2) unfolding gate_keeps_def by blast
  then show ?thesis using StepSt frame.frame_refl [OF assms(1)]
    by (auto simp: enter_step_def split: prod.split) (metis fst_conv snd_conv)
qed (simp_all add: frame.frame_refl [OF assms(1)])

lemma keeps_stepper:
  assumes "statekit_api sk" "pl_Steps plan \<noteq> []" "frame R" "gate_keeps R h"
  shows "keeps R (with_health (NewStepper sk (step_machine plan h)) he)"
    and "keeps R (with_health (step_send sk (step_machine plan h) ev st) he)"
    and "keeps R (with_health (step_advance sk (step_machine plan h) d st) he)"
proof -
  let ?m = "step_machine plan h" and ?R = "\<lambda>a b. R (fst a) (fst b)"
  have R: "reflp ?R" "transp ?R"
    by (auto intro!: reflpI transpI intro: frame.frame_refl [OF assms(3)] frame.frame_trans [OF assms(3)])
  note mv = statekit_api.moves_keep [OF assms(1) closed_step_machine [OF assms(2)] R entry_keeps [OF assms(3,4)]]
  show "keeps R (with_health (NewStepper sk ?m) he)"
    by (rule keeps_with_health) (use mv(1) in \<open>auto simp: NewStepper_def split: prod.splits\<close>, metis snd_conv fst_conv)
  show "keeps R (with_health (step_send sk ?m ev st) he)"
    by (rule keeps_with_health) (use mv(2) in \<open>auto simp: step_send_def split: prod.splits\<close>, metis snd_conv fst_conv)
  show "keeps R (with_health (step_advance sk ?m d st) he)"
    by (rule keeps_with_health) (use mv(3) in \<open>auto simp: step_advance_def split: prod.splits\<close>, metis snd_conv fst_conv)
qed

lemma BuildStepMachine_Inr:
  "BuildStepMachine sk plan h = Inr m \<Longrightarrow>
   pl_Steps plan \<noteq> [] \<and> m = step_machine plan (case h of Some f \<Rightarrow> f | None \<Rightarrow> (\<lambda>_ _ w. (True, w)))"
  by (auto simp: BuildStepMachine_def Let_def split: if_splits option.splits)

section \<open>Frames of the canary\<close>

abbreviation step_kinds :: "ekind set" where
  "step_kinds \<equiv> {KHealth, KSaved, KAudit, KTraffic, KFlag}"

abbreviation canary_kinds :: "ekind set" where
  "canary_kinds \<equiv> {KApply, KHealth, KDB, KSaved, KAudit, KTraffic, KFlag, KNotify}"

lemma keeps_drive_loop:
  assumes "statekit_api (en_Step E)" "pl_Steps plan \<noteq> []" "frame R" "gate_keeps R h"
    and "keeps R (now E)" "\<And>st r. keeps R (recordStep E cfg plan st r)"
  shows "keeps R (drive_loop E cfg plan (step_machine plan h) n st r entered he)"
proof (induction n arbitrary: st r entered he)
  case 0
  show ?case by (simp add: frame.keeps_return [OF assms(3)])
next
  case (Suc n)
  have w: "keeps R (with_health (if b then step_send (en_Step E) (step_machine plan h) EvNext st
      else step_advance (en_Step E) (step_machine plan h) d st) he)" for b d
    by (simp add: keeps_stepper [OF assms(1-4)])
  show ?case unfolding drive_loop.simps Let_def
    by (intro keeps_rules frame.keeps_bind [OF assms(3)] frame.keeps_return [OF assms(3)] assms(5,6) Suc.IH w)
qed

lemma keeps_driveStepper:
  assumes "statekit_api (en_Step E)" "pl_Steps plan \<noteq> []"
  shows "canary_kinds \<subseteq> K \<Longrightarrow> gate_keeps (ext K) h \<Longrightarrow> keeps (ext K) (driveStepper E lc r cfg plan (step_machine plan h) st entered he who)"
    and "gate_keeps db_wf h \<Longrightarrow> keeps db_wf (driveStepper E lc r cfg plan (step_machine plan h) st entered he who)"
  unfolding driveStepper_def
  by (intro keeps_rules keeps_drive_loop assms ext.frame_axioms dbw.frame_axioms; (simp; fail)?;
      auto split: loop_out.split intro!: keeps_rules)+

lemma gate_keeps_engine: "KHealth \<in> K \<Longrightarrow> gate_keeps (ext K) (stepHealth E t)" "gate_keeps db_wf (stepHealth E t)"
  by (intro gate_keeps_stepHealth keeps_rules; assumption)+

lemma gate_keeps_none: "frame R \<Longrightarrow> gate_keeps R (\<lambda>_ _ w. (True, w))"
  by (simp add: gate_keeps_def frame.frame_refl)

lemma keeps_startStepper:
  assumes "statekit_api (en_Step E)"
  shows "canary_kinds \<subseteq> K \<Longrightarrow> keeps (ext K) (startStepper E lc r cfg t who)" "keeps db_wf (startStepper E lc r cfg t who)"
  unfolding startStepper_def Let_def
  by (intro keeps_rules; ((drule BuildStepMachine_Inr)?; clarsimp)?;
      intro keeps_driveStepper keeps_stepper keeps_rules assms ext.frame_axioms dbw.frame_axioms gate_keeps_engine; simp)+

lemma keeps_stepHealth:
  "KHealth \<in> K \<Longrightarrow> keeps (ext K) (with_health (stepHealth E t i wt) he)" "keeps db_wf (with_health (stepHealth E t i wt) he)"
  by (rule keeps_with_health, use gate_keeps_engine in \<open>auto simp: gate_keeps_def\<close>)+

lemma keeps_tick_restored:
  assumes "statekit_api (en_Step E)" "pl_Steps (pe_Plan per) \<noteq> []"
  shows "canary_kinds \<subseteq> K \<Longrightarrow>
      keeps (ext K) (tick_restored E r cfg t per (step_machine (pe_Plan per) (stepHealth E t)) st lc)"
    "keeps db_wf (tick_restored E r cfg t per (step_machine (pe_Plan per) (stepHealth E t)) st lc)"
  unfolding tick_restored_def Let_def
  by (intro keeps_rules keeps_driveStepper keeps_stepHealth assms gate_keeps_engine; simp)+

lemma keeps_tick_locked:
  assumes "statekit_api (en_Step E)"
  shows "canary_kinds \<subseteq> K \<Longrightarrow> keeps (ext K) (tick_locked E r cfg)" "keeps db_wf (tick_locked E r cfg)"
  unfolding tick_locked_def
  by (intro keeps_rules; ((drule BuildStepMachine_Inr)?; clarsimp)?; intro keeps_tick_restored keeps_rules assms; simp)+

lemma keeps_Tick:
  assumes "statekit_api (en_Step E)"
  shows "canary_kinds \<subseteq> K \<Longrightarrow> keeps (ext K) (Tick E rid cfg)" "keeps db_wf (Tick E rid cfg)"
  unfolding Tick_def by (intro keeps_rules keeps_tick_locked assms; assumption)+

section \<open>Operator control\<close>

lemma keeps_restoreControl [keeps_rules]:
  "keeps (ext K) (restoreControlStepper E r)" "keeps db_wf (restoreControlStepper E r)"
  unfolding restoreControlStepper_def by (intro keeps_rules)+

text \<open>The control stepper runs with a gate that always passes and touches nothing.\<close>

lemma restoreControl_machine:
  "wp (restoreControlStepper E r) (\<lambda>c _. \<forall>m st per. c = Inr (m, st, per) \<longrightarrow>
     pl_Steps (pe_Plan per) \<noteq> [] \<and> m = step_machine (pe_Plan per) (\<lambda>_ _ w. (True, w))) w"
  unfolding restoreControlStepper_def
  by (auto simp: wp_simps dest: BuildStepMachine_Inr split: sum.splits if_splits)

lemma keeps_control_send:
  assumes "statekit_api (en_Step E)" "pl_Steps plan \<noteq> []" "frame R"
  shows "keeps R (with_health (step_send (en_Step E) (step_machine plan (\<lambda>_ _ w. (True, w))) ev st) he)"
  by (rule keeps_stepper(2) [OF assms gate_keeps_none [OF assms(3)]])

lemma keeps_bind_wp:
  assumes "frame R" "keeps R m" "\<And>w. wp m (\<lambda>x _. P x) w" "\<And>x. P x \<Longrightarrow> keeps R (f x)"
  shows "keeps R (State_Monad.bind m f)"
proof (unfold keeps_def, rule allI)
  fix w
  obtain x w' where m: "run_state m w = (x, w')" by fastforce
  have "R w w'" by (rule keepsD [OF assms(2) m])
  moreover have "R w' (snd (run_state (f x) w'))"
    using assms(4) [OF wpD [OF assms(3) m]] by (simp add: keeps_def)
  ultimately show "R w (snd (run_state (State_Monad.bind m f) w))"
    using frame.frame_trans [OF assms(1)] by (simp add: run_state_bind m)
qed

lemma keeps_saveControl [keeps_rules]:
  "{KSaved, KAudit} \<subseteq> K \<Longrightarrow> keeps (ext K) (saveControl E r lc st plan entered who detail)"
  "keeps db_wf (saveControl E r lc st plan entered who detail)"
  unfolding saveControl_def Let_def by (intro keeps_rules; simp)+

lemma keeps_control_body:
  assumes "statekit_api (en_Step E)"
  shows "{KSaved, KAudit} \<subseteq> K \<Longrightarrow> keeps (ext K) (control_body E r want oper sev lev restart who detail)"
    "keeps db_wf (control_body E r want oper sev lev restart who detail)"
  unfolding control_body_def
  by (intro keeps_if ext.keeps_return dbw.keeps_return
       keeps_bind_wp [OF ext.frame_axioms _ restoreControl_machine] keeps_bind_wp [OF dbw.frame_axioms _ restoreControl_machine]
       keeps_restoreControl;
      intro keeps_rules; clarsimp?;
      intro keeps_control_send keeps_rules assms ext.frame_axioms dbw.frame_axioms; simp)+

lemma keeps_holdTarget [keeps_rules]:
  "(\<And>r. keeps (ext K) (body r)) \<Longrightarrow> keeps (ext K) (holdTarget E rid body)"
  "(\<And>r. keeps db_wf (body r)) \<Longrightarrow> keeps db_wf (holdTarget E rid body)"
  unfolding holdTarget_def by (intro keeps_rules; simp)+

lemma keeps_control:
  assumes "statekit_api (en_Step E)"
  shows "{KSaved, KAudit} \<subseteq> K \<Longrightarrow> keeps (ext K) (Pause E rid who)" "keeps db_wf (Pause E rid who)"
    "{KSaved, KAudit} \<subseteq> K \<Longrightarrow> keeps (ext K) (Resume E rid who)" "keeps db_wf (Resume E rid who)"
  unfolding Pause_def Resume_def by (intro keeps_rules keeps_control_body assms; assumption)+

lemma keeps_abort_in_place [keeps_rules]:
  "{KSaved, KAudit, KNotify, KTraffic, KFlag} \<subseteq> K \<Longrightarrow> keeps (ext K) (abort_in_place E r nt detail who)"
  "keeps db_wf (abort_in_place E r nt detail who)"
  unfolding abort_in_place_def Let_def by (intro keeps_rules; simp)+

lemma keeps_abort_signal:
  assumes "statekit_api (en_Step E)" "frame R" "keeps R (restoreControlStepper E r)"
  shows "keeps R (if has_blob (r_StepperSnap r) then do {
           c \<leftarrow> restoreControlStepper E r;
           (case c of
              Inl _ \<Rightarrow> State_Monad.return ()
            | Inr (m, st, _) \<Rightarrow> do { _ \<leftarrow> with_health (step_send (en_Step E) m EvAbort st) None; State_Monad.return () })
         } else State_Monad.return ())"
  by (intro keeps_if keeps_bind_wp [OF assms(2,3) restoreControl_machine] keeps_sum keeps_prod
       frame.keeps_return [OF assms(2)] frame.keeps_bind [OF assms(2)]; clarsimp)
     (rule keeps_control_send [OF assms(1) _ assms(2)], assumption)

lemma keeps_abort_body:
  assumes "statekit_api (en_Step E)"
  shows "insert KNotify rollback_kinds \<subseteq> K \<Longrightarrow> keeps (ext K) (abort_body E r who)" "keeps db_wf (abort_body E r who)"
  unfolding abort_body_def Let_def
  by (intro keeps_abort_signal ext.frame_axioms dbw.frame_axioms assms keeps_rules; simp)+

lemma keeps_Abort:
  assumes "statekit_api (en_Step E)"
  shows "insert KNotify rollback_kinds \<subseteq> K \<Longrightarrow> keeps (ext K) (Abort E rid who)" "keeps db_wf (Abort E rid who)"
  unfolding Abort_def by (intro keeps_rules keeps_abort_body assms; assumption)+

section \<open>Apply, approval, schedules\<close>

abbreviation apply_kinds :: "ekind set" where
  "apply_kinds \<equiv> insert KDiff canary_kinds"

lemma keeps_check_artifact [keeps_rules]:
  "keeps (ext K) (check_artifact E t)" "keeps db_same (check_artifact E t)" "keeps db_wf (check_artifact E t)"
  unfolding check_artifact_def Let_def by (intro keeps_rules)+

lemma keeps_apply_rollout:
  assumes "statekit_api (en_Step E)"
  shows "apply_kinds \<subseteq> K \<Longrightarrow> keeps (ext K) (apply_rollout E req need score m t)"
    "keeps db_wf (apply_rollout E req need score m t)"
  unfolding apply_rollout_def Let_def
  by (intro keeps_rules keeps_startStepper assms; simp)+

lemma keeps_apply_locked:
  assumes "statekit_api (en_Step E)"
  shows "apply_kinds \<subseteq> K \<Longrightarrow> keeps (ext K) (apply_locked E req need score)" "keeps db_wf (apply_locked E req need score)"
  unfolding apply_locked_def Let_def
  by (intro keeps_rules keeps_option keeps_apply_rollout assms; simp)+

lemma keeps_Apply:
  assumes "statekit_api (en_Step E)"
  shows "apply_kinds \<subseteq> K \<Longrightarrow> keeps (ext K) (Apply E req)" "keeps db_wf (Apply E req)"
  unfolding Apply_def by (intro keeps_rules keeps_apply_locked assms; simp)+

lemma keeps_Approve:
  "{KApply, KSaved, KAudit} \<subseteq> K \<Longrightarrow> keeps (ext K) (Approve E rid who)" "keeps db_wf (Approve E rid who)"
  unfolding Approve_def approve_locked_def Let_def by (intro keeps_rules; simp)+

lemma keeps_Reject: "KSaved \<in> K \<Longrightarrow> keeps (ext K) (Reject E rid who)" "keeps db_wf (Reject E rid who)"
  unfolding Reject_def Let_def by (intro keeps_rules; simp)+

lemma keeps_applyScheduled [keeps_rules]:
  "{KApply, KSaved, KAudit} \<subseteq> K \<Longrightarrow> keeps (ext K) (applyScheduled E s)" "keeps db_wf (applyScheduled E s)"
  unfolding applyScheduled_def sched_locked_def Let_def by (intro keeps_rules; simp)+

lemma wf_DeleteSchedule: "wf_db d \<Longrightarrow> wf_db (db_DeleteSchedule i d)"
  by (simp add: wf_db_def db_DeleteSchedule_def)

lemma keeps_fire_all:
  "{KApply, KSaved, KAudit} \<subseteq> K \<Longrightarrow> keeps (ext K) (fire_all E l)" "keeps db_wf (fire_all E l)"
proof -
  show "{KApply, KSaved, KAudit} \<subseteq> K \<Longrightarrow> keeps (ext K) (fire_all E l)"
    by (induction l) (unfold fire_all.simps, (intro keeps_rules; simp)+)
  show "keeps db_wf (fire_all E l)"
    by (induction l) (unfold fire_all.simps, (intro keeps_rules; simp add: wf_DeleteSchedule)+)
qed

lemma keeps_Fire:
  "{KApply, KSaved, KAudit} \<subseteq> K \<Longrightarrow> keeps (ext K) (FireDueSchedules E t)" "keeps db_wf (FireDueSchedules E t)"
  unfolding FireDueSchedules_def by (intro keeps_rules keeps_fire_all; assumption)+

lemma upsert_sched_stamped:
  "x \<in> set (upsert_sched y xs) \<Longrightarrow> x = y \<or> x \<in> set xs"
  by (induction xs) (auto split: if_splits)

lemma wf_Schedule: "wf_db d \<Longrightarrow> wf_db (db_Schedule s d)"
  by (auto simp: wf_db_def db_Schedule_def col_sched_def dest!: upsert_sched_stamped)

lemma keeps_Schedule: "keeps (ext K) (Schedule E s)" "keeps db_wf (Schedule E s)"
  unfolding Schedule_def by (intro keeps_rules; simp add: wf_Schedule)+

lemma keeps_Observe: "KObserve \<in> K \<Longrightarrow> keeps (ext K) (Observe E t)" "keeps db_wf (Observe E t)"
  unfolding Observe_def by (intro keeps_rules; simp)+

lemma keeps_Promote:
  "{KHealth, KSmoke, KMetric, KDB, KSaved, KAudit} \<subseteq> K \<Longrightarrow> keeps (ext K) (Promote E rid who force)" "keeps db_wf (Promote E rid who force)"
  unfolding Promote_def promote_and_record_def Let_def by (intro keeps_rules; simp)+

lemma keeps_VerifyOrRollback:
  "{KHealth, KSmoke, KMetric, KNotify} \<union> rollback_kinds \<subseteq> K \<Longrightarrow> keeps (ext K) (VerifyOrRollback E rid prior c)"
  "keeps db_wf (VerifyOrRollback E rid prior c)"
  unfolding VerifyOrRollback_def Let_def by (intro keeps_rules; simp)+

lemma keeps_RollbackLast:
  "rollback_kinds \<subseteq> K \<Longrightarrow> keeps (ext K) (RollbackLast E ref force)" "keeps db_wf (RollbackLast E ref force)"
  unfolding RollbackLast_def Rollback_def by (intro keeps_rules; simp)+

section \<open>Every operation\<close>

datatype engine_op =
    OpApply apply_request
  | OpApprove string identity
  | OpReject string identity
  | OpTick string config
  | OpPause string identity
  | OpResume string identity
  | OpAbort string identity
  | OpVerify string
  | OpPromote string identity bool
  | OpVerifyOrRollback string manifest config
  | OpRollback string manifest bool
  | OpRollbackLast string bool
  | OpSchedule scheduled_rollout
  | OpFireDueSchedules time
  | OpFreeze bool identity string
  | OpObserve cfg_target

fun run_op :: "env \<Rightarrow> engine_op \<Rightarrow> unit prog" where
  "run_op E (OpApply req) = do { _ \<leftarrow> Apply E req; State_Monad.return () }"
| "run_op E (OpApprove i who) = do { _ \<leftarrow> Approve E i who; State_Monad.return () }"
| "run_op E (OpReject i who) = do { _ \<leftarrow> Reject E i who; State_Monad.return () }"
| "run_op E (OpTick i cfg) = do { _ \<leftarrow> Tick E i cfg; State_Monad.return () }"
| "run_op E (OpPause i who) = do { _ \<leftarrow> Pause E i who; State_Monad.return () }"
| "run_op E (OpResume i who) = do { _ \<leftarrow> Resume E i who; State_Monad.return () }"
| "run_op E (OpAbort i who) = do { _ \<leftarrow> Abort E i who; State_Monad.return () }"
| "run_op E (OpVerify i) = do { _ \<leftarrow> Verify E i; State_Monad.return () }"
| "run_op E (OpPromote i who force) = do { _ \<leftarrow> Promote E i who force; State_Monad.return () }"
| "run_op E (OpVerifyOrRollback i prior cfg) = do { _ \<leftarrow> VerifyOrRollback E i prior cfg; State_Monad.return () }"
| "run_op E (OpRollback i prior force) = do { _ \<leftarrow> Rollback E i prior force; State_Monad.return () }"
| "run_op E (OpRollbackLast ref force) = do { _ \<leftarrow> RollbackLast E ref force; State_Monad.return () }"
| "run_op E (OpSchedule s) = do { _ \<leftarrow> Schedule E s; State_Monad.return () }"
| "run_op E (OpFireDueSchedules t) = do { _ \<leftarrow> FireDueSchedules E t; State_Monad.return () }"
| "run_op E (OpFreeze b who reason) = do { _ \<leftarrow> Freeze E b who reason; State_Monad.return () }"
| "run_op E (OpObserve t) = do { _ \<leftarrow> Observe E t; State_Monad.return () }"

text \<open>What is left alone by every operation, the freeze switch included.\<close>

definition op_frame :: "world \<Rightarrow> world \<Rightarrow> bool" where
  "op_frame w w' \<longleftrightarrow> set (w_locks w') = set (w_locks w) \<and> (wf_db (w_db w) \<longrightarrow> wf_db (w_db w')) \<and>
     (\<exists>es. w_trace w' = w_trace w @ es)"

interpretation opf: frame op_frame
  by unfold_locales (auto simp: op_frame_def)

lemma op_frameI: "keeps (ext UNIV) m \<Longrightarrow> keeps db_wf m \<Longrightarrow> keeps op_frame m"
  by (auto simp: keeps_def op_frame_def ext_def grows_def db_wf_def)

lemma Freeze_op_frame: "keeps op_frame (Freeze E b who reason)"
proof -
  have wf: "wf_db d \<Longrightarrow> wf_db (db_SaveFreeze f d)" for f d by (simp add: wf_db_def db_SaveFreeze_def)
  show ?thesis
    by (auto simp: keeps_def op_frame_def Freeze_def run_state_simps now_def st_call_def record_audit_def wf
      Let_def split: option.splits)
qed

lemma op_frames:
  assumes "statekit_api (en_Step E)"
  shows "keeps op_frame (Apply E req)" "keeps op_frame (Approve E i who)" "keeps op_frame (Reject E i who)"
    "keeps op_frame (Tick E i cfg)" "keeps op_frame (Pause E i who)" "keeps op_frame (Resume E i who)"
    "keeps op_frame (Abort E i who)" "keeps op_frame (Verify E i)" "keeps op_frame (Promote E i who force)"
    "keeps op_frame (VerifyOrRollback E i prior cfg)" "keeps op_frame (Rollback E i prior force)"
    "keeps op_frame (RollbackLast E ref force)" "keeps op_frame (Schedule E s)" "keeps op_frame (FireDueSchedules E t)"
    "keeps op_frame (Observe E tg)"
  unfolding Rollback_def
  by (rule op_frameI; intro keeps_Apply keeps_Approve keeps_Reject keeps_Tick keeps_control keeps_Abort keeps_Verify
      db_same_wf [OF keeps_Verify(2)] keeps_Promote keeps_VerifyOrRollback keeps_RollbackLast keeps_Schedule keeps_Fire
      keeps_Observe keeps_rollback assms; simp)+

lemma run_op_frame:
  assumes "statekit_api (en_Step E)"
  shows "keeps op_frame (run_op E oper)"
  by (cases oper) (simp_all add: opf.keeps_bind opf.keeps_return op_frames [OF assms] Freeze_op_frame)

text \<open>The worlds a process reaches: it starts with no lock held over tables some process left.\<close>

inductive engine_reach :: "env \<Rightarrow> world \<Rightarrow> bool" for E where
  start: "w_locks w = [] \<Longrightarrow> wf_db (w_db w) \<Longrightarrow> engine_reach E w"
| step: "engine_reach E w \<Longrightarrow> engine_reach E (snd (run_state (run_op E oper) w))"

lemma run_op_framed: "statekit_api (en_Step E) \<Longrightarrow> op_frame w (snd (run_state (run_op E oper) w))"
  using run_op_frame [of E oper] by (simp add: keeps_def)

lemma op_frame_locks: "op_frame w w' \<Longrightarrow> w_locks w = [] \<Longrightarrow> w_locks w' = []"
  by (simp add: op_frame_def)

lemma engine_reach_invariant:
  assumes "statekit_api (en_Step E)" "engine_reach E w"
  shows "w_locks w = [] \<and> wf_db (w_db w)"
  using assms(2)
proof (induction rule: engine_reach.induct)
  case (step w oper)
  note f = run_op_framed [OF assms(1), of w oper]
  show ?case using step.IH op_frame_locks [OF f] f unfolding op_frame_def by blast
qed simp

text \<open>
  C7: no operation leaks a lock or damages the tables. Whatever sequence of operations a process
  runs, whatever the targets, hooks, providers and the store answer and however each operation
  ends, between two operations no target lock is held and the database is well formed; and every
  operation only appends to the trace of what was done.
\<close>

theorem operations_release_locks:
  assumes "statekit_api (en_Step E)" "engine_reach E w"
  shows "w_locks w = [] \<and> wf_db (w_db w) \<and>
    (\<exists>es. w_trace (snd (run_state (run_op E oper) w)) = w_trace w @ es) \<and>
    w_locks (snd (run_state (run_op E oper) w)) = []"
proof -
  note f = run_op_framed [OF assms(1), of w oper] and i = engine_reach_invariant [OF assms]
  show ?thesis using i op_frame_locks [OF f] f unfolding op_frame_def by blast
qed

theorem operations_release_locks_witness:
  "w_locks (snd (run_state (run_op demo_env (OpApply demo_request)) demo_world)) = []"
proof -
  have "engine_reach demo_env demo_world"
    by (rule engine_reach.start) (simp_all add: demo_world_def wf_empty_db)
  then show ?thesis using operations_release_locks [OF demo_env_life(2), of demo_world "OpApply demo_request"] by simp
qed

end
