(* ===== verification/Engine_Control.thy ===== *)
theory Engine_Control
  imports Engine_Canary
begin

text \<open>
  How the canary moves: the driving loop ends within its fuel, a target that never answers healthy
  never gets past its first step, an interrupted rollout is handed to the post-deploy gate, and
  pause and resume put a canary back where it was.
\<close>

section \<open>The loop ends\<close>

text \<open>Steps still ahead of a state of the machine.\<close>

definition steps_left :: "pplan \<Rightarrow> step_state \<Rightarrow> nat" where
  "steps_left plan s = (case s of StepSt j \<Rightarrow> length (pl_Steps plan) - j | _ \<Rightarrow> 0)"

lemma entry_state:
  "fst (fst (gated_entry plan h i w)) = StepSt i \<or> fst (fst (gated_entry plan h i w)) = StateAborted"
  "fst (fst (raw_entry plan h i w)) = StepSt i"
  by (auto simp: gated_entry_def raw_entry_def Let_def split: prod.splits)

lemma step_send_idle:
  assumes "statekit_api sk" "pl_Steps plan \<noteq> []" "\<And>i. fst st = StepSt i \<Longrightarrow> length (pl_Steps plan) \<le> i"
  shows "step_send sk (step_machine plan h) EvNext st w = (st, w)"
    "step_advance sk (step_machine plan h) d st w = (st, w)"
proof -
  have en: "enabled (step_machine plan h) (fst st) (On EvNext) (snd st) = []"
    "enabled (step_machine plan h) (fst st) (After d) (snd st) = []"
    using assms(3) by (cases "fst st"; simp add: step_enabled step_transitions_def mk_tr_def Let_def)+
  note cl = closed_step_machine [OF assms(2)]
  show "step_send sk (step_machine plan h) EvNext st w = (st, w)"
    using statekit_api.Send_disabled [OF assms(1) cl en(1)] by (simp add: step_send_def)
  show "step_advance sk (step_machine plan h) d st w = (st, w)"
    using statekit_api.Advance_disabled [OF assms(1) cl en(2)] by (simp add: step_advance_def)
qed

lemma step_advance_other:
  assumes "statekit_api sk" "i < length (pl_Steps plan)" "d \<noteq> sp_Pause (pl_Steps plan ! i)"
  shows "step_advance sk (step_machine plan h) d (StepSt i, c) w = ((StepSt i, c), w)"
proof -
  have cl: "closed_machine (step_machine plan h)" using assms(2) by (intro closed_step_machine) auto
  have "enabled (step_machine plan h) (StepSt i) (After d) c = []"
    using assms(2,3) by (simp add: step_enabled [of _ i] step_transitions_def mk_tr_def Let_def)
  then show ?thesis by (simp add: step_advance_def statekit_api.Advance_disabled [OF assms(1) cl])
qed

text \<open>A move of the loop stays where it is or gets closer to the end.\<close>

lemma step_move:
  assumes "statekit_api sk" "pl_Steps plan \<noteq> []"
    and "x = step_send sk (step_machine plan h) EvNext st w \<or> 0 < d \<and> x = step_advance sk (step_machine plan h) d st w"
  shows "fst x = st \<or> steps_left plan (fst (fst x)) < steps_left plan (fst st)"
proof (cases "\<exists>i c. st = (StepSt i, c) \<and> i < length (pl_Steps plan)")
  case False
  then have "fst st = StepSt i \<Longrightarrow> length (pl_Steps plan) \<le> i" for i by (cases st) auto
  then show ?thesis using assms(3) step_send_idle [OF assms(1,2), of st] by auto
next
  case True
  then obtain i c where st: "st = (StepSt i, c)" and i: "i < length (pl_Steps plan)" by blast
  have next_left: "s = StepSt (Suc i) \<or> s = StateComplete \<or> s = StateAborted \<Longrightarrow> steps_left plan s < steps_left plan (StepSt i)" for s
    using i by (auto simp: steps_left_def)
  note en = entry_state [of plan h "Suc i" w]
  show ?thesis
  proof (cases "sc_Failed c \<or> x = step_advance sk (step_machine plan h) d st w \<and> d \<noteq> sp_Pause (pl_Steps plan ! i)")
    case True
    then have "x = (st, w)"
    proof
      assume "sc_Failed c"
      then show ?thesis
        using assms(3) st step_send_next_failed [OF assms(1) i, of c h w] step_advance_failed [OF assms(1) i, of c h d w]
        by auto
    next
      assume "x = step_advance sk (step_machine plan h) d st w \<and> d \<noteq> sp_Pause (pl_Steps plan ! i)"
      then show ?thesis using st step_advance_other [OF assms(1) i, of d h c w] by simp
    qed
    then show ?thesis by simp
  next
    case False
    then have "x = step_send sk (step_machine plan h) EvNext (StepSt i, c) w \<or>
        x = step_advance sk (step_machine plan h) d (StepSt i, c) w \<and> d = sp_Pause (pl_Steps plan ! i) \<and> 0 < d"
      using assms(3) st by auto
    then have "x \<in> {gated_entry plan h (Suc i) w, raw_entry plan h (Suc i) w, ((StateComplete, c), w)}"
      using False step_send_next [OF assms(1) i, of c h w] step_advance_pause [OF assms(1) i, of c d h w]
      by (auto split: if_splits)
    then have "fst (fst x) = StepSt (Suc i) \<or> fst (fst x) = StateComplete \<or> fst (fst x) = StateAborted"
      using en by (elim insertE) auto
    then show ?thesis using next_left [of "fst (fst x)"] st by simp
  qed
qed

lemma drive_loop_fuel:
  assumes "statekit_api (en_Step E)" "pl_Steps plan \<noteq> []" "\<forall>sp \<in> set (pl_Steps plan). 0 \<le> sp_Pause sp"
  shows "steps_left plan (fst st) < n \<Longrightarrow>
    wp (drive_loop E cfg plan (step_machine plan h) n st r entered he) (\<lambda>out _. out \<noteq> LoopFuel) w"
proof (induction n arbitrary: st r entered he w)
  case (Suc n)
  let ?idx = "sc_Index (snd st)" and ?pause = "sp_Pause (pl_Steps plan ! nat (sc_Index (snd st)))"
  let ?f = "if ?pause = 0 then step_send (en_Step E) (step_machine plan h) EvNext st
     else step_advance (en_Step E) (step_machine plan h) ?pause st"
  have move: "wp (with_health ?f he) (\<lambda>x _. fst x = st \<or> steps_left plan (fst (fst x)) < steps_left plan (fst st)) v"
    if "0 \<le> ?idx" "?idx < int (length (pl_Steps plan))" for v
  proof -
    have "0 \<le> ?pause" using that assms(3) by simp
    then have "?f (v, he) = y \<Longrightarrow> fst y = st \<or> steps_left plan (fst (fst y)) < steps_left plan (fst st)" for y
      using step_move [OF assms(1,2), of y h st "(v, he)" ?pause] by (auto split: if_splits)
    then show ?thesis by (auto simp: with_health_def wp_simps split: prod.splits)
  qed
  have rec: "wp (recordStep E cfg plan st' r) (\<lambda>(a, r'). case a of
        None \<Rightarrow> wp (drive_loop E cfg plan (step_machine plan h) n st' r' entered' he') (\<lambda>out _. out \<noteq> LoopFuel)
      | Some e \<Rightarrow> wp (State_Monad.return (LoopFail e r')) (\<lambda>out _. out \<noteq> LoopFuel)) v"
    if "steps_left plan (fst st') < n" for st' entered' he' v
    by (rule wp_True) (auto simp: wp_simps split: prod.splits option.splits intro!: Suc.IH that)
  show ?case
  proof (cases "Complete st \<or> Aborted st \<or> ?idx < 0 \<or> int (length (pl_Steps plan)) \<le> ?idx")
    case True
    then show ?thesis by (auto simp: Let_def wp_return)
  next
    case False
    have less: "steps_left plan (fst st') < n"
      if "st' = st \<or> steps_left plan (fst st') < steps_left plan (fst st)" "Complete st' \<or> sc_Index (snd st') \<noteq> ?idx" for st'
      using that False Suc.prems by auto
    have moved: "wp (with_health ?f he) (\<lambda>x. wp (case x of (st', he') \<Rightarrow>
             if Aborted st' \<or> sc_Failed (snd st')
             then State_Monad.return (LoopFail (or_err he' (gate_failed_msg plan ?idx)) r)
             else if Complete st' \<or> sc_Index (snd st') \<noteq> ?idx then do {
               entered' \<leftarrow> now E;
               (if Complete st' then drive_loop E cfg plan (step_machine plan h) n st' r entered' he'
                else do {
                  y \<leftarrow> recordStep E cfg plan st' r;
                  (case y of
                     (Some e, r') \<Rightarrow> State_Monad.return (LoopFail e r')
                   | (None, r') \<Rightarrow> drive_loop E cfg plan (step_machine plan h) n st' r' entered' he')
                })
             }
             else State_Monad.return (LoopExit st' r entered he')) (\<lambda>out _. out \<noteq> LoopFuel)) v" for v
      by (rule wp_conseq [OF move])
         (use False in \<open>auto simp: wp_simps split: prod.splits intro!: Suc.IH rec less\<close>)
    from False have c: "(Complete st \<or> Aborted st) = False" "(?idx < 0 \<or> int (length (pl_Steps plan)) \<le> ?idx) = False" by auto
    show ?thesis unfolding drive_loop.simps Let_def c if_False wp_bind
      by (cases "0 < ?pause") (simp_all only: if_True if_False wp_bind wp_now wp_return wp_if moved split: if_split, simp_all add: moved)
  qed
qed simp

text \<open>
  C17: the loop that drives a canary ends. With the fuel \<open>driveStepper\<close> gives it, one turn per step
  and two more, it always comes out with a result, whatever state the stepper was restored in and
  whatever the health gate, the store and the traffic router answer, provided no step of the plan
  has a negative pause.
\<close>

theorem drive_loop_terminates:
  assumes "statekit_api (en_Step E)" "pl_Steps plan \<noteq> []" "\<forall>sp \<in> set (pl_Steps plan). 0 \<le> sp_Pause sp"
  shows "fst (run_state (drive_loop E cfg plan (step_machine plan h) (Suc (Suc (length (pl_Steps plan)))) st r entered he) w) \<noteq> LoopFuel"
proof -
  have "steps_left plan (fst st) < Suc (Suc (length (pl_Steps plan)))"
    by (auto simp: steps_left_def split: step_state.split)
  from drive_loop_fuel [OF assms this, of cfg h r entered he w] show ?thesis by (simp add: wp_run)
qed

definition demo_plan :: pplan where
  "demo_plan = \<lparr>pl_Strategy = ''canary'', pl_Steps = [\<lparr>sp_Weight = 20, sp_Pause = 30 * second\<rparr>, \<lparr>sp_Weight = 100, sp_Pause = 0\<rparr>]\<rparr>"

theorem drive_loop_terminates_witness:
  "fst (run_state (drive_loop demo_env demo_config demo_plan (step_machine demo_plan (stepHealth demo_env (c_Target demo_config)))
     (Suc (Suc (length (pl_Steps demo_plan)))) (StepSt 0, \<lparr>sc_Index = 0, sc_Weight = 20, sc_Failed = False\<rparr>) zero_rollout 0 None)
     demo_world) \<noteq> LoopFuel"
  by (rule drive_loop_terminates [OF demo_env_life(2)]) (simp_all add: demo_plan_def)

section \<open>A target that never answers healthy\<close>

definition health_bad :: "health_status \<times> err option \<Rightarrow> bool" where
  "health_bad x \<longleftrightarrow> snd x \<noteq> None \<or> hs_State (fst x) = HealthUnhealthy"

definition never_healthy :: "env \<Rightarrow> bool" where
  "never_healthy E \<longleftrightarrow> (\<forall>n t. health_bad (en_Health E n t))"

lemma health_loop_bad:
  assumes "never_healthy E" "k = healthAttempts \<or> health_bad prev"
  shows "wp (health_loop E t k prev) (\<lambda>x _. health_bad x) w"
  using assms(2)
proof (induction k arbitrary: prev w)
  case (Suc k)
  have probe: "wp (case en_Health E n t of (hs, None) \<Rightarrow> State_Monad.return (hs, None)
        | (hs, Some e) \<Rightarrow> health_loop E t k (hs, Some e)) (\<lambda>x _. health_bad x) v" for n v
  proof -
    obtain hs e where h: "en_Health E n t = (hs, e)" by fastforce
    have "health_bad (hs, e)" using assms(1) h unfolding never_healthy_def by metis
    then show ?thesis using Suc.IH [of "(hs, e)" v] h by (cases e) (simp_all add: wp_return)
  qed
  show ?case using Suc.prems
    unfolding health_loop.simps wp_bind by (auto simp: wp_if wp_bind wp_ask wp_emit wp_return probe)
qed (simp add: wp_simps)

lemma stepHealth_bad:
  assumes "never_healthy E"
  shows "\<not> fst (stepHealth E t i wt wh)"
proof -
  obtain hs e w' where r: "run_state (healthWithRetry E t) (fst wh) = ((hs, e), w')" by (metis surj_pair)
  have "health_bad (hs, e)"
    by (rule wpD [OF health_loop_bad [OF assms] r [unfolded healthWithRetry_def]]) simp
  then show ?thesis by (auto simp: stepHealth_def health_bad_def r split: option.splits)
qed

text \<open>The first step of a new canary is gated, so a failing gate fails the rollout at once.\<close>

lemma failProgressive_errs: "wp (failProgressive E lc r cfg m e who) (\<lambda>x _. snd x \<noteq> None) w"
  unfolding failProgressive_def mark_failed_def after_auto_rollback_def Let_def wp_simps
  by (auto intro!: wp_True simp: wp_simps split: option.splits prod.splits)

lemma startStepper_bad:
  assumes "statekit_api (en_Step E)" "never_healthy E"
  shows "wp (startStepper E lc r cfg t who) (\<lambda>x _. snd x \<noteq> None) w"
proof -
  let ?plan = "PlanFor (s_Strategy (c_Spec cfg))"
  have ne: "pl_Steps ?plan \<noteq> []" by (auto simp: PlanFor_def ensureFull_def Let_def)
  have ab: "Aborted (fst (NewStepper (en_Step E) (step_machine ?plan (stepHealth E t)) wh))" for wh
    using stepHealth_bad [OF assms(2), of t 0 "sp_Weight (pl_Steps ?plan ! 0)" wh]
    by (auto simp: NewStepper_gated [OF assms(1) ne] gated_entry_def Let_def Aborted_def split: prod.splits)
  have new: "wp (with_health (NewStepper (en_Step E) (step_machine ?plan (stepHealth E t))) None) (\<lambda>x _. Aborted (fst x)) v" for v
  proof -
    obtain st v' he where n: "NewStepper (en_Step E) (step_machine ?plan (stepHealth E t)) (v, None) = (st, v', he)"
      by (metis surj_pair)
    then show ?thesis using ab [of "(v, None)"] by (simp add: with_health_def wp_simps)
  qed
  have drive: "Aborted st \<Longrightarrow> wp (driveStepper E lc r cfg ?plan mm st entered he who) (\<lambda>x _. snd x \<noteq> None) v" for st mm entered he v
    unfolding driveStepper_def using failProgressive_errs by simp
  show ?thesis
    unfolding startStepper_def Let_def BuildStepMachine_ok [OF assms(1) ne] sum.case wp_bind wp_now
    by (rule wp_conseq [OF new]) (auto intro: drive [simplified] split: prod.splits)
qed

lemma wp_with_target_val:
  assumes "\<And>e. P (fail e)" "P busy" "\<And>v. wp body (\<lambda>x _. P x) v"
  shows "wp (with_target E ref fail busy body) (\<lambda>x _. P x) w"
proof (rule wpI)
  fix x w'
  assume "run_state (with_target E ref fail busy body) w = (x, w')"
  from with_target_run [OF this] show "P x"
    using assms(1,2) wpD [OF assms(3)] by blast
qed

definition not_deployed :: "ptr_result \<Rightarrow> bool" where
  "not_deployed x \<longleftrightarrow> snd x \<noteq> None \<or> (\<exists>r. fst x = Some r \<and> r_Phase r = PhaseAwaitingApproval)"

lemma not_deployed_simps [simp]: "not_deployed (ro, Some e)" "not_deployed (Some r, None) = (r_Phase r = PhaseAwaitingApproval)"
  by (simp_all add: not_deployed_def)

lemma not_deployedI: "snd x \<noteq> None \<Longrightarrow> not_deployed x"
  by (simp add: not_deployed_def)

lemma apply_rollout_bad:
  assumes "statekit_api (en_Step E)" "never_healthy E"
  shows "wp (apply_rollout E req need score m t) (\<lambda>x _. not_deployed x) w"
  unfolding apply_rollout_def Let_def wp_sum wp_bind
  by (auto simp: wp_return wp_bind wp_if wp_option split: sum.splits option.splits
      intro!: wp_True wp_conseq [OF startStepper_bad [OF assms]] wp_conseq [OF failProgressive_errs] not_deployedI)

lemma apply_locked_bad:
  assumes "statekit_api (en_Step E)" "never_healthy E"
  shows "wp (apply_locked E req need score) (\<lambda>x _. not_deployed x) w"
  unfolding apply_locked_def Let_def wp_bind
  by (auto simp: wp_return wp_bind wp_if wp_option wp_sum split: sum.splits option.splits
      intro!: wp_True apply_rollout_bad [OF assms])

text \<open>
  An unhealthy release never gets through \<open>Apply\<close>. When the target never answers a health probe
  with anything but unhealthy or an error, \<open>Apply\<close> either returns an error or a rollout that waits
  for approval; it never hands on a rollout that is deploying or verifying.
\<close>

theorem unhealthy_never_deploys:
  assumes "statekit_api (en_Step E)" "never_healthy E" "run_state (Apply E req) w = ((ro, er), w')"
  shows "er \<noteq> None \<or> (\<exists>r. ro = Some r \<and> r_Phase r = PhaseAwaitingApproval)"
proof -
  have "wp (Apply E req) (\<lambda>x _. not_deployed x) w"
    unfolding Apply_def wp_if wp_bind
    by (auto simp: wp_return wp_sum wp_prod split: sum.splits
      intro!: wp_True [where m = "apply_gates E req"] wp_with_target_val apply_locked_bad [OF assms(1,2)])
  from wpD [OF this assms(3)] show ?thesis by (simp add: not_deployed_def)
qed

definition sick_env :: env where
  "sick_env = demo_env\<lparr>en_Health := (\<lambda>_ _. (\<lparr>hs_State = HealthUnhealthy, hs_Reason = ''crash loop''\<rparr>, None))\<rparr>"

theorem unhealthy_never_deploys_witness:
  "not_deployed (fst (run_state (Apply sick_env demo_request) demo_world))"
proof -
  obtain ro er w' where r: "run_state (Apply sick_env demo_request) demo_world = ((ro, er), w')" by (metis surj_pair)
  have s: "statekit_api (en_Step sick_env)" "never_healthy sick_env"
    using demo_env_life by (simp_all add: sick_env_def never_healthy_def health_bad_def)
  show ?thesis using unhealthy_never_deploys [OF s r] r by (simp add: not_deployed_def)
qed

section \<open>Interrupted rollouts\<close>

text \<open>A target nobody holds: neither in this process nor by a lease in the store.\<close>

definition target_free :: "env \<Rightarrow> string \<Rightarrow> world \<Rightarrow> bool" where
  "target_free E ref w \<longleftrightarrow> ref \<notin> set (w_locks w) \<and>
     (en_Leases E \<longrightarrow> 0 < en_LeaseTTL E \<and> map_of (db_leases (w_db w)) (lease_key ref) = None)"

lemma target_free_tick [simp]: "target_free E ref (tick1 w) = target_free E ref w"
  by (simp add: target_free_def)

lemma acquire_free:
  "store_up E \<Longrightarrow> target_free E ref w \<Longrightarrow> fst (run_state (acquireTarget E ref) w) = Inr True"
  by (auto simp: acquireTarget_def lock_local_def TryAcquire_def run_state_simps target_free_def store_up_def
    now_def st_call_def db_AcquireLease_def join_res_def Let_def)

lemma wp_with_target_free:
  assumes "store_up E" "target_free E ref w"
    and "\<And>w1. lock_step w w1 \<Longrightarrow> wp body (\<lambda>x w2. \<forall>w'. lock_step w2 w' \<longrightarrow> Q x w') w1"
  shows "wp (with_target E ref fail busy body) Q w"
proof -
  obtain res w1 where a: "run_state (acquireTarget E ref) w = (res, w1)" by fastforce
  have res: "res = Inr True" using acquire_free [OF assms(1,2)] a by simp
  have l: "lock_step w w1" using acquireTarget_run [OF a] by simp
  obtain x w2 where b: "run_state body w1 = (x, w2)" by fastforce
  obtain u w3 where r: "run_state (releaseTarget E ref) w2 = (u, w3)" by (cases "run_state (releaseTarget E ref) w2") auto
  have "Q x w3" using wpD [OF assms(3) [OF l] b] releaseTarget_run [OF r] by simp
  then show ?thesis by (simp add: wp_def with_target_def run_state_simps a res b r)
qed

lemma lock_step_load: "lock_step w w' \<Longrightarrow> db_LoadRollout i (w_db w') = db_LoadRollout i (w_db w)"
  by (simp add: lock_step_def same_tables_load)

lemma lock_step_phase: "lock_step w w' \<Longrightarrow> stored_phase i w' = stored_phase i w"
  by (simp add: stored_phase_def lock_step_load)

text \<open>The deploys of a trace: what was applied to targets and run against databases.\<close>

definition deploys :: "world \<Rightarrow> effect list" where
  "deploys w = filter (\<lambda>e. kind e = KApply \<or> kind e = KDB) (w_trace w)"

lemma deploys_ext: "ext K w w' \<Longrightarrow> KApply \<notin> K \<Longrightarrow> KDB \<notin> K \<Longrightarrow> deploys w' = deploys w"
  unfolding deploys_def by (rule grows_filter [where K = K]) (auto simp: ext_def)

lemma deploys_lock_step: "lock_step w w' \<Longrightarrow> deploys w' = deploys w"
  by (simp add: deploys_def lock_step_def)

lemma deploys_tick [simp]: "deploys (tick1 w) = deploys w"
  by (simp add: deploys_def)

lemma recover_wp:
  assumes "store_up E" "wf_db (w_db w)"
  shows "wp (recoverInterrupted E r why) (\<lambda>(ro, er) w'. er = None \<and>
      (\<exists>r'. ro = Some r' \<and> r_Phase r' = PhaseVerifying \<and> r_RollbackBlocked r' \<noteq> [] \<and> r_Desired r' = r_Desired r) \<and>
      stored_phase (r_ID r) w' = Some PhaseVerifying) w"
  using assms unfolding recoverInterrupted_def Let_def wp_bind
  by (auto simp: wp_simps wp_record_quiet store_up_def stored_phase_def sqlite.load_saved)

text \<open>
  C16: an interrupted rollout does not wedge its target. When a rollout is stored as deploying with
  no recorded progress, the target is free and the store answers, Tick hands it to the post-deploy
  gate: it returns without an error, the rollout is stored as verifying, so it is no longer in
  flight, its automatic rollback is blocked, and the target was not touched.
\<close>

theorem Tick_recovers_interrupted:
  assumes "store_up E" "wf_db (w_db w)" "db_LoadRollout rid (w_db w) = Inr r" "r_ID r = rid"
    and "r_Phase r = PhaseDeploying" "\<not> has_blob (r_StepperSnap r)" "c_Ref cfg = r_TargetRef r"
    and "target_free E (r_TargetRef r) w"
  shows "case run_state (Tick E rid cfg) w of ((ro, er), w') \<Rightarrow> er = None \<and>
     (\<exists>r'. ro = Some r' \<and> r_Phase r' = PhaseVerifying \<and> r_RollbackBlocked r' \<noteq> []) \<and>
     stored_phase rid w' = Some PhaseVerifying \<and> deploys w' = deploys w"
proof -
  define Q where "Q = (\<lambda>(ro :: rollout option, er :: err option) w'. er = None \<and> (\<exists>r'. ro = Some r' \<and> r_Phase r' = PhaseVerifying \<and> r_RollbackBlocked r' \<noteq> []) \<and>
     stored_phase rid w' = Some PhaseVerifying \<and> deploys w' = deploys w)"
  have body: "wp (tick_locked E r cfg) (\<lambda>x w2. \<forall>w'. lock_step w2 w' \<longrightarrow> Q x w') w1" if l: "lock_step (tick1 w) w1" for w1
  proof -
    have wf: "wf_db (w_db w1)" using l assms(2) by (auto simp: lock_step_def dest: same_tables_wf)
    have k: "wp (recoverInterrupted E r why) (\<lambda>_ w'. ext {KSaved, KAudit} w1 w') w1" for why
      by (rule keeps_wp [OF keeps_recover(1)]) simp
    show ?thesis
      using assms(6) deploys_lock_step [OF l] unfolding tick_locked_def
      by (auto intro!: wp_conseq [OF wp_conj [OF recover_wp [OF assms(1) wf] k]]
        simp: Q_def lock_step_phase deploys_lock_step assms(4) dest: deploys_ext)
  qed
  have "wp (Tick E rid cfg) Q w"
    unfolding Tick_def wp_bind wp_LoadRollout using assms(3,5,7,8) assms(1) [unfolded store_up_def]
    by (simp add: wp_with_target_free [OF assms(1)] body)
  then show ?thesis by (simp add: wp_def Q_def split: prod.splits)
qed

lemma demo_with_facts:
  "store_up demo_env" "wf_db (w_db (demo_with r))" "target_free demo_env ref (demo_with r)"
  "r_ID r = rid \<Longrightarrow> db_LoadRollout rid (w_db (demo_with r)) = Inr (persisted empty_db r)"
  "r_TargetRef (persisted empty_db r) = r_TargetRef r"
proof -
  have empty_leases: "db_leases (db_SaveRollout r empty_db) = []" by (simp add: db_SaveRollout_def empty_db_def)
  have e: "db_LoadRollout i empty_db = Inl ErrNotFound" for i by (simp add: LoadRollout_find empty_db_def)
  show "store_up demo_env" "wf_db (w_db (demo_with r))" "target_free demo_env ref (demo_with r)"
    "r_ID r = rid \<Longrightarrow> db_LoadRollout rid (w_db (demo_with r)) = Inr (persisted empty_db r)"
    by (auto simp: demo_with_def wf_SaveRollout wf_empty_db load_save [OF wf_empty_db] target_free_def demo_env_def
      demo_world_def empty_leases store_up_def)
  show "r_TargetRef (persisted empty_db r) = r_TargetRef r" by (simp add: persisted_def e)
qed

definition demo_stuck :: rollout where
  "demo_stuck = zero_rollout\<lparr>r_ID := ''ro-1'', r_TargetRef := ''web'', r_Phase := PhaseDeploying\<rparr>"

theorem Tick_recovers_interrupted_witness:
  "case run_state (Tick demo_env ''ro-1'' demo_config) (demo_with demo_stuck) of ((ro, er), w') \<Rightarrow>
     er = None \<and> stored_phase ''ro-1'' w' = Some PhaseVerifying"
proof -
  have r: "r_ID demo_stuck = ''ro-1''" "r_Phase demo_stuck = PhaseDeploying" "\<not> has_blob (r_StepperSnap demo_stuck)"
    "r_TargetRef demo_stuck = ''web''"
    by (simp_all add: demo_stuck_def zero_rollout_def has_blob_def)
  show ?thesis
    using Tick_recovers_interrupted [OF demo_with_facts(1,2) demo_with_facts(4) [OF r(1)] _ _ _ _ demo_with_facts(3), of demo_config]
    by (auto simp: r demo_with_facts(5) demo_config_def zero_spec_def split: prod.splits)
qed

section \<open>Pause and resume\<close>

lemma acquire_free_lease:
  assumes "store_up E" "target_free E ref w" "run_state (acquireTarget E ref) w = (res, w1)"
  shows "w_locks w1 = ref # w_locks w \<and>
    (en_Leases E \<longrightarrow> (\<exists>l. map_of (db_leases (w_db w1)) (lease_key ref) = Some l \<and> lr_owner l = en_Owner E))"
  using assms
  by (auto simp: acquireTarget_def lock_local_def TryAcquire_def run_state_simps target_free_def store_up_def
    now_def st_call_def db_AcquireLease_def join_res_def Let_def update_conv' split: if_splits)

text \<open>A body that leaves locks and leases alone gives the target back free.\<close>

lemma wp_with_target_again:
  assumes "store_up E" "target_free E ref w"
    and "\<And>w1. lock_step w w1 \<Longrightarrow> wp body (\<lambda>x w2. db_leases (w_db w2) = db_leases (w_db w1) \<and> w_locks w2 = w_locks w1 \<and>
       (\<forall>w'. lock_step w2 w' \<longrightarrow> target_free E ref w' \<longrightarrow> Q x w')) w1"
  shows "wp (with_target E ref fail busy body) Q w"
proof -
  obtain res w1 where a: "run_state (acquireTarget E ref) w = (res, w1)" by fastforce
  have res: "res = Inr True" using acquire_free [OF assms(1,2)] a by simp
  have l: "lock_step w w1" using acquireTarget_run [OF a] by simp
  obtain x w2 where b: "run_state body w1 = (x, w2)" by fastforce
  obtain u w3 where r: "run_state (releaseTarget E ref) w2 = (u, w3)" by (cases "run_state (releaseTarget E ref) w2") auto
  note post = wpD [OF assms(3) [OF l] b]
  have "target_free E ref w3"
    using r post acquire_free_lease [OF assms(1,2) a] assms(1,2)
    by (auto simp: releaseTarget_def run_state_simps st_call_def unlock_run store_up_def target_free_def ReleaseKey_def
      db_ReleaseLease_def delete_conv' split: if_splits)
  then have "Q x w3" using post releaseTarget_run [OF r] by blast
  then show ?thesis by (simp add: wp_def with_target_def run_state_simps a res b r)
qed

lemma step_send_pause:
  assumes "statekit_api sk" "i < length (pl_Steps plan)"
  shows "step_send sk (step_machine plan h) EvPause (StepSt i, c) w = ((PausedSt i, c), w)"
proof -
  have cl: "closed_machine (step_machine plan h)" using assms(2) by (intro closed_step_machine) auto
  have en: "enabled (step_machine plan h) (StepSt i) (On EvPause) c = [mk_tr (StepSt i) (On EvPause) (PausedSt i) None]"
    using assms(2) by (simp add: step_enabled [of _ i] step_transitions_def mk_tr_def Let_def)
  have "sk_Send sk (step_machine plan h) EvPause (StepSt i, c, w) = enter (step_machine plan h) (PausedSt i) (c, w)"
    by (rule statekit_api.Send_unique [OF assms(1) cl]) (simp_all add: en, simp add: mk_tr_def)
  then show ?thesis by (simp add: step_send_def enter_PausedSt)
qed

lemma step_send_resume:
  assumes "statekit_api sk" "i < length (pl_Steps plan)"
  shows "step_send sk (step_machine plan h) EvResume (PausedSt i, c) w = gated_entry plan h i w"
proof -
  have cl: "closed_machine (step_machine plan h)" using assms(2) by (intro closed_step_machine) auto
  have en: "enabled (step_machine plan h) (PausedSt i) (On EvResume) c = [mk_tr (PausedSt i) (On EvResume) (StepSt i) None]"
    using assms(2) by (simp add: step_enabled [of _ i] step_transitions_def mk_tr_def Let_def)
  have "sk_Send sk (step_machine plan h) EvResume (PausedSt i, c, w) = enter (step_machine plan h) (StepSt i) (c, w)"
    by (rule statekit_api.Send_unique [OF assms(1) cl]) (simp_all add: en, simp add: mk_tr_def)
  then show ?thesis using assms(2) by (auto simp: step_send_def enter_StepSt split: prod.splits)
qed

abbreviation no_gate :: "(world \<times> err option) step_health" where
  "no_gate \<equiv> \<lambda>_ _ w. (True, w)"

lemma restoreControl_ok:
  assumes "statekit_api (en_Step E)" "r_StepperSnap r = Blob per" "i < length (pl_Steps (pe_Plan per))"
    and "fst (pe_Snap per) = StepSt i \<or> fst (pe_Snap per) = PausedSt i"
  shows "run_state (restoreControlStepper E r) w = (Inr (step_machine (pe_Plan per) no_gate, pe_Snap per, per), tick1 w)"
proof -
  have ne: "pl_Steps (pe_Plan per) \<noteq> []" using assms(3) by auto
  note cl = closed_step_machine [OF ne, of no_gate]
  have st: "fst (pe_Snap per) \<in> set (mc_States (step_machine (pe_Plan per) no_gate))"
    using assms(3,4) by (auto simp: step_machine_def)
  have "BuildStepMachine (en_Step E) (pe_Plan per) None = Inr (step_machine (pe_Plan per) no_gate)"
    using ne by (simp add: BuildStepMachine_def statekit_api.Build [OF assms(1) cl])
  moreover have "RestoreStepper (en_Step E) (step_machine (pe_Plan per) no_gate) (pe_Snap per) = Inr (pe_Snap per)"
    using statekit_api.Restore [OF assms(1) cl st, of "snd (pe_Snap per)"] by (simp add: RestoreStepper_def)
  ultimately show ?thesis
    using assms(2) by (simp add: restoreControlStepper_def has_blob_def unblob_def run_state_simps now_def)
qed

text \<open>What a control operation saves: the snapshot after the event, the new phase, the note.\<close>

definition controlled :: "rollout \<Rightarrow> stepper_persist \<Rightarrow> phase \<Rightarrow> string \<Rightarrow> time \<Rightarrow> rollout" where
  "controlled r per q detail ts = r\<lparr>r_StepperSnap := Blob per, r_Phase := q, r_Note := detail, r_UpdatedAt := ts\<rparr>"

lemma control_wp:
  assumes "statekit_api (en_Life E)" "statekit_api (en_Step E)" "store_up E"
    and "r_StepperSnap r = Blob per" "i < length (pl_Steps (pe_Plan per))"
    and "fst (pe_Snap per) = StepSt i \<or> fst (pe_Snap per) = PausedSt i"
    and "\<And>wh. step_send (en_Step E) (step_machine (pe_Plan per) no_gate) sev (pe_Snap per) wh = (st', wh)"
    and "lifecycle_step planned_ctx (r_Phase r) lev = Some q"
  shows "wp (control_body E r (r_Phase r) oper sev lev restart who detail) (\<lambda>(r', e) w'. e = None \<and>
      (\<exists>t ts. r' = controlled r (per\<lparr>pe_Snap := st', pe_EnteredAt := (if restart then t else pe_EnteredAt per)\<rparr>) q detail ts) \<and>
      w_db w' = db_SaveRollout r' (w_db w) \<and> w_locks w' = w_locks w \<and> deploys w' = deploys w) w"
proof -
  have save: "wp (saveControl E r lc st plan entered who detail) Q v =
      Q (controlled r \<lparr>pe_Plan = plan, pe_Snap = st, pe_EnteredAt = entered\<rparr> (lc_Phase lc) detail (en_Now E (w_tick v)), None)
        (let v' = saved (controlled r \<lparr>pe_Plan = plan, pe_Snap = st, pe_EnteredAt = entered\<rparr> (lc_Phase lc) detail (en_Now E (w_tick v))) (tick1 v) in
         if en_Audit E then v'\<lparr>w_trace := w_trace v' @ [AuditRecord (audit_of ActionApply (controlled r
           \<lparr>pe_Plan = plan, pe_Snap = st, pe_EnteredAt = entered\<rparr> (lc_Phase lc) detail (en_Now E (w_tick v))) who detail)]\<rparr> else v')"
    for lc st plan entered Q v
    using assms(3) by (simp add: saveControl_def wp_simps wp_record_quiet store_up_def controlled_def Let_def)
  have rest: "wp (restoreControlStepper E r) Q v = Q (Inr (step_machine (pe_Plan per) no_gate, pe_Snap per, per)) (tick1 v)" for Q v
    by (simp add: wp_def restoreControl_ok [OF assms(2,4,5,6)])
  have per: "\<lparr>pe_Plan = pe_Plan per, pe_Snap = st', pe_EnteredAt = x\<rparr> = per\<lparr>pe_Snap := st', pe_EnteredAt := x\<rparr>" for x
    by simp
  show ?thesis
    unfolding control_body_def wp_if wp_bind
    by (simp add: rest resume_send(1) [OF assms(1)] resume_send(2) [OF assms(1) assms(8)] assms(7) with_health_def wp_simps
        save per Let_def deploys_def, auto simp: saved_def)
qed

lemma leases_save [simp]: "db_leases (db_SaveRollout r d) = db_leases d"
  by (simp add: db_SaveRollout_def)

text \<open>Pause or Resume on a stored rollout whose target is free.\<close>

definition control_done :: "env \<Rightarrow> rollout \<Rightarrow> stepper_persist \<Rightarrow> phase \<Rightarrow> world \<Rightarrow> rollout \<times> err option \<Rightarrow> world \<Rightarrow> bool" where
  "control_done E r per q w x w' \<longleftrightarrow> snd x = None \<and> wf_db (w_db w') \<and> target_free E (r_TargetRef r) w' \<and> deploys w' = deploys w \<and>
     (\<exists>r'. db_LoadRollout (r_ID r) (w_db w') = Inr r' \<and> r_ID r' = r_ID r \<and> r_Phase r' = q \<and> r_TargetRef r' = r_TargetRef r \<and>
        r_Desired r' = json_manifest (r_Desired r) \<and> (\<exists>t. r_StepperSnap r' = Blob (per\<lparr>pe_EnteredAt := t\<rparr>)))"

lemma hold_control:
  assumes "statekit_api (en_Life E)" "statekit_api (en_Step E)" "store_up E" "wf_db (w_db w)"
    and "db_LoadRollout rid (w_db w) = Inr r" "r_ID r = rid" "target_free E (r_TargetRef r) w"
    and "r_StepperSnap r = Blob per" "i < length (pl_Steps (pe_Plan per))"
    and "fst (pe_Snap per) = StepSt i \<or> fst (pe_Snap per) = PausedSt i"
    and "\<And>wh. step_send (en_Step E) (step_machine (pe_Plan per) no_gate) sev (pe_Snap per) wh = (st', wh)"
    and "lifecycle_step planned_ctx (r_Phase r) lev = Some q"
  shows "wp (holdTarget E rid (\<lambda>r'. control_body E r' (r_Phase r) oper sev lev restart who detail))
    (control_done E r (per\<lparr>pe_Snap := st'\<rparr>) q w) w"
proof -
  have body: "wp (control_body E r (r_Phase r) oper sev lev restart who detail) (\<lambda>x w2. db_leases (w_db w2) = db_leases (w_db w1) \<and>
      w_locks w2 = w_locks w1 \<and> (\<forall>w'. lock_step w2 w' \<longrightarrow> target_free E (r_TargetRef r) w' \<longrightarrow> control_done E r (per\<lparr>pe_Snap := st'\<rparr>) q w x w')) w1"
    if l: "lock_step (tick1 w) w1" for w1
  proof (rule wp_conseq [OF control_wp [OF assms(1-3) assms(8-12)]])
    fix x :: "rollout \<times> err option" and w2
    assume post: "(\<lambda>(r', e) w'. e = None \<and>
      (\<exists>t ts. r' = controlled r (per\<lparr>pe_Snap := st', pe_EnteredAt := (if restart then t else pe_EnteredAt per)\<rparr>) q detail ts) \<and>
      w_db w' = db_SaveRollout r' (w_db w1) \<and> w_locks w' = w_locks w1 \<and> deploys w' = deploys w1) x w2"
    then obtain r' t ts where x: "x = (r', None)" and t: "r' = controlled r (per\<lparr>pe_Snap := st', pe_EnteredAt := t\<rparr>) q detail ts"
      and p: "w_db w2 = db_SaveRollout r' (w_db w1)" "w_locks w2 = w_locks w1" "deploys w2 = deploys w1" by auto
    have tab: "same_tables (w_db w) (w_db w1)" using l by (simp add: lock_step_def)
    have wf: "wf_db (w_db w1)" using same_tables_wf [OF tab] assms(4) by simp
    have old: "db_LoadRollout rid (w_db w1) = Inr r" using same_tables_load [OF tab] assms(5) by simp
    have ld: "db_LoadRollout rid (w_db w2) = Inr (persisted (w_db w1) r')"
      using p(1) load_save [OF wf, of rid r'] assms(6) by (simp add: t controlled_def)
    have pt: "r_TargetRef (persisted (w_db w1) r') = r_TargetRef r"
      using old assms(6) by (simp add: persisted_def t controlled_def)
    show "db_leases (w_db w2) = db_leases (w_db w1) \<and> w_locks w2 = w_locks w1 \<and>
      (\<forall>w'. lock_step w2 w' \<longrightarrow> target_free E (r_TargetRef r) w' \<longrightarrow> control_done E r (per\<lparr>pe_Snap := st'\<rparr>) q w x w')"
    proof (intro conjI allI impI)
      fix w' assume lk: "lock_step w2 w'" and fr: "target_free E (r_TargetRef r) w'"
      have "wf_db (w_db w')" using lk p(1) wf_SaveRollout [OF wf] by (auto simp: lock_step_def dest: same_tables_wf)
      moreover have "deploys w' = deploys w" using deploys_lock_step [OF lk] deploys_lock_step [OF l] p(3) by simp
      moreover have "db_LoadRollout (r_ID r) (w_db w') = Inr (persisted (w_db w1) r')"
        using lock_step_load [OF lk] ld assms(6) by simp
      ultimately show "control_done E r (per\<lparr>pe_Snap := st'\<rparr>) q w x w'"
        using fr pt by (auto simp: control_done_def x t controlled_def)
    qed (simp_all add: p)
  qed
  show ?thesis
    unfolding holdTarget_def wp_bind wp_LoadRollout using assms(5,7) assms(3) [unfolded store_up_def]
    by (simp add: wp_with_target_again [OF assms(3)] body)
qed

text \<open>
  Pause and resume are inverse up to the clock. For a canary stored at step \<open>i\<close> of its plan
  whose target is free, Pause stores it as paused, Resume stores it as deploying again, at the same
  step of the same plan with only the time it entered the step changed; nothing is deployed by
  either, no health gate runs that could divert it, and the target is free afterwards.
\<close>

theorem pause_resume_roundtrip:
  assumes "statekit_api (en_Life E)" "statekit_api (en_Step E)" "store_up E" "wf_db (w_db w)"
    and "db_LoadRollout rid (w_db w) = Inr r" "r_ID r = rid" "r_Phase r = PhaseDeploying" "target_free E (r_TargetRef r) w"
    and "r_StepperSnap r = Blob per" "i < length (pl_Steps (pe_Plan per))"
    and "pe_Snap per = (StepSt i, \<lparr>sc_Index = int i, sc_Weight = sp_Weight (pl_Steps (pe_Plan per) ! i), sc_Failed = False\<rparr>)"
    and "run_state (Pause E rid who) w = (x, w1)" "run_state (Resume E rid who') w1 = (y, w2)"
  shows "snd x = None \<and> stored_phase rid w1 = Some PhasePaused \<and> snd y = None \<and> target_free E (r_TargetRef r) w2 \<and>
    deploys w2 = deploys w \<and>
    (\<exists>r2 t. db_LoadRollout rid (w_db w2) = Inr r2 \<and> r_Phase r2 = PhaseDeploying \<and> r_TargetRef r2 = r_TargetRef r \<and>
       r_Desired r2 = json_manifest (r_Desired r) \<and> r_StepperSnap r2 = Blob (per\<lparr>pe_EnteredAt := t\<rparr>))"
proof -
  let ?c = "snd (pe_Snap per)"
  have "control_done E r (per\<lparr>pe_Snap := (PausedSt i, ?c)\<rparr>) PhasePaused w x w1"
    by (rule wpD [OF _ assms(12)], unfold Pause_def assms(7) [symmetric], rule hold_control [OF assms(1-6,8-10)])
       (simp_all add: assms(7,11) step_send_pause [OF assms(2,10)], simp add: lifecycle_step_def planned_ctx_def)
  then obtain r1 t1 where d1: "snd x = None" "wf_db (w_db w1)" "target_free E (r_TargetRef r) w1" "deploys w1 = deploys w"
    "db_LoadRollout (r_ID r) (w_db w1) = Inr r1" "r_ID r1 = r_ID r" "r_Phase r1 = PhasePaused" "r_TargetRef r1 = r_TargetRef r"
    "r_Desired r1 = json_manifest (r_Desired r)"
    "r_StepperSnap r1 = Blob (per\<lparr>pe_Snap := (PausedSt i, ?c), pe_EnteredAt := t1\<rparr>)"
    by (auto simp: control_done_def)
  let ?per1 = "per\<lparr>pe_Snap := (PausedSt i, ?c), pe_EnteredAt := t1\<rparr>"
  have res: "step_send (en_Step E) (step_machine (pe_Plan ?per1) no_gate) EvResume (pe_Snap ?per1) wh = (pe_Snap per, wh)" for wh
    using assms(11) by (simp add: step_send_resume [OF assms(2,10)] gated_entry_def)
  have "control_done E r1 (?per1\<lparr>pe_Snap := pe_Snap per\<rparr>) PhaseDeploying w1 y w2"
    by (rule wpD [OF _ assms(13)], unfold Resume_def d1(7) [symmetric],
        rule hold_control [OF assms(1-3) d1(2) _ _ _ d1(10) _ _ res])
       (use assms(6,10) d1 in \<open>simp_all add: lifecycle_step_def planned_ctx_def\<close>)
  then show ?thesis using d1 assms(6) by (auto simp: control_done_def stored_phase_def json_manifest_def)
qed

definition demo_persist :: stepper_persist where
  "demo_persist = \<lparr>pe_Plan = demo_plan, pe_Snap = (StepSt 0, \<lparr>sc_Index = 0, sc_Weight = 20, sc_Failed = False\<rparr>), pe_EnteredAt = 0\<rparr>"

definition demo_canary :: rollout where
  "demo_canary = demo_stuck\<lparr>r_StepperSnap := Blob demo_persist\<rparr>"

theorem pause_resume_roundtrip_witness:
  "\<exists>x w1 y w2. run_state (Pause demo_env ''ro-1'' demo_human) (demo_with demo_canary) = (x, w1) \<and> snd x = None \<and>
     stored_phase ''ro-1'' w1 = Some PhasePaused \<and> run_state (Resume demo_env ''ro-1'' demo_human) w1 = (y, w2) \<and> snd y = None"
proof -
  obtain x w1 where p: "run_state (Pause demo_env ''ro-1'' demo_human) (demo_with demo_canary) = (x, w1)" by fastforce
  obtain y w2 where q: "run_state (Resume demo_env ''ro-1'' demo_human) w1 = (y, w2)" by fastforce
  have f: "r_ID demo_canary = ''ro-1''" "r_Phase demo_canary = PhaseDeploying" "r_StepperSnap demo_canary = Blob demo_persist"
    "0 < length (pl_Steps (pe_Plan demo_persist))"
    by (simp_all add: demo_canary_def demo_stuck_def demo_persist_def demo_plan_def)
  have s: "pe_Snap demo_persist = (StepSt 0, \<lparr>sc_Index = int 0, sc_Weight = sp_Weight (pl_Steps (pe_Plan demo_persist) ! 0), sc_Failed = False\<rparr>)"
    by (simp add: demo_persist_def demo_plan_def)
  have "snd x = None \<and> stored_phase ''ro-1'' w1 = Some PhasePaused \<and> snd y = None"
    using pause_resume_roundtrip [OF demo_env_life demo_with_facts(1,2) demo_with_facts(4) [OF f(1)] _ _ demo_with_facts(3) _ f(4) s p q]
    by (simp add: f)
  with p q show ?thesis by blast
qed

end
