(* ===== verification/Engine_Decisions.thy ===== *)
theory Engine_Decisions
  imports Engine_Control
begin

text \<open>
  What lets a change reach a target: the emergency freeze, governance, the four-eyes rule, the
  approval gate, the rule of one rollout in flight per target, and the block on rollbacks to an
  unverified baseline.
\<close>

section \<open>Nothing reached a target\<close>

definition untouched :: "world \<Rightarrow> world \<Rightarrow> bool" where
  "untouched w w' \<longleftrightarrow> same_tables (w_db w) (w_db w') \<and> deploys w' = deploys w"

lemma untouched_refl [simp]: "untouched w w" "untouched w (tick1 w)"
  by (simp_all add: untouched_def)

lemma untouched_tick [simp]: "untouched (tick1 w) w' = untouched w w'"
  by (simp add: untouched_def)

lemma untouched_trans: "untouched u v \<Longrightarrow> untouched v w \<Longrightarrow> untouched u w"
  by (auto simp: untouched_def intro: same_tables_trans)

lemma untouched_lock: "lock_step w w' \<Longrightarrow> untouched w w'"
  by (simp add: untouched_def deploys_lock_step) (simp add: lock_step_def)

lemma untouched_ext: "ext K w w' \<Longrightarrow> w_db w' = w_db w \<Longrightarrow> KApply \<notin> K \<Longrightarrow> KDB \<notin> K \<Longrightarrow> untouched w w'"
  by (simp add: untouched_def deploys_ext)

text \<open>An answer was refused when it satisfies \<open>bad\<close> and nothing was touched.\<close>

lemma wp_with_target_refused:
  assumes "\<And>e. bad (fail e)" "bad busy"
    and "\<And>w1. lock_step w w1 \<Longrightarrow> wp body (\<lambda>x w2. bad x \<and> untouched w1 w2) w1"
  shows "wp (with_target E ref fail busy body) (\<lambda>x w'. bad x \<and> untouched w w') w"
proof (rule wpI)
  fix x w'
  assume r: "run_state (with_target E ref fail busy body) w = (x, w')"
  show "bad x \<and> untouched w w'"
    using with_target_run [OF r]
  proof (elim disjE exE conjE)
    fix w1 w2
    assume h: "lock_step w w1" "run_state body w1 = (x, w2)" "lock_step w2 w'"
    then have "bad x \<and> untouched w1 w2" using wpD [OF assms(3) [OF h(1)] h(2)] by simp
    then show ?thesis using untouched_lock [OF h(1)] untouched_lock [OF h(3)] untouched_trans by blast
  qed (use assms(1,2) untouched_lock in auto)
qed

section \<open>The freeze\<close>

text \<open>
  The freeze source of the daemon and the command line: the row of the store, read anew for every
  check, where a read that fails is an error.
\<close>

definition boot_FreezeSource :: "(nat \<Rightarrow> err option) \<Rightarrow> nat \<Rightarrow> db \<Rightarrow> (bool \<times> string) res" where
  "boot_FreezeSource storeErr n d =
     (case storeErr n of
        Some e \<Rightarrow> Inl e
      | None \<Rightarrow> Inr (fs_Active (db_LoadFreeze d), fs_Reason (db_LoadFreeze d)))"

text \<open>
  Frozen: the shared freeze state, as long as its row is the one stored now, says so or cannot be
  read; or, where there is no shared state, the in-memory switch is engaged.
\<close>

definition frozen :: "env \<Rightarrow> world \<Rightarrow> bool" where
  "frozen E w \<longleftrightarrow> en_Guardrails E \<and>
     (case en_FreezeSource E of
        Some src \<Rightarrow> (\<forall>n d. db_freeze d = db_freeze (w_db w) \<longrightarrow> (case src n d of Inl _ \<Rightarrow> True | Inr (active, _) \<Rightarrow> active))
      | None \<Rightarrow> en_HasFreeze E \<and> fz_active (w_freeze w))"

lemma boot_frozen:
  "en_Guardrails E \<Longrightarrow> en_FreezeSource E = Some (boot_FreezeSource storeErr) \<Longrightarrow>
   fs_Active (db_LoadFreeze (w_db w)) \<Longrightarrow> frozen E w"
  by (auto simp: frozen_def boot_FreezeSource_def db_LoadFreeze_def split: option.splits)

lemma frozen_lock: "lock_step w w1 \<Longrightarrow> frozen E w \<Longrightarrow> frozen E w1" "lock_step (tick1 w) w1 \<Longrightarrow> frozen E w \<Longrightarrow> frozen E w1"
  by (auto simp: frozen_def lock_step_def same_tables_simps split: option.splits)

lemma guardrails_frozen:
  assumes "frozen E w"
  shows "wp (check_guardrails E who inp) (\<lambda>g w'. (\<exists>e. g = Inl e) \<and> w_db w' = w_db w \<and> w_trace w' = w_trace w) w"
proof (cases "en_FreezeSource E")
  case None
  then show ?thesis using assms
    by (simp add: frozen_def check_guardrails_def env_guardrails_def CheckApply_def freeze_check_def wp_simps)
next
  case (Some src)
  then have "case src (w_tick w) (w_db w) of Inl _ \<Rightarrow> True | Inr (active, _) \<Rightarrow> active"
    using assms by (simp add: frozen_def)
  then show ?thesis using assms Some
    by (cases "src (w_tick w) (w_db w)")
       (auto simp: frozen_def check_guardrails_def env_guardrails_def CheckApply_def freeze_check_def wp_simps)
qed

lemma untouched_audit [simp]: "untouched w (w\<lparr>w_trace := w_trace w @ [AuditRecord en]\<rparr>)"
  by (simp add: untouched_def deploys_def)

lemma untouched_same: "w_db w' = w_db w \<Longrightarrow> w_trace w' = w_trace w \<Longrightarrow> untouched w w'"
  by (simp add: untouched_def deploys_def)

lemma wp_audit_refused: "P x \<Longrightarrow> untouched w v \<Longrightarrow>
   wp (do { record_audit E en; State_Monad.return x }) (\<lambda>x w'. P x \<and> untouched w w') v"
  using untouched_audit untouched_trans by (fastforce simp: wp_simps wp_record_quiet)

definition errs :: "'a \<times> err option \<Rightarrow> bool" where
  "errs x \<longleftrightarrow> snd x \<noteq> None"

lemma errs_simps [simp]: "errs (a, Some e)" "\<not> errs (a, None)"
  by (simp_all add: errs_def)

lemma Apply_frozen:
  assumes "frozen E w"
  shows "wp (Apply E req) (\<lambda>x w'. errs x \<and> untouched w w') w"
proof -
  have "wp (apply_gates E req) (\<lambda>g w'. (\<exists>e. g = Inl e) \<and> untouched w w') w"
    unfolding apply_gates_def Let_def wp_bind [of "check_guardrails E who inp" for who inp]
    by (rule wp_conseq [OF guardrails_frozen [OF assms]])
       (auto intro!: wp_audit_refused untouched_same)
  then show ?thesis
    unfolding Apply_def wp_if wp_bind
    by (auto simp: wp_return elim!: wp_conseq)
qed

lemma frozen_body:
  assumes "frozen E w" "\<And>e v. untouched w v \<Longrightarrow> wp (k (Inl e)) (\<lambda>x w2. P x \<and> untouched w w2) v"
  shows "wp (State_Monad.bind (check_guardrails E who inp) k) (\<lambda>x w2. P x \<and> untouched w w2) w"
  unfolding wp_bind by (rule wp_conseq [OF guardrails_frozen [OF assms(1)]]) (auto intro: assms(2) untouched_same)

lemma Approve_frozen:
  assumes "frozen E w"
  shows "wp (Approve E rid who) (\<lambda>x w'. errs x \<and> untouched w w') w"
proof -
  have body: "wp (approve_locked E r who) (\<lambda>x w2. errs x \<and> untouched w1 w2) w1" if "frozen E w1" for r w1
    unfolding approve_locked_def by (rule frozen_body [OF that]) (simp add: wp_audit_refused)
  have lk: "wp (with_target E (r_TargetRef r) (\<lambda>e. (r, Some e)) (r, Some ErrTargetBusy) (approve_locked E r who))
      (\<lambda>x w'. errs x \<and> untouched w w') (tick1 w)" for r
    by (rule wp_conseq [OF wp_with_target_refused [where bad = errs]])
       (simp_all add: body frozen_lock(2) [OF _ assms])
  show ?thesis
    unfolding Approve_def wp_bind wp_LoadRollout
    by (auto simp: wp_return wp_if wp_audit_refused lk split: option.split sum.split)
qed

lemma applyScheduled_frozen:
  assumes "frozen E w"
  shows "wp (applyScheduled E s) (\<lambda>x w'. errs x \<and> untouched w w') w"
proof -
  have "wp (sched_locked E s) (\<lambda>x w2. errs x \<and> untouched w1 w2) w1" if "frozen E w1" for w1
    unfolding sched_locked_def by (rule frozen_body [OF that]) (simp add: wp_audit_refused)
  then show ?thesis
    unfolding applyScheduled_def by (intro wp_with_target_refused) (simp_all add: frozen_lock(1) [OF _ assms])
qed


text \<open>The store of a daemon where someone froze the deployments, and the wiring of that daemon.\<close>

definition frozen_world :: world where
  "frozen_world = demo_world\<lparr>w_db :=
     db_SaveFreeze \<lparr>fs_Active = True, fs_Reason = ''incident'', fs_By = demo_human, fs_At = None\<rparr> empty_db\<rparr>"

definition boot_env :: env where
  "boot_env = demo_env\<lparr>en_FreezeSource := Some (boot_FreezeSource (en_StoreErr demo_env))\<rparr>"


section \<open>What Apply refuses\<close>

definition governor_refuses :: "env \<Rightarrow> bool" where
  "governor_refuses E \<longleftrightarrow> (\<exists>g. en_Governor E = Some g \<and>
     (\<forall>n q. case g n q of Inl _ \<Rightarrow> True | Inr d \<Rightarrow> \<not> gd_Allowed d))"

text \<open>A stored rollout of the target is deploying or paused.\<close>

definition inflight_on :: "string \<Rightarrow> world \<Rightarrow> bool" where
  "inflight_on ref w \<longleftrightarrow> (\<exists>r. db_LoadRollout (r_ID r) (w_db w) = Inr r \<and> in_flight ref r)"

lemma gates_untouched: "wp (apply_gates E req) (\<lambda>_ w'. untouched w w' \<and> w_db w' = w_db w \<and> set (w_locks w') = set (w_locks w)) w"
  by (rule wp_frame [OF keeps_apply_gates, where K = "{KAudit}"]) (auto intro: untouched_ext simp: ext_def)

lemma govern_refused:
  assumes "governor_refuses E"
  shows "wp (govern E q) (\<lambda>v _. case v of Inl _ \<Rightarrow> True | Inr d \<Rightarrow> \<not> gd_Allowed d) w"
proof -
  obtain g where g: "en_Governor E = Some g" "\<And>n q. case g n q of Inl _ \<Rightarrow> True | Inr d \<Rightarrow> \<not> gd_Allowed d"
    using assms by (auto simp: governor_refuses_def)
  show ?thesis using g(2) [of "w_tick w" q]
    by (auto simp: govern_def Hook_Evaluate_def g(1) wp_simps split: sum.splits)
qed

lemma gates_governed:
  assumes "governor_refuses E"
  shows "wp (apply_gates E req) (\<lambda>g _. \<exists>e. g = Inl e) w"
proof -
  have gv: "wp (governed E req pass) (\<lambda>g _. \<exists>e. g = Inl e) v" for pass v
    unfolding governed_def Let_def wp_bind
    by (rule wp_conseq [OF govern_refused [OF assms]]) (auto simp: wp_simps wp_record_quiet split: sum.splits)
  show ?thesis
    unfolding apply_gates_def Let_def wp_bind wp_sum wp_prod
    by (rule wp_True) (auto simp: wp_return split: sum.splits intro!: wp_True [of _ "risk_gate E req"] wp_True [of _ "record_audit E en" for en] gv)
qed

text \<open>A held target answers busy at once; an in-flight rollout makes the locked part answer busy.\<close>

lemma with_target_held: "ref \<in> set (w_locks w) \<Longrightarrow> run_state (with_target E ref fail busy body) w = (busy, w)"
  by (simp add: with_target_def acquireTarget_def lock_local_def TryAcquire_def run_state_simps)

lemma inflight_lock: "lock_step w w1 \<Longrightarrow> inflight_on ref w1 = inflight_on ref w"
  by (simp add: inflight_on_def lock_step_load)

lemma InFlight_found:
  assumes "store_up E" "wf_db (w_db w)" "inflight_on ref w"
  shows "\<exists>x. run_state (InFlight E ref) w = (Inr (Some x), tick1 w)"
proof -
  obtain r where r: "db_LoadRollout (r_ID r) (w_db w) = Inr r" "in_flight ref r" using assms(3) by (auto simp: inflight_on_def)
  obtain rs x where "db_ListRollouts 0 (w_db w) = Inr rs" "find (in_flight ref) rs = Some x"
    using sqlite.list_find_some [OF assms(2) r(1) refl, of "in_flight ref"] r(2) by blast
  then show ?thesis using assms(1)
    by (simp add: InFlight_def ListRollouts_def run_state_simps st_call_def store_up_def join_res_def)
qed

lemma apply_locked_busy:
  assumes "store_up E" "wf_db (w_db w)" "inflight_on (c_Ref (rq_Config req)) w"
  shows "wp (apply_locked E req need score) (\<lambda>x w'. errs x \<and> untouched w w') w"
proof -
  obtain x where f: "run_state (InFlight E (c_Ref (rq_Config req))) w = (Inr (Some x), tick1 w)"
    using InFlight_found [OF assms] by blast
  show ?thesis by (simp add: apply_locked_def Let_def wp_def run_state_simps f)
qed

lemma Apply_after_gates:
  assumes "wp (apply_gates E req) (\<lambda>g w'. (case g of Inl _ \<Rightarrow> True
      | Inr (need, score) \<Rightarrow> wp (with_target E (c_Ref (rq_Config req)) (\<lambda>e. (None, Some e)) (None, Some ErrTargetBusy)
          (apply_locked E req need score)) (\<lambda>x w''. errs x \<and> untouched w' w'') w')) w"
  shows "wp (Apply E req) (\<lambda>x w'. errs x \<and> untouched w w') w"
  unfolding Apply_def wp_if wp_bind
  by (auto simp: wp_return wp_sum wp_prod split: sum.splits prod.splits
      intro!: wp_conseq [OF wp_conj [OF assms gates_untouched]] elim!: wp_conseq intro: untouched_trans)

text \<open>
  C14: what Apply turns away. An agent without a plan, a governance provider that refuses or cannot
  be reached, a target another operation holds, and a target with a rollout still deploying or
  paused: each makes Apply return an error without touching a target, a database or the store's
  rollouts.
\<close>

theorem Apply_refuses:
  assumes "id_Kind (rq_Initiator req) = ''agent'' \<and> \<not> rq_Planned req \<or> governor_refuses E \<or>
    c_Ref (rq_Config req) \<in> set (w_locks w) \<or>
    store_up E \<and> wf_db (w_db w) \<and> inflight_on (c_Ref (rq_Config req)) w"
  shows "errs (fst (run_state (Apply E req) w)) \<and> untouched w (snd (run_state (Apply E req) w))"
proof -
  let ?ref = "c_Ref (rq_Config req)"
  have "wp (Apply E req) (\<lambda>x w'. errs x \<and> untouched w w') w"
    using assms
  proof (elim disjE)
    assume "id_Kind (rq_Initiator req) = ''agent'' \<and> \<not> rq_Planned req"
    then show ?thesis by (simp add: Apply_def wp_return)
  next
    assume "governor_refuses E"
    then show ?thesis
      by (intro Apply_after_gates wp_conseq [OF gates_governed]) auto
  next
    assume h: "?ref \<in> set (w_locks w)"
    show ?thesis
      by (rule Apply_after_gates, rule wp_conseq [OF gates_untouched])
         (use h in \<open>auto simp: wp_def with_target_held split: sum.splits\<close>)
  next
    assume h: "store_up E \<and> wf_db (w_db w) \<and> inflight_on ?ref w"
    have body: "wp (apply_locked E req need score) (\<lambda>x w2. errs x \<and> untouched w1 w2) w1"
      if "lock_step v w1" "w_db v = w_db w" for need score v w1
    proof (rule apply_locked_busy)
      show "store_up E" using h by simp
      show "wf_db (w_db w1)" using h that by (auto simp: lock_step_def dest: same_tables_wf)
      show "inflight_on ?ref w1" using h that by (simp add: inflight_lock [OF that(1)]) (simp add: inflight_on_def)
    qed
    show ?thesis
      by (rule Apply_after_gates, rule wp_conseq [OF gates_untouched])
         (auto split: sum.splits intro!: wp_with_target_refused body)
  qed
  then show ?thesis by (simp add: wp_run)
qed

theorem Apply_refuses_witness:
  "errs (fst (run_state (Apply demo_env demo_request) (demo_with demo_canary)))"
proof -
  have "inflight_on ''web'' (demo_with demo_canary)"
    unfolding inflight_on_def
    by (rule exI [of _ "persisted empty_db demo_canary"])
       (simp add: demo_with_facts in_flight_def demo_canary_def demo_stuck_def)
  then show ?thesis
    using Apply_refuses [of demo_request demo_env "demo_with demo_canary"] demo_with_facts(1,2)
    by (simp add: demo_request_def demo_config_def zero_spec_def)
qed

section \<open>The approval gate\<close>

text \<open>
  The change must be approved: the caller asked for it, or the policy floor demands it.
\<close>

definition must_approve :: "env \<Rightarrow> apply_request \<Rightarrow> bool" where
  "must_approve E req \<longleftrightarrow> rq_NeedsApproval req \<or>
     en_Guardrails E \<and> MustApprove (en_Floor E)
       \<lparr>fi_TargetRef = c_Ref (rq_Config req), fi_Environment = ri_Environment (rq_Risk req),
        fi_ChangeType = ri_ChangeType (rq_Risk req), fi_Criticality = t_Criticality (c_Target (rq_Config req))\<rparr>"

lemma guardrails_floor:
  "wp (check_guardrails E who inp) (\<lambda>g _. case g of Inl _ \<Rightarrow> True
     | Inr force \<Rightarrow> en_Guardrails E \<and> MustApprove (en_Floor E) inp \<longrightarrow> force) w"
  unfolding check_guardrails_def env_guardrails_def CheckApply_def
  by (auto simp: wp_simps split: option.splits intro!: wp_True)

lemma governed_pass: "wp (governed E req pass) (\<lambda>g _. case g of Inl _ \<Rightarrow> True | Inr p \<Rightarrow> p = pass) w"
  unfolding governed_def Let_def wp_bind
  by (rule wp_True) (auto simp: wp_simps wp_record_quiet split: sum.splits)

lemma gates_need:
  assumes "must_approve E req"
  shows "wp (apply_gates E req) (\<lambda>g _. case g of Inl _ \<Rightarrow> True | Inr (need, _) \<Rightarrow> need) w"
  unfolding apply_gates_def Let_def wp_bind wp_sum wp_prod
  by (rule wp_conseq [OF guardrails_floor])
     (use assms in \<open>auto simp: wp_return must_approve_def split: sum.splits
       intro!: wp_True [of _ "risk_gate E req"] wp_True [of _ "record_audit E en" for en] wp_conseq [OF governed_pass]\<close>)

lemma gate_lifecycle_need:
  assumes "statekit_api (en_Life E)" "lx_NeedsApproval ctx" "gate_lifecycle E ctx = Inr lc"
  shows "lc_Phase lc = PhaseAwaitingApproval"
proof -
  let ?lc = "\<lambda>p. \<lparr>lc_Machine = lifecycle_machine PhasePending, lc_Phase = p, lc_Ctx = ctx\<rparr>"
  have wf: "wf_lifecycle (?lc p)" for p by (simp add: wf_lifecycle_def lifecycle_machine_def)
  have new: "NewLifecycle (en_Life E) ctx = Inr (?lc PhasePending)"
    by (simp add: NewLifecycle_def resumeLifecycle_ok [OF assms(1)])
  have v: "lc_Send (en_Life E) (?lc PhasePending) EventValidate = (None, ?lc PhaseValidating)"
    using lc_Send_step [OF assms(1) wf [of PhasePending], of EventValidate PhaseValidating]
    by (simp add: lifecycle_step_def)
  have g: "lc_Send (en_Life E) (?lc PhaseValidating) EventGate = (None, ?lc PhaseAwaitingApproval)"
    using lc_Send_step [OF assms(1) wf [of PhaseValidating], of EventGate PhaseAwaitingApproval] assms(2)
    by (simp add: lifecycle_step_def)
  show ?thesis using assms(3) by (auto simp: gate_lifecycle_def new v g)
qed

text \<open>Apply stopped at the gate: an error, or a stored rollout that awaits approval.\<close>

definition halted :: "world \<Rightarrow> ptr_result \<Rightarrow> world \<Rightarrow> bool" where
  "halted w x w' \<longleftrightarrow> deploys w' = deploys w \<and>
     (errs x \<or> (\<exists>r. x = (Some r, None) \<and> r_Phase r = PhaseAwaitingApproval \<and>
        (wf_db (w_db w) \<longrightarrow> stored_phase (r_ID r) w' = Some PhaseAwaitingApproval)))"

lemma halted_err: "untouched w w' \<Longrightarrow> halted w (ro, Some e) w'"
  by (simp add: halted_def untouched_def)

lemma apply_rollout_halts:
  assumes "statekit_api (en_Life E)"
  shows "wp (apply_rollout E req True score m t) (halted w) w"
proof -
  have base: "wp (if b then rollbackBaseline E ref m else State_Monad.return [])
      (\<lambda>_ w'. w_db w' = w_db v \<and> deploys w' = deploys v) v" for b ref v
    by (rule wp_frame [where K = "{KDiff}"]) (auto intro!: keeps_rules dest: deploys_ext)
  note ph = gate_lifecycle_need [OF assms]
  show ?thesis
  proof (cases "gate_lifecycle E \<lparr>lx_PlanProduced = rq_Planned req \<or> id_Kind (rq_Initiator req) \<noteq> ''agent'', lx_NeedsApproval = True\<rparr>")
    case (Inl e)
    then show ?thesis by (simp add: apply_rollout_def Let_def wp_return halted_err)
  next
    case (Inr lc)
    have p: "lc_Phase lc = PhaseAwaitingApproval" by (rule ph [OF _ Inr]) simp
    show ?thesis
      unfolding apply_rollout_def Let_def Inr sum.case wp_bind wp_now wp_ask
      by (rule wp_conseq [OF base])
         (auto simp: wp_simps wp_record_quiet notifyEvent_def p new_rollout_def capture_def halted_def deploys_def stored_phase_def
           sqlite.load_saved split: option.splits)
  qed
qed

lemma halted_lock:
  assumes "lock_step w w1" "halted w1 x w2" "lock_step w2 w'"
  shows "halted w x w'"
proof -
  have "wf_db (w_db w1) = wf_db (w_db w)" using assms(1) by (auto simp: lock_step_def dest: same_tables_wf)
  then show ?thesis
    using assms deploys_lock_step [OF assms(1)] deploys_lock_step [OF assms(3)] by (auto simp: halted_def lock_step_phase)
qed

lemma halted_same: "w_db v = w_db w \<Longrightarrow> deploys v = deploys w \<Longrightarrow> halted v x w' \<Longrightarrow> halted w x w'"
  by (auto simp: halted_def)

lemma wp_with_target_halted:
  assumes "\<And>w1. lock_step w w1 \<Longrightarrow> wp body (halted w1) w1"
  shows "wp (with_target E ref (\<lambda>e. (None, Some e)) (None, Some ErrTargetBusy) body) (halted w) w"
proof (rule wpI)
  fix x w'
  assume r: "run_state (with_target E ref (\<lambda>e. (None, Some e)) (None, Some ErrTargetBusy) body) w = (x, w')"
  show "halted w x w'"
    using with_target_run [OF r]
  proof (elim disjE exE conjE)
    fix w1 w2
    assume h: "lock_step w w1" "run_state body w1 = (x, w2)" "lock_step w2 w'"
    then show ?thesis using wpD [OF assms [OF h(1)] h(2)] halted_lock by blast
  qed (auto intro: halted_err untouched_lock)
qed

definition quiet :: "world \<Rightarrow> world \<Rightarrow> bool" where
  "quiet w v \<longleftrightarrow> w_db v = w_db w \<and> deploys v = deploys w"

lemma quiet_bind:
  assumes "keeps (ext {}) m" "keeps db_same m" "quiet w v" "\<And>x v'. quiet w v' \<Longrightarrow> wp (f x) Q v'"
  shows "wp (State_Monad.bind m f) Q v"
  unfolding wp_bind by (rule wp_frame [OF assms(1,2)]) (use assms(3) in \<open>auto intro!: assms(4) simp: quiet_def dest: deploys_ext\<close>)

lemma quiet_leaf:
  "quiet w v \<Longrightarrow> wp (State_Monad.return (None, Some e)) (halted w) v"
  "quiet w v \<Longrightarrow> wp (do { record_audit E en; State_Monad.return (None, Some e) }) (halted w) v"
  by (simp_all add: quiet_def halted_def wp_bind wp_record_quiet wp_return deploys_def)

lemma apply_locked_halts:
  assumes "statekit_api (en_Life E)"
  shows "wp (apply_locked E req True score) (halted w) w"
proof -
  have fin: "quiet w v \<Longrightarrow> wp (apply_rollout E req True score m t) (halted w) v" for m t v
    by (rule wp_conseq [OF apply_rollout_halts [OF assms]]) (auto simp: quiet_def intro: halted_same)
  have start: "quiet w w" by (simp add: quiet_def)
  show ?thesis
    unfolding apply_locked_def Let_def wp_sum wp_option
    by (rule quiet_bind [OF _ _ start], (intro keeps_rules)+)
       (auto simp: wp_sum split: sum.split option.split intro!: quiet_leaf quiet_bind fin keeps_rules)
qed

text \<open>
  C5: a change that must be approved stops at the gate. When the caller asks for approval or the
  policy floor demands it (a critical target, a schema change in production), Apply deploys
  nothing: no target is applied to and no migration runs. It returns an error, or a rollout that
  awaits approval and is stored as such.
\<close>

theorem Apply_halts_for_approval:
  assumes "statekit_api (en_Life E)" "must_approve E req" "run_state (Apply E req) w = ((ro, er), w')"
  shows "deploys w' = deploys w \<and> (er \<noteq> None \<or> (\<exists>r. ro = Some r \<and> r_Phase r = PhaseAwaitingApproval \<and>
     (wf_db (w_db w) \<longrightarrow> stored_phase (r_ID r) w' = Some PhaseAwaitingApproval)))"
proof -
  have body: "wp (with_target E (c_Ref (rq_Config req)) (\<lambda>e. (None, Some e)) (None, Some ErrTargetBusy)
      (apply_locked E req True score)) (halted v) v" for score v
    by (rule wp_with_target_halted [OF apply_locked_halts [OF assms(1)]])
  have "wp (Apply E req) (halted w) w"
    unfolding Apply_def wp_if wp_bind
    by (auto simp: wp_return wp_sum wp_prod halted_err untouched_def split: sum.splits prod.splits
      intro!: wp_conseq [OF wp_conj [OF gates_need [OF assms(2)] gates_untouched]] wp_conseq [OF body] intro: halted_same)
  from wpD [OF this assms(3)] show ?thesis by (auto simp: halted_def errs_def)
qed

theorem Apply_halts_for_approval_witness:
  "deploys (snd (run_state (Apply demo_env (demo_request\<lparr>rq_NeedsApproval := True\<rparr>)) demo_world)) = []"
proof -
  obtain ro er w' where r: "run_state (Apply demo_env (demo_request\<lparr>rq_NeedsApproval := True\<rparr>)) demo_world = ((ro, er), w')"
    by (metis surj_pair)
  have "must_approve demo_env (demo_request\<lparr>rq_NeedsApproval := True\<rparr>)" by (simp add: must_approve_def)
  moreover have "deploys demo_world = []" by (simp add: deploys_def demo_world_def)
  ultimately show ?thesis using Apply_halts_for_approval [OF demo_env_life(1) _ r] by (simp add: r)
qed

section \<open>Approval\<close>

text \<open>What an approval that returns without an error has done.\<close>

definition approved :: "rollout \<Rightarrow> world \<Rightarrow> rollout \<times> err option \<Rightarrow> world \<Rightarrow> bool" where
  "approved r w x w' \<longleftrightarrow> errs x \<or> (r_Phase r = PhaseAwaitingApproval \<and> r_Phase (fst x) = PhaseVerifying \<and>
     (\<exists>t. t_Ref t = r_TargetRef r \<and> after_effect (TargetApply t (r_Desired r) None) w w') \<and>
     (wf_db (w_db w) \<longrightarrow> stored_phase (r_ID r) w' = Some PhaseVerifying))"

lemma attributed_simps [simp]: "r_ID (attributed who r) = r_ID r" "r_Phase (attributed who r) = r_Phase r"
  by (simp_all add: attributed_def)

lemma approved_err [simp]: "approved r w (x, Some e) w'"
  by (simp add: approved_def)

lemma approve_locked_wp:
  assumes "statekit_api (en_Life E)"
  shows "wp (approve_locked E r who) (approved r w) w"
proof (cases "r_Phase r = PhaseAwaitingApproval")
  case False
  then obtain e where e: "lc_Send (en_Life E) \<lparr>lc_Machine = lifecycle_machine (r_Phase r), lc_Phase = r_Phase r, lc_Ctx = planned_ctx\<rparr>
      EventApprove = (Some e, \<lparr>lc_Machine = lifecycle_machine (r_Phase r), lc_Phase = r_Phase r, lc_Ctx = planned_ctx\<rparr>)"
    using resume_send(3) [OF assms, of "r_Phase r" EventApprove "r_Phase r"] by (auto simp: step_Approve)
  show ?thesis
    unfolding approve_locked_def wp_bind resume_send(1) [OF assms]
    by (rule wp_True) (auto simp: e wp_simps wp_record_quiet split: sum.splits)
next
  case True
  let ?lc = "\<lambda>p. \<lparr>lc_Machine = lifecycle_machine (r_Phase r), lc_Phase = p, lc_Ctx = planned_ctx\<rparr>"
  have s: "lc_Send (en_Life E) (?lc PhaseAwaitingApproval) EventApprove = (None, ?lc PhaseDeploying)"
    "lc_Send (en_Life E) (?lc PhaseDeploying) EventDeployed = (None, ?lc PhaseVerifying)"
    by (rule resume_send(2) [OF assms], simp add: life_steps)+
  show ?thesis
    unfolding approve_locked_def wp_bind resume_send(1) [OF assms] Let_def
    by (rule wp_frame [OF keeps_check_guardrails, where K = "{}"])
       (auto simp: s s [unfolded True] True wp_simps wp_record_quiet approved_def after_effect_def ext_def grows_def stored_phase_def
         sqlite.load_saved target_of_manifest_ref split: sum.splits option.splits)
qed

text \<open>
  C15: approval needs a second pair of eyes and a waiting rollout. The initiator of a rollout
  cannot approve it (unless self-approval is switched on): the attempt is an error and touches
  nothing. An Approve that returns without an error found the rollout awaiting approval, applied
  its desired manifest to its target and stored it as verifying.
\<close>

theorem Approve_four_eyes:
  assumes "statekit_api (en_Life E)" "db_LoadRollout rid (w_db w) = Inr r" "r_ID r = rid" "store_up E"
  shows "(\<not> en_AllowSelfApprove E \<and> realPrincipal (r_Initiator r) \<and> sameIdentity who (r_Initiator r) \<longrightarrow>
      errs (fst (run_state (Approve E rid who) w)) \<and> untouched w (snd (run_state (Approve E rid who) w))) \<and>
    (snd (fst (run_state (Approve E rid who) w)) = None \<longrightarrow>
      r_Phase r = PhaseAwaitingApproval \<and>
      (\<exists>t. t_Ref t = r_TargetRef r \<and> after_effect (TargetApply t (r_Desired r) None) w (snd (run_state (Approve E rid who) w))) \<and>
      (wf_db (w_db w) \<longrightarrow> stored_phase rid (snd (run_state (Approve E rid who) w)) = Some PhaseVerifying))"
proof -
  let ?self = "\<not> en_AllowSelfApprove E \<and> realPrincipal (r_Initiator r) \<and> sameIdentity who (r_Initiator r)"
  have load: "wp (Approve E rid who) Q w \<longleftrightarrow>
      (if ?self then wp (do {
            record_audit E \<lparr>ae_Action = ActionApply, ae_RolloutID = r_ID r, ae_TargetRef = r_TargetRef r, ae_Phase = [],
              ae_Actor = who, ae_Detail = ''approve rejected: four-eyes (approver == initiator)''\<rparr>;
            State_Monad.return (r, Some (Err (''engine: four-eyes: approver '' @ id_Name who @ '' must differ from initiator '' @
              id_Name (r_Initiator r) @ '' (set ROLLOPS_ALLOW_SELF_APPROVE=1 to allow)''))) }) Q (tick1 w)
       else wp (with_target E (r_TargetRef r) (\<lambda>e. (r, Some e)) (r, Some ErrTargetBusy) (approve_locked E r who)) Q (tick1 w))" for Q
    using assms(2,4) by (simp add: Approve_def wp_bind wp_LoadRollout store_up_def)
  have a: "?self \<Longrightarrow> wp (Approve E rid who) (\<lambda>x w'. errs x \<and> untouched w w') w"
    unfolding load by (simp add: wp_audit_refused)
  have lk: "wp (with_target E (r_TargetRef r) (\<lambda>e. (r, Some e)) (r, Some ErrTargetBusy) (approve_locked E r who)) (approved r w) (tick1 w)"
  proof (rule wpI)
    fix x w'
    assume "run_state (with_target E (r_TargetRef r) (\<lambda>e. (r, Some e)) (r, Some ErrTargetBusy) (approve_locked E r who)) (tick1 w) = (x, w')"
    from with_target_run [OF this] show "approved r w x w'"
    proof (elim disjE exE conjE)
      fix w1 w2
      assume h: "lock_step (tick1 w) w1" "run_state (approve_locked E r who) w1 = (x, w2)" "lock_step w2 w'"
      have "approved r w1 x w2" by (rule wpD [OF approve_locked_wp [OF assms(1)] h(2)])
      moreover have "wf_db (w_db w1) = wf_db (w_db w)" using h(1) by (auto simp: lock_step_def dest: same_tables_wf)
      ultimately show ?thesis using h(1,3)
        by (auto simp: approved_def lock_step_phase [OF h(3)] after_effect_def lock_step_def)
    qed auto
  qed
  have b: "wp (Approve E rid who) (approved r w) w"
    unfolding load using lk by (simp add: wp_bind wp_record_quiet wp_return)
  show ?thesis using a b assms(3) by (auto simp: wp_run approved_def errs_def)
qed

definition demo_waiting :: rollout where
  "demo_waiting = zero_rollout\<lparr>r_ID := ''ro-1'', r_TargetRef := ''web'', r_Phase := PhaseAwaitingApproval, r_Initiator := demo_human\<rparr>"

theorem Approve_four_eyes_witness:
  "errs (fst (run_state (Approve demo_env ''ro-1'' demo_human) (demo_with demo_waiting)))"
proof -
  let ?r = "persisted empty_db demo_waiting"
  have i: "r_ID demo_waiting = ''ro-1''" by (simp add: demo_waiting_def)
  have "r_Initiator ?r = col_identity demo_human"
    by (simp add: persisted_def LoadRollout_find empty_db_def demo_waiting_def)
  then have "realPrincipal (r_Initiator ?r)" "sameIdentity demo_human (r_Initiator ?r)" "\<not> en_AllowSelfApprove demo_env"
    by (simp_all add: realPrincipal_def sameIdentity_def col_identity_def demo_human_def demo_env_def)
  then show ?thesis
    using Approve_four_eyes [OF demo_env_life(1) demo_with_facts(4) [OF i] _ demo_with_facts(1), of demo_human] i by simp
qed

text \<open>
  Approving never runs a database command. Whatever the rollout captured, Approve applies its
  manifest without running the pre-deploy migration that the ungated path runs first, so a gated
  release with a migration goes live against the old schema.
\<close>

theorem Approve_never_migrates:
  "filter (\<lambda>e. kind e = KDB) (w_trace (snd (run_state (Approve E rid who) w))) = filter (\<lambda>e. kind e = KDB) (w_trace w)"
proof -
  have "ext {KApply, KSaved, KAudit} w (snd (run_state (Approve E rid who) w))"
    using keeps_Approve(1) [of "{KApply, KSaved, KAudit}" E rid who] by (simp add: keeps_def)
  then show ?thesis by (auto simp: ext_def intro: grows_filter [where K = "{KApply, KSaved, KAudit}"])
qed

text \<open>
  A schedule overtakes a canary. While a rollout of the target is deploying or paused Apply
  answers busy, but a schedule that falls due for the same target does not look: with the lock
  free, the target built and the apply succeeding, it is applied over the canary and returns
  without an error, and the canary is still stored in the phase it had.
\<close>

theorem schedule_overtakes_canary:
  assumes "store_up E" "wf_db (w_db w)" "target_free E (sd_TargetRef s) w" "\<not> en_Guardrails E"
    and "target_of_manifest (sd_TargetRef s) (sd_Desired s) = Inr t" "\<forall>n. en_Build E n t = None"
    and "\<forall>n. en_Apply E n t (sd_Desired s) = None"
    and "db_LoadRollout (r_ID r) (w_db w) = Inr r" "in_flight (sd_TargetRef s) r" "\<forall>n. en_NewID E n \<noteq> r_ID r"
  shows "case run_state (applyScheduled E s) w of ((r', er), w') \<Rightarrow> er = None \<and> r_Phase r' = PhaseVerifying \<and>
     deploys w' = deploys w @ [TargetApply t (sd_Desired s) None] \<and> stored_phase (r_ID r) w' = Some (r_Phase r)"
proof -
  define Q where "Q = (\<lambda>(r' :: rollout, er :: err option) w'. er = None \<and> r_Phase r' = PhaseVerifying \<and>
     deploys w' = deploys w @ [TargetApply t (sd_Desired s) None] \<and> stored_phase (r_ID r) w' = Some (r_Phase r))"
  have gr: "check_guardrails E who inp = State_Monad.return (Inr False)" for who inp
    using assms(4) by (simp add: check_guardrails_def env_guardrails_def)
  have body: "wp (sched_locked E s) (\<lambda>x w2. \<forall>w'. lock_step w2 w' \<longrightarrow> Q x w') w1" if l: "lock_step w w1" for w1
  proof -
    have wf: "wf_db (w_db w1)" using l assms(2) by (auto simp: lock_step_def dest: same_tables_wf)
    have ld: "db_LoadRollout (r_ID r) (w_db w1) = Inr r" using lock_step_load [OF l] assms(8) by simp
    have tr: "w_trace w1 = w_trace w" using l by (simp add: lock_step_def)
    have ne: "r_ID r \<noteq> en_NewID E n" for n using assms(10) by metis
    show ?thesis
      unfolding sched_locked_def Let_def gr
      using assms(1) [unfolded store_up_def] assms(5-7) wf ld ne
      by (simp add: wp_simps Q_def deploys_lock_step lock_step_phase)
         (simp add: deploys_def tr stored_phase_def load_save wf_SaveRollout)
  qed
  have "wp (applyScheduled E s) Q w"
    unfolding applyScheduled_def by (rule wp_with_target_free [OF assms(1,3) body])
  then show ?thesis by (simp add: wp_def Q_def split: prod.splits)
qed

definition demo_sched :: scheduled_rollout where
  "demo_sched = \<lparr>sd_ID = ''sch-1'', sd_TargetRef = ''web'', sd_DueAt = 0,
     sd_Desired = zero_manifest\<lparr>m_Kind := ''ssh'', m_Checksum := ''s2''\<rparr>, sd_Initiator = demo_human\<rparr>"

theorem schedule_overtakes_canary_witness:
  "\<exists>r' w'. run_state (applyScheduled (demo_env\<lparr>en_Guardrails := False, en_NewID := (\<lambda>_. ''ro-2'')\<rparr>) demo_sched) (demo_with demo_canary) =
     ((r', None), w') \<and> stored_phase ''ro-1'' w' = Some PhaseDeploying"
proof -
  let ?E = "demo_env\<lparr>en_Guardrails := False, en_NewID := (\<lambda>_. ''ro-2'')\<rparr>" and ?r = "persisted empty_db demo_canary"
  have f: "r_ID demo_canary = ''ro-1''" "r_Phase demo_canary = PhaseDeploying" "r_TargetRef demo_canary = ''web''"
    by (simp_all add: demo_canary_def demo_stuck_def)
  have e: "store_up ?E" "target_free ?E ref (demo_with demo_canary)" "\<not> en_Guardrails ?E" "\<forall>n. en_Build ?E n t = None"
    "\<forall>n. en_Apply ?E n t m = None" "\<forall>n. en_NewID ?E n \<noteq> r_ID ?r" for ref t m
    using demo_with_facts(1) demo_with_facts(3) [of ref demo_canary]
    by (simp_all add: store_up_def target_free_def f) (simp_all add: demo_env_def)
  have t: "target_of_manifest (sd_TargetRef demo_sched) (sd_Desired demo_sched) =
      Inr \<lparr>t_Kind = ''ssh'', t_Ref = ''web'', t_Criticality = [], t_Env = [], t_Spec = []\<rparr>"
    by (simp add: demo_sched_def target_of_manifest_def zero_manifest_def has_blob_def)
  have i: "in_flight (sd_TargetRef demo_sched) ?r" by (simp add: in_flight_def demo_with_facts f demo_sched_def)
  have l: "db_LoadRollout (r_ID ?r) (w_db (demo_with demo_canary)) = Inr ?r" by (simp add: demo_with_facts(4))
  show ?thesis
    using schedule_overtakes_canary [OF e(1) demo_with_facts(2) e(2,3) t e(4,5) l i e(6)] by (auto simp: f split: prod.splits)
qed

section \<open>Blocked rollbacks\<close>

text \<open>The applies of a trace.\<close>

definition applies :: "world \<Rightarrow> effect list" where
  "applies w = filter (\<lambda>e. kind e = KApply) (w_trace w)"

lemma applies_ext: "ext K w w' \<Longrightarrow> KApply \<notin> K \<Longrightarrow> applies w' = applies w"
  unfolding applies_def by (rule grows_filter [where K = K]) (auto simp: ext_def)

lemma applies_lock: "lock_step w w' \<Longrightarrow> applies w' = applies w"
  by (simp add: applies_def lock_step_def)

lemma applies_tick [simp]: "applies (tick1 w) = applies w"
  by (simp add: applies_def)

lemma wp_applies: "keeps (ext K) m \<Longrightarrow> KApply \<notin> K \<Longrightarrow> wp m (\<lambda>_ w'. applies w' = applies w) w"
  using keeps_wp [of "ext K" m w] by (auto elim!: wp_conseq dest: applies_ext)

lemma wp_with_target_applies:
  assumes "\<And>w1. wp body (\<lambda>_ w2. applies w2 = applies w1) w1"
  shows "wp (with_target E ref fail busy body) (\<lambda>_ w'. applies w' = applies w) w"
proof (rule wpI)
  fix x w'
  assume r: "run_state (with_target E ref fail busy body) w = (x, w')"
  show "applies w' = applies w"
    using with_target_run [OF r]
    by (elim disjE exE conjE) (use wpD [OF assms] applies_lock in metis)+
qed

lemma failProgressive_blocked:
  assumes "r_RollbackBlocked r \<noteq> []"
  shows "wp (failProgressive E lc r cfg m e who) (\<lambda>_ w'. applies w' = applies w) w"
  using assms unfolding failProgressive_def
  by (auto intro!: wp_applies [OF keeps_mark_failed(1), where K = "{KSaved, KAudit, KNotify}"])

lemma VerifyOrRollback_blocked:
  assumes "r_RollbackBlocked r \<noteq> []" "db_LoadRollout rid (w_db w) = Inr r" "store_up E"
  shows "wp (VerifyOrRollback E rid prior c) (\<lambda>_ w'. applies w' = applies w) w"
proof -
  have "keeps (ext {KDB, KSaved, KAudit, KFlag, KNotify}) (do {
               p \<leftarrow> promoteWithNote E rid nt;
               (case p of
                  (_, Some e) \<Rightarrow> State_Monad.return (zero_outcome, Some e)
                | (pr, None) \<Rightarrow> do {
                    (case s_FeatureFlags (c_Spec c) of
                       Some ff \<Rightarrow> if flagsEnabled (Some ff) ''promote'' then driveFlag E (r_TargetRef pr) ff 100
                                  else State_Monad.return ()
                     | None \<Rightarrow> State_Monad.return ());
                    notifyDeployment E Promoted pr [];
                    State_Monad.return (\<lparr>vo_Rollout = pr, vo_RolledBack = False, vo_Reason = []\<rparr>, None) }) })" for nt
    by (intro keeps_rules; simp)
  note promote = wp_applies [OF this]
  have chk: "wp (runPostDeployChecks E r c) (\<lambda>_ w'. applies w' = applies v) v" for v
    by (rule wp_applies [OF keeps_checks(1), where K = "{KHealth, KSmoke, KMetric}"]) auto
  show ?thesis
    unfolding VerifyOrRollback_def wp_bind [of "LoadRollout E rid"] wp_LoadRollout Let_def
    using assms
    by (auto simp: store_up_def wp_bind [of "runPostDeployChecks E r c"] wp_return
      intro!: wp_conseq [OF chk] wp_conseq [OF promote] split: prod.splits)
qed

lemma Abort_blocked:
  assumes "statekit_api (en_Step E)" "r_RollbackBlocked r \<noteq> []" "db_LoadRollout rid (w_db w) = Inr r" "store_up E"
  shows "wp (Abort E rid who) (\<lambda>_ w'. applies w' = applies w) w"
proof -
  let ?K = "{KSaved, KAudit, KNotify, KTraffic, KFlag}"
  have "keeps (ext ?K) (abort_body E r who)"
    unfolding abort_body_def Let_def
    by (intro keeps_abort_signal ext.frame_axioms assms(1) keeps_rules; simp add: assms(2))
  then have body: "wp (abort_body E r who) (\<lambda>_ w2. applies w2 = applies w1) w1" for w1
    by (rule wp_applies) simp
  show ?thesis
    unfolding Abort_def holdTarget_def wp_bind wp_LoadRollout using assms(3,4)
    by (auto simp: store_up_def intro: wp_conseq [OF wp_with_target_applies [OF body]])
qed

text \<open>
  C13: a blocked rollback is never carried out behind the operator's back. When the state recorded
  before a rollout was not verified to be what ran, nothing is re-applied to the target: not when
  a deploy step fails, not when the post-deploy gate fails with auto-rollback on, and not when the
  operator aborts the canary.
\<close>

theorem blocked_rollback_never_applied:
  assumes "statekit_api (en_Step E)" "r_RollbackBlocked r \<noteq> []" "db_LoadRollout rid (w_db w) = Inr r" "store_up E"
  shows "applies (snd (run_state (failProgressive E lc r cfg m e who) w)) = applies w \<and>
    applies (snd (run_state (VerifyOrRollback E rid prior c) w)) = applies w \<and>
    applies (snd (run_state (Abort E rid who) w)) = applies w"
  using failProgressive_blocked [OF assms(2), of E lc cfg m e who w] VerifyOrRollback_blocked [OF assms(2-4), of prior c]
    Abort_blocked [OF assms, of who]
  by (simp add: wp_run)

theorem blocked_rollback_never_applied_witness:
  "applies (snd (run_state (Abort demo_env ''ro-1'' demo_human) (demo_with (demo_canary\<lparr>r_RollbackBlocked := ''changed outside''\<rparr>)))) = []"
proof -
  let ?r = "demo_canary\<lparr>r_RollbackBlocked := ''changed outside''\<rparr>"
  have "r_ID ?r = ''ro-1''" by (simp add: demo_canary_def demo_stuck_def)
  from blocked_rollback_never_applied [OF demo_env_life(2) _ demo_with_facts(4) [OF this] demo_with_facts(1), of _ _ _ _ demo_human]
  show ?thesis by (simp add: applies_def demo_with_def demo_world_def)
qed

end
