(* ===== verification/Engine_Plan.thy ===== *)
theory Engine_Plan
  imports Engine_Canary
begin

text \<open>
  The operations of the engine that look without changing what runs
  (\<^verbatim>\<open>internal/engine/engine.go\<close>, \<^verbatim>\<open>internal/engine/fleet.go\<close>): \<open>Plan\<close> with its live diff,
  the batch \<open>Preflight\<close>, the drift report, \<open>Diff\<close>, \<open>Resources\<close> and the fleet report. The dash and
  the arrow of the rendered summaries are written in ASCII.
\<close>

section \<open>The plan\<close>

datatype plan_action = PlanCreate | PlanUpdate | PlanNoop

record plan =
  pn_TargetRef :: string
  pn_Desired :: manifest
  pn_Current :: fingerprint
  pn_Changed :: bool
  pn_Action :: plan_action
  pn_Summary :: string
  pn_DeepDrift :: bool
  pn_DriftAlert :: bool
  pn_Migration :: string
  pn_Rendered :: string
  pn_StrategyNote :: string
  pn_RiskScore :: real
  pn_NeedsApproval :: bool
  pn_Sensitive :: bool
  pn_RecentFailures :: int
  pn_RiskReason :: string

definition short :: "string \<Rightarrow> string" where
  "short s = (if length s \<le> 12 then s else take 12 s)"

definition plan_extras :: "plan \<Rightarrow> string \<Rightarrow> string" where
  "plan_extras p base =
     (let base = (if pn_Migration p \<noteq> [] then base @ [CHR 0x0A] @ ''  + database '' @ pn_Migration p else base) in
      if pn_StrategyNote p \<noteq> [] then base @ [CHR 0x0A] @ ''  strategy: '' @ pn_StrategyNote p else base)"

definition render :: "plan \<Rightarrow> string" where
  "render p =
     (let head = pn_TargetRef p @ '' ['' @ m_Kind (pn_Desired p) @ '']: ''; sum = short (m_Checksum (pn_Desired p)) in
      if pn_DriftAlert p \<and> pn_Action p = PlanNoop then
        plan_extras p (head @ ''live drift detected -- NOT auto-corrected (detect mode; set verification: full to self-heal) [checksum '' @ sum @ '']'')
      else plan_extras p (case pn_Action p of
          PlanNoop \<Rightarrow> head @ ''no changes (checksum '' @ sum @ '')''
        | PlanCreate \<Rightarrow> head @ ''create -- deploy checksum '' @ sum @ '' (no current state observed)''
        | PlanUpdate \<Rightarrow>
            if pn_DeepDrift p then head @ ''update -- live drifted from desired '' @ sum @ '' (full verification)''
            else head @ ''update -- '' @ short (fp_Value (pn_Current p)) @ '' -> '' @ sum))"

text \<open>\<open>p.Summary = p.render()\<close>\<close>

definition summarized :: "plan \<Rightarrow> plan" where
  "summarized p = p\<lparr>pn_Summary := render p\<rparr>"

definition newPlan :: "string \<Rightarrow> manifest \<Rightarrow> fingerprint \<Rightarrow> bool \<Rightarrow> plan" where
  "newPlan ref desired current deepDrift =
     (let changed = (fp_Value current \<noteq> m_Checksum desired \<or> deepDrift) in
      summarized \<lparr>pn_TargetRef = ref, pn_Desired = desired, pn_Current = current, pn_Changed = changed,
               pn_Action = (if fp_Value current = [] then PlanCreate else if changed then PlanUpdate else PlanNoop),
               pn_Summary = [], pn_DeepDrift = deepDrift, pn_DriftAlert = False, pn_Migration = [], pn_Rendered = [],
               pn_StrategyNote = [], pn_RiskScore = 0, pn_NeedsApproval = False, pn_Sensitive = False,
               pn_RecentFailures = 0, pn_RiskReason = []\<rparr>)"

text \<open>The verification depth of a config, and the live diff that \<open>detect\<close> and \<open>full\<close> add to the stamp.\<close>

definition verification :: "config \<Rightarrow> string" where
  "verification c = (if s_Verification (c_Spec c) = [] then ''detect'' else s_Verification (c_Spec c))"

text \<open>Answers \<open>(deepDrift, driftAlert)\<close>.\<close>

definition live_diff :: "env \<Rightarrow> string \<Rightarrow> manifest \<Rightarrow> fingerprint \<Rightarrow> string \<Rightarrow> (bool \<times> bool) prog" where
  "live_diff E ref m cur ver =
     (if (ver = ''detect'' \<or> ver = ''full'') \<and> fp_Value cur = m_Checksum m \<and> m_Checksum m \<noteq> [] then do {
        raw \<leftarrow> rawTarget E ref m;
        (case raw of
           Inl _ \<Rightarrow> State_Monad.return (ver = ''full'', False)
         | Inr t \<Rightarrow>
             if \<not> en_Differ E t then State_Monad.return (False, False)
             else do {
               diff \<leftarrow> tgt_Diff E t m;
               State_Monad.return (case diff of
                   Inl _ \<Rightarrow> (ver = ''full'', False)
                 | Inr d \<Rightarrow>
                     if strings_TrimSpace d \<noteq> [] then (if ver = ''full'' then (True, False) else (False, True))
                     else (False, False))
             })
      } else State_Monad.return (False, False))"

definition plan_migration :: "config \<Rightarrow> plan \<Rightarrow> plan" where
  "plan_migration c p =
     (case DatabaseMigrate (c_Spec c) of
        None \<Rightarrow> p
      | Some mig \<Rightarrow>
          summarized (p\<lparr>pn_Migration := ''migrate ('' @ DatabaseMigrateWhen (c_Spec c) @ ''): '' @
            strings_Join (db_Command mig) '' ''\<rparr>))"

definition plan_risk :: "env \<Rightarrow> config \<Rightarrow> plan \<Rightarrow> plan res prog" where
  "plan_risk E c p =
     (if risk_configured c then do {
        d \<leftarrow> EvaluateRisk E c (RiskFromConfig c []);
        State_Monad.return (case d of
            Inl e \<Rightarrow> Inl e
          | Inr x \<Rightarrow> Inr (p\<lparr>pn_RiskScore := rd_Score x, pn_NeedsApproval := rd_NeedsApproval x, pn_Sensitive := rd_Sensitive x,
                          pn_RecentFailures := rd_RecentFailures x, pn_RiskReason := rd_Reason x\<rparr>))
      } else State_Monad.return (Inr p))"

definition plan_of :: "config \<Rightarrow> manifest \<Rightarrow> string \<Rightarrow> fingerprint \<Rightarrow> bool \<times> bool \<Rightarrow> plan" where
  "plan_of c m rendered cur drift =
     (case drift of (deepDrift, driftAlert) \<Rightarrow>
        let p = summarized ((newPlan (c_Ref c) m cur deepDrift)\<lparr>pn_Rendered := rendered, pn_StrategyNote := HonestStrategy c\<rparr>) in
        plan_migration c (if driftAlert then summarized (p\<lparr>pn_DriftAlert := True\<rparr>) else p))"

definition Plan :: "env \<Rightarrow> config \<Rightarrow> plan res prog" where
  "Plan E c =
     (case manifestFromConfig E c (en_Root E) of
        Inl e \<Rightarrow> State_Monad.return (Inl e)
      | Inr m0 \<Rightarrow> do {
          sm \<leftarrow> stampReferencedChecksum E (c_Ref c) m0;
          (case sm of
             Inl e \<Rightarrow> State_Monad.return (Inl e)
           | Inr (rendered, m) \<Rightarrow> do {
               b \<leftarrow> build E (c_Target c);
               (case b of
                  Inl e \<Rightarrow> State_Monad.return (Inl e)
                | Inr t \<Rightarrow> do {
                    ob \<leftarrow> tgt_Observe E t;
                    (case ob of
                       Inl e \<Rightarrow> State_Monad.return (Inl (Wrap ''engine: plan: observe'' e))
                     | Inr cur \<Rightarrow> do {
                         ts \<leftarrow> now E;
                         _ \<leftarrow> SaveObservedState E \<lparr>ts_TargetRef = c_Ref c, ts_Observed = cur, ts_ObservedAt = ts\<rparr>;
                         drift \<leftarrow> live_diff E (c_Ref c) m cur (verification c);
                         plan_risk E c (plan_of c m rendered cur drift)
                       })
                  })
             })
        })"

section \<open>Preflight\<close>

record rooted_config =
  rc_Config :: config
  rc_Root :: string

definition rc_root :: "env \<Rightarrow> rooted_config \<Rightarrow> string" where
  "rc_root E rc = (if rc_Root rc \<noteq> [] then rc_Root rc else en_Root E)"

definition preflight_one :: "env \<Rightarrow> rooted_config \<Rightarrow> err option prog" where
  "preflight_one E rc =
     (let c = rc_Config rc; ref = c_Ref c in
      case manifestFromConfig E c (rc_root E rc) of
        Inl e \<Rightarrow> State_Monad.return (Some (Wrap (ref @ '': render'') e))
      | Inr m0 \<Rightarrow> do {
          sm \<leftarrow> stampReferencedChecksum E ref m0;
          (case sm of
             Inl e \<Rightarrow> State_Monad.return (Some (Wrap (ref @ '': render'') e))
           | Inr (_, m) \<Rightarrow> do {
               b \<leftarrow> build E (c_Target c);
               (case b of
                  Inl e \<Rightarrow> State_Monad.return (Some (Wrap (ref @ '': build target'') e))
                | Inr t \<Rightarrow>
                    if \<not> en_Preflighter E t then State_Monad.return None
                    else do {
                      pe \<leftarrow> tgt_Preflight E t m;
                      State_Monad.return (map_option (Wrap ref) pe)
                    })
             })
        })"

fun Preflight :: "env \<Rightarrow> rooted_config list \<Rightarrow> err list prog" where
  "Preflight E [] = State_Monad.return []"
| "Preflight E (rc # cs) = do {
     e \<leftarrow> preflight_one E rc;
     out \<leftarrow> Preflight E cs;
     State_Monad.return (case e of None \<Rightarrow> out | Some x \<Rightarrow> x # out)
   }"

text \<open>
  \<open>WarnDanglingMiddlewares\<close>: the rendered documents of the batch. The scan for dangling references
  (the Kubernetes target's, over a live cluster) is the parameter \<open>en_Dangling\<close>.
\<close>

definition rendered_doc :: "env \<Rightarrow> rooted_config \<Rightarrow> string option prog" where
  "rendered_doc E rc =
     (let c = rc_Config rc in
      case manifestFromConfig E c (rc_root E rc) of
        Inl _ \<Rightarrow> State_Monad.return None
      | Inr m0 \<Rightarrow> do {
          sm \<leftarrow> stampReferencedChecksum E (c_Ref c) m0;
          (case sm of
             Inl _ \<Rightarrow> State_Monad.return None
           | Inr (_, m) \<Rightarrow>
               if m_Rendered m \<noteq> [] then State_Monad.return (Some (m_Rendered m))
               else do {
                 b \<leftarrow> build E (c_Target c);
                 (case b of
                    Inl _ \<Rightarrow> State_Monad.return None
                  | Inr t \<Rightarrow>
                      if \<not> en_Renderer E t then State_Monad.return None
                      else do {
                        out \<leftarrow> ask (\<lambda>n. en_Render E n t m);
                        State_Monad.return (case out of Inl _ \<Rightarrow> None | Inr bs \<Rightarrow> if bs = [] then None else Some bs)
                      })
               })
        })"

fun rendered_docs :: "env \<Rightarrow> rooted_config list \<Rightarrow> string list prog" where
  "rendered_docs E [] = State_Monad.return []"
| "rendered_docs E (rc # cs) = do {
     d \<leftarrow> rendered_doc E rc;
     ds \<leftarrow> rendered_docs E cs;
     State_Monad.return (case d of None \<Rightarrow> ds | Some x \<Rightarrow> x # ds)
   }"

definition WarnDanglingMiddlewares :: "env \<Rightarrow> rooted_config list \<Rightarrow> string list prog" where
  "WarnDanglingMiddlewares E cs = do {
     docs \<leftarrow> rendered_docs E cs;
     (if docs = [] then State_Monad.return [] else ask (\<lambda>n. en_Dangling E n docs))
   }"

section \<open>Reports\<close>

record drift_item =
  di_TargetRef :: string
  di_Phase :: phase
  di_Desired :: string
  di_Observed :: string
  di_Drifted :: bool

definition drift_item_of :: "(string \<times> string) list \<Rightarrow> rollout \<Rightarrow> drift_item" where
  "drift_item_of fps r =
     (let observed = (case map_of fps (r_TargetRef r) of None \<Rightarrow> [] | Some f \<Rightarrow> f) in
      \<lparr>di_TargetRef = r_TargetRef r, di_Phase = r_Phase r, di_Desired = m_Checksum (r_Desired r), di_Observed = observed,
       di_Drifted = (Settled (r_Phase r) \<and> observed \<noteq> m_Checksum (r_Desired r))\<rparr>)"

definition DriftReport :: "env \<Rightarrow> drift_item list res prog" where
  "DriftReport E = do {
     rs \<leftarrow> ListRollouts E 0;
     (case rs of
        Inl e \<Rightarrow> State_Monad.return (Inl e)
      | Inr l \<Rightarrow> do {
          fps \<leftarrow> st_call E (db_read db_ObservedFingerprints);
          State_Monad.return (case fps of
              Inl e \<Rightarrow> Inl e
            | Inr fs \<Rightarrow> Inr (map (drift_item_of fs) (first_per r_TargetRef [] l)))
        })
   }"

definition Status :: "env \<Rightarrow> string \<Rightarrow> rollout res prog" where
  "Status E rid = LoadRollout E rid"

definition List_rollouts :: "env \<Rightarrow> int \<Rightarrow> rollout list res prog" where
  "List_rollouts E limit = ListRollouts E limit"

definition Diff :: "env \<Rightarrow> string \<Rightarrow> string res prog" where
  "Diff E rid = do {
     l \<leftarrow> LoadRollout E rid;
     (case l of
        Inl e \<Rightarrow> State_Monad.return (Inl e)
      | Inr r \<Rightarrow> do {
          raw \<leftarrow> rawTarget E (r_TargetRef r) (r_Desired r);
          (case raw of
             Inl e \<Rightarrow> State_Monad.return (Inl e)
           | Inr t \<Rightarrow> if \<not> en_Differ E t then State_Monad.return (Inl ErrUnsupported) else tgt_Diff E t (r_Desired r))
        })
   }"

definition Resources :: "env \<Rightarrow> string \<Rightarrow> resource list res prog" where
  "Resources E rid = do {
     l \<leftarrow> LoadRollout E rid;
     (case l of
        Inl e \<Rightarrow> State_Monad.return (Inl e)
      | Inr r \<Rightarrow> do {
          raw \<leftarrow> rawTarget E (r_TargetRef r) (r_Desired r);
          (case raw of
             Inl e \<Rightarrow> State_Monad.return (Inl e)
           | Inr t \<Rightarrow> if \<not> en_Inspector E t then State_Monad.return (Inl ErrUnsupported)
                       else ask (\<lambda>n. en_Resources E n t))
        })
   }"

record fleet_member =
  fm_ID :: string
  fm_Target :: string
  fm_Phase :: phase

record fleet_report =
  fr_Name :: string
  fr_Total :: int
  fr_Promoted :: int
  fr_Active :: int
  fr_Degraded :: int
  fr_Awaiting :: int
  fr_Members :: "fleet_member list"

definition fleetMatch :: "string \<Rightarrow> string \<Rightarrow> bool" where
  "fleetMatch ref filt =
     (if strings_HasSuffix filt ''@'' then strings_HasPrefix ref filt
      else (case before_byte ref (CHR ''@'') of Some pre \<Rightarrow> pre = filt | None \<Rightarrow> ref = filt))"

definition fleet_member_of :: "rollout \<Rightarrow> fleet_member" where
  "fleet_member_of r = \<lparr>fm_ID = r_ID r, fm_Target = r_TargetRef r, fm_Phase = r_Phase r\<rparr>"

text \<open>The \<open>switch\<close> of the counting loop.\<close>

definition fleet_count :: "fleet_report \<Rightarrow> fleet_member \<Rightarrow> fleet_report" where
  "fleet_count rep m =
     (if fm_Phase m = PhasePromoted then rep\<lparr>fr_Promoted := fr_Promoted rep + 1\<rparr>
      else if fm_Phase m = PhaseAwaitingApproval then rep\<lparr>fr_Awaiting := fr_Awaiting rep + 1\<rparr>
      else if Degraded (fm_Phase m) then rep\<lparr>fr_Degraded := fr_Degraded rep + 1\<rparr>
      else if Active (fm_Phase m) then rep\<lparr>fr_Active := fr_Active rep + 1\<rparr>
      else rep)"

definition fleet_of :: "string \<Rightarrow> rollout list \<Rightarrow> fleet_report" where
  "fleet_of filt rs =
     (let members = sort_key fm_Target (map fleet_member_of (first_per r_TargetRef [] (filter (\<lambda>r. fleetMatch (r_TargetRef r) filt) rs))) in
      foldl fleet_count
        \<lparr>fr_Name = strings_TrimSuffix filt ''@'', fr_Total = int (length members), fr_Promoted = 0, fr_Active = 0,
         fr_Degraded = 0, fr_Awaiting = 0, fr_Members = members\<rparr> members)"

definition FleetStatus :: "env \<Rightarrow> string \<Rightarrow> fleet_report res prog" where
  "FleetStatus E filt0 =
     (let filt = strings_TrimSpace filt0 in
      if filt = [] then State_Monad.return (Inl (Err ''engine: fleet filter required''))
      else do {
        rs \<leftarrow> ListRollouts E 0;
        State_Monad.return (case rs of Inl e \<Rightarrow> Inl e | Inr l \<Rightarrow> Inr (fleet_of filt l))
      })"

section \<open>Looking changes nothing but the observed fingerprint\<close>

definition observes :: "world \<Rightarrow> world \<Rightarrow> bool" where
  "observes w w' \<longleftrightarrow> (\<exists>x. w_db w' = (w_db w)\<lparr>db_target_state := x\<rparr>)"

interpretation obf: frame observes
proof
  fix u v w :: world
  show "observes w w" unfolding observes_def by (rule exI [of _ "db_target_state (w_db w)"]) simp
  show "observes u v \<Longrightarrow> observes v w \<Longrightarrow> observes u w" by (auto simp: observes_def)
qed

lemma observes_if_same: "keeps db_same m \<Longrightarrow> keeps observes m"
  unfolding keeps_def db_same_def by (metis obf.frame_refl observes_def)

lemma keeps_observes_save: "keeps observes (SaveObservedState E ts)"
  by (auto simp: keeps_def observes_def SaveObservedState_def st_call_def run_state_simps db_SaveObservedState_def
    split: option.split)
     (metis db.surjective db.update_convs)

lemma keeps_live_diff [keeps_rules]:
  "KDiff \<in> K \<Longrightarrow> keeps (ext K) (live_diff E ref m cur ver)" "keeps db_same (live_diff E ref m cur ver)"
  unfolding live_diff_def by (intro keeps_rules; simp)+

lemma keeps_plan_risk [keeps_rules]: "keeps (ext K) (plan_risk E c p)" "keeps db_same (plan_risk E c p)"
  unfolding plan_risk_def by (intro keeps_rules)+

lemma keeps_Plan [keeps_rules]:
  "{KObserve, KDiff} \<subseteq> K \<Longrightarrow> keeps (ext K) (Plan E c)" "keeps db_wf (Plan E c)"
  unfolding Plan_def by (intro keeps_rules db_same_wf [OF keeps_plan_risk(2)] db_same_wf [OF keeps_live_diff(2)]; simp)+

lemma observes_Plan: "keeps observes (Plan E c)"
  unfolding Plan_def
  by (intro keeps_sum keeps_prod obf.keeps_bind obf.keeps_return keeps_observes_save
       observes_if_same [OF keeps_stamp(2)] observes_if_same [OF keeps_build(2)] observes_if_same [OF keeps_tgt(5)]
       observes_if_same [OF keeps_now(2)] observes_if_same [OF keeps_live_diff(2)] observes_if_same [OF keeps_plan_risk(2)])

lemma keeps_Preflight [keeps_rules]:
  "KPreflight \<in> K \<Longrightarrow> keeps (ext K) (preflight_one E rc)" "keeps db_same (preflight_one E rc)"
  "KPreflight \<in> K \<Longrightarrow> keeps (ext K) (Preflight E cs)" "keeps db_same (Preflight E cs)"
proof -
  show one: "KPreflight \<in> K \<Longrightarrow> keeps (ext K) (preflight_one E rc)" "keeps db_same (preflight_one E rc)" for rc
    unfolding preflight_one_def Let_def by (intro keeps_rules; simp)+
  show "KPreflight \<in> K \<Longrightarrow> keeps (ext K) (Preflight E cs)" "keeps db_same (Preflight E cs)"
    by (induction cs) (unfold Preflight.simps, (intro keeps_rules one; simp)+)
qed

lemma keeps_WarnDangling [keeps_rules]:
  "keeps (ext K) (WarnDanglingMiddlewares E cs)" "keeps db_same (WarnDanglingMiddlewares E cs)"
proof -
  have one: "keeps (ext K) (rendered_doc E rc)" "keeps db_same (rendered_doc E rc)" for rc
    unfolding rendered_doc_def Let_def by (intro keeps_rules; simp)+
  have all: "keeps (ext K) (rendered_docs E cs)" "keeps db_same (rendered_docs E cs)"
    by (induction cs) (unfold rendered_docs.simps, (intro keeps_rules one; simp)+)
  show "keeps (ext K) (WarnDanglingMiddlewares E cs)" "keeps db_same (WarnDanglingMiddlewares E cs)"
    unfolding WarnDanglingMiddlewares_def by (intro keeps_rules all)+
qed

section \<open>What a plan says\<close>

text \<open>The live diff of a target, whenever it is asked: it cannot be made or shows a difference; it shows none.\<close>

definition diff_dirty :: "string res \<Rightarrow> bool" where
  "diff_dirty d = (case d of Inl _ \<Rightarrow> True | Inr s \<Rightarrow> strings_TrimSpace s \<noteq> [])"

definition live_dirty :: "env \<Rightarrow> string \<Rightarrow> manifest \<Rightarrow> bool" where
  "live_dirty E ref m \<longleftrightarrow>
     (\<forall>t. target_of_manifest ref m = Inr t \<longrightarrow> en_Differ E t \<and> (\<forall>n. diff_dirty (en_Diff E n t m)))"

definition live_clean :: "env \<Rightarrow> string \<Rightarrow> manifest \<Rightarrow> bool" where
  "live_clean E ref m \<longleftrightarrow>
     (\<exists>t. target_of_manifest ref m = Inr t \<and> (\<forall>n. en_Build E n t = None) \<and>
        (en_Differ E t \<longrightarrow> (\<forall>n. \<not> diff_dirty (en_Diff E n t m))))"

definition diff_works :: "env \<Rightarrow> string \<Rightarrow> manifest \<Rightarrow> bool" where
  "diff_works E ref m \<longleftrightarrow>
     \<not> is_err (target_of_manifest ref m) \<and> (\<forall>n t. en_Build E n t = None) \<and> (\<forall>n t. \<not> is_err (en_Diff E n t m))"

definition plan_facts :: "env \<Rightarrow> config \<Rightarrow> manifest \<Rightarrow> string \<Rightarrow> bool \<Rightarrow> plan_action \<Rightarrow> bool \<Rightarrow> bool \<Rightarrow> bool" where
  "plan_facts E c m cur changed action deep alert \<longleftrightarrow>
      changed = (cur \<noteq> m_Checksum m \<or> deep) \<and>
      action = (if cur = [] then PlanCreate else if changed then PlanUpdate else PlanNoop) \<and>
      (deep \<longrightarrow> verification c = ''full'') \<and>
      (alert \<longrightarrow> verification c = ''detect'' \<and> \<not> changed) \<and>
      (verification c = ''full'' \<and> m_Checksum m \<noteq> [] \<and> live_dirty E (c_Ref c) m \<longrightarrow> changed) \<and>
      (verification c = ''detect'' \<and> action = PlanNoop \<and> live_dirty E (c_Ref c) m \<and> diff_works E (c_Ref c) m \<longrightarrow> alert) \<and>
      (cur = m_Checksum m \<and> live_clean E (c_Ref c) m \<longrightarrow> \<not> changed \<and> \<not> alert)"

definition plan_sound :: "env \<Rightarrow> config \<Rightarrow> plan \<Rightarrow> bool" where
  "plan_sound E c p \<longleftrightarrow> plan_facts E c (pn_Desired p) (fp_Value (pn_Current p)) (pn_Changed p) (pn_Action p) (pn_DeepDrift p) (pn_DriftAlert p)"

definition drift_sound :: "env \<Rightarrow> string \<Rightarrow> manifest \<Rightarrow> string \<Rightarrow> string \<Rightarrow> bool \<times> bool \<Rightarrow> bool" where
  "drift_sound E ref m cur ver d \<longleftrightarrow>
     (fst d \<longrightarrow> ver = ''full'') \<and> (snd d \<longrightarrow> ver = ''detect'' \<and> cur = m_Checksum m \<and> \<not> fst d) \<and>
     (ver = ''full'' \<and> cur = m_Checksum m \<and> m_Checksum m \<noteq> [] \<and> live_dirty E ref m \<longrightarrow> fst d) \<and>
     (ver = ''detect'' \<and> cur = m_Checksum m \<and> m_Checksum m \<noteq> [] \<and> live_dirty E ref m \<and> diff_works E ref m \<longrightarrow> snd d) \<and>
     (live_clean E ref m \<longrightarrow> \<not> fst d \<and> \<not> snd d)"

lemma live_diff_sound: "wp (live_diff E ref m cur ver) (\<lambda>d _. drift_sound E ref m (fp_Value cur) ver d) w"
  unfolding live_diff_def rawTarget_def tgt_Diff_def
  by (auto simp: wp_simps drift_sound_def live_dirty_def live_clean_def diff_works_def diff_dirty_def is_err_def
      split: sum.splits option.splits if_splits)

lemma summarized_fields [simp]:
  "pn_Desired (summarized p) = pn_Desired p" "pn_Current (summarized p) = pn_Current p"
  "pn_Changed (summarized p) = pn_Changed p" "pn_Action (summarized p) = pn_Action p"
  "pn_DeepDrift (summarized p) = pn_DeepDrift p" "pn_DriftAlert (summarized p) = pn_DriftAlert p"
  by (simp_all add: summarized_def)

lemma plan_migration_fields:
  "pn_Desired (plan_migration c p) = pn_Desired p" "pn_Current (plan_migration c p) = pn_Current p"
  "pn_Changed (plan_migration c p) = pn_Changed p" "pn_Action (plan_migration c p) = pn_Action p"
  "pn_DeepDrift (plan_migration c p) = pn_DeepDrift p" "pn_DriftAlert (plan_migration c p) = pn_DriftAlert p"
  by (simp_all add: plan_migration_def Let_def split: option.split)

lemma newPlan_fields:
  "pn_Desired (newPlan ref m cur d) = m" "pn_Current (newPlan ref m cur d) = cur"
  "pn_DeepDrift (newPlan ref m cur d) = d" "pn_DriftAlert (newPlan ref m cur d) = False"
  "pn_Changed (newPlan ref m cur d) = (fp_Value cur \<noteq> m_Checksum m \<or> d)"
  "pn_Action (newPlan ref m cur d) =
     (if fp_Value cur = [] then PlanCreate else if fp_Value cur \<noteq> m_Checksum m \<or> d then PlanUpdate else PlanNoop)"
  by (simp_all add: newPlan_def Let_def)

lemma plan_of_fields:
  "pn_Desired (plan_of c m rd cur d) = m" "pn_Current (plan_of c m rd cur d) = cur"
  "pn_DeepDrift (plan_of c m rd cur d) = fst d" "pn_DriftAlert (plan_of c m rd cur d) = snd d"
  "pn_Changed (plan_of c m rd cur d) = (fp_Value cur \<noteq> m_Checksum m \<or> fst d)"
  "pn_Action (plan_of c m rd cur d) =
     (if fp_Value cur = [] then PlanCreate else if fp_Value cur \<noteq> m_Checksum m \<or> fst d then PlanUpdate else PlanNoop)"
  by (cases d; simp add: plan_of_def plan_migration_fields newPlan_fields Let_def)+

lemma plan_facts_drift:
  assumes "drift_sound E (c_Ref c) m cur (verification c) (x, y)"
  shows "plan_facts E c m cur (cur \<noteq> m_Checksum m \<or> x)
    (if cur = [] then PlanCreate else if cur \<noteq> m_Checksum m \<or> x then PlanUpdate else PlanNoop) x y"
proof -
  define D where "D = live_dirty E (c_Ref c) m"
  define L where "L = live_clean E (c_Ref c) m"
  define W where "W = diff_works E (c_Ref c) m"
  define v where "v = verification c"
  define k where "k = m_Checksum m"
  note folds = D_def [symmetric] L_def [symmetric] W_def [symmetric] v_def [symmetric] k_def [symmetric]
  show ?thesis using assms unfolding plan_facts_def drift_sound_def fst_conv snd_conv folds
    by (cases "cur = k"; cases x) (cases y; cases D; cases L; cases W; simp)+
qed

lemma plan_of_sound:
  assumes "drift_sound E (c_Ref c) m (fp_Value cur) (verification c) d"
  shows "plan_sound E c (plan_of c m rd cur d)"
  using plan_facts_drift [of E c m "fp_Value cur" "fst d" "snd d"] assms by (simp add: plan_sound_def plan_of_fields)

lemma plan_sound_risk:
  "plan_sound E c p \<Longrightarrow> plan_sound E c (p\<lparr>pn_RiskScore := a, pn_NeedsApproval := b, pn_Sensitive := d, pn_RecentFailures := f, pn_RiskReason := g\<rparr>)"
  by (simp add: plan_sound_def)

lemma plan_risk_sound:
  "plan_sound E c p \<Longrightarrow> wp (plan_risk E c p) (\<lambda>x _. \<forall>q. x = Inr q \<longrightarrow> plan_sound E c q) w"
  unfolding plan_risk_def wp_if wp_bind wp_return
  by (cases "risk_configured c") (auto intro!: wp_True plan_sound_risk split: sum.splits)

lemma Plan_sound: "wp (Plan E c) (\<lambda>x _. \<forall>p. x = Inr p \<longrightarrow> plan_sound E c p) w"
proof -
  have tail: "wp (live_diff E (c_Ref c) m cur (verification c))
      (\<lambda>d. wp (plan_risk E c (plan_of c m rd cur d)) (\<lambda>x _. \<forall>p. x = Inr p \<longrightarrow> plan_sound E c p)) w" for m cur rd w
    by (rule wp_conseq [OF live_diff_sound]) (intro plan_risk_sound plan_of_sound)
  show ?thesis
    unfolding Plan_def
    by (simp add: wp_simps tgt_Observe_def split: sum.split option.split prod.split,
        intro allI impI wp_True) (auto simp: wp_simps split: sum.split option.split intro!: wp_True tail)
qed

text \<open>
  A plan says what is there, and making one changes nothing. \<open>Plan\<close> only observes and diffs the
  target and stores the observed fingerprint: no rollout, schedule, lease or history row changes
  and nothing is deployed. The plan reports a change exactly when the observed fingerprint is not
  the desired checksum or \<open>full\<close> verification found drift behind a matching stamp; under \<open>full\<close> a
  diff that fails or shows something always counts as a change (it fails closed); under \<open>detect\<close>
  the drift is an alert, and a plan that alerts never reports a change, so it is never corrected.
\<close>

theorem Plan_decides:
  "wp (Plan E c) (\<lambda>x w'. ext {KObserve, KDiff} w w' \<and> observes w w' \<and> (\<forall>p. x = Inr p \<longrightarrow> plan_sound E c p)) w"
  by (intro wp_conj Plan_sound keeps_wp observes_Plan keeps_Plan) simp

definition drifted_env :: env where
  "drifted_env = demo_env\<lparr>en_Differ := (\<lambda>_. True), en_Diff := (\<lambda>_ _ _. Inr ''- image: a''),
     en_Observe := (\<lambda>_ _. Inr \<lparr>fp_Value = ''sum1'', fp_Meta = []\<rparr>)\<rparr>"

definition full_config :: config where
  "full_config = demo_config\<lparr>c_Spec := (c_Spec demo_config)\<lparr>s_Verification := ''full''\<rparr>\<rparr>"

theorem Plan_decides_witness:
  "case fst (run_state (Plan drifted_env full_config) demo_world) of
     Inl _ \<Rightarrow> False
   | Inr p \<Rightarrow> plan_sound drifted_env full_config p \<and> fp_Value (pn_Current p) = m_Checksum (pn_Desired p) \<and> pn_Changed p"
proof -
  have "case fst (run_state (Plan drifted_env full_config) demo_world) of
     Inl _ \<Rightarrow> False | Inr p \<Rightarrow> fp_Value (pn_Current p) = m_Checksum (pn_Desired p) \<and> pn_Changed p"
    by code_simp
  then show ?thesis
    using Plan_decides [of drifted_env full_config demo_world] by (auto simp: wp_run split: sum.splits)
qed

section \<open>Reports show the latest rollout of each target\<close>

lemma find_filter_key:
  "(\<And>x. key x = k \<Longrightarrow> P x) \<Longrightarrow> find (\<lambda>x. key x = k) (filter P xs) = find (\<lambda>x. key x = k) xs"
  by (induction xs) auto

lemma fleet_count_fields:
  "fr_Members (foldl fleet_count rep ms) = fr_Members rep" "fr_Total (foldl fleet_count rep ms) = fr_Total rep"
  "fr_Name (foldl fleet_count rep ms) = fr_Name rep"
  by (induction ms arbitrary: rep) (simp_all add: fleet_count_def)

lemma fleet_count_sum:
  "fr_Promoted (foldl fleet_count rep ms) + fr_Active (foldl fleet_count rep ms) +
   fr_Degraded (foldl fleet_count rep ms) + fr_Awaiting (foldl fleet_count rep ms) =
   fr_Promoted rep + fr_Active rep + fr_Degraded rep + fr_Awaiting rep + int (length ms)"
proof (induction ms arbitrary: rep)
  case (Cons m ms)
  have "fr_Promoted (fleet_count rep m) + fr_Active (fleet_count rep m) + fr_Degraded (fleet_count rep m) +
      fr_Awaiting (fleet_count rep m) = fr_Promoted rep + fr_Active rep + fr_Degraded rep + fr_Awaiting rep + 1"
    by (cases "fm_Phase m") (simp_all add: fleet_count_def Degraded_def Active_def)
  then show ?case using Cons by simp
qed simp

definition latest_members :: "string \<Rightarrow> rollout list \<Rightarrow> fleet_member set" where
  "latest_members filt rs =
     {fleet_member_of r | r. fleetMatch (r_TargetRef r) filt \<and> find (\<lambda>x. r_TargetRef x = r_TargetRef r) rs = Some r}"

lemma fleet_of_members:
  "set (fr_Members (fleet_of filt rs)) = latest_members filt rs"
  "sorted_wrt (<) (map fm_Target (fr_Members (fleet_of filt rs)))"
proof -
  let ?f = "first_per r_TargetRef [] (filter (\<lambda>r. fleetMatch (r_TargetRef r) filt) rs)"
  have m: "fr_Members (fleet_of filt rs) = sort_key fm_Target (map fleet_member_of ?f)"
    by (simp add: fleet_of_def Let_def fleet_count_fields)
  have iff: "r \<in> set ?f \<longleftrightarrow> fleetMatch (r_TargetRef r) filt \<and> find (\<lambda>x. r_TargetRef x = r_TargetRef r) rs = Some r" for r
  proof (cases "fleetMatch (r_TargetRef r) filt")
    case True
    have "find (\<lambda>x. r_TargetRef x = r_TargetRef r) (filter (\<lambda>r. fleetMatch (r_TargetRef r) filt) rs) =
        find (\<lambda>x. r_TargetRef x = r_TargetRef r) rs"
      by (rule find_filter_key) (simp add: True)
    then show ?thesis by (simp add: first_per_mem True)
  next
    case False
    then show ?thesis by (auto simp: first_per_mem dest!: find_SomeD)
  qed
  show "set (fr_Members (fleet_of filt rs)) = latest_members filt rs"
    unfolding m latest_members_def set_sort set_map using iff by blast
  have "map fm_Target (map fleet_member_of ?f) = map r_TargetRef ?f" by (simp add: fleet_member_of_def)
  then have "distinct (map fm_Target (map fleet_member_of ?f))" using first_per_distinct by metis
  then show "sorted_wrt (<) (map fm_Target (fr_Members (fleet_of filt rs)))"
    unfolding m strict_sorted_iff distinct_map [of fm_Target] set_sort distinct_sort by (simp only: sorted_sort_key simp_thms)
qed

text \<open>
  The fleet report is complete and adds up. For a non-blank filter and a store that answers, the
  members are exactly the newest listed rollout of every target the filter matches, one per target
  and sorted by target; every member is counted in exactly one of promoted, active, degraded and
  awaiting; and asking changes nothing.
\<close>

theorem FleetStatus_latest:
  "wp (FleetStatus E filt) (\<lambda>x w'. ext {} w w' \<and> w_db w' = w_db w \<and>
     (strings_TrimSpace filt = [] \<longrightarrow> is_err x) \<and>
     (\<forall>rep. x = Inr rep \<longrightarrow> (\<exists>rs. db_ListRollouts 0 (w_db w) = Inr rs \<and>
        set (fr_Members rep) = latest_members (strings_TrimSpace filt) rs \<and>
        sorted_wrt (<) (map fm_Target (fr_Members rep)) \<and> fr_Total rep = int (length (fr_Members rep)) \<and>
        fr_Promoted rep + fr_Active rep + fr_Degraded rep + fr_Awaiting rep = fr_Total rep))) w"
proof -
  have tot: "fr_Total (fleet_of f rs) = int (length (fr_Members (fleet_of f rs)))" for f rs
    by (simp add: fleet_of_def Let_def fleet_count_fields)
  have add: "fr_Promoted (fleet_of f rs) + fr_Active (fleet_of f rs) + fr_Degraded (fleet_of f rs) +
      fr_Awaiting (fleet_of f rs) = fr_Total (fleet_of f rs)" for f rs
    unfolding fleet_of_def Let_def fleet_count_sum fleet_count_fields by simp
  show ?thesis unfolding FleetStatus_def Let_def
    by (auto simp: wp_simps ext_def is_err_def fleet_of_members tot add split: option.splits sum.splits)
qed

theorem FleetStatus_latest_witness:
  "(case fst (run_state (FleetStatus demo_env '' web@ '') (demo_with (zero_rollout\<lparr>r_ID := ''1'', r_TargetRef := ''web@eu''\<rparr>))) of
      Inl _ \<Rightarrow> False | Inr rep \<Rightarrow> fr_Total rep = 1 \<and> fr_Active rep = 1 \<and>
        fr_Promoted rep + fr_Active rep + fr_Degraded rep + fr_Awaiting rep = fr_Total rep)"
  (is "case fst (run_state ?m ?w) of Inl _ \<Rightarrow> False | Inr rep \<Rightarrow> ?P rep")
proof -
  have "case fst (run_state ?m ?w) of Inl _ \<Rightarrow> False | Inr rep \<Rightarrow> fr_Total rep = 1 \<and> fr_Active rep = 1"
    by code_simp
  then show ?thesis using FleetStatus_latest [of demo_env "'' web@ ''" ?w] by (auto simp: wp_run split: sum.splits)
qed

end
