(* ===== verification/Reconcile.thy ===== *)
theory Reconcile
  imports Engine_Plan
begin

text \<open>
  \<^verbatim>\<open>internal/reconcile/reconcile.go\<close>: one reconcile of one config. The reconciler has its own audit
  logger, which may be nil (\<open>au\<close>); the engine is the environment \<open>E\<close>, its root the config's
  directory.
\<close>

section \<open>Operations\<close>

record reconcile_outcome =
  oc_Drift :: bool
  oc_Reconciled :: bool
  oc_Plan :: "plan option"
  oc_Rollout :: "rollout option"

definition zero_oc :: reconcile_outcome where
  "zero_oc = \<lparr>oc_Drift = False, oc_Reconciled = False, oc_Plan = None, oc_Rollout = None\<rparr>"

type_synonym reconcile_result = "reconcile_outcome \<times> err option"

definition rec_record :: "bool \<Rightarrow> audit_entry \<Rightarrow> unit prog" where
  "rec_record au en = (if au then emit (AuditRecord en) else State_Monad.return ())"

definition drift_entry :: "config \<Rightarrow> identity \<Rightarrow> plan \<Rightarrow> audit_entry" where
  "drift_entry c by_who p = \<lparr>ae_Action = ActionDrift, ae_RolloutID = [], ae_TargetRef = c_Ref c, ae_Phase = [],
     ae_Actor = by_who, ae_Detail = pn_Summary p\<rparr>"

definition newest_of :: "string \<Rightarrow> rollout list \<Rightarrow> rollout option" where
  "newest_of ref rs = find (\<lambda>r. r_TargetRef r = ref) rs"

definition stuckVerifying :: "env \<Rightarrow> string \<Rightarrow> string \<Rightarrow> rollout option res prog" where
  "stuckVerifying E ref checksum = do {
     rs \<leftarrow> List_rollouts E 0;
     State_Monad.return (case rs of
         Inl e \<Rightarrow> Inl e
       | Inr l \<Rightarrow> Inr (case newest_of ref l of
           None \<Rightarrow> None
         | Some r \<Rightarrow> if r_Phase r = PhaseVerifying \<and> m_Checksum (r_Desired r) = checksum then Some r else None))
   }"

definition isPromoted :: "env \<Rightarrow> string \<Rightarrow> bool res prog" where
  "isPromoted E ref = do {
     rs \<leftarrow> List_rollouts E 0;
     State_Monad.return (case rs of
         Inl e \<Rightarrow> Inl e
       | Inr l \<Rightarrow> Inr (case newest_of ref l of None \<Rightarrow> False | Some r \<Rightarrow> r_Phase r = PhasePromoted))
   }"

fun waiting_on :: "env \<Rightarrow> string list \<Rightarrow> string res prog" where
  "waiting_on E [] = State_Monad.return (Inr [])"
| "waiting_on E (dep # deps) = do {
     p \<leftarrow> isPromoted E dep;
     (case p of
        Inl e \<Rightarrow> State_Monad.return (Inl e)
      | Inr ok \<Rightarrow> if \<not> ok then State_Monad.return (Inr dep) else waiting_on E deps)
   }"

definition waitingOn :: "env \<Rightarrow> config \<Rightarrow> string res prog" where
  "waitingOn E c = waiting_on E (s_DependsOn (c_Spec c))"

definition finalize :: "env \<Rightarrow> bool \<Rightarrow> config \<Rightarrow> identity \<Rightarrow> plan \<Rightarrow> bool \<Rightarrow> rollout option \<Rightarrow> reconcile_result prog" where
  "finalize E au c by_who p drifted rlo =
     (case rlo of
        None \<Rightarrow> State_Monad.return (zero_oc\<lparr>oc_Drift := drifted, oc_Plan := Some p\<rparr>, None)
      | Some rl \<Rightarrow>
          (let halted = zero_oc\<lparr>oc_Drift := drifted, oc_Plan := Some p, oc_Rollout := Some rl\<rparr> in
           if r_Phase rl \<in> {PhaseAwaitingApproval, PhaseDeploying, PhasePaused} then State_Monad.return (halted, None)
           else do {
             pm \<leftarrow> priorManifestErr E (r_TargetRef rl) (m_Checksum (r_Desired rl));
             (case pm of
                Inl e \<Rightarrow> State_Monad.return (halted, Some (Wrap ''reconcile: verify'' e))
              | Inr po \<Rightarrow> do {
                  x \<leftarrow> VerifyOrRollback E (r_ID rl) (case po of Some prior \<Rightarrow> prior | None \<Rightarrow> r_Desired rl) c;
                  (case x of
                     (_, Some e) \<Rightarrow> State_Monad.return (halted\<lparr>oc_Reconciled := True\<rparr>, Some (Wrap ''reconcile: verify'' e))
                   | (vo, None) \<Rightarrow> do {
                       let final = vo_Rollout vo;
                       rec_record au (audit_of ActionApply final by_who ''reconciled drift'');
                       State_Monad.return (halted\<lparr>oc_Reconciled := True, oc_Rollout := Some final\<rparr>, None)
                     })
                })
           }))"

definition reconcile_in_sync :: "env \<Rightarrow> bool \<Rightarrow> config \<Rightarrow> identity \<Rightarrow> plan \<Rightarrow> reconcile_result prog" where
  "reconcile_in_sync E au c by_who p = do {
     st \<leftarrow> stuckVerifying E (c_Ref c) (m_Checksum (pn_Desired p));
     (case st of
        Inl e \<Rightarrow> State_Monad.return (zero_oc\<lparr>oc_Plan := Some p\<rparr>, Some (Wrap ''reconcile'' e))
      | Inr (Some stuck) \<Rightarrow> finalize E au c by_who p False (Some stuck)
      | Inr None \<Rightarrow>
          if pn_DriftAlert p then do {
            rec_record au (drift_entry c by_who p);
            State_Monad.return (zero_oc\<lparr>oc_Drift := True, oc_Plan := Some p\<rparr>, None)
          }
          else State_Monad.return (zero_oc\<lparr>oc_Plan := Some p\<rparr>, None))
   }"

definition reconcile_request :: "config \<Rightarrow> identity \<Rightarrow> apply_request" where
  "reconcile_request c by_who = \<lparr>rq_Config = c, rq_Initiator = by_who, rq_Root = [], rq_Planned = True, rq_NeedsApproval = False,
     rq_Risk = RiskFromConfig c []\<rparr>"

definition reconcile_drift :: "env \<Rightarrow> bool \<Rightarrow> config \<Rightarrow> identity \<Rightarrow> plan \<Rightarrow> reconcile_result prog" where
  "reconcile_drift E au c by_who p = do {
     rec_record au (drift_entry c by_who p);
     a \<leftarrow> Apply E (reconcile_request c by_who);
     (case a of
        (rl, Some e) \<Rightarrow> State_Monad.return (zero_oc\<lparr>oc_Drift := True, oc_Plan := Some p, oc_Rollout := rl\<rparr>, Some (Wrap ''reconcile: apply'' e))
      | (rl, None) \<Rightarrow> finalize E au c by_who p True rl)
   }"

definition reconcile_flight :: "env \<Rightarrow> bool \<Rightarrow> config \<Rightarrow> identity \<Rightarrow> rollout \<Rightarrow> reconcile_result prog" where
  "reconcile_flight E au c by_who fly = do {
     t \<leftarrow> Tick E (r_ID fly) c;
     (case t of
        (rl, Some e) \<Rightarrow> State_Monad.return (zero_oc\<lparr>oc_Rollout := rl\<rparr>, Some (Wrap ''reconcile: tick'' e))
      | (rl, None) \<Rightarrow> do {
          pr \<leftarrow> Plan E c;
          (case pr of
             Inl e \<Rightarrow> State_Monad.return (zero_oc\<lparr>oc_Rollout := rl\<rparr>, Some (Wrap ''reconcile: plan'' e))
           | Inr p \<Rightarrow> finalize E au c by_who p (pn_Changed p) rl)
        })
   }"

definition Reconcile :: "env \<Rightarrow> bool \<Rightarrow> config \<Rightarrow> identity \<Rightarrow> reconcile_result prog" where
  "Reconcile E au c by_who = do {
     fl \<leftarrow> InFlight E (c_Ref c);
     (case fl of
        Inl e \<Rightarrow> State_Monad.return (zero_oc, Some e)
      | Inr (Some fly) \<Rightarrow> reconcile_flight E au c by_who fly
      | Inr None \<Rightarrow> do {
          pr \<leftarrow> Plan E c;
          (case pr of
             Inl e \<Rightarrow> State_Monad.return (zero_oc, Some (Wrap ''reconcile: plan'' e))
           | Inr p \<Rightarrow> if \<not> pn_Changed p then reconcile_in_sync E au c by_who p else reconcile_drift E au c by_who p)
        })
   }"

section \<open>Frames\<close>

abbreviation reconcile_kinds :: "ekind set" where
  "reconcile_kinds \<equiv> {KObserve, KSmoke, KMetric} \<union> apply_kinds"

lemma keeps_rec_record [keeps_rules]:
  "KAudit \<in> K \<Longrightarrow> keeps (ext K) (rec_record au en)" "keeps db_same (rec_record au en)" "keeps db_wf (rec_record au en)"
  unfolding rec_record_def by (intro keeps_rules; simp)+

lemma keeps_lists [keeps_rules]:
  "keeps (ext K) (List_rollouts E n)" "keeps db_same (List_rollouts E n)" "keeps db_wf (List_rollouts E n)"
  "keeps (ext K) (stuckVerifying E ref s)" "keeps db_same (stuckVerifying E ref s)" "keeps db_wf (stuckVerifying E ref s)"
  "keeps (ext K) (isPromoted E ref)" "keeps db_same (isPromoted E ref)"
  unfolding stuckVerifying_def isPromoted_def List_rollouts_def by (intro keeps_rules)+

lemma keeps_waitingOn [keeps_rules]: "keeps (ext K) (waitingOn E c)" "keeps db_same (waitingOn E c)"
proof -
  have "keeps (ext K) (waiting_on E ds)" "keeps db_same (waiting_on E ds)" for ds
    by (induction ds) (unfold waiting_on.simps, (intro keeps_rules; simp)+)
  then show "keeps (ext K) (waitingOn E c)" "keeps db_same (waitingOn E c)" unfolding waitingOn_def by blast+
qed

lemma keeps_finalize:
  "reconcile_kinds \<subseteq> K \<Longrightarrow> keeps (ext K) (finalize E au c who p d rl)" "keeps db_wf (finalize E au c who p d rl)"
  unfolding finalize_def Let_def
  by (intro keeps_rules keeps_VerifyOrRollback db_same_wf [OF keeps_prior(2)]; auto)+

lemma keeps_Reconcile:
  assumes "statekit_api (en_Step E)"
  shows "reconcile_kinds \<subseteq> K \<Longrightarrow> keeps (ext K) (Reconcile E au c who)" "keeps db_wf (Reconcile E au c who)"
  unfolding Reconcile_def reconcile_flight_def reconcile_in_sync_def reconcile_drift_def
  by (intro keeps_rules keeps_option keeps_finalize keeps_Apply keeps_Tick assms; auto)+

section \<open>In sync nothing happens\<close>

lemma observes_lists: "observes w w' \<Longrightarrow> db_ListRollouts n (w_db w') = db_ListRollouts n (w_db w)"
  by (auto simp: observes_def db_ListRollouts_def)

lemma observes_tick: "observes w w' \<Longrightarrow> observes w (w'\<lparr>w_tick := n\<rparr>)" "observes w w' \<Longrightarrow> observes w (w'\<lparr>w_trace := es\<rparr>)"
  by (simp_all add: observes_def)

lemma ext_tick: "ext K w w' \<Longrightarrow> ext K w (w'\<lparr>w_tick := n\<rparr>)"
  by (simp add: ext_def)

lemma grows_emit: "grows K xs ys \<Longrightarrow> kind e \<in> K \<Longrightarrow> grows K xs (ys @ [e])"
  by (rule grows_trans [OF _ grows_snoc])

abbreviation look_kinds :: "ekind set" where "look_kinds \<equiv> {KObserve, KDiff, KAudit}"

definition only_looked :: "world \<Rightarrow> world \<Rightarrow> bool" where
  "only_looked w w' \<longleftrightarrow> ext look_kinds w w' \<and> observes w w'"

lemma only_looked_steps:
  "only_looked w w' \<Longrightarrow> only_looked w (tick1 w')"
  "only_looked w w' \<Longrightarrow> only_looked w (w'\<lparr>w_trace := w_trace w' @ [AuditRecord a]\<rparr>)"
  "only_looked w w' \<Longrightarrow> only_looked w (w'\<lparr>w_tick := n, w_trace := w_trace w' @ [AuditRecord a]\<rparr>)"
  by (auto simp: only_looked_def observes_def ext_def intro: grows_emit)

lemma only_looked_trans: "only_looked u v \<Longrightarrow> only_looked v w \<Longrightarrow> only_looked u w"
  unfolding only_looked_def by (meson ext.frame_trans obf.frame_trans)

lemma Plan_looks: "wp (Plan E c) (\<lambda>_ w'. only_looked w w') w"
  unfolding only_looked_def
  by (rule wp_conj [OF keeps_wp keeps_wp [OF observes_Plan]]) (intro keeps_Plan; simp)

definition settled_target :: "string \<Rightarrow> world \<Rightarrow> bool" where
  "settled_target ref w \<longleftrightarrow> (\<exists>rs. db_ListRollouts 0 (w_db w) = Inr rs \<and> find (in_flight ref) rs = None \<and>
     (\<forall>r. newest_of ref rs = Some r \<longrightarrow> r_Phase r \<noteq> PhaseVerifying))"

lemma in_sync_looks:
  assumes "settled_target (c_Ref c) w" "only_looked w v"
  shows "wp (reconcile_in_sync E au c who p) (\<lambda>x w'. only_looked w w' \<and> oc_Rollout (fst x) = None) v"
proof -
  obtain rs where rs: "db_ListRollouts 0 (w_db v) = Inr rs" "\<And>r. newest_of (c_Ref c) rs = Some r \<Longrightarrow> r_Phase r \<noteq> PhaseVerifying"
    using assms observes_lists unfolding settled_target_def only_looked_def by metis
  show ?thesis
    unfolding reconcile_in_sync_def stuckVerifying_def List_rollouts_def rec_record_def
    using assms(2) rs(2)
    by (auto simp: wp_simps rs(1) zero_oc_def only_looked_steps split: option.split sum.split)
qed

lemma finalize_plan: "wp (finalize E au c who p d rl) (\<lambda>x _. oc_Plan (fst x) = Some p) w"
  unfolding finalize_def Let_def rec_record_def
  by (auto simp: zero_oc_def wp_simps split: option.split prod.split sum.split
      intro!: wp_True [of _ "priorManifestErr _ _ _"] wp_True [of _ "VerifyOrRollback _ _ _ _"])

lemma drift_plan: "wp (reconcile_drift E au c who p) (\<lambda>x _. oc_Plan (fst x) = Some p) w"
  unfolding reconcile_drift_def rec_record_def
  by (auto simp: zero_oc_def wp_simps finalize_plan split: option.split prod.split intro!: wp_True [of _ "Apply _ _"])

text \<open>
  The reconcile loop is quiet when there is nothing to do. On a target with no rollout in
  flight and none left verifying, a reconcile either reports a plan with a change, or it only looked:
  nothing was applied, promoted, rolled back or saved, no rollout is returned, and no table but the
  observed fingerprints changed, whatever error came up on the way.
\<close>

theorem Reconcile_only_on_change:
  assumes "settled_target (c_Ref c) w"
  shows "wp (Reconcile E au c who)
    (\<lambda>x w'. (\<exists>p. oc_Plan (fst x) = Some p \<and> pn_Changed p) \<or> (only_looked w w' \<and> oc_Rollout (fst x) = None)) w"
proof -
  let ?Q = "\<lambda>x w'. (\<exists>p. oc_Plan (fst x) = Some p \<and> pn_Changed p) \<or> (only_looked w w' \<and> oc_Rollout (fst x) = None)"
  have refl: "only_looked w (tick1 w)" by (simp add: only_looked_steps only_looked_def obf.frame_refl ext.frame_refl ext_tick observes_tick)
  obtain rs where rs: "db_ListRollouts 0 (w_db w) = Inr rs" "find (in_flight (c_Ref c)) rs = None"
    using assms unfolding settled_target_def by blast
  have sync: "wp (reconcile_in_sync E au c who p) ?Q v" if "only_looked w v" for p v
    by (rule wp_conseq [OF in_sync_looks [OF assms that]]) simp
  have drift: "wp (reconcile_drift E au c who p) ?Q v" if "pn_Changed p" for p v
    by (rule wp_conseq [OF drift_plan]) (use that in simp)
  have plan: "wp (Plan E c) (\<lambda>_ w'. only_looked w w') (tick1 w)"
    by (rule wp_conseq [OF Plan_looks]) (use refl only_looked_trans in blast)
  have tail: "wp (Plan E c) (\<lambda>pr. wp (case pr of
         Inl e \<Rightarrow> State_Monad.return (zero_oc, Some (Wrap ''reconcile: plan'' e))
       | Inr p \<Rightarrow> if \<not> pn_Changed p then reconcile_in_sync E au c who p else reconcile_drift E au c who p) ?Q) (tick1 w)"
    by (rule wp_conseq [OF plan]) (auto simp: wp_simps zero_oc_def sync drift split: sum.split)
  show ?thesis
    unfolding Reconcile_def InFlight_def wp_bind wp_ListRollouts wp_return
    by (simp add: rs zero_oc_def refl wp_return wp_bind tail [unfolded zero_oc_def] split: option.split)
qed

theorem Reconcile_only_on_change_witness:
  "(\<lambda>x w'. (\<exists>p. oc_Plan (fst x) = Some p \<and> pn_Changed p) \<or> (only_looked demo_world w' \<and> oc_Rollout (fst x) = None))
     (fst (run_state (Reconcile demo_env True demo_config demo_human) demo_world))
     (snd (run_state (Reconcile demo_env True demo_config demo_human) demo_world))"
proof -
  have "settled_target (c_Ref demo_config) demo_world"
    by (simp add: settled_target_def demo_world_def db_ListRollouts_def empty_db_def newest_first_def newest_of_def)
  from Reconcile_only_on_change [OF this, of demo_env True demo_human] show ?thesis by (simp add: wp_run)
qed

end
