(* ===== verification/ImageUpdate.thy ===== *)
theory ImageUpdate
  imports GoTime
    "HOL-Library.Product_Lexorder"
begin

text \<open>
  \<^verbatim>\<open>internal/imageupdate\<close>: choosing an image tag (\<open>select.go\<close>), the write policy and the patch of
  the config file (\<open>imageupdate.go\<close>), and image references (\<open>ParseRef\<close> of \<open>scan.go\<close>, the splitting
  of \<^verbatim>\<open>internal/reconcile/imageauto.go\<close>). Operator-supplied tag patterns are compiled by Go's
  \<open>regexp\<close>, the parameter \<open>rx\<close> (a compile error or a matcher); YAML text is read and written by
  parameters over its node tree.
\<close>

section \<open>Versions\<close>

record semver =
  sv_major :: int
  sv_minor :: int
  sv_patch :: int
  sv_pre :: bool

text \<open>\<open>strconv.Atoi\<close> of a run of digits: out of the 64-bit range is an error.\<close>

definition atoi :: "string \<Rightarrow> int option" where
  "atoi ds = (let v = digits_val 0 ds in if v < 2 ^ 63 then Some v else None)"

text \<open>\<open>(\d+)\<close> at the head of a text, and a literal dot.\<close>

definition digits1 :: "string \<Rightarrow> (string \<times> string) option" where
  "digits1 s = (let ds = takeWhile is_digit s in if ds = [] then None else Some (ds, dropWhile is_digit s))"

definition dot :: "string \<Rightarrow> string option" where
  "dot s = (case s of [] \<Rightarrow> None | c # r \<Rightarrow> if c = CHR ''.'' then Some r else None)"

text \<open>\<open>semverRe\<close>: an optional \<open>v\<close>, three dotted numbers, and a rest without a line break.\<close>

definition semver_groups :: "string \<Rightarrow> (string \<times> string \<times> string \<times> string) option" where
  "semver_groups tag =
     (let s = (case tag of [] \<Rightarrow> [] | c # r \<Rightarrow> if c = CHR ''v'' then r else tag) in
      case digits1 s of None \<Rightarrow> None | Some (a, s1) \<Rightarrow>
      (case dot s1 of None \<Rightarrow> None | Some s2 \<Rightarrow>
      (case digits1 s2 of None \<Rightarrow> None | Some (b, s3) \<Rightarrow>
      (case dot s3 of None \<Rightarrow> None | Some s4 \<Rightarrow>
      (case digits1 s4 of None \<Rightarrow> None | Some (c, rest) \<Rightarrow>
         if CHR 0x0A \<in> set rest then None else Some (a, b, c, rest))))))"

definition parseSemver :: "string \<Rightarrow> semver option" where
  "parseSemver tag =
     (case semver_groups tag of
        None \<Rightarrow> None
      | Some (a, b, c, rest) \<Rightarrow>
          (case (atoi a, atoi b, atoi c) of
             (Some ma, Some mi, Some pa) \<Rightarrow>
               Some \<lparr>sv_major = ma, sv_minor = mi, sv_patch = pa, sv_pre = strings_HasPrefix rest ''-''\<rparr>
           | _ \<Rightarrow> None))"

definition greater :: "semver \<Rightarrow> semver \<Rightarrow> bool" where
  "greater a b =
     (if sv_major a \<noteq> sv_major b then sv_major a > sv_major b
      else if sv_minor a \<noteq> sv_minor b then sv_minor a > sv_minor b
      else sv_patch a > sv_patch b)"

definition IsSemver :: "string \<Rightarrow> bool" where
  "IsSemver tag = (case parseSemver tag of None \<Rightarrow> False | Some v \<Rightarrow> \<not> sv_pre v)"

text \<open>\<open>greater\<close> is the order of the triples.\<close>

definition version :: "semver \<Rightarrow> int \<times> int \<times> int" where
  "version v = (sv_major v, sv_minor v, sv_patch v)"

lemma greater_iff: "greater a b \<longleftrightarrow> version b < version a"
  by (auto simp: greater_def version_def less_prod_def)

section \<open>Tag patterns\<close>

type_synonym rx = "string \<Rightarrow> (string \<Rightarrow> bool) res"

definition compileTagPattern :: "rx \<Rightarrow> string \<Rightarrow> (string \<Rightarrow> bool) option res" where
  "compileTagPattern rx pattern =
     (if pattern = [] then Inr None
      else
        let expr = (if \<not> strings_HasPrefix pattern ''^'' \<and> \<not> strings_HasSuffix pattern ''$''
                    then ''^(?:'' @ pattern @ '')$'' else pattern) in
        (case rx expr of Inl e \<Rightarrow> Inl e | Inr f \<Rightarrow> Inr (Some f)))"

definition admits :: "(string \<Rightarrow> bool) option \<Rightarrow> string \<Rightarrow> bool" where
  "admits re t = (case re of None \<Rightarrow> True | Some f \<Rightarrow> f t)"

section \<open>References and the write policy\<close>

definition host_like :: "string \<Rightarrow> bool" where
  "host_like first = (strings_Contains first ''.'' \<or> strings_Contains first '':'' \<or> first = ''localhost'')"

definition registryOf :: "string \<Rightarrow> string" where
  "registryOf img = (case strings_Cut img (CHR ''/'') of (first, _, _) \<Rightarrow> if host_like first then first else ''docker.io'')"

definition ParseRef :: "string \<Rightarrow> string \<times> string" where
  "ParseRef img =
     (let i = last_index img (CHR '':'');
          ref = (if i > last_index img (CHR ''/'') then take (nat i) img else img) in
      case strings_Cut ref (CHR ''/'') of (first, rest, ok) \<Rightarrow>
        if ok \<and> host_like first then (first, rest)
        else if \<not> strings_Contains ref ''/'' then (''docker.io'', ''library/'' @ ref)
        else (''docker.io'', ref))"

definition splitImage :: "string \<Rightarrow> string \<times> string" where
  "splitImage img =
     (let i = last_index img (CHR '':'') in
      if i > last_index img (CHR ''/'') then (take (nat i) img, drop (nat i + 1) img) else (img, ''latest''))"

definition splitDigestRef :: "string \<Rightarrow> string \<times> string \<times> string" where
  "splitDigestRef ref =
     (case strings_Cut ref (CHR ''@'') of (before, after, ok) \<Rightarrow>
        (case splitImage (if ok then before else ref) of (repo, tag) \<Rightarrow> (repo, tag, if ok then after else [])))"

record image_check =
  ic_AllowedRegistries :: "string list"
  ic_TagPattern :: string
  ic_AllowMutableTags :: bool

text \<open>\<open>Policy.Validate\<close>.\<close>

definition policy_Validate :: "rx \<Rightarrow> image_check \<Rightarrow> string \<Rightarrow> string \<Rightarrow> err option" where
  "policy_Validate rx p img tag =
     (if img = [] \<or> tag = [] then Some (Err ''imageupdate: image and tag are required'')
      else if \<not> ic_AllowMutableTags p \<and> tag \<in> {''latest'', ''main'', ''master''}
      then Some (Err (''imageupdate: mutable tag '' @ tag @ '' is not allowed''))
      else if ic_AllowedRegistries p \<noteq> [] \<and> registryOf img \<notin> set (ic_AllowedRegistries p)
      then Some (Err (''imageupdate: registry '' @ registryOf img @ '' is not allowed''))
      else if ic_TagPattern p \<noteq> [] then
        (case compileTagPattern rx (ic_TagPattern p) of
           Inl e \<Rightarrow> Some (Wrap ''imageupdate: tagPattern'' e)
         | Inr re \<Rightarrow> if \<not> admits re tag then Some (Err (''imageupdate: tag '' @ tag @ '' does not match policy'')) else None)
      else None)"

definition registryAllowed :: "string \<Rightarrow> string list \<Rightarrow> err option" where
  "registryAllowed img allowed =
     (if allowed = [] then None
      else if fst (ParseRef img) \<in> set allowed then None
      else Some (Err (''imageauto: image registry '' @ fst (ParseRef img) @ '' is not in allowedRegistries ['' @ strings_Join allowed '' '' @ '']'')))"

section \<open>Patching the config file\<close>

datatype ykind = DocumentNode | MappingNode | SequenceNode | ScalarNode | AliasNode

datatype ynode = YNode (y_Kind: ykind) (y_Value: string) (y_Content: "ynode list")

record yaml =
  ya_Unmarshal :: "string \<Rightarrow> ynode res"
  ya_Encode :: "ynode \<Rightarrow> string res"

text \<open>
  \<open>mappingPath\<close> walks to a node through a pointer and the caller overwrites its value. Here the
  walk takes what to do with the node it ends at: \<open>get_path\<close> reads its value, \<open>set_path\<close> gives the
  document with the value replaced. \<open>None\<close> is a nil pointer.
\<close>

fun pair_get :: "string \<Rightarrow> ynode list \<Rightarrow> ynode option" where
  "pair_get key (k # v # rest) = (if y_Value k = key then Some v else pair_get key rest)"
| "pair_get key _ = None"

fun pair_set :: "string \<Rightarrow> ynode \<Rightarrow> ynode list \<Rightarrow> ynode list" where
  "pair_set key x (k # v # rest) = (if y_Value k = key then k # x # rest else k # v # pair_set key x rest)"
| "pair_set key x ns = ns"

fun walk_get :: "string list \<Rightarrow> ynode \<Rightarrow> ynode option" where
  "walk_get [] n = Some n"
| "walk_get (key # keys) n =
     (if y_Kind n \<noteq> MappingNode then None
      else (case pair_get key (y_Content n) of None \<Rightarrow> None | Some v \<Rightarrow> walk_get keys v))"

fun walk_set :: "string list \<Rightarrow> string \<Rightarrow> ynode \<Rightarrow> ynode" where
  "walk_set [] x n = YNode (y_Kind n) x (y_Content n)"
| "walk_set (key # keys) x n =
     (case pair_get key (y_Content n) of
        None \<Rightarrow> n
      | Some v \<Rightarrow> YNode (y_Kind n) (y_Value n) (pair_set key (walk_set keys x v) (y_Content n)))"

definition in_document :: "(ynode \<Rightarrow> 'a) \<Rightarrow> ynode \<Rightarrow> 'a" where
  "in_document f n = (if y_Kind n = DocumentNode \<and> length (y_Content n) = 1 then f (hd (y_Content n)) else f n)"

definition get_path :: "string list \<Rightarrow> ynode \<Rightarrow> ynode option" where
  "get_path keys n = in_document (walk_get keys) n"

definition set_path :: "string list \<Rightarrow> string \<Rightarrow> ynode \<Rightarrow> ynode" where
  "set_path keys x n =
     (if y_Kind n = DocumentNode \<and> length (y_Content n) = 1
      then YNode (y_Kind n) (y_Value n) [walk_set keys x (hd (y_Content n))] else walk_set keys x n)"

abbreviation image_path :: "string list" where
  "image_path \<equiv> [''spec'', ''target'', ''spec'', ''image'']"

definition PatchRolloutImageRef :: "yaml \<Rightarrow> string \<Rightarrow> string \<Rightarrow> (string \<times> bool) res" where
  "PatchRolloutImageRef Y data ref =
     (if ref = [] then Inl (Err ''imageupdate: ref is required'')
      else (case ya_Unmarshal Y data of
          Inl e \<Rightarrow> Inl (Wrap ''imageupdate: parse yaml'' e)
        | Inr doc \<Rightarrow> (case get_path image_path doc of
            None \<Rightarrow> Inl (Err ''imageupdate: spec.target.spec.image not found'')
          | Some node \<Rightarrow>
              if y_Value node = ref then Inr (data, False)
              else (case ya_Encode Y (set_path image_path ref doc) of
                  Inl e \<Rightarrow> Inl (Wrap ''imageupdate: encode yaml'' e)
                | Inr out \<Rightarrow> Inr (out, True)))))"

text \<open>Writing a node changes what is read there, and nothing that is read elsewhere.\<close>

lemma pair_get_set: "pair_get key ns = Some v \<Longrightarrow> pair_get j (pair_set key x ns) = (if j = key then Some x else pair_get j ns)"
  by (induction key ns rule: pair_get.induct) (auto split: if_splits)

lemma walk_get_set:
  "walk_get keys n = Some v \<Longrightarrow> walk_get keys (walk_set keys x n) = Some (YNode (y_Kind v) x (y_Content v))"
  by (induction keys arbitrary: n) (auto simp: pair_get_set split: if_splits option.splits)

lemma walk_get_set_other:
  "walk_get keys n = Some v \<Longrightarrow> length keys = length other \<Longrightarrow> keys \<noteq> other \<Longrightarrow>
   walk_get other (walk_set keys x n) = walk_get other n"
proof (induction keys arbitrary: n other)
  case (Cons k keys)
  obtain j js where o: "other = j # js" using Cons.prems(2) by (cases other) auto
  show ?case using Cons by (auto simp: o pair_get_set split: if_splits option.splits)
qed simp

lemma get_set_path:
  "get_path keys n = Some v \<Longrightarrow> get_path keys (set_path keys x n) = Some (YNode (y_Kind v) x (y_Content v))"
proof (cases "y_Kind n = DocumentNode \<and> length (y_Content n) = 1")
  case True
  then show "get_path keys n = Some v \<Longrightarrow> ?thesis" by (auto simp: get_path_def set_path_def in_document_def walk_get_set)
next
  case False
  then have "y_Kind (walk_set keys x n) = y_Kind n \<and> length (y_Content (walk_set keys x n)) = length (y_Content n)"
  proof -
    have "length (pair_set k y ns) = length ns" for k y ns by (induction k y ns rule: pair_set.induct) auto
    then show ?thesis by (cases keys) (auto split: option.split)
  qed
  then show "get_path keys n = Some v \<Longrightarrow> ?thesis"
    using False by (auto simp: get_path_def set_path_def in_document_def walk_get_set)
qed

section \<open>Choosing a tag\<close>

definition mode_admits :: "string \<Rightarrow> semver \<Rightarrow> semver \<Rightarrow> bool" where
  "mode_admits mode cur v =
     (if mode = ''minor'' then sv_major v = sv_major cur
      else if mode = ''patch'' then sv_major v = sv_major cur \<and> sv_minor v = sv_minor cur
      else True)"

definition select_step :: "(string \<Rightarrow> bool) option \<Rightarrow> string \<Rightarrow> semver \<Rightarrow> semver \<times> string \<Rightarrow> string \<Rightarrow> semver \<times> string" where
  "select_step re mode cur bt t =
     (if \<not> admits re t then bt
      else (case parseSemver t of
          None \<Rightarrow> bt
        | Some v \<Rightarrow>
            if sv_pre v then bt
            else if \<not> mode_admits mode cur v then bt
            else if greater v (fst bt) then (v, t)
            else bt))"

definition SelectTag :: "rx \<Rightarrow> string \<Rightarrow> string list \<Rightarrow> string \<Rightarrow> string \<Rightarrow> string option" where
  "SelectTag rx current available mode pattern =
     (case parseSemver current of
        None \<Rightarrow> None
      | Some cur \<Rightarrow>
          (case compileTagPattern rx pattern of
             Inl _ \<Rightarrow> None
           | Inr re \<Rightarrow>
               let bestTag = snd (foldl (select_step re mode cur) (cur, []) available) in
               if bestTag = [] then None else Some bestTag))"

definition semver_tagged :: "(string \<Rightarrow> bool) option \<Rightarrow> string list \<Rightarrow> (string \<times> semver) list" where
  "semver_tagged re available =
     concat (map (\<lambda>t. if \<not> admits re t then []
        else (case parseSemver t of None \<Rightarrow> [] | Some v \<Rightarrow> if sv_pre v then [] else [(t, v)])) available)"

text \<open>\<open>sort.Slice\<close> is not stable; equal versions (\<open>v1.2.3\<close> and \<open>1.2.3\<close>) keep their order here.\<close>

definition SemverTagsDesc :: "rx \<Rightarrow> string list \<Rightarrow> string \<Rightarrow> string list" where
  "SemverTagsDesc rx available pattern =
     (case compileTagPattern rx pattern of
        Inl _ \<Rightarrow> []
      | Inr re \<Rightarrow> map fst (rev (sort_key (\<lambda>x. version (snd x)) (rev (semver_tagged re available)))))"

text \<open>A tag that may replace the current one.\<close>

definition candidate :: "(string \<Rightarrow> bool) option \<Rightarrow> string \<Rightarrow> semver \<Rightarrow> string \<Rightarrow> semver \<Rightarrow> bool" where
  "candidate re mode cur t v \<longleftrightarrow>
     admits re t \<and> parseSemver t = Some v \<and> \<not> sv_pre v \<and> mode_admits mode cur v \<and> version cur < version v"

lemma parseSemver_Nil: "parseSemver [] = None"
  by (simp add: parseSemver_def semver_groups_def digits1_def)

lemma select_step_cases:
  "select_step re mode cur bt t =
     (if \<exists>v. admits re t \<and> parseSemver t = Some v \<and> \<not> sv_pre v \<and> mode_admits mode cur v \<and> version (fst bt) < version v
      then (the (parseSemver t), t) else bt)"
  by (auto simp: select_step_def greater_iff split: option.splits)

text \<open>The loop: the best so far is the current version or the greatest candidate seen, the first of equals.\<close>

lemma select_loop:
  assumes "bt = foldl (select_step re mode cur) (cur, []) ts"
  shows "version cur \<le> version (fst bt) \<and>
    (snd bt = [] \<longrightarrow> fst bt = cur) \<and> (snd bt \<noteq> [] \<longrightarrow> snd bt \<in> set ts \<and> candidate re mode cur (snd bt) (fst bt)) \<and>
    (\<forall>t v. t \<in> set ts \<and> candidate re mode cur t v \<longrightarrow> version v \<le> version (fst bt))"
  using assms
proof (induction ts arbitrary: bt rule: rev_induct)
  case (snoc x ts)
  define b0 where "b0 = foldl (select_step re mode cur) (cur, []) ts"
  note IH = snoc.IH [OF b0_def]
  have bt: "bt = select_step re mode cur b0 x" using snoc.prems by (simp add: b0_def)
  show ?case
  proof (cases "\<exists>v. admits re x \<and> parseSemver x = Some v \<and> \<not> sv_pre v \<and> mode_admits mode cur v \<and> version (fst b0) < version v")
    case True
    then obtain v where v: "admits re x" "parseSemver x = Some v" "\<not> sv_pre v" "mode_admits mode cur v" "version (fst b0) < version v"
      by blast
    then have b: "bt = (v, x)" unfolding bt select_step_cases by auto
    have x: "x \<noteq> []" using v(2) parseSemver_Nil by auto
    have c: "candidate re mode cur x v" using IH v by (auto simp: candidate_def)
    have "version v' \<le> version v" if "t \<in> set (ts @ [x])" "candidate re mode cur t v'" for t v'
    proof (cases "t \<in> set ts")
      case True
      then have "version v' \<le> version (fst b0)" using IH that by blast
      then show ?thesis using v(5) by order
    next
      case False
      then show ?thesis using that v(2) by (simp add: candidate_def)
    qed
    then show ?thesis using IH v(5) b x c by auto
  next
    case False
    then have b: "bt = b0" unfolding bt select_step_cases by (auto split: if_splits)
    show ?thesis using IH False by (auto simp: b candidate_def not_less)
  qed
qed (auto simp: candidate_def)

text \<open>
  The tag image automation selects. \<open>SelectTag\<close> answers a tag exactly when some published tag
  may replace the current one: it matches the (anchored) pattern, is a release version, stays
  within the major or minor line the mode fixes, and is strictly newer. The tag it answers is one
  of the published ones, is such a tag, and no other such tag is newer.
\<close>

theorem SelectTag_newest:
  assumes "parseSemver current = Some cur" "compileTagPattern rx pattern = Inr re"
  shows "(SelectTag rx current available mode pattern = None \<longleftrightarrow>
      (\<forall>t \<in> set available. \<forall>v. \<not> candidate re mode cur t v)) \<and>
    (\<forall>t. SelectTag rx current available mode pattern = Some t \<longrightarrow> t \<in> set available \<and>
      (\<exists>v. candidate re mode cur t v \<and>
        (\<forall>t' \<in> set available. \<forall>v'. candidate re mode cur t' v' \<longrightarrow> version v' \<le> version v)))"
proof -
  define bt where "bt = foldl (select_step re mode cur) (cur, []) available"
  note l = select_loop [OF bt_def]
  have s: "SelectTag rx current available mode pattern = (if snd bt = [] then None else Some (snd bt))"
    by (simp add: SelectTag_def assms bt_def Let_def)
  show ?thesis
  proof (cases "snd bt = []")
    case True
    have "\<not> candidate re mode cur t v" if "t \<in> set available" for t v
      using l that True by (metis candidate_def leD)
    then show ?thesis using True by (simp add: s)
  next
    case False
    then show ?thesis using l unfolding s by auto
  qed
qed

theorem SelectTag_newest_witness:
  "SelectTag (\<lambda>_. Inr (\<lambda>_. True)) ''v1.2.3'' [''v1.3.0'', ''latest'', ''v2.0.0'', ''v1.10.0'', ''v1.11.0-rc1''] ''minor'' ''.*'' = Some ''v1.10.0'' \<and>
   (\<exists>v. candidate (Some (\<lambda>_. True)) ''minor'' \<lparr>sv_major = 1, sv_minor = 2, sv_patch = 3, sv_pre = False\<rparr> ''v1.10.0'' v)"
proof -
  have a: "parseSemver ''v1.2.3'' = Some \<lparr>sv_major = 1, sv_minor = 2, sv_patch = 3, sv_pre = False\<rparr>" by code_simp
  have b: "compileTagPattern (\<lambda>_. Inr (\<lambda>_. True)) ''.*'' = Inr (Some (\<lambda>_. True))" by (simp add: compileTagPattern_def)
  have c: "SelectTag (\<lambda>_. Inr (\<lambda>_. True)) ''v1.2.3'' [''v1.3.0'', ''latest'', ''v2.0.0'', ''v1.10.0'', ''v1.11.0-rc1''] ''minor'' ''.*'' =
      Some ''v1.10.0''" by code_simp
  show ?thesis using SelectTag_newest [OF a b, of "[''v1.3.0'', ''latest'', ''v2.0.0'', ''v1.10.0'', ''v1.11.0-rc1'']" "''minor''"] c
    by blast
qed

end
