(* ===== verification/ImageAuto.thy ===== *)
theory ImageAuto
  imports ImageUpdate Engine_Frames
begin

text \<open>
  \<^verbatim>\<open>internal/reconcile/imageauto.go\<close>: registry-poll image automation for one config. The registry,
  the checkout and the Git remote are the parameters \<open>image_env\<close>; what is committed, pushed and
  proposed goes to the trace of the world, in order.
\<close>

section \<open>Outcomes\<close>

datatype image_outcome =
    ImageOutcomeDisabled
  | ImageOutcomeCurrent
  | ImageOutcomeBumped
  | ImageOutcomeProposed
  | ImageOutcomePending
  | ImageOutcomePinned
  | ImageOutcomeError

definition Deployed :: "image_outcome \<Rightarrow> bool" where
  "Deployed oc = (oc = ImageOutcomeBumped)"

definition AwaitingGit :: "image_outcome \<Rightarrow> bool" where
  "AwaitingGit oc = (oc = ImageOutcomeProposed \<or> oc = ImageOutcomePending)"

record image_status =
  is_Outcome :: image_outcome
  is_Resolved :: string
  is_Pinned :: string

definition shortDigest :: "string \<Rightarrow> string" where
  "shortDigest d =
     (if d = [] then ''none''
      else (case before_byte d (CHR '':'') of
          Some pre \<Rightarrow> if length d > length pre + 13 then take (length pre + 13) d else d
        | None \<Rightarrow> d))"

definition status_Short :: "image_status \<Rightarrow> string" where
  "status_Short s =
     (if is_Resolved s = [] then []
      else if is_Resolved s = is_Pinned s then ''('' @ shortDigest (is_Resolved s) @ '')''
      else ''('' @ shortDigest (is_Pinned s) @ ''->'' @ shortDigest (is_Resolved s) @ '')'')"

definition requireCurrentIdentities :: "image_status \<Rightarrow> err option" where
  "requireCurrentIdentities s =
     (if is_Resolved s = [] \<or> is_Pinned s = [] \<or> is_Resolved s = is_Pinned s then None
      else Some (Err (''imageauto: scanner '' @ shortDigest (is_Resolved s) @ '' does not match Git pin '' @ shortDigest (is_Pinned s))))"

section \<open>Resolving the new reference\<close>

record image_env =
  ie_rx :: rx
  ie_yaml :: yaml
  ie_Tags :: "nat \<Rightarrow> string \<Rightarrow> string list res"
  ie_Digest :: "nat \<Rightarrow> string \<Rightarrow> string res"
  ie_ReadFile :: "nat \<Rightarrow> string \<Rightarrow> string res"
  ie_CommitFile :: "nat \<Rightarrow> string \<Rightarrow> string \<Rightarrow> string \<Rightarrow> err option"
  ie_Push :: "nat \<Rightarrow> err option"
  ie_RemoteFileMatches :: "nat \<Rightarrow> string \<Rightarrow> string \<Rightarrow> string \<Rightarrow> bool"
  ie_CommitFileOnBranch :: "nat \<Rightarrow> string \<Rightarrow> string \<Rightarrow> string \<Rightarrow> string \<Rightarrow> bool res"
  ie_PushBranch :: "nat \<Rightarrow> string \<Rightarrow> err option"
  ie_OpenPullRequest :: "nat \<Rightarrow> string \<Rightarrow> string \<Rightarrow> string \<Rightarrow> string \<Rightarrow> err option"
  ie_Branch :: string
  ie_Load :: "string \<Rightarrow> config res"

record resolution =
  rs_Ref :: string
  rs_From :: string
  rs_To :: string
  rs_Resolved :: string
  rs_Pinned :: string

definition no_resolution :: resolution where
  "no_resolution = \<lparr>rs_Ref = [], rs_From = [], rs_To = [], rs_Resolved = [], rs_Pinned = []\<rparr>"

definition pinnedRef :: "image_env \<Rightarrow> string \<Rightarrow> string \<Rightarrow> bool \<Rightarrow> string res prog" where
  "pinnedRef I repo tag wasPinned = do {
     d \<leftarrow> ask (\<lambda>n. ie_Digest I n (repo @ '':'' @ tag));
     State_Monad.return (case d of
         Inr digest \<Rightarrow>
           if digest \<noteq> [] then Inr (repo @ '':'' @ tag @ ''@'' @ digest)
           else if wasPinned then Inl (Wrap (''imageauto: refusing to unpin '' @ repo @ '':'' @ tag @ '' across a semver update'')
                                        (Err ''registry returned no digest''))
           else Inr (repo @ '':'' @ tag)
       | Inl e \<Rightarrow>
           if wasPinned then Inl (Wrap (''imageauto: refusing to unpin '' @ repo @ '':'' @ tag @ '' across a semver update'') e)
           else Inr (repo @ '':'' @ tag))
   }"

fun semver_for_digest :: "image_env \<Rightarrow> string \<Rightarrow> string \<Rightarrow> string list \<Rightarrow> string option prog" where
  "semver_for_digest I repo pinned [] = State_Monad.return None"
| "semver_for_digest I repo pinned (t # ts) = do {
     d \<leftarrow> ask (\<lambda>n. ie_Digest I n (repo @ '':'' @ t));
     (if d = Inr pinned then State_Monad.return (Some t) else semver_for_digest I repo pinned ts)
   }"

definition policy_check :: "image_policy \<Rightarrow> image_check" where
  "policy_check pol = \<lparr>ic_AllowedRegistries = ip_AllowedRegistries pol, ic_TagPattern = ip_Pattern pol,
     ic_AllowMutableTags = ip_AllowMutableTags pol\<rparr>"

definition selectSemver :: "image_env \<Rightarrow> string \<Rightarrow> string \<Rightarrow> bool \<Rightarrow> image_policy \<Rightarrow> (resolution \<times> err option) prog" where
  "selectSemver I repo curTag wasPinned pol = do {
     ts \<leftarrow> ask (\<lambda>n. ie_Tags I n repo);
     (case ts of
        Inl e \<Rightarrow> State_Monad.return (no_resolution\<lparr>rs_Pinned := curTag\<rparr>, Some (Wrap (''imageauto: scan '' @ repo) e))
      | Inr tags \<Rightarrow>
          (let mode = (if ip_Mode pol = ''any'' then ''major'' else ip_Mode pol) in
           case SelectTag (ie_rx I) curTag tags mode (ip_Pattern pol) of
             None \<Rightarrow> State_Monad.return (no_resolution\<lparr>rs_Resolved := curTag, rs_Pinned := curTag\<rparr>, None)
           | Some newTag \<Rightarrow>
               (let seen = no_resolution\<lparr>rs_Resolved := newTag, rs_Pinned := curTag\<rparr> in
                case policy_Validate (ie_rx I) (policy_check pol) repo newTag of
                  Some e \<Rightarrow> State_Monad.return (seen, Some e)
                | None \<Rightarrow> do {
                    p \<leftarrow> pinnedRef I repo newTag wasPinned;
                    State_Monad.return (case p of
                        Inl e \<Rightarrow> (seen, Some e)
                      | Inr ref \<Rightarrow> (seen\<lparr>rs_Ref := ref, rs_From := curTag, rs_To := newTag\<rparr>, None))
                  })))
   }"

definition migrate :: "image_env \<Rightarrow> string \<Rightarrow> string \<Rightarrow> image_policy \<Rightarrow> (resolution \<times> err option) prog" where
  "migrate I repo pinned pol = do {
     ts \<leftarrow> ask (\<lambda>n. ie_Tags I n repo);
     (case ts of
        Inl e \<Rightarrow> State_Monad.return (no_resolution\<lparr>rs_Pinned := pinned\<rparr>, Some (Wrap (''imageauto: scan '' @ repo) e))
      | Inr tags \<Rightarrow> do {
          m \<leftarrow> semver_for_digest I repo pinned (SemverTagsDesc (ie_rx I) tags (ip_Pattern pol));
          State_Monad.return (case m of
              None \<Rightarrow> (no_resolution\<lparr>rs_Pinned := pinned\<rparr>,
                       Some (Err (''imageauto: no semver tag for digest '' @ shortDigest pinned @ '' of '' @ repo)))
            | Some tag \<Rightarrow>
                (let seen = no_resolution\<lparr>rs_Resolved := tag, rs_Pinned := pinned\<rparr> in
                 case policy_Validate (ie_rx I) (policy_check pol) repo tag of
                   Some e \<Rightarrow> (seen, Some e)
                 | None \<Rightarrow> (seen\<lparr>rs_Ref := repo @ '':'' @ tag @ ''@'' @ pinned, rs_From := shortDigest pinned, rs_To := tag\<rparr>, None)))
        })
   }"

definition resolve_digest :: "image_env \<Rightarrow> string \<Rightarrow> string \<Rightarrow> string \<Rightarrow> (resolution \<times> err option) prog" where
  "resolve_digest I repo tag oldDigest =
     (let mutable = repo @ '':'' @ tag in do {
        d \<leftarrow> ask (\<lambda>n. ie_Digest I n mutable);
        State_Monad.return (case d of
            Inl e \<Rightarrow> (no_resolution\<lparr>rs_Pinned := oldDigest\<rparr>, Some (Wrap (''imageauto: digest '' @ mutable) e))
          | Inr newDigest \<Rightarrow>
              (let obs = no_resolution\<lparr>rs_Resolved := newDigest, rs_Pinned := oldDigest\<rparr> in
               if newDigest = oldDigest then (obs, None)
               else (obs\<lparr>rs_Ref := mutable @ ''@'' @ newDigest, rs_From := shortDigest oldDigest, rs_To := shortDigest newDigest\<rparr>, None)))
      })"

definition resolve :: "image_env \<Rightarrow> string \<Rightarrow> image_policy \<Rightarrow> (resolution \<times> err option) prog" where
  "resolve I img pol =
     (case registryAllowed img (ip_AllowedRegistries pol) of
        Some e \<Rightarrow> State_Monad.return (no_resolution, Some e)
      | None \<Rightarrow>
          (case splitDigestRef img of (repo, tag, digest) \<Rightarrow>
             if ip_Mode pol = ''digest'' then resolve_digest I repo tag digest
             else if IsSemver tag then selectSemver I repo tag (digest \<noteq> []) pol
             else if digest \<noteq> [] then migrate I repo digest pol
             else State_Monad.return (no_resolution\<lparr>rs_Pinned := tag\<rparr>, None)))"

section \<open>Writing it back\<close>

type_synonym image_result = "config \<times> string \<times> image_status \<times> err option"

definition prBranchName :: "string \<Rightarrow> string" where
  "prBranchName name =
     (let safe = map (\<lambda>c. if (CHR ''a'' \<le> c \<and> c \<le> CHR ''z'') \<or> (CHR ''A'' \<le> c \<and> c \<le> CHR ''Z'') \<or>
                             (CHR ''0'' \<le> c \<and> c \<le> CHR ''9'') \<or> c = CHR ''-'' \<or> c = CHR ''_'' then c else CHR ''-'') name in
      ''rollops/image/'' @ (if safe = [] then ''config'' else safe))"

definition proposalBody :: "string \<Rightarrow> string \<Rightarrow> string \<Rightarrow> string" where
  "proposalBody path from to =
     (let nl = [CHR 0x0A] in
      ''Automated image bump by rollops.'' @ nl @ nl @ ''- config: `'' @ path @ ''`'' @ nl @ ''- '' @ from @ '' -> '' @ to @ nl @ nl @
      ''Merging this deploys the new image through the normal reconcile. Opened as a PR because the tracked branch does not accept direct pushes.'')"

definition git_commit :: "string \<Rightarrow> string \<Rightarrow> (nat \<Rightarrow> err option) \<Rightarrow> err option prog" where
  "git_commit path data f = do {
     e \<leftarrow> ask f;
     (case e of None \<Rightarrow> emit (GitCommit path data) | Some _ \<Rightarrow> State_Monad.return ());
     State_Monad.return e
   }"

definition git_push :: "string \<Rightarrow> (nat \<Rightarrow> err option) \<Rightarrow> err option prog" where
  "git_push branch f = do { e \<leftarrow> ask f; emit (GitPush branch e); State_Monad.return e }"

definition open_pr :: "image_env \<Rightarrow> string \<Rightarrow> string \<Rightarrow> string \<Rightarrow> err option prog" where
  "open_pr I head msg body = do {
     e \<leftarrow> ask (\<lambda>n. ie_OpenPullRequest I n head (ie_Branch I) msg body);
     emit (GitPullRequest head e);
     State_Monad.return e
   }"

definition ensureProposal ::
  "image_env \<Rightarrow> named_config \<Rightarrow> string \<Rightarrow> string \<Rightarrow> string \<Rightarrow> string \<Rightarrow> image_status \<Rightarrow> image_result prog" where
  "ensureProposal I nc head msg from to seen = do {
     e \<leftarrow> open_pr I head msg (proposalBody (nc_Path nc) from to);
     State_Monad.return (case e of
         Some x \<Rightarrow> (nc_Config nc, [], seen\<lparr>is_Outcome := ImageOutcomeError\<rparr>, Some (Wrap (''imageauto: ensure pr for '' @ head) x))
       | None \<Rightarrow> (nc_Config nc, [], seen\<lparr>is_Outcome := ImageOutcomePending\<rparr>, None))
   }"

definition proposeViaPR ::
  "image_env \<Rightarrow> named_config \<Rightarrow> string \<Rightarrow> string \<Rightarrow> string \<Rightarrow> string \<Rightarrow> image_status \<Rightarrow> image_result prog" where
  "proposeViaPR I nc patched msg from to seen =
     (let head = prBranchName (md_Name (c_Metadata (nc_Config nc)));
          fail = (\<lambda>what e. (nc_Config nc, [], seen\<lparr>is_Outcome := ImageOutcomeError\<rparr>, Some (Wrap what e))) in do {
        same \<leftarrow> ask (\<lambda>n. ie_RemoteFileMatches I n head (nc_Path nc) patched);
        (if same then ensureProposal I nc head msg from to seen
         else do {
           ce \<leftarrow> ask (\<lambda>n. ie_CommitFileOnBranch I n head (nc_Path nc) patched msg);
           (case ce of
              Inl e \<Rightarrow> State_Monad.return (fail ''imageauto: pr commit'' e)
            | Inr committed \<Rightarrow>
                if \<not> committed then ensureProposal I nc head msg from to seen
                else do {
                  pe \<leftarrow> git_push head (\<lambda>n. ie_PushBranch I n head);
                  (case pe of
                     Some e \<Rightarrow> State_Monad.return (fail ''imageauto: pr push'' e)
                   | None \<Rightarrow> do {
                       oe \<leftarrow> open_pr I head msg (proposalBody (nc_Path nc) from to);
                       State_Monad.return (case oe of
                           Some e \<Rightarrow> fail ''imageauto: open pr'' e
                         | None \<Rightarrow> (nc_Config nc, [], seen\<lparr>is_Outcome := ImageOutcomeProposed\<rparr>, None))
                     })
                })
         })
      })"

definition push_writeback :: "image_env \<Rightarrow> named_config \<Rightarrow> string \<Rightarrow> string \<Rightarrow> string \<Rightarrow> image_status \<Rightarrow> image_result prog" where
  "push_writeback I nc patched msg newRef seen =
     (let fail = (\<lambda>what e. (nc_Config nc, [], seen\<lparr>is_Outcome := ImageOutcomeError\<rparr>, Some (Wrap what e))) in do {
        ce \<leftarrow> git_commit (nc_Path nc) patched (\<lambda>n. ie_CommitFile I n (nc_Path nc) patched msg);
        (case ce of
           Some e \<Rightarrow> State_Monad.return (fail ''imageauto: commit'' e)
         | None \<Rightarrow> do {
             pe \<leftarrow> git_push (ie_Branch I) (ie_Push I);
             State_Monad.return (case pe of
                 Some e \<Rightarrow> fail ''imageauto: push'' e
               | None \<Rightarrow> (case ie_Load I patched of
                   Inl e \<Rightarrow> fail ''imageauto: reload bumped config'' e
                 | Inr bumped \<Rightarrow> (bumped, newRef, seen\<lparr>is_Outcome := ImageOutcomeBumped\<rparr>, None)))
           })
      })"

definition write_back :: "image_env \<Rightarrow> named_config \<Rightarrow> image_policy \<Rightarrow> resolution \<Rightarrow> image_status \<Rightarrow> image_result prog" where
  "write_back I nc pol res seen =
     (let fail = (\<lambda>e. (nc_Config nc, [], seen\<lparr>is_Outcome := ImageOutcomeError\<rparr>, Some e)) in do {
        rd \<leftarrow> ask (\<lambda>n. ie_ReadFile I n (nc_Path nc));
        (case rd of
           Inl e \<Rightarrow> State_Monad.return (fail (Wrap (''imageauto: read '' @ nc_Path nc) e))
         | Inr data \<Rightarrow>
             (case PatchRolloutImageRef (ie_yaml I) data (rs_Ref res) of
                Inl e \<Rightarrow> State_Monad.return (fail e)
              | Inr (patched, changed) \<Rightarrow>
                  if \<not> changed then
                    State_Monad.return (case requireCurrentIdentities seen of
                        Some e \<Rightarrow> fail e
                      | None \<Rightarrow> (nc_Config nc, [], seen\<lparr>is_Outcome := ImageOutcomePinned\<rparr>, None))
                  else
                    (let msg = ''chore(image): '' @ md_Name (c_Metadata (nc_Config nc)) @ '' '' @ rs_From res @ '' -> '' @ rs_To res @ '' (rollops)'' in
                     if WritebackMode (Some pol) = ''pull-request'' then proposeViaPR I nc patched msg (rs_From res) (rs_To res) seen
                     else push_writeback I nc patched msg (rs_Ref res) seen)))
      })"

definition Process :: "image_env \<Rightarrow> named_config \<Rightarrow> image_result prog" where
  "Process I nc =
     (let disabled = (nc_Config nc, [], \<lparr>is_Outcome = ImageOutcomeDisabled, is_Resolved = [], is_Pinned = []\<rparr>, None) in
      case s_ImagePolicy (c_Spec (nc_Config nc)) of
        None \<Rightarrow> State_Monad.return disabled
      | Some pol \<Rightarrow>
          if ip_Mode pol = ''none'' then State_Monad.return disabled
          else
            (let img = spec_str (t_Spec (c_Target (nc_Config nc))) ''image'' in
             if img = [] then
               State_Monad.return (nc_Config nc, [], \<lparr>is_Outcome = ImageOutcomeError, is_Resolved = [], is_Pinned = []\<rparr>,
                 Some (Err ''imageauto: imagePolicy set but spec.target.spec.image is empty''))
             else do {
               x \<leftarrow> resolve I img pol;
               (case x of (res, re) \<Rightarrow>
                  (let seen = \<lparr>is_Outcome = ImageOutcomeError, is_Resolved = rs_Resolved res, is_Pinned = rs_Pinned res\<rparr> in
                   case re of
                     Some e \<Rightarrow> State_Monad.return (nc_Config nc, [], seen, Some e)
                   | None \<Rightarrow>
                       if rs_Ref res = [] then
                         State_Monad.return (case requireCurrentIdentities seen of
                             Some e \<Rightarrow> (nc_Config nc, [], seen, Some e)
                           | None \<Rightarrow> (nc_Config nc, [], seen\<lparr>is_Outcome := ImageOutcomeCurrent\<rparr>, None))
                       else write_back I nc pol res seen))
             }))"

section \<open>Frames\<close>

lemma keeps_git [keeps_rules]:
  "KGit \<in> K \<Longrightarrow> keeps (ext K) (git_commit path data f)" "keeps db_same (git_commit path data f)"
  "KGit \<in> K \<Longrightarrow> keeps (ext K) (git_push b f)" "keeps db_same (git_push b f)"
  "KGit \<in> K \<Longrightarrow> keeps (ext K) (open_pr I h m bd)" "keeps db_same (open_pr I h m bd)"
  unfolding git_commit_def git_push_def open_pr_def by (intro keeps_rules; simp)+

lemma keeps_resolve [keeps_rules]:
  "keeps (ext K) (resolve I img pol)" "keeps db_same (resolve I img pol)"
proof -
  have m: "keeps (ext K) (semver_for_digest I repo d ts)" "keeps db_same (semver_for_digest I repo d ts)" for repo d ts
    by (induction ts) (unfold semver_for_digest.simps, (intro keeps_rules; simp)+)
  show "keeps (ext K) (resolve I img pol)" "keeps db_same (resolve I img pol)"
    unfolding resolve_def resolve_digest_def selectSemver_def migrate_def pinnedRef_def Let_def by (intro keeps_rules m)+
qed

lemma keeps_write_back [keeps_rules]:
  "KGit \<in> K \<Longrightarrow> keeps (ext K) (write_back I nc pol res seen)" "keeps db_same (write_back I nc pol res seen)"
  unfolding write_back_def push_writeback_def proposeViaPR_def ensureProposal_def Let_def by (intro keeps_rules; simp)+

lemma keeps_Process [keeps_rules]: "KGit \<in> K \<Longrightarrow> keeps (ext K) (Process I nc)" "keeps db_same (Process I nc)"
  unfolding Process_def Let_def by (intro keeps_rules; simp)+

section \<open>Git leads\<close>

text \<open>The config to deploy differs from the committed one only after the bump was pushed.\<close>

definition git_first :: "image_env \<Rightarrow> named_config \<Rightarrow> world \<Rightarrow> image_result \<Rightarrow> world \<Rightarrow> bool" where
  "git_first I nc w x w' \<longleftrightarrow>
     (case x of (cfg, ref, st, e) \<Rightarrow>
        (is_Outcome st \<noteq> ImageOutcomeBumped \<longrightarrow> cfg = nc_Config nc \<and> ref = []) \<and>
        (e \<noteq> None \<longrightarrow> is_Outcome st = ImageOutcomeError) \<and>
        (is_Outcome st = ImageOutcomeBumped \<longrightarrow>
           (\<exists>data. w_trace w' = w_trace w @ [GitCommit (nc_Path nc) data, GitPush (ie_Branch I) None] \<and> ie_Load I data = Inr cfg) \<and>
           (\<exists>pol. s_ImagePolicy (c_Spec (nc_Config nc)) = Some pol \<and> WritebackMode (Some pol) = ''push'')) \<and>
        (is_Outcome st \<in> {ImageOutcomeCurrent, ImageOutcomePinned} \<longrightarrow>
           is_Resolved st = [] \<or> is_Pinned st = [] \<or> is_Resolved st = is_Pinned st))"

lemma WritebackMode_cases: "WritebackMode p = ''push'' \<or> WritebackMode p = ''pull-request''"
  by (simp add: WritebackMode_def split: option.split)

lemma identities_current:
  "requireCurrentIdentities st = None \<longleftrightarrow> is_Resolved st = [] \<or> is_Pinned st = [] \<or> is_Resolved st = is_Pinned st"
  by (simp add: requireCurrentIdentities_def)

lemma push_first:
  assumes "s_ImagePolicy (c_Spec (nc_Config nc)) = Some pol" "WritebackMode (Some pol) = ''push''" "w_trace v = w_trace w"
  shows "wp (push_writeback I nc data msg ref seen) (git_first I nc w) v"
  using assms unfolding push_writeback_def git_commit_def git_push_def Let_def
  by (auto simp: wp_simps git_first_def split: option.split sum.split)

lemma propose_first: "wp (proposeViaPR I nc data msg from to seen) (git_first I nc w) v"
  unfolding proposeViaPR_def ensureProposal_def open_pr_def git_push_def Let_def
  by (auto simp: wp_simps git_first_def split: option.split sum.split)

lemma write_back_first:
  assumes "s_ImagePolicy (c_Spec (nc_Config nc)) = Some pol" "w_trace v = w_trace w"
  shows "wp (write_back I nc pol res seen) (git_first I nc w) v"
proof -
  have p: "wp (push_writeback I nc data msg ref seen) (git_first I nc w) (tick1 v)"
    if "WritebackMode (Some pol) \<noteq> ''pull-request''" for data msg ref
    by (rule push_first [OF assms(1)]) (use that WritebackMode_cases assms(2) in auto)
  show ?thesis unfolding write_back_def Let_def
    by (auto simp: wp_simps git_first_def [of _ _ _ "(_, _, _, _)"] identities_current split: option.split sum.split
        intro: p propose_first)
qed

lemma resolve_trace: "wp (resolve I img pol) (\<lambda>_ w'. w_trace w' = w_trace w) w"
  by (rule wp_conseq [OF keeps_wp [OF keeps_resolve(1) [where K = "{}"]]]) (auto simp: ext_def grows_def)

text \<open>
  C32: the cluster never leads Git. Image automation hands the reconciler a config other than the
  one in the checkout only after it committed the bump and pushed it to the tracked branch, and
  then exactly the config that was pushed; with pull-request writeback it never does. Every error
  leaves the config as it was, and "current" and "pinned" are reported only when the registry and
  Git name the same image (or one of them is unknown).
\<close>

theorem Process_git_first: "wp (Process I nc) (git_first I nc w) w"
  unfolding Process_def Let_def
  by (auto simp: wp_simps git_first_def [of _ _ _ "(_, _, _, _)"] identities_current split: option.split
      intro!: wp_conseq [OF resolve_trace] write_back_first)

section \<open>A pin is never dropped\<close>

definition stays_pinned :: "string \<Rightarrow> string \<Rightarrow> bool" where
  "stays_pinned repo ref \<longleftrightarrow> (\<exists>tag d. ref = repo @ '':'' @ tag @ ''@'' @ d \<and> d \<noteq> [])"

lemma stays_pinnedI: "d \<noteq> [] \<Longrightarrow> stays_pinned repo (repo @ '':'' @ tag @ ''@'' @ d)"
  unfolding stays_pinned_def by blast

definition pin_kept :: "string \<Rightarrow> resolution \<times> err option \<Rightarrow> bool" where
  "pin_kept repo x \<longleftrightarrow> rs_Ref (fst x) = [] \<or> stays_pinned repo (rs_Ref (fst x))"

lemma pin_kept_none [simp]: "pin_kept repo (no_resolution, e)" "pin_kept repo (no_resolution\<lparr>rs_Resolved := a, rs_Pinned := b\<rparr>, e)"
  "pin_kept repo (no_resolution\<lparr>rs_Pinned := b\<rparr>, e)"
  by (simp_all add: pin_kept_def no_resolution_def)

lemma pin_kept_ref: "stays_pinned repo ref \<Longrightarrow> pin_kept repo (x\<lparr>rs_Ref := ref, rs_From := a, rs_To := b\<rparr>, e)"
  by (simp add: pin_kept_def)

lemma pinnedRef_pinned: "wp (pinnedRef I repo tag True) (\<lambda>x _. \<forall>ref. x = Inr ref \<longrightarrow> stays_pinned repo ref) w"
  unfolding pinnedRef_def wp_bind wp_ask wp_return
  by (auto split: sum.split simp del: append.simps intro: stays_pinnedI)

lemma selectSemver_pinned: "wp (selectSemver I repo tag True pol) (\<lambda>x _. pin_kept repo x) w"
  unfolding selectSemver_def Let_def wp_bind wp_ask wp_sum wp_option wp_return
  by (auto split: sum.split option.split intro!: wp_conseq [OF pinnedRef_pinned] pin_kept_ref)

lemma migrate_pinned: "digest \<noteq> [] \<Longrightarrow> wp (migrate I repo digest pol) (\<lambda>x _. pin_kept repo x) w"
  unfolding migrate_def Let_def wp_bind wp_ask wp_sum wp_return
  by (auto split: sum.split option.split simp del: append.simps intro!: wp_True pin_kept_ref stays_pinnedI)

lemma digest_pinned:
  assumes "\<And>n i. ie_Digest I n i \<noteq> Inr []"
  shows "wp (resolve_digest I repo tag old) (\<lambda>x _. pin_kept repo x) w"
proof -
  have "ie_Digest I n i = Inr d \<Longrightarrow> stays_pinned repo ((repo @ '':'' @ tag) @ ''@'' @ d)" for n i d
    using assms [of n i] stays_pinnedI [of d repo tag] by (auto simp del: append.simps)
  then show ?thesis unfolding resolve_digest_def Let_def wp_bind wp_ask wp_return
    by (auto split: sum.split simp del: append.simps append_assoc intro!: pin_kept_ref)
qed

text \<open>
  An immutable reference stays immutable. When the image in Git is pinned to a digest, every
  reference image automation resolves to is the same repository with a tag and a digest, whatever
  the registry answers (in \<open>digest\<close> mode as long as the registry names no empty digest, which the
  scanner reports as an error): a digest that cannot be resolved is an error, not an unpinned tag.
\<close>

theorem resolve_keeps_pin:
  assumes "splitDigestRef img = (repo, tag, digest)" "digest \<noteq> []"
    and "\<And>n i. ie_Digest I n i \<noteq> Inr []"
  shows "wp (resolve I img pol) (\<lambda>(res, e) _. rs_Ref res = [] \<or> stays_pinned repo (rs_Ref res)) w"
proof -
  note p = selectSemver_pinned [of I repo tag pol] migrate_pinned [OF assms(2), of I repo pol] digest_pinned [of I repo tag digest, OF assms(3)]
  have "wp (resolve I img pol) (\<lambda>x _. pin_kept repo x) w"
    unfolding resolve_def assms(1) wp_option wp_return prod.case wp_if using p assms(2) by (simp split: option.split)
  then show ?thesis by (rule wp_conseq) (auto simp: pin_kept_def)
qed

definition demo_image :: image_env where
  "demo_image = \<lparr>ie_rx = (\<lambda>_. Inr (\<lambda>_. True)), ie_yaml = \<lparr>ya_Unmarshal = (\<lambda>_. Inl ErrNotFound), ya_Encode = (\<lambda>_. Inl ErrNotFound)\<rparr>,
     ie_Tags = (\<lambda>_ _. Inr [''v1.3.0'']), ie_Digest = (\<lambda>_ _. Inr ''sha256:bb''), ie_ReadFile = (\<lambda>_ _. Inl ErrNotFound),
     ie_CommitFile = (\<lambda>_ _ _ _. None), ie_Push = (\<lambda>_. None), ie_RemoteFileMatches = (\<lambda>_ _ _ _. False),
     ie_CommitFileOnBranch = (\<lambda>_ _ _ _ _. Inr True), ie_PushBranch = (\<lambda>_ _. None),
     ie_OpenPullRequest = (\<lambda>_ _ _ _ _. None), ie_Branch = ''main'', ie_Load = (\<lambda>_. Inl ErrNotFound)\<rparr>"

theorem resolve_keeps_pin_witness:
  "rs_Ref (fst (fst (run_state (resolve demo_image ''ghcr.io/acme/app:v1.2.3@sha256:aa''
     \<lparr>ip_Mode = ''minor'', ip_Pattern = [], ip_AllowMutableTags = False, ip_AllowedRegistries = [], ip_Writeback = []\<rparr>)
     \<lparr>w_db = empty_db, w_locks = [], w_freeze = NewFreeze, w_trace = [], w_tick = 0\<rparr>))) =
   ''ghcr.io/acme/app:v1.3.0@sha256:bb'' \<and>
   stays_pinned ''ghcr.io/acme/app'' ''ghcr.io/acme/app:v1.3.0@sha256:bb''"
  (is "rs_Ref (fst (fst (run_state ?m ?w))) = ?r \<and> _")
proof -
  have s: "splitDigestRef ''ghcr.io/acme/app:v1.2.3@sha256:aa'' = (''ghcr.io/acme/app'', ''v1.2.3'', ''sha256:aa'')" by code_simp
  have r: "rs_Ref (fst (fst (run_state ?m ?w))) = ?r" by code_simp
  have d: "ie_Digest demo_image n i \<noteq> Inr []" for n i by (simp add: demo_image_def)
  have "''sha256:aa'' \<noteq> []" by simp
  from resolve_keeps_pin [OF s this d, of "\<lparr>ip_Mode = ''minor'', ip_Pattern = [], ip_AllowMutableTags = False, ip_AllowedRegistries = [], ip_Writeback = []\<rparr>" ?w]
  have "?r = [] \<or> stays_pinned ''ghcr.io/acme/app'' ?r" unfolding wp_run case_prod_beta r .
  then show ?thesis using r by (simp only: simp_thms list.simps)
qed

end
