(* ===== verification/Watch_Order.thy ===== *)
theory Watch_Order
  imports Config Depgraph "HOL-Library.Multiset"
begin

text \<open>
  \<open>orderByDependsOn\<close> of \<^verbatim>\<open>internal/reconcile/watch.go\<close>: the order in which the configs of a repo are
  reconciled in one tick. \<open>cfg_pair\<close> is a config as loaded together with the (possibly bumped)
  config to deploy.
\<close>

record cfg_pair =
  cp_nc :: named_config
  cp_cfg :: config

abbreviation cp_ref :: "cfg_pair \<Rightarrow> string" where "cp_ref p \<equiv> c_Ref (cp_cfg p)"
abbreviation cp_deps :: "cfg_pair \<Rightarrow> string list" where "cp_deps p \<equiv> s_DependsOn (c_Spec (cp_cfg p))"

definition batch_deps :: "cfg_pair list \<Rightarrow> dependency list" where
  "batch_deps ps = concat (map (\<lambda>p. map (\<lambda>d. \<lparr>dep_From = d, dep_To = cp_ref p\<rparr>) (cp_deps p)) ps)"

text \<open>\<open>byRef\<close>: a later pair with the same ref replaces an earlier one.\<close>

definition by_ref :: "cfg_pair list \<Rightarrow> string \<Rightarrow> cfg_pair option" where
  "by_ref ps ref = map_of (rev (map (\<lambda>p. (cp_ref p, p)) ps)) ref"

text \<open>The nested loop over the layers: the pairs placed, and the refs seen.\<close>

fun place :: "(string \<Rightarrow> cfg_pair option) \<Rightarrow> string list \<Rightarrow> string list \<Rightarrow> cfg_pair list \<times> string list" where
  "place f seen [] = ([], seen)"
| "place f seen (ref # refs) =
     (case f ref of
        None \<Rightarrow> place f seen refs
      | Some p \<Rightarrow>
          if ref \<in> set seen then place f seen refs
          else (case place f (ref # seen) refs of (out, seen') \<Rightarrow> (p # out, seen')))"

definition orderByDependsOn :: "cfg_pair list \<Rightarrow> cfg_pair list" where
  "orderByDependsOn ps =
     (if batch_deps ps = [] then ps
      else (case Layers (New (map cp_ref ps) (batch_deps ps)) of
          Inl _ \<Rightarrow> ps
        | Inr layers \<Rightarrow>
            (case place (by_ref ps) [] (concat layers) of (out, seen) \<Rightarrow>
               out @ filter (\<lambda>p. cp_ref p \<notin> set seen) ps)))"

section \<open>Placing\<close>

lemma place_distinct:
  assumes "distinct refs" "set refs \<inter> set seen = {}" "\<And>r p. f r = Some p \<Longrightarrow> cp_ref p = r"
  shows "map cp_ref (fst (place f seen refs)) = filter (\<lambda>r. f r \<noteq> None) refs"
    "set (snd (place f seen refs)) = set seen \<union> {r \<in> set refs. f r \<noteq> None}"
    "\<forall>p \<in> set (fst (place f seen refs)). f (cp_ref p) = Some p"
proof -
  have "map cp_ref (fst (place f seen refs)) = filter (\<lambda>r. f r \<noteq> None) refs \<and>
    set (snd (place f seen refs)) = set seen \<union> {r \<in> set refs. f r \<noteq> None} \<and>
    (\<forall>p \<in> set (fst (place f seen refs)). f (cp_ref p) = Some p)"
    using assms(1,2)
  proof (induction refs arbitrary: seen)
    case (Cons r refs)
    show ?case
    proof (cases "f r")
      case None
      then show ?thesis using Cons by auto
    next
      case (Some p)
      have "set refs \<inter> set (r # seen) = {}" using Cons.prems by auto
      note IH = Cons.IH [OF _ this]
      show ?thesis using IH Cons.prems Some assms(3) [OF Some] by (auto split: prod.split)
    qed
  qed simp
  then show "map cp_ref (fst (place f seen refs)) = filter (\<lambda>r. f r \<noteq> None) refs"
    "set (snd (place f seen refs)) = set seen \<union> {r \<in> set refs. f r \<noteq> None}"
    "\<forall>p \<in> set (fst (place f seen refs)). f (cp_ref p) = Some p" by blast+
qed

lemma by_ref_SomeD: "by_ref ps r = Some p \<Longrightarrow> p \<in> set ps \<and> cp_ref p = r"
  by (auto simp: by_ref_def dest!: map_of_SomeD)

lemma by_ref_distinct: "distinct (map cp_ref ps) \<Longrightarrow> p \<in> set ps \<Longrightarrow> by_ref ps (cp_ref p) = Some p"
  unfolding by_ref_def by (rule map_of_is_SomeI) (auto simp: rev_map [symmetric] comp_def)

lemma by_ref_dom: "by_ref ps r \<noteq> None \<longleftrightarrow> r \<in> cp_ref ` set ps"
  by (auto simp: by_ref_def map_of_eq_None_iff image_image)

text \<open>What follows comes later: \<open>a\<close> is in a part of the list before the part that has \<open>b\<close>.\<close>

definition comes_before :: "'a list \<Rightarrow> 'a \<Rightarrow> 'a \<Rightarrow> bool" where
  "comes_before xs a b \<longleftrightarrow> (\<exists>us vs. xs = us @ vs \<and> a \<in> set us \<and> b \<in> set vs)"

lemma comes_before_concat: "i < j \<Longrightarrow> j < length ls \<Longrightarrow> a \<in> set (ls ! i) \<Longrightarrow> b \<in> set (ls ! j) \<Longrightarrow> comes_before (concat ls) a b"
proof -
  assume a: "i < j" "j < length ls" "a \<in> set (ls ! i)" "b \<in> set (ls ! j)"
  have "concat ls = concat (take j ls) @ concat (drop j ls)" by (metis append_take_drop_id concat_append)
  moreover have "ls ! i \<in> set (take j ls)" using a by (metis length_take min.absorb4 nth_mem nth_take)
  moreover have "ls ! j \<in> set (drop j ls)" using a by (metis Cons_nth_drop_Suc list.set_intros(1))
  ultimately show ?thesis unfolding comes_before_def using a by fastforce
qed

lemma comes_before_filter: "comes_before xs a b \<Longrightarrow> P a \<Longrightarrow> P b \<Longrightarrow> comes_before (filter P xs) a b"
  unfolding comes_before_def by force

lemma comes_before_map:
  assumes "comes_before (map f xs) (f a) (f b)" "inj_on f (set xs)" "a \<in> set xs" "b \<in> set xs"
  shows "comes_before xs a b"
proof -
  obtain us vs where uv: "map f xs = us @ vs" "f a \<in> set us" "f b \<in> set vs" using assms(1) unfolding comes_before_def by blast
  then obtain xs1 xs2 where x: "xs = xs1 @ xs2" "us = map f xs1" "vs = map f xs2" by (auto simp: map_eq_append_conv)
  have "a \<in> set xs1" using uv(2) assms(2,3) x by (auto dest: inj_onD)
  moreover have "b \<in> set xs2" using uv(3) assms(2,4) x by (auto dest: inj_onD)
  ultimately show ?thesis unfolding comes_before_def using x(1) by blast
qed

lemma order_layers:
  assumes "distinct (map cp_ref ps)" "batch_deps ps \<noteq> []" "Layers (New (map cp_ref ps) (batch_deps ps)) = Inr layers"
  shows "set (orderByDependsOn ps) = set ps"
    "map cp_ref (orderByDependsOn ps) = filter (\<lambda>r. r \<in> cp_ref ` set ps) (concat layers)"
proof -
  note L = Layers_Inr [OF assms(3)]
  obtain out seen where pl: "place (by_ref ps) [] (concat layers) = (out, seen)" by fastforce
  have rf: "by_ref ps r = Some p \<Longrightarrow> cp_ref p = r" for r p by (simp add: by_ref_SomeD)
  have no: "set (concat layers) \<inter> set [] = {}" by simp
  note P = place_distinct [of "concat layers" "[]" "by_ref ps", OF L(1) no rf, unfolded pl fst_conv snd_conv]
  have seen: "set seen = cp_ref ` set ps" using P(2) L(2) by (auto simp only: by_ref_dom set_simps Un_iff mem_Collect_eq image_iff set_map empty_iff)
  have ord: "orderByDependsOn ps = out"
    using assms(2,3) seen by (simp add: orderByDependsOn_def pl)
  show m: "map cp_ref (orderByDependsOn ps) = filter (\<lambda>r. r \<in> cp_ref ` set ps) (concat layers)"
    using P(1) by (simp only: ord by_ref_dom)
  have "set out \<subseteq> set ps" using P(3) by (auto dest: by_ref_SomeD)
  moreover have "cp_ref ` set out = cp_ref ` set ps"
    using arg_cong [OF m, of set] L(2) by (auto simp: ord)
  moreover have "inj_on cp_ref (set ps)" using assms(1) by (simp add: distinct_map)
  ultimately show "set (orderByDependsOn ps) = set ps" unfolding ord by (meson inj_on_image_eq_iff order_refl)
qed

text \<open>Refs are never lost, duplicates or not.\<close>

lemma order_refs: "cp_ref ` set (orderByDependsOn ps) = cp_ref ` set ps"
proof (cases "batch_deps ps \<noteq> [] \<and> (\<exists>layers. Layers (New (map cp_ref ps) (batch_deps ps)) = Inr layers)")
  case True
  then obtain layers where l: "batch_deps ps \<noteq> []" "Layers (New (map cp_ref ps) (batch_deps ps)) = Inr layers" by blast
  obtain out seen where pl: "place (by_ref ps) [] (concat layers) = (out, seen)" by fastforce
  note P = place_distinct [of "concat layers" "[]" "by_ref ps", unfolded pl fst_conv snd_conv, OF Layers_Inr(1) [OF l(2)]]
  have refs: "{r \<in> set (concat layers). by_ref ps r \<noteq> None} = cp_ref ` set ps"
    using Layers_Inr(2) [OF l(2)] by (auto simp only: by_ref_dom set_map)
  have "set seen = {r \<in> set (concat layers). by_ref ps r \<noteq> None}" "cp_ref ` set out = {r \<in> set (concat layers). by_ref ps r \<noteq> None}"
    using P(2) arg_cong [OF P(1), of set] by (auto simp: by_ref_SomeD)
  then have "set seen = cp_ref ` set ps" "cp_ref ` set out = cp_ref ` set ps" unfolding refs .
  then show ?thesis using l by (auto simp: orderByDependsOn_def pl)
qed (auto simp: orderByDependsOn_def split: sum.split)

text \<open>
  A tick takes the configs of a repo in dependency order and loses none. For a batch whose
  target refs are distinct (the watcher drops duplicates first), \<open>orderByDependsOn\<close> is a permutation
  of the batch; when the dependencies have no cycle every config comes after all configs of the batch
  it depends on; when they have one, the order is left as loaded.
\<close>

theorem orderByDependsOn_sorts:
  assumes "distinct (map cp_ref ps)"
  shows "mset (orderByDependsOn ps) = mset ps \<and>
    (HasCycle (New (map cp_ref ps) (batch_deps ps)) \<longrightarrow> orderByDependsOn ps = ps) \<and>
    (\<not> HasCycle (New (map cp_ref ps) (batch_deps ps)) \<longrightarrow>
       (\<forall>p \<in> set ps. \<forall>q \<in> set ps. cp_ref q \<in> set (cp_deps p) \<longrightarrow> comes_before (orderByDependsOn ps) q p))"
proof (cases "batch_deps ps \<noteq> [] \<and> (\<exists>layers. Layers (New (map cp_ref ps) (batch_deps ps)) = Inr layers)")
  case False
  then have o: "orderByDependsOn ps = ps" by (auto simp: orderByDependsOn_def split: sum.split)
  have "p \<in> set ps \<Longrightarrow> cp_deps p = []" if "batch_deps ps = []" for p using that by (simp add: batch_deps_def)
  then show ?thesis using False o by (auto simp: HasCycle_def is_err_def split: sum.splits)
next
  case True
  then obtain layers where l: "batch_deps ps \<noteq> []" "Layers (New (map cp_ref ps) (batch_deps ps)) = Inr layers" by blast
  note O = order_layers [OF assms l] and L = Layers_Inr [OF l(2)]
  have inj: "inj_on cp_ref (set ps)" using assms by (simp add: distinct_map)
  have "distinct (map cp_ref (orderByDependsOn ps))" unfolding O(2) using L(1) by simp
  then have "mset (orderByDependsOn ps) = mset ps"
    using assms O(1) by (simp add: set_eq_iff_mset_eq_distinct [symmetric] distinct_map)
  moreover have "comes_before (orderByDependsOn ps) q p" if pq: "p \<in> set ps" "q \<in> set ps" "cp_ref q \<in> set (cp_deps p)" for p q
  proof -
    have "(cp_ref q, cp_ref p) \<in> edges (New (map cp_ref ps) (batch_deps ps))"
      using pq by (force simp: New_edges batch_deps_def)
    moreover obtain j where j: "j < length layers" "cp_ref p \<in> set (layers ! j)"
      using L(2) pq(1) by (metis (no_types, lifting) UnI1 image_eqI in_concat_nth set_map)
    ultimately obtain i where "i < j" "cp_ref q \<in> set (layers ! i)" using L(3) unfolding placed_after_prereqs_def by blast
    then have "comes_before (concat layers) (cp_ref q) (cp_ref p)" using j by (auto intro: comes_before_concat)
    then have "comes_before (map cp_ref (orderByDependsOn ps)) (cp_ref q) (cp_ref p)"
      unfolding O(2) by (rule comes_before_filter) (use pq in auto)
    then show ?thesis by (rule comes_before_map) (use inj pq O(1) in auto)
  qed
  ultimately show ?thesis using l by (auto simp: HasCycle_def)
qed

definition demo_pair :: "string \<Rightarrow> string list \<Rightarrow> cfg_pair" where
  "demo_pair ref deps =
     (let c = zero_config\<lparr>c_Spec := zero_spec\<lparr>s_Target := (s_Target zero_spec)\<lparr>t_Ref := ref\<rparr>, s_DependsOn := deps\<rparr>\<rparr> in
      \<lparr>cp_nc = \<lparr>nc_Path = ref, nc_Config = c\<rparr>, cp_cfg = c\<rparr>)"

theorem orderByDependsOn_sorts_witness:
  "comes_before (orderByDependsOn [demo_pair ''web'' [''db''], demo_pair ''db'' []]) (demo_pair ''db'' []) (demo_pair ''web'' [''db''])"
proof -
  let ?ps = "[demo_pair ''web'' [''db''], demo_pair ''db'' []]"
  have d: "distinct (map cp_ref ?ps)" "\<not> HasCycle (New (map cp_ref ?ps) (batch_deps ?ps))" by code_simp+
  have "cp_ref (demo_pair ''db'' []) \<in> set (cp_deps (demo_pair ''web'' [''db'']))" by code_simp
  then show ?thesis using orderByDependsOn_sorts [OF d(1)] d(2) by simp
qed

end
