(* ===== verification/Streaks.thy ===== *)
theory Streaks
  imports GoTime
begin

text \<open>
  The watcher's memory across ticks: \<open>failStreak\<close> (\<^verbatim>\<open>internal/reconcile/fail.go\<close>),
  \<open>driftStreak\<close> and \<open>reaper\<close> (\<^verbatim>\<open>internal/reconcile/reap.go\<close>). Each turns a sequence of
  observations, one per tick, into at most one alert per run of equal observations. The theorems
  state what each answers as a function of the history of observations (newest first), the
  abstract specification; the maps the code keeps are the implementation.

  A Go map is a map \<open>'k \<rightharpoonup> 'v\<close>, read with the zero value for a missing key (\<open>mget\<close>); the keys a
  loop ranges over are kept in a list, in the order they were added (Go's order is unspecified).
  One reaper serves the ticks of all repositories; \<open>shared_key_counts_twice\<close> is what follows from the keys it uses.
  The watcher creates the streaks before it uses them, so the nil receivers are left out.
\<close>

definition mget :: "('k \<rightharpoonup> 'v) \<Rightarrow> 'v \<Rightarrow> 'k \<Rightarrow> 'v" where
  "mget m z k = (case m k of None \<Rightarrow> z | Some v \<Rightarrow> v)"

lemma mget_simps [simp]:
  "mget (m(k \<mapsto> v)) z j = (if j = k then v else mget m z j)"
  "mget (m(k := None)) z j = (if j = k then z else mget m z j)"
  "mget Map.empty z j = z"
  "mget (\<lambda>i. if i = k then None else m i) z j = (if j = k then z else mget m z j)"
  "mget (\<lambda>i. if i = k then Some v else m i) z j = (if j = k then v else mget m z j)"
  by (simp_all add: mget_def)

lemma mget_Some: "m k = Some v \<Longrightarrow> mget m z k = v"
  by (simp add: mget_def)

lemma mget_None: "m k = None \<Longrightarrow> mget m z k = z"
  by (simp add: mget_def)

text \<open>\<open>strings.ToLower\<close> and \<open>strings.EqualFold\<close> on ASCII text.\<close>

definition lower :: "char \<Rightarrow> char" where
  "lower c = (if CHR ''A'' \<le> c \<and> c \<le> CHR ''Z'' then char_of (of_char c + 32 :: nat) else c)"

definition strings_ToLower :: "string \<Rightarrow> string" where
  "strings_ToLower s = map lower s"

definition EqualFold :: "string \<Rightarrow> string \<Rightarrow> bool" where
  "EqualFold a b = (strings_ToLower a = strings_ToLower b)"

section \<open>Failures\<close>

datatype fail_verdict = FailFresh | FailEscalate | FailQuiet

record fail_streak =
  fl_after :: int
  fl_n :: "string \<rightharpoonup> int"
  fl_msg :: "string \<rightharpoonup> string"
  fl_fired :: "string \<rightharpoonup> bool"
  fl_perm :: "string \<rightharpoonup> bool"
  fl_heldAt :: "string \<rightharpoonup> time"

abbreviation permanentHoldFor :: duration where "permanentHoldFor \<equiv> 30 * minute"

definition newFailStreak :: "int \<Rightarrow> fail_streak" where
  "newFailStreak a = \<lparr>fl_after = (if a < 1 then 1 else a), fl_n = Map.empty, fl_msg = Map.empty,
     fl_fired = Map.empty, fl_perm = Map.empty, fl_heldAt = Map.empty\<rparr>"

definition permanentFailure :: "string \<Rightarrow> bool" where
  "permanentFailure errText =
     (let s = strings_ToLower errText in
      if strings_Contains s ''forbidden'' then True
      else if strings_Contains s ''unauthorized'' then True
      else False)"

definition fail_clear :: "fail_streak \<Rightarrow> string \<Rightarrow> fail_streak" where
  "fail_clear f key =
     f\<lparr>fl_n := (fl_n f)(key := None), fl_msg := (fl_msg f)(key := None), fl_fired := (fl_fired f)(key := None),
       fl_perm := (fl_perm f)(key := None), fl_heldAt := (fl_heldAt f)(key := None)\<rparr>"

definition fail_note :: "fail_streak \<Rightarrow> time \<Rightarrow> string \<Rightarrow> string \<Rightarrow> fail_verdict \<times> fail_streak" where
  "fail_note f t key errText =
     (if errText = [] then (FailFresh, fail_clear f key)
      else
        let perm = permanentFailure errText;
            f = (if perm then f\<lparr>fl_heldAt := (fl_heldAt f)(key \<mapsto> t)\<rparr> else f) in
        if mget (fl_msg f) [] key \<noteq> errText then
          (let f = f\<lparr>fl_msg := (fl_msg f)(key \<mapsto> errText), fl_n := (fl_n f)(key \<mapsto> 1),
                     fl_fired := (fl_fired f)(key \<mapsto> False), fl_perm := (fl_perm f)(key \<mapsto> perm)\<rparr> in
           if perm then (FailEscalate, f\<lparr>fl_fired := (fl_fired f)(key \<mapsto> True)\<rparr>)
           else (FailFresh, f))
        else
          (let f = f\<lparr>fl_n := (fl_n f)(key \<mapsto> mget (fl_n f) 0 key + 1), fl_perm := (fl_perm f)(key \<mapsto> perm)\<rparr> in
           if mget (fl_fired f) False key then (FailQuiet, f)
           else if perm \<or> fl_after f \<le> mget (fl_n f) 0 key
           then (FailEscalate, f\<lparr>fl_fired := (fl_fired f)(key \<mapsto> True)\<rparr>)
           else (FailFresh, f)))"

definition held :: "fail_streak \<Rightarrow> time \<Rightarrow> string \<Rightarrow> string option" where
  "held f t key =
     (if \<not> mget (fl_fired f) False key \<or> \<not> mget (fl_perm f) False key then None
      else if t - mget (fl_heldAt f) 0 key > permanentHoldFor then None
      else Some (mget (fl_msg f) [] key))"

definition clearRepo :: "fail_streak \<Rightarrow> string \<Rightarrow> fail_streak" where
  "clearRepo f repo =
     (let gone = (\<lambda>k. fl_msg f k \<noteq> None \<and> (k = repo \<or> strings_HasPrefix k (repo @ ''/''))) in
      f\<lparr>fl_n := (\<lambda>k. if gone k then None else fl_n f k), fl_msg := (\<lambda>k. if gone k then None else fl_msg f k),
        fl_fired := (\<lambda>k. if gone k then None else fl_fired f k), fl_perm := (\<lambda>k. if gone k then None else fl_perm f k),
        fl_heldAt := (\<lambda>k. if gone k then None else fl_heldAt f k)\<rparr>)"

text \<open>
  The specification. An observation is a key, when it was made, and the error text (empty for a
  success). What the streak knows of a key is its latest observation and how many of the latest
  ones in a row had the same text.
\<close>

type_synonym fail_obs = "string \<times> time \<times> string"

fun latest :: "string \<Rightarrow> fail_obs list \<Rightarrow> time \<times> string" where
  "latest k [] = (0, [])"
| "latest k ((k', t, m) # h) = (if k' = k then (t, m) else latest k h)"

fun in_a_row :: "string \<Rightarrow> string \<Rightarrow> fail_obs list \<Rightarrow> int" where
  "in_a_row k m [] = 0"
| "in_a_row k m ((k', t, m') # h) = (if k' = k then (if m' = m then 1 + in_a_row k m h else 0) else in_a_row k m h)"

fun verdict_of :: "int \<Rightarrow> int \<Rightarrow> string \<Rightarrow> fail_verdict" where
  "verdict_of a i m =
     (if permanentFailure m then (if i = 1 then FailEscalate else FailQuiet)
      else if i < max 2 a then FailFresh
      else if i = max 2 a then FailEscalate
      else FailQuiet)"

declare verdict_of.simps [simp del]

fun noted :: "int \<Rightarrow> fail_obs list \<Rightarrow> fail_streak" where
  "noted a [] = newFailStreak a"
| "noted a ((k, t, m) # h) = snd (fail_note (noted a h) t k m)"

text \<open>The maps of the code, as functions of the history.\<close>

definition streak_at :: "fail_streak \<Rightarrow> string \<Rightarrow> time \<Rightarrow> string \<Rightarrow> int \<Rightarrow> bool" where
  "streak_at f k t m i \<longleftrightarrow>
     mget (fl_msg f) [] k = m \<and> mget (fl_n f) 0 k = (if m = [] then 0 else i) \<and>
     mget (fl_fired f) False k = (m \<noteq> [] \<and> (permanentFailure m \<or> max 2 (fl_after f) \<le> i)) \<and>
     mget (fl_perm f) False k = (m \<noteq> [] \<and> permanentFailure m) \<and>
     (m \<noteq> [] \<and> permanentFailure m \<longrightarrow> mget (fl_heldAt f) 0 k = t)"

lemma note_other:
  "k' \<noteq> k \<Longrightarrow> streak_at (snd (fail_note f t k m)) k' t' m' i = streak_at f k' t' m' i"
  by (simp add: fail_note_def streak_at_def fail_clear_def Let_def)

lemma note_after [simp]: "fl_after (snd (fail_note f t k m)) = fl_after f"
  by (simp add: fail_note_def fail_clear_def Let_def)

lemma note_clears: "streak_at (snd (fail_note f t k [])) k t' [] i"
  by (simp add: fail_note_def fail_clear_def streak_at_def)

lemma note_step:
  assumes "streak_at f k t' m' i" "0 \<le> i" "m \<noteq> []" "m' = m \<Longrightarrow> 0 < i" "1 \<le> fl_after f"
  defines "j \<equiv> (if m' = m then i + 1 else 1)"
  shows "fst (fail_note f t k m) = verdict_of (fl_after f) j m" "streak_at (snd (fail_note f t k m)) k t m j"
  using assms by (auto simp: fail_note_def streak_at_def verdict_of.simps Let_def)

lemma in_a_row_nonneg: "0 \<le> in_a_row k m h"
  by (induction h rule: in_a_row.induct) auto

lemma in_a_row_latest: "latest k h = (t, m) \<Longrightarrow> m \<noteq> [] \<Longrightarrow> 0 < in_a_row k m h"
  by (induction h) (auto split: if_splits simp: in_a_row_nonneg add_pos_nonneg)

lemma in_a_row_other: "latest k h = (t, m) \<Longrightarrow> m' \<noteq> m \<Longrightarrow> in_a_row k m' h = 0"
  by (induction h) (auto split: if_splits)

lemma noted_after [simp]: "fl_after (noted a h) = max 1 a"
  by (induction a h rule: noted.induct) (simp_all add: newFailStreak_def)

lemma noted_at:
  "latest k h = (t, m) \<Longrightarrow> streak_at (noted a h) k t m (in_a_row k m h)"
proof (induction h arbitrary: t m)
  case Nil
  then show ?case by (simp add: newFailStreak_def streak_at_def)
next
  case (Cons o1 h)
  obtain k' t' m' where o1: "o1 = (k', t', m')" by (cases o1)
  show ?case
  proof (cases "k' = k")
    case False
    then show ?thesis using Cons by (simp add: o1 note_other)
  next
    case True
    then have m: "m' = m" "t' = t" using Cons.prems o1 by auto
    show ?thesis
    proof (cases "m = []")
      case True
      then show ?thesis using \<open>k' = k\<close> m by (simp add: o1 note_clears)
    next
      case False
      obtain t0 m0 where l: "latest k h = (t0, m0)" by fastforce
      have "streak_at (snd (fail_note (noted a h) t k m)) k t m (if m0 = m then in_a_row k m0 h + 1 else 1)"
        by (rule note_step(2) [OF Cons.IH [OF l] in_a_row_nonneg False])
           (use False in_a_row_latest [OF l] in auto)
      then show ?thesis using \<open>k' = k\<close> m in_a_row_other [OF l]
        by (cases "m0 = m") (auto simp: o1 add.commute)
    qed
  qed
qed

text \<open>
  One alert per run of identical failures. What a failing tick is answered depends only on
  how many ticks in a row this key failed with this very text: a permanent refusal (its text
  contains "forbidden" or "unauthorized", in any case) escalates on the first tick and is quiet
  after; any other failure is logged as usual until it has been seen \<open>after\<close> times in a row (twice
  when \<open>after\<close> is 1), escalates on exactly that tick and is quiet from then on. A success, or
  another text, starts over; what other keys do has no influence.
\<close>

theorem note_escalates_once:
  assumes "errText \<noteq> []"
  shows "fst (fail_note (noted a h) t key errText) = verdict_of (max 1 a) (1 + in_a_row key errText h) errText"
proof -
  obtain t0 m0 where l: "latest key h = (t0, m0)" by fastforce
  have "fst (fail_note (noted a h) t key errText) =
      verdict_of (fl_after (noted a h)) (if m0 = errText then in_a_row key m0 h + 1 else 1) errText"
    by (rule note_step(1) [OF noted_at [OF l] in_a_row_nonneg assms]) (use assms in_a_row_latest [OF l] in auto)
  then show ?thesis using in_a_row_other [OF l] by (cases "m0 = errText") (auto simp: add.commute)
qed

theorem note_escalates_once_witness:
  "fst (fail_note (noted 2 [(''a'', 2, ''timeout''), (''b'', 1, ''timeout'')]) 3 ''a'' ''timeout'') = FailEscalate"
proof -
  have "\<not> permanentFailure ''timeout''" by code_simp
  then show ?thesis by (subst note_escalates_once) (simp_all add: verdict_of.simps)
qed

text \<open>The hold: the latest observation of the key is a permanent refusal at most half an hour old.\<close>

lemma held_iff:
  assumes "latest key h = (t0, m)"
  shows "held (noted a h) t key =
    (if m \<noteq> [] \<and> permanentFailure m \<and> t - t0 \<le> permanentHoldFor then Some m else None)"
  using noted_at [OF assms, of a] by (auto simp: held_def streak_at_def)

section \<open>Drift\<close>

record drift_streak =
  dr_after :: int
  dr_n :: "string \<rightharpoonup> int"
  dr_fired :: "string \<rightharpoonup> bool"

definition newDriftStreak :: "int \<Rightarrow> drift_streak" where
  "newDriftStreak a = \<lparr>dr_after = a, dr_n = Map.empty, dr_fired = Map.empty\<rparr>"

definition drift_observe :: "drift_streak \<Rightarrow> string \<Rightarrow> bool \<Rightarrow> int \<times> drift_streak" where
  "drift_observe d key drifting =
     (if \<not> drifting then (0, d\<lparr>dr_n := (dr_n d)(key := None), dr_fired := (dr_fired d)(key := None)\<rparr>)
      else
        let d = d\<lparr>dr_n := (dr_n d)(key \<mapsto> mget (dr_n d) 0 key + 1)\<rparr> in
        if dr_after d \<le> mget (dr_n d) 0 key \<and> \<not> mget (dr_fired d) False key
        then (mget (dr_n d) 0 key, d\<lparr>dr_fired := (dr_fired d)(key \<mapsto> True)\<rparr>)
        else (0, d))"

fun drifted :: "int \<Rightarrow> (string \<times> bool) list \<Rightarrow> drift_streak" where
  "drifted a [] = newDriftStreak a"
| "drifted a ((k, b) # h) = snd (drift_observe (drifted a h) k b)"

fun drifting_for :: "string \<Rightarrow> (string \<times> bool) list \<Rightarrow> int" where
  "drifting_for k [] = 0"
| "drifting_for k ((k', b) # h) = (if k' = k then (if b then 1 + drifting_for k h else 0) else drifting_for k h)"

lemma drifting_for_nonneg: "0 \<le> drifting_for k h"
  by (induction h rule: drifting_for.induct) auto

definition drift_at :: "drift_streak \<Rightarrow> string \<Rightarrow> int \<Rightarrow> bool" where
  "drift_at d k i \<longleftrightarrow>
     mget (dr_n d) 0 k = i \<and> mget (dr_fired d) False k = (0 < i \<and> dr_after d \<le> i)"

lemma drift_other: "k' \<noteq> k \<Longrightarrow> drift_at (snd (drift_observe d k b)) k' i = drift_at d k' i"
  by (simp add: drift_observe_def drift_at_def Let_def)

lemma drift_step:
  assumes "drift_at d k i" "0 \<le> i"
  shows "fst (drift_observe d k b) = (if b \<and> i + 1 = max 1 (dr_after d) then i + 1 else 0)"
    and "drift_at (snd (drift_observe d k b)) k (if b then i + 1 else 0)"
    and "dr_after (snd (drift_observe d k b)) = dr_after d"
  using assms by (auto simp: drift_observe_def drift_at_def Let_def)

lemma drifted_at: "drift_at (drifted a h) k (drifting_for k h)"
proof (induction h)
  case (Cons o1 h)
  obtain k' b where o1: "o1 = (k', b)" by (cases o1)
  show ?case
    using drift_step(2) [OF Cons.IH drifting_for_nonneg, of b] drift_other [of k k' "drifted a h" b] Cons.IH
    by (auto simp: o1 add.commute split: if_splits)
qed (simp add: newDriftStreak_def drift_at_def)

lemma drifted_after: "dr_after (drifted a h) = a"
  by (induction a h rule: drifted.induct) (simp_all add: newDriftStreak_def drift_observe_def Let_def)

lemma drift_observe_once:
  "fst (drift_observe (drifted a h) k b) =
     (if b \<and> 1 + drifting_for k h = max 1 a then 1 + drifting_for k h else 0)"
  using drift_step(1) [OF drifted_at drifting_for_nonneg, where b = b] by (simp add: drifted_after add.commute)

section \<open>Orphans\<close>

record reaper =
  rp_after :: int
  rp_seen :: "string \<rightharpoonup> string list"
  rp_absent :: "string \<rightharpoonup> int"
  rp_fired :: "string \<rightharpoonup> bool"

record verdict =
  vd_Repo :: string
  vd_Key :: string
  vd_Ticks :: int

definition newReaper :: "int \<Rightarrow> reaper" where
  "newReaper a = \<lparr>rp_after = a, rp_seen = Map.empty, rp_absent = Map.empty, rp_fired = Map.empty\<rparr>"

text \<open>One turn of the loop of \<open>observe\<close> over the keys seen.\<close>

definition reap_key :: "string \<Rightarrow> (string \<Rightarrow> bool) \<Rightarrow> string \<Rightarrow> reaper \<Rightarrow> verdict option \<times> reaper" where
  "reap_key repo present key r =
     (if present key then (None, r\<lparr>rp_absent := (rp_absent r)(key := None), rp_fired := (rp_fired r)(key := None)\<rparr>)
      else
        let r = r\<lparr>rp_absent := (rp_absent r)(key \<mapsto> mget (rp_absent r) 0 key + 1)\<rparr> in
        if rp_after r \<le> mget (rp_absent r) 0 key \<and> \<not> mget (rp_fired r) False key
        then (Some \<lparr>vd_Repo = repo, vd_Key = key, vd_Ticks = mget (rp_absent r) 0 key\<rparr>,
              r\<lparr>rp_fired := (rp_fired r)(key \<mapsto> True)\<rparr>)
        else (None, r))"

fun reap_keys :: "string \<Rightarrow> (string \<Rightarrow> bool) \<Rightarrow> string list \<Rightarrow> reaper \<Rightarrow> verdict list \<times> reaper" where
  "reap_keys repo present [] r = ([], r)"
| "reap_keys repo present (key # rest) r =
     (case reap_key repo present key r of (v, r) \<Rightarrow>
      case reap_keys repo present rest r of (vs, r) \<Rightarrow>
        (case v of None \<Rightarrow> vs | Some x \<Rightarrow> x # vs, r))"

definition reap_observe :: "reaper \<Rightarrow> string \<Rightarrow> string list \<Rightarrow> err option \<Rightarrow> verdict list \<times> reaper" where
  "reap_observe r repo keys loadErr =
     (case loadErr of
        Some _ \<Rightarrow> ([], r\<lparr>rp_absent := (\<lambda>k. if k \<in> set (mget (rp_seen r) [] repo) then None else rp_absent r k)\<rparr>)
      | None \<Rightarrow>
          let full = map (\<lambda>k. repo @ ''/'' @ k) keys in
          (case reap_keys repo (\<lambda>k. k \<in> set full) (mget (rp_seen r) [] repo) r of (out, r) \<Rightarrow>
             (out, r\<lparr>rp_seen := (rp_seen r)(repo \<mapsto> foldl (\<lambda>xs k. set_add k xs) (mget (rp_seen r) [] repo) full)\<rparr>)))"

definition forget :: "reaper \<Rightarrow> string \<Rightarrow> string \<Rightarrow> reaper" where
  "forget r repo key =
     r\<lparr>rp_seen := (case rp_seen r repo of None \<Rightarrow> rp_seen r | Some ks \<Rightarrow> (rp_seen r)(repo \<mapsto> removeAll key ks)),
       rp_absent := (rp_absent r)(key := None), rp_fired := (rp_fired r)(key := None)\<rparr>"

text \<open>
  One tick for a repo, as the watcher runs it: observe, report each verdict, forget what was
  reported.
\<close>

definition forget_all :: "reaper \<Rightarrow> verdict list \<Rightarrow> reaper" where
  "forget_all r vs = foldl (\<lambda>r v. forget r (vd_Repo v) (vd_Key v)) r vs"

definition reap_tick :: "reaper \<Rightarrow> string \<Rightarrow> string list res \<Rightarrow> verdict list \<times> reaper" where
  "reap_tick r repo o1 =
     (case (case o1 of Inl e \<Rightarrow> reap_observe r repo [] (Some e) | Inr keys \<Rightarrow> reap_observe r repo keys None) of
        (vs, r) \<Rightarrow> (vs, forget_all r vs))"

text \<open>
  The specification, for one path of one repo: not tracked, or tracked and missing for so many
  error-free ticks in a row. The verdict falls on the tick that completes the count.
\<close>

fun orphan_step :: "int \<Rightarrow> string \<Rightarrow> string list res \<Rightarrow> int option \<Rightarrow> bool \<times> int option" where
  "orphan_step a k (Inl e) st = (False, map_option (\<lambda>_. 0) st)"
| "orphan_step a k (Inr keys) st =
     (if k \<in> set keys then (False, Some 0)
      else (case st of None \<Rightarrow> (False, None)
            | Some i \<Rightarrow> if a \<le> i + 1 then (True, None) else (False, Some (i + 1))))"

definition orphan_abs :: "reaper \<Rightarrow> string \<Rightarrow> string \<Rightarrow> int option" where
  "orphan_abs r repo k =
     (if repo @ ''/'' @ k \<in> set (mget (rp_seen r) [] repo) then Some (mget (rp_absent r) 0 (repo @ ''/'' @ k)) else None)"

text \<open>Between ticks: keys listed once and nothing fired.\<close>

definition reaper_ok :: "reaper \<Rightarrow> bool" where
  "reaper_ok r \<longleftrightarrow> (\<forall>repo. distinct (mget (rp_seen r) [] repo)) \<and> (\<forall>k. \<not> mget (rp_fired r) False k)"

text \<open>
  The counts are kept by key, for all repos in one map. A key belongs to one repo when no other repo has it, and
  nothing is counted for it while that repo has not.
\<close>

definition owned :: "reaper \<Rightarrow> string \<Rightarrow> string \<Rightarrow> bool" where
  "owned r repo key \<longleftrightarrow> (\<forall>q. q \<noteq> repo \<longrightarrow> key \<notin> set (mget (rp_seen r) [] q)) \<and>
     (key \<notin> set (mget (rp_seen r) [] repo) \<longrightarrow> mget (rp_absent r) 0 key = 0)"

definition overdue :: "reaper \<Rightarrow> (string \<Rightarrow> bool) \<Rightarrow> string \<Rightarrow> bool" where
  "overdue r present k \<longleftrightarrow> \<not> present k \<and> rp_after r \<le> mget (rp_absent r) 0 k + 1 \<and> \<not> mget (rp_fired r) False k"

lemma reap_key_fields:
  "rp_seen (snd (reap_key repo P key r)) = rp_seen r" "rp_after (snd (reap_key repo P key r)) = rp_after r"
  "mget (rp_absent (snd (reap_key repo P key r))) 0 k =
     (if k = key then (if P key then 0 else mget (rp_absent r) 0 key + 1) else mget (rp_absent r) 0 k)"
  "mget (rp_fired (snd (reap_key repo P key r))) False k =
     (if k = key then \<not> P key \<and> (mget (rp_fired r) False key \<or> overdue r P key) else mget (rp_fired r) False k)"
  "fst (reap_key repo P key r) =
     (if overdue r P key then Some \<lparr>vd_Repo = repo, vd_Key = key, vd_Ticks = mget (rp_absent r) 0 key + 1\<rparr> else None)"
  by (auto simp: reap_key_def overdue_def Let_def)

lemma reap_keys_fields:
  assumes "distinct ks"
  shows "rp_seen (snd (reap_keys repo P ks r)) = rp_seen r \<and> rp_after (snd (reap_keys repo P ks r)) = rp_after r \<and>
    (\<forall>k. mget (rp_absent (snd (reap_keys repo P ks r))) 0 k =
       (if k \<in> set ks then (if P k then 0 else mget (rp_absent r) 0 k + 1) else mget (rp_absent r) 0 k)) \<and>
    (\<forall>k. mget (rp_fired (snd (reap_keys repo P ks r))) False k =
       (if k \<in> set ks then \<not> P k \<and> (mget (rp_fired r) False k \<or> overdue r P k) else mget (rp_fired r) False k)) \<and>
    fst (reap_keys repo P ks r) =
      map (\<lambda>k. \<lparr>vd_Repo = repo, vd_Key = k, vd_Ticks = mget (rp_absent r) 0 k + 1\<rparr>) (filter (overdue r P) ks)"
  using assms
proof (induction ks arbitrary: r)
  case (Cons key ks)
  define r1 where "r1 = snd (reap_key repo P key r)"
  note f1 = reap_key_fields [of repo P key r, folded r1_def]
  have nk: "key \<notin> set ks" using Cons.prems by simp
  have od: "k \<in> set ks \<Longrightarrow> overdue r1 P k = overdue r P k" for k using nk by (auto simp: overdue_def f1)
  then have fl: "filter (overdue r1 P) ks = filter (overdue r P) ks" by (simp cong: filter_cong)
  have mp: "map (\<lambda>k. \<lparr>vd_Repo = repo, vd_Key = k, vd_Ticks = mget (rp_absent r1) 0 k + 1\<rparr>) (filter Q ks) =
      map (\<lambda>k. \<lparr>vd_Repo = repo, vd_Key = k, vd_Ticks = mget (rp_absent r) 0 k + 1\<rparr>) (filter Q ks)" for Q
    using nk by (auto simp: f1)
  have s: "snd (reap_keys repo P (key # ks) r) = snd (reap_keys repo P ks r1)"
    "fst (reap_keys repo P (key # ks) r) =
       (case fst (reap_key repo P key r) of None \<Rightarrow> fst (reap_keys repo P ks r1) | Some v \<Rightarrow> v # fst (reap_keys repo P ks r1))"
    unfolding r1_def by (simp_all add: case_prod_beta)
  have IH: "rp_seen (snd (reap_keys repo P ks r1)) = rp_seen r1" "rp_after (snd (reap_keys repo P ks r1)) = rp_after r1"
    "\<And>k. mget (rp_absent (snd (reap_keys repo P ks r1))) 0 k =
       (if k \<in> set ks then (if P k then 0 else mget (rp_absent r1) 0 k + 1) else mget (rp_absent r1) 0 k)"
    "\<And>k. mget (rp_fired (snd (reap_keys repo P ks r1))) False k =
       (if k \<in> set ks then \<not> P k \<and> (mget (rp_fired r1) False k \<or> overdue r1 P k) else mget (rp_fired r1) False k)"
    "fst (reap_keys repo P ks r1) =
      map (\<lambda>k. \<lparr>vd_Repo = repo, vd_Key = k, vd_Ticks = mget (rp_absent r1) 0 k + 1\<rparr>) (filter (overdue r1 P) ks)"
    using Cons.IH [of r1] Cons.prems by simp_all
  show ?case unfolding s IH fl mp f1 using nk od by (auto simp: f1)
qed simp

lemma set_foldl_add [simp]: "set (foldl (\<lambda>xs k. set_add k xs) ys ks) = set ys \<union> set ks"
  by (induction ks arbitrary: ys) auto

lemma distinct_foldl_add [simp]: "distinct (foldl (\<lambda>xs k. set_add k xs) ys ks) = distinct ys"
  by (induction ks arbitrary: ys) simp_all

lemma forget_all_fields:
  assumes "list_all (\<lambda>v. vd_Repo v = repo) vs" "rp_seen r repo = Some ks"
  shows "rp_seen (forget_all r vs) repo = Some (filter (\<lambda>k. k \<notin> vd_Key ` set vs) ks) \<and>
    (\<forall>k. mget (rp_absent (forget_all r vs)) 0 k = (if k \<in> vd_Key ` set vs then 0 else mget (rp_absent r) 0 k)) \<and>
    (\<forall>k. mget (rp_fired (forget_all r vs)) False k = (k \<notin> vd_Key ` set vs \<and> mget (rp_fired r) False k)) \<and>
    rp_after (forget_all r vs) = rp_after r \<and> (\<forall>q. q \<noteq> repo \<longrightarrow> rp_seen (forget_all r vs) q = rp_seen r q)"
  using assms
proof (induction vs arbitrary: r ks)
  case (Cons v vs)
  let ?r = "forget r repo (vd_Key v)"
  have seen: "rp_seen ?r repo = Some (removeAll (vd_Key v) ks)" using Cons.prems by (simp add: forget_def)
  have f: "forget_all r (v # vs) = forget_all ?r vs" using Cons.prems by (simp add: forget_all_def)
  have rm: "filter (\<lambda>k. k \<notin> vd_Key ` set vs) (removeAll (vd_Key v) ks) = filter (\<lambda>k. k \<notin> vd_Key ` set (v # vs)) ks"
    by (induction ks) auto
  show ?case using Cons.IH [OF _ seen] Cons.prems unfolding f rm by (auto simp: forget_def)
qed (simp add: forget_all_def)

text \<open>A tick that loaded: the maps after it, key by key.\<close>

lemma reap_tick_fields:
  fixes repo :: string and keys :: "string list"
  assumes "reaper_ok r"
  defines "full \<equiv> (\<lambda>k. repo @ ''/'' @ k) ` set keys" and "S \<equiv> mget (rp_seen r) [] repo"
  defines "gone \<equiv> {j \<in> set S. overdue r (\<lambda>k. k \<in> full) j}" and "r' \<equiv> snd (reap_tick r repo (Inr keys))"
  shows "vd_Key ` set (fst (reap_tick r repo (Inr keys))) = gone"
    and "set (mget (rp_seen r') [] repo) = set S \<union> full - gone" "distinct (mget (rp_seen r') [] repo)"
    and "mget (rp_absent r') 0 j =
      (if j \<in> gone then 0 else if j \<in> set S \<and> j \<notin> full then mget (rp_absent r) 0 j + 1
       else if j \<in> set S then 0 else mget (rp_absent r) 0 j)"
    and "\<not> mget (rp_fired r') False j" "rp_after r' = rp_after r" "q \<noteq> repo \<Longrightarrow> rp_seen r' q = rp_seen r q"
proof -
  define fl where "fl = map (\<lambda>k. repo @ ''/'' @ k) keys"
  define P where "P = (\<lambda>k. k \<in> set fl)"
  define r1 where "r1 = snd (reap_keys repo P S r)"
  define vs where "vs = fst (reap_keys repo P S r)"
  define S' where "S' = foldl (\<lambda>xs k. set_add k xs) S fl"
  define r2 where "r2 = r1\<lparr>rp_seen := (rp_seen r1)(repo \<mapsto> S')\<rparr>"
  have fl: "set fl = full" by (simp add: fl_def full_def)
  have d: "distinct S" and nf: "\<And>k. \<not> mget (rp_fired r) False k" using assms(1) by (simp_all add: reaper_ok_def S_def)
  note f = reap_keys_fields [OF d, of repo P r, folded r1_def vs_def]
  have sn: "rp_seen r1 = rp_seen r" using f by simp
  have "reap_observe r repo keys None = (vs, r2)"
    unfolding reap_observe_def Let_def option.case fl_def [symmetric] P_def [symmetric] S_def [symmetric]
    by (simp only: case_prod_beta vs_def [symmetric] r1_def [symmetric] sn r2_def S'_def S_def [symmetric])
  then have tick: "reap_tick r repo (Inr keys) = (vs, forget_all r2 vs)" by (simp add: reap_tick_def)
  then have r': "r' = forget_all r2 vs" by (simp add: r'_def)
  have P: "overdue r P = overdue r (\<lambda>k. k \<in> full)" by (simp add: P_def fl)
  have vr: "list_all (\<lambda>v. vd_Repo v = repo) vs" using f by (simp add: list_all_iff)
  have vk: "vd_Key ` set vs = gone" using f by (simp add: image_image gone_def P)
  have "rp_seen r2 repo = Some S'" by (simp add: r2_def)
  note g = forget_all_fields [OF vr this, folded r', unfolded vk]
  have fin: "mget (rp_seen r') [] repo = filter (\<lambda>k. k \<notin> gone) S'" using g by (simp add: mget_Some)
  show "vd_Key ` set (fst (reap_tick r repo (Inr keys))) = gone" using vk tick by simp
  show "set (mget (rp_seen r') [] repo) = set S \<union> full - gone" unfolding fin by (auto simp: S'_def fl)
  show "distinct (mget (rp_seen r') [] repo)" unfolding fin using d by (simp add: S'_def)
  show "rp_after r' = rp_after r" "q \<noteq> repo \<Longrightarrow> rp_seen r' q = rp_seen r q" using f g by (simp_all add: r2_def)
  show "mget (rp_absent r') 0 j =
      (if j \<in> gone then 0 else if j \<in> set S \<and> j \<notin> full then mget (rp_absent r) 0 j + 1
       else if j \<in> set S then 0 else mget (rp_absent r) 0 j)"
    using f g by (simp add: r2_def P_def fl)
  show "\<not> mget (rp_fired r') False j" using f g nf by (auto simp: r2_def gone_def P)
qed

lemma reap_tick_ok:
  assumes "reaper_ok r"
  shows "reaper_ok (snd (reap_tick r repo o1))" "rp_after (snd (reap_tick r repo o1)) = rp_after r"
    "q \<noteq> repo \<Longrightarrow> rp_seen (snd (reap_tick r repo o1)) q = rp_seen r q"
proof -
  have "reaper_ok (snd (reap_tick r repo o1)) \<and> rp_after (snd (reap_tick r repo o1)) = rp_after r \<and>
    (\<forall>q. q \<noteq> repo \<longrightarrow> rp_seen (snd (reap_tick r repo o1)) q = rp_seen r q)"
  proof (cases o1)
    case (Inl e)
    then show ?thesis using assms by (simp add: reap_tick_def reap_observe_def forget_all_def reaper_ok_def)
  next
    case (Inr keys)
    note f = reap_tick_fields [OF assms, where repo = repo and keys = keys]
    have "distinct (mget (rp_seen (snd (reap_tick r repo (Inr keys)))) [] q)" for q
      using f(3) f(7) assms by (cases "q = repo") (simp_all add: reaper_ok_def mget_def)
    then show ?thesis using f Inr by (simp add: reaper_ok_def)
  qed
  then show "reaper_ok (snd (reap_tick r repo o1))" "rp_after (snd (reap_tick r repo o1)) = rp_after r"
    "q \<noteq> repo \<Longrightarrow> rp_seen (snd (reap_tick r repo o1)) q = rp_seen r q" by blast+
qed

text \<open>A tick of its repo implements a tick of the specification for every path whose key no other repo has.\<close>

lemma reap_tick_refines:
  assumes "reaper_ok r" "owned r repo (repo @ ''/'' @ k)"
  shows "(\<exists>v \<in> set (fst (reap_tick r repo o1)). vd_Key v = repo @ ''/'' @ k) =
      fst (orphan_step (rp_after r) k o1 (orphan_abs r repo k))"
    and "orphan_abs (snd (reap_tick r repo o1)) repo k = snd (orphan_step (rp_after r) k o1 (orphan_abs r repo k))"
    and "owned (snd (reap_tick r repo o1)) repo (repo @ ''/'' @ k)"
proof -
  let ?S = "mget (rp_seen r) [] repo" and ?K = "repo @ ''/'' @ k"
  have others: "q \<noteq> repo \<Longrightarrow> ?K \<notin> set (mget (rp_seen (snd (reap_tick r repo o1))) [] q)" for q
    using reap_tick_ok(3) [OF assms(1), where repo = repo and ?o1.0 = o1 and q = q] assms(2) by (simp add: owned_def mget_def)
  have "(\<exists>v \<in> set (fst (reap_tick r repo o1)). vd_Key v = ?K) = fst (orphan_step (rp_after r) k o1 (orphan_abs r repo k)) \<and>
    orphan_abs (snd (reap_tick r repo o1)) repo k = snd (orphan_step (rp_after r) k o1 (orphan_abs r repo k)) \<and>
    owned (snd (reap_tick r repo o1)) repo ?K"
  proof (cases o1)
    case (Inl e)
    have m: "mget (\<lambda>k. if k \<in> A then None else rp_absent r k) 0 j = (if j \<in> A then 0 else mget (rp_absent r) 0 j)" for j A
      by (simp add: mget_def)
    show ?thesis using assms by (auto simp: Inl reap_tick_def reap_observe_def forget_all_def orphan_abs_def owned_def m)
  next
    case (Inr keys)
    let ?full = "(\<lambda>k. repo @ ''/'' @ k) ` set keys"
    note f = reap_tick_fields [OF assms(1), where repo = repo and keys = keys]
    have inK: "?K \<in> ?full \<longleftrightarrow> k \<in> set keys" by auto
    have od: "overdue r (\<lambda>k. k \<in> ?full) ?K = (k \<notin> set keys \<and> rp_after r \<le> mget (rp_absent r) 0 ?K + 1)"
      using assms(1) inK by (simp add: overdue_def reaper_ok_def)
    have v: "(\<exists>v \<in> set (fst (reap_tick r repo (Inr keys))). vd_Key v = ?K) = (?K \<in> set ?S \<and> overdue r (\<lambda>k. k \<in> ?full) ?K)"
    proof -
      have "(\<exists>v \<in> A. h v = j) \<longleftrightarrow> j \<in> h ` A" for A :: "verdict set" and h and j :: string by auto
      from this [of "set (fst (reap_tick r repo (Inr keys)))" vd_Key ?K] show ?thesis unfolding f(1) by simp
    qed
    have out: "?K \<notin> set ?S \<Longrightarrow> mget (rp_absent r) 0 ?K = 0" using assms(2) by (simp add: owned_def)
    have ow: "owned (snd (reap_tick r repo (Inr keys))) repo ?K"
      using others unfolding owned_def Inr f(2) f(4) using out by auto
    show ?thesis
      unfolding Inr v orphan_abs_def f(2) f(4) using ow od inK out
      by (cases "?K \<in> set ?S"; cases "k \<in> set keys") auto
  qed
  then show "(\<exists>v \<in> set (fst (reap_tick r repo o1)). vd_Key v = ?K) =
      fst (orphan_step (rp_after r) k o1 (orphan_abs r repo k))"
    "orphan_abs (snd (reap_tick r repo o1)) repo k = snd (orphan_step (rp_after r) k o1 (orphan_abs r repo k))"
    "owned (snd (reap_tick r repo o1)) repo ?K" by blast+
qed

text \<open>A tick of another repo that does not declare the key leaves it alone.\<close>

lemma reap_tick_other:
  assumes "reaper_ok r" "owned r repo K" "q \<noteq> repo" "case o1 of Inl _ \<Rightarrow> True | Inr keys \<Rightarrow> K \<notin> (\<lambda>k. q @ ''/'' @ k) ` set keys"
  shows "\<not> (\<exists>v \<in> set (fst (reap_tick r q o1)). vd_Key v = K)"
    and "mget (rp_absent (snd (reap_tick r q o1))) 0 K = mget (rp_absent r) 0 K" "owned (snd (reap_tick r q o1)) repo K"
proof -
  have K: "K \<notin> set (mget (rp_seen r) [] q)" using assms(2,3) by (simp add: owned_def)
  have "\<not> (\<exists>v \<in> set (fst (reap_tick r q o1)). vd_Key v = K) \<and> mget (rp_absent (snd (reap_tick r q o1))) 0 K = mget (rp_absent r) 0 K \<and>
    K \<notin> set (mget (rp_seen (snd (reap_tick r q o1))) [] q)"
  proof (cases o1)
    case (Inl e)
    have "mget (\<lambda>k. if k \<in> A then None else rp_absent r k) 0 j = (if j \<in> A then 0 else mget (rp_absent r) 0 j)" for j A
      by (simp add: mget_def)
    then show ?thesis using K by (simp add: Inl reap_tick_def reap_observe_def forget_all_def)
  next
    case (Inr keys)
    note f = reap_tick_fields [OF assms(1), where repo = q and keys = keys]
    have "vd_Key v \<noteq> K" if "v \<in> set (fst (reap_tick r q (Inr keys)))" for v using f(1) K that by blast
    moreover have "K \<notin> (\<lambda>k. q @ ''/'' @ k) ` set keys" using assms(4) Inr by simp
    ultimately show ?thesis unfolding Inr f(2) f(4) using K by auto
  qed
  then show a: "\<not> (\<exists>v \<in> set (fst (reap_tick r q o1)). vd_Key v = K)"
    "mget (rp_absent (snd (reap_tick r q o1))) 0 K = mget (rp_absent r) 0 K"
    and "owned (snd (reap_tick r q o1)) repo K"
  proof -
    assume h: "\<not> (\<exists>v \<in> set (fst (reap_tick r q o1)). vd_Key v = K) \<and> mget (rp_absent (snd (reap_tick r q o1))) 0 K = mget (rp_absent r) 0 K \<and>
      K \<notin> set (mget (rp_seen (snd (reap_tick r q o1))) [] q)"
    have same: "mget (rp_seen (snd (reap_tick r q o1))) [] p = mget (rp_seen r) [] p" if "p \<noteq> q" for p
      using reap_tick_ok(3) [OF assms(1) that] by (simp add: mget_def)
    have "K \<notin> set (mget (rp_seen (snd (reap_tick r q o1))) [] p)" if "p \<noteq> repo" for p
      using h same [of p] assms(2) that by (cases "p = q") (auto simp: owned_def)
    then show "owned (snd (reap_tick r q o1)) repo K" using h same [of repo] assms(2,3) by (simp add: owned_def)
  qed blast+
qed

text \<open>
  The reaper after the ticks of all the repos of a watcher, the newest first; what it saw of one repo; and the
  condition that no other repo ever declared the key of the path \<open>k\<close> of \<open>repo\<close>.
\<close>

fun reaped :: "int \<Rightarrow> (string \<times> string list res) list \<Rightarrow> reaper" where
  "reaped a [] = newReaper a"
| "reaped a ((q, o1) # h) = snd (reap_tick (reaped a h) q o1)"

definition ticks_of :: "string \<Rightarrow> (string \<times> string list res) list \<Rightarrow> string list res list" where
  "ticks_of repo h = map snd (filter (\<lambda>x. fst x = repo) h)"

definition sole_key :: "string \<Rightarrow> string \<Rightarrow> (string \<times> string list res) list \<Rightarrow> bool" where
  "sole_key repo k h \<longleftrightarrow> list_all (\<lambda>(q, o1). q \<noteq> repo \<longrightarrow>
     (case o1 of Inl _ \<Rightarrow> True | Inr keys \<Rightarrow> list_all (\<lambda>j. q @ ''/'' @ j \<noteq> repo @ ''/'' @ k) keys)) h"

fun missing_for :: "int \<Rightarrow> string \<Rightarrow> string list res list \<Rightarrow> int option" where
  "missing_for a k [] = None"
| "missing_for a k (o1 # h) = snd (orphan_step a k o1 (missing_for a k h))"

lemma reaped_ok:
  assumes "sole_key repo k h"
  shows "reaper_ok (reaped a h) \<and> rp_after (reaped a h) = a \<and> owned (reaped a h) repo (repo @ ''/'' @ k) \<and>
    orphan_abs (reaped a h) repo k = missing_for a k (ticks_of repo h)"
  using assms
proof (induction h)
  case Nil
  then show ?case by (simp add: newReaper_def reaper_ok_def owned_def orphan_abs_def ticks_of_def)
next
  case (Cons x h)
  obtain q o1 where x: "x = (q, o1)" by (cases x)
  have IH: "reaper_ok (reaped a h)" "rp_after (reaped a h) = a" "owned (reaped a h) repo (repo @ ''/'' @ k)"
    "orphan_abs (reaped a h) repo k = missing_for a k (ticks_of repo h)"
    using Cons by (simp_all add: sole_key_def)
  show ?case
  proof (cases "q = repo")
    case True
    then show ?thesis using reap_tick_refines [OF IH(1,3), where ?o1.0 = o1] reap_tick_ok [OF IH(1), where repo = repo and ?o1.0 = o1] IH by (simp add: x ticks_of_def)
  next
    case False
    have "case o1 of Inl _ \<Rightarrow> True | Inr keys \<Rightarrow> repo @ ''/'' @ k \<notin> (\<lambda>k. q @ ''/'' @ k) ` set keys"
      using Cons.prems False by (auto simp: x sole_key_def list_all_iff split: sum.splits)
    note o = reap_tick_other [OF IH(1,3) False this]
    have "orphan_abs (snd (reap_tick (reaped a h) q o1)) repo k = orphan_abs (reaped a h) repo k"
      using o(2) reap_tick_ok(3) [OF IH(1), where repo = q and ?o1.0 = o1 and q = repo] False by (simp add: orphan_abs_def mget_def)
    then show ?thesis using o(3) reap_tick_ok [OF IH(1), where repo = q and ?o1.0 = o1] IH False by (simp add: x ticks_of_def)
  qed
qed

definition loaded_without :: "string \<Rightarrow> string list res \<Rightarrow> bool" where
  "loaded_without k o1 = (case o1 of Inl _ \<Rightarrow> False | Inr keys \<Rightarrow> k \<notin> set keys)"

definition loaded_with :: "string \<Rightarrow> string list res \<Rightarrow> bool" where
  "loaded_with k o1 = (case o1 of Inl _ \<Rightarrow> False | Inr keys \<Rightarrow> k \<in> set keys)"

lemma missing_for_Some:
  assumes "missing_for a k h = Some i"
  shows "0 \<le> i \<and> list_all (loaded_without k) (take (nat i) h) \<and> nat i < length h \<and>
    (\<exists>x \<in> set (drop (nat i) h). loaded_with k x) \<and> (1 \<le> a \<longrightarrow> i < a)"
  using assms
proof (induction h arbitrary: i)
  case (Cons o1 h)
  show ?case
  proof (cases o1)
    case (Inl e)
    then obtain j where "missing_for a k h = Some j" "i = 0" using Cons.prems by auto
    then show ?thesis using Cons.IH by (auto dest: in_set_dropD)
  next
    case (Inr keys)
    show ?thesis
    proof (cases "k \<in> set keys")
      case True
      then show ?thesis using Cons.prems Inr by (auto simp: loaded_with_def)
    next
      case False
      then obtain j where j: "missing_for a k h = Some j" "i = j + 1" "\<not> a \<le> j + 1"
        using Cons.prems Inr by (auto split: option.splits if_splits)
      then have "nat i = Suc (nat j)" using Cons.IH by auto
      then show ?thesis using Cons.IH [OF j(1)] j False Inr by (auto simp: loaded_without_def)
    qed
  qed
qed simp

lemma missing_for_run:
  assumes "list_all (loaded_without k) us" "loaded_with k d" "int (length us) < a"
  shows "missing_for a k (us @ d # h) = Some (int (length us))"
  using assms
  by (induction us) (auto simp: loaded_without_def loaded_with_def split: sum.splits)

definition retired :: "int \<Rightarrow> string \<Rightarrow> string \<Rightarrow> (string \<times> string list res) list \<Rightarrow> bool" where
  "retired a repo k h =
     (case h of [] \<Rightarrow> False
      | (q, o1) # h \<Rightarrow> \<exists>v \<in> set (fst (reap_tick (reaped a h) q o1)). vd_Key v = repo @ ''/'' @ k)"

lemma retired_step:
  assumes "sole_key repo k ((q, o1) # h)"
  shows "retired a repo k ((q, o1) # h) = (q = repo \<and> fst (orphan_step a k o1 (missing_for a k (ticks_of repo h))))"
proof -
  have h: "sole_key repo k h" using assms by (simp add: sole_key_def)
  note ok = reaped_ok [OF h, of a]
  show ?thesis
  proof (cases "q = repo")
    case True
    then show ?thesis using reap_tick_refines(1) [where r = "reaped a h" and repo = repo and k = k and ?o1.0 = o1] ok by (simp add: retired_def)
  next
    case False
    have "case o1 of Inl _ \<Rightarrow> True | Inr keys \<Rightarrow> repo @ ''/'' @ k \<notin> (\<lambda>k. q @ ''/'' @ k) ` set keys"
      using assms False by (auto simp: sole_key_def list_all_iff split: sum.splits)
    then show ?thesis using reap_tick_other(1) [where r = "reaped a h" and repo = repo and K = "repo @ ''/'' @ k" and q = q and ?o1.0 = o1] ok False by (simp add: retired_def)
  qed
qed



text \<open>
  The condition is needed. The path \<open>b/c\<close> of the repo \<open>a\<close> and the path \<open>c\<close> of the repo \<open>a/b\<close> share one key and one count:
  with a threshold of two, each is missing from one load only when the second of them is reported.
\<close>

lemma shared_key_counts_twice:
  "retired 2 ''a/b'' ''c'' [(''a/b'', Inr []), (''a'', Inr []), (''a/b'', Inr [''c'']), (''a'', Inr [''b/c''])]"
  by (simp add: retired_def reap_tick_def reap_observe_def reap_key_def newReaper_def forget_all_def Let_def mget_def set_add_def)

end
