(* ===== verification/GitRemote.thy ===== *)
theory GitRemote
  imports Streaks
begin

text \<open>
  \<^verbatim>\<open>internal/git/webhook.go\<close> and the remote URLs of \<^verbatim>\<open>internal/git/pullrequest.go\<close>: naming the same
  repository in different forms, and the HMAC check of the GitHub webhook. HMAC-SHA256 is the
  parameter \<open>mac\<close>, the JSON decoding of the payload the parameter \<open>hint\<close>; a byte is a \<open>char\<close>.
\<close>

section \<open>Remote URLs\<close>

text \<open>The text after the first occurrence of a separator, if there is one (\<open>strings.Index\<close> and a slice).\<close>

fun after_first :: "string \<Rightarrow> string \<Rightarrow> string option" where
  "after_first p [] = (if p = [] then Some [] else None)"
| "after_first p (c # s) = (if strings_HasPrefix (c # s) p then Some (drop (length p) (c # s)) else after_first p s)"

definition cut_after :: "string \<Rightarrow> string \<Rightarrow> string" where
  "cut_after p s = (case after_first p s of None \<Rightarrow> s | Some r \<Rightarrow> r)"

definition strings_TrimPrefix :: "string \<Rightarrow> string \<Rightarrow> string" where
  "strings_TrimPrefix s p = (if strings_HasPrefix s p then drop (length p) s else s)"

definition ownerRepoFromURL :: "string \<Rightarrow> (string \<times> string) res" where
  "ownerRepoFromURL url =
     (let u = strings_TrimSuffix (strings_TrimSpace url) ''.git'';
          u = (if strings_HasPrefix u ''git@'' then cut_after '':'' u
               else if strings_Contains u ''://'' then
                 strings_TrimPrefix (cut_after ''/'' (cut_after ''://'' u)) ''git@''
               else u);
          parts = split_on (CHR ''/'') (trim_by (\<lambda>c. c = CHR ''/'') u);
          n = length parts in
      if n < 2 \<or> parts ! (n - 2) = [] \<or> parts ! (n - 1) = []
      then Inl (Err (''git: cannot parse owner/repo from URL '' @ url))
      else Inr (parts ! (n - 2), parts ! (n - 1)))"

definition repoKey :: "string \<Rightarrow> string option" where
  "repoKey s =
     (case ownerRepoFromURL s of
        Inl _ \<Rightarrow> None
      | Inr (owner, repo) \<Rightarrow> Some (strings_ToLower (owner @ ''/'' @ repo)))"

definition SameRepo :: "string \<Rightarrow> string \<Rightarrow> bool" where
  "SameRepo watchURL hint =
     (case (repoKey watchURL, repoKey hint) of (Some a, Some b) \<Rightarrow> a = b | _ \<Rightarrow> False)"

text \<open>The forms of one repository agree, and the host takes no part in it.\<close>

lemma SameRepo_forms:
  "SameRepo ''https://github.com/Acme/app.git'' ''acme/App''"
  "SameRepo ''git@github.com:acme/app.git'' ''https://github.com/acme/app''"
  "SameRepo ''ssh://git@github.com/acme/app'' ''acme/app''"
  by code_simp+

lemma ownerRepoFromURL_any_host:
  "ownerRepoFromURL ''https://gitlab.example/acme/app'' = ownerRepoFromURL ''https://github.com/acme/app''"
  "ownerRepoFromURL ''https://gitlab.example/acme/app'' = Inr (''acme'', ''app'')"
  by code_simp+

section \<open>The webhook\<close>

definition hex_digit :: "nat \<Rightarrow> char" where
  "hex_digit n = (if n < 10 then char_of (48 + n) else char_of (87 + n))"

definition hex_val :: "char \<Rightarrow> nat option" where
  "hex_val c =
     (let n = of_char c in
      if 48 \<le> n \<and> n \<le> 57 then Some (n - 48)
      else if 97 \<le> n \<and> n \<le> 102 then Some (n - 87)
      else if 65 \<le> n \<and> n \<le> 70 then Some (n - 55)
      else None)"

definition hex_EncodeToString :: "string \<Rightarrow> string" where
  "hex_EncodeToString bs = concat (map (\<lambda>b. [hex_digit (of_char b div 16), hex_digit (of_char b mod 16)]) bs)"

fun hex_DecodeString :: "string \<Rightarrow> string option" where
  "hex_DecodeString [] = Some []"
| "hex_DecodeString [c] = None"
| "hex_DecodeString (a # b # s) =
     (case (hex_val a, hex_val b, hex_DecodeString s) of
        (Some x, Some y, Some r) \<Rightarrow> Some (char_of (16 * x + y) # r)
      | _ \<Rightarrow> None)"

type_synonym hmac = "string \<Rightarrow> string \<Rightarrow> string"

definition VerifySignature :: "hmac \<Rightarrow> string \<Rightarrow> string \<Rightarrow> string \<Rightarrow> bool" where
  "VerifySignature mac secret body sigHeader =
     (if \<not> strings_HasPrefix sigHeader ''sha256='' then False
      else (case hex_DecodeString (strings_TrimPrefix sigHeader ''sha256='') of
          None \<Rightarrow> False
        | Some want \<Rightarrow> mac secret body = want))"

definition Sign :: "hmac \<Rightarrow> string \<Rightarrow> string \<Rightarrow> string" where
  "Sign mac secret body = ''sha256='' @ hex_EncodeToString (mac secret body)"

abbreviation maxWebhookBytes :: nat where "maxWebhookBytes \<equiv> 2 ^ 20"

record webhook_request =
  wh_Method :: string
  wh_Body :: "string res"
  wh_Signature :: string

text \<open>
  The handler answers a status code and, when the signature verifies, ticks with the hint of the
  payload. The body is read up to one byte past the cap.
\<close>

definition WebhookHandler :: "hmac \<Rightarrow> (string \<Rightarrow> string) \<Rightarrow> string \<Rightarrow> webhook_request \<Rightarrow> nat \<times> string option" where
  "WebhookHandler mac hint secret rq =
     (if secret = [] then (404, None)
      else if wh_Method rq \<noteq> ''POST'' then (405, None)
      else (case wh_Body rq of
          Inl _ \<Rightarrow> (400, None)
        | Inr full \<Rightarrow>
            (let body = take (maxWebhookBytes + 1) full in
             if length body > maxWebhookBytes then (413, None)
             else if \<not> VerifySignature mac secret body (wh_Signature rq) then (401, None)
             else (202, Some (hint body)))))"

lemma hex_val_digit: "n < 16 \<Longrightarrow> hex_val (hex_digit n) = Some n"
proof -
  assume "n < 16"
  then have "n \<in> {0..<16}" by simp
  then show ?thesis by (simp add: upt_conv_Cons atLeastLessThan_upt [symmetric] hex_val_def hex_digit_def Let_def)
qed

lemma hex_roundtrip: "hex_DecodeString (hex_EncodeToString bs) = Some bs"
proof (induction bs)
  case (Cons b bs)
  have n: "of_char b < (256 :: nat)" by simp
  then have "of_char b div 16 < (16 :: nat)" by (simp add: less_mult_imp_div_less)
  then have "hex_val (hex_digit (of_char b div 16)) = Some (of_char b div 16)"
    "hex_val (hex_digit (of_char b mod 16)) = Some (of_char b mod 16)"
    by (simp_all add: hex_val_digit)
  moreover have "char_of (16 * (of_char b div 16 :: nat) + of_char b mod 16) = b" by (simp add: mult_div_mod_eq)
  ultimately show ?case using Cons by (simp add: hex_EncodeToString_def)
qed (simp add: hex_EncodeToString_def)

lemma VerifySignature_Sign: "VerifySignature mac secret body (Sign mac secret body)"
  by (simp add: VerifySignature_def Sign_def strings_HasPrefix_def strings_TrimPrefix_def hex_roundtrip)

text \<open>
  Only a signed payload ticks. The webhook triggers a reconcile exactly when a secret is
  configured, the request is a POST of at most 1 MiB, and its header is \<open>sha256=\<close> followed by the
  hex form of the HMAC of that very body.
\<close>

theorem webhook_ticks_only_signed:
  "snd (WebhookHandler mac hint secret rq) = Some h \<longleftrightarrow>
     secret \<noteq> [] \<and> wh_Method rq = ''POST'' \<and>
     (\<exists>body. wh_Body rq = Inr body \<and> length body \<le> maxWebhookBytes \<and> h = hint body \<and>
        (\<exists>hex. wh_Signature rq = ''sha256='' @ hex \<and> hex_DecodeString hex = Some (mac secret body)))"
proof -
  have v: "VerifySignature mac secret body sg = (\<exists>hex. sg = ''sha256='' @ hex \<and> hex_DecodeString hex = Some (mac secret body))" for body sg
    unfolding VerifySignature_def strings_TrimPrefix_def strings_HasPrefix_iff prefix_def by (auto split: option.splits)
  show ?thesis unfolding WebhookHandler_def v by (auto simp: Let_def split: sum.splits)
qed

end
