(* ===== verification/Watch.thy ===== *)
theory Watch
  imports Reconcile ImageAuto Watch_Order GitRemote
begin

text \<open>
  \<^verbatim>\<open>internal/reconcile/watch.go\<close>, \<open>reap.go\<close> (reporting), \<open>metrics.go\<close>: the watcher. A tick takes the
  leader lease, then for each repo pulls, loads, drops duplicate refs, looks for orphans, runs image
  automation, orders the batch, preflights it as a whole and reconciles config by config.

  \<^item> \<open>watch\<close> is the watcher's own state around the \<open>world\<close> of the engine: the streaks of
    theory \<open>Streaks\<close>, which repos are cloned (\<open>src != nil\<close>) and which are busy.
  \<^item> \<open>watch_env\<close> is what the watcher reaches: cloning, pulling, loading the checkout
    (\<open>config.LoadAllFromDir\<close>), image automation, the engine \<open>we_Eng\<close>.
  \<^item> Log lines are left out, but whether a logger is set is not: without one \<open>logOutcomes\<close>
    returns before it records anything. The \<open>Fields\<close> of audit entries are left out.
  \<^item> A tick runs alone. The repo lock serializes ticks of one repo; the watcher's maps have no
    lock, so ticks of two repos at once (the poll and a webhook) are outside the model.
\<close>

section \<open>State\<close>

record repo_spec =
  ws_Name :: string
  ws_URL :: string
  ws_Initiator :: identity

record watch_env =
  we_Eng :: env
  we_Audit :: bool
  we_Leases :: bool
  we_Owner :: string
  we_LeaseTTL :: duration
  we_Now :: "nat \<Rightarrow> time"
  we_Logf :: bool
  we_Preflight :: bool
  we_Image :: "(repo_spec \<Rightarrow> image_env) option"
  we_Clone :: "nat \<Rightarrow> repo_spec \<Rightarrow> err option"
  we_Pull :: "nat \<Rightarrow> repo_spec \<Rightarrow> bool res"
  we_LoadAll :: "nat \<Rightarrow> repo_spec \<Rightarrow> named_config list res"
  we_Dir :: "repo_spec \<Rightarrow> string"
  we_Repos :: "repo_spec list"

record watch =
  wa_world :: world
  wa_awaiting :: "string \<rightharpoonup> int"
  wa_orphans :: reaper
  wa_lastSeen :: "string \<rightharpoonup> config"
  wa_drifting :: drift_streak
  wa_failures :: fail_streak
  wa_cloned :: "string list"
  wa_busy :: "(string \<times> bool) list"

type_synonym 'a wprog = "(watch, 'a) state"

abbreviation stuckAfterCycles :: int where "stuckAfterCycles \<equiv> 10"

text \<open>A fresh watcher over a world.\<close>

definition NewWatch :: "world \<Rightarrow> watch" where
  "NewWatch w = \<lparr>wa_world = w, wa_awaiting = Map.empty, wa_orphans = newReaper stuckAfterCycles, wa_lastSeen = Map.empty,
     wa_drifting = newDriftStreak stuckAfterCycles, wa_failures = newFailStreak stuckAfterCycles, wa_cloned = [], wa_busy = []\<rparr>"

definition lift :: "'a prog \<Rightarrow> 'a wprog" where
  "lift m = do {
     s \<leftarrow> State_Monad.get;
     (case run_state m (wa_world s) of (x, w) \<Rightarrow> do { State_Monad.set (s\<lparr>wa_world := w\<rparr>); State_Monad.return x })
   }"

definition upd :: "(watch \<Rightarrow> watch) \<Rightarrow> unit wprog" where
  "upd f = do { s \<leftarrow> State_Monad.get; State_Monad.set (f s) }"

text \<open>\<open>NewWatcher\<close>: clone every repo; one that cannot be cloned is retried by the ticks.\<close>

fun clone_repos :: "watch_env \<Rightarrow> repo_spec list \<Rightarrow> unit wprog" where
  "clone_repos W [] = State_Monad.return ()"
| "clone_repos W (r # rs) = do {
     ce \<leftarrow> lift (ask (\<lambda>n. we_Clone W n r));
     (if ce = None then upd (\<lambda>s. s\<lparr>wa_cloned := set_add (ws_Name r) (wa_cloned s)\<rparr>) else State_Monad.return ());
     clone_repos W rs
   }"

definition NewWatcher :: "watch_env \<Rightarrow> world \<Rightarrow> watch" where
  "NewWatcher W w = snd (run_state (clone_repos W (we_Repos W)) (NewWatch w))"

record repo_outcome =
  ro_Repo :: string
  ro_Changed :: bool
  ro_Outcome :: reconcile_outcome
  ro_Err :: "err option"

definition repo_err :: "string \<Rightarrow> bool \<Rightarrow> err \<Rightarrow> repo_outcome" where
  "repo_err repo changed e = \<lparr>ro_Repo = repo, ro_Changed = changed, ro_Outcome = zero_oc, ro_Err = Some e\<rparr>"

section \<open>Orphans\<close>

definition watch_entry :: "audit_action \<Rightarrow> string \<Rightarrow> string \<Rightarrow> string \<Rightarrow> audit_entry" where
  "watch_entry act ref phase detail = \<lparr>ae_Action = act, ae_RolloutID = [], ae_TargetRef = ref, ae_Phase = phase,
     ae_Actor = zero_identity, ae_Detail = detail\<rparr>"

definition reapOnDelete :: "config option \<Rightarrow> bool" where
  "reapOnDelete c = (case c of None \<Rightarrow> False | Some cfg \<Rightarrow> spec_bool (t_Spec (c_Target cfg)) ''reapOnDelete'')"

text \<open>\<open>labelValueFor\<close>: the marker value an orphan report names.\<close>

definition label_char :: "char \<Rightarrow> char" where
  "label_char c = (if (CHR ''a'' \<le> c \<and> c \<le> CHR ''z'') \<or> (CHR ''0'' \<le> c \<and> c \<le> CHR ''9'') \<or> c = CHR ''.'' \<or> c = CHR ''_'' \<or> c = CHR ''-''
     then c else CHR ''-'')"

definition labelValueFor :: "config option \<Rightarrow> string" where
  "labelValueFor c =
     (case c of
        None \<Rightarrow> []
      | Some cfg \<Rightarrow>
          if c_Ref cfg = [] then []
          else
            (let out = trim_by (\<lambda>ch. ch = CHR ''-'' \<or> ch = CHR ''.'' \<or> ch = CHR ''_'') (map label_char (strings_ToLower (c_Ref cfg)));
                 out = (if length out > 63 then take 63 out else out) in
             if out = [] then ''rollops'' else out))"

definition logOrphanReap :: "watch_env \<Rightarrow> string \<Rightarrow> int \<Rightarrow> err option \<Rightarrow> unit prog" where
  "logOrphanReap W ref removed e =
     rec_record (we_Audit W) (watch_entry ActionOrphan ref ''reap''
       (if e \<noteq> None then ''reap of a deleted target FAILED; resources may still be running''
        else if removed = 0 then ''reap matched no resources; the target's kinds may be outside reapTypes''
        else ''reaped resources of a target whose RolloutConfig was deleted''))"

definition reapOrphan :: "watch_env \<Rightarrow> config \<Rightarrow> string \<Rightarrow> unit prog" where
  "reapOrphan W cfg ref =
     (let E = we_Eng W in do {
        b \<leftarrow> build E (c_Target cfg);
        (case b of
           Inl e \<Rightarrow> logOrphanReap W ref 0 (Some (Wrap ''build target'' e))
         | Inr t \<Rightarrow>
             if \<not> en_Reaper E t then logOrphanReap W ref 0 (Some (Err (''target kind '' @ t_Kind t @ '' cannot reap'')))
             else do {
               x \<leftarrow> tgt_Reap E t;
               (case x of (removed, e) \<Rightarrow> logOrphanReap W ref removed e)
             })
      })"

definition reportOrphan :: "watch_env \<Rightarrow> verdict \<Rightarrow> unit wprog" where
  "reportOrphan W v = do {
     s \<leftarrow> State_Monad.get;
     let cfg = wa_lastSeen s (vd_Key v);
     let ref = (case cfg of None \<Rightarrow> ''unknown'' | Some c \<Rightarrow> c_Ref c);
     lift (rec_record (we_Audit W) (watch_entry ActionOrphan ref [] ''RolloutConfig no longer declared; resources may still be running''));
     (case cfg of
        Some c \<Rightarrow> if reapOnDelete cfg then lift (reapOrphan W c ref) else State_Monad.return ()
      | None \<Rightarrow> State_Monad.return ());
     upd (\<lambda>s. s\<lparr>wa_orphans := forget (wa_orphans s) (vd_Repo v) (vd_Key v), wa_lastSeen := (wa_lastSeen s)(vd_Key v := None)\<rparr>)
   }"

fun report_orphans :: "watch_env \<Rightarrow> verdict list \<Rightarrow> unit wprog" where
  "report_orphans W [] = State_Monad.return ()"
| "report_orphans W (v # vs) = do { reportOrphan W v; report_orphans W vs }"

text \<open>Orphan detection of one tick: remember what is declared, then observe and report.\<close>

definition orphan_phase :: "watch_env \<Rightarrow> string \<Rightarrow> named_config list \<Rightarrow> unit wprog" where
  "orphan_phase W name ncs = do {
     upd (\<lambda>s. s\<lparr>wa_lastSeen := foldl (\<lambda>m nc. m(name @ ''/'' @ nc_Path nc \<mapsto> nc_Config nc)) (wa_lastSeen s) ncs\<rparr>);
     s \<leftarrow> State_Monad.get;
     (case reap_observe (wa_orphans s) name (map nc_Path ncs) None of (vs, r) \<Rightarrow> do {
        State_Monad.set (s\<lparr>wa_orphans := r\<rparr>);
        report_orphans W vs
      })
   }"

section \<open>Image automation of a batch\<close>

definition noteAwaiting :: "string \<Rightarrow> string \<Rightarrow> watch \<Rightarrow> watch" where
  "noteAwaiting repo path s = s\<lparr>wa_awaiting := (wa_awaiting s)(repo @ ''/'' @ path \<mapsto> mget (wa_awaiting s) 0 (repo @ ''/'' @ path) + 1)\<rparr>"

definition clearAwaiting :: "string \<Rightarrow> string \<Rightarrow> watch \<Rightarrow> watch" where
  "clearAwaiting repo path s = s\<lparr>wa_awaiting := (wa_awaiting s)(repo @ ''/'' @ path := None)\<rparr>"

definition image_one :: "watch_env \<Rightarrow> repo_spec \<Rightarrow> named_config \<Rightarrow> config wprog" where
  "image_one W rs nc =
     (case we_Image W of
        None \<Rightarrow> State_Monad.return (nc_Config nc)
      | Some ia \<Rightarrow> do {
          x \<leftarrow> lift (Process (ia rs) nc);
          (case x of (bumped, ref, st, ierr) \<Rightarrow>
             if ierr \<noteq> None then State_Monad.return (nc_Config nc)
             else if Deployed (is_Outcome st) then do {
               upd (clearAwaiting (ws_Name rs) (nc_Path nc));
               State_Monad.return bumped
             }
             else if AwaitingGit (is_Outcome st) then do {
               upd (noteAwaiting (ws_Name rs) (nc_Path nc));
               State_Monad.return (nc_Config nc)
             }
             else do {
               upd (clearAwaiting (ws_Name rs) (nc_Path nc));
               State_Monad.return (nc_Config nc)
             })
        })"

fun image_phase :: "watch_env \<Rightarrow> repo_spec \<Rightarrow> named_config list \<Rightarrow> cfg_pair list wprog" where
  "image_phase W rs [] = State_Monad.return []"
| "image_phase W rs (nc # ncs) = do {
     c \<leftarrow> image_one W rs nc;
     ps \<leftarrow> image_phase W rs ncs;
     State_Monad.return (\<lparr>cp_nc = nc, cp_cfg = c\<rparr> # ps)
   }"

section \<open>One tick of one repo\<close>

text \<open>\<open>filepath.Join(checkout, filepath.Dir(path))\<close> on clean paths.\<close>

definition configRoot :: "string \<Rightarrow> string \<Rightarrow> string" where
  "configRoot checkout path =
     (let i = last_index path (CHR ''/'') in if i < 0 then checkout else checkout @ ''/'' @ take (nat i) path)"

definition rootedConfigs :: "string \<Rightarrow> cfg_pair list \<Rightarrow> rooted_config list" where
  "rootedConfigs checkout ps = map (\<lambda>p. \<lparr>rc_Config = cp_cfg p, rc_Root = configRoot checkout (nc_Path (cp_nc p))\<rparr>) ps"

definition inFlight :: "env \<Rightarrow> string \<Rightarrow> bool prog" where
  "inFlight E ref = do {
     x \<leftarrow> InFlight E ref;
     State_Monad.return (case x of Inl _ \<Rightarrow> True | Inr None \<Rightarrow> False | Inr (Some _) \<Rightarrow> True)
   }"

definition held_at :: "watch_env \<Rightarrow> string \<Rightarrow> string option wprog" where
  "held_at W key = do {
     t \<leftarrow> lift (ask (we_Now W));
     s \<leftarrow> State_Monad.get;
     State_Monad.return (held (wa_failures s) t key)
   }"

definition report_drift :: "watch_env \<Rightarrow> config \<Rightarrow> unit prog" where
  "report_drift W c =
     rec_record (we_Audit W) (watch_entry ActionDrift (c_Ref c) ''persistent'' ''drift alerted but uncorrected across consecutive reconciles'')"

definition note_drift :: "watch_env \<Rightarrow> string \<Rightarrow> config \<Rightarrow> reconcile_outcome \<Rightarrow> unit wprog" where
  "note_drift W key c oc = do {
     s \<leftarrow> State_Monad.get;
     (case drift_observe (wa_drifting s) key (oc_Drift oc \<and> \<not> oc_Reconciled oc) of (n, d) \<Rightarrow> do {
        State_Monad.set (s\<lparr>wa_failures := fail_clear (wa_failures s) key, wa_drifting := d\<rparr>);
        (if n > 0 then lift (report_drift W c) else State_Monad.return ())
      })
   }"

text \<open>The reconcile itself, under the config's own root; only an error-free one says anything about drift.\<close>

definition reconcile_now :: "watch_env \<Rightarrow> repo_spec \<Rightarrow> bool \<Rightarrow> string \<Rightarrow> cfg_pair \<Rightarrow> repo_outcome wprog" where
  "reconcile_now W rs changed key p = do {
     x \<leftarrow> lift (Reconcile ((we_Eng W)\<lparr>en_Root := configRoot (we_Dir W rs) (nc_Path (cp_nc p))\<rparr>) (we_Audit W) (cp_cfg p) (ws_Initiator rs));
     (case x of (oc, e) \<Rightarrow> do {
        (if e = None then note_drift W key (cp_cfg p) oc else State_Monad.return ());
        State_Monad.return \<lparr>ro_Repo = key, ro_Changed = changed, ro_Outcome = oc, ro_Err = e\<rparr>
      })
   }"

definition pair_key :: "repo_spec \<Rightarrow> cfg_pair \<Rightarrow> string" where
  "pair_key rs p = ws_Name rs @ ''/'' @ nc_Path (cp_nc p)"

text \<open>The body of the reconcile loop, for one config of the batch.\<close>

definition reconcile_pair :: "watch_env \<Rightarrow> repo_spec \<Rightarrow> bool \<Rightarrow> cfg_pair \<Rightarrow> repo_outcome wprog" where
  "reconcile_pair W rs changed p =
     (let E = we_Eng W; key = pair_key rs p; c = cp_cfg p in do {
        wt \<leftarrow> lift (waitingOn E c);
        (case wt of
           Inl e \<Rightarrow> State_Monad.return (repo_err key changed e)
         | Inr dep \<Rightarrow>
             if dep \<noteq> [] then State_Monad.return \<lparr>ro_Repo = key, ro_Changed = changed, ro_Outcome = zero_oc, ro_Err = None\<rparr>
             else do {
               h \<leftarrow> held_at W key;
               (case h of
                  None \<Rightarrow> reconcile_now W rs changed key p
                | Some msg \<Rightarrow> do {
                    busy \<leftarrow> lift (inFlight E (c_Ref c));
                    (if \<not> busy then State_Monad.return (repo_err key changed (Err msg)) else reconcile_now W rs changed key p)
                  })
             })
      })"

fun reconcile_loop :: "watch_env \<Rightarrow> repo_spec \<Rightarrow> bool \<Rightarrow> cfg_pair list \<Rightarrow> repo_outcome list wprog" where
  "reconcile_loop W rs changed [] = State_Monad.return []"
| "reconcile_loop W rs changed (p # ps) = do {
     x \<leftarrow> reconcile_pair W rs changed p;
     xs \<leftarrow> reconcile_loop W rs changed ps;
     State_Monad.return (x # xs)
   }"

definition preflight_msg :: "string \<Rightarrow> err list \<Rightarrow> nat \<Rightarrow> string" where
  "preflight_msg repo es n =
     ''preflight refused '' @ repo @ '': '' @ utoa (length es) @ '' of '' @ utoa n @
     '' target(s) would not apply, so NONE were applied -- '' @ strings_Join (map err_str es) ''; ''"

text \<open>The preflight of the whole batch: the outcome that ends the tick, if any.\<close>

definition preflight_phase :: "watch_env \<Rightarrow> repo_spec \<Rightarrow> bool \<Rightarrow> cfg_pair list \<Rightarrow> repo_outcome option wprog" where
  "preflight_phase W rs changed ordered =
     (if \<not> we_Preflight W then State_Monad.return None
      else do {
        h \<leftarrow> held_at W (ws_Name rs);
        (case h of
           Some msg \<Rightarrow> State_Monad.return (Some (repo_err (ws_Name rs) changed (Err msg)))
         | None \<Rightarrow> do {
             es \<leftarrow> lift (Preflight (we_Eng W) (rootedConfigs (we_Dir W rs) ordered));
             (if es \<noteq> [] then State_Monad.return (Some (repo_err (ws_Name rs) changed (Err (preflight_msg (ws_Name rs) es (length ordered)))))
              else do {
                upd (\<lambda>s. s\<lparr>wa_failures := fail_clear (wa_failures s) (ws_Name rs)\<rparr>);
                State_Monad.return None
              })
           })
      })"

text \<open>From the loaded configs on.\<close>

definition tick_loaded :: "watch_env \<Rightarrow> repo_spec \<Rightarrow> bool \<Rightarrow> named_config list \<Rightarrow> repo_outcome list wprog" where
  "tick_loaded W rs changed loaded =
     (let ncs = first_per (\<lambda>nc. c_Ref (nc_Config nc)) [] loaded in do {
        orphan_phase W (ws_Name rs) ncs;
        ps \<leftarrow> image_phase W rs ncs;
        let ordered = orderByDependsOn ps;
        (if changed then upd (\<lambda>s. s\<lparr>wa_failures := clearRepo (wa_failures s) (ws_Name rs)\<rparr>) else State_Monad.return ());
        refused \<leftarrow> preflight_phase W rs changed ordered;
        (case refused of
           Some oc \<Rightarrow> State_Monad.return [oc]
         | None \<Rightarrow> do {
             _ \<leftarrow> lift (WarnDanglingMiddlewares (we_Eng W) (rootedConfigs (we_Dir W rs) ordered));
             reconcile_loop W rs changed ordered
           })
      })"

definition tick_cloned :: "watch_env \<Rightarrow> repo_spec \<Rightarrow> bool \<Rightarrow> repo_outcome list wprog" where
  "tick_cloned W rs cloned = do {
     pl \<leftarrow> lift (ask (\<lambda>n. we_Pull W n rs));
     (case pl of
        Inl e \<Rightarrow> State_Monad.return [repo_err (ws_Name rs) False (Wrap ''watch: pull'' e)]
      | Inr moved \<Rightarrow> do {
          ld \<leftarrow> lift (ask (\<lambda>n. we_LoadAll W n rs));
          (case ld of
             Inl e \<Rightarrow> do {
               upd (\<lambda>s. s\<lparr>wa_orphans := snd (reap_observe (wa_orphans s) (ws_Name rs) [] (Some e))\<rparr>);
               State_Monad.return [repo_err (ws_Name rs) (moved \<or> cloned) (Wrap ''watch: load config'' e)]
             }
           | Inr loaded \<Rightarrow> tick_loaded W rs (moved \<or> cloned) loaded)
        })
   }"

definition tick_body :: "watch_env \<Rightarrow> repo_spec \<Rightarrow> repo_outcome list wprog" where
  "tick_body W rs = do {
     s \<leftarrow> State_Monad.get;
     (if ws_Name rs \<in> set (wa_cloned s) then tick_cloned W rs False
      else do {
        ce \<leftarrow> lift (ask (\<lambda>n. we_Clone W n rs));
        (case ce of
           Some e \<Rightarrow> State_Monad.return [repo_err (ws_Name rs) False (Wrap ''watch: clone'' e)]
         | None \<Rightarrow> do {
             upd (\<lambda>s. s\<lparr>wa_cloned := set_add (ws_Name rs) (wa_cloned s)\<rparr>);
             tick_cloned W rs True
           })
      })
   }"

definition tickOne :: "watch_env \<Rightarrow> repo_spec \<Rightarrow> repo_outcome list wprog" where
  "tickOne W rs = do {
     s \<leftarrow> State_Monad.get;
     (case repo_tryAcquire (ws_Name rs) (wa_busy s) of (ok, busy) \<Rightarrow>
        if \<not> ok then State_Monad.return [repo_err (ws_Name rs) False (Err (''watch: repo '' @ ws_Name rs @ '' busy''))]
        else do {
          State_Monad.set (s\<lparr>wa_busy := busy\<rparr>);
          out \<leftarrow> tick_body W rs;
          upd (\<lambda>s. s\<lparr>wa_busy := repo_release (ws_Name rs) (wa_busy s)\<rparr>);
          State_Monad.return out
        })
   }"

section \<open>A tick\<close>

definition matching :: "watch_env \<Rightarrow> string \<Rightarrow> repo_spec list" where
  "matching W hint =
     (if strings_TrimSpace hint = [] then we_Repos W
      else (let m = filter (\<lambda>r. SameRepo (ws_URL r) hint) (we_Repos W) in if m = [] then we_Repos W else m))"

fun tick_repos :: "watch_env \<Rightarrow> repo_spec list \<Rightarrow> repo_outcome list wprog" where
  "tick_repos W [] = State_Monad.return []"
| "tick_repos W (r # rs) = do { o1 \<leftarrow> tickOne W r; o2 \<leftarrow> tick_repos W rs; State_Monad.return (o1 @ o2) }"

definition acquire_leader :: "watch_env \<Rightarrow> bool res prog" where
  "acquire_leader W = do {
     t \<leftarrow> ask (we_Now W);
     x \<leftarrow> st_call (we_Eng W) (do {
       w \<leftarrow> State_Monad.get;
       (case db_AcquireLease ''reconcile:leader'' (we_Owner W) (we_LeaseTTL W) t (w_db w) of (b, d) \<Rightarrow> do {
          State_Monad.set (w\<lparr>w_db := d\<rparr>);
          State_Monad.return b
        })
     });
     State_Monad.return (join_res x)
   }"

definition TickHint :: "watch_env \<Rightarrow> string \<Rightarrow> repo_outcome list wprog" where
  "TickHint W hint = do {
     lead \<leftarrow> (if we_Leases W then lift (acquire_leader W) else State_Monad.return (Inr True));
     (case lead of
        Inl e \<Rightarrow> State_Monad.return [repo_err [] False (Wrap ''watch: acquire leader lease'' e)]
      | Inr ok \<Rightarrow> if \<not> ok then State_Monad.return [repo_err [] False ErrNotLeader] else tick_repos W (matching W hint))
   }"

definition Tick_watch :: "watch_env \<Rightarrow> repo_outcome list wprog" where
  "Tick_watch W = TickHint W []"

fun is_not_leader :: "err \<Rightarrow> bool" where
  "is_not_leader ErrNotLeader = True"
| "is_not_leader (Wrap _ e) = is_not_leader e"
| "is_not_leader _ = False"

definition reportPermanentFailure :: "watch_env \<Rightarrow> string \<Rightarrow> string \<Rightarrow> unit prog" where
  "reportPermanentFailure W key detail = rec_record (we_Audit W) (watch_entry ActionApply key ''permanent'' detail)"

definition log_outcome :: "watch_env \<Rightarrow> repo_outcome \<Rightarrow> unit wprog" where
  "log_outcome W oc =
     (let clear = upd (\<lambda>s. s\<lparr>wa_failures := fail_clear (wa_failures s) (ro_Repo oc)\<rparr>);
          settled = (if (oc_Reconciled (ro_Outcome oc) \<or> oc_Drift (ro_Outcome oc)) \<and> oc_Rollout (ro_Outcome oc) \<noteq> None
                     then clear else State_Monad.return ()) in
      case ro_Err oc of
        Some e \<Rightarrow>
          if is_not_leader e then settled
          else do {
            t \<leftarrow> lift (ask (we_Now W));
            s \<leftarrow> State_Monad.get;
            (case fail_note (wa_failures s) t (ro_Repo oc) (err_str e) of (v, f) \<Rightarrow> do {
               State_Monad.set (s\<lparr>wa_failures := f\<rparr>);
               (if v = FailEscalate \<and> permanentFailure (err_str e) then lift (reportPermanentFailure W (ro_Repo oc) (err_str e))
                else State_Monad.return ())
             })
          }
      | None \<Rightarrow> settled)"

fun log_all :: "watch_env \<Rightarrow> repo_outcome list \<Rightarrow> unit wprog" where
  "log_all W [] = State_Monad.return ()"
| "log_all W (oc # ocs) = do { log_outcome W oc; log_all W ocs }"

definition logOutcomes :: "watch_env \<Rightarrow> repo_outcome list \<Rightarrow> unit wprog" where
  "logOutcomes W ocs = (if \<not> we_Logf W then State_Monad.return () else log_all W ocs)"

text \<open>\<open>tickAndRecord\<close> up to the metrics, which only count: see the next section.\<close>

definition tickAndRecord :: "watch_env \<Rightarrow> repo_outcome list wprog" where
  "tickAndRecord W = do { ocs \<leftarrow> Tick_watch W; logOutcomes W ocs; State_Monad.return ocs }"

section \<open>Metrics\<close>

datatype tick_metric = CountReconcile string | IncDrift | IncOutcome string

definition tick_metrics :: "repo_outcome \<Rightarrow> tick_metric list" where
  "tick_metrics oc =
     (let x = ro_Outcome oc;
          rest = (if oc_Drift x then [IncDrift] else []) @
                 (case (ro_Err oc, oc_Rollout x) of
                    (None, Some r) \<Rightarrow> if Settled (r_Phase r) then [IncOutcome (phase_str (r_Phase r))] else []
                  | _ \<Rightarrow> []) in
      case ro_Err oc of
        Some e \<Rightarrow> if is_not_leader e then [] else CountReconcile ''error'' # rest
      | None \<Rightarrow> CountReconcile (if oc_Reconciled x then ''reconciled'' else if oc_Drift x then ''drift'' else ''insync'') # rest)"

definition recordTick :: "repo_outcome list \<Rightarrow> tick_metric list" where
  "recordTick ocs = concat (map tick_metrics ocs)"

text \<open>The latest rollout of each target, judged by \<open>UpdatedAt\<close> (the first of equals), and the longest wait.\<close>

fun latest_by_update :: "(string \<times> rollout) list \<Rightarrow> rollout list \<Rightarrow> (string \<times> rollout) list" where
  "latest_by_update m [] = m"
| "latest_by_update m (r # rs) =
     latest_by_update
       (case map_of m (r_TargetRef r) of
          None \<Rightarrow> AList.update (r_TargetRef r) r m
        | Some cur \<Rightarrow> if r_UpdatedAt r > r_UpdatedAt cur then AList.update (r_TargetRef r) r m else m) rs"

definition oldestInFlight :: "time \<Rightarrow> rollout list \<Rightarrow> duration" where
  "oldestInFlight t rs =
     foldl (\<lambda>oldest (k, r).
       if r_Phase r \<noteq> PhaseDeploying \<and> r_Phase r \<noteq> PhaseVerifying then oldest
       else if t - r_UpdatedAt r > oldest then t - r_UpdatedAt r else oldest) 0 (latest_by_update [] rs)"

end
