(* ===== verification/Watch_Safety.thy ===== *)
theory Watch_Safety
  imports Watch Engine_Safety
begin

text \<open>
  What a tick of the watcher keeps and when it does nothing. A relation on the world lifts to the
  watcher (\<open>inw\<close>), so the frames of the engine carry over to the programs of theory \<open>Watch\<close>.
\<close>

section \<open>Lifted programs\<close>

definition inw :: "(world \<Rightarrow> world \<Rightarrow> bool) \<Rightarrow> watch \<Rightarrow> watch \<Rightarrow> bool" where
  "inw R s s' \<longleftrightarrow> R (wa_world s) (wa_world s')"

text \<open>The same repos are being ticked.\<close>

definition busy_same :: "watch \<Rightarrow> watch \<Rightarrow> bool" where
  "busy_same s s' \<longleftrightarrow> repo_held (wa_busy s') = repo_held (wa_busy s)"

interpretation wx: frame "inw (ext K)" for K
  by unfold_locales (auto simp: inw_def intro: ext.frame_refl ext.frame_trans)

interpretation wd: frame "inw db_same"
  by unfold_locales (auto simp: inw_def intro: dbs.frame_refl dbs.frame_trans)

interpretation wo: frame "inw op_frame"
  by unfold_locales (auto simp: inw_def intro: opf.frame_refl opf.frame_trans)

interpretation wb: frame busy_same
  by unfold_locales (auto simp: busy_same_def)

lemmas watch_frames [keeps_rules] =
  wx.keeps_return wx.keeps_get wx.keeps_bind wd.keeps_return wd.keeps_get wd.keeps_bind
  wo.keeps_return wo.keeps_get wo.keeps_bind wb.keeps_return wb.keeps_get wb.keeps_bind

lemmas watch_modify = wx.keeps_modify wd.keeps_modify wo.keeps_modify wb.keeps_modify

lemma run_lift: "run_state (lift m) s = (case run_state m (wa_world s) of (x, w) \<Rightarrow> (x, s\<lparr>wa_world := w\<rparr>))"
  by (simp add: lift_def run_state_simps split: prod.split)

lemma run_upd: "run_state (upd f) s = ((), f s)"
  by (simp add: upd_def run_state_simps)

lemma wp_lift [wp_simps]: "wp (lift m) Q = (\<lambda>s. wp m (\<lambda>x w. Q x (s\<lparr>wa_world := w\<rparr>)) (wa_world s))"
  by (rule HOL.ext) (simp add: wp_def run_lift split: prod.split)

lemma wp_upd [wp_simps]: "wp (upd f) Q = (\<lambda>s. Q () (f s))"
  by (rule HOL.ext) (simp add: wp_def run_upd)

lemma keeps_lift [keeps_rules]: "keeps R m \<Longrightarrow> keeps (inw R) (lift m)" "keeps busy_same (lift m)"
  by (auto simp: keeps_def run_lift inw_def busy_same_def split: prod.split) (metis snd_conv)

lemma keeps_upd_world [keeps_rules]:
  "(\<And>s. wa_world (f s) = wa_world s) \<Longrightarrow> keeps (inw (ext K)) (upd f)"
  "(\<And>s. wa_world (f s) = wa_world s) \<Longrightarrow> keeps (inw db_same) (upd f)"
  "(\<And>s. wa_world (f s) = wa_world s) \<Longrightarrow> keeps (inw op_frame) (upd f)"
  "(\<And>s. wa_busy (f s) = wa_busy s) \<Longrightarrow> keeps busy_same (upd f)"
  by (auto simp: keeps_def run_upd inw_def busy_same_def intro: ext.frame_refl dbs.frame_refl opf.frame_refl)

lemma inw_refl [simp]:
  "wa_world s' = wa_world s \<Longrightarrow> inw (ext K) s s'" "wa_world s' = wa_world s \<Longrightarrow> inw db_same s s'"
  "wa_world s' = wa_world s \<Longrightarrow> inw op_frame s s'" "wa_busy s' = wa_busy s \<Longrightarrow> busy_same s s'"
  by (simp_all add: inw_def ext.frame_refl dbs.frame_refl opf.frame_refl busy_same_def)

section \<open>Frames of the phases of a tick\<close>

abbreviation quiet_kinds :: "ekind set" where "quiet_kinds \<equiv> {KReap, KAudit, KGit}"

lemma keeps_reapOrphan [keeps_rules]:
  "KReap \<in> K \<Longrightarrow> KAudit \<in> K \<Longrightarrow> keeps (ext K) (reapOrphan W c ref)" "keeps db_same (reapOrphan W c ref)"
  unfolding reapOrphan_def logOrphanReap_def Let_def by (intro keeps_rules; simp)+

lemma keeps_orphan_phase [keeps_rules]:
  "KReap \<in> K \<Longrightarrow> KAudit \<in> K \<Longrightarrow> keeps (inw (ext K)) (orphan_phase W n ncs)"
  "keeps (inw db_same) (orphan_phase W n ncs)" "keeps busy_same (orphan_phase W n ncs)"
proof -
  have one: "KReap \<in> K \<Longrightarrow> KAudit \<in> K \<Longrightarrow> keeps (inw (ext K)) (reportOrphan W v)"
    "keeps (inw db_same) (reportOrphan W v)" "keeps busy_same (reportOrphan W v)" for v
    unfolding reportOrphan_def Let_def by (intro keeps_rules; simp)+
  have all: "KReap \<in> K \<Longrightarrow> KAudit \<in> K \<Longrightarrow> keeps (inw (ext K)) (report_orphans W vs)"
    "keeps (inw db_same) (report_orphans W vs)" "keeps busy_same (report_orphans W vs)" for vs
    by (induction vs) (unfold report_orphans.simps, (intro keeps_rules one; simp)+)
  show "KReap \<in> K \<Longrightarrow> KAudit \<in> K \<Longrightarrow> keeps (inw (ext K)) (orphan_phase W n ncs)"
    "keeps (inw db_same) (orphan_phase W n ncs)" "keeps busy_same (orphan_phase W n ncs)"
    unfolding orphan_phase_def by (intro watch_modify all keeps_rules; simp)+
qed

lemma keeps_image_phase [keeps_rules]:
  "KGit \<in> K \<Longrightarrow> keeps (inw (ext K)) (image_phase W rs ncs)"
  "keeps (inw db_same) (image_phase W rs ncs)" "keeps busy_same (image_phase W rs ncs)"
proof -
  have one: "KGit \<in> K \<Longrightarrow> keeps (inw (ext K)) (image_one W rs nc)"
    "keeps (inw db_same) (image_one W rs nc)" "keeps busy_same (image_one W rs nc)" for nc
    unfolding image_one_def by (intro keeps_rules; simp add: noteAwaiting_def clearAwaiting_def)+
  show "KGit \<in> K \<Longrightarrow> keeps (inw (ext K)) (image_phase W rs ncs)"
    "keeps (inw db_same) (image_phase W rs ncs)" "keeps busy_same (image_phase W rs ncs)"
    by (induction ncs) (unfold image_phase.simps, (intro keeps_rules one; simp)+)
qed

lemma keeps_held_at [keeps_rules]:
  "keeps (inw (ext K)) (held_at W key)" "keeps (inw db_same) (held_at W key)" "keeps busy_same (held_at W key)"
  unfolding held_at_def by (intro keeps_rules)+

lemma keeps_preflight_phase [keeps_rules]:
  "KPreflight \<in> K \<Longrightarrow> keeps (inw (ext K)) (preflight_phase W rs ch ps)"
  "keeps (inw db_same) (preflight_phase W rs ch ps)" "keeps busy_same (preflight_phase W rs ch ps)"
  unfolding preflight_phase_def by (intro keeps_rules; simp)+

lemma inw_op: "keeps (inw (ext UNIV)) m \<Longrightarrow> keeps (inw db_same) m \<Longrightarrow> keeps (inw op_frame) m"
  by (auto simp: keeps_def inw_def op_frame_def ext_def grows_def db_same_def)

lemma keeps_lift_op [keeps_rules]: "keeps (ext UNIV) m \<Longrightarrow> keeps db_wf m \<Longrightarrow> keeps (inw op_frame) (lift m)"
  by (intro keeps_lift op_frameI)

lemma keeps_inFlight [keeps_rules]: "keeps (ext K) (inFlight E ref)" "keeps db_same (inFlight E ref)"
  unfolding inFlight_def by (intro keeps_rules)+

lemma keeps_reconcile_now:
  assumes "statekit_api (en_Step (we_Eng W))"
  shows "keeps (inw op_frame) (reconcile_now W rs ch key p)" "keeps busy_same (reconcile_now W rs ch key p)"
proof -
  have d: "keeps (inw op_frame) (note_drift W key c oc)" "keeps busy_same (note_drift W key c oc)" for c oc
    unfolding note_drift_def report_drift_def by (intro watch_modify keeps_rules; simp)+
  show "keeps (inw op_frame) (reconcile_now W rs ch key p)" "keeps busy_same (reconcile_now W rs ch key p)"
    unfolding reconcile_now_def by (intro keeps_rules keeps_Reconcile d; simp add: assms)+
qed

lemma keeps_reconcile_loop:
  assumes "statekit_api (en_Step (we_Eng W))"
  shows "keeps (inw op_frame) (reconcile_loop W rs ch ps)" "keeps busy_same (reconcile_loop W rs ch ps)"
proof -
  have h: "keeps (inw op_frame) (held_at W key)" for key
    by (intro inw_op keeps_held_at)
  have one: "keeps (inw op_frame) (reconcile_pair W rs ch p)" "keeps busy_same (reconcile_pair W rs ch p)" for p
    unfolding reconcile_pair_def Let_def
    by (intro keeps_rules h db_same_wf [OF keeps_waitingOn(2)] db_same_wf [OF keeps_inFlight(2)] keeps_reconcile_now assms)+
  show "keeps (inw op_frame) (reconcile_loop W rs ch ps)" "keeps busy_same (reconcile_loop W rs ch ps)"
    by (induction ps) (unfold reconcile_loop.simps, (intro keeps_rules one; simp)+)
qed

lemma keeps_tick_body:
  assumes "statekit_api (en_Step (we_Eng W))"
  shows "keeps (inw op_frame) (tick_body W rs)" "keeps busy_same (tick_body W rs)"
proof -
  note quiet = inw_op [OF keeps_orphan_phase(1,2)] inw_op [OF keeps_image_phase(1,2)] inw_op [OF keeps_preflight_phase(1,2)]
  have ld: "keeps (inw op_frame) (tick_loaded W rs ch ncs)" "keeps busy_same (tick_loaded W rs ch ncs)" for ch ncs
    unfolding tick_loaded_def Let_def
    by (intro keeps_rules quiet keeps_reconcile_loop assms db_same_wf [OF keeps_WarnDangling(2)]; simp)+
  have cl: "keeps (inw op_frame) (tick_cloned W rs cl)" "keeps busy_same (tick_cloned W rs cl)" for cl
    unfolding tick_cloned_def by (intro keeps_rules ld; simp)+
  show "keeps (inw op_frame) (tick_body W rs)" "keeps busy_same (tick_body W rs)"
    unfolding tick_body_def by (intro keeps_rules cl; simp)+
qed

lemma keeps_tickOne:
  assumes "statekit_api (en_Step (we_Eng W))"
  shows "keeps (inw op_frame) (tickOne W rs)" "keeps busy_same (tickOne W rs)"
proof -
  have "inw op_frame s (snd (run_state (tickOne W rs) s)) \<and> busy_same s (snd (run_state (tickOne W rs) s))" for s
  proof (cases "repo_tryAcquire (ws_Name rs) (wa_busy s)")
    case (Pair ok held)
    let ?s = "s\<lparr>wa_busy := held\<rparr>"
    obtain out s' where b: "run_state (tick_body W rs) ?s = (out, s')" by fastforce
    have "inw op_frame ?s s'" "busy_same ?s s'" using keepsD [OF _ b] keeps_tick_body [OF assms] by blast+
    then show ?thesis using Pair rl.bracket [of "ws_Name rs" "wa_busy s" held "wa_busy s'"]
      by (cases ok) (simp_all add: tickOne_def run_state_simps run_upd b, simp add: inw_def busy_same_def)
  qed
  then show "keeps (inw op_frame) (tickOne W rs)" "keeps busy_same (tickOne W rs)" by (simp_all add: keeps_def)
qed

lemma keeps_acquire_leader: "keeps (ext K) (acquire_leader W)" "keeps db_wf (acquire_leader W)"
proof -
  have "db_wf w (w\<lparr>w_db := d\<rparr>)" if "db_AcquireLease k own ttl t (w_db w) = (b, d)" for k own ttl t w b d
    using AcquireLease_tables [of "w_db w" k own ttl t] that by (simp add: db_wf_def same_tables_wf)
  then show "keeps (ext K) (acquire_leader W)" "keeps db_wf (acquire_leader W)"
    unfolding acquire_leader_def by (intro ext.keeps_modify dbw.keeps_modify keeps_rules; simp add: ext_def)+
qed

lemma keeps_TickHint:
  assumes "statekit_api (en_Step (we_Eng W))"
  shows "keeps (inw op_frame) (TickHint W hint)" "keeps busy_same (TickHint W hint)"
proof -
  have all: "keeps (inw op_frame) (tick_repos W rs)" "keeps busy_same (tick_repos W rs)" for rs
    by (induction rs) (unfold tick_repos.simps, (intro keeps_rules keeps_tickOne assms; simp)+)
  show "keeps (inw op_frame) (TickHint W hint)" "keeps busy_same (TickHint W hint)"
    unfolding TickHint_def by (intro keeps_rules all keeps_acquire_leader)+
qed

lemma keeps_logOutcomes: "keeps (inw op_frame) (logOutcomes W ocs)" "keeps busy_same (logOutcomes W ocs)"
proof -
  have one: "keeps (inw op_frame) (log_outcome W oc)" "keeps busy_same (log_outcome W oc)" for oc
    unfolding log_outcome_def reportPermanentFailure_def Let_def by (intro watch_modify keeps_rules; simp)+
  have "keeps (inw op_frame) (log_all W ocs)" "keeps busy_same (log_all W ocs)"
    by (induction ocs) (unfold log_all.simps, (intro keeps_rules one; simp)+)
  then show "keeps (inw op_frame) (logOutcomes W ocs)" "keeps busy_same (logOutcomes W ocs)"
    unfolding logOutcomes_def by (intro keeps_rules; simp)+
qed

lemma keeps_tickAndRecord:
  assumes "statekit_api (en_Step (we_Eng W))"
  shows "keeps (inw op_frame) (tickAndRecord W)" "keeps busy_same (tickAndRecord W)"
  unfolding tickAndRecord_def Tick_watch_def by (intro keeps_rules keeps_TickHint assms keeps_logOutcomes)+

section \<open>A watcher to evaluate\<close>

definition demo_repo :: repo_spec where
  "demo_repo = \<lparr>ws_Name = ''shop'', ws_URL = ''https://github.com/acme/shop'', ws_Initiator = demo_human\<rparr>"

definition demo_nc :: named_config where
  "demo_nc = \<lparr>nc_Path = ''rollops.yaml'', nc_Config = demo_config\<rparr>"

text \<open>One repo with one config; its target objects to every preflight.\<close>

definition demo_watch :: watch_env where
  "demo_watch = \<lparr>we_Eng = demo_env\<lparr>en_Preflighter := (\<lambda>_. True), en_Preflight := (\<lambda>_ _ _. Some (Err ''forbidden''))\<rparr>,
     we_Audit = True, we_Leases = False, we_Owner = ''watcher'', we_LeaseTTL = 2 * minute, we_Now = (\<lambda>_. 0), we_Logf = True,
     we_Preflight = True, we_Image = None, we_Clone = (\<lambda>_ _. None), we_Pull = (\<lambda>_ _. Inr False),
     we_LoadAll = (\<lambda>_ _. Inr [demo_nc]), we_Dir = (\<lambda>_. ''/var/shop''), we_Repos = [demo_repo]\<rparr>"

section \<open>Between ticks nothing is held\<close>

text \<open>
  A daemon: the watcher polls, webhooks ask for a tick, and the other surfaces run operations of
  the engine on the same world, one after another.
\<close>

inductive daemon :: "watch_env \<Rightarrow> watch \<Rightarrow> bool" for W where
  start: "w_locks w = [] \<Longrightarrow> wf_db (w_db w) \<Longrightarrow> daemon W (NewWatcher W w)"
| poll: "daemon W s \<Longrightarrow> daemon W (snd (run_state (tickAndRecord W) s))"
| hook: "daemon W s \<Longrightarrow> daemon W (snd (run_state (TickHint W hint) s))"
| engine: "daemon W s \<Longrightarrow> daemon W (s\<lparr>wa_world := snd (run_state (run_op (we_Eng W) oper) (wa_world s))\<rparr>)"

definition nothing_held :: "watch \<Rightarrow> bool" where
  "nothing_held s \<longleftrightarrow> w_locks (wa_world s) = [] \<and> repo_held (wa_busy s) = {} \<and> wf_db (w_db (wa_world s))"

lemma nothing_held_keeps:
  "inw op_frame s s' \<Longrightarrow> busy_same s s' \<Longrightarrow> nothing_held s \<Longrightarrow> nothing_held s'"
  by (auto simp: nothing_held_def inw_def op_frame_def busy_same_def)

lemma NewWatcher_held:
  assumes "w_locks w = []" "wf_db (w_db w)"
  shows "nothing_held (NewWatcher W w)"
proof -
  have "keeps (inw op_frame) (clone_repos W rs)" "keeps busy_same (clone_repos W rs)" for rs
    by (induction rs) (unfold clone_repos.simps, (intro keeps_rules; simp)+)
  then have "inw op_frame (NewWatch w) (NewWatcher W w)" "busy_same (NewWatch w) (NewWatcher W w)"
    by (simp_all add: keeps_def NewWatcher_def)
  moreover have "nothing_held (NewWatch w)" using assms by (simp add: nothing_held_def NewWatch_def repo_held_def)
  ultimately show ?thesis by (rule nothing_held_keeps)
qed

text \<open>
  C20: between two ticks nothing is held. In a daemon that polls, is woken by webhooks and serves
  operations, in any order and whatever the outside answers, after each of them no repo is busy, no
  target is locked and the tables are well formed; and every tick only adds to what was done.
\<close>

theorem ticks_release_everything:
  assumes "statekit_api (en_Step (we_Eng W))" "daemon W s"
  shows "nothing_held s \<and>
    (\<exists>es. w_trace (wa_world (snd (run_state (TickHint W hint) s))) = w_trace (wa_world s) @ es)"
proof -
  have k: "keeps (inw op_frame) m \<Longrightarrow> keeps busy_same m \<Longrightarrow> nothing_held s \<Longrightarrow> nothing_held (snd (run_state m s))" for m :: "'a wprog" and s
    using nothing_held_keeps by (auto simp: keeps_def)
  have "nothing_held s" using assms(2)
  proof (induction rule: daemon.induct)
    case (engine s oper)
    then show ?case using run_op_framed [OF assms(1), of "wa_world s" oper]
      by (auto simp: nothing_held_def op_frame_def)
  qed (auto intro: NewWatcher_held k keeps_tickAndRecord keeps_TickHint assms(1))
  moreover have "inw op_frame s (snd (run_state (TickHint W hint) s))"
    using keeps_TickHint(1) [OF assms(1)] by (simp add: keeps_def)
  ultimately show ?thesis by (auto simp: inw_def op_frame_def)
qed

theorem ticks_release_everything_witness:
  "nothing_held (snd (run_state (tickAndRecord demo_watch) (NewWatcher demo_watch demo_world)))"
proof -
  have "statekit_api (en_Step (we_Eng demo_watch))" using demo_env_life(2) by (simp add: demo_watch_def)
  moreover have "daemon demo_watch (snd (run_state (tickAndRecord demo_watch) (NewWatcher demo_watch demo_world)))"
    by (intro daemon.poll daemon.start) (simp_all add: demo_world_def wf_empty_db)
  ultimately show ?thesis using ticks_release_everything by blast
qed

section \<open>The preflight of a batch\<close>

text \<open>A target that objects to whatever it is asked to preflight, whenever it is asked.\<close>

definition objects :: "env \<Rightarrow> string \<Rightarrow> bool" where
  "objects E ref \<longleftrightarrow> (\<forall>t. t_Ref t = ref \<longrightarrow> en_Preflighter E t \<and> (\<forall>n m. en_Preflight E n t m \<noteq> None))"

lemma preflight_one_refused:
  assumes "objects E (c_Ref (rc_Config rc))"
  shows "wp (preflight_one E rc) (\<lambda>e _. e \<noteq> None) w"
  using assms unfolding preflight_one_def tgt_Preflight_def Let_def objects_def
  by (auto simp: wp_simps split: sum.split option.split intro!: wp_True [of _ "stampReferencedChecksum _ _ _"])

lemma Preflight_refused:
  assumes "rc \<in> set rcs" "objects E (c_Ref (rc_Config rc))"
  shows "wp (Preflight E rcs) (\<lambda>es _. es \<noteq> []) w"
  using assms(1)
proof (induction rcs arbitrary: w)
  case (Cons r rcs)
  show ?case
  proof (cases "r = rc")
    case True
    then show ?thesis using preflight_one_refused [OF assms(2)]
      by (auto simp: wp_simps split: option.split intro!: wp_conseq [OF preflight_one_refused [OF assms(2)]] wp_True [of _ "Preflight _ _"])
  next
    case False
    then have rest: "wp (Preflight E rcs) (\<lambda>es _. es \<noteq> []) v" for v using Cons by simp
    show ?thesis
      by (auto simp: wp_simps split: option.splits intro!: wp_True [of _ "preflight_one _ _"] wp_conseq [OF rest])
  qed
qed simp

text \<open>A config without an image policy goes through image automation as it is.\<close>

lemma image_phase_keeps:
  assumes "nc \<in> set ncs" "s_ImagePolicy (c_Spec (nc_Config nc)) = None"
  shows "wp (image_phase W rs ncs) (\<lambda>ps _. \<lparr>cp_nc = nc, cp_cfg = nc_Config nc\<rparr> \<in> set ps) s"
  using assms(1)
proof (induction ncs arbitrary: s)
  case (Cons n ncs)
  have own: "wp (image_one W rs nc) (\<lambda>c _. c = nc_Config nc) s" for s
    using assms(2) unfolding image_one_def Process_def Let_def
    by (auto simp: wp_simps Deployed_def AwaitingGit_def split: option.split)
  show ?case
  proof (cases "n = nc")
    case True
    then show ?thesis
      by (auto simp: wp_simps intro!: wp_conseq [OF own] wp_True [of _ "image_phase _ _ _"])
  next
    case False
    then have rest: "wp (image_phase W rs ncs) (\<lambda>ps _. \<lparr>cp_nc = nc, cp_cfg = nc_Config nc\<rparr> \<in> set ps) v" for v
      using Cons by simp
    show ?thesis by (auto simp: wp_simps intro!: wp_True [of _ "image_one _ _ _"] wp_conseq [OF rest])
  qed
qed simp

text \<open>Only effects of the kinds \<open>K\<close>, and the database as it was.\<close>

definition calm :: "ekind set \<Rightarrow> watch \<Rightarrow> watch \<Rightarrow> bool" where
  "calm K s s' \<longleftrightarrow> inw (ext K) s s' \<and> inw db_same s s'"

lemma calm_refl [simp]: "wa_world s' = wa_world s \<Longrightarrow> calm K s s'"
  by (simp add: calm_def)

lemma calm_trans: "calm K s t \<Longrightarrow> calm K t u \<Longrightarrow> calm K s u"
  unfolding calm_def by (meson wx.frame_trans wd.frame_trans)

lemma calm_world: "calm K s t \<Longrightarrow> wa_world t' = wa_world t \<Longrightarrow> calm K s t'"
  by (simp add: calm_def inw_def)

lemma calm_upd [simp]: "calm K s (t\<lparr>wa_failures := f\<rparr>) = calm K s t"
  by (simp add: calm_def inw_def)

lemma calm_tick: "calm K s t \<Longrightarrow> calm K s (t\<lparr>wa_world := tick1 (wa_world t)\<rparr>)"
  by (simp add: calm_def inw_def ext_def db_same_def)

lemma wp_calm:
  assumes "calm K s0 s" "keeps (inw (ext K)) m" "keeps (inw db_same) m" "wp m P s" "\<And>x s'. P x s' \<Longrightarrow> calm K s0 s' \<Longrightarrow> Q x s'"
  shows "wp m Q s"
proof -
  have "wp m (\<lambda>x s'. P x s' \<and> (inw (ext K) s s' \<and> inw db_same s s')) s"
    by (intro wp_conj assms(4) keeps_wp assms(2,3))
  then show ?thesis by (rule wp_conseq) (simp add: assms(5) calm_trans [OF assms(1)] calm_def [of K s])
qed

definition refused_tick :: "ekind set \<Rightarrow> watch \<Rightarrow> repo_outcome list \<Rightarrow> watch \<Rightarrow> bool" where
  "refused_tick K s ocs s' \<longleftrightarrow> (\<exists>oc. ocs = [oc] \<and> ro_Err oc \<noteq> None) \<and> calm K s s'"

lemma preflight_phase_refuses:
  assumes "we_Preflight W" "p \<in> set ps" "objects (we_Eng W) (cp_ref p)"
  shows "wp (preflight_phase W rs ch ps) (\<lambda>x _. \<exists>oc. x = Some oc \<and> ro_Err oc \<noteq> None) s"
proof -
  let ?rc = "\<lparr>rc_Config = cp_cfg p, rc_Root = configRoot (we_Dir W rs) (nc_Path (cp_nc p))\<rparr>"
  have "?rc \<in> set (rootedConfigs (we_Dir W rs) ps)" using assms(2) by (auto simp: rootedConfigs_def)
  then have "wp (Preflight (we_Eng W) (rootedConfigs (we_Dir W rs) ps)) (\<lambda>es _. es \<noteq> []) w" for w
    by (rule Preflight_refused) (simp add: assms(3))
  then have "wp (Preflight (we_Eng W) (rootedConfigs (we_Dir W rs) ps)) Q w" if "\<And>es w. es \<noteq> [] \<Longrightarrow> Q es w" for Q w
    by (rule wp_conseq) (rule that)
  then show ?thesis unfolding preflight_phase_def held_at_def
    by (simp add: assms(1) wp_simps repo_err_def split: option.split)
qed

lemma tick_loaded_refuses:
  assumes "we_Preflight W" "nc \<in> set (first_per (\<lambda>nc. c_Ref (nc_Config nc)) [] loaded)"
    "s_ImagePolicy (c_Spec (nc_Config nc)) = None" "objects (we_Eng W) (c_Ref (nc_Config nc))" "calm (insert KPreflight quiet_kinds) s0 s"
  shows "wp (tick_loaded W rs ch loaded) (refused_tick (insert KPreflight quiet_kinds) s0) s"
proof -
  let ?K = "insert KPreflight quiet_kinds"
  have pre: "wp (preflight_phase W rs ch (orderByDependsOn ps)) (\<lambda>x s'. (\<exists>oc. x = Some oc \<and> ro_Err oc \<noteq> None) \<and> calm ?K s0 s') t"
    if "\<lparr>cp_nc = nc, cp_cfg = nc_Config nc\<rparr> \<in> set ps" "calm ?K s0 t" for ps t ch
  proof -
    have "c_Ref (nc_Config nc) \<in> cp_ref ` set (orderByDependsOn ps)" using that(1) by (force simp: order_refs)
    then obtain p where p: "p \<in> set (orderByDependsOn ps)" "cp_ref p = c_Ref (nc_Config nc)" by auto
    show ?thesis
      by (rule wp_calm [OF that(2) _ _ preflight_phase_refuses [OF assms(1) p(1)]]) (use p(2) assms(4) in \<open>auto intro!: keeps_rules\<close>)
  qed
  have img: "wp (image_phase W rs ncs) (\<lambda>ps s'. \<lparr>cp_nc = nc, cp_cfg = nc_Config nc\<rparr> \<in> set ps \<and> calm ?K s0 s') t"
    if "nc \<in> set ncs" "calm ?K s0 t" for ncs t
    by (rule wp_calm [OF that(2) _ _ image_phase_keeps [OF that(1) assms(3)]]) (auto intro!: keeps_rules)
  have orph: "wp (orphan_phase W nm ncs) (\<lambda>_ s'. calm ?K s0 s') s" for nm ncs
    by (rule wp_calm [OF assms(5) _ _ wp_True [of "\<lambda>_ _. True"]]) (auto intro!: keeps_rules)
  show ?thesis unfolding tick_loaded_def Let_def wp_bind
    by (rule wp_conseq [OF orph], rule wp_conseq [OF img [OF assms(2)]])
       (auto simp: wp_simps refused_tick_def intro!: wp_conseq [OF pre])
qed

lemma calm_steps:
  "calm K s t \<Longrightarrow> calm K s (t\<lparr>wa_world := (wa_world t)\<lparr>w_tick := n\<rparr>\<rparr>)"
  "calm K s (t\<lparr>wa_busy := b\<rparr>) = calm K s t" "calm K s (t\<lparr>wa_cloned := c\<rparr>) = calm K s t"
  "calm K s (t\<lparr>wa_orphans := r\<rparr>) = calm K s t"
  by (simp_all add: calm_def inw_def ext_def db_same_def)

text \<open>
  C19: a batch is applied as a whole or not at all. When one target declared in a repo objects to
  the preflight, whichever of the configs it is and whatever order they come in, a tick of that repo
  applies none of them: it returns a single outcome, an error, the database is as it was, and nothing
  was done but preflights, audit records, commits of image automation and the reaping of targets no
  longer declared. (The objecting config has no image policy, so what is preflighted is what was
  loaded.)
\<close>

theorem preflight_refuses_batch:
  assumes "we_Preflight W" "\<And>n. we_LoadAll W n rs = Inr loaded"
    "nc \<in> set (first_per (\<lambda>nc. c_Ref (nc_Config nc)) [] loaded)"
    "s_ImagePolicy (c_Spec (nc_Config nc)) = None" "objects (we_Eng W) (c_Ref (nc_Config nc))"
  shows "wp (tickOne W rs) (refused_tick {KPreflight, KReap, KAudit, KGit} s) s"
proof -
  let ?K = "insert KPreflight quiet_kinds"
  have cl: "wp (tick_cloned W rs cloned) (refused_tick ?K s) t" if "calm ?K s t" for cloned t
    unfolding tick_cloned_def
    using that by (auto simp: wp_simps assms(2) refused_tick_def [of _ _ "[_]"] repo_err_def calm_steps split: sum.split
        intro!: tick_loaded_refuses [OF assms(1,3-5)])
  have body: "wp (tick_body W rs) (refused_tick ?K s) t" if "calm ?K s t" for t
    unfolding tick_body_def
    using that by (auto simp: wp_simps refused_tick_def [of _ _ "[_]"] repo_err_def calm_steps split: option.split intro!: cl)
  show ?thesis unfolding tickOne_def
    by (auto simp: wp_simps refused_tick_def [of _ _ "[_]"] repo_err_def split: prod.split
        intro!: wp_conseq [OF body]) (auto simp: refused_tick_def calm_steps)
qed

theorem preflight_refuses_batch_witness:
  "refused_tick {KPreflight, KReap, KAudit, KGit} (NewWatch demo_world)
     (fst (run_state (tickOne demo_watch demo_repo) (NewWatch demo_world)))
     (snd (run_state (tickOne demo_watch demo_repo) (NewWatch demo_world)))"
proof -
  have "we_Preflight demo_watch" "\<And>n. we_LoadAll demo_watch n demo_repo = Inr [demo_nc]"
    "demo_nc \<in> set (first_per (\<lambda>nc. c_Ref (nc_Config nc)) [] [demo_nc])"
    "s_ImagePolicy (c_Spec (nc_Config demo_nc)) = None" "objects (we_Eng demo_watch) (c_Ref (nc_Config demo_nc))"
    by (simp_all add: demo_watch_def demo_nc_def objects_def demo_config_def zero_config_def zero_spec_def)
  from preflight_refuses_batch [OF this, of "NewWatch demo_world"] show ?thesis by (simp add: wp_run)
qed

section \<open>Dependents wait\<close>

definition promoted_newest :: "string \<Rightarrow> world \<Rightarrow> bool" where
  "promoted_newest ref w \<longleftrightarrow> (\<exists>rs r. db_ListRollouts 0 (w_db w) = Inr rs \<and> newest_of ref rs = Some r \<and> r_Phase r = PhasePromoted)"

lemma waiting_on_waits:
  assumes "d \<in> set ds" "[] \<notin> set ds" "\<not> promoted_newest d w"
  shows "wp (waiting_on E ds) (\<lambda>x _. x \<noteq> Inr []) w"
  using assms
proof (induction ds arbitrary: w)
  case (Cons a ds)
  have "wp (waiting_on E ds) (\<lambda>x _. x \<noteq> Inr []) (tick1 w)" if "a \<noteq> d"
    by (rule Cons.IH) (use Cons.prems that in \<open>auto simp: promoted_newest_def\<close>)
  then show ?case using Cons.prems
    by (auto simp: isPromoted_def List_rollouts_def wp_simps promoted_newest_def split: option.split sum.split)
qed simp

text \<open>
  Dependents wait. A config that depends on a target whose newest rollout is not promoted (or
  that has none, or whose rollouts cannot be listed) is not reconciled: no effect, no change of the
  database, an outcome that reports neither drift nor a rollout. (No dependency is named by the empty
  string, which the code reads as "nothing to wait for".)
\<close>

theorem dependents_wait:
  assumes "d \<in> set (cp_deps p)" "[] \<notin> set (cp_deps p)" "\<not> promoted_newest d (wa_world s)"
  shows "wp (reconcile_pair W rs ch p) (\<lambda>oc s'. ro_Outcome oc = zero_oc \<and> calm {} s s') s"
proof -
  have "wp (lift (waitingOn (we_Eng W) (cp_cfg p))) (\<lambda>x _. x \<noteq> Inr []) s"
    unfolding wp_lift waitingOn_def by (rule waiting_on_waits [OF assms])
  then have "wp (lift (waitingOn (we_Eng W) (cp_cfg p))) (\<lambda>x s'. x \<noteq> Inr [] \<and> calm {} s s') s"
    by (rule wp_calm [rotated 3]) (auto intro!: keeps_rules)
  then show ?thesis unfolding reconcile_pair_def Let_def wp_bind
    by (rule wp_conseq) (auto simp: wp_simps repo_err_def split: sum.split)
qed

theorem dependents_wait_witness:
  "ro_Outcome (fst (run_state (reconcile_pair demo_watch demo_repo True (demo_pair ''web'' [''db''])) (NewWatch demo_world))) = zero_oc"
proof -
  have "''db'' \<in> set (cp_deps (demo_pair ''web'' [''db'']))" "[] \<notin> set (cp_deps (demo_pair ''web'' [''db'']))" by code_simp+
  moreover have "\<not> promoted_newest ''db'' (wa_world (NewWatch demo_world))"
    by (simp add: promoted_newest_def NewWatch_def demo_world_def db_ListRollouts_def empty_db_def newest_first_def newest_of_def)
  ultimately show ?thesis using dependents_wait [of "''db''" _ "NewWatch demo_world" demo_watch demo_repo True] by (simp add: wp_run)
qed

section \<open>The hold of a refused repo\<close>

text \<open>The repo is held since \<open>t0\<close> for the refusal \<open>msg\<close>.\<close>

definition held_since :: "watch \<Rightarrow> string \<Rightarrow> time \<Rightarrow> string \<Rightarrow> bool" where
  "held_since s key t0 msg \<longleftrightarrow>
     mget (fl_msg (wa_failures s)) [] key = msg \<and> mget (fl_fired (wa_failures s)) False key \<and>
     mget (fl_perm (wa_failures s)) False key \<and> mget (fl_heldAt (wa_failures s)) 0 key = t0"

text \<open>A tick at time \<open>t\<close>, and ticks at the times \<open>ts\<close>.\<close>

definition tick_at :: "watch_env \<Rightarrow> time \<Rightarrow> repo_outcome list wprog" where
  "tick_at W t = tickAndRecord (W\<lparr>we_Now := \<lambda>_. t\<rparr>)"

fun ticks_at :: "watch_env \<Rightarrow> time list \<Rightarrow> unit wprog" where
  "ticks_at W [] = State_Monad.return ()"
| "ticks_at W (t # ts) = do { _ \<leftarrow> tick_at W t; ticks_at W ts }"

fun within_hold :: "time \<Rightarrow> time list \<Rightarrow> bool" where
  "within_hold t0 [] = True"
| "within_hold t0 (t # ts) = (t - t0 \<le> permanentHoldFor \<and> within_hold t ts)"

text \<open>The failures, the clones and the repo locks survive the phases before the preflight.\<close>

definition hold_same :: "watch \<Rightarrow> watch \<Rightarrow> bool" where
  "hold_same s s' \<longleftrightarrow> wa_failures s' = wa_failures s \<and> wa_cloned s' = wa_cloned s \<and> wa_busy s' = wa_busy s"

interpretation wh: frame hold_same
  by unfold_locales (auto simp: hold_same_def)

lemma keeps_hold:
  "keeps hold_same (lift m)" "(\<And>s. hold_same s (f s)) \<Longrightarrow> keeps hold_same (upd f)"
  by (auto simp: keeps_def run_lift run_upd hold_same_def split: prod.split)

lemma keeps_hold_phases:
  "keeps hold_same (orphan_phase W n ncs)" "keeps hold_same (image_phase W rs ncs)"
proof -
  note r = wh.keeps_return wh.keeps_get wh.keeps_bind keeps_hold keeps_if keeps_option keeps_prod keeps_let
  have one: "keeps hold_same (reportOrphan W v)" for v
    unfolding reportOrphan_def Let_def by (intro r; simp add: hold_same_def)
  have all: "keeps hold_same (report_orphans W vs)" for vs
    by (induction vs) (unfold report_orphans.simps, (intro r one; simp)+)
  show "keeps hold_same (orphan_phase W n ncs)"
    unfolding orphan_phase_def by (intro wh.keeps_modify all r; simp add: hold_same_def)
  have img: "keeps hold_same (image_one W rs nc)" for nc
    unfolding image_one_def by (intro r; simp add: hold_same_def noteAwaiting_def clearAwaiting_def)
  show "keeps hold_same (image_phase W rs ncs)"
    by (induction ncs) (unfold image_phase.simps, (intro r img; simp)+)
qed

definition holding :: "repo_spec \<Rightarrow> time \<Rightarrow> string \<Rightarrow> watch \<Rightarrow> bool" where
  "holding rs t0 msg s \<longleftrightarrow> ws_Name rs \<in> set (wa_cloned s) \<and> repo_held (wa_busy s) = {} \<and> held_since s (ws_Name rs) t0 msg"

lemma held_since_same: "hold_same s s' \<Longrightarrow> held_since s' key t0 msg = held_since s key t0 msg"
  by (simp add: hold_same_def held_since_def)

lemma held_since_held: "held_since s key t0 msg \<Longrightarrow> t - t0 \<le> permanentHoldFor \<Longrightarrow> held (wa_failures s) t key = Some msg"
  by (simp add: held_since_def held_def)

lemma tick_loaded_held:
  assumes "we_Preflight W" "\<And>n. we_Now W n = t" "held_since s (ws_Name rs) t0 msg" "t - t0 \<le> permanentHoldFor" "calm quiet_kinds s0 s"
  shows "wp (tick_loaded W rs False loaded)
    (\<lambda>ocs s'. ocs = [repo_err (ws_Name rs) False (Err msg)] \<and> hold_same s s' \<and> calm quiet_kinds s0 s') s"
proof -
  have ph: "wp m (\<lambda>_ s'. hold_same s s' \<and> calm quiet_kinds s0 s') u"
    if "keeps hold_same m" "keeps (inw (ext quiet_kinds)) m" "keeps (inw db_same) m" "hold_same s u" "calm quiet_kinds s0 u"
    for m :: "'a wprog" and u
    by (rule wp_calm [OF that(5,2,3) keeps_wp [OF that(1)]]) (simp add: wh.frame_trans [OF that(4)])
  show ?thesis unfolding tick_loaded_def Let_def wp_bind
  proof (rule wp_conseq [OF ph], goal_cases)
    case (6 x u)
    then have u: "hold_same s u" "calm quiet_kinds s0 u" by simp_all
    show ?case
    proof (rule wp_conseq [OF ph], goal_cases)
      case (6 ps v)
      then have v: "hold_same s v" "calm quiet_kinds s0 v" by simp_all
      then have "held (wa_failures v) t (ws_Name rs) = Some msg"
        using held_since_held [OF _ assms(4)] held_since_same assms(3) by blast
      then show ?case using v assms(1,2)
        by (simp add: preflight_phase_def held_at_def wp_simps calm_tick) (simp add: hold_same_def)
    qed (auto intro!: keeps_rules keeps_hold_phases u)
  qed (auto intro!: keeps_rules keeps_hold_phases wh.frame_refl assms(5))
qed

lemma note_renews:
  assumes "held_since s key t0 msg" "permanentFailure msg"
  shows "fst (fail_note (wa_failures s) t key msg) = FailQuiet"
    "held_since (s\<lparr>wa_failures := snd (fail_note (wa_failures s) t key msg)\<rparr>) key t msg"
proof -
  have "msg \<noteq> []" using assms(2) by (auto simp: permanentFailure_def strings_ToLower_def)
  then show "fst (fail_note (wa_failures s) t key msg) = FailQuiet"
    "held_since (s\<lparr>wa_failures := snd (fail_note (wa_failures s) t key msg)\<rparr>) key t msg"
    using assms by (simp_all add: held_since_def fail_note_def)
qed

text \<open>One repo, watched alone, that does not move.\<close>

definition still_repo :: "watch_env \<Rightarrow> repo_spec \<Rightarrow> bool" where
  "still_repo W rs \<longleftrightarrow> we_Preflight W \<and> we_Logf W \<and> \<not> we_Leases W \<and> we_Repos W = [rs] \<and>
     (\<forall>n. we_Pull W n rs = Inr False) \<and> (\<forall>n. \<exists>loaded. we_LoadAll W n rs = Inr loaded)"

lemma tick_body_held:
  assumes "still_repo W rs" "\<And>n. we_Now W n = t" "held_since s (ws_Name rs) t0 msg" "t - t0 \<le> permanentHoldFor"
    "ws_Name rs \<in> set (wa_cloned s)" "calm quiet_kinds s0 s"
  shows "wp (tick_body W rs)
    (\<lambda>ocs s'. ocs = [repo_err (ws_Name rs) False (Err msg)] \<and> hold_same s s' \<and> calm quiet_kinds s0 s') s"
proof -
  let ?v = "s\<lparr>wa_world := (wa_world s)\<lparr>w_tick := Suc (Suc (w_tick (wa_world s)))\<rparr>\<rparr>"
  obtain loaded where l: "we_LoadAll W (Suc (w_tick (wa_world s))) rs = Inr loaded" using assms(1) unfolding still_repo_def by blast
  have v: "held_since ?v (ws_Name rs) t0 msg" "calm quiet_kinds s0 ?v" "hold_same ?v = hold_same s"
    using assms(3,6) by (auto simp: held_since_def calm_steps hold_same_def)
  show ?thesis using assms(1,5) tick_loaded_held [OF _ assms(2) v(1) assms(4) v(2), of loaded]
    unfolding tick_body_def tick_cloned_def still_repo_def v(3) by (auto simp: wp_simps l)
qed

lemma tick_held:
  assumes "still_repo W rs" "holding rs t0 msg s" "permanentFailure msg" "t - t0 \<le> permanentHoldFor" "calm quiet_kinds s0 s"
  shows "wp (tick_at W t) (\<lambda>_ s'. holding rs t msg s' \<and> calm quiet_kinds s0 s') s"
proof -
  let ?W = "W\<lparr>we_Now := \<lambda>_. t\<rparr>"
  obtain held where tr: "repo_tryAcquire (ws_Name rs) (wa_busy s) = (True, held)"
    using assms(2) rl.try_ok [of "ws_Name rs" "wa_busy s"] unfolding holding_def by (metis empty_iff prod.collapse)
  have sr: "still_repo ?W rs" using assms(1) by (simp add: still_repo_def)
  have "wp (tick_body ?W rs) (\<lambda>ocs s'. (ocs = [repo_err (ws_Name rs) False (Err msg)] \<and> hold_same (s\<lparr>wa_busy := held\<rparr>) s' \<and> calm quiet_kinds s0 s')) (s\<lparr>wa_busy := held\<rparr>)"
    by (rule tick_body_held [OF sr _ _ assms(4)]) (use assms in \<open>auto simp: holding_def held_since_def calm_steps\<close>)
  then have one: "wp (tickOne ?W rs) (\<lambda>ocs s'. ocs = [repo_err (ws_Name rs) False (Err msg)] \<and> holding rs t0 msg s' \<and> calm quiet_kinds s0 s') s"
    unfolding tickOne_def using rl.bracket [OF tr] assms(2)
    by (auto simp: wp_simps tr hold_same_def holding_def held_since_def calm_steps elim!: wp_conseq)
  have note1: "wp (log_outcome ?W (repo_err (ws_Name rs) False (Err msg))) (\<lambda>_ s'. holding rs t msg s' \<and> calm quiet_kinds s0 s') u"
    if "holding rs t0 msg u" "calm quiet_kinds s0 u" for u
    using note_renews [of "u\<lparr>wa_world := tick1 (wa_world u)\<rparr>" "ws_Name rs" t0 msg t, OF _ assms(3)] that
    by (auto simp: log_outcome_def repo_err_def wp_simps holding_def held_since_def calm_steps split: prod.split)
  show ?thesis using sr unfolding still_repo_def
    by (auto simp: tick_at_def tickAndRecord_def Tick_watch_def TickHint_def matching_def logOutcomes_def wp_simps
        intro!: wp_conseq [OF one] note1)
qed

text \<open>
  A permanent refusal is never looked at again. The hold of a refused repo is meant to end half
  an hour after the refusal, so that one attempt goes through; but each tick during the hold reports
  the old refusal as its outcome, which is noted as a new one and starts the half hour again. As long
  as the repo does not move and ticks come at most half an hour apart, no tick, however many there
  are, preflights or applies anything, and the hold is always as young as the last tick.
\<close>

theorem hold_never_expires:
  assumes "still_repo W rs" "holding rs t0 msg s" "permanentFailure msg" "within_hold t0 ts"
  shows "wp (ticks_at W ts) (\<lambda>_ s'. calm {KReap, KAudit, KGit} s s' \<and> held_since s' (ws_Name rs) (last (t0 # ts)) msg) s"
proof -
  have "wp (ticks_at W ts) (\<lambda>_ s'. calm quiet_kinds s s' \<and> held_since s' (ws_Name rs) (last (t0 # ts)) msg) u"
    if "holding rs t0 msg u" "calm quiet_kinds s u" for u
    using that assms(4)
  proof (induction ts arbitrary: t0 u)
    case Nil
    then show ?case by (simp add: wp_simps holding_def)
  next
    case (Cons t ts)
    have "wp (tick_at W t) (\<lambda>_ s'. holding rs t msg s' \<and> calm quiet_kinds s s') u"
      by (rule tick_held [OF assms(1) Cons.prems(1) assms(3) _ Cons.prems(2)]) (use Cons.prems(3) in simp)
    then show ?case unfolding ticks_at.simps wp_bind
      by (rule wp_conseq) (use Cons.IH Cons.prems(3) in simp)
  qed
  from this [OF assms(2)] show ?thesis by simp
qed

definition demo_held :: watch where
  "demo_held = (NewWatch demo_world)\<lparr>wa_cloned := [''shop''], wa_failures := snd (fail_note (newFailStreak 10) 0 ''shop'' ''forbidden'')\<rparr>"

theorem hold_never_expires_witness:
  "held_since (snd (run_state (ticks_at demo_watch [30 * minute, 60 * minute, 90 * minute]) demo_held)) ''shop'' (90 * minute) ''forbidden''"
proof -
  have p: "permanentFailure ''forbidden''" by code_simp
  then have h: "holding demo_repo 0 ''forbidden'' demo_held"
    by (simp add: holding_def held_since_def demo_held_def demo_repo_def NewWatch_def repo_held_def fail_note_def newFailStreak_def Let_def)
  have r: "still_repo demo_watch demo_repo" by (simp add: still_repo_def demo_watch_def)
  have "within_hold 0 [30 * minute, 60 * minute, 90 * minute]" by simp
  from hold_never_expires [OF r h p this] show ?thesis by (simp add: wp_run demo_repo_def)
qed

end
