(* ===== verification/Rbac.thy ===== *)
theory Rbac
  imports Rollout Streaks
begin

text \<open>
  \<^verbatim>\<open>internal/security/rbac.go\<close>, \<open>rbac_defaults.go\<close>, \<open>policyfile.go\<close>: roles, grants and bindings, the
  policy the daemon starts with, and the policy file layered onto it. The YAML decoder is a
  parameter: it answers the decoded file, \<open>None\<close> for an empty one, or an error. The lock of the
  policy is left out: an operation runs whole.
\<close>

section \<open>Permissions and scopes\<close>

type_synonym permission = string

abbreviation PermStatus :: permission where "PermStatus \<equiv> ''rollouts.status''"
abbreviation PermPlan :: permission where "PermPlan \<equiv> ''rollouts.plan''"
abbreviation PermApply :: permission where "PermApply \<equiv> ''rollouts.apply''"
abbreviation PermApprove :: permission where "PermApprove \<equiv> ''rollouts.approve''"
abbreviation PermPromote :: permission where "PermPromote \<equiv> ''rollouts.promote''"
abbreviation PermRollback :: permission where "PermRollback \<equiv> ''rollouts.rollback''"
abbreviation PermSchedule :: permission where "PermSchedule \<equiv> ''rollouts.schedule''"
abbreviation PermFreeze :: permission where "PermFreeze \<equiv> ''rollouts.freeze''"

definition knownPerms :: "permission list" where
  "knownPerms = [PermStatus, PermPlan, PermApply, PermApprove, PermPromote, PermRollback, PermSchedule, PermFreeze]"

record scope =
  sc_Env :: string
  sc_TargetRef :: string

abbreviation any_scope :: scope where "any_scope \<equiv> \<lparr>sc_Env = [], sc_TargetRef = []\<rparr>"

definition scope_matches :: "scope \<Rightarrow> scope \<Rightarrow> bool" where
  "scope_matches g req =
     (if sc_Env g \<noteq> [] \<and> sc_Env g \<noteq> sc_Env req then False
      else if sc_TargetRef g \<noteq> [] \<and> sc_TargetRef g \<noteq> sc_TargetRef req then False
      else True)"

record grant =
  gr_Perm :: permission
  gr_Scope :: scope

record role =
  ro_Name :: string
  ro_Grants :: "grant list"

record policy =
  po_roles :: "string \<rightharpoonup> role"
  po_bindings :: "string \<rightharpoonup> string list"

section \<open>The policy\<close>

definition NewPolicy :: policy where
  "NewPolicy = \<lparr>po_roles = Map.empty, po_bindings = Map.empty\<rparr>"

definition DefineRole :: "role \<Rightarrow> policy \<Rightarrow> policy" where
  "DefineRole r p = p\<lparr>po_roles := (po_roles p)(ro_Name r \<mapsto> r)\<rparr>"

definition hasRole :: "policy \<Rightarrow> string \<Rightarrow> bool" where
  "hasRole p name = (po_roles p name \<noteq> None)"

definition Bind :: "string \<Rightarrow> string list \<Rightarrow> policy \<Rightarrow> policy" where
  "Bind key rs p = p\<lparr>po_bindings := (po_bindings p)(key \<mapsto> mget (po_bindings p) [] key @ rs)\<rparr>"

definition ReplaceWith :: "policy \<Rightarrow> policy \<Rightarrow> policy" where
  "ReplaceWith other p = p\<lparr>po_roles := po_roles other, po_bindings := po_bindings other\<rparr>"

definition rolesFor :: "policy \<Rightarrow> identity \<Rightarrow> string list" where
  "rolesFor p i =
     mget (po_bindings p) [] (id_Kind i @ '':'' @ id_Name i) @
     mget (po_bindings p) [] (id_Kind i @ '':*'') @
     concat (map (\<lambda>g. mget (po_bindings p) [] (''group:'' @ g)) (id_Groups i)) @
     (if id_Groups i \<noteq> [] then mget (po_bindings p) [] ''group:*'' else [])"

definition forbidden_msg :: "identity \<Rightarrow> permission \<Rightarrow> scope \<Rightarrow> string" where
  "forbidden_msg i perm sc =
     id_Kind i @ ''/'' @ id_Name i @ '' may not '' @ perm @ '' on {env='' @ sc_Env sc @ '' target='' @ sc_TargetRef sc @ ''}''"

fun role_grants :: "permission \<Rightarrow> scope \<Rightarrow> grant list \<Rightarrow> bool" where
  "role_grants perm sc [] = False"
| "role_grants perm sc (g # gs) = (if gr_Perm g = perm \<and> scope_matches (gr_Scope g) sc then True else role_grants perm sc gs)"

fun authorize_by :: "policy \<Rightarrow> permission \<Rightarrow> scope \<Rightarrow> string list \<Rightarrow> bool" where
  "authorize_by p perm sc [] = False"
| "authorize_by p perm sc (name # names) =
     (case po_roles p name of
        None \<Rightarrow> authorize_by p perm sc names
      | Some r \<Rightarrow> if role_grants perm sc (ro_Grants r) then True else authorize_by p perm sc names)"

definition Authorize :: "policy \<Rightarrow> identity \<Rightarrow> permission \<Rightarrow> scope \<Rightarrow> err option" where
  "Authorize p i perm sc =
     (if authorize_by p perm sc (rolesFor p i) then None else Some (ErrForbidden (forbidden_msg i perm sc)))"

definition Can :: "policy \<Rightarrow> identity \<Rightarrow> permission \<Rightarrow> scope \<Rightarrow> bool" where
  "Can p i perm sc = (Authorize p i perm sc = None)"

section \<open>The bootstrap policy\<close>

abbreviation RoleAdmin :: string where "RoleAdmin \<equiv> ''admin''"
abbreviation RoleAgent :: string where "RoleAgent \<equiv> ''agent''"
abbreviation RoleAgentDeploy :: string where "RoleAgentDeploy \<equiv> ''agent-deploy''"

definition everywhere :: "permission \<Rightarrow> grant" where
  "everywhere perm = \<lparr>gr_Perm = perm, gr_Scope = any_scope\<rparr>"

definition DefaultRBACPolicy :: policy where
  "DefaultRBACPolicy =
     DefineRole \<lparr>ro_Name = RoleAgentDeploy, ro_Grants = map everywhere [PermPlan, PermApply, PermRollback, PermStatus, PermPromote]\<rparr>
     (Bind ''agent:*'' [RoleAgent]
     (DefineRole \<lparr>ro_Name = RoleAgent, ro_Grants = map everywhere [PermPlan, PermStatus]\<rparr>
     (Bind ''human:admin'' [RoleAdmin]
     (DefineRole \<lparr>ro_Name = RoleAdmin, ro_Grants = map everywhere
        [PermPlan, PermApply, PermApprove, PermPromote, PermRollback, PermStatus, PermSchedule, PermFreeze]\<rparr>
      NewPolicy))))"

section \<open>The policy file\<close>

record file_grant =
  fg_Perm :: string
  fg_Env :: string
  fg_TargetRef :: string

record file_role =
  fr_Name :: string
  fr_Grants :: "file_grant list"

record file_binding =
  fb_Subject :: string
  fb_Roles :: "string list"

record policy_file =
  pf_Roles :: "file_role list"
  pf_Bindings :: "file_binding list"

fun file_grants :: "string \<Rightarrow> file_grant list \<Rightarrow> grant list res" where
  "file_grants name [] = Inr []"
| "file_grants name (g # gs) =
     (if fg_Perm g \<notin> set knownPerms then Inl (Err (''security: policy role '' @ name @ '': unknown permission '' @ fg_Perm g))
      else (case file_grants name gs of
          Inl e \<Rightarrow> Inl e
        | Inr rest \<Rightarrow> Inr (\<lparr>gr_Perm = fg_Perm g, gr_Scope = \<lparr>sc_Env = fg_Env g, sc_TargetRef = fg_TargetRef g\<rparr>\<rparr> # rest)))"

fun file_roles :: "file_role list \<Rightarrow> policy \<Rightarrow> err option \<times> policy" where
  "file_roles [] p = (None, p)"
| "file_roles (r # rs) p =
     (if fr_Name r = [] then (Some (Err ''security: policy role: name is required''), p)
      else (case file_grants (fr_Name r) (fr_Grants r) of
          Inl e \<Rightarrow> (Some e, p)
        | Inr gs \<Rightarrow> file_roles rs (DefineRole \<lparr>ro_Name = fr_Name r, ro_Grants = gs\<rparr> p)))"

fun file_bindings :: "file_binding list \<Rightarrow> policy \<Rightarrow> err option \<times> policy" where
  "file_bindings [] p = (None, p)"
| "file_bindings (b # bs) p =
     (if fb_Subject b = [] then (Some (Err ''security: policy binding: subject is required''), p)
      else (case find (\<lambda>r. \<not> hasRole p r) (fb_Roles b) of
          Some r \<Rightarrow> (Some (Err (''security: policy binding '' @ fb_Subject b @ '': unknown role '' @ r)), p)
        | None \<Rightarrow> file_bindings bs (Bind (fb_Subject b) (fb_Roles b) p)))"

definition ApplyPolicyFile :: "(string \<Rightarrow> policy_file option res) \<Rightarrow> policy \<Rightarrow> string \<Rightarrow> err option \<times> policy" where
  "ApplyPolicyFile decode p data =
     (case decode data of
        Inl e \<Rightarrow> (Some (Wrap ''security: parse policy file'' e), p)
      | Inr None \<Rightarrow> (None, p)
      | Inr (Some pf) \<Rightarrow>
          (case file_roles (pf_Roles pf) p of
             (Some e, p) \<Rightarrow> (Some e, p)
           | (None, p) \<Rightarrow> file_bindings (pf_Bindings pf) p))"

definition LoadPolicyFile :: "(string \<Rightarrow> string res) \<Rightarrow> (string \<Rightarrow> policy_file option res) \<Rightarrow> policy \<Rightarrow> string \<Rightarrow> err option \<times> policy" where
  "LoadPolicyFile read decode p path =
     (case read path of
        Inl e \<Rightarrow> (Some (Wrap ''security: read policy file'' e), p)
      | Inr data \<Rightarrow> ApplyPolicyFile decode p data)"

section \<open>What a policy permits\<close>

text \<open>The subjects of bindings that name an identity, and when a grant covers a request.\<close>

definition speaks_for :: "identity \<Rightarrow> string \<Rightarrow> bool" where
  "speaks_for i s \<longleftrightarrow> s = id_Kind i @ '':'' @ id_Name i \<or> s = id_Kind i @ '':*'' \<or>
     (\<exists>g \<in> set (id_Groups i). s = ''group:'' @ g) \<or> (id_Groups i \<noteq> [] \<and> s = ''group:*'')"

definition covers :: "grant \<Rightarrow> permission \<Rightarrow> scope \<Rightarrow> bool" where
  "covers g perm sc \<longleftrightarrow> gr_Perm g = perm \<and> sc_Env (gr_Scope g) \<in> {[], sc_Env sc} \<and> sc_TargetRef (gr_Scope g) \<in> {[], sc_TargetRef sc}"

definition bound :: "policy \<Rightarrow> string \<Rightarrow> string set" where
  "bound p s = set (mget (po_bindings p) [] s)"

definition permits :: "policy \<Rightarrow> identity \<Rightarrow> permission \<Rightarrow> scope \<Rightarrow> bool" where
  "permits p i perm sc \<longleftrightarrow>
     (\<exists>s name r g. speaks_for i s \<and> name \<in> bound p s \<and> po_roles p name = Some r \<and> g \<in> set (ro_Grants r) \<and> covers g perm sc)"

lemma role_grants_iff: "role_grants perm sc gs \<longleftrightarrow> (\<exists>g \<in> set gs. covers g perm sc)"
  by (induction gs) (auto simp: covers_def scope_matches_def)

lemma authorize_by_iff:
  "authorize_by p perm sc names \<longleftrightarrow> (\<exists>name \<in> set names. \<exists>r. po_roles p name = Some r \<and> (\<exists>g \<in> set (ro_Grants r). covers g perm sc))"
  by (induction names) (auto simp: role_grants_iff split: option.split)

lemma rolesFor_set: "set (rolesFor p i) = (\<Union>s \<in> {s. speaks_for i s}. bound p s)"
  by (auto simp: rolesFor_def speaks_for_def bound_def split: if_splits)

lemma Authorize_permits: "Authorize p i perm sc = None \<longleftrightarrow> permits p i perm sc"
  by (auto simp: Authorize_def authorize_by_iff rolesFor_set permits_def)

section \<open>The bootstrap policy\<close>

lemma one_colon:
  "k @ '':'' @ n = ''human:admin'' \<longleftrightarrow> k = ''human'' \<and> n = ''admin''"
  "k @ '':'' @ n = ''agent:*'' \<longleftrightarrow> k = ''agent'' \<and> n = ''*''"
proof -
  have split: "k @ '':'' @ n = a @ '':'' @ b \<longleftrightarrow> k = a \<and> n = b" if "CHR '':'' \<notin> set a" "CHR '':'' \<notin> set b" for a b
    using append_Cons_eq_iff [OF that, of k n] by auto
  show "k @ '':'' @ n = ''human:admin'' \<longleftrightarrow> k = ''human'' \<and> n = ''admin''"
    using split [of "''human''" "''admin''"] by simp
  show "k @ '':'' @ n = ''agent:*'' \<longleftrightarrow> k = ''agent'' \<and> n = ''*''"
    using split [of "''agent''" "''*''"] by simp
qed

lemma speaks_for_bootstrap:
  "speaks_for i ''human:admin'' \<longleftrightarrow> id_Kind i = ''human'' \<and> id_Name i = ''admin''"
  "speaks_for i ''agent:*'' \<longleftrightarrow> id_Kind i = ''agent''"
  using one_colon [of "id_Kind i" "id_Name i"] one_colon [of "id_Kind i" "''*''"]
  by (auto simp: speaks_for_def eq_commute [of "''human:admin''"] eq_commute [of "''agent:*''"])

lemma default_bound:
  "bound DefaultRBACPolicy ''agent:*'' = {RoleAgent}" "bound DefaultRBACPolicy ''human:admin'' = {RoleAdmin}"
  "s \<noteq> ''agent:*'' \<Longrightarrow> s \<noteq> ''human:admin'' \<Longrightarrow> bound DefaultRBACPolicy s = {}"
  by (simp_all add: bound_def DefaultRBACPolicy_def DefineRole_def Bind_def NewPolicy_def)

lemma two_subjects:
  assumes "B a = {x}" "B b = {y}" "\<And>s. s \<noteq> a \<Longrightarrow> s \<noteq> b \<Longrightarrow> B s = {}"
  shows "(\<exists>s n. S s \<and> n \<in> B s \<and> X n) \<longleftrightarrow> (S a \<and> X x) \<or> (S b \<and> X y)"
  using assms by (metis empty_iff singletonD singletonI)

lemma default_roles:
  "po_roles DefaultRBACPolicy RoleAgent = Some \<lparr>ro_Name = RoleAgent, ro_Grants = map everywhere [PermPlan, PermStatus]\<rparr>"
  "po_roles DefaultRBACPolicy RoleAdmin = Some \<lparr>ro_Name = RoleAdmin, ro_Grants = map everywhere
     [PermPlan, PermApply, PermApprove, PermPromote, PermRollback, PermStatus, PermSchedule, PermFreeze]\<rparr>"
  by (simp_all add: DefaultRBACPolicy_def DefineRole_def Bind_def NewPolicy_def)

lemma covers_everywhere [simp]: "covers (everywhere q) perm sc \<longleftrightarrow> perm = q"
  by (auto simp: covers_def everywhere_def)

lemma covers_map: "(\<exists>g. g \<in> set (map everywhere ps) \<and> covers g perm sc) \<longleftrightarrow> perm \<in> set ps"
  by auto

text \<open>
  Who may do what before an operator says anything. Under the bootstrap policy the identity
  \<open>human:admin\<close> has every permission on every target, every agent may plan and read the status, and
  nobody else may do anything; in particular no agent can apply, approve, promote, roll back,
  schedule or freeze, and belonging to a group gives nothing.
\<close>

theorem bootstrap_least_privilege:
  "Authorize DefaultRBACPolicy i perm sc = None \<longleftrightarrow>
     (id_Kind i = ''human'' \<and> id_Name i = ''admin'' \<and> perm \<in> set knownPerms) \<or>
     (id_Kind i = ''agent'' \<and> perm \<in> {PermPlan, PermStatus})"
proof -
  define X where "X name \<longleftrightarrow> (\<exists>r g. po_roles DefaultRBACPolicy name = Some r \<and> g \<in> set (ro_Grants r) \<and> covers g perm sc)" for name
  have "X RoleAgent \<longleftrightarrow> perm \<in> set [PermPlan, PermStatus]" "X RoleAdmin \<longleftrightarrow> perm \<in> set
    [PermPlan, PermApply, PermApprove, PermPromote, PermRollback, PermStatus, PermSchedule, PermFreeze]"
    unfolding X_def default_roles by (simp_all only: role.simps ex_simps simp_thms option.inject) (rule covers_map)+
  then have "X RoleAgent \<longleftrightarrow> perm \<in> {PermPlan, PermStatus}" "X RoleAdmin \<longleftrightarrow> perm \<in> set knownPerms"
    unfolding knownPerms_def list.set insert_iff empty_iff by argo+
  moreover have "permits DefaultRBACPolicy i perm sc \<longleftrightarrow> (\<exists>s name. speaks_for i s \<and> name \<in> bound DefaultRBACPolicy s \<and> X name)"
    unfolding permits_def X_def by blast
  moreover have "\<dots> \<longleftrightarrow> (speaks_for i ''agent:*'' \<and> X RoleAgent) \<or> (speaks_for i ''human:admin'' \<and> X RoleAdmin)"
    by (rule two_subjects [where B = "bound DefaultRBACPolicy" and S = "speaks_for i" and X = X, OF default_bound])
  ultimately show ?thesis unfolding Authorize_permits speaks_for_bootstrap by argo
qed

section \<open>What a policy file can do\<close>

text \<open>Every bound role exists and grants only known permissions.\<close>

definition wf_policy :: "policy \<Rightarrow> bool" where
  "wf_policy p \<longleftrightarrow>
     (\<forall>s. \<forall>name \<in> bound p s. hasRole p name) \<and>
     (\<forall>name r. po_roles p name = Some r \<longrightarrow> ro_Name r = name \<and> (\<forall>g \<in> set (ro_Grants r). gr_Perm g \<in> set knownPerms))"

lemma wf_DefineRole:
  "wf_policy p \<Longrightarrow> (\<forall>g \<in> set (ro_Grants r). gr_Perm g \<in> set knownPerms) \<Longrightarrow> wf_policy (DefineRole r p)"
  by (auto simp: wf_policy_def DefineRole_def bound_def hasRole_def)

lemma bound_Bind: "bound (Bind key rs p) s = bound p s \<union> (if s = key then set rs else {})"
  by (simp add: bound_def Bind_def)

lemma roles_Bind [simp]: "po_roles (Bind key rs p) = po_roles p"
  by (simp add: Bind_def)

lemma wf_Bind: "wf_policy p \<Longrightarrow> (\<forall>r \<in> set rs. hasRole p r) \<Longrightarrow> wf_policy (Bind key rs p)"
  by (auto simp: wf_policy_def bound_Bind hasRole_def)

lemma wf_default: "wf_policy DefaultRBACPolicy"
proof -
  have known: "\<forall>g \<in> set (ro_Grants \<lparr>ro_Name = n, ro_Grants = map everywhere ps\<rparr>). gr_Perm g \<in> set knownPerms" if "set ps \<subseteq> set knownPerms" for n ps
    using that by (auto simp: everywhere_def)
  have new: "wf_policy NewPolicy" by (simp add: wf_policy_def NewPolicy_def bound_def)
  show ?thesis unfolding DefaultRBACPolicy_def
    by (intro wf_DefineRole wf_Bind new known; simp add: knownPerms_def hasRole_def DefineRole_def)
qed

lemma file_grants_known: "file_grants name gs = Inr out \<Longrightarrow> \<forall>g \<in> set out. gr_Perm g \<in> set knownPerms"
  by (induction gs arbitrary: out) (auto split: if_splits sum.splits)

lemma file_roles_facts:
  assumes "file_roles rs p = (e, p')"
  shows "wf_policy p \<Longrightarrow> wf_policy p'" "po_bindings p' = po_bindings p"
    "name \<notin> fr_Name ` set rs \<Longrightarrow> po_roles p' name = po_roles p name"
proof -
  have "(wf_policy p \<longrightarrow> wf_policy p') \<and> po_bindings p' = po_bindings p \<and>
    (name \<notin> fr_Name ` set rs \<longrightarrow> po_roles p' name = po_roles p name)"
    using assms
  proof (induction rs arbitrary: p)
    case (Cons r rs)
    show ?case
    proof (cases "fr_Name r = [] \<or> is_err (file_grants (fr_Name r) (fr_Grants r))")
      case True
      then show ?thesis using Cons.prems by (auto simp: is_err_iff split: if_splits)
    next
      case False
      then obtain gs where gs: "file_grants (fr_Name r) (fr_Grants r) = Inr gs" by (cases "file_grants (fr_Name r) (fr_Grants r)") auto
      let ?q = "DefineRole \<lparr>ro_Name = fr_Name r, ro_Grants = gs\<rparr> p"
      have "file_roles rs ?q = (e, p')" using Cons.prems False gs by simp
      from Cons.IH [OF this] have IH: "wf_policy ?q \<longrightarrow> wf_policy p'" "po_bindings p' = po_bindings ?q"
        "name \<notin> fr_Name ` set rs \<longrightarrow> po_roles p' name = po_roles ?q name" by blast+
      have "wf_policy p \<Longrightarrow> wf_policy ?q" using file_grants_known [OF gs] by (intro wf_DefineRole) auto
      then show ?thesis using IH by (auto simp: DefineRole_def)
    qed
  qed auto
  then show "wf_policy p \<Longrightarrow> wf_policy p'" "po_bindings p' = po_bindings p"
    "name \<notin> fr_Name ` set rs \<Longrightarrow> po_roles p' name = po_roles p name" by blast+
qed

lemma file_bindings_facts:
  assumes "file_bindings bs p = (e, p')"
  shows "wf_policy p \<Longrightarrow> wf_policy p'" "po_roles p' = po_roles p" "bound p s \<subseteq> bound p' s"
    "s \<notin> fb_Subject ` set bs \<Longrightarrow> bound p' s = bound p s"
    "e = None \<Longrightarrow> b \<in> set bs \<Longrightarrow> set (fb_Roles b) \<subseteq> bound p' (fb_Subject b)"
proof -
  have "(wf_policy p \<longrightarrow> wf_policy p') \<and> po_roles p' = po_roles p \<and> (\<forall>s. bound p s \<subseteq> bound p' s) \<and>
    (\<forall>s. s \<notin> fb_Subject ` set bs \<longrightarrow> bound p' s = bound p s) \<and>
    (e = None \<longrightarrow> (\<forall>b \<in> set bs. set (fb_Roles b) \<subseteq> bound p' (fb_Subject b)))"
    using assms
  proof (induction bs arbitrary: p)
    case (Cons b bs)
    show ?case
    proof (cases "fb_Subject b = [] \<or> find (\<lambda>r. \<not> hasRole p r) (fb_Roles b) \<noteq> None")
      case True
      then show ?thesis using Cons.prems by (auto split: if_splits)
    next
      case False
      let ?q = "Bind (fb_Subject b) (fb_Roles b) p"
      have q: "file_bindings bs ?q = (e, p')" using Cons.prems False by simp
      have "wf_policy p \<Longrightarrow> wf_policy ?q" using False by (intro wf_Bind) (auto simp: find_None_iff)
      moreover note Cons.IH [OF q]
      ultimately show ?thesis by (auto simp: bound_Bind split: if_splits; blast)
    qed
  qed auto
  then show "wf_policy p \<Longrightarrow> wf_policy p'" "po_roles p' = po_roles p" "bound p s \<subseteq> bound p' s"
    "s \<notin> fb_Subject ` set bs \<Longrightarrow> bound p' s = bound p s"
    "e = None \<Longrightarrow> b \<in> set bs \<Longrightarrow> set (fb_Roles b) \<subseteq> bound p' (fb_Subject b)" by blast+
qed

text \<open>
  Who speaks for no subject whose bindings changed, and holds no role the file redefines, is permitted
  nothing new.
\<close>

lemma file_permits_old:
  assumes "file_roles rs p = (e, q)" "po_roles p' = po_roles q" "permits p' i perm sc"
    and "\<forall>r \<in> set rs. fr_Name r \<notin> set (rolesFor p i)" "\<And>s. speaks_for i s \<Longrightarrow> bound p' s = bound p s"
  shows "permits p i perm sc"
proof -
  obtain s name r g where w: "speaks_for i s" "name \<in> bound p s" "po_roles q name = Some r" "g \<in> set (ro_Grants r)" "covers g perm sc"
    using assms(2,3,5) unfolding permits_def by auto
  then have "name \<notin> fr_Name ` set rs" using assms(4) by (auto simp: rolesFor_set)
  then have "po_roles p name = Some r" using file_roles_facts(3) [OF assms(1)] w(3) by simp
  then show ?thesis unfolding permits_def using w by blast
qed

text \<open>
  C30: what a policy file can do. Applying one to a policy in which every bound role exists and every
  grant names a known permission leaves such a policy, also when the file is refused half way. Without
  an error every binding of the file holds, and no binding is ever taken away. And whoever is
  permitted something new is either named by a binding of the file, or has a role the file redefines.
\<close>

theorem policy_file_bounded:
  assumes "wf_policy p" "ApplyPolicyFile decode p data = (e, p')"
  shows "wf_policy p' \<and> (\<forall>s. bound p s \<subseteq> bound p' s) \<and>
    (\<forall>pf. e = None \<and> decode data = Inr (Some pf) \<longrightarrow> (\<forall>b \<in> set (pf_Bindings pf). set (fb_Roles b) \<subseteq> bound p' (fb_Subject b))) \<and>
    (\<forall>i perm sc. Authorize p' i perm sc = None \<longrightarrow> Authorize p i perm sc = None \<or>
       (\<exists>pf. decode data = Inr (Some pf) \<and>
          ((\<exists>b \<in> set (pf_Bindings pf). speaks_for i (fb_Subject b)) \<or> (\<exists>r \<in> set (pf_Roles pf). fr_Name r \<in> set (rolesFor p i)))))"
proof (cases "\<exists>pf. decode data = Inr (Some pf)")
  case False
  then have "p' = p" using assms(2) by (auto simp: ApplyPolicyFile_def split: sum.splits option.splits)
  then show ?thesis using assms(1) False by auto
next
  case True
  then obtain pf where pf: "decode data = Inr (Some pf)" by blast
  obtain e1 q where q: "file_roles (pf_Roles pf) p = (e1, q)" by fastforce
  note R = file_roles_facts [OF q]
  have bq: "bound q s = bound p s" for s using R(2) by (simp add: bound_def)
  show ?thesis
  proof (cases e1)
    case (Some x)
    then have p': "p' = q" "e \<noteq> None" using assms(2) pf q by (auto simp: ApplyPolicyFile_def)
    have "permits p i perm sc" if "permits q i perm sc" "\<forall>r \<in> set (pf_Roles pf). fr_Name r \<notin> set (rolesFor p i)" for i perm sc
      by (rule file_permits_old [OF q refl that bq])
    then show ?thesis using p' R(1) assms(1) pf bq unfolding Authorize_permits by auto
  next
    case None
    then have b: "file_bindings (pf_Bindings pf) q = (e, p')" using assms(2) pf q by (simp add: ApplyPolicyFile_def)
    note B = file_bindings_facts [OF b]
    have "permits p i perm sc"
      if h: "permits p' i perm sc" "\<forall>r \<in> set (pf_Roles pf). fr_Name r \<notin> set (rolesFor p i)" "\<forall>b \<in> set (pf_Bindings pf). \<not> speaks_for i (fb_Subject b)"
      for i perm sc
    proof (rule file_permits_old [OF q B(2) h(1,2)])
      show "bound p' s = bound p s" if "speaks_for i s" for s using that h(3) B(4) [of s] bq [of s] by auto
    qed
    then have "Authorize p' i perm sc = None \<longrightarrow> Authorize p i perm sc = None \<or>
        (\<exists>b \<in> set (pf_Bindings pf). speaks_for i (fb_Subject b)) \<or> (\<exists>r \<in> set (pf_Roles pf). fr_Name r \<in> set (rolesFor p i))" for i perm sc
      unfolding Authorize_permits by blast
    then show ?thesis using B(1,3,5) R(1) assms(1) pf bq by auto
  qed
qed

definition demo_file :: policy_file where
  "demo_file = \<lparr>pf_Roles = [\<lparr>fr_Name = ''deployer'', fr_Grants = [\<lparr>fg_Perm = PermApply, fg_Env = ''staging'', fg_TargetRef = []\<rparr>]\<rparr>],
     pf_Bindings = [\<lparr>fb_Subject = ''human:alice'', fb_Roles = [''deployer'']\<rparr>]\<rparr>"

theorem policy_file_bounded_witness:
  "wf_policy (snd (ApplyPolicyFile (\<lambda>_. Inr (Some demo_file)) DefaultRBACPolicy [])) \<and>
   Authorize (snd (ApplyPolicyFile (\<lambda>_. Inr (Some demo_file)) DefaultRBACPolicy [])) \<lparr>id_Kind = ''human'', id_Name = ''alice'', id_Groups = []\<rparr>
     PermApply \<lparr>sc_Env = ''staging'', sc_TargetRef = ''web''\<rparr> = None"
proof -
  have "wf_policy (snd (ApplyPolicyFile (\<lambda>_. Inr (Some demo_file)) DefaultRBACPolicy []))"
    using policy_file_bounded [OF wf_default prod.collapse [symmetric], of "\<lambda>_. Inr (Some demo_file)" "[]"] by blast
  moreover have "Authorize (snd (ApplyPolicyFile (\<lambda>_. Inr (Some demo_file)) DefaultRBACPolicy [])) \<lparr>id_Kind = ''human'', id_Name = ''alice'', id_Groups = []\<rparr>
     PermApply \<lparr>sc_Env = ''staging'', sc_TargetRef = ''web''\<rparr> = None" by code_simp
  ultimately show ?thesis by (rule conjI)
qed

end
