(* ===== verification/Authn.thy ===== *)
theory Authn
  imports Rbac GitRemote "HOL-Library.Word"
begin

text \<open>
  Who is calling: \<open>TokenAuth\<close> and \<open>bearer\<close> of \<^verbatim>\<open>internal/api/server.go\<close>, \<^verbatim>\<open>swappable.go\<close>,
  \<^verbatim>\<open>oidc.go\<close> and \<^verbatim>\<open>jwks.go\<close>. The cryptographic primitives are the parameters of \<open>crypto\<close>; the JSON of a
  token part or of a key set is what the parameters \<open>cr_Header\<close>, \<open>cr_Claims\<close> and \<open>cr_Keys\<close> decode.
  Base64 is written out. The key cache is a state passed explicitly: the mutex and the
  single-flight channel make each \<open>Key\<close> call run as one step of it.
\<close>

section \<open>Static tokens\<close>

type_synonym authenticator = "string \<Rightarrow> identity option"

definition TokenAuth_Identify :: "(string \<Rightarrow> string) \<Rightarrow> (string \<times> identity) list \<Rightarrow> authenticator" where
  "TokenAuth_Identify sha256 toks token =
     (if token = [] then None
      else foldl (\<lambda>found (known, i). if sha256 token = sha256 known then Some i else found) None toks)"

fun ChainAuth_Identify :: "authenticator list \<Rightarrow> authenticator" where
  "ChainAuth_Identify [] token = None"
| "ChainAuth_Identify (a # as) token = (case a token of Some i \<Rightarrow> Some i | None \<Rightarrow> ChainAuth_Identify as token)"

text \<open>\<open>SwappableTokenAuth\<close>: the pointer to the current map; \<open>nil\<close> before the first \<open>Replace\<close>.\<close>

type_synonym swappable = "(string \<times> identity) list option"

definition Replace_tokens :: "(string \<times> identity) list option \<Rightarrow> swappable" where
  "Replace_tokens auth = Some (case auth of None \<Rightarrow> [] | Some a \<Rightarrow> a)"

definition Swappable_Identify :: "(string \<Rightarrow> string) \<Rightarrow> swappable \<Rightarrow> authenticator" where
  "Swappable_Identify sha256 cur token = (case cur of None \<Rightarrow> None | Some t \<Rightarrow> TokenAuth_Identify sha256 t token)"

definition Swappable_Len :: "swappable \<Rightarrow> nat" where
  "Swappable_Len cur = (case cur of None \<Rightarrow> 0 | Some t \<Rightarrow> length t)"

definition bearer :: "string \<Rightarrow> string" where
  "bearer h = (if strings_HasPrefix h ''Bearer '' then strings_TrimPrefix h ''Bearer '' else [])"

section \<open>Base64\<close>

text \<open>\<open>base64.RawURLEncoding\<close>: no padding, line breaks are skipped, spare bits are ignored.\<close>

definition b64_val :: "char \<Rightarrow> nat option" where
  "b64_val c =
     (let n = of_char c in
      if 65 \<le> n \<and> n \<le> 90 then Some (n - 65)
      else if 97 \<le> n \<and> n \<le> 122 then Some (n - 71)
      else if 48 \<le> n \<and> n \<le> 57 then Some (n + 4)
      else if n = 45 then Some 62
      else if n = 95 then Some 63
      else None)"

fun b64_bytes :: "nat list \<Rightarrow> string option" where
  "b64_bytes [] = Some []"
| "b64_bytes [a] = None"
| "b64_bytes [a, b] = Some [char_of (a * 4 + b div 16)]"
| "b64_bytes [a, b, c] = Some [char_of (a * 4 + b div 16), char_of (b mod 16 * 16 + c div 4)]"
| "b64_bytes (a # b # c # d # r) =
     map_option (\<lambda>s. char_of (a * 4 + b div 16) # char_of (b mod 16 * 16 + c div 4) # char_of (c mod 4 * 64 + d) # s) (b64_bytes r)"

definition b64_DecodeString :: "string \<Rightarrow> string option" where
  "b64_DecodeString s =
     (let vs = map b64_val (filter (\<lambda>c. c \<noteq> CHR 0x0A \<and> c \<noteq> CHR 0x0D) s) in
      if None \<in> set vs then None else b64_bytes (map the vs))"

section \<open>Keys\<close>

datatype curve = P256 | P384 | P521

datatype pubkey = RSAKey nat "64 word" | ECKey curve string

definition bit_size :: "curve \<Rightarrow> nat" where
  "bit_size c = (case c of P256 \<Rightarrow> 256 | P384 \<Rightarrow> 384 | P521 \<Rightarrow> 521)"

definition coord_size :: "curve \<Rightarrow> nat" where
  "coord_size c = (bit_size c + 7) div 8"

definition big_int :: "string \<Rightarrow> nat" where
  "big_int bs = foldl (\<lambda>n b. n * 256 + of_char b) 0 bs"

record jwk =
  jw_Kid :: string
  jw_Kty :: string
  jw_Crv :: string
  jw_N :: string
  jw_E :: string
  jw_X :: string
  jw_Y :: string

record oidc_header =
  oh_Alg :: string
  oh_Typ :: string
  oh_Kid :: string

datatype audience = AudString string | AudList "string option list" | AudOther

record oidc_claims =
  oc_Issuer :: string
  oc_Sub :: string
  oc_Audience :: audience
  oc_Expiry :: int
  oc_Email :: string
  oc_PreferredUsername :: string
  oc_Groups :: "string list"

record crypto =
  cr_HMAC :: hmac
  cr_Hash :: "nat \<Rightarrow> string \<Rightarrow> string"
  cr_RSA :: "nat \<Rightarrow> 64 word \<Rightarrow> nat \<Rightarrow> string \<Rightarrow> string \<Rightarrow> err option"
  cr_ECDSA :: "curve \<Rightarrow> string \<Rightarrow> string \<Rightarrow> nat \<Rightarrow> nat \<Rightarrow> bool"
  cr_Point :: "curve \<Rightarrow> string \<Rightarrow> string res"
  cr_Header :: "string \<Rightarrow> oidc_header res"
  cr_Claims :: "string \<Rightarrow> oidc_claims res"
  cr_Keys :: "string \<Rightarrow> jwk list res"

definition b64_err :: err where "b64_err = Err ''illegal base64 data''"

definition b64u :: "string \<Rightarrow> string res" where
  "b64u s = (case b64_DecodeString s of None \<Rightarrow> Inl b64_err | Some b \<Rightarrow> Inr b)"

definition b64uBigInt :: "string \<Rightarrow> nat res" where
  "b64uBigInt s = map_sum id big_int (b64u s)"

definition b64uCoord :: "string \<Rightarrow> nat \<Rightarrow> string res" where
  "b64uCoord s sz =
     (case b64u s of
        Inl e \<Rightarrow> Inl e
      | Inr b \<Rightarrow>
          if length b > sz then Inl (Err (''coordinate is '' @ utoa (length b) @ '' bytes, want at most '' @ utoa sz))
          else Inr (replicate (sz - length b) (CHR 0x00) @ b))"

definition ecPublicKey :: "crypto \<Rightarrow> curve \<Rightarrow> string \<Rightarrow> string \<Rightarrow> pubkey res" where
  "ecPublicKey K c xs ys =
     (case b64uCoord xs (coord_size c) of
        Inl e \<Rightarrow> Inl (Wrap ''oidc: jwk EC x'' e)
      | Inr x \<Rightarrow> (case b64uCoord ys (coord_size c) of
          Inl e \<Rightarrow> Inl (Wrap ''oidc: jwk EC y'' e)
        | Inr y \<Rightarrow> (case cr_Point K c (CHR 0x04 # x @ y) of
            Inl e \<Rightarrow> Inl (Wrap ''oidc: jwk EC point'' e)
          | Inr p \<Rightarrow> Inr (ECKey c p))))"

definition curveFor :: "string \<Rightarrow> curve res" where
  "curveFor crv =
     (if crv = ''P-256'' then Inr P256 else if crv = ''P-384'' then Inr P384 else if crv = ''P-521'' then Inr P521
      else Inl (Err (''oidc: unsupported EC curve '' @ crv)))"

text \<open>The RSA exponent is shifted into a machine \<open>int\<close>: only its last eight bytes count.\<close>

definition exponent :: "string \<Rightarrow> 64 word" where
  "exponent bs = foldl (\<lambda>e b. Bit_Operations.or (push_bit 8 e) (of_nat (of_char b))) 0 bs"

definition publicKey :: "crypto \<Rightarrow> jwk \<Rightarrow> pubkey res" where
  "publicKey K k =
     (if jw_Kty k = ''RSA'' then
        (case b64uBigInt (jw_N k) of
           Inl e \<Rightarrow> Inl (Wrap ''oidc: jwk RSA n'' e)
         | Inr n \<Rightarrow> (case b64u (jw_E k) of
             Inl e \<Rightarrow> Inl (Wrap ''oidc: jwk RSA e'' e)
           | Inr eb \<Rightarrow> if exponent eb = 0 then Inl (Err ''oidc: jwk RSA exponent is zero'') else Inr (RSAKey n (exponent eb))))
      else if jw_Kty k = ''EC'' then
        (case curveFor (jw_Crv k) of Inl e \<Rightarrow> Inl e | Inr c \<Rightarrow> ecPublicKey K c (jw_X k) (jw_Y k))
      else Inl (Err (''oidc: unsupported jwk kty '' @ jw_Kty k)))"

type_synonym key_set = "(string \<times> pubkey) list"

fun parse_keys :: "crypto \<Rightarrow> key_set \<Rightarrow> jwk list \<Rightarrow> key_set res" where
  "parse_keys K out [] = Inr out"
| "parse_keys K out (k # ks) =
     (case publicKey K k of Inl e \<Rightarrow> Inl e | Inr p \<Rightarrow> parse_keys K (AList.update (jw_Kid k) p out) ks)"

definition parseJWKS :: "crypto \<Rightarrow> string \<Rightarrow> key_set res" where
  "parseJWKS K body =
     (case cr_Keys K body of
        Inl e \<Rightarrow> Inl (Wrap ''oidc: parse JWKS'' e)
      | Inr ks \<Rightarrow> (case parse_keys K [] ks of
          Inl e \<Rightarrow> Inl e
        | Inr [] \<Rightarrow> Inl (Err ''oidc: empty JWKS'')
        | Inr out \<Rightarrow> Inr out))"

text \<open>What the HTTP client answers.\<close>

datatype http_answer = HttpErr err | HttpStatus int "string res"

definition fetchJWKS :: "crypto \<Rightarrow> http_answer \<Rightarrow> key_set res" where
  "fetchJWKS K a =
     (case a of
        HttpErr e \<Rightarrow> Inl (Wrap ''oidc: fetch JWKS'' e)
      | HttpStatus n body \<Rightarrow>
          if n \<noteq> 200 then Inl (Err (''oidc: JWKS status '' @ itoa n))
          else (case body of Inl e \<Rightarrow> Inl (Wrap ''oidc: read JWKS'' e) | Inr b \<Rightarrow> parseJWKS K (take (2 ^ 20) b)))"

text \<open>The zero time of Go, before any other, is \<open>None\<close>.\<close>

record jwks =
  jk_ttl :: duration
  jk_minRefresh :: duration
  jk_keys :: key_set
  jk_exp :: "time option"
  jk_lastRefresh :: "time option"

definition NewJWKS :: jwks where
  "NewJWKS = \<lparr>jk_ttl = 3600 * second, jk_minRefresh = 60 * second, jk_keys = [], jk_exp = None, jk_lastRefresh = None\<rparr>"

definition before :: "time \<Rightarrow> time option \<Rightarrow> bool" where
  "before t u = (case u of None \<Rightarrow> False | Some x \<Rightarrow> t < x)"

definition no_key :: "string \<Rightarrow> err" where
  "no_key kid = Err (''oidc: no JWKS key for kid '' @ kid)"

text \<open>
  One call of \<open>Key\<close>: at \<open>t\<close> the cache is read, at \<open>t'\<close> a fetch has come back. The flag says whether
  there was a fetch.
\<close>

definition jwks_Key :: "time \<Rightarrow> time \<Rightarrow> key_set res \<Rightarrow> string \<Rightarrow> jwks \<Rightarrow> (pubkey res \<times> bool) \<times> jwks" where
  "jwks_Key t t' fetched kid j =
     (case (map_of (jk_keys j) kid, before t (jk_exp j)) of
        (Some k, True) \<Rightarrow> ((Inr k, False), j)
      | (found, live) \<Rightarrow>
          if live \<and> before t (map_option (\<lambda>l. l + jk_minRefresh j) (jk_lastRefresh j)) then ((Inl (no_key kid), False), j)
          else (let j = j\<lparr>jk_lastRefresh := Some t'\<rparr>;
                    j = (case fetched of Inr keys \<Rightarrow> j\<lparr>jk_keys := keys, jk_exp := Some (t' + jk_ttl j)\<rparr> | Inl _ \<Rightarrow> j) in
                ((case map_of (jk_keys j) kid of
                    Some k \<Rightarrow> Inr k
                  | None \<Rightarrow> (case fetched of Inl e \<Rightarrow> Inl e | Inr _ \<Rightarrow> Inl (no_key kid)), True), j)))"

section \<open>Tokens of an identity provider\<close>

record oidc_config =
  oi_Issuer :: string
  oi_Audience :: string
  oi_HMACSecret :: string
  oi_Keys :: "(string \<Rightarrow> pubkey res) option"

definition validHMAC :: "crypto \<Rightarrow> string \<Rightarrow> string \<Rightarrow> string \<Rightarrow> bool" where
  "validHMAC K inp sg secret =
     (if secret = [] then False
      else (case b64_DecodeString sg of None \<Rightarrow> False | Some got \<Rightarrow> got = cr_HMAC K secret inp))"

definition hash_bits :: "string \<Rightarrow> nat" where
  "hash_bits alg = (if drop 2 alg = ''384'' then 384 else if drop 2 alg = ''512'' then 512 else 256)"

definition verifyAsymmetric :: "crypto \<Rightarrow> string \<Rightarrow> string \<Rightarrow> string \<Rightarrow> pubkey \<Rightarrow> err option" where
  "verifyAsymmetric K alg signingInput sigB64 key =
     (case b64_DecodeString sigB64 of
        None \<Rightarrow> Some (Wrap ''oidc: decode signature'' b64_err)
      | Some sg \<Rightarrow>
          (let digest = cr_Hash K (hash_bits alg) signingInput in
           if take 2 alg = ''RS'' then
             (case key of
                RSAKey n e \<Rightarrow> (case cr_RSA K n e (hash_bits alg) digest sg of
                    Some er \<Rightarrow> Some (Wrap (''oidc: '' @ alg @ '' verification failed'') er)
                  | None \<Rightarrow> None)
              | _ \<Rightarrow> Some (Err (''oidc: '' @ alg @ '' token but key is *ecdsa.PublicKey'')))
           else if take 2 alg = ''ES'' then
             (case key of
                ECKey c p \<Rightarrow>
                  (let n = coord_size c in
                   if length sg \<noteq> 2 * n then Some (Err (''oidc: '' @ alg @ '' signature length '' @ utoa (length sg) @ '', want '' @ utoa (2 * n)))
                   else if \<not> cr_ECDSA K c p digest (big_int (take n sg)) (big_int (drop n sg))
                   then Some (Err (''oidc: '' @ alg @ '' verification failed''))
                   else None)
              | _ \<Rightarrow> Some (Err (''oidc: '' @ alg @ '' token but key is *rsa.PublicKey'')))
           else Some (Err (''oidc: unsupported alg '' @ alg))))"

definition asymmetric_algs :: "string set" where
  "asymmetric_algs = {''RS256'', ''RS384'', ''RS512'', ''ES256'', ''ES384'', ''ES512''}"

definition verifyJWT :: "crypto \<Rightarrow> oidc_header \<Rightarrow> string \<Rightarrow> string \<Rightarrow> oidc_config \<Rightarrow> err option" where
  "verifyJWT K h signingInput sg cfg =
     (if oh_Alg h = ''HS256'' then
        (if \<not> validHMAC K signingInput sg (oi_HMACSecret cfg) then Some (Err ''oidc: invalid HS256 signature'') else None)
      else if oh_Alg h \<in> asymmetric_algs then
        (case oi_Keys cfg of
           None \<Rightarrow> Some (Err (''oidc: alg '' @ oh_Alg h @ '' requires a JWKS key source''))
         | Some src \<Rightarrow> (case src (oh_Kid h) of
             Inl e \<Rightarrow> Some e
           | Inr key \<Rightarrow> verifyAsymmetric K (oh_Alg h) signingInput sg key))
      else Some (Err (''oidc: unsupported alg '' @ oh_Alg h)))"

definition audienceContains :: "audience \<Rightarrow> string \<Rightarrow> bool" where
  "audienceContains raw want =
     (case raw of AudString s \<Rightarrow> s = want | AudList xs \<Rightarrow> Some want \<in> set xs | AudOther \<Rightarrow> False)"

definition decodeJWT :: "(string \<Rightarrow> 'a res) \<Rightarrow> string \<Rightarrow> 'a res" where
  "decodeJWT dec part = (case b64_DecodeString part of None \<Rightarrow> Inl b64_err | Some b \<Rightarrow> dec b)"

definition oidc_claims_of :: "crypto \<Rightarrow> oidc_config \<Rightarrow> int \<Rightarrow> string \<Rightarrow> oidc_claims res" where
  "oidc_claims_of K cfg unixNow token =
     (case split_on (CHR ''.'') token of
        [p0, p1, p2] \<Rightarrow>
          (case decodeJWT (cr_Header K) p0 of
             Inl e \<Rightarrow> Inl e
           | Inr h \<Rightarrow> (case verifyJWT K h (p0 @ ''.'' @ p1) p2 cfg of
               Some e \<Rightarrow> Inl e
             | None \<Rightarrow> (case decodeJWT (cr_Claims K) p1 of
                 Inl e \<Rightarrow> Inl e
               | Inr c \<Rightarrow>
                   if oc_Issuer c \<noteq> oi_Issuer cfg then Inl (Err ''oidc: issuer mismatch'')
                   else if \<not> audienceContains (oc_Audience c) (oi_Audience cfg) then Inl (Err ''oidc: audience mismatch'')
                   else if oc_Expiry c \<le> unixNow then Inl (Err ''oidc: token expired'')
                   else Inr c)))
      | _ \<Rightarrow> Inl (Err ''oidc: malformed token''))"

fun firstNonEmpty :: "string list \<Rightarrow> string" where
  "firstNonEmpty [] = []"
| "firstNonEmpty (v # vs) = (if v \<noteq> [] then v else firstNonEmpty vs)"

definition OIDC_Identify :: "crypto \<Rightarrow> oidc_config \<Rightarrow> int \<Rightarrow> authenticator" where
  "OIDC_Identify K cfg unixNow token =
     (case oidc_claims_of K cfg unixNow token of
        Inl _ \<Rightarrow> None
      | Inr c \<Rightarrow>
          (let name = firstNonEmpty [oc_PreferredUsername c, oc_Email c, oc_Sub c] in
           if name = [] then None else Some \<lparr>id_Kind = ''human'', id_Name = name, id_Groups = oc_Groups c\<rparr>))"

section \<open>What an accepted token proves\<close>

text \<open>
  The signature a token must carry: an HMAC under a configured secret, or a signature of the family the
  header names by a key of that family which the key source gives for the token's key id.
\<close>

definition signed_by :: "crypto \<Rightarrow> oidc_config \<Rightarrow> oidc_header \<Rightarrow> string \<Rightarrow> string \<Rightarrow> bool" where
  "signed_by K cfg h inp sg \<longleftrightarrow>
     (oh_Alg h = ''HS256'' \<and> oi_HMACSecret cfg \<noteq> [] \<and> sg = cr_HMAC K (oi_HMACSecret cfg) inp) \<or>
     (oh_Alg h \<in> {''RS256'', ''RS384'', ''RS512''} \<and> (\<exists>src n e. oi_Keys cfg = Some src \<and> src (oh_Kid h) = Inr (RSAKey n e) \<and>
        cr_RSA K n e (hash_bits (oh_Alg h)) (cr_Hash K (hash_bits (oh_Alg h)) inp) sg = None)) \<or>
     (oh_Alg h \<in> {''ES256'', ''ES384'', ''ES512''} \<and> (\<exists>src c p. oi_Keys cfg = Some src \<and> src (oh_Kid h) = Inr (ECKey c p) \<and>
        length sg = 2 * coord_size c \<and>
        cr_ECDSA K c p (cr_Hash K (hash_bits (oh_Alg h)) inp) (big_int (take (coord_size c) sg)) (big_int (drop (coord_size c) sg))))"

lemma algs_family:
  assumes "alg \<in> asymmetric_algs"
  shows "(take 2 alg = ''RS'' \<and> alg \<in> {''RS256'', ''RS384'', ''RS512''}) \<or> (take 2 alg = ''ES'' \<and> alg \<in> {''ES256'', ''ES384'', ''ES512''})"
  using assms unfolding asymmetric_algs_def by (elim insertE emptyE) simp_all

lemma verifyAsymmetric_None:
  assumes "verifyAsymmetric K alg inp sg key = None"
  obtains b where "b64_DecodeString sg = Some b"
    "(take 2 alg = ''RS'' \<and> (\<exists>n e. key = RSAKey n e \<and> cr_RSA K n e (hash_bits alg) (cr_Hash K (hash_bits alg) inp) b = None)) \<or>
     (take 2 alg = ''ES'' \<and> (\<exists>c p. key = ECKey c p \<and> length b = 2 * coord_size c \<and>
        cr_ECDSA K c p (cr_Hash K (hash_bits alg) inp) (big_int (take (coord_size c) b)) (big_int (drop (coord_size c) b))))"
  using assms by (auto simp: verifyAsymmetric_def Let_def split: option.splits if_splits pubkey.splits)

lemma verifyJWT_None:
  assumes "verifyJWT K h inp sg cfg = None"
  obtains b where "b64_DecodeString sg = Some b" "signed_by K cfg h inp b"
proof -
  consider "oh_Alg h = ''HS256''" | "oh_Alg h \<noteq> ''HS256''" "oh_Alg h \<in> asymmetric_algs"
    using assms by (auto simp: verifyJWT_def split: if_splits)
  then show ?thesis
  proof cases
    case 1
    then show ?thesis using assms that by (auto simp: verifyJWT_def validHMAC_def signed_by_def split: if_splits option.splits)
  next
    case 2
    then obtain src key where k: "oi_Keys cfg = Some src" "src (oh_Kid h) = Inr key" "verifyAsymmetric K (oh_Alg h) inp sg key = None"
      using assms by (auto simp: verifyJWT_def split: option.splits sum.splits)
    from verifyAsymmetric_None [OF k(3)] obtain b where b: "b64_DecodeString sg = Some b"
      "(take 2 (oh_Alg h) = ''RS'' \<and> (\<exists>n e. key = RSAKey n e \<and> cr_RSA K n e (hash_bits (oh_Alg h)) (cr_Hash K (hash_bits (oh_Alg h)) inp) b = None)) \<or>
       (take 2 (oh_Alg h) = ''ES'' \<and> (\<exists>c p. key = ECKey c p \<and> length b = 2 * coord_size c \<and>
          cr_ECDSA K c p (cr_Hash K (hash_bits (oh_Alg h)) inp) (big_int (take (coord_size c) b)) (big_int (drop (coord_size c) b))))" .
    have "''RS'' \<noteq> ''ES''" by simp
    with b(2) algs_family [OF 2(2)] k(1,2) have "signed_by K cfg h inp b"
      unfolding signed_by_def by metis
    then show ?thesis by (rule that [OF b(1)])
  qed
qed

text \<open>
  C29: what a token must carry to name somebody: three parts, a signature that verifies under the secret
  or a key of the right family, the configured issuer and audience, and an expiry in the future. The
  caller is a human with the first non-empty of the three names. In particular an HMAC token is never
  accepted when no secret is configured, nor checked against a published key.
\<close>

theorem oidc_token_proves:
  assumes "OIDC_Identify K cfg unixNow token = Some i"
  shows "\<exists>p0 p1 p2 b0 b1 b2 h c. split_on (CHR ''.'') token = [p0, p1, p2] \<and>
    b64_DecodeString p0 = Some b0 \<and> cr_Header K b0 = Inr h \<and> b64_DecodeString p1 = Some b1 \<and> cr_Claims K b1 = Inr c \<and>
    b64_DecodeString p2 = Some b2 \<and> signed_by K cfg h (p0 @ ''.'' @ p1) b2 \<and>
    oc_Issuer c = oi_Issuer cfg \<and> audienceContains (oc_Audience c) (oi_Audience cfg) \<and> unixNow < oc_Expiry c \<and>
    id_Kind i = ''human'' \<and> id_Name i \<noteq> [] \<and> id_Groups i = oc_Groups c"
proof -
  obtain c where c: "oidc_claims_of K cfg unixNow token = Inr c" "id_Kind i = ''human''" "id_Name i \<noteq> []" "id_Groups i = oc_Groups c"
    using assms by (auto simp: OIDC_Identify_def Let_def split: sum.splits if_splits)
  then obtain p0 p1 p2 h where p: "split_on (CHR ''.'') token = [p0, p1, p2]" "decodeJWT (cr_Header K) p0 = Inr h"
    "verifyJWT K h (p0 @ ''.'' @ p1) p2 cfg = None" "decodeJWT (cr_Claims K) p1 = Inr c"
    "oc_Issuer c = oi_Issuer cfg" "audienceContains (oc_Audience c) (oi_Audience cfg)" "\<not> oc_Expiry c \<le> unixNow"
    by (auto simp: oidc_claims_of_def split: list.splits sum.splits option.splits if_splits)
  from verifyJWT_None [OF p(3)] obtain b2 where "b64_DecodeString p2 = Some b2" "signed_by K cfg h (p0 @ ''.'' @ p1) b2" .
  moreover obtain b0 b1 where "b64_DecodeString p0 = Some b0" "cr_Header K b0 = Inr h" "b64_DecodeString p1 = Some b1" "cr_Claims K b1 = Inr c"
    using p(2,4) by (auto simp: decodeJWT_def split: option.splits)
  ultimately show ?thesis using p c by auto
qed

subsection \<open>An example\<close>

text \<open>A shared secret, and parts that decode to themselves: the header is \<open>h\<close>, the claims are \<open>c\<close>.\<close>

definition demo_crypto :: crypto where
  "demo_crypto = \<lparr>cr_HMAC = (\<lambda>secret msg. ''ok!''), cr_Hash = (\<lambda>_ s. s), cr_RSA = (\<lambda>_ _ _ _ _. Some (Err [])),
     cr_ECDSA = (\<lambda>_ _ _ _ _. False), cr_Point = (\<lambda>_ p. Inr p),
     cr_Header = (\<lambda>_. Inr \<lparr>oh_Alg = ''HS256'', oh_Typ = [], oh_Kid = []\<rparr>),
     cr_Claims = (\<lambda>_. Inr \<lparr>oc_Issuer = ''idp'', oc_Sub = ''ann'', oc_Audience = AudList [Some ''rollops''], oc_Expiry = 100,
        oc_Email = [], oc_PreferredUsername = [], oc_Groups = [''ops'']\<rparr>),
     cr_Keys = (\<lambda>_. Inr [])\<rparr>"

definition demo_oidc :: oidc_config where
  "demo_oidc = \<lparr>oi_Issuer = ''idp'', oi_Audience = ''rollops'', oi_HMACSecret = ''s3cret'', oi_Keys = None\<rparr>"

lemma demo_parts: "b64_DecodeString ''b2sh'' = Some ''ok!''" "split_on (CHR ''.'') ''aa.bb.b2sh'' = [''aa'', ''bb'', ''b2sh'']"
  "b64_DecodeString ''aa'' = Some ''i''" "b64_DecodeString ''bb'' = Some ''m''"
  by code_simp+

lemma demo_identified:
  "OIDC_Identify demo_crypto demo_oidc 99 ''aa.bb.b2sh'' = Some \<lparr>id_Kind = ''human'', id_Name = ''ann'', id_Groups = [''ops'']\<rparr>"
  by (simp add: OIDC_Identify_def oidc_claims_of_def demo_parts decodeJWT_def verifyJWT_def validHMAC_def demo_crypto_def demo_oidc_def
      audienceContains_def)

theorem oidc_token_proves_witness:
  "\<exists>h (c :: oidc_claims). signed_by demo_crypto demo_oidc h ''aa.bb'' ''ok!'' \<and> oc_Issuer c = ''idp'' \<and> 99 < oc_Expiry c"
  using oidc_token_proves [OF demo_identified] by (simp add: demo_parts demo_oidc_def) blast

section \<open>Static tokens identify exactly\<close>

lemma TokenAuth_known:
  assumes "inj sha256" "distinct (map fst toks)"
  shows "TokenAuth_Identify sha256 toks token = (if token = [] then None else map_of toks token)"
proof -
  have "foldl (\<lambda>found (known, i). if sha256 token = sha256 known then Some i else found) z toks =
      (case map_of toks token of None \<Rightarrow> z | Some i \<Rightarrow> Some i)" for z
    using assms(2)
  proof (induction toks arbitrary: z)
    case (Cons p ps)
    then have "map_of ps (fst p) = None" by (simp add: map_of_eq_None_iff)
    with Cons show ?case using inj_eq [OF assms(1)] by (cases p) (auto split: option.split)
  qed simp
  then show ?thesis by (auto simp: TokenAuth_Identify_def split: option.split)
qed

section \<open>How often keys are fetched\<close>

type_synonym key_call = "time \<times> time \<times> key_set res \<times> string"

fun fetches :: "key_call list \<Rightarrow> jwks \<Rightarrow> nat" where
  "fetches [] j = 0"
| "fetches ((t, t', f, kid) # cs) j =
     (case jwks_Key t t' f kid j of ((_, fetched), j') \<Rightarrow> (if fetched then 1 else 0) + fetches cs j')"

fun always_live :: "key_call list \<Rightarrow> jwks \<Rightarrow> bool" where
  "always_live [] j = True"
| "always_live ((t, t', f, kid) # cs) j = (before t (jk_exp j) \<and> always_live cs (snd (jwks_Key t t' f kid j)))"

fun in_order :: "time \<Rightarrow> key_call list \<Rightarrow> time \<Rightarrow> bool" where
  "in_order a [] b = (a \<le> b)"
| "in_order a ((t, t', f, kid) # cs) b = (a \<le> t \<and> t \<le> t' \<and> in_order t' cs b)"

lemma in_order_le: "in_order a cs b \<Longrightarrow> a \<le> b"
  by (induction cs arbitrary: a) (auto, fastforce)

lemma jwks_Key_step:
  assumes "before t (jk_exp j)" "jwks_Key t t' f kid j = ((r, fetched), j')"
  shows "jk_minRefresh j' = jk_minRefresh j \<and>
    (if fetched then jk_lastRefresh j' = Some t' \<and> \<not> before t (map_option (\<lambda>l. l + jk_minRefresh j) (jk_lastRefresh j)) else j' = j)"
  using assms by (auto simp: jwks_Key_def Let_def split: option.splits if_splits sum.splits)

lemma fetches_after:
  assumes "in_order a cs b" "always_live cs j" "jk_lastRefresh j = Some l" "0 \<le> jk_minRefresh j"
  shows "fetches cs j = 0 \<or> l + int (fetches cs j) * jk_minRefresh j \<le> b"
  using assms
proof (induction cs arbitrary: a j l)
  case (Cons c cs)
  obtain t t' f kid where c: "c = (t, t', f, kid)" by (cases c)
  obtain r fetched j' where k: "jwks_Key t t' f kid j = ((r, fetched), j')" by (metis prod.exhaust)
  note st = jwks_Key_step [OF _ k]
  have live: "before t (jk_exp j)" "always_live cs j'" using Cons.prems(2) by (simp_all add: c k)
  have ord: "t \<le> t'" "in_order t' cs b" using Cons.prems(1) by (simp_all add: c)
  show ?case
  proof (cases fetched)
    case False
    then show ?thesis using Cons.IH [OF ord(2) live(2)] Cons.prems st [OF live(1)] by (simp add: c k)
  next
    case True
    then have j': "jk_lastRefresh j' = Some t'" "jk_minRefresh j' = jk_minRefresh j" "l + jk_minRefresh j \<le> t"
      using st [OF live(1)] Cons.prems(3) by (simp_all add: before_def)
    with Cons.IH [OF ord(2) live(2) j'(1)] Cons.prems(4)
    have "fetches cs j' = 0 \<or> t' + int (fetches cs j') * jk_minRefresh j \<le> b" by simp
    then show ?thesis using True j'(3) ord in_order_le [OF ord(2)] by (auto simp: c k algebra_simps)
  qed
qed simp

text \<open>
  The floor between refetches: as long as the cached key set is live, whatever key ids the calls
  present and whatever the provider answers, the calls of a window of time make at most one fetch per
  refresh interval, and one more.
\<close>

theorem jwks_fetches_bounded:
  assumes "in_order a cs b" "always_live cs j" "0 \<le> jk_minRefresh j"
  shows "int (fetches cs j - 1) * jk_minRefresh j \<le> b - a"
  using assms
proof (induction cs arbitrary: a j)
  case (Cons c cs)
  obtain t t' f kid where c: "c = (t, t', f, kid)" by (cases c)
  obtain r fetched j' where k: "jwks_Key t t' f kid j = ((r, fetched), j')" by (metis prod.exhaust)
  have live: "before t (jk_exp j)" "always_live cs j'" using Cons.prems(2) by (simp_all add: c k)
  have ord: "a \<le> t" "t \<le> t'" "in_order t' cs b" using Cons.prems(1) by (simp_all add: c)
  note st = jwks_Key_step [OF live(1) k]
  show ?case
  proof (cases fetched)
    case False
    then show ?thesis using Cons.IH [OF ord(3) live(2)] Cons.prems(3) st ord by (simp add: c k)
  next
    case True
    then have "fetches cs j' = 0 \<or> t' + int (fetches cs j') * jk_minRefresh j \<le> b"
      using fetches_after [OF ord(3) live(2)] st Cons.prems(3) by simp
    then show ?thesis using True ord in_order_le [OF ord(3)] by (auto simp: c k)
  qed
qed simp

definition demo_jwks :: jwks where
  "demo_jwks = NewJWKS\<lparr>jk_exp := Some (3600 * second)\<rparr>"

definition demo_calls :: "key_call list" where
  "demo_calls = [(0, second, Inl (Err ''down''), ''a''), (2 * second, 3 * second, Inl (Err ''down''), ''b''),
     (61 * second, 62 * second, Inl (Err ''down''), ''c'')]"

theorem jwks_fetches_bounded_witness:
  "fetches demo_calls demo_jwks = 2 \<and> int (2 - 1) * jk_minRefresh demo_jwks \<le> 62 * second - 0"
proof -
  have f: "fetches demo_calls demo_jwks = 2" by code_simp
  have "in_order 0 demo_calls (62 * second)" "always_live demo_calls demo_jwks" "0 \<le> jk_minRefresh demo_jwks"
    by code_simp+
  from jwks_fetches_bounded [OF this] f show ?thesis by simp
qed

text \<open>
  The floor and the lifetime hold only while the provider answers: once the cached set has expired and the
  fetch fails, every call fetches again, and the key that was cached is still returned.
\<close>

lemma expired_key_still_served:
  assumes "\<not> before t (jk_exp j)" "map_of (jk_keys j) kid = Some k"
  shows "fst (jwks_Key t t' (Inl e) kid j) = (Inr k, True)"
  using assms by (simp add: jwks_Key_def)

end
