(* ===== verification/Validate.thy ===== *)
theory Validate
  imports Engine_Gates
begin

text \<open>
  \<^verbatim>\<open>internal/config/validate.go\<close> and \<open>Parse\<close> of \<^verbatim>\<open>config.go\<close>: what \<open>Load\<close> accepts. The YAML
  decoder and the JSON schema validator are third-party code and are the parameters of \<open>loader\<close>;
  the condition language is the \<open>cel\<close> of theory \<open>Risk\<close> and the \<open>metric_cel\<close> of theory
  \<open>Analysis\<close>. Each check of the source is a definition that returns the list of its errors, in
  order. \<open>time.Parse(time.RFC3339, s)\<close> is written out as the grammar it accepts.

  The lemmas \<open>*_ok\<close> say what an empty list of errors means; \<open>Load_ready\<close> puts them together: a
  configuration that loads does not meet the configuration errors of the engine at rollout time.
\<close>

section \<open>RFC3339\<close>

text \<open>
  \<open>getnum\<close>: one or two digits and the rest; with \<open>two\<close> set, exactly two. \<open>tok\<close> consumes one
  byte of the layout.
\<close>

definition getnum :: "bool \<Rightarrow> string \<Rightarrow> (int \<times> string) option" where
  "getnum two s =
     (case s of
        [] \<Rightarrow> None
      | c # r \<Rightarrow>
          if \<not> is_digit c then None
          else (case r of
              d # r' \<Rightarrow> if is_digit d then Some (10 * digit_val c + digit_val d, r') else if two then None else Some (digit_val c, r)
            | [] \<Rightarrow> if two then None else Some (digit_val c, r)))"

definition tok :: "char \<Rightarrow> string \<Rightarrow> string option" where
  "tok c s = (case s of [] \<Rightarrow> None | d # r \<Rightarrow> if c = d then Some r else None)"

definition in_range :: "int \<Rightarrow> int \<Rightarrow> int \<times> string \<Rightarrow> (int \<times> string) option" where
  "in_range lo hi p = (if lo \<le> fst p \<and> fst p \<le> hi then Some p else None)"

definition leap :: "int \<Rightarrow> bool" where
  "leap y = (y mod 4 = 0 \<and> (y mod 100 \<noteq> 0 \<or> y mod 400 = 0))"

definition daysIn :: "int \<Rightarrow> int \<Rightarrow> int" where
  "daysIn m y = (if m = 2 then (if leap y then 29 else 28) else if m \<in> {4, 6, 9, 11} then 30 else 31)"

definition year4 :: "string \<Rightarrow> (int \<times> string) option" where
  "year4 s = (if length s \<ge> 4 \<and> list_all is_digit (take 4 s) then Some (digits_val 0 (take 4 s), drop 4 s) else None)"

definition skip_frac :: "string \<Rightarrow> string" where
  "skip_frac s =
     (case s of
        c # d # r \<Rightarrow> if c \<in> {CHR ''.'', CHR '',''} \<and> is_digit d then dropWhile is_digit r else s
      | _ \<Rightarrow> s)"

definition zone_ok :: "string \<Rightarrow> bool" where
  "zone_ok s =
     (s = ''Z'' \<or>
      (length s = 6 \<and> s ! 0 \<in> {CHR ''+'', CHR ''-''} \<and> s ! 3 = CHR '':'' \<and>
       (case (getnum True [s ! 1, s ! 2], getnum True [s ! 4, s ! 5]) of
          (Some (h, _), Some (m, _)) \<Rightarrow> h \<le> 24 \<and> m \<le> 60
        | _ \<Rightarrow> False)))"

definition rfc3339 :: "string \<Rightarrow> bool" where
  "rfc3339 s =
     (case do {
        (y, s) \<leftarrow> year4 s; s \<leftarrow> tok (CHR ''-'') s;
        (m, s) \<leftarrow> Option.bind (getnum True s) (in_range 1 12); s \<leftarrow> tok (CHR ''-'') s;
        (d, s) \<leftarrow> Option.bind (getnum True s) (in_range 1 (daysIn m y)); s \<leftarrow> tok (CHR ''T'') s;
        (_, s) \<leftarrow> Option.bind (getnum False s) (in_range 0 23); s \<leftarrow> tok (CHR '':'') s;
        (_, s) \<leftarrow> Option.bind (getnum True s) (in_range 0 59); s \<leftarrow> tok (CHR '':'') s;
        (_, s) \<leftarrow> Option.bind (getnum True s) (in_range 0 59);
        Some (skip_frac s)
      } of None \<Rightarrow> False | Some z \<Rightarrow> zone_ok z)"

section \<open>The checks\<close>

definition cerr :: "string \<Rightarrow> err" where "cerr s = Err (''config: '' @ s)"

definition fail_if :: "bool \<Rightarrow> string \<Rightarrow> err list" where
  "fail_if b s = (if b then [cerr s] else [])"

lemma fail_if_Nil [simp]: "fail_if b s = [] \<longleftrightarrow> \<not> b"
  by (simp add: fail_if_def)

definition no_source :: string where
  "no_source = ''kubernetes target must set a manifest source (manifest, manifestFrom, helm, kustomize, oci, or bucket)''"

definition has_key :: "tspec \<Rightarrow> string \<Rightarrow> bool" where
  "has_key sp k = (map_of sp k \<noteq> None)"

definition validateManifestFrom :: "tspec \<Rightarrow> err list" where
  "validateManifestFrom mf =
     (let sel = filter (has_key mf) [''path'', ''kustomize'', ''helm''];
          one = ''spec.target.spec.manifestFrom must set exactly one of path | kustomize | helm'' in
      case sel of
        [] \<Rightarrow> [cerr one]
      | [k] \<Rightarrow>
          if k = ''path'' then fail_if (spec_str mf ''path'' = []) ''spec.target.spec.manifestFrom.path must be a non-empty file path''
          else if k = ''kustomize'' then fail_if (spec_str mf ''kustomize'' = []) ''spec.target.spec.manifestFrom.kustomize must be a non-empty directory or URL''
          else (case map_of mf ''helm'' of
              Some (AMap h) \<Rightarrow> fail_if (spec_str h ''chart'' = []) ''spec.target.spec.manifestFrom.helm.chart is required''
            | _ \<Rightarrow> [cerr ''spec.target.spec.manifestFrom.helm must be a mapping with a chart''])
      | _ \<Rightarrow> [cerr (one @ '', found: '' @ strings_Join sel '', '')])"

definition validateKubernetesManifestSource :: "tspec \<Rightarrow> err list" where
  "validateKubernetesManifestSource sp =
     (let hasInline = (spec_str sp ''manifest'' \<noteq> []);
          flat = filter (has_key sp) [''helm'', ''kustomize'', ''oci'', ''bucket''];
          used = (if hasInline then [''manifest''] else []) @ flat in
      case map_of sp ''manifestFrom'' of
        Some (AMap mf) \<Rightarrow>
          fail_if (used \<noteq> []) (''spec.target.spec.manifestFrom is exclusive; remove the conflicting inline/flat source(s): '' @ strings_Join used '', '') @
          validateManifestFrom mf
      | Some _ \<Rightarrow> [cerr ''spec.target.spec.manifestFrom must be a mapping of path | kustomize | helm'']
      | None \<Rightarrow>
          (if length used = 0 then [cerr no_source]
           else fail_if (length used > 1) (''kubernetes target must set exactly one manifest source, found: '' @ strings_Join used '', '')))"

definition validateTrafficRouting :: "traffic_routing \<Rightarrow> err list" where
  "validateTrafficRouting t =
     (if tr_Provider t = [] then
        fail_if (tr_Plugin t = []) ''trafficRouting.plugin (binary path) is required when no provider is set'' @
        fail_if (tr_SHA256 t = []) ''trafficRouting.sha256 pin is required when no provider is set''
      else fail_if (tr_Provider t \<noteq> ''gateway'') (''trafficRouting.provider '' @ tr_Provider t @ '' must be gateway (or empty for a plugin)'')) @
     fail_if (tr_Route t = []) ''trafficRouting.route is required'' @
     fail_if (tr_StableService t = []) ''trafficRouting.stableService is required'' @
     fail_if (tr_CanaryService t = []) ''trafficRouting.canaryService is required''"

definition validateFeatureFlags :: "feature_flags \<Rightarrow> err list" where
  "validateFeatureFlags f =
     fail_if (ff_Plugin f = []) ''featureFlags.plugin (binary path) is required'' @
     fail_if (ff_SHA256 f = []) ''featureFlags.sha256 pin is required'' @
     fail_if (ff_Flag f = []) ''featureFlags.flag is required'' @
     fail_if (ff_When f \<notin> {[], ''step'', ''promote'', ''both''}) (''featureFlags.when '' @ ff_When f @ '' must be step | promote | both'')"

definition duration_errs :: "string \<Rightarrow> string \<Rightarrow> err list" where
  "duration_errs what s =
     (if s \<noteq> [] then (case ParseDuration s of
          Inl e \<Rightarrow> [Wrap (''config: '' @ what @ '' '' @ s @ '' is not a Go duration'') e]
        | Inr _ \<Rightarrow> []) else [])"

definition validateDatabaseCommand :: "string \<Rightarrow> database_rollback \<Rightarrow> err list" where
  "validateDatabaseCommand path d =
     fail_if (db_Command d = []) (path @ ''.command must not be empty'') @ duration_errs (path @ ''.timeout'') (db_Timeout d)"

definition validateRiskHistory :: "risk_history \<Rightarrow> err list" where
  "validateRiskHistory h =
     fail_if (rh_Lookback h < 0) ''risk.history.lookback must be >= 0'' @
     fail_if (rh_Weight h < 0 \<or> rh_Weight h > 1) ''risk.history.weight must be between 0 and 1'' @
     fail_if (rh_MaxFailures h < 0) ''risk.history.maxFailures must be >= 0''"

text \<open>The template \<open>validateAnalysis\<close> tries has no interval and no provider.\<close>

definition trial_provider :: "unit metrics_provider" where
  "trial_provider = \<lparr>mp_Query = (\<lambda>_. State_Monad.return (Inl (Err []))), mp_QuerySeries = None\<rparr>"

definition trial_New :: "metric_cel \<Rightarrow> cfg_analysis \<Rightarrow> unit analyzer res" where
  "trial_New mc a =
     analysis_New mc (\<lambda>_. State_Monad.return ()) id trial_provider
       \<lparr>tp_Metrics = map (\<lambda>m. \<lparr>mt_Name = am_Name m, mt_Query = am_Query m, mt_Aggregation = am_Aggregation m\<rparr>) (an_Metrics a),
        tp_Condition = an_Condition a, tp_Interval = 0, tp_Count = an_Count a, tp_FailureLimit = an_FailureLimit a\<rparr>"

definition validateAnalysis :: "metric_cel \<Rightarrow> cfg_analysis \<Rightarrow> err list" where
  "validateAnalysis mc a =
     (if an_Plugin a \<noteq> [] then fail_if (an_SHA256 a = []) ''analysis.sha256 pin is required when analysis.plugin is set''
      else
        fail_if (an_Provider a \<noteq> ''prometheus'')
          (''analysis.provider '' @ an_Provider a @ '' is unsupported without a plugin (built-in: prometheus; else set analysis.plugin)'') @
        fail_if (an_Provider a = ''prometheus'' \<and> strings_TrimSpace (an_Address a) = []) ''analysis.address is required for prometheus'') @
     duration_errs ''analysis.interval'' (an_Interval a) @
     (case trial_New mc a of Inl e \<Rightarrow> [Wrap ''config: analysis'' e] | Inr _ \<Rightarrow> [])"

definition validateStrategy :: "string \<Rightarrow> cfg_strategy \<Rightarrow> err list" where
  "validateStrategy path s =
     fail_if (st_Type s = ''canary'' \<and> st_Steps s = []) (path @ '': canary strategy requires at least one step'')"

definition opt_errs :: "('a \<Rightarrow> err list) \<Rightarrow> 'a option \<Rightarrow> err list" where
  "opt_errs f x = (case x of None \<Rightarrow> [] | Some y \<Rightarrow> f y)"

lemma opt_errs_Nil [simp]: "opt_errs f x = [] \<longleftrightarrow> (\<forall>y. x = Some y \<longrightarrow> f y = [])"
  by (auto simp: opt_errs_def split: option.splits)

definition check_errs :: "cel \<Rightarrow> string \<Rightarrow> string \<Rightarrow> err list" where
  "check_errs cl what expr =
     (if expr \<noteq> [] then (case cond_Check cl expr of Some e \<Rightarrow> [Wrap (''config: '' @ what) e] | None \<Rightarrow> []) else [])"

definition env_errs :: "nat \<times> environment \<Rightarrow> err list" where
  "env_errs p = opt_errs (validateStrategy (''environments['' @ utoa (fst p) @ ''].strategy'')) (env_Strategy (snd p))"

definition migrate_errs :: "database_rollback \<Rightarrow> err list" where
  "migrate_errs m =
     validateDatabaseCommand ''database.migrate'' m @
     fail_if (db_When m \<notin> {[], MigratePreDeploy, MigratePostPromote})
       (''database.migrate.when '' @ db_When m @ '' must be '' @ MigratePreDeploy @ '' | '' @ MigratePostPromote)"

definition down_errs :: "database_rollback \<Rightarrow> err list" where
  "down_errs rb =
     validateDatabaseCommand ''database.rollback'' rb @
     fail_if (db_When rb \<noteq> []) ''database.rollback.when is not valid; when applies only to database.migrate''"

definition database_errs :: "database \<Rightarrow> err list" where
  "database_errs d = opt_errs migrate_errs (dbs_Migrate d) @ opt_errs down_errs (dbs_Rollback d)"

definition image_errs :: "tspec \<Rightarrow> image_policy \<Rightarrow> err list" where
  "image_errs sp ip =
     fail_if (ip_Mode ip \<notin> {''none'', ''major'', ''minor'', ''patch'', ''any'', ''digest''})
       (''imagePolicy.mode '' @ ip_Mode ip @ '' must be none | major | minor | patch | any | digest'') @
     fail_if (spec_str sp ''image'' = []) ''imagePolicy requires spec.target.spec.image (the tracked image)''"

definition validateSemantics :: "cel \<Rightarrow> metric_cel \<Rightarrow> config \<Rightarrow> err list" where
  "validateSemantics cl mc c =
     (let s = c_Spec c in
      fail_if (s_Schedule s \<noteq> [] \<and> \<not> rfc3339 (s_Schedule s)) (''schedule '' @ s_Schedule s @ '' is not RFC3339'') @
      concat (map (\<lambda>d. fail_if (d = c_Ref c) (''target '' @ d @ '' cannot depend on itself'')) (s_DependsOn s)) @
      validateStrategy ''spec.strategy'' (s_Strategy s) @
      concat (map env_errs (enumerate 0 (s_Environments s))) @
      check_errs cl ''risk.sensitive'' (rk_Sensitive (s_Risk s)) @
      validateRiskHistory (rk_History (s_Risk s)) @
      check_errs cl ''rollback.trigger'' (rb_Trigger (s_Rollback s)) @
      opt_errs (validateDatabaseCommand ''rollback.database'') (rb_Database (s_Rollback s)) @
      opt_errs database_errs (s_Database s) @
      opt_errs (validateAnalysis mc) (s_Analysis s) @
      opt_errs validateFeatureFlags (s_FeatureFlags s) @
      opt_errs validateTrafficRouting (s_TrafficRouting s) @
      fail_if (s_Verification s \<notin> {[], ''shallow'', ''detect'', ''full''}) (''verification '' @ s_Verification s @ '' must be shallow | detect | full'') @
      (if t_Kind (s_Target s) = ''kubernetes'' then validateKubernetesManifestSource (t_Spec (s_Target s)) else []) @
      opt_errs (image_errs (t_Spec (s_Target s))) (s_ImagePolicy s))"

section \<open>Loading\<close>

text \<open>
  The YAML decoder with unknown fields refused, the compiled schema and its verdict on a document, and
  the two condition languages. \<open>json.Marshal\<close> fails on a target spec that JSON cannot encode.
\<close>

record loader =
  ld_Decode :: "string \<Rightarrow> config res"
  ld_Schema :: "err option"
  ld_Instance :: "config \<Rightarrow> err option"
  ld_Check :: "config \<Rightarrow> err option"
  ld_Cel :: cel
  ld_MetricCel :: metric_cel

abbreviation SchemaVersion :: string where "SchemaVersion \<equiv> ''rollops.klarlabs.de/v1''"
abbreviation Kind :: string where "Kind \<equiv> ''RolloutConfig''"

definition errors_Join :: "err list \<Rightarrow> err option" where
  "errors_Join es = (if es = [] then None else Some (Err (strings_Join (map err_str es) [CHR 0x0A])))"

definition json_Marshal_err :: "config \<Rightarrow> err option" where
  "json_Marshal_err c =
     (if encodable (AMap (t_Spec (c_Target c))) then None else Some (Err ''json: unsupported type''))"

definition Validate :: "loader \<Rightarrow> config \<Rightarrow> err option" where
  "Validate L c =
     (case ld_Schema L of
        Some e \<Rightarrow> Some e
      | None \<Rightarrow> (case json_Marshal_err c of
          Some e \<Rightarrow> Some (Wrap ''config: marshal for validation'' e)
        | None \<Rightarrow> (case ld_Instance L c of
            Some e \<Rightarrow> Some (Wrap ''config: decode for validation'' e)
          | None \<Rightarrow>
              errors_Join ((case ld_Check L c of Some e \<Rightarrow> [Wrap ''config: schema'' e] | None \<Rightarrow> []) @
                           validateSemantics (ld_Cel L) (ld_MetricCel L) c))))"

definition config_Parse :: "loader \<Rightarrow> string \<Rightarrow> config res" where
  "config_Parse L data =
     (case ld_Decode L data of
        Inl e \<Rightarrow> Inl (Wrap ''config: parse'' e)
      | Inr c \<Rightarrow>
          if c_APIVersion c \<noteq> SchemaVersion then
            Inl (cerr (''unsupported apiVersion '' @ c_APIVersion c @ '' (this build supports '' @ SchemaVersion @ '')''))
          else if c_Kind c \<noteq> Kind then Inl (cerr (''unsupported kind '' @ c_Kind c @ '' (want '' @ Kind @ '')''))
          else Inr c)"

definition Load :: "loader \<Rightarrow> string \<Rightarrow> config res" where
  "Load L data =
     (case config_Parse L data of
        Inl e \<Rightarrow> Inl e
      | Inr c \<Rightarrow> (case Validate L c of Some e \<Rightarrow> Inl e | None \<Rightarrow> Inr c))"

section \<open>What a configuration that loads guarantees\<close>

lemma Load_Inr:
  "Load L data = Inr c \<longleftrightarrow>
     ld_Decode L data = Inr c \<and> c_APIVersion c = SchemaVersion \<and> c_Kind c = Kind \<and>
     ld_Schema L = None \<and> encodable (AMap (t_Spec (c_Target c))) \<and> ld_Instance L c = None \<and> ld_Check L c = None \<and>
     validateSemantics (ld_Cel L) (ld_MetricCel L) c = []"
  by (auto simp: Load_def config_Parse_def Validate_def errors_Join_def json_Marshal_err_def
      split: sum.splits option.splits if_splits)

lemma duration_ok: "duration_errs what s = [] \<longleftrightarrow> s = [] \<or> (\<exists>d. ParseDuration s = Inr d)"
  by (auto simp: duration_errs_def split: sum.splits)

lemma check_ok: "check_errs cl what expr = [] \<longleftrightarrow> expr = [] \<or> (\<exists>p. cond_Compile cl expr = Inr p)"
  by (auto simp: check_errs_def cond_Check_def split: sum.splits)

text \<open>Whether \<open>analysis.New\<close> accepts a template does not depend on the provider, the interval or the rounding.\<close>

lemma analysis_New_independent:
  assumes "\<exists>z. analysis_New mc sl fl p t = Inr z"
    and "tp_Metrics t' = tp_Metrics t" "tp_Condition t' = tp_Condition t"
    and "tp_Count t' = tp_Count t" "tp_FailureLimit t' = tp_FailureLimit t"
  shows "\<exists>z. analysis_New mc sl' fl' p' t' = Inr z"
  using assms
  by (auto simp: analysis_New_def eff_count_def Let_def split: if_splits option.splits)

lemma trial_ok:
  assumes "validateAnalysis mc a = []"
  shows "\<exists>z. analysis_New mc sl fl p (analysis_template a) = Inr z"
proof -
  from assms have "\<exists>z. trial_New mc a = Inr z"
    by (auto simp: validateAnalysis_def split: sum.splits)
  then show ?thesis
    unfolding trial_New_def by (rule analysis_New_independent) (simp_all add: analysis_template_def)
qed

text \<open>The manifest sources a Kubernetes target declares.\<close>

definition manifest_sources :: "tspec \<Rightarrow> string list" where
  "manifest_sources sp =
     (if has_key sp ''manifestFrom'' then [''manifestFrom''] else []) @
     (if spec_str sp ''manifest'' \<noteq> [] then [''manifest''] else []) @
     filter (has_key sp) [''helm'', ''kustomize'', ''oci'', ''bucket'']"

lemma one_source:
  assumes "(case mf of Some (AMap m) \<Rightarrow> fail_if (used \<noteq> []) w @ f m | Some _ \<Rightarrow> [e]
    | None \<Rightarrow> if length used = 0 then [e'] else fail_if (length used > 1) w') = []"
  shows "length ((if mf \<noteq> None then [k] else []) @ used) = 1"
  using assms by (cases used) (auto simp: fail_if_def split: option.splits any.splits if_splits)

lemma manifest_source_ok:
  assumes "validateKubernetesManifestSource sp = []"
  shows "length (manifest_sources sp) = 1"
  using assms unfolding validateKubernetesManifestSource_def manifest_sources_def has_key_def [of sp "''manifestFrom''"] Let_def
  by (rule one_source)

definition hook_ok :: "database_rollback \<Rightarrow> bool" where
  "hook_ok d \<longleftrightarrow> db_Command d \<noteq> [] \<and> (db_Timeout d = [] \<or> (\<exists>x. ParseDuration (db_Timeout d) = Inr x))"

lemma database_ok: "validateDatabaseCommand path d = [] \<longleftrightarrow> hook_ok d"
  by (auto simp: validateDatabaseCommand_def hook_ok_def duration_ok)

lemma down_ok: "down_errs d = [] \<Longrightarrow> hook_ok d" "migrate_errs d = [] \<Longrightarrow> hook_ok d"
  by (simp_all add: down_errs_def migrate_errs_def database_ok)

lemma semantics_ok:
  assumes "validateSemantics cl mc c = []"
  shows "s_Schedule (c_Spec c) = [] \<or> rfc3339 (s_Schedule (c_Spec c))"
    and "c_Ref c \<notin> set (s_DependsOn (c_Spec c))"
    and "st_Type (s_Strategy (c_Spec c)) = ''canary'' \<Longrightarrow> st_Steps (s_Strategy (c_Spec c)) \<noteq> []"
    and "rk_Sensitive (s_Risk (c_Spec c)) = [] \<or> (\<exists>p. cond_Compile cl (rk_Sensitive (s_Risk (c_Spec c))) = Inr p)"
    and "rb_Trigger (s_Rollback (c_Spec c)) = [] \<or> (\<exists>p. cond_Compile cl (rb_Trigger (s_Rollback (c_Spec c))) = Inr p)"
    and "s_Analysis (c_Spec c) = Some a \<Longrightarrow> validateAnalysis mc a = []"
    and "rb_Database (s_Rollback (c_Spec c)) = Some d \<Longrightarrow> hook_ok d"
    and "s_Database (c_Spec c) = Some db \<Longrightarrow> database_errs db = []"
    and "t_Kind (c_Target c) = ''kubernetes'' \<Longrightarrow> validateKubernetesManifestSource (t_Spec (c_Target c)) = []"
  using assms unfolding validateSemantics_def Let_def append_is_Nil_conv
  by (auto simp: check_ok database_ok validateStrategy_def)

text \<open>
  C27: a configuration that loads is ready to run: the target does not depend on itself, the canary has
  steps to take, the analysis the gate builds is accepted by \<open>analysis.New\<close>, the two conditions compile,
  every database hook the engine takes from it has a command and a timeout that parses, the migration
  point is one of the two the engine knows, and a Kubernetes target declares exactly one manifest source.
\<close>

theorem Load_ready:
  assumes "Load L data = Inr c"
  shows "(c_Ref c \<notin> set (s_DependsOn (c_Spec c))) \<and>
    (st_Type (s_Strategy (c_Spec c)) = ''canary'' \<longrightarrow> st_Steps (s_Strategy (c_Spec c)) \<noteq> []) \<and>
    (s_Analysis (c_Spec c) = Some a \<longrightarrow> (\<exists>z. analysis_New (ld_MetricCel L) sl fl p (analysis_template a) = Inr z)) \<and>
    (\<forall>expr \<in> {rk_Sensitive (s_Risk (c_Spec c)), rb_Trigger (s_Rollback (c_Spec c))}. expr = [] \<or> (\<exists>q. cond_Compile (ld_Cel L) expr = Inr q)) \<and>
    (DatabaseMigrate (c_Spec c) = Some d \<or> DatabaseRollbackHook (c_Spec c) = Some d \<longrightarrow> db_Command d \<noteq> [] \<and> (db_Timeout d = [] \<or> (\<exists>x. ParseDuration (db_Timeout d) = Inr x))) \<and>
    (DatabaseMigrateWhen (c_Spec c) \<in> {MigratePreDeploy, MigratePostPromote}) \<and>
    (t_Kind (c_Target c) = ''kubernetes'' \<longrightarrow> length (manifest_sources (t_Spec (c_Target c))) = 1)"
proof (intro conjI)
  have v: "validateSemantics (ld_Cel L) (ld_MetricCel L) c = []" using assms by (simp add: Load_Inr)
  note ok = semantics_ok [OF v]
  show "c_Ref c \<notin> set (s_DependsOn (c_Spec c))" by (rule ok)
  show "st_Type (s_Strategy (c_Spec c)) = ''canary'' \<longrightarrow> st_Steps (s_Strategy (c_Spec c)) \<noteq> []"
    using ok(3) by blast
  show "s_Analysis (c_Spec c) = Some a \<longrightarrow> (\<exists>z. analysis_New (ld_MetricCel L) sl fl p (analysis_template a) = Inr z)"
    using ok(6) trial_ok by blast
  show "\<forall>expr \<in> {rk_Sensitive (s_Risk (c_Spec c)), rb_Trigger (s_Rollback (c_Spec c))}.
      expr = [] \<or> (\<exists>q. cond_Compile (ld_Cel L) expr = Inr q)"
    using ok(4,5) by blast
  show "DatabaseMigrate (c_Spec c) = Some d \<or> DatabaseRollbackHook (c_Spec c) = Some d \<longrightarrow>
      db_Command d \<noteq> [] \<and> (db_Timeout d = [] \<or> (\<exists>x. ParseDuration (db_Timeout d) = Inr x))"
    unfolding hook_ok_def [symmetric]
    using ok(7) [of d] ok(8) down_ok [of d]
    by (auto simp: DatabaseMigrate_def DatabaseRollbackHook_def database_errs_def split: option.splits)
  show "DatabaseMigrateWhen (c_Spec c) \<in> {MigratePreDeploy, MigratePostPromote}"
    using ok(8)
    by (auto simp: DatabaseMigrateWhen_def DatabaseMigrate_def database_errs_def migrate_errs_def split: option.splits)
  show "t_Kind (c_Target c) = ''kubernetes'' \<longrightarrow> length (manifest_sources (t_Spec (c_Target c))) = 1"
    using ok(9) manifest_source_ok by blast
qed

definition demo_hook :: database_rollback where
  "demo_hook = \<lparr>db_Command = [''migrate''], db_Timeout = ''30s'', db_When = []\<rparr>"

definition demo_spec :: spec where
  "demo_spec = zero_spec\<lparr>
     s_Target := \<lparr>t_Kind = ''kubernetes'', t_Ref = ''web'', t_Criticality = [], t_Env = [], t_Spec = [(''manifest'', AStr ''kind: Pod'')]\<rparr>,
     s_Strategy := \<lparr>st_Type = ''canary'', st_Steps = [\<lparr>ss_Weight = 10, ss_Pause = ''10minutes''\<rparr>]\<rparr>,
     s_Database := Some \<lparr>dbs_Migrate = Some demo_hook, dbs_Rollback = None, dbs_BackwardCompatible = False\<rparr>,
     s_DependsOn := [''db''], s_Schedule := ''2026-02-28T09:30:00+01:00''\<rparr>"

definition demo_loaded :: config where
  "demo_loaded = zero_config\<lparr>c_Spec := demo_spec\<rparr>"

definition demo_loader :: loader where
  "demo_loader = \<lparr>ld_Decode = (\<lambda>_. Inr demo_loaded), ld_Schema = None, ld_Instance = (\<lambda>_. None), ld_Check = (\<lambda>_. None),
     ld_Cel = demo_cel, ld_MetricCel = demo_metric_cel\<rparr>"

lemma demo_hook_parses: "ParseDuration ''30s'' = Inr 30000000000"
  by code_simp

lemma demo_schedule: "rfc3339 ''2026-02-28T09:30:00+01:00''" "\<not> rfc3339 ''2026-02-29T09:30:00Z''" "rfc3339 ''2024-02-29T9:30:00.5Z''"
  by code_simp+

lemma demo_loads: "Load demo_loader [] = Inr demo_loaded"
  by (simp add: Load_Inr demo_loader_def demo_loaded_def demo_spec_def zero_config_def zero_spec_def
      validateSemantics_def demo_schedule validateStrategy_def check_ok validateRiskHistory_def opt_errs_def
      database_errs_def migrate_errs_def database_ok hook_ok_def demo_hook_def demo_hook_parses
      validateKubernetesManifestSource_def spec_str_def has_key_def Let_def)

text \<open>
  The pause of a step is not checked: a configuration loads with a pause that is not a duration, and the
  plan takes the step without waiting.
\<close>

lemma unparsable_pause_loads:
  "Load demo_loader [] = Inr demo_loaded \<and>
   pl_Steps (PlanFor (s_Strategy (c_Spec demo_loaded))) = [weight_step 10, weight_step 100]"
proof -
  have "is_err (ParseDuration ''10minutes'')" by code_simp
  then show ?thesis
    by (auto simp: is_err_iff demo_loads demo_loaded_def demo_spec_def PlanFor_def fromConfig_def ensureFull_def)
qed

theorem Load_ready_witness:
  "Load demo_loader [] = Inr demo_loaded \<and> c_Ref demo_loaded \<notin> set (s_DependsOn (c_Spec demo_loaded)) \<and>
   db_Command demo_hook \<noteq> [] \<and> length (manifest_sources (t_Spec (c_Target demo_loaded))) = 1"
proof -
  have "DatabaseMigrate (c_Spec demo_loaded) = Some demo_hook" "t_Kind (c_Target demo_loaded) = ''kubernetes''"
    by (simp_all add: DatabaseMigrate_def demo_loaded_def demo_spec_def)
  then show ?thesis
    using Load_ready [OF demo_loads, of _ _ _ _ demo_hook] demo_loads by blast
qed

end
