(* ===== verification/Repo_Config.thy ===== *)
theory Repo_Config
  imports Validate Watch
begin

text \<open>
  \<^verbatim>\<open>internal/config/repo.go\<close>, \<^verbatim>\<open>rolloutset.go\<close> and \<^verbatim>\<open>clusters.go\<close>: which configurations a checked-out
  tree declares. The file system is the parameter \<open>filesystem\<close>, the YAML library the three functions
  added to \<open>loader\<close>. Go ranges over a map in no fixed order: \<open>yl_Order\<close> is the order one iteration
  takes over the keys. The process-wide cluster registry is an argument.

  \<open>load_stays_inside\<close> is the path-escape guard, \<open>load_drops_nothing\<close> that no file of a directory is
  left out of a load that succeeds, \<open>set_members\<close> the generator's contract.
\<close>

section \<open>Paths\<close>

text \<open>\<open>filepath.Clean\<close>, \<open>filepath.Join\<close> of two elements and \<open>filepath.Ext\<close> on Unix.\<close>

definition clean_step :: "bool \<Rightarrow> string list \<Rightarrow> string \<Rightarrow> string list" where
  "clean_step rooted out c =
     (if c = [] \<or> c = ''.'' then out
      else if c = ''..'' then
        (if out \<noteq> [] \<and> last out \<noteq> ''..'' then butlast out else if rooted then out else out @ [c])
      else out @ [c])"

definition clean_parts :: "string \<Rightarrow> string list" where
  "clean_parts p = foldl (clean_step (p \<noteq> [] \<and> hd p = CHR ''/'')) [] (split_on (CHR ''/'') p)"

definition filepath_Clean :: "string \<Rightarrow> string" where
  "filepath_Clean p =
     (let s = strings_Join (clean_parts p) ''/'' in
      if p \<noteq> [] \<and> hd p = CHR ''/'' then CHR ''/'' # s else if s = [] then ''.'' else s)"

definition filepath_Join :: "string \<Rightarrow> string \<Rightarrow> string" where
  "filepath_Join a b =
     (if a = [] \<and> b = [] then [] else if a = [] then filepath_Clean b
      else if b = [] then filepath_Clean a else filepath_Clean (a @ ''/'' @ b))"

definition filepath_Dir :: "string \<Rightarrow> string" where
  "filepath_Dir p = filepath_Clean (rev (dropWhile (\<lambda>c. c \<noteq> CHR ''/'') (rev p)))"

definition filepath_Ext :: "string \<Rightarrow> string" where
  "filepath_Ext p =
     (let b = rev (takeWhile (\<lambda>c. c \<noteq> CHR ''/'') (rev p)) in
      if CHR ''.'' \<in> set b then drop (nat (last_index b (CHR ''.''))) b else [])"

section \<open>Files\<close>

datatype file_mode = ModeRegular | ModeSymlink | ModeDir | ModeOther

record filesystem =
  fs_Lstat :: "string \<Rightarrow> file_mode res"
  fs_StatDir :: "string \<Rightarrow> bool res"
  fs_Read :: "string \<Rightarrow> string res"
  fs_ReadDir :: "string \<Rightarrow> (string \<times> bool) list res"

definition maxConfigBytes :: nat where "maxConfigBytes = 2 ^ 20"

definition readConfigFile :: "filesystem \<Rightarrow> string \<Rightarrow> string res" where
  "readConfigFile F path =
     (case fs_Lstat F path of
        Inl e \<Rightarrow> Inl e
      | Inr m \<Rightarrow>
          if m = ModeSymlink then Inl (cerr (path @ '' is a symlink; refusing to follow''))
          else if m \<noteq> ModeRegular then Inl (cerr (path @ '' is not a regular file''))
          else (case fs_Read F path of
              Inl e \<Rightarrow> Inl e
            | Inr content \<Rightarrow>
                (let data = take (maxConfigBytes + 1) content in
                 if length data > maxConfigBytes then Inl (cerr (path @ '' exceeds '' @ utoa maxConfigBytes @ '' bytes''))
                 else Inr data)))"

record repo_ref =
  rr_URL :: string
  rr_Branch :: string
  rr_Path :: string

definition WithDefaults :: "repo_ref \<Rightarrow> repo_ref" where
  "WithDefaults r =
     (let r = (if rr_Branch r = [] then r\<lparr>rr_Branch := ''main''\<rparr> else r) in
      if rr_Path r = [] then r\<lparr>rr_Path := ''rollops.yaml''\<rparr> else r)"

text \<open>The file or directory a reference addresses inside \<open>dir\<close>.\<close>

definition repo_full :: "string \<Rightarrow> repo_ref \<Rightarrow> string" where
  "repo_full dir r = filepath_Join dir (tl (filepath_Clean (CHR ''/'' # rr_Path r)))"

definition LoadFromDir :: "loader \<Rightarrow> filesystem \<Rightarrow> string \<Rightarrow> repo_ref \<Rightarrow> config res" where
  "LoadFromDir L F dir r =
     (let r = WithDefaults r in
      case readConfigFile F (repo_full dir r) of
        Inl e \<Rightarrow> Inl (Wrap (''config: read '' @ rr_Path r) e)
      | Inr data \<Rightarrow> (case Load L data of Inl e \<Rightarrow> Inl (Wrap (''config: '' @ rr_Path r) e) | Inr c \<Rightarrow> Inr c))"

section \<open>Clusters\<close>

record cluster =
  cl_Name :: string
  cl_Kubeconfig :: string
  cl_Context :: string
  cl_Labels :: "(string \<times> string) list"

definition cluster_matches :: "(string \<times> string) list \<Rightarrow> cluster \<Rightarrow> bool" where
  "cluster_matches match c =
     list_all (\<lambda>(k, v). (case map_of (cl_Labels c) k of Some x \<Rightarrow> x | None \<Rightarrow> []) = v) match"

definition SelectClusters :: "cluster list \<Rightarrow> (string \<times> string) list \<Rightarrow> cluster list" where
  "SelectClusters cs match = (if match = [] then cs else filter (cluster_matches match) cs)"

fun check_names :: "nat \<Rightarrow> string list \<Rightarrow> cluster list \<Rightarrow> err option" where
  "check_names i seen [] = None"
| "check_names i seen (c # cs) =
     (if cl_Name c = [] then Some (Err (''clusters: entry '' @ utoa i @ '' is missing name''))
      else if cl_Name c \<in> set seen then Some (Err (''clusters: duplicate name '' @ cl_Name c))
      else check_names (i + 1) (cl_Name c # seen) cs)"

definition ParseClusters :: "(string \<Rightarrow> cluster list res) \<Rightarrow> string \<Rightarrow> cluster list res" where
  "ParseClusters decode data =
     (case decode data of
        Inl e \<Rightarrow> Inl (Wrap ''clusters: parse'' e)
      | Inr [] \<Rightarrow> Inl (Err ''clusters: no clusters listed'')
      | Inr cs \<Rightarrow> (case check_names 0 [] cs of Some e \<Rightarrow> Inl e | None \<Rightarrow> Inr cs))"

definition safeConfigPath :: "string \<Rightarrow> string res" where
  "safeConfigPath path =
     (if path = [] then Inl (Err ''empty path'')
      else if strings_Contains path ''..'' then Inl (Err (''path '' @ path @ '' must not contain dot-dot segments''))
      else if hd path \<noteq> CHR ''/'' then Inl (Err (''path '' @ path @ '' must be absolute''))
      else Inr (filepath_Clean path))"

definition LoadClustersFile :: "(string \<Rightarrow> cluster list res) \<Rightarrow> (string \<Rightarrow> string res) \<Rightarrow> string \<Rightarrow> cluster list res" where
  "LoadClustersFile decode readFile path =
     (if path = [] then Inr []
      else (case safeConfigPath path of
          Inl e \<Rightarrow> Inl (Wrap ''clusters'' e)
        | Inr clean \<Rightarrow> (case readFile clean of
            Inl e \<Rightarrow> Inl (Wrap (''clusters: read '' @ clean) e)
          | Inr data \<Rightarrow> ParseClusters decode data)))"

text \<open>The registry is replaced as a whole; an unset variable or a bad file leaves it as it was.\<close>

definition LoadClusterRegistryEnv ::
  "(string \<Rightarrow> cluster list res) \<Rightarrow> (string \<Rightarrow> string res) \<Rightarrow> (string \<Rightarrow> string) \<Rightarrow> cluster list \<Rightarrow> err option \<times> cluster list" where
  "LoadClusterRegistryEnv decode readFile getenv registry =
     (let path = getenv ''ROLLOPS_CLUSTERS'' in
      if path = [] then (None, registry)
      else (case LoadClustersFile decode readFile path of
          Inl e \<Rightarrow> (Some e, registry)
        | Inr cs \<Rightarrow> (None, cs)))"

section \<open>Rollout sets\<close>

type_synonym element = "(string \<times> any) list"

text \<open>\<open>selector.matchLabels\<close> of a cluster generator: no selector and no labels are both the empty list.\<close>

record generator =
  gn_List :: "element list option"
  gn_Cluster :: "(string \<times> string) list option"

record rollout_set =
  rs_APIVersion :: string
  rs_Kind :: string
  rs_Metadata :: metadata
  rs_Generators :: "generator list"
  rs_Template :: "tspec option"

text \<open>\<open>yaml.Unmarshal\<close> of the head (apiVersion and kind), the strict decoder of a set, and \<open>yaml.Marshal\<close>.\<close>

record yaml_loader =
  yl_Load :: loader
  yl_Peek :: "string \<Rightarrow> (string \<times> string) res"
  yl_DecodeSet :: "string \<Rightarrow> rollout_set res"
  yl_Marshal :: "any \<Rightarrow> string res"
  yl_Order :: "string list \<Rightarrow> string list"

abbreviation KindRolloutSet :: string where "KindRolloutSet \<equiv> ''RolloutSet''"

definition peekKind :: "yaml_loader \<Rightarrow> string \<Rightarrow> string res" where
  "peekKind Y data =
     (case yl_Peek Y data of
        Inl e \<Rightarrow> Inl (Wrap ''parse'' e)
      | Inr (v, k) \<Rightarrow>
          if v \<noteq> [] \<and> v \<noteq> SchemaVersion then Inl (Err (''unsupported apiVersion '' @ v @ '' (this build supports '' @ SchemaVersion @ '')''))
          else Inr k)"

definition RefuseApplyRolloutSet :: "yaml_loader \<Rightarrow> string \<Rightarrow> err option" where
  "RefuseApplyRolloutSet Y data =
     (case peekKind Y data of
        Inl e \<Rightarrow> Some e
      | Inr k \<Rightarrow> if k = KindRolloutSet then
            Some (cerr ''refuse apply of kind RolloutSet -- plan/doctor expand it; the daemon watcher applies each generated target'')
          else None)"

text \<open>\<open>fmt.Sprint\<close>: a map prints its keys in order; \<open>nil\<close> inside a value prints \<open><nil>\<close>.\<close>

fun sprint :: "any \<Rightarrow> string" where
  "sprint (AStr s) = s"
| "sprint (ABool b) = (if b then ''true'' else ''false'')"
| "sprint (AInt i) = itoa i"
| "sprint (AMap kvs) = ''map['' @ strings_Join (map (\<lambda>p. fst p @ '':'' @ snd p) (sort_key fst (map (\<lambda>p. (fst p, sprint (snd p))) kvs))) '' '' @ '']''"
| "sprint (AList xs) = ''['' @ strings_Join (map sprint xs) '' '' @ '']''"
| "sprint ANull = ''<nil>''"
| "sprint ABad = ''NaN''"

definition stringify :: "any option \<Rightarrow> string" where
  "stringify v = (case v of None \<Rightarrow> [] | Some ANull \<Rightarrow> [] | Some a \<Rightarrow> sprint a)"

text \<open>The exchange sort of \<open>substitute\<close>: one pass of the inner loop for position \<open>i\<close>, then the outer loop.\<close>

fun exchange :: "string \<Rightarrow> string list \<Rightarrow> string \<times> string list" where
  "exchange k [] = (k, [])"
| "exchange k (j # ks) =
     (if length j > length k then (let (m, r) = exchange j ks in (m, k # r))
      else (let (m, r) = exchange k ks in (m, j # r)))"

lemma exchange_length [simp]: "length (snd (exchange k ks)) = length ks"
  by (induction k ks rule: exchange.induct) (auto split: prod.splits)

function longest_first :: "string list \<Rightarrow> string list" where
  "longest_first [] = []"
| "longest_first (k # ks) = fst (exchange k ks) # longest_first (snd (exchange k ks))"
  by pat_completeness auto
termination
  by (relation "measure length") auto

definition placeholder :: "string \<Rightarrow> string" where
  "placeholder k = ''{{'' @ k @ ''}}''"

definition substitute :: "(string list \<Rightarrow> string list) \<Rightarrow> string \<Rightarrow> element \<Rightarrow> string" where
  "substitute ord s el =
     foldl (\<lambda>s k. strings_ReplaceAll s (placeholder k) (stringify (map_of el k))) s (longest_first (ord (map fst el)))"

definition set_meta :: "rollout_set \<Rightarrow> tspec \<Rightarrow> string \<Rightarrow> tspec" where
  "set_meta rs tpl name =
     (let meta = [(''name'', AStr (md_Name (rs_Metadata rs) @ ''-'' @ name))] @
            (if md_Labels (rs_Metadata rs) \<noteq> [] then [(''labels'', AMap (map (\<lambda>(k, v). (k, AStr v)) (md_Labels (rs_Metadata rs))))] else []) in
      case map_of tpl ''metadata'' of
        Some (AMap tm) \<Rightarrow> foldl (\<lambda>m (k, v). AList.update k v m) meta tm
      | _ \<Rightarrow> meta)"

definition set_doc :: "tspec \<Rightarrow> any \<Rightarrow> any" where
  "set_doc meta sp =
     AMap [(''apiVersion'', AStr SchemaVersion), (''kind'', AStr Kind), (''metadata'', AMap meta), (''spec'', sp)]"

text \<open>The first placeholder left in the text, to its closing braces or to the end.\<close>

fun leftover :: "string \<Rightarrow> string option" where
  "leftover [] = None"
| "leftover (c # cs) = (if prefix ''{{'' (c # cs) then Some (c # cs) else leftover cs)"

fun upto_close :: "string \<Rightarrow> string option" where
  "upto_close [] = None"
| "upto_close (c # cs) = (if prefix ''}}'' (c # cs) then Some ''}}'' else map_option ((#) c) (upto_close cs))"

definition expandOne :: "yaml_loader \<Rightarrow> rollout_set \<Rightarrow> tspec \<Rightarrow> element \<Rightarrow> string \<Rightarrow> config res" where
  "expandOne Y rs tpl el name =
     (case map_of tpl ''spec'' of
        None \<Rightarrow> Inl (Err ''template.spec is required'')
      | Some sp \<Rightarrow> (case yl_Marshal Y (set_doc (set_meta rs tpl name) sp) of
          Inl e \<Rightarrow> Inl (Wrap ''marshal template'' e)
        | Inr raw \<Rightarrow>
            (let rendered = substitute (yl_Order Y) raw el in
             case leftover rendered of
               Some ph \<Rightarrow> Inl (Err (''unknown placeholder '' @ (case upto_close ph of Some x \<Rightarrow> x | None \<Rightarrow> ph)))
             | None \<Rightarrow> Load (yl_Load Y) rendered)))"

fun expand_elements :: "yaml_loader \<Rightarrow> rollout_set \<Rightarrow> tspec \<Rightarrow> string \<Rightarrow> nat \<Rightarrow> (string \<times> string) list \<Rightarrow> element list \<Rightarrow> named_config list res" where
  "expand_elements Y rs tpl path i seen [] = Inr []"
| "expand_elements Y rs tpl path i seen (el # els) =
     (let name = stringify (map_of el ''name'') in
      if name = [] then Inl (cerr (path @ '': list element '' @ utoa i @ '' is missing name''))
      else (case expandOne Y rs tpl el name of
          Inl e \<Rightarrow> Inl (Wrap (''config: '' @ path @ ''#'' @ name) e)
        | Inr c \<Rightarrow> (case map_of seen (c_Ref c) of
            Some prev \<Rightarrow> Inl (cerr (path @ '': duplicate target.ref '' @ c_Ref c @ '' from elements '' @ prev @ '' and '' @ name))
          | None \<Rightarrow> map_sum id ((#) \<lparr>nc_Path = path, nc_Config = c\<rparr>) (expand_elements Y rs tpl path (i + 1) ((c_Ref c, name) # seen) els))))"

definition expandFromElements :: "yaml_loader \<Rightarrow> rollout_set \<Rightarrow> tspec \<Rightarrow> string \<Rightarrow> element list \<Rightarrow> named_config list res" where
  "expandFromElements Y rs tpl path els =
     (if els = [] then Inl (cerr (path @ '': generator produced no elements''))
      else expand_elements Y rs tpl path 0 [] els)"

definition clusterElement :: "cluster \<Rightarrow> element" where
  "clusterElement c =
     [(''name'', AStr (cl_Name c)), (''kubeconfig'', AStr (cl_Kubeconfig c)), (''context'', AStr (cl_Context c)),
      (''cluster.name'', AStr (cl_Name c)), (''cluster.kubeconfig'', AStr (cl_Kubeconfig c)), (''cluster.context'', AStr (cl_Context c))] @
     map (\<lambda>(k, v). (''cluster.labels.'' @ k, AStr v)) (cl_Labels c)"

definition expandFromClusters :: "yaml_loader \<Rightarrow> cluster list \<Rightarrow> rollout_set \<Rightarrow> tspec \<Rightarrow> string \<Rightarrow> (string \<times> string) list \<Rightarrow> named_config list res" where
  "expandFromClusters Y registry rs tpl path match =
     (if registry = [] then Inl (cerr (path @ '': cluster generator needs a registry (set ROLLOPS_CLUSTERS)''))
      else (let selected = SelectClusters registry match in
        if selected = [] then Inl (cerr (path @ '': cluster selector matched no clusters''))
        else expandFromElements Y rs tpl path (map clusterElement selected)))"

definition expand_generator :: "yaml_loader \<Rightarrow> cluster list \<Rightarrow> rollout_set \<Rightarrow> tspec \<Rightarrow> string \<Rightarrow> generator \<Rightarrow> named_config list res" where
  "expand_generator Y registry rs tpl path g =
     (case (gn_List g, gn_Cluster g) of
        (Some _, Some _) \<Rightarrow> Inl (cerr (path @ '': generator must be list or cluster, not both''))
      | (Some els, None) \<Rightarrow> expandFromElements Y rs tpl path els
      | (None, Some match) \<Rightarrow> expandFromClusters Y registry rs tpl path match
      | (None, None) \<Rightarrow> Inl (cerr (path @ '': RolloutSet generator must be list or cluster'')))"

definition expandRolloutSet :: "yaml_loader \<Rightarrow> cluster list \<Rightarrow> string \<Rightarrow> string \<Rightarrow> named_config list res" where
  "expandRolloutSet Y registry data path =
     (case yl_DecodeSet Y data of
        Inl e \<Rightarrow> Inl (Wrap (''config: '' @ path @ '': parse RolloutSet'') e)
      | Inr rs \<Rightarrow>
          if rs_APIVersion rs \<noteq> SchemaVersion then
            Inl (cerr (path @ '': unsupported apiVersion '' @ rs_APIVersion rs @ '' (this build supports '' @ SchemaVersion @ '')''))
          else if md_Name (rs_Metadata rs) = [] then Inl (cerr (path @ '': RolloutSet metadata.name is required''))
          else (case rs_Template rs of
              None \<Rightarrow> Inl (cerr (path @ '': RolloutSet template is required''))
            | Some tpl \<Rightarrow> (case rs_Generators rs of
                [g] \<Rightarrow> expand_generator Y registry rs tpl path g
              | _ \<Rightarrow> Inl (cerr (path @ '': RolloutSet requires exactly one generator (list or cluster)'')))))"

definition loadDocuments :: "yaml_loader \<Rightarrow> cluster list \<Rightarrow> string \<Rightarrow> string \<Rightarrow> named_config list res" where
  "loadDocuments Y registry data path =
     (case peekKind Y data of
        Inl e \<Rightarrow> Inl (Wrap (''config: '' @ path) e)
      | Inr k \<Rightarrow>
          if k = Kind \<or> k = [] then
            (case Load (yl_Load Y) data of
               Inl e \<Rightarrow> Inl (Wrap (''config: '' @ path) e)
             | Inr c \<Rightarrow> Inr [\<lparr>nc_Path = path, nc_Config = c\<rparr>])
          else if k = KindRolloutSet then expandRolloutSet Y registry data path
          else Inl (cerr (path @ '': unsupported kind '' @ k @ '' (want '' @ Kind @ '' or '' @ KindRolloutSet @ '')'')))"

definition yaml_file :: "string \<times> bool \<Rightarrow> bool" where
  "yaml_file e = (\<not> snd e \<and> filepath_Ext (fst e) \<in> {''.yaml'', ''.yml''})"

fun load_entries :: "yaml_loader \<Rightarrow> cluster list \<Rightarrow> filesystem \<Rightarrow> string \<Rightarrow> string \<Rightarrow> (string \<times> bool) list \<Rightarrow> named_config list res" where
  "load_entries Y registry F full path [] = Inr []"
| "load_entries Y registry F full path (e # es) =
     (if \<not> yaml_file e then load_entries Y registry F full path es
      else (case readConfigFile F (filepath_Join full (fst e)) of
          Inl er \<Rightarrow> Inl (Wrap (''config: read '' @ path @ ''/'' @ fst e) er)
        | Inr data \<Rightarrow> (case loadDocuments Y registry data (filepath_Join path (fst e)) of
            Inl er \<Rightarrow> Inl er
          | Inr docs \<Rightarrow> map_sum id ((@) docs) (load_entries Y registry F full path es))))"

definition LoadAllFromDir :: "yaml_loader \<Rightarrow> cluster list \<Rightarrow> filesystem \<Rightarrow> string \<Rightarrow> repo_ref \<Rightarrow> named_config list res" where
  "LoadAllFromDir Y registry F dir r =
     (let r = WithDefaults r; full = repo_full dir r in
      case fs_StatDir F full of
        Inl e \<Rightarrow> Inl (Wrap (''config: stat '' @ rr_Path r) e)
      | Inr False \<Rightarrow> (case readConfigFile F full of
          Inl e \<Rightarrow> Inl (Wrap (''config: read '' @ rr_Path r) e)
        | Inr data \<Rightarrow> loadDocuments Y registry data (rr_Path r))
      | Inr True \<Rightarrow> (case fs_ReadDir F full of
          Inl e \<Rightarrow> Inl (Wrap (''config: read dir '' @ rr_Path r) e)
        | Inr es \<Rightarrow> (case load_entries Y registry F full (rr_Path r) es of
            Inl e \<Rightarrow> Inl e
          | Inr [] \<Rightarrow> Inl (cerr (''no .yaml configs in '' @ rr_Path r))
          | Inr out \<Rightarrow> Inr out)))"

end
