(* ===== verification/Surfaces.thy ===== *)
theory Surfaces
  imports Authn Repo_Config
begin

text \<open>
  The three network surfaces over the engine: \<^verbatim>\<open>internal/api/server.go\<close> (REST),
  \<^verbatim>\<open>internal/grpcapi/server.go\<close> (gRPC) and \<^verbatim>\<open>internal/mcp/mcp.go\<close> with \<^verbatim>\<open>auth.go\<close> (MCP). Each handler is
  one definition over the engine operations of the earlier theories. A handler answers a \<open>fault\<close> or the
  body of its response; a fault keeps the class of the error, and \<open>http_status\<close> and \<open>grpc_code\<close> give
  the number each transport writes for it (MCP returns the error itself). A request body decoded from
  JSON is a blob. Routing, headers and the wire formats are left out.

  \<open>server\<close> is the receiver: the engine, the authenticator and the policy, with the YAML loader and the
  outcome of \<open>LoadClusterRegistryEnv\<close> at the time of the request. The loop over the documents of a
  plan, which the three sources repeat word for word, is \<open>plan_docs\<close>.
\<close>

section \<open>Requests and responses\<close>

datatype fault =
    Unauthenticated
  | BadRequest err
  | Denied err
  | Missing err
  | Busy err
  | Internal err
  | Precondition err

definition http_status :: "fault \<Rightarrow> nat" where
  "http_status f =
     (case f of Unauthenticated \<Rightarrow> 401 | BadRequest _ \<Rightarrow> 400 | Denied _ \<Rightarrow> 403 | Missing _ \<Rightarrow> 404 | Busy _ \<Rightarrow> 409
      | Internal _ \<Rightarrow> 500 | Precondition _ \<Rightarrow> 412)"

text \<open>The codes of \<open>google.golang.org/grpc/codes\<close>.\<close>

definition grpc_code :: "fault \<Rightarrow> nat" where
  "grpc_code f =
     (case f of Unauthenticated \<Rightarrow> 16 | BadRequest _ \<Rightarrow> 3 | Denied _ \<Rightarrow> 7 | Missing _ \<Rightarrow> 5 | Busy _ \<Rightarrow> 10
      | Internal _ \<Rightarrow> 13 | Precondition _ \<Rightarrow> 9)"

record plan_view =
  pv_Action :: string
  pv_Changed :: bool
  pv_Summary :: string
  pv_RiskScore :: real
  pv_NeedsApproval :: bool
  pv_Sensitive :: bool
  pv_RecentFailures :: int
  pv_Reason :: string

record status_view =
  sv_ID :: string
  sv_Phase :: phase
  sv_Target :: string
  sv_Note :: string
  sv_RiskScore :: real
  sv_ActorKind :: string
  sv_ActorName :: string

record history_view =
  hv_RolloutID :: string
  hv_Target :: string
  hv_Phase :: phase
  hv_Note :: string
  hv_ActorKind :: string
  hv_ActorName :: string
  hv_At :: time

datatype body =
    BPlan plan_view
  | BApplied string phase string real
  | BStatus status_view strategy
  | BStatusSteps status_view strategy int int int
  | BStatusMCP status_view
  | BFleet fleet_report
  | BAction string phase string string
  | BVerify verify_report
  | BFreeze bool string
  | BRolledBack string phase string
  | BList "status_view list"
  | BHistory "history_view list"
  | BDrift "drift_item list"
  | BHealthy

type_synonym 'a handler = "identity \<Rightarrow> 'a \<Rightarrow> (fault + body) prog"

record server =
  sr_Eng :: env
  sr_Identify :: authenticator
  sr_Policy :: policy
  sr_Yaml :: yaml_loader
  sr_Registry :: "err option \<times> cluster list"

definition scopeOf :: "config \<Rightarrow> scope" where
  "scopeOf c = \<lparr>sc_Env = t_Env (c_Target c), sc_TargetRef = c_Ref c\<rparr>"

abbreviation target_scope :: "string \<Rightarrow> scope" where
  "target_scope ref \<equiv> \<lparr>sc_Env = [], sc_TargetRef = ref\<rparr>"

definition status_view_of :: "rollout \<Rightarrow> status_view" where
  "status_view_of r = \<lparr>sv_ID = r_ID r, sv_Phase = r_Phase r, sv_Target = r_TargetRef r, sv_Note = r_Note r, sv_RiskScore = r_RiskScore r,
     sv_ActorKind = id_Kind (r_Initiator r), sv_ActorName = id_Name (r_Initiator r)\<rparr>"

definition history_view_of :: "rollout_record \<Rightarrow> history_view" where
  "history_view_of h = \<lparr>hv_RolloutID = rr_RolloutID h, hv_Target = rr_TargetRef h, hv_Phase = rr_Phase h, hv_Note = rr_Note h,
     hv_ActorKind = id_Kind (rr_Initiator h), hv_ActorName = id_Name (rr_Initiator h), hv_At = rr_At h\<rparr>"

text \<open>\<open>int32(n)\<close>, and \<open>errors.Is(err, engine.ErrTargetBusy)\<close>.\<close>

definition int32 :: "int \<Rightarrow> int" where
  "int32 n = (n + 2 ^ 31) mod 2 ^ 32 - 2 ^ 31"

fun is_busy :: "err \<Rightarrow> bool" where
  "is_busy ErrTargetBusy = True"
| "is_busy (Wrap p e) = is_busy e"
| "is_busy _ = False"

section \<open>The loop of a plan\<close>

definition plan_action_str :: "plan_action \<Rightarrow> string" where
  "plan_action_str a = (case a of PlanCreate \<Rightarrow> ''create'' | PlanUpdate \<Rightarrow> ''update'' | PlanNoop \<Rightarrow> ''noop'')"

record plan_acc =
  pa_summaries :: "string list"
  pa_view :: plan_view

definition zero_acc :: plan_acc where
  "zero_acc = \<lparr>pa_summaries = [], pa_view = \<lparr>pv_Action = [], pv_Changed = False, pv_Summary = [], pv_RiskScore = 0,
     pv_NeedsApproval = False, pv_Sensitive = False, pv_RecentFailures = 0, pv_Reason = []\<rparr>\<rparr>"

definition add_plan :: "plan_acc \<Rightarrow> plan \<Rightarrow> plan_acc" where
  "add_plan a p =
     (let v = pa_view a; act = plan_action_str (pn_Action p) in
      \<lparr>pa_summaries = pa_summaries a @ [pn_Summary p],
       pa_view = v\<lparr>pv_Changed := (if pn_Changed p then True else pv_Changed v),
         pv_Action := (if pv_Action v = [] then act else if pv_Action v \<noteq> act then ''mixed'' else pv_Action v),
         pv_RiskScore := (if pn_RiskScore p > pv_RiskScore v then pn_RiskScore p else pv_RiskScore v),
         pv_NeedsApproval := (pv_NeedsApproval v \<or> pn_NeedsApproval p),
         pv_Sensitive := (pv_Sensitive v \<or> pn_Sensitive p),
         pv_RecentFailures := (if pn_RecentFailures p > pv_RecentFailures v then pn_RecentFailures p else pv_RecentFailures v),
         pv_Reason := (if pn_RiskReason p \<noteq> [] then pn_RiskReason p else pv_Reason v)\<rparr>\<rparr>)"

fun plan_docs :: "server \<Rightarrow> identity \<Rightarrow> plan_acc \<Rightarrow> named_config list \<Rightarrow> (fault + plan_acc) prog" where
  "plan_docs S who a [] = State_Monad.return (Inr a)"
| "plan_docs S who a (d # ds) =
     (case Authorize (sr_Policy S) who PermPlan (scopeOf (nc_Config d)) of
        Some e \<Rightarrow> State_Monad.return (Inl (Denied e))
      | None \<Rightarrow> do {
          p \<leftarrow> Plan (sr_Eng S) (nc_Config d);
          (case p of
             Inl e \<Rightarrow> State_Monad.return (Inl (Internal e))
           | Inr pl \<Rightarrow> plan_docs S who (add_plan a pl) ds)
        })"

definition plan_summary :: "nat \<Rightarrow> plan_acc \<Rightarrow> plan_view" where
  "plan_summary n a =
     (let joined = strings_Join (pa_summaries a) [CHR 0x0A] in
      (pa_view a)\<lparr>pv_Summary := (if n > 1 then ''RolloutSet '' @ [CHR 0xE2, CHR 0x86, CHR 0x92] @ '' '' @ utoa n @ '' targets'' @ [CHR 0x0A] @ joined else joined)\<rparr>)"

definition plan_data :: "server \<Rightarrow> identity \<Rightarrow> string \<Rightarrow> string \<Rightarrow> (fault + plan_view) prog" where
  "plan_data S who origin data =
     (case fst (sr_Registry S) of
        Some e \<Rightarrow> State_Monad.return (Inl (BadRequest e))
      | None \<Rightarrow> (case loadDocuments (sr_Yaml S) (snd (sr_Registry S)) data origin of
          Inl e \<Rightarrow> State_Monad.return (Inl (BadRequest e))
        | Inr docs \<Rightarrow> do {
            r \<leftarrow> plan_docs S who zero_acc docs;
            State_Monad.return (map_sum id (plan_summary (length docs)) r)
          }))"

section \<open>REST\<close>

text \<open>\<open>readBody\<close> and the JSON decoders read at most one mebibyte.\<close>

definition readBody :: "string res \<Rightarrow> string res" where
  "readBody b = map_sum id (take (2 ^ 20)) b"

definition handlePlan :: "server \<Rightarrow> string res handler" where
  "handlePlan S who b =
     (case readBody b of
        Inl e \<Rightarrow> State_Monad.return (Inl (BadRequest e))
      | Inr data \<Rightarrow> do {
          r \<leftarrow> plan_data S who ''http'' data;
          State_Monad.return (map_sum id BPlan r)
        })"

text \<open>From the decoded configuration on: authorize, plan, apply. \<open>busy\<close> is how the surface tells a busy target.\<close>

definition apply_config :: "(err \<Rightarrow> bool) \<Rightarrow> server \<Rightarrow> identity \<Rightarrow> config \<Rightarrow> (fault + body) prog" where
  "apply_config busy S who c =
     (case Authorize (sr_Policy S) who PermApply (scopeOf c) of
        Some e \<Rightarrow> State_Monad.return (Inl (Denied e))
      | None \<Rightarrow> do {
          p \<leftarrow> Plan (sr_Eng S) c;
          (case p of
             Inl e \<Rightarrow> State_Monad.return (Inl (Internal e))
           | Inr _ \<Rightarrow> do {
               x \<leftarrow> Apply (sr_Eng S) \<lparr>rq_Config = c, rq_Initiator = who, rq_Root = [], rq_Planned = True,
                 rq_NeedsApproval = False, rq_Risk = RiskFromConfig c []\<rparr>;
               State_Monad.return (case x of
                   (_, Some e) \<Rightarrow> if busy e then Inl (Busy e) else Inl (Internal e)
                 | (Some r, None) \<Rightarrow> Inr (BApplied (r_ID r) (r_Phase r) (r_TargetRef r) (r_RiskScore r))
                 | (None, None) \<Rightarrow> Inl (Internal (Err ''engine: apply: no rollout'')))
             })
        })"

definition apply_data :: "(err \<Rightarrow> bool) \<Rightarrow> server \<Rightarrow> identity \<Rightarrow> string \<Rightarrow> (fault + body) prog" where
  "apply_data busy S who data =
     (case RefuseApplyRolloutSet (sr_Yaml S) data of
        Some e \<Rightarrow> State_Monad.return (Inl (BadRequest e))
      | None \<Rightarrow> (case Load (yl_Load (sr_Yaml S)) data of
          Inl e \<Rightarrow> State_Monad.return (Inl (BadRequest e))
        | Inr c \<Rightarrow> apply_config busy S who c))"

definition handleApply :: "server \<Rightarrow> string res handler" where
  "handleApply S who b =
     (case readBody b of
        Inl e \<Rightarrow> State_Monad.return (Inl (BadRequest e))
      | Inr data \<Rightarrow> apply_data is_busy S who data)"

definition status_of :: "(rollout \<Rightarrow> body) \<Rightarrow> server \<Rightarrow> string handler" where
  "status_of view S who rid =
     (case Authorize (sr_Policy S) who PermStatus any_scope of
        Some e \<Rightarrow> State_Monad.return (Inl (Denied e))
      | None \<Rightarrow> do {
          r \<leftarrow> Status (sr_Eng S) rid;
          State_Monad.return (case r of Inl e \<Rightarrow> Inl (Missing e) | Inr rl \<Rightarrow> Inr (view rl))
        })"

definition handleStatus :: "server \<Rightarrow> string handler" where
  "handleStatus S = status_of (\<lambda>r. BStatus (status_view_of r) (r_Strategy r)) S"

definition fleet_of_filter :: "server \<Rightarrow> string handler" where
  "fleet_of_filter S who filt =
     (case Authorize (sr_Policy S) who PermStatus any_scope of
        Some e \<Rightarrow> State_Monad.return (Inl (Denied e))
      | None \<Rightarrow> do {
          r \<leftarrow> FleetStatus (sr_Eng S) filt;
          State_Monad.return (case r of Inl e \<Rightarrow> Inl (BadRequest e) | Inr rep \<Rightarrow> Inr (BFleet rep))
        })"

definition handleFleet :: "server \<Rightarrow> (string \<times> string) handler" where
  "handleFleet S who q = fleet_of_filter S who (if fst q = [] then snd q else fst q)"

text \<open>
  The shared flow of the actions on a rollout, from the identifier on: look the rollout up, authorize on
  its target, run the operation.
\<close>

definition act_on :: "server \<Rightarrow> permission \<Rightarrow> (string \<Rightarrow> identity \<Rightarrow> (rollout \<times> err option) prog) \<Rightarrow> string handler" where
  "act_on S perm oper who rid = do {
     cur \<leftarrow> Status (sr_Eng S) rid;
     (case cur of
        Inl e \<Rightarrow> State_Monad.return (Inl (Missing e))
      | Inr c \<Rightarrow>
          (case Authorize (sr_Policy S) who perm (target_scope (r_TargetRef c)) of
             Some e \<Rightarrow> State_Monad.return (Inl (Denied e))
           | None \<Rightarrow> do {
               x \<leftarrow> oper rid who;
               State_Monad.return (case x of
                   (_, Some e) \<Rightarrow> Inl (Precondition e)
                 | (r, None) \<Rightarrow> Inr (BAction (r_ID r) (r_Phase r) (r_TargetRef r) (r_Note r)))
             }))
   }"

definition id_required :: fault where "id_required = BadRequest (Err ''id required'')"

definition rolloutAction ::
  "server \<Rightarrow> permission \<Rightarrow> (string \<Rightarrow> identity \<Rightarrow> bool \<Rightarrow> (rollout \<times> err option) prog) \<Rightarrow> (string \<times> bool) blob handler" where
  "rolloutAction S perm oper who b =
     (case unblob b of
        Inl _ \<Rightarrow> State_Monad.return (Inl id_required)
      | Inr (rid, force) \<Rightarrow>
          if rid = [] then State_Monad.return (Inl id_required) else act_on S perm (\<lambda>i w. oper i w force) who rid)"

definition handleApprove :: "server \<Rightarrow> (string \<times> bool) blob handler" where
  "handleApprove S = rolloutAction S PermApprove (\<lambda>rid w _. Approve (sr_Eng S) rid w)"
definition handleReject :: "server \<Rightarrow> (string \<times> bool) blob handler" where
  "handleReject S = rolloutAction S PermApprove (\<lambda>rid w _. Reject (sr_Eng S) rid w)"
definition handlePromote :: "server \<Rightarrow> (string \<times> bool) blob handler" where
  "handlePromote S = rolloutAction S PermPromote (\<lambda>rid w force. Promote (sr_Eng S) rid w force)"
definition handlePause :: "server \<Rightarrow> (string \<times> bool) blob handler" where
  "handlePause S = rolloutAction S PermApply (\<lambda>rid w _. Pause (sr_Eng S) rid w)"
definition handleResume :: "server \<Rightarrow> (string \<times> bool) blob handler" where
  "handleResume S = rolloutAction S PermApply (\<lambda>rid w _. Resume (sr_Eng S) rid w)"
definition handleAbort :: "server \<Rightarrow> (string \<times> bool) blob handler" where
  "handleAbort S = rolloutAction S PermApply (\<lambda>rid w _. Abort (sr_Eng S) rid w)"

definition verify_id :: "server \<Rightarrow> string handler" where
  "verify_id S who rid = do {
     cur \<leftarrow> Status (sr_Eng S) rid;
     (case cur of
        Inl e \<Rightarrow> State_Monad.return (Inl (Missing e))
      | Inr c \<Rightarrow>
          (case Authorize (sr_Policy S) who PermPromote (target_scope (r_TargetRef c)) of
             Some e \<Rightarrow> State_Monad.return (Inl (Denied e))
           | None \<Rightarrow> do {
               r \<leftarrow> Verify (sr_Eng S) rid;
               State_Monad.return (case r of Inl e \<Rightarrow> Inl (Precondition e) | Inr rep \<Rightarrow> Inr (BVerify rep))
             }))
   }"

definition handleVerify :: "server \<Rightarrow> string blob handler" where
  "handleVerify S who b =
     (case unblob b of
        Inl _ \<Rightarrow> State_Monad.return (Inl id_required)
      | Inr rid \<Rightarrow> if rid = [] then State_Monad.return (Inl id_required) else verify_id S who rid)"

definition freeze_to :: "server \<Rightarrow> (bool \<times> string) handler" where
  "freeze_to S who b = do {
     r \<leftarrow> Freeze (sr_Eng S) (fst b) who (snd b);
     State_Monad.return (case r of Inl e \<Rightarrow> Inl (Precondition e) | Inr (act, why) \<Rightarrow> Inr (BFreeze act why))
   }"

definition handleFreeze :: "server \<Rightarrow> (bool \<times> string) blob handler" where
  "handleFreeze S who b =
     (case Authorize (sr_Policy S) who PermFreeze any_scope of
        Some e \<Rightarrow> State_Monad.return (Inl (Denied e))
      | None \<Rightarrow> (case unblob b of
          Inl _ \<Rightarrow> State_Monad.return (Inl (BadRequest (Err ''invalid body'')))
        | Inr v \<Rightarrow> freeze_to S who v))"

definition rollback_to :: "server \<Rightarrow> (string \<times> bool) handler" where
  "rollback_to S who b =
     (case Authorize (sr_Policy S) who PermRollback (target_scope (fst b)) of
        Some e \<Rightarrow> State_Monad.return (Inl (Denied e))
      | None \<Rightarrow> do {
          x \<leftarrow> RollbackLast (sr_Eng S) (fst b) (snd b);
          State_Monad.return (case x of
              (_, Some e) \<Rightarrow> Inl (Precondition e)
            | (r, None) \<Rightarrow> Inr (BRolledBack (r_ID r) (r_Phase r) (r_TargetRef r)))
        })"

definition target_required :: fault where "target_required = BadRequest (Err ''target required'')"

definition handleRollback :: "server \<Rightarrow> (string \<times> bool) blob handler" where
  "handleRollback S who b =
     (case unblob b of
        Inl _ \<Rightarrow> State_Monad.return (Inl target_required)
      | Inr v \<Rightarrow> if fst v = [] then State_Monad.return (Inl target_required) else rollback_to S who v)"

text \<open>The routes of \<open>Handler\<close>, and the middleware in front of them.\<close>

datatype http_call =
    PostPlan "string res"
  | PostApply "string res"
  | PostRollback "(string \<times> bool) blob"
  | PostApprove "(string \<times> bool) blob"
  | PostReject "(string \<times> bool) blob"
  | PostPromote "(string \<times> bool) blob"
  | PostPause "(string \<times> bool) blob"
  | PostResume "(string \<times> bool) blob"
  | PostAbort "(string \<times> bool) blob"
  | PostVerify "string blob"
  | PostFreeze "(bool \<times> string) blob"
  | GetRollout string
  | GetFleet "string \<times> string"
  | GetHealthz

fun http_route :: "server \<Rightarrow> identity \<Rightarrow> http_call \<Rightarrow> (fault + body) prog" where
  "http_route S who (PostPlan b) = handlePlan S who b"
| "http_route S who (PostApply b) = handleApply S who b"
| "http_route S who (PostRollback b) = handleRollback S who b"
| "http_route S who (PostApprove b) = handleApprove S who b"
| "http_route S who (PostReject b) = handleReject S who b"
| "http_route S who (PostPromote b) = handlePromote S who b"
| "http_route S who (PostPause b) = handlePause S who b"
| "http_route S who (PostResume b) = handleResume S who b"
| "http_route S who (PostAbort b) = handleAbort S who b"
| "http_route S who (PostVerify b) = handleVerify S who b"
| "http_route S who (PostFreeze b) = handleFreeze S who b"
| "http_route S who (GetRollout rid) = handleStatus S who rid"
| "http_route S who (GetFleet q) = handleFleet S who q"
| "http_route S who GetHealthz = State_Monad.return (Inr BHealthy)"

definition authMiddleware :: "server \<Rightarrow> string \<Rightarrow> http_call \<Rightarrow> (fault + body) prog" where
  "authMiddleware S hdr call =
     (if call = GetHealthz then http_route S zero_identity call
      else (let token = bearer hdr in
        case sr_Identify S token of
          None \<Rightarrow> State_Monad.return (Inl Unauthenticated)
        | Some who \<Rightarrow> if token = [] then State_Monad.return (Inl Unauthenticated) else http_route S who call))"

section \<open>gRPC\<close>

text \<open>\<open>bearerFromMD\<close>: the first value of the metadata; the scheme is optional here.\<close>

definition bearerFromMD :: "string list \<Rightarrow> string" where
  "bearerFromMD vals = (case vals of [] \<Rightarrow> [] | v # _ \<Rightarrow> strings_TrimPrefix v ''Bearer '')"

definition grpc_view :: "plan_view \<Rightarrow> plan_view" where
  "grpc_view v = v\<lparr>pv_RecentFailures := int32 (pv_RecentFailures v)\<rparr>"

definition grpc_Plan :: "server \<Rightarrow> string handler" where
  "grpc_Plan S who data = do {
     r \<leftarrow> plan_data S who ''grpc'' data;
     State_Monad.return (map_sum id (\<lambda>v. BPlan (grpc_view v)) r)
   }"

definition grpc_Apply :: "server \<Rightarrow> string handler" where
  "grpc_Apply S who data = apply_data (\<lambda>e. e = ErrTargetBusy) S who data"

definition grpc_Status :: "server \<Rightarrow> string handler" where
  "grpc_Status S = status_of (\<lambda>r. BStatusSteps (status_view_of r) (r_Strategy r) (int32 (r_StepIndex r)) (int32 (r_StepTotal r)) (int32 (r_StepWeight r))) S"

definition grpc_Rollback :: "server \<Rightarrow> (string \<times> bool) handler" where
  "grpc_Rollback S who v = (if fst v = [] then State_Monad.return (Inl target_required) else rollback_to S who v)"

definition grpc_rolloutAction :: "server \<Rightarrow> permission \<Rightarrow> (string \<Rightarrow> identity \<Rightarrow> (rollout \<times> err option) prog) \<Rightarrow> string handler" where
  "grpc_rolloutAction S perm oper who rid =
     (if rid = [] then State_Monad.return (Inl id_required) else act_on S perm oper who rid)"

definition grpc_Verify :: "server \<Rightarrow> string handler" where
  "grpc_Verify S who rid = (if rid = [] then State_Monad.return (Inl id_required) else verify_id S who rid)"

definition grpc_Freeze :: "server \<Rightarrow> (bool \<times> string) handler" where
  "grpc_Freeze S who v =
     (case Authorize (sr_Policy S) who PermFreeze any_scope of
        Some e \<Rightarrow> State_Monad.return (Inl (Denied e))
      | None \<Rightarrow> freeze_to S who v)"

definition fleet32 :: "fleet_report \<Rightarrow> fleet_report" where
  "fleet32 r = r\<lparr>fr_Total := int32 (fr_Total r), fr_Promoted := int32 (fr_Promoted r), fr_Active := int32 (fr_Active r),
     fr_Degraded := int32 (fr_Degraded r), fr_Awaiting := int32 (fr_Awaiting r)\<rparr>"

definition grpc_FleetStatus :: "server \<Rightarrow> string handler" where
  "grpc_FleetStatus S who filt = do {
     r \<leftarrow> fleet_of_filter S who filt;
     State_Monad.return (case r of Inr (BFleet rep) \<Rightarrow> Inr (BFleet (fleet32 rep)) | _ \<Rightarrow> r)
   }"

datatype rpc_call =
    RpcPlan string
  | RpcApply string
  | RpcStatus string
  | RpcRollback "string \<times> bool"
  | RpcApprove string
  | RpcReject string
  | RpcPromote string bool
  | RpcPause string
  | RpcResume string
  | RpcAbort string
  | RpcVerify string
  | RpcFreeze "bool \<times> string"
  | RpcFleet string

fun rpc_route :: "server \<Rightarrow> identity \<Rightarrow> rpc_call \<Rightarrow> (fault + body) prog" where
  "rpc_route S who (RpcPlan d) = grpc_Plan S who d"
| "rpc_route S who (RpcApply d) = grpc_Apply S who d"
| "rpc_route S who (RpcStatus rid) = grpc_Status S who rid"
| "rpc_route S who (RpcRollback v) = grpc_Rollback S who v"
| "rpc_route S who (RpcApprove rid) = grpc_rolloutAction S PermApprove (Approve (sr_Eng S)) who rid"
| "rpc_route S who (RpcReject rid) = grpc_rolloutAction S PermApprove (Reject (sr_Eng S)) who rid"
| "rpc_route S who (RpcPromote rid force) = grpc_rolloutAction S PermPromote (\<lambda>i w. Promote (sr_Eng S) i w force) who rid"
| "rpc_route S who (RpcPause rid) = grpc_rolloutAction S PermApply (Pause (sr_Eng S)) who rid"
| "rpc_route S who (RpcResume rid) = grpc_rolloutAction S PermApply (Resume (sr_Eng S)) who rid"
| "rpc_route S who (RpcAbort rid) = grpc_rolloutAction S PermApply (Abort (sr_Eng S)) who rid"
| "rpc_route S who (RpcVerify rid) = grpc_Verify S who rid"
| "rpc_route S who (RpcFreeze v) = grpc_Freeze S who v"
| "rpc_route S who (RpcFleet filt) = grpc_FleetStatus S who filt"

definition authInterceptor :: "server \<Rightarrow> string list \<Rightarrow> rpc_call \<Rightarrow> (fault + body) prog" where
  "authInterceptor S md call =
     (let token = bearerFromMD md in
      case sr_Identify S token of
        None \<Rightarrow> State_Monad.return (Inl Unauthenticated)
      | Some who \<Rightarrow> if token = [] then State_Monad.return (Inl Unauthenticated) else rpc_route S who call)"

section \<open>MCP\<close>

definition mcp_Plan :: "server \<Rightarrow> string handler" where
  "mcp_Plan S who data = do {
     r \<leftarrow> plan_data S who ''mcp'' data;
     State_Monad.return (map_sum id BPlan r)
   }"

definition mcp_Apply :: "server \<Rightarrow> string handler" where
  "mcp_Apply S who data = apply_data (\<lambda>_. False) S who data"

definition mcp_Status :: "server \<Rightarrow> string handler" where
  "mcp_Status S = status_of (\<lambda>r. BStatusMCP (status_view_of r)) S"

text \<open>The three reads only this surface has.\<close>

definition read_as :: "server \<Rightarrow> scope \<Rightarrow> 'a res prog \<Rightarrow> ('a \<Rightarrow> body) \<Rightarrow> identity \<Rightarrow> (fault + body) prog" where
  "read_as S sc m view who =
     (case Authorize (sr_Policy S) who PermStatus sc of
        Some e \<Rightarrow> State_Monad.return (Inl (Denied e))
      | None \<Rightarrow> do {
          x \<leftarrow> m;
          State_Monad.return (case x of Inl e \<Rightarrow> Inl (Internal e) | Inr v \<Rightarrow> Inr (view v))
        })"

definition mcp_List :: "server \<Rightarrow> int handler" where
  "mcp_List S who limit = read_as S any_scope (List_rollouts (sr_Eng S) limit) (\<lambda>rs. BList (map status_view_of rs)) who"

definition mcp_History :: "server \<Rightarrow> string handler" where
  "mcp_History S who ref = read_as S (target_scope ref) (st_History (sr_Eng S) ref) (\<lambda>hs. BHistory (map history_view_of hs)) who"

definition mcp_Drift :: "server \<Rightarrow> identity \<Rightarrow> (fault + body) prog" where
  "mcp_Drift S who = read_as S any_scope (DriftReport (sr_Eng S)) BDrift who"

text \<open>The tools that act on a rollout: as over REST, but without its checks that an argument is present.\<close>

definition mcp_Fleet :: "server \<Rightarrow> string handler" where
  "mcp_Fleet S who filt = fleet_of_filter S who filt"

definition mcp_Rollback :: "server \<Rightarrow> (string \<times> bool) handler" where
  "mcp_Rollback S who v = rollback_to S who v"

definition mcp_action ::
  "server \<Rightarrow> permission \<Rightarrow> (string \<Rightarrow> identity \<Rightarrow> (rollout \<times> err option) prog) \<Rightarrow> string handler" where
  "mcp_action S perm oper who rid = act_on S perm oper who rid"

definition mcp_Verify :: "server \<Rightarrow> string handler" where
  "mcp_Verify S who rid = verify_id S who rid"

definition mcp_Freeze :: "server \<Rightarrow> (bool \<times> string) handler" where
  "mcp_Freeze S who v = grpc_Freeze S who v"

datatype tool_call =
    ToolPlan string
  | ToolApply string
  | ToolRollback "string \<times> bool"
  | ToolApprove string
  | ToolReject string
  | ToolPromote string bool
  | ToolPause string
  | ToolResume string
  | ToolAbort string
  | ToolVerify string
  | ToolFreeze "bool \<times> string"
  | ToolStatus string
  | ToolList int
  | ToolHistory string
  | ToolDrift
  | ToolFleet string

fun tool_route :: "server \<Rightarrow> identity \<Rightarrow> tool_call \<Rightarrow> (fault + body) prog" where
  "tool_route S who (ToolPlan d) = mcp_Plan S who d"
| "tool_route S who (ToolApply d) = mcp_Apply S who d"
| "tool_route S who (ToolRollback v) = mcp_Rollback S who v"
| "tool_route S who (ToolApprove rid) = mcp_action S PermApprove (Approve (sr_Eng S)) who rid"
| "tool_route S who (ToolReject rid) = mcp_action S PermApprove (Reject (sr_Eng S)) who rid"
| "tool_route S who (ToolPromote rid force) = mcp_action S PermPromote (\<lambda>i w. Promote (sr_Eng S) i w force) who rid"
| "tool_route S who (ToolPause rid) = mcp_action S PermApply (Pause (sr_Eng S)) who rid"
| "tool_route S who (ToolResume rid) = mcp_action S PermApply (Resume (sr_Eng S)) who rid"
| "tool_route S who (ToolAbort rid) = mcp_action S PermApply (Abort (sr_Eng S)) who rid"
| "tool_route S who (ToolVerify rid) = mcp_Verify S who rid"
| "tool_route S who (ToolFreeze v) = mcp_Freeze S who v"
| "tool_route S who (ToolStatus rid) = mcp_Status S who rid"
| "tool_route S who (ToolList n) = mcp_List S who n"
| "tool_route S who (ToolHistory ref) = mcp_History S who ref"
| "tool_route S who ToolDrift = mcp_Drift S who"
| "tool_route S who (ToolFleet filt) = mcp_Fleet S who filt"

text \<open>
  The transport runs \<open>authorize\<close> on every request and puts what \<open>injectIdentity\<close> resolves into the
  context; \<open>caller\<close> reads it back in the handler.
\<close>

definition mcp_authorize :: "server \<Rightarrow> string \<Rightarrow> bool" where
  "mcp_authorize S hdr = (bearer hdr \<noteq> [] \<and> sr_Identify S (bearer hdr) \<noteq> None)"

definition injectIdentity :: "server \<Rightarrow> string \<Rightarrow> identity option" where
  "injectIdentity S hdr = (if bearer hdr \<noteq> [] then sr_Identify S (bearer hdr) else None)"

definition caller :: "server \<Rightarrow> identity option \<Rightarrow> tool_call \<Rightarrow> (fault + body) prog" where
  "caller S ctx call = (case ctx of None \<Rightarrow> State_Monad.return (Inl Unauthenticated) | Some who \<Rightarrow> tool_route S who call)"

definition mcp_serve :: "server \<Rightarrow> string \<Rightarrow> tool_call \<Rightarrow> (fault + body) prog" where
  "mcp_serve S hdr call =
     (if \<not> mcp_authorize S hdr then State_Monad.return (Inl Unauthenticated) else caller S (injectIdentity S hdr) call)"

end
