(* ===== verification/Repo_Load.thy ===== *)
theory Repo_Load
  imports Repo_Config "HOL-Library.Multiset"
begin

text \<open>
  What loading a repository promises: the contract of a rollout set, that a directory load leaves no
  file out, and that, in a tree with symbolic links, no path of a configuration leads outside the checked-out
  tree, unless a directory of it is a link (\<open>directory_link_escapes\<close>).
\<close>

section \<open>Rollout sets\<close>

lemma map_sum_Inr: "map_sum id f x = Inr y \<longleftrightarrow> (\<exists>z. x = Inr z \<and> y = f z)"
  by (cases x) auto

lemma expand_elements_ok:
  assumes "expand_elements Y rs tpl path i seen els = Inr out"
  shows "length out = length els \<and> distinct (map (\<lambda>nc. c_Ref (nc_Config nc)) out) \<and>
    (\<forall>nc \<in> set out. c_Ref (nc_Config nc) \<notin> fst ` set seen \<and> nc_Path nc = path \<and>
       (\<exists>text. leftover text = None \<and> Load (yl_Load Y) text = Inr (nc_Config nc)))"
  using assms
proof (induction els arbitrary: i seen out)
  case (Cons el els)
  then obtain c rest where *: "expandOne Y rs tpl el (stringify (map_of el ''name'')) = Inr c"
    "map_of seen (c_Ref c) = None" "out = \<lparr>nc_Path = path, nc_Config = c\<rparr> # rest"
    "expand_elements Y rs tpl path (i + 1) ((c_Ref c, stringify (map_of el ''name'')) # seen) els = Inr rest"
    by (auto simp: Let_def map_sum_Inr split: if_splits sum.splits option.splits)
  have "\<exists>text. leftover text = None \<and> Load (yl_Load Y) text = Inr c"
    using *(1) by (auto simp: expandOne_def Let_def split: option.splits sum.splits)
  with * Cons.IH [OF *(4)] show ?case by (auto simp: map_of_eq_None_iff)
qed simp

lemma expandRolloutSet_elements:
  assumes "expandRolloutSet Y registry data path = Inr out"
  obtains rs tpl els where "els \<noteq> []" "expand_elements Y rs tpl path 0 [] els = Inr out"
proof -
  have "\<exists>rs tpl els. expandFromElements Y rs tpl path els = Inr out"
    using assms
    by (auto simp: expandRolloutSet_def expand_generator_def expandFromClusters_def Let_def
        split: sum.splits if_splits option.splits list.splits)
  then show ?thesis using that by (auto simp: expandFromElements_def split: if_splits)
qed

text \<open>
  The contract of a rollout set: a set that expands gives at least one configuration, no two
  with the same target reference, each of them loaded, with full validation, from a text in which no
  placeholder is left.
\<close>

theorem set_members:
  assumes "expandRolloutSet Y registry data path = Inr out"
  shows "out \<noteq> [] \<and> distinct (map (\<lambda>nc. c_Ref (nc_Config nc)) out) \<and>
    (\<forall>nc \<in> set out. nc_Path nc = path \<and> (\<exists>text. leftover text = None \<and> Load (yl_Load Y) text = Inr (nc_Config nc)))"
proof -
  obtain rs tpl els where "els \<noteq> []" "expand_elements Y rs tpl path 0 [] els = Inr out"
    using expandRolloutSet_elements [OF assms] .
  then show ?thesis using expand_elements_ok [of Y rs tpl path 0 "[]" els out] by auto
qed

text \<open>
  Every member carries the path of the set's file, and the watcher keys its failure and drift streaks by
  that path: what it holds back for one member it holds back for all of them.
\<close>

lemma set_members_share_key:
  assumes "expandRolloutSet Y registry data path = Inr out" "cp_nc p \<in> set out" "cp_nc q \<in> set out"
  shows "pair_key r p = pair_key r q" "held f t (pair_key r p) = held f t (pair_key r q)"
proof -
  from expandRolloutSet_elements [OF assms(1)]
  obtain rs tpl els where "expand_elements Y rs tpl path 0 [] els = Inr out" .
  from expand_elements_ok [OF this] assms(2,3) show "pair_key r p = pair_key r q"
    by (simp add: pair_key_def)
  then show "held f t (pair_key r p) = held f t (pair_key r q)" by simp
qed

subsection \<open>The order of substitution\<close>

lemma exchange_mset: "add_mset (fst (exchange k ks)) (mset (snd (exchange k ks))) = add_mset k (mset ks)"
  by (induction k ks rule: exchange.induct) (auto split: prod.splits simp: add_mset_commute)

lemma exchange_max: "length k \<le> length (fst (exchange k ks)) \<and> (\<forall>j \<in> set ks. length j \<le> length (fst (exchange k ks)))"
  by (induction k ks rule: exchange.induct) (auto split: prod.splits)

lemma longest_first_mset [simp]: "mset (longest_first ks) = mset ks"
  by (induction ks rule: longest_first.induct) (simp_all add: exchange_mset)

lemma exchange_below: "j \<in> set (snd (exchange k ks)) \<Longrightarrow> length j \<le> length (fst (exchange k ks))"
proof -
  assume "j \<in> set (snd (exchange k ks))"
  then have "j \<in># add_mset k (mset ks)" using exchange_mset [of k ks] by (metis insert_iff set_mset_add_mset_insert set_mset_mset)
  then show ?thesis using exchange_max [of k ks] by auto
qed

lemma longest_first_set [simp]: "set (longest_first ks) = set ks"
  by (metis longest_first_mset set_mset_mset)

lemma longest_first_sorted: "sorted_wrt (\<lambda>a b. length b \<le> length a) (longest_first ks)"
  by (induction ks rule: longest_first.induct) (auto intro: exchange_below)

text \<open>
  The order settles keys of different lengths only. Two keys of one length are replaced in the order Go
  ranges over the map, so a value that contains another key's placeholder expands on some loads only.
\<close>

lemma substitution_order_matters:
  "substitute id ''{{a}}'' [(''a'', AStr ''{{b}}''), (''b'', AStr ''x'')] = ''x''"
  "substitute rev ''{{a}}'' [(''a'', AStr ''{{b}}''), (''b'', AStr ''x'')] = ''{{b}}''"
  by code_simp+

section \<open>Directories\<close>

lemma load_entries_ok:
  assumes "load_entries Y registry F full path es = Inr out"
  shows "\<exists>docss. out = concat docss \<and>
    list_all2 (\<lambda>e docs. \<exists>data. readConfigFile F (filepath_Join full (fst e)) = Inr data \<and>
      loadDocuments Y registry data (filepath_Join path (fst e)) = Inr docs) (filter yaml_file es) docss"
  using assms
proof (induction es arbitrary: out)
  case (Cons e es)
  show ?case
  proof (cases "yaml_file e")
    case False
    with Cons show ?thesis by simp
  next
    case True
    with Cons.prems obtain data docs rest where "readConfigFile F (filepath_Join full (fst e)) = Inr data"
      "loadDocuments Y registry data (filepath_Join path (fst e)) = Inr docs" "out = docs @ rest"
      "load_entries Y registry F full path es = Inr rest"
      by (auto simp: map_sum_Inr split: sum.splits)
    moreover from Cons.IH [OF this(4)] obtain docss where "rest = concat docss"
      "list_all2 (\<lambda>e docs. \<exists>data. readConfigFile F (filepath_Join full (fst e)) = Inr data \<and>
        loadDocuments Y registry data (filepath_Join path (fst e)) = Inr docs) (filter yaml_file es) docss" by blast
    ultimately show ?thesis using True by (intro exI [of _ "docs # docss"]) simp
  qed
qed simp

text \<open>
  One bad file fails the whole load: when a directory loads, every YAML file in it was read and all
  the configurations it declares are in the result, in order, and the result is not empty.
\<close>

theorem load_drops_nothing:
  assumes "LoadAllFromDir Y registry F dir r = Inr out"
    and "fs_StatDir F (repo_full dir (WithDefaults r)) = Inr True"
    and "fs_ReadDir F (repo_full dir (WithDefaults r)) = Inr es"
  shows "out \<noteq> [] \<and> (\<exists>docss. out = concat docss \<and>
    list_all2 (\<lambda>e docs. \<exists>data. readConfigFile F (filepath_Join (repo_full dir (WithDefaults r)) (fst e)) = Inr data \<and>
      loadDocuments Y registry data (filepath_Join (rr_Path (WithDefaults r)) (fst e)) = Inr docs) (filter yaml_file es) docss)"
proof -
  have "out \<noteq> []" "load_entries Y registry F (repo_full dir (WithDefaults r)) (rr_Path (WithDefaults r)) es = Inr out"
    using assms by (auto simp: LoadAllFromDir_def Let_def split: sum.splits list.splits)
  with load_entries_ok [OF this(2)] show ?thesis by blast
qed

section \<open>Paths\<close>

text \<open>A segment that \<open>Clean\<close> keeps, and the shape of a cleaned path: dot-dots, only when not rooted, then such segments.\<close>

definition rooted :: "string \<Rightarrow> bool" where
  "rooted p \<longleftrightarrow> p \<noteq> [] \<and> hd p = CHR ''/''"

definition segment :: "string \<Rightarrow> bool" where
  "segment q \<longleftrightarrow> q \<noteq> [] \<and> q \<noteq> ''.'' \<and> q \<noteq> ''..'' \<and> CHR ''/'' \<notin> set q"

definition cleaned :: "bool \<Rightarrow> string list \<Rightarrow> bool" where
  "cleaned r ps \<longleftrightarrow> (\<exists>n ns. ps = replicate n ''..'' @ ns \<and> list_all segment ns \<and> (r \<longrightarrow> n = 0))"

lemma dotdot_step:
  "clean_step r (replicate n ''..'') ''..'' = (if r then replicate n ''..'' else replicate (Suc n) ''..'')"
  by (cases "n = 0") (simp_all add: clean_step_def last_replicate replicate_append_same)

lemma clean_step_keeps:
  assumes "cleaned r out" "CHR ''/'' \<notin> set c"
  shows "cleaned r (clean_step r out c)"
proof -
  obtain n ns where out: "out = replicate n ''..'' @ ns" "list_all segment ns" "r \<longrightarrow> n = 0"
    using assms(1) by (auto simp: cleaned_def)
  consider "c = [] \<or> c = ''.''" | "c = ''..''" | "segment c"
    using assms(2) by (auto simp: segment_def)
  then show ?thesis
  proof cases
    case 1
    then show ?thesis using assms(1) by (simp add: clean_step_def)
  next
    case 3
    then have "clean_step r out c = replicate n ''..'' @ (ns @ [c])" by (simp add: clean_step_def segment_def out)
    moreover have "list_all segment (ns @ [c])" using 3 out(2) by simp
    ultimately show ?thesis using out(3) unfolding cleaned_def by blast
  next
    case 2
    show ?thesis
    proof (cases ns rule: rev_cases)
      case Nil
      then have "out = replicate n ''..''" using out(1) by simp
      then have "clean_step r out c = (if r then replicate n ''..'' else replicate (Suc n) ''..'')"
        using dotdot_step [of r n] 2 by simp
      then have "\<exists>m. clean_step r out c = replicate m ''..'' @ [] \<and> (r \<longrightarrow> m = 0)"
        using out(3) by (metis append_Nil2)
      then show ?thesis unfolding cleaned_def using list.pred_inject(1) by blast
    next
      case (snoc ms m)
      then have "clean_step r out c = replicate n ''..'' @ ms"
        using 2 out by (auto simp: clean_step_def segment_def butlast_append)
      moreover have "list_all segment ms" using out(2) snoc by simp
      ultimately show ?thesis using out(3) unfolding cleaned_def by blast
    qed
  qed
qed

lemma cleaned_foldl:
  "cleaned r out \<Longrightarrow> (\<And>q. q \<in> set qs \<Longrightarrow> CHR ''/'' \<notin> set q) \<Longrightarrow> cleaned r (foldl (clean_step r) out qs)"
  by (induction qs arbitrary: out) (simp_all add: clean_step_keeps)

lemma cleaned_parts: "cleaned (rooted p) (clean_parts p)"
  unfolding clean_parts_def rooted_def [symmetric]
  by (rule cleaned_foldl) (auto simp: cleaned_def dest: split_on_pieces)

lemma foldl_segments: "list_all segment qs \<Longrightarrow> foldl (clean_step r) out qs = out @ qs"
  by (induction qs arbitrary: out) (simp_all add: clean_step_def segment_def)

lemma foldl_dotdots: "foldl (clean_step False) (replicate k ''..'') (replicate n ''..'') = replicate (k + n) ''..''"
proof (induction n arbitrary: k)
  case (Suc n)
  show ?case using Suc [of "Suc k"] dotdot_step [of False k] by simp
qed simp

lemma foldl_cleaned: "cleaned r ps \<Longrightarrow> foldl (clean_step r) [] ps = ps"
  using foldl_dotdots [of 0] by (auto simp: cleaned_def foldl_segments)

lemma cleaned_no_slash: "cleaned r ps \<Longrightarrow> q \<in> set ps \<Longrightarrow> q \<noteq> [] \<and> CHR ''/'' \<notin> set q"
proof -
  assume "cleaned r ps" "q \<in> set ps"
  then consider "q = ''..''" | "segment q" by (auto simp: cleaned_def list_all_iff)
  then show ?thesis by cases (simp_all add: segment_def)
qed

lemma foldl_no_dotdot: "''..'' \<notin> set qs \<Longrightarrow> prefix out (foldl (clean_step r) out qs)"
proof (induction qs arbitrary: out)
  case (Cons q qs)
  then have "prefix out (clean_step r out q)" by (auto simp: clean_step_def)
  with Cons show ?case by (auto intro: prefix_order.trans)
qed simp

lemma clean_parts_foldl: "clean_parts p = foldl (clean_step (rooted p)) [] (split_on (CHR ''/'') p)"
  by (simp add: clean_parts_def rooted_def)

lemma Join_head:
  assumes "cleaned r ps" "ps \<noteq> []"
  shows "strings_Join ps sep \<noteq> [] \<and> \<not> rooted (strings_Join ps sep)"
proof -
  obtain q qs where q: "ps = q # qs" using assms(2) by (cases ps) auto
  with cleaned_no_slash [OF assms(1), of q] have "q \<noteq> []" "CHR ''/'' \<notin> set q" by simp_all
  then show ?thesis unfolding q by (cases q; cases qs) (auto simp: rooted_def)
qed

lemma Clean_parts: "clean_parts (filepath_Clean p) = clean_parts p \<and> rooted (filepath_Clean p) = rooted p"
proof -
  let ?ps = "clean_parts p" and ?s = "strings_Join (clean_parts p) ''/''"
  have c: "cleaned (rooted p) ?ps" by (rule cleaned_parts)
  have again: "foldl (clean_step (rooted p)) [] (split_on (CHR ''/'') ?s) = ?ps"
  proof (cases "?ps = []")
    case True
    then show ?thesis by (simp add: clean_step_def)
  next
    case False
    then have "split_on (CHR ''/'') ?s = ?ps" using cleaned_no_slash [OF c] by (intro split_on_Join) auto
    then show ?thesis by (simp add: foldl_cleaned [OF c])
  qed
  show ?thesis
  proof (cases "rooted p")
    case True
    then have "filepath_Clean p = CHR ''/'' # ?s" by (simp add: filepath_Clean_def rooted_def Let_def)
    with again True show ?thesis by (simp add: clean_parts_foldl [of "CHR ''/'' # ?s"] rooted_def clean_step_def)
  next
    case False
    then have e: "filepath_Clean p = (if ?s = [] then ''.'' else ?s)" by (auto simp: filepath_Clean_def rooted_def Let_def)
    show ?thesis
    proof (cases "?ps = []")
      case True
      then show ?thesis using False by (simp add: e rooted_def clean_parts_def clean_step_def)
    next
      case ne: False
      have "?s \<noteq> []" "\<not> rooted ?s" using Join_head [OF c ne] by auto
      with again False show ?thesis by (simp add: e clean_parts_foldl [of ?s])
    qed
  qed
qed

definition inside :: "string \<Rightarrow> string \<Rightarrow> bool" where
  "inside dir p \<longleftrightarrow> rooted p = rooted dir \<and> prefix (clean_parts dir) (clean_parts p)"

lemma inside_trans: "inside a b \<Longrightarrow> inside b c \<Longrightarrow> inside a c"
  by (auto simp: inside_def intro: prefix_order.trans)

lemma inside_Join:
  assumes "dir \<noteq> []" "''..'' \<notin> set (split_on (CHR ''/'') b)"
  shows "inside dir (filepath_Join dir b)"
proof (cases "b = []")
  case True
  then show ?thesis using assms(1) by (simp add: filepath_Join_def inside_def Clean_parts)
next
  case False
  have r: "rooted (dir @ ''/'' @ b) = rooted dir" using assms(1) by (simp add: rooted_def)
  then have "clean_parts (dir @ ''/'' @ b) = foldl (clean_step (rooted dir)) (clean_parts dir) (split_on (CHR ''/'') b)"
    using split_on_append [of "CHR ''/''" dir b] by (simp add: clean_parts_foldl)
  then show ?thesis
    using assms False r by (simp add: filepath_Join_def inside_def Clean_parts foldl_no_dotdot)
qed

lemma repo_full_inside:
  assumes "dir \<noteq> []"
  shows "inside dir (repo_full dir r)"
proof -
  let ?ps = "clean_parts (CHR ''/'' # rr_Path r)"
  have c: "cleaned True ?ps" using cleaned_parts [of "CHR ''/'' # rr_Path r"] by (simp add: rooted_def)
  have "''..'' \<notin> set ?ps" using c by (auto simp: cleaned_def segment_def list_all_iff)
  moreover have "split_on (CHR ''/'') (strings_Join ?ps ''/'') = (if ?ps = [] then [[]] else ?ps)"
    using cleaned_no_slash [OF c] by (auto intro!: split_on_Join)
  ultimately have "''..'' \<notin> set (split_on (CHR ''/'') (strings_Join ?ps ''/''))" by simp
  then show ?thesis
    using inside_Join [OF assms] by (simp add: repo_full_def filepath_Clean_def Let_def)
qed

section \<open>The tree of files\<close>

text \<open>
  The files of the host as a tree with symbolic links. \<open>fs_walk\<close> is how the kernel resolves a path: it follows every link on
  the way, and the last one when \<open>fol\<close> says so, at most \<open>k\<close> of them; \<open>..\<close> leads to the parent of where a link led.
\<close>

datatype node = NFile string | NOther | NLink string | NDir "(string \<times> node) list"

fun lookup :: "node \<Rightarrow> string list \<Rightarrow> node option" where
  "lookup t [] = Some t"
| "lookup (NDir es) (c # cs) = (case map_of es c of None \<Rightarrow> None | Some t \<Rightarrow> lookup t cs)"
| "lookup _ (c # cs) = None"

definition is_link :: "node option \<Rightarrow> bool" where
  "is_link x = (case x of Some (NLink _) \<Rightarrow> True | _ \<Rightarrow> False)"

abbreviation comps :: "string \<Rightarrow> string list" where
  "comps p \<equiv> filter (\<lambda>c. c \<noteq> []) (split_on (CHR ''/'') p)"

function fs_walk :: "nat \<Rightarrow> node \<Rightarrow> bool \<Rightarrow> string list \<Rightarrow> string list \<Rightarrow> node option" where
  "fs_walk k T fol cur [] = lookup T cur"
| "fs_walk k T fol cur (c # cs) =
     (if c = ''.'' \<or> c = ''..'' then
        (case lookup T cur of Some (NDir _) \<Rightarrow> fs_walk k T fol (if c = ''.'' then cur else butlast cur) cs | _ \<Rightarrow> None)
      else (case lookup T (cur @ [c]) of
          None \<Rightarrow> None
        | Some (NLink t) \<Rightarrow>
            if cs = [] \<and> \<not> fol then Some (NLink t)
            else (case k of 0 \<Rightarrow> None | Suc j \<Rightarrow> fs_walk j T fol (if rooted t then [] else cur) (comps t @ cs))
        | Some _ \<Rightarrow> fs_walk k T fol (cur @ [c]) cs))"
  by pat_completeness auto
termination
  by (relation "measures [\<lambda>(k, _). k, \<lambda>(_, _, _, _, cs). length cs]") auto

text \<open>The calls of package \<open>os\<close> on absolute paths; the kernel follows forty links.\<close>

definition missing :: err where "missing = Err ''no such file or directory''"

definition node_mode :: "node \<Rightarrow> file_mode" where
  "node_mode n = (case n of NFile _ \<Rightarrow> ModeRegular | NOther \<Rightarrow> ModeOther | NLink _ \<Rightarrow> ModeSymlink | NDir _ \<Rightarrow> ModeDir)"

definition fs_of :: "node \<Rightarrow> filesystem" where
  "fs_of T =
     \<lparr>fs_Lstat = (\<lambda>p. case fs_walk 40 T False [] (comps p) of None \<Rightarrow> Inl missing | Some n \<Rightarrow> Inr (node_mode n)),
      fs_StatDir = (\<lambda>p. case fs_walk 40 T True [] (comps p) of None \<Rightarrow> Inl missing | Some n \<Rightarrow> Inr (node_mode n = ModeDir)),
      fs_Read = (\<lambda>p. case fs_walk 40 T True [] (comps p) of Some (NFile data) \<Rightarrow> Inr data | _ \<Rightarrow> Inl missing),
      fs_ReadDir = (\<lambda>p. case fs_walk 40 T True [] (comps p) of
          Some (NDir es) \<Rightarrow> Inr (map (\<lambda>e. (fst e, node_mode (snd e) = ModeDir)) es)
        | _ \<Rightarrow> Inl missing)\<rparr>"

lemma lookup_append: "lookup t (xs @ ys) = Option.bind (lookup t xs) (\<lambda>u. lookup u ys)"
  by (induction t xs rule: lookup.induct) (auto split: option.splits)

lemma walk_plain:
  assumes "list_all segment cs" "\<And>i. 0 < i \<Longrightarrow> i < length cs \<Longrightarrow> \<not> is_link (lookup T (cur @ take i cs))"
    and "fol \<Longrightarrow> cs \<noteq> [] \<Longrightarrow> \<not> is_link (lookup T (cur @ cs))"
  shows "fs_walk k T fol cur cs = lookup T (cur @ cs)"
  using assms
proof (induction cs arbitrary: cur)
  case (Cons c cs)
  have c: "c \<noteq> ''.''" "c \<noteq> ''..''" using Cons.prems(1) by (simp_all add: segment_def)
  have rest: "fs_walk k T fol (cur @ [c]) cs = lookup T ((cur @ [c]) @ cs)"
  proof (rule Cons.IH)
    fix i
    assume "0 < i" "i < length cs"
    then show "\<not> is_link (lookup T ((cur @ [c]) @ take i cs))" using Cons.prems(2) [of "Suc i"] by simp
  qed (use Cons.prems in simp_all)
  show ?case
  proof (cases "lookup T (cur @ [c])")
    case None
    then have "lookup T ((cur @ [c]) @ cs) = None" unfolding lookup_append [of T "cur @ [c]"] by simp
    then show ?thesis using c None by simp
  next
    case (Some n)
    have "cs = [] \<and> \<not> fol" if "n = NLink t" for t
      using that Some Cons.prems(2) [of 1] Cons.prems(3) by (cases cs) (auto simp: is_link_def)
    then show ?thesis using c Some rest by (cases n) auto
  qed
qed simp

lemma found_dir_above:
  assumes "lookup T (xs @ y # ys) \<noteq> None"
  shows "\<not> is_link (lookup T xs)"
  using assms by (cases "lookup T xs") (auto simp: lookup_append is_link_def split: node.splits)

lemma segments_cleaned: "rooted p \<Longrightarrow> list_all segment (clean_parts p)"
  using cleaned_parts [of p] by (auto simp: cleaned_def)

lemma segment_parts: "list_all segment cs \<Longrightarrow> filter (\<lambda>c. c \<noteq> []) cs = cs"
  by (auto simp: list_all_iff segment_def intro!: filter_True)

lemma comps_Clean:
  assumes "rooted p"
  shows "comps (filepath_Clean p) = clean_parts p" "rooted (filepath_Clean p)"
proof -
  have s: "list_all segment (clean_parts p)" by (rule segments_cleaned [OF assms])
  have e: "filepath_Clean p = [] @ CHR ''/'' # strings_Join (clean_parts p) ''/''" using assms by (simp add: filepath_Clean_def rooted_def Let_def)
  show "comps (filepath_Clean p) = clean_parts p"
  proof (cases "clean_parts p = []")
    case False
    then have "split_on (CHR ''/'') (strings_Join (clean_parts p) ''/'') = clean_parts p"
      using s by (intro split_on_Join) (auto simp: list_all_iff segment_def)
    then show ?thesis using segment_parts [OF s] unfolding e split_on_append by simp
  qed (simp add: e)
  show "rooted (filepath_Clean p)" using Clean_parts assms by simp
qed

lemma comps_Join:
  assumes "rooted a" "list_all segment ps"
  shows "clean_parts (filepath_Join a (strings_Join ps ''/'')) = clean_parts a @ ps" "rooted (filepath_Join a (strings_Join ps ''/''))"
    "comps (filepath_Join a (strings_Join ps ''/'')) = clean_parts a @ ps"
proof -
  let ?b = "strings_Join ps ''/''"
  have ne: "a \<noteq> []" using assms(1) by (simp add: rooted_def)
  have q: "clean_parts q = clean_parts a @ ps \<and> rooted q" if "q = (if ?b = [] then a else a @ ''/'' @ ?b)" for q
  proof (cases "ps = []")
    case False
    then have b: "split_on (CHR ''/'') ?b = ps" using assms(2) by (intro split_on_Join) (auto simp: list_all_iff segment_def)
    have "?b \<noteq> []" using b False assms(2) by (cases ps) (auto simp: segment_def)
    moreover have "rooted (a @ ''/'' @ ?b)" using assms(1) ne by (simp add: rooted_def)
    moreover have "clean_parts (a @ ''/'' @ ?b) = foldl (clean_step True) (clean_parts a) ps"
      using split_on_append [of "CHR ''/''" a ?b] assms(1) b calculation(2) by (simp add: clean_parts_foldl)
    ultimately show ?thesis using that foldl_segments [OF assms(2)] by simp
  qed (use that assms(1) in simp)
  have j: "filepath_Join a ?b = filepath_Clean (if ?b = [] then a else a @ ''/'' @ ?b)" using ne by (simp add: filepath_Join_def)
  show "clean_parts (filepath_Join a ?b) = clean_parts a @ ps" unfolding j using q [OF refl] Clean_parts by simp
  show "rooted (filepath_Join a ?b)" "comps (filepath_Join a ?b) = clean_parts a @ ps"
    unfolding j using q [OF refl] comps_Clean by simp_all
qed

text \<open>Where the configuration of a reference lies: the directories of the checkout, then those of the cleaned path.\<close>

definition config_parts :: "repo_ref \<Rightarrow> string list" where
  "config_parts r = clean_parts (CHR ''/'' # rr_Path r)"

lemma full_parts:
  assumes "rooted dir"
  shows "comps (repo_full dir r) = clean_parts dir @ config_parts r" "rooted (repo_full dir r)"
    "clean_parts (repo_full dir r) = clean_parts dir @ config_parts r" "list_all segment (config_parts r)"
proof -
  have r: "rooted (CHR ''/'' # rr_Path r)" by (simp add: rooted_def)
  show s: "list_all segment (config_parts r)" unfolding config_parts_def by (rule segments_cleaned [OF r])
  have e: "repo_full dir r = filepath_Join dir (strings_Join (config_parts r) ''/'')"
    by (simp add: repo_full_def filepath_Clean_def config_parts_def Let_def)
  show "comps (repo_full dir r) = clean_parts dir @ config_parts r" "rooted (repo_full dir r)"
    "clean_parts (repo_full dir r) = clean_parts dir @ config_parts r"
    unfolding e using comps_Join [OF assms s] by simp_all
qed

text \<open>
  Two trees that hold the same checkout at \<open>dir\<close>, a directory that is reached without a link, whatever they hold elsewhere.
\<close>

definition same_checkout :: "string \<Rightarrow> node \<Rightarrow> node \<Rightarrow> bool" where
  "same_checkout dir T T' \<longleftrightarrow> rooted dir \<and> (\<exists>es. lookup T (clean_parts dir) = Some (NDir es) \<and> lookup T' (clean_parts dir) = Some (NDir es)) \<and>
     (\<forall>ps es. lookup T (clean_parts dir @ ps) = Some (NDir es) \<longrightarrow> list_all (\<lambda>e. segment (fst e)) es)"

text \<open>No directory on the way to the configuration is a symbolic link.\<close>

definition no_linked_dirs :: "string \<Rightarrow> node \<Rightarrow> repo_ref \<Rightarrow> bool" where
  "no_linked_dirs dir T r \<longleftrightarrow> (\<forall>i < length (config_parts r). \<not> is_link (lookup T (clean_parts dir @ take i (config_parts r))))"

lemma same_lookup: "same_checkout dir T T' \<Longrightarrow> lookup T' (clean_parts dir @ ps) = lookup T (clean_parts dir @ ps)"
  unfolding same_checkout_def lookup_append by auto

lemma walk_checkout:
  assumes "same_checkout dir T T'" "list_all segment ps" "\<And>i. i < length ps \<Longrightarrow> \<not> is_link (lookup T (clean_parts dir @ take i ps))"
    and "fol \<Longrightarrow> \<not> is_link (lookup T (clean_parts dir @ ps))"
  shows "fs_walk k T fol [] (clean_parts dir @ ps) = lookup T (clean_parts dir @ ps)"
    "fs_walk k T' fol [] (clean_parts dir @ ps) = lookup T (clean_parts dir @ ps)"
proof -
  let ?D = "clean_parts dir"
  have s: "list_all segment (?D @ ps)" using assms(1,2) segments_cleaned by (simp add: same_checkout_def)
  have up: "\<not> is_link (lookup U (?D @ take 0 ps)) \<and> (\<forall>i < length ?D. \<not> is_link (lookup U (take i ?D)))"
    if "\<exists>es. lookup U ?D = Some (NDir es)" for U
  proof -
    have "\<not> is_link (lookup U (take i ?D))" if "i < length ?D" for i
      using found_dir_above [of U "take i ?D" "?D ! i" "drop (Suc i) ?D"] id_take_nth_drop [OF that] that
        \<open>\<exists>es. lookup U ?D = Some (NDir es)\<close> by auto
    then show ?thesis using that by (auto simp: is_link_def)
  qed
  have gen: "fs_walk k U fol [] (?D @ ps) = lookup U (?D @ ps)"
    if "\<exists>es. lookup U ?D = Some (NDir es)" "\<And>qs. lookup U (?D @ qs) = lookup T (?D @ qs)" for U
  proof -
    have "\<not> is_link (lookup U (take i (?D @ ps)))" if "i < length (?D @ ps)" for i
    proof (cases "i < length ?D")
      case True
      then show ?thesis using up [OF \<open>\<exists>es. lookup U ?D = Some (NDir es)\<close>] by simp
    next
      case False
      then show ?thesis using assms(3) [of "i - length ?D"] that \<open>\<And>qs. lookup U (?D @ qs) = lookup T (?D @ qs)\<close> by simp
    qed
    then show ?thesis using walk_plain [OF s, of U "[]" fol k] assms(4) that(2) by simp
  qed
  show "fs_walk k T fol [] (?D @ ps) = lookup T (?D @ ps)" using gen [of T] assms(1) by (auto simp: same_checkout_def)
  show "fs_walk k T' fol [] (?D @ ps) = lookup T (?D @ ps)"
    using gen [of T'] same_lookup [OF assms(1)] assms(1) by (auto simp: same_checkout_def)
qed

text \<open>A configuration file is read from the checkout, or, when it is itself a link, not at all.\<close>

lemma readConfigFile_same:
  assumes "same_checkout dir T T'" "list_all segment ps" "\<And>i. i < length ps \<Longrightarrow> \<not> is_link (lookup T (clean_parts dir @ take i ps))"
    and "comps p = clean_parts dir @ ps"
  shows "readConfigFile (fs_of T) p = readConfigFile (fs_of T') p"
proof -
  have l: "fs_Lstat (fs_of T) p = fs_Lstat (fs_of T') p"
    using walk_checkout [OF assms(1-3), of False] assms(4) by (simp add: fs_of_def)
  show ?thesis
  proof (cases "is_link (lookup T (clean_parts dir @ ps))")
    case True
    then have "fs_Lstat (fs_of T) p = Inr ModeSymlink"
      using walk_checkout(1) [OF assms(1-3), of False] assms(4) by (auto simp: fs_of_def is_link_def node_mode_def split: option.splits node.splits)
    then show ?thesis using l by (simp add: readConfigFile_def)
  next
    case False
    then have rd: "fs_Read (fs_of T) p = fs_Read (fs_of T') p"
      using walk_checkout [OF assms(1-3), of True] assms(4) by (simp add: fs_of_def)
    show ?thesis unfolding readConfigFile_def l rd ..
  qed
qed

lemma load_entries_same:
  assumes "\<And>e. e \<in> set es \<Longrightarrow> readConfigFile F (filepath_Join full (fst e)) = readConfigFile F' (filepath_Join full (fst e))"
  shows "load_entries Y registry F full path es = load_entries Y registry F' full path es"
  using assms by (induction es) (simp_all cong: sum.case_cong)

lemma Clean_ne: "filepath_Clean p \<noteq> []"
  by (simp add: filepath_Clean_def Let_def)

text \<open>
  C28: the path guard. In a tree of files with symbolic links, what is loaded depends on the checkout only: two trees that
  hold the same checkout, whatever they hold elsewhere, give the same result for every configured path, dot-dots
  included, and whatever links the checkout holds in the place of configuration files: those are refused and never followed.
  Asked for is that no directory on the configured path is a link and, where a whole directory may be loaded, that
  the path itself is none.
\<close>

theorem load_stays_inside:
  assumes "same_checkout dir T T'" "no_linked_dirs dir T (WithDefaults r)"
  shows "LoadFromDir L (fs_of T) dir r = LoadFromDir L (fs_of T') dir r \<and>
    (\<not> is_link (lookup T (clean_parts dir @ config_parts (WithDefaults r))) \<longrightarrow>
       LoadAllFromDir Y registry (fs_of T) dir r = LoadAllFromDir Y registry (fs_of T') dir r)"
proof -
  let ?r = "WithDefaults r" and ?full = "repo_full dir (WithDefaults r)" and ?D = "clean_parts dir"
  have d: "rooted dir" using assms(1) by (simp add: same_checkout_def)
  note full = full_parts [OF d, of ?r]
  have up: "\<And>i. i < length (config_parts ?r) \<Longrightarrow> \<not> is_link (lookup T (?D @ take i (config_parts ?r)))"
    using assms(2) by (simp add: no_linked_dirs_def)
  have one: "readConfigFile (fs_of T) ?full = readConfigFile (fs_of T') ?full"
    by (rule readConfigFile_same [OF assms(1) full(4) up full(1)])
  have all: "LoadAllFromDir Y registry (fs_of T) dir r = LoadAllFromDir Y registry (fs_of T') dir r"
    if n: "\<not> is_link (lookup T (?D @ config_parts ?r))"
  proof -
    note w = walk_checkout [OF assms(1) full(4) up, of True, OF _ n]
    have st: "fs_StatDir (fs_of T) ?full = fs_StatDir (fs_of T') ?full" "fs_ReadDir (fs_of T) ?full = fs_ReadDir (fs_of T') ?full"
      using w full(1) by (simp_all add: fs_of_def)
    have "load_entries Y registry (fs_of T) ?full (rr_Path ?r) es = load_entries Y registry (fs_of T') ?full (rr_Path ?r) es"
      if es: "fs_ReadDir (fs_of T) ?full = Inr es" for es
    proof (rule load_entries_same)
      fix e
      assume e: "e \<in> set es"
      obtain ns where ns: "lookup T (?D @ config_parts ?r) = Some (NDir ns)" "es = map (\<lambda>e. (fst e, node_mode (snd e) = ModeDir)) ns"
        using es w full(1) by (auto simp: fs_of_def split: option.splits node.splits)
      have "list_all (\<lambda>e. segment (fst e)) ns" using assms(1) ns(1) unfolding same_checkout_def by blast
      then have seg: "segment (fst e)" using e ns(2) by (auto simp: list_all_iff)
      have "comps (filepath_Join ?full (strings_Join [fst e] ''/'')) = ?D @ (config_parts ?r @ [fst e])"
        using comps_Join(3) [OF full(2), of "[fst e]"] seg full(3) by simp
      moreover have "\<not> is_link (lookup T (?D @ take i (config_parts ?r @ [fst e])))" if "i < length (config_parts ?r @ [fst e])" for i
        using that up [of i] n by (cases "i = length (config_parts ?r)") simp_all
      ultimately show "readConfigFile (fs_of T) (filepath_Join ?full (fst e)) = readConfigFile (fs_of T') (filepath_Join ?full (fst e))"
        using readConfigFile_same [OF assms(1), of "config_parts ?r @ [fst e]"] full(4) seg by simp
    qed
    then show ?thesis
      unfolding LoadAllFromDir_def Let_def st [symmetric] one [symmetric]
      by (cases "fs_StatDir (fs_of T) ?full"; cases "fs_ReadDir (fs_of T) ?full") (simp_all split: bool.split)
  qed
  moreover have "LoadFromDir L (fs_of T) dir r = LoadFromDir L (fs_of T') dir r" unfolding LoadFromDir_def Let_def one ..
  ultimately show ?thesis by blast
qed

subsection \<open>Examples\<close>

text \<open>A repository with one directory of two files: a configuration and a file that is not YAML.\<close>

definition demo_fs :: filesystem where
  "demo_fs = \<lparr>fs_Lstat = (\<lambda>p. if p = ''/repo/apps/web.yaml'' then Inr ModeRegular else Inl (Err ''no such file'')),
     fs_StatDir = (\<lambda>p. if p = ''/repo/apps'' then Inr True else Inl (Err ''no such file'')),
     fs_Read = (\<lambda>_. Inr []), fs_ReadDir = (\<lambda>_. Inr [(''README'', False), (''web.yaml'', False)])\<rparr>"

definition demo_rollout_set :: rollout_set where
  "demo_rollout_set = \<lparr>rs_APIVersion = SchemaVersion, rs_Kind = KindRolloutSet, rs_Metadata = \<lparr>md_Name = ''fleet'', md_Labels = []\<rparr>,
     rs_Generators = [\<lparr>gn_List = Some [[(''name'', AStr ''east'')]], gn_Cluster = None\<rparr>],
     rs_Template = Some [(''spec'', ANull)]\<rparr>"

definition demo_yaml :: yaml_loader where
  "demo_yaml = \<lparr>yl_Load = demo_loader, yl_Peek = (\<lambda>_. Inr (SchemaVersion, Kind)), yl_DecodeSet = (\<lambda>_. Inr demo_rollout_set),
     yl_Marshal = (\<lambda>_. Inr []), yl_Order = id\<rparr>"

definition demo_ref :: repo_ref where
  "demo_ref = \<lparr>rr_URL = [], rr_Branch = [], rr_Path = ''../apps''\<rparr>"

lemma demo_full: "repo_full ''/repo'' (WithDefaults demo_ref) = ''/repo/apps''" "rr_Path (WithDefaults demo_ref) = ''../apps''"
  by code_simp+

lemma demo_entries: "filter yaml_file [(''README'', False), (''web.yaml'', False)] = [(''web.yaml'', False)]"
  "filepath_Join ''/repo/apps'' ''web.yaml'' = ''/repo/apps/web.yaml''" "filepath_Join ''../apps'' ''web.yaml'' = ''../apps/web.yaml''"
  "yaml_file (''web.yaml'', False)" "\<not> yaml_file (''README'', False)"
  by code_simp+

lemma demo_all: "LoadAllFromDir demo_yaml [] demo_fs ''/repo'' demo_ref = Inr [\<lparr>nc_Path = ''../apps/web.yaml'', nc_Config = demo_loaded\<rparr>]"
  by (simp add: LoadAllFromDir_def Let_def demo_full demo_entries demo_fs_def readConfigFile_def loadDocuments_def peekKind_def
      demo_yaml_def demo_loads)

lemma demo_fs_dir: "fs_StatDir demo_fs ''/repo/apps'' = Inr True"
  "fs_ReadDir demo_fs ''/repo/apps'' = Inr [(''README'', False), (''web.yaml'', False)]"
  by (simp_all add: demo_fs_def)

theorem load_drops_nothing_witness:
  "LoadAllFromDir demo_yaml [] demo_fs ''/repo'' demo_ref = Inr [\<lparr>nc_Path = ''../apps/web.yaml'', nc_Config = demo_loaded\<rparr>] \<and>
   (\<exists>docss. [\<lparr>nc_Path = ''../apps/web.yaml'', nc_Config = demo_loaded\<rparr>] = concat docss \<and> length docss = 1)"
  using load_drops_nothing [OF demo_all, unfolded demo_full, OF demo_fs_dir] demo_all
  by (auto simp: demo_entries dest!: list_all2_lengthD)

theorem set_members_witness:
  "expandRolloutSet demo_yaml [] [] ''fleet.yaml'' = Inr [\<lparr>nc_Path = ''fleet.yaml'', nc_Config = demo_loaded\<rparr>] \<and>
   distinct (map (\<lambda>nc. c_Ref (nc_Config nc)) [\<lparr>nc_Path = ''fleet.yaml'', nc_Config = demo_loaded\<rparr>])"
proof -
  have s: "substitute id [] [(''name'', AStr ''east'')] = []" by code_simp
  have "expandRolloutSet demo_yaml [] [] ''fleet.yaml'' = Inr [\<lparr>nc_Path = ''fleet.yaml'', nc_Config = demo_loaded\<rparr>]"
    by (simp add: expandRolloutSet_def demo_yaml_def demo_rollout_set_def expand_generator_def expandFromElements_def expandOne_def
        stringify_def s demo_loads Let_def)
  with set_members [OF this] show ?thesis by blast
qed

text \<open>
  A host with a checkout in which a committed link stands for a configuration, and a directory link out of the checkout.
\<close>

definition demo_host :: "string \<Rightarrow> node" where
  "demo_host secret = NDir [(''etc'', NDir [(''app.yaml'', NFile secret)]),
     (''repo'', NDir [(''apps'', NDir [(''README'', NFile []), (''db.yaml'', NLink ''../../etc/app.yaml'')]), (''out'', NLink ''/etc'')])]"

definition at_path :: "string \<Rightarrow> repo_ref" where
  "at_path p = \<lparr>rr_URL = [], rr_Branch = [], rr_Path = p\<rparr>"

lemma demo_host_checkout: "same_checkout ''/repo'' (demo_host x) (demo_host y)"
proof -
  have c: "clean_parts ''/repo'' = [''repo'']" by code_simp
  have seg: "segment ''apps''" "segment ''out''" "segment ''README''" "segment ''db.yaml''" by (simp_all add: segment_def)
  have "list_all (\<lambda>e. segment (fst e)) es" if "lookup (demo_host x) ([''repo''] @ ps) = Some (NDir es)" for ps es
  proof (cases ps)
    case Nil
    then show ?thesis using that seg by (auto simp: demo_host_def)
  next
    case (Cons p qs)
    then show ?thesis
      using that seg by (cases qs; cases "tl qs") (auto simp: demo_host_def split: if_splits)
  qed
  then show ?thesis by (simp add: same_checkout_def c rooted_def) (simp add: demo_host_def)
qed

theorem load_stays_inside_witness:
  "fs_Read (fs_of (demo_host ''a'')) ''/repo/apps/db.yaml'' \<noteq> fs_Read (fs_of (demo_host ''b'')) ''/repo/apps/db.yaml'' \<and>
   LoadAllFromDir demo_yaml [] (fs_of (demo_host ''a'')) ''/repo'' (at_path ''../apps'') =
     LoadAllFromDir demo_yaml [] (fs_of (demo_host ''b'')) ''/repo'' (at_path ''../apps'')"
proof -
  have "fs_Read (fs_of (demo_host ''a'')) ''/repo/apps/db.yaml'' = Inr ''a''" "fs_Read (fs_of (demo_host ''b'')) ''/repo/apps/db.yaml'' = Inr ''b''"
    by code_simp+
  moreover have "config_parts (WithDefaults (at_path ''../apps'')) = [''apps'']" "clean_parts ''/repo'' = [''repo'']" by code_simp+
  then have "no_linked_dirs ''/repo'' (demo_host ''a'') (WithDefaults (at_path ''../apps''))"
    "\<not> is_link (lookup (demo_host ''a'') (clean_parts ''/repo'' @ config_parts (WithDefaults (at_path ''../apps''))))"
    by (simp_all add: no_linked_dirs_def is_link_def) (simp_all add: demo_host_def)
  ultimately show ?thesis
    using load_stays_inside [OF demo_host_checkout [of "''a''" "''b''"], of "at_path ''../apps''"] by simp
qed

text \<open>
  A directory that is a committed link is followed: the guard is on the text of the path and on the files, so the
  configurations of a directory outside the checkout are read.
\<close>

lemma directory_link_escapes:
  "fs_ReadDir (fs_of (demo_host x)) ''/repo/out'' = Inr [(''app.yaml'', False)]"
  "readConfigFile (fs_of (demo_host ''kind: x'')) ''/repo/out/app.yaml'' = Inr ''kind: x''"
proof -
  have "fs_Lstat (fs_of (demo_host ''kind: x'')) ''/repo/out/app.yaml'' = Inr ModeRegular"
    "fs_Read (fs_of (demo_host ''kind: x'')) ''/repo/out/app.yaml'' = Inr ''kind: x''" by code_simp+
  then show "readConfigFile (fs_of (demo_host ''kind: x'')) ''/repo/out/app.yaml'' = Inr ''kind: x''"
    by (simp add: readConfigFile_def maxConfigBytes_def)
  have "comps ''/repo/out'' = [''repo'', ''out'']" "comps ''/etc'' = [''etc'']" "rooted ''/etc''" by code_simp+
  then show "fs_ReadDir (fs_of (demo_host x)) ''/repo/out'' = Inr [(''app.yaml'', False)]"
    by (simp add: fs_of_def demo_host_def node_mode_def numeral_eq_Suc)
qed

end
