(* ===== verification/Surface_Safety.thy ===== *)
theory Surface_Safety
  imports Surfaces Repo_Load Engine_Safety
begin

text \<open>
  Nothing happens through a surface without a caller and a grant. \<open>*_needs\<close> lists the permissions and
  scopes a call asks for, all of which the caller must hold; \<open>*_reads\<close> lists the targets a plan of
  several documents has observed before it comes to a document its caller may not plan. The locale
  \<open>guarded_surface\<close> is the contract of a surface: a call that is not allowed ends in a fault and leaves
  everything but the clock as it was, the observations of those targets apart. It is interpreted on the
  three surfaces, and what follows from it for sequences of calls is proved once in the locale.
\<close>

section \<open>The contract\<close>

text \<open>A call looks at a target of \<open>A\<close>.\<close>

fun looks_at :: "string set \<Rightarrow> effect \<Rightarrow> bool" where
  "looks_at A (TargetObserve t) = (t_Ref t \<in> A)"
| "looks_at A (TargetDiff t m) = (t_Ref t \<in> A)"
| "looks_at A _ = False"

text \<open>
  At most the targets of \<open>A\<close> were looked at and their observations stored; all else is as before: the other tables
  and the observations of other targets, the locks, the freeze and the world outside.
\<close>

definition looked :: "string set \<Rightarrow> world \<Rightarrow> world \<Rightarrow> bool" where
  "looked A w w' \<longleftrightarrow>
     (\<exists>es. w_trace w' = w_trace w @ es \<and> list_all (looks_at A) es) \<and>
     set (w_locks w') = set (w_locks w) \<and> w_freeze w' = w_freeze w \<and>
     (w_db w')\<lparr>db_target_state := []\<rparr> = (w_db w)\<lparr>db_target_state := []\<rparr> \<and>
     filter (\<lambda>x. fst x \<notin> A) (db_target_state (w_db w')) = filter (\<lambda>x. fst x \<notin> A) (db_target_state (w_db w))"

abbreviation left_alone :: "world \<Rightarrow> world \<Rightarrow> bool" where
  "left_alone \<equiv> looked {}"

lemma looked_refl [simp]: "looked A w w" "looked A w (w\<lparr>w_tick := n\<rparr>)"
  by (simp_all add: looked_def)

lemma looked_trans:
  assumes "looked A u v" "looked A v w"
  shows "looked A u w"
proof -
  obtain es fs where "w_trace v = w_trace u @ es" "w_trace w = w_trace v @ fs" "list_all (looks_at A) es" "list_all (looks_at A) fs"
    using assms unfolding looked_def by blast
  then show ?thesis using assms unfolding looked_def by (intro conjI exI [of _ "es @ fs"]) simp_all
qed

interpretation lkd: frame "looked A" for A
  by unfold_locales (auto intro: looked_trans)

lemma looks_at_mono: "looks_at A e \<Longrightarrow> A \<subseteq> B \<Longrightarrow> looks_at B e"
  by (cases e) auto

lemma filter_out_mono:
  assumes "filter (\<lambda>x. fst x \<notin> A) xs = filter (\<lambda>x. fst x \<notin> A) ys" "A \<subseteq> B"
  shows "filter (\<lambda>x. fst x \<notin> B) xs = filter (\<lambda>x. fst x \<notin> B) ys"
proof -
  have "filter (\<lambda>x. fst x \<notin> B) zs = filter (\<lambda>x. fst x \<notin> B) (filter (\<lambda>x. fst x \<notin> A) zs)" for zs :: "('a \<times> 'b) list"
    using assms(2) by (auto simp: filter_filter intro!: filter_cong)
  then show ?thesis by (metis assms(1))
qed

lemma looked_mono: "looked A w w' \<Longrightarrow> A \<subseteq> B \<Longrightarrow> looked B w w'"
  unfolding looked_def by (blast intro: list.pred_mono_strong looks_at_mono filter_out_mono)

lemma looked_quiet: "keeps (ext {}) m \<Longrightarrow> keeps db_same m \<Longrightarrow> keeps (looked A) m"
  by (fastforce simp: keeps_def looked_def ext_def grows_def db_same_def)

lemma looked_emit: "looks_at A e \<Longrightarrow> keeps (looked A) (emit e)"
  by (auto simp: keeps_def looked_def)

lemma filter_update: "k \<in> A \<Longrightarrow> filter (\<lambda>x. fst x \<notin> A) (AList.update k v xs) = filter (\<lambda>x. fst x \<notin> A) xs"
  by (induction xs) auto

lemma looked_SaveObserved: "ts_TargetRef ts \<in> A \<Longrightarrow> keeps (looked A) (SaveObservedState E ts)"
  unfolding SaveObservedState_def st_call_def
  by (auto simp: keeps_def run_state_simps looked_def db_SaveObservedState_def filter_update split: option.splits)

lemma looked_tgt:
  "t_Ref t \<in> A \<Longrightarrow> keeps (looked A) (tgt_Diff E t m)" "t_Ref t \<in> A \<Longrightarrow> keeps (looked A) (tgt_Observe E t)"
  unfolding tgt_Diff_def tgt_Observe_def
  by (intro lkd.keeps_bind looked_emit looked_quiet [OF keeps_ask(1,2)] lkd.keeps_return; simp)+

lemma built_ref:
  "run_state (rawTarget E ref m) w = (Inr t, w') \<Longrightarrow> t_Ref t = ref"
  "run_state (build E t0) w = (Inr t, w') \<Longrightarrow> t = t0"
  by (auto simp: rawTarget_def build_def run_state_simps target_of_manifest_ref split: sum.splits option.splits)

lemmas looked_rules = keeps_sum keeps_prod keeps_if lkd.keeps_bind lkd.keeps_return looked_tgt looked_SaveObserved
  looked_quiet [OF keeps_stamp(1,2)] looked_quiet [OF keeps_build(1,2)] looked_quiet [OF keeps_now(1,2)]
  looked_quiet [OF keeps_plan_risk(1,2)] looked_quiet [OF keeps_buildTarget(4,5)]

lemma looked_live_diff:
  assumes "ref \<in> A"
  shows "keeps (looked A) (live_diff E ref m cur ver)"
proof -
  have raw: "keeps (looked A) (State_Monad.bind (rawTarget E ref m) f)" if "\<And>e. keeps (looked A) (f (Inl e))" "\<And>t. t_Ref t = ref \<Longrightarrow> keeps (looked A) (f (Inr t))"
    for f :: "cfg_target res \<Rightarrow> (bool \<times> bool) prog"
  proof (rule lkd.keeps_bind_result [OF looked_quiet [OF keeps_buildTarget(4,5)]])
    fix x w w'
    assume "run_state (rawTarget E ref m) w = (x, w')"
    then show "keeps (looked A) (f x)" using that built_ref(1) by (cases x) blast+
  qed
  show ?thesis
    unfolding live_diff_def
    by (rule keeps_if, rule raw) (simp_all add: lkd.keeps_return keeps_if lkd.keeps_bind looked_tgt assms)
qed

lemma looked_Plan:
  assumes "c_Ref c \<in> A"
  shows "keeps (looked A) (Plan E c)"
proof -
  have bld: "keeps (looked A) (State_Monad.bind (build E (c_Target c)) f)" if "\<And>e. keeps (looked A) (f (Inl e))" "keeps (looked A) (f (Inr (c_Target c)))"
    for f :: "cfg_target res \<Rightarrow> plan res prog"
  proof (rule lkd.keeps_bind_result [OF looked_quiet [OF keeps_build(1,2)]])
    fix x w w'
    assume "run_state (build E (c_Target c)) w = (x, w')"
    then show "keeps (looked A) (f x)" using that built_ref(2) by (cases x) blast+
  qed
  show ?thesis
    unfolding Plan_def
    apply (intro keeps_sum keeps_prod lkd.keeps_return lkd.keeps_bind [OF looked_quiet [OF keeps_stamp(1,2)]] bld)
     apply simp
    apply clarsimp
    apply (intro looked_rules looked_live_diff)
    apply (simp_all add: assms)
    done
qed

definition is_fault :: "'a + 'b \<Rightarrow> bool" where
  "is_fault r \<longleftrightarrow> (\<exists>f. r = Inl f)"

lemma is_fault_simps [simp]: "is_fault (Inl f)" "\<not> is_fault (Inr b)"
  by (simp_all add: is_fault_def)

abbreviation refused :: "string set \<Rightarrow> world \<Rightarrow> 'a + 'b \<Rightarrow> world \<Rightarrow> bool" where
  "refused A w r w' \<equiv> is_fault r \<and> looked A w w'"

fun serve_all :: "('h \<Rightarrow> 'q \<Rightarrow> ('f + 'b) prog) \<Rightarrow> ('h \<times> 'q) list \<Rightarrow> ('f + 'b) list prog" where
  "serve_all serve [] = State_Monad.return []"
| "serve_all serve ((h, q) # cs) = do {
     r \<leftarrow> serve h q;
     rs \<leftarrow> serve_all serve cs;
     State_Monad.return (r # rs)
   }"

locale guarded_surface =
  fixes serve :: "'h \<Rightarrow> 'q \<Rightarrow> ('f + 'b) prog"
    and allowed :: "'h \<Rightarrow> 'q \<Rightarrow> world \<Rightarrow> bool"
    and reads :: "'h \<Rightarrow> 'q \<Rightarrow> string list"
  assumes refuses: "\<not> allowed h q w \<Longrightarrow> wp (serve h q) (refused (set (reads h q)) w) w"
    and allowed_tables: "looked A w w' \<Longrightarrow> allowed h q w' = allowed h q w"
begin

abbreviation read_by :: "('h \<times> 'q) list \<Rightarrow> string set" where
  "read_by cs \<equiv> \<Union>c \<in> set cs. set (reads (fst c) (snd c))"

lemma refuses_all:
  assumes "\<forall>(h, q) \<in> set cs. \<not> allowed h q w" "read_by cs \<subseteq> A"
  shows "wp (serve_all serve cs) (\<lambda>rs w'. list_all is_fault rs \<and> looked A w w') w"
  using assms
proof (induction cs arbitrary: w)
  case (Cons c cs)
  obtain h q where c: "c = (h, q)" by (cases c)
  show ?case
    unfolding c serve_all.simps wp_bind
  proof (rule wp_conseq [OF refuses])
    show "\<not> allowed h q w" using Cons.prems c by simp
    fix r :: "'f + 'b" and w'
    assume r: "refused (set (reads h q)) w r w'"
    then have l: "looked A w w'" using Cons.prems(2) c looked_mono by auto
    have "\<forall>(h, q) \<in> set cs. \<not> allowed h q w'" using Cons.prems unfolding allowed_tables [OF l] by (simp add: c)
    moreover have "read_by cs \<subseteq> A" using Cons.prems(2) by auto
    ultimately show "wp (serve_all serve cs) (\<lambda>rs. wp (State_Monad.return (r # rs)) (\<lambda>rs w'. list_all is_fault rs \<and> looked A w w')) w'"
      using Cons.IH [of w'] r looked_trans [OF l] by (auto simp: wp_return elim!: wp_conseq)
  qed
qed (simp add: wp_return)

lemma refused_run:
  assumes "\<forall>(h, q) \<in> set cs. \<not> allowed h q w" "run_state (serve_all serve cs) w = (rs, w')"
  shows "list_all is_fault rs \<and> looked (read_by cs) w w'"
  using wpD [OF refuses_all [OF assms(1) order_refl] assms(2)] .

end

section \<open>What a call asks for\<close>

type_synonym demand = "permission \<times> scope"

definition plan_needs :: "server \<Rightarrow> string \<Rightarrow> string \<Rightarrow> demand list" where
  "plan_needs S origin data =
     (case loadDocuments (sr_Yaml S) (snd (sr_Registry S)) data origin of
        Inl _ \<Rightarrow> []
      | Inr docs \<Rightarrow> map (\<lambda>d. (PermPlan, scopeOf (nc_Config d))) docs)"

definition apply_needs :: "server \<Rightarrow> string \<Rightarrow> demand list" where
  "apply_needs S data = (case Load (yl_Load (sr_Yaml S)) data of Inl _ \<Rightarrow> [] | Inr c \<Rightarrow> [(PermApply, scopeOf c)])"

definition act_needs :: "permission \<Rightarrow> string \<Rightarrow> world \<Rightarrow> demand list" where
  "act_needs perm rid w = (case db_LoadRollout rid (w_db w) of Inl _ \<Rightarrow> [] | Inr r \<Rightarrow> [(perm, target_scope (r_TargetRef r))])"

definition blob_needs :: "('a \<Rightarrow> demand list) \<Rightarrow> 'a blob \<Rightarrow> demand list" where
  "blob_needs f b = (case b of Blob v \<Rightarrow> f v | _ \<Rightarrow> [])"

fun http_needs :: "server \<Rightarrow> http_call \<Rightarrow> world \<Rightarrow> demand list" where
  "http_needs S (PostPlan b) w = (case readBody b of Inl _ \<Rightarrow> [] | Inr data \<Rightarrow> plan_needs S ''http'' data)"
| "http_needs S (PostApply b) w = (case readBody b of Inl _ \<Rightarrow> [] | Inr data \<Rightarrow> apply_needs S data)"
| "http_needs S (PostRollback b) w = blob_needs (\<lambda>v. [(PermRollback, target_scope (fst v))]) b"
| "http_needs S (PostApprove b) w = blob_needs (\<lambda>v. act_needs PermApprove (fst v) w) b"
| "http_needs S (PostReject b) w = blob_needs (\<lambda>v. act_needs PermApprove (fst v) w) b"
| "http_needs S (PostPromote b) w = blob_needs (\<lambda>v. act_needs PermPromote (fst v) w) b"
| "http_needs S (PostPause b) w = blob_needs (\<lambda>v. act_needs PermApply (fst v) w) b"
| "http_needs S (PostResume b) w = blob_needs (\<lambda>v. act_needs PermApply (fst v) w) b"
| "http_needs S (PostAbort b) w = blob_needs (\<lambda>v. act_needs PermApply (fst v) w) b"
| "http_needs S (PostVerify b) w = blob_needs (\<lambda>rid. act_needs PermPromote rid w) b"
| "http_needs S (PostFreeze b) w = [(PermFreeze, any_scope)]"
| "http_needs S (GetRollout rid) w = [(PermStatus, any_scope)]"
| "http_needs S (GetFleet q) w = [(PermStatus, any_scope)]"
| "http_needs S GetHealthz w = []"

fun rpc_needs :: "server \<Rightarrow> rpc_call \<Rightarrow> world \<Rightarrow> demand list" where
  "rpc_needs S (RpcPlan d) w = plan_needs S ''grpc'' d"
| "rpc_needs S (RpcApply d) w = apply_needs S d"
| "rpc_needs S (RpcStatus rid) w = [(PermStatus, any_scope)]"
| "rpc_needs S (RpcRollback v) w = [(PermRollback, target_scope (fst v))]"
| "rpc_needs S (RpcApprove rid) w = act_needs PermApprove rid w"
| "rpc_needs S (RpcReject rid) w = act_needs PermApprove rid w"
| "rpc_needs S (RpcPromote rid _) w = act_needs PermPromote rid w"
| "rpc_needs S (RpcPause rid) w = act_needs PermApply rid w"
| "rpc_needs S (RpcResume rid) w = act_needs PermApply rid w"
| "rpc_needs S (RpcAbort rid) w = act_needs PermApply rid w"
| "rpc_needs S (RpcVerify rid) w = act_needs PermPromote rid w"
| "rpc_needs S (RpcFreeze v) w = [(PermFreeze, any_scope)]"
| "rpc_needs S (RpcFleet filt) w = [(PermStatus, any_scope)]"

fun tool_needs :: "server \<Rightarrow> tool_call \<Rightarrow> world \<Rightarrow> demand list" where
  "tool_needs S (ToolPlan d) w = plan_needs S ''mcp'' d"
| "tool_needs S (ToolApply d) w = apply_needs S d"
| "tool_needs S (ToolRollback v) w = [(PermRollback, target_scope (fst v))]"
| "tool_needs S (ToolApprove rid) w = act_needs PermApprove rid w"
| "tool_needs S (ToolReject rid) w = act_needs PermApprove rid w"
| "tool_needs S (ToolPromote rid _) w = act_needs PermPromote rid w"
| "tool_needs S (ToolPause rid) w = act_needs PermApply rid w"
| "tool_needs S (ToolResume rid) w = act_needs PermApply rid w"
| "tool_needs S (ToolAbort rid) w = act_needs PermApply rid w"
| "tool_needs S (ToolVerify rid) w = act_needs PermPromote rid w"
| "tool_needs S (ToolFreeze v) w = [(PermFreeze, any_scope)]"
| "tool_needs S (ToolStatus rid) w = [(PermStatus, any_scope)]"
| "tool_needs S (ToolList n) w = [(PermStatus, any_scope)]"
| "tool_needs S (ToolHistory ref) w = [(PermStatus, target_scope ref)]"
| "tool_needs S ToolDrift w = [(PermStatus, any_scope)]"
| "tool_needs S (ToolFleet filt) w = [(PermStatus, any_scope)]"

definition granted :: "server \<Rightarrow> identity \<Rightarrow> demand list \<Rightarrow> bool" where
  "granted S who ds = (ds \<noteq> [] \<and> list_all (\<lambda>d. Can (sr_Policy S) who (fst d) (snd d)) ds)"

definition named :: "server \<Rightarrow> string \<Rightarrow> demand list \<Rightarrow> bool" where
  "named S token ds = (token \<noteq> [] \<and> (case sr_Identify S token of None \<Rightarrow> False | Some who \<Rightarrow> granted S who ds))"

definition http_allowed :: "server \<Rightarrow> string \<Rightarrow> http_call \<Rightarrow> world \<Rightarrow> bool" where
  "http_allowed S hdr call w = (call = GetHealthz \<or> named S (bearer hdr) (http_needs S call w))"

definition rpc_allowed :: "server \<Rightarrow> string list \<Rightarrow> rpc_call \<Rightarrow> world \<Rightarrow> bool" where
  "rpc_allowed S md call w = named S (bearerFromMD md) (rpc_needs S call w)"

definition tool_allowed :: "server \<Rightarrow> string \<Rightarrow> tool_call \<Rightarrow> world \<Rightarrow> bool" where
  "tool_allowed S hdr call w = named S (bearer hdr) (tool_needs S call w)"

text \<open>The targets of the documents of a plan that the caller may plan, up to the first that he may not.\<close>

definition plan_reads :: "server \<Rightarrow> identity \<Rightarrow> string \<Rightarrow> string \<Rightarrow> string list" where
  "plan_reads S who origin data =
     (case loadDocuments (sr_Yaml S) (snd (sr_Registry S)) data origin of
        Inl _ \<Rightarrow> []
      | Inr docs \<Rightarrow> map (\<lambda>d. c_Ref (nc_Config d)) (takeWhile (\<lambda>d. Can (sr_Policy S) who PermPlan (scopeOf (nc_Config d))) docs))"

definition named_reads :: "server \<Rightarrow> string \<Rightarrow> (identity \<Rightarrow> string list) \<Rightarrow> string list" where
  "named_reads S token f = (if token = [] then [] else case sr_Identify S token of None \<Rightarrow> [] | Some who \<Rightarrow> f who)"

fun http_plans :: "server \<Rightarrow> http_call \<Rightarrow> identity \<Rightarrow> string list" where
  "http_plans S (PostPlan b) who = (case readBody b of Inl _ \<Rightarrow> [] | Inr data \<Rightarrow> plan_reads S who ''http'' data)"
| "http_plans S _ who = []"

fun rpc_plans :: "server \<Rightarrow> rpc_call \<Rightarrow> identity \<Rightarrow> string list" where
  "rpc_plans S (RpcPlan d) who = plan_reads S who ''grpc'' d"
| "rpc_plans S _ who = []"

fun tool_plans :: "server \<Rightarrow> tool_call \<Rightarrow> identity \<Rightarrow> string list" where
  "tool_plans S (ToolPlan d) who = plan_reads S who ''mcp'' d"
| "tool_plans S _ who = []"

definition http_reads :: "server \<Rightarrow> string \<Rightarrow> http_call \<Rightarrow> string list" where
  "http_reads S hdr call = named_reads S (bearer hdr) (http_plans S call)"

definition rpc_reads :: "server \<Rightarrow> string list \<Rightarrow> rpc_call \<Rightarrow> string list" where
  "rpc_reads S md call = named_reads S (bearerFromMD md) (rpc_plans S call)"

definition tool_reads :: "server \<Rightarrow> string \<Rightarrow> tool_call \<Rightarrow> string list" where
  "tool_reads S hdr call = named_reads S (bearer hdr) (tool_plans S call)"

section \<open>Handlers refuse\<close>

lemma refused_return [simp]: "wp (State_Monad.return r) (refused A w) w = is_fault r"
  by (simp add: wp_return)

lemma refused_Authorize:
  assumes "\<not> Can (sr_Policy S) who perm sc"
  shows "wp (case Authorize (sr_Policy S) who perm sc of Some e \<Rightarrow> State_Monad.return (Inl (Denied e)) | None \<Rightarrow> m) (refused A w) w"
  using assms by (auto simp: Can_def wp_return split: option.split)

lemma refused_Status:
  assumes "\<not> granted S who (act_needs perm rid w)"
  shows "wp (Status (sr_Eng S) rid) (\<lambda>cur w'. looked A w w' \<and> (case cur of Inl _ \<Rightarrow> True | Inr c \<Rightarrow> \<not> Can (sr_Policy S) who perm (target_scope (r_TargetRef c)))) w"
  using assms
  by (auto simp: Status_def wp_LoadRollout granted_def act_needs_def split: option.split sum.splits)

lemma refused_after:
  assumes "wp m (\<lambda>x w'. looked A w w' \<and> P x) w" "\<And>x w'. P x \<Longrightarrow> wp (f x) (refused A w') w'"
  shows "wp (State_Monad.bind m f) (refused A w) w"
  unfolding wp_bind
proof (rule wp_conseq [OF assms(1)])
  fix x w'
  assume "looked A w w' \<and> P x"
  with assms(2) [of x w'] show "wp (f x) (refused A w) w'"
    using looked_trans [of A w w'] by (blast intro: wp_conseq)
qed

lemma refused_act_on:
  assumes "\<not> granted S who (act_needs perm rid w)"
  shows "wp (act_on S perm oper who rid) (refused A w) w"
  unfolding act_on_def
  by (rule refused_after [OF refused_Status [OF assms]]) (auto simp: wp_sum refused_Authorize wp_return split: sum.splits)

lemma refused_verify:
  assumes "\<not> granted S who (act_needs PermPromote rid w)"
  shows "wp (verify_id S who rid) (refused A w) w"
  unfolding verify_id_def
  by (rule refused_after [OF refused_Status [OF assms]]) (auto simp: wp_sum refused_Authorize wp_return split: sum.splits)

lemma loadDocuments_ne: "loadDocuments Y registry data path = Inr docs \<Longrightarrow> docs \<noteq> []"
  by (auto simp: loadDocuments_def split: sum.splits if_splits elim: expandRolloutSet_elements dest!: expand_elements_ok)

lemma refused_plan_docs:
  assumes "\<not> list_all (\<lambda>d. Can (sr_Policy S) who PermPlan (scopeOf (nc_Config d))) docs"
    and "(\<lambda>d. c_Ref (nc_Config d)) ` set (takeWhile (\<lambda>d. Can (sr_Policy S) who PermPlan (scopeOf (nc_Config d))) docs) \<subseteq> A"
  shows "wp (plan_docs S who a docs) (refused A w) w"
  using assms
proof (induction docs arbitrary: a w)
  case (Cons d ds)
  show ?case
  proof (cases "Can (sr_Policy S) who PermPlan (scopeOf (nc_Config d))")
    case False
    then show ?thesis by (simp add: refused_Authorize)
  next
    case True
    then have au: "Authorize (sr_Policy S) who PermPlan (scopeOf (nc_Config d)) = None" by (simp add: Can_def)
    have pl: "wp (Plan (sr_Eng S) (nc_Config d)) (\<lambda>x w'. looked A w w' \<and> True) w"
      using keeps_wp [OF looked_Plan] Cons.prems(2) True by simp
    show ?thesis
      unfolding plan_docs.simps au option.case
      by (rule refused_after [OF pl]) (use Cons True in \<open>simp split: sum.split\<close>)
  qed
qed simp

lemma refused_plan_data:
  assumes "\<not> granted S who (plan_needs S origin data)" "set (plan_reads S who origin data) \<subseteq> A"
  shows "wp (plan_data S who origin data) (refused A w) w"
proof -
  have "wp (plan_docs S who zero_acc docs) (refused A w) w"
    if "loadDocuments (sr_Yaml S) (snd (sr_Registry S)) data origin = Inr docs" for docs
    using assms that loadDocuments_ne [OF that]
    by (intro refused_plan_docs) (auto simp: plan_needs_def plan_reads_def granted_def list.pred_map comp_def)
  then show ?thesis
    unfolding plan_data_def
    by (auto simp: wp_simps is_fault_def split: option.split sum.split elim!: wp_conseq)
qed

lemma refused_view:
  assumes "wp m (refused A w) w"
  shows "wp (State_Monad.bind m (\<lambda>r. State_Monad.return (map_sum id f r))) (refused A w) w"
  unfolding wp_bind wp_return by (rule wp_conseq [OF assms]) (auto simp: is_fault_def)

lemma refused_apply_data:
  assumes "\<not> granted S who (apply_needs S data)"
  shows "wp (apply_data busy S who data) (refused A w) w"
  using assms unfolding apply_data_def apply_config_def
  by (auto simp: wp_return apply_needs_def granted_def Can_def split: option.split sum.splits)

lemma refused_rolloutAction:
  assumes "\<not> granted S who (blob_needs (\<lambda>v. act_needs perm (fst v) w) b)"
  shows "wp (rolloutAction S perm oper who b) (refused A w) w"
proof (cases b)
  case (Blob v)
  then show ?thesis using assms by (cases v) (simp add: rolloutAction_def blob_needs_def refused_act_on)
qed (simp_all add: rolloutAction_def)

lemmas handler_defs =
  handlePlan_def handleApply_def handleStatus_def handleFleet_def handleApprove_def handleReject_def handlePromote_def
  handlePause_def handleResume_def handleAbort_def handleVerify_def handleFreeze_def handleRollback_def
  grpc_Plan_def grpc_Apply_def grpc_Status_def grpc_Rollback_def grpc_rolloutAction_def grpc_Verify_def grpc_Freeze_def
  mcp_Plan_def mcp_Apply_def mcp_Status_def mcp_List_def mcp_History_def mcp_Drift_def mcp_Fleet_def mcp_Rollback_def mcp_action_def mcp_Verify_def mcp_Freeze_def

lemma granted_one [simp]: "granted S who [d] = Can (sr_Policy S) who (fst d) (snd d)"
  by (simp add: granted_def)

lemma refused_simple:
  "\<not> Can (sr_Policy S) who PermStatus any_scope \<Longrightarrow> wp (status_of view S who rid) (refused A w) w"
  "\<not> Can (sr_Policy S) who PermStatus any_scope \<Longrightarrow> wp (fleet_of_filter S who filt) (refused A w) w"
  "\<not> Can (sr_Policy S) who PermStatus sc \<Longrightarrow> wp (read_as S sc m vw who) (refused A w) w"
  "\<not> Can (sr_Policy S) who PermRollback (target_scope (fst v)) \<Longrightarrow> wp (rollback_to S who v) (refused A w) w"
  by (simp_all add: status_of_def fleet_of_filter_def read_as_def rollback_to_def refused_Authorize)

lemma http_route_refuses:
  assumes "\<not> granted S who (http_needs S call w)" "call \<noteq> GetHealthz" "set (http_plans S call who) \<subseteq> A"
  shows "wp (http_route S who call) (refused A w) w"
  using assms
proof (cases call)
  case (PostPlan b)
  then show ?thesis using assms
    by (auto simp: handlePlan_def refused_view refused_plan_data split: sum.splits)
next
  case (PostApply b)
  then show ?thesis using assms by (auto simp: handleApply_def refused_apply_data split: sum.splits)
next
  case (PostRollback b)
  then show ?thesis using assms by (cases b) (simp_all add: handleRollback_def blob_needs_def refused_simple)
next
  case (PostVerify b)
  then show ?thesis using assms by (cases b) (simp_all add: handleVerify_def blob_needs_def refused_verify)
qed (simp_all add: handler_defs refused_rolloutAction refused_simple refused_Authorize)

lemma rpc_route_refuses:
  assumes "\<not> granted S who (rpc_needs S call w)" "set (rpc_plans S call who) \<subseteq> A"
  shows "wp (rpc_route S who call) (refused A w) w"
  using assms
proof (cases call)
  case (RpcFleet filt)
  have "wp (grpc_FleetStatus S who filt) (refused A w) w"
    unfolding grpc_FleetStatus_def wp_bind wp_return
    by (rule wp_conseq [OF refused_simple(2)]) (use assms RpcFleet in \<open>auto simp: is_fault_def\<close>)
  then show ?thesis using RpcFleet by simp
qed (simp_all add: handler_defs refused_view refused_plan_data refused_apply_data refused_act_on refused_verify refused_simple refused_Authorize)

lemma tool_route_refuses:
  assumes "\<not> granted S who (tool_needs S call w)" "set (tool_plans S call who) \<subseteq> A"
  shows "wp (tool_route S who call) (refused A w) w"
  using assms
  by (cases call) (simp_all add: handler_defs refused_view refused_plan_data refused_apply_data refused_act_on refused_verify refused_simple refused_Authorize)

section \<open>The three surfaces keep the contract\<close>

lemma looked_load: "looked A w w' \<Longrightarrow> db_LoadRollout i (w_db w') = db_LoadRollout i (w_db w)"
  "looked A w w' \<Longrightarrow> db_ListRollouts n (w_db w') = db_ListRollouts n (w_db w)"
  unfolding looked_def by (cases "w_db w"; cases "w_db w'"; simp add: db_LoadRollout_def db_ListRollouts_def)+

lemma needs_tables:
  assumes "looked A w w'"
  shows "act_needs perm rid w' = act_needs perm rid w" "http_needs S call w' = http_needs S call w"
    "rpc_needs S rpc w' = rpc_needs S rpc w" "tool_needs S tool w' = tool_needs S tool w"
proof -
  show a: "act_needs perm rid w' = act_needs perm rid w" for perm rid using looked_load [OF assms] by (simp add: act_needs_def)
  show "http_needs S call w' = http_needs S call w" by (cases call) (simp_all add: a)
  show "rpc_needs S rpc w' = rpc_needs S rpc w" by (cases rpc) (simp_all add: a)
  show "tool_needs S tool w' = tool_needs S tool w" by (cases tool) (simp_all add: a)
qed

lemma named_cases:
  assumes "\<not> named S token ds"
  shows "token = [] \<or> sr_Identify S token = None \<or>
    (\<exists>who. token \<noteq> [] \<and> sr_Identify S token = Some who \<and> \<not> granted S who ds \<and> named_reads S token f = f who)"
  using assms by (auto simp: named_def named_reads_def split: option.splits)

interpretation rest: guarded_surface "authMiddleware S" "http_allowed S" "http_reads S" for S
proof
  fix h call w
  assume "\<not> http_allowed S h call w"
  then have n: "call \<noteq> GetHealthz" "\<not> named S (bearer h) (http_needs S call w)" by (simp_all add: http_allowed_def)
  show "wp (authMiddleware S h call) (refused (set (http_reads S h call)) w) w"
    unfolding authMiddleware_def Let_def http_reads_def using n(1) named_cases [OF n(2)]
    by (auto intro!: http_route_refuses split: option.split)
next
  fix w' w :: world and h call A
  assume d: "looked A w w'"
  show "http_allowed S h call w' = http_allowed S h call w" unfolding http_allowed_def needs_tables(2) [OF d] ..
qed

interpretation grpc: guarded_surface "authInterceptor S" "rpc_allowed S" "rpc_reads S" for S
proof
  fix h call w
  assume "\<not> rpc_allowed S h call w"
  then have n: "\<not> named S (bearerFromMD h) (rpc_needs S call w)" by (simp add: rpc_allowed_def)
  show "wp (authInterceptor S h call) (refused (set (rpc_reads S h call)) w) w"
    unfolding authInterceptor_def Let_def rpc_reads_def using named_cases [OF n]
    by (auto intro!: rpc_route_refuses split: option.split)
next
  fix w' w :: world and h call A
  assume d: "looked A w w'"
  show "rpc_allowed S h call w' = rpc_allowed S h call w" unfolding rpc_allowed_def needs_tables(3) [OF d] ..
qed

interpretation mcp: guarded_surface "mcp_serve S" "tool_allowed S" "tool_reads S" for S
proof
  fix h call w
  assume "\<not> tool_allowed S h call w"
  then have n: "\<not> named S (bearer h) (tool_needs S call w)" by (simp add: tool_allowed_def)
  show "wp (mcp_serve S h call) (refused (set (tool_reads S h call)) w) w"
    unfolding mcp_serve_def mcp_authorize_def injectIdentity_def caller_def tool_reads_def using named_cases [OF n]
    by (auto intro!: tool_route_refuses split: option.split)
next
  fix w' w :: world and h call A
  assume d: "looked A w w'"
  show "tool_allowed S h call w' = tool_allowed S h call w" unfolding tool_allowed_def needs_tables(4) [OF d] ..
qed

text \<open>
  C8: no anonymous calls, and no call without its grants, on any surface. Whatever requests arrive, in
  whatever number and order: as long as none of them carries a token of a caller whom the policy grants
  everything that request asks for, for a plan of several documents the grant for each of them, every
  answer is a fault, and no lock, not the freeze and no table but that of the observations is touched,
  and nothing outside but to look. What is looked at, and whose observation is stored, is at most the
  targets of those documents of a plan that its caller may plan and that come before the first that he
  may not. The health probe is the one route that asks for nothing.
\<close>

theorem surfaces_refuse:
  "((\<forall>(h, q) \<in> set hs. \<not> http_allowed S h q w) \<longrightarrow>
     list_all is_fault (fst (run_state (serve_all (authMiddleware S) hs) w)) \<and>
     looked (\<Union>c \<in> set hs. set (http_reads S (fst c) (snd c))) w (snd (run_state (serve_all (authMiddleware S) hs) w))) \<and>
   ((\<forall>(m, q) \<in> set gs. \<not> rpc_allowed S m q w) \<longrightarrow>
     list_all is_fault (fst (run_state (serve_all (authInterceptor S) gs) w)) \<and>
     looked (\<Union>c \<in> set gs. set (rpc_reads S (fst c) (snd c))) w (snd (run_state (serve_all (authInterceptor S) gs) w))) \<and>
   ((\<forall>(h, q) \<in> set ts. \<not> tool_allowed S h q w) \<longrightarrow>
     list_all is_fault (fst (run_state (serve_all (mcp_serve S) ts) w)) \<and>
     looked (\<Union>c \<in> set ts. set (tool_reads S (fst c) (snd c))) w (snd (run_state (serve_all (mcp_serve S) ts) w)))"
  using rest.refused_run [OF _ surjective_pairing] grpc.refused_run [OF _ surjective_pairing]
    mcp.refused_run [OF _ surjective_pairing] by blast

text \<open>
  An agent without a deploy role asks for an apply: the answer is 403, 7 on gRPC, and the world is as it was.
\<close>

definition demo_server :: server where
  "demo_server = \<lparr>sr_Eng = demo_env, sr_Identify = TokenAuth_Identify id [(''t0k'', \<lparr>id_Kind = ''agent'', id_Name = ''bot'', id_Groups = []\<rparr>)],
     sr_Policy = DefaultRBACPolicy, sr_Yaml = demo_yaml, sr_Registry = (None, [])\<rparr>"

lemma demo_agent_denied:
  "\<not> Can DefaultRBACPolicy \<lparr>id_Kind = ''agent'', id_Name = ''bot'', id_Groups = []\<rparr> PermApply sc"
  unfolding Can_def Authorize_def by (simp add: rolesFor_def DefaultRBACPolicy_def DefineRole_def Bind_def NewPolicy_def everywhere_def)

lemma demo_token:
  "bearer ''Bearer t0k'' = ''t0k''" "bearerFromMD [''t0k''] = ''t0k''"
  "sr_Identify demo_server ''t0k'' = Some \<lparr>id_Kind = ''agent'', id_Name = ''bot'', id_Groups = []\<rparr>"
  by code_simp+

theorem surfaces_refuse_witness:
  "\<not> http_allowed demo_server ''Bearer t0k'' (PostApply (Inr [])) demo_world \<and>
   left_alone demo_world (snd (run_state (serve_all (authMiddleware demo_server) [(''Bearer t0k'', PostApply (Inr []))]) demo_world)) \<and>
   left_alone demo_world (snd (run_state (serve_all (authInterceptor demo_server) [([''t0k''], RpcApply [])]) demo_world)) \<and>
   left_alone demo_world (snd (run_state (serve_all (mcp_serve demo_server) [(''Bearer t0k'', ToolApply [])]) demo_world))"
proof -
  have "sr_Policy demo_server = DefaultRBACPolicy" by (simp add: demo_server_def)
  then have "\<not> named demo_server ''t0k'' (apply_needs demo_server [])"
    by (simp add: named_def demo_token apply_needs_def granted_def demo_agent_denied split: sum.split)
  then have "\<not> http_allowed demo_server ''Bearer t0k'' (PostApply (Inr [])) demo_world"
    "\<not> rpc_allowed demo_server [''t0k''] (RpcApply []) demo_world" "\<not> tool_allowed demo_server ''Bearer t0k'' (ToolApply []) demo_world"
    by (simp_all add: http_allowed_def rpc_allowed_def tool_allowed_def demo_token readBody_def)
  then show ?thesis
    using surfaces_refuse [of "[(''Bearer t0k'', PostApply (Inr []))]" demo_server demo_world "[([''t0k''], RpcApply [])]"
        "[(''Bearer t0k'', ToolApply [])]"]
    by (simp add: http_reads_def rpc_reads_def tool_reads_def named_reads_def demo_token)
qed

section \<open>What a grant's environment is worth\<close>

text \<open>
  The environment of a request is the one the submitted document declares: whoever holds an apply grant
  for one environment and every target is authorized for any target, by declaring that environment.
\<close>

lemma environment_is_self_declared:
  assumes "po_roles p name = Some r" "name \<in> set (rolesFor p who)"
    and "\<lparr>gr_Perm = PermApply, gr_Scope = \<lparr>sc_Env = e, sc_TargetRef = []\<rparr>\<rparr> \<in> set (ro_Grants r)" "t_Env (c_Target c) = e"
  shows "Authorize p who PermApply (scopeOf c) = None"
  using assms by (force simp: Authorize_def authorize_by_iff scopeOf_def covers_def)

text \<open>The actions on a rollout ask for its target and no environment, so a grant with an environment never covers them.\<close>

lemma environment_never_covers_actions:
  "sc_Env (gr_Scope g) \<noteq> [] \<Longrightarrow> \<not> covers g perm (target_scope ref)"
  by (simp add: covers_def)

text \<open>A body over one mebibyte is cut, not refused: what is applied is the head of what was sent.\<close>

lemma long_body_is_cut: "readBody (Inr data) = Inr (take (2 ^ 20) data)"
  by (simp add: readBody_def)

end
