(* ===== verification/Confine.thy ===== *)
theory Confine
  imports Streaks
begin

text \<open>
  \<^verbatim>\<open>internal/security/confine.go\<close>, \<open>confine_env.go\<close> and \<^verbatim>\<open>internal/engine/smoke.go\<close>: the
  confinement of what a tenant's repo may make the daemon run. Starting a process is a parameter
  that is given the command and the environment; what the runners answer is paired with the
  process they started, if any.
\<close>

record allow_set =
  as_enabled :: bool
  as_values :: "string list"

record confinement =
  cf_commands :: allow_set
  cf_namespaces :: allow_set
  cf_confineCluster :: bool
  cf_allowedEnv :: "string list"

definition parseList :: "string \<Rightarrow> string list" where
  "parseList raw = filter (\<lambda>p. p \<noteq> []) (map strings_TrimSpace (split_on (CHR '','') raw))"

definition parseAllowSet :: "string \<Rightarrow> allow_set" where
  "parseAllowSet raw =
     (if strings_TrimSpace raw = [] then \<lparr>as_enabled = False, as_values = []\<rparr>
      else \<lparr>as_enabled = True, as_values = remdups (filter (\<lambda>p. p \<noteq> []) (map strings_TrimSpace (split_on (CHR '','') raw)))\<rparr>)"

definition truthy :: "string \<Rightarrow> bool" where
  "truthy v = (strings_ToLower (strings_TrimSpace v) \<in> {''1'', ''true'', ''yes'', ''on''})"

definition ConfinementFromEnv :: "(string \<Rightarrow> string) \<Rightarrow> confinement" where
  "ConfinementFromEnv getenv =
     \<lparr>cf_commands = parseAllowSet (getenv ''ROLLOPS_ALLOWED_COMMANDS''),
      cf_namespaces = parseAllowSet (getenv ''ROLLOPS_ALLOWED_NAMESPACES''),
      cf_confineCluster = truthy (getenv ''ROLLOPS_CONFINE_TARGET_CLUSTER''),
      cf_allowedEnv = parseList (getenv ''ROLLOPS_ALLOWED_ENV'')\<rparr>"

definition CommandsEnabled :: "confinement \<Rightarrow> bool" where "CommandsEnabled c = as_enabled (cf_commands c)"
definition NamespacesEnabled :: "confinement \<Rightarrow> bool" where "NamespacesEnabled c = as_enabled (cf_namespaces c)"
definition ClusterConfined :: "confinement \<Rightarrow> bool" where "ClusterConfined c = cf_confineCluster c"

definition Active_confinement :: "confinement \<Rightarrow> bool" where
  "Active_confinement c = (as_enabled (cf_commands c) \<or> as_enabled (cf_namespaces c) \<or> cf_confineCluster c)"

text \<open>\<open>filepath.Base\<close> on Unix paths.\<close>

definition filepath_Base :: "string \<Rightarrow> string" where
  "filepath_Base path =
     (if path = [] then ''.''
      else (let p = rev (dropWhile (\<lambda>c. c = CHR ''/'') (rev path));
                b = rev (takeWhile (\<lambda>c. c \<noteq> CHR ''/'') (rev p)) in
            if b = [] then ''/'' else b))"

definition allowsCommand :: "allow_set \<Rightarrow> string \<Rightarrow> bool" where
  "allowsCommand s exe =
     (if exe \<in> set (as_values s) then True
      else if filepath_Base exe \<in> set (as_values s) then True
      else False)"

definition CheckCommand :: "confinement \<Rightarrow> string list \<Rightarrow> err option" where
  "CheckCommand c command =
     (if \<not> as_enabled (cf_commands c) \<or> command = [] then None
      else if allowsCommand (cf_commands c) (hd command) then None
      else Some (Err (''command '' @ hd command @ '' is not allow-listed (ROLLOPS_ALLOWED_COMMANDS)'')))"

definition CheckNamespace :: "confinement \<Rightarrow> string \<Rightarrow> err option" where
  "CheckNamespace c namespace =
     (if \<not> as_enabled (cf_namespaces c) then None
      else (let ns = (if namespace = [] then ''default'' else namespace) in
            if ns \<in> set (as_values (cf_namespaces c)) then None
            else Some (Err (''namespace '' @ ns @ '' is not allow-listed (ROLLOPS_ALLOWED_NAMESPACES)''))))"

section \<open>The environment of a subprocess\<close>

definition EssentialEnvVars :: "string list" where "EssentialEnvVars = [''PATH'', ''HOME'', ''TMPDIR'']"

definition ConfineEnv :: "string list \<Rightarrow> string list \<Rightarrow> string list" where
  "ConfineEnv allowed parentEnv =
     (if ''*'' \<in> set (map strings_TrimSpace allowed) then parentEnv
      else (let want = EssentialEnvVars @ filter (\<lambda>k. k \<noteq> []) (map strings_TrimSpace allowed) in
            filter (\<lambda>kv. case before_byte kv (CHR ''='') of None \<Rightarrow> False | Some k \<Rightarrow> k \<in> set want) parentEnv))"

definition CommandEnv :: "confinement \<Rightarrow> string list \<Rightarrow> string list" where
  "CommandEnv c parentEnv = ConfineEnv (cf_allowedEnv c) parentEnv"

section \<open>Running a configured command\<close>

text \<open>What a started process comes back with: an exit code, or it could not be run.\<close>

datatype run_result = Exit int | NotRun err

type_synonym spawn = "string list \<Rightarrow> string list \<Rightarrow> run_result"

text \<open>\<open>execSmoke.Run\<close> and \<open>execDBRollback.Run\<close>: the answer, and the command and environment of the process started.\<close>

definition execSmoke_Run :: "confinement \<Rightarrow> spawn \<Rightarrow> string list \<Rightarrow> string list \<Rightarrow> int res \<times> (string list \<times> string list) option" where
  "execSmoke_Run c sp environ command =
     (if command = [] then (Inr 0, None)
      else (case CheckCommand c command of
          Some e \<Rightarrow> (Inl e, None)
        | None \<Rightarrow>
            (case sp command (CommandEnv c environ) of
               Exit n \<Rightarrow> Inr n
             | NotRun e \<Rightarrow> Inl e, Some (command, CommandEnv c environ))))"

definition execDBRollback_Run :: "confinement \<Rightarrow> spawn \<Rightarrow> string list \<Rightarrow> string list \<Rightarrow> err option \<times> (string list \<times> string list) option" where
  "execDBRollback_Run c sp environ command =
     (if command = [] then (None, None)
      else (case CheckCommand c command of
          Some e \<Rightarrow> (Some e, None)
        | None \<Rightarrow>
            (case sp command (CommandEnv c environ) of
               Exit n \<Rightarrow> if n = 0 then None else Some (Err (''exit status '' @ itoa n))
             | NotRun e \<Rightarrow> Some e, Some (command, CommandEnv c environ))))"

section \<open>What a configured command gets\<close>

definition confined_spawn :: "confinement \<Rightarrow> string list \<Rightarrow> string list \<times> string list \<Rightarrow> bool" where
  "confined_spawn c environ p \<longleftrightarrow>
     (case p of (command, env) \<Rightarrow>
        (as_enabled (cf_commands c) \<longrightarrow>
           hd command \<in> set (as_values (cf_commands c)) \<or> filepath_Base (hd command) \<in> set (as_values (cf_commands c))) \<and>
        set env \<subseteq> set environ \<and>
        (''*'' \<notin> strings_TrimSpace ` set (cf_allowedEnv c) \<longrightarrow>
           (\<forall>kv \<in> set env. \<exists>k v. kv = k @ ''='' @ v \<and> CHR ''='' \<notin> set k \<and>
              (k \<in> set EssentialEnvVars \<or> k \<in> strings_TrimSpace ` set (cf_allowedEnv c)))))"

lemma before_eq_Some: "before_byte kv (CHR ''='') = Some k \<Longrightarrow> \<exists>v. kv = k @ ''='' @ v \<and> CHR ''='' \<notin> set k"
proof -
  assume "before_byte kv (CHR ''='') = Some k"
  then have k: "CHR ''='' \<in> set kv" "k = takeWhile (\<lambda>c. c \<noteq> CHR ''='') kv" by (auto simp: before_byte_def split: if_splits)
  let ?d = "dropWhile (\<lambda>c. c \<noteq> CHR ''='') kv"
  have "?d \<noteq> []" using k(1) by (auto simp: dropWhile_eq_Nil_conv)
  then have "?d = CHR ''='' # tl ?d" using hd_dropWhile [of "\<lambda>c. c \<noteq> CHR ''=''" kv] by (metis list.collapse)
  then have "kv = k @ ''='' @ tl ?d" using takeWhile_dropWhile_id [of "\<lambda>c. c \<noteq> CHR ''=''" kv] k(2) by simp
  moreover have "CHR ''='' \<notin> set k" unfolding k(2) by (auto dest: set_takeWhileD)
  ultimately show ?thesis by blast
qed

lemma ConfineEnv_confined:
  assumes "''*'' \<notin> strings_TrimSpace ` set allowed" "kv \<in> set (ConfineEnv allowed parentEnv)"
  shows "\<exists>k v. kv = k @ ''='' @ v \<and> CHR ''='' \<notin> set k \<and> (k \<in> set EssentialEnvVars \<or> k \<in> strings_TrimSpace ` set allowed)"
proof -
  obtain k where "before_byte kv (CHR ''='') = Some k" "k \<in> set EssentialEnvVars \<or> k \<in> strings_TrimSpace ` set allowed"
    using assms by (auto simp: ConfineEnv_def Let_def split: option.splits)
  then show ?thesis using before_eq_Some by blast
qed

lemma ConfineEnv_subset: "set (ConfineEnv allowed parentEnv) \<subseteq> set parentEnv"
  by (auto simp: ConfineEnv_def Let_def)

lemma spawn_confined: "CheckCommand c command = None \<Longrightarrow> command \<noteq> [] \<Longrightarrow> confined_spawn c environ (command, CommandEnv c environ)"
  using ConfineEnv_subset [of "cf_allowedEnv c" environ] ConfineEnv_confined [of "cf_allowedEnv c" _ environ]
  by (auto simp: confined_spawn_def CommandEnv_def CheckCommand_def allowsCommand_def split: if_splits)

text \<open>
  C31: what a command named by a repo gets to see. Whatever command a smoke test or a database hook
  names, a process is started only for a command the allowlist admits (when there is one), and it
  inherits no variable of the daemon's environment but \<open>PATH\<close>, \<open>HOME\<close>, \<open>TMPDIR\<close> and those the
  operator listed, unless the operator listed \<open>*\<close>. A refused command is an error and starts nothing.
\<close>

theorem commands_confined:
  "(\<forall>p. snd (execSmoke_Run c sp environ command) = Some p \<longrightarrow> confined_spawn c environ p) \<and>
   (\<forall>p. snd (execDBRollback_Run c sp environ command) = Some p \<longrightarrow> confined_spawn c environ p) \<and>
   (CheckCommand c command \<noteq> None \<longrightarrow>
      snd (execSmoke_Run c sp environ command) = None \<and> is_err (fst (execSmoke_Run c sp environ command)) \<and>
      snd (execDBRollback_Run c sp environ command) = None \<and> fst (execDBRollback_Run c sp environ command) \<noteq> None)"
proof -
  have "CheckCommand c [] = None" by (simp add: CheckCommand_def)
  then show ?thesis using spawn_confined [of c command environ]
    by (auto simp: execSmoke_Run_def execDBRollback_Run_def split: option.splits if_splits)
qed

theorem commands_confined_witness:
  "snd (execSmoke_Run (ConfinementFromEnv (\<lambda>_. [])) (\<lambda>_ _. Exit 0) [''PATH=/bin'', ''TOKEN=t''] [''check'']) = Some ([''check''], [''PATH=/bin'']) \<and>
   confined_spawn (ConfinementFromEnv (\<lambda>_. [])) [''PATH=/bin'', ''TOKEN=t''] ([''check''], [''PATH=/bin''])"
proof -
  have "snd (execSmoke_Run (ConfinementFromEnv (\<lambda>_. [])) (\<lambda>_ _. Exit 0) [''PATH=/bin'', ''TOKEN=t''] [''check'']) = Some ([''check''], [''PATH=/bin''])"
    by code_simp
  then show ?thesis using commands_confined [of "ConfinementFromEnv (\<lambda>_. [])" "\<lambda>_ _. Exit 0" "[''PATH=/bin'', ''TOKEN=t'']" "[''check'']"]
    by blast
qed

text \<open>
  A bare name on the allowlist admits every path that ends in it, whatever the directory: also a
  file of that name in the tenant's own checkout.
\<close>

lemma bare_name_allows_any_path:
  assumes "n \<in> set (as_values s)" "n \<noteq> []" "CHR ''/'' \<notin> set n"
  shows "allowsCommand s (dir @ ''/'' @ n)"
proof -
  have "dropWhile (\<lambda>c. c = CHR ''/'') (rev n @ CHR ''/'' # rev dir) = rev n @ CHR ''/'' # rev dir"
    using assms(2,3) set_rev [of n] by (cases "rev n") (auto simp del: set_rev)
  moreover have "takeWhile (\<lambda>c. c \<noteq> CHR ''/'') (rev n @ CHR ''/'' # rev dir) = rev n"
    using assms(3) by (simp add: takeWhile_append)
  ultimately have "filepath_Base (dir @ ''/'' @ n) = n" using assms(2) by (simp add: filepath_Base_def)
  then show ?thesis using assms(1) by (simp add: allowsCommand_def)
qed

end
