(* ===== verification/SupplyChain.thy ===== *)
theory SupplyChain
  imports Authn Confine
begin

text \<open>
  What may be deployed: \<^verbatim>\<open>internal/security/artifact.go\<close>, \<^verbatim>\<open>provenance.go\<close>, \<^verbatim>\<open>sourcegate.go\<close> and
  \<open>artifactGate\<close> of \<^verbatim>\<open>internal/boot/boot.go\<close>. The cosign process is the parameter \<open>at_Run\<close> (its
  output and whether it failed), ed25519 and the JSON decoders are the other parameters of \<open>attest\<close>.
  Records hold the fields the checks read.
\<close>

section \<open>Base64, with and without padding\<close>

definition b64_std_val :: "char \<Rightarrow> nat option" where
  "b64_std_val c = (if c = CHR ''+'' then Some 62 else if c = CHR ''/'' then Some 63
     else if c = CHR ''-'' \<or> c = CHR ''_'' then None else b64_val c)"

definition b64_raw :: "(char \<Rightarrow> nat option) \<Rightarrow> string \<Rightarrow> string option" where
  "b64_raw val s = (let vs = map val s in if None \<in> set vs then None else b64_bytes (map the vs))"

definition strip_pad :: "string \<Rightarrow> string" where
  "strip_pad s =
     (if strings_HasSuffix s ''=='' then take (length s - 2) s else if strings_HasSuffix s ''='' then take (length s - 1) s else s)"

definition b64_decode :: "(char \<Rightarrow> nat option) \<Rightarrow> bool \<Rightarrow> string \<Rightarrow> string option" where
  "b64_decode val padded s =
     (let t = filter (\<lambda>c. c \<noteq> CHR 0x0A \<and> c \<noteq> CHR 0x0D) s in
      if padded then (if length t mod 4 \<noteq> 0 then None else b64_raw val (strip_pad t)) else b64_raw val t)"

definition std_DecodeString :: "string \<Rightarrow> string option" where
  "std_DecodeString s = b64_decode b64_std_val True s"

fun first_some :: "'a option list \<Rightarrow> 'a option" where
  "first_some [] = None"
| "first_some (x # xs) = (case x of Some y \<Rightarrow> Some y | None \<Rightarrow> first_some xs)"

definition decodeDSSEPayload :: "string \<Rightarrow> string option" where
  "decodeDSSEPayload s =
     first_some [b64_decode b64_std_val True s, b64_decode b64_std_val False s, b64_decode b64_val True s, b64_decode b64_val False s]"

section \<open>Statements\<close>

type_synonym digest = "(string \<times> string) list"

record statement =
  pr_PredicateType :: string
  pr_ResolvedDependencies :: "digest list"
  pr_Verified :: bool
  pr_Reproved :: bool
  pr_Reason :: string
  pr_BuilderID :: string

record vsa_statement =
  vs_PredicateType :: string
  vs_Subject :: "digest list"
  vs_VerifierID :: string
  vs_ResourceURI :: string
  vs_VerificationResult :: string
  vs_VerifiedLevels :: "string list"

record envelope =
  ev_PayloadType :: string
  ev_Payload :: string
  ev_Signatures :: "(string \<times> string) list"

record attest =
  at_Run :: "string list \<Rightarrow> string \<times> bool"
  at_Payload :: "string \<Rightarrow> string option"
  at_Statement :: "string \<Rightarrow> statement option"
  at_Envelope :: "string \<Rightarrow> envelope option"
  at_VSA :: "string \<Rightarrow> vsa_statement option"
  at_Ed25519 :: "string \<Rightarrow> string \<Rightarrow> string \<Rightarrow> bool"

abbreviation SLSAPredicateType :: string where "SLSAPredicateType \<equiv> ''https://slsa.dev/provenance/v1''"
abbreviation VSAPredicateType :: string where "VSAPredicateType \<equiv> ''https://slsa.dev/verification_summary/v1''"

definition short_sha :: "string \<Rightarrow> string" where
  "short_sha sha = (if length sha \<le> 7 then sha else take 7 sha)"

definition orUnknown :: "string \<Rightarrow> string" where
  "orUnknown s = (if strings_TrimSpace s = [] then ''an unnamed builder'' else s)"

definition lastLine :: "string \<Rightarrow> string" where
  "lastLine s = strings_TrimSpace (last (split_on (CHR 0x0A) (strings_TrimSpace s)))"

text \<open>The first non-empty \<open>gitCommit\<close> of a list of digests.\<close>

definition git_commit_of :: "digest \<Rightarrow> string" where
  "git_commit_of d = (case map_of d ''gitCommit'' of Some c \<Rightarrow> c | None \<Rightarrow> [])"

fun first_commit :: "digest list \<Rightarrow> string" where
  "first_commit [] = []"
| "first_commit (d # ds) = (if git_commit_of d \<noteq> [] then git_commit_of d else first_commit ds)"

definition stmt_SourceCommit :: "statement \<Rightarrow> string" where
  "stmt_SourceCommit s = first_commit (pr_ResolvedDependencies s)"

section \<open>Signatures and provenance\<close>

type_synonym verdict3 = "bool \<times> string \<times> err option"
type_synonym verifier = "string \<Rightarrow> verdict3"

record cosign_opts =
  co_KeyPath :: string
  co_CertIdentity :: string
  co_CertOIDCIssuer :: string
  co_AllowHTTP :: bool

definition opt_arg :: "string \<Rightarrow> string \<Rightarrow> string list" where
  "opt_arg flag v = (if v \<noteq> [] then [flag, v] else [])"

definition cosign_args :: "cosign_opts \<Rightarrow> string list" where
  "cosign_args c =
     (if co_AllowHTTP c then [''--allow-http-registry''] else []) @ opt_arg ''--key'' (co_KeyPath c) @
     opt_arg ''--certificate-identity'' (co_CertIdentity c) @ opt_arg ''--certificate-oidc-issuer'' (co_CertOIDCIssuer c)"

definition Cosign_Verify :: "attest \<Rightarrow> cosign_opts \<Rightarrow> verifier" where
  "Cosign_Verify A c ref =
     (case at_Run A ([''verify''] @ cosign_args c @ [ref]) of
        (out, failed) \<Rightarrow> if failed then (False, strings_TrimSpace out, None) else (True, ''verified'', None))"

record provenance =
  pv_Cosign :: cosign_opts
  pv_AllowedBuilders :: "string list"
  pv_RequireReproved :: bool
  pv_AllowMissingSourceCommit :: bool

definition Provenance_Configured :: "provenance \<Rightarrow> bool" where
  "Provenance_Configured p =
     (co_KeyPath (pv_Cosign p) \<noteq> [] \<or> (co_CertIdentity (pv_Cosign p) \<noteq> [] \<and> co_CertOIDCIssuer (pv_Cosign p) \<noteq> []))"

fun builderAllowed :: "string \<Rightarrow> string list \<Rightarrow> bool" where
  "builderAllowed i [] = False"
| "builderAllowed i (want # rest) =
     (if strings_HasSuffix want ''@'' then (if strings_HasPrefix i want then True else builderAllowed i rest)
      else if i = want then True else builderAllowed i rest)"

definition provenance_check :: "provenance \<Rightarrow> statement \<Rightarrow> bool \<times> string" where
  "provenance_check p s =
     (if pv_AllowedBuilders p = [] then (True, ''provenance from '' @ orUnknown (pr_BuilderID s) @ '' (no allowed-builder policy set)'')
      else if \<not> builderAllowed (pr_BuilderID s) (pv_AllowedBuilders p) then
        (False, ''built by '' @ orUnknown (pr_BuilderID s) @ '', which is not an allowed builder'')
      else if stmt_SourceCommit s = [] \<and> \<not> pv_AllowMissingSourceCommit p then (False, ''provenance names no source commit'')
      else if pv_RequireReproved p \<and> \<not> pr_Reproved s then
        (False, ''source checks were inherited rather than run for this build ('' @ orUnknown (pr_Reason s) @ '')'')
      else (True, ''built by '' @ pr_BuilderID s @ '' from '' @ short_sha (stmt_SourceCommit s) @
        (if pr_Verified s \<and> \<not> pr_Reproved s then '' (source checks inherited)'' else [])))"

definition json_lines :: "string \<Rightarrow> string list" where
  "json_lines out = filter (\<lambda>l. strings_HasPrefix l ''{'') (map strings_TrimSpace (split_on (CHR 0x0A) (strings_TrimSpace out)))"

definition dssePayloads :: "attest \<Rightarrow> string \<Rightarrow> string list" where
  "dssePayloads A out =
     concat (map (\<lambda>l. case at_Payload A l of None \<Rightarrow> [] | Some p \<Rightarrow> (case decodeDSSEPayload p of None \<Rightarrow> [] | Some b \<Rightarrow> [b])) (json_lines out))"

definition ParseAttestations :: "attest \<Rightarrow> string \<Rightarrow> statement list res" where
  "ParseAttestations A out =
     (case concat (map (\<lambda>p. case at_Statement A p of None \<Rightarrow> [] | Some s \<Rightarrow> if pr_PredicateType s = SLSAPredicateType then [s] else []) (dssePayloads A out)) of
        [] \<Rightarrow> Inl (Err ''no slsa provenance in the attestation'')
      | ss \<Rightarrow> Inr ss)"

definition attestation_args :: "provenance \<Rightarrow> string \<Rightarrow> string list" where
  "attestation_args p ref = [''verify-attestation'', ''--type'', SLSAPredicateType] @ cosign_args (pv_Cosign p) @ [ref]"

text \<open>The loop: the first statement the policy accepts, or the detail of the last one.\<close>

fun any_satisfying :: "('a \<Rightarrow> bool \<times> string) \<Rightarrow> string \<Rightarrow> 'a list \<Rightarrow> bool \<times> string" where
  "any_satisfying chk lst [] = (False, lst)"
| "any_satisfying chk lst (x # xs) = (if fst (chk x) then (True, snd (chk x)) else any_satisfying chk (snd (chk x)) xs)"

definition Provenance_Verify :: "attest \<Rightarrow> provenance \<Rightarrow> verifier" where
  "Provenance_Verify A p ref =
     (if \<not> Provenance_Configured p then (False, ''no cosign key or certificate identity configured for provenance'', None)
      else (case at_Run A (attestation_args p ref) of
          (out, failed) \<Rightarrow>
            if failed then (False, ''no verifiable provenance: '' @ lastLine out, None)
            else (case ParseAttestations A out of
                Inl e \<Rightarrow> (False, err_str e, None)
              | Inr ss \<Rightarrow> (case any_satisfying (provenance_check p) [] ss of (ok, d) \<Rightarrow> (ok, d, None)))))"

definition statements :: "attest \<Rightarrow> provenance \<Rightarrow> string \<Rightarrow> statement list res" where
  "statements A p ref =
     (case at_Run A (attestation_args p ref) of
        (out, failed) \<Rightarrow> if failed then Inl (Err (''provenance unavailable: '' @ lastLine out)) else ParseAttestations A out)"

fun chain_details :: "verifier list \<Rightarrow> string \<Rightarrow> string list \<Rightarrow> verdict3" where
  "chain_details [] ref ds =
     (if ds = [] then (False, ''no verifiers configured'', None) else (True, strings_Join ds ''; '', None))"
| "chain_details (v # vs) ref ds =
     (case v ref of
        (ok, d, Some e) \<Rightarrow> (False, d, Some e)
      | (ok, d, None) \<Rightarrow> if \<not> ok then (False, d, None) else chain_details vs ref (ds @ [d]))"

definition Chain_Verify :: "verifier list \<Rightarrow> verifier" where
  "Chain_Verify vs ref = chain_details vs ref []"

section \<open>The source gate\<close>

definition Passed :: "vsa_statement \<Rightarrow> bool" where
  "Passed s = EqualFold (vs_VerificationResult s) ''PASSED''"

definition isObjectID :: "string \<Rightarrow> bool" where
  "isObjectID s = ((length s = 40 \<or> length s = 64) \<and> list_all (\<lambda>c. hex_val c \<noteq> None) s)"

definition vsa_SourceCommit :: "vsa_statement \<Rightarrow> string" where
  "vsa_SourceCommit s =
     (let sub = first_commit (vs_Subject s); uri = vs_ResourceURI s; i = last_index uri (CHR ''@'') in
      if sub \<noteq> [] then sub
      else if i \<ge> 0 \<and> isObjectID (drop (nat i + 1) uri) then drop (nat i + 1) uri
      else [])"

record source_gate =
  sg_PublicKeys :: "string list"
  sg_AllowHTTP :: bool
  sg_AllowedVerifiers :: "string list"
  sg_RequireLevels :: "string list"
  sg_Provenance :: "provenance option"

definition hasLevel :: "string list \<Rightarrow> string \<Rightarrow> bool" where
  "hasLevel levels want = list_ex (\<lambda>l. EqualFold l want) levels"

definition gate_check :: "source_gate \<Rightarrow> vsa_statement \<Rightarrow> string \<Rightarrow> string \<Rightarrow> bool \<times> string" where
  "gate_check g s keyID builtFrom =
     (if sg_AllowedVerifiers g \<noteq> [] \<and> \<not> builderAllowed (vs_VerifierID s) (sg_AllowedVerifiers g) then
        (False, ''source verified by '' @ orUnknown (vs_VerifierID s) @ '', which is not an allowed gate'')
      else if \<not> Passed s then (False, ''source gate reported '' @ orUnknown (vs_VerificationResult s))
      else (case find (\<lambda>want. \<not> hasLevel (vs_VerifiedLevels s) want) (sg_RequireLevels g) of
          Some want \<Rightarrow> (False, ''source gate did not reach '' @ want @ '' (got ['' @ strings_Join (vs_VerifiedLevels s) '' '' @ ''])'')
        | None \<Rightarrow>
            (let commit = vsa_SourceCommit s in
             if commit = [] then (False, ''the source summary names no commit'')
             else if builtFrom \<noteq> [] \<and> commit \<noteq> builtFrom then
               (False, ''the source summary is for '' @ short_sha commit @ '' but the artifact was built from '' @ short_sha builtFrom)
             else
               (let caveats = (if builtFrom = [] then [''not joined to the build: no provenance to compare against''] else []) @
                      (if sg_AllowedVerifiers g = [] then [''no allowed-gate policy set''] else []) in
                (True, ''source gated by '' @ orUnknown (vs_VerifierID s) @ '' at '' @ short_sha commit @ '', signed by '' @ orUnknown keyID @
                   (if caveats \<noteq> [] then '' ('' @ strings_Join caveats ''; '' @ '')'' else []))))))"

definition pae :: "string \<Rightarrow> string \<Rightarrow> string" where
  "pae payloadType payload =
     ''DSSEv1 '' @ utoa (length payloadType) @ '' '' @ payloadType @ '' '' @ utoa (length payload) @ '' '' @ payload"

text \<open>The nested loops over keys and signatures: the first pair that verifies.\<close>

definition gate_key :: "string \<Rightarrow> string option" where
  "gate_key encoded =
     (case std_DecodeString (strings_TrimSpace encoded) of None \<Rightarrow> None | Some k \<Rightarrow> if length k = 32 then Some k else None)"

definition sig_verifies :: "attest \<Rightarrow> string \<Rightarrow> string \<Rightarrow> string \<times> string \<Rightarrow> bool" where
  "sig_verifies A key msg sg = (case std_DecodeString (snd sg) of None \<Rightarrow> False | Some raw \<Rightarrow> at_Ed25519 A key msg raw)"

fun signing_pair :: "attest \<Rightarrow> string \<Rightarrow> (string \<times> string) list \<Rightarrow> string list \<Rightarrow> string option" where
  "signing_pair A msg sigs [] = None"
| "signing_pair A msg sigs (enc # encs) =
     (case gate_key enc of
        None \<Rightarrow> signing_pair A msg sigs encs
      | Some key \<Rightarrow> (case find (sig_verifies A key msg) sigs of
          Some sg \<Rightarrow> Some (fst sg)
        | None \<Rightarrow> signing_pair A msg sigs encs))"

text \<open>\<open>authenticate\<close>; \<open>None\<close> is \<open>errNotASummary\<close>.\<close>

definition authenticate :: "attest \<Rightarrow> source_gate \<Rightarrow> envelope \<Rightarrow> (vsa_statement \<times> string) res option" where
  "authenticate A g e =
     (case std_DecodeString (ev_Payload e) of
        None \<Rightarrow> Some (Inl (Err ''source summary payload is not base64''))
      | Some payload \<Rightarrow> (case at_VSA A payload of
          None \<Rightarrow> Some (Inl (Err ''source summary is not readable''))
        | Some s \<Rightarrow>
            if vs_PredicateType s \<noteq> VSAPredicateType then None
            else if ev_Signatures e = [] then Some (Inl (Err ''the source summary carries no signature''))
            else (case signing_pair A (pae (ev_PayloadType e) payload) (ev_Signatures e) (sg_PublicKeys g) of
                Some keyID \<Rightarrow> Some (Inr (s, keyID))
              | None \<Rightarrow> Some (Inl (Err ''the source summary is not signed by any configured gate key'')))))"

definition ParseEnvelopes :: "attest \<Rightarrow> string \<Rightarrow> envelope list" where
  "ParseEnvelopes A out =
     concat (map (\<lambda>l. case at_Envelope A l of None \<Rightarrow> [] | Some e \<Rightarrow> if ev_Payload e = [] then [] else [e]) (json_lines out))"

fun first_source :: "statement list \<Rightarrow> string" where
  "first_source [] = []"
| "first_source (s # ss) = (if stmt_SourceCommit s \<noteq> [] then stmt_SourceCommit s else first_source ss)"

definition buildCommit :: "attest \<Rightarrow> source_gate \<Rightarrow> string \<Rightarrow> string" where
  "buildCommit A g ref =
     (case sg_Provenance g of
        None \<Rightarrow> []
      | Some p \<Rightarrow> (case statements A p ref of Inl _ \<Rightarrow> [] | Inr ss \<Rightarrow> first_source ss))"

fun gate_loop :: "attest \<Rightarrow> source_gate \<Rightarrow> string \<Rightarrow> string \<Rightarrow> envelope list \<Rightarrow> bool \<times> string" where
  "gate_loop A g builtFrom lst [] = (False, if lst = [] then ''no source gate summary on this artifact'' else lst)"
| "gate_loop A g builtFrom lst (e # es) =
     (case authenticate A g e of
        None \<Rightarrow> gate_loop A g builtFrom lst es
      | Some (Inl er) \<Rightarrow> gate_loop A g builtFrom (err_str er) es
      | Some (Inr (s, keyID)) \<Rightarrow>
          (case gate_check g s keyID builtFrom of
             (True, d) \<Rightarrow> (True, d)
           | (False, d) \<Rightarrow> gate_loop A g builtFrom d es))"

definition SourceGate_Verify :: "attest \<Rightarrow> source_gate \<Rightarrow> verifier" where
  "SourceGate_Verify A g ref =
     (if sg_PublicKeys g = [] then (False, ''no source gate public keys configured'', None)
      else (case at_Run A ([''download'', ''attestation''] @ (if sg_AllowHTTP g then [''--allow-http-registry''] else []) @ [ref]) of
          (out, failed) \<Rightarrow>
            if failed then (False, ''no source gate summary on this artifact: '' @ lastLine out, None)
            else (case ParseEnvelopes A out of
                [] \<Rightarrow> (False, ''no source gate summary on this artifact'', None)
              | es \<Rightarrow> (case gate_loop A g (buildCommit A g ref) [] es of (ok, d) \<Rightarrow> (ok, d, None)))))"

section \<open>The gate of the engine\<close>

record artifact_gate =
  ag_Mode :: string
  ag_Verifier :: "verifier option"

definition artifact_Check :: "artifact_gate \<Rightarrow> string \<Rightarrow> err option" where
  "artifact_Check g ref =
     (if ag_Mode g = ''off'' \<or> (ag_Mode g = [] \<and> ag_Verifier g = None) then None
      else (case ag_Verifier g of
          None \<Rightarrow> Some (ErrUnverifiedArtifact ref (''no verifier configured but mode is '' @ ag_Mode g))
        | Some v \<Rightarrow> (case v ref of
            (ok, d, er) \<Rightarrow>
              if ag_Mode g = ''warn'' then None
              else if ag_Mode g = ''enforce'' \<or> ag_Mode g = [] then
                (case er of
                   Some e \<Rightarrow> Some (ErrUnverifiedArtifact ref (err_str e))
                 | None \<Rightarrow> if \<not> ok then Some (ErrUnverifiedArtifact ref d) else None)
              else Some (Err (''security: unknown verify mode '' @ ag_Mode g)))))"

definition splitList :: "string \<Rightarrow> string list" where
  "splitList v = filter (\<lambda>p. p \<noteq> []) (map strings_TrimSpace (split_on (CHR '','') v))"

definition boot_provenance :: "(string \<Rightarrow> string) \<Rightarrow> cosign_opts \<Rightarrow> provenance" where
  "boot_provenance getenv co =
     \<lparr>pv_Cosign = co, pv_AllowedBuilders = splitList (getenv ''ROLLOPS_PROVENANCE_BUILDERS''),
      pv_RequireReproved = truthy (getenv ''ROLLOPS_PROVENANCE_REQUIRE_REPROVED''), pv_AllowMissingSourceCommit = False\<rparr>"

definition artifactGate :: "attest \<Rightarrow> (string \<Rightarrow> string) \<Rightarrow> artifact_gate option" where
  "artifactGate A getenv =
     (let co = \<lparr>co_KeyPath = getenv ''ROLLOPS_COSIGN_KEY'', co_CertIdentity = getenv ''ROLLOPS_COSIGN_IDENTITY'',
            co_CertOIDCIssuer = getenv ''ROLLOPS_COSIGN_ISSUER'', co_AllowHTTP = False\<rparr>;
          builders = splitList (getenv ''ROLLOPS_PROVENANCE_BUILDERS'');
          gates = splitList (getenv ''ROLLOPS_SOURCE_GATES'');
          gateKeys = splitList (getenv ''ROLLOPS_SOURCE_KEYS'');
          authenticated = (co_KeyPath co \<noteq> [] \<or> (co_CertIdentity co \<noteq> [] \<and> co_CertOIDCIssuer co \<noteq> []));
          prov = (if builders \<noteq> [] \<and> authenticated then Some (boot_provenance getenv co) else None);
          vs = (if authenticated then [Cosign_Verify A co] else []) @
               (case prov of Some p \<Rightarrow> [Provenance_Verify A p] | None \<Rightarrow> []) @
               (if gateKeys \<noteq> [] then [SourceGate_Verify A \<lparr>sg_PublicKeys = gateKeys, sg_AllowHTTP = False, sg_AllowedVerifiers = gates,
                    sg_RequireLevels = splitList (getenv ''ROLLOPS_SOURCE_REQUIRE_LEVELS''), sg_Provenance = prov\<rparr>] else []) in
      if vs = [] then None else Some \<lparr>ag_Mode = ''enforce'', ag_Verifier = Some (Chain_Verify vs)\<rparr>)"

section \<open>What the gate has established when it lets an artifact through\<close>

lemma any_satisfying_iff: "fst (any_satisfying chk lst xs) \<longleftrightarrow> (\<exists>x \<in> set xs. fst (chk x))"
  by (induction xs arbitrary: lst) auto

lemma chain_passes:
  "fst (chain_details vs ref ds) \<Longrightarrow> v \<in> set vs \<Longrightarrow> fst (v ref) \<and> snd (snd (v ref)) = None"
proof (induction vs arbitrary: ds)
  case (Cons u vs)
  obtain ok d er where u: "u ref = (ok, d, er)" by (cases "u ref")
  have "er = None" "ok" "fst (chain_details vs ref (ds @ [d]))"
    using Cons.prems(1) by (simp_all add: u split: option.splits if_splits)
  with Cons.IH [OF this(3)] Cons.prems(2) u show ?case by auto
qed simp

text \<open>A summary is authentic when one of the configured keys verifies one of its signatures over its own payload.\<close>

definition authentic :: "attest \<Rightarrow> source_gate \<Rightarrow> envelope \<Rightarrow> vsa_statement \<Rightarrow> bool" where
  "authentic A g e s \<longleftrightarrow> (\<exists>payload enc key sg raw. std_DecodeString (ev_Payload e) = Some payload \<and> at_VSA A payload = Some s \<and>
     vs_PredicateType s = VSAPredicateType \<and> enc \<in> set (sg_PublicKeys g) \<and> gate_key enc = Some key \<and>
     sg \<in> set (ev_Signatures e) \<and> std_DecodeString (snd sg) = Some raw \<and>
     at_Ed25519 A key (pae (ev_PayloadType e) payload) raw)"

lemma signing_pair_Some:
  "signing_pair A msg sigs encs = Some k \<Longrightarrow> \<exists>enc key sg. enc \<in> set encs \<and> gate_key enc = Some key \<and> sg \<in> set sigs \<and> sig_verifies A key msg sg"
proof (induction encs)
  case (Cons enc encs)
  show ?case
  proof (cases "\<exists>key sg. gate_key enc = Some key \<and> find (sig_verifies A key msg) sigs = Some sg")
    case True
    then obtain key sg where "gate_key enc = Some key" "find (sig_verifies A key msg) sigs = Some sg" by blast
    with find_SomeD [OF this(2)] show ?thesis by (intro exI [of _ enc] exI [of _ key] exI [of _ sg]) simp
  next
    case False
    then have "signing_pair A msg sigs encs = Some k" using Cons.prems by (auto split: option.splits)
    with Cons.IH show ?thesis by auto
  qed
qed simp

lemma authenticate_Inr:
  assumes "authenticate A g e = Some (Inr (s, k))"
  shows "authentic A g e s"
proof -
  obtain payload where p: "std_DecodeString (ev_Payload e) = Some payload" "at_VSA A payload = Some s" "vs_PredicateType s = VSAPredicateType"
    "signing_pair A (pae (ev_PayloadType e) payload) (ev_Signatures e) (sg_PublicKeys g) = Some k"
    using assms by (auto simp: authenticate_def split: option.splits if_splits)
  from signing_pair_Some [OF p(4)] obtain enc key sg where "enc \<in> set (sg_PublicKeys g)" "gate_key enc = Some key"
    "sg \<in> set (ev_Signatures e)" "sig_verifies A key (pae (ev_PayloadType e) payload) sg" by blast
  moreover from this(4) obtain raw where "std_DecodeString (snd sg) = Some raw" "at_Ed25519 A key (pae (ev_PayloadType e) payload) raw"
    by (auto simp: sig_verifies_def split: option.splits)
  ultimately show ?thesis using p(1-3) unfolding authentic_def by blast
qed

lemma gate_loop_accepts:
  assumes "fst (gate_loop A g b lst es)"
  shows "\<exists>e s k. e \<in> set es \<and> authentic A g e s \<and> fst (gate_check g s k b)"
  using assms
proof (induction es arbitrary: lst)
  case (Cons e es)
  consider "authenticate A g e = None" | er where "authenticate A g e = Some (Inl er)"
    | s k where "authenticate A g e = Some (Inr (s, k))" by (cases "authenticate A g e") (auto, metis sum.exhaust surj_pair)
  then show ?case
  proof cases
    case 3
    show ?thesis
    proof (cases "fst (gate_check g s k b)")
      case True
      then show ?thesis using authenticate_Inr [OF 3] by auto
    next
      case False
      then have "fst (gate_loop A g b (snd (gate_check g s k b)) es)"
        using Cons.prems 3 by (cases "gate_check g s k b") (simp split: bool.splits)
      from Cons.IH [OF this] show ?thesis by auto
    qed
  qed (use Cons in \<open>auto, metis+\<close>)
qed simp

lemma gate_check_accepts:
  assumes "fst (gate_check g s k b)"
  shows "(sg_AllowedVerifiers g = [] \<or> builderAllowed (vs_VerifierID s) (sg_AllowedVerifiers g)) \<and> Passed s \<and>
    (\<forall>want \<in> set (sg_RequireLevels g). hasLevel (vs_VerifiedLevels s) want) \<and> vsa_SourceCommit s \<noteq> [] \<and>
    (b = [] \<or> vsa_SourceCommit s = b)"
  using assms
  by (auto simp: gate_check_def Let_def find_None_iff' split: if_splits option.splits)

definition built_ok :: "attest \<Rightarrow> provenance \<Rightarrow> string \<Rightarrow> bool" where
  "built_ok A p ref \<longleftrightarrow> (\<exists>ss s. statements A p ref = Inr ss \<and> s \<in> set ss \<and> builderAllowed (pr_BuilderID s) (pv_AllowedBuilders p) \<and>
     stmt_SourceCommit s \<noteq> [] \<and> (pv_RequireReproved p \<longrightarrow> pr_Reproved s))"

lemma Provenance_accepts:
  assumes "fst (Provenance_Verify A p ref)" "pv_AllowedBuilders p \<noteq> []" "\<not> pv_AllowMissingSourceCommit p"
  shows "built_ok A p ref"
proof -
  obtain out ss where r: "at_Run A (attestation_args p ref) = (out, False)" "ParseAttestations A out = Inr ss"
    "fst (any_satisfying (provenance_check p) [] ss)"
    using assms(1) by (auto simp: Provenance_Verify_def split: if_splits prod.splits sum.splits)
  from r(3) obtain s where "s \<in> set ss" "fst (provenance_check p s)" by (auto simp: any_satisfying_iff)
  then show ?thesis
    using r(1,2) assms(2,3) unfolding built_ok_def statements_def
    by (auto simp: provenance_check_def split: if_splits)
qed

text \<open>
  The summaries are the envelopes cosign downloads for this reference. The summary that is accepted names the
  commit of the first verified provenance statement of the reference that names one; that statement need not be
  the one of a listed builder (\<open>join_uses_first_statement\<close> below).
\<close>

definition joined :: "attest \<Rightarrow> source_gate \<Rightarrow> string \<Rightarrow> string \<Rightarrow> bool" where
  "joined A g ref commit \<longleftrightarrow> (\<forall>p pre s post. sg_Provenance g = Some p \<and> statements A p ref = Inr (pre @ s # post) \<and>
     list_all (\<lambda>t. stmt_SourceCommit t = []) pre \<and> stmt_SourceCommit s \<noteq> [] \<longrightarrow> commit = stmt_SourceCommit s)"

definition gated_ok :: "attest \<Rightarrow> source_gate \<Rightarrow> string \<Rightarrow> bool" where
  "gated_ok A g ref \<longleftrightarrow> (\<exists>out e s.
     at_Run A ([''download'', ''attestation''] @ (if sg_AllowHTTP g then [''--allow-http-registry''] else []) @ [ref]) = (out, False) \<and>
     e \<in> set (ParseEnvelopes A out) \<and> authentic A g e s \<and> Passed s \<and>
     (sg_AllowedVerifiers g = [] \<or> builderAllowed (vs_VerifierID s) (sg_AllowedVerifiers g)) \<and>
     (\<forall>want \<in> set (sg_RequireLevels g). hasLevel (vs_VerifiedLevels s) want) \<and> vsa_SourceCommit s \<noteq> [] \<and>
     joined A g ref (vsa_SourceCommit s))"

lemma first_source_skip: "list_all (\<lambda>t. stmt_SourceCommit t = []) pre \<Longrightarrow> first_source (pre @ ss) = first_source ss"
  by (induction pre) auto

lemma buildCommit_joined:
  assumes "buildCommit A g ref = [] \<or> commit = buildCommit A g ref"
  shows "joined A g ref commit"
  using assms by (auto simp: joined_def buildCommit_def first_source_skip)

lemma SourceGate_accepts:
  assumes "fst (SourceGate_Verify A g ref)"
  shows "gated_ok A g ref"
proof -
  obtain out where out: "at_Run A ([''download'', ''attestation''] @ (if sg_AllowHTTP g then [''--allow-http-registry''] else []) @ [ref]) = (out, False)"
    "fst (gate_loop A g (buildCommit A g ref) [] (ParseEnvelopes A out))"
  proof -
    obtain out failed where r: "at_Run A ([''download'', ''attestation''] @ (if sg_AllowHTTP g then [''--allow-http-registry''] else []) @ [ref]) = (out, failed)"
      by fastforce
    have "\<not> failed \<and> fst (gate_loop A g (buildCommit A g ref) [] (ParseEnvelopes A out))"
      using assms unfolding SourceGate_Verify_def r
      by (auto simp del: gate_loop.simps split: if_splits list.splits prod.splits)
    then show thesis using that r by simp
  qed
  from gate_loop_accepts [OF out(2)] obtain e s k
    where e: "e \<in> set (ParseEnvelopes A out)" "authentic A g e s" "fst (gate_check g s k (buildCommit A g ref))" by blast
  note ok = gate_check_accepts [OF e(3)]
  have "joined A g ref (vsa_SourceCommit s)" using ok by (intro buildCommit_joined) auto
  with ok e(1,2) out(1) show ?thesis
    unfolding gated_ok_def by (intro exI [of _ out] exI [of _ e] exI [of _ s]) simp
qed


subsection \<open>An example\<close>

text \<open>A signing key, one allowed builder and one gate key; every document decodes to the same statement.\<close>

definition demo_getenv :: "string \<Rightarrow> string" where
  "demo_getenv k =
     (if k = ''ROLLOPS_COSIGN_KEY'' then ''cosign.pub'' else if k = ''ROLLOPS_PROVENANCE_BUILDERS'' then ''kiln@''
      else if k = ''ROLLOPS_SOURCE_KEYS'' then ''QUFBQUFBQUFBQUFBQUFBQUFBQUFBQUFBQUFBQUFBQUE='' else [])"

definition demo_statement :: statement where
  "demo_statement = \<lparr>pr_PredicateType = SLSAPredicateType, pr_ResolvedDependencies = [[(''gitCommit'', ''c0ffee'')]],
     pr_Verified = True, pr_Reproved = True, pr_Reason = [], pr_BuilderID = ''kiln@v1''\<rparr>"

definition demo_vsa :: vsa_statement where
  "demo_vsa = \<lparr>vs_PredicateType = VSAPredicateType, vs_Subject = [[(''gitCommit'', ''c0ffee'')]], vs_VerifierID = ''warden'',
     vs_ResourceURI = [], vs_VerificationResult = ''passed'', vs_VerifiedLevels = []\<rparr>"

definition demo_attest :: attest where
  "demo_attest = \<lparr>at_Run = (\<lambda>_. (''{}'', False)), at_Payload = (\<lambda>_. Some ''QQ==''), at_Statement = (\<lambda>_. Some demo_statement),
     at_Envelope = (\<lambda>_. Some \<lparr>ev_PayloadType = ''t'', ev_Payload = ''QQ=='', ev_Signatures = [(''k1'', ''QQ=='')]\<rparr>),
     at_VSA = (\<lambda>_. Some demo_vsa), at_Ed25519 = (\<lambda>k m sg. sg = ''A'')\<rparr>"

lemma demo_gate:
  "case artifactGate demo_attest demo_getenv of None \<Rightarrow> False | Some g \<Rightarrow> artifact_Check g ''img'' = None"
  by code_simp


section \<open>Where the checks stop short\<close>

text \<open>
  With no list of builders, a statement is accepted before the other two policies are looked at: neither the
  required re-run of the source checks nor the required source commit is enforced.
\<close>

lemma no_builders_no_policy:
  "pv_AllowedBuilders p = [] \<Longrightarrow> fst (provenance_check p s)"
  by (simp add: provenance_check_def)

text \<open>
  The source summary is joined to the first provenance statement that names a commit, which need not be the
  statement the provenance policy accepted: here the accepted statement is about \<open>beef\<close>, and a summary for
  \<open>c0ffee\<close>, named by a builder that is not allowed, passes the join.
\<close>

definition join_policy :: provenance where
  "join_policy = \<lparr>pv_Cosign = \<lparr>co_KeyPath = ''k'', co_CertIdentity = [], co_CertOIDCIssuer = [], co_AllowHTTP = False\<rparr>,
     pv_AllowedBuilders = [''kiln@''], pv_RequireReproved = False, pv_AllowMissingSourceCommit = False\<rparr>"

lemma join_uses_first_statement:
  "let other = demo_statement\<lparr>pr_BuilderID := ''laptop''\<rparr>;
       kiln = demo_statement\<lparr>pr_ResolvedDependencies := [[(''gitCommit'', ''beef'')]]\<rparr>;
       gate = \<lparr>sg_PublicKeys = [], sg_AllowHTTP = False, sg_AllowedVerifiers = [], sg_RequireLevels = [], sg_Provenance = Some join_policy\<rparr> in
   map (\<lambda>s. fst (provenance_check join_policy s)) [other, kiln] = [False, True] \<and> stmt_SourceCommit kiln = ''beef'' \<and>
   fst (gate_check gate demo_vsa ''k1'' (first_source [other, kiln])) \<and> vsa_SourceCommit demo_vsa = ''c0ffee''"
  by code_simp

text \<open>Builders listed without a signing key leave no gate at all: every artifact is deployed unchecked.\<close>

lemma builders_without_key_no_gate:
  "artifactGate A (\<lambda>k. if k = ''ROLLOPS_PROVENANCE_BUILDERS'' then ''kiln@'' else []) = None"
proof -
  have "splitList [] = []" by code_simp
  then show ?thesis by (simp add: artifactGate_def)
qed

end
