(* ===== verification/Redact.thy ===== *)
theory Redact
  imports Engine_Base
begin

text \<open>
  \<^verbatim>\<open>internal/secrets\<close> and the redaction of \<^verbatim>\<open>internal/audit/audit.go\<close>: how a secret is resolved,
  and what the audit trail writes. The process environment and Vault's answer are parameters. An
  audit record is the list of the key and value pairs it writes, in the order of the code.
\<close>

section \<open>Secrets\<close>

record secret =
  se_value :: string

definition NewSecret :: "string \<Rightarrow> secret" where "NewSecret v = \<lparr>se_value = v\<rparr>"
definition secret_String :: "secret \<Rightarrow> string" where "secret_String s = ''***''"
definition Reveal :: "secret \<Rightarrow> string" where "Reveal s = se_value s"
definition IsZero_secret :: "secret \<Rightarrow> bool" where "IsZero_secret s = (se_value s = [])"

abbreviation ErrSecretNotFound :: err where "ErrSecretNotFound \<equiv> Err ''secrets: not found''"

text \<open>\<open>strings.ToUpper\<close> on ASCII text.\<close>

definition upper :: "char \<Rightarrow> char" where
  "upper c = (if CHR ''a'' \<le> c \<and> c \<le> CHR ''z'' then char_of (of_char c - 32 :: nat) else c)"

definition envKey :: "string \<Rightarrow> string" where
  "envKey ref =
     (let r = map upper ref;
          r = strings_ReplaceAll r ''-'' ''_'';
          r = strings_ReplaceAll r ''/'' ''_'' in
      strings_ReplaceAll r ''.'' ''_'')"

type_synonym provider = "string \<Rightarrow> secret res"

text \<open>\<open>EnvProvider.Resolve\<close>; \<open>fmt.Errorf("%w: ...")\<close> puts the sentinel first.\<close>

definition env_Resolve :: "(string \<Rightarrow> string option) \<Rightarrow> string \<Rightarrow> provider" where
  "env_Resolve lookup pre ref =
     (let key = pre @ envKey ref in
      case lookup key of
        None \<Rightarrow> Inl (Err (''secrets: not found: env '' @ key))
      | Some v \<Rightarrow> if v = [] then Inl (Err (''secrets: not found: env '' @ key)) else Inr (NewSecret v))"

fun chain_go :: "err option \<Rightarrow> provider list \<Rightarrow> string \<Rightarrow> secret res" where
  "chain_go lst [] ref = Inl (case lst of None \<Rightarrow> ErrSecretNotFound | Some e \<Rightarrow> e)"
| "chain_go lst (p # ps) ref = (case p ref of Inr s \<Rightarrow> Inr s | Inl e \<Rightarrow> chain_go (Some e) ps ref)"

definition chain_Resolve :: "provider list \<Rightarrow> provider" where
  "chain_Resolve ps ref = chain_go None ps ref"

text \<open>\<open>parseRef\<close>: the mount, the path and the key of a Vault reference.\<close>

definition parseRef :: "string \<Rightarrow> string \<Rightarrow> (string \<times> string \<times> string) res" where
  "parseRef ref defaultMount =
     (let hash = last_index ref (CHR ''#''); bad = Err (''secrets: ref '' @ ref @ '' must be mount/path#key'') in
      if hash < 0 then Inl bad
      else
        (let key = drop (nat hash + 1) ref; loc = take (nat hash) ref;
             (mount, path) = (case before_byte loc (CHR ''/'') of
                 Some m \<Rightarrow> (m, drop (length m + 1) loc)
               | None \<Rightarrow> (defaultMount, loc)) in
         if mount = [] \<or> path = [] \<or> key = [] then Inl bad else Inr (mount, path, key)))"

text \<open>What Vault answers: an address that makes no request, no response, a status with a body that is not the secret, or the data of the secret.\<close>

datatype vault_response = VaultNoRequest err | VaultDown err | VaultStatus int string | VaultBad err | VaultData "(string \<times> string) list"

definition vault_Resolve :: "(string \<Rightarrow> vault_response) \<Rightarrow> string \<Rightarrow> string \<Rightarrow> provider" where
  "vault_Resolve http addr mount0 ref =
     (case parseRef ref mount0 of
        Inl e \<Rightarrow> Inl e
      | Inr (mount, path, key) \<Rightarrow>
          (case http (rev (dropWhile (\<lambda>c. c = CHR ''/'') (rev addr)) @ ''/v1/'' @ mount @ ''/data/'' @ path) of
             VaultNoRequest e \<Rightarrow> Inl e
           | VaultDown e \<Rightarrow> Inl (Wrap ''secrets: vault'' e)
           | VaultStatus n body \<Rightarrow>
               if n = 404 then Inl (Err (''secrets: not found: vault '' @ ref))
               else Inl (Err (''secrets: vault status '' @ itoa n @ '': '' @ strings_TrimSpace (take 512 body)))
           | VaultBad e \<Rightarrow> Inl (Wrap ''secrets: vault decode'' e)
           | VaultData kvs \<Rightarrow>
               (case map_of kvs key of
                  None \<Rightarrow> Inl (Err (''secrets: not found: key '' @ key @ '' in '' @ ref))
                | Some v \<Rightarrow> Inr (NewSecret v))))"

definition secrets_FromEnv ::
  "(string \<Rightarrow> string) \<Rightarrow> (string \<Rightarrow> string res) \<Rightarrow> (string \<Rightarrow> string option) \<Rightarrow> (string \<Rightarrow> string \<Rightarrow> vault_response) \<Rightarrow> provider res" where
  "secrets_FromEnv getenv readFile lookup http =
     (let env = env_Resolve lookup ''ROLLOPS_SECRET_''; addr = strings_TrimSpace (getenv ''VAULT_ADDR'') in
      if addr = [] then Inr env
      else
        (let token = strings_TrimSpace (getenv ''VAULT_TOKEN''); path = strings_TrimSpace (getenv ''VAULT_TOKEN_FILE'') in
         case (if token = [] \<and> path \<noteq> [] then map_sum id strings_TrimSpace (readFile path) else Inr token) of
           Inl e \<Rightarrow> Inl (Wrap ''secrets: read VAULT_TOKEN_FILE'' e)
         | Inr tok \<Rightarrow> Inr (chain_Resolve [vault_Resolve (http tok) addr [], env])))"

section \<open>The audit trail\<close>

record redactor =
  re_values :: "string list"

definition NewRedactor :: redactor where "NewRedactor = \<lparr>re_values = []\<rparr>"

definition Register :: "secret \<Rightarrow> redactor \<Rightarrow> redactor" where
  "Register s r = (if Reveal s \<noteq> [] then r\<lparr>re_values := re_values r @ [Reveal s]\<rparr> else r)"

definition Scrub :: "redactor \<Rightarrow> string \<Rightarrow> string" where
  "Scrub r s = foldl (\<lambda>s v. strings_ReplaceAll s v ''***'') s (re_values r)"

datatype field = FSecret secret | FText string | FOther string

definition action_str :: "audit_action \<Rightarrow> string" where
  "action_str a =
     (case a of ActionApply \<Rightarrow> ''apply'' | ActionPromote \<Rightarrow> ''promote'' | ActionRollback \<Rightarrow> ''rollback''
      | ActionDrift \<Rightarrow> ''drift'' | ActionOrphan \<Rightarrow> ''orphan'' | ActionFreeze \<Rightarrow> ''freeze'')"

definition opt_pair :: "string \<Rightarrow> string \<Rightarrow> (string \<times> string) list" where
  "opt_pair k v = (if v \<noteq> [] then [(k, v)] else [])"

definition field_pair :: "redactor \<Rightarrow> string \<times> field \<Rightarrow> string \<times> string" where
  "field_pair r kf = (case kf of (k, FSecret _) \<Rightarrow> (k, ''***'') | (k, FText s) \<Rightarrow> (k, Scrub r s) | (k, FOther s) \<Rightarrow> (k, s))"

definition Record :: "redactor \<Rightarrow> audit_entry \<Rightarrow> (string \<times> field) list \<Rightarrow> (string \<times> string) list" where
  "Record r e fs =
     [(''action'', action_str (ae_Action e)), (''actor_kind'', id_Kind (ae_Actor e)), (''actor'', id_Name (ae_Actor e))] @
     opt_pair ''rollout_id'' (ae_RolloutID e) @ opt_pair ''target_ref'' (ae_TargetRef e) @ opt_pair ''phase'' (ae_Phase e) @
     (if ae_Detail e \<noteq> [] then [(''detail'', Scrub r (ae_Detail e))] else []) @
     map (field_pair r) fs"

section \<open>Redaction\<close>

lemma star_free_strip:
  assumes "CHR ''*'' \<notin> set w" "sublist w (''***'' @ r)"
  shows "sublist w r"
  using assms by (cases w) (auto simp: sublist_Cons_right)

text \<open>A text without stars found at the head of a scrubbed text was already at the head of the text.\<close>

lemma prefix_before_replace:
  assumes "CHR ''*'' \<notin> set w" "prefix w (replace_go v ''***'' 0 s)"
  shows "prefix w s"
  using assms
proof (induction s arbitrary: w)
  case (Cons c cs)
  then show ?case by (cases w) (auto split: if_splits)
qed simp

lemma sublist_before_replace:
  assumes "CHR ''*'' \<notin> set w" "sublist w (replace_go v ''***'' k s)"
  shows "sublist w s"
  using assms
proof (induction s arbitrary: k)
  case (Cons c cs)
  consider "k > 0" | "k = 0" "prefix v (c # cs)" | "k = 0" "\<not> prefix v (c # cs)" by blast
  then show ?case
  proof cases
    case 1
    with Cons show ?thesis by (auto simp: sublist_Cons_right)
  next
    case 2
    with Cons.prems have "sublist w (replace_go v ''***'' (length v - 1) cs)"
      using star_free_strip [of w "replace_go v ''***'' (length v - 1) cs"] by simp
    with Cons show ?thesis by (auto simp: sublist_Cons_right)
  next
    case 3
    with Cons.prems have "prefix w (replace_go v ''***'' 0 (c # cs)) \<or> sublist w (replace_go v ''***'' 0 cs)"
      by (simp add: sublist_Cons_right)
    with Cons show ?thesis
      using prefix_before_replace [of w v "c # cs"] by (auto simp: sublist_Cons_right)
  qed
qed simp

lemma replace_removes:
  assumes "v \<noteq> []" "CHR ''*'' \<notin> set v"
  shows "\<not> sublist v (replace_go v ''***'' k s)"
  using assms
proof (induction s arbitrary: k)
  case (Cons c cs)
  consider "k > 0" | "k = 0" "prefix v (c # cs)" | "k = 0" "\<not> prefix v (c # cs)" by blast
  then show ?case
  proof cases
    case 1
    with Cons show ?thesis by simp
  next
    case 2
    then have "sublist v (replace_go v ''***'' k (c # cs)) \<Longrightarrow> sublist v (replace_go v ''***'' (length v - 1) cs)"
      using Cons.prems star_free_strip [of v "replace_go v ''***'' (length v - 1) cs"] by simp
    with Cons show ?thesis by blast
  next
    case 3
    then have "\<not> prefix v (replace_go v ''***'' 0 (c # cs))"
      using Cons.prems prefix_before_replace [of v v "c # cs"] by blast
    moreover have "\<not> sublist v (replace_go v ''***'' 0 cs)"
      using Cons by blast
    ultimately show ?thesis using 3 by (simp add: sublist_Cons_right)
  qed
qed simp

lemma scrub_keeps_absence:
  assumes "CHR ''*'' \<notin> set w" "[] \<notin> set vs" "\<not> sublist w s"
  shows "\<not> sublist w (foldl (\<lambda>s v. strings_ReplaceAll s v ''***'') s vs)"
  using assms
  by (induction vs arbitrary: s) (auto simp: strings_ReplaceAll_def dest: sublist_before_replace)

lemma scrub_removes:
  assumes "v \<in> set vs" "[] \<notin> set vs" "CHR ''*'' \<notin> set v"
  shows "\<not> sublist v (foldl (\<lambda>s v. strings_ReplaceAll s v ''***'') s vs)"
  using assms
proof (induction vs arbitrary: s)
  case (Cons u us)
  show ?case
  proof (cases "u = v")
    case True
    then have "\<not> sublist v (strings_ReplaceAll s u ''***'')"
      using Cons.prems replace_removes [of v 0 s] by (auto simp: strings_ReplaceAll_def)
    with Cons.prems show ?thesis by (simp add: scrub_keeps_absence)
  next
    case False
    with Cons show ?thesis by simp
  qed
qed simp

lemma registered_values:
  "re_values (fold Register ss r) = re_values r @ filter (\<lambda>v. v \<noteq> []) (map Reveal ss)"
  by (induction ss arbitrary: r) (auto simp: Register_def)

text \<open>
  The audit trail keeps registered secrets out of the text it scrubs. After any sequence of
  registrations, a value that a record writes and that contains a registered secret can only be one of
  the fields \<open>Record\<close> writes as they are: the action, the actor, the identifiers, the phase, or a field
  that is not a string. The secret must not contain the redaction mark's own character.
\<close>

theorem Record_redacts:
  assumes "s \<in> set ss" "Reveal s \<noteq> []" "CHR ''*'' \<notin> set (Reveal s)"
    and "(k, x) \<in> set (Record (fold Register ss NewRedactor) e fs)" "sublist (Reveal s) x"
  shows "x \<in> {action_str (ae_Action e), id_Kind (ae_Actor e), id_Name (ae_Actor e), ae_RolloutID e,
    ae_TargetRef e, ae_Phase e} \<or> (k, FOther x) \<in> set fs"
proof -
  have clean: "\<not> sublist (Reveal s) (Scrub (fold Register ss NewRedactor) t)" for t
    using assms(1-3) unfolding Scrub_def registered_values NewRedactor_def
    by (intro scrub_removes) auto
  have mark: "\<not> sublist (Reveal s) ''***''"
    using assms(2,3) star_free_strip [of "Reveal s" "[]"] by auto
  show ?thesis
    using assms(4,5) clean mark
    by (auto simp: Record_def opt_pair_def field_pair_def split: if_splits field.splits)
qed

definition audit_demo :: audit_entry where
  "audit_demo = \<lparr>ae_Action = ActionApply, ae_RolloutID = [], ae_TargetRef = ''web'', ae_Phase = [],
     ae_Actor = \<lparr>id_Kind = ''ci'', id_Name = ''hunter2'', id_Groups = []\<rparr>, ae_Detail = ''pw=hunter2!''\<rparr>"

lemma audit_demo_record:
  "Record (fold Register [NewSecret ''hunter2''] NewRedactor) audit_demo [(''n'', FOther ''5'')] =
   [(''action'', ''apply''), (''actor_kind'', ''ci''), (''actor'', ''hunter2''), (''target_ref'', ''web''),
    (''detail'', ''pw=***!''), (''n'', ''5'')]"
  by code_simp

theorem Record_redacts_witness:
  "Record (fold Register [NewSecret ''hunter2''] NewRedactor) audit_demo [(''n'', FOther ''5'')] =
     [(''action'', ''apply''), (''actor_kind'', ''ci''), (''actor'', ''hunter2''), (''target_ref'', ''web''),
      (''detail'', ''pw=***!''), (''n'', ''5'')] \<and>
   (''hunter2'' \<in> {action_str (ae_Action audit_demo), id_Kind (ae_Actor audit_demo), id_Name (ae_Actor audit_demo),
      ae_RolloutID audit_demo, ae_TargetRef audit_demo, ae_Phase audit_demo} \<or>
    (''actor'', FOther ''hunter2'') \<in> set [(''n'', FOther ''5'')])"
  using Record_redacts [of "NewSecret ''hunter2''" "[NewSecret ''hunter2'']" "''actor''" "''hunter2''" audit_demo
      "[(''n'', FOther ''5'')]"] audit_demo_record
  by (simp add: NewSecret_def Reveal_def)

text \<open>
  The values are replaced in the order of registration: when a shorter secret that is a prefix of a
  longer one was registered first, the rest of the longer one stays in the text.
\<close>

lemma longer_secret_leaks_its_tail:
  "Scrub (fold Register [NewSecret ''prod'', NewSecret ''prod-7f3a''] NewRedactor) ''token prod-7f3a'' = ''token ***-7f3a''"
  by code_simp

end
