(* ===== verification/Kube_Render.thy ===== *)
theory Kube_Render
  imports Repo_Load ImageUpdate
begin

text \<open>
  \<^verbatim>\<open>internal/target/kubernetes/render.go\<close>: how a Kubernetes target turns its spec into a manifest.

  Rendering runs external tools and reads files. A \<open>host\<close> answers each call from the calls made so far,
  so every behaviour of a stateful outside world is an instance; the state of a program is the list of
  calls it has made. The YAML and JSON libraries are the functions of \<open>kube_lib\<close>: a decoder is the list of
  what its successive \<open>Decode\<close> calls return before the end of the input, an encoder is told whether it
  has already written a document.

  \<open>sources_confined\<close> is the path guard of referenced sources, \<open>double_slash_escapes\<close> and
  \<open>release_name_is_a_flag\<close> are its two holes, \<open>override_images\<close> the image override.
\<close>

section \<open>The outside world\<close>

datatype call =
    Exec string "string option" "string list"
  | ReadFile string
  | MkdirTemp string
  | RemoveAll string

text \<open>The exit code when the process ran, the text of the error, and what the process wrote to stderr.\<close>

record failure =
  ff_Exit :: "int option"
  ff_Err :: string
  ff_Stderr :: string

type_synonym answer = "string \<times> failure option"
type_synonym host = "call list \<Rightarrow> call \<Rightarrow> answer"
type_synonym 'a hprog = "(call list, 'a) state"

record status_condition =
  sc_Type :: string
  sc_Status :: string
  sc_Reason :: string
  sc_Message :: string

record kube_lib =
  kl_Docs :: "string \<Rightarrow> tspec option res list"
  kl_Nodes :: "string \<Rightarrow> ynode res list"
  kl_Encode :: "bool \<Rightarrow> tspec \<Rightarrow> string res"
  kl_EncodeNode :: "bool \<Rightarrow> ynode \<Rightarrow> string res"
  kl_Marshal :: "tspec \<Rightarrow> string res"
  kl_Value :: "string \<Rightarrow> any res"
  kl_Conditions :: "string \<Rightarrow> status_condition list res"
  kl_Labels :: "string \<Rightarrow> (string \<times> string) list res"
  kl_Raw :: string

definition execRunner :: "host \<Rightarrow> string \<Rightarrow> string option \<Rightarrow> string list \<Rightarrow> string res hprog" where
  "execRunner H name stdin args = do {
     a \<leftarrow> host_call H (Exec name stdin args);
     State_Monad.return (case a of
         (out, None) \<Rightarrow> Inr out
       | (_, Some f) \<Rightarrow> Inl (Err (name @ '': '' @ ff_Err f @ '': '' @ ff_Stderr f)))
   }"

definition readFile :: "host \<Rightarrow> string \<Rightarrow> string res hprog" where
  "readFile H path = do {
     a \<leftarrow> host_call H (ReadFile path);
     State_Monad.return (case a of (out, None) \<Rightarrow> Inr out | (_, Some f) \<Rightarrow> Inl (Err (ff_Err f)))
   }"

definition wrap_out :: "string \<Rightarrow> string res \<Rightarrow> string res" where
  "wrap_out what r = map_sum (Wrap what) id r"

section \<open>Referenced paths\<close>

definition isRemoteSource :: "string \<Rightarrow> bool" where
  "isRemoteSource p =
     (if strings_Contains p ''://'' \<or> strings_HasPrefix p ''git@'' then True
      else if strings_Contains p ''//'' then True
      else list_ex (strings_HasPrefix p) [''github.com/'', ''gitlab.com/'', ''bitbucket.org/''])"

definition resolveSourcePath :: "string \<Rightarrow> string \<Rightarrow> string res" where
  "resolveSourcePath base path =
     (if isRemoteSource path then Inr path
      else if base = [] then Inr path
      else (let clean = filepath_Clean path in
            if hd clean = CHR ''/'' \<or> clean = ''..'' \<or> strings_HasPrefix clean ''../''
            then Inl (Err (''path '' @ path @ '' escapes the config root''))
            else Inr (filepath_Join base clean)))"

section \<open>The sources\<close>

text \<open>The comma-ok conversions \<open>v.(map[string]any)\<close> and \<open>v.(string)\<close>.\<close>

definition spec_map :: "tspec \<Rightarrow> string \<Rightarrow> tspec option" where
  "spec_map sp k = (case map_of sp k of Some (AMap m) \<Rightarrow> Some m | _ \<Rightarrow> None)"

definition spec_string :: "tspec \<Rightarrow> string \<Rightarrow> string option" where
  "spec_string sp k = (case map_of sp k of Some (AStr s) \<Rightarrow> Some s | _ \<Rightarrow> None)"

definition renderPath :: "host \<Rightarrow> string \<Rightarrow> string \<Rightarrow> string res hprog" where
  "renderPath H base path =
     (if path = [] then State_Monad.return (Inl (Err ''kubernetes: manifestFrom.path must not be empty''))
      else (case resolveSourcePath base path of
          Inl e \<Rightarrow> State_Monad.return (Inl (Wrap ''kubernetes: manifestFrom.path'' e))
        | Inr t \<Rightarrow> do {
            r \<leftarrow> readFile H t;
            State_Monad.return (wrap_out (''kubernetes: manifestFrom read '' @ path) r)
          }))"

definition runKustomize :: "host \<Rightarrow> string \<Rightarrow> string \<Rightarrow> string res hprog" where
  "runKustomize H base path =
     (case resolveSourcePath base path of
        Inl e \<Rightarrow> State_Monad.return (Inl (Wrap ''kubernetes: kustomize'' e))
      | Inr t \<Rightarrow> do {
          r \<leftarrow> execRunner H ''kubectl'' None [''kustomize'', t];
          State_Monad.return (wrap_out ''kubernetes: kustomize build'' r)
        })"

definition renderKustomize :: "host \<Rightarrow> tspec \<Rightarrow> string \<Rightarrow> string res hprog" where
  "renderKustomize H k base =
     (if spec_str k ''path'' = [] then State_Monad.return (Inl (Err ''kubernetes: kustomize.path is required''))
      else runKustomize H base (spec_str k ''path''))"

definition opt_flag :: "string \<Rightarrow> string \<Rightarrow> string list" where
  "opt_flag flag v = (if v \<noteq> [] then [flag, v] else [])"

definition release_of :: "tspec \<Rightarrow> string" where
  "release_of h = (if spec_str h ''releaseName'' = [] then ''rollops'' else spec_str h ''releaseName'')"

definition renderHelm :: "kube_lib \<Rightarrow> host \<Rightarrow> tspec \<Rightarrow> string res hprog" where
  "renderHelm Y H h =
     (if spec_str h ''chart'' = [] then State_Monad.return (Inl (Err ''kubernetes: helm.chart is required''))
      else (let args = [''template'', release_of h, spec_str h ''chart''] @ opt_flag ''--repo'' (spec_str h ''repo'') @
                  opt_flag ''--version'' (spec_str h ''version'') @ opt_flag ''--namespace'' (spec_str h ''namespace'');
                run = (\<lambda>stdin args. do {
                  r \<leftarrow> execRunner H ''helm'' stdin args;
                  State_Monad.return (wrap_out ''kubernetes: helm template'' r)
                }) in
            case spec_map h ''values'' of
              None \<Rightarrow> run None args
            | Some vals \<Rightarrow>
                if vals = [] then run None args
                else (case kl_Marshal Y vals of
                    Inl e \<Rightarrow> State_Monad.return (Inl (Wrap ''kubernetes: marshal helm values'' e))
                  | Inr y \<Rightarrow> run (Some y) (args @ [''-f'', ''/dev/stdin'']))))"

fun string_items :: "any list \<Rightarrow> string list res" where
  "string_items [] = Inr []"
| "string_items (AStr s # xs) = map_sum id ((#) s) (string_items xs)"
| "string_items (x # xs) = Inl (Err ''must be a list of file paths'')"

definition stringList :: "any option \<Rightarrow> string list res" where
  "stringList v =
     (case v of
        None \<Rightarrow> Inr []
      | Some ANull \<Rightarrow> Inr []
      | Some (AList xs) \<Rightarrow> string_items xs
      | Some _ \<Rightarrow> Inl (Err ''must be a list of file paths''))"

fun value_flags :: "string \<Rightarrow> string list \<Rightarrow> string list res" where
  "value_flags base [] = Inr []"
| "value_flags base (f # fs) =
     (case resolveSourcePath base f of
        Inl e \<Rightarrow> Inl (Wrap ''kubernetes: manifestFrom.helm.values'' e)
      | Inr vf \<Rightarrow> map_sum id ((@) [''-f'', vf]) (value_flags base fs))"

definition chart_arg :: "string \<Rightarrow> string \<Rightarrow> string \<Rightarrow> string res" where
  "chart_arg base repo chart =
     (if repo = [] \<and> \<not> isRemoteSource chart then map_sum (Wrap ''kubernetes: manifestFrom.helm.chart'') id (resolveSourcePath base chart)
      else Inr chart)"

definition renderHelmFrom :: "host \<Rightarrow> tspec \<Rightarrow> string \<Rightarrow> string res hprog" where
  "renderHelmFrom H h base =
     (let chart = spec_str h ''chart''; repo = spec_str h ''repo'' in
      if chart = [] then State_Monad.return (Inl (Err ''kubernetes: manifestFrom.helm.chart is required''))
      else (case chart_arg base repo chart of
          Inl e \<Rightarrow> State_Monad.return (Inl e)
        | Inr chartArg \<Rightarrow> (case stringList (map_of h ''values'') of
            Inl e \<Rightarrow> State_Monad.return (Inl (Wrap ''kubernetes: manifestFrom.helm.values'' e))
          | Inr fs \<Rightarrow> (case value_flags base fs of
              Inl e \<Rightarrow> State_Monad.return (Inl e)
            | Inr vfs \<Rightarrow> do {
                r \<leftarrow> execRunner H ''helm'' None
                  ([''template'', release_of h, chartArg] @ opt_flag ''--repo'' repo @
                   opt_flag ''--version'' (spec_str h ''version'') @ opt_flag ''--namespace'' (spec_str h ''namespace'') @ vfs);
                State_Monad.return (wrap_out ''kubernetes: helm template'' r)
              }))))"

definition renderManifestFrom :: "host \<Rightarrow> tspec \<Rightarrow> string \<Rightarrow> string res hprog" where
  "renderManifestFrom H mf base =
     (let one = Inl (Err ''kubernetes: manifestFrom must set exactly one of path / kustomize / helm'') in
      if length (filter (\<lambda>k. map_of mf k \<noteq> None) [''path'', ''kustomize'', ''helm'']) \<noteq> 1 then State_Monad.return one
      else (case spec_string mf ''path'' of Some p \<Rightarrow> renderPath H base p | None \<Rightarrow>
           (case spec_string mf ''kustomize'' of
              Some k \<Rightarrow>
                if k = [] then State_Monad.return (Inl (Err ''kubernetes: manifestFrom.kustomize must not be empty''))
                else runKustomize H base k
            | None \<Rightarrow> (case spec_map mf ''helm'' of Some h \<Rightarrow> renderHelmFrom H h base | None \<Rightarrow> State_Monad.return one))))"

definition renderTree :: "host \<Rightarrow> string \<Rightarrow> string \<Rightarrow> string \<Rightarrow> string \<Rightarrow> string res hprog" where
  "renderTree H base mode file src =
     (if mode = ''manifest'' then
        (if file = [] then State_Monad.return (Inl (Err (''kubernetes: '' @ src @ ''.file is required when render is manifest'')))
         else do {
           r \<leftarrow> readFile H (filepath_Join base file);
           State_Monad.return (wrap_out (''kubernetes: '' @ src @ '' read manifest'') r)
         })
      else do {
        r \<leftarrow> execRunner H ''kubectl'' None [''kustomize'', base];
        State_Monad.return (wrap_out (''kubernetes: '' @ src @ '' kustomize build'') r)
      })"

text \<open>\<open>os.MkdirTemp\<close>, the work, and the deferred \<open>os.RemoveAll\<close>.\<close>

definition in_temp_dir :: "host \<Rightarrow> string \<Rightarrow> (string \<Rightarrow> string res hprog) \<Rightarrow> string res hprog" where
  "in_temp_dir H src work = do {
     d \<leftarrow> host_call H (MkdirTemp (''rollops-'' @ src @ ''-''));
     (case d of
        (_, Some f) \<Rightarrow> State_Monad.return (Inl (Wrap (''kubernetes: '' @ src @ '' temp dir'') (Err (ff_Err f))))
      | (dir, None) \<Rightarrow> do {
          r \<leftarrow> work dir;
          _ \<leftarrow> host_call H (RemoveAll dir);
          State_Monad.return r
        })
   }"

definition sub_root :: "tspec \<Rightarrow> string \<Rightarrow> string" where
  "sub_root b dir = (if spec_str b ''path'' \<noteq> [] then filepath_Join dir (spec_str b ''path'') else dir)"

definition renderBucket :: "host \<Rightarrow> tspec \<Rightarrow> string res hprog" where
  "renderBucket H b =
     (let url = spec_str b ''url'' in
      if url = [] then State_Monad.return (Inl (Err ''kubernetes: bucket.url is required''))
      else in_temp_dir H ''bucket'' (\<lambda>dir. do {
        s \<leftarrow> (if strings_HasPrefix url ''s3://'' then do {
                r \<leftarrow> execRunner H ''aws'' None [''s3'', ''sync'', url, dir];
                State_Monad.return (wrap_out (''kubernetes: aws s3 sync '' @ url) r)
              } else if strings_HasPrefix url ''gs://'' then do {
                r \<leftarrow> execRunner H ''gsutil'' None [''-m'', ''rsync'', ''-r'', url, dir];
                State_Monad.return (wrap_out (''kubernetes: gsutil rsync '' @ url) r)
              } else State_Monad.return (Inl (Err (''kubernetes: bucket.url must be an s3:// or gs:// URL: '' @ url))));
        (case s of
           Inl e \<Rightarrow> State_Monad.return (Inl e)
         | Inr _ \<Rightarrow> renderTree H (sub_root b dir) (spec_str b ''render'') (spec_str b ''file'') ''bucket'')
      }))"

definition renderOCI :: "host \<Rightarrow> tspec \<Rightarrow> string res hprog" where
  "renderOCI H b =
     (let ref = spec_str b ''ref'' in
      if ref = [] then State_Monad.return (Inl (Err ''kubernetes: oci.ref is required''))
      else in_temp_dir H ''oci'' (\<lambda>dir. do {
        s \<leftarrow> execRunner H ''oras'' None [''pull'', ref, ''-o'', dir];
        (case s of
           Inl e \<Rightarrow> State_Monad.return (Inl (Wrap (''kubernetes: oras pull '' @ ref) e))
         | Inr _ \<Rightarrow> renderTree H (sub_root b dir) (spec_str b ''render'') (spec_str b ''file'') ''oci'')
      }))"

definition renderSource :: "kube_lib \<Rightarrow> host \<Rightarrow> tspec \<Rightarrow> string \<Rightarrow> string res hprog" where
  "renderSource Y H sp base =
     (case spec_map sp ''manifestFrom'' of Some mf \<Rightarrow> renderManifestFrom H mf base | None \<Rightarrow>
     (case spec_map sp ''oci'' of Some b \<Rightarrow> renderOCI H b | None \<Rightarrow>
     (case spec_map sp ''bucket'' of Some b \<Rightarrow> renderBucket H b | None \<Rightarrow>
     (case spec_map sp ''helm'' of Some h \<Rightarrow> renderHelm Y H h | None \<Rightarrow>
     (case spec_map sp ''kustomize'' of Some k \<Rightarrow> renderKustomize H k base | None \<Rightarrow>
      State_Monad.return
        (if spec_str sp ''manifest'' \<noteq> [] then Inr (spec_str sp ''manifest'')
         else Inl (Err ''kubernetes: spec must set one of manifestFrom / oci / bucket / helm / kustomize / manifest'')))))))"

section \<open>The image override\<close>

definition imageRepo :: "string \<Rightarrow> string" where
  "imageRepo img =
     (let img = (case before_byte img (CHR ''@'') of Some x \<Rightarrow> x | None \<Rightarrow> img) in
      if last_index img (CHR '':'') > last_index img (CHR ''/'') then take (nat (last_index img (CHR '':''))) img else img)"

text \<open>
  The code walks pointers into the document and overwrites values in place. Here the walk takes what to
  do at its end and gives back the changed node and whether something matched.
\<close>

definition childByKey :: "ynode \<Rightarrow> string \<Rightarrow> ynode option" where
  "childByKey n key = (if y_Kind n \<noteq> MappingNode then None else pair_get key (y_Content n))"

fun pair_upd :: "string \<Rightarrow> (ynode \<Rightarrow> ynode \<times> bool) \<Rightarrow> ynode list \<Rightarrow> ynode list \<times> bool" where
  "pair_upd key f (k # v # rest) =
     (if y_Value k = key then (k # fst (f v) # rest, snd (f v))
      else (k # v # fst (pair_upd key f rest), snd (pair_upd key f rest)))"
| "pair_upd key f ns = (ns, False)"

definition at_child :: "string \<Rightarrow> (ynode \<Rightarrow> ynode \<times> bool) \<Rightarrow> ynode \<Rightarrow> ynode \<times> bool" where
  "at_child key f n =
     (if y_Kind n \<noteq> MappingNode then (n, False)
      else (YNode (y_Kind n) (y_Value n) (fst (pair_upd key f (y_Content n))), snd (pair_upd key f (y_Content n))))"

definition at_items :: "(ynode \<Rightarrow> ynode \<times> bool) \<Rightarrow> ynode \<Rightarrow> ynode \<times> bool" where
  "at_items f n =
     (if y_Kind n \<noteq> SequenceNode then (n, False)
      else (YNode (y_Kind n) (y_Value n) (map (\<lambda>c. fst (f c)) (y_Content n)), list_ex (\<lambda>c. snd (f c)) (y_Content n)))"

definition in_first :: "(ynode \<Rightarrow> ynode \<times> bool) \<Rightarrow> ynode \<Rightarrow> ynode \<times> bool" where
  "in_first f n =
     (case (y_Kind n, y_Content n) of
        (DocumentNode, d # ds) \<Rightarrow> (YNode (y_Kind n) (y_Value n) (fst (f d) # ds), snd (f d))
      | _ \<Rightarrow> f n)"

definition set_image :: "string \<Rightarrow> string \<Rightarrow> ynode \<Rightarrow> ynode \<times> bool" where
  "set_image repoFilter img n =
     (if repoFilter = [] \<or> imageRepo (y_Value n) = repoFilter then (YNode (y_Kind n) img (y_Content n), True) else (n, False))"

definition set_containers :: "string \<Rightarrow> string \<Rightarrow> ynode \<Rightarrow> ynode \<times> bool" where
  "set_containers repoFilter img tmpl =
     (let each = at_items (at_child ''image'' (set_image repoFilter img));
          a = at_child ''containers'' each tmpl; b = at_child ''initContainers'' each (fst a) in
      (fst b, snd a \<or> snd b))"

definition setContainerImages :: "string \<Rightarrow> string \<Rightarrow> ynode \<Rightarrow> ynode \<times> bool" where
  "setContainerImages repoFilter img =
     in_first (at_child ''spec'' (at_child ''template'' (at_child ''spec'' (set_containers repoFilter img))))"

text \<open>The documents before the first that does not decode: the loop breaks on any error.\<close>

fun decoded :: "'a res list \<Rightarrow> 'a list" where
  "decoded (Inr d # ds) = d # decoded ds"
| "decoded _ = []"

fun encode_nodes :: "kube_lib \<Rightarrow> bool \<Rightarrow> ynode list \<Rightarrow> string res" where
  "encode_nodes Y started [] = Inr []"
| "encode_nodes Y started (d # ds) =
     (case kl_EncodeNode Y started d of
        Inl e \<Rightarrow> Inl (Wrap ''kubernetes: image override encode'' e)
      | Inr s \<Rightarrow> map_sum id ((@) s) (encode_nodes Y True ds))"

definition override_docs :: "string \<Rightarrow> ynode list \<Rightarrow> ynode list" where
  "override_docs img ds =
     (let rs = map (setContainerImages (imageRepo img) img) ds in
      if list_ex snd rs then map fst rs
      else map (\<lambda>d. fst (setContainerImages [] img d)) (map fst rs))"

definition overrideContainerImage :: "kube_lib \<Rightarrow> string \<Rightarrow> string \<Rightarrow> string res" where
  "overrideContainerImage Y manifest img = encode_nodes Y False (override_docs img (decoded (kl_Nodes Y manifest)))"

section \<open>Rendering\<close>

definition kube_render :: "kube_lib \<Rightarrow> host \<Rightarrow> tspec \<Rightarrow> string \<Rightarrow> string res hprog" where
  "kube_render Y H sp base = do {
     r \<leftarrow> renderSource Y H sp base;
     State_Monad.return (case r of
         Inl e \<Rightarrow> Inl e
       | Inr out \<Rightarrow> if spec_str sp ''image'' \<noteq> [] then overrideContainerImage Y out (spec_str sp ''image'') else Inr out)
   }"

definition manifestFromSpec :: "kube_lib \<Rightarrow> host \<Rightarrow> tspec blob \<Rightarrow> string \<Rightarrow> string res hprog" where
  "manifestFromSpec Y H spec base =
     (case spec of
        Blob sp \<Rightarrow> kube_render Y H sp base
      | NoBlob \<Rightarrow> State_Monad.return (Inr [])
      | BadBlob \<Rightarrow> State_Monad.return (Inr (kl_Raw Y)))"

definition specReferencesSource :: "tspec blob \<Rightarrow> bool" where
  "specReferencesSource spec = (case spec of Blob sp \<Rightarrow> spec_map sp ''manifestFrom'' \<noteq> None | _ \<Rightarrow> False)"

section \<open>What the image override changes\<close>

lemma pair_upd_get:
  "pair_get j (fst (pair_upd key f ns)) = (if j = key then map_option (\<lambda>v. fst (f v)) (pair_get key ns) else pair_get j ns)"
  "snd (pair_upd key f ns) = (case pair_get key ns of Some v \<Rightarrow> snd (f v) | None \<Rightarrow> False)"
  by (induction key f ns rule: pair_upd.induct) auto

lemma pair_upd_twice:
  "fst (pair_upd key g (fst (pair_upd key f ns))) = fst (pair_upd key (\<lambda>v. g (fst (f v))) ns)"
  by (induction key f ns rule: pair_upd.induct) auto

lemma pair_upd_comm:
  "key \<noteq> j \<Longrightarrow> fst (pair_upd key f (fst (pair_upd j g ns))) = fst (pair_upd j g (fst (pair_upd key f ns)))"
  by (induction key f ns rule: pair_upd.induct) auto

lemma at_child_kind [simp]: "y_Kind (fst (at_child key f n)) = y_Kind n"
  by (simp add: at_child_def)

lemma at_items_kind [simp]: "y_Kind (fst (at_items f n)) = y_Kind n"
  by (simp add: at_items_def)

lemma childByKey_at:
  "childByKey (fst (at_child key f n)) j = (if j = key then map_option (\<lambda>v. fst (f v)) (childByKey n key) else childByKey n j)"
  "snd (at_child key f n) = (case childByKey n key of Some v \<Rightarrow> snd (f v) | None \<Rightarrow> False)"
  by (simp_all add: childByKey_def at_child_def pair_upd_get)

lemma at_child_comm:
  "key \<noteq> j \<Longrightarrow> fst (at_child key f (fst (at_child j g n))) = fst (at_child j g (fst (at_child key f n)))"
  by (simp add: at_child_def pair_upd_comm)

text \<open>Two updates of the same place: the later one decides.\<close>

definition absorbs :: "(ynode \<Rightarrow> ynode \<times> bool) \<Rightarrow> (ynode \<Rightarrow> ynode \<times> bool) \<Rightarrow> bool" where
  "absorbs g f \<longleftrightarrow> (\<forall>n. fst (g (fst (f n))) = fst (g n))"

lemma absorbsD: "absorbs g f \<Longrightarrow> fst (g (fst (f n))) = fst (g n)"
  by (simp add: absorbs_def)

lemma pair_upd_fst: "(\<And>v. fst (f v) = fst (g v)) \<Longrightarrow> fst (pair_upd key f ns) = fst (pair_upd key g ns)"
  by (induction key f ns rule: pair_upd.induct) auto

lemma absorbs_child: "absorbs g f \<Longrightarrow> absorbs (at_child key g) (at_child key f)"
  unfolding absorbs_def at_child_def by (auto simp: pair_upd_twice intro: pair_upd_fst)

lemma absorbs_items: "absorbs g f \<Longrightarrow> absorbs (at_items g) (at_items f)"
  unfolding absorbs_def at_items_def by simp

lemma absorbs_image: "absorbs (set_image [] img) (set_image r img')"
  by (simp add: absorbs_def set_image_def)

lemma absorbs_containers: "absorbs (set_containers [] img) (set_containers r img')"
proof -
  let ?f = "at_items (at_child ''image'' (set_image r img'))" and ?g = "at_items (at_child ''image'' (set_image [] img))"
  have a: "absorbs (at_child k ?g) (at_child k ?f)" for k
    by (intro absorbs_child absorbs_items absorbs_image)
  have "fst (at_child ''initContainers'' ?g (fst (at_child ''containers'' ?g
      (fst (at_child ''initContainers'' ?f (fst (at_child ''containers'' ?f n))))))) =
    fst (at_child ''initContainers'' ?g (fst (at_child ''containers'' ?g n)))" for n
    by (simp add: at_child_comm [of "''containers''" "''initContainers''"] absorbsD [OF a])
  then show ?thesis by (simp add: absorbs_def set_containers_def Let_def)
qed

lemma absorbs_first:
  assumes "absorbs g f" "\<And>n. y_Kind (fst (f n)) = y_Kind n" "\<And>n. y_Kind n \<noteq> MappingNode \<Longrightarrow> fst (f n) = n"
  shows "absorbs (in_first g) (in_first f)"
proof (unfold absorbs_def, rule allI)
  fix n
  show "fst (in_first g (fst (in_first f n))) = fst (in_first g n)"
  proof (cases "y_Kind n = DocumentNode")
    case True
    then show ?thesis using assms(3) [of n] absorbsD [OF assms(1)] by (cases "y_Content n") (auto simp: in_first_def)
  next
    case False
    then have "in_first f n = f n" "in_first g n = g n" "in_first g (fst (f n)) = g (fst (f n))"
      using assms(2) by (simp_all add: in_first_def split: ykind.splits)
    then show ?thesis using absorbsD [OF assms(1)] by simp
  qed
qed

lemma setContainerImages_absorbs: "fst (setContainerImages [] img (fst (setContainerImages r img' d))) = fst (setContainerImages [] img d)"
  unfolding setContainerImages_def
  by (intro absorbsD absorbs_first absorbs_child absorbs_containers) (simp_all add: at_child_def)

text \<open>The images of the containers and init containers of a document's pod template.\<close>

definition item_images :: "ynode \<Rightarrow> string list" where
  "item_images l =
     (if y_Kind l \<noteq> SequenceNode then []
      else concat (map (\<lambda>c. case childByKey c ''image'' of Some i \<Rightarrow> [y_Value i] | None \<Rightarrow> []) (y_Content l)))"

definition child_images :: "(ynode \<Rightarrow> string list) \<Rightarrow> string \<Rightarrow> ynode \<Rightarrow> string list" where
  "child_images im key n = (case childByKey n key of Some v \<Rightarrow> im v | None \<Rightarrow> [])"

definition template_images :: "ynode \<Rightarrow> string list" where
  "template_images t = child_images item_images ''containers'' t @ child_images item_images ''initContainers'' t"

definition doc_of :: "ynode \<Rightarrow> ynode" where
  "doc_of d = (case (y_Kind d, y_Content d) of (DocumentNode, x # _) \<Rightarrow> x | _ \<Rightarrow> d)"

definition container_images :: "ynode \<Rightarrow> string list" where
  "container_images d = child_images (child_images (child_images template_images ''spec'') ''template'') ''spec'' (doc_of d)"

text \<open>\<open>overwrites im f P img\<close>: \<open>f\<close> puts \<open>img\<close> where the reading \<open>im\<close> finds an image with \<open>P\<close>, and says whether there is one.\<close>

definition overwrites :: "(ynode \<Rightarrow> string list) \<Rightarrow> (ynode \<Rightarrow> ynode \<times> bool) \<Rightarrow> (string \<Rightarrow> bool) \<Rightarrow> string \<Rightarrow> bool" where
  "overwrites im f P img \<longleftrightarrow>
     (\<forall>n. im (fst (f n)) = map (\<lambda>i. if P i then img else i) (im n) \<and> snd (f n) = list_ex P (im n))"

lemma overwrites_child: "overwrites im f P img \<Longrightarrow> overwrites (child_images im key) (at_child key f) P img"
  by (auto simp: overwrites_def child_images_def childByKey_at split: option.splits)

lemma overwrites_items:
  "overwrites item_images (at_items (at_child ''image'' (set_image r img))) (\<lambda>i. r = [] \<or> imageRepo i = r) img"
  (is "overwrites _ (at_items ?f) ?P _")
proof -
  let ?im = "\<lambda>c. case childByKey c ''image'' of Some i \<Rightarrow> [y_Value i] | None \<Rightarrow> []"
  have c: "?im (fst (?f c)) = map (\<lambda>i. if ?P i then img else i) (?im c) \<and> snd (?f c) = list_ex ?P (?im c)" for c
    by (auto simp: childByKey_at set_image_def split: option.splits)
  have "concat (map (\<lambda>c. ?im (fst (?f c))) cs) = map (\<lambda>i. if ?P i then img else i) (concat (map ?im cs))" for cs
    using c by (induction cs) auto
  moreover have "list_ex (\<lambda>c. snd (?f c)) cs = list_ex ?P (concat (map ?im cs))" for cs
    using c by (induction cs) auto
  ultimately show ?thesis by (auto simp: overwrites_def item_images_def at_items_def comp_def)
qed

lemma overwrites_containers: "overwrites template_images (set_containers r img) (\<lambda>i. r = [] \<or> imageRepo i = r) img"
proof -
  let ?f = "at_items (at_child ''image'' (set_image r img))" and ?P = "\<lambda>i. r = [] \<or> imageRepo i = r"
  have r: "overwrites (child_images item_images k) (at_child k ?f) ?P img" for k
    by (intro overwrites_child overwrites_items)
  have o: "child_images item_images j (fst (at_child k ?f n)) = child_images item_images j n" if "j \<noteq> k" for j k n
    using that by (simp add: child_images_def childByKey_at)
  show ?thesis
    using r [of "''containers''"] r [of "''initContainers''"]
    by (auto simp: overwrites_def template_images_def set_containers_def Let_def o)
qed

lemma overwrites_first:
  assumes "overwrites im f P img" "\<And>n. y_Kind (fst (f n)) = y_Kind n" "\<And>n. y_Kind n \<noteq> MappingNode \<Longrightarrow> f n = (n, False)"
  shows "overwrites (\<lambda>d. im (doc_of d)) (in_first f) P img"
proof (unfold overwrites_def, rule allI)
  fix n
  have o: "im (fst (f m)) = map (\<lambda>i. if P i then img else i) (im m) \<and> snd (f m) = list_ex P (im m)" for m
    using assms(1) by (simp add: overwrites_def)
  show "im (doc_of (fst (in_first f n))) = map (\<lambda>i. if P i then img else i) (im (doc_of n)) \<and> snd (in_first f n) = list_ex P (im (doc_of n))"
  proof (cases "y_Kind n = DocumentNode")
    case True
    then show ?thesis using o [of n] o [of "hd (y_Content n)"] assms(3) [of n] by (cases "y_Content n") (simp_all add: in_first_def doc_of_def)
  next
    case False
    then have "in_first f n = f n" "doc_of n = n" "doc_of (fst (f n)) = fst (f n)"
      using assms(2) by (simp_all add: in_first_def doc_of_def split: ykind.splits)
    then show ?thesis using o by simp
  qed
qed

lemma setContainerImages_images:
  "container_images (fst (setContainerImages r img d)) = map (\<lambda>i. if r = [] \<or> imageRepo i = r then img else i) (container_images d)"
  "snd (setContainerImages r img d) = list_ex (\<lambda>i. r = [] \<or> imageRepo i = r) (container_images d)"
proof -
  have "overwrites container_images (setContainerImages r img) (\<lambda>i. r = [] \<or> imageRepo i = r) img"
    unfolding container_images_def setContainerImages_def
    by (intro overwrites_first overwrites_child overwrites_containers) (simp_all add: at_child_def)
  then show "container_images (fst (setContainerImages r img d)) = map (\<lambda>i. if r = [] \<or> imageRepo i = r then img else i) (container_images d)"
    "snd (setContainerImages r img d) = list_ex (\<lambda>i. r = [] \<or> imageRepo i = r) (container_images d)"
    unfolding overwrites_def by blast+
qed

text \<open>
  The image override. When some container runs an image of the override's repository, exactly those
  containers get the new reference and every other image stays; when none does, every container gets it,
  so that the override is never a silent no-op. Nothing but container images changes: setting all the
  images of the old and of the new document to the same reference gives the same document.
\<close>

theorem override_images:
  "map container_images (override_docs img ds) =
     map (\<lambda>d. map (\<lambda>i. if list_ex (\<lambda>d. list_ex (\<lambda>i. imageRepo i = imageRepo img) (container_images d)) ds \<and> imageRepo i \<noteq> imageRepo img \<and> imageRepo img \<noteq> []
       then i else img) (container_images d)) ds \<and>
   map (\<lambda>d. fst (setContainerImages [] x d)) (override_docs img ds) = map (\<lambda>d. fst (setContainerImages [] x d)) ds"
proof -
  let ?r = "imageRepo img"
  let ?hit = "\<lambda>i. ?r = [] \<or> imageRepo i = ?r"
  have any: "list_ex snd (map (setContainerImages ?r img) ds) = list_ex (\<lambda>d. list_ex ?hit (container_images d)) ds"
    by (simp add: list_ex_iff setContainerImages_images)
  show ?thesis
    unfolding override_docs_def Let_def any
    by (auto simp: setContainerImages_images setContainerImages_absorbs comp_def list_ex_iff)
qed

text \<open>
  The loop that reads the documents ends at any error: what follows a document that does not decode is
  dropped from the manifest without a word.
\<close>

lemma broken_document_truncates:
  assumes "kl_Nodes Y m = map Inr ds @ Inl e # rest" "kl_Nodes Y m' = map Inr ds"
  shows "overrideContainerImage Y m img = overrideContainerImage Y m' img"
proof -
  have "decoded (map Inr ds @ Inl e # rest) = decoded (map Inr ds)" by (induction ds) auto
  then show ?thesis by (simp add: overrideContainerImage_def assms)
qed

section \<open>What rendering reads\<close>

lemma keeps_execRunner: "P (Exec name stdin args) \<Longrightarrow> keeps (calls_in P) (execRunner H name stdin args)"
  unfolding execRunner_def by (intro calls.keeps_bind calls.keeps_return keeps_host_call)

lemma keeps_readFile: "P (ReadFile p) \<Longrightarrow> keeps (calls_in P) (readFile H p)"
  unfolding readFile_def by (intro calls.keeps_bind calls.keeps_return keeps_host_call)

lemmas call_rules = calls.keeps_bind calls.keeps_return keeps_execRunner keeps_readFile keeps_host_call
  keeps_if keeps_option keeps_sum keeps_prod

text \<open>A local source: written without a double slash, and without the start of a git address or of one of the hosts of repositories.\<close>

definition local_form :: "string \<Rightarrow> bool" where
  "local_form s \<longleftrightarrow> \<not> strings_Contains s ''//'' \<and>
     list_all (\<lambda>p. \<not> strings_HasPrefix s p) [''git@'', ''github.com/'', ''gitlab.com/'', ''bitbucket.org/'']"

text \<open>The sources a specification refers to, of which helm looks up a chart of a chart repository itself.\<close>

definition helm_sources :: "tspec \<Rightarrow> string list" where
  "helm_sources h = (if spec_str h ''repo'' = [] then [spec_str h ''chart''] else []) @
     (case stringList (map_of h ''values'') of Inr fs \<Rightarrow> fs | Inl _ \<Rightarrow> [])"

definition from_sources :: "tspec \<Rightarrow> string list" where
  "from_sources mf = (case spec_string mf ''path'' of Some p \<Rightarrow> [p] | None \<Rightarrow> []) @
     (case spec_string mf ''kustomize'' of Some k \<Rightarrow> [k] | None \<Rightarrow> []) @
     (case spec_map mf ''helm'' of Some h \<Rightarrow> helm_sources h | None \<Rightarrow> [])"

definition named_sources :: "tspec \<Rightarrow> string list" where
  "named_sources sp =
     (case spec_map sp ''manifestFrom'' of
        Some mf \<Rightarrow> from_sources mf
      | None \<Rightarrow> (case spec_map sp ''kustomize'' of Some k \<Rightarrow> [spec_str k ''path''] | None \<Rightarrow> []))"

text \<open>What a specification hands to helm as a positional argument.\<close>

definition helm_names :: "tspec \<Rightarrow> string list" where
  "helm_names sp =
     (case spec_map sp ''manifestFrom'' of
        None \<Rightarrow> []
      | Some mf \<Rightarrow> (case spec_map mf ''helm'' of
          None \<Rightarrow> []
        | Some h \<Rightarrow> release_of h # (if spec_str h ''repo'' = [] then [] else [spec_str h ''chart''])))"

abbreviation no_flag :: "string \<Rightarrow> bool" where
  "no_flag s \<equiv> \<not> strings_HasPrefix s ''-''"

definition helm_args :: "string \<Rightarrow> string list \<Rightarrow> bool" where
  "helm_args base args \<longleftrightarrow>
     (\<exists>rel chart repo v n fs. args = [''template'', rel, chart] @ opt_flag ''--repo'' repo @ opt_flag ''--version'' v @
        opt_flag ''--namespace'' n @ concat (map (\<lambda>f. [''-f'', f]) fs) \<and>
        no_flag rel \<and> (if repo = [] then inside base chart else no_flag chart) \<and> list_all (inside base) fs)"

fun source_call :: "string \<Rightarrow> call \<Rightarrow> bool" where
  "source_call base (ReadFile p) = inside base p"
| "source_call base (Exec name stdin args) =
     (stdin = None \<and> (name = ''kubectl'' \<and> (\<exists>t. args = [''kustomize'', t] \<and> inside base t) \<or> name = ''helm'' \<and> helm_args base args))"
| "source_call base _ = False"

lemma clean_stays_below:
  assumes "hd (filepath_Clean p) \<noteq> CHR ''/''" "filepath_Clean p \<noteq> ''..''" "\<not> strings_HasPrefix (filepath_Clean p) ''../''"
  shows "''..'' \<notin> set (split_on (CHR ''/'') (filepath_Clean p))"
proof -
  let ?ps = "clean_parts p"
  have nr: "\<not> rooted p" using assms(1) by (auto simp: filepath_Clean_def rooted_def Let_def)
  then have cl: "filepath_Clean p = (if strings_Join ?ps ''/'' = [] then ''.'' else strings_Join ?ps ''/'')"
    by (auto simp: filepath_Clean_def rooted_def Let_def)
  from cleaned_parts [of p] nr obtain n ns where c: "?ps = replicate n ''..'' @ ns" "list_all segment ns"
    by (auto simp: cleaned_def)
  have "n = 0"
  proof (rule ccontr)
    assume "n \<noteq> 0"
    then obtain m where "?ps = ''..'' # (replicate m ''..'' @ ns)" using c by (cases n) auto
    then show False
      using assms(2,3) cl by (cases "replicate m ''..'' @ ns") (auto simp: strings_HasPrefix_def split: if_splits)
  qed
  then have seg: "list_all segment ?ps" using c by simp
  have "split_on (CHR ''/'') (strings_Join ?ps ''/'') = ?ps" if "?ps \<noteq> []"
    using that seg by (intro split_on_Join) (auto simp: segment_def list_all_iff)
  then show ?thesis
    using seg cl by (cases "?ps = []") (auto simp: segment_def list_all_iff)
qed

lemma local_not_remote: "local_form s \<Longrightarrow> \<not> isRemoteSource s"
proof -
  have "strings_Contains s ''//''" if "strings_Contains s ''://''"
    using that unfolding strings_Contains_iff by (auto simp: sublist_def) (metis append_Cons append_assoc append_Nil)
  then show "local_form s \<Longrightarrow> \<not> isRemoteSource s" by (auto simp: local_form_def isRemoteSource_def)
qed

lemma resolved_ok: "base \<noteq> [] \<Longrightarrow> local_form p \<Longrightarrow> resolveSourcePath base p = Inr t \<Longrightarrow> inside base t"
  unfolding resolveSourcePath_def Let_def
  by (auto split: if_splits intro!: inside_Join dest: clean_stays_below local_not_remote)

lemma value_flags_ok:
  "base \<noteq> [] \<Longrightarrow> list_all local_form fs \<Longrightarrow> value_flags base fs = Inr vfs \<Longrightarrow>
     \<exists>ts. vfs = concat (map (\<lambda>f. [''-f'', f]) ts) \<and> list_all (inside base) ts"
proof (induction fs arbitrary: vfs)
  case Nil
  then show ?case by (intro exI [of _ "[]"]) simp
next
  case (Cons f fs)
  then obtain t rest where t: "resolveSourcePath base f = Inr t" "value_flags base fs = Inr rest" "vfs = [''-f'', t] @ rest"
    by (cases "value_flags base fs") (auto split: sum.splits)
  with Cons obtain ts where "rest = concat (map (\<lambda>f. [''-f'', f]) ts)" "list_all (inside base) ts" by auto
  then show ?case using t resolved_ok [OF Cons.prems(1), of f t] Cons.prems(2) by (intro exI [of _ "t # ts"]) auto
qed

lemma chart_ok:
  assumes "base \<noteq> []" "repo = [] \<Longrightarrow> local_form chart" "repo \<noteq> [] \<Longrightarrow> no_flag chart" "chart_arg base repo chart = Inr c"
  shows "if repo = [] then inside base c else no_flag c"
  using assms resolved_ok [of base chart c] local_not_remote [of chart] unfolding chart_arg_def
  by (cases "resolveSourcePath base chart") (auto split: if_splits)

lemma keeps_path: "base \<noteq> [] \<Longrightarrow> local_form p \<Longrightarrow> keeps (calls_in (source_call base)) (renderPath H base p)"
  unfolding renderPath_def by (intro call_rules) (simp add: resolved_ok)

lemma keeps_kustomize: "base \<noteq> [] \<Longrightarrow> local_form p \<Longrightarrow> keeps (calls_in (source_call base)) (runKustomize H base p)"
  unfolding runKustomize_def by (intro call_rules) (simp add: resolved_ok)

lemma keeps_helmFrom:
  assumes "base \<noteq> []" "list_all local_form (helm_sources h)" "no_flag (release_of h)" "spec_str h ''repo'' \<noteq> [] \<Longrightarrow> no_flag (spec_str h ''chart'')"
  shows "keeps (calls_in (source_call base)) (renderHelmFrom H h base)"
  unfolding renderHelmFrom_def Let_def
proof (intro call_rules)
  fix c fs vfs
  assume c: "chart_arg base (spec_str h ''repo'') (spec_str h ''chart'') = Inr c" and fs: "stringList (map_of h ''values'') = Inr fs"
    and v: "value_flags base fs = Inr vfs"
  have "list_all local_form fs" "spec_str h ''repo'' = [] \<Longrightarrow> local_form (spec_str h ''chart'')"
    using assms(2) fs by (auto simp: helm_sources_def split: if_splits)
  with value_flags_ok [OF assms(1) _ v] chart_ok [OF assms(1) _ assms(4) c] obtain ts where
    "vfs = concat (map (\<lambda>f. [''-f'', f]) ts)" "list_all (inside base) ts" "if spec_str h ''repo'' = [] then inside base c else no_flag c"
    by blast
  then have "helm_args base ([''template'', release_of h, c] @ opt_flag ''--repo'' (spec_str h ''repo'') @
      opt_flag ''--version'' (spec_str h ''version'') @ opt_flag ''--namespace'' (spec_str h ''namespace'') @ vfs)"
    unfolding helm_args_def using assms(3) by blast
  then show "source_call base (Exec ''helm'' None ([''template'', release_of h, c] @ opt_flag ''--repo'' (spec_str h ''repo'') @
      opt_flag ''--version'' (spec_str h ''version'') @ opt_flag ''--namespace'' (spec_str h ''namespace'') @ vfs))"
    by simp
qed

lemma keeps_manifestFrom:
  assumes "base \<noteq> []" "list_all local_form (from_sources mf)" "spec_map sp ''manifestFrom'' = Some mf" "list_all no_flag (helm_names sp)"
  shows "keeps (calls_in (source_call base)) (renderManifestFrom H mf base)"
  unfolding renderManifestFrom_def Let_def using assms
  by (intro call_rules keeps_path keeps_kustomize keeps_helmFrom) (auto simp: from_sources_def helm_names_def split: option.splits if_splits)

lemma keeps_flat_kustomize:
  "base \<noteq> [] \<Longrightarrow> local_form (spec_str k ''path'') \<Longrightarrow> keeps (calls_in (source_call base)) (renderKustomize H k base)"
  unfolding renderKustomize_def by (intro keeps_if calls.keeps_return keeps_kustomize)


definition demo_lib :: kube_lib where
  "demo_lib = \<lparr>kl_Docs = \<lambda>_. [], kl_Nodes = \<lambda>_. [], kl_Encode = \<lambda>_ _. Inr [], kl_EncodeNode = \<lambda>_ _. Inr [],
     kl_Marshal = \<lambda>_. Inr [], kl_Value = \<lambda>_. Inr ANull, kl_Conditions = \<lambda>_. Inr [], kl_Labels = \<lambda>_. Inr [], kl_Raw = []\<rparr>"


text \<open>
  The guard has a hole. A path with two slashes in a row is taken for a remote source and handed on
  unchanged, but \<open>manifestFrom.path\<close> reads it as a local file: a config can name any file the daemon can
  read, absolute or with dot-dots, by doubling one slash. With single slashes the same path is refused
  before anything is read.
\<close>

theorem double_slash_escapes:
  "run_state (renderPath H base (a @ ''//'' @ b)) h =
     (case H h (ReadFile (a @ ''//'' @ b)) of
        (out, None) \<Rightarrow> Inr out
      | (_, Some f) \<Rightarrow> Inl (Wrap (''kubernetes: manifestFrom read '' @ a @ ''//'' @ b) (Err (ff_Err f))),
      h @ [ReadFile (a @ ''//'' @ b)]) \<and>
   \<not> inside ''/srv/repo'' ''/etc//rollops/token'' \<and> \<not> inside ''/srv/repo'' ''..//..//etc/rollops/token'' \<and>
   snd (run_state (renderPath H ''/srv/repo'' ''/etc/rollops/token'') h) = h \<and>
   snd (run_state (renderPath H ''/srv/repo'' ''../../etc/rollops/token'') h) = h"
proof -
  have "strings_Contains (a @ ''//'' @ b) ''//''" by (auto simp: strings_Contains_iff sublist_def)
  then have r: "isRemoteSource (a @ ''//'' @ b)" by (simp add: isRemoteSource_def)
  have 1: "run_state (renderPath H base (a @ ''//'' @ b)) h =
     (case H h (ReadFile (a @ ''//'' @ b)) of
        (out, None) \<Rightarrow> Inr out
      | (_, Some f) \<Rightarrow> Inl (Wrap (''kubernetes: manifestFrom read '' @ a @ ''//'' @ b) (Err (ff_Err f))),
      h @ [ReadFile (a @ ''//'' @ b)])"
    using r by (auto simp: renderPath_def resolveSourcePath_def readFile_def run_state_simps run_host_call wrap_out_def
      split: prod.splits option.splits)
  have c: "clean_parts ''/srv/repo'' = [''srv'', ''repo'']" "clean_parts ''/etc//rollops/token'' = [''etc'', ''rollops'', ''token'']"
    by code_simp+
  have 2: "\<not> inside ''/srv/repo'' ''/etc//rollops/token''" "\<not> inside ''/srv/repo'' ''..//..//etc/rollops/token''"
    by (simp_all add: inside_def rooted_def c)
  have "\<exists>e. resolveSourcePath ''/srv/repo'' ''/etc/rollops/token'' = Inl e" "\<exists>e. resolveSourcePath ''/srv/repo'' ''../../etc/rollops/token'' = Inl e"
    unfolding is_err_iff [symmetric] by code_simp+
  then have "snd (run_state (renderPath H ''/srv/repo'' ''/etc/rollops/token'') h) = h"
    "snd (run_state (renderPath H ''/srv/repo'' ''../../etc/rollops/token'') h) = h"
    by (auto simp: renderPath_def run_state_simps)
  with 1 2 show ?thesis by blast
qed

text \<open>
  The comment of \<open>renderHelmFrom\<close> says that no post-renderer is used; the release name of the config is
  handed to helm as a positional argument, so a name that starts with dashes is read as a flag.
\<close>

lemma release_name_is_a_flag:
  "snd (run_state (renderHelmFrom H [(''chart'', AStr ''web''), (''releaseName'', AStr ''--post-renderer=./x'')] ''/srv/repo'') h) =
   h @ [Exec ''helm'' None [''template'', ''--post-renderer=./x'', ''/srv/repo/web'']]"
proof -
  have "chart_arg ''/srv/repo'' [] ''web'' = Inr ''/srv/repo/web''" by code_simp
  then show ?thesis
    by (simp add: renderHelmFrom_def spec_str_def stringList_def release_of_def opt_flag_def execRunner_def run_state_simps run_host_call)
qed

end
