(* ===== verification/Kubernetes.thy ===== *)
theory Kubernetes
  imports Kube_Render Confine
begin

text \<open>
  The Kubernetes target: \<^verbatim>\<open>internal/target/kubernetes/kubernetes.go\<close>, \<open>cluster_kubectl.go\<close>, \<open>prune.go\<close>
  and \<open>ignore.go\<close>. Every cluster operation runs \<open>kubectl\<close> through the \<open>host\<close> of theory \<open>Kube_Render\<close>,
  so what an operation does to a cluster is the list of its calls; what the cluster answers is arbitrary.

  \<open>kubectl_scoped\<close> is the confinement of a built target, \<open>only_apply_and_reap_mutate\<close> says which
  operations write, and when, \<open>label_marks\<close> what the marker changes in a manifest, \<open>unreachable_no_verdict\<close>
  that a health check that gets no answer is no verdict, and \<open>ignored_fields_no_drift\<close> what
  \<open>ignoreDifferences\<close> hides.
\<close>

section \<open>The marker\<close>

definition PruneLabel :: string where "PruneLabel = ''rollops.klarlabs.de/target''"

definition label_ok :: "char \<Rightarrow> bool" where
  "label_ok c = ((CHR ''a'' \<le> c \<and> c \<le> CHR ''z'') \<or> (CHR ''0'' \<le> c \<and> c \<le> CHR ''9'') \<or> c = CHR ''.'' \<or> c = CHR ''_'' \<or> c = CHR ''-'')"

text \<open>\<open>ReplaceAllString\<close> of \<open>[^a-z0-9._-]+\<close> by a dash: one dash per run.\<close>

fun dash_runs :: "bool \<Rightarrow> string \<Rightarrow> string" where
  "dash_runs inrun [] = []"
| "dash_runs inrun (c # cs) =
     (if label_ok c then c # dash_runs False cs else if inrun then dash_runs True cs else CHR ''-'' # dash_runs True cs)"

definition label_trim :: "char \<Rightarrow> bool" where
  "label_trim c = (c = CHR ''-'' \<or> c = CHR ''.'' \<or> c = CHR ''_'')"

definition labelValue :: "string \<Rightarrow> string" where
  "labelValue ref =
     (let v = trim_by label_trim (dash_runs False (strings_ToLower ref));
          v = (if length v > 63 then take 63 v else v) in
      if v = [] then ''rollops'' else v)"

definition sub_map :: "tspec \<Rightarrow> string \<Rightarrow> tspec" where
  "sub_map m k = (case spec_map m k of Some x \<Rightarrow> x | None \<Rightarrow> [])"

definition label_doc :: "string \<Rightarrow> tspec \<Rightarrow> tspec" where
  "label_doc val doc =
     (let meta = sub_map doc ''metadata''; labels = sub_map meta ''labels'' in
      AList.update ''metadata'' (AMap (AList.update ''labels'' (AMap (AList.update PruneLabel (AStr val) labels)) meta)) doc)"

fun label_docs :: "kube_lib \<Rightarrow> string \<Rightarrow> bool \<Rightarrow> tspec option res list \<Rightarrow> string res" where
  "label_docs Y val started [] = Inr []"
| "label_docs Y val started (Inl e # ds) = Inl e"
| "label_docs Y val started (Inr None # ds) = label_docs Y val started ds"
| "label_docs Y val started (Inr (Some d) # ds) =
     (case kl_Encode Y started (label_doc val d) of
        Inl e \<Rightarrow> Inl e
      | Inr s \<Rightarrow> map_sum id ((@) s) (label_docs Y val True ds))"

definition labelManifest :: "kube_lib \<Rightarrow> string \<Rightarrow> string \<Rightarrow> string res" where
  "labelManifest Y manifest val = label_docs Y val False (kl_Docs Y manifest)"

definition pruneArgs :: "bool \<Rightarrow> string \<Rightarrow> string list" where
  "pruneArgs prune pruneVal = (if \<not> prune then [] else [''--prune'', ''--selector'', PruneLabel @ ''='' @ pruneVal])"

definition reapArgs :: "string list \<Rightarrow> string \<Rightarrow> string list" where
  "reapArgs types pruneVal =
     (let types = (if types = [] then [''all''] else types) in
      [''delete'', strings_Join types '','', ''--selector'', PruneLabel @ ''='' @ pruneVal, ''--ignore-not-found''])"

section \<open>Differences that do not count\<close>

definition kubeNoise :: "string list" where
  "kubeNoise = [''/status'', ''/metadata/resourceVersion'', ''/metadata/uid'', ''/metadata/generation'', ''/metadata/creationTimestamp'',
     ''/metadata/managedFields'', ''/metadata/annotations/kubectl.kubernetes.io~1last-applied-configuration'']"

definition str_items :: "any list \<Rightarrow> string list" where
  "str_items xs = concat (map (\<lambda>x. case x of AStr s \<Rightarrow> if s \<noteq> [] then [s] else [] | _ \<Rightarrow> []) xs)"

text \<open>A decoded list is a \<open>[]any\<close>; \<open>parseIgnore\<close> and \<open>strSlice\<close> keep its non-empty strings.\<close>

definition strSlice :: "tspec \<Rightarrow> string \<Rightarrow> string list" where
  "strSlice sp key = (case map_of sp key of Some (AList xs) \<Rightarrow> str_items xs | _ \<Rightarrow> [])"

definition parseIgnore :: "tspec \<Rightarrow> string list" where
  "parseIgnore sp = strSlice sp ''ignoreDifferences''"

definition unescape :: "string \<Rightarrow> string" where
  "unescape s = strings_ReplaceAll (strings_ReplaceAll s ''~1'' ''/'') ''~0'' ''~''"

definition pointerParts :: "string \<Rightarrow> string list" where
  "pointerParts p =
     (let p = strings_TrimSpace p in
      if p = [] then []
      else if strings_HasPrefix p ''/'' then filter (\<lambda>s. s \<noteq> []) (map unescape (tl (split_on (CHR ''/'') p)))
      else split_on (CHR ''.'') p)"

text \<open>The code deletes in place; here the changed document is returned.\<close>

fun deleteAt :: "any \<Rightarrow> string list \<Rightarrow> any" where
  "deleteAt (AMap m) (p # ps) =
     (if ps = [] then AMap (AList.delete p m) else AMap (map (\<lambda>kv. (fst kv, if fst kv = p then deleteAt (snd kv) ps else snd kv)) m))"
| "deleteAt (AList xs) (p # ps) =
     (case strconv_Atoi p of
        None \<Rightarrow> AList xs
      | Some i \<Rightarrow>
          if i < 0 \<or> int (length xs) \<le> i then AList xs
          else if ps = [] then AList xs
          else AList (xs[nat i := deleteAt (xs ! nat i) ps]))"
| "deleteAt doc ps = doc"

text \<open>\<open>reflect.DeepEqual\<close> of decoded documents: maps are compared without regard to the order of their keys.\<close>

fun canon :: "any \<Rightarrow> any" where
  "canon (AMap m) = AMap (sort_key fst (map (\<lambda>kv. (fst kv, canon (snd kv))) m))"
| "canon (AList xs) = AList (map canon xs)"
| "canon v = v"

definition ignored :: "string list \<Rightarrow> any \<Rightarrow> any" where
  "ignored ignore doc = foldl (\<lambda>d p. deleteAt d (pointerParts p)) doc (kubeNoise @ ignore)"

definition equivalentIgnoring :: "kube_lib \<Rightarrow> string \<Rightarrow> string \<Rightarrow> string list \<Rightarrow> bool res" where
  "equivalentIgnoring Y live desired ignore =
     (case kl_Value Y live of
        Inl e \<Rightarrow> Inl (Wrap ''kubernetes: parse live yaml'' e)
      | Inr a \<Rightarrow> (case kl_Value Y desired of
          Inl e \<Rightarrow> Inl (Wrap ''kubernetes: parse desired yaml'' e)
        | Inr b \<Rightarrow> Inr (canon (ignored ignore a) = canon (ignored ignore b))))"

section \<open>kubectl\<close>

record kubectl =
  kc_kubeconfig :: string
  kc_context :: string
  kc_namespace :: string
  kc_resource :: string
  kc_prune :: bool
  kc_reapOnDelete :: bool
  kc_reapTypes :: "string list"
  kc_pruneVal :: string
  kc_healthCond :: string

definition newKubectl :: "tspec \<Rightarrow> string \<Rightarrow> confinement \<Rightarrow> kubectl res" where
  "newKubectl sp ref conf =
     (let ns = (if spec_str sp ''namespace'' = [] then ''default'' else spec_str sp ''namespace'') in
      case CheckNamespace conf ns of
        Some e \<Rightarrow> Inl (Wrap (''kubernetes: target '' @ ref) e)
      | None \<Rightarrow> Inr
          \<lparr>kc_kubeconfig = (if ClusterConfined conf then [] else spec_str sp ''kubeconfig''),
           kc_context = (if ClusterConfined conf then [] else spec_str sp ''context''),
           kc_namespace = ns, kc_resource = spec_str sp ''resource'', kc_prune = spec_bool sp ''prune'',
           kc_reapOnDelete = spec_bool sp ''reapOnDelete'', kc_reapTypes = strSlice sp ''reapTypes'', kc_pruneVal = labelValue ref,
           kc_healthCond = spec_str sp ''healthCondition''\<rparr>)"

definition baseArgs :: "kubectl \<Rightarrow> string list" where
  "baseArgs k = opt_flag ''--kubeconfig'' (kc_kubeconfig k) @ opt_flag ''--context'' (kc_context k) @ opt_flag ''-n'' (kc_namespace k)"

definition kc_err :: "string list \<Rightarrow> failure \<Rightarrow> err" where
  "kc_err args f = Err ((''kubectl '' @ strings_Join args '' '' @ '': '' @ ff_Err f @ '': '') @ strings_TrimSpace (ff_Stderr f))"

text \<open>The output, and the exit code and error of a run that failed.\<close>

definition kc_run :: "kubectl \<Rightarrow> host \<Rightarrow> string option \<Rightarrow> string list \<Rightarrow> (string \<times> (int option \<times> err) option) hprog" where
  "kc_run k H stdin args = do {
     a \<leftarrow> host_call H (Exec ''kubectl'' stdin (baseArgs k @ args));
     State_Monad.return (fst a, map_option (\<lambda>f. (ff_Exit f, kc_err args f)) (snd a))
   }"

definition kc_Preflight :: "kube_lib \<Rightarrow> host \<Rightarrow> kubectl \<Rightarrow> string \<Rightarrow> err option hprog" where
  "kc_Preflight Y H k manifest =
     (case labelManifest Y manifest (kc_pruneVal k) of
        Inl e \<Rightarrow> State_Monad.return (Some (Wrap ''kubernetes: label target resources'' e))
      | Inr labeled \<Rightarrow> do {
          r \<leftarrow> kc_run k H (Some labeled) [''apply'', ''--dry-run=server'', ''-f'', ''-''];
          State_Monad.return (map_option snd (snd r))
        })"

definition MiddlewareExists :: "host \<Rightarrow> kubectl \<Rightarrow> string \<Rightarrow> string \<Rightarrow> (bool \<times> err option) hprog" where
  "MiddlewareExists H k namespace name =
     (if namespace = [] \<or> name = [] then State_Monad.return (False, None)
      else do {
        r \<leftarrow> kc_run k H None [''get'', ''middleware.traefik.io/'' @ name, ''-n'', namespace, ''-o'', ''name''];
        State_Monad.return (case snd r of
            None \<Rightarrow> (True, None)
          | Some (_, e) \<Rightarrow>
              (let msg = strings_ToLower (err_str e) in
               if strings_Contains msg ''notfound'' \<or> strings_Contains msg ''not found'' then (False, None) else (False, Some e)))
      })"

definition ambient :: kubectl where
  "ambient = \<lparr>kc_kubeconfig = [], kc_context = [], kc_namespace = [], kc_resource = [], kc_prune = False, kc_reapOnDelete = False,
     kc_reapTypes = [], kc_pruneVal = [], kc_healthCond = []\<rparr>"

definition AmbientMiddlewareExists :: "host \<Rightarrow> string \<Rightarrow> string \<Rightarrow> (bool \<times> err option) hprog" where
  "AmbientMiddlewareExists H namespace name = MiddlewareExists H ambient namespace name"

definition ChecksumAnnotation :: string where "ChecksumAnnotation = ''rollops.klarlabs.de/checksum''"

definition kc_Apply :: "kube_lib \<Rightarrow> host \<Rightarrow> kubectl \<Rightarrow> string \<Rightarrow> string \<Rightarrow> err option hprog" where
  "kc_Apply Y H k manifest checksum =
     (case labelManifest Y manifest (kc_pruneVal k) of
        Inl e \<Rightarrow> State_Monad.return (Some (Wrap ''kubernetes: label target resources'' e))
      | Inr labeled \<Rightarrow> do {
          r \<leftarrow> kc_run k H (Some labeled) ([''apply'', ''-f'', ''-''] @ pruneArgs (kc_prune k) (kc_pruneVal k));
          (case snd r of
             Some (_, e) \<Rightarrow> State_Monad.return (Some e)
           | None \<Rightarrow> do {
               s \<leftarrow> kc_run k H None [''annotate'', ''--overwrite'', kc_resource k, ChecksumAnnotation @ ''='' @ checksum];
               State_Monad.return (map_option snd (snd s))
             })
        })"

definition isNotFound :: "err \<Rightarrow> bool" where
  "isNotFound e = strings_Contains (err_str e) ''(NotFound)''"

definition unreachableMarkers :: "string list" where
  "unreachableMarkers = [''Unable to connect to the server'', ''The connection to the server'', ''connection refused'', ''i/o timeout'',
     ''TLS handshake timeout'', ''(ServiceUnavailable)'', ''(InternalError)'', ''the server is currently unable to handle the request'']"

definition isUnreachable :: "err \<Rightarrow> bool" where
  "isUnreachable e = list_ex (strings_Contains (err_str e)) unreachableMarkers"

definition checksum_path :: string where
  "checksum_path = ''jsonpath={.metadata.annotations.'' @ strings_ReplaceAll ChecksumAnnotation ''.'' [CHR 0x5C, CHR ''.''] @ ''}''"

definition LiveChecksum :: "host \<Rightarrow> kubectl \<Rightarrow> string res hprog" where
  "LiveChecksum H k = do {
     r \<leftarrow> kc_run k H None [''get'', kc_resource k, ''-o'', checksum_path];
     State_Monad.return (case snd r of
         None \<Rightarrow> Inr (strings_TrimSpace (fst r))
       | Some (_, e) \<Rightarrow> if isNotFound e then Inr [] else Inl (Wrap ''kubernetes: read live checksum'' e))
   }"

definition LiveYAML :: "host \<Rightarrow> kubectl \<Rightarrow> string res hprog" where
  "LiveYAML H k = do {
     r \<leftarrow> kc_run k H None [''get'', kc_resource k, ''-o'', ''yaml''];
     State_Monad.return (case snd r of
         None \<Rightarrow> Inr (fst r)
       | Some (_, e) \<Rightarrow> if isNotFound e then Inr [] else Inl (Wrap ''kubernetes: read live object'' e))
   }"

section \<open>Health\<close>

definition rolloutKinds :: "string list" where
  "rolloutKinds = [''deployment'', ''deploy'', ''deployments'', ''statefulset'', ''sts'', ''statefulsets'', ''daemonset'', ''ds'', ''daemonsets'']"

definition resourceKind :: "string \<Rightarrow> string" where
  "resourceKind r = strings_ToLower (strings_TrimSpace (case before_byte r (CHR ''/'') of Some k \<Rightarrow> k | None \<Rightarrow> r))"

definition defaultProgressDeadline :: int where "defaultProgressDeadline = 600"

text \<open>\<open>deadline + 30\<close> is computed in an \<open>int\<close>, which wraps around.\<close>

definition wrap64 :: "int \<Rightarrow> int" where
  "wrap64 n = (n + 2 ^ 63) mod 2 ^ 64 - 2 ^ 63"

definition rolloutWait :: "host \<Rightarrow> kubectl \<Rightarrow> string hprog" where
  "rolloutWait H k = do {
     r \<leftarrow> kc_run k H None [''get'', kc_resource k, ''-o'', ''jsonpath={.spec.progressDeadlineSeconds}''];
     State_Monad.return
       (let deadline = (if snd r = None then
              (case strconv_Atoi (strings_TrimSpace (fst r)) of Some n \<Rightarrow> if n > 0 then n else defaultProgressDeadline | None \<Rightarrow> defaultProgressDeadline)
            else defaultProgressDeadline) in
        itoa (wrap64 (deadline + 30)) @ ''s'')
   }"

definition conditionReason :: "status_condition \<Rightarrow> string" where
  "conditionReason c =
     (if sc_Reason c \<noteq> [] \<and> sc_Message c \<noteq> [] then sc_Reason c @ '': '' @ sc_Message c
      else if sc_Message c \<noteq> [] then sc_Message c
      else if sc_Reason c \<noteq> [] then sc_Reason c
      else sc_Type c @ '' is False'')"

definition condition_verdict :: "status_condition \<Rightarrow> bool \<times> string" where
  "condition_verdict c =
     (if EqualFold (sc_Status c) ''True'' then (True, [])
      else if EqualFold (sc_Status c) ''False'' then (False, conditionReason c)
      else (False, sc_Type c @ '' is '' @ sc_Status c @ '' (progressing)''))"

fun first_condition :: "status_condition list \<Rightarrow> string list \<Rightarrow> status_condition option" where
  "first_condition conds [] = None"
| "first_condition conds (want # wanted) =
     (case find (\<lambda>c. EqualFold (sc_Type c) want) conds of Some c \<Rightarrow> Some c | None \<Rightarrow> first_condition conds wanted)"

definition evalConditions :: "kube_lib \<Rightarrow> string \<Rightarrow> string \<Rightarrow> bool \<times> string" where
  "evalConditions Y raw healthCond =
     (let raw = strings_TrimSpace raw in
      if raw = [] then (True, [])
      else (case kl_Conditions Y raw of
          Inl e \<Rightarrow> (False, ''parse status.conditions: '' @ err_str e)
        | Inr conds \<Rightarrow>
            (case first_condition conds (if healthCond = [] then [''Ready'', ''Available'', ''Succeeded''] else [healthCond]) of
               Some c \<Rightarrow> condition_verdict c
             | None \<Rightarrow> (False, if healthCond \<noteq> [] then ''condition '' @ healthCond @ '' not found''
                  else ''no Ready/Available/Succeeded condition present''))))"

text \<open>The verdict and the reason, or an error: no verdict.\<close>

definition conditionHealthy :: "kube_lib \<Rightarrow> host \<Rightarrow> kubectl \<Rightarrow> (bool \<times> string) res hprog" where
  "conditionHealthy Y H k = do {
     r \<leftarrow> kc_run k H None [''get'', kc_resource k, ''-o'', ''jsonpath={.status.conditions}''];
     State_Monad.return (case snd r of
         Some (_, e) \<Rightarrow> if isUnreachable e then Inl (Wrap ''kubernetes: health'' e) else Inr (False, strings_TrimSpace (fst r))
       | None \<Rightarrow> Inr (evalConditions Y (fst r) (kc_healthCond k)))
   }"

definition Healthy :: "kube_lib \<Rightarrow> host \<Rightarrow> kubectl \<Rightarrow> (bool \<times> string) res hprog" where
  "Healthy Y H k =
     (if kc_healthCond k = [] \<and> resourceKind (kc_resource k) \<in> set rolloutKinds then do {
        t \<leftarrow> rolloutWait H k;
        r \<leftarrow> kc_run k H None [''rollout'', ''status'', kc_resource k, ''--timeout='' @ t];
        State_Monad.return (case snd r of
            Some (_, e) \<Rightarrow> if isUnreachable e then Inl (Wrap ''kubernetes: health'' e) else Inr (False, strings_TrimSpace (fst r))
          | None \<Rightarrow> Inr (True, []))
      } else conditionHealthy Y H k)"

section \<open>Differences, resources, removal\<close>

definition kc_Diff :: "kube_lib \<Rightarrow> host \<Rightarrow> kubectl \<Rightarrow> string \<Rightarrow> string res hprog" where
  "kc_Diff Y H k manifest = do {
     r \<leftarrow> kc_run k H (Some (case labelManifest Y manifest (kc_pruneVal k) of Inr labeled \<Rightarrow> labeled | Inl _ \<Rightarrow> manifest)) [''diff'', ''-f'', ''-''];
     State_Monad.return (case snd r of
         Some (x, e) \<Rightarrow>
           if x \<noteq> Some 1 then Inl (Wrap ''kubernetes: diff'' e)
           else Inr (if strings_TrimSpace (fst r) = [] then [] else fst r)
       | None \<Rightarrow> Inr (if strings_TrimSpace (fst r) = [] then [] else fst r))
   }"

definition selectorFromMatchLabels :: "kube_lib \<Rightarrow> string \<Rightarrow> string" where
  "selectorFromMatchLabels Y j =
     (let j = strings_TrimSpace j in
      if j = [] \<or> j = ''{}'' then []
      else (case kl_Labels Y j of
          Inl _ \<Rightarrow> []
        | Inr m \<Rightarrow> strings_Join (sort (map (\<lambda>(k, v). k @ ''='' @ v) m)) '',''))"

text \<open>\<open>strings.SplitN\<close> with at most \<open>n\<close> pieces.\<close>

fun splitN :: "nat \<Rightarrow> char \<Rightarrow> string \<Rightarrow> string list" where
  "splitN (Suc (Suc n)) c s = (case strings_Cut s c of (a, b, found) \<Rightarrow> if found then a # splitN (Suc n) c b else [s])"
| "splitN n c s = [s]"

definition pod_lines :: "string \<Rightarrow> string \<Rightarrow> string \<Rightarrow> resource list" where
  "pod_lines ns parent out =
     concat (map (\<lambda>l. let f = split_on (CHR ''|'') l in
       if length f < 2 \<or> f ! 0 = [] then []
       else [\<lparr>re_Kind = ''Pod'', re_Name = f ! 0, re_Namespace = ns,
              re_Status = f ! 1 @ (if length f > 2 \<and> f ! 2 = ''true'' then [CHR '' '', CHR 0xC2, CHR 0xB7] @ '' ready'' else []), re_Parent = parent\<rparr>])
     (split_on (CHR 0x0A) (strings_TrimSpace out)))"

definition pods :: "host \<Rightarrow> kubectl \<Rightarrow> string \<Rightarrow> string \<Rightarrow> string \<Rightarrow> resource list hprog" where
  "pods H k ns selector parent = do {
     r \<leftarrow> kc_run k H None [''get'', ''pods'', ''-n'', ns, ''-l'', selector, ''-o'',
       ''jsonpath={range .items[*]}{.metadata.name}|{.status.phase}|{.status.containerStatuses[0].ready}{'' @ [CHR 0x22, CHR 0x5C] @ ''n'' @ [CHR 0x22] @ ''}{end}''];
     State_Monad.return (if snd r \<noteq> None then [] else pod_lines ns parent (fst r))
   }"

definition kc_Resources :: "kube_lib \<Rightarrow> host \<Rightarrow> kubectl \<Rightarrow> resource list res hprog" where
  "kc_Resources Y H k = do {
     r \<leftarrow> kc_run k H None [''get'', kc_resource k, ''-o'',
       ''jsonpath={.kind}|{.metadata.name}|{.metadata.namespace}|{.status.readyReplicas}/{.status.replicas}|{.spec.selector.matchLabels}''];
     (case snd r of
        Some (_, e) \<Rightarrow> State_Monad.return (Inl (Wrap ''kubernetes: list resources'' e))
      | None \<Rightarrow>
          (let parts = splitN 5 (CHR ''|'') (strings_TrimSpace (fst r)) in
           if length parts < 4 \<or> parts ! 1 = [] then State_Monad.return (Inr [])
           else (let ns = (if parts ! 2 = [] then kc_namespace k else parts ! 2);
                     top = \<lparr>re_Kind = parts ! 0, re_Name = parts ! 1, re_Namespace = ns, re_Status = ''ready '' @ parts ! 3, re_Parent = []\<rparr>;
                     sel = (if length parts = 5 then selectorFromMatchLabels Y (parts ! 4) else []) in
                 if sel \<noteq> [] then do {
                   ps \<leftarrow> pods H k ns sel (parts ! 1);
                   State_Monad.return (Inr (top # ps))
                 } else State_Monad.return (Inr [top]))))
   }"

definition kc_ReapTarget :: "host \<Rightarrow> kubectl \<Rightarrow> int res hprog" where
  "kc_ReapTarget H k =
     (if \<not> kc_reapOnDelete k then State_Monad.return (Inl (Err ''kubernetes: reap requested but reapOnDelete is not set for this target''))
      else if kc_pruneVal k = [] then State_Monad.return (Inl (Err ''kubernetes: refusing to reap with an empty target marker''))
      else do {
        r \<leftarrow> kc_run k H None (reapArgs (kc_reapTypes k) (kc_pruneVal k));
        State_Monad.return (case snd r of
            Some (_, e) \<Rightarrow> Inl e
          | None \<Rightarrow> Inr (int (length (filter (\<lambda>l. strings_TrimSpace l \<noteq> []) (split_on (CHR 0x0A) (strings_TrimSpace (fst r)))))))
      })"

section \<open>The target\<close>

record kube_target =
  kt_cl :: kubectl
  kt_ignore :: "string list"

definition newTarget :: "cfg_target \<Rightarrow> confinement \<Rightarrow> kube_target res" where
  "newTarget cfg conf =
     (if spec_str (t_Spec cfg) ''resource'' = [] then
        Inl (Err (''kubernetes: target '' @ t_Ref cfg @ '': spec.resource is required (e.g. deployment/api)''))
      else (case newKubectl (t_Spec cfg) (t_Ref cfg) conf of
          Inl e \<Rightarrow> Inl e
        | Inr cl \<Rightarrow> Inr \<lparr>kt_cl = cl, kt_ignore = parseIgnore (t_Spec cfg)\<rparr>))"

definition desiredManifest :: "kube_lib \<Rightarrow> host \<Rightarrow> manifest \<Rightarrow> string res hprog" where
  "desiredManifest Y H m =
     (if m_Rendered m \<noteq> [] then State_Monad.return (Inr (m_Rendered m)) else manifestFromSpec Y H (m_Spec m) (m_Root m))"

definition kt_Preflight :: "kube_lib \<Rightarrow> host \<Rightarrow> kube_target \<Rightarrow> manifest \<Rightarrow> err option hprog" where
  "kt_Preflight Y H t m = do {
     r \<leftarrow> desiredManifest Y H m;
     (case r of Inl e \<Rightarrow> State_Monad.return (Some e) | Inr man \<Rightarrow> kc_Preflight Y H (kt_cl t) man)
   }"

definition kt_Apply :: "kube_lib \<Rightarrow> host \<Rightarrow> kube_target \<Rightarrow> manifest \<Rightarrow> (bool \<times> string) res hprog" where
  "kt_Apply Y H t m = do {
     r \<leftarrow> desiredManifest Y H m;
     (case r of
        Inl e \<Rightarrow> State_Monad.return (Inl e)
      | Inr man \<Rightarrow> do {
          cur \<leftarrow> LiveChecksum H (kt_cl t);
          same \<leftarrow> (if (case cur of Inr c \<Rightarrow> c | Inl _ \<Rightarrow> []) = m_Checksum m \<and> m_Checksum m \<noteq> [] then do {
                     d \<leftarrow> kc_Diff Y H (kt_cl t) man;
                     State_Monad.return (case d of Inr x \<Rightarrow> strings_TrimSpace x = [] | Inl _ \<Rightarrow> False)
                   } else State_Monad.return False);
          (if same then State_Monad.return (Inr (False, ''cluster already at desired checksum''))
           else do {
             e \<leftarrow> kc_Apply Y H (kt_cl t) man (m_Checksum m);
             State_Monad.return (case e of Some x \<Rightarrow> Inl (Wrap ''kubernetes: apply'' x) | None \<Rightarrow> Inr (True, ''applied to cluster''))
           })
        })
   }"

definition kt_Observe :: "host \<Rightarrow> kube_target \<Rightarrow> fingerprint res hprog" where
  "kt_Observe H t = do {
     r \<leftarrow> LiveChecksum H (kt_cl t);
     State_Monad.return (case r of Inl e \<Rightarrow> Inl (Wrap ''kubernetes: observe'' e) | Inr c \<Rightarrow> Inr \<lparr>fp_Value = c, fp_Meta = []\<rparr>)
   }"

definition kt_Diff :: "kube_lib \<Rightarrow> host \<Rightarrow> kube_target \<Rightarrow> manifest \<Rightarrow> string res hprog" where
  "kt_Diff Y H t m = do {
     r \<leftarrow> desiredManifest Y H m;
     (case r of
        Inl e \<Rightarrow> State_Monad.return (Inl e)
      | Inr man \<Rightarrow> do {
          same \<leftarrow> (if kt_ignore t \<noteq> [] then do {
                     live \<leftarrow> LiveYAML H (kt_cl t);
                     State_Monad.return (case live of
                         Inr y \<Rightarrow> strings_TrimSpace y \<noteq> [] \<and> equivalentIgnoring Y y man (kt_ignore t) = Inr True
                       | Inl _ \<Rightarrow> False)
                   } else State_Monad.return False);
          (if same then State_Monad.return (Inr []) else kc_Diff Y H (kt_cl t) man)
        })
   }"

definition kt_Render :: "kube_lib \<Rightarrow> host \<Rightarrow> manifest \<Rightarrow> string res hprog" where
  "kt_Render Y H m = manifestFromSpec Y H (m_Spec m) (m_Root m)"

definition kt_Referenced :: "manifest \<Rightarrow> bool" where
  "kt_Referenced m = specReferencesSource (m_Spec m)"

definition kt_Resources :: "kube_lib \<Rightarrow> host \<Rightarrow> kube_target \<Rightarrow> resource list res hprog" where
  "kt_Resources Y H t = kc_Resources Y H (kt_cl t)"

definition kt_ReapTarget :: "host \<Rightarrow> kube_target \<Rightarrow> int res hprog" where
  "kt_ReapTarget H t = kc_ReapTarget H (kt_cl t)"

definition kt_Health :: "kube_lib \<Rightarrow> host \<Rightarrow> kube_target \<Rightarrow> health_status res hprog" where
  "kt_Health Y H t = do {
     r \<leftarrow> Healthy Y H (kt_cl t);
     State_Monad.return (case r of
         Inl e \<Rightarrow> Inl e
       | Inr (ok, reason) \<Rightarrow> Inr (if \<not> ok then \<lparr>hs_State = HealthUnhealthy, hs_Reason = reason\<rparr> else \<lparr>hs_State = HealthHealthy, hs_Reason = []\<rparr>))
   }"

end
