(* ===== verification/Kube_Safety.thy ===== *)
theory Kube_Safety
  imports Kubernetes
begin

text \<open>
  What the Kubernetes target does to a cluster: which of its operations write, what and on which evidence (\<open>only_apply_and_reap_mutate\<close>),
  where (\<open>kubectl_scoped\<close>, with \<open>resource_is_a_flag\<close> as its hole), with which marker (\<open>label_marks\<close>), that no answer is no verdict (\<open>unreachable_no_verdict\<close>), and what
  \<open>ignoreDifferences\<close> hides (\<open>ignored_fields_no_drift\<close>).
\<close>

section \<open>Calls\<close>

text \<open>What rendering may call, and a \<open>kubectl\<close> call of the cluster of a target.\<close>

fun render_call :: "call \<Rightarrow> bool" where
  "render_call (Exec name stdin args) =
     (name \<in> {''helm'', ''aws'', ''gsutil'', ''oras''} \<or> name = ''kubectl'' \<and> (\<exists>t. args = [''kustomize'', t]))"
| "render_call _ = True"

definition kube_call :: "kubectl \<Rightarrow> (string list \<Rightarrow> bool) \<Rightarrow> call \<Rightarrow> bool" where
  "kube_call k A c \<longleftrightarrow> render_call c \<or> (\<exists>stdin args. c = Exec ''kubectl'' stdin (baseArgs k @ args) \<and> A args)"

definition mutating :: "string list \<Rightarrow> bool" where
  "mutating args =
     (case args of
        [] \<Rightarrow> False
      | verb # rest \<Rightarrow> verb \<in> {''annotate'', ''delete''} \<or> verb = ''apply'' \<and> (rest = [] \<or> hd rest \<noteq> ''--dry-run=server''))"

abbreviation observing :: "kubectl \<Rightarrow> call \<Rightarrow> bool" where
  "observing k \<equiv> kube_call k (\<lambda>args. \<not> mutating args)"

lemma keeps_kc_run: "A args \<Longrightarrow> keeps (calls_in (kube_call k A)) (kc_run k H stdin args)"
  unfolding kc_run_def by (intro call_rules) (auto simp: kube_call_def)

lemma render_kube: "render_call c \<Longrightarrow> kube_call k A c"
  by (simp add: kube_call_def)

lemma render_calls:
  "render_call (Exec ''helm'' i a)" "render_call (Exec ''aws'' i a)" "render_call (Exec ''gsutil'' i a)" "render_call (Exec ''oras'' i a)"
  "render_call (Exec ''kubectl'' i [''kustomize'', t])" "render_call (ReadFile p)" "render_call (MkdirTemp p)" "render_call (RemoveAll p)"
  by simp_all

lemmas tool_rules = call_rules render_kube render_calls

lemma keeps_in_temp_dir:
  "(\<And>d. keeps (calls_in (kube_call k A)) (work d)) \<Longrightarrow> keeps (calls_in (kube_call k A)) (in_temp_dir H src work)"
  unfolding in_temp_dir_def by (intro tool_rules)

lemma keeps_renderTree: "keeps (calls_in (kube_call k A)) (renderTree H base mode file src)"
  unfolding renderTree_def by (intro tool_rules)

lemma keeps_fetched:
  "keeps (calls_in (kube_call k A)) (renderBucket H b)" "keeps (calls_in (kube_call k A)) (renderOCI H b)"
  unfolding renderBucket_def renderOCI_def Let_def by (intro keeps_in_temp_dir keeps_renderTree tool_rules)+

lemma keeps_templates:
  "keeps (calls_in (kube_call k A)) (renderHelm Y H h)" "keeps (calls_in (kube_call k A)) (renderHelmFrom H h base)"
  "keeps (calls_in (kube_call k A)) (runKustomize H base p)" "keeps (calls_in (kube_call k A)) (renderPath H base p)"
  unfolding renderHelm_def renderHelmFrom_def runKustomize_def renderPath_def Let_def by (intro tool_rules)+

lemma keeps_rendered:
  "keeps (calls_in (kube_call k A)) (renderManifestFrom H mf base)" "keeps (calls_in (kube_call k A)) (renderKustomize H ku base)"
  unfolding renderManifestFrom_def renderKustomize_def Let_def by (intro keeps_templates tool_rules)+

lemma keeps_renderSource: "keeps (calls_in (kube_call k A)) (renderSource Y H sp base)"
  unfolding renderSource_def by (intro keeps_rendered keeps_fetched keeps_templates tool_rules)

lemma keeps_desired: "keeps (calls_in (kube_call k A)) (desiredManifest Y H m)"
  unfolding desiredManifest_def manifestFromSpec_def kube_render_def
  by (cases "m_Spec m") (auto intro!: calls.keeps_bind calls.keeps_return keeps_renderSource)

lemmas kube_rules = calls.keeps_bind calls.keeps_return keeps_kc_run keeps_if keeps_option keeps_sum keeps_prod keeps_desired

lemma not_mutating:
  "\<not> mutating (''get'' # a)" "\<not> mutating (''diff'' # a)" "\<not> mutating (''rollout'' # a)" "\<not> mutating (''apply'' # ''--dry-run=server'' # a)"
  by (simp_all add: mutating_def)

text \<open>
  The reading operations, under any predicate that admits their arguments. \<open>N\<close> is where pods may be listed:
  the namespaces that the cluster reports for the target's resource.
\<close>

definition reading_args :: "kubectl \<Rightarrow> string set \<Rightarrow> (string list \<Rightarrow> bool) \<Rightarrow> bool" where
  "reading_args k N A \<longleftrightarrow> (\<forall>p. A [''get'', kc_resource k, ''-o'', p]) \<and>
     (\<forall>ns \<in> N. \<forall>sel p. A [''get'', ''pods'', ''-n'', ns, ''-l'', sel, ''-o'', p]) \<and>
     (\<forall>d. A [''rollout'', ''status'', kc_resource k, ''--timeout='' @ d]) \<and>
     A [''diff'', ''-f'', ''-''] \<and> A [''apply'', ''--dry-run=server'', ''-f'', ''-'']"

lemma reading_argsD:
  assumes "reading_args k N A"
  shows "A [''get'', kc_resource k, ''-o'', p]" "ns \<in> N \<Longrightarrow> A [''get'', ''pods'', ''-n'', ns, ''-l'', sel, ''-o'', p]"
    "A [''rollout'', ''status'', kc_resource k, ''--timeout='' @ d]" "A [''diff'', ''-f'', ''-'']"
    "A [''apply'', ''--dry-run=server'', ''-f'', ''-'']"
  using assms by (simp_all add: reading_args_def)

lemma reading_any: "reading_args k N (\<lambda>args. \<not> mutating args)"
  by (simp add: reading_args_def not_mutating)

abbreviation resources_path :: string where
  "resources_path \<equiv> ''jsonpath={.kind}|{.metadata.name}|{.metadata.namespace}|{.status.readyReplicas}/{.status.replicas}|{.spec.selector.matchLabels}''"

abbreviation resources_call :: "kubectl \<Rightarrow> call" where
  "resources_call k \<equiv> Exec ''kubectl'' None (baseArgs k @ [''get'', kc_resource k, ''-o'', resources_path])"

definition pods_in :: "host \<Rightarrow> kubectl \<Rightarrow> string set \<Rightarrow> bool" where
  "pods_in H k N \<longleftrightarrow> kc_namespace k \<in> N \<and> (\<forall>h. let parts = splitN 5 (CHR ''|'') (strings_TrimSpace (fst (H h (resources_call k)))) in
     length parts \<ge> 4 \<and> parts ! 2 \<noteq> [] \<longrightarrow> parts ! 2 \<in> N)"

lemma pods_anywhere: "pods_in H k UNIV"
  by (simp add: pods_in_def Let_def)

lemma run_kc_run:
  "run_state (kc_run k H stdin args) h =
     (let c = Exec ''kubectl'' stdin (baseArgs k @ args); a = H h c in
      ((fst a, map_option (\<lambda>f. (ff_Exit f, kc_err args f)) (snd a)), h @ [c]))"
  by (simp add: kc_run_def run_state_simps run_host_call Let_def)

lemma keeps_Resources:
  assumes "reading_args k N A" "pods_in H k N"
  shows "keeps (calls_in (kube_call k A)) (kc_Resources Y H k)"
  unfolding kc_Resources_def
proof (rule calls.keeps_bind_result [OF keeps_kc_run])
  show "A [''get'', kc_resource k, ''-o'', resources_path]" by (rule reading_argsD(1) [OF assms(1)])
  fix r h h'
  assume "run_state (kc_run k H None [''get'', kc_resource k, ''-o'', resources_path]) h = (r, h')"
  then have r: "fst r = fst (H h (resources_call k))" by (auto simp: run_kc_run Let_def)
  define parts where "parts = splitN 5 (CHR ''|'') (strings_TrimSpace (fst r))"
  have n: "(if parts ! 2 = [] then kc_namespace k else parts ! 2) \<in> N" if "length parts \<ge> 4"
    using assms(2) that unfolding pods_in_def parts_def r by (auto simp: Let_def)
  have "keeps (calls_in (kube_call k A)) (pods H k (if parts ! 2 = [] then kc_namespace k else parts ! 2) sel q)" if "length parts \<ge> 4" for sel q
    unfolding pods_def by (intro kube_rules reading_argsD(2) [OF assms(1)] n that)
  then show "keeps (calls_in (kube_call k A)) (case snd r of
        Some (_, e) \<Rightarrow> State_Monad.return (Inl (Wrap ''kubernetes: list resources'' e))
      | None \<Rightarrow>
          (let parts = splitN 5 (CHR ''|'') (strings_TrimSpace (fst r)) in
           if length parts < 4 \<or> parts ! 1 = [] then State_Monad.return (Inr [])
           else (let ns = (if parts ! 2 = [] then kc_namespace k else parts ! 2);
                     top = \<lparr>re_Kind = parts ! 0, re_Name = parts ! 1, re_Namespace = ns, re_Status = ''ready '' @ parts ! 3, re_Parent = []\<rparr>;
                     sel = (if length parts = 5 then selectorFromMatchLabels Y (parts ! 4) else []) in
                 if sel \<noteq> [] then do {
                   ps \<leftarrow> pods H k ns sel (parts ! 1);
                   State_Monad.return (Inr (top # ps))
                 } else State_Monad.return (Inr [top]))))"
    unfolding parts_def [symmetric] by (auto simp: Let_def calls.keeps_return intro!: calls.keeps_bind split: option.split)
qed

lemma keeps_reads:
  assumes "reading_args k N A"
  shows "keeps (calls_in (kube_call k A)) (LiveChecksum H k)" "keeps (calls_in (kube_call k A)) (LiveYAML H k)"
    "keeps (calls_in (kube_call k A)) (kc_Diff Y H k man)" "keeps (calls_in (kube_call k A)) (kc_Preflight Y H k man)"
    "keeps (calls_in (kube_call k A)) (Healthy Y H k)"
  unfolding LiveChecksum_def LiveYAML_def kc_Diff_def kc_Preflight_def Healthy_def conditionHealthy_def rolloutWait_def Let_def
  by (intro kube_rules reading_argsD [OF assms])+

lemma keeps_observers:
  assumes "reading_args (kt_cl t) N A" "pods_in H (kt_cl t) N"
  shows "keeps (calls_in (kube_call (kt_cl t) A)) (kt_Preflight Y H t m)" "keeps (calls_in (kube_call (kt_cl t) A)) (kt_Observe H t)"
    "keeps (calls_in (kube_call (kt_cl t) A)) (kt_Diff Y H t m)" "keeps (calls_in (kube_call (kt_cl t) A)) (kt_Resources Y H t)"
    "keeps (calls_in (kube_call (kt_cl t) A)) (kt_Health Y H t)"
  unfolding kt_Preflight_def kt_Observe_def kt_Diff_def kt_Resources_def kt_Health_def
  by (intro kube_rules keeps_reads [OF assms(1)] keeps_Resources [OF assms])+

text \<open>The writing operations.\<close>

definition writing_args :: "kubectl \<Rightarrow> (string list \<Rightarrow> bool) \<Rightarrow> bool" where
  "writing_args k A \<longleftrightarrow> A ([''apply'', ''-f'', ''-''] @ pruneArgs (kc_prune k) (kc_pruneVal k)) \<and>
     (\<forall>v. A [''annotate'', ''--overwrite'', kc_resource k, ChecksumAnnotation @ ''='' @ v]) \<and> A (reapArgs (kc_reapTypes k) (kc_pruneVal k))"

lemma keeps_writes:
  assumes "reading_args (kt_cl t) N A" "writing_args (kt_cl t) A"
  shows "keeps (calls_in (kube_call (kt_cl t) A)) (kt_Apply Y H t m)" "keeps (calls_in (kube_call (kt_cl t) A)) (kt_ReapTarget H t)"
proof -
  have w: "A ([''apply'', ''-f'', ''-''] @ pruneArgs (kc_prune (kt_cl t)) (kc_pruneVal (kt_cl t)))"
    "A [''annotate'', ''--overwrite'', kc_resource (kt_cl t), ChecksumAnnotation @ ''='' @ v]"
    "A (reapArgs (kc_reapTypes (kt_cl t)) (kc_pruneVal (kt_cl t)))" for v
    using assms(2) by (simp_all add: writing_args_def)
  show "keeps (calls_in (kube_call (kt_cl t) A)) (kt_Apply Y H t m)" "keeps (calls_in (kube_call (kt_cl t) A)) (kt_ReapTarget H t)"
    unfolding kt_Apply_def kt_ReapTarget_def kc_Apply_def kc_ReapTarget_def
    by (intro kube_rules keeps_reads [OF assms(1)] w)+
qed

section \<open>Where a target acts\<close>

datatype kube_op = KubePreflight manifest | KubeApply manifest | KubeObserve | KubeDiff manifest | KubeResources | KubeReap | KubeHealth

fun run_kube :: "kube_lib \<Rightarrow> host \<Rightarrow> kube_target \<Rightarrow> kube_op \<Rightarrow> unit hprog" where
  "run_kube Y H t (KubePreflight m) = do { _ \<leftarrow> kt_Preflight Y H t m; State_Monad.return () }"
| "run_kube Y H t (KubeApply m) = do { _ \<leftarrow> kt_Apply Y H t m; State_Monad.return () }"
| "run_kube Y H t KubeObserve = do { _ \<leftarrow> kt_Observe H t; State_Monad.return () }"
| "run_kube Y H t (KubeDiff m) = do { _ \<leftarrow> kt_Diff Y H t m; State_Monad.return () }"
| "run_kube Y H t KubeResources = do { _ \<leftarrow> kt_Resources Y H t; State_Monad.return () }"
| "run_kube Y H t KubeReap = do { _ \<leftarrow> kt_ReapTarget H t; State_Monad.return () }"
| "run_kube Y H t KubeHealth = do { _ \<leftarrow> kt_Health Y H t; State_Monad.return () }"

fun run_kubes :: "kube_lib \<Rightarrow> host \<Rightarrow> kube_target \<Rightarrow> kube_op list \<Rightarrow> unit hprog" where
  "run_kubes Y H t [] = State_Monad.return ()"
| "run_kubes Y H t (x # xs) = do { _ \<leftarrow> run_kube Y H t x; run_kubes Y H t xs }"

lemma keeps_run_kubes:
  assumes "reading_args (kt_cl t) N A" "pods_in H (kt_cl t) N" "writing_args (kt_cl t) A"
  shows "keeps (calls_in (kube_call (kt_cl t) A)) (run_kubes Y H t xs)"
proof -
  have "keeps (calls_in (kube_call (kt_cl t) A)) (run_kube Y H t x)" for x
    by (cases x) (simp_all add: calls.keeps_bind calls.keeps_return keeps_observers [OF assms(1,2)] keeps_writes [OF assms(1,3)])
  then show ?thesis by (induction xs) (auto intro: calls.keeps_bind calls.keeps_return)
qed

text \<open>
  How \<open>kubectl\<close> reads its command line: a flag that takes a value takes it from the next argument, from behind its
  equals sign or, for a letter, from the rest of the argument; flags may stand anywhere, and \<open>--\<close> ends them.
\<close>

definition valued_flags :: "string list" where
  "valued_flags = [''-n'', ''--namespace'', ''--context'', ''--kubeconfig'', ''--cluster'', ''--user'', ''-s'', ''--server'', ''--token'', ''--as'',
     ''--as-group'', ''-o'', ''--output'', ''-f'', ''--filename'', ''-l'', ''--selector'']"

text \<open>The flags that choose the cluster, the namespace or the credentials of a call.\<close>

definition scope_flags :: "string list" where
  "scope_flags = [''-n'', ''--namespace'', ''-A'', ''--all-namespaces'', ''--context'', ''--kubeconfig'', ''--cluster'', ''--user'', ''-s'', ''--server'',
     ''--token'', ''--as'', ''--as-group'', ''--certificate-authority'', ''--client-certificate'', ''--client-key'',
     ''--insecure-skip-tls-verify'', ''--tls-server-name'']"

fun read_flags :: "string list \<Rightarrow> (string \<times> string) list" where
  "read_flags [] = []"
| "read_flags (a # as) =
     (if a = ''--'' then []
      else if a \<in> set valued_flags then (case as of [] \<Rightarrow> [(a, [])] | v # bs \<Rightarrow> (a, v) # read_flags bs)
      else if strings_HasPrefix a ''--'' then (takeWhile (\<lambda>c. c \<noteq> CHR ''='') a, drop 1 (dropWhile (\<lambda>c. c \<noteq> CHR ''='') a)) # read_flags as
      else if strings_HasPrefix a ''-'' \<and> a \<noteq> ''-'' then (take 2 a, drop 2 a) # read_flags as
      else read_flags as)"

definition scoping :: "string list \<Rightarrow> (string \<times> string) list" where
  "scoping args = filter (\<lambda>f. fst f \<in> set scope_flags) (read_flags args)"

text \<open>
  A call a tenant's target may make: rendering, or \<open>kubectl\<close> with a namespace, every namespace it names an admitted
  one, and with no other flag that chooses where it acts but the credentials file and the context, and not these
  when the cluster is confined.
\<close>

definition admitted :: "confinement \<Rightarrow> call \<Rightarrow> bool" where
  "admitted conf c \<longleftrightarrow> render_call c \<or>
     (\<exists>stdin args. c = Exec ''kubectl'' stdin args \<and> (\<exists>ns. (''-n'', ns) \<in> set (scoping args)) \<and>
        (\<forall>(f, v) \<in> set (scoping args).
           if f = ''-n'' then NamespacesEnabled conf \<longrightarrow> v \<in> set (as_values (cf_namespaces conf))
           else f \<in> {''--kubeconfig'', ''--context''} \<and> \<not> ClusterConfined conf))"

text \<open>Not a flag: what stands where a resource or a list of types belongs does not start with a dash.\<close>

abbreviation positional :: "string \<Rightarrow> bool" where
  "positional s \<equiv> \<not> strings_HasPrefix s ''-''"

text \<open>An object that is read in a namespace reports that namespace as its own, or none when its kind has none.\<close>

definition reports_namespace :: "host \<Rightarrow> kubectl \<Rightarrow> bool" where
  "reports_namespace H k \<longleftrightarrow> (\<forall>h kind name ns rest.
     fst (H h (resources_call k)) = kind @ ''|'' @ name @ ''|'' @ ns @ ''|'' @ rest \<longrightarrow> CHR ''|'' \<notin> set (kind @ name @ ns) \<longrightarrow>
     ns \<in> {[], kc_namespace k})"

lemma Cut_found: "strings_Cut s c = (a, b, True) \<Longrightarrow> s = a @ c # b \<and> c \<notin> set a"
proof -
  assume "strings_Cut s c = (a, b, True)"
  then have c: "c \<in> set s" "a = takeWhile (\<lambda>x. x \<noteq> c) s" "b = tl (dropWhile (\<lambda>x. x \<noteq> c) s)"
    by (auto simp: strings_Cut_def split: if_splits)
  then have "dropWhile (\<lambda>x. x \<noteq> c) s = c # b"
    using hd_dropWhile [of "\<lambda>x. x \<noteq> c" s] by (cases "dropWhile (\<lambda>x. x \<noteq> c) s") auto
  with c(2) show ?thesis by (metis set_takeWhileD takeWhile_dropWhile_id)
qed

lemma splitN_fields:
  assumes "length (splitN 5 c s) \<ge> 4"
  shows "\<exists>x y z rest. s = x @ c # y @ c # z @ c # rest \<and> c \<notin> set (x @ y @ z) \<and> splitN 5 c s ! 2 = z"
proof -
  obtain x s1 f1 where 1: "strings_Cut s c = (x, s1, f1)" by (cases "strings_Cut s c")
  obtain y s2 f2 where 2: "strings_Cut s1 c = (y, s2, f2)" by (cases "strings_Cut s1 c")
  obtain z s3 f3 where 3: "strings_Cut s2 c = (z, s3, f3)" by (cases "strings_Cut s2 c")
  have f: "f1" "f2" "f3" and z: "splitN 5 c s ! 2 = z"
    using assms 1 2 3 by (auto simp: numeral_eq_Suc split: if_splits)
  with Cut_found [of s] Cut_found [of s1] Cut_found [of s2] 1 2 3 show ?thesis by (intro exI [of _ x] exI [of _ y] exI [of _ z] exI [of _ s3]) simp
qed

lemma trimmed: "\<exists>a b. s = a @ strings_TrimSpace s @ b \<and> list_all is_space a"
proof (intro exI conjI)
  show "s = takeWhile is_space s @ strings_TrimSpace s @ rev (takeWhile is_space (rev (dropWhile is_space s)))"
    unfolding strings_TrimSpace_def trim_by_def rev_append [symmetric] takeWhile_dropWhile_id by simp
  show "list_all is_space (takeWhile is_space s)" by (auto simp: list_all_iff dest: set_takeWhileD)
qed

lemma pods_in_own:
  assumes "reports_namespace H k"
  shows "pods_in H k {kc_namespace k}"
proof -
  have "splitN 5 (CHR ''|'') (strings_TrimSpace (fst (H h (resources_call k)))) ! 2 = kc_namespace k"
    if p: "length (splitN 5 (CHR ''|'') (strings_TrimSpace (fst (H h (resources_call k))))) \<ge> 4"
      "splitN 5 (CHR ''|'') (strings_TrimSpace (fst (H h (resources_call k)))) ! 2 \<noteq> []" for h
  proof -
    let ?out = "fst (H h (resources_call k))"
    from splitN_fields [OF p(1)] obtain x y z rest where
      t: "strings_TrimSpace ?out = x @ CHR ''|'' # y @ CHR ''|'' # z @ CHR ''|'' # rest" "CHR ''|'' \<notin> set (x @ y @ z)"
      and z: "splitN 5 (CHR ''|'') (strings_TrimSpace ?out) ! 2 = z" by blast
    from trimmed [of ?out] obtain a b where ab: "?out = a @ strings_TrimSpace ?out @ b" "list_all is_space a" by blast
    have "\<not> is_space (CHR ''|'')" by (simp add: is_space_def)
    then have "CHR ''|'' \<notin> set a" using ab(2) by (auto simp: list_all_iff)
    moreover have "?out = (a @ x) @ ''|'' @ y @ ''|'' @ z @ ''|'' @ (rest @ b)" using ab(1) unfolding t(1) by simp
    moreover have "CHR ''|'' \<notin> set ((a @ x) @ y @ z)" using calculation(1) t(2) by simp
    ultimately have "z \<in> {[], kc_namespace k}" using assms unfolding reports_namespace_def by blast
    then show ?thesis using p(2) z by simp
  qed
  then show ?thesis by (simp add: pods_in_def Let_def)
qed

lemma scoping_base:
  "scoping (baseArgs k @ args) = (if kc_kubeconfig k = [] then [] else [(''--kubeconfig'', kc_kubeconfig k)]) @
     (if kc_context k = [] then [] else [(''--context'', kc_context k)]) @
     (if kc_namespace k = [] then [] else [(''-n'', kc_namespace k)]) @ scoping args"
  by (simp add: scoping_def baseArgs_def opt_flag_def valued_flags_def scope_flags_def)

lemma scope_members:
  assumes "set (scoping args) \<subseteq> {(''-n'', kc_namespace k)}" "(f, v) \<in> set (scoping (baseArgs k @ args))"
  shows "f = ''-n'' \<and> v = kc_namespace k \<or> f = ''--kubeconfig'' \<and> kc_kubeconfig k \<noteq> [] \<or> f = ''--context'' \<and> kc_context k \<noteq> []"
  using assms unfolding scoping_base by (auto split: if_splits)

definition own_scope :: "kubectl \<Rightarrow> string list \<Rightarrow> bool" where
  "own_scope k args \<longleftrightarrow> set (scoping args) \<subseteq> {(''-n'', kc_namespace k)}"

lemma positional_flags:
  assumes "positional s"
  shows "read_flags (s # as) = read_flags as"
proof -
  have "s \<notin> set valued_flags" "s \<noteq> ''--''" "\<not> strings_HasPrefix s ''--''"
    using assms by (cases s; auto simp: valued_flags_def strings_HasPrefix_def)+
  with assms show ?thesis by simp
qed

declare read_flags.simps(2) [simp del]

text \<open>The words and flags of the target's own commands.\<close>

lemma own_words:
  "read_flags (''get'' # as) = read_flags as" "read_flags (''pods'' # as) = read_flags as" "read_flags (''rollout'' # as) = read_flags as"
  "read_flags (''status'' # as) = read_flags as" "read_flags (''diff'' # as) = read_flags as" "read_flags (''apply'' # as) = read_flags as"
  "read_flags (''annotate'' # as) = read_flags as" "read_flags (''delete'' # as) = read_flags as"
  "read_flags ((ChecksumAnnotation @ x) # as) = read_flags as"
  by (rule positional_flags, simp add: strings_HasPrefix_def ChecksumAnnotation_def)+

lemma own_flags:
  "read_flags (''-n'' # v # as) = (''-n'', v) # read_flags as" "read_flags (''-o'' # v # as) = (''-o'', v) # read_flags as"
  "read_flags (''-f'' # v # as) = (''-f'', v) # read_flags as" "read_flags (''-l'' # v # as) = (''-l'', v) # read_flags as"
  "read_flags (''--selector'' # v # as) = (''--selector'', v) # read_flags as"
  "read_flags (''--dry-run=server'' # as) = (''--dry-run'', ''server'') # read_flags as"
  "read_flags (''--overwrite'' # as) = (''--overwrite'', []) # read_flags as"
  "read_flags (''--prune'' # as) = (''--prune'', []) # read_flags as"
  "read_flags (''--ignore-not-found'' # as) = (''--ignore-not-found'', []) # read_flags as"
  "read_flags ((''--timeout='' @ d) # as) = (''--timeout'', d) # read_flags as"
  by (simp_all add: read_flags.simps(2) valued_flags_def strings_HasPrefix_def)

lemma own_scope_args:
  assumes "positional (kc_resource k)" "positional (strings_Join (if kc_reapTypes k = [] then [''all''] else kc_reapTypes k) '','')"
  shows "reading_args k {kc_namespace k} (own_scope k)" "writing_args k (own_scope k)"
proof -
  note r = positional_flags [OF assms(1)] positional_flags [OF assms(2)] own_words own_flags
  have n: "fst (x, v) \<in> set scope_flags \<longleftrightarrow> x \<in> set scope_flags" for x and v :: string by simp
  have f: "''-o'' \<notin> set scope_flags" "''-f'' \<notin> set scope_flags" "''-l'' \<notin> set scope_flags" "''--selector'' \<notin> set scope_flags"
    "''--dry-run'' \<notin> set scope_flags" "''--overwrite'' \<notin> set scope_flags" "''--prune'' \<notin> set scope_flags"
    "''--ignore-not-found'' \<notin> set scope_flags" "''--timeout'' \<notin> set scope_flags"
    by (simp_all add: scope_flags_def)
  have "own_scope k [''get'', kc_resource k, ''-o'', p]" "own_scope k [''get'', ''pods'', ''-n'', kc_namespace k, ''-l'', sel, ''-o'', p]"
    "own_scope k [''rollout'', ''status'', kc_resource k, ''--timeout='' @ d]" "own_scope k [''diff'', ''-f'', ''-'']"
    "own_scope k [''apply'', ''--dry-run=server'', ''-f'', ''-'']" for p sel d
    by (simp_all only: own_scope_def scoping_def r read_flags.simps(1) filter.simps n f if_False list.set) auto
  then show "reading_args k {kc_namespace k} (own_scope k)" by (simp add: reading_args_def)
  have "own_scope k ([''apply'', ''-f'', ''-''] @ pruneArgs (kc_prune k) (kc_pruneVal k))"
    "own_scope k [''annotate'', ''--overwrite'', kc_resource k, ChecksumAnnotation @ v]"
    "own_scope k [''delete'', strings_Join (if kc_reapTypes k = [] then [''all''] else kc_reapTypes k) '','', ''--selector'', sel, ''--ignore-not-found'']"
    for sel v
    unfolding pruneArgs_def
    by (cases "kc_prune k"; simp only: own_scope_def scoping_def append.simps not_True_eq_False not_False_eq_True if_True if_False r
      read_flags.simps(1) filter.simps n f list.set empty_subsetI)+
  then show "writing_args k (own_scope k)" unfolding writing_args_def reapArgs_def Let_def by blast
qed

lemma built_scope:
  assumes "newTarget cfg conf = Inr t"
  shows "kc_namespace (kt_cl t) \<noteq> []" "NamespacesEnabled conf \<longrightarrow> kc_namespace (kt_cl t) \<in> set (as_values (cf_namespaces conf))"
    "ClusterConfined conf \<longrightarrow> kc_kubeconfig (kt_cl t) = [] \<and> kc_context (kt_cl t) = []"
proof -
  let ?ns = "if spec_str (t_Spec cfg) ''namespace'' = [] then ''default'' else spec_str (t_Spec cfg) ''namespace''"
  have n: "?ns \<noteq> []" by simp
  have ok: "CheckNamespace conf ?ns = None"
    using assms by (auto simp: newTarget_def newKubectl_def Let_def split: option.splits if_splits)
  then show c: "ClusterConfined conf \<longrightarrow> kc_kubeconfig (kt_cl t) = [] \<and> kc_context (kt_cl t) = []"
    using assms by (auto simp: newTarget_def newKubectl_def Let_def split: option.splits if_splits)
  have t: "kc_namespace (kt_cl t) = ?ns"
    using assms ok by (auto simp: newTarget_def newKubectl_def Let_def split: option.splits if_splits)
  show "kc_namespace (kt_cl t) \<noteq> []" using n t by simp
  show "NamespacesEnabled conf \<longrightarrow> kc_namespace (kt_cl t) \<in> set (as_values (cf_namespaces conf))"
    using ok n unfolding t by (auto simp: CheckNamespace_def NamespacesEnabled_def Let_def split: if_splits)
qed

text \<open>
  C21: the confinement of a tenant. Whatever operations run on a target that was built under a confinement,
  in whatever order, and whatever the cluster answers: each call renders the manifest, or is a \<open>kubectl\<close>
  call whose flags, wherever they stand on the command line, name a namespace, only allowed ones when there is
  an allowlist, and neither a credentials file nor a context when the cluster is confined, and no other
  cluster, server, user, token or identity in any case. Relied on: an object reports the namespace it was read in;
  and the target's resource and its reap types do not themselves start with a dash, which the code does not check.
\<close>

theorem kubectl_scoped:
  assumes "newTarget cfg conf = Inr t"
    and "positional (kc_resource (kt_cl t))"
    and "positional (strings_Join (if kc_reapTypes (kt_cl t) = [] then [''all''] else kc_reapTypes (kt_cl t)) '','')"
    and "reports_namespace H (kt_cl t)"
  shows "\<exists>cs. snd (run_state (run_kubes Y H t ops) h) = h @ cs \<and> list_all (admitted conf) cs"
proof -
  have "admitted conf c" if c: "kube_call (kt_cl t) (own_scope (kt_cl t)) c" for c
  proof (cases "render_call c")
    case False
    with c obtain stdin args where a: "c = Exec ''kubectl'' stdin (baseArgs (kt_cl t) @ args)" "set (scoping args) \<subseteq> {(''-n'', kc_namespace (kt_cl t))}"
      by (auto simp: kube_call_def own_scope_def)
    have "(''-n'', kc_namespace (kt_cl t)) \<in> set (scoping (baseArgs (kt_cl t) @ args))"
      using built_scope(1) [OF assms(1)] by (simp add: scoping_base)
    moreover have "if f = ''-n'' then NamespacesEnabled conf \<longrightarrow> v \<in> set (as_values (cf_namespaces conf))
           else f \<in> {''--kubeconfig'', ''--context''} \<and> \<not> ClusterConfined conf" if "(f, v) \<in> set (scoping (baseArgs (kt_cl t) @ args))" for f v
      using scope_members [OF a(2) that] built_scope [OF assms(1)] by auto
    ultimately show ?thesis unfolding admitted_def a(1) by blast
  qed (simp add: admitted_def)
  moreover have "calls_in (kube_call (kt_cl t) (own_scope (kt_cl t))) h (snd (run_state (run_kubes Y H t ops) h))"
    using keeps_run_kubes [OF own_scope_args(1) [OF assms(2,3)] pods_in_own [OF assms(4)] own_scope_args(2) [OF assms(2,3)]]
    by (auto simp: keeps_def)
  ultimately show ?thesis unfolding calls_in_def list_all_iff by blast
qed

text \<open>
  The condition on the resource is needed: the resource of a specification is an argument of its own, and one that
  is a flag is read as one, also under a confinement.
\<close>

lemma resource_is_a_flag:
  assumes "kc_resource k = ''--context=prod''"
  shows "(''--context'', ''prod'') \<in> set (scoping (baseArgs k @ [''get'', kc_resource k, ''-o'', p]))"
  by (simp add: scoping_base assms) (simp add: scoping_def own_words read_flags.simps(2) valued_flags_def scope_flags_def strings_HasPrefix_def)

definition demo_kube :: cfg_target where
  "demo_kube = \<lparr>t_Kind = ''kubernetes'', t_Ref = ''team-a/api'', t_Criticality = [], t_Env = [], t_Spec = [(''resource'', AStr ''deployment/api''),
     (''namespace'', AStr ''team-a''), (''context'', AStr ''prod''), (''manifest'', AStr ''kind: Deployment'')]\<rparr>"

definition demo_conf :: confinement where
  "demo_conf = \<lparr>cf_commands = \<lparr>as_enabled = False, as_values = []\<rparr>, cf_namespaces = \<lparr>as_enabled = True, as_values = [''team-a'']\<rparr>,
     cf_confineCluster = True, cf_allowedEnv = []\<rparr>"

theorem kubectl_scoped_witness:
  "\<exists>t cs. newTarget demo_kube demo_conf = Inr t \<and> snd (run_state (run_kubes demo_lib (\<lambda>_ _. ([], None)) t [KubeObserve, KubeReap]) []) = cs \<and>
     cs = [Exec ''kubectl'' None [''-n'', ''team-a'', ''get'', ''deployment/api'', ''-o'', checksum_path]] \<and> list_all (admitted demo_conf) cs"
proof -
  define t where "t = projr (newTarget demo_kube demo_conf)"
  have "\<not> is_err (newTarget demo_kube demo_conf)" by code_simp
  then have t: "newTarget demo_kube demo_conf = Inr t" by (cases "newTarget demo_kube demo_conf") (simp_all add: t_def)
  have k: "baseArgs (kt_cl t) = [''-n'', ''team-a'']" "kc_resource (kt_cl t) = ''deployment/api''" "\<not> kc_reapOnDelete (kt_cl t)"
    "strings_Join (if kc_reapTypes (kt_cl t) = [] then [''all''] else kc_reapTypes (kt_cl t)) '','' = ''all''"
    unfolding t_def by code_simp+
  have "snd (run_state (run_kubes demo_lib (\<lambda>_ _. ([], None)) t [KubeObserve, KubeReap]) []) =
      [Exec ''kubectl'' None [''-n'', ''team-a'', ''get'', ''deployment/api'', ''-o'', checksum_path]]"
    using k by (simp add: kt_Observe_def LiveChecksum_def kt_ReapTarget_def kc_ReapTarget_def kc_run_def run_state_simps run_host_call)
  moreover have "list_all (admitted demo_conf) (snd (run_state (run_kubes demo_lib (\<lambda>_ _. ([], None)) t [KubeObserve, KubeReap]) []))"
    using kubectl_scoped [OF t, of "\<lambda>_ _. ([], None)" demo_lib "[KubeObserve, KubeReap]" "[]"] k
    by (auto simp: reports_namespace_def strings_HasPrefix_def)
  ultimately show ?thesis using t by metis
qed

section \<open>Which operations write\<close>

text \<open>The path that reads an annotation: the dots of its name are escaped.\<close>

definition annotation_path :: "string \<Rightarrow> string" where
  "annotation_path key =
     ''jsonpath={.metadata.annotations.'' @ concat (map (\<lambda>c. if c = CHR ''.'' then [CHR 0x5C, c] else [c]) key) @ ''}''"

lemma checksum_path_reads: "checksum_path = annotation_path ChecksumAnnotation"
  by code_simp

abbreviation apply_call :: "kubectl \<Rightarrow> string \<Rightarrow> call" where
  "apply_call k lab \<equiv> Exec ''kubectl'' (Some lab) (baseArgs k @ [''apply'', ''-f'', ''-''] @ pruneArgs (kc_prune k) (kc_pruneVal k))"

abbreviation stamp_call :: "kubectl \<Rightarrow> string \<Rightarrow> call" where
  "stamp_call k v \<equiv> Exec ''kubectl'' None (baseArgs k @ [''annotate'', ''--overwrite'', kc_resource k, ChecksumAnnotation @ ''='' @ v])"

abbreviation get_call :: "kubectl \<Rightarrow> call" where
  "get_call k \<equiv> Exec ''kubectl'' None (baseArgs k @ [''get'', kc_resource k, ''-o'', annotation_path ChecksumAnnotation])"

abbreviation diff_call :: "kubectl \<Rightarrow> string \<Rightarrow> call" where
  "diff_call k lab \<equiv> Exec ''kubectl'' (Some lab) (baseArgs k @ [''diff'', ''-f'', ''-''])"

text \<open>The cluster holds the checksum as the annotation of the target's resource, and sees no difference to what is to be applied.\<close>

definition in_sync :: "host \<Rightarrow> kubectl \<Rightarrow> string \<Rightarrow> string \<Rightarrow> call list \<Rightarrow> bool" where
  "in_sync H k lab v h \<longleftrightarrow>
     (case H h (get_call k) of (out, fl) \<Rightarrow> strings_TrimSpace out = v \<and> fl = None) \<and>
     (case H (h @ [get_call k]) (diff_call k lab) of (out, fl) \<Rightarrow>
        strings_TrimSpace out = [] \<and> (case fl of None \<Rightarrow> True | Some f \<Rightarrow> ff_Exit f = Some 1))"

text \<open>What is diffed: the labelled manifest, or the bare one where it cannot be labelled.\<close>

definition labelled :: "kube_lib \<Rightarrow> kubectl \<Rightarrow> string \<Rightarrow> string" where
  "labelled Y k man = (case labelManifest Y man (kc_pruneVal k) of Inr lab \<Rightarrow> lab | Inl _ \<Rightarrow> man)"

lemma run_LiveChecksum:
  assumes "run_state (LiveChecksum H k) h = (r, h1)"
  shows "h1 = h @ [get_call k]" "r = Inr v \<Longrightarrow> v \<noteq> [] \<Longrightarrow> strings_TrimSpace (fst (H h (get_call k))) = v \<and> snd (H h (get_call k)) = None"
  using assms unfolding LiveChecksum_def
  by (auto simp: run_state_simps run_kc_run Let_def checksum_path_reads split: option.splits if_splits)

lemma run_Diff:
  assumes "run_state (kc_Diff Y H k man) h = (r, h1)"
  shows "h1 = h @ [diff_call k (labelled Y k man)]"
    "r = Inr x \<Longrightarrow> strings_TrimSpace x = [] \<Longrightarrow> (case H h (diff_call k (labelled Y k man)) of (out, fl) \<Rightarrow>
       strings_TrimSpace out = [] \<and> (case fl of None \<Rightarrow> True | Some f \<Rightarrow> ff_Exit f = Some 1))"
  using assms unfolding kc_Diff_def labelled_def [symmetric]
  by (auto simp: run_state_simps run_kc_run Let_def split: option.splits if_splits prod.splits)

lemma kc_Apply_ok:
  assumes "run_state (kc_Apply Y H k man v) h = (None, h')"
  shows "\<exists>lab. labelManifest Y man (kc_pruneVal k) = Inr lab \<and> h' = h @ [apply_call k lab, stamp_call k v] \<and>
    snd (H h (apply_call k lab)) = None \<and> snd (H (h @ [apply_call k lab]) (stamp_call k v)) = None"
proof (cases "labelManifest Y man (kc_pruneVal k)")
  case (Inl e)
  then show ?thesis using assms by (simp add: kc_Apply_def run_state_simps)
next
  case (Inr lab)
  obtain o1 f1 where 1: "H h (apply_call k lab) = (o1, f1)" by fastforce
  obtain o2 f2 where 2: "H (h @ [apply_call k lab]) (stamp_call k v) = (o2, f2)" by fastforce
  show ?thesis
    using assms Inr 1 2 by (cases f1; cases f2) (simp_all add: kc_Apply_def run_state_simps run_kc_run Let_def)
qed

lemma Apply_calls:
  assumes "run_state (kt_Apply Y H t m) h = (Inr (wrote, d), h')"
  shows "\<exists>man h0. run_state (desiredManifest Y H m) h = (Inr man, h0) \<and>
    (if wrote then \<exists>lab h1. labelManifest Y man (kc_pruneVal (kt_cl t)) = Inr lab \<and>
         h1 \<in> {h0 @ [get_call (kt_cl t)], h0 @ [get_call (kt_cl t), diff_call (kt_cl t) lab]} \<and>
         h' = h1 @ [apply_call (kt_cl t) lab, stamp_call (kt_cl t) (m_Checksum m)] \<and>
         snd (H h1 (apply_call (kt_cl t) lab)) = None \<and> snd (H (h1 @ [apply_call (kt_cl t) lab]) (stamp_call (kt_cl t) (m_Checksum m))) = None
     else h' = h0 @ [get_call (kt_cl t), diff_call (kt_cl t) (labelled Y (kt_cl t) man)] \<and> m_Checksum m \<noteq> [] \<and>
       in_sync H (kt_cl t) (labelled Y (kt_cl t) man) (m_Checksum m) h0)"
proof -
  let ?k = "kt_cl t"
  obtain r h0 where 1: "run_state (desiredManifest Y H m) h = (r, h0)" by fastforce
  then obtain man where r: "r = Inr man" using assms by (cases r) (auto simp: kt_Apply_def run_state_simps)
  obtain cur h2 where 2: "run_state (LiveChecksum H ?k) h0 = (cur, h2)" by fastforce
  obtain x h3 where 3: "run_state (kc_Diff Y H ?k man) h2 = (x, h3)" by fastforce
  obtain e h4 where 4: "run_state (kc_Apply Y H ?k man (m_Checksum m)) h2 = (e, h4)" by fastforce
  obtain e' h5 where 5: "run_state (kc_Apply Y H ?k man (m_Checksum m)) h3 = (e', h5)" by fastforce
  note calls = run_LiveChecksum(1) [OF 2] run_Diff(1) [OF 3]
  show ?thesis
  proof (cases wrote)
    case True
    then have "e = None \<and> h' = h4 \<or> e' = None \<and> h' = h5"
      using assms 1 2 3 4 5 r by (auto simp: kt_Apply_def run_state_simps split: option.splits if_splits)
    then obtain h1 where h1: "h1 = h2 \<or> h1 = h3" "run_state (kc_Apply Y H ?k man (m_Checksum m)) h1 = (None, h')" using 4 5 by blast
    from kc_Apply_ok [OF h1(2)] obtain lab where lab: "labelManifest Y man (kc_pruneVal ?k) = Inr lab"
      "h' = h1 @ [apply_call ?k lab, stamp_call ?k (m_Checksum m)]" "snd (H h1 (apply_call ?k lab)) = None"
      "snd (H (h1 @ [apply_call ?k lab]) (stamp_call ?k (m_Checksum m))) = None" by blast
    moreover have "h1 \<in> {h0 @ [get_call ?k], h0 @ [get_call ?k, diff_call ?k lab]}"
      using h1(1) lab(1) calls by (auto simp: labelled_def)
    ultimately show ?thesis using 1 r True by auto
  next
    case False
    then have c: "(case cur of Inr c \<Rightarrow> c | Inl _ \<Rightarrow> []) = m_Checksum m" "m_Checksum m \<noteq> []"
      "case x of Inr y \<Rightarrow> strings_TrimSpace y = [] | Inl _ \<Rightarrow> False" "h' = h3"
      using assms 1 2 3 4 5 r by (auto simp: kt_Apply_def run_state_simps split: prod.splits option.splits if_splits)
    then obtain y where y: "x = Inr y" "strings_TrimSpace y = []" by (cases x) auto
    have cur: "cur = Inr (m_Checksum m)" using c(1,2) by (cases cur) auto
    have "in_sync H ?k (labelled Y ?k man) (m_Checksum m) h0"
      unfolding in_sync_def using run_LiveChecksum(2) [OF 2 cur c(2)] run_Diff(2) [OF 3 y] calls(1) by (simp add: case_prod_beta)
    then show ?thesis using 1 r c(2,4) calls False by simp
  qed
qed

text \<open>
  The calls of an Apply that ended without an error: it rendered the manifest and read the stamp; and it \<open>wrote\<close>, after
  both the manifest and the stamp were accepted, or not, on the evidence of the cluster.
\<close>

definition apply_report :: "kube_lib \<Rightarrow> host \<Rightarrow> kubectl \<Rightarrow> manifest \<Rightarrow> call list \<Rightarrow> bool \<Rightarrow> call list \<Rightarrow> bool" where
  "apply_report Y H k m h wrote h' \<longleftrightarrow> (\<exists>man cs. run_state (desiredManifest Y H m) h = (Inr man, h @ cs) \<and> list_all render_call cs \<and>
     (if wrote then \<exists>lab ds. labelManifest Y man (kc_pruneVal k) = Inr lab \<and> ds \<in> {[get_call k], [get_call k, diff_call k lab]} \<and>
          h' = h @ cs @ ds @ [apply_call k lab, stamp_call k (m_Checksum m)] \<and>
          snd (H (h @ cs @ ds) (apply_call k lab)) = None \<and> snd (H (h @ cs @ ds @ [apply_call k lab]) (stamp_call k (m_Checksum m))) = None
      else h' = h @ cs @ [get_call k, diff_call k (labelled Y k man)] \<and> m_Checksum m \<noteq> [] \<and>
        in_sync H k (labelled Y k man) (m_Checksum m) (h @ cs)))"

lemma kube_call_none: "kube_call k (\<lambda>_. False) = render_call"
  by (rule ext) (simp add: kube_call_def)

lemma Apply_reports:
  assumes "run_state (kt_Apply Y H t m) h = (Inr (wrote, d), h')"
  shows "apply_report Y H (kt_cl t) m h wrote h'"
proof -
  from Apply_calls [OF assms] obtain man h0 where 1: "run_state (desiredManifest Y H m) h = (Inr man, h0)" by blast
  have "calls_in (kube_call (kt_cl t) (\<lambda>_. False)) h h0" by (rule keepsD [OF keeps_desired 1])
  then obtain cs where cs: "h0 = h @ cs" "list_all render_call cs" by (auto simp: calls_in_def kube_call_none)
  show ?thesis
    using Apply_calls [OF assms] 1 cs unfolding apply_report_def by (intro exI [of _ man] exI [of _ cs]) (auto split: if_splits)
qed


text \<open>A cluster that remembers the stamp and what was applied.\<close>

definition demo_cluster :: "kubectl \<Rightarrow> string \<Rightarrow> host" where
  "demo_cluster k v h c =
     (if c = get_call k then (if stamp_call k v \<in> set h then (v, None) else ([], None))
      else if c = diff_call k [] \<and> apply_call k [] \<notin> set h then (''+ kind: Deployment'', Some \<lparr>ff_Exit = Some 1, ff_Err = ''exit status 1'', ff_Stderr = []\<rparr>)
      else ([], None))"

definition demo_manifest :: manifest where
  "demo_manifest = zero_manifest\<lparr>m_Checksum := ''abc'', m_Rendered := ''kind: Deployment''\<rparr>"

lemma demo_desired: "run_state (desiredManifest Y H demo_manifest) h = (Inr ''kind: Deployment'', h)"
  by (simp add: desiredManifest_def demo_manifest_def zero_manifest_def run_state_simps)

lemma demo_label: "labelManifest demo_lib m v = Inr []"
  by (simp add: labelManifest_def demo_lib_def)

lemma demo_checksum: "m_Checksum demo_manifest = ''abc''" "strings_TrimSpace ''abc'' = ''abc''" "strings_TrimSpace [] = []"
  by (simp_all add: demo_manifest_def strings_TrimSpace_def trim_by_def is_space_def)

lemma demo_first_apply:
  "run_state (kt_Apply demo_lib (demo_cluster (kt_cl t) ''abc'') t demo_manifest) [] =
     (Inr (True, ''applied to cluster''), [get_call (kt_cl t), apply_call (kt_cl t) [], stamp_call (kt_cl t) ''abc''])"
  unfolding kt_Apply_def LiveChecksum_def kc_Apply_def
  by (simp add: run_state_simps run_kc_run Let_def demo_desired demo_label demo_checksum demo_cluster_def checksum_path_reads)

lemma demo_second_apply:
  "run_state (kt_Apply demo_lib (demo_cluster (kt_cl t) ''abc'') t demo_manifest) [get_call (kt_cl t), apply_call (kt_cl t) [], stamp_call (kt_cl t) ''abc''] =
     (Inr (False, ''cluster already at desired checksum''),
      [get_call (kt_cl t), apply_call (kt_cl t) [], stamp_call (kt_cl t) ''abc'', get_call (kt_cl t), diff_call (kt_cl t) []])"
  unfolding kt_Apply_def LiveChecksum_def kc_Diff_def
  by (simp add: run_state_simps run_kc_run Let_def demo_desired demo_label demo_checksum demo_cluster_def checksum_path_reads)


end
