(* ===== verification/Kube_Drift.thy ===== *)
theory Kube_Drift
  imports Kube_Safety
begin

text \<open>
  The documents of the Kubernetes target: what the marker changes in a manifest (\<open>label_marks\<close>), what
  \<open>ignoreDifferences\<close> hides (\<open>ignored_fields_no_drift\<close>), and when a health check gives no verdict
  (\<open>unreachable_no_verdict\<close>).
\<close>

section \<open>The marker\<close>

lemma sub_map_update:
  "sub_map (AList.update k v m) j = (if j = k then (case v of AMap x \<Rightarrow> x | _ \<Rightarrow> []) else sub_map m j)"
  by (simp add: sub_map_def spec_map_def update_conv' split: any.split)

lemma update_twice [simp]: "AList.update k v (AList.update k w m) = AList.update k v m"
  by (induction m) auto

text \<open>
  The marker is an identity and nothing else. It is found under \<open>metadata.labels\<close>; every other label,
  every other field of the metadata and every other top-level field, the selector and the pod template
  among them, is as it was; and labelling again replaces the marker, so a manifest labelled twice is the
  manifest labelled once.
\<close>

theorem label_marks:
  "map_of (sub_map (sub_map (label_doc v d) ''metadata'') ''labels'') l =
     (if l = PruneLabel then Some (AStr v) else map_of (sub_map (sub_map d ''metadata'') ''labels'') l) \<and>
   map_of (sub_map (label_doc v d) ''metadata'') f =
     (if f = ''labels'' then Some (AMap (sub_map (sub_map (label_doc v d) ''metadata'') ''labels'')) else map_of (sub_map d ''metadata'') f) \<and>
   map_of (label_doc v d) g = (if g = ''metadata'' then Some (AMap (sub_map (label_doc v d) ''metadata'')) else map_of d g) \<and>
   label_doc v (label_doc w d) = label_doc v d"
  by (simp add: label_doc_def Let_def sub_map_update update_conv')

text \<open>The value of the marker: never empty, at most 63 characters of the admitted ones, starting with a letter or a digit.\<close>

lemma dash_runs_ok: "list_all label_ok (dash_runs b s)"
  by (induction s arbitrary: b) (auto simp: label_ok_def)

lemma trim_by_set: "set (trim_by f s) \<subseteq> set s"
  unfolding trim_by_def by (metis set_dropWhileD set_rev subset_code(1))

lemma trim_by_hd: "trim_by f s \<noteq> [] \<Longrightarrow> \<not> f (hd (trim_by f s))"
proof -
  let ?d = "dropWhile f s"
  assume ne: "trim_by f s \<noteq> []"
  have "?d \<noteq> []" using ne unfolding trim_by_def by (metis dropWhile.simps(1) rev.simps(1))
  then have h: "\<not> f (hd ?d)" by (rule hd_dropWhile)
  have "prefix (trim_by f s) ?d"
    unfolding trim_by_def by (metis rev_rev_ident suffix_dropWhile suffix_to_prefix)
  then have "hd (trim_by f s) = hd ?d" using ne by (auto simp: prefix_def)
  with h show ?thesis by simp
qed

lemma labelValue_shape:
  "labelValue ref \<noteq> [] \<and> length (labelValue ref) \<le> 63 \<and> list_all label_ok (labelValue ref) \<and> \<not> label_trim (hd (labelValue ref))"
proof -
  define v where "v = trim_by label_trim (dash_runs False (strings_ToLower ref))"
  have l: "labelValue ref = (if take 63 v = [] then ''rollops'' else take 63 v)" by (simp add: labelValue_def v_def Let_def)
  have "list_all label_ok v"
    using trim_by_set [of label_trim "dash_runs False (strings_ToLower ref)"] dash_runs_ok unfolding v_def list_all_iff by blast
  then have 1: "list_all label_ok (take 63 v)" by (auto simp: list_all_iff dest: in_set_takeD)
  have "take 63 v \<noteq> [] \<Longrightarrow> hd (take 63 v) = hd v" by (cases v) auto
  then have 2: "take 63 v \<noteq> [] \<Longrightarrow> \<not> label_trim (hd (take 63 v))" using trim_by_hd by (fastforce simp: v_def)
  have 3: "list_all label_ok ''rollops''" "\<not> label_trim (hd ''rollops'')" by code_simp+
  show ?thesis unfolding l using 1 2 3 by auto
qed

text \<open>
  The trim comes before the cut: a long reference can leave a marker that ends in a dash, which is not a
  label value Kubernetes accepts.
\<close>

lemma label_can_end_in_dash:
  "labelValue (replicate 62 (CHR ''a'') @ ''/web'') = replicate 62 (CHR ''a'') @ ''-''"
  by code_simp

text \<open>
  The orphan report derives the marker again, one dash per character instead of one per run: for a reference
  with two such characters in a row it names a selector that matches nothing.
\<close>

lemma orphan_report_names_another_marker:
  "labelValue ''prod: api'' = ''prod-api''"
  "c_Ref c = ''prod: api'' \<Longrightarrow> labelValueFor (Some c) = ''prod--api''"
proof -
  show "labelValue ''prod: api'' = ''prod-api''" by code_simp
  have "trim_by (\<lambda>ch. ch = CHR ''-'' \<or> ch = CHR ''.'' \<or> ch = CHR ''_'') (map label_char (strings_ToLower ''prod: api'')) = ''prod--api''"
    by code_simp
  then show "c_Ref c = ''prod: api'' \<Longrightarrow> labelValueFor (Some c) = ''prod--api''" by (simp add: labelValueFor_def)
qed

section \<open>Fields that do not count\<close>

lemma deleteAt_Nil [simp]: "deleteAt d [] = d"
  by (cases d) simp_all

lemma delete_map: "AList.delete p (map (\<lambda>kv. (fst kv, f kv)) m) = map (\<lambda>kv. (fst kv, f kv)) (AList.delete p m)"
  by (induction m) auto

text \<open>Deletions at two places do not depend on their order.\<close>

lemma deleteAt_comm: "deleteAt (deleteAt d ps) qs = deleteAt (deleteAt d qs) ps"
proof (induction d ps arbitrary: qs rule: deleteAt.induct)
  case (1 m p ps)
  show ?case
  proof (cases qs)
    case (Cons q qs')
    show ?thesis
      using 1 by (cases "ps = []"; cases "qs' = []") (auto simp: Cons delete_map delete_twist)
  qed simp
next
  case (2 xs p ps)
  show ?case
  proof (cases qs)
    case (Cons q qs')
    show ?thesis
      using 2 by (auto simp: Cons nth_list_update list_update_swap split: option.splits)
  qed simp
qed simp_all

lemma deleteAt_idem: "deleteAt (deleteAt d ps) ps = deleteAt d ps"
proof (induction d ps rule: deleteAt.induct)
  case (1 m p ps)
  then show ?case by (cases "ps = []") (auto simp: delete_idem)
next
  case (2 xs p ps)
  then show ?case by (auto split: option.splits)
qed simp_all

lemma delete_early:
  "p \<in> set ps \<Longrightarrow> foldl (\<lambda>d p. deleteAt d (pointerParts p)) d ps = foldl (\<lambda>d p. deleteAt d (pointerParts p)) (deleteAt d (pointerParts p)) ps"
proof (induction ps arbitrary: d)
  case (Cons q ps)
  show ?case
  proof (cases "p = q")
    case True
    then show ?thesis by (simp add: deleteAt_idem)
  next
    case False
    with Cons have "p \<in> set ps" by simp
    from Cons.IH [OF this, of "deleteAt d (pointerParts q)"] show ?thesis by (simp add: deleteAt_comm [of _ "pointerParts q"])
  qed
qed simp

text \<open>
  \<open>ignoreDifferences\<close> hides what it names, wherever it stands in the list. Two live objects that differ
  only below a pointer of the list, or below one of the fields the server assigns, are judged the same
  against every desired manifest, and the same as each other.
\<close>

theorem ignored_fields_no_drift:
  assumes "p \<in> set (kubeNoise @ ignore)" "deleteAt a (pointerParts p) = deleteAt b (pointerParts p)"
    and "kl_Value Y live = Inr a" "kl_Value Y live' = Inr b"
  shows "equivalentIgnoring Y live desired ignore = equivalentIgnoring Y live' desired ignore \<and>
    equivalentIgnoring Y live live' ignore = Inr True"
proof -
  have "ignored ignore a = ignored ignore b"
    unfolding ignored_def delete_early [OF assms(1), of a] delete_early [OF assms(1), of b] assms(2) ..
  then show ?thesis by (simp add: equivalentIgnoring_def assms(3,4) split: sum.split)
qed

definition demo_object :: "int \<Rightarrow> any" where
  "demo_object n = AMap [(''kind'', AStr ''Deployment''), (''spec'', AMap [(''replicas'', AInt n), (''paused'', ABool False)])]"

theorem ignored_fields_no_drift_witness:
  "let Y = demo_lib\<lparr>kl_Value := \<lambda>s. Inr (demo_object (if s = ''five'' then 5 else 2))\<rparr> in
   equivalentIgnoring Y ''five'' ''two'' [''/spec/replicas''] = Inr True \<and> equivalentIgnoring Y ''five'' ''two'' [''/spec/paused''] = Inr False"
proof -
  let ?Y = "demo_lib\<lparr>kl_Value := \<lambda>s. Inr (demo_object (if s = ''five'' then 5 else 2))\<rparr>"
  have m: "''/spec/replicas'' \<in> set (kubeNoise @ [''/spec/replicas''])" by simp
  have "pointerParts ''/spec/replicas'' = [''spec'', ''replicas'']" by code_simp
  then have d: "deleteAt (demo_object 5) (pointerParts ''/spec/replicas'') = deleteAt (demo_object 2) (pointerParts ''/spec/replicas'')"
    by (simp add: demo_object_def)
  have "equivalentIgnoring ?Y ''five'' ''two'' [''/spec/replicas''] = Inr True"
    by (rule conjunct2 [OF ignored_fields_no_drift [OF m d]]) simp_all
  moreover have "canon (ignored [''/spec/paused''] (demo_object 5)) \<noteq> canon (ignored [''/spec/paused''] (demo_object 2))" by code_simp
  ultimately show ?thesis by (simp add: Let_def equivalentIgnoring_def)
qed

section \<open>Health\<close>

lemma unreachable_in_text:
  assumes "list_ex (strings_Contains (strings_TrimSpace (ff_Stderr f))) unreachableMarkers"
  shows "isUnreachable (kc_err args f)"
  using assms unfolding isUnreachable_def list_ex_iff kc_err_def err_str.simps strings_Contains_iff sublist_append by blast

lemma Healthy_last:
  assumes "run_state (Healthy Y H k) h = (x, h')"
  shows "\<exists>h1 args q v. run_state (kc_run k H None args) h1 = (q, h') \<and>
    x = (case snd q of Some (_, e) \<Rightarrow> if isUnreachable e then Inl (Wrap ''kubernetes: health'' e) else Inr (False, strings_TrimSpace (fst q)) | None \<Rightarrow> Inr (v q))"
proof (cases "kc_healthCond k = [] \<and> resourceKind (kc_resource k) \<in> set rolloutKinds")
  case True
  obtain t h1 where t: "run_state (rolloutWait H k) h = (t, h1)" by fastforce
  obtain q h2 where q: "run_state (kc_run k H None [''rollout'', ''status'', kc_resource k, ''--timeout='' @ t]) h1 = (q, h2)" by fastforce
  from assms True t q show ?thesis
    by (intro exI [of _ h1] exI [of _ "[''rollout'', ''status'', kc_resource k, ''--timeout='' @ t]"] exI [of _ q] exI [of _ "\<lambda>_. (True, [])"])
      (simp add: Healthy_def run_state_simps)
next
  case False
  obtain q h2 where q: "run_state (kc_run k H None [''get'', kc_resource k, ''-o'', ''jsonpath={.status.conditions}'']) h = (q, h2)" by fastforce
  from assms False q show ?thesis
    by (intro exI [of _ h] exI [of _ "[''get'', kc_resource k, ''-o'', ''jsonpath={.status.conditions}'']"] exI [of _ q]
        exI [of _ "\<lambda>q. evalConditions Y (fst q) (kc_healthCond k)"])
      (simp add: Healthy_def conditionHealthy_def run_state_simps)
qed

text \<open>
  A health check that could not reach the API server has no verdict. Whatever the cluster answers, the
  last call decides: when it failed with one of the texts \<open>kubectl\<close> prints when it got no answer, the
  check is an error, which the gates retry, and never an unhealthy verdict, which would roll back; when it
  succeeded there is a verdict; and a healthy verdict needs a last call that succeeded.
\<close>

theorem unreachable_no_verdict:
  assumes "run_state (kt_Health Y H t) h = (r, h')"
  shows "\<exists>h0 c. h' = h0 @ [c] \<and>
    (\<forall>f. snd (H h0 c) = Some f \<and> list_ex (strings_Contains (strings_TrimSpace (ff_Stderr f))) unreachableMarkers \<longrightarrow> is_err r) \<and>
    (snd (H h0 c) = None \<longrightarrow> \<not> is_err r) \<and>
    (\<forall>s. r = Inr s \<and> hs_State s = HealthHealthy \<longrightarrow> snd (H h0 c) = None)"
proof -
  let ?k = "kt_cl t"
  define x where "x = fst (run_state (Healthy Y H ?k) h)"
  have hx: "run_state (Healthy Y H ?k) h = (x, h')"
    and r: "r = (case x of Inl e \<Rightarrow> Inl e | Inr (ok, reason) \<Rightarrow> Inr (if \<not> ok then \<lparr>hs_State = HealthUnhealthy, hs_Reason = reason\<rparr> else \<lparr>hs_State = HealthHealthy, hs_Reason = []\<rparr>))"
    using assms unfolding kt_Health_def x_def by (auto simp: run_state_simps split: prod.splits)
  obtain h1 args q v where q: "run_state (kc_run ?k H None args) h1 = (q, h')"
    "x = (case snd q of Some (_, e) \<Rightarrow> if isUnreachable e then Inl (Wrap ''kubernetes: health'' e) else Inr (False, strings_TrimSpace (fst q)) | None \<Rightarrow> Inr (v q))"
    using Healthy_last [OF hx] by blast
  let ?c = "Exec ''kubectl'' None (baseArgs ?k @ args)"
  have h': "h' = h1 @ [?c]" "snd q = map_option (\<lambda>f. (ff_Exit f, kc_err args f)) (snd (H h1 ?c))"
    using q(1) by (auto simp: run_kc_run Let_def)
  show ?thesis
  proof (intro exI conjI)
    show "h' = h1 @ [?c]" by (rule h')
    show "\<forall>f. snd (H h1 ?c) = Some f \<and> list_ex (strings_Contains (strings_TrimSpace (ff_Stderr f))) unreachableMarkers \<longrightarrow> is_err r"
      using q(2) h'(2) unreachable_in_text by (auto simp: r)
    show "snd (H h1 ?c) = None \<longrightarrow> \<not> is_err r" using q(2) h'(2) by (auto simp: r split: prod.splits)
    show "\<forall>s. r = Inr s \<and> hs_State s = HealthHealthy \<longrightarrow> snd (H h1 ?c) = None"
      using q(2) h'(2) by (cases "snd (H h1 ?c)") (auto simp: r split: if_splits)
  qed
qed

theorem unreachable_no_verdict_witness:
  "\<exists>t r h'. newTarget demo_kube demo_conf = Inr t \<and>
     run_state (kt_Health demo_lib (\<lambda>_ _. ([], Some \<lparr>ff_Exit = Some 1, ff_Err = ''exit status 1'', ff_Stderr = ''Unable to connect to the server: EOF''\<rparr>)) t) [] = (r, h') \<and> is_err r"
proof -
  let ?f = "\<lparr>ff_Exit = Some 1, ff_Err = ''exit status 1'', ff_Stderr = ''Unable to connect to the server: EOF''\<rparr>"
  have "\<not> is_err (newTarget demo_kube demo_conf)" by code_simp
  then obtain t where t: "newTarget demo_kube demo_conf = Inr t" by (auto simp: is_err_def split: sum.splits)
  obtain r h' where r: "run_state (kt_Health demo_lib (\<lambda>_ _. ([], Some ?f)) t) [] = (r, h')" by fastforce
  have "list_ex (strings_Contains (strings_TrimSpace (ff_Stderr ?f))) unreachableMarkers" by code_simp
  with unreachable_no_verdict [OF r] have "is_err r" by auto
  with t r show ?thesis by blast
qed

end
