(* ===== verification/Middlewares.thy ===== *)
theory Middlewares
  imports Kubernetes
begin

text \<open>
  \<^verbatim>\<open>internal/target/kubernetes/dangling.go\<close>: the scan of a batch of manifests for Ingresses that name a
  Traefik middleware nobody provides. The decoder of \<open>kube_lib\<close> gives the documents of a manifest; asking
  the cluster is the parameter \<open>exists\<close>, which may be absent.
\<close>

definition TraefikRouterMiddlewaresAnnotation :: string where
  "TraefikRouterMiddlewaresAnnotation = ''traefik.ingress.kubernetes.io/router.middlewares''"

type_synonym exists_func = "(string \<Rightarrow> string \<Rightarrow> bool \<times> err option) option"

record mw_need =
  mw_ingressNS :: string
  mw_ingressName :: string
  mw_token :: string

definition splitMiddlewareAnnotation :: "string \<Rightarrow> string list" where
  "splitMiddlewareAnnotation raw =
     (let raw = strings_TrimSpace raw in
      if raw = [] then []
      else concat (map (\<lambda>part.
        let part = strings_TrimSpace part in
        if part = [] then []
        else (case strings_Cut part (CHR ''@'') of (namePart, provider, ok) \<Rightarrow>
          if \<not> ok \<or> provider \<noteq> ''kubernetescrd'' then []
          else (let namePart = strings_TrimSpace namePart in if namePart = [] then [] else [namePart])))
        (split_on (CHR '','') raw)))"

text \<open>What one document adds to the batch and to the needs; an error or an empty document adds nothing.\<close>

definition scan_doc :: "tspec option res \<Rightarrow> string list \<times> mw_need list \<Rightarrow> string list \<times> mw_need list" where
  "scan_doc r acc =
     (case r of
        Inr (Some doc) \<Rightarrow>
          (case spec_map doc ''metadata'' of
             None \<Rightarrow> acc
           | Some meta \<Rightarrow>
               (let knd = spec_str doc ''kind''; name = spec_str meta ''name'';
                    ns = (if spec_str meta ''namespace'' = [] then ''default'' else spec_str meta ''namespace'') in
                if knd = ''Middleware'' then
                  (if name = [] then acc else (set_add (ns @ ''/'' @ name) (fst acc), snd acc))
                else if knd = ''Ingress'' then
                  (if name = [] then acc
                   else (case spec_map meta ''annotations'' of
                       None \<Rightarrow> acc
                     | Some ann \<Rightarrow>
                         (fst acc, snd acc @ map (\<lambda>tk. \<lparr>mw_ingressNS = ns, mw_ingressName = name, mw_token = tk\<rparr>)
                            (splitMiddlewareAnnotation (spec_str ann TraefikRouterMiddlewaresAnnotation)))))
                else acc))
      | _ \<Rightarrow> acc)"

definition scanManifestDocs :: "kube_lib \<Rightarrow> string \<Rightarrow> string list \<times> mw_need list \<Rightarrow> string list \<times> mw_need list" where
  "scanManifestDocs Y raw acc = foldl (\<lambda>a d. scan_doc d a) acc (kl_Docs Y raw)"

definition liveOrBatch :: "string list \<Rightarrow> exists_func \<Rightarrow> string \<Rightarrow> string \<Rightarrow> bool" where
  "liveOrBatch inBatch exists ns name =
     (if ns @ ''/'' @ name \<in> set inBatch then True
      else (case exists of None \<Rightarrow> False | Some f \<Rightarrow> (case f ns name of (ok, e) \<Rightarrow> e = None \<and> ok)))"

definition hyphenIndexes :: "string \<Rightarrow> nat list" where
  "hyphenIndexes s = filter (\<lambda>i. s ! i = CHR ''-'') [0..<length s]"

definition middlewareResolved :: "string \<Rightarrow> string \<Rightarrow> string list \<Rightarrow> exists_func \<Rightarrow> bool" where
  "middlewareResolved token ingressNS inBatch exists =
     (if liveOrBatch inBatch exists ingressNS token then True
      else list_ex (\<lambda>i. let ns = take i token; name = drop (Suc i) token in
        ns \<noteq> [] \<and> name \<noteq> [] \<and> liveOrBatch inBatch exists ns name) (hyphenIndexes token))"

definition need_warning :: "mw_need \<Rightarrow> string" where
  "need_warning n = ''Ingress '' @ mw_ingressNS n @ ''/'' @ mw_ingressName n @ '' names Middleware '' @ mw_token n @ ''@kubernetescrd via '' @
     TraefikRouterMiddlewaresAnnotation @ '', but it is neither in this batch nor live in the cluster''"

definition DanglingMiddlewareWarnings :: "kube_lib \<Rightarrow> string list \<Rightarrow> exists_func \<Rightarrow> string list" where
  "DanglingMiddlewareWarnings Y manifests exists =
     (let (inBatch, needs) = foldl (\<lambda>a raw. scanManifestDocs Y raw a) ([], []) manifests in
      foldl (\<lambda>out n. if middlewareResolved (mw_token n) (mw_ingressNS n) inBatch exists then out
        else if need_warning n \<in> set out then out else out @ [need_warning n]) [] needs)"

section \<open>What is warned about\<close>

text \<open>A document that declares a middleware, and one that needs some.\<close>

definition meta_of :: "tspec \<Rightarrow> string \<Rightarrow> (string \<times> string \<times> tspec) option" where
  "meta_of doc knd =
     (case spec_map doc ''metadata'' of
        None \<Rightarrow> None
      | Some meta \<Rightarrow>
          if spec_str doc ''kind'' = knd \<and> spec_str meta ''name'' \<noteq> []
          then Some (if spec_str meta ''namespace'' = [] then ''default'' else spec_str meta ''namespace'', spec_str meta ''name'', meta) else None)"

definition declares :: "tspec \<Rightarrow> string \<Rightarrow> string \<Rightarrow> bool" where
  "declares doc ns name \<longleftrightarrow> (\<exists>meta. meta_of doc ''Middleware'' = Some (ns, name, meta))"

definition needs_mw :: "tspec \<Rightarrow> mw_need \<Rightarrow> bool" where
  "needs_mw doc n \<longleftrightarrow> (\<exists>meta ann. meta_of doc ''Ingress'' = Some (mw_ingressNS n, mw_ingressName n, meta) \<and> spec_map meta ''annotations'' = Some ann \<and>
     mw_token n \<in> set (splitMiddlewareAnnotation (spec_str ann TraefikRouterMiddlewaresAnnotation)))"

lemma scan_doc_facts:
  "set (fst (scan_doc r acc)) = set (fst acc) \<union> {ns @ ''/'' @ name | ns name doc. r = Inr (Some doc) \<and> declares doc ns name}"
  "set (snd (scan_doc r acc)) = set (snd acc) \<union> {n. \<exists>doc. r = Inr (Some doc) \<and> needs_mw doc n}"
proof -
  have "set (fst (scan_doc r acc)) = set (fst acc) \<union> {ns @ ''/'' @ name | ns name doc. r = Inr (Some doc) \<and> declares doc ns name} \<and>
    set (snd (scan_doc r acc)) = set (snd acc) \<union> {n. \<exists>doc. r = Inr (Some doc) \<and> needs_mw doc n}"
  proof (cases "\<exists>doc meta. r = Inr (Some doc) \<and> spec_map doc ''metadata'' = Some meta")
    case False
    then show ?thesis
      by (auto simp: scan_doc_def declares_def needs_mw_def meta_of_def split: sum.splits option.splits)
  next
    case True
    then obtain doc meta where d: "r = Inr (Some doc)" "spec_map doc ''metadata'' = Some meta" by blast
    have "(\<exists>x \<in> set ts. n = \<lparr>mw_ingressNS = a, mw_ingressName = b, mw_token = x\<rparr>) \<longleftrightarrow> a = mw_ingressNS n \<and> b = mw_ingressName n \<and> mw_token n \<in> set ts" for n :: mw_need and a b ts
      by (cases n) auto
    then show ?thesis
      by (auto simp: d scan_doc_def declares_def needs_mw_def meta_of_def Let_def image_iff split: option.splits if_splits)
  qed
  then show "set (fst (scan_doc r acc)) = set (fst acc) \<union> {ns @ ''/'' @ name | ns name doc. r = Inr (Some doc) \<and> declares doc ns name}"
    "set (snd (scan_doc r acc)) = set (snd acc) \<union> {n. \<exists>doc. r = Inr (Some doc) \<and> needs_mw doc n}" by blast+
qed

text \<open>The documents of the batch, and a middleware that one of them or the cluster provides.\<close>

definition batch_docs :: "kube_lib \<Rightarrow> string list \<Rightarrow> tspec set" where
  "batch_docs Y manifests = {doc. \<exists>raw \<in> set manifests. Inr (Some doc) \<in> set (kl_Docs Y raw)}"

definition available :: "kube_lib \<Rightarrow> string list \<Rightarrow> exists_func \<Rightarrow> string \<Rightarrow> string \<Rightarrow> bool" where
  "available Y manifests exists ns name \<longleftrightarrow>
     (\<exists>doc \<in> batch_docs Y manifests. \<exists>a b. declares doc a b \<and> a @ ''/'' @ b = ns @ ''/'' @ name) \<or> (\<exists>f. exists = Some f \<and> f ns name = (True, None))"

definition provided :: "kube_lib \<Rightarrow> string list \<Rightarrow> exists_func \<Rightarrow> mw_need \<Rightarrow> bool" where
  "provided Y manifests exists n \<longleftrightarrow> available Y manifests exists (mw_ingressNS n) (mw_token n) \<or>
     (\<exists>ns name. mw_token n = ns @ ''-'' @ name \<and> ns \<noteq> [] \<and> name \<noteq> [] \<and> available Y manifests exists ns name)"

lemma scan_docs_facts:
  "set (fst (foldl (\<lambda>a d. scan_doc d a) acc ds)) = set (fst acc) \<union> {ns @ ''/'' @ name | ns name doc. Inr (Some doc) \<in> set ds \<and> declares doc ns name}"
  "set (snd (foldl (\<lambda>a d. scan_doc d a) acc ds)) = set (snd acc) \<union> {n. \<exists>doc. Inr (Some doc) \<in> set ds \<and> needs_mw doc n}"
proof (induction ds arbitrary: acc)
  case (Cons d ds)
  { case 1 show ?case unfolding foldl.simps Cons.IH(1) scan_doc_facts(1) by auto }
  { case 2 show ?case unfolding foldl.simps Cons.IH(2) scan_doc_facts(2) by auto }
qed auto

lemma scan_all: "foldl (\<lambda>a raw. scanManifestDocs Y raw a) acc ms = foldl (\<lambda>a d. scan_doc d a) acc (concat (map (kl_Docs Y) ms))"
  by (induction ms arbitrary: acc) (simp_all add: scanManifestDocs_def)

lemma hyphen_splits: "(\<exists>i \<in> set (hyphenIndexes s). P (take i s) (drop (Suc i) s)) \<longleftrightarrow> (\<exists>a b. s = a @ ''-'' @ b \<and> P a b)"
proof
  assume "\<exists>i \<in> set (hyphenIndexes s). P (take i s) (drop (Suc i) s)"
  then obtain i where i: "i < length s" "s ! i = CHR ''-''" "P (take i s) (drop (Suc i) s)" by (auto simp: hyphenIndexes_def)
  then have "s = take i s @ ''-'' @ drop (Suc i) s" using id_take_nth_drop [OF i(1)] by simp
  with i(3) show "\<exists>a b. s = a @ ''-'' @ b \<and> P a b" by blast
next
  assume "\<exists>a b. s = a @ ''-'' @ b \<and> P a b"
  then obtain a b where "s = a @ ''-'' @ b" "P a b" by blast
  then show "\<exists>i \<in> set (hyphenIndexes s). P (take i s) (drop (Suc i) s)"
    by (intro bexI [of _ "length a"]) (simp_all add: hyphenIndexes_def nth_append)
qed

lemma fold_warnings:
  "distinct out \<Longrightarrow> distinct (foldl (\<lambda>out n. if Q n then out else if w n \<in> set out then out else out @ [w n]) out ns) \<and>
   set (foldl (\<lambda>out n. if Q n then out else if w n \<in> set out then out else out @ [w n]) out ns) = set out \<union> {w n | n. n \<in> set ns \<and> \<not> Q n}"
proof (induction ns arbitrary: out)
  case (Cons n ns)
  then show ?case by (cases "Q n"; cases "w n \<in> set out") auto
qed auto

text \<open>
  Exactly the dangling references are reported, each once. The token of an annotation counts as provided
  when a middleware of that name is in the Ingress's namespace, or when some cut of the token at a hyphen
  gives a namespace and a name of one, in the batch or, as far as the cluster answers, alive in it.
\<close>

theorem dangling_exact:
  "distinct (DanglingMiddlewareWarnings Y ms exists) \<and>
   set (DanglingMiddlewareWarnings Y ms exists) = {need_warning n | n. (\<exists>doc \<in> batch_docs Y ms. needs_mw doc n) \<and> \<not> provided Y ms exists n}"
proof -
  obtain inBatch needs where f: "foldl (\<lambda>a raw. scanManifestDocs Y raw a) ([], []) ms = (inBatch, needs)" by fastforce
  have b: "set inBatch = {ns @ ''/'' @ name | ns name doc. doc \<in> batch_docs Y ms \<and> declares doc ns name}"
    and n: "set needs = {n. \<exists>doc \<in> batch_docs Y ms. needs_mw doc n}"
    using scan_docs_facts [of "([], [])" "concat (map (kl_Docs Y) ms)"] unfolding scan_all [symmetric] f
    by (auto simp: batch_docs_def)
  have a: "liveOrBatch inBatch exists ns name = available Y ms exists ns name" for ns name
  proof -
    have "ns @ ''/'' @ name \<in> set inBatch \<longleftrightarrow> (\<exists>doc \<in> batch_docs Y ms. \<exists>a b. declares doc a b \<and> a @ ''/'' @ b = ns @ ''/'' @ name)"
      unfolding b mem_Collect_eq by metis
    then show ?thesis unfolding liveOrBatch_def available_def by (cases exists) (auto split: prod.splits)
  qed
  have r: "middlewareResolved (mw_token x) (mw_ingressNS x) inBatch exists = provided Y ms exists x" for x
    unfolding middlewareResolved_def provided_def a Let_def list_ex_iff
    using hyphen_splits [of "mw_token x" "\<lambda>ns name. ns \<noteq> [] \<and> name \<noteq> [] \<and> available Y ms exists ns name"] by auto
  have "DanglingMiddlewareWarnings Y ms exists =
    foldl (\<lambda>out n. if provided Y ms exists n then out else if need_warning n \<in> set out then out else out @ [need_warning n]) [] needs"
    unfolding DanglingMiddlewareWarnings_def f by (simp add: r)
  then show ?thesis using fold_warnings [of "[]" "provided Y ms exists" need_warning needs] n by auto
qed

end
