(* ===== verification/Stamped.thy ===== *)
theory Stamped
  imports Target Effects
begin

text \<open>
  The two targets that keep a stamp beside what they deploy: \<^verbatim>\<open>internal/target/ssh/ssh.go\<close> with its
  transport (\<open>transport_ssh.go\<close>) and \<^verbatim>\<open>internal/target/ftp/ftp.go\<close> with its connection (\<open>conn_ftp.go\<close>).
  \<open>Apply\<close> writes the payload and then the checksum; \<open>Observe\<close> reads the checksum back.

  The remote machine is a parameter: a session that runs a shell command (SSH), the three commands of
  an FTP server. What is relied on is stated as a locale each, \<open>posix_shell\<close> for what a POSIX shell does
  with the two command lines the transport builds, and \<open>ftp_server\<close>; both give the contract \<open>stamp_store\<close> of
  a file store whose writes may fail half way, and the lemmas about \<open>Apply\<close> are proved once over that.

  \<open>sh_go\<close> is the token recognition of a POSIX shell for command lines without expansions: words, single
  quotes, a backslash, operators. It is not code of the repository: it is what the quoting is for.
\<close>

section \<open>The transport\<close>

text \<open>How a session ends: with the exit status of the command and what it wrote, or without one.\<close>

datatype session_end = Exited int string | Broken err

datatype read_end = ReadOk string | ReadMissing | ReadFailed err

definition shellQuote :: "string \<Rightarrow> string" where
  "shellQuote s = [CHR 0x27] @ strings_ReplaceAll s [CHR 0x27] [CHR 0x27, CHR 0x5C, CHR 0x27, CHR 0x27] @ [CHR 0x27]"

definition missingFileExit :: int where "missingFileExit = 44"

definition readFileCommand :: "string \<Rightarrow> string" where
  "readFileCommand path =
     ''if [ -e '' @ shellQuote path @ '' ]; then cat '' @ shellQuote path @ ''; else exit '' @ itoa missingFileExit @ ''; fi''"

definition readFileResult :: "int \<Rightarrow> string \<Rightarrow> read_end" where
  "readFileResult code out =
     (if code = 0 then ReadOk out
      else if code = missingFileExit then ReadMissing
      else ReadFailed (Err (''ssh: read file: exit status '' @ itoa code)))"

type_synonym 'w session = "string \<Rightarrow> string option \<Rightarrow> ('w, session_end) state"

definition ssh_WriteFile :: "'w session \<Rightarrow> string \<Rightarrow> string \<Rightarrow> ('w, err option) state" where
  "ssh_WriteFile run path content = do {
     r \<leftarrow> run (''cat > '' @ shellQuote path) (Some content);
     State_Monad.return (case r of
         Exited code _ \<Rightarrow> if code = 0 then None else Some (Wrap (''ssh: write '' @ path) (Err (''Process exited with status '' @ itoa code)))
       | Broken e \<Rightarrow> Some (Wrap (''ssh: write '' @ path) e))
   }"

definition ssh_ReadFile :: "'w session \<Rightarrow> string \<Rightarrow> ('w, read_end) state" where
  "ssh_ReadFile run path = do {
     r \<leftarrow> run (readFileCommand path) None;
     State_Monad.return (case r of Exited code out \<Rightarrow> readFileResult code out | Broken e \<Rightarrow> ReadFailed e)
   }"

section \<open>The stamped targets\<close>

record stamped_target =
  st_deployPath :: string
  st_stampPath :: string
  st_healthCmd :: string

definition stamp_paths :: "string \<Rightarrow> tspec \<Rightarrow> string \<times> string" where
  "stamp_paths dflt s =
     (let dp = (if spec_str s ''deployPath'' = [] then dflt else spec_str s ''deployPath'') in
      (dp, if spec_str s ''stampPath'' = [] then dp @ ''.rollops-stamp'' else spec_str s ''stampPath''))"

definition ssh_newWith :: "tspec \<Rightarrow> stamped_target" where
  "ssh_newWith s = (case stamp_paths ''/srv/rollops/payload'' s of
     (dp, sp) \<Rightarrow> \<lparr>st_deployPath = dp, st_stampPath = sp, st_healthCmd = spec_str s ''healthCmd''\<rparr>)"

definition ftp_newWith :: "tspec \<Rightarrow> stamped_target" where
  "ftp_newWith s = (case stamp_paths ''payload'' s of
     (dp, sp) \<Rightarrow> \<lparr>st_deployPath = dp, st_stampPath = sp, st_healthCmd = []\<rparr>)"

text \<open>\<open>if cur, _ := t.readStamp(ctx)\<close>: a stamp that cannot be read counts as empty.\<close>

definition stamp_of :: "read_end \<Rightarrow> string" where
  "stamp_of r = (case r of ReadOk s \<Rightarrow> s | _ \<Rightarrow> [])"

text \<open>
  The body the two \<open>Apply\<close> functions share, over the operations and the words of each; \<open>raw\<close> gives the
  bytes of a spec.
\<close>

definition stamped_apply ::
  "(string \<Rightarrow> string \<Rightarrow> ('w, err option) state) \<Rightarrow> (string \<Rightarrow> ('w, read_end) state) \<Rightarrow> string \<times> string \<times> string \<Rightarrow>
   (tspec blob \<Rightarrow> string) \<Rightarrow> stamped_target \<Rightarrow> manifest \<Rightarrow> ('w, (bool \<times> string) res) state" where
  "stamped_apply put fetch words raw t m = do {
     r \<leftarrow> fetch (st_stampPath t);
     if stamp_of r = m_Checksum m \<and> m_Checksum m \<noteq> [] then State_Monad.return (Inr (False, ''already at desired checksum''))
     else do {
       e1 \<leftarrow> put (st_deployPath t) (raw (m_Spec m));
       case e1 of
         Some e \<Rightarrow> State_Monad.return (Inl (Wrap (fst words) e))
       | None \<Rightarrow> do {
           e2 \<leftarrow> put (st_stampPath t) (m_Checksum m);
           State_Monad.return (case e2 of
               Some e \<Rightarrow> Inl (Wrap (fst (snd words)) e)
             | None \<Rightarrow> Inr (True, snd (snd words) @ st_deployPath t))
         }
     }
   }"

definition stamped_observe :: "(string \<Rightarrow> ('w, read_end) state) \<Rightarrow> string \<Rightarrow> stamped_target \<Rightarrow> ('w, fingerprint res) state" where
  "stamped_observe fetch what t = do {
     r \<leftarrow> fetch (st_stampPath t);
     State_Monad.return (case r of
         ReadFailed e \<Rightarrow> Inl (Wrap what e)
       | ReadMissing \<Rightarrow> Inr \<lparr>fp_Value = [], fp_Meta = []\<rparr>
       | ReadOk s \<Rightarrow> Inr \<lparr>fp_Value = s, fp_Meta = []\<rparr>)
   }"

definition ssh_Apply :: "'w session \<Rightarrow> (tspec blob \<Rightarrow> string) \<Rightarrow> stamped_target \<Rightarrow> manifest \<Rightarrow> ('w, (bool \<times> string) res) state" where
  "ssh_Apply run = stamped_apply (ssh_WriteFile run) (ssh_ReadFile run) (''ssh: write payload'', ''ssh: write stamp'', ''deployed '')"

definition ssh_Observe :: "'w session \<Rightarrow> stamped_target \<Rightarrow> ('w, fingerprint res) state" where
  "ssh_Observe run = stamped_observe (ssh_ReadFile run) ''ssh: observe''"

definition ssh_Health :: "'w session \<Rightarrow> stamped_target \<Rightarrow> ('w, health_status res) state" where
  "ssh_Health run t =
     (if st_healthCmd t = [] then do {
        r \<leftarrow> run ''true'' None;
        State_Monad.return (case r of
            Broken e \<Rightarrow> Inr \<lparr>hs_State = HealthUnhealthy, hs_Reason = ''host unreachable''\<rparr>
          | Exited _ _ \<Rightarrow> Inr \<lparr>hs_State = HealthHealthy, hs_Reason = []\<rparr>)
      } else do {
        r \<leftarrow> run (st_healthCmd t) None;
        State_Monad.return (case r of
            Broken e \<Rightarrow> Inr \<lparr>hs_State = HealthUnhealthy, hs_Reason = err_str e\<rparr>
          | Exited code out \<Rightarrow>
              if code \<noteq> 0 then Inr \<lparr>hs_State = HealthUnhealthy, hs_Reason = ''health command exit '' @ itoa code @ '': '' @ out\<rparr>
              else Inr \<lparr>hs_State = HealthHealthy, hs_Reason = []\<rparr>)
      })"

text \<open>The FTP library: \<open>STOR\<close>, \<open>RETR\<close> with the reply code of a protocol error, \<open>NOOP\<close>.\<close>

datatype ftp_reply = FtpData string | FtpProto int string | FtpDown err

record 'w ftp_conn =
  fc_Stor :: "string \<Rightarrow> string \<Rightarrow> ('w, err option) state"
  fc_Retr :: "string \<Rightarrow> ('w, ftp_reply) state"
  fc_NoOp :: "('w, err option) state"

definition retrieveError :: "ftp_reply \<Rightarrow> read_end" where
  "retrieveError r = (case r of
     FtpData s \<Rightarrow> ReadOk s
   | FtpProto code msg \<Rightarrow> if code = 550 then ReadMissing else ReadFailed (Wrap ''ftp: retrieve'' (Err (itoa code @ '' '' @ msg)))
   | FtpDown e \<Rightarrow> ReadFailed (Wrap ''ftp: retrieve'' e))"

definition ftp_Retrieve :: "'w ftp_conn \<Rightarrow> string \<Rightarrow> ('w, read_end) state" where
  "ftp_Retrieve c path = do { r \<leftarrow> fc_Retr c path; State_Monad.return (retrieveError r) }"

definition ftp_Apply :: "'w ftp_conn \<Rightarrow> (tspec blob \<Rightarrow> string) \<Rightarrow> stamped_target \<Rightarrow> manifest \<Rightarrow> ('w, (bool \<times> string) res) state" where
  "ftp_Apply c = stamped_apply (fc_Stor c) (ftp_Retrieve c) (''ftp: store payload'', ''ftp: store stamp'', ''uploaded '')"

definition ftp_Observe :: "'w ftp_conn \<Rightarrow> stamped_target \<Rightarrow> ('w, fingerprint res) state" where
  "ftp_Observe c = stamped_observe (ftp_Retrieve c) ''ftp: observe''"

definition ftp_Health :: "'w ftp_conn \<Rightarrow> ('w, health_status res) state" where
  "ftp_Health c = do {
     e \<leftarrow> fc_NoOp c;
     State_Monad.return (case e of
         Some e \<Rightarrow> Inr \<lparr>hs_State = HealthUnhealthy, hs_Reason = err_str e\<rparr>
       | None \<Rightarrow> Inr \<lparr>hs_State = HealthHealthy, hs_Reason = []\<rparr>)
   }"

section \<open>Connecting\<close>

text \<open>
  The SSH and FTP libraries, the key file and its parsers are parameters: \<open>ReadKey\<close> reads the private key,
  \<open>Signer\<close> and \<open>HostKey\<close> parse a private and a pinned public key, and the dial takes what it is to connect
  to and gives back the connection.
\<close>

datatype host_key_policy = FixedHostKey string | RefuseUnparsed err | InsecureIgnoreHostKey | RefuseUnpinned

record ssh_config =
  sf_Addr :: string
  sf_User :: string
  sf_Auth :: string
  sf_HostKey :: host_key_policy

record 'c ssh_lib =
  sl_ReadKey :: "string \<Rightarrow> string res"
  sl_Signer :: "string \<Rightarrow> string res"
  sl_HostKey :: "string \<Rightarrow> string res"
  sl_Dial :: "ssh_config \<Rightarrow> 'c res"

definition or_default :: "tspec \<Rightarrow> string \<Rightarrow> string \<Rightarrow> string" where
  "or_default s key dflt = (if spec_str s key = [] then dflt else spec_str s key)"

text \<open>\<open>net.JoinHostPort\<close>: an IPv6 address goes in brackets.\<close>

definition JoinHostPort :: "string \<Rightarrow> string \<Rightarrow> string" where
  "JoinHostPort host port = (if CHR '':'' \<in> set host then ''['' @ host @ '']:'' @ port else host @ '':'' @ port)"

definition authMethods :: "'c ssh_lib \<Rightarrow> tspec \<Rightarrow> string res" where
  "authMethods L s =
     (if spec_str s ''privateKeyPath'' = []
      then Inl (Err ''ssh: spec.privateKeyPath is required (key supplied via SecretProvider)'')
      else (case sl_ReadKey L (spec_str s ''privateKeyPath'') of
          Inl e \<Rightarrow> Inl (Wrap ''ssh: read key'' e)
        | Inr pem \<Rightarrow> map_sum (Wrap ''ssh: parse key'') id (sl_Signer L pem)))"

definition hostKeyCallback :: "'c ssh_lib \<Rightarrow> tspec \<Rightarrow> host_key_policy" where
  "hostKeyCallback L s =
     (if spec_str s ''hostKey'' \<noteq> [] then
        (case sl_HostKey L (spec_str s ''hostKey'') of Inr pk \<Rightarrow> FixedHostKey pk | Inl e \<Rightarrow> RefuseUnparsed e)
      else if spec_bool s ''insecureSkipHostKeyCheck'' then InsecureIgnoreHostKey
      else RefuseUnpinned)"

definition dialSSH :: "'c ssh_lib \<Rightarrow> tspec \<Rightarrow> 'c res" where
  "dialSSH L s =
     (case authMethods L s of
        Inl e \<Rightarrow> Inl e
      | Inr auth \<Rightarrow>
          (let addr = JoinHostPort (spec_str s ''host'') (or_default s ''port'' ''22'') in
           map_sum (Wrap (''ssh: dial '' @ addr)) id
             (sl_Dial L \<lparr>sf_Addr = addr, sf_User = or_default s ''user'' ''deploy'', sf_Auth = auth, sf_HostKey = hostKeyCallback L s\<rparr>)))"

definition ssh_New :: "'c ssh_lib \<Rightarrow> string \<Rightarrow> tspec \<Rightarrow> ('c \<times> stamped_target) res" where
  "ssh_New L ref s =
     (if spec_str s ''host'' = [] then Inl (Err (''ssh: target '' @ ref @ '': spec.host is required''))
      else (case dialSSH L s of Inl e \<Rightarrow> Inl e | Inr tr \<Rightarrow> Inr (tr, ssh_newWith s)))"

record 'c ftp_lib =
  fl_Dial :: "string \<Rightarrow> 'c res"
  fl_Login :: "'c \<Rightarrow> string \<Rightarrow> string \<Rightarrow> err option"

definition dialFTP :: "'c ftp_lib \<Rightarrow> tspec \<Rightarrow> 'c res" where
  "dialFTP L s =
     (let addr = JoinHostPort (spec_str s ''host'') (or_default s ''port'' ''21'') in
      case fl_Dial L addr of
        Inl e \<Rightarrow> Inl (Wrap (''ftp: dial '' @ addr) e)
      | Inr c \<Rightarrow>
          (case fl_Login L c (or_default s ''user'' ''anonymous'') (spec_str s ''password'') of
             Some e \<Rightarrow> Inl (Wrap ''ftp: login'' e)
           | None \<Rightarrow> Inr c))"

definition ftp_New :: "'c ftp_lib \<Rightarrow> string \<Rightarrow> tspec \<Rightarrow> ('c \<times> stamped_target) res" where
  "ftp_New L ref s =
     (if spec_str s ''host'' = [] then Inl (Err (''ftp: target '' @ ref @ '': spec.host is required''))
      else (case dialFTP L s of Inl e \<Rightarrow> Inl e | Inr c \<Rightarrow> Inr (c, ftp_newWith s)))"

text \<open>
  The host is verified unless the operator said otherwise: the callback that accepts any key is used
  only when no pin is configured and the switch is on, and a connection with a pin that parses is made
  with that pin.
\<close>

lemma host_key_never_skipped:
  assumes "ssh_New L ref s = Inr (c, t)"
  obtains cfg where "sl_Dial L cfg = Inr c"
    "sf_HostKey cfg = InsecureIgnoreHostKey \<longleftrightarrow> spec_str s ''hostKey'' = [] \<and> spec_bool s ''insecureSkipHostKeyCheck''"
    "\<forall>pk. spec_str s ''hostKey'' \<noteq> [] \<and> sl_HostKey L (spec_str s ''hostKey'') = Inr pk \<longrightarrow> sf_HostKey cfg = FixedHostKey pk"
proof -
  from assms obtain auth where a: "dialSSH L s = Inr c" "authMethods L s = Inr auth"
    by (auto simp: ssh_New_def dialSSH_def split: if_splits sum.splits)
  let ?cfg = "\<lparr>sf_Addr = JoinHostPort (spec_str s ''host'') (or_default s ''port'' ''22''),
    sf_User = or_default s ''user'' ''deploy'', sf_Auth = auth, sf_HostKey = hostKeyCallback L s\<rparr>"
  have "sl_Dial L ?cfg = Inr c" using a by (cases "sl_Dial L ?cfg") (auto simp: dialSSH_def Let_def)
  then show ?thesis
    by (rule that) (auto simp: hostKeyCallback_def split: sum.splits)
qed

section \<open>Quoting\<close>

datatype sh_tok = ShWord string | ShOp char

definition sh_flush :: "string option \<Rightarrow> sh_tok list" where
  "sh_flush cur = (case cur of None \<Rightarrow> [] | Some s \<Rightarrow> [ShWord s])"

definition sh_push :: "string option \<Rightarrow> string \<Rightarrow> string option" where
  "sh_push cur s = Some ((case cur of None \<Rightarrow> [] | Some c \<Rightarrow> c) @ s)"

text \<open>The word begun so far, whether a single quote is open, and the rest of the line.\<close>

fun sh_go :: "string option \<Rightarrow> bool \<Rightarrow> string \<Rightarrow> sh_tok list option" where
  "sh_go cur True [] = None"
| "sh_go cur True (c # cs) = (if c = CHR 0x27 then sh_go cur False cs else sh_go (sh_push cur [c]) True cs)"
| "sh_go cur False [] = Some (sh_flush cur)"
| "sh_go cur False (c # cs) =
     (if c = CHR 0x27 then sh_go (sh_push cur []) True cs
      else if c = CHR 0x5C then
        (case cs of [] \<Rightarrow> None | d # ds \<Rightarrow> if d = CHR 0x0A then None else sh_go (sh_push cur [d]) False ds)
      else if c = CHR '' '' \<or> c = CHR 0x09 then map_option ((@) (sh_flush cur)) (sh_go None False cs)
      else if c \<in> {CHR '';'', CHR ''>''} then map_option ((@) (sh_flush cur @ [ShOp c])) (sh_go None False cs)
      else if c \<in> set ''$`<|&()*?~#{}!'' \<or> c = CHR 0x22 \<or> c = CHR 0x0A then None
      else sh_go (sh_push cur [c]) False cs)"

definition sh_tokens :: "string \<Rightarrow> sh_tok list option" where
  "sh_tokens cmd = sh_go None False cmd"

definition guarded_cat :: "string \<Rightarrow> sh_tok list" where
  "guarded_cat p = [ShWord ''if'', ShWord ''['', ShWord ''-e'', ShWord p, ShWord '']'', ShOp CHR '';'', ShWord ''then'', ShWord ''cat'',
     ShWord p, ShOp CHR '';'', ShWord ''else'', ShWord ''exit'', ShWord ''44'', ShOp CHR '';'', ShWord ''fi'']"

definition quote_esc :: "char \<Rightarrow> string" where
  "quote_esc c = (if c = CHR 0x27 then [CHR 0x27, CHR 0x5C, CHR 0x27, CHR 0x27] else [c])"

lemma ReplaceAll_char: "strings_ReplaceAll s [q] new = concat (map (\<lambda>c. if c = q then new else [c]) s)"
proof -
  have "replace_go [q] new 0 s = concat (map (\<lambda>c. if c = q then new else [c]) s)"
    by (induction s) auto
  then show ?thesis by (simp add: strings_ReplaceAll_def)
qed

lemma shellQuote_eq: "shellQuote s = CHR 0x27 # concat (map quote_esc s) @ [CHR 0x27]"
  by (simp add: shellQuote_def ReplaceAll_char quote_esc_def [abs_def])

lemma sh_go_quoted: "sh_go (Some w) True (concat (map quote_esc s) @ CHR 0x27 # rest) = sh_go (Some (w @ s)) False rest"
  by (induction s arbitrary: w) (simp_all add: quote_esc_def sh_push_def)

lemma sh_go_shellQuote: "sh_go None False (shellQuote s @ rest) = sh_go (Some s) False rest"
  using sh_go_quoted [of "[]" s rest] by (simp add: shellQuote_eq sh_push_def)

lemma cat_command: "sh_tokens (''cat > '' @ shellQuote p) = Some [ShWord ''cat'', ShOp CHR ''>'', ShWord p]"
  using sh_go_shellQuote [of p "[]"] by (simp add: sh_tokens_def sh_push_def sh_flush_def)

lemma read_command: "sh_tokens (readFileCommand p) = Some (guarded_cat p)"
proof -
  have "itoa missingFileExit = ''44''" by code_simp
  then show ?thesis
    by (simp add: readFileCommand_def sh_tokens_def sh_go_shellQuote guarded_cat_def sh_push_def sh_flush_def)
qed

text \<open>
  A path is one word. Whatever bytes the deploy or the stamp path holds, quotes and newlines among
  them, the command lines the transport sends are, to a shell, the copy into that path and the guarded
  read of that path, with nothing of the path read as syntax.
\<close>

theorem commands_carry_the_path:
  "sh_tokens (''cat > '' @ shellQuote p) = Some [ShWord ''cat'', ShOp CHR ''>'', ShWord p] \<and>
   sh_tokens (readFileCommand p) = Some (guarded_cat p)"
  by (intro conjI cat_command read_command)

section \<open>What a deploy leaves on the server\<close>

locale stamp_store =
  fixes put :: "string \<Rightarrow> string \<Rightarrow> ('w, err option) state"
    and fetch :: "string \<Rightarrow> ('w, read_end) state"
    and files :: "'w \<Rightarrow> string \<Rightarrow> string option"
    and ok :: "string \<Rightarrow> bool"
  assumes write_ok: "run_state (put p c) w = (None, w') \<Longrightarrow> files w' = (files w)(p \<mapsto> c)"
    and write_other: "run_state (put p c) w = (r, w') \<Longrightarrow> q \<noteq> p \<Longrightarrow> files w' q = files w q"
    and read_same: "ok p \<Longrightarrow> run_state (fetch p) w = (u, w') \<Longrightarrow> files w' = files w"
    and read_ok: "ok p \<Longrightarrow> run_state (fetch p) w = (ReadOk s, w') \<Longrightarrow> files w p = Some s"
    and read_missing: "ok p \<Longrightarrow> run_state (fetch p) w = (ReadMissing, w') \<Longrightarrow> files w p = None"
begin

lemma apply_unchanged:
  assumes "ok (st_stampPath t)" "run_state (stamped_apply put fetch words raw t m) w = (Inr (False, d), w')"
  shows "files w' = files w" "files w (st_stampPath t) = Some (m_Checksum m)"
proof -
  obtain r w1 where r: "run_state (fetch (st_stampPath t)) w = (r, w1)" by fastforce
  with assms(2) have "stamp_of r = m_Checksum m \<and> m_Checksum m \<noteq> [] \<and> w' = w1"
    by (auto simp: stamped_apply_def run_state_simps split: if_splits option.splits prod.splits)
  then show "files w' = files w" "files w (st_stampPath t) = Some (m_Checksum m)"
    using read_same [OF assms(1) r] read_ok [OF assms(1)] r by (auto simp: stamp_of_def split: read_end.splits)
qed

lemma apply_changed:
  assumes "ok (st_stampPath t)" "run_state (stamped_apply put fetch words raw t m) w = (Inr (True, d), w')"
  shows "files w' = (files w)(st_deployPath t \<mapsto> raw (m_Spec m), st_stampPath t \<mapsto> m_Checksum m)"
proof -
  obtain r w1 where r: "run_state (fetch (st_stampPath t)) w = (r, w1)" by fastforce
  obtain e1 w2 where e1: "run_state (put (st_deployPath t) (raw (m_Spec m))) w1 = (e1, w2)" by fastforce
  obtain e2 w3 where e2: "run_state (put (st_stampPath t) (m_Checksum m)) w2 = (e2, w3)" by fastforce
  have "e1 = None \<and> e2 = None \<and> w' = w3"
    using assms(2) r e1 e2 by (auto simp: stamped_apply_def run_state_simps split: if_splits option.splits)
  then show ?thesis using write_ok e1 e2 read_same [OF assms(1) r] by simp
qed

lemma apply_elsewhere:
  assumes "ok (st_stampPath t)" "run_state (stamped_apply put fetch words raw t m) w = (r, w')"
    and "q \<noteq> st_deployPath t" "q \<noteq> st_stampPath t"
  shows "files w' q = files w q"
proof -
  obtain r0 w1 where r: "run_state (fetch (st_stampPath t)) w = (r0, w1)" by fastforce
  obtain e1 w2 where e1: "run_state (put (st_deployPath t) (raw (m_Spec m))) w1 = (e1, w2)" by fastforce
  obtain e2 w3 where e2: "run_state (put (st_stampPath t) (m_Checksum m)) w2 = (e2, w3)" by fastforce
  have "w' \<in> {w1, w2, w3}"
    using assms(2) r e1 e2 by (auto simp: stamped_apply_def run_state_simps split: if_splits option.splits)
  then show ?thesis
    using write_other [OF e1 assms(3)] write_other [OF e2 assms(4)] read_same [OF assms(1) r] by auto
qed

lemma observe_stamp:
  assumes "ok (st_stampPath t)" "run_state (stamped_observe fetch what t) w = (Inr fp, w')"
  shows "files w' = files w \<and> fp_Value fp = (case files w (st_stampPath t) of None \<Rightarrow> [] | Some s \<Rightarrow> s)"
proof -
  obtain r w1 where r: "run_state (fetch (st_stampPath t)) w = (r, w1)" by fastforce
  with assms(2) show ?thesis
    using read_same [OF assms(1) r] read_ok [OF assms(1)] read_missing [OF assms(1)]
    by (cases r) (auto simp: stamped_observe_def run_state_simps)
qed

text \<open>The payload is on the server when the stamp that was to follow it is not.\<close>

lemma failed_apply_unstamped:
  assumes "ok (st_stampPath t)" "run_state (stamped_apply put fetch words raw t m) w = (Inl (Wrap (fst (snd words)) e), w')"
    and "fst words \<noteq> fst (snd words)" "st_deployPath t \<noteq> st_stampPath t"
  shows "files w' (st_deployPath t) = Some (raw (m_Spec m))"
proof -
  obtain r w1 where r: "run_state (fetch (st_stampPath t)) w = (r, w1)" by fastforce
  obtain e1 w2 where e1: "run_state (put (st_deployPath t) (raw (m_Spec m))) w1 = (e1, w2)" by fastforce
  obtain e2 w3 where e2: "run_state (put (st_stampPath t) (m_Checksum m)) w2 = (e2, w3)" by fastforce
  have "e1 = None \<and> w' = w3"
    using assms(2,3) r e1 e2 by (auto simp: stamped_apply_def run_state_simps split: if_splits option.splits)
  then show ?thesis using write_ok write_other [OF e2 assms(4)] e1 by simp
qed

lemma stale_stamp_no_rollback:
  assumes "ok (st_stampPath t)" "run_state (stamped_apply put fetch words raw t m) w = (Inl (Wrap (fst (snd words)) e), w1)"
    and "fst words \<noteq> fst (snd words)" "st_deployPath t \<noteq> st_stampPath t"
    and "run_state (fetch (st_stampPath t)) w1 = (ReadOk (m_Checksum m0), w2)" "m_Checksum m0 \<noteq> []"
  shows "\<exists>d. run_state (stamped_apply put fetch words raw t m0) w1 = (Inr (False, d), w2) \<and>
    files w2 (st_deployPath t) = Some (raw (m_Spec m))"
  using failed_apply_unstamped [OF assms(1-4)] assms(5,6) read_same [OF assms(1,5)]
  by (simp add: stamped_apply_def run_state_simps stamp_of_def)

end

text \<open>
  What the remote end is relied on for. A shell that is given \<open>cat > path\<close> and ends with status 0 has
  stored its input at the path, and touches no other file however it ends; the guarded read changes
  nothing, ends with status 0 only when it has copied out the file, and with the status the command
  line names only when the file is missing. A path that starts with a dash is an option to \<open>cat\<close>.
\<close>

definition plain_path :: "string \<Rightarrow> bool" where
  "plain_path p = (p \<noteq> [] \<and> hd p \<noteq> CHR ''-'')"

locale posix_shell =
  fixes run :: "'w session" and files :: "'w \<Rightarrow> string \<Rightarrow> string option"
  assumes cat_into: "sh_tokens cmd = Some [ShWord ''cat'', ShOp CHR ''>'', ShWord p] \<Longrightarrow> run_state (run cmd (Some c)) w = (r, w') \<Longrightarrow>
      (\<forall>out. r = Exited 0 out \<longrightarrow> files w' = (files w)(p \<mapsto> c)) \<and> (\<forall>q. q \<noteq> p \<longrightarrow> files w' q = files w q)"
    and cat_if: "sh_tokens cmd = Some (guarded_cat p) \<Longrightarrow> plain_path p \<Longrightarrow> run_state (run cmd None) w = (r, w') \<Longrightarrow>
      files w' = files w \<and> (\<forall>out. r = Exited 0 out \<longrightarrow> files w p = Some out) \<and> (\<forall>out. r = Exited 44 out \<longrightarrow> files w p = None)"

sublocale posix_shell \<subseteq> ssh: stamp_store "ssh_WriteFile run" "ssh_ReadFile run" files plain_path
proof
  fix p c w w'
  assume "run_state (ssh_WriteFile run p c) w = (None, w')"
  then obtain out where "run_state (run (''cat > '' @ shellQuote p) (Some c)) w = (Exited 0 out, w')"
    by (auto simp: ssh_WriteFile_def run_state_simps split: prod.splits session_end.splits if_splits)
  then show "files w' = (files w)(p \<mapsto> c)" using cat_into [OF cat_command] by blast
next
  fix p c w r w' q
  assume "run_state (ssh_WriteFile run p c) w = (r, w')" "q \<noteq> p"
  then obtain r0 where "run_state (run (''cat > '' @ shellQuote p) (Some c)) w = (r0, w')"
    by (auto simp: ssh_WriteFile_def run_state_simps split: prod.splits)
  then show "files w' q = files w q" using cat_into [OF cat_command] \<open>q \<noteq> p\<close> by blast
next
  fix p w r w'
  assume p: "plain_path p" "run_state (ssh_ReadFile run p) w = (r, w')"
  then obtain r0 where r0: "run_state (run (readFileCommand p) None) w = (r0, w')"
    by (auto simp: ssh_ReadFile_def run_state_simps split: prod.splits)
  then show "files w' = files w" using cat_if [OF read_command p(1)] by blast
next
  fix p w s w'
  assume p: "plain_path p" "run_state (ssh_ReadFile run p) w = (ReadOk s, w')"
  then obtain r0 where "run_state (run (readFileCommand p) None) w = (r0, w')" "r0 = Exited 0 s"
    by (auto simp: ssh_ReadFile_def run_state_simps readFileResult_def split: prod.splits session_end.splits if_splits)
  then show "files w p = Some s" using cat_if [OF read_command p(1)] by blast
next
  fix p w w'
  assume p: "plain_path p" "run_state (ssh_ReadFile run p) w = (ReadMissing, w')"
  then obtain r0 out where "run_state (run (readFileCommand p) None) w = (r0, w')" "r0 = Exited 44 out"
    by (auto simp: ssh_ReadFile_def run_state_simps readFileResult_def missingFileExit_def
        split: prod.splits session_end.splits if_splits)
  then show "files w p = None" using cat_if [OF read_command p(1)] by blast
qed

locale ftp_server =
  fixes conn :: "'w ftp_conn" and files :: "'w \<Rightarrow> string \<Rightarrow> string option"
  assumes stor: "run_state (fc_Stor conn p c) w = (r, w') \<Longrightarrow>
      (r = None \<longrightarrow> files w' = (files w)(p \<mapsto> c)) \<and> (\<forall>q. q \<noteq> p \<longrightarrow> files w' q = files w q)"
    and retr: "run_state (fc_Retr conn p) w = (u, w') \<Longrightarrow>
      files w' = files w \<and> (\<forall>s. u = FtpData s \<longrightarrow> files w p = Some s) \<and> (\<forall>msg. u = FtpProto 550 msg \<longrightarrow> files w p = None)"

sublocale ftp_server \<subseteq> ftp: stamp_store "fc_Stor conn" "ftp_Retrieve conn" files "\<lambda>_. True"
proof
  fix p w r w'
  assume "run_state (ftp_Retrieve conn p) w = (r, w')"
  then obtain r0 where r0: "run_state (fc_Retr conn p) w = (r0, w')" "r = retrieveError r0"
    by (auto simp: ftp_Retrieve_def run_state_simps split: prod.splits)
  then show "files w' = files w" using retr by blast
next
  fix p w s w'
  assume "run_state (ftp_Retrieve conn p) w = (ReadOk s, w')"
  then obtain r0 where r0: "run_state (fc_Retr conn p) w = (r0, w')" "ReadOk s = retrieveError r0"
    by (auto simp: ftp_Retrieve_def run_state_simps split: prod.splits)
  then show "files w p = Some s" using retr [OF r0(1)] by (cases r0) (auto simp: retrieveError_def split: if_splits)
next
  fix p w w'
  assume "run_state (ftp_Retrieve conn p) w = (ReadMissing, w')"
  then obtain r0 where r0: "run_state (fc_Retr conn p) w = (r0, w')" "ReadMissing = retrieveError r0"
    by (auto simp: ftp_Retrieve_def run_state_simps split: prod.splits)
  then show "files w p = None" using retr [OF r0(1)] by (cases r0) (auto simp: retrieveError_def split: if_splits)
next
  fix p c w w'
  assume "run_state (fc_Stor conn p c) w = (None, w')"
  then show "files w' = (files w)(p \<mapsto> c)" using stor by blast
next
  fix p c w r w' q
  assume "run_state (fc_Stor conn p c) w = (r, w')" "q \<noteq> p"
  then show "files w' q = files w q" using stor by blast
qed

section \<open>A machine to run on\<close>

text \<open>
  A shell and an FTP server over a list of files; a write to one of the paths in \<open>bad\<close> fails. They
  show that what is relied on can hold.
\<close>

definition word_at :: "nat \<Rightarrow> sh_tok list \<Rightarrow> string" where
  "word_at i ts = (if i < length ts then (case ts ! i of ShWord s \<Rightarrow> s | ShOp _ \<Rightarrow> []) else [])"

definition demo_cat :: "string list \<Rightarrow> string \<Rightarrow> string option \<Rightarrow> (string \<times> string) list \<Rightarrow> session_end \<times> (string \<times> string) list" where
  "demo_cat bad cmd stdin fs =
     (case (sh_tokens cmd, stdin) of
        (Some ts, Some c) \<Rightarrow>
          if ts = [ShWord ''cat'', ShOp CHR ''>'', ShWord (word_at 2 ts)] \<and> word_at 2 ts \<notin> set bad
          then (Exited 0 [], AList.update (word_at 2 ts) c fs) else (Exited 1 [], fs)
      | (Some ts, None) \<Rightarrow>
          if ts = guarded_cat (word_at 3 ts)
          then (case map_of fs (word_at 3 ts) of Some s \<Rightarrow> (Exited 0 s, fs) | None \<Rightarrow> (Exited 44 [], fs)) else (Exited 1 [], fs)
      | _ \<Rightarrow> (Exited 2 [], fs))"

definition demo_shell :: "string list \<Rightarrow> (string \<times> string) list session" where
  "demo_shell bad cmd stdin = State (demo_cat bad cmd stdin)"

definition demo_ftp :: "string list \<Rightarrow> (string \<times> string) list ftp_conn" where
  "demo_ftp bad =
     \<lparr>fc_Stor = (\<lambda>p c. State (\<lambda>fs. if p \<in> set bad then (Some (Err ''452''), fs) else (None, AList.update p c fs))),
      fc_Retr = (\<lambda>p. State (\<lambda>fs. (case map_of fs p of Some s \<Rightarrow> FtpData s | None \<Rightarrow> FtpProto 550 ''not found'', fs))),
      fc_NoOp = State_Monad.return None\<rparr>"

lemma word_at_guarded: "word_at 3 (guarded_cat p) = p"
  by (simp add: word_at_def guarded_cat_def)

interpretation demo_sh: posix_shell "demo_shell bad" map_of for bad
proof
  fix cmd p c w r w'
  assume "sh_tokens cmd = Some [ShWord ''cat'', ShOp CHR ''>'', ShWord p]" "run_state (demo_shell bad cmd (Some c)) w = (r, w')"
  then show "(\<forall>out. r = Exited 0 out \<longrightarrow> map_of w' = (map_of w)(p \<mapsto> c)) \<and> (\<forall>q. q \<noteq> p \<longrightarrow> map_of w' q = map_of w q)"
    by (auto simp: demo_shell_def demo_cat_def word_at_def update_conv' split: if_splits)
next
  fix cmd p w r w'
  assume "sh_tokens cmd = Some (guarded_cat p)" "run_state (demo_shell bad cmd None) w = (r, w')"
  then show "map_of w' = map_of w \<and> (\<forall>out. r = Exited 0 out \<longrightarrow> map_of w p = Some out) \<and> (\<forall>out. r = Exited 44 out \<longrightarrow> map_of w p = None)"
    by (auto simp: demo_shell_def demo_cat_def word_at_guarded split: option.splits)
qed

interpretation demo_fs: ftp_server "demo_ftp bad" map_of for bad
  by unfold_locales (auto simp: demo_ftp_def update_conv' split: if_splits option.splits)

context posix_shell
begin

lemma is_store: "stamp_store (ssh_WriteFile run) (ssh_ReadFile run) files plain_path" ..

end

context ftp_server
begin

lemma is_store: "stamp_store (fc_Stor conn) (ftp_Retrieve conn) files (\<lambda>_. True)" ..

end

section \<open>The guarantees of the stamped targets\<close>

text \<open>What a run of \<open>Apply\<close> from \<open>w\<close> to \<open>w'\<close> with answer \<open>r\<close> has done.\<close>

definition deployed ::
  "('w \<Rightarrow> string \<Rightarrow> string option) \<Rightarrow> (tspec blob \<Rightarrow> string) \<Rightarrow> stamped_target \<Rightarrow> manifest \<Rightarrow> (bool \<times> string) res \<Rightarrow> 'w \<Rightarrow> 'w \<Rightarrow> bool" where
  "deployed files raw t m r w w' \<longleftrightarrow>
     (\<forall>d. r = Inr (False, d) \<longrightarrow> files w' = files w \<and> files w (st_stampPath t) = Some (m_Checksum m)) \<and>
     (\<forall>d. r = Inr (True, d) \<longrightarrow> files w' = (files w)(st_deployPath t \<mapsto> raw (m_Spec m), st_stampPath t \<mapsto> m_Checksum m)) \<and>
     (\<forall>q. q \<noteq> st_deployPath t \<and> q \<noteq> st_stampPath t \<longrightarrow> files w' q = files w q)"

context stamp_store
begin

lemma apply_deployed:
  "ok (st_stampPath t) \<Longrightarrow> run_state (stamped_apply put fetch words raw t m) w = (r, w') \<Longrightarrow> deployed files raw t m r w w'"
  unfolding deployed_def by (intro conjI allI impI) (auto dest: apply_unchanged apply_changed apply_elsewhere)

end

text \<open>
  What a deploy over SSH or FTP does. An answer without a change has changed nothing and found the
  checksum of the manifest in the stamp; an answer with a change has stored the payload and the checksum;
  and however it ends, no file but these two was touched.
\<close>

theorem stamped_deploys:
  assumes "posix_shell run files" "plain_path (st_stampPath t)" "run_state (ssh_Apply run raw t m) w = (r, w')"
    and "ftp_server conn files2" "run_state (ftp_Apply conn raw t2 m) v = (r2, v')"
  shows "deployed files raw t m r w w' \<and> deployed files2 raw t2 m r2 v v'"
proof
  show "deployed files raw t m r w w'"
    using assms(3) unfolding ssh_Apply_def by (rule stamp_store.apply_deployed [OF posix_shell.is_store [OF assms(1)] assms(2)])
  show "deployed files2 raw t2 m r2 v v'"
    using assms(5) unfolding ftp_Apply_def by (rule stamp_store.apply_deployed [OF ftp_server.is_store [OF assms(4)] TrueI])
qed

definition demo_stamped :: stamped_target where
  "demo_stamped = ssh_newWith [(''deployPath'', AStr ''/srv/o'o'')]"

definition demo_rev :: "string \<Rightarrow> manifest" where
  "demo_rev c = zero_manifest\<lparr>m_Spec := Blob [(c, ANull)], m_Checksum := c\<rparr>"

definition demo_raw :: "tspec blob \<Rightarrow> string" where
  "demo_raw b = (case b of Blob ((k, _) # _) \<Rightarrow> k | _ \<Rightarrow> [])"

theorem stamped_deploys_witness:
  "\<exists>r w' r2 v'. run_state (ssh_Apply (demo_shell []) demo_raw demo_stamped (demo_rev ''v1'')) [] = (r, w') \<and>
     run_state (ftp_Apply (demo_ftp []) demo_raw demo_stamped (demo_rev ''v1'')) [] = (r2, v') \<and>
     r = Inr (True, ''deployed /srv/o'o'') \<and> r2 = Inr (True, ''uploaded /srv/o'o'') \<and>
     deployed map_of demo_raw demo_stamped (demo_rev ''v1'') r [] w' \<and> deployed map_of demo_raw demo_stamped (demo_rev ''v1'') r2 [] v'"
proof -
  let ?w = "[(''/srv/o'o'', ''v1''), (''/srv/o'o.rollops-stamp'', ''v1'')]"
  have s: "run_state (ssh_Apply (demo_shell []) demo_raw demo_stamped (demo_rev ''v1'')) [] = (Inr (True, ''deployed /srv/o'o''), ?w)"
    by code_simp
  have f: "run_state (ftp_Apply (demo_ftp []) demo_raw demo_stamped (demo_rev ''v1'')) [] = (Inr (True, ''uploaded /srv/o'o''), ?w)"
    by code_simp
  have p: "plain_path (st_stampPath demo_stamped)" by code_simp
  show ?thesis
    using stamped_deploys [OF demo_sh.posix_shell_axioms p s demo_fs.ftp_server_axioms f] s f by blast
qed

text \<open>
  A rollback over a stamp that was not written does nothing. When an \<open>Apply\<close> stored its payload and
  failed on the stamp, the stamp still names the manifest before it; applying that manifest again then
  answers that nothing had to change, and the payload of the failed deploy stays.
\<close>

theorem failed_stamp_defeats_rollback:
  assumes "posix_shell run files" "plain_path (st_stampPath t)" "st_deployPath t \<noteq> st_stampPath t"
    and "run_state (ssh_Apply run raw t m) w = (Inl (Wrap ''ssh: write stamp'' e), w1)"
    and "run_state (ssh_ReadFile run (st_stampPath t)) w1 = (ReadOk (m_Checksum m0), w2)" "m_Checksum m0 \<noteq> []"
  shows "\<exists>d. run_state (ssh_Apply run raw t m0) w1 = (Inr (False, d), w2) \<and> files w2 (st_deployPath t) = Some (raw (m_Spec m))"
  using stamp_store.stale_stamp_no_rollback [OF posix_shell.is_store [OF assms(1)] assms(2), where words = "(''ssh: write payload'', ''ssh: write stamp'', ''deployed '')"]
    assms(3-6) by (simp add: ssh_Apply_def)

theorem failed_stamp_defeats_rollback_witness:
  "\<exists>e w1 d w2. run_state (ssh_Apply (demo_shell [''/srv/o'o.rollops-stamp'']) demo_raw demo_stamped (demo_rev ''v2''))
        [(''/srv/o'o'', ''v1''), (''/srv/o'o.rollops-stamp'', ''v1'')] = (Inl (Wrap ''ssh: write stamp'' e), w1) \<and>
     run_state (ssh_Apply (demo_shell [''/srv/o'o.rollops-stamp'']) demo_raw demo_stamped (demo_rev ''v1'')) w1 = (Inr (False, d), w2) \<and>
     map_of w2 (st_deployPath demo_stamped) = Some (demo_raw (m_Spec (demo_rev ''v2'')))"
proof -
  let ?H = "demo_shell [''/srv/o'o.rollops-stamp'']"
  let ?e = "Wrap ''ssh: write /srv/o'o.rollops-stamp'' (Err ''Process exited with status 1'')"
  let ?w = "[(''/srv/o'o'', ''v2''), (''/srv/o'o.rollops-stamp'', ''v1'')]"
  have f: "run_state (ssh_Apply ?H demo_raw demo_stamped (demo_rev ''v2''))
      [(''/srv/o'o'', ''v1''), (''/srv/o'o.rollops-stamp'', ''v1'')] = (Inl (Wrap ''ssh: write stamp'' ?e), ?w)" by code_simp
  have r: "run_state (ssh_ReadFile ?H (st_stampPath demo_stamped)) ?w = (ReadOk (m_Checksum (demo_rev ''v1'')), ?w)" by code_simp
  have p: "plain_path (st_stampPath demo_stamped)" "st_deployPath demo_stamped \<noteq> st_stampPath demo_stamped"
    "m_Checksum (demo_rev ''v1'') \<noteq> []" by code_simp+
  show ?thesis
    using failed_stamp_defeats_rollback [OF demo_sh.posix_shell_axioms p(1,2) f r p(3)] f by blast
qed

end
