(* ===== verification/Plugin.thy ===== *)
theory Plugin
  imports Complex_Main Target GoTime Effects
begin

text \<open>
  The plugin protocol, \<^verbatim>\<open>pkg/plugin\<close>: the handshake line, the manifest with its builder and its form
  on the wire, the server that routes a tool call to its handler, the four \<open>Serve*\<close> wrappers; and the
  adapters of the host that turn tool calls back into a target (\<^verbatim>\<open>internal/target/plugin\<close>), a flag
  provider, a traffic router and a metrics provider. The host that launches a plugin is theory
  \<open>Plugin_Host\<close>.

  The bytes of a call (JSON) are a type parameter \<open>'b\<close>; the codecs of the payload structs are fields of
  \<open>wire\<close>, and \<open>wire_carries\<close> says of the values that are sent that they decode to themselves. \<open>wi_Status\<close> is what gRPC makes of
  the error of a handler. A target, a flag provider and the like are programs over a state of their own.
\<close>

section \<open>The handshake\<close>

record handshake =
  hk_ProtocolVersion :: int
  hk_Cookie :: string
  hk_Addr :: string

definition ProtocolVersion :: int where "ProtocolVersion = 1"
definition Cookie :: string where "Cookie = ''ROLLOPS_TARGET_PLUGIN_V1''"
definition handshakePrefix :: string where "handshakePrefix = ''ROLLOPS_PLUGIN''"

definition Line :: "handshake \<Rightarrow> string" where
  "Line h = handshakePrefix @ ''|'' @ itoa (hk_ProtocolVersion h) @ ''|'' @ hk_Cookie h @ ''|'' @ hk_Addr h"

definition parse_parts :: "string list \<Rightarrow> handshake option" where
  "parse_parts parts =
     (if length parts \<noteq> 4 \<or> parts ! 0 \<noteq> handshakePrefix then None
      else map_option (\<lambda>v. \<lparr>hk_ProtocolVersion = v, hk_Cookie = parts ! 2, hk_Addr = parts ! 3\<rparr>) (strconv_Atoi (parts ! 1)))"

definition ParseHandshake :: "string \<Rightarrow> handshake option" where
  "ParseHandshake line = parse_parts (split_on (CHR ''|'') (strings_TrimSpace line))"

definition hk_Verify :: "handshake \<Rightarrow> err option" where
  "hk_Verify h =
     (if hk_Cookie h \<noteq> Cookie then Some (Err ''plugin: bad handshake cookie (not a target plugin)'')
      else if hk_ProtocolVersion h \<noteq> ProtocolVersion
      then Some (Err (''plugin: protocol version mismatch: host '' @ itoa ProtocolVersion @ '', plugin '' @ itoa (hk_ProtocolVersion h)))
      else if hk_Addr h = [] then Some (Err ''plugin: handshake missing listen address'')
      else None)"

section \<open>The manifest\<close>

record plugin_tool =
  tl_Name :: string
  tl_Description :: string
  tl_Mutating :: bool
  tl_RiskClass :: string

record plugin_capability =
  ca_Name :: string
  ca_Description :: string
  ca_Tools :: "plugin_tool list"

record plugin_safety =
  sy_NetworkHosts :: "string list"
  sy_FilePaths :: "string list"
  sy_EnvVars :: "string list"
  sy_RiskClass :: string
  sy_NeedsConfirmation :: bool

record plugin_manifest =
  pm_Name :: string
  pm_Version :: string
  pm_Capabilities :: "plugin_capability list"
  pm_Safety :: plugin_safety

definition RiskPassive :: string where "RiskPassive = ''passive''"
definition RiskActive :: string where "RiskActive = ''active''"
definition RiskInvasive :: string where "RiskInvasive = ''invasive''"

definition zero_safety :: plugin_safety where
  "zero_safety = \<lparr>sy_NetworkHosts = [], sy_FilePaths = [], sy_EnvVars = [], sy_RiskClass = [], sy_NeedsConfirmation = False\<rparr>"

record manifest_builder =
  mb_m :: plugin_manifest
  mb_cap :: "plugin_capability option"

definition NewManifest :: "string \<Rightarrow> string \<Rightarrow> manifest_builder" where
  "NewManifest name version =
     \<lparr>mb_m = \<lparr>pm_Name = name, pm_Version = version, pm_Capabilities = [], pm_Safety = zero_safety\<rparr>, mb_cap = None\<rparr>"

definition mb_flush :: "manifest_builder \<Rightarrow> manifest_builder" where
  "mb_flush b = (case mb_cap b of
     None \<Rightarrow> b
   | Some c \<Rightarrow> b\<lparr>mb_m := (mb_m b)\<lparr>pm_Capabilities := pm_Capabilities (mb_m b) @ [c]\<rparr>, mb_cap := None\<rparr>)"

definition mb_Capability :: "string \<Rightarrow> string \<Rightarrow> manifest_builder \<Rightarrow> manifest_builder" where
  "mb_Capability name description b =
     (mb_flush b)\<lparr>mb_cap := Some \<lparr>ca_Name = name, ca_Description = description, ca_Tools = []\<rparr>\<rparr>"

definition mb_ToolRisk :: "string \<Rightarrow> string \<Rightarrow> bool \<Rightarrow> string \<Rightarrow> manifest_builder \<Rightarrow> manifest_builder" where
  "mb_ToolRisk name description mutating risk b = (case mb_cap b of
     None \<Rightarrow> b
   | Some c \<Rightarrow> b\<lparr>mb_cap := Some (c\<lparr>ca_Tools := ca_Tools c @
        [\<lparr>tl_Name = name, tl_Description = description, tl_Mutating = mutating, tl_RiskClass = risk\<rparr>]\<rparr>)\<rparr>)"

definition mb_Tool :: "string \<Rightarrow> string \<Rightarrow> bool \<Rightarrow> manifest_builder \<Rightarrow> manifest_builder" where
  "mb_Tool name description mutating b = mb_ToolRisk name description mutating [] b"

definition mb_Done :: "manifest_builder \<Rightarrow> manifest_builder" where "mb_Done b = mb_flush b"

definition mb_Safety :: "plugin_safety \<Rightarrow> manifest_builder \<Rightarrow> manifest_builder" where
  "mb_Safety s b = b\<lparr>mb_m := (mb_m b)\<lparr>pm_Safety := s\<rparr>\<rparr>"

definition mb_Build :: "manifest_builder \<Rightarrow> plugin_manifest" where "mb_Build b = mb_m (mb_flush b)"

text \<open>The manifest as the protocol message carries it; the message may come without a safety part.\<close>

record proto_manifest =
  pr_Name :: string
  pr_Version :: string
  pr_ApiVersion :: string
  pr_Capabilities :: "plugin_capability list"
  pr_Safety :: "plugin_safety option"

definition manifestToProto :: "plugin_manifest \<Rightarrow> proto_manifest" where
  "manifestToProto m =
     \<lparr>pr_Name = pm_Name m, pr_Version = pm_Version m, pr_ApiVersion = ''v1'',
      pr_Capabilities = map (\<lambda>c. \<lparr>ca_Name = ca_Name c, ca_Description = ca_Description c,
         ca_Tools = map (\<lambda>t. \<lparr>tl_Name = tl_Name t, tl_Description = tl_Description t, tl_Mutating = tl_Mutating t, tl_RiskClass = tl_RiskClass t\<rparr>) (ca_Tools c)\<rparr>)
        (pm_Capabilities m),
      pr_Safety = Some \<lparr>sy_NetworkHosts = sy_NetworkHosts (pm_Safety m), sy_FilePaths = sy_FilePaths (pm_Safety m),
         sy_EnvVars = sy_EnvVars (pm_Safety m), sy_RiskClass = sy_RiskClass (pm_Safety m), sy_NeedsConfirmation = sy_NeedsConfirmation (pm_Safety m)\<rparr>\<rparr>"

definition manifestOfProto :: "proto_manifest \<Rightarrow> plugin_manifest" where
  "manifestOfProto r =
     \<lparr>pm_Name = pr_Name r, pm_Version = pr_Version r,
      pm_Capabilities = map (\<lambda>c. \<lparr>ca_Name = ca_Name c, ca_Description = ca_Description c,
         ca_Tools = map (\<lambda>t. \<lparr>tl_Name = tl_Name t, tl_Description = tl_Description t, tl_Mutating = tl_Mutating t, tl_RiskClass = tl_RiskClass t\<rparr>) (ca_Tools c)\<rparr>)
        (pr_Capabilities r),
      pm_Safety = (case pr_Safety r of None \<Rightarrow> zero_safety | Some s \<Rightarrow> s)\<rparr>"

definition HasCapability :: "plugin_manifest \<Rightarrow> string \<Rightarrow> bool" where
  "HasCapability m name = list_ex (\<lambda>c. ca_Name c = name) (pm_Capabilities m)"

section \<open>The server and its tools\<close>

record ('b, 's) plugin_server =
  ps_manifest :: plugin_manifest
  ps_tools :: "(string \<times> ('b \<Rightarrow> ('s, 'b res) state)) list"

definition NewServer :: "plugin_manifest \<Rightarrow> ('b, 's) plugin_server" where
  "NewServer m = \<lparr>ps_manifest = m, ps_tools = []\<rparr>"

definition HandleTool :: "string \<Rightarrow> string \<Rightarrow> ('b \<Rightarrow> ('s, 'b res) state) \<Rightarrow> ('b, 's) plugin_server \<Rightarrow> ('b, 's) plugin_server" where
  "HandleTool capability tool fn s = s\<lparr>ps_tools := AList.update (capability @ ''/'' @ tool) fn (ps_tools s)\<rparr>"

definition InvokeTool :: "('b, 's) plugin_server \<Rightarrow> string \<Rightarrow> string \<Rightarrow> 'b \<Rightarrow> ('s, 'b res) state" where
  "InvokeTool s capability tool input =
     (case map_of (ps_tools s) (capability @ ''/'' @ tool) of
        None \<Rightarrow> State_Monad.return (Inl (Err (''plugin: unknown tool '' @ capability @ ''/'' @ tool)))
      | Some fn \<Rightarrow> fn input)"

record apply_input =
  ai_Kind :: string
  ai_Spec :: "tspec blob"
  ai_Checksum :: string

record health_output =
  ho_State :: int
  ho_Reason :: string

record flag_change =
  fg_Flag :: string
  fg_Environment :: string
  fg_Percentage :: int
  fg_Disabled :: bool

record traffic_change =
  tf_Route :: string
  tf_Namespace :: string
  tf_StableService :: string
  tf_CanaryService :: string
  tf_Weight :: int

type_synonym ('a, 'b) codec = "('a \<Rightarrow> 'b) \<times> ('b \<Rightarrow> 'a res)"

record 'b wire =
  wi_ApplyInput :: "(apply_input, 'b) codec"
  wi_ApplyOutput :: "(bool \<times> string, 'b) codec"
  wi_ObserveOutput :: "(fingerprint, 'b) codec"
  wi_HealthOutput :: "(health_output, 'b) codec"
  wi_FlagChange :: "(flag_change, 'b) codec"
  wi_TrafficChange :: "(traffic_change, 'b) codec"
  wi_MetricQuery :: "(string, 'b) codec"
  wi_MetricResult :: "(real, 'b) codec"
  wi_Empty :: 'b
  wi_Status :: "err \<Rightarrow> err"

record 's target_ops =
  to_Apply :: "manifest \<Rightarrow> ('s, (bool \<times> string) res) state"
  to_Observe :: "('s, fingerprint res) state"
  to_Health :: "('s, health_status res) state"

text \<open>A handler that decodes its input, runs, and encodes the result.\<close>

definition handle_json :: "('a, 'b) codec \<Rightarrow> ('c \<Rightarrow> 'b) \<Rightarrow> ('a \<Rightarrow> ('s, 'c res) state) \<Rightarrow> 'b \<Rightarrow> ('s, 'b res) state" where
  "handle_json inc out f input =
     (case snd inc input of
        Inl e \<Rightarrow> State_Monad.return (Inl e)
      | Inr x \<Rightarrow> do { r \<leftarrow> f x; State_Monad.return (map_sum id out r) })"

fun health_int :: "health_state \<Rightarrow> int" where
  "health_int HealthUnknown = 0"
| "health_int HealthHealthy = 1"
| "health_int HealthDegraded = 2"
| "health_int HealthUnhealthy = 3"

definition ServeTarget :: "'b wire \<Rightarrow> string \<Rightarrow> string \<Rightarrow> 's target_ops \<Rightarrow> plugin_safety \<Rightarrow> ('b, 's) plugin_server" where
  "ServeTarget W name version t safety =
     (let m = mb_Build (mb_Safety safety (mb_Done (mb_Tool ''health'' ''Report health'' False (mb_Tool ''observe'' ''Report live fingerprint'' False
            (mb_Tool ''apply'' ''Deploy desired state'' True (mb_Capability ''target'' ''Deployment target'' (NewManifest name version)))))));
          srv = HandleTool ''target'' ''apply'' (handle_json (wi_ApplyInput W) (fst (wi_ApplyOutput W))
            (\<lambda>req. to_Apply t (zero_manifest\<lparr>m_Kind := ai_Kind req, m_Spec := ai_Spec req, m_Checksum := ai_Checksum req\<rparr>))) (NewServer m);
          srv = HandleTool ''target'' ''observe'' (\<lambda>_. do { r \<leftarrow> to_Observe t; State_Monad.return (map_sum id (fst (wi_ObserveOutput W)) r) }) srv in
      HandleTool ''target'' ''health'' (\<lambda>_. do { r \<leftarrow> to_Health t;
          State_Monad.return (map_sum id (\<lambda>hs. fst (wi_HealthOutput W) \<lparr>ho_State = health_int (hs_State hs), ho_Reason = hs_Reason hs\<rparr>) r) }) srv)"

text \<open>The wrappers of one tool: a manifest with one capability, one handler.\<close>

definition serve_one :: "string \<Rightarrow> string \<Rightarrow> string \<Rightarrow> string \<Rightarrow> bool \<Rightarrow> ('b \<Rightarrow> ('s, 'b res) state) \<Rightarrow> string \<Rightarrow> string \<Rightarrow> plugin_safety \<Rightarrow> ('b, 's) plugin_server" where
  "serve_one cap descr tool tdescr mutating fn name version safety =
     HandleTool cap tool fn (NewServer (mb_Build (mb_Safety safety (mb_Done (mb_Tool tool tdescr mutating (mb_Capability cap descr (NewManifest name version)))))))"

definition ServeFlagProvider :: "'b wire \<Rightarrow> string \<Rightarrow> string \<Rightarrow> (flag_change \<Rightarrow> ('s, err option) state) \<Rightarrow> plugin_safety \<Rightarrow> ('b, 's) plugin_server" where
  "ServeFlagProvider W name version p =
     serve_one ''featureflag'' ''Feature-flag provider'' ''apply_flag'' ''Set a flag's rollout percentage / state'' True
       (handle_json (wi_FlagChange W) (\<lambda>_. wi_Empty W) (\<lambda>c. do { e \<leftarrow> p c; State_Monad.return (case e of Some e \<Rightarrow> Inl e | None \<Rightarrow> Inr ()) })) name version"

definition ServeTrafficRouter :: "'b wire \<Rightarrow> string \<Rightarrow> string \<Rightarrow> (traffic_change \<Rightarrow> ('s, err option) state) \<Rightarrow> plugin_safety \<Rightarrow> ('b, 's) plugin_server" where
  "ServeTrafficRouter W name version p =
     serve_one ''trafficrouter'' ''Progressive-delivery traffic router'' ''set_weight'' ''Shift traffic weight to the canary backend'' True
       (handle_json (wi_TrafficChange W) (\<lambda>_. wi_Empty W) (\<lambda>c. do { e \<leftarrow> p c; State_Monad.return (case e of Some e \<Rightarrow> Inl e | None \<Rightarrow> Inr ()) })) name version"

definition ServeMetricProvider :: "'b wire \<Rightarrow> string \<Rightarrow> string \<Rightarrow> (string \<Rightarrow> ('s, real res) state) \<Rightarrow> plugin_safety \<Rightarrow> ('b, 's) plugin_server" where
  "ServeMetricProvider W name version p =
     serve_one ''metricprovider'' ''Rollout-analysis metric provider'' ''query_metric'' ''Resolve a query to a scalar metric value'' False
       (handle_json (wi_MetricQuery W) (fst (wi_MetricResult W)) p) name version"

section \<open>The adapters of the host\<close>

type_synonym ('b, 's) invoke = "string \<Rightarrow> string \<Rightarrow> 'b \<Rightarrow> ('s, 'b res) state"

definition tool_err :: "'b wire \<Rightarrow> string \<Rightarrow> string \<Rightarrow> err \<Rightarrow> err" where
  "tool_err W capability tool e = Wrap (''plugin: invoke '' @ capability @ ''/'' @ tool) (wi_Status W e)"

definition Client_Invoke :: "'b wire \<Rightarrow> ('b, 's) invoke \<Rightarrow> ('b, 's) invoke" where
  "Client_Invoke W rpc capability tool input = do {
     r \<leftarrow> rpc capability tool input;
     State_Monad.return (map_sum (tool_err W capability tool) id r)
   }"

definition adapter_Apply :: "'b wire \<Rightarrow> ('b, 's) invoke \<Rightarrow> manifest \<Rightarrow> ('s, (bool \<times> string) res) state" where
  "adapter_Apply W rpc m = do {
     r \<leftarrow> Client_Invoke W rpc ''target'' ''apply''
            (fst (wi_ApplyInput W) \<lparr>ai_Kind = m_Kind m, ai_Spec = m_Spec m, ai_Checksum = m_Checksum m\<rparr>);
     State_Monad.return (case r of
         Inl e \<Rightarrow> Inl e
       | Inr out \<Rightarrow> map_sum (Wrap ''plugin: apply'') id (snd (wi_ApplyOutput W) out))
   }"

definition adapter_Observe :: "'b wire \<Rightarrow> ('b, 's) invoke \<Rightarrow> ('s, fingerprint res) state" where
  "adapter_Observe W rpc = do {
     r \<leftarrow> Client_Invoke W rpc ''target'' ''observe'' (wi_Empty W);
     State_Monad.return (case r of
         Inl e \<Rightarrow> Inl e
       | Inr out \<Rightarrow> map_sum (Wrap ''plugin: observe'') id (snd (wi_ObserveOutput W) out))
   }"

definition checked_health :: "health_output \<Rightarrow> health_status res" where
  "checked_health res =
     (if ho_State res = 1 then Inr \<lparr>hs_State = HealthHealthy, hs_Reason = ho_Reason res\<rparr>
      else if ho_State res = 2 then Inr \<lparr>hs_State = HealthDegraded, hs_Reason = ho_Reason res\<rparr>
      else if ho_State res = 3 then Inr \<lparr>hs_State = HealthUnhealthy, hs_Reason = ho_Reason res\<rparr>
      else Inl (Err (''plugin: invalid health state '' @ itoa (ho_State res))))"

definition adapter_Health :: "'b wire \<Rightarrow> ('b, 's) invoke \<Rightarrow> ('s, health_status res) state" where
  "adapter_Health W rpc = do {
     r \<leftarrow> Client_Invoke W rpc ''target'' ''health'' (wi_Empty W);
     State_Monad.return (case r of
         Inl e \<Rightarrow> Inl e
       | Inr out \<Rightarrow> (case snd (wi_HealthOutput W) out of
             Inl e \<Rightarrow> Inl (Wrap ''plugin: health'' e)
           | Inr res \<Rightarrow> checked_health res))
   }"

definition ApplyFlag :: "'b wire \<Rightarrow> ('b, 's) invoke \<Rightarrow> flag_change \<Rightarrow> ('s, err option) state" where
  "ApplyFlag W rpc c = do {
     r \<leftarrow> Client_Invoke W rpc ''featureflag'' ''apply_flag'' (fst (wi_FlagChange W) c);
     State_Monad.return (case r of Inl e \<Rightarrow> Some e | Inr _ \<Rightarrow> None)
   }"

definition plugin_SetWeight :: "'b wire \<Rightarrow> ('b, 's) invoke \<Rightarrow> traffic_change \<Rightarrow> ('s, err option) state" where
  "plugin_SetWeight W rpc c = do {
     r \<leftarrow> Client_Invoke W rpc ''trafficrouter'' ''set_weight'' (fst (wi_TrafficChange W) c);
     State_Monad.return (case r of Inl e \<Rightarrow> Some e | Inr _ \<Rightarrow> None)
   }"

definition plugin_Query :: "'b wire \<Rightarrow> ('b, 's) invoke \<Rightarrow> string \<Rightarrow> ('s, real res) state" where
  "plugin_Query W rpc q = do {
     r \<leftarrow> Client_Invoke W rpc ''metricprovider'' ''query_metric'' (fst (wi_MetricQuery W) q);
     State_Monad.return (case r of
         Inl e \<Rightarrow> Inl e
       | Inr out \<Rightarrow> map_sum (Wrap ''analysis: decode metric result'') id (snd (wi_MetricResult W) out))
   }"

section \<open>Round trips\<close>

lemma trim_by_id: "s \<noteq> [] \<Longrightarrow> \<not> f (hd s) \<Longrightarrow> \<not> f (last s) \<Longrightarrow> trim_by f s = s"
proof -
  assume s: "s \<noteq> []" "\<not> f (hd s)" "\<not> f (last s)"
  then have "dropWhile f s = s" by (cases s) auto
  moreover have "dropWhile f (rev s) = rev s" using s by (cases s rule: rev_cases) auto
  ultimately show ?thesis by (simp add: trim_by_def)
qed

lemma itoa_no_bar: "CHR ''|'' \<notin> set (itoa i)"
proof -
  have "\<not> is_digit (CHR ''|'')" by code_simp
  then have "CHR ''|'' \<notin> set (utoa n)" for n using utoa_digits [of n] by (auto simp: list_all_iff)
  then show ?thesis by (simp add: itoa_def)
qed

lemma Line_Join: "Line h = strings_Join [handshakePrefix, itoa (hk_ProtocolVersion h), hk_Cookie h, hk_Addr h] [CHR ''|'']"
  by (simp add: Line_def)

text \<open>
  The handshake line reads back. What a plugin prints is what the host parses, for every version an
  \<open>int\<close> holds, every cookie and every socket path without a bar and without a space at its end; and the
  host accepts exactly the lines of its own version and cookie that name a socket.
\<close>

theorem handshake_roundtrip:
  assumes "- (2 ^ 63) \<le> hk_ProtocolVersion h" "hk_ProtocolVersion h < 2 ^ 63"
    and "CHR ''|'' \<notin> set (hk_Cookie h)" "CHR ''|'' \<notin> set (hk_Addr h)"
    and "hk_Addr h = [] \<or> \<not> is_space (last (hk_Addr h))"
  shows "ParseHandshake (Line h) = Some h \<and>
    (hk_Verify h = None \<longleftrightarrow> h = \<lparr>hk_ProtocolVersion = 1, hk_Cookie = Cookie, hk_Addr = hk_Addr h\<rparr> \<and> hk_Addr h \<noteq> [])"
proof
  have "Line h \<noteq> []" "hd (Line h) = CHR ''R''" by (simp_all add: Line_def handshakePrefix_def)
  moreover have "last (Line h) = (if hk_Addr h = [] then CHR ''|'' else last (hk_Addr h))" by (simp add: Line_def)
  moreover have "\<not> is_space (CHR ''R'')" "\<not> is_space (CHR ''|'')" by code_simp+
  ultimately have "strings_TrimSpace (Line h) = Line h"
    unfolding strings_TrimSpace_def using assms(5) by (intro trim_by_id) auto
  moreover have "CHR ''|'' \<notin> set handshakePrefix" by code_simp
  then have "split_on (CHR ''|'') (Line h) = [handshakePrefix, itoa (hk_ProtocolVersion h), hk_Cookie h, hk_Addr h]"
    unfolding Line_Join using assms(3,4) itoa_no_bar by (intro split_on_Join) auto
  ultimately show "ParseHandshake (Line h) = Some h"
    using Atoi_itoa [OF assms(1,2)] by (simp add: ParseHandshake_def parse_parts_def)
  show "hk_Verify h = None \<longleftrightarrow> h = \<lparr>hk_ProtocolVersion = 1, hk_Cookie = Cookie, hk_Addr = hk_Addr h\<rparr> \<and> hk_Addr h \<noteq> []"
    by (cases h) (simp add: hk_Verify_def ProtocolVersion_def)
qed

theorem handshake_roundtrip_witness:
  "ParseHandshake (Line \<lparr>hk_ProtocolVersion = 1, hk_Cookie = Cookie, hk_Addr = ''/tmp/p.sock''\<rparr>) =
     Some \<lparr>hk_ProtocolVersion = 1, hk_Cookie = Cookie, hk_Addr = ''/tmp/p.sock''\<rparr> \<and>
   hk_Verify \<lparr>hk_ProtocolVersion = 1, hk_Cookie = Cookie, hk_Addr = ''/tmp/p.sock''\<rparr> = None"
proof -
  let ?h = "\<lparr>hk_ProtocolVersion = 1, hk_Cookie = Cookie, hk_Addr = ''/tmp/p.sock''\<rparr>"
  have "- (2 ^ 63) \<le> hk_ProtocolVersion ?h" "hk_ProtocolVersion ?h < 2 ^ 63" by simp_all
  moreover have "CHR ''|'' \<notin> set (hk_Cookie ?h)" "CHR ''|'' \<notin> set (hk_Addr ?h)" "\<not> is_space (last (hk_Addr ?h))"
    by code_simp+
  ultimately show ?thesis using handshake_roundtrip [of ?h] by simp
qed

lemma copies:
  fixes t :: plugin_tool and c :: plugin_capability and sy :: plugin_safety
  shows "\<lparr>tl_Name = tl_Name t, tl_Description = tl_Description t, tl_Mutating = tl_Mutating t, tl_RiskClass = tl_RiskClass t\<rparr> = t"
    "\<lparr>ca_Name = ca_Name c, ca_Description = ca_Description c, ca_Tools = ca_Tools c\<rparr> = c"
    "\<lparr>sy_NetworkHosts = sy_NetworkHosts sy, sy_FilePaths = sy_FilePaths sy, sy_EnvVars = sy_EnvVars sy, sy_RiskClass = sy_RiskClass sy,
      sy_NeedsConfirmation = sy_NeedsConfirmation sy\<rparr> = sy"
  by simp_all

lemma manifest_roundtrip: "manifestOfProto (manifestToProto m) = m"
  by (cases m) (simp add: manifestOfProto_def manifestToProto_def copies o_def)

section \<open>A plugin is the target it serves\<close>

text \<open>
  The payloads are JSON, which does not carry every value: strings that are not UTF-8 are replaced, maps come back
  sorted, numbers are rounded. \<open>carries\<close> says of one value that it comes out as it went in; what is asked of the wire is
  this of the values that are sent, and of no others.
\<close>

definition carries :: "('a, 'b) codec \<Rightarrow> 'a \<Rightarrow> bool" where
  "carries c x \<longleftrightarrow> snd c (fst c x) = Inr x"

definition sent_manifest :: "manifest \<Rightarrow> manifest" where
  "sent_manifest m = zero_manifest\<lparr>m_Kind := m_Kind m, m_Spec := m_Spec m, m_Checksum := m_Checksum m\<rparr>"

definition wire_carries :: "'b wire \<Rightarrow> 's target_ops \<Rightarrow> manifest \<Rightarrow> 's \<Rightarrow> bool" where
  "wire_carries W t m s \<longleftrightarrow>
     carries (wi_ApplyInput W) \<lparr>ai_Kind = m_Kind m, ai_Spec = m_Spec m, ai_Checksum = m_Checksum m\<rparr> \<and>
     (case fst (run_state (to_Apply t (sent_manifest m)) s) of Inr x \<Rightarrow> carries (wi_ApplyOutput W) x | Inl _ \<Rightarrow> True) \<and>
     (case fst (run_state (to_Observe t) s) of Inr x \<Rightarrow> carries (wi_ObserveOutput W) x | Inl _ \<Rightarrow> True) \<and>
     (case fst (run_state (to_Health t) s) of
        Inr hs \<Rightarrow> carries (wi_HealthOutput W) \<lparr>ho_State = health_int (hs_State hs), ho_Reason = hs_Reason hs\<rparr> | Inl _ \<Rightarrow> True)"

lemma target_tools:
  fixes W :: "'b wire" and t :: "'s target_ops"
  shows "InvokeTool (ServeTarget W n v t sf) ''target'' ''apply'' = handle_json (wi_ApplyInput W) (fst (wi_ApplyOutput W))
      (\<lambda>req. to_Apply t (zero_manifest\<lparr>m_Kind := ai_Kind req, m_Spec := ai_Spec req, m_Checksum := ai_Checksum req\<rparr>))"
    "InvokeTool (ServeTarget W n v t sf) ''target'' ''observe'' i = do { r \<leftarrow> to_Observe t; State_Monad.return (map_sum id (fst (wi_ObserveOutput W)) r) }"
    "InvokeTool (ServeTarget W n v t sf) ''target'' ''health'' i = do { r \<leftarrow> to_Health t;
      State_Monad.return (map_sum id (\<lambda>hs. fst (wi_HealthOutput W) \<lparr>ho_State = health_int (hs_State hs), ho_Reason = hs_Reason hs\<rparr>) r) }"
  by (rule ext | simp add: ServeTarget_def InvokeTool_def HandleTool_def NewServer_def update_conv')+

lemma served_manifest: "HasCapability (ps_manifest (ServeTarget W n v t sf)) ''target'' \<and> pm_Safety (ps_manifest (ServeTarget W n v t sf)) = sf"
  by (simp add: ServeTarget_def HandleTool_def NewServer_def HasCapability_def mb_Build_def mb_Safety_def mb_Done_def mb_flush_def
      mb_Tool_def mb_ToolRisk_def mb_Capability_def NewManifest_def)

lemma checked_health_int:
  "checked_health \<lparr>ho_State = health_int (hs_State hs), ho_Reason = hs_Reason hs\<rparr> =
     (if hs_State hs = HealthUnknown then Inl (Err ''plugin: invalid health state 0'') else Inr hs)"
proof -
  have "itoa 0 = ''0''" by code_simp
  then show ?thesis by (cases hs, cases "hs_State hs") (simp_all add: checked_health_def)
qed


text \<open>
  A wire over byte strings. It carries no specs, no metadata of fingerprints and no numbers but one digit, and of the
  texts those of printable characters, in quotes.
\<close>

definition demo_bad :: err where "demo_bad = Err ''invalid character''"

definition quoted :: "string \<Rightarrow> string" where
  "quoted x = [CHR 0x22] @ map (\<lambda>c. if CHR 0x20 \<le> c \<and> c < CHR 0x7F \<and> c \<noteq> CHR 0x22 then c else CHR ''?'') x @ [CHR 0x22]"

fun unquoted :: "string \<Rightarrow> (string \<times> string) res" where
  "unquoted (q # xs) =
     (if q = CHR 0x22 then (case strings_Cut xs (CHR 0x22) of (a, b, True) \<Rightarrow> Inr (a, b) | _ \<Rightarrow> Inl demo_bad) else Inl demo_bad)"
| "unquoted [] = Inl demo_bad"

fun digit_text :: "string \<Rightarrow> (int \<times> string) res" where
  "digit_text (c # xs) =
     (if c = CHR ''0'' then Inr (0, xs) else if c = CHR ''1'' then Inr (1, xs) else if c = CHR ''2'' then Inr (2, xs)
      else if c = CHR ''3'' then Inr (3, xs) else Inl demo_bad)"
| "digit_text [] = Inl demo_bad"

definition demo_wire :: "string wire" where
  "demo_wire =
     \<lparr>wi_ApplyInput = (\<lambda>i. quoted (ai_Kind i) @ quoted (ai_Checksum i), \<lambda>b. case unquoted b of Inl e \<Rightarrow> Inl e
        | Inr (k, rest) \<Rightarrow> map_sum id (\<lambda>x. \<lparr>ai_Kind = k, ai_Spec = NoBlob, ai_Checksum = fst x\<rparr>) (unquoted rest)),
      wi_ApplyOutput = (\<lambda>(changed, detail). (if changed then ''1'' else ''0'') @ quoted detail, \<lambda>b. case digit_text b of Inl e \<Rightarrow> Inl e
        | Inr (n, rest) \<Rightarrow> map_sum id (\<lambda>x. (n = 1, fst x)) (unquoted rest)),
      wi_ObserveOutput = (\<lambda>f. quoted (fp_Value f), \<lambda>b. map_sum id (\<lambda>x. \<lparr>fp_Value = fst x, fp_Meta = []\<rparr>) (unquoted b)),
      wi_HealthOutput = (\<lambda>h. itoa (ho_State h) @ quoted (ho_Reason h), \<lambda>b. case digit_text b of Inl e \<Rightarrow> Inl e
        | Inr (n, rest) \<Rightarrow> map_sum id (\<lambda>x. \<lparr>ho_State = n, ho_Reason = fst x\<rparr>) (unquoted rest)),
      wi_FlagChange = (\<lambda>_. [], \<lambda>_. Inl demo_bad), wi_TrafficChange = (\<lambda>_. [], \<lambda>_. Inl demo_bad),
      wi_MetricQuery = (quoted, \<lambda>b. map_sum id fst (unquoted b)), wi_MetricResult = (\<lambda>_. ''0'', \<lambda>b. map_sum id (\<lambda>x. of_int (fst x)) (digit_text b)),
      wi_Empty = ''{}'', wi_Status = Wrap ''rpc error: code = Unknown desc''\<rparr>"

text \<open>A target that remembers the checksums it was given.\<close>

definition demo_ops :: "string list target_ops" where
  "demo_ops =
     \<lparr>to_Apply = (\<lambda>m. State (\<lambda>s. (Inr (True, ''applied''), m_Checksum m # s))),
      to_Observe = State (\<lambda>s. (Inr \<lparr>fp_Value = hd s, fp_Meta = []\<rparr>, s)),
      to_Health = State (\<lambda>s. (Inr \<lparr>hs_State = HealthUnknown, hs_Reason = []\<rparr>, s))\<rparr>"


text \<open>The providers of one tool are what they serve, in the same way.\<close>

lemma serve_one_invoke: "InvokeTool (serve_one cap d tool td mu fn n v sf) cap tool = fn"
  by (rule ext) (simp add: serve_one_def InvokeTool_def HandleTool_def NewServer_def update_conv')

lemma providers_transparent:
  shows "carries (wi_FlagChange W) c \<Longrightarrow> run_state (ApplyFlag W (InvokeTool (ServeFlagProvider W n v p sf)) c) s =
      map_prod (map_option (tool_err W ''featureflag'' ''apply_flag'')) id (run_state (p c) s)"
    "carries (wi_TrafficChange W) d \<Longrightarrow> run_state (plugin_SetWeight W (InvokeTool (ServeTrafficRouter W n v q sf)) d) s =
      map_prod (map_option (tool_err W ''trafficrouter'' ''set_weight'')) id (run_state (q d) s)"
    "carries (wi_MetricQuery W) x \<Longrightarrow> (case fst (run_state (f x) s) of Inr y \<Rightarrow> carries (wi_MetricResult W) y | Inl _ \<Rightarrow> True) \<Longrightarrow>
     run_state (plugin_Query W (InvokeTool (ServeMetricProvider W n v f sf)) x) s =
      map_prod (map_sum (tool_err W ''metricprovider'' ''query_metric'') id) id (run_state (f x) s)"
  unfolding ApplyFlag_def plugin_SetWeight_def plugin_Query_def ServeFlagProvider_def ServeTrafficRouter_def ServeMetricProvider_def
    Client_Invoke_def serve_one_invoke handle_json_def
  by (auto simp: carries_def run_state_simps map_sum_def split: prod.splits sum.splits option.splits)

end
