(* ===== verification/Plugin_Host.thy ===== *)
theory Plugin_Host
  imports Plugin Confine GitRemote Repo_Config
begin

text \<open>
  The host of plugins, \<^verbatim>\<open>internal/pluginhost\<close>: the policy a manifest is held to (\<open>policy.go\<close>), the
  checks of a binary before it runs (\<open>cosign.go\<close>, \<open>VerifyBinary\<close> of \<open>launch.go\<close>), launching and tearing
  down a plugin (\<open>launch.go\<close>), and the four builders that put them together (\<open>internal/target/plugin\<close>,
  \<open>featureflags\<close>, \<open>trafficrouting\<close>, \<open>metricplugin\<close>).

  What a builder does outside the program is a list of calls, and \<open>plugin_env\<close> is what answers them: the
  file system, the started process, the RPC to it, the clock. Hash and signature functions are fields
  of it too. \<open>plugin_admitted\<close> is the result of the theory: what has been checked when a plugin process is
  started, what when it is handed on, and that a refused plugin leaves no process behind.
\<close>

section \<open>The policy\<close>

record plugin_policy =
  pp_AllowedNetworkHosts :: "string list"
  pp_AllowedEnvVars :: "string list"
  pp_AllowedFilePaths :: "string list"
  pp_MaxRiskClass :: string
  pp_AllowConfirmation :: bool
  pp_ConfirmedPlugins :: "string list"

definition env_list :: "string \<Rightarrow> string list" where
  "env_list v = filter (\<lambda>t. t \<noteq> []) (map strings_TrimSpace (split_on (CHR '','') v))"

definition DefaultPolicy :: "(string \<Rightarrow> string) \<Rightarrow> plugin_policy" where
  "DefaultPolicy getenv =
     \<lparr>pp_AllowedNetworkHosts = [], pp_AllowedEnvVars = env_list (getenv ''ROLLOPS_PLUGIN_ALLOWED_ENV''),
      pp_AllowedFilePaths = [''*''], pp_MaxRiskClass = RiskActive, pp_AllowConfirmation = True,
      pp_ConfirmedPlugins = env_list (getenv ''ROLLOPS_PLUGIN_CONFIRM'')\<rparr>"

definition riskRank :: "string \<Rightarrow> int option" where
  "riskRank c = map_of [(RiskPassive, 0), (RiskActive, 1), (RiskInvasive, 2)] c"

definition riskRankOf :: "string \<Rightarrow> int" where
  "riskRankOf c =
     (if c = [] then - 1 else if c = RiskPassive then 0 else if c = RiskActive then 1 else if c = RiskInvasive then 2 else 3)"

fun highest_risk :: "string \<Rightarrow> string list \<Rightarrow> string" where
  "highest_risk best [] = best"
| "highest_risk best (c # cs) = highest_risk (if c \<noteq> [] \<and> riskRankOf c > riskRankOf best then c else best) cs"

definition tool_risks :: "plugin_manifest \<Rightarrow> string list" where
  "tool_risks m = concat (map (\<lambda>c. map tl_RiskClass (ca_Tools c)) (pm_Capabilities m))"

definition effectiveRisk :: "plugin_manifest \<Rightarrow> string" where
  "effectiveRisk m =
     (if sy_RiskClass (pm_Safety m) \<noteq> [] then sy_RiskClass (pm_Safety m) else highest_risk [] (tool_risks m))"

definition allowed_in :: "string \<Rightarrow> string list \<Rightarrow> bool" where
  "allowed_in v xs = list_ex (\<lambda>a. a = ''*'' \<or> a = v) xs"

definition prefixAllowed :: "string \<Rightarrow> string list \<Rightarrow> bool" where
  "prefixAllowed v xs = list_ex (\<lambda>a. a = ''*'' \<or> strings_HasPrefix v a) xs"

definition rank_or_zero :: "string \<Rightarrow> int" where
  "rank_or_zero c = (case riskRank c of None \<Rightarrow> 0 | Some r \<Rightarrow> r)"

definition risk_exceeds :: "plugin_policy \<Rightarrow> plugin_manifest \<Rightarrow> bool" where
  "risk_exceeds p m =
     (let eff = effectiveRisk m in
      eff \<noteq> [] \<and> (case riskRank eff of None \<Rightarrow> True | Some rank \<Rightarrow> rank > rank_or_zero (pp_MaxRiskClass p)))"

definition plugin_err :: "plugin_manifest \<Rightarrow> string \<Rightarrow> err" where
  "plugin_err m what = Err (''plugin '' @ pm_Name m @ '': '' @ what)"

definition first_refused :: "(string \<Rightarrow> bool) \<Rightarrow> (string \<Rightarrow> err) \<Rightarrow> string list \<Rightarrow> err option" where
  "first_refused ok e xs = map_option e (find (\<lambda>x. \<not> ok x) xs)"

definition plugin_Validate :: "plugin_policy \<Rightarrow> plugin_manifest \<Rightarrow> err option" where
  "plugin_Validate p m =
     (let s = pm_Safety m in
      if risk_exceeds p m then Some (plugin_err m (''risk class '' @ effectiveRisk m @ '' exceeds policy max '' @ pp_MaxRiskClass p))
      else if sy_NeedsConfirmation s \<and> \<not> pp_AllowConfirmation p then Some (plugin_err m ''requires confirmation, not permitted by policy'')
      else if sy_NeedsConfirmation s \<and> \<not> allowed_in (pm_Name m) (pp_ConfirmedPlugins p)
      then Some (plugin_err m ''requires operator confirmation; add it to ROLLOPS_PLUGIN_CONFIRM'')
      else case first_refused (\<lambda>h. allowed_in h (pp_AllowedNetworkHosts p)) (\<lambda>h. plugin_err m (''network host '' @ h @ '' not allow-listed'')) (sy_NetworkHosts s) of
        Some e \<Rightarrow> Some e
      | None \<Rightarrow>
          (case first_refused (\<lambda>v. allowed_in v (pp_AllowedEnvVars p)) (\<lambda>v. plugin_err m (''env var '' @ v @ '' not allow-listed'')) (sy_EnvVars s) of
             Some e \<Rightarrow> Some e
           | None \<Rightarrow> first_refused (\<lambda>f. prefixAllowed f (pp_AllowedFilePaths p)) (\<lambda>f. plugin_err m (''file path '' @ f @ '' not allow-listed'')) (sy_FilePaths s)))"

section \<open>The first line of a plugin\<close>

text \<open>
  What a plugin writes to its standard output until it stops writing: the bytes, and whether the pipe
  was closed, broke, or stays open. \<open>scan_handshake\<close> is the loop over \<open>bufio.Scanner\<close>, which gives lines
  without their end, a last line without one too, and fails on a line that does not fit its buffer.
\<close>

datatype stdout_end = PipeEOF | PipeErr err | PipeOpen

datatype scan_result = ScanFound handshake | ScanFailed err | ScanWaiting

definition maxHandshakeLine :: int where "maxHandshakeLine = 65536"

definition drop_cr :: "string \<Rightarrow> string" where
  "drop_cr s = (if s \<noteq> [] \<and> last s = CHR 0x0D then butlast s else s)"

definition scan_over :: "stdout_end \<Rightarrow> scan_result" where
  "scan_over fin = (case fin of
     PipeEOF \<Rightarrow> ScanFailed (Err ''plugin: exited before handshake'')
   | PipeErr e \<Rightarrow> ScanFailed (Wrap ''plugin: reading handshake'' e)
   | PipeOpen \<Rightarrow> ScanWaiting)"

function (sequential) scan_handshake :: "stdout_end \<Rightarrow> string \<Rightarrow> scan_result" where
  "scan_handshake fin bytes =
     (let l = takeWhile (\<lambda>c. c \<noteq> CHR 0x0A) bytes in
      if int (length l) \<ge> maxHandshakeLine then ScanFailed (Wrap ''plugin: reading handshake'' (Err ''bufio.Scanner: token too long''))
      else if CHR 0x0A \<in> set bytes then
        (case ParseHandshake (drop_cr l) of
           Some h \<Rightarrow> ScanFound h
         | None \<Rightarrow> scan_handshake fin (drop (length l + 1) bytes))
      else if fin = PipeOpen \<or> bytes = [] then scan_over fin
      else (case ParseHandshake (drop_cr bytes) of Some h \<Rightarrow> ScanFound h | None \<Rightarrow> scan_over fin))"
  by pat_completeness auto

termination
  by (relation "measure (\<lambda>(fin, bytes). length bytes)") (auto dest: length_pos_if_in_set intro: diff_less)

text \<open>Which case of the \<open>select\<close> is taken; a reader that has nothing to say leaves it to the timer.\<close>

datatype wait_end = Answered | Canceled err | TimedOut

definition awaitHandshake :: "wait_end \<Rightarrow> scan_result \<Rightarrow> handshake res" where
  "awaitHandshake race r = (case race of
     Canceled e \<Rightarrow> Inl (Wrap ''plugin: handshake canceled'' e)
   | TimedOut \<Rightarrow> Inl (Err ''plugin: handshake timeout'')
   | Answered \<Rightarrow> (case r of ScanFound h \<Rightarrow> Inr h | ScanFailed e \<Rightarrow> Inl e | ScanWaiting \<Rightarrow> Inl (Err ''plugin: handshake timeout'')))"

section \<open>What a plugin says on its standard error\<close>

record capped_writer =
  cw_midLine :: bool
  cw_remaining :: nat
  cw_truncated :: bool

datatype relay = RelayPrefix | RelayChunk string | RelayNote

definition line_chunk :: "string \<Rightarrow> string" where
  "line_chunk p = (if CHR 0x0A \<in> set p then takeWhile (\<lambda>c. c \<noteq> CHR 0x0A) p @ [CHR 0x0A] else p)"

lemma line_chunk_ne: "p \<noteq> [] \<Longrightarrow> 0 < length (line_chunk p)"
  by (simp add: line_chunk_def)

function (sequential) cw_Write :: "capped_writer \<Rightarrow> string \<Rightarrow> capped_writer \<times> relay list" where
  "cw_Write c p =
     (if p = [] then (c, [])
      else if cw_remaining c = 0 then
        (if cw_truncated c then (c, []) else (c\<lparr>cw_truncated := True\<rparr>, [RelayNote]))
      else
        (let chunk = line_chunk p; out = take (cw_remaining c) chunk in
         case cw_Write (c\<lparr>cw_midLine := CHR 0x0A \<notin> set p, cw_remaining := cw_remaining c - length out\<rparr>) (drop (length chunk) p) of
           (c', ev) \<Rightarrow> (c', (if cw_midLine c then [] else [RelayPrefix]) @ RelayChunk out # ev)))"
  by pat_completeness auto

termination
  by (relation "measure (\<lambda>(c, p). length p)") (auto dest: line_chunk_ne intro: diff_less)

declare scan_handshake.simps [simp del] cw_Write.simps [simp del]

fun cw_run :: "capped_writer \<Rightarrow> string list \<Rightarrow> capped_writer \<times> relay list" where
  "cw_run c [] = (c, [])"
| "cw_run c (p # ps) = (case cw_Write c p of (c', ev) \<Rightarrow> map_prod id ((@) ev) (cw_run c' ps))"

definition stderr_writer :: capped_writer where
  "stderr_writer = \<lparr>cw_midLine = False, cw_remaining = 2 ^ 20, cw_truncated = False\<rparr>"

section \<open>Checking a binary\<close>

datatype plugin_call =
    PlResolve string
  | PlOpen string
  | PlRead string
  | PlPipe
  | PlStart string "string list"
  | PlStdout
  | PlDial string
  | PlManifest
  | PlCloseConn
  | PlCloseStdin
  | PlWait
  | PlKill
  | PlKillGroup

datatype cosign_key = KeyECDSA string | KeyEd25519 string | KeyRSA string | KeyOther string

record plugin_env =
  ph_EvalSymlinks :: "plugin_call list \<Rightarrow> string \<Rightarrow> string res"
  ph_Open :: "plugin_call list \<Rightarrow> string \<Rightarrow> err option"
  ph_Read :: "plugin_call list \<Rightarrow> string \<Rightarrow> string res"
  ph_Pipe :: "plugin_call list \<Rightarrow> err option"
  ph_Start :: "plugin_call list \<Rightarrow> err option"
  ph_Stdout :: "plugin_call list \<Rightarrow> wait_end \<times> stdout_end \<times> string"
  ph_Dial :: "plugin_call list \<Rightarrow> err option"
  ph_Manifest :: "plugin_call list \<Rightarrow> proto_manifest res"
  ph_Exits :: "plugin_call list \<Rightarrow> bool"
  ph_Environ :: "string list"
  ph_Getenv :: "string \<Rightarrow> string"
  ph_SHA256 :: "string \<Rightarrow> string"
  ph_Base64 :: "string \<Rightarrow> string res"
  ph_Pem :: "string \<Rightarrow> string option"
  ph_Pkix :: "string \<Rightarrow> cosign_key res"
  ph_ECDSA :: "string \<Rightarrow> string \<Rightarrow> string \<Rightarrow> bool"
  ph_Ed25519 :: "string \<Rightarrow> string \<Rightarrow> string \<Rightarrow> bool"
  ph_RSA :: "string \<Rightarrow> string \<Rightarrow> string \<Rightarrow> err option"

type_synonym 'a pprog = "(plugin_call list, 'a) state"

definition pl_open :: "plugin_env \<Rightarrow> string \<Rightarrow> err option pprog" where
  "pl_open H path = host_call (\<lambda>h _. ph_Open H h path) (PlOpen path)"

definition pl_read :: "plugin_env \<Rightarrow> string \<Rightarrow> string res pprog" where
  "pl_read H path = host_call (\<lambda>h _. ph_Read H h path) (PlRead path)"

definition pl_log :: "plugin_call \<Rightarrow> unit pprog" where
  "pl_log c = host_call (\<lambda>_ _. ()) c"

text \<open>\<open>os.Open\<close> and \<open>io.Copy\<close> into the hash, with the words of the two errors.\<close>

definition hashed :: "plugin_env \<Rightarrow> string \<Rightarrow> string res pprog" where
  "hashed H path = do {
     oe \<leftarrow> pl_open H path;
     case oe of
       Some e \<Rightarrow> State_Monad.return (Inl (Wrap ''plugin: open binary'' e))
     | None \<Rightarrow> do {
         r \<leftarrow> pl_read H path;
         State_Monad.return (map_sum (Wrap ''plugin: hash binary'') (ph_SHA256 H) r)
       }
   }"

definition VerifyBinary :: "plugin_env \<Rightarrow> string \<Rightarrow> string \<Rightarrow> err option pprog" where
  "VerifyBinary H path sha256hex =
     (if sha256hex = [] then State_Monad.return (Some (Err (''plugin: binary '' @ path @ '': sha256 pin required'')))
      else do {
        d \<leftarrow> hashed H path;
        State_Monad.return (case d of
            Inl e \<Rightarrow> Some e
          | Inr dg \<Rightarrow>
              if EqualFold (hex_EncodeToString dg) sha256hex then None
              else Some (Err (''plugin: binary '' @ path @ '': sha256 mismatch: pinned '' @ sha256hex @ '', got '' @ hex_EncodeToString dg)))
      })"

definition parsePublicKey :: "plugin_env \<Rightarrow> string \<Rightarrow> cosign_key res" where
  "parsePublicKey H pubPEM =
     (case ph_Pem H pubPEM of
        None \<Rightarrow> Inl (Err ''plugin: no PEM block in public key'')
      | Some block \<Rightarrow> map_sum (Wrap ''plugin: parse public key'') id (ph_Pkix H block))"

definition sig_failed :: "string \<Rightarrow> string \<Rightarrow> err" where
  "sig_failed path scheme = Err (''plugin: '' @ path @ '': signature verification failed ('' @ scheme @ '')'')"

definition verifyCosignSignature :: "plugin_env \<Rightarrow> string \<Rightarrow> string \<Rightarrow> string \<Rightarrow> err option pprog" where
  "verifyCosignSignature H path sigB64 pubPEM =
     (case parsePublicKey H pubPEM of
        Inl e \<Rightarrow> State_Monad.return (Some e)
      | Inr pub \<Rightarrow>
          (case ph_Base64 H (strings_TrimSpace sigB64) of
             Inl e \<Rightarrow> State_Monad.return (Some (Wrap ''plugin: decode signature'' e))
           | Inr sig \<Rightarrow> do {
               d \<leftarrow> hashed H path;
               case d of
                 Inl e \<Rightarrow> State_Monad.return (Some e)
               | Inr digest \<Rightarrow>
                   (case pub of
                      KeyECDSA k \<Rightarrow> State_Monad.return (if ph_ECDSA H k digest sig then None else Some (sig_failed path ''ecdsa''))
                    | KeyEd25519 k \<Rightarrow> do {
                        oe \<leftarrow> pl_open H path;
                        case oe of
                          Some e \<Rightarrow> State_Monad.return (Some (Wrap ''plugin: open binary'' e))
                        | None \<Rightarrow> do {
                            c \<leftarrow> pl_read H path;
                            State_Monad.return (case c of
                                Inl e \<Rightarrow> Some (Wrap ''plugin: read binary'' e)
                              | Inr content \<Rightarrow> if ph_Ed25519 H k content sig then None else Some (sig_failed path ''ed25519''))
                          }
                      }
                    | KeyRSA k \<Rightarrow> State_Monad.return (case ph_RSA H k digest sig of
                          None \<Rightarrow> None | Some e \<Rightarrow> Some (Wrap (''plugin: '' @ path @ '': signature verification failed (rsa)'') e))
                    | KeyOther t \<Rightarrow> State_Monad.return (Some (Err (''plugin: unsupported public key type '' @ t))))
             }))"

definition VerifyArtifact :: "plugin_env \<Rightarrow> string \<Rightarrow> string \<Rightarrow> err option pprog" where
  "VerifyArtifact H path sha256hex = do {
     v \<leftarrow> VerifyBinary H path sha256hex;
     (case v of
        Some e \<Rightarrow> State_Monad.return (Some e)
      | None \<Rightarrow>
          (let keyPath = ph_Getenv H ''ROLLOPS_PLUGIN_PUBLIC_KEY'' in
           if keyPath = [] then State_Monad.return None
           else if strings_Contains keyPath ''..''
           then State_Monad.return (Some (Err (''plugin: ROLLOPS_PLUGIN_PUBLIC_KEY must not contain dot-dot segments: '' @ keyPath)))
           else do {
             k \<leftarrow> pl_read H (filepath_Clean keyPath);
             case k of
               Inl e \<Rightarrow> State_Monad.return (Some (Wrap ''plugin: read public key (ROLLOPS_PLUGIN_PUBLIC_KEY)'' e))
             | Inr pubPEM \<Rightarrow> do {
                 s \<leftarrow> pl_read H (path @ ''.sig'');
                 case s of
                   Inl e \<Rightarrow> State_Monad.return (Some (Wrap (''plugin: ROLLOPS_PLUGIN_PUBLIC_KEY set but signature '' @ path @ ''.sig missing'') e))
                 | Inr sigB64 \<Rightarrow> verifyCosignSignature H path sigB64 pubPEM
               }
           }))
   }"

section \<open>Launching\<close>

definition buildPluginEnv :: "string list \<Rightarrow> string list \<Rightarrow> string list" where
  "buildPluginEnv allowed parentEnv = ConfineEnv allowed parentEnv"

definition killLaunch :: "unit pprog" where
  "killLaunch = do { _ \<leftarrow> pl_log PlCloseStdin; _ \<leftarrow> pl_log PlKill; pl_log PlKillGroup }"

definition Process_Close :: "plugin_env \<Rightarrow> unit pprog" where
  "Process_Close H = do {
     _ \<leftarrow> pl_log PlCloseConn;
     _ \<leftarrow> pl_log PlCloseStdin;
     gone \<leftarrow> host_call (\<lambda>h _. ph_Exits H h) PlWait;
     _ \<leftarrow> (if gone then State_Monad.return () else pl_log PlKill);
     pl_log PlKillGroup
   }"

definition Launch :: "plugin_env \<Rightarrow> string \<Rightarrow> string list \<Rightarrow> err option pprog" where
  "Launch H path allowedEnv = do {
     p1 \<leftarrow> host_call (\<lambda>h _. ph_Pipe H h) PlPipe;
     (case p1 of Some e \<Rightarrow> State_Monad.return (Some (Wrap ''plugin: launch'' e)) | None \<Rightarrow> do {
     p2 \<leftarrow> host_call (\<lambda>h _. ph_Pipe H h) PlPipe;
     (case p2 of Some e \<Rightarrow> State_Monad.return (Some (Wrap ''plugin: launch'' e)) | None \<Rightarrow> do {
     s \<leftarrow> host_call (\<lambda>h _. ph_Start H h) (PlStart path (buildPluginEnv allowedEnv (ph_Environ H)));
     (case s of Some e \<Rightarrow> State_Monad.return (Some (Wrap (''plugin: launch '' @ path) e)) | None \<Rightarrow> do {
     out \<leftarrow> host_call (\<lambda>h _. ph_Stdout H h) PlStdout;
     (case awaitHandshake (fst out) (scan_handshake (fst (snd out)) (snd (snd out))) of
        Inl e \<Rightarrow> do { _ \<leftarrow> killLaunch; State_Monad.return (Some e) }
      | Inr hs \<Rightarrow>
          (case hk_Verify hs of
             Some e \<Rightarrow> do { _ \<leftarrow> killLaunch; State_Monad.return (Some e) }
           | None \<Rightarrow> do {
               d \<leftarrow> host_call (\<lambda>h _. ph_Dial H h) (PlDial (''unix://'' @ hk_Addr hs));
               case d of
                 Some e \<Rightarrow> do { _ \<leftarrow> killLaunch; State_Monad.return (Some (Wrap (''plugin: dial '' @ hk_Addr hs) e)) }
               | None \<Rightarrow> State_Monad.return None
             }))
     })})})
   }"

section \<open>The builders\<close>

definition Client_Manifest :: "plugin_env \<Rightarrow> plugin_manifest res pprog" where
  "Client_Manifest H = do {
     r \<leftarrow> host_call (\<lambda>h _. ph_Manifest H h) PlManifest;
     State_Monad.return (map_sum (Wrap ''plugin: get manifest'') manifestOfProto r)
   }"

definition closing :: "plugin_env \<Rightarrow> err \<Rightarrow> plugin_manifest res pprog" where
  "closing H e = do { _ \<leftarrow> Process_Close H; State_Monad.return (Inl e) }"

text \<open>After the launch the process is handed on or closed.\<close>

definition admission :: "plugin_env \<Rightarrow> string \<Rightarrow> string \<Rightarrow> plugin_manifest res pprog" where
  "admission H ctx capability = do {
     m \<leftarrow> Client_Manifest H;
     (case m of Inl e \<Rightarrow> closing H (Wrap ctx e) | Inr m \<Rightarrow>
       (case plugin_Validate (DefaultPolicy (ph_Getenv H)) m of
          Some e \<Rightarrow> closing H (Wrap ctx e)
        | None \<Rightarrow>
            if HasCapability m capability then State_Monad.return (Inr m)
            else closing H (Wrap ctx (Err (''plugin '' @ pm_Name m @ '' does not declare the '' @ capability @ '' capability'')))))
   }"

text \<open>The body the four builders share, over the words of each; it answers the manifest of the running plugin.\<close>

definition build_plugin :: "plugin_env \<Rightarrow> string \<Rightarrow> string \<Rightarrow> string \<Rightarrow> string \<Rightarrow> string \<Rightarrow> plugin_manifest res pprog" where
  "build_plugin H resolving ctx binary pin capability = do {
     l \<leftarrow> host_call (\<lambda>h _. ph_EvalSymlinks H h binary) (PlResolve binary);
     (case l of Inl e \<Rightarrow> State_Monad.return (Inl (Wrap resolving e)) | Inr path \<Rightarrow> do {
     v \<leftarrow> VerifyArtifact H path pin;
     (case v of Some e \<Rightarrow> State_Monad.return (Inl (Wrap ctx e)) | None \<Rightarrow> do {
     p \<leftarrow> Launch H path (pp_AllowedEnvVars (DefaultPolicy (ph_Getenv H)));
     (case p of Some e \<Rightarrow> State_Monad.return (Inl (Wrap ctx e)) | None \<Rightarrow> do {
     admission H ctx capability
     })})})
   }"

definition plugin_Build :: "plugin_env \<Rightarrow> string \<Rightarrow> tspec \<Rightarrow> plugin_manifest res pprog" where
  "plugin_Build H ref sp =
     (let ctx = ''plugin: target '' @ ref in
      if spec_str sp ''binary'' = [] then State_Monad.return (Inl (Err (ctx @ '': spec.binary is required'')))
      else build_plugin H (ctx @ '': resolve binary'') ctx (spec_str sp ''binary'') (spec_str sp ''sha256'') ''target'')"

definition BuildProvider :: "plugin_env \<Rightarrow> feature_flags option \<Rightarrow> plugin_manifest res pprog" where
  "BuildProvider H cfg = (case cfg of
     None \<Rightarrow> State_Monad.return (Inl (Err ''featureflags: nil config''))
   | Some c \<Rightarrow> build_plugin H ''featureflags: resolve plugin'' ''featureflags'' (ff_Plugin c) (ff_SHA256 c) ''featureflag'')"

definition metric_Build :: "plugin_env \<Rightarrow> cfg_analysis option \<Rightarrow> plugin_manifest res pprog" where
  "metric_Build H cfg = (case cfg of
     None \<Rightarrow> State_Monad.return (Inl (Err ''analysis: nil config''))
   | Some c \<Rightarrow> build_plugin H ''analysis: resolve plugin'' ''analysis'' (an_Plugin c) (an_SHA256 c) ''metricprovider'')"

datatype built_router = GatewayRouter string string | PluginRouter plugin_manifest

definition BuildRouter :: "plugin_env \<Rightarrow> traffic_routing option \<Rightarrow> built_router res pprog" where
  "BuildRouter H cfg = (case cfg of
     None \<Rightarrow> State_Monad.return (Inl (Err ''trafficrouting: nil config''))
   | Some c \<Rightarrow>
       if tr_Provider c = ''gateway'' then State_Monad.return (Inr (GatewayRouter (tr_Kubeconfig c) (tr_Context c)))
       else if tr_Provider c \<noteq> [] then State_Monad.return (Inl (Err (''trafficrouting: unknown provider '' @ tr_Provider c)))
       else do {
         r \<leftarrow> build_plugin H ''trafficrouting: resolve plugin'' ''trafficrouting'' (tr_Plugin c) (tr_SHA256 c) ''trafficrouter'';
         State_Monad.return (map_sum id PluginRouter r)
       })"

section \<open>The relay of standard error is bounded\<close>

fun relayed :: "relay list \<Rightarrow> string" where
  "relayed [] = []"
| "relayed (RelayChunk s # ev) = s @ relayed ev"
| "relayed (_ # ev) = relayed ev"

definition cut_notes :: "relay list \<Rightarrow> nat" where
  "cut_notes ev = length (filter ((=) RelayNote) ev)"

lemma relayed_append [simp]: "relayed (ev @ ev') = relayed ev @ relayed ev'"
  by (induction ev rule: relayed.induct) auto

lemma cut_notes_simps [simp]:
  "cut_notes [] = 0" "cut_notes (RelayNote # ev) = Suc (cut_notes ev)" "cut_notes (RelayPrefix # ev) = cut_notes ev" "cut_notes (RelayChunk s # ev) = cut_notes ev"
  "cut_notes (ev @ ev') = cut_notes ev + cut_notes ev'"
  by (simp_all add: cut_notes_def)

lemma line_chunk_split: "line_chunk p @ drop (length (line_chunk p)) p = p"
proof (cases "CHR 0x0A \<in> set p")
  case True
  then obtain a b where p: "p = a @ CHR 0x0A # b" "CHR 0x0A \<notin> set a" by (meson split_list_first)
  then have "takeWhile (\<lambda>c. c \<noteq> CHR 0x0A) p = a" by (auto simp: takeWhile_append takeWhile_eq_all_conv)
  then have "line_chunk p = a @ [CHR 0x0A]" using True by (simp add: line_chunk_def)
  then show ?thesis using p by simp
qed (simp add: line_chunk_def)

lemma cw_Write_relays:
  "cw_Write c p = (c', ev) \<Longrightarrow>
     relayed ev = take (cw_remaining c) p \<and> cw_remaining c' = cw_remaining c - length p \<and>
     cut_notes ev + of_bool (cw_truncated c) = of_bool (cw_truncated c')"
proof (induction c p arbitrary: c' ev rule: cw_Write.induct)
  case (1 c p)
  show ?case
  proof (cases "p = [] \<or> cw_remaining c = 0")
    case True
    then show ?thesis using "1.prems" by (subst (asm) cw_Write.simps) (auto split: if_splits)
  next
    case False
    let ?k = "line_chunk p" and ?n = "cw_remaining c"
    let ?c = "c\<lparr>cw_midLine := CHR 0x0A \<notin> set p, cw_remaining := ?n - length (take ?n ?k)\<rparr>"
    obtain c1 ev1 where w: "cw_Write ?c (drop (length ?k) p) = (c1, ev1)" by fastforce
    from False "1.prems" w have e: "c' = c1" "ev = (if cw_midLine c then [] else [RelayPrefix]) @ RelayChunk (take ?n ?k) # ev1"
      by (subst (asm) cw_Write.simps, simp add: Let_def)+
    have ih: "relayed ev1 = take (?n - length (take ?n ?k)) (drop (length ?k) p)"
      "cw_remaining c1 = ?n - length (take ?n ?k) - length (drop (length ?k) p)"
      "cut_notes ev1 + of_bool (cw_truncated c) = of_bool (cw_truncated c1)"
      using "1.IH" [OF _ _ refl refl w] False by auto
    have "take ?n ?k @ take (?n - length (take ?n ?k)) (drop (length ?k) p) = take ?n (?k @ drop (length ?k) p)"
      by (cases "?n \<le> length ?k") (simp_all add: min_def)
    then have "relayed ev = take ?n p" using e ih(1) by (simp add: line_chunk_split)
    moreover have "length p = length ?k + length (drop (length ?k) p)"
      using line_chunk_split [of p] by (metis length_append)
    then have "cw_remaining c' = ?n - length p" using ih(2) e by (simp add: min_def)
    ultimately show ?thesis using e ih(3) by simp
  qed
qed

lemma cw_run_relays:
  "cw_run c ps = (c', ev) \<Longrightarrow>
     relayed ev = take (cw_remaining c) (concat ps) \<and> cut_notes ev + of_bool (cw_truncated c) = of_bool (cw_truncated c')"
proof (induction ps arbitrary: c c' ev)
  case (Cons p ps)
  obtain c1 ev1 where w: "cw_Write c p = (c1, ev1)" by fastforce
  obtain c2 ev2 where r: "cw_run c1 ps = (c2, ev2)" by fastforce
  have "c' = c2" "ev = ev1 @ ev2" using Cons.prems w r by auto
  then show ?case using cw_Write_relays [OF w] Cons.IH [OF r] by simp
qed simp

text \<open>
  C26: a plugin cannot flood the log of the daemon. Whatever it writes to its standard error, in whatever
  pieces, the bytes relayed are the first mebibyte of it, unchanged and in order, and the note that the
  rest was dropped is written at most once.
\<close>

theorem stderr_bounded:
  "relayed (snd (cw_run stderr_writer ps)) = take (2 ^ 20) (concat ps) \<and> cut_notes (snd (cw_run stderr_writer ps)) \<le> 1"
proof -
  obtain c ev where r: "cw_run stderr_writer ps = (c, ev)" by fastforce
  have "relayed ev = take (2 ^ 20) (concat ps)" "cut_notes ev = of_bool (cw_truncated c)"
    using cw_run_relays [OF r] by (simp_all add: stderr_writer_def)
  then show ?thesis using r by (cases "cw_truncated c") simp_all
qed

section \<open>What the policy admits\<close>

lemma first_refused_None: "first_refused ok e xs = None \<longleftrightarrow> list_all ok xs"
  by (auto simp: first_refused_def find_None_iff' list_all_iff)

lemma highest_risk_max:
  "riskRankOf best \<le> riskRankOf (highest_risk best cs) \<and> (\<forall>c \<in> set cs. riskRankOf c \<le> riskRankOf (highest_risk best cs))"
proof (induction cs arbitrary: best)
  case (Cons c cs)
  let ?b = "if c \<noteq> [] \<and> riskRankOf c > riskRankOf best then c else best"
  have "riskRankOf best \<le> riskRankOf ?b" "riskRankOf c \<le> riskRankOf ?b" by (auto simp: riskRankOf_def)
  then show ?case using Cons.IH [of ?b] by auto
qed simp

lemma risk_admitted:
  assumes "\<not> risk_exceeds (DefaultPolicy g) m"
  shows "riskRankOf (effectiveRisk m) \<le> 1"
  using assms
  by (auto simp: risk_exceeds_def Let_def riskRank_def rank_or_zero_def DefaultPolicy_def riskRankOf_def RiskPassive_def RiskActive_def
      RiskInvasive_def split: option.splits if_splits)

text \<open>
  What the default policy admits. A manifest passes only when it declares no network host at all, only
  environment variables the operator listed, needs no confirmation the operator did not give, and is
  rated at most active; and when it gives no rating as a whole, when no tool of it is rated higher. A
  rating the host does not know counts as the highest.
\<close>

theorem policy_admits:
  assumes "plugin_Validate (DefaultPolicy getenv) m = None"
  shows "sy_NetworkHosts (pm_Safety m) = [] \<and>
    (\<forall>v \<in> set (sy_EnvVars (pm_Safety m)). allowed_in v (env_list (getenv ''ROLLOPS_PLUGIN_ALLOWED_ENV''))) \<and>
    (sy_NeedsConfirmation (pm_Safety m) \<longrightarrow> allowed_in (pm_Name m) (env_list (getenv ''ROLLOPS_PLUGIN_CONFIRM''))) \<and>
    sy_RiskClass (pm_Safety m) \<in> {[], RiskPassive, RiskActive} \<and>
    (sy_RiskClass (pm_Safety m) = [] \<longrightarrow> (\<forall>r \<in> set (tool_risks m). r \<in> {[], RiskPassive, RiskActive}))"
proof -
  let ?p = "DefaultPolicy getenv" and ?s = "pm_Safety m"
  have pos: "\<not> risk_exceeds ?p m" "sy_NeedsConfirmation ?s \<longrightarrow> allowed_in (pm_Name m) (pp_ConfirmedPlugins ?p)"
    "list_all (\<lambda>h. allowed_in h (pp_AllowedNetworkHosts ?p)) (sy_NetworkHosts ?s)"
    "list_all (\<lambda>v. allowed_in v (pp_AllowedEnvVars ?p)) (sy_EnvVars ?s)"
    using assms by (auto simp: plugin_Validate_def Let_def first_refused_None split: if_splits option.splits)
  have low: "r \<in> {[], RiskPassive, RiskActive}" if "riskRankOf r \<le> 1" for r
    using that by (auto simp: riskRankOf_def split: if_splits)
  have eff: "riskRankOf (effectiveRisk m) \<le> 1" by (rule risk_admitted [OF pos(1)])
  have "sy_RiskClass ?s \<in> {[], RiskPassive, RiskActive}"
    using low [OF eff] by (cases "sy_RiskClass ?s = []") (auto simp: effectiveRisk_def)
  moreover have "r \<in> {[], RiskPassive, RiskActive}" if "sy_RiskClass ?s = []" "r \<in> set (tool_risks m)" for r
    using highest_risk_max [of "[]" "tool_risks m"] eff that by (intro low) (force simp: effectiveRisk_def)
  moreover have "sy_NetworkHosts ?s = []"
    using pos(3) by (cases "sy_NetworkHosts ?s") (auto simp: DefaultPolicy_def allowed_in_def)
  ultimately show ?thesis using pos by (simp add: DefaultPolicy_def list_all_iff)
qed

definition demo_manifest_of :: "string \<Rightarrow> plugin_manifest" where
  "demo_manifest_of risk = mb_Build (mb_Safety (zero_safety\<lparr>sy_EnvVars := [''AWS_REGION'']\<rparr>)
     (mb_ToolRisk ''apply'' ''Deploy'' True risk (mb_Capability ''target'' ''Deployment target'' (NewManifest ''acme/exotic'' ''1.0.0''))))"

theorem policy_admits_witness:
  "plugin_Validate (DefaultPolicy (\<lambda>k. if k = ''ROLLOPS_PLUGIN_ALLOWED_ENV'' then ''AWS_REGION'' else [])) (demo_manifest_of RiskActive) = None \<and>
   sy_NetworkHosts (pm_Safety (demo_manifest_of RiskActive)) = [] \<and>
   plugin_Validate (DefaultPolicy (\<lambda>k. if k = ''ROLLOPS_PLUGIN_ALLOWED_ENV'' then ''AWS_REGION'' else [])) (demo_manifest_of RiskInvasive) \<noteq> None"
proof -
  let ?g = "\<lambda>k. if k = ''ROLLOPS_PLUGIN_ALLOWED_ENV'' then ''AWS_REGION'' else []"
  have a: "plugin_Validate (DefaultPolicy ?g) (demo_manifest_of RiskActive) = None" by code_simp
  have "plugin_Validate (DefaultPolicy ?g) (demo_manifest_of RiskInvasive) \<noteq> None" by code_simp
  with a policy_admits [OF a] show ?thesis by blast
qed

section \<open>What is known of a plugin that runs\<close>

lemma pl_runs:
  "run_state (pl_open H p) h = (ph_Open H h p, h @ [PlOpen p])"
  "run_state (pl_read H p) h = (ph_Read H h p, h @ [PlRead p])"
  "run_state (pl_log c) h = ((), h @ [c])"
  by (simp_all add: pl_open_def pl_read_def pl_log_def run_host_call)

text \<open>Between \<open>h\<close> and \<open>h'\<close> the file \<open>p\<close> was read, with content \<open>c\<close>.\<close>

definition saw :: "plugin_env \<Rightarrow> plugin_call list \<Rightarrow> plugin_call list \<Rightarrow> string \<Rightarrow> string \<Rightarrow> bool" where
  "saw H h h' p c \<longleftrightarrow> (\<exists>h1 h2. h' = h @ h1 @ PlRead p # h2 \<and> ph_Read H (h @ h1) p = Inr c)"

lemma saw_later: "saw H h h' p c \<Longrightarrow> saw H h (h' @ cs) p c"
  unfolding saw_def by (metis append.assoc append_Cons)

lemma saw_earlier: "saw H (h @ cs) h' p c \<Longrightarrow> saw H h h' p c"
  unfolding saw_def by (metis append.assoc)

lemma saw_now: "ph_Read H h p = Inr c \<Longrightarrow> saw H h (h @ [PlRead p]) p c"
  by (auto simp: saw_def intro: exI [of _ "[]"])

definition reading :: "plugin_call \<Rightarrow> bool" where
  "reading c \<longleftrightarrow> (\<exists>p. c = PlOpen p \<or> c = PlRead p)"

lemma keeps_reading: "keeps (calls_in reading) (pl_open H p)" "keeps (calls_in reading) (pl_read H p)"
  unfolding pl_open_def pl_read_def by (intro keeps_host_call; simp add: reading_def)+

lemma keeps_hashed: "keeps (calls_in reading) (hashed H p)"
  unfolding hashed_def by (intro calls.keeps_bind calls.keeps_return keeps_reading keeps_option)

lemma keeps_key_case:
  "\<lbrakk>\<And>x. keeps R (a x); \<And>x. keeps R (b x); \<And>x. keeps R (c x); \<And>x. keeps R (d x)\<rbrakk> \<Longrightarrow>
   keeps R (case k of KeyECDSA x \<Rightarrow> a x | KeyEd25519 x \<Rightarrow> b x | KeyRSA x \<Rightarrow> c x | KeyOther x \<Rightarrow> d x)"
  by (cases k) auto

lemma keeps_verify: "keeps (calls_in reading) (VerifyArtifact H p pin)"
  unfolding VerifyArtifact_def VerifyBinary_def verifyCosignSignature_def Let_def
  by (intro calls.keeps_bind calls.keeps_return keeps_reading keeps_hashed keeps_option keeps_sum keeps_if keeps_key_case)

lemma hashed_saw:
  assumes "run_state (hashed H p) h = (Inr d, h')"
  shows "\<exists>c. saw H h h' p c \<and> d = ph_SHA256 H c"
proof -
  from assms obtain c where "ph_Read H (h @ [PlOpen p]) p = Inr c" "d = ph_SHA256 H c" "h' = (h @ [PlOpen p]) @ [PlRead p]"
    by (cases "ph_Read H (h @ [PlOpen p]) p") (auto simp: hashed_def run_state_simps pl_runs split: option.splits)
  then show ?thesis using saw_earlier [OF saw_now] by blast
qed

definition pinned :: "plugin_env \<Rightarrow> string \<Rightarrow> plugin_call list \<Rightarrow> plugin_call list \<Rightarrow> string \<Rightarrow> bool" where
  "pinned H pin h h' p \<longleftrightarrow> pin \<noteq> [] \<and> (\<exists>c. saw H h h' p c \<and> EqualFold (hex_EncodeToString (ph_SHA256 H c)) pin)"

fun sig_ok :: "plugin_env \<Rightarrow> cosign_key \<Rightarrow> string \<Rightarrow> string \<Rightarrow> bool" where
  "sig_ok H (KeyECDSA k) c sig = ph_ECDSA H k (ph_SHA256 H c) sig"
| "sig_ok H (KeyEd25519 k) c sig = ph_Ed25519 H k c sig"
| "sig_ok H (KeyRSA k) c sig = (ph_RSA H k (ph_SHA256 H c) sig = None)"
| "sig_ok H (KeyOther k) c sig = False"

definition signed_by_key :: "plugin_env \<Rightarrow> plugin_call list \<Rightarrow> plugin_call list \<Rightarrow> string \<Rightarrow> bool" where
  "signed_by_key H h h' p \<longleftrightarrow>
     (\<exists>pem k s64 sig c. saw H h h' (filepath_Clean (ph_Getenv H ''ROLLOPS_PLUGIN_PUBLIC_KEY'')) pem \<and> parsePublicKey H pem = Inr k \<and>
        saw H h h' (p @ ''.sig'') s64 \<and> ph_Base64 H (strings_TrimSpace s64) = Inr sig \<and> saw H h h' p c \<and> sig_ok H k c sig)"

definition vetted :: "plugin_env \<Rightarrow> string \<Rightarrow> plugin_call list \<Rightarrow> plugin_call list \<Rightarrow> string \<Rightarrow> bool" where
  "vetted H pin h h' p \<longleftrightarrow> pinned H pin h h' p \<and> (ph_Getenv H ''ROLLOPS_PLUGIN_PUBLIC_KEY'' \<noteq> [] \<longrightarrow> signed_by_key H h h' p)"

lemma vetted_mono: "vetted H pin (h @ cs) h' p \<Longrightarrow> vetted H pin h (h' @ ds) p"
  unfolding vetted_def pinned_def signed_by_key_def by (meson saw_earlier saw_later)

lemma VerifyBinary_pinned: "run_state (VerifyBinary H p pin) h = (None, h') \<Longrightarrow> pinned H pin h h' p"
  unfolding VerifyBinary_def pinned_def
  by (auto simp: run_state_simps split: if_splits sum.splits prod.splits dest: hashed_saw)

lemma verifyCosign_ok:
  assumes "run_state (verifyCosignSignature H p s64 pem) h = (None, h')"
  shows "\<exists>k sig c. parsePublicKey H pem = Inr k \<and> ph_Base64 H (strings_TrimSpace s64) = Inr sig \<and> saw H h h' p c \<and> sig_ok H k c sig"
proof -
  obtain k sig where k: "parsePublicKey H pem = Inr k" "ph_Base64 H (strings_TrimSpace s64) = Inr sig"
    using assms by (auto simp: verifyCosignSignature_def run_state_simps split: sum.splits)
  obtain d h1 where d: "run_state (hashed H p) h = (Inr d, h1)"
    using assms k by (auto simp: verifyCosignSignature_def run_state_simps split: sum.splits prod.splits)
  then obtain c where c: "saw H h h1 p c" "d = ph_SHA256 H c" using hashed_saw by blast
  have "\<exists>c'. saw H h h' p c' \<and> sig_ok H k c' sig"
  proof (cases k)
    case (KeyEd25519 x)
    then obtain c' where "ph_Read H (h1 @ [PlOpen p]) p = Inr c'" "ph_Ed25519 H x c' sig" "h' = (h1 @ [PlOpen p]) @ [PlRead p]"
      using assms k d by (auto simp: verifyCosignSignature_def run_state_simps pl_runs split: option.splits sum.splits if_splits)
    moreover obtain cs where "h1 = h @ cs" using c(1) by (auto simp: saw_def)
    ultimately have "saw H h h' p c'" using saw_now [of H "h1 @ [PlOpen p]" p c'] saw_earlier by (metis append.assoc)
    then show ?thesis using KeyEd25519 \<open>ph_Ed25519 H x c' sig\<close> by auto
  qed (use assms k d c in \<open>auto simp: verifyCosignSignature_def run_state_simps split: if_splits option.splits\<close>)
  then show ?thesis using k by blast
qed

lemma VerifyArtifact_vetted:
  assumes "run_state (VerifyArtifact H p pin) h = (None, h')"
  shows "vetted H pin h h' p"
proof -
  let ?key = "ph_Getenv H ''ROLLOPS_PLUGIN_PUBLIC_KEY''"
  obtain h1 where b: "run_state (VerifyBinary H p pin) h = (None, h1)"
    using assms by (cases "run_state (VerifyBinary H p pin) h") (auto simp: VerifyArtifact_def run_state_simps split: option.splits)
  obtain c where c: "saw H h h1 p c" using VerifyBinary_pinned [OF b] by (auto simp: pinned_def)
  then obtain cs where cs: "h1 = h @ cs" by (auto simp: saw_def)
  show ?thesis
  proof (cases "?key = []")
    case True
    then have "h' = h1" using assms b by (simp add: VerifyArtifact_def run_state_simps)
    then show ?thesis using True VerifyBinary_pinned [OF b] by (simp add: vetted_def)
  next
    case False
    let ?h2 = "h1 @ [PlRead (filepath_Clean ?key)]"
    let ?h3 = "?h2 @ [PlRead (p @ ''.sig'')]"
    obtain pem s64 where r: "ph_Read H h1 (filepath_Clean ?key) = Inr pem" "ph_Read H ?h2 (p @ ''.sig'') = Inr s64"
      "run_state (verifyCosignSignature H p s64 pem) ?h3 = (None, h')"
      using assms b False by (auto simp: VerifyArtifact_def run_state_simps Let_def pl_runs split: if_splits sum.splits)
    obtain k sig c' where v: "parsePublicKey H pem = Inr k" "ph_Base64 H (strings_TrimSpace s64) = Inr sig" "saw H ?h3 h' p c'" "sig_ok H k c' sig"
      using verifyCosign_ok [OF r(3)] by blast
    obtain ds where ds: "h' = ?h3 @ ds" using v(3) by (auto simp: saw_def)
    have "saw H h h' (filepath_Clean ?key) pem"
      using saw_later [OF saw_now [OF r(1)], of "[PlRead (p @ ''.sig'')] @ ds"] cs ds saw_earlier by simp
    moreover have "saw H h h' (p @ ''.sig'') s64"
      using saw_later [OF saw_now [OF r(2)], of ds] cs ds saw_earlier by simp
    moreover have "saw H h h' p c'" using v(3) cs saw_earlier by simp
    moreover have "pinned H pin h h' p"
      using VerifyBinary_pinned [OF b] saw_later ds unfolding pinned_def by (metis append.assoc)
    ultimately show ?thesis using v unfolding vetted_def signed_by_key_def by blast
  qed
qed

fun is_start :: "plugin_call \<Rightarrow> bool" where
  "is_start (PlStart p env) = True"
| "is_start _ = False"

lemma no_start: "list_all (\<lambda>c. \<not> is_start c) cs \<Longrightarrow> cs \<noteq> h1 @ PlStart p env # h2"
  by auto

lemma one_start:
  assumes "pre @ a # post = h1 @ b # h2" "is_start a" "is_start b" "list_all (\<lambda>c. \<not> is_start c) pre" "list_all (\<lambda>c. \<not> is_start c) post"
  shows "h1 = pre \<and> b = a \<and> h2 = post"
proof -
  have "h1 = pre"
  proof (rule ccontr)
    assume "h1 \<noteq> pre"
    with assms(1) consider us where "us \<noteq> []" "pre = h1 @ us" "us @ a # post = b # h2" | us where "us \<noteq> []" "h1 = pre @ us" "a # post = us @ b # h2"
      by (auto simp: append_eq_append_conv2)
    then show False
    proof cases
      case 1
      then have "b \<in> set pre" by (cases us) auto
      then show False using assms(3,4) by (auto simp: list_all_iff)
    next
      case 2
      then have "b \<in> set post" by (cases us) auto
      then show False using assms(3,5) by (auto simp: list_all_iff)
    qed
  qed
  then show ?thesis using assms(1) by simp
qed

abbreviation plugin_env_of :: "plugin_env \<Rightarrow> string list" where
  "plugin_env_of H \<equiv> ConfineEnv (env_list (ph_Getenv H ''ROLLOPS_PLUGIN_ALLOWED_ENV'')) (ph_Environ H)"

text \<open>A launch starts one process at most, and on an error kills what it started.\<close>

definition launched :: "plugin_env \<Rightarrow> string \<Rightarrow> string list \<Rightarrow> plugin_call list \<Rightarrow> err option \<Rightarrow> plugin_call list \<Rightarrow> bool" where
  "launched H p env h r h' \<longleftrightarrow>
     (\<exists>post. h' = h @ [PlPipe, PlPipe] @ PlStart p env # post \<and> list_all (\<lambda>c. \<not> is_start c) post \<and>
        (r \<noteq> None \<and> ph_Start H (h @ [PlPipe, PlPipe]) = None \<longrightarrow> PlKillGroup \<in> set post) \<and>
        (r = None \<longrightarrow> PlKillGroup \<notin> set post \<and> ph_Start H (h @ [PlPipe, PlPipe]) = None)) \<or>
     r \<noteq> None \<and> (\<exists>post. h' = h @ post \<and> list_all (\<lambda>c. \<not> is_start c) post)"

lemma launched_started:
  assumes "h' = h @ [PlPipe, PlPipe, PlStart p env] @ post" "list_all (\<lambda>c. \<not> is_start c) post"
    "r \<noteq> None \<and> ph_Start H (h @ [PlPipe, PlPipe]) = None \<Longrightarrow> PlKillGroup \<in> set post"
    "r = None \<Longrightarrow> PlKillGroup \<notin> set post \<and> ph_Start H (h @ [PlPipe, PlPipe]) = None"
  shows "launched H p env h r h'"
  using assms unfolding launched_def by (intro disjI1 exI [of _ post]) auto

lemma run_killLaunch: "run_state killLaunch h = ((), h @ [PlCloseStdin, PlKill, PlKillGroup])"
  by (simp add: killLaunch_def run_state_simps pl_runs)

lemma Launch_launched:
  assumes "run_state (Launch H p allowed) h = (r, h')"
  shows "launched H p (ConfineEnv allowed (ph_Environ H)) h r h'"
proof -
  let ?env = "ConfineEnv allowed (ph_Environ H)" and ?h2 = "h @ [PlPipe, PlPipe]"
  let ?h3 = "?h2 @ [PlStart p ?env]"
  let ?out = "ph_Stdout H ?h3"
  show ?thesis
  proof (cases "ph_Pipe H h = None \<and> ph_Pipe H (h @ [PlPipe]) = None")
    case False
    then show ?thesis
      using assms by (auto simp: Launch_def run_state_simps run_host_call launched_def split: option.splits)
  next
    case pipes: True
    show ?thesis
    proof (cases "ph_Start H ?h2")
      case (Some e)
      then have "h' = h @ [PlPipe, PlPipe, PlStart p ?env] @ []" "r \<noteq> None"
        using assms pipes by (auto simp: Launch_def run_state_simps run_host_call buildPluginEnv_def)
      then show ?thesis using Some by (intro launched_started [where post = "[]"]) auto
    next
      case None
      have "(\<exists>e post. r = Some e \<and> h' = ?h3 @ post @ [PlCloseStdin, PlKill, PlKillGroup] \<and> list_all (\<lambda>c. \<not> is_start c) post) \<or>
        r = None \<and> (\<exists>a. h' = ?h3 @ [PlStdout, PlDial a])"
        using assms pipes None
        by (auto simp: Launch_def run_state_simps run_host_call run_killLaunch buildPluginEnv_def split: sum.splits option.splits)
      then show ?thesis
      proof
        assume "\<exists>e post. r = Some e \<and> h' = ?h3 @ post @ [PlCloseStdin, PlKill, PlKillGroup] \<and> list_all (\<lambda>c. \<not> is_start c) post"
        then obtain e post where "r = Some e" "h' = h @ [PlPipe, PlPipe, PlStart p ?env] @ post @ [PlCloseStdin, PlKill, PlKillGroup]"
          "list_all (\<lambda>c. \<not> is_start c) post" by auto
        then show ?thesis by (intro launched_started [where post = "post @ [PlCloseStdin, PlKill, PlKillGroup]"]) auto
      next
        assume "r = None \<and> (\<exists>a. h' = ?h3 @ [PlStdout, PlDial a])"
        then obtain a where "r = None" "h' = h @ [PlPipe, PlPipe, PlStart p ?env] @ [PlStdout, PlDial a]" by auto
        then show ?thesis using None by (intro launched_started [where post = "[PlStdout, PlDial a]"]) auto
      qed
    qed
  qed
qed

lemma run_closing:
  "\<exists>post. run_state (closing H e) h = (Inl e, h @ post @ [PlKillGroup]) \<and> list_all (\<lambda>c. \<not> is_start c) post"
  by (cases "ph_Exits H (h @ [PlCloseConn, PlCloseStdin])") (auto simp: closing_def Process_Close_def run_state_simps pl_runs run_host_call)

lemma admission_cases:
  assumes "run_state (admission H ctx cap) h = (r, h')"
  shows "\<exists>post. h' = h @ post \<and> list_all (\<lambda>c. \<not> is_start c) post \<and>
    (is_err r \<longrightarrow> PlKillGroup \<in> set post) \<and>
    (\<forall>m. r = Inr m \<longrightarrow> post = [PlManifest] \<and> plugin_Validate (DefaultPolicy (ph_Getenv H)) m = None \<and> HasCapability m cap)"
proof -
  let ?h = "h @ [PlManifest]"
  have "(\<exists>m. r = Inr m \<and> h' = ?h \<and> plugin_Validate (DefaultPolicy (ph_Getenv H)) m = None \<and> HasCapability m cap) \<or>
      (\<exists>e. run_state (closing H e) ?h = (r, h'))"
    using assms by (cases "ph_Manifest H h") (auto simp: admission_def Client_Manifest_def run_state_simps run_host_call split: option.splits if_splits)
  then show ?thesis
  proof
    assume "\<exists>e. run_state (closing H e) ?h = (r, h')"
    then obtain e post where "r = Inl e" "h' = h @ ([PlManifest] @ post @ [PlKillGroup])" "list_all (\<lambda>c. \<not> is_start c) post"
      using run_closing by (metis append.assoc prod.inject)
    then show ?thesis by (intro exI [of _ "[PlManifest] @ post @ [PlKillGroup]"]) auto
  qed auto
qed

lemma launched_then_admitted:
  assumes "launched H p (plugin_env_of H) hv l hl"
    and "if l = None then run_state (admission H ctx cap) hl = (r, h') else h' = hl \<and> is_err r"
    and "hv = (h @ [PlResolve binary]) @ cs" "list_all (\<lambda>c. \<not> is_start c) cs" "\<And>ds. vetted H pin h (hv @ ds) p"
  shows "(\<forall>h1 p env h2. h' = h @ h1 @ PlStart p env # h2 \<longrightarrow>
      vetted H pin h (h @ h1) p \<and> env = plugin_env_of H \<and> (is_err r \<and> ph_Start H (h @ h1) = None \<longrightarrow> PlKillGroup \<in> set h2)) \<and>
    (\<forall>m. r = Inr m \<longrightarrow> plugin_Validate (DefaultPolicy (ph_Getenv H)) m = None \<and> HasCapability m cap \<and>
      (\<exists>h1 p env h2. h' = h @ h1 @ PlStart p env # h2 \<and> ph_Start H (h @ h1) = None \<and> PlKillGroup \<notin> set h2))"
proof (cases "\<exists>post. hl = hv @ post \<and> l \<noteq> None \<and> list_all (\<lambda>c. \<not> is_start c) post")
  case True
  then obtain post where "h' = h @ ([PlResolve binary] @ cs @ post)" "is_err r" "list_all (\<lambda>c. \<not> is_start c) post"
    using assms(2,3) by auto
  moreover from this have "[PlResolve binary] @ cs @ post \<noteq> h1 @ PlStart q env # h2" for h1 q env h2
    using assms(4) by (intro no_start) simp
  ultimately show ?thesis by (auto simp: is_err_def)
next
  case False
  let ?pre = "[PlResolve binary] @ cs @ [PlPipe, PlPipe]" and ?st = "PlStart p (plugin_env_of H)"
  from False assms(1) obtain post where post: "hl = h @ ?pre @ ?st # post" "list_all (\<lambda>c. \<not> is_start c) post"
    "l \<noteq> None \<and> ph_Start H (h @ ?pre) = None \<longrightarrow> PlKillGroup \<in> set post"
    "l = None \<longrightarrow> PlKillGroup \<notin> set post \<and> ph_Start H (h @ ?pre) = None"
    unfolding launched_def assms(3) by auto
  obtain tail where t: "h' = h @ ?pre @ ?st # tail" "list_all (\<lambda>c. \<not> is_start c) tail"
    "is_err r \<and> ph_Start H (h @ ?pre) = None \<longrightarrow> PlKillGroup \<in> set tail"
    "\<forall>m. r = Inr m \<longrightarrow> plugin_Validate (DefaultPolicy (ph_Getenv H)) m = None \<and> HasCapability m cap \<and>
       ph_Start H (h @ ?pre) = None \<and> PlKillGroup \<notin> set tail"
  proof (cases l)
    case None
    then have "run_state (admission H ctx cap) hl = (r, h')" using assms(2) by simp
    from admission_cases [OF this] obtain post2 where p2: "h' = hl @ post2" "list_all (\<lambda>c. \<not> is_start c) post2" "is_err r \<longrightarrow> PlKillGroup \<in> set post2"
      "\<forall>m. r = Inr m \<longrightarrow> post2 = [PlManifest] \<and> plugin_Validate (DefaultPolicy (ph_Getenv H)) m = None \<and> HasCapability m cap"
      by (elim exE conjE)
    have "PlKillGroup \<notin> set (post @ post2)" if "r = Inr m" for m using that p2(4) post(4) None by auto
    moreover have "PlKillGroup \<in> set (post @ post2)" if "is_err r" using that p2(3) by simp
    ultimately show ?thesis using None post p2 by (intro that [of "post @ post2"]) simp_all
  next
    case (Some e)
    then have "h' = hl" "\<forall>m. r \<noteq> Inr m" using assms(2) by (auto simp: is_err_def)
    then show ?thesis using that [of post] post Some by simp
  qed
  have u: "h1 = ?pre \<and> PlStart q env = ?st \<and> h2 = tail" if "h' = h @ h1 @ PlStart q env # h2" for h1 q env h2
  proof (rule one_start)
    show "?pre @ ?st # tail = h1 @ PlStart q env # h2" using that t(1) by simp
  qed (simp_all add: assms(4) t(2))
  have "vetted H pin h (h @ ?pre) p" using assms(5) [of "[PlPipe, PlPipe]"] assms(3) by simp
  then show ?thesis using u t by blast
qed

text \<open>
  C24: what is known of a plugin. Every process a builder starts is a binary whose content, read by the host
  before, has the pinned digest, and carries a signature of the configured key when there is one; its
  environment is the confined one. When the builder answers with a plugin, the manifest passed the policy
  and declares the capability asked for, and the process was not killed; when it answers with an error, a
  process it had started has been killed with its group.
\<close>

theorem plugin_admitted:
  assumes "run_state (build_plugin H resolving ctx binary pin cap) h = (r, h')"
  shows "(\<forall>h1 p env h2. h' = h @ h1 @ PlStart p env # h2 \<longrightarrow>
      vetted H pin h (h @ h1) p \<and> env = plugin_env_of H \<and> (is_err r \<and> ph_Start H (h @ h1) = None \<longrightarrow> PlKillGroup \<in> set h2)) \<and>
    (\<forall>m. r = Inr m \<longrightarrow> plugin_Validate (DefaultPolicy (ph_Getenv H)) m = None \<and> HasCapability m cap \<and>
      (\<exists>h1 p env h2. h' = h @ h1 @ PlStart p env # h2 \<and> ph_Start H (h @ h1) = None \<and> PlKillGroup \<notin> set h2))"
proof -
  let ?h1 = "h @ [PlResolve binary]"
  have quiet: ?thesis if "h' = h @ cs" "list_all (\<lambda>c. \<not> is_start c) cs" "is_err r" for cs
    using that no_start [OF that(2)] by (auto simp: is_err_def)
  show ?thesis
  proof (cases "ph_EvalSymlinks H h binary")
    case (Inl e)
    then have "h' = h @ [PlResolve binary]" "is_err r" using assms by (auto simp: build_plugin_def run_state_simps run_host_call)
    then show ?thesis by (intro quiet [where cs = "[PlResolve binary]"]) auto
  next
    case (Inr p)
    obtain v hv where v: "run_state (VerifyArtifact H p pin) ?h1 = (v, hv)" by fastforce
    obtain cs where cs: "hv = ?h1 @ cs" "list_all reading cs" using keepsD [OF keeps_verify v] by (auto simp: calls_in_def)
    then have ns: "list_all (\<lambda>c. \<not> is_start c) cs" by (auto simp: list_all_iff reading_def)
    show ?thesis
    proof (cases v)
      case (Some e)
      then have "h' = h @ ([PlResolve binary] @ cs)" "is_err r" using assms Inr v cs by (auto simp: build_plugin_def run_state_simps run_host_call)
      then show ?thesis using ns by (intro quiet [where cs = "[PlResolve binary] @ cs"]) auto
    next
      case None
      have vet: "vetted H pin h (hv @ ds) p" for ds using vetted_mono VerifyArtifact_vetted [OF v [unfolded None]] by blast
      obtain l hl where l: "run_state (Launch H p (env_list (ph_Getenv H ''ROLLOPS_PLUGIN_ALLOWED_ENV''))) hv = (l, hl)" by fastforce
      have rest: "if l = None then run_state (admission H ctx cap) hl = (r, h') else h' = hl \<and> is_err r"
        using assms Inr v None l by (auto simp: build_plugin_def run_state_simps run_host_call DefaultPolicy_def split: option.splits)
      show ?thesis
        by (rule launched_then_admitted [OF Launch_launched [OF l] rest cs(1) ns vet])
    qed
  qed
qed

definition demo_penv :: plugin_env where
  "demo_penv =
     \<lparr>ph_EvalSymlinks = (\<lambda>_ p. Inr p), ph_Open = (\<lambda>_ _. None),
      ph_Read = (\<lambda>_ p. if p = ''/etc/key.pem'' then Inr ''KEY'' else Inr ''bin''),
      ph_Pipe = (\<lambda>_. None), ph_Start = (\<lambda>_. None),
      ph_Stdout = (\<lambda>_. (Answered, PipeOpen, Line \<lparr>hk_ProtocolVersion = 1, hk_Cookie = Cookie, hk_Addr = ''/tmp/s''\<rparr> @ [CHR 0x0A])),
      ph_Dial = (\<lambda>_. None), ph_Manifest = (\<lambda>_. Inr (manifestToProto (demo_manifest_of RiskActive))), ph_Exits = (\<lambda>_. True),
      ph_Environ = [''PATH=/bin'', ''AWS_REGION=eu'', ''TOKEN=secret''],
      ph_Getenv = (\<lambda>k. if k = ''ROLLOPS_PLUGIN_ALLOWED_ENV'' then ''AWS_REGION'' else if k = ''ROLLOPS_PLUGIN_PUBLIC_KEY'' then ''/etc/key.pem'' else []),
      ph_SHA256 = (\<lambda>c. c), ph_Base64 = Inr, ph_Pem = Some, ph_Pkix = (\<lambda>b. Inr (KeyECDSA b)),
      ph_ECDSA = (\<lambda>k d sig. k = ''KEY'' \<and> sig = d), ph_Ed25519 = (\<lambda>_ _ _. False), ph_RSA = (\<lambda>_ _ _. None)\<rparr>"

definition demo_calls :: "plugin_call list" where
  "demo_calls = [PlResolve ''/opt/p'', PlOpen ''/opt/p'', PlRead ''/opt/p'', PlRead ''/etc/key.pem'', PlRead ''/opt/p.sig'', PlOpen ''/opt/p'', PlRead ''/opt/p'',
     PlPipe, PlPipe]"

theorem plugin_admitted_witness:
  "\<exists>m h2. run_state (build_plugin demo_penv ''resolve'' ''plugin'' ''/opt/p'' ''62696E'' ''target'') [] =
       (Inr m, demo_calls @ PlStart ''/opt/p'' [''PATH=/bin'', ''AWS_REGION=eu''] # h2) \<and>
     vetted demo_penv ''62696E'' [] demo_calls ''/opt/p'' \<and> plugin_Validate (DefaultPolicy (ph_Getenv demo_penv)) m = None \<and> HasCapability m ''target''"
proof -
  let ?h2 = "[PlStdout, PlDial ''unix:///tmp/s'', PlManifest]" and ?m = "demo_manifest_of RiskActive"
  have r: "run_state (build_plugin demo_penv ''resolve'' ''plugin'' ''/opt/p'' ''62696E'' ''target'') [] =
      (Inr ?m, demo_calls @ PlStart ''/opt/p'' [''PATH=/bin'', ''AWS_REGION=eu''] # ?h2)" by code_simp
  have "vetted demo_penv ''62696E'' [] demo_calls ''/opt/p''"
    using conjunct1 [OF plugin_admitted [OF r], rule_format, of demo_calls "''/opt/p''" "[''PATH=/bin'', ''AWS_REGION=eu'']" ?h2] by simp
  moreover have "plugin_Validate (DefaultPolicy (ph_Getenv demo_penv)) ?m = None \<and> HasCapability ?m ''target''"
    using conjunct2 [OF plugin_admitted [OF r], rule_format, of ?m] by simp
  ultimately show ?thesis using r by blast
qed

text \<open>The four builders hand on only what \<open>build_plugin\<close> hands on.\<close>

lemma builders_build:
  "run_state (plugin_Build H ref sp) h = (Inr m, h') \<Longrightarrow> \<exists>rs ctx. run_state (build_plugin H rs ctx (spec_str sp ''binary'') (spec_str sp ''sha256'') ''target'') h = (Inr m, h')"
  "run_state (BuildProvider H (Some ff)) h = (Inr m, h') \<Longrightarrow> \<exists>rs ctx. run_state (build_plugin H rs ctx (ff_Plugin ff) (ff_SHA256 ff) ''featureflag'') h = (Inr m, h')"
  "run_state (metric_Build H (Some an)) h = (Inr m, h') \<Longrightarrow> \<exists>rs ctx. run_state (build_plugin H rs ctx (an_Plugin an) (an_SHA256 an) ''metricprovider'') h = (Inr m, h')"
  unfolding plugin_Build_def BuildProvider_def metric_Build_def Let_def
  by (auto simp: run_state_simps split: if_splits)

lemma router_build:
  assumes "run_state (BuildRouter H (Some tr)) h = (Inr (PluginRouter m), h')"
  shows "\<exists>rs ctx. run_state (build_plugin H rs ctx (tr_Plugin tr) (tr_SHA256 tr) ''trafficrouter'') h = (Inr m, h')"
proof -
  let ?b = "build_plugin H ''trafficrouting: resolve plugin'' ''trafficrouting'' (tr_Plugin tr) (tr_SHA256 tr) ''trafficrouter''"
  obtain r h1 where r: "run_state ?b h = (r, h1)" by fastforce
  with assms have "map_sum id PluginRouter r = Inr (PluginRouter m)" "h1 = h'"
    by (auto simp: BuildRouter_def run_state_simps split: if_splits)
  then have "r = Inr m" by (cases r) auto
  then show ?thesis using r \<open>h1 = h'\<close> by blast
qed

end
