(* ===== verification/Traffic.thy ===== *)
theory Traffic
  imports Plugin Kube_Render
begin

text \<open>
  Shifting traffic and flags with a canary: the hooks of \<^verbatim>\<open>internal/trafficrouting/trafficrouting.go\<close> and
  \<^verbatim>\<open>internal/featureflags/featureflags.go\<close>, and the built-in router over the Gateway API,
  \<open>trafficrouting/gateway.go\<close>. The cluster is the \<open>host\<close> of theory \<open>Kube_Render\<close>; decoding a route to the
  names of its backends, rule by rule, and encoding a patch are parameters.
\<close>

section \<open>The hooks\<close>

definition traffic_Hook :: "(traffic_change \<Rightarrow> ('s, err option) state) option \<Rightarrow> traffic_change \<Rightarrow> ('s, err option) state" where
  "traffic_Hook router c = (case router of
     None \<Rightarrow> State_Monad.return None
   | Some setWeight \<Rightarrow>
       if tf_Route c = [] then State_Monad.return (Some (Err ''trafficrouting: route is required''))
       else if tf_Weight c < 0 \<or> tf_Weight c > 100 then State_Monad.return (Some (Err ''trafficrouting: weight must be between 0 and 100''))
       else setWeight c)"

definition flag_Hook :: "(flag_change \<Rightarrow> ('s, err option) state) option \<Rightarrow> flag_change \<Rightarrow> ('s, err option) state" where
  "flag_Hook provider c = (case provider of
     None \<Rightarrow> State_Monad.return None
   | Some applyFlag \<Rightarrow>
       if fg_Flag c = [] then State_Monad.return (Some (Err ''featureflags: flag is required''))
       else if fg_Percentage c < 0 \<or> fg_Percentage c > 100 then State_Monad.return (Some (Err ''featureflags: percentage must be between 0 and 100''))
       else applyFlag c)"

section \<open>The Gateway API router\<close>

record gateway =
  gw_kubeconfig :: string
  gw_context :: string

type_synonym patch_op = "string \<times> int"

record gateway_lib =
  gl_Route :: "string \<Rightarrow> string list list res"
  gl_Patch :: "patch_op list \<Rightarrow> string res"

definition gateway_baseArgs :: "gateway \<Rightarrow> string list" where
  "gateway_baseArgs r = opt_flag ''--kubeconfig'' (gw_kubeconfig r) @ opt_flag ''--context'' (gw_context r)"

definition gateway_kubectl :: "host \<Rightarrow> gateway \<Rightarrow> string list \<Rightarrow> string res hprog" where
  "gateway_kubectl H r args = do {
     a \<leftarrow> host_call H (Exec ''kubectl'' None (gateway_baseArgs r @ args));
     State_Monad.return (case a of
         (out, None) \<Rightarrow> Inr out
       | (_, Some f) \<Rightarrow> Inl (Err (''kubectl '' @ strings_Join args '' '' @ '': '' @ ff_Err f @ '': '' @ strings_TrimSpace (ff_Stderr f))))
   }"

definition weight_for :: "traffic_change \<Rightarrow> string \<Rightarrow> int option" where
  "weight_for c name =
     (if name = tf_CanaryService c then Some (tf_Weight c)
      else if name = tf_StableService c then Some (100 - tf_Weight c)
      else None)"

definition weight_path :: "nat \<Rightarrow> nat \<Rightarrow> string" where
  "weight_path ri bi = ''/spec/rules/'' @ utoa ri @ ''/backendRefs/'' @ utoa bi @ ''/weight''"

text \<open>The two nested loops over the indices; every operation is an \<open>add\<close>.\<close>

definition gateway_ops :: "traffic_change \<Rightarrow> string list list \<Rightarrow> patch_op list" where
  "gateway_ops c rules =
     concat (map (\<lambda>ri.
       concat (map (\<lambda>bi. case weight_for c (rules ! ri ! bi) of None \<Rightarrow> [] | Some w \<Rightarrow> [(weight_path ri bi, w)]) [0..<length (rules ! ri)]))
       [0..<length rules])"

definition get_route :: "traffic_change \<Rightarrow> string list" where
  "get_route c = [''get'', ''httproute'', tf_Route c, ''-n'', tf_Namespace c, ''-o'', ''json'']"

definition patch_route :: "traffic_change \<Rightarrow> string \<Rightarrow> string list" where
  "patch_route c body = [''patch'', ''httproute'', tf_Route c, ''-n'', tf_Namespace c, ''--type=json'', ''-p'', body]"

definition gateway_SetWeight :: "gateway_lib \<Rightarrow> host \<Rightarrow> gateway \<Rightarrow> traffic_change \<Rightarrow> err option hprog" where
  "gateway_SetWeight L H r c = do {
     raw \<leftarrow> gateway_kubectl H r (get_route c);
     (case raw of
        Inl e \<Rightarrow> State_Monad.return (Some (Wrap ''trafficrouting: gateway: get httproute'' e))
      | Inr raw \<Rightarrow>
          (case gl_Route L raw of
             Inl e \<Rightarrow> State_Monad.return (Some (Wrap ''trafficrouting: gateway: parse httproute'' e))
           | Inr rules \<Rightarrow>
               if gateway_ops c rules = []
               then State_Monad.return (Some (Err (''trafficrouting: gateway: httproute '' @ tf_Namespace c @ ''/'' @ tf_Route c @
                      '' has no backendRefs named '' @ tf_StableService c @ '' or '' @ tf_CanaryService c)))
               else (case gl_Patch L (gateway_ops c rules) of
                   Inl e \<Rightarrow> State_Monad.return (Some e)
                 | Inr body \<Rightarrow> do {
                     p \<leftarrow> gateway_kubectl H r (patch_route c body);
                     State_Monad.return (case p of
                         Inl e \<Rightarrow> Some (Wrap ''trafficrouting: gateway: patch weights'' e)
                       | Inr _ \<Rightarrow> None)
                   })))
   }"

section \<open>What a shift does\<close>

lemma gateway_ops_iff:
  "(p, w) \<in> set (gateway_ops c rules) \<longleftrightarrow>
     (\<exists>ri bi. ri < length rules \<and> bi < length (rules ! ri) \<and> p = weight_path ri bi \<and> weight_for c (rules ! ri ! bi) = Some w)"
proof -
  have one: "(p, w) \<in> set (case weight_for c n of None \<Rightarrow> [] | Some w \<Rightarrow> [(q, w)]) \<longleftrightarrow> p = q \<and> weight_for c n = Some w" for n q
    by (auto split: option.splits)
  show ?thesis by (simp add: gateway_ops_def one) (metis (full_types) atLeast0LessThan lessThan_iff)
qed

lemma run_gateway_kubectl:
  obtains a where "run_state (gateway_kubectl H r args) h = (a, h @ [Exec ''kubectl'' None (gateway_baseArgs r @ args)])"
    "\<And>raw. a = Inr raw \<Longrightarrow> H h (Exec ''kubectl'' None (gateway_baseArgs r @ args)) = (raw, None)"
  by (cases "H h (Exec ''kubectl'' None (gateway_baseArgs r @ args))", cases "snd (H h (Exec ''kubectl'' None (gateway_baseArgs r @ args)))")
    (auto simp: gateway_kubectl_def run_state_simps run_host_call)

lemma gateway_cases:
  fixes g c
  defines "get \<equiv> Exec ''kubectl'' None (gateway_baseArgs g @ get_route c)"
    and "patch \<equiv> \<lambda>body. Exec ''kubectl'' None (gateway_baseArgs g @ patch_route c body)"
  assumes run: "run_state (gateway_SetWeight L H g c) h = (r, h')"
  shows "(r \<noteq> None \<and> h' = h @ [get]) \<or>
    (\<exists>raw rules body. H h get = (raw, None) \<and> gl_Route L raw = Inr rules \<and> gl_Patch L (gateway_ops c rules) = Inr body \<and>
       gateway_ops c rules \<noteq> [] \<and> h' = h @ [get, patch body])"
proof -
  obtain a where a: "run_state (gateway_kubectl H g (get_route c)) h = (a, h @ [get])" "\<And>raw. a = Inr raw \<Longrightarrow> H h get = (raw, None)"
    using run_gateway_kubectl [of H g "get_route c" h] unfolding get_def by metis
  show ?thesis
  proof (cases "\<exists>raw rules body. a = Inr raw \<and> gl_Route L raw = Inr rules \<and> gateway_ops c rules \<noteq> [] \<and> gl_Patch L (gateway_ops c rules) = Inr body")
    case True
    then obtain raw rules body where t: "a = Inr raw" "gl_Route L raw = Inr rules" "gateway_ops c rules \<noteq> []" "gl_Patch L (gateway_ops c rules) = Inr body"
      by blast
    obtain b where "run_state (gateway_kubectl H g (patch_route c body)) (h @ [get]) = (b, (h @ [get]) @ [patch body])"
      using run_gateway_kubectl [of H g "patch_route c body" "h @ [get]"] unfolding patch_def by metis
    then have "h' = h @ [get, patch body]" using run a(1) t by (simp add: gateway_SetWeight_def run_state_simps)
    then show ?thesis using t a(2) by blast
  next
    case False
    then have "r \<noteq> None \<and> h' = h @ [get]"
      using run a(1) by (auto simp: gateway_SetWeight_def run_state_simps split: sum.splits if_splits)
    then show ?thesis by blast
  qed
qed

text \<open>
  A traffic shift. With a change out of range, or without a route, nothing is run. Otherwise the router
  reads the one route it names, on the configured cluster, and at most patches that route; when it reports
  success the patch went out, it gives every backend of the canary the weight and every backend of the
  stable service the rest to one hundred, touches no other backend, and is not empty.
\<close>

theorem traffic_shift:
  assumes "run_state (traffic_Hook (Some (gateway_SetWeight L H g)) c) h = (r, h')"
  shows "(tf_Route c = [] \<or> tf_Weight c < 0 \<or> tf_Weight c > 100 \<longrightarrow> r \<noteq> None \<and> h' = h) \<and>
    (r \<noteq> None \<longrightarrow> (\<exists>cs. h' = h @ cs \<and> list_all (\<lambda>x. \<exists>args. x = Exec ''kubectl'' None (gateway_baseArgs g @ args) \<and>
        (args = get_route c \<or> (\<exists>body. args = patch_route c body))) cs)) \<and>
    (r = None \<longrightarrow> (\<exists>raw rules ops body. H h (Exec ''kubectl'' None (gateway_baseArgs g @ get_route c)) = (raw, None) \<and> gl_Route L raw = Inr rules \<and>
       gl_Patch L ops = Inr body \<and> ops \<noteq> [] \<and>
       h' = h @ [Exec ''kubectl'' None (gateway_baseArgs g @ get_route c), Exec ''kubectl'' None (gateway_baseArgs g @ patch_route c body)] \<and>
       (\<forall>p w. (p, w) \<in> set ops \<longleftrightarrow> (\<exists>ri bi. ri < length rules \<and> bi < length (rules ! ri) \<and> p = weight_path ri bi \<and>
          (rules ! ri ! bi = tf_CanaryService c \<and> w = tf_Weight c \<or>
           rules ! ri ! bi \<noteq> tf_CanaryService c \<and> rules ! ri ! bi = tf_StableService c \<and> w = 100 - tf_Weight c)))))"
proof (cases "tf_Route c = [] \<or> tf_Weight c < 0 \<or> tf_Weight c > 100")
  case True
  then show ?thesis using assms by (auto simp: traffic_Hook_def run_state_simps split: if_splits)
next
  case False
  let ?g = "Exec ''kubectl'' None (gateway_baseArgs g @ get_route c)"
  let ?p = "\<lambda>body. Exec ''kubectl'' None (gateway_baseArgs g @ patch_route c body)"
  have run: "run_state (gateway_SetWeight L H g c) h = (r, h')" using assms False by (auto simp: traffic_Hook_def)
  have iff: "weight_for c n = Some w \<longleftrightarrow> n = tf_CanaryService c \<and> w = tf_Weight c \<or>
      n \<noteq> tf_CanaryService c \<and> n = tf_StableService c \<and> w = 100 - tf_Weight c" for n w
    by (auto simp: weight_for_def)
  from gateway_cases [OF run] show ?thesis
  proof
    assume "r \<noteq> None \<and> h' = h @ [?g]"
    then show ?thesis using False by (auto intro: exI [of _ "[?g]"])
  next
    assume "\<exists>raw rules body. H h ?g = (raw, None) \<and> gl_Route L raw = Inr rules \<and> gl_Patch L (gateway_ops c rules) = Inr body \<and>
      gateway_ops c rules \<noteq> [] \<and> h' = h @ [?g, ?p body]"
    then obtain raw rules body where t: "H h ?g = (raw, None)" "gl_Route L raw = Inr rules" "gl_Patch L (gateway_ops c rules) = Inr body" "gateway_ops c rules \<noteq> []" "h' = h @ [?g, ?p body]" by blast
    have o: "\<forall>p w. (p, w) \<in> set (gateway_ops c rules) \<longleftrightarrow> (\<exists>ri bi. ri < length rules \<and> bi < length (rules ! ri) \<and> p = weight_path ri bi \<and>
          (rules ! ri ! bi = tf_CanaryService c \<and> w = tf_Weight c \<or>
           rules ! ri ! bi \<noteq> tf_CanaryService c \<and> rules ! ri ! bi = tf_StableService c \<and> w = 100 - tf_Weight c))"
      by (simp add: gateway_ops_iff iff)
    have "list_all (\<lambda>x. \<exists>args. x = Exec ''kubectl'' None (gateway_baseArgs g @ args) \<and>
        (args = get_route c \<or> (\<exists>body. args = patch_route c body))) [?g, ?p body]" by auto
    then show ?thesis using False t o by blast
  qed
qed

definition demo_gateway :: gateway_lib where
  "demo_gateway = \<lparr>gl_Route = (\<lambda>raw. Inr [[raw, ''web-canary''], [''other'']]), gl_Patch = (\<lambda>ops. Inr (concat (map (\<lambda>(p, w). p @ ''='' @ itoa w @ '';'') ops)))\<rparr>"

definition demo_shift :: traffic_change where
  "demo_shift = \<lparr>tf_Route = ''web'', tf_Namespace = ''prod'', tf_StableService = ''web'', tf_CanaryService = ''web-canary'', tf_Weight = 25\<rparr>"

theorem traffic_shift_witness:
  "\<exists>h'. run_state (traffic_Hook (Some (gateway_SetWeight demo_gateway (\<lambda>_ _. (''web'', None)) \<lparr>gw_kubeconfig = [], gw_context = ''eu''\<rparr>)) demo_shift) [] = (None, h') \<and>
     (\<exists>body. h' = [Exec ''kubectl'' None [''--context'', ''eu'', ''get'', ''httproute'', ''web'', ''-n'', ''prod'', ''-o'', ''json''],
       Exec ''kubectl'' None [''--context'', ''eu'', ''patch'', ''httproute'', ''web'', ''-n'', ''prod'', ''--type=json'', ''-p'', body]])"
proof -
  let ?g = "\<lparr>gw_kubeconfig = [], gw_context = ''eu''\<rparr>"
  obtain r h' where r: "run_state (traffic_Hook (Some (gateway_SetWeight demo_gateway (\<lambda>_ _. (''web'', None)) ?g)) demo_shift) [] = (r, h')" by fastforce
  have "fst (run_state (traffic_Hook (Some (gateway_SetWeight demo_gateway (\<lambda>_ _. (''web'', None)) ?g)) demo_shift) []) = None" by code_simp
  then have n: "r = None" using r by simp
  have "\<exists>body. h' = [] @ [Exec ''kubectl'' None (gateway_baseArgs ?g @ get_route demo_shift), Exec ''kubectl'' None (gateway_baseArgs ?g @ patch_route demo_shift body)]"
    using traffic_shift [OF r] n by blast
  moreover have "gateway_baseArgs ?g = [''--context'', ''eu'']" by code_simp
  ultimately show ?thesis using r n by (simp add: get_route_def patch_route_def demo_shift_def)
qed

end
