(* ===== verification/Registry_Scan.thy ===== *)
theory Registry_Scan
  imports ImageUpdate Effects
begin

text \<open>
  \<^verbatim>\<open>internal/imageupdate/scan.go\<close>: listing the tags of a container repository and resolving the digest of
  a tag over the registry API, with its bearer-token challenge. A request is a call to a registry that
  may answer anything; \<open>url.Parse\<close>, the resolution of a reference, the ASCII form of a host name and the
  JSON decoders are parameters. \<open>http.Client\<close> is modelled as far as its redirects go: which answers it
  follows, how often, and which headers the next request carries.

  \<open>scanner_credentials\<close> says where the configured credential can go, \<open>Tags_all_pages\<close> that no page of a
  listing is left out; \<open>credential_follows_the_image\<close> and \<open>redirect_sends_in_clear\<close> are what the first of
  them does not exclude.
\<close>

section \<open>Requests\<close>

record parsed_url =
  pu_Scheme :: string
  pu_Host :: string

text \<open>The \<open>Authorization\<close> header.\<close>

datatype authorization = NoAuth | Bearer string | Basic string string

text \<open>
  A request: its method, its URL as text and parsed, its \<open>Authorization\<close> header, and the URLs of the
  requests whose redirects led to it (\<open>reqs\<close> in \<open>Client.do\<close>), the first one first.
\<close>

datatype reg_call = RegCall string string parsed_url authorization "string list"

record reg_resp =
  rr_status :: int
  rr_authenticate :: string
  rr_digest :: string
  rr_link :: string
  rr_location :: string
  rr_body :: string

record scan_lib =
  sl_Tags :: "string \<Rightarrow> string list res"
  sl_Token :: "string \<Rightarrow> (string \<times> string) res"
  sl_Parse :: "string \<Rightarrow> parsed_url res"
  sl_Resolve :: "string \<Rightarrow> string \<Rightarrow> (string \<times> parsed_url) res"
  sl_ASCII :: "string \<Rightarrow> string"

record scanner =
  sn_Username :: string
  sn_Password :: string

type_synonym registry = "reg_call list \<Rightarrow> reg_call \<Rightarrow> reg_resp res"
type_synonym 'a rprog = "(reg_call list, 'a) state"

section \<open>The HTTP client\<close>

text \<open>\<open>http.NewRequest\<close>: the parsed URL, less a colon with no port.\<close>

definition removeEmptyPort :: "string \<Rightarrow> string" where
  "removeEmptyPort host =
     (if last_index host (CHR '']'') < last_index host (CHR '':'') \<and> strings_HasSuffix host '':'' then butlast host else host)"

definition NewRequest :: "scan_lib \<Rightarrow> string \<Rightarrow> parsed_url res" where
  "NewRequest L url = map_sum id (\<lambda>u. u\<lparr>pu_Host := removeEmptyPort (pu_Host u)\<rparr>) (sl_Parse L url)"

text \<open>\<open>URL.Hostname\<close>: the host without a port and without the brackets of an IPv6 address.\<close>

definition port_digit :: "char \<Rightarrow> bool" where
  "port_digit c = (CHR ''0'' \<le> c \<and> c \<le> CHR ''9'')"

definition url_Hostname :: "string \<Rightarrow> string" where
  "url_Hostname host =
     (let i = last_index host (CHR '':'');
          h = (if 0 \<le> i \<and> list_all port_digit (drop (nat i + 1) host) then take (nat i) host else host) in
      if strings_HasPrefix h ''['' \<and> strings_HasSuffix h '']'' then butlast (tl h) else h)"

text \<open>The headers a redirected request keeps: \<open>Authorization\<close> only within a host name and below it.\<close>

definition isDomainOrSubdomain :: "string \<Rightarrow> string \<Rightarrow> bool" where
  "isDomainOrSubdomain below parent =
     (if below = parent then True
      else if CHR '':'' \<in> set below \<or> CHR ''%'' \<in> set below then False
      else if \<not> strings_HasSuffix below parent then False
      else below ! (length below - length parent - 1) = CHR ''.'')"

definition shouldCopyHeaderOnRedirect :: "scan_lib \<Rightarrow> parsed_url \<Rightarrow> parsed_url \<Rightarrow> bool" where
  "shouldCopyHeaderOnRedirect L initial dest =
     isDomainOrSubdomain (sl_ASCII L (url_Hostname (pu_Host dest))) (sl_ASCII L (url_Hostname (pu_Host initial)))"

text \<open>\<open>redirectBehavior\<close> for a request with no body: the method of the next request.\<close>

definition redirectBehavior :: "string \<Rightarrow> int \<Rightarrow> string option" where
  "redirectBehavior method status =
     (if status \<in> {301, 302, 303} then Some (if method = ''GET'' \<or> method = ''HEAD'' then method else ''GET'')
      else if status \<in> {307, 308} then Some method
      else None)"

text \<open>
  \<open>Client.do\<close>: the first argument is what is left of the ten requests \<open>defaultCheckRedirect\<close> allows. A
  header once dropped stays dropped.
\<close>

fun client_do :: "nat \<Rightarrow> scan_lib \<Rightarrow> registry \<Rightarrow> parsed_url \<Rightarrow> string \<Rightarrow> string \<Rightarrow> parsed_url \<Rightarrow> authorization \<Rightarrow> string list \<Rightarrow> reg_resp res rprog" where
  "client_do 0 L R initial method url u auth via = State_Monad.return (Inl (Err ''stopped after 10 redirects''))"
| "client_do (Suc n) L R initial method url u auth via = do {
     r \<leftarrow> host_call R (RegCall method url u auth via);
     case r of
       Inl e \<Rightarrow> State_Monad.return (Inl e)
     | Inr resp \<Rightarrow>
         (case redirectBehavior method (rr_status resp) of
            None \<Rightarrow> State_Monad.return (Inr resp)
          | Some method' \<Rightarrow>
              if rr_location resp = [] then State_Monad.return (Inr resp)
              else (case sl_Resolve L url (rr_location resp) of
                  Inl e \<Rightarrow> State_Monad.return (Inl (Wrap ''failed to parse Location header'' e))
                | Inr (url', u') \<Rightarrow>
                    client_do n L R initial method' url' u'
                      (if pu_Host initial \<noteq> pu_Host u' \<and> \<not> shouldCopyHeaderOnRedirect L initial u' then NoAuth else auth)
                      (via @ [url])))
   }"

definition client_Do :: "scan_lib \<Rightarrow> registry \<Rightarrow> string \<Rightarrow> string \<Rightarrow> parsed_url \<Rightarrow> authorization \<Rightarrow> reg_resp res rprog" where
  "client_Do L R method url u auth = client_do 10 L R u method url u auth []"

definition doMethod :: "scan_lib \<Rightarrow> registry \<Rightarrow> string \<Rightarrow> string \<Rightarrow> string \<Rightarrow> reg_resp res rprog" where
  "doMethod L R method url bearer =
     (case NewRequest L url of
        Inl e \<Rightarrow> State_Monad.return (Inl e)
      | Inr u \<Rightarrow> do {
          r \<leftarrow> client_Do L R method url u (if bearer = [] then NoAuth else Bearer bearer);
          State_Monad.return (map_sum (Wrap ''imageupdate: registry request'') id r)
        })"

section \<open>The challenge\<close>

definition word_char :: "char \<Rightarrow> bool" where
  "word_char c = ((CHR ''a'' \<le> c \<and> c \<le> CHR ''z'') \<or> (CHR ''A'' \<le> c \<and> c \<le> CHR ''Z'') \<or> (CHR ''0'' \<le> c \<and> c \<le> CHR ''9'') \<or> c = CHR ''_'')"

text \<open>
  \<open>FindAllStringSubmatch\<close> of a word, an equals sign and a quoted text, left to right. A run of word
  characters that is not followed by an equals sign and two quotes holds no match.
\<close>

definition quoted_value :: "string \<Rightarrow> (string \<times> string) option" where
  "quoted_value s =
     (case s of
        e # q # rest \<Rightarrow>
          if e = CHR ''='' \<and> q = CHR 0x22 \<and> CHR 0x22 \<in> set rest
          then Some (takeWhile (\<lambda>c. c \<noteq> CHR 0x22) rest, tl (dropWhile (\<lambda>c. c \<noteq> CHR 0x22) rest)) else None
      | _ \<Rightarrow> None)"

function (sequential) challenge_pairs :: "string \<Rightarrow> (string \<times> string) list" where
  "challenge_pairs [] = []"
| "challenge_pairs (c # cs) =
     (if \<not> word_char c then challenge_pairs cs
      else (let w = takeWhile word_char (c # cs); s = dropWhile word_char (c # cs) in
            case quoted_value s of
              None \<Rightarrow> challenge_pairs s
            | Some (v, rest) \<Rightarrow> (w, v) # challenge_pairs rest))"
  by pat_completeness auto

termination
proof (relation "measure length", goal_cases)
  case (3 c cs w s)
  then show ?case using length_dropWhile_le [of word_char cs] by simp
next
  case (4 c cs w s p v rest)
  then have "length rest \<le> length s"
    by (auto simp: quoted_value_def split: list.splits if_splits intro!: le_SucI diff_le_self [THEN le_trans] length_dropWhile_le)
  then show ?case using 4 length_dropWhile_le [of word_char cs] by simp
qed auto

definition challenge_param :: "string \<Rightarrow> string \<Rightarrow> string" where
  "challenge_param challenge k = (case map_of (rev (challenge_pairs challenge)) k of Some v \<Rightarrow> v | None \<Rightarrow> [])"

definition isDockerHub :: "string \<Rightarrow> bool" where
  "isDockerHub host = (host \<in> {''docker.io'', ''registry-1.docker.io'', ''index.docker.io'', ''auth.docker.io''})"

definition realmTrusted :: "scan_lib \<Rightarrow> string \<Rightarrow> string \<Rightarrow> bool" where
  "realmTrusted L realm registryHost =
     (case sl_Parse L realm of
        Inl _ \<Rightarrow> False
      | Inr u \<Rightarrow>
          if pu_Scheme u \<noteq> ''https'' \<or> pu_Host u = [] then False
          else if pu_Host u = registryHost then True
          else isDockerHub (url_Hostname (pu_Host u)) \<and> isDockerHub registryHost)"

definition scanner_token :: "scan_lib \<Rightarrow> registry \<Rightarrow> scanner \<Rightarrow> string \<Rightarrow> string \<Rightarrow> string \<Rightarrow> string res rprog" where
  "scanner_token L R s challenge repo registryHost =
     (let realm = challenge_param challenge ''realm'';
          scope0 = challenge_param challenge ''scope'';
          scope = (if scope0 = [] then ''repository:'' @ repo @ '':pull'' else scope0);
          endpoint = realm @ ''?service='' @ challenge_param challenge ''service'' @ ''&scope='' @ scope in
      if realm = [] then State_Monad.return (Inl (Err (''imageupdate: no token realm in challenge '' @ challenge)))
      else case NewRequest L endpoint of
        Inl e \<Rightarrow> State_Monad.return (Inl e)
      | Inr u \<Rightarrow> do {
          r \<leftarrow> client_Do L R ''GET'' endpoint u
                 (if (sn_Username s \<noteq> [] \<or> sn_Password s \<noteq> []) \<and> realmTrusted L realm registryHost
                  then Basic (sn_Username s) (sn_Password s) else NoAuth);
          State_Monad.return (case r of
              Inl e \<Rightarrow> Inl (Wrap ''imageupdate: token request'' e)
            | Inr resp \<Rightarrow>
                if rr_status resp \<noteq> 200 then Inl (Err (''imageupdate: token endpoint status '' @ itoa (rr_status resp)))
                else (case sl_Token L (rr_body resp) of
                    Inl e \<Rightarrow> Inl (Wrap ''imageupdate: parse token'' e)
                  | Inr (token, access) \<Rightarrow> Inr (if token \<noteq> [] then token else access)))
        })"

section \<open>Listing tags\<close>

text \<open>A request, and the same one with a token when the registry asks for it.\<close>

definition challenged :: "scan_lib \<Rightarrow> registry \<Rightarrow> scanner \<Rightarrow> string \<Rightarrow> string \<Rightarrow> string \<Rightarrow> string \<Rightarrow> reg_resp res rprog" where
  "challenged L R s method endpoint repo registryHost = do {
     r \<leftarrow> doMethod L R method endpoint [];
     case r of
       Inl e \<Rightarrow> State_Monad.return (Inl e)
     | Inr resp \<Rightarrow>
         if rr_status resp = 401 then do {
           t \<leftarrow> scanner_token L R s (rr_authenticate resp) repo registryHost;
           case t of
             Inl e \<Rightarrow> State_Monad.return (Inl e)
           | Inr token \<Rightarrow> doMethod L R method endpoint token
         }
         else State_Monad.return (Inr resp)
   }"

definition scanner_get :: "scan_lib \<Rightarrow> registry \<Rightarrow> scanner \<Rightarrow> string \<Rightarrow> string \<Rightarrow> string \<Rightarrow> (string \<times> string) res rprog" where
  "scanner_get L R s endpoint repo registryHost = do {
     r \<leftarrow> challenged L R s ''GET'' endpoint repo registryHost;
     State_Monad.return (case r of
         Inl e \<Rightarrow> Inl e
       | Inr resp \<Rightarrow>
           if rr_status resp \<noteq> 200 then Inl (Err (''imageupdate: registry '' @ endpoint @ '': status '' @ itoa (rr_status resp)))
           else Inr (rr_body resp, rr_link resp))
   }"

definition link_target :: "string \<Rightarrow> string option" where
  "link_target part =
     (let before_open = takeWhile (\<lambda>c. c \<noteq> CHR ''<'') part; before_close = takeWhile (\<lambda>c. c \<noteq> CHR ''>'') part in
      if \<not> strings_Contains part ([CHR ''r'', CHR ''e'', CHR ''l'', CHR ''='', CHR 0x22] @ ''next'' @ [CHR 0x22]) then None
      else if CHR ''<'' \<notin> set part \<or> CHR ''>'' \<notin> set part \<or> length before_close \<le> length before_open then None
      else Some (drop (length before_open + 1) before_close))"

fun first_target :: "string list \<Rightarrow> string option" where
  "first_target [] = None"
| "first_target (p # ps) = (case link_target (strings_TrimSpace p) of Some t \<Rightarrow> Some t | None \<Rightarrow> first_target ps)"

definition nextPageURL :: "string \<Rightarrow> string \<Rightarrow> string" where
  "nextPageURL link base =
     (case first_target (split_on (CHR '','') link) of
        None \<Rightarrow> []
      | Some t \<Rightarrow> if strings_HasPrefix t ''http://'' \<or> strings_HasPrefix t ''https://'' then t else base @ t)"

text \<open>The loop over the pages; the first argument is what is left of the cap on pages.\<close>

fun tag_pages :: "nat \<Rightarrow> scan_lib \<Rightarrow> registry \<Rightarrow> scanner \<Rightarrow> string \<Rightarrow> string \<Rightarrow> string \<Rightarrow> string \<Rightarrow> string list \<Rightarrow> string list res rprog" where
  "tag_pages 0 L R s base repo host endpoint all = State_Monad.return (Inr all)"
| "tag_pages (Suc n) L R s base repo host endpoint all =
     (if endpoint = [] then State_Monad.return (Inr all)
      else do {
        r \<leftarrow> scanner_get L R s endpoint repo host;
        case r of
          Inl e \<Rightarrow> State_Monad.return (Inl e)
        | Inr (body, link) \<Rightarrow>
            (case sl_Tags L body of
               Inl e \<Rightarrow> State_Monad.return (Inl (Wrap ''imageupdate: parse tags'' e))
             | Inr ts \<Rightarrow> tag_pages n L R s base repo host (nextPageURL link base) (all @ ts))
      })"

definition registry_base :: "string \<Rightarrow> string" where
  "registry_base host = (if host = ''docker.io'' then ''https://registry-1.docker.io'' else ''https://'' @ host)"

definition Scanner_Tags :: "scan_lib \<Rightarrow> registry \<Rightarrow> scanner \<Rightarrow> string \<Rightarrow> string list res rprog" where
  "Scanner_Tags L R s img =
     (case ParseRef img of
        (host, repo) \<Rightarrow> tag_pages 1000 L R s (registry_base host) repo host (registry_base host @ ''/v2/'' @ repo @ ''/tags/list'') [])"

definition image_tag :: "string \<Rightarrow> string" where
  "image_tag img =
     (let i = last_index img (CHR '':'') in if i > last_index img (CHR ''/'') then drop (nat i + 1) img else ''latest'')"

definition Scanner_Digest :: "scan_lib \<Rightarrow> registry \<Rightarrow> scanner \<Rightarrow> string \<Rightarrow> string res rprog" where
  "Scanner_Digest L R s img =
     (case ParseRef img of
        (host, repo) \<Rightarrow>
          (let endpoint = registry_base host @ ''/v2/'' @ repo @ ''/manifests/'' @ image_tag img in
           do {
             r \<leftarrow> challenged L R s ''HEAD'' endpoint repo host;
             State_Monad.return (case r of
                 Inl e \<Rightarrow> Inl e
               | Inr resp \<Rightarrow>
                   if rr_status resp \<noteq> 200 then Inl (Err (''imageupdate: manifest '' @ endpoint @ '': status '' @ itoa (rr_status resp)))
                   else if rr_digest resp = [] then Inl (Err (''imageupdate: no Docker-Content-Digest for '' @ img))
                   else Inr (rr_digest resp))
           }))"

section \<open>Where the credential goes\<close>

text \<open>A URL the credential may be sent to first: https, on the image's host or within Docker's own hosts.\<close>

definition trusted_url :: "string \<Rightarrow> parsed_url \<Rightarrow> bool" where
  "trusted_url host u \<longleftrightarrow> pu_Scheme u = ''https'' \<and>
     (\<exists>h. h \<noteq> [] \<and> pu_Host u = removeEmptyPort h \<and> (h = host \<or> isDockerHub (url_Hostname h) \<and> isDockerHub host))"

text \<open>A host name, or one below it.\<close>

definition same_or_below :: "string \<Rightarrow> string \<Rightarrow> bool" where
  "same_or_below below parent \<longleftrightarrow> below = parent \<or> (\<exists>p. below = p @ ''.'' @ parent)"

fun scan_call :: "scan_lib \<Rightarrow> scanner \<Rightarrow> string \<Rightarrow> reg_call \<Rightarrow> bool" where
  "scan_call L s host (RegCall m url u auth via) =
     (\<forall>n p. auth = Basic n p \<longrightarrow> n = sn_Username s \<and> p = sn_Password s \<and> m = ''GET'' \<and>
        (case via of
           [] \<Rightarrow> trusted_url host u
         | first # _ \<Rightarrow> \<exists>u0. NewRequest L first = Inr u0 \<and> trusted_url host u0 \<and>
             same_or_below (sl_ASCII L (url_Hostname (pu_Host u))) (sl_ASCII L (url_Hostname (pu_Host u0)))))"

text \<open>A query does not change the scheme or the host of a URL.\<close>

definition query_keeps_host :: "scan_lib \<Rightarrow> bool" where
  "query_keeps_host L \<longleftrightarrow> (\<forall>url q u v. sl_Parse L url = Inr u \<longrightarrow> sl_Parse L (url @ ''?'' @ q) = Inr v \<longrightarrow>
     pu_Scheme v = pu_Scheme u \<and> pu_Host v = pu_Host u)"

lemma realmTrusted_request:
  assumes "query_keeps_host L" "realmTrusted L realm host" "NewRequest L (realm @ ''?'' @ q) = Inr u"
  shows "trusted_url host u"
proof -
  obtain r where r: "sl_Parse L realm = Inr r" "pu_Scheme r = ''https''" "pu_Host r \<noteq> []"
    "pu_Host r = host \<or> isDockerHub (url_Hostname (pu_Host r)) \<and> isDockerHub host"
    using assms(2) by (auto simp: realmTrusted_def split: sum.splits if_splits)
  obtain v where v: "sl_Parse L (realm @ ''?'' @ q) = Inr v" "u = v\<lparr>pu_Host := removeEmptyPort (pu_Host v)\<rparr>"
    using assms(3) by (cases "sl_Parse L (realm @ ''?'' @ q)") (auto simp: NewRequest_def)
  have "pu_Scheme v = pu_Scheme r" "pu_Host v = pu_Host r"
    using assms(1) r(1) v(1) unfolding query_keeps_host_def by blast+
  with r v(2) show ?thesis by (auto simp: trusted_url_def)
qed

lemma isDomainOrSubdomain_below:
  assumes "isDomainOrSubdomain b p"
  shows "same_or_below b p"
proof (cases "b = p")
  case False
  with assms have sf: "strings_HasSuffix b p" and dot: "b ! (length b - length p - 1) = CHR ''.''"
    by (auto simp: isDomainOrSubdomain_def split: if_splits)
  from sf obtain x where x: "b = x @ p" by (metis append_take_drop_id strings_HasSuffix_def)
  with False have "x \<noteq> []" by auto
  with dot x have "last x = CHR ''.''" by (simp add: nth_append last_conv_nth)
  with x \<open>x \<noteq> []\<close> have "b = butlast x @ ''.'' @ p" by (metis append_Cons append_Nil append_assoc append_butlast_last_id)
  then show ?thesis by (auto simp: same_or_below_def)
qed (simp add: same_or_below_def)

lemma keeps_client_do:
  assumes "scan_call L s host (RegCall m url u auth via)"
    and "\<And>n p. auth = Basic n p \<Longrightarrow> NewRequest L (hd (via @ [url])) = Inr initial \<and> trusted_url host initial"
  shows "keeps (calls_in (scan_call L s host)) (client_do k L R initial m url u auth via)"
  using assms
proof (induction k arbitrary: m url u auth via)
  case (Suc k)
  have step: "keeps (calls_in (scan_call L s host)) (client_do k L R initial m' url' u'
      (if pu_Host initial \<noteq> pu_Host u' \<and> \<not> shouldCopyHeaderOnRedirect L initial u' then NoAuth else auth) (via @ [url]))"
    if "redirectBehavior m st = Some m'" for m' st url' u'
  proof (rule Suc.IH)
    have "same_or_below (sl_ASCII L (url_Hostname (pu_Host u'))) (sl_ASCII L (url_Hostname (pu_Host initial)))"
      if "pu_Host initial = pu_Host u' \<or> shouldCopyHeaderOnRedirect L initial u'"
      using that by (auto simp: shouldCopyHeaderOnRedirect_def same_or_below_def dest: isDomainOrSubdomain_below)
    with Suc.prems that show "scan_call L s host (RegCall m' url' u'
        (if pu_Host initial \<noteq> pu_Host u' \<and> \<not> shouldCopyHeaderOnRedirect L initial u' then NoAuth else auth) (via @ [url]))"
      by (auto simp: redirectBehavior_def hd_append split: list.splits if_splits)
  next
    fix n p
    assume "(if pu_Host initial \<noteq> pu_Host u' \<and> \<not> shouldCopyHeaderOnRedirect L initial u' then NoAuth else auth) = Basic n p"
    then show "NewRequest L (hd ((via @ [url]) @ [url'])) = Inr initial \<and> trusted_url host initial"
      using Suc.prems(2) [of n p] by (auto simp: hd_append split: if_splits)
  qed
  show ?case
    unfolding client_do.simps
    by (intro calls.keeps_bind keeps_sum keeps_option keeps_if keeps_prod calls.keeps_return keeps_host_call Suc.prems(1) step)
qed (simp add: calls.keeps_return)

lemma keeps_client_Do:
  assumes "\<And>n p. auth = Basic n p \<Longrightarrow> n = sn_Username s \<and> p = sn_Password s \<and> m = ''GET'' \<and> NewRequest L url = Inr u \<and> trusted_url host u"
  shows "keeps (calls_in (scan_call L s host)) (client_Do L R m url u auth)"
  unfolding client_Do_def by (rule keeps_client_do) (use assms in auto)

lemma keeps_doMethod: "keeps (calls_in (scan_call L s host)) (doMethod L R m url b)"
  unfolding doMethod_def
  by (intro keeps_sum calls.keeps_bind calls.keeps_return keeps_client_Do) (simp split: if_splits)

lemma keeps_token:
  assumes "query_keeps_host L"
  shows "keeps (calls_in (scan_call L s host)) (scanner_token L R s ch repo host)"
proof -
  have e: "realm @ ''?service='' @ q = realm @ ''?'' @ ''service='' @ q" for realm q by simp
  show ?thesis
    unfolding scanner_token_def Let_def
    by (intro keeps_if keeps_sum calls.keeps_bind calls.keeps_return keeps_client_Do)
       (auto simp: e split: if_splits dest: realmTrusted_request [OF assms])
qed

lemma keeps_challenged:
  "query_keeps_host L \<Longrightarrow> keeps (calls_in (scan_call L s host)) (challenged L R s m e repo host)"
  unfolding challenged_def by (intro calls.keeps_bind calls.keeps_return keeps_sum keeps_if keeps_doMethod keeps_token)

lemma keeps_scanner_get:
  "query_keeps_host L \<Longrightarrow> keeps (calls_in (scan_call L s host)) (scanner_get L R s e repo host)"
  unfolding scanner_get_def by (intro calls.keeps_bind calls.keeps_return keeps_challenged)

lemma keeps_pages:
  assumes "query_keeps_host L"
  shows "keeps (calls_in (scan_call L s host)) (tag_pages n L R s base repo host e all)"
proof (induction n arbitrary: e all)
  case (Suc n)
  show ?case unfolding tag_pages.simps
    by (intro keeps_if calls.keeps_bind calls.keeps_return keeps_sum keeps_prod keeps_scanner_get Suc.IH assms)
qed (simp add: calls.keeps_return)

text \<open>
  C36: where the registry credential can go. Of all requests a listing or a digest lookup makes, whatever
  the registry answers, a request that carries the credential and is not the redirect of another one goes
  over https to the host of the image itself, or within Docker's own hosts; a redirect carries it on only
  to the host name of that first request or to a name below it. The scheme and the port of a redirect are
  not restricted, see \<open>redirect_sends_in_clear\<close>.
\<close>

theorem scanner_credentials:
  assumes "query_keeps_host L"
  shows "(\<exists>cs. snd (run_state (Scanner_Tags L R s img) h) = h @ cs \<and> list_all (scan_call L s (fst (ParseRef img))) cs) \<and>
   (\<exists>cs. snd (run_state (Scanner_Digest L R s img) h) = h @ cs \<and> list_all (scan_call L s (fst (ParseRef img))) cs)"
proof -
  obtain host repo where p: "ParseRef img = (host, repo)" by fastforce
  have "keeps (calls_in (scan_call L s host)) (Scanner_Tags L R s img)"
    unfolding Scanner_Tags_def p by (simp add: keeps_pages assms)
  moreover have "keeps (calls_in (scan_call L s host)) (Scanner_Digest L R s img)"
    unfolding Scanner_Digest_def p Let_def prod.case by (intro calls.keeps_bind calls.keeps_return keeps_challenged assms)
  ultimately show ?thesis unfolding keeps_def calls_in_def p fst_conv by blast
qed

text \<open>A concrete \<open>url.Parse\<close>: a scheme, two slashes and a host up to the next slash or question mark.\<close>

definition demo_Parse :: "string \<Rightarrow> parsed_url res" where
  "demo_Parse url =
     Inr \<lparr>pu_Scheme = takeWhile (\<lambda>c. c \<noteq> CHR '':'' \<and> c \<noteq> CHR ''?'') url,
          pu_Host = takeWhile (\<lambda>c. c \<noteq> CHR ''/'') (drop 3 (dropWhile (\<lambda>c. c \<noteq> CHR '':'') (takeWhile (\<lambda>c. c \<noteq> CHR ''?'') url)))\<rparr>"

definition demo_scan :: scan_lib where
  "demo_scan =
     \<lparr>sl_Tags = (\<lambda>b. Inr [b]), sl_Token = (\<lambda>b. Inr (b, [])), sl_Parse = demo_Parse,
      sl_Resolve = (\<lambda>_ ref. map_sum id (Pair ref) (demo_Parse ref)), sl_ASCII = (\<lambda>h. h)\<rparr>"

lemma takeWhile_query: "\<not> P (CHR ''?'') \<Longrightarrow> takeWhile P (url @ ''?'' @ q) = takeWhile P url"
  by (induction url) auto

lemma demo_query: "query_keeps_host demo_scan"
  by (auto simp: query_keeps_host_def demo_scan_def demo_Parse_def takeWhile_query [simplified])

definition demo_resp :: "int \<Rightarrow> string \<Rightarrow> string \<Rightarrow> string \<Rightarrow> reg_resp" where
  "demo_resp st auth link body =
     \<lparr>rr_status = st, rr_authenticate = auth, rr_digest = [], rr_link = link, rr_location = [], rr_body = body\<rparr>"

definition challenge_for :: "string \<Rightarrow> string" where
  "challenge_for realm = ''Bearer realm='' @ [CHR 0x22] @ realm @ [CHR 0x22] @ '',service='' @ [CHR 0x22] @ ''x'' @ [CHR 0x22]"

definition demo_creds :: scanner where
  "demo_creds = \<lparr>sn_Username = ''bot'', sn_Password = ''pat''\<rparr>"

definition https_url :: "string \<Rightarrow> parsed_url" where
  "https_url host = \<lparr>pu_Scheme = ''https'', pu_Host = host\<rparr>"

text \<open>A registry whose token endpoint redirects, to another host name or to itself over http.\<close>

definition moving_registry :: "string \<Rightarrow> registry" where
  "moving_registry target = (\<lambda>_ c. case c of RegCall m url u auth via \<Rightarrow>
     if url = ''https://reg.example/v2/foo/tags/list'' then Inr (demo_resp 401 (challenge_for ''https://reg.example/t'') [] [])
     else if via = [] then Inr (demo_resp 302 [] [] []\<lparr>rr_location := target\<rparr>)
     else Inr (demo_resp 403 [] [] []))"

theorem scanner_credentials_witness:
  "snd (run_state (Scanner_Tags demo_scan (moving_registry ''https://evil.example/t'') demo_creds ''reg.example/foo'') []) =
     [RegCall ''GET'' ''https://reg.example/v2/foo/tags/list'' (https_url ''reg.example'') NoAuth [],
      RegCall ''GET'' ''https://reg.example/t?service=x&scope=repository:foo:pull'' (https_url ''reg.example'') (Basic ''bot'' ''pat'') [],
      RegCall ''GET'' ''https://evil.example/t'' (https_url ''evil.example'') NoAuth
        [''https://reg.example/t?service=x&scope=repository:foo:pull'']] \<and>
   (\<exists>cs. snd (run_state (Scanner_Tags demo_scan (moving_registry ''https://evil.example/t'') demo_creds ''reg.example/foo'') []) = [] @ cs \<and>
      list_all (scan_call demo_scan demo_creds (fst (ParseRef ''reg.example/foo''))) cs)"
  by (rule conjI) (code_simp, rule conjunct1 [OF scanner_credentials [OF demo_query]])

text \<open>
  What the redirects allow: the token endpoint of the image's own host answers with a redirect to itself
  over http, and the credential is sent in clear.
\<close>

lemma redirect_sends_in_clear:
  "snd (run_state (Scanner_Tags demo_scan (moving_registry ''http://reg.example/t'') demo_creds ''reg.example/foo'') []) =
     [RegCall ''GET'' ''https://reg.example/v2/foo/tags/list'' (https_url ''reg.example'') NoAuth [],
      RegCall ''GET'' ''https://reg.example/t?service=x&scope=repository:foo:pull'' (https_url ''reg.example'') (Basic ''bot'' ''pat'') [],
      RegCall ''GET'' ''http://reg.example/t'' \<lparr>pu_Scheme = ''http'', pu_Host = ''reg.example''\<rparr> (Basic ''bot'' ''pat'')
        [''https://reg.example/t?service=x&scope=repository:foo:pull'']]"
  by code_simp

text \<open>
  The credential goes with the image: it is not bound to the registry it was configured for. A
  configuration that names an image on a host of its author's choosing has the credential sent to that
  host, when it answers the listing with a challenge for a realm of its own.
\<close>

lemma credential_follows_the_image:
  "snd (run_state (Scanner_Tags demo_scan (\<lambda>_ _. Inr (demo_resp 401 (challenge_for ''https://attacker.example/t'') [] []))
      demo_creds ''attacker.example/foo'') []) =
     [RegCall ''GET'' ''https://attacker.example/v2/foo/tags/list'' (https_url ''attacker.example'') NoAuth [],
      RegCall ''GET'' ''https://attacker.example/t?service=x&scope=repository:foo:pull'' (https_url ''attacker.example'') (Basic ''bot'' ''pat'') []]"
  by code_simp

section \<open>No page is left out\<close>

fun page_chain :: "(string \<Rightarrow> reg_resp) \<Rightarrow> string \<Rightarrow> string list \<Rightarrow> string \<Rightarrow> bool" where
  "page_chain f base [] u = (u = [])"
| "page_chain f base (v # vs) u = (u = v \<and> v \<noteq> [] \<and> page_chain f base vs (nextPageURL (rr_link (f v)) base))"

lemma tag_pages_chain:
  assumes "page_chain f base us u" "length us \<le> n"
    and "\<forall>v \<in> set us. NewRequest L v = Inr (p v) \<and> (\<forall>h. R h (RegCall ''GET'' v (p v) NoAuth []) = Inr (f v)) \<and> rr_status (f v) = 200 \<and>
           sl_Tags L (rr_body (f v)) = Inr (tags v)"
  shows "run_state (tag_pages n L R s base repo host u all) h =
    (Inr (all @ concat (map tags us)), h @ map (\<lambda>v. RegCall ''GET'' v (p v) NoAuth []) us)"
  using assms
proof (induction us arbitrary: n u all h)
  case Nil
  then show ?case by (cases n) (simp_all add: run_state_simps)
next
  case (Cons v vs)
  then obtain k where n: "n = Suc k" by (cases n) auto
  have "run_state (scanner_get L R s v repo host) h = (Inr (rr_body (f v), rr_link (f v)), h @ [RegCall ''GET'' v (p v) NoAuth []])"
    using Cons.prems(3) by (simp add: scanner_get_def challenged_def doMethod_def client_Do_def numeral_eq_Suc redirectBehavior_def run_state_simps run_host_call)
  moreover have "run_state (tag_pages k L R s base repo host (nextPageURL (rr_link (f v)) base) (all @ tags v)) (h @ [RegCall ''GET'' v (p v) NoAuth []]) =
      (Inr ((all @ tags v) @ concat (map tags vs)), (h @ [RegCall ''GET'' v (p v) NoAuth []]) @ map (\<lambda>v. RegCall ''GET'' v (p v) NoAuth []) vs)"
    using Cons.prems n by (intro Cons.IH) auto
  ultimately show ?case using Cons.prems n by (simp add: run_state_simps)
qed

text \<open>
  No page is left out. When the pages of a listing, each linked to the next, are at most a thousand and
  the registry serves them all, the tags returned are those of every page, in order, and each page was
  requested once.
\<close>

theorem Tags_all_pages:
  assumes "ParseRef img = (host, repo)"
    and "page_chain f (registry_base host) us (registry_base host @ ''/v2/'' @ repo @ ''/tags/list'')" "length us \<le> 1000"
    and "\<forall>v \<in> set us. NewRequest L v = Inr (p v) \<and> (\<forall>h. R h (RegCall ''GET'' v (p v) NoAuth []) = Inr (f v)) \<and> rr_status (f v) = 200 \<and>
           sl_Tags L (rr_body (f v)) = Inr (tags v)"
  shows "run_state (Scanner_Tags L R s img) h = (Inr (concat (map tags us)), h @ map (\<lambda>v. RegCall ''GET'' v (p v) NoAuth []) us)"
  using tag_pages_chain [OF assms(2-4), where all = "[]"] by (simp add: Scanner_Tags_def assms(1))

definition demo_next :: string where
  "demo_next = ''</v2/acme/app/tags/list?last=1>; rel='' @ [CHR 0x22] @ ''next'' @ [CHR 0x22]"

theorem Tags_all_pages_witness:
  "run_state (Scanner_Tags demo_scan (\<lambda>_ c. case c of RegCall m u _ _ _ \<Rightarrow>
       if u = ''https://ghcr.io/v2/acme/app/tags/list'' then Inr (demo_resp 200 [] demo_next ''v1'') else Inr (demo_resp 200 [] [] ''v2''))
     \<lparr>sn_Username = [], sn_Password = []\<rparr> ''ghcr.io/acme/app:v1'') [] =
   (Inr [''v1'', ''v2''], [RegCall ''GET'' ''https://ghcr.io/v2/acme/app/tags/list'' (https_url ''ghcr.io'') NoAuth [],
      RegCall ''GET'' ''https://ghcr.io/v2/acme/app/tags/list?last=1'' (https_url ''ghcr.io'') NoAuth []])"
proof -
  let ?u = "''https://ghcr.io/v2/acme/app/tags/list''" and ?v = "''https://ghcr.io/v2/acme/app/tags/list?last=1''"
  let ?f = "\<lambda>u. if u = ?u then demo_resp 200 [] demo_next ''v1'' else demo_resp 200 [] [] ''v2''"
  let ?R = "\<lambda>_ c. case c of RegCall m u _ _ _ \<Rightarrow>
       if u = ?u then Inr (demo_resp 200 [] demo_next ''v1'') else Inr (demo_resp 200 [] [] ''v2'')"
  have p: "ParseRef ''ghcr.io/acme/app:v1'' = (''ghcr.io'', ''acme/app'')" by code_simp
  have c: "page_chain ?f (registry_base ''ghcr.io'') [?u, ?v] (registry_base ''ghcr.io'' @ ''/v2/'' @ ''acme/app'' @ ''/tags/list'')" by code_simp
  have l: "\<forall>w \<in> set [?u, ?v]. NewRequest demo_scan w = Inr (https_url ''ghcr.io'') \<and> (\<forall>h. ?R h (RegCall ''GET'' w (https_url ''ghcr.io'') NoAuth []) = Inr (?f w)) \<and> rr_status (?f w) = 200 \<and>
      sl_Tags demo_scan (rr_body (?f w)) = Inr (if w = ?u then [''v1''] else [''v2''])"
  proof -
    have "NewRequest demo_scan ?u = Inr (https_url ''ghcr.io'')" "NewRequest demo_scan ?v = Inr (https_url ''ghcr.io'')" by code_simp+
    then show ?thesis by (simp add: demo_scan_def demo_resp_def)
  qed
  show ?thesis
    using Tags_all_pages [OF p c _ l, of "\<lparr>sn_Username = [], sn_Password = []\<rparr>" "[]"] by simp
qed

end
