(* ===== verification/Git_Source.thy ===== *)
theory Git_Source
  imports GitRemote Kube_Render
begin

text \<open>
  The working trees of the daemon: \<^verbatim>\<open>internal/git/repo.go\<close>, pull requests (\<open>pullrequest.go\<close>) and the tokens of a
  GitHub App (\<open>githubapp.go\<close>). A git command, a file written into the tree, a request to the GitHub API are
  calls; \<open>git_host\<close> answers them. Base64 and JSON are fields of it, the signature and the clock of the App
  fields of \<open>app_host\<close>.

  \<open>pull_verified\<close>: with signed commits required, a pull without an error ended in a successful check of
  the commit it reports. \<open>proposal_returns\<close>: a proposal is committed on its own branch, inside the working
  tree, and the tree goes back to the tracked branch. \<open>App_Token_fresh\<close>: the token cache.
\<close>

section \<open>Running git\<close>

text \<open>A git command with its working directory and deploy key; a request with its method, URL, token and body.\<close>

datatype git_call =
    GitToken
  | GitRun string string "string list"
  | GitMkdir string
  | GitWrite string string
  | GithubReq string string string string

record git_host =
  gh_Token :: "git_call list \<Rightarrow> string res"
  gh_Run :: "git_call list \<Rightarrow> git_call \<Rightarrow> string \<times> failure option"
  gh_File :: "git_call list \<Rightarrow> git_call \<Rightarrow> err option"
  gh_API :: "git_call list \<Rightarrow> git_call \<Rightarrow> (int \<times> string) res"
  gh_BadURL :: "string \<Rightarrow> err option"
  gh_B64 :: "string \<Rightarrow> string"
  gh_Getenv :: "string \<Rightarrow> string"
  gh_Created :: "string \<Rightarrow> (string \<times> string) res"
  gh_Listed :: "string \<Rightarrow> (string \<times> string) list res"
  gh_PullJSON :: "string \<Rightarrow> string \<Rightarrow> string \<Rightarrow> string \<Rightarrow> string"
  gh_MergeJSON :: "string \<Rightarrow> string"

type_synonym 'a gprog = "(git_call list, 'a) state"

record git_auth =
  ga_DeployKeyPath :: string
  ga_Token :: string
  ga_Dynamic :: bool

record git_source =
  gs_dir :: string
  gs_branch :: string
  gs_auth :: git_auth
  gs_url :: string
  gs_apiBase :: string

definition auth_token :: "git_host \<Rightarrow> git_auth \<Rightarrow> string res gprog" where
  "auth_token G a = (if ga_Dynamic a then host_call (\<lambda>h _. gh_Token G h) GitToken else State_Monad.return (Inr (ga_Token a)))"

definition redactArgs :: "string list \<Rightarrow> string" where
  "redactArgs args =
     strings_Join (map (\<lambda>a. if strings_HasPrefix a ''http.extraheader='' then ''http.extraheader=Authorization: <redacted>'' else a) args) '' ''"

definition with_header :: "git_host \<Rightarrow> string \<Rightarrow> string list \<Rightarrow> string list" where
  "with_header G token args =
     (if token \<noteq> [] then [''-c'', ''http.extraheader=Authorization: Basic '' @ gh_B64 G (''x-access-token:'' @ token)] @ args else args)"

definition git_failed :: "string list \<Rightarrow> failure \<Rightarrow> err" where
  "git_failed args f = Err (''git '' @ redactArgs args @ '': '' @ ff_Err f @ '': '' @ strings_TrimSpace (ff_Stderr f))"

text \<open>The output, and the error if there is one: a failed command may have written something.\<close>

definition git_run :: "git_host \<Rightarrow> git_source \<Rightarrow> string \<Rightarrow> string list \<Rightarrow> (string \<times> err option) gprog" where
  "git_run G s workdir args = do {
     t \<leftarrow> auth_token G (gs_auth s);
     case t of
       Inl e \<Rightarrow> State_Monad.return ([], Some (Wrap ''git: resolve token'' e))
     | Inr token \<Rightarrow> do {
         a \<leftarrow> host_call (gh_Run G) (GitRun workdir (ga_DeployKeyPath (gs_auth s)) (with_header G token args));
         State_Monad.return (fst a, map_option (git_failed (with_header G token args)) (snd a))
       }
   }"

section \<open>The working tree\<close>

definition Clone :: "git_host \<Rightarrow> string \<Rightarrow> string \<Rightarrow> string \<Rightarrow> git_auth \<Rightarrow> git_source res gprog" where
  "Clone G url branch dir auth =
     (let s = \<lparr>gs_dir = dir, gs_branch = branch, gs_auth = auth, gs_url = url, gs_apiBase = []\<rparr> in
      do {
        r \<leftarrow> git_run G s [] [''clone'', ''--depth'', ''1'', ''--branch'', branch, url, dir];
        State_Monad.return (case snd r of
            Some e \<Rightarrow> Inl (Wrap (''git: clone '' @ url @ ''@'' @ branch) e)
          | None \<Rightarrow> Inr s)
      })"

definition Head :: "git_host \<Rightarrow> git_source \<Rightarrow> string res gprog" where
  "Head G s = do {
     r \<leftarrow> git_run G s (gs_dir s) [''rev-parse'', ''HEAD''];
     State_Monad.return (case snd r of Some e \<Rightarrow> Inl e | None \<Rightarrow> Inr (strings_TrimSpace (fst r)))
   }"

definition VerifyHeadSignature :: "git_host \<Rightarrow> git_source \<Rightarrow> err option gprog" where
  "VerifyHeadSignature G s = do {
     r \<leftarrow> git_run G s (gs_dir s) [''verify-commit'', ''HEAD''];
     State_Monad.return (map_option (Wrap ''git: HEAD commit signature verification failed'') (snd r))
   }"

definition requireSignedCommits :: "git_host \<Rightarrow> bool" where
  "requireSignedCommits G =
     (strings_ToLower (strings_TrimSpace (gh_Getenv G ''ROLLOPS_REQUIRE_SIGNED_COMMITS'')) \<in> {''1'', ''true'', ''yes'', ''on''})"

text \<open>Changed, the head, the error.\<close>

definition Pull :: "git_host \<Rightarrow> git_source \<Rightarrow> (bool \<times> string \<times> err option) gprog" where
  "Pull G s = do {
     b \<leftarrow> Head G s;
     (let before = (case b of Inl _ \<Rightarrow> [] | Inr x \<Rightarrow> x) in do {
     f \<leftarrow> git_run G s (gs_dir s) [''fetch'', ''origin'', gs_branch s];
     (case snd f of Some e \<Rightarrow> State_Monad.return (False, before, Some e) | None \<Rightarrow> do {
     r \<leftarrow> git_run G s (gs_dir s) [''reset'', ''--hard'', ''origin/'' @ gs_branch s];
     (case snd r of Some e \<Rightarrow> State_Monad.return (False, before, Some e) | None \<Rightarrow> do {
     a \<leftarrow> Head G s;
     (case a of
        Inl e \<Rightarrow> State_Monad.return (False, before, Some e)
      | Inr after \<Rightarrow>
          if requireSignedCommits G then do {
            v \<leftarrow> VerifyHeadSignature G s;
            State_Monad.return (before \<noteq> after, after, v)
          } else State_Monad.return (before \<noteq> after, after, None))
     })})})
   }"

section \<open>Writing back\<close>

definition CommitFile :: "git_host \<Rightarrow> git_source \<Rightarrow> string \<Rightarrow> string \<Rightarrow> string \<Rightarrow> (bool \<times> string) res gprog" where
  "CommitFile G s relPath content message =
     (let clean = filepath_Clean relPath; path = filepath_Join (gs_dir s) clean in
      if clean = ''.'' \<or> strings_HasPrefix clean ''..'' \<or> hd clean = CHR ''/''
      then State_Monad.return (Inl (Err (''git: invalid relative path '' @ relPath)))
      else do {
        d \<leftarrow> host_call (gh_File G) (GitMkdir (filepath_Dir path));
        (case d of Some e \<Rightarrow> State_Monad.return (Inl (Wrap ''git: mkdir'' e)) | None \<Rightarrow> do {
        w \<leftarrow> host_call (gh_File G) (GitWrite path content);
        (case w of Some e \<Rightarrow> State_Monad.return (Inl (Wrap ''git: write file'' e)) | None \<Rightarrow> do {
        a \<leftarrow> git_run G s (gs_dir s) [''add'', clean];
        (case snd a of Some e \<Rightarrow> State_Monad.return (Inl e) | None \<Rightarrow> do {
        q \<leftarrow> git_run G s (gs_dir s) [''diff'', ''--cached'', ''--quiet''];
        (case q of
           (out, None) \<Rightarrow> State_Monad.return (Inr (False, []))
         | (out, Some e) \<Rightarrow>
             if out \<noteq> [] then State_Monad.return (Inl e)
             else do {
               c \<leftarrow> git_run G s (gs_dir s) [''-c'', ''user.name=rollops'', ''-c'', ''user.email=rollops@localhost'', ''commit'', ''-m'', message];
               (case snd c of Some e \<Rightarrow> State_Monad.return (Inl e) | None \<Rightarrow> do {
                  h \<leftarrow> Head G s;
                  State_Monad.return (case h of Inl e \<Rightarrow> Inl e | Inr head \<Rightarrow> Inr (True, head))
               })
             })
        })})})
      })"

definition Push :: "git_host \<Rightarrow> git_source \<Rightarrow> err option gprog" where
  "Push G s = do { r \<leftarrow> git_run G s (gs_dir s) [''push'', ''origin'', gs_branch s]; State_Monad.return (snd r) }"

definition CommitFileOnBranch :: "git_host \<Rightarrow> git_source \<Rightarrow> string \<Rightarrow> string \<Rightarrow> string \<Rightarrow> string \<Rightarrow> (bool \<times> err option) gprog" where
  "CommitFileOnBranch G s headBranch relPath content message =
     (if headBranch = [] \<or> headBranch = gs_branch s
      then State_Monad.return (False, Some (Err (''git: refusing to commit on the tracked branch '' @ gs_branch s @ '' via the PR path'')))
      else do {
        c \<leftarrow> git_run G s (gs_dir s) [''checkout'', ''-B'', headBranch, gs_branch s];
        (case snd c of Some e \<Rightarrow> State_Monad.return (False, Some (Wrap (''git: checkout -B '' @ headBranch) e)) | None \<Rightarrow> do {
        r \<leftarrow> CommitFile G s relPath content message;
        (case r of
           Inl e \<Rightarrow> do { _ \<leftarrow> git_run G s (gs_dir s) [''checkout'', gs_branch s]; State_Monad.return (False, Some e) }
         | Inr (committed, _) \<Rightarrow> do {
             b \<leftarrow> git_run G s (gs_dir s) [''checkout'', gs_branch s];
             State_Monad.return (committed, map_option (Wrap (''git: return to '' @ gs_branch s)) (snd b))
           })
        })
      })"

definition RemoteFileMatches :: "git_host \<Rightarrow> git_source \<Rightarrow> string \<Rightarrow> string \<Rightarrow> string \<Rightarrow> bool gprog" where
  "RemoteFileMatches G s branch relPath want = do {
     f \<leftarrow> git_run G s (gs_dir s) [''fetch'', ''origin'', branch];
     (case snd f of Some e \<Rightarrow> State_Monad.return False | None \<Rightarrow> do {
        g \<leftarrow> git_run G s (gs_dir s) [''show'', ''FETCH_HEAD:'' @ relPath];
        State_Monad.return (case snd g of Some e \<Rightarrow> False | None \<Rightarrow> fst g = want)
     })
   }"

definition PushBranch :: "git_host \<Rightarrow> git_source \<Rightarrow> string \<Rightarrow> err option gprog" where
  "PushBranch G s headBranch = do {
     r \<leftarrow> git_run G s (gs_dir s) [''push'', ''--force'', ''origin'', headBranch @ '':'' @ headBranch];
     State_Monad.return (snd r)
   }"

section \<open>Pull requests\<close>

definition githubAPI :: "git_host \<Rightarrow> git_source \<Rightarrow> string \<Rightarrow> string \<Rightarrow> string \<Rightarrow> (int \<times> string) res gprog" where
  "githubAPI G s method path body = do {
     t \<leftarrow> auth_token G (gs_auth s);
     case t of
       Inl e \<Rightarrow> State_Monad.return (Inl (Wrap ''git: resolve token'' e))
     | Inr token \<Rightarrow>
         (let url = (if gs_apiBase s = [] then ''https://api.github.com'' else gs_apiBase s) @ path in
          case gh_BadURL G url of Some e \<Rightarrow> State_Monad.return (Inl e) | None \<Rightarrow> do {
            r \<leftarrow> host_call (gh_API G) (GithubReq method url token body);
            State_Monad.return (map_sum (Wrap (''git: github api '' @ method @ '' '' @ path)) (map_prod id (take (2 ^ 20))) r)
          })
   }"

definition status_err :: "string \<Rightarrow> int \<times> string \<Rightarrow> err" where
  "status_err what r = Err (what @ '': status '' @ itoa (fst r) @ '': '' @ strings_TrimSpace (snd r))"

definition findOpenPR :: "git_host \<Rightarrow> git_source \<Rightarrow> string \<Rightarrow> string \<Rightarrow> string \<Rightarrow> (string \<times> string) res gprog" where
  "findOpenPR G s owner repo head = do {
     r \<leftarrow> githubAPI G s ''GET'' (''/repos/'' @ owner @ ''/'' @ repo @ ''/pulls?state=open&head='' @ owner @ '':'' @ head) [];
     State_Monad.return (case r of
         Inl e \<Rightarrow> Inl e
       | Inr a \<Rightarrow>
           if fst a \<noteq> 200 then Inl (status_err (''git: list PRs for '' @ head) a)
           else (case gh_Listed G (snd a) of
               Inl e \<Rightarrow> Inl (Wrap ''git: parse PR list'' e)
             | Inr [] \<Rightarrow> Inl (Err (''git: PR for head '' @ head @ '' reported existing but none found open''))
             | Inr (p # _) \<Rightarrow> Inr p))
   }"

definition createOrFindPR :: "git_host \<Rightarrow> git_source \<Rightarrow> string \<Rightarrow> string \<Rightarrow> string \<Rightarrow> string \<Rightarrow> string \<Rightarrow> string \<Rightarrow> (string \<times> string) res gprog" where
  "createOrFindPR G s owner repo head base title body = do {
     r \<leftarrow> githubAPI G s ''POST'' (''/repos/'' @ owner @ ''/'' @ repo @ ''/pulls'') (gh_PullJSON G title head base body);
     case r of
       Inl e \<Rightarrow> State_Monad.return (Inl e)
     | Inr a \<Rightarrow>
         if fst a = 201 then State_Monad.return (map_sum (Wrap ''git: parse created PR'') id (gh_Created G (snd a)))
         else if fst a = 422 \<and> strings_Contains (strings_ToLower (snd a)) ''already exist'' then findOpenPR G s owner repo head
         else State_Monad.return (Inl (status_err (''git: open PR '' @ owner @ ''/'' @ repo @ '' ('' @ head @ [CHR 0xE2, CHR 0x86, CHR 0x92] @ base @ '')'') a))
   }"

definition enableAutoMerge :: "git_host \<Rightarrow> git_source \<Rightarrow> string \<Rightarrow> err option gprog" where
  "enableAutoMerge G s prNodeID =
     (if prNodeID = [] then State_Monad.return (Some (Err ''git: auto-merge: empty PR node id''))
      else do {
        r \<leftarrow> githubAPI G s ''POST'' ''/graphql'' (gh_MergeJSON G prNodeID);
        State_Monad.return (case r of
            Inl e \<Rightarrow> Some e
          | Inr a \<Rightarrow>
              if fst a \<noteq> 200 \<or> strings_Contains (snd a) ([CHR 0x22] @ ''errors'' @ [CHR 0x22])
              then Some (status_err ''git: enable auto-merge'' a) else None)
      })"

definition OpenPullRequest :: "git_host \<Rightarrow> git_source \<Rightarrow> string \<Rightarrow> string \<Rightarrow> string \<Rightarrow> string \<Rightarrow> (string \<times> bool) res gprog" where
  "OpenPullRequest G s headBranch base title body =
     (case ownerRepoFromURL (gs_url s) of
        Inl e \<Rightarrow> State_Monad.return (Inl e)
      | Inr (owner, repo) \<Rightarrow> do {
          p \<leftarrow> createOrFindPR G s owner repo headBranch base title body;
          case p of
            Inl e \<Rightarrow> State_Monad.return (Inl e)
          | Inr (nodeID, url) \<Rightarrow> do {
              m \<leftarrow> enableAutoMerge G s nodeID;
              State_Monad.return (Inr (url, m = None))
            }
        })"

section \<open>The token of a GitHub App\<close>

text \<open>
  The cache of the App is its state. The clock answers the readings of one call in turn; \<open>ah_Decode\<close> gives
  the token and, unless it is absent or the zero time, its expiry.
\<close>

record app_host =
  ah_Clock :: "nat \<Rightarrow> time"
  ah_B64URL :: "string \<Rightarrow> string"
  ah_Claims :: "int \<Rightarrow> int \<Rightarrow> string \<Rightarrow> string res"
  ah_Sign :: "string \<Rightarrow> string res"
  ah_BadURL :: "string \<Rightarrow> err option"
  ah_Post :: "string \<Rightarrow> string \<Rightarrow> (int \<times> string) res"
  ah_Decode :: "string \<Rightarrow> (string \<times> time option) res"

record github_app =
  ap_appID :: string
  ap_installationID :: string
  ap_apiBase :: string
  ap_token :: string
  ap_exp :: time

definition NewGitHubApp :: "err option \<Rightarrow> string \<Rightarrow> string \<Rightarrow> string option \<Rightarrow> github_app res" where
  "NewGitHubApp keyErr appID installationID base =
     (if appID = [] \<or> installationID = [] then Inl (Err ''githubapp: appID and installationID are required'')
      else (case keyErr of
          Some e \<Rightarrow> Inl e
        | None \<Rightarrow> Inr \<lparr>ap_appID = appID, ap_installationID = installationID,
            ap_apiBase = (case base of None \<Rightarrow> ''https://api.github.com'' | Some b \<Rightarrow> b), ap_token = [], ap_exp = 0\<rparr>))"

definition dq :: "string \<Rightarrow> string" where
  "dq s = [CHR 0x22] @ s @ [CHR 0x22]"

definition signJWT :: "app_host \<Rightarrow> github_app \<Rightarrow> time \<Rightarrow> string res" where
  "signJWT H g t =
     (case ah_Claims H ((t - 60 * second) div second) ((t + 9 * minute) div second) (ap_appID g) of
        Inl e \<Rightarrow> Inl e
      | Inr claims \<Rightarrow>
          (let signingInput = ah_B64URL H (''{'' @ dq ''alg'' @ '':'' @ dq ''RS256'' @ '','' @ dq ''typ'' @ '':'' @ dq ''JWT'' @ ''}'') @ ''.'' @ ah_B64URL H claims in
           case ah_Sign H signingInput of
             Inl e \<Rightarrow> Inl (Wrap ''githubapp: sign jwt'' e)
           | Inr sg \<Rightarrow> Inr (signingInput @ ''.'' @ ah_B64URL H sg)))"

definition mint :: "app_host \<Rightarrow> github_app \<Rightarrow> (string \<times> time) res" where
  "mint H g =
     (case signJWT H g (ah_Clock H 1) of
        Inl e \<Rightarrow> Inl e
      | Inr jwt \<Rightarrow>
          (let url = ap_apiBase g @ ''/app/installations/'' @ ap_installationID g @ ''/access_tokens'' in
           case ah_BadURL H url of Some e \<Rightarrow> Inl e | None \<Rightarrow>
          (case ah_Post H url jwt of
             Inl e \<Rightarrow> Inl (Wrap ''githubapp: installation token request'' e)
           | Inr (status, full) \<Rightarrow>
               (let body = take (2 ^ 20) full in
                if status \<noteq> 201 then Inl (Err (''githubapp: installation token status '' @ itoa status @ '': '' @ strings_TrimSpace body))
                else (case ah_Decode H body of
                    Inl e \<Rightarrow> Inl (Wrap ''githubapp: parse installation token'' e)
                  | Inr (tk, expiry) \<Rightarrow>
                      if tk = [] then Inl (Err ''githubapp: empty installation token in response'')
                      else Inr (tk, (case expiry of None \<Rightarrow> ah_Clock H 2 + 60 * minute | Some x \<Rightarrow> x)))))))"

definition App_Token :: "app_host \<Rightarrow> github_app \<Rightarrow> string res \<times> github_app" where
  "App_Token H g =
     (if ap_token g \<noteq> [] \<and> ah_Clock H 0 < ap_exp g - 60 * second then (Inr (ap_token g), g)
      else (case mint H g of
          Inl e \<Rightarrow> (Inl e, g)
        | Inr (tk, expiry) \<Rightarrow> (Inr tk, g\<lparr>ap_token := tk, ap_exp := expiry\<rparr>)))"

section \<open>Commands that ran\<close>

text \<open>A command that git answered without an error, after the token if that is dynamic.\<close>

definition ran :: "git_host \<Rightarrow> git_source \<Rightarrow> string list \<Rightarrow> string \<Rightarrow> git_call list \<Rightarrow> git_call list \<Rightarrow> bool" where
  "ran G s args out h h' \<longleftrightarrow>
     (\<exists>ts token. set ts \<subseteq> {GitToken} \<and>
        (let c = GitRun (gs_dir s) (ga_DeployKeyPath (gs_auth s)) (with_header G token args) in
         h' = h @ ts @ [c] \<and> gh_Run G (h @ ts) c = (out, None)))"

lemma ran_git_run:
  assumes "run_state (git_run G s (gs_dir s) args) h = ((out, None), h')"
  shows "ran G s args out h h'"
  using assms
  by (auto simp: git_run_def auth_token_def run_state_simps run_host_call ran_def Let_def prod_eq_iff
      split: sum.splits if_splits prod.splits)

lemma ran_Head:
  assumes "run_state (Head G s) h = (Inr x, h')"
  shows "\<exists>out. ran G s [''rev-parse'', ''HEAD''] out h h' \<and> x = strings_TrimSpace out"
  using assms by (auto simp: Head_def run_state_simps dest!: ran_git_run split: option.splits prod.splits)

lemma ran_VerifyHeadSignature:
  assumes "run_state (VerifyHeadSignature G s) h = (None, h')"
  shows "\<exists>out. ran G s [''verify-commit'', ''HEAD''] out h h'"
  using assms by (auto simp: VerifyHeadSignature_def run_state_simps dest!: ran_git_run split: option.splits prod.splits)

text \<open>
  C9: \<^verbatim>\<open>Pull\<close> with \<^verbatim>\<open>ROLLOPS_REQUIRE_SIGNED_COMMITS\<close> on: when it reports no error, git fetched the tracked
  branch, reset the tree to it, named the head that is reported, and as the very last command verified
  the signature of that head; nothing runs between reading the head and verifying it.
\<close>

theorem pull_verified:
  assumes "requireSignedCommits G" "run_state (Pull G s) h = ((changed, head, None), h')"
  shows "\<exists>h1 h2 h3 h4 o1 o2 o3 o4.
    ran G s [''fetch'', ''origin'', gs_branch s] o1 h1 h2 \<and>
    ran G s [''reset'', ''--hard'', ''origin/'' @ gs_branch s] o2 h2 h3 \<and>
    ran G s [''rev-parse'', ''HEAD''] o3 h3 h4 \<and> head = strings_TrimSpace o3 \<and>
    ran G s [''verify-commit'', ''HEAD''] o4 h4 h'"
proof -
  obtain b h1 where b: "run_state (Head G s) h = (b, h1)" by fastforce
  obtain o1 e1 h2 where f: "run_state (git_run G s (gs_dir s) [''fetch'', ''origin'', gs_branch s]) h1 = ((o1, e1), h2)"
    by (metis surj_pair)
  obtain o2 e2 h3 where r: "run_state (git_run G s (gs_dir s) [''reset'', ''--hard'', ''origin/'' @ gs_branch s]) h2 = ((o2, e2), h3)"
    by (metis surj_pair)
  obtain a h4 where a: "run_state (Head G s) h3 = (a, h4)" by fastforce
  obtain v h5 where v: "run_state (VerifyHeadSignature G s) h4 = (v, h5)" by fastforce
  have ok: "e1 = None" "e2 = None" "a = Inr head" "v = None" "h5 = h'"
    using assms b f r a v by (simp_all add: Pull_def run_state_simps Let_def split: option.splits sum.splits)
  obtain o3 where o3: "ran G s [''rev-parse'', ''HEAD''] o3 h3 h4" "head = strings_TrimSpace o3"
    using ran_Head a ok(3) by blast
  obtain o4 where "ran G s [''verify-commit'', ''HEAD''] o4 h4 h'"
    using ran_VerifyHeadSignature v ok(4,5) by blast
  then show ?thesis using ran_git_run f r ok(1,2) o3 by blast
qed

text \<open>A host that answers every command with \<open>abc\<close> and no error, with the requirement set.\<close>

definition good_git :: git_host where
  "good_git = \<lparr>gh_Token = (\<lambda>_. Inr ''t''), gh_Run = (\<lambda>_ _. (''abc'', None)), gh_File = (\<lambda>_ _. None),
     gh_API = (\<lambda>_ _. Inr (201, [])), gh_BadURL = (\<lambda>_. None), gh_B64 = id, gh_Getenv = (\<lambda>_. '' On''),
     gh_Created = (\<lambda>_. Inr (''id'', ''url'')), gh_Listed = (\<lambda>_. Inr []), gh_PullJSON = (\<lambda>_ _ _ _. []), gh_MergeJSON = id\<rparr>"

definition main_source :: git_source where
  "main_source = \<lparr>gs_dir = ''/w'', gs_branch = ''main'', gs_auth = \<lparr>ga_DeployKeyPath = [], ga_Token = [], ga_Dynamic = True\<rparr>,
     gs_url = ''https://github.com/acme/app'', gs_apiBase = []\<rparr>"

lemma good_pull: "requireSignedCommits good_git" "fst (run_state (Pull good_git main_source) []) = (False, ''abc'', None)"
  by code_simp+

theorem pull_verified_witness:
  "\<exists>h' h4 out. run_state (Pull good_git main_source) [] = ((False, ''abc'', None), h') \<and>
     ran good_git main_source [''verify-commit'', ''HEAD''] out h4 h'"
proof -
  obtain h' where p: "run_state (Pull good_git main_source) [] = ((False, ''abc'', None), h')"
    using good_pull(2) by (metis prod.collapse)
  from pull_verified [OF good_pull(1) p] show ?thesis using p by blast
qed

section \<open>Proposals\<close>

text \<open>
  The commands of a proposal: none of them pushes, and a commit is one of the proposal's message. A file
  is written inside the working tree.
\<close>

definition proposal_args :: "git_source \<Rightarrow> string \<Rightarrow> string \<Rightarrow> string list \<Rightarrow> bool" where
  "proposal_args s headBranch message args \<longleftrightarrow>
     (args \<in> {[''checkout'', ''-B'', headBranch, gs_branch s], [''checkout'', gs_branch s], [''diff'', ''--cached'', ''--quiet''],
        [''rev-parse'', ''HEAD''], [''-c'', ''user.name=rollops'', ''-c'', ''user.email=rollops@localhost'', ''commit'', ''-m'', message]} \<or>
      (\<exists>p. args = [''add'', p] \<and> hd p \<noteq> CHR ''/'' \<and> \<not> strings_HasPrefix p ''..''))"

fun proposal_call :: "git_host \<Rightarrow> git_source \<Rightarrow> string \<Rightarrow> string \<Rightarrow> string \<Rightarrow> git_call \<Rightarrow> bool" where
  "proposal_call G s headBranch content message (GitWrite p c) = (inside (gs_dir s) p \<and> c = content)"
| "proposal_call G s headBranch content message (GitRun w k args) =
     (w = gs_dir s \<and> (\<exists>token a. args = with_header G token a \<and> proposal_args s headBranch message a))"
| "proposal_call G s headBranch content message (GithubReq m u t b) = False"
| "proposal_call G s headBranch content message _ = True"

abbreviation pcalls :: "git_host \<Rightarrow> git_source \<Rightarrow> string \<Rightarrow> string \<Rightarrow> string \<Rightarrow> git_call list \<Rightarrow> git_call list \<Rightarrow> bool" where
  "pcalls G s b content message \<equiv> calls_in (proposal_call G s b content message)"

lemma keeps_git_run:
  "proposal_args s b m args \<Longrightarrow> keeps (pcalls G s b content m) (git_run G s (gs_dir s) args)"
  unfolding git_run_def auth_token_def
  by (intro keeps_rules calls.keeps_bind calls.keeps_return keeps_host_call) auto

lemma keeps_Head: "keeps (pcalls G s b content m) (Head G s)"
  unfolding Head_def by (intro keeps_rules calls.keeps_bind calls.keeps_return keeps_git_run) (auto simp: proposal_args_def)

lemma no_parent:
  assumes "hd (filepath_Clean p) \<noteq> CHR ''/''" "\<not> strings_HasPrefix (filepath_Clean p) ''..''" "d \<noteq> []"
  shows "inside d (filepath_Join d (filepath_Clean p))"
proof (intro inside_Join clean_stays_below assms)
  have "take 2 (filepath_Clean p) \<noteq> ''..''" using assms(2) by (simp add: strings_HasPrefix_def numeral_2_eq_2)
  moreover have "take 2 q = ''..''" if "take 3 q = ''../''" for q :: string
    using arg_cong [OF that, of "take 2"] by (simp add: min_def)
  ultimately show "\<not> strings_HasPrefix (filepath_Clean p) ''../''" "filepath_Clean p \<noteq> ''..''"
    by (auto simp: strings_HasPrefix_def numeral_eq_Suc)
qed

lemma keeps_CommitFile:
  "gs_dir s \<noteq> [] \<Longrightarrow> keeps (pcalls G s b content m) (CommitFile G s p content m)"
  unfolding CommitFile_def Let_def
  by (intro keeps_rules calls.keeps_bind calls.keeps_return keeps_git_run keeps_host_call keeps_Head)
    (auto simp: proposal_args_def no_parent)

lemma keeps_CommitFileOnBranch:
  "gs_dir s \<noteq> [] \<Longrightarrow> keeps (pcalls G s b content m) (CommitFileOnBranch G s b p content m)"
  unfolding CommitFileOnBranch_def
  by (intro keeps_rules calls.keeps_bind calls.keeps_return keeps_git_run keeps_CommitFile)
    (auto simp: proposal_args_def)

text \<open>
  \<^verbatim>\<open>CommitFileOnBranch\<close> never commits on the tracked branch: it refuses a head branch of that name before
  any command. All its commands run in the working tree and none pushes; the file is written inside the
  working tree. Unless creating the head branch failed, the last thing it does is to check the tracked
  branch out again, and without an error git did so.
\<close>

theorem proposal_returns:
  assumes "gs_dir s \<noteq> []" "run_state (CommitFileOnBranch G s b p content m) h = ((committed, e), h')"
  shows "calls_in (proposal_call G s b content m) h h' \<and>
    (b = [] \<or> b = gs_branch s \<longrightarrow> h' = h \<and> e \<noteq> None) \<and>
    (h' = h \<or> h' = snd (run_state (git_run G s (gs_dir s) [''checkout'', ''-B'', b, gs_branch s]) h) \<or>
     (\<exists>h1. h' = snd (run_state (git_run G s (gs_dir s) [''checkout'', gs_branch s]) h1))) \<and>
    (e = None \<longrightarrow> (\<exists>out h1. ran G s [''checkout'', gs_branch s] out h1 h')) \<and>
    (committed \<longrightarrow> (\<exists>out h1. ran G s [''checkout'', ''-B'', b, gs_branch s] out h h1))"
proof -
  have k: "calls_in (proposal_call G s b content m) h h'"
    using keepsD [OF keeps_CommitFileOnBranch [OF assms(1)] assms(2)] .
  obtain o1 e1 h1 where c: "run_state (git_run G s (gs_dir s) [''checkout'', ''-B'', b, gs_branch s]) h = ((o1, e1), h1)"
    by (metis surj_pair)
  obtain r h2 where r: "run_state (CommitFile G s p content m) h1 = (r, h2)" by fastforce
  obtain o3 e3 h3 where t: "run_state (git_run G s (gs_dir s) [''checkout'', gs_branch s]) h2 = ((o3, e3), h3)"
    by (metis surj_pair)
  note run = assms(2) [unfolded CommitFileOnBranch_def, simplified run_state_simps]
  show ?thesis
  proof (cases "b = [] \<or> b = gs_branch s")
    case True
    then show ?thesis using k run by (auto simp: run_state_simps)
  next
    case False
    have last: "h3 = snd (run_state (git_run G s (gs_dir s) [''checkout'', gs_branch s]) h2)" using t by simp
    have first: "\<exists>out h1. ran G s [''checkout'', ''-B'', b, gs_branch s] out h h1" if "e1 = None"
      using c that ran_git_run by blast
    have final: "\<exists>out h1. ran G s [''checkout'', gs_branch s] out h1 h3" if "e3 = None"
      using t that ran_git_run by blast
    consider x where "e1 = Some x" | x where "e1 = None" "r = Inl x" | x y where "e1 = None" "r = Inr (x, y)"
      by (cases e1; cases r) auto
    then show ?thesis
    proof cases
      case 1
      then show ?thesis using k False run c by (auto simp: run_state_simps)
    next
      case 2
      then have "e \<noteq> None" "h' = h3" "\<not> committed" using False run c r t by (auto simp: run_state_simps)
      then show ?thesis using k False last by blast
    next
      case 3
      then have "h' = h3" "e = map_option (Wrap (''git: return to '' @ gs_branch s)) e3"
        using False run c r t by (auto simp: run_state_simps)
      then show ?thesis using k False last first [OF 3(1)] final by auto
    qed
  qed
qed

lemma good_proposal:
  "fst (run_state (CommitFileOnBranch good_git main_source ''bump'' ''deploy/app.yaml'' ''x'' ''m'') []) = (False, None)"
  by code_simp

theorem proposal_returns_witness:
  "\<exists>h' out h1. run_state (CommitFileOnBranch good_git main_source ''bump'' ''deploy/app.yaml'' ''x'' ''m'') [] = ((False, None), h') \<and>
     calls_in (proposal_call good_git main_source ''bump'' ''x'' ''m'') [] h' \<and>
     ran good_git main_source [''checkout'', ''main''] out h1 h'"
proof -
  obtain h' where p: "run_state (CommitFileOnBranch good_git main_source ''bump'' ''deploy/app.yaml'' ''x'' ''m'') [] = ((False, None), h')"
    using good_proposal by (metis prod.collapse)
  have d: "gs_dir main_source \<noteq> []" "gs_branch main_source = ''main''" by (simp_all add: main_source_def)
  from proposal_returns [OF d(1) p] d(2) p show ?thesis by auto
qed

section \<open>Tokens\<close>

text \<open>What a failed command says does not depend on the token it carried.\<close>

lemma git_failed_any_token:
  assumes "t \<noteq> []" "t' \<noteq> []"
  shows "git_failed (with_header G t args) f = git_failed (with_header G t' args) f"
  using assms by (simp add: git_failed_def with_header_def redactArgs_def strings_HasPrefix_def)

text \<open>
  The token cache: a token is handed out with at least a minute left or freshly minted, and it is handed
  out again, with no request, for as long as more than a minute is left; a failed mint changes nothing.
\<close>

lemma App_Token_fresh:
  assumes "App_Token H g = (Inr t, g')"
  shows "t \<noteq> []" "ap_token g' = t"
    "g' = g \<and> ah_Clock H 0 < ap_exp g - 60 * second \<or> mint H g = Inr (t, ap_exp g')"
    "ah_Clock H' 0 < ap_exp g' - 60 * second \<Longrightarrow> App_Token H' g' = (Inr t, g')"
proof -
  have m: "x \<noteq> []" if "mint H g = Inr (x, y)" for x y
    using that by (auto simp: mint_def Let_def split: sum.splits prod.splits if_splits option.splits)
  show "t \<noteq> []" "ap_token g' = t"
    "g' = g \<and> ah_Clock H 0 < ap_exp g - 60 * second \<or> mint H g = Inr (t, ap_exp g')"
    using assms m by (auto simp: App_Token_def split: sum.splits prod.splits if_splits)
  then show "ah_Clock H' 0 < ap_exp g' - 60 * second \<Longrightarrow> App_Token H' g' = (Inr t, g')"
    by (simp add: App_Token_def)
qed

lemma App_Token_failed: "App_Token H g = (Inl e, g') \<Longrightarrow> g' = g"
  by (auto simp: App_Token_def split: sum.splits prod.splits if_splits)

end
