(* ===== verification/Plugin_Market.thy ===== *)
theory Plugin_Market
  imports Kube_Render Confine
begin

text \<open>
  Installing plugins: the index of \<^verbatim>\<open>internal/registry/registry.go\<close>, the blob verifier of
  \<^verbatim>\<open>internal/security/blob.go\<close> and the plugin commands of \<^verbatim>\<open>internal/cli/plugin.go\<close>. A line of output, a download,
  a run of cosign, a file read or written are calls, which \<open>inst_env\<close> answers; JSON and SHA-256 are fields
  of it. The flags of a command are given parsed; the output is in ASCII, a table before its columns are aligned.

  \<open>install_vetted\<close> and \<open>update_vetted\<close>: a binary is put in place only right after its digest was read and, by
  name, equals the published pin, and right after cosign accepted it where a signature is required.
\<close>

section \<open>The index\<close>

record cosign_id =
  ci_Identity :: string
  ci_Issuer :: string

record market_artifact =
  pa_OS :: string
  pa_Arch :: string
  pa_URL :: string
  pa_SHA256 :: string
  pa_Bundle :: string
  pa_Signature :: string
  pa_Certificate :: string

record market_version =
  mv_Cosign :: "cosign_id option"
  mv_Artifacts :: "market_artifact list"

text \<open>The versions of a plugin are a Go map, given in the order in which it is ranged over.\<close>

record market_plugin =
  mp_Name :: string
  mp_Description :: string
  mp_Homepage :: string
  mp_Capabilities :: "string list"
  mp_Latest :: string
  mp_Versions :: "(string \<times> market_version) list"

type_synonym market_index = "market_plugin list"

definition artifact_Signed :: "market_artifact \<Rightarrow> bool" where
  "artifact_Signed a \<longleftrightarrow> pa_Bundle a \<noteq> [] \<or> pa_Signature a \<noteq> []"

definition Index_Find :: "market_index \<Rightarrow> string \<Rightarrow> market_plugin option" where
  "Index_Find i name = find (\<lambda>p. mp_Name p = name) i"

definition for_platform :: "string \<Rightarrow> string \<Rightarrow> market_artifact \<Rightarrow> bool" where
  "for_platform goos goarch a \<longleftrightarrow> pa_OS a = goos \<and> pa_Arch a = goarch"

fun FindVersionBySHA :: "market_index \<Rightarrow> string \<Rightarrow> string \<Rightarrow> string \<Rightarrow> (string \<times> string) option" where
  "FindVersionBySHA [] digest goos goarch = None"
| "FindVersionBySHA (p # ps) digest goos goarch =
     (case find (\<lambda>kv. list_ex (\<lambda>a. for_platform goos goarch a \<and> EqualFold (pa_SHA256 a) digest) (mv_Artifacts (snd kv))) (mp_Versions p) of
        Some kv \<Rightarrow> Some (mp_Name p, fst kv)
      | None \<Rightarrow> FindVersionBySHA ps digest goos goarch)"

text \<open>\<open>sort.Slice\<close> may order plugins of one name in any way; names of an index are unique.\<close>

definition Index_Search :: "market_index \<Rightarrow> string \<Rightarrow> market_plugin list" where
  "Index_Search i query =
     (let q = strings_ToLower (strings_TrimSpace query) in
      sort_key mp_Name (filter (\<lambda>p. q = [] \<or> strings_Contains (strings_ToLower (mp_Name p)) q \<or>
        strings_Contains (strings_ToLower (mp_Description p)) q \<or>
        strings_Contains (strings_ToLower (strings_Join (mp_Capabilities p) '' '')) q) i))"

definition Index_Resolve :: "market_index \<Rightarrow> string \<Rightarrow> string \<Rightarrow> string \<Rightarrow> string \<Rightarrow> (market_artifact \<times> cosign_id option) res" where
  "Index_Resolve i name vsn goos goarch =
     (case Index_Find i name of
        None \<Rightarrow> Inl (Err (''registry: plugin '' @ name @ '' not found''))
      | Some p \<Rightarrow>
          (let ver = (if vsn = [] then mp_Latest p else vsn) in
           case map_of (mp_Versions p) ver of
             None \<Rightarrow> Inl (Err (''registry: plugin '' @ name @ '' has no version '' @ ver))
           | Some v \<Rightarrow>
               (case find (for_platform goos goarch) (mv_Artifacts v) of
                  None \<Rightarrow> Inl (Err (''registry: plugin '' @ name @ '' '' @ ver @ '': no artifact for '' @ goos @ ''/'' @ goarch))
                | Some a \<Rightarrow> Inr (a, mv_Cosign v))))"

definition sortedVersions :: "market_plugin \<Rightarrow> string list" where
  "sortedVersions p =
     (let vers = rev (sort (filter (\<lambda>v. v \<noteq> mp_Latest p) (map fst (mp_Versions p)))) in
      if map_of (mp_Versions p) (mp_Latest p) \<noteq> None then mp_Latest p # vers else vers)"

section \<open>Calls\<close>

datatype inst_call =
    InSay string
  | InStat string
  | InGet string
  | InSave string
  | InRemove string
  | InIndex string
  | InCosign "string list"
  | InHash string
  | InMkdir string
  | InCopy string string
  | InReadDir string

record dir_entry =
  de_Name :: string
  de_IsDir :: bool
  de_Info :: "(bool \<times> int \<times> int) option"

datatype dir_listing = DirMissing | DirFailed err | DirEntries "dir_entry list"

text \<open>
  \<open>ie_Get\<close> gives the status of a response, \<open>ie_Save\<close> the temporary file its body was copied to, \<open>ie_Index\<close> its
  body decoded; \<open>ie_Info\<close> of an entry is whether the file is regular, its permission bits and its size.
\<close>

record inst_env =
  ie_BadURL :: "string \<Rightarrow> err option"
  ie_Stat :: "inst_call list \<Rightarrow> string \<Rightarrow> err option"
  ie_Get :: "inst_call list \<Rightarrow> string \<Rightarrow> int res"
  ie_Save :: "inst_call list \<Rightarrow> string \<Rightarrow> string res"
  ie_Index :: "inst_call list \<Rightarrow> string \<Rightarrow> market_index res"
  ie_Cosign :: "inst_call list \<Rightarrow> string list \<Rightarrow> string \<times> err option"
  ie_Read :: "inst_call list \<Rightarrow> string \<Rightarrow> string res"
  ie_Mkdir :: "inst_call list \<Rightarrow> string \<Rightarrow> err option"
  ie_Copy :: "inst_call list \<Rightarrow> string \<Rightarrow> string \<Rightarrow> err option"
  ie_ReadDir :: "inst_call list \<Rightarrow> string \<Rightarrow> dir_listing"
  ie_SHA256 :: "string \<Rightarrow> string"
  ie_Getenv :: "string \<Rightarrow> string"
  ie_GOOS :: string
  ie_GOARCH :: string

type_synonym 'a iprog = "(inst_call list, 'a) state"

definition say :: "string \<Rightarrow> unit iprog" where
  "say line = host_call (\<lambda>_ _. ()) (InSay line)"

abbreviation tab :: string where "tab \<equiv> [CHR 0x09]"

definition registry_Fetch :: "inst_env \<Rightarrow> string \<Rightarrow> market_index res iprog" where
  "registry_Fetch E url =
     (case ie_BadURL E url of Some e \<Rightarrow> State_Monad.return (Inl e) | None \<Rightarrow> do {
        r \<leftarrow> host_call (\<lambda>h _. ie_Get E h url) (InGet url);
        (case r of
           Inl e \<Rightarrow> State_Monad.return (Inl (Wrap (''registry: fetch '' @ url) e))
         | Inr status \<Rightarrow>
             if status \<noteq> 200 then State_Monad.return (Inl (Err (''registry: fetch '' @ url @ '': status '' @ itoa status)))
             else do {
               i \<leftarrow> host_call (\<lambda>h _. ie_Index E h url) (InIndex url);
               State_Monad.return (map_sum (Wrap ''registry: parse'') id i)
             })
      })"

text \<open>A download into a temporary file: the path, and the files to remove afterwards.\<close>

definition http_download :: "inst_env \<Rightarrow> string \<Rightarrow> (string \<times> string list) res iprog" where
  "http_download E url =
     (case ie_BadURL E url of Some e \<Rightarrow> State_Monad.return (Inl e) | None \<Rightarrow> do {
        r \<leftarrow> host_call (\<lambda>h _. ie_Get E h url) (InGet url);
        (case r of
           Inl e \<Rightarrow> State_Monad.return (Inl e)
         | Inr status \<Rightarrow>
             if status \<ge> 300 then State_Monad.return (Inl (Err (''download '' @ url @ '': status '' @ itoa status)))
             else do {
               f \<leftarrow> host_call (\<lambda>h _. ie_Save E h url) (InSave url);
               State_Monad.return (map_sum id (\<lambda>p. (p, [p])) f)
             })
      })"

definition local_file :: "inst_env \<Rightarrow> string \<Rightarrow> (string \<times> string list) res iprog" where
  "local_file E p = do {
     s \<leftarrow> host_call (\<lambda>h _. ie_Stat E h p) (InStat p);
     State_Monad.return (case s of Some e \<Rightarrow> Inl e | None \<Rightarrow> Inr (p, []))
   }"

definition downloadTemp :: "inst_env \<Rightarrow> string \<Rightarrow> (string \<times> string list) res iprog" where
  "downloadTemp E src = (if \<not> strings_Contains src ''://'' then local_file E src else http_download E src)"

definition fetchPlugin :: "inst_env \<Rightarrow> string \<Rightarrow> (string \<times> string list) res iprog" where
  "fetchPlugin E src =
     (if strings_HasPrefix src ''https://'' then http_download E src
      else if strings_Contains src ''://''
      then State_Monad.return (Inl (Err (''unsupported source scheme (use a local path or https URL): '' @ src)))
      else local_file E src)"

definition sha256File :: "inst_env \<Rightarrow> string \<Rightarrow> string res iprog" where
  "sha256File E path = do {
     r \<leftarrow> host_call (\<lambda>h _. ie_Read E h path) (InHash path);
     State_Monad.return (map_sum id (\<lambda>c. hex_EncodeToString (ie_SHA256 E c)) r)
   }"

definition copyFileMode :: "inst_env \<Rightarrow> string \<Rightarrow> string \<Rightarrow> err option iprog" where
  "copyFileMode E src dst = host_call (\<lambda>h _. ie_Copy E h src dst) (InCopy src dst)"

definition mkdirAll :: "inst_env \<Rightarrow> string \<Rightarrow> err option iprog" where
  "mkdirAll E d = host_call (\<lambda>h _. ie_Mkdir E h d) (InMkdir d)"

fun remove_files :: "string list \<Rightarrow> unit iprog" where
  "remove_files [] = State_Monad.return ()"
| "remove_files (p # ps) = do { _ \<leftarrow> host_call (\<lambda>_ _. ()) (InRemove p); remove_files ps }"

section \<open>Signatures\<close>

record blob_verifier =
  bv_KeyPath :: string
  bv_CertIdentity :: string
  bv_CertOIDCIssuer :: string
  bv_SignaturePath :: string
  bv_CertificatePath :: string
  bv_BundlePath :: string

definition blob_Configured :: "blob_verifier \<Rightarrow> bool" where
  "blob_Configured c \<longleftrightarrow> bv_KeyPath c \<noteq> [] \<or> bv_CertIdentity c \<noteq> [] \<or> bv_BundlePath c \<noteq> [] \<or> bv_SignaturePath c \<noteq> []"

definition flag_value :: "string \<Rightarrow> string \<Rightarrow> string list" where
  "flag_value f v = (if v \<noteq> [] then [f, v] else [])"

definition blob_args :: "blob_verifier \<Rightarrow> string \<Rightarrow> string list" where
  "blob_args c path =
     [''verify-blob''] @ flag_value ''--key'' (bv_KeyPath c) @ flag_value ''--certificate-identity'' (bv_CertIdentity c) @
     flag_value ''--certificate-oidc-issuer'' (bv_CertOIDCIssuer c) @ flag_value ''--signature'' (bv_SignaturePath c) @
     flag_value ''--certificate'' (bv_CertificatePath c) @ flag_value ''--bundle'' (bv_BundlePath c) @ [path]"

definition VerifyBlob :: "inst_env \<Rightarrow> blob_verifier \<Rightarrow> string \<Rightarrow> (bool \<times> string \<times> err option) iprog" where
  "VerifyBlob E c path = do {
     r \<leftarrow> host_call (\<lambda>h _. ie_Cosign E h (blob_args c path)) (InCosign (blob_args c path));
     State_Monad.return (case snd r of Some _ \<Rightarrow> (False, strings_TrimSpace (fst r), None) | None \<Rightarrow> (True, ''verified'', None))
   }"

definition requireSignature :: "inst_env \<Rightarrow> bool \<Rightarrow> bool" where
  "requireSignature E flagSet \<longleftrightarrow>
     flagSet \<or> strings_ToLower (strings_TrimSpace (ie_Getenv E ''ROLLOPS_PLUGIN_REQUIRE_SIGNATURE'')) \<in> {''1'', ''true'', ''yes'', ''on''}"

text \<open>The check of a fetched file: the error it ends in, if it does.\<close>

definition check_blob :: "inst_env \<Rightarrow> blob_verifier \<Rightarrow> string \<Rightarrow> string \<Rightarrow> err option iprog" where
  "check_blob E v local pre = do {
     r \<leftarrow> VerifyBlob E v local;
     (case r of (ok, reason, verr) \<Rightarrow>
        (case verr of
           Some e \<Rightarrow> State_Monad.return (Some (Wrap (pre @ ''cosign'') e))
         | None \<Rightarrow>
             if \<not> ok then State_Monad.return (Some (Err (pre @ ''cosign verification failed: '' @ reason)))
             else do { _ \<leftarrow> say ''cosign: verified''; State_Monad.return None }))
   }"

section \<open>Installing from the index\<close>

text \<open>The signature material of a signed release, and the temporary files it takes.\<close>

definition signature_material :: "inst_env \<Rightarrow> market_artifact \<Rightarrow> cosign_id option \<Rightarrow> (string list \<times> blob_verifier option res) iprog" where
  "signature_material E art signer =
     (case signer of
        Some c \<Rightarrow>
          (let rv = \<lparr>bv_KeyPath = [], bv_CertIdentity = ci_Identity c, bv_CertOIDCIssuer = ci_Issuer c, bv_SignaturePath = [],
             bv_CertificatePath = [], bv_BundlePath = []\<rparr> in
           if \<not> artifact_Signed art then State_Monad.return ([], Inr None)
           else if pa_Bundle art \<noteq> [] then do {
             b \<leftarrow> downloadTemp E (pa_Bundle art);
             State_Monad.return (case b of
                 Inl e \<Rightarrow> ([], Inl (Wrap ''fetch cosign bundle'' e))
               | Inr (p, ts) \<Rightarrow> (ts, Inr (Some (rv\<lparr>bv_BundlePath := p\<rparr>))))
           }
           else do {
             s \<leftarrow> downloadTemp E (pa_Signature art);
             (case s of
                Inl e \<Rightarrow> State_Monad.return ([], Inl (Wrap ''fetch cosign signature'' e))
              | Inr (p, ts) \<Rightarrow>
                  if pa_Certificate art = [] then State_Monad.return (ts, Inr (Some (rv\<lparr>bv_SignaturePath := p\<rparr>)))
                  else do {
                    c \<leftarrow> downloadTemp E (pa_Certificate art);
                    State_Monad.return (case c of
                        Inl e \<Rightarrow> (ts, Inl (Wrap ''fetch cosign certificate'' e))
                      | Inr (q, ts') \<Rightarrow> (ts @ ts', Inr (Some (rv\<lparr>bv_SignaturePath := p, bv_CertificatePath := q\<rparr>))))
                  })
           })
      | None \<Rightarrow> State_Monad.return ([], Inr None))"

definition pin_and_copy :: "inst_env \<Rightarrow> string \<Rightarrow> string \<Rightarrow> string \<Rightarrow> string \<Rightarrow> string res iprog" where
  "pin_and_copy E name pin local dest = do {
     d \<leftarrow> sha256File E local;
     (case d of
        Inl e \<Rightarrow> State_Monad.return (Inl e)
      | Inr digest \<Rightarrow>
          if \<not> EqualFold digest pin
          then State_Monad.return (Inl (Err (''registry pin mismatch for '' @ name @ '': index '' @ pin @ '', got '' @ digest)))
          else do {
            _ \<leftarrow> say ''registry: sha256 matches the published pin'';
            m \<leftarrow> mkdirAll E (filepath_Dir dest);
            (case m of
               Some e \<Rightarrow> State_Monad.return (Inl e)
             | None \<Rightarrow> do {
                 c \<leftarrow> copyFileMode E local dest;
                 State_Monad.return (case c of Some e \<Rightarrow> Inl e | None \<Rightarrow> Inr digest)
               })
          })
   }"

definition vet_and_place :: "inst_env \<Rightarrow> string \<Rightarrow> string \<Rightarrow> blob_verifier option \<Rightarrow> string \<Rightarrow> string \<Rightarrow> string res iprog" where
  "vet_and_place E name pin v local dest =
     (case v of
        None \<Rightarrow> pin_and_copy E name pin local dest
      | Some rv \<Rightarrow> do {
          _ \<leftarrow> say ''cosign: verifying against the registry-published signature'';
          x \<leftarrow> check_blob E rv local [];
          (case x of Some e \<Rightarrow> State_Monad.return (Inl e) | None \<Rightarrow> pin_and_copy E name pin local dest)
        })"

definition place_artifact :: "inst_env \<Rightarrow> string \<Rightarrow> market_artifact \<Rightarrow> blob_verifier option \<Rightarrow> string \<Rightarrow> string res iprog" where
  "place_artifact E name art v dest = do {
     f \<leftarrow> fetchPlugin E (pa_URL art);
     (case f of
        Inl e \<Rightarrow> State_Monad.return (Inl (Wrap ''fetch'' e))
      | Inr (local, ts) \<Rightarrow> do {
          r \<leftarrow> vet_and_place E name (pa_SHA256 art) v local dest;
          _ \<leftarrow> remove_files ts;
          State_Monad.return r
        })
   }"

text \<open>Fails closed without a signature when one is required, and warns when none is.\<close>

definition install_with :: "inst_env \<Rightarrow> string \<Rightarrow> market_artifact \<Rightarrow> string \<Rightarrow> bool \<Rightarrow> blob_verifier option res \<Rightarrow> string res iprog" where
  "install_with E name art dest requireSig m =
     (case m of
        Inl e \<Rightarrow> State_Monad.return (Inl e)
      | Inr None \<Rightarrow>
          if requireSig
          then State_Monad.return (Inl (Err (name @ '' has no signature to verify and --require-signature is set (refusing to install unsigned plugin)'')))
          else do {
            _ \<leftarrow> say (''warning: '' @ name @ '' is unsigned: installing on its sha256 pin alone; pass --require-signature to refuse unsigned plugins'');
            place_artifact E name art None dest
          }
      | Inr (Some v) \<Rightarrow> place_artifact E name art (Some v) dest)"

definition resolveAndInstall ::
  "inst_env \<Rightarrow> string \<Rightarrow> market_artifact \<Rightarrow> cosign_id option \<Rightarrow> string \<Rightarrow> bool \<Rightarrow> string res iprog" where
  "resolveAndInstall E name art signer dest requireSig = do {
     _ \<leftarrow> (case signer of Some c \<Rightarrow> say (''registry: '' @ name @ '' is published by '' @ ci_Identity c) | None \<Rightarrow> State_Monad.return ());
     m \<leftarrow> signature_material E art signer;
     r \<leftarrow> install_with E name art dest requireSig (snd m);
     _ \<leftarrow> remove_files (fst m);
     State_Monad.return r
   }"

section \<open>The commands\<close>

record install_flags =
  if_dir :: string
  if_name :: string
  if_version :: string
  if_registry :: string
  if_verifier :: blob_verifier
  if_requireSig :: bool

definition printInstalledPin :: "string \<Rightarrow> string \<Rightarrow> unit iprog" where
  "printInstalledPin dest digest = do {
     _ \<leftarrow> say (''installed '' @ dest @ [CHR 0x0A] @ ''sha256 '' @ digest);
     say (''pin it in the matching rollout spec block, e.g.:'' @ [CHR 0x0A] @ ''  <featureFlags|trafficRouting|analysis>:'' @ [CHR 0x0A] @
       ''    plugin: '' @ dest @ [CHR 0x0A] @ ''    sha256: '' @ digest)
   }"

definition isPathOrURL :: "inst_env \<Rightarrow> string \<Rightarrow> bool iprog" where
  "isPathOrURL E src =
     (if strings_Contains src ''://'' then State_Monad.return True
      else do { s \<leftarrow> host_call (\<lambda>h _. ie_Stat E h src) (InStat src); State_Monad.return (s = None) })"

definition name_dest :: "install_flags \<Rightarrow> string \<Rightarrow> string" where
  "name_dest fl source = filepath_Join (if_dir fl) (if if_name fl = [] then source else if_name fl)"

definition install_by_name :: "inst_env \<Rightarrow> install_flags \<Rightarrow> string \<Rightarrow> err option iprog" where
  "install_by_name E fl source = do {
     i \<leftarrow> registry_Fetch E (if_registry fl);
     (case i of
        Inl e \<Rightarrow> State_Monad.return (Some (Wrap ''plugin install'' e))
      | Inr idx \<Rightarrow>
          (case Index_Resolve idx source (if_version fl) (ie_GOOS E) (ie_GOARCH E) of
             Inl e \<Rightarrow> State_Monad.return (Some (Wrap ''plugin install'' e))
           | Inr (art, signer) \<Rightarrow>
               (let dest = name_dest fl source in do {
                  s \<leftarrow> resolveAndInstall E source art signer dest (requireSignature E (if_requireSig fl));
                  (case s of
                     Inl e \<Rightarrow> State_Monad.return (Some (Wrap ''plugin install'' e))
                   | Inr digest \<Rightarrow> do { _ \<leftarrow> printInstalledPin dest digest; State_Monad.return None })
                })))
   }"

definition source_dest :: "install_flags \<Rightarrow> string \<Rightarrow> string" where
  "source_dest fl source =
     filepath_Join (if_dir fl) (if if_name fl = [] then filepath_Base (strings_TrimSuffix source ''/'') else if_name fl)"

definition hash_and_copy :: "inst_env \<Rightarrow> string \<Rightarrow> string \<Rightarrow> string \<Rightarrow> string res iprog" where
  "hash_and_copy E dir local dest = do {
     d \<leftarrow> sha256File E local;
     (case d of
        Inl e \<Rightarrow> State_Monad.return (Inl e)
      | Inr digest \<Rightarrow> do {
          m \<leftarrow> mkdirAll E dir;
          (case m of
             Some e \<Rightarrow> State_Monad.return (Inl (Wrap ''plugin install'' e))
           | None \<Rightarrow> do {
               c \<leftarrow> copyFileMode E local dest;
               State_Monad.return (case c of Some e \<Rightarrow> Inl (Wrap ''plugin install'' e) | None \<Rightarrow> Inr digest)
             })
        })
   }"

definition place_source :: "inst_env \<Rightarrow> install_flags \<Rightarrow> string \<Rightarrow> string \<Rightarrow> err option iprog" where
  "place_source E fl source local = do {
     r \<leftarrow> hash_and_copy E (if_dir fl) local (source_dest fl source);
     (case r of
        Inl e \<Rightarrow> State_Monad.return (Some e)
      | Inr digest \<Rightarrow> do { _ \<leftarrow> printInstalledPin (source_dest fl source) digest; State_Monad.return None })
   }"

definition vet_source :: "inst_env \<Rightarrow> install_flags \<Rightarrow> string \<Rightarrow> string \<Rightarrow> err option iprog" where
  "vet_source E fl source local =
     (if blob_Configured (if_verifier fl) then do {
        x \<leftarrow> check_blob E (if_verifier fl) local ''plugin install: '';
        (case x of Some e \<Rightarrow> State_Monad.return (Some e) | None \<Rightarrow> place_source E fl source local)
      }
      else if requireSignature E (if_requireSig fl)
      then State_Monad.return (Some (Err (''plugin install: '' @ source @ '' has no signature to verify and --require-signature is set (refusing to install unsigned plugin; pass cosign flags to verify it)'')))
      else do {
        _ \<leftarrow> say (''warning: '' @ source @ '' is unsigned: installing on its sha256 alone; pass --require-signature to refuse unsigned plugins'');
        place_source E fl source local
      })"

definition pluginInstall :: "inst_env \<Rightarrow> install_flags \<Rightarrow> string \<Rightarrow> err option iprog" where
  "pluginInstall E fl source = do {
     b \<leftarrow> isPathOrURL E source;
     if \<not> b then install_by_name E fl source
     else do {
       f \<leftarrow> fetchPlugin E source;
       (case f of
          Inl e \<Rightarrow> State_Monad.return (Some (Wrap ''plugin install: fetch'' e))
        | Inr (local, ts) \<Rightarrow> do {
            r \<leftarrow> vet_source E fl source local;
            _ \<leftarrow> remove_files ts;
            State_Monad.return r
          })
     }
   }"

text \<open>Only regular files with an executable bit are plugins.\<close>

definition installed_plugin :: "dir_entry \<Rightarrow> bool" where
  "installed_plugin e \<longleftrightarrow> \<not> de_IsDir e \<and>
     (case de_Info e of None \<Rightarrow> False | Some (regular, perm, _) \<Rightarrow> regular \<and> (bit perm 0 \<or> bit perm 3 \<or> bit perm 6))"

record update_flags =
  uf_dir :: string
  uf_registry :: string
  uf_apply :: bool
  uf_requireSig :: bool
  uf_only :: string

text \<open>One entry: whether it was outdated.\<close>

definition update_entry :: "inst_env \<Rightarrow> update_flags \<Rightarrow> market_index \<Rightarrow> dir_entry \<Rightarrow> bool res iprog" where
  "update_entry E uf idx e =
     (let path = filepath_Join (uf_dir uf) (de_Name e);
          failed = (\<lambda>x. Wrap (''plugin update: '' @ de_Name e) x) in do {
      d \<leftarrow> sha256File E path;
      (case d of
         Inl x \<Rightarrow> State_Monad.return (Inl (failed x))
       | Inr digest \<Rightarrow>
           (case FindVersionBySHA idx digest (ie_GOOS E) (ie_GOARCH E) of
              None \<Rightarrow> do { _ \<leftarrow> say (de_Name e @ tab @ ''unknown (not from this registry)''); State_Monad.return (Inr False) }
            | Some (name, ver) \<Rightarrow>
                (let latest = (case Index_Find idx name of Some p \<Rightarrow> mp_Latest p | None \<Rightarrow> []) in
                 if ver = latest
                 then do { _ \<leftarrow> say (de_Name e @ tab @ ''up to date ('' @ name @ '' '' @ ver @ '')''); State_Monad.return (Inr False) }
                 else do {
                   _ \<leftarrow> say (de_Name e @ tab @ ''outdated ('' @ name @ '' '' @ ver @ '' -> '' @ latest @ '')'');
                   if \<not> uf_apply uf then State_Monad.return (Inr True)
                   else (case Index_Resolve idx name latest (ie_GOOS E) (ie_GOARCH E) of
                       Inl x \<Rightarrow> State_Monad.return (Inl (failed x))
                     | Inr (art, signer) \<Rightarrow> do {
                         s \<leftarrow> resolveAndInstall E name art signer path (requireSignature E (uf_requireSig uf));
                         (case s of
                            Inl x \<Rightarrow> State_Monad.return (Inl (failed x))
                          | Inr newSum \<Rightarrow> do {
                              _ \<leftarrow> say (''upgraded '' @ de_Name e @ '' to '' @ latest @ [CHR 0x0A] @ ''sha256 '' @ newSum);
                              State_Monad.return (Inr True)
                            })
                       })
                 })))
      })"

fun update_entries :: "inst_env \<Rightarrow> update_flags \<Rightarrow> market_index \<Rightarrow> dir_entry list \<Rightarrow> nat \<Rightarrow> nat res iprog" where
  "update_entries E uf idx [] outdated = State_Monad.return (Inr outdated)"
| "update_entries E uf idx (e # es) outdated =
     (if \<not> installed_plugin e \<or> uf_only uf \<noteq> [] \<and> de_Name e \<noteq> uf_only uf then update_entries E uf idx es outdated
      else do {
        r \<leftarrow> update_entry E uf idx e;
        (case r of
           Inl x \<Rightarrow> State_Monad.return (Inl x)
         | Inr old \<Rightarrow> update_entries E uf idx es (if old then outdated + 1 else outdated))
      })"

definition list_dir :: "inst_env \<Rightarrow> string \<Rightarrow> dir_listing iprog" where
  "list_dir E d = host_call (\<lambda>h _. ie_ReadDir E h d) (InReadDir d)"

definition update_dir :: "inst_env \<Rightarrow> update_flags \<Rightarrow> market_index \<Rightarrow> err option iprog" where
  "update_dir E uf idx = do {
     d \<leftarrow> list_dir E (uf_dir uf);
     (case d of
        DirMissing \<Rightarrow> do { _ \<leftarrow> say (''no plugins installed ('' @ uf_dir uf @ '' does not exist)''); State_Monad.return None }
      | DirFailed e \<Rightarrow> State_Monad.return (Some (Wrap ''plugin update'' e))
      | DirEntries es \<Rightarrow> do {
          r \<leftarrow> update_entries E uf idx es 0;
          (case r of
             Inl e \<Rightarrow> State_Monad.return (Some e)
           | Inr outdated \<Rightarrow>
               if outdated > 0 \<and> \<not> uf_apply uf
               then do { _ \<leftarrow> say ''run 'rollops plugin update --apply' to upgrade outdated plugins''; State_Monad.return None }
               else State_Monad.return None)
        })
   }"

definition pluginUpdate :: "inst_env \<Rightarrow> update_flags \<Rightarrow> err option iprog" where
  "pluginUpdate E uf = do {
     i \<leftarrow> registry_Fetch E (uf_registry uf);
     (case i of
        Inl e \<Rightarrow> State_Monad.return (Some (Wrap ''plugin update'' e))
      | Inr idx \<Rightarrow> update_dir E uf idx)
   }"

fun list_entries :: "inst_env \<Rightarrow> string \<Rightarrow> dir_entry list \<Rightarrow> nat \<Rightarrow> nat res iprog" where
  "list_entries E dir [] listed = State_Monad.return (Inr listed)"
| "list_entries E dir (e # es) listed =
     (if \<not> installed_plugin e then list_entries E dir es listed
      else do {
        d \<leftarrow> sha256File E (filepath_Join dir (de_Name e));
        (case d of
           Inl x \<Rightarrow> State_Monad.return (Inl (Wrap (''plugin list: '' @ de_Name e) x))
         | Inr digest \<Rightarrow> do {
             _ \<leftarrow> (if listed = 0 then say (''NAME'' @ tab @ ''SIZE'' @ tab @ ''SHA256'') else State_Monad.return ());
             _ \<leftarrow> say (de_Name e @ tab @ itoa (case de_Info e of Some (_, _, n) \<Rightarrow> n | None \<Rightarrow> 0) @ tab @ digest);
             list_entries E dir es (listed + 1)
           })
      })"

definition pluginList :: "inst_env \<Rightarrow> string \<Rightarrow> err option iprog" where
  "pluginList E dir = do {
     d \<leftarrow> list_dir E dir;
     (case d of
        DirMissing \<Rightarrow> do { _ \<leftarrow> say (''no plugins installed ('' @ dir @ '' does not exist)''); State_Monad.return None }
      | DirFailed e \<Rightarrow> State_Monad.return (Some (Wrap ''plugin list'' e))
      | DirEntries es \<Rightarrow> do {
          r \<leftarrow> list_entries E dir es 0;
          (case r of
             Inl e \<Rightarrow> State_Monad.return (Some e)
           | Inr listed \<Rightarrow>
               if listed = 0 then do { _ \<leftarrow> say (''no plugins installed in '' @ dir); State_Monad.return None }
               else State_Monad.return None)
        })
   }"

definition pluginSearch :: "inst_env \<Rightarrow> string \<Rightarrow> string list \<Rightarrow> err option iprog" where
  "pluginSearch E regURL args = do {
     i \<leftarrow> registry_Fetch E regURL;
     (case i of
        Inl e \<Rightarrow> State_Monad.return (Some (Wrap ''plugin search'' e))
      | Inr idx \<Rightarrow>
          (case Index_Search idx (strings_Join args '' '') of
             [] \<Rightarrow> do { _ \<leftarrow> say ''no plugins match''; State_Monad.return None }
           | ps \<Rightarrow> do {
               _ \<leftarrow> say (strings_Join ((''NAME'' @ tab @ ''LATEST'' @ tab @ ''CAPABILITIES'' @ tab @ ''DESCRIPTION'') #
                 map (\<lambda>p. strings_Join [mp_Name p, mp_Latest p, strings_Join (mp_Capabilities p) '','', mp_Description p] tab) ps) [CHR 0x0A]);
               State_Monad.return None
             }))
   }"


section \<open>What a binary went through\<close>

text \<open>
  Every copy a program makes satisfies a predicate on the calls before it. Programs that copy nothing
  satisfy it for any predicate.
\<close>

definition copies :: "(inst_call list \<Rightarrow> string \<Rightarrow> string \<Rightarrow> bool) \<Rightarrow> inst_call list \<Rightarrow> inst_call list \<Rightarrow> bool" where
  "copies P h h' \<longleftrightarrow> (\<exists>cs. h' = h @ cs \<and> (\<forall>pre src dst post. cs = pre @ InCopy src dst # post \<longrightarrow> P (h @ pre) src dst))"

fun copying :: "inst_call \<Rightarrow> bool" where
  "copying (InCopy _ _) = True"
| "copying _ = False"

lemma copies_trans:
  assumes "copies P h h'" "copies P h' h''"
  shows "copies P h h''"
proof -
  obtain cs where cs: "h' = h @ cs" "\<And>pre src dst post. cs = pre @ InCopy src dst # post \<Longrightarrow> P (h @ pre) src dst"
    using assms(1) by (auto simp: copies_def)
  obtain ds where ds: "h'' = h' @ ds" "\<And>pre src dst post. ds = pre @ InCopy src dst # post \<Longrightarrow> P (h' @ pre) src dst"
    using assms(2) by (auto simp: copies_def)
  have "P (h @ pre) src dst" if e: "cs @ ds = pre @ InCopy src dst # post" for pre src dst post
  proof -
    from e consider us where "cs = pre @ InCopy src dst # us" | us where "pre = cs @ us" "ds = us @ InCopy src dst # post"
      by (auto simp: append_eq_append_conv2 append_eq_Cons_conv)
    then show ?thesis using cs ds(2) by cases auto
  qed
  then show ?thesis using cs(1) ds(1) by (auto simp: copies_def)
qed

interpretation copies: frame "copies P" for P
  by unfold_locales (simp add: copies_def, rule copies_trans)

lemma keeps_no_copy: "\<not> copying c \<Longrightarrow> keeps (copies P) (host_call H c)"
  by (auto simp: keeps_def run_host_call copies_def Cons_eq_append_conv)

lemmas copies_rules = keeps_rules copies.keeps_bind copies.keeps_return keeps_no_copy

lemma keeps_remove_files: "keeps (copies P) (remove_files ps)"
  by (induction ps) (auto intro!: copies_rules)

lemma keeps_say: "keeps (copies P) (say l)"
  unfolding say_def by (intro copies_rules) simp

lemma keeps_http_download: "keeps (copies P) (http_download E u)"
  unfolding http_download_def by (intro copies_rules) simp_all

lemma keeps_local_file: "keeps (copies P) (local_file E u)"
  unfolding local_file_def by (intro copies_rules) simp_all

lemma keeps_fetchPlugin: "keeps (copies P) (fetchPlugin E u)"
  unfolding fetchPlugin_def by (intro copies_rules keeps_http_download keeps_local_file)

lemma keeps_downloadTemp: "keeps (copies P) (downloadTemp E u)"
  unfolding downloadTemp_def by (intro copies_rules keeps_http_download keeps_local_file)

lemma keeps_registry_Fetch: "keeps (copies P) (registry_Fetch E u)"
  unfolding registry_Fetch_def by (intro copies_rules) simp_all

lemma keeps_sha256File: "keeps (copies P) (sha256File E p)"
  unfolding sha256File_def by (intro copies_rules) simp

lemma keeps_signature_material: "keeps (copies P) (signature_material E art signer)"
  unfolding signature_material_def Let_def by (intro copies_rules keeps_downloadTemp)

lemma keeps_printInstalledPin: "keeps (copies P) (printInstalledPin d s)"
  unfolding printInstalledPin_def by (intro copies_rules keeps_say)

lemmas quiet_programs = keeps_remove_files keeps_say keeps_fetchPlugin keeps_downloadTemp keeps_registry_Fetch
  keeps_sha256File keeps_signature_material keeps_printInstalledPin

text \<open>
  What came right before a copy: the file was read and its digest \<open>ok\<close>; and where a verifier is asked
  for, cosign accepted the same file with its arguments right before that. Only output and the making of
  the directory stand between.
\<close>

fun between :: "inst_call \<Rightarrow> bool" where
  "between (InSay _) = True"
| "between (InMkdir _) = True"
| "between _ = False"

definition digested :: "inst_env \<Rightarrow> (string \<Rightarrow> bool) \<Rightarrow> string \<Rightarrow> inst_call list \<Rightarrow> inst_call list \<Rightarrow> bool" where
  "digested E ok src a pre \<longleftrightarrow> (\<exists>q c. pre = a @ InHash src # q \<and> list_all between q \<and>
     ie_Read E a src = Inr c \<and> ok (hex_EncodeToString (ie_SHA256 E c)))"

definition accepted :: "inst_env \<Rightarrow> blob_verifier \<Rightarrow> string \<Rightarrow> inst_call list \<Rightarrow> bool" where
  "accepted E v src a \<longleftrightarrow> (\<exists>b q. a = b @ InCosign (blob_args v src) # q \<and> list_all between q \<and> snd (ie_Cosign E b (blob_args v src)) = None)"

definition vetted_copy :: "inst_env \<Rightarrow> (string \<Rightarrow> bool) \<Rightarrow> (blob_verifier option \<Rightarrow> bool) \<Rightarrow> string \<Rightarrow> inst_call list \<Rightarrow> string \<Rightarrow> string \<Rightarrow> bool" where
  "vetted_copy E ok needs dest pre src dst \<longleftrightarrow> dst = dest \<and>
     (\<exists>a v. digested E ok src a pre \<and> needs v \<and> (case v of None \<Rightarrow> True | Some bv \<Rightarrow> accepted E bv src a))"


lemma copies_mono: "copies P h h' \<Longrightarrow> (\<And>pre src dst. P pre src dst \<Longrightarrow> Q pre src dst) \<Longrightarrow> copies Q h h'"
  unfolding copies_def by (elim exE conjE, rule exI, intro conjI allI impI) (assumption, metis)

lemma copies_none:
  assumes "list_all (\<lambda>c. \<not> copying c) cs"
  shows "copies P h (h @ cs)"
proof -
  have "\<not> list_all (\<lambda>c. \<not> copying c) (pre @ InCopy src dst # post)" for pre src dst post by simp
  then show ?thesis using assms unfolding copies_def by metis
qed

lemma copies_one:
  assumes "list_all (\<lambda>c. \<not> copying c) cs" "P (h @ cs) src dst"
  shows "copies P h (h @ cs @ [InCopy src dst])"
proof -
  have "pre = [] \<and> x = InCopy src dst" if "[InCopy src dst] = pre @ x # post" for pre x post
    using that by (cases pre) simp_all
  then have "copies P (h @ cs) ((h @ cs) @ [InCopy src dst])"
    using assms(2) unfolding copies_def by (intro exI [of _ "[InCopy src dst]"] conjI refl allI impI) fastforce
  then show ?thesis using copies_trans [OF copies_none [OF assms(1)]] by simp
qed

lemma copies_pin_and_copy:
  assumes "run_state (pin_and_copy E name pin local dest) h = (r, h')"
  shows "copies (\<lambda>pre src dst. src = local \<and> dst = dest \<and> digested E (\<lambda>d. EqualFold d pin) local h pre) h h'"
    (is "copies ?P h h'")
proof -
  let ?m = "[InHash local, InSay ''registry: sha256 matches the published pin'', InMkdir (filepath_Dir dest)]"
  consider "h' = h @ [InHash local]" | "h' = h @ ?m" | c where "ie_Read E h local = Inr c"
      "EqualFold (hex_EncodeToString (ie_SHA256 E c)) pin" "h' = h @ ?m @ [InCopy local dest]"
    using assms
    by (cases "ie_Read E h local") (auto simp: pin_and_copy_def sha256File_def say_def mkdirAll_def copyFileMode_def run_state_simps run_host_call
        split: sum.splits option.splits if_splits)
  then show ?thesis
  proof cases
    case 3
    then have "digested E (\<lambda>d. EqualFold d pin) local h (h @ ?m)" by (auto simp: digested_def)
    then show ?thesis unfolding 3(3) by (intro copies_one) auto
  qed (auto intro!: copies_none simp del: append.simps)
qed

lemma check_blob_accepted:
  assumes "run_state (check_blob E v local pre) h = (x, h')"
  shows "copies P h h'" "x = None \<Longrightarrow> accepted E v local h'"
proof -
  have p: "h' = h @ [InCosign (blob_args v local)] \<and> x \<noteq> None \<or>
      h' = h @ [InCosign (blob_args v local), InSay ''cosign: verified''] \<and> snd (ie_Cosign E h (blob_args v local)) = None"
    using assms by (auto simp: check_blob_def VerifyBlob_def say_def run_state_simps run_host_call split: option.splits if_splits)
  then show "copies P h h'" by (auto intro!: copies_none)
  show "accepted E v local h'" if "x = None"
    unfolding accepted_def
    by (rule exI [of _ h], rule exI [of _ "[InSay ''cosign: verified'']"]) (use that p in simp)
qed


abbreviation pinned_to :: "string \<Rightarrow> string \<Rightarrow> bool" where
  "pinned_to pin d \<equiv> EqualFold d pin"

lemma keeps_vet_and_place:
  assumes "needs v"
  shows "keeps (copies (vetted_copy E (pinned_to pin) needs dest)) (vet_and_place E name pin v local dest)"
proof (unfold keeps_def, rule allI)
  fix h
  have p: "copies (vetted_copy E (pinned_to pin) needs dest) g (snd (run_state (pin_and_copy E name pin local dest) g))"
    if "case v of None \<Rightarrow> True | Some bv \<Rightarrow> accepted E bv local g" for g
  proof -
    obtain r g' where run: "run_state (pin_and_copy E name pin local dest) g = (r, g')" by fastforce
    show ?thesis
      unfolding run snd_conv
      by (rule copies_mono [OF copies_pin_and_copy [OF run]]) (use that assms in \<open>auto simp: vetted_copy_def\<close>)
  qed
  show "copies (vetted_copy E (pinned_to pin) needs dest) h (snd (run_state (vet_and_place E name pin v local dest) h))"
  proof (cases v)
    case None
    then show ?thesis using p [of h] by (simp add: vet_and_place_def)
  next
    case (Some rv)
    let ?h = "h @ [InSay ''cosign: verifying against the registry-published signature'']"
    obtain x h1 where c: "run_state (check_blob E rv local []) ?h = (x, h1)" by fastforce
    have "copies (vetted_copy E (pinned_to pin) needs dest) h ?h" by (intro copies_none) simp
    then have k: "copies (vetted_copy E (pinned_to pin) needs dest) h h1" using copies_trans check_blob_accepted(1) [OF c] by blast
    moreover have "copies (vetted_copy E (pinned_to pin) needs dest) h1 (snd (run_state (pin_and_copy E name pin local dest) h1))" if "x = None"
      using p [of h1] check_blob_accepted(2) [OF c that] Some by simp
    ultimately show ?thesis
      using c by (auto simp: vet_and_place_def Some say_def run_state_simps run_host_call intro: copies_trans split: option.splits)
  qed
qed

lemma keeps_place_artifact:
  "needs v \<Longrightarrow> keeps (copies (vetted_copy E (pinned_to (pa_SHA256 art)) needs dest)) (place_artifact E name art v dest)"
  unfolding place_artifact_def by (intro copies_rules quiet_programs keeps_vet_and_place)

text \<open>
  The verifier of a release: present with the identity and the issuer of the index when the release is
  signed, and absent only where no signature is required.
\<close>

definition release_verifier :: "bool \<Rightarrow> market_artifact \<Rightarrow> cosign_id option \<Rightarrow> blob_verifier option \<Rightarrow> bool" where
  "release_verifier requireSig art signer v \<longleftrightarrow>
     (case v of
        None \<Rightarrow> \<not> requireSig \<and> (signer = None \<or> \<not> artifact_Signed art)
      | Some bv \<Rightarrow> (\<exists>c. signer = Some c \<and> bv_CertIdentity bv = ci_Identity c \<and> bv_CertOIDCIssuer bv = ci_Issuer c))"

lemma signature_material_result:
  assumes "run_state (signature_material E art signer) h = ((ts, Inr v), h')" "v = None \<Longrightarrow> \<not> requireSig"
  shows "release_verifier requireSig art signer v"
  using assms
  by (auto simp: signature_material_def release_verifier_def Let_def run_state_simps
      split: option.splits sum.splits prod.splits if_splits)

lemma keeps_install_with:
  assumes "\<And>v. m = Inr v \<Longrightarrow> (v = None \<Longrightarrow> \<not> requireSig) \<Longrightarrow> needs v"
  shows "keeps (copies (vetted_copy E (pinned_to (pa_SHA256 art)) needs dest)) (install_with E name art dest requireSig m)"
  unfolding install_with_def
  by (intro copies_rules quiet_programs keeps_place_artifact) (use assms in auto)

lemma keeps_resolveAndInstall:
  "keeps (copies (vetted_copy E (pinned_to (pa_SHA256 art)) (release_verifier requireSig art signer) dest))
     (resolveAndInstall E name art signer dest requireSig)"
  unfolding resolveAndInstall_def
proof (rule copies.keeps_bind [OF _ copies.keeps_bind_result [OF _ copies.keeps_bind [OF keeps_install_with]]])
  fix m h h' v
  assume "run_state (signature_material E art signer) h = (m, h')" "snd m = Inr v" "v = None \<Longrightarrow> \<not> requireSig"
  then show "release_verifier requireSig art signer v" using signature_material_result by (metis prod.collapse)
qed (intro copies_rules quiet_programs)+


section \<open>Installing and updating\<close>

lemma keeps_copies_mono: "keeps (copies P) m \<Longrightarrow> (\<And>pre src dst. P pre src dst \<Longrightarrow> Q pre src dst) \<Longrightarrow> keeps (copies Q) m"
  unfolding keeps_def using copies_mono by blast

text \<open>A copy of a release that an index of the registry resolves a name and a version to.\<close>

definition released :: "inst_env \<Rightarrow> string \<Rightarrow> string \<Rightarrow> string \<Rightarrow> bool \<Rightarrow> string \<Rightarrow> inst_call list \<Rightarrow> string \<Rightarrow> string \<Rightarrow> bool" where
  "released E url name vsn requireSig dest pre src dst \<longleftrightarrow>
     (\<exists>a idx art signer. ie_Index E a url = Inr idx \<and> Index_Resolve idx name vsn (ie_GOOS E) (ie_GOARCH E) = Inr (art, signer) \<and>
        vetted_copy E (pinned_to (pa_SHA256 art)) (release_verifier requireSig art signer) dest pre src dst)"

definition source_verifier :: "bool \<Rightarrow> blob_verifier \<Rightarrow> blob_verifier option \<Rightarrow> bool" where
  "source_verifier requireSig bv v \<longleftrightarrow> (if blob_Configured bv then v = Some bv else v = None \<and> \<not> requireSig)"

lemma registry_Fetch_result:
  assumes "run_state (registry_Fetch E url) h = (Inr idx, h')"
  shows "\<exists>a. ie_Index E a url = Inr idx"
  using assms by (auto simp: registry_Fetch_def run_state_simps run_host_call split: option.splits sum.splits if_splits)
    (auto simp: map_sum_def split: sum.splits)

lemma keeps_released:
  assumes "run_state (registry_Fetch E url) h = (Inr idx, h')" "Index_Resolve idx name vsn (ie_GOOS E) (ie_GOARCH E) = Inr (art, signer)"
  shows "keeps (copies (released E url name vsn requireSig dest)) (resolveAndInstall E name art signer dest requireSig)"
  using registry_Fetch_result [OF assms(1)] assms(2)
  by (intro keeps_copies_mono [OF keeps_resolveAndInstall]) (auto simp: released_def)

lemma keeps_install_by_name:
  "keeps (copies (released E (if_registry fl) source (if_version fl) (requireSignature E (if_requireSig fl)) (name_dest fl source)))
     (install_by_name E fl source)"
  unfolding install_by_name_def Let_def
  by (rule copies.keeps_bind_result [OF keeps_registry_Fetch])
    (intro copies_rules quiet_programs keeps_released, simp_all)


lemma copies_hash_and_copy:
  assumes "run_state (hash_and_copy E dir local dest) h = (r, h')"
  shows "copies (\<lambda>pre src dst. src = local \<and> dst = dest \<and> digested E (\<lambda>_. True) local h pre) h h'"
    (is "copies ?P h h'")
proof -
  let ?m = "[InHash local, InMkdir dir]"
  consider "h' = h @ [InHash local]" | "h' = h @ ?m" | c where "ie_Read E h local = Inr c" "h' = h @ ?m @ [InCopy local dest]"
    using assms
    by (cases "ie_Read E h local") (auto simp: hash_and_copy_def sha256File_def mkdirAll_def
        copyFileMode_def run_state_simps run_host_call split: sum.splits option.splits if_splits)
  then show ?thesis
  proof cases
    case 3
    then have "digested E (\<lambda>_. True) local h (h @ ?m)" by (auto simp: digested_def)
    then show ?thesis unfolding 3(2) by (intro copies_one) auto
  qed (auto intro!: copies_none simp del: append.simps)
qed

lemma copies_place_source:
  assumes "source_verifier req bv v" "case v of None \<Rightarrow> True | Some bv \<Rightarrow> accepted E bv local h"
  shows "copies (vetted_copy E (\<lambda>_. True) (source_verifier req bv) (source_dest fl source)) h (snd (run_state (place_source E fl source local) h))"
    (is "copies ?P _ _")
proof -
  obtain r h' where run: "run_state (hash_and_copy E (if_dir fl) local (source_dest fl source)) h = (r, h')" by fastforce
  have "copies ?P h h'"
    by (rule copies_mono [OF copies_hash_and_copy [OF run]]) (use assms in \<open>auto simp: vetted_copy_def\<close>)
  moreover have "keeps (copies ?P) (case r of Inl e \<Rightarrow> State_Monad.return (Some e)
      | Inr digest \<Rightarrow> do { _ \<leftarrow> printInstalledPin (source_dest fl source) digest; State_Monad.return None })"
    by (intro copies_rules quiet_programs)
  ultimately show ?thesis using run by (simp add: place_source_def run_state_simps keeps_def copies_trans [of _ h h'])
qed

lemma keeps_vet_source:
  "keeps (copies (vetted_copy E (\<lambda>_. True) (source_verifier (requireSignature E (if_requireSig fl)) (if_verifier fl)) (source_dest fl source)))
     (vet_source E fl source local)" (is "keeps (copies ?P) _")
proof (unfold keeps_def, rule allI)
  fix h
  show "copies ?P h (snd (run_state (vet_source E fl source local) h))"
  proof (cases "blob_Configured (if_verifier fl)")
    case True
    obtain x h1 where c: "run_state (check_blob E (if_verifier fl) local ''plugin install: '') h = (x, h1)" by fastforce
    have "copies ?P h h1" by (rule check_blob_accepted(1) [OF c])
    moreover have "copies ?P h1 (snd (run_state (place_source E fl source local) h1))" if "x = None"
      by (rule copies_place_source [of _ _ "Some (if_verifier fl)"])
        (use check_blob_accepted(2) [OF c that] True in \<open>simp_all add: source_verifier_def\<close>)
    ultimately show ?thesis
      using c True by (auto simp: vet_source_def run_state_simps intro: copies_trans split: option.splits)
  next
    case False
    have "copies ?P h (snd (run_state (place_source E fl source local) (h @ [InSay w])))" if "\<not> requireSignature E (if_requireSig fl)" for w
      by (rule copies_trans [OF copies_none [of "[InSay w]"] copies_place_source [of _ _ None]])
        (use that False in \<open>simp_all add: source_verifier_def\<close>)
    then show ?thesis
      using False by (simp add: vet_source_def say_def run_state_simps run_host_call copies.frame_refl)
  qed
qed


definition installed_ok :: "inst_env \<Rightarrow> install_flags \<Rightarrow> string \<Rightarrow> bool \<Rightarrow> inst_call list \<Rightarrow> string \<Rightarrow> string \<Rightarrow> bool" where
  "installed_ok E fl source by_name = (let req = requireSignature E (if_requireSig fl) in
     if by_name then released E (if_registry fl) source (if_version fl) req (name_dest fl source)
     else vetted_copy E (\<lambda>_. True) (source_verifier req (if_verifier fl)) (source_dest fl source))"

lemma copies_pluginInstall:
  assumes "run_state (pluginInstall E fl source) h = (r, h')"
  shows "copies (installed_ok E fl source (\<not> strings_Contains source ''://'' \<and> ie_Stat E h source \<noteq> None)) h h'"
    (is "copies ?P h h'")
proof -
  obtain b h1 where b: "run_state (isPathOrURL E source) h = (b, h1)" by fastforce
  have bv: "b \<longleftrightarrow> strings_Contains source ''://'' \<or> ie_Stat E h source = None" and h1: "copies ?P h h1"
    using b copies_none [of "[InStat source]"] copies_none [of "[]"]
    by (auto simp: isPathOrURL_def run_state_simps run_host_call split: if_splits)
  let ?m = "if \<not> b then install_by_name E fl source
     else do {
       f \<leftarrow> fetchPlugin E source;
       (case f of
          Inl e \<Rightarrow> State_Monad.return (Some (Wrap ''plugin install: fetch'' e))
        | Inr (local, ts) \<Rightarrow> do { r \<leftarrow> vet_source E fl source local; _ \<leftarrow> remove_files ts; State_Monad.return r })
     }"
  have "keeps (copies (installed_ok E fl source (\<not> b))) ?m"
    unfolding installed_ok_def Let_def
    by (cases b) (simp_all only: simp_thms if_True if_False not_True_eq_False not_False_eq_True,
        (intro copies_rules quiet_programs keeps_vet_source keeps_install_by_name)+)
  moreover have "run_state ?m h1 = (r, h')" using assms b by (simp add: pluginInstall_def run_state_simps)
  ultimately have "copies (installed_ok E fl source (\<not> b)) h1 h'" by (rule keepsD)
  then show ?thesis using copies_trans [OF h1] bv by simp
qed

lemma vetted_accepted:
  assumes "vetted_copy E ok needs dest pre src dst" "\<not> needs None"
  shows "\<exists>v a. accepted E v src a \<and> digested E (\<lambda>_. True) src a pre"
proof -
  obtain a v where a: "digested E ok src a pre" "needs v" "case v of None \<Rightarrow> True | Some bv \<Rightarrow> accepted E bv src a"
    using assms(1) unfolding vetted_copy_def by blast
  then obtain bv where "accepted E bv src a" using assms(2) by (cases v) auto
  moreover have "digested E (\<lambda>_. True) src a pre" using a(1) unfolding digested_def by blast
  ultimately show ?thesis by blast
qed

text \<open>
  C37: \<^verbatim>\<open>plugin install\<close>: whatever the network, cosign and the file system answer, a binary is copied to the
  plugin directory only right after its digest was read; for a name of the marketplace that digest is
  the pin of the artifact that the index resolves the name to, and a signed release was, right before,
  accepted by cosign for the identity and the issuer of the index. Where a signature is required,
  nothing is copied that cosign did not accept.
\<close>

theorem install_vetted:
  assumes "run_state (pluginInstall E fl source) h = (r, h @ pre @ InCopy src dst # post)"
  shows "(if \<not> strings_Contains source ''://'' \<and> ie_Stat E h source \<noteq> None
      then released E (if_registry fl) source (if_version fl) (requireSignature E (if_requireSig fl)) (name_dest fl source) (h @ pre) src dst
      else vetted_copy E (\<lambda>_. True) (source_verifier (requireSignature E (if_requireSig fl)) (if_verifier fl)) (source_dest fl source) (h @ pre) src dst) \<and>
    (requireSignature E (if_requireSig fl) \<longrightarrow> (\<exists>v a. accepted E v src a \<and> digested E (\<lambda>_. True) src a (h @ pre)))"
proof -
  have ok: "installed_ok E fl source (\<not> strings_Contains source ''://'' \<and> ie_Stat E h source \<noteq> None) (h @ pre) src dst"
    using copies_pluginInstall [OF assms] by (auto simp: copies_def)
  then have "requireSignature E (if_requireSig fl) \<Longrightarrow> \<exists>v a. accepted E v src a \<and> digested E (\<lambda>_. True) src a (h @ pre)"
    unfolding installed_ok_def Let_def released_def
    by (cases "\<not> strings_Contains source ''://'' \<and> ie_Stat E h source \<noteq> None")
      (auto dest!: vetted_accepted simp: source_verifier_def release_verifier_def split: if_splits)
  with ok show ?thesis by (auto simp: installed_ok_def Let_def split: if_splits)
qed


text \<open>
  A registry with one signed release, which has the digest of the binary \<open>bin\<close>.
\<close>

definition market_env :: "string \<Rightarrow> inst_env" where
  "market_env pin = \<lparr>ie_BadURL = (\<lambda>_. None), ie_Stat = (\<lambda>_ _. Some (Err ''no such file'')), ie_Get = (\<lambda>_ _. Inr 200),
     ie_Save = (\<lambda>_ u. Inr (''/tmp/'' @ u)),
     ie_Index = (\<lambda>_ _. Inr [\<lparr>mp_Name = ''flags'', mp_Description = [], mp_Homepage = [], mp_Capabilities = [], mp_Latest = ''1.0'',
       mp_Versions = [(''1.0'', \<lparr>mv_Cosign = Some \<lparr>ci_Identity = ''dev@x'', ci_Issuer = ''iss''\<rparr>,
         mv_Artifacts = [\<lparr>pa_OS = ''linux'', pa_Arch = ''amd64'', pa_URL = ''https://x/bin'', pa_SHA256 = pin,
           pa_Bundle = ''https://x/sig'', pa_Signature = [], pa_Certificate = []\<rparr>]\<rparr>)]\<rparr>]),
     ie_Cosign = (\<lambda>_ _. (''ok'', None)), ie_Read = (\<lambda>_ _. Inr ''bin''), ie_Mkdir = (\<lambda>_ _. None), ie_Copy = (\<lambda>_ _ _. None),
     ie_ReadDir = (\<lambda>_ _. DirMissing), ie_SHA256 = id, ie_Getenv = (\<lambda>_. ''true''), ie_GOOS = ''linux'', ie_GOARCH = ''amd64''\<rparr>"

definition market_flags :: install_flags where
  "market_flags = \<lparr>if_dir = ''/p'', if_name = [], if_version = [], if_registry = ''https://r'', if_verifier =
     \<lparr>bv_KeyPath = [], bv_CertIdentity = [], bv_CertOIDCIssuer = [], bv_SignaturePath = [], bv_CertificatePath = [], bv_BundlePath = []\<rparr>,
     if_requireSig = False\<rparr>"

lemma market_run:
  "let (r, h) = run_state (pluginInstall (market_env ''62696E'') market_flags ''flags'') [] in
     r = None \<and> filter copying h = [InCopy ''/tmp/https://x/bin'' ''/p/flags'']"
  by code_simp

lemma market_refused:
  "filter copying (snd (run_state (pluginInstall (market_env ''00'') market_flags ''flags'') [])) = []"
  by code_simp

theorem install_vetted_witness:
  "\<exists>pre post r. run_state (pluginInstall (market_env ''62696E'') market_flags ''flags'') [] =
       (r, pre @ InCopy ''/tmp/https://x/bin'' ''/p/flags'' # post) \<and>
     released (market_env ''62696E'') ''https://r'' ''flags'' [] True ''/p/flags'' pre ''/tmp/https://x/bin'' ''/p/flags'' \<and>
     (\<exists>v a. accepted (market_env ''62696E'') v ''/tmp/https://x/bin'' a)"
proof -
  obtain r h where run: "run_state (pluginInstall (market_env ''62696E'') market_flags ''flags'') [] = (r, h)" by fastforce
  then have "filter copying h = [InCopy ''/tmp/https://x/bin'' ''/p/flags'']" using market_run by simp
  then have "set [InCopy ''/tmp/https://x/bin'' ''/p/flags''] \<subseteq> set h" using filter_is_subset [of copying h] by (simp only:)
  then have "InCopy ''/tmp/https://x/bin'' ''/p/flags'' \<in> set h" by (simp only: list.set insert_subset)
  then obtain pre post where h: "h = pre @ InCopy ''/tmp/https://x/bin'' ''/p/flags'' # post" by (meson split_list)
  have e: "\<not> strings_Contains ''flags'' ''://''" "ie_Stat (market_env ''62696E'') [] ''flags'' \<noteq> None"
    "requireSignature (market_env ''62696E'') (if_requireSig market_flags)" "name_dest market_flags ''flags'' = ''/p/flags''"
    "if_registry market_flags = ''https://r''" "if_version market_flags = []"
    by code_simp+
  show ?thesis
    using install_vetted [of "market_env ''62696E''" market_flags "''flags''" "[]" r pre] run h e by auto
qed


text \<open>
  \<^verbatim>\<open>plugin update\<close> takes the same checks: it copies only with \<^verbatim>\<open>--apply\<close>, over an installed plugin, and only a
  release the index resolves.
\<close>

definition updated_ok :: "inst_env \<Rightarrow> update_flags \<Rightarrow> inst_call list \<Rightarrow> string \<Rightarrow> string \<Rightarrow> bool" where
  "updated_ok E uf pre src dst \<longleftrightarrow> uf_apply uf \<and>
     (\<exists>name vsn n. released E (uf_registry uf) name vsn (requireSignature E (uf_requireSig uf)) (filepath_Join (uf_dir uf) n) pre src dst)"

lemma keeps_update_entry:
  assumes "run_state (registry_Fetch E (uf_registry uf)) h = (Inr idx, h')"
  shows "keeps (copies (updated_ok E uf)) (update_entry E uf idx e)"
proof -
  have r: "keeps (copies (updated_ok E uf)) (resolveAndInstall E name art signer (filepath_Join (uf_dir uf) (de_Name e)) (requireSignature E (uf_requireSig uf)))"
    if "Index_Resolve idx name vsn (ie_GOOS E) (ie_GOARCH E) = Inr (art, signer)" "uf_apply uf" for name vsn art signer
    by (rule keeps_copies_mono [OF keeps_released [OF assms that(1)]]) (use that(2) in \<open>auto simp: updated_ok_def\<close>)
  show ?thesis
    unfolding update_entry_def Let_def by (intro copies_rules quiet_programs) (rule r; simp)
qed

lemma keeps_update_entries:
  assumes "run_state (registry_Fetch E (uf_registry uf)) h = (Inr idx, h')"
  shows "keeps (copies (updated_ok E uf)) (update_entries E uf idx es n)"
  by (induction es arbitrary: n) (auto intro!: copies_rules keeps_update_entry [OF assms])

lemma keeps_dir_listing:
  "keeps R m \<Longrightarrow> (\<And>e. keeps R (f e)) \<Longrightarrow> (\<And>es. keeps R (g es)) \<Longrightarrow>
   keeps R (case d of DirMissing \<Rightarrow> m | DirFailed e \<Rightarrow> f e | DirEntries es \<Rightarrow> g es)"
  by (cases d) auto

lemma keeps_update_dir:
  assumes "run_state (registry_Fetch E (uf_registry uf)) h = (Inr idx, h')"
  shows "keeps (copies (updated_ok E uf)) (update_dir E uf idx)"
  unfolding update_dir_def list_dir_def
  by (intro copies_rules quiet_programs keeps_dir_listing keeps_update_entries [OF assms]) simp

theorem update_vetted:
  assumes "run_state (pluginUpdate E uf) h = (r, h @ pre @ InCopy src dst # post)"
  shows "updated_ok E uf (h @ pre) src dst"
proof -
  have "keeps (copies (updated_ok E uf)) (pluginUpdate E uf)"
    unfolding pluginUpdate_def
    by (rule copies.keeps_bind_result [OF keeps_registry_Fetch]) (intro copies_rules keeps_update_dir, simp_all)
  from keepsD [OF this assms] show ?thesis by (auto simp: copies_def)
qed

text \<open>
  A certificate or an issuer alone does not make a verifier configured: the binary is installed without
  cosign, with the warning that it is unsigned.
\<close>

lemma certificate_alone_unverified:
  "\<not> blob_Configured \<lparr>bv_KeyPath = [], bv_CertIdentity = [], bv_CertOIDCIssuer = issuer, bv_SignaturePath = [],
     bv_CertificatePath = cert, bv_BundlePath = []\<rparr>"
  by (simp add: blob_Configured_def)

text \<open>A failed run of cosign is a refusal, never an error, whatever it failed of.\<close>

lemma VerifyBlob_no_error: "snd (snd (fst (run_state (VerifyBlob E v p) h))) = None"
  by (simp add: VerifyBlob_def run_state_simps run_host_call split: option.splits)

end
