(* ===== verification/Clients.thy ===== *)
theory Clients
  imports Engine_Base GitRemote Repo_Config
begin

text \<open>
  The clients of outside services: the external governor (\<^verbatim>\<open>internal/governance/http.go\<close>), Prometheus
  (\<^verbatim>\<open>internal/analysis/prometheus.go\<close>) and the notification channels (\<^verbatim>\<open>internal/notify\<close>). A request is a
  call; JSON, HMAC, \<open>ParseFloat\<close> and the clients of SMTP and MCP are parameters.

  \<open>governor_fails_closed\<close>: a rollout goes ahead only on an answer that says so. \<open>Query_single\<close>: the value of
  a query is that of its only series. \<open>Multi_attempts_all\<close>: no channel keeps an event from another.
\<close>

section \<open>The external governor\<close>

record http_provider =
  hp_URL :: string
  hp_Secret :: string
  hp_Timeout :: duration
  hp_Token :: string

abbreviation defaultGovernanceTimeout :: duration where "defaultGovernanceTimeout \<equiv> 5 * second"

definition gov_timeout :: "string \<Rightarrow> duration" where
  "gov_timeout raw =
     (if raw = [] then defaultGovernanceTimeout
      else (case ParseDuration raw of Inr d \<Rightarrow> if d > 0 then d else defaultGovernanceTimeout | Inl _ \<Rightarrow> defaultGovernanceTimeout))"

definition governance_FromEnv :: "(string \<Rightarrow> string) \<Rightarrow> http_provider option" where
  "governance_FromEnv getenv =
     (let url = getenv ''ROLLOPS_GOVERNANCE_URL'' in
      if url = [] then None
      else Some \<lparr>hp_URL = url, hp_Secret = getenv ''ROLLOPS_GOVERNANCE_SECRET'',
        hp_Timeout = gov_timeout (getenv ''ROLLOPS_GOVERNANCE_TIMEOUT''), hp_Token = getenv ''ROLLOPS_GOVERNANCE_TOKEN''\<rparr>)"

text \<open>
  A request to the governor: the URL, the deadline, the body, the bearer token and the signature. The
  answer is the status and what decoding the body gives.
\<close>

datatype gov_call = GovPost string duration string "string option" "string option"

record gov_net =
  gn_Encode :: "gov_request \<Rightarrow> string res"
  gn_BadURL :: "string \<Rightarrow> err option"
  gn_Post :: "gov_call list \<Rightarrow> gov_call \<Rightarrow> (int \<times> string \<times> gov_decision res) res"
  gn_MAC :: hmac

definition signature_of :: "hmac \<Rightarrow> string \<Rightarrow> string \<Rightarrow> string option" where
  "signature_of mac secret body = (if secret \<noteq> [] then Some (''sha256='' @ hex_EncodeToString (mac secret body)) else None)"

definition gov_post :: "gov_net \<Rightarrow> http_provider \<Rightarrow> string \<Rightarrow> gov_call" where
  "gov_post N p body =
     GovPost (hp_URL p) (if hp_Timeout p \<le> 0 then defaultGovernanceTimeout else hp_Timeout p) body
       (if hp_Token p \<noteq> [] then Some (hp_Token p) else None) (signature_of (gn_MAC N) (hp_Secret p) body)"

definition gov_answer :: "http_provider \<Rightarrow> (int \<times> string \<times> gov_decision res) res \<Rightarrow> gov_decision res" where
  "gov_answer p r =
     (case r of
        Inl e \<Rightarrow> Inl (Wrap (''governance: '' @ hp_URL p @ '' is unreachable'') e)
      | Inr (status, text, dec) \<Rightarrow>
          if status \<noteq> 200 then Inl (Err (''governance: '' @ hp_URL p @ '' answered '' @ text))
          else map_sum (Wrap (''governance: unreadable decision from '' @ hp_URL p)) id dec)"

definition HTTPProvider_Evaluate :: "gov_net \<Rightarrow> http_provider \<Rightarrow> gov_call list governor" where
  "HTTPProvider_Evaluate N p req =
     (case gn_Encode N req of
        Inl e \<Rightarrow> State_Monad.return (Inl (Wrap ''governance: encode request'' e))
      | Inr body \<Rightarrow>
          (case gn_BadURL N (hp_URL p) of
             Some e \<Rightarrow> State_Monad.return (Inl (Wrap ''governance: build request'' e))
           | None \<Rightarrow> do {
               r \<leftarrow> host_call (gn_Post N) (gov_post N p body);
               State_Monad.return (gov_answer p r)
             }))"

section \<open>Prometheus\<close>

record prom_response =
  pr_Status :: string
  pr_ResultType :: string
  pr_Result :: "string list"
  pr_Error :: string

datatype prom_call = PromGet string

text \<open>\<open>pn_Pair\<close> and \<open>pn_Item\<close> decode a raw result as a list and as an item with labels and a list.\<close>

record prom_net =
  pn_Escape :: "string \<Rightarrow> string"
  pn_BadURL :: "string \<Rightarrow> err option"
  pn_Get :: "prom_call list \<Rightarrow> prom_call \<Rightarrow> (int \<times> prom_response res) res"
  pn_Pair :: "string \<Rightarrow> any list res"
  pn_Item :: "string \<Rightarrow> ((string \<times> string) list \<times> any list) res"
  pn_ParseFloat :: "string \<Rightarrow> real res"

definition float_value :: "prom_net \<Rightarrow> (string \<times> string) list \<Rightarrow> any \<Rightarrow> series_sample res" where
  "float_value N labels v = map_sum id (\<lambda>x. \<lparr>sm_Labels = labels, sm_Value = x\<rparr>) (pn_ParseFloat N (sprint v))"

definition parseSample :: "prom_net \<Rightarrow> string \<Rightarrow> string \<Rightarrow> series_sample res" where
  "parseSample N resultType raw =
     (if resultType = ''scalar'' then
        (case pn_Pair N raw of
           Inr [_, v] \<Rightarrow> float_value N [] v
         | _ \<Rightarrow> Inl (Err ''analysis: bad scalar result''))
      else
        (case pn_Item N raw of
           Inr (labels, [_, v]) \<Rightarrow> float_value N labels v
         | _ \<Rightarrow> Inl (Err ''analysis: bad vector result'')))"

definition prom_samples :: "prom_net \<Rightarrow> string \<Rightarrow> prom_response \<Rightarrow> series_sample list res" where
  "prom_samples N query pr =
     (if pr_Status pr \<noteq> ''success'' then Inl (Err (''analysis: prometheus error: '' @ pr_Error pr))
      else if pr_Result pr = [] then Inl (Err (''analysis: prometheus query '' @ query @ '' returned no data''))
      else collect_res (parseSample N (pr_ResultType pr)) (pr_Result pr))"

definition QuerySeries :: "prom_net \<Rightarrow> string \<Rightarrow> string \<Rightarrow> (prom_call list, series_sample list res) state" where
  "QuerySeries N addr query =
     (let u = addr @ ''/api/v1/query?query='' @ pn_Escape N query in
      case pn_BadURL N u of Some e \<Rightarrow> State_Monad.return (Inl e) | None \<Rightarrow> do {
        r \<leftarrow> host_call (pn_Get N) (PromGet u);
        State_Monad.return (case r of
            Inl e \<Rightarrow> Inl (Wrap ''analysis: prometheus'' e)
          | Inr (status, d) \<Rightarrow>
              if status \<noteq> 200 then Inl (Err (''analysis: prometheus status '' @ itoa status))
              else (case d of Inl e \<Rightarrow> Inl (Wrap ''analysis: prometheus decode'' e) | Inr pr \<Rightarrow> prom_samples N query pr))
      })"

definition formatLabels :: "(string \<times> string) list \<Rightarrow> string" where
  "formatLabels labels =
     (if labels = [] then ''{}''
      else ''{'' @ strings_Join (map (\<lambda>kv. fst kv @ ''='' @ [CHR 0x22] @ snd kv @ [CHR 0x22]) (sort_key fst labels)) '', '' @ ''}'')"

definition multiSeriesError :: "string \<Rightarrow> series_sample list \<Rightarrow> err" where
  "multiSeriesError query samples =
     Err (''analysis: prometheus query '' @ query @ '' returned '' @ itoa (int (length samples)) @ '' series (e.g. '' @
       formatLabels (sm_Labels (hd samples)) @ ''); set metrics[].aggregation (max|min|sum|any) or narrow the query'')"

text \<open>The first sample of an empty list is a panic in Go; \<open>QuerySeries_nonempty\<close> rules it out.\<close>

definition prom_Query :: "prom_net \<Rightarrow> string \<Rightarrow> string \<Rightarrow> (prom_call list, real res) state" where
  "prom_Query N addr query = do {
     s \<leftarrow> QuerySeries N addr query;
     State_Monad.return (case s of
         Inl e \<Rightarrow> Inl e
       | Inr samples \<Rightarrow> if length samples > 1 then Inl (multiSeriesError query samples) else Inr (sm_Value (hd samples)))
   }"

definition Prometheus_provider :: "prom_net \<Rightarrow> string \<Rightarrow> prom_call list metrics_provider" where
  "Prometheus_provider N addr = \<lparr>mp_Query = prom_Query N addr, mp_QuerySeries = Some (QuerySeries N addr)\<rparr>"

section \<open>Notifications\<close>

text \<open>The emoji and the dash are their bytes in UTF-8.\<close>

definition verb :: "notify_kind \<Rightarrow> string \<times> string" where
  "verb k =
     (case k of
        ApprovalNeeded \<Rightarrow> ([CHR 0xE2, CHR 0x8F, CHR 0xB3], ''needs approval'')
      | Failed \<Rightarrow> ([CHR 0xE2, CHR 0x9D, CHR 0x8C], ''failed'')
      | RolledBack \<Rightarrow> ([CHR 0xE2, CHR 0x86, CHR 0xA9, CHR 0xEF, CHR 0xB8, CHR 0x8F], ''rolled back'')
      | Promoted \<Rightarrow> ([CHR 0xE2, CHR 0x9C, CHR 0x85], ''promoted''))"

definition event_Message :: "notify_event \<Rightarrow> string" where
  "event_Message e =
     fst (verb (ne_Kind e)) @ '' Rollops: '' @ ne_TargetRef e @ '' '' @ snd (verb (ne_Kind e)) @
     (if ne_RolloutID e \<noteq> [] then '' ('' @ ne_RolloutID e @ '')'' else []) @
     (if ne_Detail e \<noteq> [] then '' '' @ [CHR 0xE2, CHR 0x80, CHR 0x94] @ '' '' @ ne_Detail e else [])"

definition event_Subject :: "notify_event \<Rightarrow> string" where
  "event_Subject e = ''Rollops: '' @ ne_TargetRef e @ '' '' @ snd (verb (ne_Kind e))"

datatype notifier =
    Briefkasten (bk_URL: string) (bk_Token: string) (bk_To: "string list")
  | Email (em_Addr: string) (em_From: string) (em_To: "string list") (em_Auth: "(string \<times> string \<times> string) option")
  | Webhook (wb_URL: string) (wb_Secret: string)

datatype notify_call =
    CallTool string string "string list" string string
  | SendMail string "(string \<times> string \<times> string) option" string "string list" string
  | HookPost string string "string option"

record notify_net =
  nn_Tool :: "notify_call list \<Rightarrow> notify_call \<Rightarrow> (bool \<times> string) res"
  nn_Send :: "notify_call list \<Rightarrow> notify_call \<Rightarrow> err option"
  nn_Encode :: "notify_event \<Rightarrow> string res"
  nn_BadURL :: "string \<Rightarrow> err option"
  nn_Post :: "notify_call list \<Rightarrow> notify_call \<Rightarrow> int res"
  nn_MAC :: hmac

abbreviation crlf :: string where "crlf \<equiv> [CHR 0x0D, CHR 0x0A]"

definition email_message :: "string \<Rightarrow> string list \<Rightarrow> notify_event \<Rightarrow> string" where
  "email_message sender to e =
     ''From: '' @ sender @ crlf @ ''To: '' @ strings_Join to '', '' @ crlf @ ''Subject: '' @ event_Subject e @ crlf @
     ''MIME-Version: 1.0'' @ crlf @ ''Content-Type: text/plain; charset=utf-8'' @ crlf @ crlf @ event_Message e @ crlf"

definition briefkasten_Notify :: "notify_net \<Rightarrow> string \<Rightarrow> string \<Rightarrow> string list \<Rightarrow> notify_event \<Rightarrow> (notify_call list, err option) state" where
  "briefkasten_Notify N url token to e = do {
     r \<leftarrow> host_call (nn_Tool N) (CallTool url token to (event_Subject e) (event_Message e));
     State_Monad.return (case r of
         Inl x \<Rightarrow> Some (Wrap ''notify: briefkasten'' x)
       | Inr (isErr, text) \<Rightarrow> if isErr then Some (Err (''notify: briefkasten: email.send: '' @ text)) else None)
   }"

definition email_Notify ::
  "notify_net \<Rightarrow> string \<Rightarrow> string \<Rightarrow> string list \<Rightarrow> (string \<times> string \<times> string) option \<Rightarrow> notify_event \<Rightarrow> (notify_call list, err option) state" where
  "email_Notify N addr sender to auth e = do {
     r \<leftarrow> host_call (nn_Send N) (SendMail addr auth sender to (email_message sender to e));
     State_Monad.return (map_option (Wrap ''notify: email'') r)
   }"

definition webhook_Notify :: "notify_net \<Rightarrow> string \<Rightarrow> string \<Rightarrow> notify_event \<Rightarrow> (notify_call list, err option) state" where
  "webhook_Notify N url secret e =
     (case nn_Encode N e of
        Inl x \<Rightarrow> State_Monad.return (Some x)
      | Inr body \<Rightarrow>
          (case nn_BadURL N url of
             Some x \<Rightarrow> State_Monad.return (Some x)
           | None \<Rightarrow> do {
               r \<leftarrow> host_call (nn_Post N) (HookPost url body (signature_of (nn_MAC N) secret body));
               State_Monad.return (case r of
                   Inl x \<Rightarrow> Some (Wrap ''notify: webhook'' x)
                 | Inr status \<Rightarrow> if status \<ge> 300 then Some (Err (''notify: webhook status '' @ itoa status)) else None)
             }))"

fun channel_Notify :: "notify_net \<Rightarrow> notifier \<Rightarrow> notify_event \<Rightarrow> (notify_call list, err option) state" where
  "channel_Notify N (Briefkasten url token to) e = briefkasten_Notify N url token to e"
| "channel_Notify N (Email addr sender to auth) e = email_Notify N addr sender to auth e"
| "channel_Notify N (Webhook url secret) e = webhook_Notify N url secret e"

text \<open>The loop of \<open>Multi\<close>, with the first error so far.\<close>

fun multi_loop :: "notify_net \<Rightarrow> notifier list \<Rightarrow> notify_event \<Rightarrow> err option \<Rightarrow> (notify_call list, err option) state" where
  "multi_loop N [] e first = State_Monad.return first"
| "multi_loop N (n # ns) e first = do {
     r \<leftarrow> channel_Notify N n e;
     multi_loop N ns e (if r \<noteq> None \<and> first = None then r else first)
   }"

definition Multi_Notify :: "notify_net \<Rightarrow> notifier list \<Rightarrow> notify_event \<Rightarrow> (notify_call list, err option) state" where
  "Multi_Notify N ns e = multi_loop N ns e None"

definition splitRecipients :: "string \<Rightarrow> string list" where
  "splitRecipients s = filter (\<lambda>r. r \<noteq> []) (map strings_TrimSpace (split_on (CHR '','') s))"

definition host_of_addr :: "string \<Rightarrow> string" where
  "host_of_addr addr = (if CHR '':'' \<in> set addr then rev (tl (dropWhile (\<lambda>c. c \<noteq> CHR '':'') (rev addr))) else addr)"

text \<open>The notifiers and the names of their channels; nothing configured is the empty list.\<close>

definition notify_FromEnv :: "(string \<Rightarrow> string) \<Rightarrow> (notifier \<times> string) list" where
  "notify_FromEnv getenv =
     (let url = getenv ''ROLLOPS_BRIEFKASTEN_URL'' in
      if url \<noteq> [] then [(Briefkasten url (getenv ''ROLLOPS_BRIEFKASTEN_TOKEN'') (splitRecipients (getenv ''ROLLOPS_BRIEFKASTEN_TO'')), ''briefkasten'')] else []) @
     (let addr = getenv ''ROLLOPS_SMTP_ADDR''; user = getenv ''ROLLOPS_SMTP_USER'' in
      if addr \<noteq> [] then [(Email addr (getenv ''ROLLOPS_SMTP_FROM'') (splitRecipients (getenv ''ROLLOPS_SMTP_TO''))
        (if user \<noteq> [] then Some (user, getenv ''ROLLOPS_SMTP_PASS'', host_of_addr addr) else None), ''email'')] else []) @
     (let url = getenv ''ROLLOPS_WEBHOOK_URL'' in
      if url \<noteq> [] then [(Webhook url (getenv ''ROLLOPS_WEBHOOK_SECRET''), ''webhook'')] else [])"

section \<open>What the clients promise\<close>

text \<open>
  With a governor configured, a rollout is allowed only when exactly one request was posted to it,
  within the deadline, signed with the secret, and it answered 200 with a decision that allows: an
  unreachable governor, another status or an unreadable answer deny.
\<close>

theorem governor_fails_closed:
  assumes "run_state (Hook_Evaluate (Some (HTTPProvider_Evaluate N p)) req) h = (Inr d, h')" "gd_Allowed d"
  shows "\<exists>body text. gn_Encode N req = Inr body \<and> h' = h @ [gov_post N p body] \<and>
    gn_Post N h (gov_post N p body) = Inr (200, text, Inr d)"
  using assms
  by (auto simp: Hook_Evaluate_def HTTPProvider_Evaluate_def gov_answer_def run_state_simps run_host_call map_sum_def
      split: if_splits sum.splits option.splits prod.splits)


definition allowing_net :: gov_net where
  "allowing_net = \<lparr>gn_Encode = (\<lambda>r. Inr (gq_TargetRef r)), gn_BadURL = (\<lambda>_. None),
     gn_Post = (\<lambda>_ _. Inr (200, ''OK'', Inr \<lparr>gd_Allowed = True, gd_Reason = []\<rparr>)), gn_MAC = (\<lambda>_ b. b)\<rparr>"

definition local_governor :: http_provider where
  "local_governor = \<lparr>hp_URL = ''http://g'', hp_Secret = ''s'', hp_Timeout = 0, hp_Token = []\<rparr>"

definition prod_request :: gov_request where
  "prod_request = \<lparr>gq_Action = ''apply'', gq_TargetRef = ''a'', gq_Actor = zero_identity, gq_Environment = ''prod'', gq_Version = []\<rparr>"

theorem governor_fails_closed_witness:
  "\<exists>h'. run_state (Hook_Evaluate (Some (HTTPProvider_Evaluate allowing_net local_governor)) prod_request) [] =
      (Inr \<lparr>gd_Allowed = True, gd_Reason = []\<rparr>, h') \<and>
     h' = [GovPost ''http://g'' defaultGovernanceTimeout ''a'' None (Some ''sha256=61'')]"
proof -
  obtain h' where r: "run_state (Hook_Evaluate (Some (HTTPProvider_Evaluate allowing_net local_governor)) prod_request) [] =
      (Inr \<lparr>gd_Allowed = True, gd_Reason = []\<rparr>, h')"
    by (simp add: Hook_Evaluate_def HTTPProvider_Evaluate_def allowing_net_def prod_request_def gov_answer_def run_state_simps run_host_call)
  have "gn_Encode allowing_net prod_request = Inr ''a''" "gov_post allowing_net local_governor ''a'' =
      GovPost ''http://g'' defaultGovernanceTimeout ''a'' None (Some ''sha256=61'')"
    by code_simp+
  then show ?thesis using governor_fails_closed [OF r] r by auto
qed

text \<open>The signature of a request and of a webhook is the one that \<open>VerifySignature\<close> accepts.\<close>

lemma signature_of_verifies: "signature_of mac secret body = Some s \<Longrightarrow> VerifySignature mac secret body s"
  using VerifySignature_Sign [of mac secret body] by (auto simp: signature_of_def Sign_def split: if_splits)

text \<open>A series list without an error has a sample for every result, and at least one.\<close>

lemma collect_res_map: "collect_res f xs = Inr ys \<Longrightarrow> map f xs = map Inr ys"
  by (induction xs arbitrary: ys) (auto split: sum.splits)

lemma QuerySeries_samples:
  assumes "run_state (QuerySeries N addr query) h = (Inr ys, h')"
  shows "\<exists>c pr. h' = h @ [c] \<and> pn_Get N h c = Inr (200, Inr pr) \<and> pr_Status pr = ''success'' \<and> pr_Result pr \<noteq> [] \<and>
    map (parseSample N (pr_ResultType pr)) (pr_Result pr) = map Inr ys"
  using assms
  by (auto simp: QuerySeries_def prom_samples_def run_state_simps run_host_call Let_def dest!: collect_res_map
      split: option.splits sum.splits prod.splits if_splits)

lemma QuerySeries_nonempty: "run_state (QuerySeries N addr query) h = (Inr ys, h') \<Longrightarrow> ys \<noteq> []"
  using QuerySeries_samples by fastforce

text \<open>A value of a query is that of the only series of a successful answer: no gate passes on one of several.\<close>

theorem Query_single:
  assumes "run_state (prom_Query N addr query) h = (Inr v, h')"
  shows "\<exists>c pr raw s. h' = h @ [c] \<and> pn_Get N h c = Inr (200, Inr pr) \<and> pr_Status pr = ''success'' \<and>
    pr_Result pr = [raw] \<and> parseSample N (pr_ResultType pr) raw = Inr s \<and> v = sm_Value s"
proof -
  obtain ys where q: "run_state (QuerySeries N addr query) h = (Inr ys, h')" "length ys \<le> 1" "v = sm_Value (hd ys)"
    using assms by (cases "run_state (QuerySeries N addr query) h")
      (auto simp: prom_Query_def run_state_simps split: sum.splits if_splits)
  obtain c pr where c: "h' = h @ [c]" "pn_Get N h c = Inr (200, Inr pr)" "pr_Status pr = ''success''" "pr_Result pr \<noteq> []"
    "map (parseSample N (pr_ResultType pr)) (pr_Result pr) = map Inr ys"
    using QuerySeries_samples [OF q(1)] by blast
  then have "length (pr_Result pr) = length ys" by (metis length_map)
  then obtain raw where raw: "pr_Result pr = [raw]" using c(4) q(2) by (cases "pr_Result pr"; cases "tl (pr_Result pr)") auto
  then obtain s where "ys = [s]" "parseSample N (pr_ResultType pr) raw = Inr s" using c(5) by auto
  then show ?thesis using c raw q(3) by simp
qed

text \<open>The call a channel makes; a webhook whose event or URL is unusable makes none.\<close>

definition channel_call :: "notify_net \<Rightarrow> notify_event \<Rightarrow> notifier \<Rightarrow> notify_call option" where
  "channel_call N e n =
     (case n of
        Briefkasten url token to \<Rightarrow> Some (CallTool url token to (event_Subject e) (event_Message e))
      | Email addr sender to auth \<Rightarrow> Some (SendMail addr auth sender to (email_message sender to e))
      | Webhook url secret \<Rightarrow>
          (case (nn_Encode N e, nn_BadURL N url) of
             (Inr body, None) \<Rightarrow> Some (HookPost url body (signature_of (nn_MAC N) secret body))
           | _ \<Rightarrow> None))"

lemma channel_Notify_calls:
  "snd (run_state (channel_Notify N n e) h) = h @ (case channel_call N e n of Some c \<Rightarrow> [c] | None \<Rightarrow> [])"
  by (cases n) (auto simp: channel_call_def briefkasten_Notify_def email_Notify_def webhook_Notify_def run_state_simps run_host_call split: sum.splits option.splits)

lemma multi_loop_calls:
  "snd (run_state (multi_loop N ns e first) h) = h @ List.map_filter (channel_call N e) ns"
proof (induction ns arbitrary: first h)
  case (Cons n ns)
  obtain r h' where "run_state (channel_Notify N n e) h = (r, h')" by fastforce
  moreover from this have "h' = h @ (case channel_call N e n of Some c \<Rightarrow> [c] | None \<Rightarrow> [])"
    using channel_Notify_calls [of N n e h] by simp
  ultimately show ?case by (auto simp: run_state_simps Cons.IH map_filter_simps split: option.splits)
qed (simp add: run_state_simps map_filter_simps)

text \<open>Every channel gets the event, in order, whatever the others answered.\<close>

theorem Multi_attempts_all: "snd (run_state (Multi_Notify N ns e) h) = h @ List.map_filter (channel_call N e) ns"
  by (simp add: Multi_Notify_def multi_loop_calls)

text \<open>The subject of a mail is not one line where the reference of the target is not: it ends the header.\<close>

lemma subject_splits_header:
  assumes "ne_TargetRef e = ref @ crlf @ ''Bcc: '' @ x"
  shows "\<exists>before after. email_message sender to e = before @ crlf @ ''Bcc: '' @ x @ '' '' @ snd (verb (ne_Kind e)) @ crlf @ after \<and>
    before = ''From: '' @ sender @ crlf @ ''To: '' @ strings_Join to '', '' @ crlf @ ''Subject: Rollops: '' @ ref"
  by (intro exI conjI, unfold email_message_def event_Subject_def assms) (simp_all only: append_assoc append.simps)

end
