(* ===== verification/ServerTLS.thy ===== *)
theory ServerTLS
  imports Engine_Base
begin

text \<open>
  \<^verbatim>\<open>internal/servertls/servertls.go\<close>: the TLS material of the listeners and the key pair that is reloaded when
  its file changes. The file system and \<open>tls.LoadX509KeyPair\<close> answer as they like at every handshake; a key
  pair is a value of any type \<open>'k\<close>.

  \<open>handshakes_never_fail\<close>: once a listener has started, every handshake is served, with a pair that loaded;
  \<open>machine_listeners_verify\<close>: what a listener asks of its clients.
\<close>

record 'k tls_source =
  tc_certFile :: string
  tc_keyFile :: string
  tc_clientCAFile :: string
  tc_cached :: "'k option"
  tc_certMod :: time

text \<open>Plaintext is \<open>None\<close>, as is the zero time of a pair that was never loaded.\<close>

definition tls_FromEnv :: "(string \<Rightarrow> string) \<Rightarrow> 'k tls_source option res" where
  "tls_FromEnv getenv =
     (let cert = getenv ''ROLLOPS_TLS_CERT''; key = getenv ''ROLLOPS_TLS_KEY''; clientCA = getenv ''ROLLOPS_TLS_CLIENT_CA'' in
      if cert = [] \<and> key = [] then
        (if clientCA \<noteq> []
         then Inl (Err ''ROLLOPS_TLS_CLIENT_CA is set but ROLLOPS_TLS_CERT/ROLLOPS_TLS_KEY are not: mTLS requires a server keypair to terminate TLS'')
         else Inr None)
      else if cert = [] then Inl (Err ''ROLLOPS_TLS_KEY is set but ROLLOPS_TLS_CERT is not: set both'')
      else if key = [] then Inl (Err ''ROLLOPS_TLS_CERT is set but ROLLOPS_TLS_KEY is not: set both'')
      else Inr (Some \<lparr>tc_certFile = cert, tc_keyFile = key, tc_clientCAFile = clientCA, tc_cached = None, tc_certMod = 0\<rparr>))"

text \<open>What the outside answers at one moment: the time of the certificate file, the key pair, a bundle.\<close>

record 'k tls_disk =
  td_Stat :: "string \<Rightarrow> time res"
  td_Load :: "string \<Rightarrow> string \<Rightarrow> 'k res"
  td_Read :: "string \<Rightarrow> string res"
  td_Pool :: "string \<Rightarrow> string list"

definition loadCertificate :: "'k tls_disk \<Rightarrow> 'k tls_source \<Rightarrow> 'k res \<times> 'k tls_source" where
  "loadCertificate D c =
     (case td_Stat D (tc_certFile c) of
        Inl e \<Rightarrow> (case tc_cached c of
            Some k \<Rightarrow> (Inr k, c)
          | None \<Rightarrow> (Inl (Wrap (''stat tls cert '' @ tc_certFile c) e), c))
      | Inr mtime \<Rightarrow>
          if tc_cached c \<noteq> None \<and> mtime = tc_certMod c then (Inr (the (tc_cached c)), c)
          else (case td_Load D (tc_certFile c) (tc_keyFile c) of
              Inl e \<Rightarrow> (case tc_cached c of
                  Some k \<Rightarrow> (Inr k, c)
                | None \<Rightarrow> (Inl (Wrap ''load tls keypair'' e), c))
            | Inr pair \<Rightarrow> (Inr pair, c\<lparr>tc_cached := Some pair, tc_certMod := mtime\<rparr>)))"

definition HasClientCA :: "'k tls_source option \<Rightarrow> bool" where
  "HasClientCA c \<longleftrightarrow> (case c of None \<Rightarrow> False | Some s \<Rightarrow> tc_clientCAFile s \<noteq> [])"

definition cert_pool :: "'k tls_disk \<Rightarrow> string \<Rightarrow> string \<Rightarrow> string list res" where
  "cert_pool D what path =
     (case td_Read D path of
        Inl e \<Rightarrow> Inl (Wrap (''read tls '' @ what @ '' '' @ path) e)
      | Inr pem \<Rightarrow> if td_Pool D pem = [] then Inl (Err (''tls '' @ what @ '' '' @ path @ '' contains no valid certificates'')) else Inr (td_Pool D pem))"

definition clientCAPool :: "'k tls_disk \<Rightarrow> 'k tls_source \<Rightarrow> string list res" where
  "clientCAPool D c = cert_pool D ''client CA'' (tc_clientCAFile c)"

datatype client_auth = NoClientCert | VerifyClientCertIfGiven | RequireAndVerifyClientCert

record 'k server_config =
  sc_MinVersion :: nat
  sc_ClientCAs :: "string list"
  sc_ClientAuth :: client_auth

abbreviation VersionTLS13 :: nat where "VersionTLS13 \<equiv> 0x0304"

definition ServerTLS :: "'k tls_disk \<Rightarrow> 'k tls_source \<Rightarrow> bool \<Rightarrow> 'k server_config res \<times> 'k tls_source" where
  "ServerTLS D c requireClientCert =
     (case loadCertificate D c of
        (Inl e, c') \<Rightarrow> (Inl e, c')
      | (Inr _, c') \<Rightarrow>
          (if tc_clientCAFile c' \<noteq> [] then
             (case clientCAPool D c' of
                Inl e \<Rightarrow> (Inl e, c')
              | Inr pool \<Rightarrow> (Inr \<lparr>sc_MinVersion = VersionTLS13, sc_ClientCAs = pool,
                  sc_ClientAuth = (if requireClientCert then RequireAndVerifyClientCert else VerifyClientCertIfGiven)\<rparr>, c'))
           else (Inr \<lparr>sc_MinVersion = VersionTLS13, sc_ClientCAs = [], sc_ClientAuth = NoClientCert\<rparr>, c')))"

record 'k client_config =
  cc_MinVersion :: nat
  cc_RootCAs :: "string list"
  cc_Certificates :: "'k list"

definition ClientTLS :: "'k tls_disk \<Rightarrow> 'k tls_source option \<Rightarrow> 'k client_config option res \<times> 'k tls_source option" where
  "ClientTLS D co =
     (case co of
        None \<Rightarrow> (Inr None, None)
      | Some c \<Rightarrow>
          (case cert_pool D ''cert'' (tc_certFile c) of
             Inl e \<Rightarrow> (Inl e, Some c)
           | Inr pool \<Rightarrow>
               if HasClientCA co then
                 (case loadCertificate D c of
                    (Inl e, c') \<Rightarrow> (Inl e, Some c')
                  | (Inr pair, c') \<Rightarrow> (Inr (Some \<lparr>cc_MinVersion = VersionTLS13, cc_RootCAs = pool, cc_Certificates = [pair]\<rparr>), Some c'))
               else (Inr (Some \<lparr>cc_MinVersion = VersionTLS13, cc_RootCAs = pool, cc_Certificates = []\<rparr>), Some c)))"

text \<open>The handshakes of a listener, each with what the disk answers then.\<close>

fun handshakes :: "'k tls_source \<Rightarrow> 'k tls_disk list \<Rightarrow> 'k res list" where
  "handshakes c [] = []"
| "handshakes c (D # Ds) = (case loadCertificate D c of (r, c') \<Rightarrow> r # handshakes c' Ds)"

section \<open>Rotation\<close>

text \<open>A key pair that one of the disks loads from the two files of the source.\<close>

definition loadable :: "'k tls_source \<Rightarrow> 'k tls_disk list \<Rightarrow> 'k \<Rightarrow> bool" where
  "loadable c Ds k \<longleftrightarrow> list_ex (\<lambda>D. td_Load D (tc_certFile c) (tc_keyFile c) = Inr k) Ds"

lemma loadCertificate_cases:
  assumes "loadCertificate D c = (r, c')"
  shows "tc_certFile c' = tc_certFile c \<and> tc_keyFile c' = tc_keyFile c \<and> tc_clientCAFile c' = tc_clientCAFile c \<and>
    (case r of
       Inr k \<Rightarrow> tc_cached c' = Some k \<and> (tc_cached c = Some k \<or> td_Load D (tc_certFile c) (tc_keyFile c) = Inr k)
     | Inl _ \<Rightarrow> tc_cached c = None \<and> c' = c)"
  using assms by (auto simp: loadCertificate_def split: sum.splits option.splits if_splits)

lemma handshakes_served:
  assumes "tc_cached c = Some k0" "r \<in> set (handshakes c Ds)"
  shows "\<exists>k. r = Inr k \<and> (k = k0 \<or> loadable c Ds k)"
  using assms
proof (induction Ds arbitrary: c k0)
  case (Cons D Ds)
  obtain x c' where l: "loadCertificate D c = (x, c')" by fastforce
  note lc = loadCertificate_cases [OF l]
  then obtain k where k: "x = Inr k" "tc_cached c' = Some k" "k = k0 \<or> loadable c (D # Ds) k"
    using Cons.prems(1) by (cases x) (auto simp: loadable_def)
  from Cons.prems(2) l consider "r = x" | "r \<in> set (handshakes c' Ds)" by auto
  then show ?case
  proof cases
    case 2
    then obtain k' where "r = Inr k'" "k' = k \<or> loadable c' Ds k'" using Cons.IH [OF k(2)] by blast
    then show ?thesis using k(3) lc by (auto simp: loadable_def)
  qed (use k in auto)
qed simp

lemma ServerTLS_loaded:
  assumes "ServerTLS D c requireClientCert = (Inr cfg, c')"
  shows "\<exists>k. loadCertificate D c = (Inr k, c')"
  using assms by (cases "loadCertificate D c") (auto simp: ServerTLS_def split: sum.splits if_splits)

text \<open>
  Once \<^verbatim>\<open>ServerTLS\<close> has started a listener, every handshake is served, whatever the disk answers then:
  with the pair of the start, or one that was loaded from the configured files at a handshake since. A
  missing, half-written or mismatched file never takes the listener down.
\<close>

theorem handshakes_never_fail:
  assumes "ServerTLS D c requireClientCert = (Inr cfg, c')" "r \<in> set (handshakes c' Ds)"
  shows "\<exists>k. r = Inr k \<and> (tc_cached c' = Some k \<or> loadable c' Ds k)"
proof -
  obtain k0 where "tc_cached c' = Some k0"
    using ServerTLS_loaded [OF assms(1)] loadCertificate_cases [of D c] by fastforce
  from handshakes_served [OF this assms(2)] this show ?thesis by auto
qed

text \<open>A change of the certificate file that loads is served from the very handshake that sees it.\<close>

lemma rotation_served:
  assumes "td_Stat D (tc_certFile c) = Inr t" "t \<noteq> tc_certMod c" "td_Load D (tc_certFile c) (tc_keyFile c) = Inr k"
  shows "loadCertificate D c = (Inr k, c\<lparr>tc_cached := Some k, tc_certMod := t\<rparr>)"
  using assms by (simp add: loadCertificate_def)

text \<open>
  With a client CA, a machine listener requires a verified client certificate and the shared one
  verifies a certificate that is presented, against a pool that is not empty; TLS 1.3 is the least.
\<close>

lemma machine_listeners_verify:
  assumes "ServerTLS D c requireClientCert = (Inr cfg, c')"
  shows "sc_MinVersion cfg = VersionTLS13"
    "tc_clientCAFile c \<noteq> [] \<Longrightarrow> sc_ClientCAs cfg \<noteq> [] \<and>
       sc_ClientAuth cfg = (if requireClientCert then RequireAndVerifyClientCert else VerifyClientCertIfGiven)"
    "tc_clientCAFile c = [] \<Longrightarrow> sc_ClientAuth cfg = NoClientCert"
proof -
  obtain k where l: "loadCertificate D c = (Inr k, c')" using ServerTLS_loaded [OF assms] by blast
  note [simp] = loadCertificate_cases [OF l, THEN conjunct2, THEN conjunct2, THEN conjunct1]
  have s: "(if tc_clientCAFile c \<noteq> [] then
      (case clientCAPool D c' of
         Inl e \<Rightarrow> Inl e
       | Inr pool \<Rightarrow> Inr \<lparr>sc_MinVersion = VersionTLS13, sc_ClientCAs = pool,
           sc_ClientAuth = (if requireClientCert then RequireAndVerifyClientCert else VerifyClientCertIfGiven)\<rparr>)
      else Inr \<lparr>sc_MinVersion = VersionTLS13, sc_ClientCAs = [], sc_ClientAuth = NoClientCert\<rparr>) = Inr cfg"
    using assms by (auto simp: ServerTLS_def l split: sum.splits if_splits)
  have p: "pool \<noteq> []" if "clientCAPool D c' = Inr pool" for pool
    using that by (auto simp: clientCAPool_def cert_pool_def split: sum.splits if_splits)
  from s show "sc_MinVersion cfg = VersionTLS13" by (auto split: if_splits sum.splits)
  from s p show "sc_ClientCAs cfg \<noteq> [] \<and>
      sc_ClientAuth cfg = (if requireClientCert then RequireAndVerifyClientCert else VerifyClientCertIfGiven)"
    if "tc_clientCAFile c \<noteq> []" using that by (cases "clientCAPool D c'") auto
  from s show "sc_ClientAuth cfg = NoClientCert" if "tc_clientCAFile c = []" using that by auto
qed

definition steady_disk :: "nat res \<Rightarrow> time \<Rightarrow> nat tls_disk" where
  "steady_disk k t = \<lparr>td_Stat = (\<lambda>_. Inr t), td_Load = (\<lambda>_ _. k), td_Read = (\<lambda>_. Inr ''ca''), td_Pool = (\<lambda>p. [p])\<rparr>"

definition listener_source :: "nat tls_source" where
  "listener_source = \<lparr>tc_certFile = ''c'', tc_keyFile = ''k'', tc_clientCAFile = ''ca'', tc_cached = None, tc_certMod = 0\<rparr>"

theorem handshakes_never_fail_witness:
  "\<exists>cfg c'. ServerTLS (steady_disk (Inr 1) 5) listener_source True = (Inr cfg, c') \<and>
     (\<exists>k. Inr 1 = (Inr k :: nat res) \<and> (tc_cached c' = Some k \<or> loadable c' [steady_disk (Inl (Err ''partial'')) 6, steady_disk (Inr 2) 7] k))"
proof -
  let ?Ds = "[steady_disk (Inl (Err ''partial'')) 6, steady_disk (Inr 2) 7]"
  obtain cfg c' where s: "ServerTLS (steady_disk (Inr 1) 5) listener_source True = (Inr cfg, c')"
    by (simp add: ServerTLS_def loadCertificate_def clientCAPool_def cert_pool_def steady_disk_def listener_source_def)
  then have "handshakes c' ?Ds = [Inr 1, Inr 2]"
    by (auto simp: ServerTLS_def loadCertificate_def clientCAPool_def cert_pool_def steady_disk_def listener_source_def)
  then have "Inr 1 \<in> set (handshakes c' ?Ds)" by simp
  from handshakes_never_fail [OF s this] s show ?thesis by blast
qed

end
