(* ===== verification/Console.thy ===== *)
theory Console
  imports Surface_Safety
begin

text \<open>
  The web console: \<^verbatim>\<open>internal/ui/ui.go\<close>, behind \<open>uiAuth\<close> and \<open>basicAuth\<close> of \<^verbatim>\<open>cmd/rollopsd/main.go\<close>. A response
  is the status and the error that is written, or the body. The sessions of the library auth-go are
  parameters: which cookies are tokens, which tokens are valid, what issuing one gives. Assets, headers
  and the JSON are left out; times are kept as times.

  \<open>console_refuses\<close> interprets the contract of \<open>Surface_Safety\<close> on the console, \<open>ui_admits\<close> says who gets in.
\<close>

section \<open>Handlers\<close>

record console =
  co_Eng :: env
  co_Policy :: "policy option"
  co_Sync :: "err option prog option"

record rollout_json =
  rj_ID :: string
  rj_Target :: string
  rj_Phase :: phase
  rj_Strategy :: strategy
  rj_By :: string
  rj_ByKind :: string
  rj_Risk :: real
  rj_At :: time
  rj_Step :: "int \<times> int \<times> int"

record history_json =
  hj_At :: time
  hj_Phase :: phase
  hj_Rollout :: string
  hj_By :: string
  hj_ByKind :: string
  hj_Note :: string

record dashboard_json =
  dj_Counts :: "(phase \<times> nat) list"
  dj_Drift :: "drift_item list"
  dj_Rollouts :: "rollout_json list"
  dj_CanSync :: bool
  dj_Frozen :: bool
  dj_FreezeReason :: string

record target_json =
  tj_Ref :: string
  tj_Rollout :: rollout_json
  tj_Desired :: string
  tj_Diff :: string
  tj_DiffNote :: "err option"
  tj_Resources :: "resource list"
  tj_History :: "history_json list"
  tj_Awaiting :: bool
  tj_Drifted :: bool
  tj_CanSync :: bool

datatype ui_body = UOK | UDashboard dashboard_json | UTarget target_json | UPage

type_synonym ui_answer = "(nat \<times> err) + ui_body"

definition writeErr :: "nat \<Rightarrow> string \<Rightarrow> ui_answer prog" where
  "writeErr status msg = State_Monad.return (Inl (status, Err msg))"

definition ui_authorize :: "console \<Rightarrow> identity \<Rightarrow> permission \<Rightarrow> scope \<Rightarrow> err option" where
  "ui_authorize C who perm sc =
     (case co_Policy C of
        None \<Rightarrow> Some (Err ''ui: no authorization policy configured'')
      | Some p \<Rightarrow> Authorize p who perm sc)"

definition rolloutByID :: "console \<Rightarrow> string \<Rightarrow> rollout option prog" where
  "rolloutByID C rid = do {
     rs \<leftarrow> List_rollouts (co_Eng C) 200;
     State_Monad.return (case rs of Inl _ \<Rightarrow> None | Inr l \<Rightarrow> find (\<lambda>r. r_ID r = rid) l)
   }"

definition identity_str :: "identity \<Rightarrow> string" where
  "identity_str i = id_Kind i @ ''/'' @ id_Name i"

definition rollout_json_of :: "rollout \<Rightarrow> rollout_json" where
  "rollout_json_of r = \<lparr>rj_ID = r_ID r, rj_Target = r_TargetRef r, rj_Phase = r_Phase r, rj_Strategy = r_Strategy r,
     rj_By = identity_str (r_Initiator r), rj_ByKind = id_Kind (r_Initiator r), rj_Risk = r_RiskScore r, rj_At = r_UpdatedAt r,
     rj_Step = (r_StepIndex r, r_StepTotal r, r_StepWeight r)\<rparr>"

definition history_json_of :: "rollout_record \<Rightarrow> history_json" where
  "history_json_of h = \<lparr>hj_At = rr_At h, hj_Phase = rr_Phase h, hj_Rollout = rr_RolloutID h, hj_By = identity_str (rr_Initiator h),
     hj_ByKind = id_Kind (rr_Initiator h), hj_Note = rr_Note h\<rparr>"

definition phase_counts :: "rollout list \<Rightarrow> (phase \<times> nat) list" where
  "phase_counts rs = map (\<lambda>p. (p, length (filter (\<lambda>r. r_Phase r = p) rs))) (remdups (map r_Phase rs))"

definition apiDashboard :: "console \<Rightarrow> ui_answer prog" where
  "apiDashboard C = do {
     rs \<leftarrow> List_rollouts (co_Eng C) 100;
     (case rs of
        Inl e \<Rightarrow> State_Monad.return (Inl (500, e))
      | Inr l \<Rightarrow> do {
          drift \<leftarrow> DriftReport (co_Eng C);
          fz \<leftarrow> FreezeStatus (co_Eng C);
          State_Monad.return (Inr (UDashboard \<lparr>dj_Counts = phase_counts l,
            dj_Drift = (case drift of Inl _ \<Rightarrow> [] | Inr ds \<Rightarrow> ds), dj_Rollouts = map rollout_json_of l,
            dj_CanSync = (co_Sync C \<noteq> None), dj_Frozen = fst fz, dj_FreezeReason = snd fz\<rparr>))
        })
   }"

fun is_unsupported :: "err \<Rightarrow> bool" where
  "is_unsupported ErrUnsupported = True"
| "is_unsupported (Wrap p e) = is_unsupported e"
| "is_unsupported _ = False"

definition target_page :: "console \<Rightarrow> string \<Rightarrow> rollout \<Rightarrow> ui_answer prog" where
  "target_page C ref newest = do {
     drift \<leftarrow> DriftReport (co_Eng C);
     diff \<leftarrow> Diff (co_Eng C) (r_ID newest);
     res \<leftarrow> Resources (co_Eng C) (r_ID newest);
     hist \<leftarrow> st_History (co_Eng C) ref;
     State_Monad.return (Inr (UTarget \<lparr>tj_Ref = ref, tj_Rollout = rollout_json_of newest,
       tj_Desired = m_Checksum (r_Desired newest),
       tj_Diff = (case diff of Inl _ \<Rightarrow> [] | Inr d \<Rightarrow> d),
       tj_DiffNote = (case diff of Inl e \<Rightarrow> Some (if is_unsupported e then Err ''this target type does not support diff'' else e) | Inr _ \<Rightarrow> None),
       tj_Resources = (case res of Inl _ \<Rightarrow> [] | Inr rs \<Rightarrow> rs),
       tj_History = (case hist of Inl _ \<Rightarrow> [] | Inr hs \<Rightarrow> map history_json_of hs),
       tj_Awaiting = (r_Phase newest = PhaseAwaitingApproval),
       tj_Drifted = (case drift of Inl _ \<Rightarrow> False
         | Inr ds \<Rightarrow> (case find (\<lambda>d. di_TargetRef d = ref) ds of None \<Rightarrow> False | Some d \<Rightarrow> di_Drifted d)),
       tj_CanSync = (co_Sync C \<noteq> None)\<rparr>))
   }"

definition apiTarget :: "console \<Rightarrow> string \<Rightarrow> ui_answer prog" where
  "apiTarget C ref =
     (if ref = [] then writeErr 400 ''ref required''
      else do {
        rs \<leftarrow> List_rollouts (co_Eng C) 200;
        (case rs of
           Inl e \<Rightarrow> State_Monad.return (Inl (500, e))
         | Inr l \<Rightarrow>
             (case find (\<lambda>r. r_TargetRef r = ref) l of
                None \<Rightarrow> writeErr 404 ''no rollouts for target''
              | Some newest \<Rightarrow> target_page C ref newest))
      })"

definition ok_unless :: "err option \<Rightarrow> ui_answer" where
  "ok_unless e = (case e of Some x \<Rightarrow> Inl (400, x) | None \<Rightarrow> Inr UOK)"

text \<open>From the identity on: look the rollout up, authorize on its target, act as the caller.\<close>

definition ui_act :: "console \<Rightarrow> permission \<Rightarrow> (string \<Rightarrow> identity \<Rightarrow> (rollout \<times> err option) prog) \<Rightarrow> identity \<Rightarrow> string \<Rightarrow> ui_answer prog" where
  "ui_act C perm oper who rid = do {
     rl \<leftarrow> rolloutByID C rid;
     (case rl of
        None \<Rightarrow> writeErr 404 ''rollout not found''
      | Some r \<Rightarrow>
          (case ui_authorize C who perm (target_scope (r_TargetRef r)) of
             Some _ \<Rightarrow> writeErr 403 ''forbidden''
           | None \<Rightarrow> do { x \<leftarrow> oper rid who; State_Monad.return (ok_unless (snd x)) }))
   }"

definition with_identity :: "identity option \<Rightarrow> (identity \<Rightarrow> ui_answer prog) \<Rightarrow> ui_answer prog" where
  "with_identity who f = (case who of None \<Rightarrow> writeErr 401 ''unauthorized'' | Some i \<Rightarrow> f i)"

definition actByID ::
  "console \<Rightarrow> permission \<Rightarrow> (string \<Rightarrow> identity \<Rightarrow> (rollout \<times> err option) prog) \<Rightarrow> identity option \<Rightarrow> string blob \<Rightarrow> ui_answer prog" where
  "actByID C perm oper who b = with_identity who (\<lambda>i.
     case unblob b of
       Inl _ \<Rightarrow> writeErr 400 ''id required''
     | Inr rid \<Rightarrow> if rid = [] then writeErr 400 ''id required'' else ui_act C perm oper i rid)"

definition apiApprove :: "console \<Rightarrow> identity option \<Rightarrow> string blob \<Rightarrow> ui_answer prog" where
  "apiApprove C = actByID C PermApprove (Approve (co_Eng C))"
definition apiReject :: "console \<Rightarrow> identity option \<Rightarrow> string blob \<Rightarrow> ui_answer prog" where
  "apiReject C = actByID C PermApprove (Reject (co_Eng C))"
definition apiPause :: "console \<Rightarrow> identity option \<Rightarrow> string blob \<Rightarrow> ui_answer prog" where
  "apiPause C = actByID C PermApply (Pause (co_Eng C))"
definition apiResume :: "console \<Rightarrow> identity option \<Rightarrow> string blob \<Rightarrow> ui_answer prog" where
  "apiResume C = actByID C PermApply (Resume (co_Eng C))"
definition apiAbort :: "console \<Rightarrow> identity option \<Rightarrow> string blob \<Rightarrow> ui_answer prog" where
  "apiAbort C = actByID C PermApply (Abort (co_Eng C))"

text \<open>The console never forces a promotion.\<close>

definition apiPromote :: "console \<Rightarrow> identity option \<Rightarrow> string blob \<Rightarrow> ui_answer prog" where
  "apiPromote C = actByID C PermPromote (\<lambda>rid who. Promote (co_Eng C) rid who False)"

definition apiFreeze :: "console \<Rightarrow> identity option \<Rightarrow> (bool \<times> string) blob \<Rightarrow> ui_answer prog" where
  "apiFreeze C who b = with_identity who (\<lambda>i.
     case ui_authorize C i PermFreeze any_scope of
       Some _ \<Rightarrow> writeErr 403 ''forbidden''
     | None \<Rightarrow> (case unblob b of
         Inl _ \<Rightarrow> writeErr 400 ''invalid body''
       | Inr (act, reason) \<Rightarrow> do {
           r \<leftarrow> Freeze (co_Eng C) act i reason;
           State_Monad.return (ok_unless (case r of Inl e \<Rightarrow> Some e | Inr _ \<Rightarrow> None))
         }))"

definition apiRollback :: "console \<Rightarrow> identity option \<Rightarrow> (string \<times> bool) blob \<Rightarrow> ui_answer prog" where
  "apiRollback C who b = with_identity who (\<lambda>i.
     case unblob b of
       Inl _ \<Rightarrow> writeErr 400 ''target required''
     | Inr (ref, force) \<Rightarrow>
         if ref = [] then writeErr 400 ''target required''
         else (case ui_authorize C i PermRollback (target_scope ref) of
             Some _ \<Rightarrow> writeErr 403 ''forbidden''
           | None \<Rightarrow> do { x \<leftarrow> RollbackLast (co_Eng C) ref force; State_Monad.return (ok_unless (snd x)) }))"

definition apiSync :: "console \<Rightarrow> identity option \<Rightarrow> ui_answer prog" where
  "apiSync C who = with_identity who (\<lambda>i.
     case ui_authorize C i PermApply any_scope of
       Some _ \<Rightarrow> writeErr 403 ''forbidden''
     | None \<Rightarrow> (case co_Sync C of
         None \<Rightarrow> writeErr 501 ''sync not available''
       | Some sync \<Rightarrow> do { x \<leftarrow> sync; State_Monad.return (case x of Some e \<Rightarrow> Inl (500, e) | None \<Rightarrow> Inr UOK) }))"

datatype ui_call =
    UiPage
  | UiDashboard
  | UiTarget string
  | UiApprove "string blob"
  | UiReject "string blob"
  | UiPromote "string blob"
  | UiPause "string blob"
  | UiResume "string blob"
  | UiAbort "string blob"
  | UiFreeze "(bool \<times> string) blob"
  | UiRollback "(string \<times> bool) blob"
  | UiSync

fun ui_route :: "console \<Rightarrow> identity option \<Rightarrow> ui_call \<Rightarrow> ui_answer prog" where
  "ui_route C who UiPage = State_Monad.return (Inr UPage)"
| "ui_route C who UiDashboard = apiDashboard C"
| "ui_route C who (UiTarget ref) = apiTarget C ref"
| "ui_route C who (UiApprove b) = apiApprove C who b"
| "ui_route C who (UiReject b) = apiReject C who b"
| "ui_route C who (UiPromote b) = apiPromote C who b"
| "ui_route C who (UiPause b) = apiPause C who b"
| "ui_route C who (UiResume b) = apiResume C who b"
| "ui_route C who (UiAbort b) = apiAbort C who b"
| "ui_route C who (UiFreeze b) = apiFreeze C who b"
| "ui_route C who (UiRollback b) = apiRollback C who b"
| "ui_route C who UiSync = apiSync C who"

section \<open>Who gets in\<close>

record ui_request =
  uq_Authorization :: string
  uq_Cookie :: "string option"
  uq_Basic :: "(string \<times> string) option"

record ui_gate =
  ug_User :: string
  ug_Pass :: string
  ug_OIDC :: "authenticator option"
  ug_TokenFromString :: "string \<Rightarrow> string res"
  ug_Validate :: "string \<Rightarrow> err option"
  ug_Issue :: "string res"

text \<open>The caller and the session cookie that is set, or the refusal.\<close>

definition basicAuth :: "ui_gate \<Rightarrow> ui_request \<Rightarrow> (nat \<times> err) + (identity \<times> string option)" where
  "basicAuth G q =
     (let uiIdentity = \<lparr>id_Kind = ''human'', id_Name = ug_User G, id_Groups = []\<rparr>;
          session = (case uq_Cookie q of None \<Rightarrow> False
            | Some c \<Rightarrow> (case ug_TokenFromString G c of Inl _ \<Rightarrow> False | Inr t \<Rightarrow> ug_Validate G t = None)) in
      if ug_Pass G = [] then Inl (403, Err ''ui disabled: set ROLLOPS_UI_PASSWORD'')
      else if session then Inr (uiIdentity, None)
      else if uq_Basic q \<noteq> Some (ug_User G, ug_Pass G) then Inl (401, Err ''unauthorized'')
      else (case ug_Issue G of
          Inl _ \<Rightarrow> Inl (500, Err ''session issue failed'')
        | Inr token \<Rightarrow> Inr (uiIdentity, Some token)))"

definition bearerToken :: "string \<Rightarrow> string" where
  "bearerToken h = (if strings_HasPrefix h ''Bearer '' then strings_TrimPrefix h ''Bearer '' else [])"

definition uiAuth :: "ui_gate \<Rightarrow> ui_request \<Rightarrow> (nat \<times> err) + (identity \<times> string option)" where
  "uiAuth G q =
     (case ug_OIDC G of
        None \<Rightarrow> basicAuth G q
      | Some oidc \<Rightarrow>
          (case oidc (bearerToken (uq_Authorization q)) of
             Some i \<Rightarrow> if id_Name i \<noteq> [] then Inr (i, None) else basicAuth G q
           | None \<Rightarrow> basicAuth G q))"

definition ui_serve :: "console \<Rightarrow> ui_gate \<Rightarrow> ui_request \<Rightarrow> ui_call \<Rightarrow> ui_answer prog" where
  "ui_serve C G q call =
     (case uiAuth G q of
        Inl f \<Rightarrow> State_Monad.return (Inl f)
      | Inr (who, _) \<Rightarrow> ui_route C (Some who) call)"

text \<open>
  A request is served only as the caller of a token of the identity provider, or as the operator of the
  console: with a valid session, or with exactly the configured user and a password that is set.
\<close>

theorem ui_admits:
  assumes "uiAuth G q = Inr (who, cookie)"
  shows "(\<exists>oidc. ug_OIDC G = Some oidc \<and> oidc (bearerToken (uq_Authorization q)) = Some who \<and> id_Name who \<noteq> []) \<or>
    who = \<lparr>id_Kind = ''human'', id_Name = ug_User G, id_Groups = []\<rparr> \<and> ug_Pass G \<noteq> [] \<and>
      ((\<exists>c t. uq_Cookie q = Some c \<and> ug_TokenFromString G c = Inr t \<and> ug_Validate G t = None) \<or>
       uq_Basic q = Some (ug_User G, ug_Pass G))"
  using assms by (auto simp: uiAuth_def basicAuth_def Let_def split: option.splits sum.splits if_splits)

section \<open>The console keeps the contract\<close>

definition ui_act_needs :: "permission \<Rightarrow> string \<Rightarrow> world \<Rightarrow> demand list" where
  "ui_act_needs perm rid w =
     (case db_ListRollouts 200 (w_db w) of
        Inl _ \<Rightarrow> []
      | Inr l \<Rightarrow> (case find (\<lambda>r. r_ID r = rid) l of None \<Rightarrow> [] | Some r \<Rightarrow> [(perm, target_scope (r_TargetRef r))]))"

text \<open>\<open>None\<close> for the pages, which ask for nothing but a caller.\<close>

fun ui_needs :: "ui_call \<Rightarrow> world \<Rightarrow> demand list option" where
  "ui_needs (UiApprove b) w = Some (blob_needs (\<lambda>rid. ui_act_needs PermApprove rid w) b)"
| "ui_needs (UiReject b) w = Some (blob_needs (\<lambda>rid. ui_act_needs PermApprove rid w) b)"
| "ui_needs (UiPromote b) w = Some (blob_needs (\<lambda>rid. ui_act_needs PermPromote rid w) b)"
| "ui_needs (UiPause b) w = Some (blob_needs (\<lambda>rid. ui_act_needs PermApply rid w) b)"
| "ui_needs (UiResume b) w = Some (blob_needs (\<lambda>rid. ui_act_needs PermApply rid w) b)"
| "ui_needs (UiAbort b) w = Some (blob_needs (\<lambda>rid. ui_act_needs PermApply rid w) b)"
| "ui_needs (UiFreeze b) w = Some [(PermFreeze, any_scope)]"
| "ui_needs (UiRollback b) w = Some (blob_needs (\<lambda>v. [(PermRollback, target_scope (fst v))]) b)"
| "ui_needs UiSync w = Some [(PermApply, any_scope)]"
| "ui_needs _ w = None"

definition ui_granted :: "console \<Rightarrow> identity \<Rightarrow> demand list \<Rightarrow> bool" where
  "ui_granted C who ds = (case co_Policy C of None \<Rightarrow> False | Some p \<Rightarrow> ds \<noteq> [] \<and> list_all (\<lambda>d. Can p who (fst d) (snd d)) ds)"

definition ui_allowed :: "console \<Rightarrow> ui_gate \<Rightarrow> ui_request \<Rightarrow> ui_call \<Rightarrow> world \<Rightarrow> bool" where
  "ui_allowed C G q call w =
     (case uiAuth G q of
        Inl _ \<Rightarrow> False
      | Inr (who, _) \<Rightarrow> (case ui_needs call w of None \<Rightarrow> True | Some ds \<Rightarrow> ui_granted C who ds))"

lemma ui_authorize_None: "ui_authorize C who perm sc = None \<longleftrightarrow> ui_granted C who [(perm, sc)]"
  by (auto simp: ui_granted_def ui_authorize_def Can_def split: option.splits)

lemma ui_act_refuses:
  assumes "\<not> ui_granted C who (ui_act_needs perm rid w)"
  shows "wp (ui_act C perm oper who rid) (refused A w) w"
  using assms
  unfolding ui_act_def rolloutByID_def List_rollouts_def
  by (auto simp: wp_simps writeErr_def ui_act_needs_def ui_authorize_None split: option.splits sum.splits)

lemma actByID_refuses:
  assumes "\<not> ui_granted C who (blob_needs (\<lambda>rid. ui_act_needs perm rid w) b)"
  shows "wp (actByID C perm oper (Some who) b) (refused A w) w"
  using assms by (cases b) (auto simp: actByID_def with_identity_def writeErr_def blob_needs_def ui_act_refuses)

lemma ui_route_refuses:
  assumes "ui_needs call w = Some ds" "\<not> ui_granted C who ds"
  shows "wp (ui_route C (Some who) call) (refused A w) w"
  using assms
  by (cases call)
    (auto simp: ui_authorize_None apiApprove_def apiReject_def apiPromote_def apiPause_def apiResume_def apiAbort_def actByID_refuses
      apiFreeze_def apiRollback_def apiSync_def with_identity_def writeErr_def blob_needs_def unblob_def split: blob.splits option.splits)

lemma ui_needs_tables:
  assumes "looked A w w'"
  shows "ui_needs call w' = ui_needs call w"
proof -
  have "ui_act_needs perm rid w' = ui_act_needs perm rid w" for perm rid
    using looked_load(2) [OF assms] by (simp add: ui_act_needs_def)
  then show ?thesis by (cases call) simp_all
qed

interpretation web: guarded_surface "ui_serve C G" "ui_allowed C G" "\<lambda>_ _. []" for C G
proof
  fix q call w
  assume n: "\<not> ui_allowed C G q call w"
  show "wp (ui_serve C G q call) (refused (set []) w) w"
    unfolding ui_serve_def using n
    by (auto simp: ui_allowed_def ui_route_refuses split: sum.splits option.splits)
next
  fix w' w :: world and q call A
  assume "looked A w w'"
  then have "ui_needs call w' = ui_needs call w" by (rule ui_needs_tables)
  then show "ui_allowed C G q call w' = ui_allowed C G q call w" unfolding ui_allowed_def by (simp only:)
qed

text \<open>
  The console refuses like the other surfaces: as long as no request comes from a caller whom the
  gate admits and whom the policy grants what the request asks for, every answer is an error, and no
  table, no lock, not the freeze and nothing outside has been touched. Without a policy nobody is
  granted anything. Only the pages ask for nothing but a caller.
\<close>

theorem console_refuses:
  assumes "\<forall>(q, call) \<in> set cs. \<not> ui_allowed C G q call w" "run_state (serve_all (ui_serve C G) cs) w = (rs, w')"
  shows "list_all is_fault rs \<and> left_alone w w'"
  using web.refused_run [OF assms] by simp


definition open_gate :: ui_gate where
  "open_gate = \<lparr>ug_User = ''admin'', ug_Pass = ''pw'', ug_OIDC = None, ug_TokenFromString = Inr, ug_Validate = (\<lambda>_. None), ug_Issue = Inr ''t''\<rparr>"

definition session_request :: ui_request where
  "session_request = \<lparr>uq_Authorization = [], uq_Cookie = Some ''t'', uq_Basic = None\<rparr>"

definition bare_console :: console where
  "bare_console = \<lparr>co_Eng = demo_env, co_Policy = None, co_Sync = None\<rparr>"

theorem console_refuses_witness:
  "\<exists>rs w'. run_state (serve_all (ui_serve bare_console open_gate) [(session_request, UiFreeze (Blob (False, [])))]) demo_world = (rs, w') \<and>
     list_all is_fault rs \<and> left_alone demo_world w'"
proof -
  obtain rs w' where r: "run_state (serve_all (ui_serve bare_console open_gate) [(session_request, UiFreeze (Blob (False, [])))]) demo_world = (rs, w')"
    by fastforce
  have "\<not> ui_allowed bare_console open_gate session_request (UiFreeze (Blob (False, []))) demo_world"
    by (simp add: ui_allowed_def uiAuth_def basicAuth_def open_gate_def session_request_def bare_console_def ui_granted_def)
  then have "\<forall>(q, call) \<in> set [(session_request, UiFreeze (Blob (False, [])))]. \<not> ui_allowed bare_console open_gate q call demo_world" by simp
  from console_refuses [OF this r] r show ?thesis by blast
qed

text \<open>
  A rollout that is not among the two hundred of the list is not found by the console, whoever asks and
  whatever its phase; the other surfaces load it by its identifier.
\<close>

lemma console_misses_old:
  assumes "db_ListRollouts 200 (w_db w) = Inr l" "rid \<notin> r_ID ` set l"
  shows "wp (ui_act C perm oper who rid) (\<lambda>a w'. a = Inl (404, Err ''rollout not found'')) w"
proof -
  have "find (\<lambda>r. r_ID r = rid) l = None" using assms(2) by (auto simp: find_None_iff)
  then show ?thesis
    using assms(1) unfolding ui_act_def rolloutByID_def List_rollouts_def
    by (auto simp: wp_simps writeErr_def split: option.split)
qed

end
