(* ===== verification/Cli.thy ===== *)
theory Cli
  imports Surfaces Clients Engine_Safety
begin

text \<open>
  The command line of \<^verbatim>\<open>internal/cli/cli.go\<close> over the in-process engine: the arguments of the commands, the
  driver of \<^verbatim>\<open>apply --wait\<close>, and \<^verbatim>\<open>doctor\<close> with the calls it makes. What a command prints is left out. The readings of
  the clock in a wait are given by \<open>clk\<close>, the state of the context by \<open>done\<close>.

  \<open>wait_returns\<close>: a wait ends, and succeeds only for a rollout that is promoted or waits for an operator.
  \<open>Drive_swallows_store_error\<close>: how it differs from the daemon.
\<close>

section \<open>Driving a rollout\<close>

definition Drive :: "env \<Rightarrow> config \<Rightarrow> string \<Rightarrow> (rollout \<times> err option) prog" where
  "Drive E c rid = do {
     s \<leftarrow> Status E rid;
     (case s of
        Inl e \<Rightarrow> State_Monad.return (zero_rollout, Some e)
      | Inr r \<Rightarrow>
          if r_Phase r = PhaseDeploying then do {
            t \<leftarrow> Tick E rid c;
            State_Monad.return (case fst t of Some rl \<Rightarrow> (rl, snd t) | None \<Rightarrow> (r, snd t))
          }
          else if r_Phase r = PhaseVerifying then do {
            p \<leftarrow> priorManifest E (r_TargetRef r) (m_Checksum (r_Desired r));
            x \<leftarrow> VerifyOrRollback E rid (case p of Some m \<Rightarrow> m | None \<Rightarrow> r_Desired r) c;
            State_Monad.return (vo_Rollout (fst x), snd x)
          }
          else State_Monad.return (r, None))
   }"

abbreviation waitPoll :: duration where "waitPoll \<equiv> 10 * second"

definition waited_out :: "rollout \<Rightarrow> err" where
  "waited_out r = Err (''rollout '' @ r_ID r @ '': still '' @ phase_str (r_Phase r))"

text \<open>
  The loop, \<open>i\<close> polls in; \<open>step\<close> drives the rollout or, for a remote backend, reads it. \<open>None\<close> is not having
  returned within the fuel; \<open>Some\<close> is the error of the command, if there is one.
\<close>

fun wait_loop ::
  "(string \<Rightarrow> (rollout \<times> err option) prog) \<Rightarrow> (nat \<Rightarrow> time) \<Rightarrow> (nat \<Rightarrow> err option) \<Rightarrow> time \<Rightarrow> nat \<Rightarrow> nat \<Rightarrow> rollout \<Rightarrow> err option option prog" where
  "wait_loop step clk done deadline 0 i r = State_Monad.return None"
| "wait_loop step clk done deadline (Suc n) i r =
     (if r_Phase r = PhasePromoted then State_Monad.return (Some None)
      else if r_Phase r = PhaseRolledBack
      then State_Monad.return (Some (Some (Err (''rollout '' @ r_ID r @ '': rolled back: '' @ r_Note r))))
      else if r_Phase r = PhaseAwaitingApproval \<or> r_Phase r = PhasePaused then State_Monad.return (Some None)
      else if clk (Suc i) > deadline then State_Monad.return (Some (Some (waited_out r)))
      else (case done i of
          Some e \<Rightarrow> State_Monad.return (Some (Some e))
        | None \<Rightarrow> do {
            x \<leftarrow> step (r_ID r);
            (case x of (nxt, e) \<Rightarrow>
               (case e of
                  None \<Rightarrow> wait_loop step clk done deadline n (Suc i) nxt
                | Some x \<Rightarrow>
                    if r_Phase nxt \<noteq> PhaseRolledBack then State_Monad.return (Some (Some x))
                    else wait_loop step clk done deadline n (Suc i) (if r_Note nxt = [] then nxt\<lparr>r_Note := err_str x\<rparr> else nxt)))
          }))"

definition waitForRollout ::
  "(string \<Rightarrow> (rollout \<times> err option) prog) \<Rightarrow> (nat \<Rightarrow> time) \<Rightarrow> (nat \<Rightarrow> err option) \<Rightarrow> duration \<Rightarrow> nat \<Rightarrow> rollout \<Rightarrow> err option option prog" where
  "waitForRollout step clk done timeout fuel r = wait_loop step clk done (clk 0 + timeout) fuel 0 r"

section \<open>Arguments\<close>

text \<open>\<open>--wait\<close> and \<open>--wait-timeout\<close> in any position: whether to wait, how long, and the rest.\<close>

fun wait_flags :: "string list \<Rightarrow> bool \<Rightarrow> duration \<Rightarrow> string list \<Rightarrow> (bool \<times> duration \<times> string list) res" where
  "wait_flags [] wait timeout rest = Inr (wait, timeout, rest)"
| "wait_flags (a # args) wait timeout rest =
     (if a = ''--wait'' then wait_flags args True timeout rest
      else if a = ''--wait-timeout'' \<and> args \<noteq> [] then
        (case ParseDuration (hd args) of
           Inl e \<Rightarrow> Inl (Wrap ''apply: --wait-timeout'' e)
         | Inr d \<Rightarrow> wait_flags (tl args) True d rest)
      else if strings_HasPrefix a ''--wait-timeout='' then
        (case ParseDuration (strings_TrimPrefix a ''--wait-timeout='') of
           Inl e \<Rightarrow> Inl (Wrap ''apply: --wait-timeout'' e)
         | Inr d \<Rightarrow> wait_flags args True d rest)
      else wait_flags args wait timeout (rest @ [a]))"

definition is_force :: "string \<Rightarrow> bool" where
  "is_force a \<longleftrightarrow> a = ''--force'' \<or> a = ''-f''"

definition force_flags :: "string list \<Rightarrow> bool \<times> string list" where
  "force_flags args = (list_ex is_force args, filter (\<lambda>a. \<not> is_force a) args)"

record cli =
  cl_Eng :: env
  cl_Actor :: identity
  cl_Yaml :: yaml_loader
  cl_Read :: "string \<Rightarrow> string res"
  cl_Clock :: "nat \<Rightarrow> time"
  cl_Done :: "nat \<Rightarrow> err option"
  cl_Fuel :: nat

definition readConfigFileArg :: "cli \<Rightarrow> string list \<Rightarrow> (string \<times> string) res" where
  "readConfigFileArg A args =
     (case args of
        [] \<Rightarrow> Inl (Err ''config file path required'')
      | p # _ \<Rightarrow> (case cl_Read A p of Inl e \<Rightarrow> Inl (Wrap ''read config'' e) | Inr data \<Rightarrow> Inr (data, filepath_Dir p)))"

definition cli_wait :: "cli \<Rightarrow> env \<Rightarrow> config \<Rightarrow> duration \<Rightarrow> rollout \<Rightarrow> err option option prog" where
  "cli_wait A E c timeout r = waitForRollout (Drive E c) (cl_Clock A) (cl_Done A) timeout (cl_Fuel A) r"

text \<open>From the loaded configuration on: plan, apply, and wait for that rollout or the one in flight.\<close>

definition apply_and_wait :: "cli \<Rightarrow> env \<Rightarrow> config \<Rightarrow> string \<Rightarrow> bool \<Rightarrow> duration \<Rightarrow> err option option prog" where
  "apply_and_wait A E c root_dir wait timeout = do {
     p \<leftarrow> Plan E c;
     (case p of
        Inl e \<Rightarrow> State_Monad.return (Some (Some e))
      | Inr _ \<Rightarrow> do {
          a \<leftarrow> Apply E \<lparr>rq_Config = c, rq_Initiator = cl_Actor A, rq_Root = root_dir, rq_Planned = True,
            rq_NeedsApproval = False, rq_Risk = RiskFromConfig c []\<rparr>;
          (case a of
             (_, Some e) \<Rightarrow>
               if wait \<and> is_busy e then do {
                 f \<leftarrow> InFlight E (c_Ref c);
                 (case f of
                    Inr (Some r) \<Rightarrow> cli_wait A E c timeout r
                  | _ \<Rightarrow> State_Monad.return (Some (Some e)))
               }
               else State_Monad.return (Some (Some e))
           | (Some r, None) \<Rightarrow> if wait then cli_wait A E c timeout r else State_Monad.return (Some None)
           | (None, None) \<Rightarrow> State_Monad.return (Some (Some (Err ''engine: apply: no rollout''))))
        })
   }"

definition cli_apply :: "cli \<Rightarrow> string list \<Rightarrow> err option option prog" where
  "cli_apply A args =
     (case wait_flags args False (30 * minute) [] of
        Inl e \<Rightarrow> State_Monad.return (Some (Some e))
      | Inr (wait, timeout, rest) \<Rightarrow>
          (case readConfigFileArg A rest of
             Inl e \<Rightarrow> State_Monad.return (Some (Some e))
           | Inr (data, root_dir) \<Rightarrow>
               (case RefuseApplyRolloutSet (cl_Yaml A) data of
                  Some e \<Rightarrow> State_Monad.return (Some (Some e))
                | None \<Rightarrow>
                    (case Load (yl_Load (cl_Yaml A)) data of
                       Inl e \<Rightarrow> State_Monad.return (Some (Some e))
                     | Inr c \<Rightarrow> apply_and_wait A ((cl_Eng A)\<lparr>en_Root := root_dir\<rparr>) c root_dir wait timeout))))"

definition need_arg :: "string \<Rightarrow> string list \<Rightarrow> (string \<Rightarrow> (rollout \<times> err option) prog) \<Rightarrow> err option prog" where
  "need_arg msg args oper =
     (case args of
        [] \<Rightarrow> State_Monad.return (Some (Err msg))
      | a # _ \<Rightarrow> do { x \<leftarrow> oper a; State_Monad.return (snd x) })"

definition cli_promote :: "cli \<Rightarrow> string list \<Rightarrow> err option prog" where
  "cli_promote A args = (case force_flags args of (force, rest) \<Rightarrow>
     need_arg ''promote: rollout id required'' rest (\<lambda>rid. Promote (cl_Eng A) rid (cl_Actor A) force))"

definition cli_rollback :: "cli \<Rightarrow> string list \<Rightarrow> err option prog" where
  "cli_rollback A args = (case force_flags args of (force, rest) \<Rightarrow>
     need_arg ''rollback: target ref required'' rest (\<lambda>ref. RollbackLast (cl_Eng A) ref force))"

definition cli_approve :: "cli \<Rightarrow> string list \<Rightarrow> err option prog" where
  "cli_approve A args = need_arg ''approve: rollout id required'' args (\<lambda>rid. Approve (cl_Eng A) rid (cl_Actor A))"
definition cli_reject :: "cli \<Rightarrow> string list \<Rightarrow> err option prog" where
  "cli_reject A args = need_arg ''reject: rollout id required'' args (\<lambda>rid. Reject (cl_Eng A) rid (cl_Actor A))"
definition cli_pause :: "cli \<Rightarrow> string list \<Rightarrow> err option prog" where
  "cli_pause A args = need_arg ''pause: rollout id required'' args (\<lambda>rid. Pause (cl_Eng A) rid (cl_Actor A))"
definition cli_resume :: "cli \<Rightarrow> string list \<Rightarrow> err option prog" where
  "cli_resume A args = need_arg ''resume: rollout id required'' args (\<lambda>rid. Resume (cl_Eng A) rid (cl_Actor A))"
definition cli_abort :: "cli \<Rightarrow> string list \<Rightarrow> err option prog" where
  "cli_abort A args = need_arg ''abort: rollout id required'' args (\<lambda>rid. Abort (cl_Eng A) rid (cl_Actor A))"

definition cli_verify :: "cli \<Rightarrow> string list \<Rightarrow> err option prog" where
  "cli_verify A args =
     (case args of
        [] \<Rightarrow> State_Monad.return (Some (Err ''verify: rollout id required''))
      | rid # _ \<Rightarrow> do {
          v \<leftarrow> Verify (cl_Eng A) rid;
          State_Monad.return (case v of
              Inl e \<Rightarrow> Some e
            | Inr rep \<Rightarrow> if \<not> vr_OK rep then Some (Err (''verify: '' @ vr_Reason rep)) else None)
        })"

definition cli_freeze :: "cli \<Rightarrow> string list \<Rightarrow> bool \<Rightarrow> err option prog" where
  "cli_freeze A args turn_on = do {
     r \<leftarrow> Freeze (cl_Eng A) turn_on (cl_Actor A) (strings_Join args '' '');
     State_Monad.return (case r of Inl e \<Rightarrow> Some e | Inr _ \<Rightarrow> None)
   }"

section \<open>Doctor\<close>

definition specUsesHelm :: "(string \<times> any) list \<Rightarrow> bool" where
  "specUsesHelm spec \<longleftrightarrow> map_of spec ''helm'' \<noteq> None \<or>
     (case map_of spec ''manifestFrom'' of Some (AMap mf) \<Rightarrow> map_of mf ''helm'' \<noteq> None | _ \<Rightarrow> False)"

text \<open>
  What doctor does outside the engine: it asks the render tools for their version, probes the daemon or
  opens the database, which creates and migrates it (theory \<open>Migrate\<close>), sends a test notification and asks
  the governor. Each is a call that may answer anything. The loading of the configuration and of the
  cluster registry are given by their outcomes, \<open>None\<close> where there is nothing to load.
\<close>

datatype doctor_call =
    ToolProbe string "string list"
  | DaemonProbe string string
  | OpenStore string
  | TestNotification
  | GovernorProbe

record doctor_cfg =
  dc_DBPath :: string
  dc_DaemonAddr :: string
  dc_Token :: string
  dc_Probe :: bool
  dc_Notifier :: bool
  dc_Governor :: bool
  dc_Clusters :: "err option option"
  dc_Version :: string

type_synonym doctor_host = "doctor_call list \<Rightarrow> doctor_call \<Rightarrow> string res"
type_synonym 'a dprog = "(doctor_call list, 'a) state"

definition failed_if :: "bool \<Rightarrow> string \<Rightarrow> string list" where
  "failed_if b name = (if b then [name] else [])"

definition check_call :: "doctor_host \<Rightarrow> doctor_call \<Rightarrow> string \<Rightarrow> string list dprog" where
  "check_call H c name = do {
     r \<leftarrow> host_call H c;
     State_Monad.return (failed_if (is_err r) name)
   }"

definition probeRenderTools :: "doctor_host \<Rightarrow> (string \<times> any) list \<Rightarrow> string list dprog" where
  "probeRenderTools H spec = do {
     k \<leftarrow> check_call H (ToolProbe ''kubectl'' [''version'', ''--client'']) ''kubectl'';
     h \<leftarrow> (if specUsesHelm spec then check_call H (ToolProbe ''helm'' [''version'', ''--short'']) ''helm'' else State_Monad.return []);
     State_Monad.return (k @ h)
   }"

definition daemon_check :: "doctor_cfg \<Rightarrow> doctor_host \<Rightarrow> string list dprog" where
  "daemon_check D H =
     (if dc_DaemonAddr D \<noteq> [] then
        if \<not> dc_Probe D then State_Monad.return [''daemon'']
        else do {
          r \<leftarrow> host_call H (DaemonProbe (dc_DaemonAddr D) (dc_Token D));
          State_Monad.return (case r of
              Inl _ \<Rightarrow> [''daemon'']
            | Inr v \<Rightarrow> failed_if (v \<noteq> [] \<and> v \<noteq> dc_Version D) ''daemon'')
        }
      else check_call H (OpenStore (if dc_DBPath D = [] then ''rollops.db'' else dc_DBPath D)) ''database'')"

definition doctor :: "doctor_cfg \<Rightarrow> doctor_host \<Rightarrow> config list res option \<Rightarrow> err option dprog" where
  "doctor D H docs = do {
     tools \<leftarrow> (case docs of
         Some (Inr (c # _)) \<Rightarrow> if t_Kind (c_Target c) = ''kubernetes'' then probeRenderTools H (t_Spec (c_Target c)) else State_Monad.return []
       | _ \<Rightarrow> State_Monad.return []);
     daemon \<leftarrow> daemon_check D H;
     notified \<leftarrow> (if dc_Notifier D then check_call H TestNotification ''notify'' else State_Monad.return []);
     governed \<leftarrow> (if dc_Governor D then check_call H GovernorProbe ''governance'' else State_Monad.return []);
     let failed =
       failed_if (case docs of Some (Inl _) \<Rightarrow> True | _ \<Rightarrow> False) ''config'' @
       failed_if (case dc_Clusters D of Some (Some _) \<Rightarrow> True | _ \<Rightarrow> False) ''clusters'' @
       tools @ daemon @ notified @ governed;
     State_Monad.return (if failed \<noteq> [] then Some (Err (''doctor failed: '' @ strings_Join failed '', '')) else None)
   }"

text \<open>Doctor is not a command that only looks: without a daemon to ask it opens, and so creates or migrates, the database.\<close>

lemma run_check_call: "run_state (check_call H c name) h = (failed_if (is_err (H h c)) name, h @ [c])"
  by (simp add: check_call_def run_state_simps run_host_call)

lemma doctor_opens_the_store:
  assumes "dc_DaemonAddr D = []"
  shows "OpenStore (if dc_DBPath D = [] then ''rollops.db'' else dc_DBPath D) \<in> set (snd (run_state (doctor D H None) h))"
  using assms by (auto simp: doctor_def daemon_check_def run_state_simps run_check_call)

section \<open>Waiting\<close>

lemma clk_advances:
  assumes "clk 0 \<le> clk 1" "\<And>i. clk (Suc i) + waitPoll \<le> clk (Suc (Suc i))"
  shows "clk 0 + int i * waitPoll \<le> clk (Suc i)"
proof (induction i)
  case (Suc i)
  then show ?case using assms(2) [of i] by (simp add: algebra_simps)
qed (use assms(1) in simp)

text \<open>The world after steps on the rollouts of these ids, in this order.\<close>

definition stepped :: "(string \<Rightarrow> (rollout \<times> err option) prog) \<Rightarrow> string list \<Rightarrow> world \<Rightarrow> world" where
  "stepped step ids w = fold (\<lambda>x v. snd (run_state (step x) v)) ids w"

lemma stepped_simps [simp]:
  "stepped step [] w = w"
  "run_state (step x) w = (y, w1) \<Longrightarrow> stepped step (x # ids) w = stepped step ids w1"
  by (simp_all add: stepped_def)

lemma wait_loop_returns:
  assumes "\<And>i. clk 0 + int i * waitPoll \<le> clk (Suc i)" "nat (timeout div waitPoll) + 2 \<le> n + i" "0 < n"
  shows "\<exists>v w'. run_state (wait_loop step clk done (clk 0 + timeout) n i r) w = (Some v, w')"
  using assms(2,3)
proof (induction n arbitrary: i r w)
  case (Suc n)
  have again: "\<exists>v w'. run_state (wait_loop step clk done (clk 0 + timeout) n (Suc i) r') w1 = (Some v, w')"
    if "clk (Suc i) \<le> clk 0 + timeout" for r' w1
  proof (rule Suc.IH)
    have "int i * waitPoll \<le> timeout" using assms(1) [of i] that by linarith
    then have "int i \<le> timeout div waitPoll" by (simp add: zdiv_mono1 [of "int i * waitPoll", simplified])
    then have "i \<le> nat (timeout div waitPoll)" by linarith
    then show "0 < n" "nat (timeout div waitPoll) + 2 \<le> n + Suc i" using Suc.prems by linarith+
  qed
  obtain nxt e w1 where st: "run_state (step (r_ID r)) w = ((nxt, e), w1)" by (metis surj_pair)
  show ?case
    using again st by (auto simp: run_state_simps split: option.splits)
qed simp

text \<open>A wait succeeds only when the last thing it saw was a rollout promoted, or waiting for an operator.\<close>

lemma wait_loop_rolled_back:
  assumes "r_Phase r = PhaseRolledBack"
  shows "fst (run_state (wait_loop step clk done deadline n i r) w) \<noteq> Some None"
  using assms by (cases n) (simp_all add: run_state_simps)

definition last_seen :: "(string \<Rightarrow> (rollout \<times> err option) prog) \<Rightarrow> string list \<Rightarrow> world \<Rightarrow> rollout \<Rightarrow> rollout \<Rightarrow> bool" where
  "last_seen step ids w r r' \<longleftrightarrow>
     (if ids = [] then r' = r else fst (run_state (step (List.last ids)) (stepped step (butlast ids) w)) = (r', None))"

lemma last_seen_Cons:
  assumes "run_state (step x) w = ((nxt, None), w1)" "last_seen step ids w1 nxt r'"
  shows "last_seen step (x # ids) w r r'"
  using assms by (auto simp: last_seen_def split: if_splits)

definition good_end :: "rollout \<Rightarrow> bool" where
  "good_end r \<longleftrightarrow> r_Phase r \<in> {PhasePromoted, PhaseAwaitingApproval, PhasePaused}"

lemma wait_loop_trace:
  assumes "run_state (wait_loop step clk done deadline n i r) w = (Some v, w')"
  shows "\<exists>ids. w' = stepped step ids w \<and> (\<forall>j < length ids. clk (Suc (i + j)) \<le> deadline) \<and>
    (v = None \<longrightarrow> (\<exists>r'. last_seen step ids w r r' \<and> good_end r'))"
  using assms
proof (induction n arbitrary: i r w)
  case (Suc n)
  obtain nxt e w1 where st: "run_state (step (r_ID r)) w = ((nxt, e), w1)" by (metis surj_pair)
  from Suc.prems st consider
      (stop) "w' = w" "v = None \<longrightarrow> good_end r"
    | (failed) "w' = w1" "v \<noteq> None" "clk (Suc i) \<le> deadline"
    | (again) "run_state (wait_loop step clk done deadline n (Suc i) nxt) w1 = (Some v, w')" "e = None" "clk (Suc i) \<le> deadline"
    | (rolled) r' where "run_state (wait_loop step clk done deadline n (Suc i) r') w1 = (Some v, w')" "r_Phase r' = PhaseRolledBack"
        "clk (Suc i) \<le> deadline"
    by (cases "done i") (auto simp: run_state_simps good_end_def split: if_splits option.splits dest: sym [of "Some _"])
  then show ?case
  proof cases
    case stop
    then show ?thesis by (intro exI [of _ "[]"]) (simp add: last_seen_def)
  next
    case failed
    then show ?thesis using st by (intro exI [of _ "[r_ID r]"]) auto
  next
    case again
    from Suc.IH [OF again(1)] obtain ids where ids: "w' = stepped step ids w1"
      "\<forall>j < length ids. clk (Suc (Suc i + j)) \<le> deadline" "v = None \<longrightarrow> (\<exists>r'. last_seen step ids w1 nxt r' \<and> good_end r')" by blast
    with st again show ?thesis
      by (intro exI [of _ "r_ID r # ids"]) (auto simp: less_Suc_eq_0_disj intro: last_seen_Cons)
  next
    case rolled
    from Suc.IH [OF rolled(1)] obtain ids where ids: "w' = stepped step ids w1"
      "\<forall>j < length ids. clk (Suc (Suc i + j)) \<le> deadline" by blast
    moreover have "v \<noteq> None"
      using wait_loop_rolled_back [OF rolled(2), of step clk "done" deadline n "Suc i" w1] rolled(1) by auto
    ultimately show ?thesis using st rolled(3)
      by (intro exI [of _ "r_ID r # ids"]) (auto simp: less_Suc_eq_0_disj)
  qed
qed (simp add: run_state_simps)

lemma steps_bounded:
  assumes "\<And>i. clk 0 + int i * waitPoll \<le> clk (Suc i)" "\<forall>j < length ids. clk (Suc j) \<le> clk 0 + timeout"
  shows "length ids \<le> nat (timeout div waitPoll) + 1"
proof (cases ids)
  case (Cons x xs)
  then have "clk (Suc (length xs)) \<le> clk 0 + timeout" using assms(2) by simp
  then have "int (length xs) * waitPoll \<le> timeout" using assms(1) [of "length xs"] by linarith
  then have "int (length xs) \<le> timeout div waitPoll" by (simp add: zdiv_mono1 [of "int (length xs) * waitPoll", simplified])
  then show ?thesis using Cons by simp
qed simp

text \<open>
  C38: \<^verbatim>\<open>apply --wait\<close> returns. On a clock on which every sleep of ten seconds lasts at least that long, whatever the
  rollout does, the loop ends after at most one step for each full ten seconds of the timeout and one
  more, and begins no step once it has read a clock past the deadline; it reports success only when the
  last rollout it saw was promoted, or waits for an operator. How long a step takes is not bounded by the
  timeout: the deadline is looked at between steps only.
\<close>

theorem wait_returns:
  assumes "clk 0 \<le> clk 1" "\<And>i. clk (Suc i) + waitPoll \<le> clk (Suc (Suc i))" "nat (timeout div waitPoll) + 2 \<le> fuel"
  shows "\<exists>v ids. run_state (waitForRollout step clk done timeout fuel r) w = (Some v, stepped step ids w) \<and>
    length ids \<le> nat (timeout div waitPoll) + 1 \<and> (\<forall>j < length ids. clk (Suc j) \<le> clk 0 + timeout) \<and>
    (v = None \<longrightarrow> (\<exists>r'. last_seen step ids w r r' \<and> r_Phase r' \<in> {PhasePromoted, PhaseAwaitingApproval, PhasePaused}))"
proof -
  have adv: "\<And>i. clk 0 + int i * waitPoll \<le> clk (Suc i)" by (rule clk_advances [OF assms(1,2)])
  have "0 < fuel" "nat (timeout div waitPoll) + 2 \<le> fuel + 0" using assms(3) by simp_all
  from wait_loop_returns [OF adv this(2,1), of step "done" r w] obtain v w' where
    v: "run_state (wait_loop step clk done (clk 0 + timeout) fuel 0 r) w = (Some v, w')" by blast
  from wait_loop_trace [OF v] obtain ids where ids: "w' = stepped step ids w"
    "\<forall>j < length ids. clk (Suc j) \<le> clk 0 + timeout" "v = None \<longrightarrow> (\<exists>r'. last_seen step ids w r r' \<and> good_end r')"
    by auto
  show ?thesis
    unfolding waitForRollout_def
    using v ids steps_bounded [OF adv ids(2)] by (intro exI [of _ v] exI [of _ ids]) (auto simp: good_end_def)
qed

theorem wait_returns_witness:
  "\<exists>v ids. run_state (waitForRollout (\<lambda>_. State_Monad.return (zero_rollout, None)) (\<lambda>i. int i * waitPoll) (\<lambda>_. None)
     (30 * minute) 182 zero_rollout) demo_world = (Some v, stepped (\<lambda>_. State_Monad.return (zero_rollout, None)) ids demo_world) \<and>
   length ids \<le> 181 \<and> v \<noteq> None"
proof -
  have n: "nat (30 * minute div waitPoll) = 180" by simp
  obtain v ids where v: "run_state (waitForRollout (\<lambda>_. State_Monad.return (zero_rollout, None)) (\<lambda>i. int i * waitPoll) (\<lambda>_. None)
       (30 * minute) 182 zero_rollout) demo_world = (Some v, stepped (\<lambda>_. State_Monad.return (zero_rollout, None)) ids demo_world)"
    "length ids \<le> nat (30 * minute div waitPoll) + 1"
    "v = None \<longrightarrow> (\<exists>r'. last_seen (\<lambda>_. State_Monad.return (zero_rollout, None)) ids demo_world zero_rollout r' \<and>
       r_Phase r' \<in> {PhasePromoted, PhaseAwaitingApproval, PhasePaused})"
    using wait_returns [of "\<lambda>i. int i * waitPoll" "30 * minute" 182 "\<lambda>_. State_Monad.return (zero_rollout, None)" "\<lambda>_. None"
      zero_rollout demo_world] by (auto simp: algebra_simps)
  then show ?thesis
    unfolding n by (intro exI [of _ v] exI [of _ ids]) (auto simp: last_seen_def run_state_simps zero_rollout_def split: if_splits)
qed

text \<open>
  On a failed read of the store, \<open>Drive\<close> hands the gate the manifest that was just deployed as the one to
  roll back to; the reconciler of the daemon stops there with the error instead (\<open>finalize\<close>).
\<close>

lemma Drive_swallows_store_error:
  assumes "en_StoreErr E (w_tick w) = None" "db_LoadRollout rid (w_db w) = Inr r" "r_Phase r = PhaseVerifying"
    "en_StoreErr E (w_tick (tick1 w)) = Some e"
  shows "wp (Drive E c rid) Q w = wp (VerifyOrRollback E rid (r_Desired r) c) (\<lambda>x. Q (vo_Rollout (fst x), snd x)) (tick1 (tick1 w))"
  using assms by (simp add: Drive_def Status_def priorManifest_def priorManifestErr_def wp_simps)

end
