(* ===== verification/Cli_Run.thy ===== *)
theory Cli_Run
  imports Cli Repo_Load
begin

text \<open>
  The commands of \<^verbatim>\<open>internal/cli/cli.go\<close> that look, with what they print, and the dispatcher \<^verbatim>\<open>Run\<close>. The \<open>plugin\<close>
  commands, modelled in \<open>Plugin_Market\<close>, and \<open>doctor\<close>, modelled in \<open>Cli\<close>, do not go through the engine: here they are
  programs that may do anything, and no claim is made about them. \<open>co_Fmt\<close> prints a risk score, \<open>co_Clusters\<close> is the outcome of loading the cluster registry.

  \<open>looking_changes_nothing\<close>: which commands change the store or a target.
\<close>

record cli_out = cli +
  co_Fmt :: "real \<Rightarrow> string"
  co_Clusters :: "err option \<times> cluster list"
  co_Doctor :: "string list \<Rightarrow> err option prog"
  co_Plugin :: "string list \<Rightarrow> err option prog"
  co_Version :: string

abbreviation tab :: char where "tab \<equiv> CHR 0x09"

definition show_bool :: "bool \<Rightarrow> string" where
  "show_bool b = (if b then ''true'' else ''false'')"

section \<open>plan\<close>

definition loadDocumentsArg :: "cli_out \<Rightarrow> string list \<Rightarrow> (named_config list \<times> string) res" where
  "loadDocumentsArg A args =
     (case readConfigFileArg (cli.truncate A) args of
        Inl e \<Rightarrow> Inl e
      | Inr (data, root_dir) \<Rightarrow>
          (case co_Clusters A of
             (Some e, _) \<Rightarrow> Inl e
           | (None, clusters) \<Rightarrow> map_sum id (\<lambda>docs. (docs, root_dir)) (loadDocuments (cl_Yaml A) clusters data (hd args))))"

definition plan_lines :: "cli_out \<Rightarrow> config \<Rightarrow> plan \<Rightarrow> string list" where
  "plan_lines A c p =
     [pn_Summary p] @
     (if pn_RiskScore p > 0 \<or> pn_NeedsApproval p \<or> pn_Sensitive p \<or> pn_RecentFailures p > 0
      then [''  risk: score='' @ co_Fmt A (pn_RiskScore p) @ '' needs_approval='' @ show_bool (pn_NeedsApproval p) @
            '' sensitive='' @ show_bool (pn_Sensitive p) @ '' recent_failures='' @ itoa (pn_RecentFailures p)] @
           (if pn_RiskReason p \<noteq> [] then [''  reason: '' @ pn_RiskReason p] else [])
      else []) @
     (if pn_Rendered p \<noteq> [] then [[], ''--- rendered manifest ('' @ c_Ref c @ '') ---'', pn_Rendered p] else [])"

fun plan_each :: "cli_out \<Rightarrow> env \<Rightarrow> string list \<Rightarrow> named_config list \<Rightarrow> (string list \<times> err option) prog" where
  "plan_each A E out [] = State_Monad.return (out, None)"
| "plan_each A E out (d # ds) = do {
     p \<leftarrow> Plan E (nc_Config d);
     (case p of
        Inl e \<Rightarrow> State_Monad.return (out, Some e)
      | Inr pl \<Rightarrow> plan_each A E (out @ plan_lines A (nc_Config d) pl) ds)
   }"

definition cli_plan :: "cli_out \<Rightarrow> string list \<Rightarrow> (string list \<times> err option) prog" where
  "cli_plan A args =
     (case loadDocumentsArg A args of
        Inl e \<Rightarrow> State_Monad.return ([], Some e)
      | Inr (docs, root_dir) \<Rightarrow>
          plan_each A ((cl_Eng A)\<lparr>en_Root := root_dir\<rparr>)
            (if length docs > 1 then [''RolloutSet '' @ [CHR 0xE2, CHR 0x86, CHR 0x92] @ '' '' @ utoa (length docs) @ '' targets''] else []) docs)"

section \<open>status and fleet\<close>

definition strategy_name :: "strategy \<Rightarrow> string" where
  "strategy_name s = (case s of StrategyRolling \<Rightarrow> ''rolling'' | StrategyCanary \<Rightarrow> ''canary'' | StrategyBlueGreen \<Rightarrow> ''blue-green'')"

definition step_lines :: "rollout \<Rightarrow> string list" where
  "step_lines r =
     (if r_StepTotal r > 0
      then [''steps'' @ [tab] @ itoa (r_StepIndex r) @ ''/'' @ itoa (r_StepTotal r) @ '' ('' @ itoa (r_StepWeight r) @ ''%)''] else [])"

definition note_lines :: "rollout \<Rightarrow> rollout_record list \<Rightarrow> string list" where
  "note_lines r hist =
     (case find (\<lambda>h. rr_RolloutID h = r_ID r \<and> rr_Note h \<noteq> []) hist of
        Some h \<Rightarrow> [''note'' @ [tab] @ rr_Note h] | None \<Rightarrow> [])"

definition cli_status :: "cli_out \<Rightarrow> string list \<Rightarrow> (string list \<times> err option) prog" where
  "cli_status A args =
     (case args of
        [] \<Rightarrow> State_Monad.return ([], Some (Err ''status: rollout id required''))
      | rid # _ \<Rightarrow> do {
          s \<leftarrow> Status (cl_Eng A) rid;
          (case s of
             Inl e \<Rightarrow> State_Monad.return ([], Some e)
           | Inr r \<Rightarrow> do {
               h \<leftarrow> st_History (cl_Eng A) (r_TargetRef r);
               State_Monad.return
                 ([r_ID r @ [tab] @ phase_str (r_Phase r) @ [tab] @ r_TargetRef r @ [tab] @ strategy_name (r_Strategy r)] @ step_lines r @
                    (case h of Inl _ \<Rightarrow> [] | Inr hist \<Rightarrow> note_lines r hist), None)
             })
        })"

definition count_note :: "int \<Rightarrow> string \<Rightarrow> string" where
  "count_note n what = (if n > 0 then '' ('' @ itoa n @ '' '' @ what @ '')'' else [])"

definition fleet_lines :: "fleet_report \<Rightarrow> string list" where
  "fleet_lines rep =
     (fr_Name rep @ '': '' @ itoa (fr_Promoted rep) @ ''/'' @ itoa (fr_Total rep) @ '' promoted'' @
        count_note (fr_Active rep) ''active'' @ count_note (fr_Degraded rep) ''degraded'' @ count_note (fr_Awaiting rep) ''awaiting'') #
     map (\<lambda>m. ''  '' @ fm_Target m @ [tab] @ phase_str (fm_Phase m) @ [tab] @ fm_ID m) (fr_Members rep)"

definition cli_fleet :: "cli_out \<Rightarrow> string list \<Rightarrow> (string list \<times> err option) prog" where
  "cli_fleet A args =
     (case args of
        [] \<Rightarrow> State_Monad.return ([], Some (Err ''fleet: set name or prefix required (e.g. web or web@)''))
      | f # _ \<Rightarrow> do {
          r \<leftarrow> FleetStatus (cl_Eng A) f;
          State_Monad.return (case r of Inl e \<Rightarrow> ([], Some e) | Inr rep \<Rightarrow> (fleet_lines rep, None))
        })"

section \<open>The dispatcher\<close>

text \<open>\<open>None\<close> is a wait that has not returned within its fuel.\<close>

definition run_ended :: "err option prog \<Rightarrow> err option option prog" where
  "run_ended m = do { e \<leftarrow> m; State_Monad.return (Some e) }"

definition printed :: "(string list \<times> err option) prog \<Rightarrow> err option option prog" where
  "printed m = do { x \<leftarrow> m; State_Monad.return (Some (snd x)) }"

definition cli_Run :: "cli_out \<Rightarrow> string list \<Rightarrow> err option option prog" where
  "cli_Run A args =
     (case args of
        [] \<Rightarrow> State_Monad.return (Some None)
      | cmd # rest \<Rightarrow> (let C = cli.truncate A in
          if cmd = ''plan'' then printed (cli_plan A rest)
          else if cmd = ''apply'' then cli_apply C rest
          else if cmd = ''status'' then printed (cli_status A rest)
          else if cmd = ''fleet'' then printed (cli_fleet A rest)
          else if cmd = ''promote'' then run_ended (cli_promote C rest)
          else if cmd = ''verify'' then run_ended (cli_verify C rest)
          else if cmd = ''approve'' then run_ended (cli_approve C rest)
          else if cmd = ''reject'' then run_ended (cli_reject C rest)
          else if cmd = ''pause'' then run_ended (cli_pause C rest)
          else if cmd = ''resume'' then run_ended (cli_resume C rest)
          else if cmd = ''abort'' then run_ended (cli_abort C rest)
          else if cmd = ''rollback'' then run_ended (cli_rollback C rest)
          else if cmd = ''freeze'' then run_ended (cli_freeze C rest True)
          else if cmd = ''unfreeze'' then run_ended (cli_freeze C rest False)
          else if cmd = ''doctor'' then run_ended (co_Doctor A rest)
          else if cmd = ''plugin'' then run_ended (co_Plugin A rest)
          else if cmd \<in> {''version'', ''--version'', ''help'', ''-h'', ''--help''} then State_Monad.return (Some None)
          else State_Monad.return (Some (Some (Err (''unknown command '' @ cmd))))))"

section \<open>Which commands change something\<close>

abbreviation looking_kinds :: "ekind set" where "looking_kinds \<equiv> {KObserve, KDiff, KHealth, KSmoke, KMetric}"

definition looks :: "world \<Rightarrow> world \<Rightarrow> bool" where
  "looks w w' \<longleftrightarrow> observes w w' \<and> ext looking_kinds w w'"

interpretation lk: frame looks
proof
  fix u v w :: world
  show "looks w w" by (simp add: looks_def obf.frame_refl ext.frame_refl)
  show "looks u v \<Longrightarrow> looks v w \<Longrightarrow> looks u w"
    unfolding looks_def using obf.frame_trans ext.frame_trans by blast
qed

lemma looks_if: "keeps observes m \<Longrightarrow> keeps (ext looking_kinds) m \<Longrightarrow> keeps looks m"
  by (simp add: keeps_def looks_def)

lemma looks_Plan: "keeps looks (Plan E c)"
  by (intro looks_if observes_Plan keeps_Plan(1)) simp

lemma looks_plan_each: "keeps looks (plan_each A E out ds)"
  by (induction ds arbitrary: out) (auto intro!: lk.keeps_bind lk.keeps_return looks_Plan keeps_sum)

lemma looks_Status: "keeps looks (Status E rid)"
  unfolding Status_def by (intro looks_if observes_if_same keeps_rules)

lemma looks_History: "keeps looks (st_History E ref)"
  unfolding st_History_def by (intro looks_if observes_if_same keeps_rules)

lemma looks_Fleet: "keeps looks (FleetStatus E filt)"
  unfolding FleetStatus_def Let_def by (intro looks_if observes_if_same keeps_rules)

lemma looks_Verify: "keeps looks (Verify E rid)"
  by (intro looks_if observes_if_same keeps_rules) simp

lemma looks_plan: "keeps looks (cli_plan A args)"
  unfolding cli_plan_def by (intro keeps_sum keeps_prod lk.keeps_return looks_plan_each)

lemma looks_commands:
  "keeps looks (cli_status A args)" "keeps looks (cli_fleet A args)" "keeps looks (cli_verify C args)"
  unfolding cli_status_def cli_fleet_def cli_verify_def
  by (auto split: list.split intro!: lk.keeps_bind lk.keeps_return keeps_sum looks_Status looks_History looks_Fleet looks_Verify)

abbreviation changing_commands :: "string list" where
  "changing_commands \<equiv> [''apply'', ''promote'', ''approve'', ''reject'', ''pause'', ''resume'', ''abort'', ''rollback'', ''freeze'', ''unfreeze'']"

text \<open>
  C39: the command lines that only look. \<^verbatim>\<open>plan\<close>, \<^verbatim>\<open>status\<close>, \<^verbatim>\<open>fleet\<close>, \<^verbatim>\<open>verify\<close>, \<^verbatim>\<open>version\<close>, \<^verbatim>\<open>help\<close>, no command at all and a command that
  does not exist return and leave the store as it was but for the fingerprint a plan observed, the locks and
  the freeze as they were, and reach a target only to observe it, to compare or to probe it for health,
  with the smoke test and the metrics of a verification; no manifest is applied and no rollout is saved.
  \<^verbatim>\<open>doctor\<close> and \<^verbatim>\<open>plugin\<close> are not among them.
\<close>

theorem looking_changes_nothing:
  assumes "args = [] \<or> hd args \<notin> set (changing_commands @ [''doctor'', ''plugin''])"
    "run_state (cli_Run A args) w = (v, w')"
  shows "looks w w' \<and> v \<noteq> None"
proof -
  have "keeps looks (cli_Run A args)"
    using assms(1)
    by (cases args) (auto simp: cli_Run_def Let_def printed_def run_ended_def intro!: lk.keeps_bind lk.keeps_return looks_plan looks_commands)
  moreover have "fst (run_state (cli_Run A args) w) \<noteq> None"
    using assms(1)
    by (cases args) (auto simp: cli_Run_def Let_def printed_def run_ended_def run_state_simps split: prod.splits)
  ultimately show ?thesis using assms(2) by (simp add: keeps_def) (metis snd_conv)
qed

definition demo_cli :: cli_out where
  "demo_cli = \<lparr>cl_Eng = demo_env, cl_Actor = demo_human, cl_Yaml = demo_yaml, cl_Read = (\<lambda>_. Inl (Err ''no such file'')),
     cl_Clock = (\<lambda>i. int i * waitPoll), cl_Done = (\<lambda>_. None), cl_Fuel = 182,
     co_Fmt = (\<lambda>_. ''0.000''), co_Clusters = (None, []), co_Doctor = (\<lambda>_. State_Monad.return None), co_Plugin = (\<lambda>_. State_Monad.return None), co_Version = ''1''\<rparr>"

theorem looking_changes_nothing_witness:
  "looks demo_world (snd (run_state (cli_Run demo_cli [''verify'', ''r1'']) demo_world)) \<and>
   fst (run_state (cli_Run demo_cli [''verify'', ''r1'']) demo_world) \<noteq> None"
  using looking_changes_nothing [of "[''verify'', ''r1'']" demo_cli demo_world, OF _ prod.collapse [symmetric]] by simp

end
