(* ===== verification/Daemon.thy ===== *)
theory Daemon
  imports ServerTLS Console Clients Redact SupplyChain Git_Source
begin

text \<open>
  How the daemon is put together: the engine options of \<^verbatim>\<open>internal/boot/boot.go\<close> and the listeners, policy, MCP
  tokens and watched repositories of \<^verbatim>\<open>cmd/rollopsd/main.go\<close>. \<open>daemon_net\<close> holds the address functions of the
  standard library and the outcomes of the steps that are modelled elsewhere or are pure I/O.

  \<open>listeners_secure\<close>: no surface listens beyond the loopback interface without TLS. \<open>boot_keeps_freeze\<close>: a
  restart does not lift the freeze.
\<close>

section \<open>Engine options\<close>

definition analysisEnabled :: "string \<Rightarrow> bool" where
  "analysisEnabled v \<longleftrightarrow> strings_ToLower (strings_TrimSpace v) \<in> {''1'', ''true'', ''yes''}"

record boot_options =
  bo_Freeze :: freeze
  bo_Owner :: string
  bo_Secrets :: provider
  bo_Analysis :: bool
  bo_Gate :: "artifact_gate option"
  bo_Notifiers :: "(notifier \<times> string) list"
  bo_Governor :: "http_provider option"
  bo_Confinement :: confinement

text \<open>The stored freeze, or the error of reading it, and the secret provider are arguments.\<close>

definition Options ::
  "attest \<Rightarrow> (string \<Rightarrow> string) \<Rightarrow> freeze_state res \<Rightarrow> provider res \<Rightarrow> boot_options res" where
  "Options A getenv stored prov =
     (case stored of
        Inl e \<Rightarrow> Inl (Wrap ''boot: load freeze'' e)
      | Inr rec \<Rightarrow>
          (case prov of
             Inl e \<Rightarrow> Inl (Wrap ''boot: secrets'' e)
           | Inr sp \<Rightarrow> Inr \<lparr>bo_Freeze = (if fs_Active rec then Engage (fs_By rec) (fs_Reason rec) NewFreeze else NewFreeze),
               bo_Owner = (let i = getenv ''ROLLOPS_INSTANCE_ID'' in if i = [] then ''rollopsd'' else i),
               bo_Secrets = sp, bo_Analysis = analysisEnabled (getenv ''ROLLOPS_ANALYSIS''), bo_Gate = artifactGate A getenv,
               bo_Notifiers = notify_FromEnv getenv, bo_Governor = governance_FromEnv getenv,
               bo_Confinement = ConfinementFromEnv getenv\<rparr>))"

text \<open>A freeze that was persisted is in force after a restart, with its reason; unreadable, there is no start.\<close>

theorem boot_keeps_freeze:
  "Options A getenv stored prov = Inr opts \<Longrightarrow>
     \<exists>rec. stored = Inr rec \<and> fz_active (bo_Freeze opts) = fs_Active rec \<and> (fs_Active rec \<longrightarrow> fz_reason (bo_Freeze opts) = fs_Reason rec)"
  by (auto simp: Options_def Engage_def NewFreeze_def split: sum.splits if_splits)

section \<open>Listeners\<close>

record daemon_net =
  dn_SplitHostPort :: "string \<Rightarrow> string res"
  dn_Loopback :: "string \<Rightarrow> bool option"
  dn_Early :: "err option"
  dn_Late :: "err option"
  dn_Listen :: "string \<Rightarrow> err option"

definition isLoopbackAddr :: "daemon_net \<Rightarrow> string \<Rightarrow> bool" where
  "isLoopbackAddr N addr =
     (let host = (case dn_SplitHostPort N addr of Inl _ \<Rightarrow> addr | Inr h \<Rightarrow> h) in
      if host = [] then False else if host = ''localhost'' then True
      else (case dn_Loopback N host of None \<Rightarrow> False | Some b \<Rightarrow> b))"

definition ensureTransportSecure :: "daemon_net \<Rightarrow> string \<Rightarrow> string \<Rightarrow> 'k tls_source option \<Rightarrow> err option" where
  "ensureTransportSecure N addr surface tls =
     (if isLoopbackAddr N addr then None
      else if tls = None then Some (Err (''refusing to serve '' @ surface @ '' on non-loopback address '' @ addr @
        '' without TLS: set ROLLOPS_TLS_CERT and ROLLOPS_TLS_KEY (see docs/tls.md)''))
      else None)"

definition envOr :: "(string \<Rightarrow> string) \<Rightarrow> string \<Rightarrow> string \<Rightarrow> string" where
  "envOr getenv key dflt = (if getenv key \<noteq> [] then getenv key else dflt)"

record 'k listener =
  ln_Machine :: bool
  ln_Addr :: string
  ln_TLS :: "'k server_config option"

definition listener_tls :: "'k tls_disk \<Rightarrow> 'k tls_source option \<Rightarrow> bool \<Rightarrow> 'k server_config option res \<times> 'k tls_source option" where
  "listener_tls D tls requireCert =
     (case tls of
        None \<Rightarrow> (Inr None, None)
      | Some c \<Rightarrow> (case ServerTLS D c requireCert of (r, c') \<Rightarrow> (map_sum id Some r, Some c')))"

text \<open>A surface of the machine control plane, if an address is configured.\<close>

definition machine_listener ::
  "daemon_net \<Rightarrow> 'k tls_disk \<Rightarrow> (string \<Rightarrow> err option) \<Rightarrow> string \<Rightarrow> string \<Rightarrow> 'k tls_source option \<Rightarrow> 'k listener list res \<times> 'k tls_source option" where
  "machine_listener N D open_port surface addr tls =
     (if addr = [] then (Inr [], tls)
      else (case ensureTransportSecure N addr surface tls of
          Some e \<Rightarrow> (Inl e, tls)
        | None \<Rightarrow> (case open_port addr of
            Some e \<Rightarrow> (Inl e, tls)
          | None \<Rightarrow> (case listener_tls D tls (HasClientCA tls) of
              (Inl e, tls') \<Rightarrow> (Inl e, tls')
            | (Inr cfg, tls') \<Rightarrow> (Inr [\<lparr>ln_Machine = True, ln_Addr = addr, ln_TLS = cfg\<rparr>], tls')))))"

text \<open>
  The start, up to serving: the listeners that were opened, and the error it ended in. \<open>dn_Early\<close> stands for
  the database, the options and the policy, \<open>dn_Late\<close> for the cluster registry and the watched
  repositories.
\<close>

definition daemon_start :: "daemon_net \<Rightarrow> 'k tls_disk \<Rightarrow> (string \<Rightarrow> string) \<Rightarrow> 'k listener list \<times> err option" where
  "daemon_start N D getenv =
     (case tls_FromEnv getenv of
        Inl e \<Rightarrow> ([], Some e)
      | Inr tls \<Rightarrow>
          (case dn_Early N of
             Some e \<Rightarrow> ([], Some e)
           | None \<Rightarrow>
               (let addr = envOr getenv ''ROLLOPS_ADDR'' '':8080'' in
                case ensureTransportSecure N addr ''HTTP'' tls of
                  Some e \<Rightarrow> ([], Some e)
                | None \<Rightarrow>
                    (case listener_tls D tls False of
                       (Inl e, _) \<Rightarrow> ([], Some e)
                     | (Inr httpTLS, tls1) \<Rightarrow>
                         (case dn_Late N of
                            Some e \<Rightarrow> ([], Some e)
                          | None \<Rightarrow>
                              (case machine_listener N D (\<lambda>_. None) ''MCP'' (getenv ''ROLLOPS_MCP_ADDR'') tls1 of
                                 (Inl e, _) \<Rightarrow> ([], Some e)
                               | (Inr mcp, tls2) \<Rightarrow>
                                   (case machine_listener N D (dn_Listen N) ''gRPC'' (getenv ''ROLLOPS_GRPC_ADDR'') tls2 of
                                      (Inl e, _) \<Rightarrow> (mcp, Some e)
                                    | (Inr rpc, _) \<Rightarrow>
                                        (mcp @ rpc @ [\<lparr>ln_Machine = False, ln_Addr = addr, ln_TLS = httpTLS\<rparr>], None))))))))"

definition requireClientCertIfConfigured :: "'k tls_source option \<Rightarrow> bool \<Rightarrow> bool" where
  "requireClientCertIfConfigured tls verified \<longleftrightarrow> \<not> HasClientCA tls \<or> verified"

text \<open>What is asked of a listener.\<close>

definition secure_listener :: "daemon_net \<Rightarrow> bool \<Rightarrow> 'k listener \<Rightarrow> bool" where
  "secure_listener N clientCA l \<longleftrightarrow>
     (case ln_TLS l of
        None \<Rightarrow> isLoopbackAddr N (ln_Addr l)
      | Some c \<Rightarrow> sc_MinVersion c = VersionTLS13 \<and>
          (clientCA \<longrightarrow> sc_ClientCAs c \<noteq> [] \<and> sc_ClientAuth c = (if ln_Machine l then RequireAndVerifyClientCert else VerifyClientCertIfGiven)))"

lemma listener_tls_secure:
  assumes "listener_tls D tls rq = (Inr cfg, tls')" "ensureTransportSecure N addr surface tls = None"
    "machine \<Longrightarrow> rq = HasClientCA tls" "\<not> machine \<Longrightarrow> \<not> rq"
  shows "secure_listener N (HasClientCA tls) \<lparr>ln_Machine = machine, ln_Addr = addr, ln_TLS = cfg\<rparr>"
    "HasClientCA tls' = HasClientCA tls" "tls' = None \<longleftrightarrow> tls = None"
proof -
  have "HasClientCA tls' = HasClientCA tls \<and> (tls' = None \<longleftrightarrow> tls = None) \<and>
      secure_listener N (HasClientCA tls) \<lparr>ln_Machine = machine, ln_Addr = addr, ln_TLS = cfg\<rparr>"
  proof (cases tls)
    case None
    then show ?thesis using assms(1,2)
      by (auto simp: listener_tls_def ensureTransportSecure_def secure_listener_def split: if_splits)
  next
    case (Some c)
    then obtain sc c' where s: "ServerTLS D c rq = (Inr sc, c')" "cfg = Some sc" "tls' = Some c'"
      using assms(1) by (auto simp: listener_tls_def map_sum_def split: prod.splits sum.splits)
    obtain k where "loadCertificate D c = (Inr k, c')" using ServerTLS_loaded [OF s(1)] by blast
    from loadCertificate_cases [OF this] machine_listeners_verify [OF s(1)] show ?thesis
      using s Some assms(3,4) by (cases machine) (auto simp: secure_listener_def HasClientCA_def)
  qed
  then show "secure_listener N (HasClientCA tls) \<lparr>ln_Machine = machine, ln_Addr = addr, ln_TLS = cfg\<rparr>"
    "HasClientCA tls' = HasClientCA tls" "tls' = None \<longleftrightarrow> tls = None" by blast+
qed

lemma machine_listener_secure:
  assumes "machine_listener N D op surface addr tls = (Inr ls, tls')"
  shows "list_all (secure_listener N (HasClientCA tls)) ls \<and> HasClientCA tls' = HasClientCA tls"
proof (cases "addr = []")
  case False
  then obtain cfg where l: "ensureTransportSecure N addr surface tls = None" "listener_tls D tls (HasClientCA tls) = (Inr cfg, tls')"
      "ls = [\<lparr>ln_Machine = True, ln_Addr = addr, ln_TLS = cfg\<rparr>]"
    using assms by (auto simp: machine_listener_def split: option.splits prod.splits sum.splits)
  from listener_tls_secure [OF l(2,1), of True] l(3) show ?thesis by simp
qed (use assms in \<open>simp add: machine_listener_def\<close>)

lemma tls_FromEnv_CA: "tls_FromEnv getenv = Inr tls \<Longrightarrow> HasClientCA tls \<longleftrightarrow> getenv ''ROLLOPS_TLS_CLIENT_CA'' \<noteq> []"
  by (auto simp: tls_FromEnv_def HasClientCA_def Let_def split: if_splits)

text \<open>
  C11: Whatever is configured, a listener that the daemon opens beyond the loopback interface has TLS,
  at least 1.3; with a client CA the machine listeners require a verified client certificate and the
  shared one verifies a certificate that is presented. A start that fails on the way has opened none
  that is less.
\<close>

theorem listeners_secure:
  assumes "daemon_start N D getenv = (ls, e)"
  shows "list_all (secure_listener N (getenv ''ROLLOPS_TLS_CLIENT_CA'' \<noteq> [])) ls"
proof (cases "ls = []")
  case False
  let ?addr = "envOr getenv ''ROLLOPS_ADDR'' '':8080''"
  obtain tls httpTLS tls1 where start: "tls_FromEnv getenv = Inr tls" "ensureTransportSecure N ?addr ''HTTP'' tls = None"
      "listener_tls D tls False = (Inr httpTLS, tls1)"
    using assms False by (auto simp: daemon_start_def Let_def split: sum.splits option.splits prod.splits)
  obtain mcp tls2 where mcp: "machine_listener N D (\<lambda>_. None) ''MCP'' (getenv ''ROLLOPS_MCP_ADDR'') tls1 = (Inr mcp, tls2)"
    using assms False start by (auto simp: daemon_start_def Let_def split: sum.splits option.splits prod.splits)
  obtain rpc tls3 where rpc: "machine_listener N D (dn_Listen N) ''gRPC'' (getenv ''ROLLOPS_GRPC_ADDR'') tls2 = (rpc, tls3)" by fastforce
  have ls: "ls = mcp \<or> (\<exists>rs. rpc = Inr rs \<and> ls = mcp @ rs @ [\<lparr>ln_Machine = False, ln_Addr = ?addr, ln_TLS = httpTLS\<rparr>])"
    using assms False start mcp rpc by (auto simp: daemon_start_def Let_def split: sum.splits option.splits)
  have ca: "HasClientCA tls \<longleftrightarrow> getenv ''ROLLOPS_TLS_CLIENT_CA'' \<noteq> []" by (rule tls_FromEnv_CA [OF start(1)])
  note h = listener_tls_secure [OF start(3,2), of False]
  note m = machine_listener_secure [OF mcp]
  show ?thesis
    using ls h m machine_listener_secure [of N D "dn_Listen N" "''gRPC''" "getenv ''ROLLOPS_GRPC_ADDR''" tls2] rpc
    unfolding ca [symmetric] by auto
qed simp


definition ipv4_net :: daemon_net where
  "ipv4_net = \<lparr>dn_SplitHostPort = (\<lambda>a. if a = '':8080'' then Inr [] else Inl (Err ''missing port'')),
     dn_Loopback = (\<lambda>h. if h = ''127.0.0.1'' then Some True else None), dn_Early = None, dn_Late = None, dn_Listen = (\<lambda>_. None)\<rparr>"

definition tls_environment :: "string \<Rightarrow> string" where
  "tls_environment k =
     (if k = ''ROLLOPS_TLS_CERT'' then ''c'' else if k = ''ROLLOPS_TLS_KEY'' then ''k'' else if k = ''ROLLOPS_TLS_CLIENT_CA'' then ''ca''
      else if k = ''ROLLOPS_GRPC_ADDR'' then ''0.0.0.0'' else [])"

lemma tls_start:
  "map ln_Addr (fst (daemon_start ipv4_net (steady_disk (Inr 1) 5) tls_environment)) = [''0.0.0.0'', '':8080'']"
  "fst (daemon_start ipv4_net (steady_disk (Inr 1) 5) (\<lambda>_. [])) = []"
  by code_simp+

theorem listeners_secure_witness:
  "\<exists>ls e. daemon_start ipv4_net (steady_disk (Inr 1) 5) tls_environment = (ls, e) \<and> length ls = 2 \<and> list_all (secure_listener ipv4_net True) ls"
proof -
  obtain ls e where d: "daemon_start ipv4_net (steady_disk (Inr 1) 5) tls_environment = (ls, e)" by fastforce
  then have "length ls = 2" using arg_cong [OF tls_start(1), of length] by simp
  moreover have "tls_environment ''ROLLOPS_TLS_CLIENT_CA'' \<noteq> []" by code_simp
  ultimately show ?thesis using listeners_secure [OF d] d by simp
qed

section \<open>Policy and tokens\<close>

definition buildPolicy :: "(string \<Rightarrow> string res) \<Rightarrow> (string \<Rightarrow> policy_file option res) \<Rightarrow> (string \<Rightarrow> string) \<Rightarrow> bool \<Rightarrow> policy res" where
  "buildPolicy read decode getenv oidcOn =
     (let pf = getenv ''ROLLOPS_POLICY_FILE'' in
      case (if pf \<noteq> [] then LoadPolicyFile read decode DefaultRBACPolicy pf else (None, DefaultRBACPolicy)) of
        (Some e, _) \<Rightarrow> Inl e
      | (None, p) \<Rightarrow>
          if \<not> oidcOn then Inr p
          else (let admins = envOr getenv ''ROLLOPS_OIDC_ADMIN_GROUP'' ''rollops-admins''; agents = getenv ''ROLLOPS_OIDC_AGENT_GROUP'';
              p1 = (if admins \<noteq> [] then Bind (''group:'' @ admins) [''admin''] p else p) in
            Inr (if agents \<noteq> [] then Bind (''group:'' @ agents) [''agent''] p1 else p1)))"

definition parseMCPTokens :: "(string \<Rightarrow> (string \<times> string) list res) \<Rightarrow> string \<Rightarrow> string \<Rightarrow> (string \<times> identity) list res" where
  "parseMCPTokens decode raw source =
     (if strings_TrimSpace raw = [] then Inr []
      else (case decode raw of
          Inl e \<Rightarrow> Inl (Wrap (source @ '' is not valid JSON'') e)
        | Inr m \<Rightarrow> Inr (map (\<lambda>(t, n). (t, \<lparr>id_Kind = ''agent'', id_Name = n, id_Groups = []\<rparr>)) (filter (\<lambda>(t, n). t \<noteq> [] \<and> n \<noteq> []) m))))"

definition loadMCPTokens ::
  "(string \<Rightarrow> string res) \<Rightarrow> (string \<Rightarrow> (string \<times> string) list res) \<Rightarrow> (string \<Rightarrow> string) \<Rightarrow> (string \<times> identity) list res" where
  "loadMCPTokens read decode getenv =
     (let path = getenv ''ROLLOPS_MCP_TOKENS_FILE'' in
      if path \<noteq> [] then
        (case read path of
           Inl e \<Rightarrow> Inl (Wrap (''read ROLLOPS_MCP_TOKENS_FILE '' @ path) e)
         | Inr raw \<Rightarrow> parseMCPTokens decode raw (''ROLLOPS_MCP_TOKENS_FILE '' @ path))
      else parseMCPTokens decode (getenv ''ROLLOPS_MCP_TOKENS'') ''ROLLOPS_MCP_TOKENS'')"

text \<open>The start of MCP, and one signal to reload: what fails to load is left as it was.\<close>

definition initial_tokens :: "(string \<times> identity) list res \<Rightarrow> swappable" where
  "initial_tokens t = Replace_tokens (Some (case t of Inl _ \<Rightarrow> [] | Inr ts \<Rightarrow> ts))"

definition sighup :: "policy res \<Rightarrow> (string \<times> identity) list res \<Rightarrow> policy \<times> swappable \<Rightarrow> policy \<times> swappable" where
  "sighup fresh tokens s =
     ((case fresh of Inl _ \<Rightarrow> fst s | Inr p \<Rightarrow> ReplaceWith p (fst s)),
      (case tokens of Inl _ \<Rightarrow> snd s | Inr ts \<Rightarrow> Replace_tokens (Some ts)))"

text \<open>
  A token of MCP is never empty and always names an agent; without readable tokens every caller is
  refused at the start, and a bad file at a reload changes nobody's access.
\<close>

lemma foldl_found: "foldl (\<lambda>f (k, i). if P k then Some i else f) a xs = Some who \<Longrightarrow> a = Some who \<or> who \<in> snd ` set xs"
  by (induction xs arbitrary: a) (force split: if_splits)+

theorem mcp_tokens_name_agents:
  assumes "loadMCPTokens read decode getenv = Inr ts" "Swappable_Identify sha (initial_tokens (Inr ts)) token = Some who"
  shows "token \<noteq> [] \<and> id_Kind who = ''agent'' \<and> id_Name who \<noteq> [] \<and> id_Groups who = []"
proof -
  have "\<forall>(t, i) \<in> set ts. id_Kind i = ''agent'' \<and> id_Name i \<noteq> [] \<and> id_Groups i = []"
    using assms(1) by (auto simp: loadMCPTokens_def parseMCPTokens_def Let_def split: if_splits sum.splits)
  moreover have "token \<noteq> [] \<and> who \<in> snd ` set ts"
    using assms(2) foldl_found [of "\<lambda>k. sha token = sha k" None ts who]
    by (auto simp: Swappable_Identify_def initial_tokens_def Replace_tokens_def TokenAuth_Identify_def split: if_splits)
  ultimately show ?thesis by auto
qed

lemma no_tokens_nobody: "Swappable_Identify sha (initial_tokens (Inl e)) token = None"
  by (simp add: Swappable_Identify_def initial_tokens_def Replace_tokens_def TokenAuth_Identify_def)

lemma sighup_keeps_good:
  "sighup (Inl e) (Inl e') s = s"
  "Swappable_Identify sha (snd (sighup fresh (Inl e') s)) = Swappable_Identify sha (snd s)"
  "Authorize (fst (sighup (Inr p) t s)) who perm sc = Authorize p who perm sc"
  by (simp_all add: sighup_def ReplaceWith_def Authorize_def rolesFor_def authorize_by_iff mget_def split: sum.splits)

section \<open>Watched repositories\<close>

record watched_repo =
  wt_Name :: string
  wt_Token :: string
  wt_TokenFile :: string
  wt_DeployKeyPath :: string
  wt_AppID :: string
  wt_InstallationID :: string
  wt_KeyFile :: string

text \<open>The credentials of an entry, and its GitHub App if it has one; the key is parsed by \<open>keyErr\<close>.\<close>

definition watch_auth ::
  "(string \<Rightarrow> string res) \<Rightarrow> (string \<Rightarrow> err option) \<Rightarrow> watched_repo \<Rightarrow> (git_auth \<times> github_app option) res" where
  "watch_auth read keyErr r =
     (let name = ''watch repo '' @ wt_Name r in
      case (if wt_TokenFile r \<noteq> [] then map_sum (Wrap (name @ '': read tokenFile'')) strings_TrimSpace (read (wt_TokenFile r)) else Inr (wt_Token r)) of
        Inl e \<Rightarrow> Inl e
      | Inr token \<Rightarrow>
          if wt_AppID r = [] \<and> wt_InstallationID r = [] \<and> wt_KeyFile r = []
          then Inr (\<lparr>ga_DeployKeyPath = wt_DeployKeyPath r, ga_Token = token, ga_Dynamic = False\<rparr>, None)
          else if wt_AppID r = [] \<or> wt_InstallationID r = [] \<or> wt_KeyFile r = []
          then Inl (Err (name @ '': githubAppId, githubInstallationId, and githubAppPrivateKeyFile are required together''))
          else (case read (wt_KeyFile r) of
              Inl e \<Rightarrow> Inl (Wrap (name @ '': read githubAppPrivateKeyFile'') e)
            | Inr pem \<Rightarrow> (case NewGitHubApp (keyErr pem) (wt_AppID r) (wt_InstallationID r) None of
                Inl e \<Rightarrow> Inl (Wrap (name @ '': github app'') e)
              | Inr app \<Rightarrow> Inr (\<lparr>ga_DeployKeyPath = wt_DeployKeyPath r, ga_Token = token, ga_Dynamic = True\<rparr>, Some app))))"

definition loadWatchSpecs ::
  "(string \<Rightarrow> string res) \<Rightarrow> (string \<Rightarrow> watched_repo list res) \<Rightarrow> (string \<Rightarrow> err option) \<Rightarrow> string \<Rightarrow> (watched_repo \<times> git_auth \<times> github_app option) list res" where
  "loadWatchSpecs read decode keyErr path =
     (if path = [] then Inr []
      else (case read path of
          Inl e \<Rightarrow> Inl (Wrap ''read watch config'' e)
        | Inr data \<Rightarrow> (case decode data of
            Inl e \<Rightarrow> Inl (Wrap ''parse watch config'' e)
          | Inr raw \<Rightarrow> collect_res (\<lambda>r. map_sum id (\<lambda>a. (r, a)) (watch_auth read keyErr r)) raw)))"

text \<open>Tokens rotate exactly where an App is configured, in full; every entry of the file is watched.\<close>

lemma watch_auth_dynamic: "watch_auth read keyErr r = Inr (a, app) \<Longrightarrow> ga_Dynamic a \<longleftrightarrow> app \<noteq> None"
  by (auto simp: watch_auth_def Let_def split: sum.splits if_splits)

lemma loadWatchSpecs_all:
  assumes "loadWatchSpecs read decode keyErr path = Inr specs" "path \<noteq> []" "read path = Inr data" "decode data = Inr raw"
  shows "map fst specs = raw"
proof -
  have "map (\<lambda>r. map_sum id (\<lambda>a. (r, a)) (watch_auth read keyErr r)) raw = map Inr specs"
    using assms by (auto simp: loadWatchSpecs_def intro: collect_res_map)
  then show ?thesis
  proof (induction raw arbitrary: specs)
    case (Cons r raw)
    then show ?case by (cases specs) (auto simp: map_sum_def split: sum.splits)
  qed simp
qed

end
