(* ===== verification/Migrate.thy ===== *)
theory Migrate
  imports GoTime
begin

text \<open>
  Opening the database: \<^verbatim>\<open>Open\<close> and \<^verbatim>\<open>applyAddColumns\<close> of \<^verbatim>\<open>internal/store/sqlite/sqlite.go\<close> with the texts of
  \<^verbatim>\<open>internal/store/sqlite/migrations\<close>, and the readiness check of \<^verbatim>\<open>ready.go\<close> behind \<^verbatim>\<open>/readyz\<close>. SQLite is a parameter:
  \<open>sq_Exec\<close> runs a text on a database of any type, \<open>view\<close> is the schema of a database. The contract
  \<open>schema_engine\<close> says what SQLite documents of \<^verbatim>\<open>CREATE ... IF NOT EXISTS\<close> and \<^verbatim>\<open>ALTER TABLE ... ADD COLUMN\<close>, for the texts
  that are sent and as \<open>creates\<close> and \<open>added\<close> read them; any statement may fail. It is interpreted on \<open>ref_exec\<close>, an
  engine that does what they say.

  \<open>reopen_noop\<close>: an opened database has every column the store names, and opening it again changes nothing.
\<close>

section \<open>The texts\<close>

abbreviation nl :: char where "nl \<equiv> CHR 0x0A"

definition sql_text :: "string list \<Rightarrow> string" where
  "sql_text ls = concat (map (\<lambda>l. l @ [nl]) ls)"

definition migration0001 :: string where
  "migration0001 = sql_text
    [''-- 0001_init: runtime state for Rollops. Git holds desired state; these tables'',
     ''-- hold observed state, in-flight rollouts, schedules, and history only.'',
     [],
     ''CREATE TABLE IF NOT EXISTS rollouts ('',
     ''    id             TEXT PRIMARY KEY,'',
     ''    target_ref     TEXT NOT NULL,'',
     ''    phase          TEXT NOT NULL,'',
     ''    strategy       TEXT NOT NULL,'',
     ''    manifest       BLOB NOT NULL,          -- JSON-encoded target.Manifest'',
     ''    risk_score     REAL NOT NULL DEFAULT 0,'',
     ''    initiator_kind TEXT NOT NULL DEFAULT '' @ [CHR 0x27, CHR 0x27] @ '','',
     ''    initiator_name TEXT NOT NULL DEFAULT '' @ [CHR 0x27, CHR 0x27] @ '','',
     ''    created_at     TEXT NOT NULL,          -- RFC3339Nano'',
     ''    updated_at     TEXT NOT NULL'',
     '');'',
     ''CREATE INDEX IF NOT EXISTS idx_rollouts_target ON rollouts(target_ref);'',
     [],
     ''-- One row per target: the last observed fingerprint, for drift detection.'',
     ''CREATE TABLE IF NOT EXISTS target_state ('',
     ''    target_ref  TEXT PRIMARY KEY,'',
     ''    fingerprint TEXT NOT NULL,'',
     ''    meta        BLOB NOT NULL DEFAULT '' @ [CHR 0x27] @ ''{}'' @ [CHR 0x27] @ '',  -- JSON map (never secrets)'',
     ''    observed_at TEXT NOT NULL'',
     '');'',
     [],
     ''CREATE TABLE IF NOT EXISTS schedules ('',
     ''    id             TEXT PRIMARY KEY,'',
     ''    target_ref     TEXT NOT NULL,'',
     ''    due_at         TEXT NOT NULL,           -- RFC3339Nano'',
     ''    manifest       BLOB NOT NULL,'',
     ''    initiator_kind TEXT NOT NULL DEFAULT '' @ [CHR 0x27, CHR 0x27] @ '','',
     ''    initiator_name TEXT NOT NULL DEFAULT '' @ [CHR 0x27, CHR 0x27],
     '');'',
     ''CREATE INDEX IF NOT EXISTS idx_schedules_due ON schedules(due_at);'',
     [],
     ''-- Append-only audit/history: one row per persisted rollout transition.'',
     ''CREATE TABLE IF NOT EXISTS history ('',
     ''    seq            INTEGER PRIMARY KEY AUTOINCREMENT,'',
     ''    rollout_id     TEXT NOT NULL,'',
     ''    target_ref     TEXT NOT NULL,'',
     ''    phase          TEXT NOT NULL,'',
     ''    note           TEXT NOT NULL DEFAULT '' @ [CHR 0x27, CHR 0x27] @ '','',
     ''    initiator_kind TEXT NOT NULL DEFAULT '' @ [CHR 0x27, CHR 0x27] @ '','',
     ''    initiator_name TEXT NOT NULL DEFAULT '' @ [CHR 0x27, CHR 0x27] @ '','',
     ''    at             TEXT NOT NULL'',
     '');'',
     ''CREATE INDEX IF NOT EXISTS idx_history_target ON history(target_ref, seq DESC);'',
     [],
     ''-- Runtime leases for multi-instance coordination (target locks, reconcile'',
     ''-- leader election). Expired leases are stealable; desired state never lives'',
     ''-- here.'',
     ''CREATE TABLE IF NOT EXISTS leases ('',
     ''    key        TEXT PRIMARY KEY,'',
     ''    owner      TEXT NOT NULL,'',
     ''    expires_at TEXT NOT NULL'',
     '');'',
     ''CREATE INDEX IF NOT EXISTS idx_leases_expires ON leases(expires_at);'']"

definition migration0002 :: string where
  "migration0002 = sql_text
    [''-- Progressive step progress, persisted per health-gated step so operator'',
     ''-- surfaces can show live '' @ [CHR 0x22] @ ''canary 2/3 (50%)'' @ [CHR 0x22] @ '' state. Applied idempotently:'',
     ''-- each statement is executed separately and '' @ [CHR 0x22] @ ''duplicate column'' @ [CHR 0x22] @ '' is ignored.'',
     ''ALTER TABLE rollouts ADD COLUMN step_index INTEGER NOT NULL DEFAULT 0;'',
     ''ALTER TABLE rollouts ADD COLUMN step_total INTEGER NOT NULL DEFAULT 0;'',
     ''ALTER TABLE rollouts ADD COLUMN step_weight INTEGER NOT NULL DEFAULT 0;'']"

definition migration0003 :: string where
  "migration0003 = sql_text
    [''-- Database rollback command captured at deploy time, so a manual or agent-driven'',
     ''-- rollback can reverse the database too, not only the auto-rollback path that'',
     ''-- still holds the config. db_rollback_cmd is a JSON array of argv (empty or NULL'',
     ''-- means no hook). Applied idempotently: each statement runs separately and'',
     ''-- '' @ [CHR 0x22] @ ''duplicate column'' @ [CHR 0x22] @ '' is ignored.'',
     ''ALTER TABLE rollouts ADD COLUMN db_rollback_cmd TEXT NOT NULL DEFAULT '' @ [CHR 0x27, CHR 0x27] @ '';'',
     ''ALTER TABLE rollouts ADD COLUMN db_rollback_timeout TEXT NOT NULL DEFAULT '' @ [CHR 0x27, CHR 0x27] @ '';'']"

definition migration0004 :: string where
  "migration0004 = sql_text
    [''-- Forward migration command and backward-compatibility flag captured at deploy'',
     ''-- time, so a rollback can be gated: a release that ran a non-backwardCompatible'',
     ''-- migration with no reverse command is unsafe to roll back without force.'',
     ''-- db_migrate_cmd is a JSON array of argv (empty or NULL means no forward'',
     ''-- migration ran). Applied idempotently: each statement runs separately and'',
     ''-- '' @ [CHR 0x22] @ ''duplicate column'' @ [CHR 0x22] @ '' is ignored.'',
     ''ALTER TABLE rollouts ADD COLUMN db_migrate_cmd TEXT NOT NULL DEFAULT '' @ [CHR 0x27, CHR 0x27] @ '';'',
     ''ALTER TABLE rollouts ADD COLUMN db_backward_compatible INTEGER NOT NULL DEFAULT 0;'']"

definition migration0005 :: string where
  "migration0005 = sql_text
    [''-- Forward-migration timeout and timing captured at deploy time, so a deferred'',
     ''-- post-promote migration can run from the persisted rollout (the config is no'',
     ''-- longer in hand at promote). db_migrate_when is pre-deploy (default) or'',
     ''-- post-promote. Applied idempotently: each statement runs separately and'',
     ''-- '' @ [CHR 0x22] @ ''duplicate column'' @ [CHR 0x22] @ '' is ignored.'',
     ''ALTER TABLE rollouts ADD COLUMN db_migrate_timeout TEXT NOT NULL DEFAULT '' @ [CHR 0x27, CHR 0x27] @ '';'',
     ''ALTER TABLE rollouts ADD COLUMN db_migrate_when TEXT NOT NULL DEFAULT '' @ [CHR 0x27, CHR 0x27] @ '';'']"

definition migration0006 :: string where
  "migration0006 = sql_text
    [''-- Persist the latest transition note on the rollout row (not just in history),'',
     ''-- so Status surfaces it to API consumers (gRPC/REST/MCP) the way CLI/UI read it'',
     ''-- from history. Applied idempotently: '' @ [CHR 0x22] @ ''duplicate column'' @ [CHR 0x22] @ '' is ignored.'',
     ''ALTER TABLE rollouts ADD COLUMN note TEXT NOT NULL DEFAULT '' @ [CHR 0x27, CHR 0x27] @ '';'']"

definition migration0007 :: string where
  "migration0007 = sql_text
    [''-- Progressive-delivery descriptors captured at deploy time so a later rollback'',
     ''-- (auto, manual, or agent-driven) can reset the delivery plane '' @ [CHR 0xE2, CHR 0x80, CHR 0x94] @ '' shift traffic'',
     ''-- back to stable and disable the coupled feature flag '' @ [CHR 0xE2, CHR 0x80, CHR 0x94] @ '' without the config in'',
     ''-- hand. Each column stores the config descriptor as JSON ('' @ [CHR 0x27, CHR 0x27] @ '' / NULL means that'',
     ''-- delivery mechanism was not configured). Applied idempotently: each statement'',
     ''-- runs separately and '' @ [CHR 0x22] @ ''duplicate column'' @ [CHR 0x22] @ '' is ignored.'',
     ''ALTER TABLE rollouts ADD COLUMN delivery_traffic TEXT NOT NULL DEFAULT '' @ [CHR 0x27, CHR 0x27] @ '';'',
     ''ALTER TABLE rollouts ADD COLUMN delivery_flag TEXT NOT NULL DEFAULT '' @ [CHR 0x27, CHR 0x27] @ '';'']"

definition migration0008 :: string where
  "migration0008 = sql_text
    [''-- Metric-analysis descriptor captured at deploy time so a later manual Verify'',
     ''-- (and the Promote that follows) can run the same metric-analysis gate as the'',
     ''-- auto path, which still holds the config. Stores the config.Analysis descriptor'',
     ''-- as JSON ('' @ [CHR 0x27, CHR 0x27] @ '' / NULL means no analysis was configured). Applied idempotently:'',
     ''-- each statement runs separately and '' @ [CHR 0x22] @ ''duplicate column'' @ [CHR 0x22] @ '' is ignored.'',
     ''ALTER TABLE rollouts ADD COLUMN analysis TEXT NOT NULL DEFAULT '' @ [CHR 0x27, CHR 0x27] @ '';'']"

definition migration0009 :: string where
  "migration0009 = sql_text
    [''-- Smoke-test descriptor captured at deploy time so a later manual Verify (and'',
     ''-- the Promote that follows) can run the same smoke gate as the auto path, which'',
     ''-- still holds the config. Stores the config.SmokeTest descriptor as JSON'',
     ''-- ('' @ [CHR 0x27, CHR 0x27] @ '' / NULL means no smoke test was configured). Applied idempotently: each'',
     ''-- statement runs separately and '' @ [CHR 0x22] @ ''duplicate column'' @ [CHR 0x22] @ '' is ignored.'',
     ''ALTER TABLE rollouts ADD COLUMN smoke_test TEXT NOT NULL DEFAULT '' @ [CHR 0x27, CHR 0x27] @ '';'']"

definition migration0010 :: string where
  "migration0010 = sql_text
    [''-- 0010_freeze: persist the emergency kill-switch so a daemon restart does not'',
     ''-- silently lift it. Runtime state only '' @ [CHR 0xE2, CHR 0x80, CHR 0x94] @ '' one row, id=1.'',
     [],
     ''CREATE TABLE IF NOT EXISTS runtime_freeze ('',
     ''    id      INTEGER PRIMARY KEY CHECK (id = 1),'',
     ''    active  INTEGER NOT NULL DEFAULT 0,'',
     ''    reason  TEXT NOT NULL DEFAULT '' @ [CHR 0x27, CHR 0x27] @ '','',
     ''    by_kind TEXT NOT NULL DEFAULT '' @ [CHR 0x27, CHR 0x27] @ '','',
     ''    by_name TEXT NOT NULL DEFAULT '' @ [CHR 0x27, CHR 0x27] @ '','',
     ''    at      TEXT NOT NULL DEFAULT '' @ [CHR 0x27, CHR 0x27],
     '');'']"

definition migration0011 :: string where
  "migration0011 = sql_text
    [''-- Tick-driven canary stepper snapshot. Opaque JSON (plan + statekit snapshot +'',
     ''-- step entered-at) so a restart resumes a mid-pause bake. Empty means the'',
     ''-- rollout is not tick-driven. Applied idempotently: each statement runs'',
     ''-- separately and '' @ [CHR 0x22] @ ''duplicate column'' @ [CHR 0x22] @ '' is ignored.'',
     ''ALTER TABLE rollouts ADD COLUMN stepper_snap TEXT NOT NULL DEFAULT '' @ [CHR 0x27, CHR 0x27] @ '';'']"

definition migration0012 :: string where
  "migration0012 = sql_text
    [''-- Why auto-rollback is disabled for a rollout, decided before it deployed.'',
     ''-- '' @ [CHR 0x27, CHR 0x27] @ '' means auto-rollback may run. Set when the recorded rollback target is not'',
     ''-- what was live (the target was changed outside rollops, or the comparison'',
     ''-- could not be made), so a failed deploy is left for a human rather than'',
     ''-- '' @ [CHR 0x22] @ ''restored'' @ [CHR 0x22] @ '' to a state that was never running. Applied idempotently.'',
     ''ALTER TABLE rollouts ADD COLUMN rollback_blocked TEXT NOT NULL DEFAULT '' @ [CHR 0x27, CHR 0x27] @ '';'']"

section \<open>Statements of a migration\<close>

definition sql_line :: "string \<Rightarrow> string" where
  "sql_line line =
     (let l = strings_TrimSpace line in if l \<noteq> [] \<and> \<not> strings_HasPrefix l ''--'' then l @ [nl] else [])"

definition uncommented :: "string \<Rightarrow> string" where
  "uncommented migration = concat (map sql_line (split_on nl migration))"

definition sql_statements :: "string \<Rightarrow> string list" where
  "sql_statements migration =
     filter (\<lambda>s. s \<noteq> []) (map (\<lambda>chunk. strings_TrimSpace (strings_ReplaceAll chunk [nl] '' '')) (split_on (CHR '';'') (uncommented migration)))"

record 'd sqlite =
  sq_Open :: "err option"
  sq_Ping :: "err option"
  sq_Exec :: "string \<Rightarrow> 'd \<Rightarrow> err option \<times> 'd"

definition is_duplicate :: "err \<Rightarrow> bool" where
  "is_duplicate e = strings_Contains (err_str e) ''duplicate column''"

fun run_statements :: "(string \<Rightarrow> 'd \<Rightarrow> err option \<times> 'd) \<Rightarrow> string list \<Rightarrow> 'd \<Rightarrow> err option \<times> 'd" where
  "run_statements exec [] d = (None, d)"
| "run_statements exec (s # ss) d =
     (case exec s d of
        (None, d') \<Rightarrow> run_statements exec ss d'
      | (Some e, d') \<Rightarrow> if is_duplicate e then run_statements exec ss d' else (Some e, d'))"

definition applyAddColumns :: "'d sqlite \<Rightarrow> string \<Rightarrow> 'd \<Rightarrow> err option \<times> 'd" where
  "applyAddColumns Q migration d = run_statements (sq_Exec Q) (sql_statements migration) d"

text \<open>
  The migrations in order, each with its name in an error and its text; \<open>True\<close> marks those that run through
  \<open>applyAddColumns\<close>, statement by statement.
\<close>

definition migration_steps :: "(string \<times> string \<times> bool) list" where
  "migration_steps =
     [(''sqlite: migrate'', migration0001, False),
      (''sqlite: migrate 0002'', migration0002, True), (''sqlite: migrate 0003'', migration0003, True),
      (''sqlite: migrate 0004'', migration0004, True), (''sqlite: migrate 0005'', migration0005, True),
      (''sqlite: migrate 0006'', migration0006, True), (''sqlite: migrate 0007'', migration0007, True),
      (''sqlite: migrate 0008'', migration0008, True), (''sqlite: migrate 0009'', migration0009, True),
      (''sqlite: migrate 0010'', migration0010, False),
      (''sqlite: migrate 0011'', migration0011, True), (''sqlite: migrate 0012'', migration0012, True)]"

definition migrate_step :: "'d sqlite \<Rightarrow> string \<times> bool \<Rightarrow> 'd \<Rightarrow> err option \<times> 'd" where
  "migrate_step Q st d = (if snd st then applyAddColumns Q (fst st) d else sq_Exec Q (fst st) d)"

fun migrate_all :: "'d sqlite \<Rightarrow> (string \<times> string \<times> bool) list \<Rightarrow> 'd \<Rightarrow> err option \<times> 'd" where
  "migrate_all Q [] d = (None, d)"
| "migrate_all Q (st # sts) d =
     (case migrate_step Q (snd st) d of
        (None, d') \<Rightarrow> migrate_all Q sts d'
      | (Some e, d') \<Rightarrow> (Some (Wrap (fst st) e), d'))"

definition Open :: "'d sqlite \<Rightarrow> 'd \<Rightarrow> err option \<times> 'd" where
  "Open Q d =
     (case sq_Open Q of
        Some e \<Rightarrow> (Some (Wrap ''sqlite: open'' e), d)
      | None \<Rightarrow> (case sq_Ping Q of
          Some e \<Rightarrow> (Some (Wrap ''sqlite: ping'' e), d)
        | None \<Rightarrow> migrate_all Q migration_steps d))"

text \<open>The tables and columns named by the statements of the store: those of its \<open>INSERT\<close>s.\<close>

definition store_columns :: "(string \<times> string list) list" where
  "store_columns =
     [(''rollouts'', [''id'', ''target_ref'', ''phase'', ''strategy'', ''manifest'', ''risk_score'', ''initiator_kind'',
        ''initiator_name'', ''step_index'', ''step_total'', ''step_weight'', ''db_rollback_cmd'', ''db_rollback_timeout'',
        ''db_migrate_cmd'', ''db_backward_compatible'', ''db_migrate_timeout'', ''db_migrate_when'', ''delivery_traffic'',
        ''delivery_flag'', ''analysis'', ''smoke_test'', ''stepper_snap'', ''rollback_blocked'', ''note'', ''created_at'', ''updated_at'']),
      (''history'', [''seq'', ''rollout_id'', ''target_ref'', ''phase'', ''note'', ''initiator_kind'', ''initiator_name'', ''at'']),
      (''target_state'', [''target_ref'', ''fingerprint'', ''meta'', ''observed_at'']),
      (''schedules'', [''id'', ''target_ref'', ''due_at'', ''manifest'', ''initiator_kind'', ''initiator_name'']),
      (''runtime_freeze'', [''id'', ''active'', ''reason'', ''by_kind'', ''by_name'', ''at'']),
      (''leases'', [''key'', ''owner'', ''expires_at''])]"

section \<open>Readiness\<close>

text \<open>The answers to \<^verbatim>\<open>PRAGMA quick_check(1)\<close> and to the read of the rollouts.\<close>

definition store_Ready :: "string res \<Rightarrow> int res \<Rightarrow> err option" where
  "store_Ready check rows =
     (case check of
        Inl e \<Rightarrow> Some (Wrap ''sqlite: quick_check'' e)
      | Inr result \<Rightarrow>
          if result \<noteq> ''ok'' then Some (Err (''sqlite: quick_check: '' @ result))
          else (case rows of Inl e \<Rightarrow> Some (Wrap ''sqlite: read rollouts'' e) | Inr _ \<Rightarrow> None))"

definition readyzHandler :: "err option \<Rightarrow> int \<times> string" where
  "readyzHandler ready = (case ready of Some e \<Rightarrow> (503, ''store not ready: '' @ err_str e) | None \<Rightarrow> (200, []))"

lemma readyz_iff: "fst (readyzHandler (store_Ready c n)) = 200 \<longleftrightarrow> c = Inr ''ok'' \<and> (\<exists>k. n = Inr k)"
  by (auto simp: readyzHandler_def store_Ready_def split: sum.splits)

text \<open>A comment line is dropped whole: nothing in it, a semicolon included, reaches the database.\<close>

lemma statements_skip_comment:
  assumes "nl \<notin> set c" "strings_HasPrefix (strings_TrimSpace c) ''--''"
  shows "sql_statements (a @ nl # c @ nl # b) = sql_statements (a @ nl # b)"
  using assms by (simp add: sql_statements_def uncommented_def split_on_append split_on_whole sql_line_def)

section \<open>What the texts say\<close>

datatype ddl = CreateTable string "string list" | CreateIndex string

definition sql_words :: "string \<Rightarrow> string list" where
  "sql_words s = filter (\<lambda>w. w \<noteq> []) (split_on (CHR '' '') s)"

fun before_comment :: "string \<Rightarrow> string" where
  "before_comment (a # b # s) = (if a = CHR ''-'' \<and> b = CHR ''-'' then [] else a # before_comment (b # s))"
| "before_comment s = s"

definition ends_in :: "char \<Rightarrow> string \<Rightarrow> bool" where
  "ends_in c w = (w \<noteq> [] \<and> List.last w = c)"

text \<open>The words of a script, statement by statement: a statement ends with a word that ends in a semicolon.\<close>

fun word_groups :: "string list \<Rightarrow> string list \<Rightarrow> string list list" where
  "word_groups acc [] = (if acc = [] then [] else [rev acc])"
| "word_groups acc (w # ws) =
     (if ends_in (CHR '';'') w then rev (butlast w # acc) # word_groups [] ws else word_groups (w # acc) ws)"

text \<open>The names in a list of column definitions: the first word, and each one after a comma.\<close>

fun column_names :: "bool \<Rightarrow> string list \<Rightarrow> string list" where
  "column_names fresh [] = []"
| "column_names fresh (w # ws) = (if fresh then [w] else []) @ column_names (ends_in (CHR '','') w) ws"

definition create_of :: "string list \<Rightarrow> ddl option" where
  "create_of ws =
     (if take 5 ws = [''CREATE'', ''TABLE'', ''IF'', ''NOT'', ''EXISTS''] \<and> 7 < length ws \<and> ws ! 6 = ''(''
      then Some (CreateTable (ws ! 5) (column_names True (drop 7 ws)))
      else if take 5 ws = [''CREATE'', ''INDEX'', ''IF'', ''NOT'', ''EXISTS''] \<and> 7 < length ws \<and> ws ! 6 = ''ON''
      then Some (CreateIndex (ws ! 5))
      else None)"

text \<open>A script of \<^verbatim>\<open>CREATE TABLE\<close> and \<^verbatim>\<open>CREATE INDEX\<close>, each \<^verbatim>\<open>IF NOT EXISTS\<close>.\<close>

definition line_words :: "string \<Rightarrow> string list" where
  "line_words l = sql_words (before_comment l)"

definition creates :: "string \<Rightarrow> ddl list option" where
  "creates s = those (map create_of (word_groups [] (concat (map line_words (split_on nl s)))))"

text \<open>A single \<^verbatim>\<open>ALTER TABLE ... ADD COLUMN\<close>: the table and the column.\<close>

fun added_column :: "string list \<Rightarrow> (string \<times> string) option" where
  "added_column (a # t # tab # b # c # col # rest) =
     (if [a, t, b, c] = [''ALTER'', ''TABLE'', ''ADD'', ''COLUMN''] then Some (tab, col) else None)"
| "added_column _ = None"

definition added :: "string \<Rightarrow> (string \<times> string) option" where
  "added s = (if CHR '';'' \<in> set s then None else added_column (sql_words s))"

text \<open>The texts that reach the database.\<close>

definition sent :: "string set" where
  "sent = set (concat (map (\<lambda>(_, text, single). if single then sql_statements text else [text]) migration_steps))"

section \<open>What SQLite does with them\<close>

record schema =
  sc_Tables :: "string \<rightharpoonup> string list"
  sc_Indexes :: "string set"

definition has_column :: "schema \<Rightarrow> string \<Rightarrow> string \<Rightarrow> bool" where
  "has_column S t c \<longleftrightarrow> (\<exists>cs. sc_Tables S t = Some cs \<and> c \<in> set cs)"

fun exists_in :: "schema \<Rightarrow> ddl \<Rightarrow> bool" where
  "exists_in S (CreateTable t cs) = (sc_Tables S t \<noteq> None)"
| "exists_in S (CreateIndex i) = (i \<in> sc_Indexes S)"

definition create :: "ddl \<Rightarrow> schema \<Rightarrow> schema" where
  "create x S =
     (if exists_in S x then S
      else case x of CreateTable t cs \<Rightarrow> S\<lparr>sc_Tables := (sc_Tables S)(t \<mapsto> cs)\<rparr> | CreateIndex i \<Rightarrow> S\<lparr>sc_Indexes := insert i (sc_Indexes S)\<rparr>)"

definition tables_of :: "ddl list \<Rightarrow> (string \<times> string list) list" where
  "tables_of xs = concat (map (\<lambda>x. case x of CreateTable t cs \<Rightarrow> [(t, cs)] | CreateIndex _ \<Rightarrow> []) xs)"

text \<open>The tables of the migrations, as they are created.\<close>

definition created_tables :: "(string \<times> string list) list" where
  "created_tables = concat (map (\<lambda>(_, text, single). if single then [] else (case creates text of Some xs \<Rightarrow> tables_of xs | None \<Rightarrow> [])) migration_steps)"

text \<open>
  A database \<open>Open\<close> can be given: of these tables it has none of somebody else's, so one that exists has
  the columns it is created with. A new database is one.
\<close>

definition compatible :: "schema \<Rightarrow> bool" where
  "compatible S \<longleftrightarrow> (\<forall>t cs cs'. (t, cs) \<in> set created_tables \<longrightarrow> sc_Tables S t = Some cs' \<longrightarrow> set cs \<subseteq> set cs')"

definition schema_grows :: "schema \<Rightarrow> schema \<Rightarrow> bool" where
  "schema_grows S S' \<longleftrightarrow> (\<forall>t c. has_column S t c \<longrightarrow> has_column S' t c) \<and> dom (sc_Tables S) \<subseteq> dom (sc_Tables S') \<and>
     sc_Indexes S \<subseteq> sc_Indexes S'"

definition in_place :: "schema \<Rightarrow> string \<times> bool \<Rightarrow> bool" where
  "in_place S st \<longleftrightarrow>
     (if snd st then \<forall>s t c. s \<in> set (sql_statements (fst st)) \<longrightarrow> added s = Some (t, c) \<longrightarrow> has_column S t c
      else \<forall>xs. creates (fst st) = Some xs \<longrightarrow> list_all (exists_in S) xs)"

text \<open>No statement fails but for a duplicate column or a missing table.\<close>

definition faultless :: "(string \<Rightarrow> 'd \<Rightarrow> err option \<times> 'd) \<Rightarrow> ('d \<Rightarrow> schema) \<Rightarrow> bool" where
  "faultless exec view \<longleftrightarrow> (\<forall>s d e d'. s \<in> sent \<longrightarrow> exec s d = (Some e, d') \<longrightarrow>
     (added s = None \<longrightarrow> creates s = None) \<and> (\<forall>t c. added s = Some (t, c) \<longrightarrow> sc_Tables (view d) t \<noteq> None \<longrightarrow> is_duplicate e))"

section \<open>The statements of the migrations\<close>

lemma split_sql_text: "list_all (\<lambda>l. nl \<notin> set l) ls \<Longrightarrow> split_on nl (sql_text ls) = ls @ [[]]"
  by (induction ls) (simp_all add: sql_text_def split_on_append split_on_whole)

lemma creates_text:
  assumes "list_all (\<lambda>l. nl \<notin> set l) ls"
  shows "creates (sql_text ls) = those (map create_of (word_groups [] (concat (map line_words ls))))"
  by (simp add: creates_def split_sql_text [OF assms] line_words_def sql_words_def)

lemma sql_line_empty: "sql_line [] = []"
  by code_simp

lemma statements_text:
  assumes "list_all (\<lambda>l. nl \<notin> set l) ls"
  shows "sql_statements (sql_text ls) = filter (\<lambda>s. s \<noteq> [])
    (map (\<lambda>chunk. strings_TrimSpace (strings_ReplaceAll chunk [nl] '' '')) (split_on (CHR '';'') (concat (map sql_line ls))))"
  by (simp add: sql_statements_def uncommented_def split_sql_text [OF assms] sql_line_empty)

lemma creates_0001: "creates migration0001 = Some
  [CreateTable ''rollouts'' [''id'', ''target_ref'', ''phase'', ''strategy'', ''manifest'', ''risk_score'', ''initiator_kind'', ''initiator_name'', ''created_at'', ''updated_at''],
   CreateIndex ''idx_rollouts_target'',
   CreateTable ''target_state'' [''target_ref'', ''fingerprint'', ''meta'', ''observed_at''],
   CreateTable ''schedules'' [''id'', ''target_ref'', ''due_at'', ''manifest'', ''initiator_kind'', ''initiator_name''],
   CreateIndex ''idx_schedules_due'',
   CreateTable ''history'' [''seq'', ''rollout_id'', ''target_ref'', ''phase'', ''note'', ''initiator_kind'', ''initiator_name'', ''at''],
   CreateIndex ''idx_history_target'',
   CreateTable ''leases'' [''key'', ''owner'', ''expires_at''],
   CreateIndex ''idx_leases_expires'']"
  unfolding migration0001_def by (subst creates_text; code_simp)

lemma added_0002: "map added (sql_statements migration0002) =
  [Some (''rollouts'', ''step_index''), Some (''rollouts'', ''step_total''), Some (''rollouts'', ''step_weight'')]"
  unfolding migration0002_def by (subst statements_text; code_simp)

lemma added_0003: "map added (sql_statements migration0003) =
  [Some (''rollouts'', ''db_rollback_cmd''), Some (''rollouts'', ''db_rollback_timeout'')]"
  unfolding migration0003_def by (subst statements_text; code_simp)

lemma added_0004: "map added (sql_statements migration0004) =
  [Some (''rollouts'', ''db_migrate_cmd''), Some (''rollouts'', ''db_backward_compatible'')]"
  unfolding migration0004_def by (subst statements_text; code_simp)

lemma added_0005: "map added (sql_statements migration0005) =
  [Some (''rollouts'', ''db_migrate_timeout''), Some (''rollouts'', ''db_migrate_when'')]"
  unfolding migration0005_def by (subst statements_text; code_simp)

lemma added_0006: "map added (sql_statements migration0006) =
  [Some (''rollouts'', ''note'')]"
  unfolding migration0006_def by (subst statements_text; code_simp)

lemma added_0007: "map added (sql_statements migration0007) =
  [Some (''rollouts'', ''delivery_traffic''), Some (''rollouts'', ''delivery_flag'')]"
  unfolding migration0007_def by (subst statements_text; code_simp)

lemma added_0008: "map added (sql_statements migration0008) =
  [Some (''rollouts'', ''analysis'')]"
  unfolding migration0008_def by (subst statements_text; code_simp)

lemma added_0009: "map added (sql_statements migration0009) =
  [Some (''rollouts'', ''smoke_test'')]"
  unfolding migration0009_def by (subst statements_text; code_simp)

lemma creates_0010: "creates migration0010 = Some
  [CreateTable ''runtime_freeze'' [''id'', ''active'', ''reason'', ''by_kind'', ''by_name'', ''at'']]"
  unfolding migration0010_def by (subst creates_text; code_simp)

lemma added_0011: "map added (sql_statements migration0011) =
  [Some (''rollouts'', ''stepper_snap'')]"
  unfolding migration0011_def by (subst statements_text; code_simp)

lemma added_0012: "map added (sql_statements migration0012) =
  [Some (''rollouts'', ''rollback_blocked'')]"
  unfolding migration0012_def by (subst statements_text; code_simp)

lemmas migration_effects = creates_0001 creates_0010 added_0002 added_0003 added_0004 added_0005 added_0006 added_0007 added_0008 added_0009 added_0011 added_0012

lemma created_tables_list: "created_tables = tables_of (the (creates migration0001)) @ tables_of (the (creates migration0010))"
  by (simp add: created_tables_def migration_steps_def migration_effects)

lemma created_once: "distinct (map fst created_tables)"
  by (simp add: created_tables_list migration_effects tables_of_def)

text \<open>A step as it is marked: single columns on \<^verbatim>\<open>rollouts\<close>, or a script of tables and indexes.\<close>

definition step_ok :: "string \<times> bool \<Rightarrow> bool" where
  "step_ok st \<longleftrightarrow>
     (if snd st then (\<forall>s \<in> set (sql_statements (fst st)). s \<in> sent \<and> (\<exists>c. added s = Some (''rollouts'', c)))
      else fst st \<in> sent \<and> added (fst st) = None \<and> (\<exists>xs. creates (fst st) = Some xs \<and> set (tables_of xs) \<subseteq> set created_tables))"

lemma sent_script: "(n, text, False) \<in> set migration_steps \<Longrightarrow> text \<in> sent"
  unfolding sent_def by (auto intro!: bexI [of _ "(n, text, False)"])

lemma sent_single: "(n, text, True) \<in> set migration_steps \<Longrightarrow> s \<in> set (sql_statements text) \<Longrightarrow> s \<in> sent"
  unfolding sent_def by (auto intro!: bexI [of _ "(n, text, True)"])

lemma all_added_rollouts:
  assumes "map added ss = map (\<lambda>c. Some (''rollouts'', c)) cs"
  shows "\<forall>s \<in> set ss. \<exists>c. added s = Some (''rollouts'', c)"
  using assms by (induction ss arbitrary: cs) auto

lemma single_ok:
  assumes "(n, text, True) \<in> set migration_steps" "map added (sql_statements text) = map (\<lambda>c. Some (''rollouts'', c)) cs"
  shows "step_ok (text, True)"
  using all_added_rollouts [OF assms(2)] sent_single [OF assms(1)] by (simp add: step_ok_def)

lemma script_ok:
  assumes "(n, text, False) \<in> set migration_steps" "creates text = Some xs" "added text = None"
  shows "step_ok (text, False)"
proof -
  have "set (tables_of xs) \<subseteq> set created_tables"
    unfolding created_tables_def set_concat set_map
    by (rule Sup_upper2, rule imageI, rule imageI, rule assms(1)) (simp add: assms(2))
  with assms sent_script [OF assms(1)] show ?thesis by (simp add: step_ok_def)
qed

lemma scripts_add_nothing: "added migration0001 = None" "added migration0010 = None"
  by (simp_all add: added_def migration0001_def migration0010_def sql_text_def)

lemma steps_ok: "list_all (\<lambda>st. step_ok (snd st)) migration_steps"
proof -
  have "step_ok (migration0001, False)" by (rule script_ok [where n = "''sqlite: migrate''", OF _ creates_0001]) (simp_all add: migration_steps_def scripts_add_nothing)
  moreover have "step_ok (migration0010, False)" by (rule script_ok [where n = "''sqlite: migrate 0010''", OF _ creates_0010]) (simp_all add: migration_steps_def scripts_add_nothing)
  moreover have "step_ok (migration0002, True)"
    by (rule single_ok [where n = "''sqlite: migrate 0002''" and cs = "[''step_index'', ''step_total'', ''step_weight'']"]) (simp_all add: migration_steps_def added_0002)
  moreover have "step_ok (migration0003, True)"
    by (rule single_ok [where n = "''sqlite: migrate 0003''" and cs = "[''db_rollback_cmd'', ''db_rollback_timeout'']"]) (simp_all add: migration_steps_def added_0003)
  moreover have "step_ok (migration0004, True)"
    by (rule single_ok [where n = "''sqlite: migrate 0004''" and cs = "[''db_migrate_cmd'', ''db_backward_compatible'']"]) (simp_all add: migration_steps_def added_0004)
  moreover have "step_ok (migration0005, True)"
    by (rule single_ok [where n = "''sqlite: migrate 0005''" and cs = "[''db_migrate_timeout'', ''db_migrate_when'']"]) (simp_all add: migration_steps_def added_0005)
  moreover have "step_ok (migration0006, True)"
    by (rule single_ok [where n = "''sqlite: migrate 0006''" and cs = "[''note'']"]) (simp_all add: migration_steps_def added_0006)
  moreover have "step_ok (migration0007, True)"
    by (rule single_ok [where n = "''sqlite: migrate 0007''" and cs = "[''delivery_traffic'', ''delivery_flag'']"]) (simp_all add: migration_steps_def added_0007)
  moreover have "step_ok (migration0008, True)"
    by (rule single_ok [where n = "''sqlite: migrate 0008''" and cs = "[''analysis'']"]) (simp_all add: migration_steps_def added_0008)
  moreover have "step_ok (migration0009, True)"
    by (rule single_ok [where n = "''sqlite: migrate 0009''" and cs = "[''smoke_test'']"]) (simp_all add: migration_steps_def added_0009)
  moreover have "step_ok (migration0011, True)"
    by (rule single_ok [where n = "''sqlite: migrate 0011''" and cs = "[''stepper_snap'']"]) (simp_all add: migration_steps_def added_0011)
  moreover have "step_ok (migration0012, True)"
    by (rule single_ok [where n = "''sqlite: migrate 0012''" and cs = "[''rollback_blocked'']"]) (simp_all add: migration_steps_def added_0012)
  ultimately show ?thesis unfolding migration_steps_def by simp
qed

section \<open>Growing schemas\<close>

lemma schema_grows_refl [simp]: "schema_grows S S"
  by (simp add: schema_grows_def)

lemma schema_grows_trans: "schema_grows S T \<Longrightarrow> schema_grows T U \<Longrightarrow> schema_grows S U"
  unfolding schema_grows_def by blast

lemma schema_grows_exists: "schema_grows S T \<Longrightarrow> exists_in S x \<Longrightarrow> exists_in T x"
  by (cases x) (auto simp: schema_grows_def)

lemma schema_grows_in_place: "schema_grows S T \<Longrightarrow> in_place S st \<Longrightarrow> in_place T st"
  by (auto simp: in_place_def schema_grows_def list_all_iff intro: schema_grows_exists)

lemma schema_grows_create: "schema_grows S (create x S)"
  by (cases x) (auto simp: create_def schema_grows_def has_column_def)

lemma schema_grows_creates: "schema_grows S (fold create xs S)"
  by (induction xs arbitrary: S) (auto intro: schema_grows_trans schema_grows_create)

lemma created_exists: "exists_in (create x S) x"
  by (cases x) (auto simp: create_def)

lemma creates_exist: "list_all (exists_in (fold create xs S)) xs"
proof (induction xs arbitrary: S)
  case (Cons x xs)
  have "exists_in (fold create xs (create x S)) x" by (rule schema_grows_exists [OF schema_grows_creates created_exists])
  with Cons show ?case by simp
qed simp

lemma compatible_create:
  assumes "compatible S" "set (tables_of [x]) \<subseteq> set created_tables"
  shows "compatible (create x S)"
proof (cases x)
  case (CreateTable t cs)
  have "cs' = cs" if "(t, cs') \<in> set created_tables" for cs'
    using that assms(2) eq_key_imp_eq_value [OF created_once] by (simp add: CreateTable tables_of_def)
  with assms(1) CreateTable show ?thesis by (auto simp: compatible_def create_def)
qed (use assms in \<open>auto simp: compatible_def create_def\<close>)

lemma compatible_creates:
  assumes "compatible S" "set (tables_of xs) \<subseteq> set created_tables"
  shows "compatible (fold create xs S)"
  using assms
proof (induction xs arbitrary: S)
  case (Cons x xs)
  then have "set (tables_of [x]) \<subseteq> set created_tables" "set (tables_of xs) \<subseteq> set created_tables"
    by (simp_all add: tables_of_def)
  with Cons show ?case by (simp add: compatible_create)
qed simp

lemma tables_of_take: "set (tables_of (take k xs)) \<subseteq> set (tables_of xs)"
  by (auto simp: tables_of_def dest: in_set_takeD)

lemma compatible_added:
  assumes "compatible S" "sc_Tables S t = Some cs"
  shows "compatible (S\<lparr>sc_Tables := (sc_Tables S)(t \<mapsto> cs @ [c])\<rparr>)"
  using assms by (fastforce simp: compatible_def)

lemma schema_grows_added: "sc_Tables S t = Some cs \<Longrightarrow> schema_grows S (S\<lparr>sc_Tables := (sc_Tables S)(t \<mapsto> cs @ [c])\<rparr>)"
  by (auto simp: schema_grows_def has_column_def)

text \<open>
  A run from \<open>d\<close> to \<open>d'\<close> for the sake of \<open>I\<close>: no column is lost, \<open>I\<close> holds where it succeeds, and where \<open>I\<close>
  holds already nothing changes.
\<close>

definition moves :: "('d \<Rightarrow> schema) \<Rightarrow> (schema \<Rightarrow> bool) \<Rightarrow> 'd \<Rightarrow> bool \<Rightarrow> 'd \<Rightarrow> bool" where
  "moves view I d ok d' \<longleftrightarrow> schema_grows (view d) (view d') \<and> (compatible (view d) \<longrightarrow> compatible (view d')) \<and>
     (ok \<longrightarrow> I (view d')) \<and> (I (view d) \<longrightarrow> d' = d)"

lemma moves_then:
  assumes "moves view I d True d1" "moves view J d1 ok d'" "\<And>S T. schema_grows S T \<Longrightarrow> I S \<Longrightarrow> I T"
  shows "moves view (\<lambda>S. I S \<and> J S) d ok d'"
  using assms unfolding moves_def by (metis schema_grows_trans)

lemma moves_stop: "moves view I d ok d' \<Longrightarrow> \<not> ok \<Longrightarrow> moves view (\<lambda>S. I S \<and> J S) d ok d'"
  by (simp add: moves_def)

lemma moves_none: "moves view (\<lambda>_. True) d ok d"
  by (simp add: moves_def)

section \<open>The contract\<close>

text \<open>
  A script runs its statements in turn and may stop at any of them; where all it creates exists, it changes
  nothing. A column is added at the end of a table that does not have it. A statement that fails changes
  nothing, and fails with a duplicate column only where there is one.
\<close>

locale schema_engine =
  fixes exec :: "string \<Rightarrow> 'd \<Rightarrow> err option \<times> 'd" and view :: "'d \<Rightarrow> schema"
  assumes script_runs: "s \<in> sent \<Longrightarrow> added s = None \<Longrightarrow> creates s = Some xs \<Longrightarrow> exec s d = (r, d') \<Longrightarrow>
      \<exists>k \<le> length xs. view d' = fold create (take k xs) (view d) \<and> (r = None \<longrightarrow> k = length xs)"
    and script_again: "s \<in> sent \<Longrightarrow> added s = None \<Longrightarrow> creates s = Some xs \<Longrightarrow> list_all (exists_in (view d)) xs \<Longrightarrow> snd (exec s d) = d"
    and column_added: "s \<in> sent \<Longrightarrow> added s = Some (t, c) \<Longrightarrow> exec s d = (None, d') \<Longrightarrow>
      \<exists>cs. sc_Tables (view d) t = Some cs \<and> c \<notin> set cs \<and> view d' = (view d)\<lparr>sc_Tables := (sc_Tables (view d))(t \<mapsto> cs @ [c])\<rparr>"
    and column_refused: "s \<in> sent \<Longrightarrow> added s = Some (t, c) \<Longrightarrow> exec s d = (Some e, d') \<Longrightarrow>
      d' = d \<and> (is_duplicate e \<longrightarrow> has_column (view d) t c)"
begin

lemma statement_moves:
  assumes "s \<in> sent" "added s = Some (t, c)" "exec s d = (r, d')"
  shows "moves view (\<lambda>S. has_column S t c) d (\<forall>e. r = Some e \<longrightarrow> is_duplicate e) d'"
proof (cases r)
  case None
  from column_added [OF assms(1,2) assms(3) [unfolded None]] obtain cs where cs: "sc_Tables (view d) t = Some cs" "c \<notin> set cs"
    "view d' = (view d)\<lparr>sc_Tables := (sc_Tables (view d))(t \<mapsto> cs @ [c])\<rparr>" by blast
  then show ?thesis
    using schema_grows_added [OF cs(1), of c] compatible_added [OF _ cs(1), of c] by (auto simp: moves_def has_column_def)
next
  case (Some e)
  then show ?thesis using column_refused [OF assms(1,2), of d e d'] assms(3) by (simp add: moves_def)
qed

lemma statements_move:
  assumes "\<forall>s \<in> set ss. s \<in> sent \<and> added s \<noteq> None" "run_statements exec ss d = (r, d')"
  shows "moves view (\<lambda>S. \<forall>s t c. s \<in> set ss \<longrightarrow> added s = Some (t, c) \<longrightarrow> has_column S t c) d (r = None) d'"
  using assms
proof (induction ss arbitrary: d)
  case Nil
  then show ?case by (simp add: moves_none)
next
  case (Cons s ss)
  obtain t c where tc: "added s = Some (t, c)" and sent: "s \<in> sent" using Cons.prems(1) by auto
  obtain q d1 where q: "exec s d = (q, d1)" by fastforce
  note m = statement_moves [OF sent tc q]
  have eq: "(\<lambda>S. \<forall>s' t c. s' \<in> set (s # ss) \<longrightarrow> added s' = Some (t, c) \<longrightarrow> has_column S t c) =
      (\<lambda>S. has_column S t c \<and> (\<forall>s t c. s \<in> set ss \<longrightarrow> added s = Some (t, c) \<longrightarrow> has_column S t c))"
    using tc by (auto simp: fun_eq_iff)
  show ?case
  proof (cases "\<forall>e. q = Some e \<longrightarrow> is_duplicate e")
    case True
    then have "run_statements exec ss d1 = (r, d')" using Cons.prems(2) q by (auto split: option.splits)
    from Cons.IH [OF _ this] Cons.prems(1) show ?thesis
      unfolding eq using m True by (intro moves_then) (auto simp: schema_grows_def)
  next
    case False
    then have "r \<noteq> None" "d' = d1" using Cons.prems(2) q by (auto split: option.splits)
    with m False show ?thesis unfolding eq by (intro moves_stop) auto
  qed
qed

lemma script_moves:
  assumes "s \<in> sent" "added s = None" "creates s = Some xs" "set (tables_of xs) \<subseteq> set created_tables" "exec s d = (r, d')"
  shows "moves view (\<lambda>S. list_all (exists_in S) xs) d (r = None) d'"
proof -
  obtain k where k: "view d' = fold create (take k xs) (view d)" "r = None \<longrightarrow> k = length xs"
    using script_runs [OF assms(1-3,5)] by blast
  have "list_all (exists_in (view d)) xs \<Longrightarrow> d' = d" using script_again [OF assms(1-3), of d] assms(5) by simp
  moreover have "compatible (view d) \<Longrightarrow> compatible (view d')"
    unfolding k(1) using assms(4) tables_of_take [of k xs] by (intro compatible_creates) blast+
  ultimately show ?thesis
    using k creates_exist [of xs "view d"] schema_grows_creates [of "view d" "take k xs"] by (simp add: moves_def)
qed

lemma step_moves:
  assumes "sq_Exec Q = exec" "step_ok st" "migrate_step Q st d = (r, d')"
  shows "moves view (\<lambda>S. in_place S st) d (r = None) d'"
proof (cases "snd st")
  case True
  have "\<forall>s \<in> set (sql_statements (fst st)). s \<in> sent \<and> added s \<noteq> None" using assms(2) True by (auto simp: step_ok_def)
  from statements_move [OF this, of d r d'] assms show ?thesis
    using True by (simp add: in_place_def migrate_step_def applyAddColumns_def)
next
  case False
  then obtain xs where "fst st \<in> sent" "added (fst st) = None" "creates (fst st) = Some xs" "set (tables_of xs) \<subseteq> set created_tables"
    using assms(2) by (auto simp: step_ok_def)
  from script_moves [OF this, of d r d'] this(3) assms show ?thesis
    using False by (simp add: in_place_def migrate_step_def)
qed

lemma migrate_moves:
  assumes "sq_Exec Q = exec" "list_all (\<lambda>st. step_ok (snd st)) sts" "migrate_all Q sts d = (r, d')"
  shows "moves view (\<lambda>S. list_all (\<lambda>st. in_place S (snd st)) sts) d (r = None) d'"
  using assms(2,3)
proof (induction sts arbitrary: d)
  case Nil
  then show ?case by (simp add: moves_none)
next
  case (Cons st sts)
  obtain q d1 where q: "migrate_step Q (snd st) d = (q, d1)" by fastforce
  have m: "moves view (\<lambda>S. in_place S (snd st)) d (q = None) d1"
    using step_moves [OF assms(1) _ q] Cons.prems(1) by simp
  show ?case
  proof (cases q)
    case None
    then have "migrate_all Q sts d1 = (r, d')" using Cons.prems(2) q by simp
    from Cons.IH [OF _ this] Cons.prems(1) show ?thesis
      using m None by (simp, intro moves_then) (auto intro: schema_grows_in_place)
  next
    case (Some e)
    then have "r \<noteq> None" "d' = d1" using Cons.prems(2) q by auto
    with m Some show ?thesis by (simp, intro moves_stop) auto
  qed
qed

lemma statements_succeed:
  assumes "faultless exec view" "\<forall>s \<in> set ss. s \<in> sent \<and> (\<exists>c. added s = Some (''rollouts'', c))" "''rollouts'' \<in> dom (sc_Tables (view d))"
  shows "fst (run_statements exec ss d) = None"
  using assms(2,3)
proof (induction ss arbitrary: d)
  case (Cons s ss)
  then obtain c where s: "s \<in> sent" "added s = Some (''rollouts'', c)" by auto
  obtain q d1 where q: "exec s d = (q, d1)" by fastforce
  have "schema_grows (view d) (view d1)" using statement_moves [OF s q] by (simp add: moves_def)
  with Cons.prems(2) have "''rollouts'' \<in> dom (sc_Tables (view d1))" by (auto simp: schema_grows_def)
  from Cons.IH [OF _ this] Cons.prems(1) have i: "fst (run_statements exec ss d1) = None" by simp
  have "is_duplicate e" if "q = Some e" for e
  proof -
    have "exec s d = (Some e, d1)" "sc_Tables (view d) ''rollouts'' \<noteq> None" using q that Cons.prems(2) by auto
    then show ?thesis using assms(1) s unfolding faultless_def by blast
  qed
  with i q show ?case by (auto split: option.splits)
qed simp

lemma migrate_succeeds:
  assumes "sq_Exec Q = exec" "faultless exec view" "list_all (\<lambda>st. step_ok (snd st)) sts"
    "''rollouts'' \<in> dom (sc_Tables (view d)) \<or> sts = [] \<or> \<not> snd (snd (hd sts)) \<and>
       (\<exists>xs. creates (fst (snd (hd sts))) = Some xs \<and> ''rollouts'' \<in> fst ` set (tables_of xs))"
  shows "fst (migrate_all Q sts d) = None"
  using assms(3,4)
proof (induction sts arbitrary: d)
  case (Cons st sts)
  obtain n sql single where st: "st = (n, sql, single)" by (cases st)
  obtain q d1 where q: "migrate_step Q (sql, single) d = (q, d1)" by fastforce
  have m: "moves view (\<lambda>S. in_place S (sql, single)) d (q = None) d1"
    using step_moves [OF assms(1) _ q] Cons.prems(1) st by simp
  have "q = None"
  proof (cases single)
    case True
    then have "''rollouts'' \<in> dom (sc_Tables (view d))" using Cons.prems(2) st by simp
    from statements_succeed [OF assms(2) _ this, of "sql_statements sql"] show ?thesis
      using Cons.prems(1) True st q assms(1) by (simp add: step_ok_def migrate_step_def applyAddColumns_def)
  next
    case False
    then have "sql \<in> sent" "added sql = None" "creates sql \<noteq> None" "exec sql d = (q, d1)"
      using Cons.prems(1) st q assms(1) by (auto simp: step_ok_def migrate_step_def)
    then show ?thesis using assms(2) unfolding faultless_def by (cases q) auto
  qed
  moreover have "''rollouts'' \<in> dom (sc_Tables (view d1))"
  proof (cases "''rollouts'' \<in> dom (sc_Tables (view d))")
    case True
    then show ?thesis using m by (auto simp: moves_def schema_grows_def)
  next
    case False
    then have "\<not> single \<and> (\<exists>xs. creates sql = Some xs \<and> ''rollouts'' \<in> fst ` set (tables_of xs))"
      using Cons.prems(2) st by simp
    then obtain xs cs where xs: "creates sql = Some xs" "(''rollouts'', cs) \<in> set (tables_of xs)" "\<not> single" by fastforce
    have "CreateTable ''rollouts'' cs \<in> set xs" using xs(2) by (auto simp: tables_of_def split: ddl.splits)
    then show ?thesis using m \<open>q = None\<close> xs by (auto simp: moves_def in_place_def list_all_iff)
  qed
  ultimately show ?case using Cons.IH [of d1] Cons.prems(1) q st by simp
qed simp

end

section \<open>The columns of the store\<close>

definition created_columns :: "(string \<times> string) list" where
  "created_columns = concat (map (\<lambda>(t, cs). map (Pair t) cs) created_tables)"

definition step_columns :: "(string \<times> string) list" where
  "step_columns = List.map_filter id (concat (map (\<lambda>(_, sql, single). if single then map added (sql_statements sql) else []) migration_steps))"

lemma created_columns_there:
  assumes "compatible S" "list_all (\<lambda>st. in_place S (snd st)) migration_steps" "(t, c) \<in> set created_columns"
  shows "has_column S t c"
proof -
  obtain cs where cs: "(t, cs) \<in> set created_tables" "c \<in> set cs" using assms(3) by (auto simp: created_columns_def)
  then obtain n sql xs where st: "(n, sql, False) \<in> set migration_steps" "creates sql = Some xs" "(t, cs) \<in> set (tables_of xs)"
    by (auto simp: created_tables_def split: if_splits option.splits dest: sym [of "Some _"])
  then have "CreateTable t cs \<in> set xs" by (auto simp: tables_of_def split: ddl.splits)
  moreover have "in_place S (snd (n, sql, False))" using assms(2) st(1) unfolding list_all_iff by blast
  ultimately have "sc_Tables S t \<noteq> None" using st(2) by (auto simp: list_all_iff in_place_def)
  with assms(1) cs show ?thesis by (fastforce simp: compatible_def has_column_def)
qed

lemma step_columns_there:
  assumes "list_all (\<lambda>st. in_place S (snd st)) migration_steps" "(t, c) \<in> set step_columns"
  shows "has_column S t c"
proof -
  obtain n sql s where "(n, sql, True) \<in> set migration_steps" "s \<in> set (sql_statements sql)" "added s = Some (t, c)"
    using assms(2) by (auto simp: step_columns_def List.map_filter_def split: if_splits dest!: sym [of "Some _"])
  with assms(1) show ?thesis by (fastforce simp: list_all_iff in_place_def)
qed

lemma columns_named: "list_all (\<lambda>(t, cs). list_all (\<lambda>c. (t, c) \<in> set created_columns \<union> set step_columns) cs) store_columns"
  unfolding created_columns_def step_columns_def created_tables_list migration_effects tables_of_def migration_steps_def store_columns_def
  by (simp add: migration_effects List.map_filter_def)

lemma store_columns_there:
  assumes "compatible S" "list_all (\<lambda>st. in_place S (snd st)) migration_steps"
  shows "\<forall>(t, cs) \<in> set store_columns. \<forall>c \<in> set cs. has_column S t c"
  using columns_named created_columns_there [OF assms] step_columns_there [OF assms(2)] by (fastforce simp: list_all_iff)

text \<open>
  C40: whatever an \<open>Open\<close> does, also one that fails half way, no table, column or index is lost, and the database
  stays one that \<open>Open\<close> can be given. One that succeeds has every column the store's statements name, and
  opening the database again changes nothing. Where no statement fails but for a duplicate column, opening
  succeeds, the first time and again.
\<close>

theorem reopen_noop:
  assumes "schema_engine (sq_Exec Q) view" "compatible (view d)" "Open Q d = (r, d')"
  shows "schema_grows (view d) (view d') \<and> compatible (view d') \<and>
    (r = None \<longrightarrow> (\<forall>(t, cs) \<in> set store_columns. \<forall>c \<in> set cs. has_column (view d') t c) \<and> snd (Open Q d') = d') \<and>
    (faultless (sq_Exec Q) view \<and> sq_Open Q = None \<and> sq_Ping Q = None \<longrightarrow> r = None \<and> Open Q d' = (None, d'))"
proof -
  note moved = schema_engine.migrate_moves [OF assms(1) refl steps_ok]
  have opened: "schema_grows (view e) (view e') \<and> (compatible (view e) \<longrightarrow> compatible (view e')) \<and>
      (q = None \<longrightarrow> list_all (\<lambda>st. in_place (view e') (snd st)) migration_steps) \<and>
      (list_all (\<lambda>st. in_place (view e) (snd st)) migration_steps \<longrightarrow> e' = e)" if "Open Q e = (q, e')" for e q e'
    using that moved [of e q e'] by (auto simp: Open_def moves_def split: option.splits)
  have ok: "fst (Open Q e) = None" if "faultless (sq_Exec Q) view" "sq_Open Q = None" "sq_Ping Q = None" for e
    using that schema_engine.migrate_succeeds [OF assms(1) refl that(1) steps_ok, of e]
    by (simp add: Open_def migration_steps_def creates_0001 tables_of_def)
  have "list_all (\<lambda>st. in_place (view d') (snd st)) migration_steps" "snd (Open Q d') = d'" if "r = None"
    using opened [OF assms(3)] opened [of d' "fst (Open Q d')" "snd (Open Q d')"] that by auto
  with opened [OF assms(3)] assms(2,3) store_columns_there [of "view d'"] ok [of d] ok [of d'] show ?thesis
    by (auto simp: prod_eq_iff)
qed

section \<open>An engine\<close>

definition ref_exec :: "string \<Rightarrow> schema \<Rightarrow> err option \<times> schema" where
  "ref_exec s S =
     (case added s of
        Some (t, c) \<Rightarrow> (case sc_Tables S t of
            None \<Rightarrow> (Some (Err ''no such table''), S)
          | Some cs \<Rightarrow>
              if c \<in> set cs then (Some (Err (''duplicate column name: '' @ c)), S)
              else (None, S\<lparr>sc_Tables := (sc_Tables S)(t \<mapsto> cs @ [c])\<rparr>))
      | None \<Rightarrow> (case creates s of
            Some xs \<Rightarrow> (None, fold create xs S)
          | None \<Rightarrow> (Some (Err ''syntax error''), S)))"

lemma fold_create_exists: "list_all (exists_in S) xs \<Longrightarrow> fold create xs S = S"
  by (induction xs) (simp_all add: create_def)

lemma duplicate_errors:
  "is_duplicate (Err (''duplicate column name: '' @ c))" "\<not> is_duplicate (Err ''no such table'')" "\<not> is_duplicate (Err ''syntax error'')"
  by (simp add: is_duplicate_def strings_Contains_iff, code_simp, code_simp)

interpretation ddl: schema_engine ref_exec "\<lambda>S. S"
proof
  show "\<exists>k \<le> length xs. d' = fold create (take k xs) d \<and> (r = None \<longrightarrow> k = length xs)"
    if "added s = None" "creates s = Some xs" "ref_exec s d = (r, d')" for s xs d r d'
    using that by (intro exI [of _ "length xs"]) (simp add: ref_exec_def)
  show "snd (ref_exec s d) = d" if "added s = None" "creates s = Some xs" "list_all (exists_in d) xs" for s xs d
    using that by (simp add: ref_exec_def fold_create_exists)
  show "\<exists>cs. sc_Tables d t = Some cs \<and> c \<notin> set cs \<and> d' = d\<lparr>sc_Tables := (sc_Tables d)(t \<mapsto> cs @ [c])\<rparr>"
    if "added s = Some (t, c)" "ref_exec s d = (None, d')" for s t c d d'
    using that by (auto simp: ref_exec_def split: option.splits if_splits)
  show "d' = d \<and> (is_duplicate e \<longrightarrow> has_column d t c)"
    if "added s = Some (t, c)" "ref_exec s d = (Some e, d')" for s t c d e d'
    using that by (auto simp: ref_exec_def has_column_def duplicate_errors [simplified] split: option.splits if_splits)
qed

lemma ref_faultless: "faultless ref_exec (\<lambda>S. S)"
  by (auto simp: faultless_def ref_exec_def duplicate_errors [simplified] split: option.splits if_splits)

abbreviation ref_sqlite :: "schema sqlite" where
  "ref_sqlite \<equiv> \<lparr>sq_Open = None, sq_Ping = None, sq_Exec = ref_exec\<rparr>"

abbreviation empty_schema :: schema where "empty_schema \<equiv> \<lparr>sc_Tables = Map.empty, sc_Indexes = {}\<rparr>"

lemma compatible_empty: "compatible empty_schema"
  by (simp add: compatible_def)

theorem reopen_noop_witness:
  "fst (Open ref_sqlite empty_schema) = None \<and>
   has_column (snd (Open ref_sqlite empty_schema)) ''rollouts'' ''rollback_blocked'' \<and>
   Open ref_sqlite (snd (Open ref_sqlite empty_schema)) = (None, snd (Open ref_sqlite empty_schema))"
  using reopen_noop [of ref_sqlite "\<lambda>S. S", simplified, OF ddl.schema_engine_axioms compatible_empty prod.collapse [symmetric]] ref_faultless
  by (auto simp: store_columns_def)

end
