(* ===== verification/Daemon_Http.thy ===== *)
theory Daemon_Http
  imports Daemon Migrate GitRemote
begin

text \<open>
  What the shared HTTP listener of \<^verbatim>\<open>cmd/rollopsd/main.go\<close> serves: the probes (\<^verbatim>\<open>internal/procgroup/pids.go\<close>), the
  authenticator of the API with its optional identity provider, and the console and the API behind their
  guards. The webhook on the same listener is \<open>WebhookHandler\<close>; the hint it wakes the watcher with is below.

  \<open>livez_iff\<close>: when the liveness probe fails. \<open>http_identity\<close>: who can be a caller. \<open>shared_listener_refuses\<close>: the guards
  of the listener compose.
\<close>

section \<open>Liveness\<close>

record pids_stats =
  ps_Current :: int
  ps_Max :: int

abbreviation DefaultHeadroom :: int where "DefaultHeadroom \<equiv> 64"

definition atoi_res :: "string \<Rightarrow> string \<Rightarrow> int res" where
  "atoi_res what s = (case strconv_Atoi s of Some n \<Rightarrow> Inr n | None \<Rightarrow> Inl (Wrap what (Err (''strconv.Atoi: parsing '' @ s))))"

definition parseMax :: "string \<Rightarrow> int res" where
  "parseMax raw = (let s = strings_TrimSpace raw in if s = ''max'' then Inr 0 else atoi_res ''pids.max'' s)"

definition readPair :: "(string \<Rightarrow> string res) \<Rightarrow> string \<Rightarrow> (int \<times> int) res" where
  "readPair read dir =
     (case read (filepath_Join dir ''pids.current'') of
        Inl e \<Rightarrow> Inl e
      | Inr curRaw \<Rightarrow>
          (case read (filepath_Join dir ''pids.max'') of
             Inl e \<Rightarrow> Inl e
           | Inr maxRaw \<Rightarrow>
               (case atoi_res ''pids.current'' (strings_TrimSpace curRaw) of
                  Inl e \<Rightarrow> Inl e
                | Inr cur \<Rightarrow> map_sum id (\<lambda>mx. (cur, mx)) (parseMax maxRaw))))"

definition ReadPIDs :: "(string \<Rightarrow> string res) \<Rightarrow> string \<Rightarrow> pids_stats res" where
  "ReadPIDs read cgroupRoot =
     (case readPair read cgroupRoot of
        Inr (cur, mx) \<Rightarrow> Inr \<lparr>ps_Current = cur, ps_Max = mx\<rparr>
      | Inl _ \<Rightarrow> map_sum id (\<lambda>(cur, mx). \<lparr>ps_Current = cur, ps_Max = mx\<rparr>) (readPair read (filepath_Join cgroupRoot ''pids'')))"

definition effectiveHeadroom :: "int \<Rightarrow> int" where
  "effectiveHeadroom h = (if h \<le> 0 then DefaultHeadroom else h)"

definition UnderPressure :: "pids_stats \<Rightarrow> int \<Rightarrow> bool" where
  "UnderPressure s headroom =
     (if ps_Max s \<le> 0 then False
      else (let headroom = (if headroom \<le> 0 then DefaultHeadroom else headroom) in ps_Current s \<ge> ps_Max s - headroom))"

definition LivezStatus :: "(string \<Rightarrow> string res) \<Rightarrow> string \<Rightarrow> int \<Rightarrow> int \<times> string" where
  "LivezStatus read cgroupRoot headroom =
     (case ReadPIDs read cgroupRoot of
        Inl _ \<Rightarrow> (200, ''ok'')
      | Inr s \<Rightarrow>
          if UnderPressure s headroom
          then (503, ''pids pressure: '' @ itoa (ps_Current s) @ ''/'' @ itoa (ps_Max s) @ '' (headroom '' @ itoa (effectiveHeadroom headroom) @ '')'' @ [nl])
          else (200, ''ok''))"

text \<open>
  On a unified hierarchy whose files say \<open>cur\<close> and \<open>mx\<close>, in decimal with a newline as the kernel writes them, the
  probe fails exactly when fewer than the headroom of process slots, or just as many, are left.
\<close>

definition kernel_number :: "int \<Rightarrow> string" where
  "kernel_number n = itoa n @ [nl]"

lemma digit_no_space: "is_digit c \<Longrightarrow> \<not> is_space c"
  by (auto simp: is_digit_def is_space_def)

lemma TrimSpace_number: "0 \<le> n \<Longrightarrow> strings_TrimSpace (kernel_number n) = itoa n"
proof -
  assume "0 \<le> n"
  then have i: "itoa n = utoa (nat n)" by (simp add: itoa_def)
  obtain a as where a: "utoa (nat n) = a # as" "\<not> is_space a"
    using utoa_digits [of "nat n"] digit_no_space by (cases "utoa (nat n)") auto
  have "list_all is_digit (rev (utoa (nat n)))" "rev (utoa (nat n)) \<noteq> []" using utoa_digits [of "nat n"] by (simp_all add: list_all_iff)
  then obtain b bs where b: "rev (utoa (nat n)) = b # bs" "\<not> is_space b"
    using digit_no_space by (cases "rev (utoa (nat n))") auto
  have "dropWhile is_space (utoa (nat n) @ [nl]) = utoa (nat n) @ [nl]" using a by simp
  moreover have "dropWhile is_space (nl # rev (utoa (nat n))) = rev (utoa (nat n))" using b by (simp add: is_space_def)
  ultimately show ?thesis by (simp add: kernel_number_def strings_TrimSpace_def trim_by_def i)
qed

lemma readPair_kernel:
  assumes "read (filepath_Join dir ''pids.current'') = Inr (kernel_number cur)" "read (filepath_Join dir ''pids.max'') = Inr (kernel_number mx)"
    and "0 \<le> cur" "cur < 2 ^ 63" "0 \<le> mx" "mx < 2 ^ 63"
  shows "readPair read dir = Inr (cur, mx)"
proof -
  have "itoa mx \<noteq> ''max''" using Atoi_itoa [of mx] assms(5,6) by (auto simp: strconv_Atoi_def is_digit_def less_eq_char_def Let_def)
  then show ?thesis
    using assms Atoi_itoa [of cur] Atoi_itoa [of mx]
    by (simp add: readPair_def parseMax_def atoi_res_def TrimSpace_number Let_def)
qed

theorem livez_iff:
  assumes "read (filepath_Join cgroup ''pids.current'') = Inr (kernel_number cur)" "read (filepath_Join cgroup ''pids.max'') = Inr (kernel_number mx)"
    and "0 \<le> cur" "cur < 2 ^ 63" "0 < mx" "mx < 2 ^ 63"
  shows "fst (LivezStatus read cgroup DefaultHeadroom) = (if mx \<le> cur + DefaultHeadroom then 503 else 200)"
  using readPair_kernel [OF assms(1-4)] assms(5,6) by (simp add: LivezStatus_def ReadPIDs_def UnderPressure_def)

text \<open>The probe passes when neither layout of the controller can be read.\<close>

lemma livez_open: "(\<And>p. \<exists>e. read p = Inl e) \<Longrightarrow> fst (LivezStatus read cgroup h) = 200"
proof -
  assume r: "\<And>p. \<exists>e. read p = Inl e"
  have "\<exists>e. readPair read d = Inl e" for d using r [of "filepath_Join d ''pids.current''"] by (auto simp: readPair_def)
  then obtain e1 e2 where "readPair read cgroup = Inl e1" "readPair read (filepath_Join cgroup ''pids'') = Inl e2" by blast
  then show ?thesis by (simp add: LivezStatus_def ReadPIDs_def)
qed

section \<open>Callers of the API\<close>

definition DiscoverJWKSURL :: "(string \<Rightarrow> http_answer) \<Rightarrow> (string \<Rightarrow> string res) \<Rightarrow> string \<Rightarrow> string res" where
  "DiscoverJWKSURL get decode issuer =
     (case get (issuer @ ''/.well-known/openid-configuration'') of
        HttpErr e \<Rightarrow> Inl (Wrap ''oidc: discovery'' e)
      | HttpStatus n body \<Rightarrow>
          if n \<noteq> 200 then Inl (Err (''oidc: discovery status '' @ itoa n))
          else (case (case body of Inl e \<Rightarrow> Inl e | Inr b \<Rightarrow> decode (take (2 ^ 20) b)) of
              Inl e \<Rightarrow> Inl (Wrap ''oidc: parse discovery'' e)
            | Inr uri \<Rightarrow> if uri = [] then Inl (Err ''oidc: discovery document has no jwks_uri'') else Inr uri))"

text \<open>\<open>keys\<close> is the key source \<^verbatim>\<open>NewJWKS\<close> gives for a URL.\<close>

definition buildOIDCAuth :: "(string \<Rightarrow> string res) \<Rightarrow> (string \<Rightarrow> string \<Rightarrow> pubkey res) \<Rightarrow> (string \<Rightarrow> string) \<Rightarrow> oidc_config option" where
  "buildOIDCAuth discover keys getenv =
     (let issuer = getenv ''ROLLOPS_OIDC_ISSUER''; audience = getenv ''ROLLOPS_OIDC_AUDIENCE'' in
      if issuer = [] \<or> audience = [] then None
      else (let configured = getenv ''ROLLOPS_OIDC_JWKS_URL'';
          jwksURL = (if configured = [] \<and> getenv ''ROLLOPS_OIDC_DISCOVER'' \<noteq> []
            then (case discover issuer of Inr u \<Rightarrow> u | Inl _ \<Rightarrow> configured) else configured);
          secret = getenv ''ROLLOPS_OIDC_HS256_SECRET'' in
        if jwksURL \<noteq> [] then Some \<lparr>oi_Issuer = issuer, oi_Audience = audience, oi_HMACSecret = [], oi_Keys = Some (keys jwksURL)\<rparr>
        else if secret \<noteq> [] then Some \<lparr>oi_Issuer = issuer, oi_Audience = audience, oi_HMACSecret = secret, oi_Keys = None\<rparr>
        else None))"

definition admin_tokens :: "(string \<Rightarrow> string) \<Rightarrow> (string \<times> identity) list" where
  "admin_tokens getenv =
     (let t = getenv ''ROLLOPS_ADMIN_TOKEN'' in
      if t \<noteq> [] then [(t, \<lparr>id_Kind = ''human'', id_Name = ''admin'', id_Groups = []\<rparr>)] else [])"

definition http_auth :: "crypto \<Rightarrow> (string \<Rightarrow> string) \<Rightarrow> (string \<Rightarrow> string) \<Rightarrow> oidc_config option \<Rightarrow> int \<Rightarrow> authenticator" where
  "http_auth K sha256 getenv oidc unixNow =
     (let static_auth = TokenAuth_Identify sha256 (admin_tokens getenv) in
      case oidc of None \<Rightarrow> static_auth | Some cfg \<Rightarrow> ChainAuth_Identify [static_auth, OIDC_Identify K cfg unixNow])"

text \<open>
  A caller of the API presented the configured admin token, up to a collision of the digest, or a token
  that the configured identity provider vouches for, which has an issuer, an audience and exactly one kind of
  key material. Never anonymous: an empty token names nobody.
\<close>

theorem http_identity:
  assumes "http_auth K sha256 getenv (buildOIDCAuth discover keys getenv) t token = Some who"
  shows "(token \<noteq> [] \<and> getenv ''ROLLOPS_ADMIN_TOKEN'' \<noteq> [] \<and> sha256 token = sha256 (getenv ''ROLLOPS_ADMIN_TOKEN'') \<and>
      id_Kind who = ''human'' \<and> id_Name who = ''admin'') \<or>
    (\<exists>cfg. buildOIDCAuth discover keys getenv = Some cfg \<and> OIDC_Identify K cfg t token = Some who \<and>
       oi_Issuer cfg \<noteq> [] \<and> oi_Audience cfg \<noteq> [] \<and> ((oi_Keys cfg = None) \<noteq> (oi_HMACSecret cfg = [])))"
proof -
  have cfg: "oi_Issuer cfg \<noteq> []" "oi_Audience cfg \<noteq> []" "(oi_Keys cfg = None) \<noteq> (oi_HMACSecret cfg = [])"
    if "buildOIDCAuth discover keys getenv = Some cfg" for cfg
    using that by (auto simp: buildOIDCAuth_def Let_def split: if_splits sum.splits)
  have adm: "token \<noteq> [] \<and> getenv ''ROLLOPS_ADMIN_TOKEN'' \<noteq> [] \<and> sha256 token = sha256 (getenv ''ROLLOPS_ADMIN_TOKEN'') \<and>
      id_Kind who = ''human'' \<and> id_Name who = ''admin''"
    if "TokenAuth_Identify sha256 (admin_tokens getenv) token = Some who"
    using that by (auto simp: TokenAuth_Identify_def admin_tokens_def Let_def split: if_splits)
  show ?thesis
  proof (cases "TokenAuth_Identify sha256 (admin_tokens getenv) token = Some who")
    case False
    then obtain c where c: "buildOIDCAuth discover keys getenv = Some c" "OIDC_Identify K c t token = Some who"
      using assms by (simp add: http_auth_def Let_def split: option.splits)
    then show ?thesis using cfg [OF c(1)] by blast
  qed (use adm in blast)
qed

text \<open>
  A discovery that fails once, at the start, leaves the daemon with the shared secret instead of the provider's
  keys for as long as it runs, or without the provider altogether.
\<close>

lemma failed_discovery_falls_back:
  assumes "getenv ''ROLLOPS_OIDC_ISSUER'' \<noteq> []" "getenv ''ROLLOPS_OIDC_AUDIENCE'' \<noteq> []" "getenv ''ROLLOPS_OIDC_JWKS_URL'' = []"
    and "discover (getenv ''ROLLOPS_OIDC_ISSUER'') = Inl e" "getenv ''ROLLOPS_OIDC_HS256_SECRET'' \<noteq> []"
  shows "map_option oi_HMACSecret (buildOIDCAuth discover keys getenv) = Some (getenv ''ROLLOPS_OIDC_HS256_SECRET'')"
  using assms by (simp add: buildOIDCAuth_def Let_def)

section \<open>The hint of a webhook\<close>

definition GitHubRepoHint :: "(string \<Rightarrow> (string \<times> string \<times> string) res) \<Rightarrow> string \<Rightarrow> string" where
  "GitHubRepoHint decode body =
     (case decode body of
        Inl _ \<Rightarrow> []
      | Inr (full_name, clone_url, html_url) \<Rightarrow>
          if full_name \<noteq> [] then full_name else if clone_url \<noteq> [] then clone_url else html_url)"

section \<open>The shared listener\<close>

text \<open>
  The API, behind the check for a verified client certificate, and the console, which browsers reach without
  one. The first argument of \<open>top_serve\<close> beyond the configuration says whether the TLS stack verified a client
  certificate on the connection.
\<close>

datatype top_request = TopApi string http_call | TopUi ui_request ui_call

datatype top_fault = ApiFault fault | UiFault "nat \<times> err" | CertRequired

datatype top_body = ApiBody body | UiBody ui_body

definition top_serve ::
  "'k tls_source option \<Rightarrow> server \<Rightarrow> console \<Rightarrow> ui_gate \<Rightarrow> bool \<Rightarrow> top_request \<Rightarrow> (top_fault + top_body) prog" where
  "top_serve tls S C G verified q =
     (case q of
        TopUi rq call \<Rightarrow> do { r \<leftarrow> ui_serve C G rq call; State_Monad.return (map_sum UiFault UiBody r) }
      | TopApi hdr call \<Rightarrow>
          if \<not> requireClientCertIfConfigured tls verified then State_Monad.return (Inl CertRequired)
          else do { r \<leftarrow> authMiddleware S hdr call; State_Monad.return (map_sum ApiFault ApiBody r) })"

definition top_allowed ::
  "'k tls_source option \<Rightarrow> server \<Rightarrow> console \<Rightarrow> ui_gate \<Rightarrow> bool \<Rightarrow> top_request \<Rightarrow> world \<Rightarrow> bool" where
  "top_allowed tls S C G verified q w =
     (case q of
        TopUi rq call \<Rightarrow> ui_allowed C G rq call w
      | TopApi hdr call \<Rightarrow> (HasClientCA tls \<longrightarrow> verified) \<and> http_allowed S hdr call w)"

text \<open>The targets a refused plan has looked at; without the certificate it demands, the listener reads no request.\<close>

definition top_reads :: "'k tls_source option \<Rightarrow> server \<Rightarrow> bool \<Rightarrow> top_request \<Rightarrow> string list" where
  "top_reads tls S verified q =
     (case q of
        TopUi _ _ \<Rightarrow> []
      | TopApi hdr call \<Rightarrow> if HasClientCA tls \<and> \<not> verified then [] else http_reads S hdr call)"

lemma refused_faults:
  assumes "wp m (refused A w) w"
  shows "wp (State_Monad.bind m (\<lambda>r. State_Monad.return (map_sum f g r))) (refused A w) w"
  unfolding wp_bind wp_return by (rule wp_conseq [OF assms]) (auto simp: is_fault_def)

interpretation shared: guarded_surface "top_serve tls S C G" "top_allowed tls S C G" "top_reads tls S" for tls S C G
proof
  fix verified q w
  assume n: "\<not> top_allowed tls S C G verified q w"
  show "wp (top_serve tls S C G verified q) (refused (set (top_reads tls S verified q)) w) w"
  proof (cases q)
    case (TopApi hdr call)
    then show ?thesis
      using n rest.refuses [of S hdr call w]
      by (auto simp: top_serve_def top_allowed_def top_reads_def requireClientCertIfConfigured_def wp_return intro!: refused_faults)
  next
    case (TopUi rq call)
    then show ?thesis
      using n web.refuses [of C G rq call w] by (auto simp: top_serve_def top_allowed_def top_reads_def intro!: refused_faults)
  qed
next
  fix w' w :: world and verified q A
  assume d: "looked A w w'"
  show "top_allowed tls S C G verified q w' = top_allowed tls S C G verified q w"
    unfolding top_allowed_def using rest.allowed_tables [OF d] web.allowed_tables [OF d] by (cases q) simp_all
qed

text \<open>
  C10: the shared listener refuses. Take any run of requests to the API and the console in which every API request
  comes without a client certificate where a client CA is configured, or without a token of a caller who is granted
  everything it asks for, each document of a plan included, and every console request from a caller the gate does not
  admit or the policy does not grant. All answers are errors, no lock, not the freeze and no table but the observations
  has been touched, and of the targets at most those were looked at whose documents a plan names before the first one
  that its caller may not plan.
\<close>

theorem shared_listener_refuses:
  assumes "\<forall>(verified, q) \<in> set cs. \<not> top_allowed tls S C G verified q w" "run_state (serve_all (top_serve tls S C G) cs) w = (rs, w')"
  shows "list_all is_fault rs \<and> looked (\<Union>c \<in> set cs. set (top_reads tls S (fst c) (snd c))) w w'"
  using shared.refused_run [OF assms] .

abbreviation demo_mtls :: "string tls_source option" where
  "demo_mtls \<equiv> Some \<lparr>tc_certFile = ''c'', tc_keyFile = ''k'', tc_clientCAFile = ''ca'', tc_cached = None, tc_certMod = 0\<rparr>"

abbreviation demo_requests :: "(bool \<times> top_request) list" where
  "demo_requests \<equiv> [(False, TopApi ''Bearer t0k'' (PostFreeze (Blob (True, [])))), (False, TopUi session_request (UiFreeze (Blob (False, []))))]"

theorem shared_listener_refuses_witness:
  "list_all is_fault (fst (run_state (serve_all (top_serve demo_mtls demo_server bare_console open_gate) demo_requests) demo_world)) \<and>
   left_alone demo_world (snd (run_state (serve_all (top_serve demo_mtls demo_server bare_console open_gate) demo_requests) demo_world))"
proof -
  have "\<forall>(verified, q) \<in> set demo_requests. \<not> top_allowed demo_mtls demo_server bare_console open_gate verified q demo_world"
    by (simp add: top_allowed_def HasClientCA_def ui_allowed_def uiAuth_def basicAuth_def open_gate_def session_request_def
        bare_console_def ui_granted_def)
  from shared_listener_refuses [OF this prod.collapse [symmetric]] show ?thesis
    by (simp only: list.set(1) list.set(2)) (simp add: top_reads_def HasClientCA_def)
qed

end
