(* ===== verification/Promotion.thy ===== *)
theory Promotion
  imports Engine_Plan Validate Engine_Safety
begin

text \<open>
  Two parts that stand before a deploy: the chain of environments (\<^verbatim>\<open>internal/promote/promote.go\<close>) and the validating
  phase of the engine (\<^verbatim>\<open>Engine.Validate\<close> of \<^verbatim>\<open>internal/engine/engine.go\<close>).

  \<open>promotion_walks_the_chain\<close>: promoting step by step goes through the stages in order and ends.
  \<open>validation_sound\<close>: what a validation without an error says.
\<close>

section \<open>The chain of environments\<close>

definition Chain :: "config \<Rightarrow> string list" where
  "Chain c = map env_Name (filter env_Promote (s_Environments (c_Spec c)))"

definition IsStaged :: "config \<Rightarrow> bool" where
  "IsStaged c \<longleftrightarrow> length (Chain c) > 0"

text \<open>The loop over the chain: what follows \<open>current\<close>, if the loop meets it.\<close>

fun stage_after :: "string list \<Rightarrow> string \<Rightarrow> string option option" where
  "stage_after [] current = None"
| "stage_after (name # rest) current =
     (if name = current then Some (case rest of [] \<Rightarrow> None | n # _ \<Rightarrow> Some n) else stage_after rest current)"

definition Next :: "config \<Rightarrow> string \<Rightarrow> string option" where
  "Next c current =
     (case stage_after (Chain c) current of
        Some r \<Rightarrow> r
      | None \<Rightarrow> (case Chain c of [] \<Rightarrow> None | n # _ \<Rightarrow> Some n))"

definition Independent :: "config \<Rightarrow> string list" where
  "Independent c = map env_Name (filter (\<lambda>e. \<not> env_Promote e) (s_Environments (c_Spec c)))"

definition EffectiveStrategy :: "config \<Rightarrow> string \<Rightarrow> cfg_strategy" where
  "EffectiveStrategy c env =
     (case find (\<lambda>e. env_Name e = env \<and> env_Strategy e \<noteq> None) (s_Environments (c_Spec c)) of
        Some e \<Rightarrow> the (env_Strategy e)
      | None \<Rightarrow> s_Strategy (c_Spec c))"

text \<open>Promoting \<open>n\<close> times, from the environment \<open>current\<close>.\<close>

fun promoted_to :: "config \<Rightarrow> nat \<Rightarrow> string \<Rightarrow> string option" where
  "promoted_to c 0 current = Some current"
| "promoted_to c (Suc n) current = Option.bind (promoted_to c n current) (Next c)"

lemma stage_after_nth:
  assumes "distinct xs" "i < length xs"
  shows "stage_after xs (xs ! i) = Some (if Suc i < length xs then Some (xs ! Suc i) else None)"
  using assms
proof (induction xs arbitrary: i)
  case (Cons x xs)
  show ?case
  proof (cases i)
    case 0
    then show ?thesis by (cases xs) simp_all
  next
    case (Suc j)
    then have "xs ! j \<noteq> x" using Cons.prems by auto
    then show ?thesis using Cons Suc by simp
  qed
qed simp

lemma stage_after_None: "stage_after xs s = None \<longleftrightarrow> s \<notin> set xs"
  by (induction xs) auto

text \<open>
  With stages of distinct names, promoting from outside the chain goes through its stages in their order, one at
  a time, and there is nothing to promote to after the last one. The stages and the independent
  environments together are the declared ones.
\<close>

theorem promotion_walks_the_chain:
  assumes "distinct (Chain c)" "start \<notin> set (Chain c)" "i < length (Chain c)"
  shows "promoted_to c (Suc i) start = Some (Chain c ! i) \<and> promoted_to c (Suc (length (Chain c))) start = None \<and>
    set (Chain c) \<union> set (Independent c) = env_Name ` set (s_Environments (c_Spec c))"
proof -
  have walk: "promoted_to c (Suc j) start = Some (Chain c ! j)" if "j < length (Chain c)" for j
    using that
  proof (induction j)
    case 0
    have "stage_after (Chain c) start = None" using assms(2) stage_after_None [of "Chain c" start] by blast
    then show ?case using 0 by (cases "Chain c") (simp_all add: Next_def del: stage_after.simps)
  next
    case (Suc j)
    then have "promoted_to c (Suc j) start = Some (Chain c ! j)" by simp
    then show ?case using stage_after_nth [OF assms(1), of j] Suc.prems by (simp add: Next_def)
  qed
  obtain n where n: "length (Chain c) = Suc n" using assms(3) by (cases "length (Chain c)") auto
  have "promoted_to c (Suc (length (Chain c))) start = None"
    using walk [of n] stage_after_nth [OF assms(1), of n] n by (simp add: Next_def)
  then show ?thesis using walk [OF assms(3)] by (auto simp: Chain_def Independent_def)
qed

definition staged_config :: config where
  "staged_config = zero_config\<lparr>c_Spec := zero_spec\<lparr>s_Environments :=
     [\<lparr>env_Name = ''dev'', env_Promote = True, env_Strategy = None\<rparr>, \<lparr>env_Name = ''demo'', env_Promote = False, env_Strategy = None\<rparr>,
      \<lparr>env_Name = ''prod'', env_Promote = True, env_Strategy = None\<rparr>]\<rparr>\<rparr>"

theorem promotion_walks_the_chain_witness:
  "promoted_to staged_config (Suc 1) ''demo'' = Some (Chain staged_config ! 1) \<and> promoted_to staged_config (Suc (length (Chain staged_config))) ''demo'' = None"
proof -
  have "Chain staged_config = [''dev'', ''prod'']" by (simp add: Chain_def staged_config_def)
  then show ?thesis using promotion_walks_the_chain [of staged_config "''demo''" 1] by (auto simp del: promoted_to.simps)
qed

text \<open>
  Names are looked up in the chain from its start, and nothing requires them to be distinct: when a stage comes
  twice, promoting goes round the stages between and never reaches the ones behind.
\<close>

lemma repeated_stage_never_ends:
  assumes "Chain c = [''dev'', ''qa'', ''dev'', ''prod'']"
  shows "promoted_to c (2 * n + 1) [] = Some ''dev'' \<and> promoted_to c (2 * n + 2) [] = Some ''qa''"
  using assms by (induction n) (simp_all add: Next_def)

section \<open>Validation\<close>

record validation =
  va_Plan :: plan
  va_BlastRadius :: nat
  va_DeployOrder :: "string list list"

definition eng_Validate :: "env \<Rightarrow> loader \<Rightarrow> config \<Rightarrow> dependency list \<Rightarrow> validation res prog" where
  "eng_Validate E L c deps =
     (case Validate L c of
        Some e \<Rightarrow> State_Monad.return (Inl e)
      | None \<Rightarrow>
          (let g = New [c_Ref c] deps in
           case Layers g of
             Inl e \<Rightarrow> State_Monad.return (Inl (Wrap ''engine: validate'' e))
           | Inr order \<Rightarrow> do {
               p \<leftarrow> Plan E c;
               State_Monad.return (map_sum id (\<lambda>pl. \<lparr>va_Plan = pl, va_BlastRadius = BlastRadius g (c_Ref c), va_DeployOrder = order\<rparr>) p)
             }))"

text \<open>
  A validation. It deploys nothing and saves no rollout: the store is as before but for the observed fingerprint.
  Without an error the configuration is valid and the dependencies have no cycle; the deploy order
  names the target and every dependency once, each after what it depends on, and the blast radius is the number of
  targets that depend on this one.
\<close>

theorem validation_sound:
  assumes "run_state (eng_Validate E L c deps) w = (r, w')"
  shows "observes w w' \<and> ext {KObserve, KDiff} w w' \<and>
    (case r of
       Inl _ \<Rightarrow> True
     | Inr v \<Rightarrow> Validate L c = None \<and> acyclic ((\<lambda>d. (dep_From d, dep_To d)) ` set deps) \<and>
         distinct (concat (va_DeployOrder v)) \<and> set (concat (va_DeployOrder v)) = insert (c_Ref c) (dep_From ` set deps \<union> dep_To ` set deps) \<and>
         placed_after_prereqs (New [c_Ref c] deps) (va_DeployOrder v) \<and>
         va_BlastRadius v = card {x. (c_Ref c, x) \<in> ((\<lambda>d. (dep_From d, dep_To d)) ` set deps)\<^sup>+})"
proof -
  have kept1: "keeps observes (eng_Validate E L c deps)"
    unfolding eng_Validate_def Let_def by (intro keeps_option keeps_sum obf.keeps_bind obf.keeps_return observes_Plan)
  have kept2: "keeps (ext {KObserve, KDiff}) (eng_Validate E L c deps)"
    unfolding eng_Validate_def Let_def by (intro keeps_option keeps_sum ext.keeps_bind ext.keeps_return keeps_Plan(1)) simp
  have "observes w w'" "ext {KObserve, KDiff} w w'"
    using kept1 kept2 assms unfolding keeps_def by (metis snd_conv)+
  moreover have "case r of
       Inl _ \<Rightarrow> True
     | Inr v \<Rightarrow> Validate L c = None \<and> Layers (New [c_Ref c] deps) = Inr (va_DeployOrder v) \<and> va_BlastRadius v = BlastRadius (New [c_Ref c] deps) (c_Ref c)"
    using assms by (auto simp: eng_Validate_def Let_def run_state_simps map_sum_def split: option.splits sum.splits prod.splits)
  ultimately show ?thesis
    using assms Layers_Inr [of "[c_Ref c]" deps]
    by (auto simp: New_edges BlastRadius_counts_dependents split: sum.splits)
qed

theorem validation_sound_witness:
  "observes demo_world (snd (run_state (eng_Validate demo_env demo_loader demo_config demo_deps) demo_world)) \<and>
   ext {KObserve, KDiff} demo_world (snd (run_state (eng_Validate demo_env demo_loader demo_config demo_deps) demo_world))"
  using validation_sound [of demo_env demo_loader demo_config demo_deps demo_world, OF prod.collapse [symmetric]] by blast

end
