(* ===== verification/Spec2Isabelle.thy ===== *)
theory Spec2Isabelle
  imports Engine_Decisions Engine_Control Watch_Safety Surface_Safety SupplyChain Redact Kube_Drift Middlewares Stamped Plugin_Host Traffic Registry_Scan Git_Source Plugin_Market Clients ServerTLS Console Cli_Run Daemon_Http Promotion
begin

text \<open>
  Rollops: a verification library of the rollout engine under \<^verbatim>\<open>src/\<close>.

  \<^bold>\<open>The program.\<close> Rollops deploys declared configurations to targets (Kubernetes, SSH, FTP, plugins). A daemon
  watches git repositories and reconciles them; a REST, a gRPC and an MCP surface, a web console and a command
  line serve people and agents. All of them call one engine, which plans a change, gates it (risk, policy, governance, approval, freeze,
  artifact verification), applies it through a target, steps a canary, verifies, and rolls back; its state is
  a SQLite store. This theory imports the rest and holds no definitions of its own.

  \<^bold>\<open>Foundations.\<close>
  \<^item> \<open>Prelude\<close>: Go's errors as a datatype, results as sums, maps in lists, the \<open>strings\<close> package, JSON columns.
  \<^item> \<open>GoTime\<close>: \<open>time.ParseDuration\<close>, RFC 3339 stamps as the store writes them (with their order, an instance of
    \<open>linorder\<close>), \<open>strconv.Atoi\<close>.
  \<^item> \<open>Effects\<close>: stateful code is written in \<open>State_Monad\<close>; \<open>wp\<close> states what one call does, the locale \<open>frame\<close> what
    every call keeps (a reflexive and transitive relation between the states before and after). It is interpreted
    for the engine's world (\<open>ext\<close>, \<open>dbs\<close>, \<open>dbw\<close>, \<open>opf\<close>, \<open>obf\<close>), for the watcher (\<open>wx\<close>, \<open>wd\<close>, \<open>wo\<close>, \<open>wb\<close>, \<open>wh\<close>) and for the list
    of calls a program made to the outside (\<open>calls\<close>).

  \<^bold>\<open>Rollouts.\<close>
  \<^item> \<open>Statekit\<close>: the third-party statechart library as a record of functions with the laws of locale
    \<open>statekit_api\<close>, interpreted on a reference interpreter. \<open>Lifecycle\<close> (\<^verbatim>\<open>internal/rollout/lifecycle.go\<close>) is the phase
    machine over it and its refinement to a table; \<open>Rollout\<close> the data of \<^verbatim>\<open>model.go\<close>; \<open>Progressive\<close>
    (\<^verbatim>\<open>internal/progressive\<close>) the strategies and the canary machine.
  \<^item> \<open>Config\<close>, \<open>Validate\<close>, \<open>Repo_Config\<close>, \<open>Repo_Load\<close> (\<^verbatim>\<open>internal/config\<close>): the document, what loading accepts, rollout
    sets, cluster registries, and, in a tree of files with symbolic links, which files of a checkout are read.
  \<^item> \<open>Depgraph\<close>, \<open>Watch_Order\<close>: dependency layers, cycles and the order of a batch. \<open>Risk\<close>, \<open>Analysis\<close>, \<open>Guardrails\<close>: the
    risk score over the reals, metric analysis, freeze, floors, rate limits and the governance hook.
  \<^item> \<open>Store\<close> (\<^verbatim>\<open>internal/store\<close>): the tables as lists of rows, a rollout row column by column; the contract \<open>rollout_store\<close> interpreted on
    them. \<open>Migrate\<close>: the texts of the migrations, opening the database with them over an engine with the laws of
    \<open>schema_engine\<close>, and the readiness check. \<open>Locks\<close>:
    the contract \<open>keyed_lock\<close>, interpreted for target locks and repository locks.

  \<^bold>\<open>The engine\<close> (\<^verbatim>\<open>internal/engine\<close>). \<open>Engine_Base\<close> has the environment (\<open>env\<close>: targets, hooks, clock, store failures, all
  arbitrary functions of what happened before) and the world (store, locks, audit trail, events);
  \<open>Engine_Rollback\<close>, \<open>Engine_Gates\<close>, \<open>Engine_Stepper\<close>, \<open>Engine_Apply\<close>, \<open>Engine_Plan\<close> have the operations, one definition per
  function of the code. \<open>Engine_Frames\<close> and \<open>Engine_Canary\<close> show what each leaves alone; \<open>Engine_Safety\<close>, \<open>Engine_Control\<close> and
  \<open>Engine_Decisions\<close> hold the guarantees: approval before deploy, freeze, four eyes, one rollout in flight, locks
  released, rollback outcomes, termination of the canary loop, dry run against promote. \<open>Promotion\<close> has the validating
  phase and the chain of environments (\<^verbatim>\<open>internal/promote\<close>).

  \<^bold>\<open>The daemon.\<close> \<open>Reconcile\<close>, \<open>Watch\<close>, \<open>Streaks\<close>, \<open>ImageUpdate\<close>, \<open>ImageAuto\<close>, \<open>GitRemote\<close> (\<^verbatim>\<open>internal/reconcile\<close>, \<^verbatim>\<open>internal/imageupdate\<close>,
  \<^verbatim>\<open>internal/git\<close>): one reconcile, a tick over all repositories, failure, drift and orphan streaks, tag selection
  and image automation, webhooks. \<open>Watch_Safety\<close>: a tick keeps what the engine keeps and refuses as a batch.
  \<open>Daemon\<close> (\<^verbatim>\<open>cmd/rollopsd/main.go\<close>, \<^verbatim>\<open>internal/boot\<close>) is the start of the process: the options and the restored freeze, the
  listeners and their TLS, the policy and the tokens with their reload, the watched repositories. \<open>ServerTLS\<close>
  (\<^verbatim>\<open>internal/servertls\<close>) is the certificate source with its rotation; \<open>Daemon_Http\<close> what the shared listener serves: the probes
  (\<^verbatim>\<open>internal/procgroup/pids.go\<close>), the callers of the API, and the API and the console behind their guards, where the contract
  \<open>guarded_surface\<close> of both gives that of the listener.

  \<^bold>\<open>Clients of the outside.\<close> As for the targets below, a program over the list of its calls and a host that answers them.
  \<^item> \<open>Git_Source\<close> (\<^verbatim>\<open>internal/git\<close>): clone, pull with signature verification, commits and pushes, pull requests, tokens
    of a GitHub App. \<open>Registry_Scan\<close> (\<^verbatim>\<open>internal/imageupdate/scan.go\<close>): the bearer challenge, the redirects of the HTTP
    client, where the credential can go, paging and digests.
  \<^item> \<open>Plugin_Market\<close> (\<^verbatim>\<open>internal/registry\<close>, \<^verbatim>\<open>internal/security/blob.go\<close>, \<^verbatim>\<open>internal/cli/plugin.go\<close>): the index, and install, update,
    list and search; what was checked of a binary before it is copied into place.
  \<^item> \<open>Clients\<close> (\<^verbatim>\<open>internal/governance/http.go\<close>, \<^verbatim>\<open>internal/analysis/prometheus.go\<close>, \<^verbatim>\<open>internal/notify\<close>): the governor, which fails
    closed, the metrics provider and the channels of a notification.

  \<^bold>\<open>The surfaces and security.\<close> \<open>Rbac\<close>, \<open>Authn\<close>, \<open>Surfaces\<close>: roles and policy files, tokens, OIDC and key sets, the handlers
  of the three servers; \<open>Surface_Safety\<close> proves once, in locale \<open>guarded_surface\<close>, that a run of requests without
  a caller and all grants changes nothing but the observations of a plan that got that far, and interprets it for REST, gRPC and MCP; \<open>Console\<close> (\<^verbatim>\<open>internal/ui\<close>) for the web
  console. \<open>Cli\<close> (\<^verbatim>\<open>internal/cli/cli.go\<close>) has the commands that change state, \<^verbatim>\<open>apply --wait\<close>, and \<^verbatim>\<open>doctor\<close> with its calls to the outside,
  \<open>Cli_Run\<close> those that look, and the dispatcher. \<open>Confine\<close>: what a configured
  command may be and sees; \<open>SupplyChain\<close>: signatures, provenance and source gates; \<open>Redact\<close>: secrets and the audit log.

  \<^bold>\<open>The targets.\<close>
  \<^item> \<open>Kube_Render\<close>, \<open>Kubernetes\<close>, \<open>Kube_Safety\<close>, \<open>Kube_Drift\<close>, \<open>Middlewares\<close> (\<^verbatim>\<open>internal/target/kubernetes\<close>): every operation is a
    program over the list of its calls (kubectl, helm, file reads) and a host that answers them. The theorems say
    which calls an operation can make: the confinement of a tenant, which operations write, which paths are read.
  \<^item> \<open>Stamped\<close> (\<^verbatim>\<open>internal/target/ssh\<close>, \<^verbatim>\<open>ftp\<close>): the contract \<open>stamp_store\<close> of a file store whose writes can fail half way,
    given by a \<open>posix_shell\<close> through the SSH transport and by an \<open>ftp_server\<close> (two sublocales), and what a deploy leaves.
  \<^item> \<open>Plugin\<close>, \<open>Plugin_Host\<close> (\<^verbatim>\<open>pkg/plugin\<close>, \<^verbatim>\<open>internal/pluginhost\<close>): the protocol and its adapters, the checks before a plugin
    runs, and the policy. \<open>Traffic\<close>: the hooks of flags and traffic, and the Gateway API router.

  \<^bold>\<open>Reading the theorems.\<close> A block that starts with C and a number states a property in words. A property with
  hypotheses is followed, here or at the end of its theory, by a theorem of the same name with the suffix \<open>_witness\<close>
  that applies it to a concrete run. Parameters stand for code outside the repository (the statechart library, YAML
  and JSON codecs, cryptography, kubectl, remote machines, the clock); what is relied on of them is a hypothesis or
  the assumption of a locale.

  \<^bold>\<open>Bounds and fuel.\<close> Loops over data are structural or have a measure. The loop that drives a canary takes fuel, one turn
  for each step and two more, which \<open>drive_loop_terminates\<close> shows to be enough from any state of the stepper;
  that of \<^verbatim>\<open>apply --wait\<close> takes one turn for each ten seconds of the timeout and two more, enough by \<open>wait_returns\<close>. The listing of
  tags counts its pages, as the code does. Any other wait on a clock is one call whose answer is arbitrary. Integers are unbounded except where the code depends on their width: durations
  and \<open>Atoi\<close> are checked against 64 bits, RSA exponents are 64-bit words. Floating-point numbers are reals; the
  rounding of the risk score is a monotone function. Strings are byte lists and \<open>strings.TrimSpace\<close> trims ASCII space. Error texts are
  kept to their fixed words.

  \<^bold>\<open>Concurrency.\<close> The engine holds a lock for each target while it works, and the model runs operations one after the
  other, in any order. Data races of the watcher's maps are reported as a finding, not modelled.

  \<^bold>\<open>Not modelled.\<close> What only prints or lays out (the reports of the commands that act, \<^verbatim>\<open>plugin info\<close>, the pages and assets of the
  console, log lines, response headers), the wiring of \<^verbatim>\<open>cmd/rollops\<close>, goroutines and signals of the daemon, the gRPC
  client and generated protocol code, the counters of \<^verbatim>\<open>internal/metrics\<close>, process groups (\<^verbatim>\<open>internal/procgroup\<close>), the retry and
  circuit-breaker wrapper (\<^verbatim>\<open>internal/step\<close>: it only calls the third-party library), the types of \<^verbatim>\<open>internal/studio\<close>, and
  the conformance suite for plugin authors. In \<open>daemon_start\<close>, opening the database and the watcher enter by their errors alone.
\<close>

end
